(* ===== verification/Prelude.thy ===== *)
theory Prelude
  imports Main "HOL-Library.Multiset" "HOL-Library.AList"
begin

text \<open>
  Shared vocabulary of the development: the fact collections that component proofs use,
  the model of a Go map whose iteration order is visible (\<open>gomap\<close>, an association list in
  the order in which the runtime happens to enumerate the entries), and lemmas on lists
  that several components need.
\<close>

named_theorems go_map_simps "lookups, updates and deletes of a Go map"
named_theorems go_str_simps "facts on Go string operations"

section \<open>Lists\<close>

lemma take_Suc_rev: "i < length xs \<Longrightarrow> rev (take (Suc i) xs) = xs ! i # rev (take i xs)"
  by (simp add: take_Suc_conv_app_nth)

lemma fold_upt_Suc: "m \<le> n \<Longrightarrow> fold f [m..<Suc n] s = f n (fold f [m..<n] s)"
  by simp

lemma takeWhile_neq_split:
  assumes "x \<in> set a"
  shows "\<exists>u. a = takeWhile (\<lambda>z. z \<noteq> x) a @ x # u"
proof -
  from assms have "dropWhile (\<lambda>z. z \<noteq> x) a \<noteq> []"
    by auto
  then obtain h u where hu: "dropWhile (\<lambda>z. z \<noteq> x) a = h # u"
    by (cases "dropWhile (\<lambda>z. z \<noteq> x) a") auto
  then have "h = x"
    using hd_dropWhile[of "\<lambda>z. z \<noteq> x" a] by simp
  with hu show ?thesis
    by (metis takeWhile_dropWhile_id)
qed

lemma length_takeWhile_less:
  "x \<in> set a \<Longrightarrow> length (takeWhile (\<lambda>z. z \<noteq> x) a) < length a"
  by (induction a) auto

section \<open>Go maps as association lists\<close>

text \<open>
  A Go map is modelled by an association list with distinct keys. The list order stands
  for the order in which \<open>range\<close> enumerates the entries, which the language leaves
  unspecified and which changes from run to run: a function that is correct must give the
  same answer for every permutation of the list.
\<close>

type_synonym ('k, 'v) gomap = "('k \<times> 'v) list"

definition gomap_ok :: "('k, 'v) gomap \<Rightarrow> bool" where
  "gomap_ok m \<longleftrightarrow> distinct (map fst m)"

definition get_or :: "('k \<rightharpoonup> 'v) \<Rightarrow> 'k \<Rightarrow> 'v \<Rightarrow> 'v" where
  "get_or m k z = (case m k of None \<Rightarrow> z | Some v \<Rightarrow> v)"

lemma get_or_simps [go_map_simps, simp]:
  "m k = None \<Longrightarrow> get_or m k z = z"
  "m k = Some v \<Longrightarrow> get_or m k z = v"
  by (simp_all add: get_or_def)

lemma gomap_ok_perm: "mset m = mset m' \<Longrightarrow> gomap_ok m = gomap_ok m'"
  unfolding gomap_ok_def by (metis image_mset_cong mset_eq_imp_distinct_iff mset_map)

lemma map_of_perm:
  assumes "gomap_ok m" and "mset m = mset m'"
  shows "map_of m = map_of m'"
proof -
  from assms have "distinct (map fst m)" "distinct (map fst m')"
    using gomap_ok_perm by (auto simp: gomap_ok_def)
  moreover from assms(2) have "set m = set m'"
    by (rule mset_eq_setD)
  ultimately show ?thesis
    by (simp add: map_of_inject_set)
qed

section \<open>Choosing the best element of a list\<close>

text \<open>
  Go code picks the best of several candidates with a loop that replaces the incumbent when a
  candidate is better. The choice does not depend on the order in which the candidates
  arrive, which may be that of a map, exactly when \<open>better\<close> is a strict total order; these
  are the laws of the locale.
\<close>

definition pick_best :: "('a \<Rightarrow> 'a \<Rightarrow> bool) \<Rightarrow> 'a list \<Rightarrow> 'a" where
  "pick_best better xs = fold (\<lambda>m best. if better m best then m else best) (tl xs) (hd xs)"

locale strict_choice =
  fixes better :: "'a \<Rightarrow> 'a \<Rightarrow> bool"
  assumes better_irrefl: "\<not> better x x"
    and better_trans: "better x y \<Longrightarrow> better y z \<Longrightarrow> better x z"
    and better_total: "x \<noteq> y \<Longrightarrow> better x y \<or> better y x"
begin

lemma fold_best:
  "fold (\<lambda>m best. if better m best then m else best) xs b \<in> insert b (set xs) \<and>
   (\<forall>y\<in>insert b (set xs). \<not> better y (fold (\<lambda>m best. if better m best then m else best) xs b))"
proof (induction xs arbitrary: b)
  case (Cons x xs)
  define c where "c = (if better x b then x else b)"
  define f where "f = fold (\<lambda>m best. if better m best then m else best) xs c"
  have IH: "f \<in> insert c (set xs)" "\<forall>y\<in>insert c (set xs). \<not> better y f"
    using Cons[of c] by (simp_all add: f_def)
  have le: "\<not> better y c" if "y = b \<or> y = x" for y
    using that better_irrefl better_trans[of b x b] by (auto simp: c_def)
  have "\<not> better y f" if y: "y = b \<or> y = x" for y
  proof
    assume a: "better y f"
    have "\<not> better c f" using IH(2) by simp
    with a have "c \<noteq> y" by blast
    with better_total le[OF y] have "better c y" by blast
    with a \<open>\<not> better c f\<close> show False using better_trans by blast
  qed
  moreover have "f \<in> insert b (insert x (set xs))" using IH(1) by (auto simp: c_def split: if_splits)
  moreover have "fold (\<lambda>m best. if better m best then m else best) (x # xs) b = f"
    by (simp add: f_def c_def)
  ultimately show ?case using IH(2) by auto
qed (simp add: better_irrefl)

lemma pick_best_in: "xs \<noteq> [] \<Longrightarrow> pick_best better xs \<in> set xs"
  using fold_best[of "tl xs" "hd xs"] by (cases xs) (auto simp: pick_best_def)

lemma pick_best_least: "y \<in> set xs \<Longrightarrow> \<not> better y (pick_best better xs)"
  using fold_best[of "tl xs" "hd xs"] by (cases xs) (auto simp: pick_best_def)

lemma pick_best_unique:
  assumes "x \<in> set xs" and "\<And>y. y \<in> set xs \<Longrightarrow> \<not> better y x"
  shows "pick_best better xs = x"
proof (rule ccontr)
  assume "pick_best better xs \<noteq> x"
  with better_total pick_best_least[OF assms(1)] have "better (pick_best better xs) x" by blast
  moreover have "pick_best better xs \<in> set xs" using assms(1) by (intro pick_best_in) auto
  ultimately show False using assms(2) by blast
qed

lemma pick_best_cong: "set xs = set ys \<Longrightarrow> pick_best better xs = pick_best better ys"
proof (cases "ys = []")
  case False
  assume s: "set xs = set ys"
  show ?thesis
    by (rule pick_best_unique) (use s pick_best_in[OF False] pick_best_least in auto)
qed simp

end

lemma find_SomeD: "find P xs = Some x \<Longrightarrow> P x \<and> x \<in> set xs"
  by (auto simp: find_Some_iff)

end
