(* ===== verification/GoStrings.thy ===== *)
theory GoStrings
  imports Prelude "HOL-Library.Char_ord" "HOL-Library.List_Lexorder" "HOL-Library.Sublist"
begin

text \<open>
  Go strings and the parts of the standard library the modelled code uses. A Go string is a
  sequence of bytes: an Isabelle \<open>string\<close>, whose characters are the 256 bytes, compared
  bytewise by \<open><\<close>. A rune is a natural number. \<open>utf8_decode\<close> is the conversion \<open>[]rune(s)\<close>
  (an invalid byte gives U+FFFD and advances by one), \<open>utf8_encode\<close> is \<open>string(rs)\<close>.
  Searching functions return \<open>None\<close> where Go returns -1.
  \<open>unicode_ToLower\<close> holds the simple lower-case mappings of every block that has any.
\<close>

type_synonym rune = nat

abbreviation byte :: "char \<Rightarrow> nat" where
  "byte c \<equiv> of_char c"

section \<open>UTF-8\<close>

text \<open>The range of the first continuation byte that each lead byte accepts.\<close>

definition cont :: "nat \<Rightarrow> bool" where
  "cont b \<longleftrightarrow> 128 \<le> b \<and> b < 192"

fun decode_multi :: "nat \<Rightarrow> string \<Rightarrow> (rune \<times> nat) option" where
  "decode_multi b s =
     (if 194 \<le> b \<and> b < 224 then
        (case s of c1 # _ \<Rightarrow>
           (if cont (byte c1) then Some ((b - 192) * 64 + (byte c1 - 128), 1) else None)
         | _ \<Rightarrow> None)
      else if 224 \<le> b \<and> b < 240 then
        (case s of c1 # c2 # _ \<Rightarrow>
           (if (if b = 224 then 160 else 128) \<le> byte c1 \<and> byte c1 < (if b = 237 then 160 else 192) \<and> cont (byte c2)
            then Some ((b - 224) * 4096 + (byte c1 - 128) * 64 + (byte c2 - 128), 2) else None)
         | _ \<Rightarrow> None)
      else if 240 \<le> b \<and> b < 245 then
        (case s of c1 # c2 # c3 # _ \<Rightarrow>
           (if (if b = 240 then 144 else 128) \<le> byte c1 \<and> byte c1 < (if b = 244 then 144 else 192)
               \<and> cont (byte c2) \<and> cont (byte c3)
            then Some ((b - 240) * 262144 + (byte c1 - 128) * 4096 + (byte c2 - 128) * 64 + (byte c3 - 128), 3)
            else None)
         | _ \<Rightarrow> None)
      else None)"

declare decode_multi.simps [simp del]

function utf8_decode :: "string \<Rightarrow> rune list" where
  "utf8_decode [] = []"
| "utf8_decode (c # s) =
     (if byte c < 128 then byte c # utf8_decode s
      else case decode_multi (byte c) s of
             None \<Rightarrow> 65533 # utf8_decode s
           | Some (r, k) \<Rightarrow> r # utf8_decode (drop k s))"
  by pat_completeness auto
termination
  by (relation "measure length") auto

definition valid_rune :: "rune \<Rightarrow> bool" where
  "valid_rune r \<longleftrightarrow> r < 55296 \<or> (57344 \<le> r \<and> r < 1114112)"

definition encode_rune :: "rune \<Rightarrow> string" where
  "encode_rune r0 =
     (let r = (if valid_rune r0 then r0 else 65533) in
      if r < 128 then [char_of r]
      else if r < 2048 then [char_of (192 + r div 64), char_of (128 + r mod 64)]
      else if r < 65536 then
        [char_of (224 + r div 4096), char_of (128 + r div 64 mod 64), char_of (128 + r mod 64)]
      else
        [char_of (240 + r div 262144), char_of (128 + r div 4096 mod 64),
         char_of (128 + r div 64 mod 64), char_of (128 + r mod 64)])"

definition utf8_encode :: "rune list \<Rightarrow> string" where
  "utf8_encode rs = concat (map encode_rune rs)"

lemma byte_char_of [simp]: "n < 256 \<Longrightarrow> byte (char_of n) = n"
  by (simp add: of_char_of)

lemma utf8_encode_simps [simp]:
  "utf8_encode [] = []"
  "utf8_encode (r # rs) = encode_rune r @ utf8_encode rs"
  "utf8_encode (rs @ ss) = utf8_encode rs @ utf8_encode ss"
  by (simp_all add: utf8_encode_def)

lemma mod64_less [simp]: "(128::nat) + n mod 64 < 256" "128 + n mod 64 < (192::nat)"
  using mod_less_divisor[of 64 n] by linarith+

lemma decode_encode_rune:
  assumes "valid_rune r"
  shows "utf8_decode (encode_rune r @ s) = r # utf8_decode s"
proof -
  have div4096: "r div 4096 = r div 64 div 64" and div262144: "r div 262144 = r div 4096 div 64"
    using div_mult2_eq[of r 64 64] div_mult2_eq[of r 4096 64] by simp_all
  consider "r < 128" | "128 \<le> r" "r < 2048" | "2048 \<le> r" "r < 65536" | "65536 \<le> r"
    by linarith
  then show ?thesis
  proof cases
    case 1
    with assms show ?thesis by (simp add: encode_rune_def)
  next
    case 2
    then have "192 + r div 64 < 224" "194 \<le> 192 + r div 64" by (auto simp: less_eq_div_iff_mult_less_eq div_less_iff_less_mult)
    with 2 assms show ?thesis
      by (simp add: encode_rune_def decode_multi.simps cont_def)
  next
    case 3
    then have b: "224 + r div 4096 < 240" by (simp add: div_less_iff_less_mult)
    have q: "r = r div 4096 * 4096 + r div 64 mod 64 * 64 + r mod 64"
      using div_mult_mod_eq[of r 64] div_mult_mod_eq[of "r div 64" 64] div4096 by linarith
    have lo: "r div 4096 = 0 \<Longrightarrow> 32 \<le> r div 64 mod 64"
      using q 3 mod_less_divisor[of 64 r] by linarith
    have hi: "r div 4096 = 13 \<Longrightarrow> r div 64 mod 64 < 32"
      using q 3 assms by (auto simp: valid_rune_def)
    show ?thesis
      using b lo hi q 3 assms
      by (auto simp: encode_rune_def decode_multi.simps cont_def)
  next
    case 4
    then have u: "r < 1114112" using assms by (simp add: valid_rune_def)
    then have b: "240 + r div 262144 < 245" by (simp add: div_less_iff_less_mult)
    have q: "r = r div 262144 * 262144 + r div 4096 mod 64 * 4096 + r div 64 mod 64 * 64 + r mod 64"
      using div_mult_mod_eq[of r 64] div_mult_mod_eq[of "r div 64" 64] div_mult_mod_eq[of "r div 4096" 64]
        div4096 div262144 by linarith
    have lo: "r div 262144 = 0 \<Longrightarrow> 16 \<le> r div 4096 mod 64"
      using q 4 mod_less_divisor[of 64 r] mod_less_divisor[of 64 "r div 64"] by linarith
    have hi: "r div 262144 = 4 \<Longrightarrow> r div 4096 mod 64 < 16"
      using q u by linarith
    show ?thesis
      using b lo hi q 4 assms
      by (auto simp: encode_rune_def decode_multi.simps cont_def)
  qed
qed

lemma utf8_decode_encode: "list_all valid_rune rs \<Longrightarrow> utf8_decode (utf8_encode rs) = rs"
  by (induction rs) (auto simp: decode_encode_rune)


section \<open>Case\<close>

definition is_ascii :: "string \<Rightarrow> bool" where
  "is_ascii s \<longleftrightarrow> list_all (\<lambda>c. byte c < 128) s"

definition byte_lower :: "char \<Rightarrow> char" where
  "byte_lower c = (if 65 \<le> byte c \<and> byte c \<le> 90 then char_of (byte c + 32) else c)"

text \<open>
  The simple lower-case mappings of \<open>unicode.ToLower\<close>, as ranges \<open>(first, last, step, image of
  first)\<close>: a rune at a multiple of \<open>step\<close> from \<open>first\<close> moves with the range.
\<close>

definition lower_table :: "(rune \<times> rune \<times> nat \<times> rune) list" where
  "lower_table =
    [
     (65, 90, 1, 97), (192, 214, 1, 224), (216, 222, 1, 248), (256, 302, 2, 257), (304, 304, 1, 105),
     (306, 310, 2, 307), (313, 327, 2, 314), (330, 374, 2, 331), (376, 376, 1, 255), (377, 381, 2, 378),
     (385, 385, 1, 595), (386, 388, 2, 387), (390, 390, 1, 596), (391, 391, 1, 392), (393, 394, 1, 598),
     (395, 395, 1, 396), (398, 398, 1, 477), (399, 399, 1, 601), (400, 400, 1, 603), (401, 401, 1, 402),
     (403, 403, 1, 608), (404, 404, 1, 611), (406, 406, 1, 617), (407, 407, 1, 616), (408, 408, 1, 409),
     (412, 412, 1, 623), (413, 413, 1, 626), (415, 415, 1, 629), (416, 420, 2, 417), (422, 422, 1, 640),
     (423, 423, 1, 424), (425, 425, 1, 643), (428, 428, 1, 429), (430, 430, 1, 648), (431, 431, 1, 432),
     (433, 434, 1, 650), (435, 437, 2, 436), (439, 439, 1, 658), (440, 440, 1, 441), (444, 444, 1, 445),
     (452, 452, 1, 454), (453, 453, 1, 454), (455, 455, 1, 457), (456, 456, 1, 457), (458, 458, 1, 460),
     (459, 475, 2, 460), (478, 494, 2, 479), (497, 497, 1, 499), (498, 500, 2, 499), (502, 502, 1, 405),
     (503, 503, 1, 447), (504, 542, 2, 505), (544, 544, 1, 414), (546, 562, 2, 547), (570, 570, 1, 11365),
     (571, 571, 1, 572), (573, 573, 1, 410), (574, 574, 1, 11366), (577, 577, 1, 578), (579, 579, 1, 384),
     (580, 580, 1, 649), (581, 581, 1, 652), (582, 590, 2, 583), (880, 882, 2, 881), (886, 886, 1, 887),
     (895, 895, 1, 1011), (902, 902, 1, 940), (904, 906, 1, 941), (908, 908, 1, 972), (910, 911, 1, 973),
     (913, 929, 1, 945), (931, 939, 1, 963), (975, 975, 1, 983), (984, 1006, 2, 985), (1012, 1012, 1, 952),
     (1015, 1015, 1, 1016), (1017, 1017, 1, 1010), (1018, 1018, 1, 1019), (1021, 1023, 1, 891),
     (1024, 1039, 1, 1104), (1040, 1071, 1, 1072), (1120, 1152, 2, 1121), (1162, 1214, 2, 1163),
     (1216, 1216, 1, 1231), (1217, 1229, 2, 1218), (1232, 1326, 2, 1233), (1329, 1366, 1, 1377),
     (4256, 4293, 1, 11520), (4295, 4295, 1, 11559), (4301, 4301, 1, 11565), (5024, 5103, 1, 43888),
     (5104, 5109, 1, 5112), (7312, 7354, 1, 4304), (7357, 7359, 1, 4349), (7680, 7828, 2, 7681),
     (7838, 7838, 1, 223), (7840, 7934, 2, 7841), (7944, 7951, 1, 7936), (7960, 7965, 1, 7952),
     (7976, 7983, 1, 7968), (7992, 7999, 1, 7984), (8008, 8013, 1, 8000), (8025, 8031, 2, 8017),
     (8040, 8047, 1, 8032), (8072, 8079, 1, 8064), (8088, 8095, 1, 8080), (8104, 8111, 1, 8096),
     (8120, 8121, 1, 8112), (8122, 8123, 1, 8048), (8124, 8124, 1, 8115), (8136, 8139, 1, 8050),
     (8140, 8140, 1, 8131), (8152, 8153, 1, 8144), (8154, 8155, 1, 8054), (8168, 8169, 1, 8160),
     (8170, 8171, 1, 8058), (8172, 8172, 1, 8165), (8184, 8185, 1, 8056), (8186, 8187, 1, 8060),
     (8188, 8188, 1, 8179), (8486, 8486, 1, 969), (8490, 8490, 1, 107), (8491, 8491, 1, 229),
     (8498, 8498, 1, 8526), (8544, 8559, 1, 8560), (8579, 8579, 1, 8580), (9398, 9423, 1, 9424),
     (11264, 11311, 1, 11312), (11360, 11360, 1, 11361), (11362, 11362, 1, 619), (11363, 11363, 1, 7549),
     (11364, 11364, 1, 637), (11367, 11371, 2, 11368), (11373, 11373, 1, 593), (11374, 11374, 1, 625),
     (11375, 11375, 1, 592), (11376, 11376, 1, 594), (11378, 11378, 1, 11379), (11381, 11381, 1, 11382),
     (11390, 11391, 1, 575), (11392, 11490, 2, 11393), (11499, 11501, 2, 11500), (11506, 11506, 1, 11507),
     (42560, 42604, 2, 42561), (42624, 42650, 2, 42625), (42786, 42798, 2, 42787), (42802, 42862, 2, 42803),
     (42873, 42875, 2, 42874), (42877, 42877, 1, 7545), (42878, 42886, 2, 42879), (42891, 42891, 1, 42892),
     (42893, 42893, 1, 613), (42896, 42898, 2, 42897), (42902, 42920, 2, 42903), (42922, 42922, 1, 614),
     (42923, 42923, 1, 604), (42924, 42924, 1, 609), (42925, 42925, 1, 620), (42926, 42926, 1, 618),
     (42928, 42928, 1, 670), (42929, 42929, 1, 647), (42930, 42930, 1, 669), (42931, 42931, 1, 43859),
     (42932, 42946, 2, 42933), (42948, 42948, 1, 42900), (42949, 42949, 1, 642), (42950, 42950, 1, 7566),
     (42951, 42953, 2, 42952), (42960, 42960, 1, 42961), (42966, 42968, 2, 42967), (42997, 42997, 1, 42998),
     (65313, 65338, 1, 65345), (66560, 66599, 1, 66600), (66736, 66771, 1, 66776), (66928, 66964, 2, 66967),
     (66929, 66938, 1, 66968), (66941, 66954, 1, 66980), (66957, 66962, 1, 66996), (66965, 66965, 1, 67004),
     (68736, 68786, 1, 68800), (71840, 71871, 1, 71872), (93760, 93791, 1, 93792), (125184, 125217, 1, 125218)]"

definition in_range :: "rune \<Rightarrow> rune \<times> rune \<times> nat \<times> rune \<Rightarrow> bool" where
  "in_range r = (\<lambda>(lo, hi, st, t). lo \<le> r \<and> r \<le> hi \<and> (r - lo) mod st = 0)"

definition unicode_ToLower :: "rune \<Rightarrow> rune" where
  "unicode_ToLower r =
     (case find (in_range r) lower_table of
        None \<Rightarrow> r
      | Some (lo, hi, st, t) \<Rightarrow> t + (r - lo))"

text \<open>\<open>strings.ToLower\<close>: a bytewise path for ASCII, otherwise rune by rune.\<close>

definition ToLower :: "string \<Rightarrow> string" where
  "ToLower s = (if is_ascii s then map byte_lower s
                else utf8_encode (map unicode_ToLower (utf8_decode s)))"

lemma byte_less_256 [simp]: "byte c < (256::nat)"
  by (metis of_char_mod_256 mod_less_divisor zero_less_numeral)

text \<open>
  No image of a range lies in the domain of a range. A sweep over the table decides it: the runes of
  one parity lie in spans, and two lists of spans, sorted by their first rune, are walked together.
\<close>

definition range_valid :: "rune \<times> rune \<times> nat \<times> rune \<Rightarrow> bool" where
  "range_valid = (\<lambda>(lo, hi, st, t). lo \<le> hi \<and>
     (t + (hi - lo) < 55296 \<or> (57344 \<le> t \<and> t + (hi - lo) < 1114112)))"

definition span :: "nat \<Rightarrow> nat \<Rightarrow> nat \<Rightarrow> nat \<Rightarrow> (nat \<times> nat) list" where
  "span p a b st = (if (st = 2 \<or> a = b) \<and> a mod 2 \<noteq> p then [] else [(a, b)])"

definition domain_spans :: "nat \<Rightarrow> (nat \<times> nat) list" where
  "domain_spans p = sort_key fst (concat (map (\<lambda>(lo, hi, st, t). span p lo hi st) lower_table))"

definition image_spans :: "nat \<Rightarrow> (nat \<times> nat) list" where
  "image_spans p = sort_key fst (concat (map (\<lambda>(lo, hi, st, t). span p t (t + (hi - lo)) st) lower_table))"

fun sweep :: "(nat \<times> nat) list \<Rightarrow> (nat \<times> nat) list \<Rightarrow> bool" where
  "sweep [] D = True"
| "sweep I [] = True"
| "sweep ((a, b) # I) ((c, d) # D) =
     (if b < c then sweep I ((c, d) # D) else if d < a then sweep ((a, b) # I) D else False)"

lemma sweep_apart:
  assumes "sweep I D" "sorted (map fst I)" "sorted (map fst D)" "(a, b) \<in> set I" "(c, d) \<in> set D"
  shows "b < c \<or> d < a"
  using assms by (induction I D rule: sweep.induct) (fastforce split: if_splits)+

lemma in_span: "a \<le> x \<Longrightarrow> x \<le> b \<Longrightarrow> (x - a) mod st = 0 \<Longrightarrow> (a, b) \<in> set (span (x mod 2) a b st)"
  by (auto simp: span_def) presburger+

lemma lower_table_valid: "list_all range_valid lower_table"
  by (simp add: lower_table_def range_valid_def)

lemma lower_table_sweep_even: "sweep (image_spans 0) (domain_spans 0)"
  by (simp add: image_spans_def domain_spans_def lower_table_def span_def)

lemma lower_table_sweep_odd: "sweep (image_spans 1) (domain_spans 1)"
  by (simp add: image_spans_def domain_spans_def lower_table_def span_def)

lemma find_in_range:
  assumes "find (in_range r) lower_table = Some (lo, hi, st, t)"
  shows "in_range r (lo, hi, st, t) \<and> (lo, hi, st, t) \<in> set lower_table"
  using assms by (auto simp: find_Some_iff)

lemma image_not_in_domain:
  assumes "(lo, hi, st, t) \<in> set lower_table" "in_range r (lo, hi, st, t)" "e \<in> set lower_table"
  shows "\<not> in_range (t + (r - lo)) e"
proof
  let ?x = "t + (r - lo)"
  assume i: "in_range ?x e"
  obtain c d st' t' where e: "e = (c, d, st', t')" by (cases e)
  have "(t, t + (hi - lo)) \<in> set (span (?x mod 2) t (t + (hi - lo)) st)"
    using assms(2) by (intro in_span) (auto simp: in_range_def)
  then have I: "(t, t + (hi - lo)) \<in> set (image_spans (?x mod 2))"
    using assms(1) by (force simp: image_spans_def)
  have "(c, d) \<in> set (span (?x mod 2) c d st')"
    using i by (intro in_span) (auto simp: in_range_def e)
  then have D: "(c, d) \<in> set (domain_spans (?x mod 2))"
    using assms(3) by (force simp: domain_spans_def e)
  have "sweep (image_spans (?x mod 2)) (domain_spans (?x mod 2))"
    using lower_table_sweep_even lower_table_sweep_odd by (cases "even ?x") (simp_all add: even_iff_mod_2_eq_zero odd_iff_mod_2_eq_one)
  then have "t + (hi - lo) < c \<or> d < t"
    by (rule sweep_apart[OF _ _ _ I D]) (simp_all add: image_spans_def domain_spans_def)
  with assms(2) i show False by (auto simp: in_range_def e)
qed

lemma unicode_ToLower_idem [simp]: "unicode_ToLower (unicode_ToLower r) = unicode_ToLower r"
proof (cases "find (in_range r) lower_table")
  case (Some e)
  obtain lo hi st t where e: "e = (lo, hi, st, t)" by (cases e)
  note f = find_in_range[OF Some[unfolded e]]
  have "\<forall>e'\<in>set lower_table. \<not> in_range (t + (r - lo)) e'"
    using image_not_in_domain[OF conjunct2[OF f] conjunct1[OF f]] by blast
  then have "find (in_range (t + (r - lo))) lower_table = None"
    unfolding find_None_iff by blast
  with Some show ?thesis by (simp add: unicode_ToLower_def e)
qed (simp add: unicode_ToLower_def)

lemma unicode_ToLower_valid: "valid_rune r \<Longrightarrow> valid_rune (unicode_ToLower r)"
proof (cases "find (in_range r) lower_table")
  case (Some e)
  obtain lo hi st t where e: "e = (lo, hi, st, t)" by (cases e)
  note f = find_in_range[OF Some[unfolded e]]
  have "range_valid (lo, hi, st, t)" "in_range r (lo, hi, st, t)"
    using f lower_table_valid unfolding list_all_iff by blast+
  with Some show ?thesis
    by (auto simp: unicode_ToLower_def e range_valid_def in_range_def valid_rune_def)
qed (simp add: unicode_ToLower_def)

lemma unicode_ToLower_ascii:
  assumes "r < 128"
  shows "unicode_ToLower r = (if 65 \<le> r \<and> r \<le> 90 then r + 32 else r)"
  using assms by (simp add: unicode_ToLower_def lower_table_def in_range_def)

lemma decode_multi_valid: "decode_multi b s = Some (r, k) \<Longrightarrow> valid_rune r"
proof -
  assume d: "decode_multi b s = Some (r, k)"
  have "b < 240 \<or> b = 240 \<or> b = 241 \<or> b = 242 \<or> b = 243 \<or> b = 244 \<or> 245 \<le> b" by linarith
  then show ?thesis
    by (elim disjE; use d in \<open>auto simp: decode_multi.simps cont_def valid_rune_def
          split: if_splits list.splits\<close>)
qed

lemma utf8_decode_valid: "list_all valid_rune (utf8_decode s)"
proof (induction s rule: utf8_decode.induct)
  case (2 c s)
  then show ?case
    by (auto simp: valid_rune_def[of 65533] valid_rune_def[of "byte c"] dest: decode_multi_valid
        split: option.splits)
qed simp

lemma utf8_decode_encode_map:
  "(\<And>r. valid_rune r \<Longrightarrow> valid_rune (f r)) \<Longrightarrow>
   utf8_decode (utf8_encode (map f (utf8_decode s))) = map f (utf8_decode s)"
  using utf8_decode_valid[of s] by (intro utf8_decode_encode) (auto simp: list_all_iff)

lemma ascii_lower_rune:
  "byte c < 128 \<Longrightarrow> encode_rune (unicode_ToLower (byte c)) = [byte_lower c]"
  by (auto simp: encode_rune_def unicode_ToLower_ascii byte_lower_def valid_rune_def)

lemma utf8_decode_ascii: "is_ascii s \<Longrightarrow> utf8_decode s = map byte s"
  by (induction s) (auto simp: is_ascii_def)

lemma utf8_encode_ascii: "is_ascii s \<Longrightarrow> utf8_encode (map byte s) = s"
  by (induction s) (auto simp: is_ascii_def encode_rune_def valid_rune_def)

lemma ToLower_runes: "ToLower s = utf8_encode (map unicode_ToLower (utf8_decode s))"
proof (cases "is_ascii s")
  case True
  then have "utf8_encode (map unicode_ToLower (map byte s)) = map byte_lower s"
    by (induction s) (auto simp: is_ascii_def ascii_lower_rune)
  with True show ?thesis by (simp add: ToLower_def utf8_decode_ascii)
qed (simp add: ToLower_def)

lemma ToLower_idem [simp]: "ToLower (ToLower s) = ToLower s"
  by (simp add: ToLower_runes utf8_decode_encode_map unicode_ToLower_valid o_def)

lemma ToLower_ascii: "is_ascii s \<Longrightarrow> ToLower s = map byte_lower s"
  by (simp add: ToLower_def)

lemma ToLower_Nil [simp]: "ToLower [] = []"
  by (simp add: ToLower_def is_ascii_def)

section \<open>Searching\<close>

definition HasPrefix :: "string \<Rightarrow> string \<Rightarrow> bool" where
  "HasPrefix s p \<longleftrightarrow> take (length p) s = p"

definition HasSuffix :: "string \<Rightarrow> string \<Rightarrow> bool" where
  "HasSuffix s p \<longleftrightarrow> length p \<le> length s \<and> drop (length s - length p) s = p"

definition TrimPrefix :: "string \<Rightarrow> string \<Rightarrow> string" where
  "TrimPrefix s p = (if HasPrefix s p then drop (length p) s else s)"

definition TrimSuffix :: "string \<Rightarrow> string \<Rightarrow> string" where
  "TrimSuffix s u = (if HasSuffix s u then take (length s - length u) s else s)"

fun str_Index :: "string \<Rightarrow> string \<Rightarrow> nat option" where
  "str_Index s p =
     (if HasPrefix s p then Some 0
      else case s of [] \<Rightarrow> None | _ # s' \<Rightarrow> map_option Suc (str_Index s' p))"

declare str_Index.simps [simp del]

fun str_LastIndex :: "string \<Rightarrow> string \<Rightarrow> nat option" where
  "str_LastIndex [] p = (if p = [] then Some 0 else None)"
| "str_LastIndex (c # s) p =
     (case str_LastIndex s p of
        Some i \<Rightarrow> Some (Suc i)
      | None \<Rightarrow> if HasPrefix (c # s) p then Some 0 else None)"

definition Contains :: "string \<Rightarrow> string \<Rightarrow> bool" where
  "Contains s p \<longleftrightarrow> str_Index s p \<noteq> None"

lemma HasPrefix_iff: "HasPrefix s p \<longleftrightarrow> (\<exists>t. s = p @ t)"
  unfolding HasPrefix_def by (metis append_eq_conv_conj append_take_drop_id)

lemma str_Index_SomeD:
  "str_Index s p = Some i \<Longrightarrow>
   i + length p \<le> length s \<and> take (length p) (drop i s) = p \<and>
   (\<forall>k<i. take (length p) (drop k s) \<noteq> p)"
proof (induction s arbitrary: i)
  case Nil
  then show ?case by (subst (asm) str_Index.simps) (auto simp: HasPrefix_def split: if_splits)
next
  case (Cons c s)
  show ?case
  proof (cases "HasPrefix (c # s) p")
    case True
    with Cons.prems have "i = 0" by (subst (asm) str_Index.simps) simp
    moreover from True obtain t where "c # s = p @ t" by (auto simp: HasPrefix_iff)
    ultimately show ?thesis by simp
  next
    case False
    with Cons.prems obtain k where k: "str_Index s p = Some k" "i = Suc k"
      by (subst (asm) str_Index.simps) auto
    with Cons.IH[OF k(1)] False show ?thesis
      by (auto simp: HasPrefix_def less_Suc_eq_0_disj)
  qed
qed

lemma str_Index_None:
  "str_Index s p = None \<longleftrightarrow> (\<forall>k. k + length p \<le> length s \<longrightarrow> take (length p) (drop k s) \<noteq> p)"
proof (induction s)
  case Nil
  then show ?case by (subst str_Index.simps) (auto simp: HasPrefix_def)
next
  case (Cons c s)
  have "str_Index (c # s) p = None \<longleftrightarrow> \<not> HasPrefix (c # s) p \<and> str_Index s p = None"
    by (subst str_Index.simps) simp
  also have "\<dots> \<longleftrightarrow> (\<forall>k. k + length p \<le> length (c # s) \<longrightarrow> take (length p) (drop k (c # s)) \<noteq> p)"
    unfolding Cons.IH HasPrefix_def
  proof (intro iffI conjI allI impI)
    fix k
    assume a: "take (length p) (c # s) \<noteq> p \<and>
        (\<forall>k. k + length p \<le> length s \<longrightarrow> take (length p) (drop k s) \<noteq> p)"
      "k + length p \<le> length (c # s)"
    then show "take (length p) (drop k (c # s)) \<noteq> p" by (cases k) auto
  next
    assume a: "\<forall>k. k + length p \<le> length (c # s) \<longrightarrow> take (length p) (drop k (c # s)) \<noteq> p"
    show "take (length p) (c # s) \<noteq> p"
    proof (cases "length p \<le> length (c # s)")
      case True
      with a[rule_format, of 0] show ?thesis by simp
    next
      case False
      then show ?thesis by (metis length_take min.cobounded2 min_def nat_le_linear)
    qed
    fix k
    assume "k + length p \<le> length s"
    with a[rule_format, of "Suc k"] show "take (length p) (drop k s) \<noteq> p" by simp
  qed
  finally show ?case .
qed

text \<open>\<open>strings.Split\<close> on one byte, \<open>strings.ReplaceAll\<close> of one byte by one byte, \<open>strings.Join\<close>.\<close>

fun split_byte :: "char \<Rightarrow> string \<Rightarrow> string list" where
  "split_byte d [] = [[]]"
| "split_byte d (c # s) =
     (if c = d then [] # split_byte d s
      else case split_byte d s of [] \<Rightarrow> [[c]] | t # ts \<Rightarrow> (c # t) # ts)"

fun join_with :: "string \<Rightarrow> string list \<Rightarrow> string" where
  "join_with d [] = []"
| "join_with d [t] = t"
| "join_with d (t # ts) = t @ d @ join_with d ts"

definition replace_byte :: "char \<Rightarrow> char \<Rightarrow> string \<Rightarrow> string" where
  "replace_byte a b s = map (\<lambda>c. if c = a then b else c) s"

text \<open>\<open>strings.TrimSpace\<close>: the encodings of the white-space runes are stripped at both ends.\<close>

definition space_runes :: "rune list" where
  "space_runes =
     [9, 10, 11, 12, 13, 32, 133, 160, 5760] @ [8192..<8203] @ [8232, 8233, 8239, 8287, 12288]"

definition space_seqs :: "string list" where
  "space_seqs = map encode_rune space_runes"

lemma encode_rune_not_Nil [simp]: "encode_rune r \<noteq> []"
  by (simp add: encode_rune_def Let_def)

lemma space_seqs_not_Nil: "find P space_seqs = Some u \<Longrightarrow> u \<noteq> []"
proof -
  assume "find P space_seqs = Some u"
  then have "u \<in> set space_seqs" by (metis find_Some_iff nth_mem)
  then show ?thesis unfolding space_seqs_def set_map by (auto dest: sym)
qed

function trim_left :: "string \<Rightarrow> string" where
  "trim_left s =
     (if s = [] then []
      else case find (HasPrefix s) space_seqs of None \<Rightarrow> s | Some u \<Rightarrow> trim_left (drop (length u) s))"
  by pat_completeness auto
termination
  by (relation "measure length") (auto dest: space_seqs_not_Nil)

function trim_right :: "string \<Rightarrow> string" where
  "trim_right s =
     (if s = [] then []
      else case find (HasSuffix s) space_seqs of
             None \<Rightarrow> s | Some u \<Rightarrow> trim_right (take (length s - length u) s))"
  by pat_completeness auto
termination
  by (relation "measure length") (auto dest: space_seqs_not_Nil)

declare trim_left.simps [simp del] trim_right.simps [simp del]

definition TrimSpace :: "string \<Rightarrow> string" where
  "TrimSpace s = trim_right (trim_left s)"

text \<open>A string of visible ASCII bytes has nothing to trim.\<close>

definition visible :: "string \<Rightarrow> bool" where
  "visible s \<longleftrightarrow> list_all (\<lambda>c. 32 < byte c \<and> byte c < 128) s"

lemma space_seq_ends:
  assumes "u \<in> set space_seqs"
  shows "\<not> (32 < byte (hd u) \<and> byte (hd u) < 128) \<and> \<not> (32 < byte (last u) \<and> byte (last u) < 128)"
proof -
  from assms obtain r where u: "u = encode_rune r" and r: "r \<in> set space_runes" by (auto simp: space_seqs_def)
  have small: "r < 12289" "r \<le> 32 \<or> 128 \<le> r" using r by (auto simp: space_runes_def)
  then have v: "valid_rune r" by (simp add: valid_rune_def)
  have "192 + r div 64 < 256" if "r < 2048" using that by (simp add: div_less_iff_less_mult)
  moreover have "224 + r div 4096 < 256" using small(1) by (simp add: div_less_iff_less_mult)
  ultimately show ?thesis using small v by (auto simp: u encode_rune_def Let_def)
qed

lemma TrimSpace_visible:
  assumes "visible s"
  shows "TrimSpace s = s"
proof (cases s)
  case (Cons c t)
  have ends: "32 < byte (hd s) \<and> byte (hd s) < 128" "32 < byte (last s) \<and> byte (last s) < 128"
    using assms Cons by (auto simp: visible_def list_all_iff)
  have "\<not> HasPrefix s u" if u: "u \<in> set space_seqs" for u
  proof
    assume "HasPrefix s u"
    moreover have "u \<noteq> []" using u by (auto simp: space_seqs_def)
    ultimately have "hd u = hd s" by (auto simp: HasPrefix_def Cons neq_Nil_conv)
    with ends(1) space_seq_ends[OF u] show False by simp
  qed
  then have "find (HasPrefix s) space_seqs = None" by (simp add: find_None_iff)
  then have l: "trim_left s = s" by (simp add: trim_left.simps[of s])
  have "\<not> HasSuffix s u" if u: "u \<in> set space_seqs" for u
  proof
    assume "HasSuffix s u"
    moreover have "u \<noteq> []" using u by (auto simp: space_seqs_def)
    ultimately have "last u = last s"
      using last_drop[of "length s - length u" s] by (cases u) (auto simp: HasSuffix_def)
    with ends(2) space_seq_ends[OF u] show False by simp
  qed
  then have "find (HasSuffix s) space_seqs = None" by (simp add: find_None_iff)
  then have "trim_right s = s" by (simp add: trim_right.simps[of s])
  with l show ?thesis by (simp add: TrimSpace_def)
qed (simp add: TrimSpace_def trim_left.simps trim_right.simps)

definition index_byte :: "string \<Rightarrow> char \<Rightarrow> nat option" where
  "index_byte s c = (let n = length (takeWhile (\<lambda>x. x \<noteq> c) s) in if n < length s then Some n else None)"

lemma split_byte_not_Nil [simp]: "split_byte d s \<noteq> []"
  by (cases s) (auto split: list.splits)

lemma join_split_byte: "join_with [d] (split_byte d s) = s"
proof (induction s)
  case (Cons c s)
  obtain t ts where "split_byte d s = t # ts" by (cases "split_byte d s") auto
  with Cons show ?case by (cases ts) auto
qed simp

lemma split_byte_no_sep: "t \<in> set (split_byte d s) \<Longrightarrow> d \<notin> set t"
proof (induction s arbitrary: t)
  case (Cons c s)
  obtain u us where "split_byte d s = u # us" by (cases "split_byte d s") auto
  with Cons show ?case by (auto split: if_splits)
qed simp

lemma split_byte_id: "d \<notin> set s \<Longrightarrow> split_byte d s = [s]"
  by (induction s) auto

lemma split_byte_append:
  "split_byte d (s @ d # t) = split_byte d s @ split_byte d t"
proof (induction s)
  case (Cons c s)
  obtain u us where "split_byte d s = u # us" by (cases "split_byte d s") auto
  with Cons show ?case by auto
qed simp

lemma index_byte_Some:
  assumes "index_byte s c = Some n"
  shows "n < length s \<and> s ! n = c \<and> c \<notin> set (take n s)"
proof -
  let ?t = "takeWhile (\<lambda>x. x \<noteq> c) s"
  from assms have n: "n = length ?t" "length ?t < length s"
    by (simp_all add: index_byte_def Let_def split: if_splits)
  have "take (length ?t) s = ?t"
    using takeWhile_eq_take[of "\<lambda>x. x \<noteq> c" s] by simp
  moreover have "c \<notin> set ?t"
    using set_takeWhileD by fastforce
  ultimately show ?thesis
    using nth_length_takeWhile[OF n(2)] n by simp
qed

section \<open>Numbers\<close>

text \<open>\<open>strconv.Atoi\<close>: an optional sign and digits, in the range of a 64-bit integer.\<close>

definition digits_val :: "string \<Rightarrow> int option" where
  "digits_val s =
     (if s = [] \<or> (\<exists>c \<in> set s. byte c < 48 \<or> 57 < byte c) then None
      else Some (foldl (\<lambda>a c. a * 10 + int (byte c - 48)) 0 s))"

definition Atoi :: "string \<Rightarrow> int option" where
  "Atoi s =
     (let v = (case s of
          [] \<Rightarrow> None
        | c # s' \<Rightarrow>
            if c = CHR ''-'' then map_option uminus (digits_val s')
            else if c = CHR ''+'' then digits_val s' else digits_val s)
      in case v of None \<Rightarrow> None | Some n \<Rightarrow> if - (2 ^ 63) \<le> n \<and> n < 2 ^ 63 then Some n else None)"

end
