(* ===== verification/Float64.thy ===== *)
theory Float64
  imports Complex_Main
begin

text \<open>
  Go's \<open>float64\<close> arithmetic on the rationals. \<open>rnd\<close> rounds to 53 significant bits, ties to
  even, as IEEE 754 binary64 does; an operation of the code is the exact operation followed
  by \<open>rnd\<close>. The exponent range is not bounded: the modelled code stays within small
  integers, scores up to 100 and weights between 0 and 1, far from overflow and from the
  subnormal range. The lemmas are the ones the components need: \<open>rnd\<close> is monotone, exact
  on the integers up to \<open>2 ^ 53\<close>, and \<open>trunc\<close> (the conversion to \<open>int\<close>) is monotone.
\<close>

section \<open>Binary exponents\<close>

definition pow2 :: "int \<Rightarrow> rat" where
  "pow2 e = (if 0 \<le> e then 2 ^ nat e else 1 / 2 ^ nat (- e))"

lemma pow2_pos [simp]: "0 < pow2 e"
  by (simp add: pow2_def)

lemma pow2_nz [simp]: "pow2 e \<noteq> 0"
  using pow2_pos[of e] by (metis less_irrefl)

lemma pow2_0 [simp]: "pow2 0 = 1"
  by (simp add: pow2_def)

lemma pow2_Suc: "pow2 (e + 1) = 2 * pow2 e"
proof (cases "0 \<le> e")
  case True
  then have "nat (e + 1) = Suc (nat e)" by simp
  with True show ?thesis by (simp add: pow2_def)
next
  case False
  then have "nat (- e) = Suc (nat (- (e + 1)))" by simp
  with False show ?thesis by (auto simp: pow2_def)
qed

lemma pow2_add_nat: "pow2 (e + int n) = pow2 e * 2 ^ n"
proof (induction n)
  case (Suc n)
  have "pow2 (e + int (Suc n)) = pow2 ((e + int n) + 1)" by (rule arg_cong[where f = pow2]) simp
  with Suc show ?case by (simp add: pow2_Suc)
qed simp

lemma pow2_mono: "e \<le> f \<Longrightarrow> pow2 e \<le> pow2 f"
proof -
  assume "e \<le> f"
  then have "f = e + int (nat (f - e))" by simp
  then have "pow2 f = pow2 e * 2 ^ nat (f - e)" by (metis pow2_add_nat)
  moreover have "pow2 e * 1 \<le> pow2 e * (2::rat) ^ nat (f - e)"
    by (intro mult_left_mono) (simp_all add: less_imp_le)
  ultimately show ?thesis by simp
qed

text \<open>The position of the leading bit: \<open>pow2 (lg x) \<le> x < pow2 (lg x + 1)\<close> for \<open>x > 0\<close>.\<close>

definition lg_measure :: "rat \<Rightarrow> nat" where
  "lg_measure x = (if 1 \<le> x then nat \<lfloor>x\<rfloor> else nat \<lfloor>1 / x\<rfloor> + 2)"

function lg :: "rat \<Rightarrow> int" where
  "lg x = (if 2 \<le> x then lg (x / 2) + 1 else if 0 < x \<and> x < 1 then lg (2 * x) - 1 else 0)"
  by pat_completeness auto
termination
proof (relation "measure lg_measure")
  fix x :: rat
  assume x: "2 \<le> x"
  then have "\<lfloor>x / 2\<rfloor> < \<lfloor>x\<rfloor>" by linarith
  with x show "(x / 2, x) \<in> measure lg_measure"
    by (auto simp: lg_measure_def nat_less_iff)
next
  fix x :: rat
  assume x: "\<not> 2 \<le> x" "0 < x \<and> x < 1"
  show "(2 * x, x) \<in> measure lg_measure"
  proof (cases "1 \<le> 2 * x")
    case True
    then have "nat \<lfloor>2 * x\<rfloor> < 2" using x by linarith
    moreover have "lg_measure (2 * x) = nat \<lfloor>2 * x\<rfloor>" "lg_measure x = nat \<lfloor>1 / x\<rfloor> + 2"
      using True x by (simp_all add: lg_measure_def)
    ultimately show ?thesis by (simp only: in_measure)
  next
    case False
    then have "2 < 1 / x" using x by (simp add: field_simps)
    moreover have "1 / (2 * x) = (1 / x) / 2" by simp
    ultimately have "\<lfloor>1 / (2 * x)\<rfloor> < \<lfloor>1 / x\<rfloor>" "0 \<le> \<lfloor>1 / (2 * x)\<rfloor>" by linarith+
    with False x show ?thesis by (simp add: lg_measure_def nat_less_iff)
  qed
qed simp

declare lg.simps [simp del]

lemma lg_bounds: "0 < x \<Longrightarrow> pow2 (lg x) \<le> x \<and> x < pow2 (lg x + 1)"
proof (induction x rule: lg.induct)
  case (1 x)
  consider "2 \<le> x" | "x < 1" | "1 \<le> x" "x < 2" by linarith
  then show ?case
  proof cases
    case 1
    then have "pow2 (lg (x / 2)) \<le> x / 2 \<and> x / 2 < pow2 (lg (x / 2) + 1)"
      using "1.IH"(1) by simp
    with 1 show ?thesis
      using pow2_Suc[of "lg (x / 2)"] pow2_Suc[of "lg (x / 2) + 1"] by (simp add: lg.simps[of x])
  next
    case 2
    then have "pow2 (lg (2 * x)) \<le> 2 * x \<and> 2 * x < pow2 (lg (2 * x) + 1)"
      using "1.IH"(2) "1.prems" by simp
    with 2 "1.prems" show ?thesis
      using pow2_Suc[of "lg (2 * x) - 1"] pow2_Suc[of "lg (2 * x)"] by (simp add: lg.simps[of x])
  next
    case 3
    then show ?thesis using pow2_Suc[of 0] by (simp add: lg.simps[of x])
  qed
qed

lemma lg_mono: "0 < x \<Longrightarrow> x \<le> y \<Longrightarrow> lg x \<le> lg y"
proof (rule ccontr)
  assume a: "0 < x" "x \<le> y" "\<not> lg x \<le> lg y"
  then have "pow2 (lg y + 1) \<le> pow2 (lg x)" by (intro pow2_mono) simp
  with lg_bounds[of x] lg_bounds[of y] a show False by simp
qed

section \<open>Rounding\<close>

text \<open>Round to the nearest integer, ties to even.\<close>

definition rne :: "rat \<Rightarrow> int" where
  "rne x = (let f = \<lfloor>x\<rfloor>; d = x - of_int f in
            if d < 1 / 2 then f else if 1 / 2 < d then f + 1 else if even f then f else f + 1)"

lemma rne_int [simp]: "rne (of_int n) = n"
  by (simp add: rne_def)

lemma rne_mono: "x \<le> y \<Longrightarrow> rne x \<le> rne y"
proof -
  assume xy: "x \<le> y"
  show ?thesis
  proof (cases "\<lfloor>x\<rfloor> = \<lfloor>y\<rfloor>")
    case True
    with xy show ?thesis by (auto simp: rne_def Let_def)
  next
    case False
    then have "\<lfloor>x\<rfloor> + 1 \<le> \<lfloor>y\<rfloor>" using floor_mono[OF xy] by linarith
    then show ?thesis by (auto simp: rne_def Let_def)
  qed
qed

definition rnd_pos :: "rat \<Rightarrow> rat" where
  "rnd_pos x = (let q = lg x - 52 in of_int (rne (x / pow2 q)) * pow2 q)"

definition rnd :: "rat \<Rightarrow> rat" where
  "rnd x = (if 0 < x then rnd_pos x else if x < 0 then - rnd_pos (- x) else 0)"

lemma two53_int: "(2::rat) ^ 53 = of_int (2 ^ 53)" "(2::rat) ^ 52 = of_int (2 ^ 52)"
  by simp_all

lemma rnd_pos_bounds:
  assumes "0 < x"
  shows "pow2 (lg x) \<le> rnd_pos x \<and> rnd_pos x \<le> pow2 (lg x + 1)"
proof -
  define q where "q = lg x - 52"
  have q: "pow2 (lg x) = pow2 q * 2 ^ 52" "pow2 (lg x + 1) = pow2 q * 2 ^ 53"
    using pow2_add_nat[of q 52] pow2_add_nat[of q 53] by (simp_all add: q_def add.commute)
  have "2 ^ 52 \<le> x / pow2 q" "x / pow2 q \<le> 2 ^ 53"
    using lg_bounds[OF assms] q by (simp_all add: field_simps)
  then have "2 ^ 52 \<le> rne (x / pow2 q)" "rne (x / pow2 q) \<le> 2 ^ 53"
    using rne_mono[of "2 ^ 52" "x / pow2 q"] rne_mono[of "x / pow2 q" "2 ^ 53"]
      rne_int[of "2 ^ 52"] rne_int[of "2 ^ 53"] by (simp_all only: two53_int)
  then have "(2::rat) ^ 52 \<le> of_int (rne (x / pow2 q))" "of_int (rne (x / pow2 q)) \<le> (2::rat) ^ 53"
    by (simp_all only: two53_int of_int_le_iff)
  then show ?thesis
    unfolding rnd_pos_def Let_def q_def[symmetric] q
    by (simp add: mult.commute mult_left_mono less_imp_le)
qed

lemma rnd_pos_mono: "0 < x \<Longrightarrow> x \<le> y \<Longrightarrow> rnd_pos x \<le> rnd_pos y"
proof -
  assume xy: "0 < x" "x \<le> y"
  show ?thesis
  proof (cases "lg x = lg y")
    case True
    have "x / pow2 (lg y - 52) \<le> y / pow2 (lg y - 52)"
      using xy by (intro divide_right_mono) (simp_all add: less_imp_le)
    from rne_mono[OF this] True show ?thesis
      unfolding rnd_pos_def Let_def by (simp add: mult_right_mono less_imp_le)
  next
    case False
    then have "lg x + 1 \<le> lg y" using lg_mono[OF xy] by simp
    then have "pow2 (lg x + 1) \<le> pow2 (lg y)" by (rule pow2_mono)
    with rnd_pos_bounds[of x] rnd_pos_bounds[of y] xy show ?thesis by simp
  qed
qed

lemma rnd_pos_pos: "0 < x \<Longrightarrow> 0 < rnd_pos x"
  using rnd_pos_bounds[of x] pow2_pos[of "lg x"] by linarith

lemma rnd_mono: "x \<le> y \<Longrightarrow> rnd x \<le> rnd y"
  using rnd_pos_mono[of x y] rnd_pos_mono[of "- y" "- x"] rnd_pos_pos[of y] rnd_pos_pos[of "- x"]
  by (auto simp: rnd_def)

lemma rnd_0 [simp]: "rnd 0 = 0"
  by (simp add: rnd_def)

lemma rnd_nonneg: "0 \<le> x \<Longrightarrow> 0 \<le> rnd x"
  using rnd_mono[of 0 x] by simp

lemma rnd_uminus: "rnd (- x) = - rnd x"
  by (simp add: rnd_def)

lemma rnd_pos_nat:
  assumes "0 < n" "n < 2 ^ 53"
  shows "rnd_pos (of_nat n) = of_nat n"
proof -
  have n: "(0::rat) < of_nat n" using assms by simp
  have "lg (of_nat n) \<le> 52"
  proof (rule ccontr)
    assume "\<not> ?thesis"
    then have "pow2 53 \<le> pow2 (lg (of_nat n))" by (intro pow2_mono) simp
    moreover have "pow2 53 = of_nat (2 ^ 53)" by (simp add: pow2_def)
    ultimately have "of_nat (2 ^ 53) \<le> (of_nat n :: rat)" using lg_bounds(1)[OF n] by (simp only:) linarith
    then have "2 ^ 53 \<le> n" by (simp only: of_nat_le_iff)
    with assms(2) show False by linarith
  qed
  define q where "q = lg (of_nat n) - 52"
  define k where "k = nat (- q)"
  have "q + int k = 0" using \<open>lg (of_nat n) \<le> 52\<close> by (simp add: q_def k_def)
  with pow2_add_nat[of q k] have p: "pow2 q * 2 ^ k = 1" by simp
  have "of_nat n / pow2 q = of_nat n * (pow2 q * 2 ^ k) / pow2 q" by (simp add: p)
  also have "\<dots> = of_int (int n * 2 ^ k)" by simp
  finally have "rne (of_nat n / pow2 q) = int n * 2 ^ k" by (simp only: rne_int)
  then have "rnd_pos (of_nat n) = of_nat n * (pow2 q * 2 ^ k)"
    unfolding rnd_pos_def Let_def q_def[symmetric] by simp
  then show ?thesis by (simp add: p)
qed

lemma rnd_nat: "n < 2 ^ 53 \<Longrightarrow> rnd (of_nat n) = of_nat n"
  by (cases "n = 0") (simp_all add: rnd_def rnd_pos_nat)

lemma rnd_int: "\<bar>z\<bar> < 2 ^ 53 \<Longrightarrow> rnd (of_int z) = of_int z"
proof (cases z)
  case (nonneg n)
  assume "\<bar>z\<bar> < 2 ^ 53"
  with nonneg have "n < 2 ^ 53" by simp
  with rnd_nat[of n] nonneg show ?thesis by simp
next
  case (neg n)
  assume "\<bar>z\<bar> < 2 ^ 53"
  with neg have "Suc n < 2 ^ 53" by simp
  with rnd_nat[of "Suc n"] neg show ?thesis by (simp only: of_int_minus of_int_of_nat_eq rnd_uminus)
qed

text \<open>The four operations and the conversion \<open>int(f)\<close>, which truncates towards zero.\<close>

text \<open>Evaluating one rounding: the value scaled to 53 bits is nearest to \<open>n\<close>.\<close>

lemma lg_unique: "0 < x \<Longrightarrow> pow2 e \<le> x \<Longrightarrow> x < pow2 (e + 1) \<Longrightarrow> lg x = e"
proof -
  assume x: "0 < x" "pow2 e \<le> x" "x < pow2 (e + 1)"
  note b = lg_bounds[OF x(1)]
  have "\<not> lg x + 1 \<le> e" using pow2_mono[of "lg x + 1" e] b x(2) by linarith
  moreover have "\<not> e + 1 \<le> lg x" using pow2_mono[of "e + 1" "lg x"] b x(3) by linarith
  ultimately show ?thesis by simp
qed

lemma rne_near: "\<bar>x - of_int n\<bar> < 1 / 2 \<Longrightarrow> rne x = n"
proof -
  assume a: "\<bar>x - of_int n\<bar> < 1 / 2"
  have "\<lfloor>x\<rfloor> = n \<or> \<lfloor>x\<rfloor> = n - 1" using a by linarith
  with a show ?thesis by (auto simp: rne_def Let_def)
qed

lemma pow2_uminus_nat: "pow2 (- int k) = 1 / 2 ^ k"
  by (simp add: pow2_def)

lemma rnd_scaled:
  assumes "2 ^ 52 \<le> x * 2 ^ k" and "x * 2 ^ k < 2 ^ 53"
  shows "rnd x = of_int (rne (x * 2 ^ k)) / 2 ^ k"
proof -
  have "0 < x * 2 ^ k" using assms(1) by (rule less_le_trans[rotated]) simp
  then have x: "0 < x" by (simp add: zero_less_mult_iff)
  have p: "pow2 (52 - int k) = 2 ^ 52 / 2 ^ k" "pow2 (53 - int k) = 2 ^ 53 / 2 ^ k"
    using pow2_add_nat[of "- int k" 52] pow2_add_nat[of "- int k" 53] pow2_uminus_nat[of k]
    by (simp_all add: algebra_simps)
  have "lg x = 52 - int k"
    using assms(1,2) by (intro lg_unique x) (simp_all add: p divide_le_eq less_divide_eq)
  then have "rnd_pos x = of_int (rne (x * 2 ^ k)) / 2 ^ k"
    by (simp add: rnd_pos_def Let_def pow2_uminus_nat)
  then show ?thesis using x by (simp add: rnd_def)
qed

lemma rnd_eqI:
  assumes "2 ^ 52 \<le> x * 2 ^ k" and "x * 2 ^ k < 2 ^ 53" and "\<bar>x * 2 ^ k - of_int n\<bar> < 1 / 2"
  shows "rnd x = of_int n / 2 ^ k"
  by (simp add: rnd_scaled[OF assms(1,2)] rne_near[OF assms(3)])

lemma rne_tie: "\<bar>x - of_int n\<bar> = 1 / 2 \<Longrightarrow> even n \<Longrightarrow> rne x = n"
proof -
  assume a: "\<bar>x - of_int n\<bar> = 1 / 2" and e: "even n"
  from a have "\<lfloor>x\<rfloor> = n \<and> x - of_int \<lfloor>x\<rfloor> = 1 / 2 \<or> \<lfloor>x\<rfloor> = n - 1 \<and> x - of_int \<lfloor>x\<rfloor> = 1 / 2"
  proof (cases "of_int n \<le> x")
    case True
    with a have x: "x = of_int n + 1 / 2" by simp
    then have "\<lfloor>x\<rfloor> = n" by (simp add: floor_eq_iff)
    with x show ?thesis by simp
  next
    case False
    with a have x: "x = of_int n - 1 / 2" by simp
    then have "\<lfloor>x\<rfloor> = n - 1" by (simp add: floor_eq_iff)
    with x show ?thesis by simp
  qed
  with e show ?thesis by (auto simp: rne_def Let_def)
qed

lemma rnd_tieI:
  assumes "2 ^ 52 \<le> x * 2 ^ k" and "x * 2 ^ k < 2 ^ 53" and "\<bar>x * 2 ^ k - of_int n\<bar> = 1 / 2" and "even n"
  shows "rnd x = of_int n / 2 ^ k"
  by (simp add: rnd_scaled[OF assms(1,2)] rne_tie[OF assms(3,4)])

definition fadd :: "rat \<Rightarrow> rat \<Rightarrow> rat" where "fadd x y = rnd (x + y)"
definition fsub :: "rat \<Rightarrow> rat \<Rightarrow> rat" where "fsub x y = rnd (x - y)"
definition fmul :: "rat \<Rightarrow> rat \<Rightarrow> rat" where "fmul x y = rnd (x * y)"
definition fdiv :: "rat \<Rightarrow> rat \<Rightarrow> rat" where "fdiv x y = rnd (x / y)"

definition trunc :: "rat \<Rightarrow> int" where
  "trunc x = (if 0 \<le> x then \<lfloor>x\<rfloor> else - \<lfloor>- x\<rfloor>)"

lemma trunc_mono: "x \<le> y \<Longrightarrow> trunc x \<le> trunc y"
proof -
  assume xy: "x \<le> y"
  consider "0 \<le> x" | "\<not> 0 \<le> x" "0 \<le> y" | "\<not> 0 \<le> y" by blast
  then show ?thesis
  proof cases
    case 2
    then have "0 \<le> \<lfloor>- x\<rfloor>" "0 \<le> \<lfloor>y\<rfloor>" by (simp_all add: zero_le_floor)
    then have "- \<lfloor>- x\<rfloor> \<le> \<lfloor>y\<rfloor>" by linarith
    with 2 show ?thesis unfolding trunc_def by (simp only: if_False if_True)
  qed (use xy floor_mono[of x y] floor_mono[of "- y" "- x"] in \<open>auto simp: trunc_def\<close>)
qed

lemma trunc_int [simp]: "trunc (of_int z) = z"
  by (simp add: trunc_def)

lemma trunc_nonneg: "0 \<le> x \<Longrightarrow> 0 \<le> trunc x"
  by (simp add: trunc_def)

lemmas float_mono = rnd_mono trunc_mono

end
