(* ===== verification/EditDistance.thy ===== *)
theory EditDistance
  imports GoStrings
begin

text \<open>
  The edit distance of typosquat/distance.go. The theory has four layers: the edits on
  words (\<open>edit1\<close>, \<open>edit_path\<close>), which say what a distance should count; alignments
  (\<open>aligned\<close>), a sequential account of two words with a cost; the Lowrance-Wagner
  recurrence (\<open>dl\<close>); and the table that the Go code fills (\<open>dl_table\<close>), a flat slice
  with two sentinel rows and a map of last positions.
\<close>

section \<open>Edits on words\<close>

inductive edit1 :: "'a list \<Rightarrow> 'a list \<Rightarrow> bool" where
  ins: "edit1 s (x # s)"
| del: "edit1 (x # s) s"
| sub: "edit1 (x # s) (y # s)"
| swap: "edit1 (x # y # s) (y # x # s)"
| there: "edit1 s t \<Longrightarrow> edit1 (x # s) (x # t)"

inductive_cases edit1_ConsE: "edit1 (x # s) t"
inductive_cases edit1_NilE: "edit1 [] t"

lemmas edit1_Cons_cases =
  edit1_ConsE[consumes 1, case_names ins del sub swap there]

inductive edit_path :: "nat \<Rightarrow> 'a list \<Rightarrow> 'a list \<Rightarrow> bool" where
  stop: "edit_path 0 s s"
| step: "edit1 s t \<Longrightarrow> edit_path n t u \<Longrightarrow> edit_path (Suc n) s u"

inductive_cases edit_path_0E: "edit_path 0 s t"
inductive_cases edit_path_SucE: "edit_path (Suc n) s t"

lemma edit1_sym: "edit1 s t \<Longrightarrow> edit1 t s"
  by (induction rule: edit1.induct) (auto intro: edit1.intros)

lemma edit1_length: "edit1 s t \<Longrightarrow> length t \<le> Suc (length s)"
  by (induction rule: edit1.induct) auto

lemma edit1_append_left: "edit1 s t \<Longrightarrow> edit1 (r @ s) (r @ t)"
  by (induction r) (auto intro: edit1.there)

lemma edit1_append_right: "edit1 s t \<Longrightarrow> edit1 (s @ r) (t @ r)"
  by (induction rule: edit1.induct) (auto intro: edit1.intros)

lemma edit1_rev: "edit1 s t \<Longrightarrow> edit1 (rev s) (rev t)"
proof (induction rule: edit1.induct)
  case (ins s x)
  show ?case using edit1_append_left[OF edit1.ins[of "[]" x], of "rev s"] by simp
next
  case (del x s)
  show ?case using edit1_append_left[OF edit1.del[of x "[]"], of "rev s"] by simp
next
  case (sub x s y)
  show ?case using edit1_append_left[OF edit1.sub[of x "[]" y], of "rev s"] by simp
next
  case (swap x y s)
  show ?case using edit1_append_left[OF edit1.swap[of y x "[]"], of "rev s"] by simp
next
  case (there s t x)
  then show ?case by (simp add: edit1_append_right)
qed

lemma edit_path_append: "edit_path m s t \<Longrightarrow> edit_path n t u \<Longrightarrow> edit_path (m + n) s u"
  by (induction rule: edit_path.induct) (auto intro: edit_path.intros)

lemma edit_path_single: "edit1 s t \<Longrightarrow> edit_path 1 s t"
  using edit_path.step[OF _ edit_path.stop] by auto

lemma edit_path_sym: "edit_path n s t \<Longrightarrow> edit_path n t s"
proof (induction rule: edit_path.induct)
  case (stop s)
  show ?case by (rule edit_path.stop)
next
  case (step s t n u)
  from edit_path_append[OF step.IH edit_path_single[OF edit1_sym[OF step.hyps(1)]]]
  show ?case by simp
qed

lemma edit_path_rev: "edit_path n s t \<Longrightarrow> edit_path n (rev s) (rev t)"
  by (induction rule: edit_path.induct) (auto intro: edit_path.intros edit1_rev)

lemma edit_path_rev_iff: "edit_path n (rev s) (rev t) \<longleftrightarrow> edit_path n s t"
  using edit_path_rev[of n s t] edit_path_rev[of n "rev s" "rev t"] by auto

lemma edit_path_append_left: "edit_path n s t \<Longrightarrow> edit_path n (r @ s) (r @ t)"
  by (induction rule: edit_path.induct) (auto intro: edit_path.intros edit1_append_left)

lemma edit_path_Cons: "edit_path n s t \<Longrightarrow> edit_path n (x # s) (x # t)"
  using edit_path_append_left[of n s t "[x]"] by simp

lemma edit_path_delete: "edit_path (length p) (p @ s) s"
  by (induction p) (auto intro: edit_path.intros edit1.del)

lemma edit_path_insert: "edit_path (length q) s (q @ s)"
  using edit_path_sym[OF edit_path_delete] .

section \<open>Alignments\<close>

text \<open>
  An alignment reads two words from the front. Besides keeping, substituting, deleting and
  inserting one symbol, it may exchange two symbols of the first word that become adjacent
  once the symbols between them are deleted, and insert symbols between them afterwards:
  the transposition term of the recurrence.
\<close>

inductive aligned :: "'a list \<Rightarrow> 'a list \<Rightarrow> nat \<Rightarrow> bool" where
  Nil: "aligned [] [] 0"
| Pair: "aligned u v n \<Longrightarrow> aligned (x # u) (y # v) (n + (if x = y then 0 else 1))"
| Del: "aligned u v n \<Longrightarrow> aligned (x # u) v (Suc n)"
| Ins: "aligned u v n \<Longrightarrow> aligned u (y # v) (Suc n)"
| Exch: "aligned u v n \<Longrightarrow>
     aligned (y # p @ x # u) (x # q @ y # v) (n + length p + 1 + length q)"

lemma aligned_cast: "aligned u v n \<Longrightarrow> n = m \<Longrightarrow> aligned u v m"
  by simp

lemma aligned_keep: "aligned u v n \<Longrightarrow> aligned (x # u) (x # v) n"
  using aligned.Pair[of u v n x x] by simp

lemma aligned_dels: "aligned u v n \<Longrightarrow> aligned (p @ u) v (length p + n)"
  by (induction p) (auto intro: aligned.Del)

lemma aligned_inss: "aligned u v n \<Longrightarrow> aligned u (q @ v) (length q + n)"
  by (induction q) (auto intro: aligned.Ins)

lemma aligned_refl: "aligned a a 0"
  by (induction a) (auto intro: aligned.Nil aligned_keep)

lemma aligned_sym: "aligned a b n \<Longrightarrow> aligned b a n"
proof (induction rule: aligned.induct)
  case (Pair u v n x y)
  from aligned.Pair[OF Pair.IH, of y x] show ?case
    by (rule aligned_cast) simp
next
  case (Exch u v n y p x q)
  from aligned.Exch[OF Exch.IH, of x q y p] show ?case
    by (rule aligned_cast) simp
qed (auto intro: aligned.intros)

subsection \<open>An alignment is a sequence of edits\<close>

lemma aligned_edit_path: "aligned a b n \<Longrightarrow> \<exists>k\<le>n. edit_path k a b"
proof (induction rule: aligned.induct)
  case Nil
  show ?case by (auto intro: edit_path.stop)
next
  case (Pair u v n x y)
  then obtain k where k: "k \<le> n" "edit_path k u v" by blast
  show ?case
  proof (cases "x = y")
    case True
    with k show ?thesis by (auto intro: edit_path_Cons)
  next
    case False
    from edit_path.step[OF edit1.sub edit_path_Cons[OF k(2)]] k(1) False
    show ?thesis by (intro exI[of _ "Suc k"]) simp
  qed
next
  case (Del u v n x)
  then show ?case by (meson Suc_le_mono edit1.del edit_path.step)
next
  case (Ins u v n y)
  then obtain k where k: "k \<le> n" "edit_path k u v" by blast
  from edit_path.step[OF edit1.ins edit_path_Cons[OF k(2)]] k(1)
  show ?case by (intro exI[of _ "Suc k"]) simp
next
  case (Exch u v n y p x q)
  then obtain k where k: "k \<le> n" "edit_path k u v" by blast
  have 1: "edit_path (length p) (y # p @ x # u) (y # x # u)"
    by (rule edit_path_Cons[OF edit_path_delete])
  have 2: "edit_path 1 (y # x # u) (x # y # u)"
    by (rule edit_path_single[OF edit1.swap])
  have 3: "edit_path (length q) (x # y # u) (x # q @ y # u)"
    by (rule edit_path_Cons[OF edit_path_insert])
  have 4: "edit_path k (x # q @ y # u) (x # q @ y # v)"
    using edit_path_append_left[OF k(2), of "x # q @ [y]"] by simp
  from edit_path_append[OF 1 edit_path_append[OF 2 edit_path_append[OF 3 4]]] k(1)
  show ?case by (intro exI[of _ "length p + (1 + (length q + k))"]) simp
qed

subsection \<open>How an alignment consumes the first symbol of the second word\<close>

inductive heads :: "'a \<Rightarrow> 'a list \<Rightarrow> 'a list \<Rightarrow> nat \<Rightarrow> bool" for x b where
  pair: "aligned u b m \<Longrightarrow> n = length p + (if z = x then 0 else 1) + m \<Longrightarrow>
     heads x b (p @ z # u) n"
| ins: "aligned u b m \<Longrightarrow> n = length p + 1 + m \<Longrightarrow> heads x b (p @ u) n"
| exch: "aligned u v m \<Longrightarrow> b = q @ y # v \<Longrightarrow> n = length r + m + length p + 1 + length q \<Longrightarrow>
     heads x b (r @ y # p @ x # u) n"

lemma heads_Del:
  assumes "heads x b a n"
  shows "heads x b (w # a) (Suc n)"
  using assms
proof cases
  case (pair u m p z)
  with heads.pair[of u b m "Suc n" "w # p" z x] show ?thesis by simp
next
  case (ins u m p)
  with heads.ins[of u b m "Suc n" "w # p" x] show ?thesis by simp
next
  case (exch u v m q y r p)
  with heads.exch[of u v m b q y "Suc n" "w # r" p x] show ?thesis by simp
qed

lemma aligned_heads: "aligned a b' n \<Longrightarrow> b' = x # b \<Longrightarrow> heads x b a n"
proof (induction rule: aligned.induct)
  case Nil
  then show ?case by simp
next
  case (Pair u v n z y)
  then have "y = x" "v = b" by simp_all
  with heads.pair[OF Pair.hyps, of "n + (if z = y then 0 else 1)" "[]" z x] show ?case
    by (simp split del: if_split)
next
  case (Del u v n z)
  then show ?case by (intro heads_Del) simp
next
  case (Ins u v n y)
  then have "v = b" by simp
  with heads.ins[OF Ins.hyps, of _ "[]" x] show ?case by simp
next
  case (Exch u v n y p z q)
  then have "z = x" "b = q @ y # v" by simp_all
  with heads.exch[OF Exch.hyps, of b q y _ "[]" p x] show ?case by simp
qed

lemmas aligned_ConsE = aligned_heads[OF _ refl, THEN heads.cases, consumes 1, case_names pair ins exch]

subsection \<open>Editing the second word costs at most one more\<close>

definition within :: "'a list \<Rightarrow> 'a list \<Rightarrow> nat \<Rightarrow> bool" where
  "within a b n \<longleftrightarrow> (\<exists>k\<le>n. aligned a b k)"

lemma withinI: "aligned a b k \<Longrightarrow> k \<le> n \<Longrightarrow> within a b n"
  by (auto simp: within_def)

lemma withinE:
  assumes "within a b n" obtains k where "aligned a b k" "k \<le> n"
  using assms by (auto simp: within_def)

lemma within_mono: "within a b k \<Longrightarrow> k \<le> n \<Longrightarrow> within a b n"
  unfolding within_def by (meson order_trans)

lemma within_le:
  "within a' b' k \<Longrightarrow> a' = a \<Longrightarrow> b' = b \<Longrightarrow> k \<le> n \<Longrightarrow> within a b n"
  using within_mono by blast

lemma within_aligned: "aligned a b n \<Longrightarrow> within a b n"
  by (rule withinI) auto

lemma within_pair: "within u v m \<Longrightarrow> within (x # u) (y # v) (m + (if x = y then 0 else 1))"
  by (elim withinE) (rule withinI, erule aligned.Pair, simp)

lemma within_keep: "within u v m \<Longrightarrow> within (x # u) (x # v) m"
  using within_pair[of u v m x x] by simp

lemma within_dels: "within u v m \<Longrightarrow> within (p @ u) v (length p + m)"
  by (elim withinE) (rule withinI, erule aligned_dels, simp)

lemma within_inss: "within u v m \<Longrightarrow> within u (q @ v) (length q + m)"
  by (elim withinE) (rule withinI, erule aligned_inss, simp)

lemma within_del: "within u v m \<Longrightarrow> within (x # u) v (Suc m)"
  using within_dels[of u v m "[x]"] by simp

lemma within_ins: "within u v m \<Longrightarrow> within u (x # v) (Suc m)"
  using within_inss[of u v m "[x]"] by simp

lemma within_exch:
  "within u v m \<Longrightarrow> within (y # p @ x # u) (x # q @ y # v) (m + length p + 1 + length q)"
  by (elim withinE) (rule withinI, erule aligned.Exch, simp)

text \<open>
  Exchanging the two first symbols of the second word, by what the alignment does with the
  first of them: pairs it, inserts it, or exchanges it itself.
\<close>

lemma swap_front_pair:
  assumes "aligned u (y # v) m"
  shows "within (z # u) (y # x # v) (m + (if z = x then 0 else 1) + 1)"
  using assms
proof (cases rule: aligned_ConsE)
  case (pair u2 m2 n2 p z2)
  show ?thesis
  proof (cases "z = x \<and> z2 = y")
    case True
    with within_mono[OF within_exch[OF within_aligned[OF pair(3)], of x p y "[]"]] pair
    show ?thesis by simp
  next
    case False
    from within_pair[OF within_dels[OF within_pair[OF within_aligned[OF pair(3)]]]]
    have "within (z # p @ z2 # u2) (y # x # v)
      (length p + (m2 + (if z2 = x then 0 else 1)) + (if z = y then 0 else 1))" .
    then show ?thesis
      by (rule within_le) (use pair False in \<open>auto split: if_splits\<close>)
  qed
next
  case (ins u2 m2 n2 p)
  with within_mono[OF within_ins[OF within_pair[OF within_dels[OF within_aligned[OF ins(3)]]]]]
  show ?thesis by simp
next
  case (exch u2 v2 m2 q w n2 r p)
  from within_ins[OF within_pair[OF within_dels[OF within_inss[OF within_keep[OF within_dels[OF
        within_del[OF within_aligned[OF exch(3)]]]]]]]]
  have "within (z # r @ w # p @ y # u2) (y # x # q @ w # v2)
    (Suc (length r + (length q + (length p + Suc m2)) + (if z = x then 0 else 1)))" .
  then show ?thesis
    by (rule within_le) (use exch in auto)
qed

lemma swap_front_ins:
  assumes "aligned u (y # v) m"
  shows "within u (y # x # v) (m + 1)"
  using assms
proof (cases rule: aligned_ConsE)
  case (pair u2 m2 n2 p z)
  with within_mono[OF within_dels[OF within_pair[OF within_ins[OF within_aligned[OF pair(3)]]]]]
  show ?thesis by simp
next
  case (ins u2 m2 n2 p)
  with within_mono[OF within_dels[OF within_ins[OF within_ins[OF within_aligned[OF ins(3)]]]]]
  show ?thesis by simp
next
  case (exch u2 v2 m2 q w n2 r p)
  from within_dels[OF within_exch[OF within_aligned[OF exch(3)], of w p y "x # q"], of r] exch
  show ?thesis by (simp add: within_mono)
qed

lemma within_swap_front:
  assumes "aligned a (x # y # v) n"
  shows "within a (y # x # v) (Suc n)"
  using assms
proof (cases rule: aligned_ConsE)
  case (pair u m n1 p z)
  from within_dels[OF swap_front_pair[OF pair(3), of z x], of p] show ?thesis
    by (rule within_le) (use pair in auto)
next
  case (ins u m n1 p)
  from within_dels[OF swap_front_ins[OF ins(3), of x], of p] show ?thesis
    by (rule within_le) (use ins in auto)
next
  case (exch u v2 m q w n1 r p)
  show ?thesis
  proof (cases q)
    case Nil
    with exch have "aligned u v m" "w = y" by simp_all
    from within_dels[OF within_keep[OF within_dels[OF within_keep[OF within_aligned[OF this(1)]]]]]
    have "within (r @ w # p @ x # u) (w # x # v) (length r + (length p + m))" .
    then show ?thesis
      by (rule within_le) (use exch Nil in auto)
  next
    case (Cons y' q')
    from within_dels[OF within_ins[OF within_exch[OF within_aligned[OF exch(3)], of w p x q']], of r y]
    show ?thesis by (rule within_le) (use exch Cons in auto)
  qed
qed


text \<open>Where an edit of \<open>q @ y # v\<close> happens: in \<open>q\<close>, at \<open>y\<close>, across \<open>y\<close>, or in \<open>v\<close>.\<close>

inductive edit_at :: "'a list \<Rightarrow> 'a \<Rightarrow> 'a list \<Rightarrow> 'a list \<Rightarrow> bool" for q y v where
  left: "edit1 q q' \<Longrightarrow> edit_at q y v (q' @ y # v)"
| right: "edit1 v v' \<Longrightarrow> edit_at q y v (q @ y # v')"
| drop: "edit_at q y v (q @ v)"
| chg: "edit_at q y v (q @ y' # v)"
| cross_left: "q = q0 @ [z] \<Longrightarrow> edit_at q y v (q0 @ y # z # v)"
| cross_right: "v = w # v' \<Longrightarrow> edit_at q y v (q @ w # y # v')"

lemma edit_at_Cons:
  assumes "edit_at q y v t"
  shows "edit_at (z # q) y v (z # t)"
  using assms
proof cases
  case (left q')
  with edit_at.left[OF edit1.there[OF left(2)], of z y v] show ?thesis by simp
next
  case (cross_left q0 z')
  with edit_at.cross_left[of "z # q" "z # q0" z' y v] show ?thesis by simp
qed (use edit_at.right[of v _ "z # q" y] edit_at.drop[of "z # q" y v]
      edit_at.chg[of "z # q" y v] edit_at.cross_right[of v _ _ "z # q" y] in auto)

lemma edit1_append_ConsE: "edit1 (q @ y # v) t \<Longrightarrow> edit_at q y v t"
proof (induction q arbitrary: t)
  case Nil
  then have "edit1 (y # v) t" by simp
  then show ?case
  proof (cases rule: edit1_Cons_cases)
    case (ins z)
    with edit_at.left[OF edit1.ins[of "[]" z], of y v] show ?thesis by simp
  next
    case del
    with edit_at.drop[of "[]" y v] show ?thesis by simp
  next
    case (sub z)
    with edit_at.chg[of "[]" y v z] show ?thesis by simp
  next
    case (swap z s)
    with edit_at.cross_right[of v z s "[]" y] show ?thesis by simp
  next
    case (there v')
    with edit_at.right[of v v' "[]" y] show ?thesis by simp
  qed
next
  case (Cons z q)
  then have "edit1 (z # q @ y # v) t" by simp
  then show ?case
  proof (cases rule: edit1_Cons_cases)
    case (ins w)
    with edit_at.left[OF edit1.ins[of "z # q" w], of y v] show ?thesis by simp
  next
    case del
    with edit_at.left[OF edit1.del[of z q], of y v] show ?thesis by simp
  next
    case (sub w)
    with edit_at.left[OF edit1.sub[of z q w], of y v] show ?thesis by simp
  next
    case (swap w s)
    show ?thesis
    proof (cases q)
      case Nil
      with swap edit_at.cross_left[of "z # q" "[]" z y v] show ?thesis by simp
    next
      case (Cons w' q')
      with swap edit_at.left[OF edit1.swap[of z w q'], of y v] show ?thesis by simp
    qed
  next
    case (there t')
    with Cons.IH edit_at_Cons show ?thesis by fastforce
  qed
qed

lemma edit_exch:
  assumes uv: "aligned u v n" and IH: "\<And>c. edit1 v c \<Longrightarrow> within u c (Suc n)"
    and e: "edit_at q y v t"
  shows "within (y # p @ x # u) (x # t) (Suc (n + length p + 1 + length q))"
  using e
proof cases
  case (left q')
  from within_exch[OF within_aligned[OF uv]] show ?thesis
    by (rule within_le) (use left edit1_length[of q q'] in auto)
next
  case (right v')
  from within_exch[OF IH[OF right(2)]] show ?thesis
    by (rule within_le) (use right in auto)
next
  case drop
  from within_del[OF within_dels[OF within_keep[OF within_inss[OF within_aligned[OF uv]]]]]
  show ?thesis by (rule within_le) (use drop in auto)
next
  case (chg y')
  from within_del[OF within_dels[OF within_keep[OF within_inss[OF within_ins[OF within_aligned[OF uv]]]]]]
  show ?thesis by (rule within_le) (use chg in auto)
next
  case (cross_left q0 z)
  from within_exch[OF within_ins[OF within_aligned[OF uv]]] show ?thesis
    by (rule within_le) (use cross_left in auto)
next
  case (cross_right w v')
  from within_del[OF within_dels[OF within_keep[OF within_inss[OF IH[of "w # y # v'"]]]]]
  show ?thesis by (rule within_le) (use cross_right in \<open>auto intro: edit1.intros\<close>)
qed

text \<open>The composition lemma: one more edit of the second word costs at most one more.\<close>

lemma aligned_edit1: "aligned a b n \<Longrightarrow> edit1 b c \<Longrightarrow> within a c (Suc n)"
proof (induction arbitrary: c rule: aligned.induct)
  case Nil
  then show ?case
    by (auto elim!: edit1_NilE intro: within_ins within_aligned aligned.Nil)
next
  case (Pair u v n x y)
  note all = aligned.Pair[OF Pair.hyps, of x y]
  from Pair.prems show ?case
  proof (cases rule: edit1_Cons_cases)
    case del
    from within_del[OF within_aligned[OF Pair.hyps], of x] show ?thesis
      by (rule within_le) (use del in auto)
  next
    case (sub z)
    from within_pair[OF within_aligned[OF Pair.hyps], of x z] show ?thesis
      by (rule within_le) (use sub in auto)
  next
    case (swap z s)
    with within_swap_front[of "x # u" y z s] all show ?thesis by simp
  next
    case (there t)
    from within_pair[OF Pair.IH[OF there(2)], of x y] there show ?thesis by simp
  qed (use within_ins[OF within_aligned[OF all]] in auto)
next
  case (Del u v n x)
  from within_del[OF Del.IH[OF Del.prems]] show ?case by simp
next
  case (Ins u v n y)
  note all = aligned.Ins[OF Ins.hyps, of y]
  from Ins.prems show ?case
  proof (cases rule: edit1_Cons_cases)
    case (swap z s)
    with within_swap_front[of u y z s] all show ?thesis by simp
  next
    case (there t)
    from within_ins[OF Ins.IH[OF there(2)], of y] there show ?thesis by simp
  qed (use within_ins[OF within_aligned[OF all]] within_ins[OF within_aligned[OF Ins.hyps]]
        within_aligned[OF Ins.hyps] within_mono[of u v n "Suc (Suc n)"]
        within_mono[of u _ "Suc n" "Suc (Suc n)"] in auto)
next
  case (Exch u v n y p x q)
  note all = aligned.Exch[OF Exch.hyps, of y p x q]
  have gone: "within (y # p @ x # u) (q @ y # v) (n + length p + 1 + length q)"
    using within_inss[OF within_keep[OF within_dels[OF within_del[OF within_aligned[OF Exch.hyps]]]]]
    by (rule within_le) auto
  from Exch.prems show ?case
  proof (cases rule: edit1_Cons_cases)
    case del
    with gone within_mono[OF gone] show ?thesis by simp
  next
    case (sub z)
    with within_ins[OF gone, of z] show ?thesis by simp
  next
    case (swap z s)
    with within_swap_front[of "y # p @ x # u" x z s] all show ?thesis by simp
  next
    case (there t)
    from edit_exch[OF Exch.hyps Exch.IH edit1_append_ConsE[OF there(2)], of p x] there
    show ?thesis by simp
  qed (use within_ins[OF within_aligned[OF all]] in auto)
qed

lemma edit_path_within: "edit_path n b c \<Longrightarrow> aligned a b m \<Longrightarrow> within a c (m + n)"
proof (induction arbitrary: m rule: edit_path.induct)
  case (stop s)
  then show ?case by (simp add: within_aligned)
next
  case (step s t n u)
  from aligned_edit1[OF step.prems step.hyps(1)] obtain k where "aligned a t k" "k \<le> Suc m"
    by (rule withinE)
  from step.IH[OF this(1)] show ?case
    by (rule within_le) (use \<open>k \<le> Suc m\<close> in auto)
qed

lemma aligned_iff_edit_path: "within a b n \<longleftrightarrow> (\<exists>k\<le>n. edit_path k a b)"
proof
  assume "within a b n"
  then show "\<exists>k\<le>n. edit_path k a b"
    by (elim withinE) (meson aligned_edit_path order_trans)
next
  assume "\<exists>k\<le>n. edit_path k a b"
  then obtain k where k: "k \<le> n" "edit_path k a b" by blast
  from edit_path_within[OF k(2) aligned_refl] show "within a b n"
    by (rule within_le) (use k(1) in auto)
qed


section \<open>The Lowrance-Wagner recurrence\<close>

text \<open>
  The recurrence on words read from their last symbol (the table is indexed by prefixes, so
  the table entry for \<open>i\<close>, \<open>j\<close> is \<open>dl\<close> of the reversed prefixes). The exchange term looks only at
  the nearest earlier occurrence of each symbol.
\<close>

definition rest_after :: "'a \<Rightarrow> 'a list \<Rightarrow> 'a list" where
  "rest_after x a = tl (dropWhile (\<lambda>z. z \<noteq> x) a)"

definition gap :: "'a \<Rightarrow> 'a list \<Rightarrow> nat" where
  "gap x a = length (takeWhile (\<lambda>z. z \<noteq> x) a)"

lemma length_rest_after: "length (rest_after x a) \<le> length a"
  unfolding rest_after_def by (metis diff_le_self length_dropWhile_le length_tl order_trans)

lemma split_at_gap:
  assumes "x \<in> set a"
  shows "a = take (gap x a) a @ x # rest_after x a"
proof -
  obtain u where u: "a = takeWhile (\<lambda>z. z \<noteq> x) a @ x # u"
    using takeWhile_neq_split[OF assms] by blast
  then have "dropWhile (\<lambda>z. z \<noteq> x) a = x # u"
    by (metis append_same_eq takeWhile_dropWhile_id same_append_eq)
  with u show ?thesis
    by (simp add: rest_after_def gap_def takeWhile_eq_take[symmetric])
qed

function dl :: "'a list \<Rightarrow> 'a list \<Rightarrow> nat" where
  "dl [] b = length b"
| "dl (y # a) [] = length (y # a)"
| "dl (y # a) (x # b) =
     (let sub = dl a b + (if y = x then 0 else 1);
          ins = dl (y # a) b + 1;
          del = dl a (x # b) + 1;
          best = min del (min ins sub)
      in if x \<in> set a \<and> y \<in> set b
         then min best (dl (rest_after x a) (rest_after y b) + gap x a + 1 + gap y b)
         else best)"
  by pat_completeness auto
termination
  by (relation "measure (\<lambda>(a, b). length a + length b)")
    (auto simp: length_rest_after less_Suc_eq_le add_mono le_SucI)

lemma dl_Nil2 [simp]: "dl a [] = length a"
  by (cases a) auto

lemma dl_le_del: "dl (y # a) b \<le> dl a b + 1"
  by (cases b) (auto simp: Let_def)

lemma dl_le_ins: "dl a (x # b) \<le> dl a b + 1"
  by (cases a) (auto simp: Let_def)

lemma dl_le_sub: "dl (y # a) (x # b) \<le> dl a b + (if y = x then 0 else 1)"
  by (auto simp: Let_def)

lemma dl_le_exch:
  "x \<in> set a \<Longrightarrow> y \<in> set b \<Longrightarrow>
   dl (y # a) (x # b) \<le> dl (rest_after x a) (rest_after y b) + gap x a + 1 + gap y b"
  by (auto simp: Let_def)

lemma dl_le_dels: "dl (p @ a) b \<le> length p + dl a b"
proof (induction p)
  case (Cons x p)
  then show ?case using dl_le_del[of x "p @ a" b] by simp
qed simp

lemma dl_le_inss: "dl a (q @ b) \<le> length q + dl a b"
proof (induction q)
  case (Cons x q)
  then show ?case using dl_le_ins[of a x "q @ b"] by simp
qed simp

lemma dl_bound: "dl a b \<le> length a + length b"
  using dl_le_dels[of a "[]" b] by simp

lemma dl_bound_max: "dl a b \<le> max (length a) (length b)"
proof (induction a arbitrary: b)
  case (Cons y a)
  then show ?case
  proof (cases b)
    case (Cons x b')
    with Cons.IH[of b'] dl_le_sub[of y a x b'] show ?thesis by (auto split: if_splits)
  qed simp
qed simp

lemma aligned_dl: "aligned a b (dl a b)"
proof (induction a b rule: dl.induct)
  case (1 b)
  show ?case using aligned_inss[OF aligned.Nil, of b] by simp
next
  case (2 y a)
  show ?case using aligned_dels[OF aligned.Nil, of "y # a"] by simp
next
  case (3 y a x b)
  have sub: "aligned (y # a) (x # b) (dl a b + (if y = x then 0 else 1))"
    using 3 by (intro aligned.Pair) simp
  have ins: "aligned (y # a) (x # b) (dl (y # a) b + 1)"
    using aligned.Ins[of "y # a" b _ x] 3 by simp
  have del: "aligned (y # a) (x # b) (dl a (x # b) + 1)"
    using aligned.Del[of a "x # b" _ y] 3 by simp
  have exch: "aligned (y # a) (x # b) (dl (rest_after x a) (rest_after y b) + gap x a + 1 + gap y b)"
    if mem: "x \<in> set a" "y \<in> set b"
  proof -
    from mem have "aligned (rest_after x a) (rest_after y b) (dl (rest_after x a) (rest_after y b))"
      using "3.IH"(4)[OF refl refl refl refl] by simp
    from aligned.Exch[OF this, of y "take (gap x a) a" x "take (gap y b) b"]
    show ?thesis
      using split_at_gap[OF mem(1)] split_at_gap[OF mem(2)]
        length_takeWhile_less[OF mem(1)] length_takeWhile_less[OF mem(2)]
      by (simp add: gap_def min_def)
  qed
  have best: "aligned (y # a) (x # b) (min (dl a (x # b) + 1) (min (dl (y # a) b + 1)
      (dl a b + (if y = x then 0 else 1))))" (is "aligned _ _ ?best")
    unfolding min_def using sub ins del by presburger
  show ?case
  proof (cases "x \<in> set a \<and> y \<in> set b")
    case True
    have "aligned (y # a) (x # b)
        (min ?best (dl (rest_after x a) (rest_after y b) + gap x a + 1 + gap y b))"
      unfolding min_def[of ?best] using best exch True by presburger
    with True show ?thesis by (simp only: dl.simps Let_def if_P simp_thms)
  next
    case False
    with best show ?thesis by (simp only: dl.simps Let_def if_False)
  qed
qed

lemma takeWhile_gap_le: "gap x (p @ x # u) \<le> length p"
  by (induction p) (auto simp: gap_def)

lemma rest_after_append:
  "\<exists>s. rest_after x (p @ x # u) = s @ u \<and> length s + gap x (p @ x # u) = length p"
proof (induction p)
  case (Cons z p)
  show ?case
  proof (cases "z = x")
    case True
    then show ?thesis
      by (intro exI[of _ "p @ [x]"]) (simp add: rest_after_def gap_def)
  next
    case False
    with Cons.IH show ?thesis by (auto simp: rest_after_def gap_def)
  qed
qed (simp add: rest_after_def gap_def)

lemma dl_le_aligned: "aligned a b n \<Longrightarrow> dl a b \<le> n"
proof (induction rule: aligned.induct)
  case (Pair u v n x y)
  then show ?case using dl_le_sub[of x u y v] by simp
next
  case (Del u v n x)
  then show ?case using dl_le_del[of x u v] by simp
next
  case (Ins u v n y)
  then show ?case using dl_le_ins[of u y v] by simp
next
  case (Exch u v n y p x q)
  obtain s where s: "rest_after x (p @ x # u) = s @ u" "length s + gap x (p @ x # u) = length p"
    using rest_after_append[of x p u] by blast
  obtain t where t: "rest_after y (q @ y # v) = t @ v" "length t + gap y (q @ y # v) = length q"
    using rest_after_append[of y q v] by blast
  have "dl (s @ u) (t @ v) \<le> length s + (length t + dl u v)"
    using dl_le_dels[of s u "t @ v"] dl_le_inss[of u t v] by simp
  then show ?case
    using dl_le_exch[of x "p @ x # u" y "q @ y # v"] s t Exch.IH by simp
qed simp

theorem dl_le_iff: "dl a b \<le> n \<longleftrightarrow> (\<exists>k\<le>n. edit_path k a b)"
proof -
  have "dl a b \<le> n \<longleftrightarrow> within a b n"
    using aligned_dl[of a b] dl_le_aligned[of a b] by (auto simp: within_def intro: order_trans)
  then show ?thesis by (simp add: aligned_iff_edit_path)
qed


section \<open>The table of distance.go\<close>

text \<open>
  \<open>d\<close> is the flat slice of \<open>(la + 2) * (lb + 2)\<close> entries, \<open>da\<close> the map from a rune to its last
  position in \<open>ra\<close> (0 when absent, the zero value of a Go map) and \<open>db\<close> the last column of the
  current row where the two runes agree. All values stay non-negative: \<open>i1 < i\<close> and \<open>j1 < j\<close>
  hold in every cell (\<open>last_pos_less\<close>), so no subtraction of naturals is cut off.
\<close>

definition idx :: "nat \<Rightarrow> nat \<Rightarrow> nat \<Rightarrow> nat" where
  "idx w i j = i * w + j"

definition dl_init :: "nat \<Rightarrow> nat \<Rightarrow> nat list" where
  "dl_init la lb =
     (let maxDist = la + lb; w = lb + 2;
          d = replicate ((la + 2) * (lb + 2)) 0;
          d = d[idx w 0 0 := maxDist];
          d = fold (\<lambda>i d. d[idx w (i + 1) 0 := maxDist, idx w (i + 1) 1 := i]) [0..<la + 1] d
      in fold (\<lambda>j d. d[idx w 0 (j + 1) := maxDist, idx w 1 (j + 1) := j]) [0..<lb + 1] d)"

definition dl_cell ::
  "'a list \<Rightarrow> 'a list \<Rightarrow> ('a \<Rightarrow> nat) \<Rightarrow> nat \<Rightarrow> nat \<Rightarrow> nat \<times> nat list \<Rightarrow> nat \<times> nat list" where
  "dl_cell ra rb da i j = (\<lambda>(db, d).
     (let w = length rb + 2;
          i1 = da (rb ! (j - 1));
          j1 = db;
          cost = (if ra ! (i - 1) = rb ! (j - 1) then 0 else 1);
          db' = (if ra ! (i - 1) = rb ! (j - 1) then j else db);
          sub = d ! idx w i j + cost;
          ins = d ! idx w (i + 1) j + 1;
          del = d ! idx w i (j + 1) + 1;
          trans = d ! idx w i1 j1 + (i - i1 - 1) + 1 + (j - j1 - 1);
          best = sub;
          best = (if ins < best then ins else best);
          best = (if del < best then del else best);
          best = (if trans < best then trans else best)
      in (db', d[idx w (i + 1) (j + 1) := best])))"

definition dl_row ::
  "'a list \<Rightarrow> 'a list \<Rightarrow> nat \<Rightarrow> ('a \<Rightarrow> nat) \<times> nat list \<Rightarrow> ('a \<Rightarrow> nat) \<times> nat list" where
  "dl_row ra rb i = (\<lambda>(da, d).
     (let (db, d') = fold (dl_cell ra rb da i) [1..<length rb + 1] (0, d)
      in (da(ra ! (i - 1) := i), d')))"

definition dl_table :: "'a list \<Rightarrow> 'a list \<Rightarrow> nat list" where
  "dl_table ra rb =
     snd (fold (dl_row ra rb) [1..<length ra + 1] (\<lambda>_. 0, dl_init (length ra) (length rb)))"

definition dl_runes :: "'a list \<Rightarrow> 'a list \<Rightarrow> nat" where
  "dl_runes ra rb =
     (if length ra = 0 then length rb
      else if length rb = 0 then length ra
      else dl_table ra rb ! idx (length rb + 2) (length ra + 1) (length rb + 1))"

subsection \<open>Positions\<close>

definition last_pos :: "'a \<Rightarrow> 'a list \<Rightarrow> nat" where
  "last_pos c a = (if c \<in> set a then length a - gap c a else 0)"

lemma last_pos_Nil [simp]: "last_pos c [] = 0"
  by (simp add: last_pos_def)

lemma last_pos_Cons: "last_pos c (x # a) = (if c = x then Suc (length a) else last_pos c a)"
  by (auto simp: last_pos_def gap_def)

lemma last_pos_le: "last_pos c a \<le> length a"
  by (simp add: last_pos_def)

lemma last_pos_less: "length a < i \<Longrightarrow> last_pos c a < i"
  using last_pos_le[of c a] by simp

lemma last_pos_pos: "0 < last_pos c a \<longleftrightarrow> c \<in> set a"
  using length_takeWhile_less[of c a] by (auto simp: last_pos_def gap_def)

lemma gap_last_pos: "c \<in> set a \<Longrightarrow> gap c a = length a - last_pos c a"
  using length_takeWhile_less[of c a] by (auto simp: last_pos_def gap_def)

lemma rest_after_drop: "rest_after c a = drop (Suc (gap c a)) a"
  by (induction a) (auto simp: rest_after_def gap_def)

lemma rest_after_rev_take:
  assumes "c \<in> set (rev (take k xs))" and "k \<le> length xs"
  shows "rest_after c (rev (take k xs)) = rev (take (last_pos c (rev (take k xs)) - 1) xs)"
proof -
  let ?a = "rev (take k xs)"
  have g: "gap c ?a < k"
    using length_takeWhile_less[OF assms(1)] assms(2) by (simp add: gap_def)
  have "rest_after c ?a = drop (Suc (gap c ?a)) ?a"
    by (rule rest_after_drop)
  also have "\<dots> = rev (take (k - Suc (gap c ?a)) xs)"
    using assms(2) by (subst drop_rev) (simp add: min.absorb1 min.absorb2)
  finally show ?thesis
    using assms by (simp add: last_pos_def min.absorb2)
qed

lemma idx_inj: "j < w \<Longrightarrow> l < w \<Longrightarrow> idx w i j = idx w k l \<longleftrightarrow> i = k \<and> j = l"
proof
  assume a: "j < w" "l < w" "idx w i j = idx w k l"
  then have "(i * w + j) div w = (k * w + l) div w" "(i * w + j) mod w = (k * w + l) mod w"
    by (simp_all add: idx_def)
  with a show "i = k \<and> j = l" by simp
qed simp

lemma idx_bound: "i < r \<Longrightarrow> j < w \<Longrightarrow> idx w i j < r * w"
proof -
  assume "i < r" "j < w"
  then have "i * w + j < Suc i * w" by simp
  also have "\<dots> \<le> r * w" using \<open>i < r\<close> by (intro mult_le_mono1) simp
  finally show ?thesis by (simp add: idx_def)
qed

subsection \<open>The invariant of the table\<close>

definition pre :: "'a list \<Rightarrow> nat \<Rightarrow> 'a list" where
  "pre xs k = rev (take k xs)"

lemma pre_0 [simp]: "pre xs 0 = []"
  by (simp add: pre_def)

lemma length_pre: "k \<le> length xs \<Longrightarrow> length (pre xs k) = k"
  by (simp add: pre_def)

lemma pre_Suc: "k < length xs \<Longrightarrow> pre xs (Suc k) = xs ! k # pre xs k"
  by (simp add: pre_def take_Suc_rev)

text \<open>Rows before \<open>i\<close> are filled, and in row \<open>i\<close> the columns before \<open>j\<close>.\<close>

definition table_inv :: "'a list \<Rightarrow> 'a list \<Rightarrow> nat \<Rightarrow> nat \<Rightarrow> nat list \<Rightarrow> bool" where
  "table_inv ra rb i j d \<longleftrightarrow>
     (let la = length ra; lb = length rb; w = lb + 2 in
      length d = (la + 2) * w \<and>
      (\<forall>l\<le>lb + 1. d ! idx w 0 l = la + lb) \<and>
      (\<forall>k\<le>la + 1. d ! idx w k 0 = la + lb) \<and>
      (\<forall>k l. k \<le> la \<longrightarrow> l \<le> lb \<longrightarrow> (k < i \<or> l = 0 \<or> (k = i \<and> l < j)) \<longrightarrow>
         d ! idx w (k + 1) (l + 1) = dl (pre ra k) (pre rb l)))"

lemma table_invD:
  assumes "table_inv ra rb i j d"
  shows "length d = (length ra + 2) * (length rb + 2)"
    and "l \<le> length rb + 1 \<Longrightarrow> d ! idx (length rb + 2) 0 l = length ra + length rb"
    and "k \<le> length ra + 1 \<Longrightarrow> d ! idx (length rb + 2) k 0 = length ra + length rb"
    and "k \<le> length ra \<Longrightarrow> l \<le> length rb \<Longrightarrow> k < i \<or> l = 0 \<or> (k = i \<and> l < j) \<Longrightarrow>
      d ! idx (length rb + 2) (k + 1) (l + 1) = dl (pre ra k) (pre rb l)"
  using assms unfolding table_inv_def Let_def by blast+


lemma nth_update2:
  assumes "length d = r * w" "k < r" "l < w" "i < r" "j < w"
  shows "d[idx w i j := v] ! idx w k l = (if k = i \<and> l = j then v else d ! idx w k l)"
  using assms idx_inj[of j w l i k] idx_bound[of k r l w] idx_bound[of i r j w]
  by (auto simp: nth_list_update)

lemma init_columns:
  fixes m w n r k l :: nat and d :: "nat list"
  assumes "n \<le> r - 1" "length d = r * w" "2 \<le> w" "k < r" "l < w"
  defines "e \<equiv> fold (\<lambda>i d. d[idx w (i + 1) 0 := m, idx w (i + 1) 1 := i]) [0..<n] d"
  shows "length e = r * w \<and> e ! idx w k l =
     (if 1 \<le> k \<and> k \<le> n \<and> l = 0 then m else if 1 \<le> k \<and> k \<le> n \<and> l = 1 then k - 1 else d ! idx w k l)"
  unfolding e_def using assms(1)
proof (induction n)
  case 0
  then show ?case by (simp add: assms(2))
next
  case (Suc n)
  let ?e = "fold (\<lambda>i d. d[idx w (i + 1) 0 := m, idx w (i + 1) 1 := i]) [0..<n] d"
  have IH: "length ?e = r * w" and IHv: "?e ! idx w k l =
     (if 1 \<le> k \<and> k \<le> n \<and> l = 0 then m else if 1 \<le> k \<and> k \<le> n \<and> l = 1 then k - 1 else d ! idx w k l)"
    using Suc by simp_all
  have "(?e[idx w (n + 1) 0 := m, idx w (n + 1) 1 := n]) ! idx w k l =
     (if k = n + 1 \<and> l = 1 then n else if k = n + 1 \<and> l = 0 then m else ?e ! idx w k l)"
    using Suc.prems assms(3-5) IH by (simp add: nth_update2[where r = r])
  then show ?case using IH IHv by auto
qed

lemma init_rows:
  fixes m w n r k l :: nat and d :: "nat list"
  assumes "n \<le> w - 1" "length d = r * w" "2 \<le> r" "k < r" "l < w"
  defines "e \<equiv> fold (\<lambda>j d. d[idx w 0 (j + 1) := m, idx w 1 (j + 1) := j]) [0..<n] d"
  shows "length e = r * w \<and> e ! idx w k l =
     (if 1 \<le> l \<and> l \<le> n \<and> k = 0 then m else if 1 \<le> l \<and> l \<le> n \<and> k = 1 then l - 1 else d ! idx w k l)"
  unfolding e_def using assms(1)
proof (induction n)
  case 0
  then show ?case by (simp add: assms(2))
next
  case (Suc n)
  let ?e = "fold (\<lambda>j d. d[idx w 0 (j + 1) := m, idx w 1 (j + 1) := j]) [0..<n] d"
  have IH: "length ?e = r * w" and IHv: "?e ! idx w k l =
     (if 1 \<le> l \<and> l \<le> n \<and> k = 0 then m else if 1 \<le> l \<and> l \<le> n \<and> k = 1 then l - 1 else d ! idx w k l)"
    using Suc by simp_all
  have "(?e[idx w 0 (n + 1) := m, idx w 1 (n + 1) := n]) ! idx w k l =
     (if k = 1 \<and> l = n + 1 then n else if k = 0 \<and> l = n + 1 then m else ?e ! idx w k l)"
    using Suc.prems assms(3-5) IH by (simp add: nth_update2[where r = r])
  then show ?case using IH IHv by auto
qed

lemma table_inv_init: "table_inv ra rb 1 1 (dl_init (length ra) (length rb))"
proof -
  let ?la = "length ra" and ?lb = "length rb" and ?w = "length rb + 2"
  define d0 where "d0 = (replicate ((?la + 2) * ?w) (0::nat))[idx ?w 0 0 := ?la + ?lb]"
  define d1 where "d1 = fold (\<lambda>i d. d[idx ?w (i + 1) 0 := ?la + ?lb, idx ?w (i + 1) 1 := i]) [0..<?la + 1] d0"
  define d2 where "d2 = fold (\<lambda>j d. d[idx ?w 0 (j + 1) := ?la + ?lb, idx ?w 1 (j + 1) := j]) [0..<?lb + 1] d1"
  have l0: "length d0 = (?la + 2) * ?w"
    by (simp only: d0_def length_list_update length_replicate)
  have d0: "d0 ! idx ?w 0 0 = ?la + ?lb"
    unfolding d0_def using idx_bound[of 0 "?la + 2" 0 ?w]
    by (simp only: nth_list_update_eq length_replicate)
  have d1: "length d1 = (?la + 2) * ?w \<and> d1 ! idx ?w k l =
      (if 1 \<le> k \<and> k \<le> ?la + 1 \<and> l = 0 then ?la + ?lb else if 1 \<le> k \<and> k \<le> ?la + 1 \<and> l = 1 then k - 1
       else d0 ! idx ?w k l)"
    if "k < ?la + 2" "l < ?w" for k l
    unfolding d1_def using that l0 by (intro init_columns) auto
  have d2: "length d2 = (?la + 2) * ?w \<and> d2 ! idx ?w k l =
      (if 1 \<le> l \<and> l \<le> ?lb + 1 \<and> k = 0 then ?la + ?lb else if 1 \<le> l \<and> l \<le> ?lb + 1 \<and> k = 1 then l - 1
       else d1 ! idx ?w k l)"
    if "k < ?la + 2" "l < ?w" for k l
    unfolding d2_def using that d1[of 0 0] by (intro init_rows) auto
  have e: "dl_init ?la ?lb = d2"
    by (simp only: dl_init_def Let_def d0_def d1_def d2_def)
  have "length d2 = (?la + 2) * ?w"
    using d2[of 0 0] by simp
  moreover have "d2 ! idx ?w 0 l = ?la + ?lb" if "l \<le> ?lb + 1" for l
    using d2[of 0 l] d1[of 0 0] d0 that by (cases "l = 0") simp_all
  moreover have "d2 ! idx ?w k 0 = ?la + ?lb" if "k \<le> ?la + 1" for k
    using d2[of k 0] d1[of k 0] d0 that by (cases "k = 0") simp_all
  moreover have "d2 ! idx ?w (k + 1) (l + 1) = dl (pre ra k) (pre rb l)"
    if "k \<le> ?la" "l \<le> ?lb" "k = 0 \<or> l = 0" for k l
    using d2[of "k + 1" "l + 1"] d1[of "k + 1" "l + 1"] that
    by (cases "k = 0") (auto simp: length_pre)
  ultimately show ?thesis
    unfolding table_inv_def Let_def e by auto
qed

subsection \<open>One cell\<close>

lemma dl_Cons_Cons_trans:
  assumes t: "t = (if x \<in> set a \<and> y \<in> set b
        then dl (rest_after x a) (rest_after y b) + gap x a + 1 + gap y b else t)"
    and big: "\<not> (x \<in> set a \<and> y \<in> set b) \<Longrightarrow> dl a b + 1 \<le> t"
  shows "min t (min (dl a (x # b) + 1) (min (dl (y # a) b + 1) (dl a b + (if y = x then 0 else 1))))
       = dl (y # a) (x # b)"
proof (cases "x \<in> set a \<and> y \<in> set b")
  case True
  with t have "t = dl (rest_after x a) (rest_after y b) + gap x a + 1 + gap y b" by simp
  with True show ?thesis by (simp add: Let_def min.commute)
next
  case False
  with big have "dl a b + (if y = x then 0 else 1) \<le> t" by auto
  then have "min (dl a (x # b) + 1) (min (dl (y # a) b + 1) (dl a b + (if y = x then 0 else 1))) \<le> t"
    by (simp add: min_le_iff_disj)
  with False show ?thesis by (simp only: dl.simps Let_def if_False min.absorb2)
qed

lemma trans_term:
  fixes x y :: 'a and i j :: nat and ra rb :: "'a list"
  assumes inv: "table_inv ra rb i j d" and i: "1 \<le> i" "i \<le> length ra" and j: "1 \<le> j" "j \<le> length rb"
  defines "a \<equiv> pre ra (i - 1)" and "b \<equiv> pre rb (j - 1)"
  defines "i1 \<equiv> last_pos x a" and "j1 \<equiv> last_pos y b"
  defines "t \<equiv> d ! idx (length rb + 2) i1 j1 + (i - i1 - 1) + 1 + (j - j1 - 1)"
  shows "x \<in> set a \<Longrightarrow> y \<in> set b \<Longrightarrow>
      t = dl (rest_after x a) (rest_after y b) + gap x a + 1 + gap y b"
    and "\<not> (x \<in> set a \<and> y \<in> set b) \<Longrightarrow> dl a b + 1 \<le> t"
proof -
  have i1: "i1 \<le> i - 1" and j1: "j1 \<le> j - 1"
    using last_pos_le[of x a] last_pos_le[of y b] i j by (simp_all add: length_pre a_def b_def i1_def j1_def)
  show "t = dl (rest_after x a) (rest_after y b) + gap x a + 1 + gap y b"
    if m: "x \<in> set a" "y \<in> set b"
  proof -
    have p: "0 < i1" "0 < j1" using m by (simp_all add: last_pos_pos i1_def j1_def)
    have "d ! idx (length rb + 2) (i1 - 1 + 1) (j1 - 1 + 1) = dl (pre ra (i1 - 1)) (pre rb (j1 - 1))"
      by (rule table_invD(4)[OF inv]) (use i1 j1 i j in auto)
    moreover have "rest_after x a = pre ra (i1 - 1)" "rest_after y b = pre rb (j1 - 1)"
      using m i j rest_after_rev_take[of x "i - 1" ra] rest_after_rev_take[of y "j - 1" rb]
      by (simp_all add: pre_def a_def b_def i1_def j1_def)
    moreover have "gap x a = i - i1 - 1" "gap y b = j - j1 - 1"
      using gap_last_pos[OF m(1)] gap_last_pos[OF m(2)] i j
      by (simp_all add: length_pre a_def b_def i1_def j1_def)
    ultimately show ?thesis
      using p by (simp add: t_def)
  qed
  show "dl a b + 1 \<le> t" if m: "\<not> (x \<in> set a \<and> y \<in> set b)"
  proof -
    from m have "i1 = 0 \<or> j1 = 0" by (auto simp: last_pos_def i1_def j1_def)
    then have "d ! idx (length rb + 2) i1 j1 = length ra + length rb"
      using table_invD(2)[OF inv, of j1] table_invD(3)[OF inv, of i1] i1 j1 i j by auto
    then show ?thesis
      using dl_bound[of a b] i j by (simp add: length_pre t_def a_def b_def)
  qed
qed

lemma table_inv_update:
  assumes inv: "table_inv ra rb i j d" and ij: "i \<le> length ra" "j \<le> length rb"
  shows "table_inv ra rb i (Suc j) (d[idx (length rb + 2) (i + 1) (j + 1) := dl (pre ra i) (pre rb j)])"
proof -
  let ?w = "length rb + 2"
  let ?e = "d[idx ?w (i + 1) (j + 1) := dl (pre ra i) (pre rb j)]"
  note D = table_invD[OF inv]
  have upd: "?e ! idx ?w k l = (if k = i + 1 \<and> l = j + 1 then dl (pre ra i) (pre rb j) else d ! idx ?w k l)"
    if "k < length ra + 2" "l < ?w" for k l
    by (rule nth_update2[OF D(1)]) (use that ij in auto)
  have "length ?e = (length ra + 2) * ?w"
    using D(1) by (simp only: length_list_update)
  moreover have "\<forall>l\<le>length rb + 1. ?e ! idx ?w 0 l = length ra + length rb"
    using upd[of 0] D(2) by simp
  moreover have "\<forall>k\<le>length ra + 1. ?e ! idx ?w k 0 = length ra + length rb"
    using upd[of _ 0] D(3) by simp
  moreover have "?e ! idx ?w (k + 1) (l + 1) = dl (pre ra k) (pre rb l)"
    if "k \<le> length ra" "l \<le> length rb" "k < i \<or> l = 0 \<or> (k = i \<and> l < Suc j)" for k l
    using upd[of "k + 1" "l + 1"] D(4)[of k l] that by (cases "k = i \<and> l = j") auto
  ultimately show ?thesis
    unfolding table_inv_def Let_def by blast
qed

lemma if_less_min: "(if (x::nat) < y then x else y) = min x y"
  by (simp add: min_def)

lemma dl_cell_correct:
  assumes inv: "table_inv ra rb i j d" and i: "1 \<le> i" "i \<le> length ra" and j: "1 \<le> j" "j \<le> length rb"
    and da: "\<And>c. da c = last_pos c (pre ra (i - 1))"
    and db: "db = last_pos (ra ! (i - 1)) (pre rb (j - 1))"
  shows "\<exists>d'. dl_cell ra rb da i j (db, d) = (last_pos (ra ! (i - 1)) (pre rb j), d')
           \<and> table_inv ra rb i (Suc j) d'"
proof -
  let ?w = "length rb + 2" and ?y = "ra ! (i - 1)" and ?x = "rb ! (j - 1)"
  let ?a = "pre ra (i - 1)" and ?b = "pre rb (j - 1)"
  let ?i1 = "last_pos ?x ?a" and ?j1 = "last_pos ?y ?b"
  let ?t = "d ! idx ?w ?i1 ?j1 + (i - ?i1 - 1) + 1 + (j - ?j1 - 1)"
  note D = table_invD[OF inv]
  have pi: "pre ra i = ?y # ?a" and pj: "pre rb j = ?x # ?b"
    using pre_Suc[of "i - 1" ra] pre_Suc[of "j - 1" rb] i j by simp_all
  have sub: "d ! idx ?w i j = dl ?a ?b"
    using D(4)[of "i - 1" "j - 1"] i j by simp
  have ins: "d ! idx ?w (i + 1) j = dl (?y # ?a) ?b"
    using D(4)[of i "j - 1"] i j pi by simp
  have del: "d ! idx ?w i (j + 1) = dl ?a (?x # ?b)"
    using D(4)[of "i - 1" j] i j pj by simp
  have val: "min ?t (min (dl ?a (?x # ?b) + 1) (min (dl (?y # ?a) ?b + 1)
      (dl ?a ?b + (if ?y = ?x then 0 else 1)))) = dl (pre ra i) (pre rb j)"
    unfolding pi pj by (rule dl_Cons_Cons_trans)
      (use trans_term[OF inv i j, of ?x ?y] in auto)
  let ?d' = "d[idx ?w (i + 1) (j + 1) := dl (pre ra i) (pre rb j)]"
  have "dl_cell ra rb da i j (db, d) = ((if ?y = ?x then j else ?j1), ?d')"
    unfolding val[symmetric] dl_cell_def Let_def prod.case da db sub ins del if_less_min
    by (rule refl)
  moreover have "(if ?y = ?x then j else ?j1) = last_pos ?y (pre rb j)"
    using j by (simp add: pj last_pos_Cons length_pre)
  moreover have "table_inv ra rb i (Suc j) ?d'"
    by (rule table_inv_update[OF inv i(2) j(2)])
  ultimately show ?thesis by simp
qed


subsection \<open>Rows and the whole table\<close>

lemma table_inv_next_row:
  "table_inv ra rb i (Suc (length rb)) d \<Longrightarrow> table_inv ra rb (Suc i) 1 d"
proof -
  assume inv: "table_inv ra rb i (Suc (length rb)) d"
  have "k < i \<or> l = 0 \<or> (k = i \<and> l < Suc (length rb))"
    if "k < Suc i \<or> l = 0 \<or> (k = Suc i \<and> l < 1)" "l \<le> length rb" for k l :: nat
    using that by auto
  with inv show ?thesis
    unfolding table_inv_def Let_def by blast
qed

lemma dl_row_cells:
  assumes i: "1 \<le> i" "i \<le> length ra" and inv: "table_inv ra rb i 1 d"
    and da: "\<And>c. da c = last_pos c (pre ra (i - 1))" and "n \<le> length rb"
  shows "\<exists>d'. fold (dl_cell ra rb da i) [1..<n + 1] (0, d) = (last_pos (ra ! (i - 1)) (pre rb n), d')
    \<and> table_inv ra rb i (n + 1) d'"
  using \<open>n \<le> length rb\<close>
proof (induction n)
  case 0
  then show ?case using inv by simp
next
  case (Suc n)
  then obtain d' where d': "fold (dl_cell ra rb da i) [1..<n + 1] (0, d) =
      (last_pos (ra ! (i - 1)) (pre rb n), d')" "table_inv ra rb i (n + 1) d'" by auto
  from dl_cell_correct[OF d'(2) i _ _ da, of "last_pos (ra ! (i - 1)) (pre rb n)"] Suc.prems
  obtain d'' where "dl_cell ra rb da i (n + 1) (last_pos (ra ! (i - 1)) (pre rb n), d') =
      (last_pos (ra ! (i - 1)) (pre rb (n + 1)), d'')" "table_inv ra rb i (Suc (n + 1)) d''" by auto
  with d' show ?case by simp
qed

lemma dl_row_correct:
  assumes i: "1 \<le> i" "i \<le> length ra" and inv: "table_inv ra rb i 1 d"
    and da: "\<And>c. da c = last_pos c (pre ra (i - 1))"
  shows "\<exists>da' d'. dl_row ra rb i (da, d) = (da', d') \<and> (\<forall>c. da' c = last_pos c (pre ra i))
    \<and> table_inv ra rb (Suc i) 1 d'"
proof -
  from dl_row_cells[OF i inv da, of "length rb"] obtain d' where
    d': "fold (dl_cell ra rb da i) [1..<length rb + 1] (0, d) =
      (last_pos (ra ! (i - 1)) (pre rb (length rb)), d')" "table_inv ra rb i (length rb + 1) d'" by auto
  have "pre ra i = ra ! (i - 1) # pre ra (i - 1)"
    using pre_Suc[of "i - 1" ra] i by simp
  then have "(da(ra ! (i - 1) := i)) c = last_pos c (pre ra i)" for c
    using da[of c] i by (simp add: last_pos_Cons length_pre)
  with d' table_inv_next_row[of ra rb i d'] show ?thesis
    by (simp add: dl_row_def)
qed

lemma dl_rows_correct:
  assumes "n \<le> length ra"
  shows "\<exists>da d. fold (dl_row ra rb) [1..<n + 1] (\<lambda>_. 0, dl_init (length ra) (length rb)) = (da, d)
    \<and> (\<forall>c. da c = last_pos c (pre ra n)) \<and> table_inv ra rb (Suc n) 1 d"
  using assms
proof (induction n)
  case 0
  show ?case using table_inv_init[of ra rb] by simp
next
  case (Suc n)
  then obtain da d where d: "fold (dl_row ra rb) [1..<n + 1] (\<lambda>_. 0, dl_init (length ra) (length rb)) = (da, d)"
    "\<forall>c. da c = last_pos c (pre ra n)" "table_inv ra rb (Suc n) 1 d" by auto
  with dl_row_correct[of "Suc n" ra rb d da] Suc.prems show ?case by auto
qed

lemma dl_runes_dl: "dl_runes ra rb = dl (rev ra) (rev rb)"
proof (cases "ra = [] \<or> rb = []")
  case True
  then show ?thesis by (auto simp: dl_runes_def)
next
  case False
  from dl_rows_correct[of "length ra" ra rb] obtain da d where
    d: "fold (dl_row ra rb) [1..<length ra + 1] (\<lambda>_. 0, dl_init (length ra) (length rb)) = (da, d)"
      "table_inv ra rb (Suc (length ra)) 1 d" by auto
  from table_invD(4)[OF d(2), of "length ra" "length rb"] d(1) False show ?thesis
    by (simp add: dl_runes_def dl_table_def pre_def)
qed

text \<open>The distance is the least number of edits that turn one word into the other.\<close>

lemma dl_runes_le_iff: "dl_runes a b \<le> n \<longleftrightarrow> (\<exists>k\<le>n. edit_path k a b)"
  by (simp add: dl_runes_dl dl_le_iff edit_path_rev_iff)

lemma dl_runes_edit_path: "edit_path (dl_runes a b) a b"
proof -
  obtain k where k: "k \<le> dl_runes a b" "edit_path k a b"
    using dl_runes_le_iff[of a b "dl_runes a b"] by auto
  moreover from k(2) have "dl_runes a b \<le> k"
    using dl_runes_le_iff[of a b k] by blast
  ultimately show ?thesis by simp
qed

lemma dl_runes_refl [simp]: "dl_runes a a = 0"
  using dl_runes_le_iff[of a a 0] edit_path.stop[of a] by auto

lemma dl_runes_0: "dl_runes a b = 0 \<longleftrightarrow> a = b"
  using dl_runes_edit_path[of a b] by (auto elim: edit_path_0E)

lemma dl_runes_sym: "dl_runes a b = dl_runes b a"
  by (intro order_antisym) (meson dl_runes_edit_path dl_runes_le_iff edit_path_sym order_refl)+

lemma dl_runes_triangle: "dl_runes a c \<le> dl_runes a b + dl_runes b c"
  using dl_runes_le_iff edit_path_append[OF dl_runes_edit_path dl_runes_edit_path] by blast

lemma dl_runes_bounds: "dl_runes a b \<le> max (length a) (length b)"
  using dl_bound_max[of "rev a" "rev b"] by (simp add: dl_runes_dl)


section \<open>The distance of two Go strings\<close>

definition DamerauLevenshtein :: "string \<Rightarrow> string \<Rightarrow> nat" where
  "DamerauLevenshtein a b = dl_runes (utf8_decode a) (utf8_decode b)"

text \<open>The laws a search structure over a distance relies on; two words at distance 0 may differ.\<close>

locale pseudo_metric =
  fixes dist :: "'w \<Rightarrow> 'w \<Rightarrow> nat"
  assumes dist_refl: "dist x x = 0"
    and dist_sym: "dist x y = dist y x"
    and dist_triangle: "dist x z \<le> dist x y + dist y z"
begin

lemma dist_0_cong: "dist x y = 0 \<Longrightarrow> dist x z = dist y z"
  using dist_triangle[of x z y] dist_triangle[of y z x] dist_sym[of x y] by simp

lemma prune_window:
  assumes "int (dist q w) \<le> t"
  shows "int (dist q v) - t \<le> int (dist w v) \<and> int (dist w v) \<le> int (dist q v) + t"
  using assms dist_triangle[of q v w] dist_triangle[of w v q] dist_sym[of q w] by simp

end

interpretation dlm: pseudo_metric DamerauLevenshtein
  unfolding DamerauLevenshtein_def
  by unfold_locales (simp, rule dl_runes_sym, rule dl_runes_triangle)

section \<open>Properties\<close>

lemma edit_path_length: "edit_path k a b \<Longrightarrow> length b \<le> length a + k"
  by (induction rule: edit_path.induct) (auto dest: edit1_length)

lemma dl_runes_lower: "length b - length a \<le> dl_runes a b"
  using edit_path_length[OF dl_runes_edit_path[of a b]] by linarith

text \<open>C37: The table computation of DamerauLevenshtein returns the least number of edits
  (insert, delete or substitute a character, or exchange two neighbours, in any sequence)
  that lead from one decoded string to the other.\<close>

theorem DamerauLevenshtein_least_edits:
  "DamerauLevenshtein a b \<le> n \<longleftrightarrow> (\<exists>k\<le>n. edit_path k (utf8_decode a) (utf8_decode b))"
  by (simp add: DamerauLevenshtein_def dl_runes_le_iff)

text \<open>DamerauLevenshtein is symmetric, satisfies the triangle inequality that the BK-tree
  prunes with, is 0 exactly on strings that decode to the same characters, and lies between
  the difference and the maximum of the two lengths in characters.\<close>

theorem DamerauLevenshtein_metric:
  "DamerauLevenshtein a b = DamerauLevenshtein b a \<and>
   DamerauLevenshtein a c \<le> DamerauLevenshtein a b + DamerauLevenshtein b c \<and>
   (DamerauLevenshtein a b = 0 \<longleftrightarrow> utf8_decode a = utf8_decode b) \<and>
   length (utf8_decode b) - length (utf8_decode a) \<le> DamerauLevenshtein a b \<and>
   DamerauLevenshtein a b \<le> max (length (utf8_decode a)) (length (utf8_decode b))"
  unfolding DamerauLevenshtein_def
  by (intro conjI dl_runes_sym dl_runes_triangle dl_runes_0 dl_runes_lower dl_runes_bounds)

end
