(* ===== verification/BKTree.thy ===== *)
theory BKTree
  imports EditDistance
begin

text \<open>
  The Burkhard-Keller tree of typosquat/bktree.go. A node's \<open>children\<close> map is an association
  list from distance to child, in the order in which Go enumerates the map. The operations
  take the distance as an argument, so that the lemmas rest only on the laws of
  \<open>pseudo_metric\<close>; \<open>BKTree_Insert\<close> and \<open>BKTree_Search\<close> are the code's operations, over
  \<open>DamerauLevenshtein\<close>. The lock of the Go type serialises the calls and is not modelled.
\<close>

datatype 'w bkNode = BKNode (bk_word: 'w) (bk_children: "(nat \<times> 'w bkNode) list")

record 'w BKTree =
  bk_root :: "'w bkNode option"
  bk_size :: nat

record 'w SearchResult =
  Word :: 'w
  Distance :: nat

definition NewBKTree :: "'w BKTree" where
  "NewBKTree = \<lparr>bk_root = None, bk_size = 0\<rparr>"

lemma size_child [termination_simp]:
  "map_of cs d = Some c \<Longrightarrow> size c < Suc (size_list (size_prod (\<lambda>_. 0) size) cs)"
proof -
  assume "map_of cs d = Some c"
  then have "(d, c) \<in> set cs" by (rule map_of_SomeD)
  then have "size_prod (\<lambda>_. 0) size (d, c) \<le> size_list (size_prod (\<lambda>_. 0) size) cs"
    by (intro size_list_estimation'[where x = "(d, c)"]) auto
  then show ?thesis by simp
qed

text \<open>The descent of \<open>Insert\<close>; the flag says that a node was added.\<close>

fun bk_insert :: "('w \<Rightarrow> 'w \<Rightarrow> nat) \<Rightarrow> 'w \<Rightarrow> 'w bkNode \<Rightarrow> 'w bkNode \<times> bool" where
  "bk_insert dist w (BKNode v cs) =
     (let d = dist w v in
      if d = 0 then (BKNode v cs, False)
      else case map_of cs d of
             None \<Rightarrow> (BKNode v (cs @ [(d, BKNode w [])]), True)
           | Some c \<Rightarrow> (let (c', added) = bk_insert dist w c
                        in (BKNode v (AList.update d c' cs), added)))"

definition bk_tree_insert :: "('w \<Rightarrow> 'w \<Rightarrow> nat) \<Rightarrow> 'w BKTree \<Rightarrow> 'w \<Rightarrow> 'w BKTree" where
  "bk_tree_insert dist t w =
     (case bk_root t of
        None \<Rightarrow> \<lparr>bk_root = Some (BKNode w []), bk_size = bk_size t + 1\<rparr>
      | Some n \<Rightarrow>
          (let (n', added) = bk_insert dist w n
           in \<lparr>bk_root = Some n', bk_size = (if added then bk_size t + 1 else bk_size t)\<rparr>))"

fun bk_count :: "'w bkNode \<Rightarrow> nat" where
  "bk_count (BKNode v cs) = Suc (sum_list (map (\<lambda>(d, c). bk_count c) cs))"

lemma bk_count_pos [simp]: "0 < bk_count n"
  by (cases n) simp

text \<open>
  The loop of \<open>Search\<close>. The stack's top is the head of the list: the children are pushed in
  enumeration order, so the last one is popped first.
\<close>

definition bk_visit :: "int \<Rightarrow> nat \<Rightarrow> 'w bkNode \<Rightarrow> 'w bkNode list" where
  "bk_visit threshold d n =
     map snd (filter (\<lambda>(cd, c). int d - threshold \<le> int cd \<and> int cd \<le> int d + threshold) (bk_children n))"

lemma bk_visit_count: "sum_list (map bk_count (bk_visit t d n)) < bk_count n"
proof (cases n)
  case (BKNode v cs)
  have "sum_list (map bk_count (map snd (filter P cs))) \<le> sum_list (map (\<lambda>(d, c). bk_count c) cs)" for P
    by (induction cs) auto
  with BKNode show ?thesis by (simp add: bk_visit_def less_Suc_eq_le)
qed

function bk_search_loop ::
  "('w \<Rightarrow> 'w \<Rightarrow> nat) \<Rightarrow> 'w \<Rightarrow> int \<Rightarrow> 'w bkNode list \<Rightarrow> 'w SearchResult list \<Rightarrow> 'w SearchResult list" where
  "bk_search_loop dist query threshold [] results = results"
| "bk_search_loop dist query threshold (node # stack) results =
     (let d = dist query (bk_word node);
          results' = (if int d \<le> threshold then results @ [\<lparr>Word = bk_word node, Distance = d\<rparr>] else results)
      in bk_search_loop dist query threshold (rev (bk_visit threshold d node) @ stack) results')"
  by pat_completeness auto
termination
  by (relation "measure (\<lambda>(dist, q, t, st, r). sum_list (map bk_count st))")
    (auto simp: rev_map[symmetric] intro: bk_visit_count)

definition bk_tree_search :: "('w \<Rightarrow> 'w \<Rightarrow> nat) \<Rightarrow> 'w BKTree \<Rightarrow> 'w \<Rightarrow> int \<Rightarrow> 'w SearchResult list" where
  "bk_tree_search dist t query threshold =
     (case bk_root t of None \<Rightarrow> [] | Some n \<Rightarrow> bk_search_loop dist query threshold [n] [])"

definition BKTree_Insert :: "string BKTree \<Rightarrow> string \<Rightarrow> string BKTree" where
  "BKTree_Insert = bk_tree_insert DamerauLevenshtein"

definition BKTree_Search :: "string BKTree \<Rightarrow> string \<Rightarrow> int \<Rightarrow> string SearchResult list" where
  "BKTree_Search = bk_tree_search DamerauLevenshtein"

definition BKTree_Size :: "'w BKTree \<Rightarrow> nat" where
  "BKTree_Size t = bk_size t"

section \<open>Words of a tree and the invariant\<close>

fun bk_words :: "'w bkNode \<Rightarrow> 'w list" where
  "bk_words (BKNode v cs) = v # concat (map (\<lambda>(d, c). bk_words c) cs)"

fun bk_ok :: "('w \<Rightarrow> 'w \<Rightarrow> nat) \<Rightarrow> 'w bkNode \<Rightarrow> bool" where
  "bk_ok dist (BKNode v cs) \<longleftrightarrow>
     distinct (map fst cs) \<and>
     (\<forall>(d, c) \<in> set cs. 0 < d \<and> (\<forall>u \<in> set (bk_words c). dist u v = d) \<and> bk_ok dist c)"

definition bk_tree_words :: "'w BKTree \<Rightarrow> 'w list" where
  "bk_tree_words t = (case bk_root t of None \<Rightarrow> [] | Some n \<Rightarrow> bk_words n)"

definition bk_tree_ok :: "('w \<Rightarrow> 'w \<Rightarrow> nat) \<Rightarrow> 'w BKTree \<Rightarrow> bool" where
  "bk_tree_ok dist t \<longleftrightarrow>
     (case bk_root t of None \<Rightarrow> True | Some n \<Rightarrow> bk_ok dist n) \<and> bk_size t = length (bk_tree_words t)"

text \<open>What a linear scan over the words would return.\<close>

definition bk_hits :: "('w \<Rightarrow> 'w \<Rightarrow> nat) \<Rightarrow> 'w \<Rightarrow> int \<Rightarrow> 'w list \<Rightarrow> 'w SearchResult list" where
  "bk_hits dist q t ws =
     map (\<lambda>w. \<lparr>Word = w, Distance = dist q w\<rparr>) (filter (\<lambda>w. int (dist q w) \<le> t) ws)"

lemma bk_hits_simps [simp]:
  "bk_hits dist q t [] = []"
  "bk_hits dist q t (xs @ ys) = bk_hits dist q t xs @ bk_hits dist q t ys"
  "bk_hits dist q t (w # ws) =
     (if int (dist q w) \<le> t then [\<lparr>Word = w, Distance = dist q w\<rparr>] else []) @ bk_hits dist q t ws"
  by (simp_all add: bk_hits_def)

lemma bk_hits_mset: "mset ws = mset ws' \<Longrightarrow> mset (bk_hits dist q t ws) = mset (bk_hits dist q t ws')"
  by (simp add: bk_hits_def)

lemma bk_ok_child:
  assumes "bk_ok dist (BKNode v cs)" "(d, c) \<in> set cs"
  shows "0 < d" "bk_ok dist c" "u \<in> set (bk_words c) \<Longrightarrow> dist u v = d"
  using assms by auto

lemma length_bk_words: "length (bk_words n) = bk_count n"
  by (induction n rule: bk_count.induct)
    (auto simp: length_concat o_def intro!: arg_cong[where f = sum_list])


lemma update_at:
  "d \<notin> fst ` set as \<Longrightarrow> AList.update d c' (as @ (d, c) # bs) = as @ (d, c') # bs"
  by (induction as) auto

lemma map_of_splitE:
  assumes "map_of cs d = Some c"
  obtains as bs where "cs = as @ (d, c) # bs" "d \<notin> fst ` set as"
  using assms
proof (induction cs arbitrary: thesis)
  case (Cons p cs)
  show ?case
  proof (cases "fst p = d")
    case True
    with Cons.prems(2) have "p = (d, c)" by (cases p) simp
    with Cons.prems(1)[of "[]" cs] show ?thesis by simp
  next
    case False
    with Cons.prems(2) have "map_of cs d = Some c" by (cases p) simp
    then obtain as bs where "cs = as @ (d, c) # bs" "d \<notin> fst ` set as"
      using Cons.IH by blast
    with False Cons.prems(1)[of "p # as" bs] show ?thesis by simp
  qed
qed simp

context pseudo_metric
begin

lemma bk_insert_correct:
  "bk_ok dist n \<Longrightarrow> bk_insert dist w n = (n', added) \<Longrightarrow>
   bk_ok dist n' \<and> (added \<longleftrightarrow> (\<forall>u\<in>set (bk_words n). dist w u \<noteq> 0))
   \<and> mset (bk_words n') = (if added then {#w#} else {#}) + mset (bk_words n)"
proof (induction n arbitrary: n' added)
  case (BKNode v cs)
  let ?d = "dist w v"
  consider (dup) "?d = 0" | (new) "?d \<noteq> 0" "map_of cs ?d = None"
    | (down) c where "?d \<noteq> 0" "map_of cs ?d = Some c" by (cases "map_of cs ?d") auto
  then show ?case
  proof cases
    case dup
    with BKNode.prems show ?thesis by auto
  next
    case new
    have "0 < dist w u" if "(d, c) \<in> set cs" "u \<in> set (bk_words c)" for d c u
    proof -
      have "dist u v = d" "0 < d" using BKNode.prems(1) that by auto
      moreover have "d \<noteq> ?d" using new(2) that(1) by (force simp: map_of_eq_None_iff)
      ultimately show ?thesis using dist_0_cong by (metis gr0I)
    qed
    moreover have "n' = BKNode v (cs @ [(?d, BKNode w [])])" "added"
      using BKNode.prems(2) new by simp_all
    ultimately show ?thesis
      using BKNode.prems(1) new by (auto simp: map_of_eq_None_iff)
  next
    case (down c)
    obtain as bs where cs: "cs = as @ (?d, c) # bs" "?d \<notin> fst ` set as"
      using down(2) by (rule map_of_splitE)
    obtain c' where c': "bk_insert dist w c = (c', added)" and n': "n' = BKNode v (as @ (?d, c') # bs)"
      using BKNode.prems(2) down cs by (auto simp: update_at split: prod.splits)
    have ok: "bk_ok dist c" "\<And>u. u \<in> set (bk_words c) \<Longrightarrow> dist u v = ?d"
      using BKNode.prems(1) cs(1) by auto
    have IH: "bk_ok dist c'" "added \<longleftrightarrow> (\<forall>u\<in>set (bk_words c). dist w u \<noteq> 0)"
        "mset (bk_words c') = (if added then {#w#} else {#}) + mset (bk_words c)"
      using BKNode.IH[of "(?d, c)" c, OF _ _ ok(1) c'] cs(1) by simp_all
    then have "set (bk_words c') \<subseteq> insert w (set (bk_words c))"
      by (auto dest!: arg_cong[where f = set_mset] split: if_splits)
    then have keys: "\<And>u. u \<in> set (bk_words c') \<Longrightarrow> dist u v = ?d" using ok(2) by auto
    have others: "dist w u \<noteq> 0" if "(d, e) \<in> set (as @ bs)" "u \<in> set (bk_words e)" for d e u
    proof -
      have "?d \<notin> fst ` set (as @ bs)" using BKNode.prems(1) by (simp add: cs(1) image_Un)
      with that(1) have "d \<noteq> ?d" by force
      moreover have "dist u v = d" using bk_ok_child[OF BKNode.prems(1), of d e] that by (auto simp: cs(1))
      ultimately show ?thesis using dist_0_cong by metis
    qed
    have "bk_ok dist n'" using BKNode.prems(1) IH(1) keys down(1) by (auto simp: n' cs(1))
    moreover have "added \<longleftrightarrow> (\<forall>u\<in>set (bk_words (BKNode v cs)). dist w u \<noteq> 0)"
      using IH(2) down(1) others by (auto simp: cs(1))
    ultimately show ?thesis using IH(3) by (simp add: n' cs(1))
  qed
qed

lemma bk_tree_insert_ok:
  assumes "bk_tree_ok dist t"
  shows "bk_tree_ok dist (bk_tree_insert dist t w)"
    and "set (bk_tree_words (bk_tree_insert dist t w)) \<subseteq> insert w (set (bk_tree_words t))"
    and "set (bk_tree_words t) \<subseteq> set (bk_tree_words (bk_tree_insert dist t w))"
    and "\<exists>u\<in>set (bk_tree_words (bk_tree_insert dist t w)). dist w u = 0"
proof -
  have "bk_tree_ok dist (bk_tree_insert dist t w)
    \<and> set (bk_tree_words (bk_tree_insert dist t w)) \<subseteq> insert w (set (bk_tree_words t))
    \<and> set (bk_tree_words t) \<subseteq> set (bk_tree_words (bk_tree_insert dist t w))
    \<and> (\<exists>u\<in>set (bk_tree_words (bk_tree_insert dist t w)). dist w u = 0)"
  proof (cases "bk_root t")
    case None
    with assms show ?thesis
      by (simp add: bk_tree_ok_def bk_tree_insert_def bk_tree_words_def dist_refl)
  next
    case (Some n)
    obtain n' added where ins: "bk_insert dist w n = (n', added)" by fastforce
    have "bk_ok dist n" using assms Some by (simp add: bk_tree_ok_def)
    note c = bk_insert_correct[OF this ins]
    then have m: "mset (bk_words n') = (if added then {#w#} else {#}) + mset (bk_words n)" by blast
    have "length (bk_words n') = (if added then 1 else 0) + length (bk_words n)"
      using arg_cong[OF m, of size] by simp
    moreover have "set (bk_words n') = (if added then {w} else {}) \<union> set (bk_words n)"
      using arg_cong[OF m, of set_mset] by simp
    moreover have "added \<longleftrightarrow> (\<forall>u\<in>set (bk_words n). dist w u \<noteq> 0)" "bk_ok dist n'"
      using c by blast+
    moreover note ins Some
    ultimately show ?thesis
      using assms by (auto simp: bk_tree_ok_def bk_tree_insert_def bk_tree_words_def dist_refl)
  qed
  then show "bk_tree_ok dist (bk_tree_insert dist t w)"
    and "set (bk_tree_words (bk_tree_insert dist t w)) \<subseteq> insert w (set (bk_tree_words t))"
    and "set (bk_tree_words t) \<subseteq> set (bk_tree_words (bk_tree_insert dist t w))"
    and "\<exists>u\<in>set (bk_tree_words (bk_tree_insert dist t w)). dist w u = 0" by blast+
qed


text \<open>Pruning never cuts a subtree that holds a word within the threshold.\<close>

lemma pruned_far:
  assumes "bk_ok dist (BKNode v cs)" "(d, c) \<in> set cs" "u \<in> set (bk_words c)"
    and "int (dist q u) \<le> t"
  shows "int (dist q v) - t \<le> int d \<and> int d \<le> int (dist q v) + t"
proof -
  have "dist u v = d" using assms(1-3) by auto
  with prune_window[OF assms(4), of v] show ?thesis by simp
qed

lemma hits_visit:
  assumes ok: "bk_ok dist n"
  shows "mset (bk_hits dist q t (concat (map bk_words (bk_visit t (dist q (bk_word n)) n)))) =
     mset (bk_hits dist q t (tl (bk_words n)))"
proof (cases n)
  case (BKNode v cs)
  have "mset (bk_hits dist q t (concat (map bk_words (map snd (filter P ds))))) =
      mset (bk_hits dist q t (concat (map (\<lambda>(d, c). bk_words c) ds)))"
    if P: "\<And>d c u. (d, c) \<in> set ds \<Longrightarrow> u \<in> set (bk_words c) \<Longrightarrow> int (dist q u) \<le> t \<Longrightarrow> P (d, c)"
    for P ds
    using P
  proof (induction ds)
    case (Cons p ds)
    obtain d c where p: "p = (d, c)" by fastforce
    have "bk_hits dist q t (bk_words c) = []" if "\<not> P p"
      using Cons.prems[of d c] that p by (auto simp: bk_hits_def filter_empty_conv)
    with Cons show ?case by (auto simp: p)
  qed simp
  from this[of cs] pruned_far[OF ok[unfolded BKNode]] show ?thesis
    unfolding BKNode bk_visit_def by simp
qed

lemma bk_visit_ok: "bk_ok dist n \<Longrightarrow> list_all (bk_ok dist) (bk_visit t d n)"
  by (cases n) (auto simp: bk_visit_def list_all_iff dest: bspec)

lemma bk_words_hd: "bk_words n = bk_word n # tl (bk_words n)"
  by (cases n) simp

lemma mset_concat_rev: "mset (concat (rev xs)) = mset (concat xs)"
  by (induction xs) auto

lemma bk_search_loop_mset:
  "list_all (bk_ok dist) stack \<Longrightarrow>
   mset (bk_search_loop dist q t stack res) = mset res + mset (bk_hits dist q t (concat (map bk_words stack)))"
proof (induction "sum_list (map bk_count stack)" arbitrary: stack res rule: less_induct)
  case less
  show ?case
  proof (cases stack)
    case (Cons n st)
    let ?d = "dist q (bk_word n)"
    let ?kids = "rev (bk_visit t ?d n)"
    let ?res = "if int ?d \<le> t then res @ [\<lparr>Word = bk_word n, Distance = ?d\<rparr>] else res"
    have ok: "list_all (bk_ok dist) (?kids @ st)" "bk_ok dist n"
      using less.prems Cons bk_visit_ok[of n t ?d] by (auto simp: list_all_iff)
    have "sum_list (map bk_count (?kids @ st)) < sum_list (map bk_count stack)"
      using bk_visit_count[of t ?d n] Cons by (simp add: rev_map[symmetric])
    from less.hyps[OF this ok(1), of ?res]
    have "mset (bk_search_loop dist q t stack res) =
        mset ?res + mset (bk_hits dist q t (concat (map bk_words ?kids) @ concat (map bk_words st)))"
      by (simp add: Cons Let_def)
    moreover have "mset (bk_hits dist q t (concat (map bk_words ?kids))) =
        mset (bk_hits dist q t (tl (bk_words n)))"
      using hits_visit[OF ok(2), of q t] bk_hits_mset[OF mset_concat_rev[of "map bk_words (bk_visit t ?d n)"]]
      by (simp add: rev_map)
    moreover have "bk_hits dist q t (concat (map bk_words stack)) =
        (if int ?d \<le> t then [\<lparr>Word = bk_word n, Distance = ?d\<rparr>] else [])
        @ bk_hits dist q t (tl (bk_words n)) @ bk_hits dist q t (concat (map bk_words st))"
      unfolding Cons by (subst list.map, subst concat.simps, subst bk_words_hd[of n]) simp
    ultimately show ?thesis by simp
  qed simp
qed

lemma bk_tree_search_mset:
  assumes "bk_tree_ok dist t"
  shows "mset (bk_tree_search dist t q k) = mset (bk_hits dist q k (bk_tree_words t))"
proof (cases "bk_root t")
  case None
  then show ?thesis by (simp add: bk_tree_search_def bk_tree_words_def)
next
  case (Some n)
  with assms have "list_all (bk_ok dist) [n]" by (simp add: bk_tree_ok_def)
  from bk_search_loop_mset[OF this, of q k "[]"] Some show ?thesis
    by (simp del: bk_search_loop.simps add: bk_tree_search_def bk_tree_words_def)
qed

text \<open>Building a tree from a list of words, and searching it.\<close>

lemma bk_build_ok:
  "bk_tree_ok dist t \<Longrightarrow> bk_tree_ok dist (fold (\<lambda>w t. bk_tree_insert dist t w) ws t)"
  by (induction ws arbitrary: t) (auto simp: bk_tree_insert_ok)

lemma bk_build_words:
  "bk_tree_ok dist t \<Longrightarrow>
   set (bk_tree_words t) \<subseteq> set (bk_tree_words (fold (\<lambda>w t. bk_tree_insert dist t w) ws t)) \<and>
   set (bk_tree_words (fold (\<lambda>w t. bk_tree_insert dist t w) ws t)) \<subseteq> set ws \<union> set (bk_tree_words t) \<and>
   (\<forall>w\<in>set ws. \<exists>u\<in>set (bk_tree_words (fold (\<lambda>w t. bk_tree_insert dist t w) ws t)). dist w u = 0)"
proof (induction ws arbitrary: t)
  case (Cons w ws)
  note ins = bk_tree_insert_ok[OF Cons.prems, of w]
  from Cons.IH[OF ins(1)] ins(2-4) show ?case by (simp, blast)
qed simp

lemma NewBKTree_ok: "bk_tree_ok dist NewBKTree"
  by (simp add: bk_tree_ok_def NewBKTree_def bk_tree_words_def)

end

text \<open>The same facts for the tree over the edit distance.\<close>

definition bk_build :: "string list \<Rightarrow> string BKTree" where
  "bk_build ws = fold (\<lambda>w t. BKTree_Insert t w) ws NewBKTree"

lemma bk_build_tree_ok: "bk_tree_ok DamerauLevenshtein (bk_build ws)"
  unfolding bk_build_def BKTree_Insert_def by (rule dlm.bk_build_ok[OF dlm.NewBKTree_ok])

lemma bk_build_subset: "set (bk_tree_words (bk_build ws)) \<subseteq> set ws"
  using dlm.bk_build_words[OF dlm.NewBKTree_ok, of ws]
  by (auto simp: bk_build_def BKTree_Insert_def NewBKTree_def bk_tree_words_def)

lemma bk_build_covers: "w \<in> set ws \<Longrightarrow> \<exists>u\<in>set (bk_tree_words (bk_build ws)). DamerauLevenshtein w u = 0"
  using dlm.bk_build_words[OF dlm.NewBKTree_ok, of ws]
  by (auto simp: bk_build_def BKTree_Insert_def)

lemma BKTree_Search_iff:
  "r \<in> set (BKTree_Search (bk_build ws) q k) \<longleftrightarrow>
   Word r \<in> set (bk_tree_words (bk_build ws)) \<and> Distance r = DamerauLevenshtein q (Word r) \<and>
   int (Distance r) \<le> k"
proof -
  have "set (BKTree_Search (bk_build ws) q k) =
      set (bk_hits DamerauLevenshtein q k (bk_tree_words (bk_build ws)))"
    unfolding BKTree_Search_def
    by (rule mset_eq_setD[OF dlm.bk_tree_search_mset[OF bk_build_tree_ok]])
  then show ?thesis
    by (cases r) (auto simp: bk_hits_def)
qed

section \<open>Properties\<close>

text \<open>Inserting a word keeps the tree well formed (children keyed by their exact distance to
  the parent, the size field equal to the number of stored words), keeps every word already
  stored, and leaves the new word or one at distance 0 from it in the tree.\<close>

theorem BKTree_Insert_invariant:
  assumes "bk_tree_ok DamerauLevenshtein t"
  shows "bk_tree_ok DamerauLevenshtein (BKTree_Insert t w) \<and>
    BKTree_Size (BKTree_Insert t w) = length (bk_tree_words (BKTree_Insert t w)) \<and>
    set (bk_tree_words t) \<subseteq> set (bk_tree_words (BKTree_Insert t w)) \<and>
    set (bk_tree_words (BKTree_Insert t w)) \<subseteq> insert w (set (bk_tree_words t)) \<and>
    (\<exists>u\<in>set (bk_tree_words (BKTree_Insert t w)). DamerauLevenshtein w u = 0)"
  using dlm.bk_tree_insert_ok[OF assms, of w]
  by (auto simp: BKTree_Insert_def BKTree_Size_def bk_tree_ok_def)

lemma BKTree_Insert_invariant_witness:
  "bk_tree_ok DamerauLevenshtein (BKTree_Insert (bk_build [''react'', ''redux'']) ''reactt'')"
  using BKTree_Insert_invariant[OF bk_build_tree_ok[of "[''react'', ''redux'']"], of "''reactt''"] by blast

text \<open>C38: On a tree built by insertions, the pruned search returns, with multiplicity, exactly
  what a linear scan of the stored words returns: every word within the threshold with its
  distance and nothing else, for every threshold and every insertion order.\<close>

theorem BKTree_Search_linear_scan:
  "mset (BKTree_Search (bk_build ws) q k) =
   mset (bk_hits DamerauLevenshtein q k (bk_tree_words (bk_build ws)))"
  unfolding BKTree_Search_def by (rule dlm.bk_tree_search_mset[OF bk_build_tree_ok])

text \<open>A word that was inserted and lies within the threshold is found, up to the encoding
  of invalid bytes: the search returns a word at the same distance that decodes to the same
  characters.\<close>

theorem BKTree_Search_complete:
  assumes "w \<in> set ws" and "int (DamerauLevenshtein q w) \<le> k"
  shows "\<exists>r\<in>set (BKTree_Search (bk_build ws) q k).
    Distance r = DamerauLevenshtein q w \<and> utf8_decode (Word r) = utf8_decode w"
proof -
  obtain u where u: "u \<in> set (bk_tree_words (bk_build ws))" "DamerauLevenshtein w u = 0"
    using bk_build_covers[OF assms(1)] by blast
  then have "utf8_decode u = utf8_decode w"
    by (simp add: DamerauLevenshtein_def dl_runes_0)
  moreover have "DamerauLevenshtein q u = DamerauLevenshtein q w"
    using calculation by (simp add: DamerauLevenshtein_def)
  ultimately show ?thesis
    using u assms(2) by (intro bexI[of _ "\<lparr>Word = u, Distance = DamerauLevenshtein q u\<rparr>"])
      (simp_all add: BKTree_Search_iff)
qed

lemma BKTree_Search_complete_witness:
  "\<exists>r\<in>set (BKTree_Search (bk_build [''ab'', ''cd'']) ''ba'' 1).
    Distance r = DamerauLevenshtein ''ba'' ''ab'' \<and> utf8_decode (Word r) = utf8_decode ''ab''"
proof (rule BKTree_Search_complete)
  show "int (DamerauLevenshtein ''ba'' ''ab'') \<le> 1" by code_simp
qed simp

end
