(* ===== verification/Normalize.thy ===== *)
theory Normalize
  imports GoStrings
begin

text \<open>
  Canonical forms of package names: typosquat/normalize.go, typosquat/confusables.go and the
  normalizer of typosquat/github_actions.go. One definition per Go function. The lemmas show
  what the canonical forms are: idempotence where it holds, the shape of the result, the
  independence of the reorder key from the order of the tokens, the exact set of homoglyph
  variants below the cap, and the points at which the confusables fold is not idempotent.
\<close>

section \<open>Per-ecosystem normalizers\<close>

type_synonym normalizer = "string \<Rightarrow> string"

definition NormalizeNPM :: normalizer where "NormalizeNPM name = ToLower name"
definition NormalizeMaven :: normalizer where "NormalizeMaven name = ToLower name"
definition NormalizeCocoapods :: normalizer where "NormalizeCocoapods name = ToLower name"
definition NormalizeComposer :: normalizer where "NormalizeComposer name = ToLower name"
definition NormalizeHuggingFace :: normalizer where "NormalizeHuggingFace name = ToLower name"

definition is_sep :: "rune \<Rightarrow> bool" where
  "is_sep r \<longleftrightarrow> r = 45 \<or> r = 95 \<or> r = 46"

text \<open>The loop of \<open>NormalizePyPI\<close>; the flag is \<open>prevSep\<close>.\<close>

fun pypi_runes :: "bool \<Rightarrow> rune list \<Rightarrow> rune list" where
  "pypi_runes prev [] = []"
| "pypi_runes prev (r # rs) =
     (if is_sep r then (if prev then pypi_runes True rs else 45 # pypi_runes True rs)
      else r # pypi_runes False rs)"

definition NormalizePyPI :: normalizer where
  "NormalizePyPI name = utf8_encode (pypi_runes False (utf8_decode (ToLower name)))"

definition NormalizeCargo :: normalizer where
  "NormalizeCargo name = replace_byte (CHR ''_'') (CHR ''-'') (ToLower name)"

definition NormalizeRubyGems :: normalizer where
  "NormalizeRubyGems name = replace_byte (CHR ''_'') (CHR ''-'') (ToLower name)"

definition allDigits :: "string \<Rightarrow> bool" where
  "allDigits s \<longleftrightarrow> s \<noteq> [] \<and> list_all (\<lambda>c. 48 \<le> byte c \<and> byte c \<le> (57::nat)) s"

text \<open>\<open>strings.LastIndex\<close> as an \<open>int\<close>, -1 when there is no occurrence.\<close>

definition last_index_int :: "string \<Rightarrow> string \<Rightarrow> int" where
  "last_index_int s p = (case str_LastIndex s p of None \<Rightarrow> -1 | Some i \<Rightarrow> int i)"

definition NormalizeGo :: normalizer where
  "NormalizeGo name0 =
     (let name = ToLower name0 in
      if HasPrefix name ''gopkg.in/'' then
        (case str_LastIndex name ''.v'' of
           None \<Rightarrow> name
         | Some i \<Rightarrow>
             if length ''gopkg.in/'' < i \<and> last_index_int name ''/'' < int i \<and> allDigits (drop (i + 2) name)
             then take i name else name)
      else
        (case str_LastIndex name ''/v'' of
           None \<Rightarrow> name
         | Some i \<Rightarrow>
             if 0 < i \<and> allDigits (drop (i + 2) name) \<and> hd (drop (i + 2) name) \<noteq> CHR ''0''
                \<and> drop (i + 2) name \<noteq> ''1''
             then take i name else name))"

definition NormalizeDocker :: normalizer where
  "NormalizeDocker name = TrimPrefix (ToLower name) ''library/''"

definition stripDelimiters :: "string \<Rightarrow> string" where
  "stripDelimiters s = utf8_encode (filter (\<lambda>r. \<not> is_sep r) (utf8_decode s))"

definition NormalizeNuGet :: normalizer where
  "NormalizeNuGet name = stripDelimiters (ToLower name)"

definition NormalizeGeneric :: normalizer where
  "NormalizeGeneric name = stripDelimiters (ToLower name)"

definition NormalizeGitHubActions :: normalizer where
  "NormalizeGitHubActions name0 =
     (let name = TrimSpace (TrimPrefix (ToLower (TrimSpace name0)) ''uses:'');
          name = (case index_byte name (CHR ''@'') of None \<Rightarrow> name | Some at \<Rightarrow> take at name);
          name = (case split_byte (CHR ''/'') name of
                    p0 # p1 # _ \<Rightarrow> p0 @ ''/'' @ p1
                  | _ \<Rightarrow> name)
      in replace_byte (CHR ''/'') (CHR ''-'') name)"

definition NormalizerForFormat :: "string \<Rightarrow> normalizer" where
  "NormalizerForFormat format0 =
     (let format = ToLower format0 in
      if format \<in> {''npm'', ''yarn'', ''bun''} then NormalizeNPM
      else if format \<in> {''pip'', ''pypi''} then NormalizePyPI
      else if format \<in> {''maven'', ''gradle''} then NormalizeMaven
      else if format = ''cargo'' then NormalizeCargo
      else if format \<in> {''go'', ''gomod''} then NormalizeGo
      else if format = ''docker'' then NormalizeDocker
      else if format = ''composer'' then NormalizeComposer
      else if format = ''rubygems'' then NormalizeRubyGems
      else if format = ''nuget'' then NormalizeNuGet
      else if format = ''huggingface'' then NormalizeHuggingFace
      else if format = ''cocoapods'' then NormalizeCocoapods
      else if format = ''pub'' then NormalizeGeneric
      else if format = ''github_actions'' then NormalizeGitHubActions
      else NormalizeGeneric)"

section \<open>Token reordering\<close>

text \<open>
  \<open>splitOnDelimiters\<close> ranges over the runes of the string with their byte offsets. The three
  delimiters are ASCII bytes, which never occur inside a longer encoding, so the loop is
  written over the bytes: \<open>start\<close> and \<open>i\<close> are the byte offsets of the source.
\<close>

definition is_delim :: "char \<Rightarrow> bool" where
  "is_delim c \<longleftrightarrow> c = CHR ''-'' \<or> c = CHR ''_'' \<or> c = CHR ''.''"

definition split_step :: "string \<Rightarrow> nat \<Rightarrow> string list \<times> nat \<Rightarrow> string list \<times> nat" where
  "split_step s i = (\<lambda>(out, start).
     if is_delim (s ! i)
     then (if start < i then out @ [take (i - start) (drop start s)] else out, i + 1)
     else (out, start))"

definition splitOnDelimiters :: "string \<Rightarrow> string list" where
  "splitOnDelimiters s =
     (let (out, start) = fold (split_step s) [0..<length s] ([], 0)
      in if start < length s then out @ [drop start s] else out)"

text \<open>The swap-based insertion sort.\<close>

fun sift_down :: "('a::linorder) list \<Rightarrow> nat \<Rightarrow> 'a list" where
  "sift_down xs 0 = xs"
| "sift_down xs (Suc j) =
     (if xs ! Suc j < xs ! j then sift_down (xs[j := xs ! Suc j, Suc j := xs ! j]) j else xs)"

definition sortStrings :: "('a::linorder) list \<Rightarrow> 'a list" where
  "sortStrings xs = fold (\<lambda>i xs. sift_down xs i) [1..<length xs] xs"

definition ReorderTokens :: "string \<Rightarrow> string \<times> nat" where
  "ReorderTokens name =
     (if name = [] then ([], 0)
      else let tokens = splitOnDelimiters name in
           if tokens = [] then ([], 0)
           else let sorted = sortStrings (map ToLower tokens)
                in (join_with ''-'' sorted, length sorted))"

section \<open>Homoglyph expansion\<close>

definition homoglyphMap :: "(rune, rune list) gomap" where
  "homoglyphMap =
    [(108, [49, 105]), (49, [108, 105]), (105, [108, 49]), (111, [48]), (48, [111]), (113,
     [103]), (103, [113]), (115, [53]), (53, [115]), (122, [50]), (50, [122]), (98, [54]), (54,
     [98]), (1072, [97]), (1077, [101]), (1086, [111]), (1088, [112]), (1089, [99]), (1091,
     [121]), (1093, [120]), (945, [97]), (949, [101]), (959, [111]), (961, [112]), (965, [121])]"

definition multiHomoglyphMap :: "(string, string) gomap" where
  "multiHomoglyphMap =
    [(''rn'', ''m''), (''m'', ''rn''), (''cl'', ''d''), (''d'', ''cl''), (''vv'', ''w''), (''w'', ''vv'')]"

definition maxHomoglyphVariants :: nat where
  "maxHomoglyphVariants = 50"

text \<open>
  The state of the loops: the results so far and the set \<open>seen\<close>. Every \<open>break\<close> on a full
  result list is the guard of \<open>add_variant\<close>: once the list is full, no later step changes it.
\<close>

type_synonym variants = "string list \<times> string set"

definition add_variant :: "string \<Rightarrow> variants \<Rightarrow> variants" where
  "add_variant v = (\<lambda>(results, seen).
     if maxHomoglyphVariants \<le> length results then (results, seen)
     else if v \<in> seen then (results, seen)
     else (results @ [v], insert v seen))"

definition expand_position :: "rune list \<Rightarrow> nat \<Rightarrow> variants \<Rightarrow> variants" where
  "expand_position runes i st =
     (case map_of homoglyphMap (unicode_ToLower (runes ! i)) of
        None \<Rightarrow> st
      | Some reps \<Rightarrow> fold (\<lambda>rep. add_variant (utf8_encode (runes[i := rep]))) reps st)"

text \<open>The inner loop over the occurrences of one pattern, from the occurrence at \<open>idx\<close>.\<close>

function expand_pattern :: "string \<Rightarrow> string \<Rightarrow> string \<Rightarrow> nat \<Rightarrow> variants \<Rightarrow> variants" where
  "expand_pattern name pattern rep idx st =
     (let st' = add_variant (take idx name @ rep @ drop (idx + length pattern) name) st in
      case str_Index (drop (idx + 1) name) pattern of
        None \<Rightarrow> st'
      | Some next \<Rightarrow> if length name \<le> idx then st' else expand_pattern name pattern rep (idx + 1 + next) st')"
  by pat_completeness auto
termination
  by (relation "measure (\<lambda>(name, _, _, idx, _). length name - idx)") auto

declare expand_pattern.simps [simp del]

definition expand_multi :: "string \<Rightarrow> string \<times> string \<Rightarrow> variants \<Rightarrow> variants" where
  "expand_multi name = (\<lambda>(pattern, rep) st.
     case str_Index name pattern of None \<Rightarrow> st | Some idx \<Rightarrow> expand_pattern name pattern rep idx st)"

text \<open>\<open>multi\<close> is the order in which the runtime enumerates \<open>multiHomoglyphMap\<close>.\<close>

definition ExpandHomoglyphs :: "(string, string) gomap \<Rightarrow> string \<Rightarrow> string list" where
  "ExpandHomoglyphs multi name =
     (let runes = utf8_decode name;
          st = fold (expand_position runes) [0..<length runes] ([], {name})
      in fst (fold (expand_multi name) multi st))"

section \<open>Confusables\<close>

definition confusable_base :: "(rune, rune) gomap" where
  "confusable_base =
    [(1072, 97), (1074, 98), (1089, 99), (1077, 101), (1211, 104), (1110, 105), (1112, 106),
     (1082, 107), (1084, 109), (1085, 104), (1086, 111), (1088, 112), (1109, 115), (1090, 116),
     (1091, 121), (1093, 120), (1141, 118), (1281, 100), (1293, 103), (1309, 119), (1231, 108),
     (655, 121), (1040, 97), (1042, 98), (1057, 99), (1045, 101), (1053, 104), (1050, 107),
     (1052, 109), (1054, 111), (1056, 112), (1058, 84), (1061, 120), (1059, 121), (1030, 105),
     (945, 97), (946, 98), (947, 121), (949, 101), (950, 122), (951, 110), (953, 105), (954,
     107), (956, 117), (957, 118), (959, 111), (960, 110), (961, 112), (964, 116), (965, 121),
     (967, 120), (913, 97), (914, 98), (917, 101), (918, 122), (919, 104), (921, 105), (922,
     107), (924, 109), (925, 110), (927, 111), (929, 112), (932, 116), (933, 121), (935, 120),
     (48, 111), (49, 108), (51, 101), (53, 115), (305, 105), (1216, 108)]"

text \<open>
  The table after \<open>init\<close>: the placeholder of U+0422 is reset to 't', the fullwidth letters map to
  ASCII letters, and the fullwidth digits go through the digit entries of the literal table.
\<close>

definition confusables :: "rune \<Rightarrow> rune option" where
  "confusables r =
     (if 65296 \<le> r \<and> r \<le> 65305 then
        (let ascii = 48 + (r - 65296) in
         case map_of confusable_base ascii of Some mapped \<Rightarrow> Some mapped | None \<Rightarrow> Some ascii)
      else if 65345 \<le> r \<and> r \<le> 65370 then Some (97 + (r - 65345))
      else if 65313 \<le> r \<and> r \<le> 65338 then Some (97 + (r - 65313))
      else if r = 1058 then Some 116
      else map_of confusable_base r)"

definition fold_rune :: "rune \<Rightarrow> rune" where
  "fold_rune r = (case confusables r of Some mapped \<Rightarrow> mapped | None \<Rightarrow> unicode_ToLower r)"

definition Normalize :: "string \<Rightarrow> string" where
  "Normalize s = (if s = [] then s else utf8_encode (map fold_rune (utf8_decode s)))"

definition IsHomoglyphCollision :: "string \<Rightarrow> string \<Rightarrow> bool" where
  "IsHomoglyphCollision input candidate =
     (if input = candidate then False else Normalize input = Normalize candidate)"

section \<open>The PyPI form\<close>

fun pypi_canon :: "bool \<Rightarrow> rune list \<Rightarrow> bool" where
  "pypi_canon prev [] \<longleftrightarrow> True"
| "pypi_canon prev (r # rs) \<longleftrightarrow>
     (if r = 45 then \<not> prev \<and> pypi_canon True rs else \<not> is_sep r \<and> pypi_canon False rs)"

lemma is_sep_45 [simp]: "is_sep 45"
  by (simp add: is_sep_def)

lemma pypi_canon_runes: "pypi_canon prev (pypi_runes prev rs)"
  by (induction prev rs rule: pypi_runes.induct) auto

lemma pypi_canon_fixed: "pypi_canon prev rs \<Longrightarrow> pypi_runes prev rs = rs"
  by (induction prev rs rule: pypi_runes.induct) (auto split: if_splits)

lemma pypi_canon_set: "pypi_canon prev rs \<Longrightarrow> 95 \<notin> set rs \<and> 46 \<notin> set rs"
  by (induction prev rs rule: pypi_canon.induct) (auto simp: is_sep_def split: if_splits)

lemma pypi_canon_no_run: "pypi_canon prev rs \<Longrightarrow> \<not> sublist [45, 45] rs"
proof (induction prev rs rule: pypi_canon.induct)
  case (2 prev r rs)
  then show ?case by (cases rs) (auto simp: sublist_Cons_right split: if_splits)
qed simp

lemma pypi_runes_set: "set (pypi_runes prev rs) \<subseteq> insert 45 (set rs)"
  by (induction prev rs rule: pypi_runes.induct) auto

lemma ToLower_runes_fixed:
  "r \<in> set (utf8_decode (ToLower s)) \<Longrightarrow> valid_rune r \<and> unicode_ToLower r = r"
  using utf8_decode_valid[of "ToLower s"]
  by (auto simp: list_all_iff ToLower_runes utf8_decode_encode_map unicode_ToLower_valid)

lemma unicode_ToLower_sep [simp]: "unicode_ToLower 45 = 45"
  by (simp add: unicode_ToLower_ascii)

lemma ToLower_fixed:
  "(\<And>r. r \<in> set rs \<Longrightarrow> valid_rune r \<and> unicode_ToLower r = r) \<Longrightarrow>
   ToLower (utf8_encode rs) = utf8_encode rs"
  by (simp add: ToLower_runes utf8_decode_encode list_all_iff map_idI)

lemma NormalizePyPI_runes:
  "utf8_decode (NormalizePyPI s) = pypi_runes False (utf8_decode (ToLower s))"
  "ToLower (NormalizePyPI s) = NormalizePyPI s"
proof -
  have *: "r \<in> set (pypi_runes False (utf8_decode (ToLower s))) \<Longrightarrow> valid_rune r \<and> unicode_ToLower r = r" for r
    using pypi_runes_set ToLower_runes_fixed by (fastforce simp: valid_rune_def)
  then show "ToLower (NormalizePyPI s) = NormalizePyPI s"
    unfolding NormalizePyPI_def by (rule ToLower_fixed)
  from * show "utf8_decode (NormalizePyPI s) = pypi_runes False (utf8_decode (ToLower s))"
    unfolding NormalizePyPI_def by (simp add: utf8_decode_encode list_all_iff)
qed

text \<open>NormalizePyPI is idempotent, and its result has no underscore and no dot, no two hyphens
  in a row, and is lower case: the canonical form of PEP 503.\<close>

theorem NormalizePyPI_canonical:
  "NormalizePyPI (NormalizePyPI s) = NormalizePyPI s \<and>
   95 \<notin> set (utf8_decode (NormalizePyPI s)) \<and> 46 \<notin> set (utf8_decode (NormalizePyPI s)) \<and>
   \<not> sublist [45, 45] (utf8_decode (NormalizePyPI s)) \<and>
   ToLower (NormalizePyPI s) = NormalizePyPI s"
proof -
  note c = pypi_canon_runes[of False "utf8_decode (ToLower s)", folded NormalizePyPI_runes(1)]
  have "NormalizePyPI (NormalizePyPI s) = utf8_encode (utf8_decode (NormalizePyPI s))"
    by (subst NormalizePyPI_def) (simp only: NormalizePyPI_runes(2) pypi_canon_fixed[OF c])
  also have "\<dots> = NormalizePyPI s"
    by (simp add: NormalizePyPI_runes(1)) (simp add: NormalizePyPI_def)
  finally show ?thesis
    using pypi_canon_set[OF c] pypi_canon_no_run[OF c] NormalizePyPI_runes(2) by blast
qed

section \<open>The insertion sort and the token split\<close>

lemma sift_down_sort:
  "sorted as \<Longrightarrow> sift_down (as @ x # bs) (length as) = sort (as @ [x]) @ bs"
proof (induction as arbitrary: x bs rule: rev_induct)
  case (snoc a as)
  have le: "sorted as" "\<forall>y\<in>set as. y \<le> a" using snoc.prems by (auto simp: sorted_append)
  show ?case
  proof (cases "x < a")
    case True
    have "sort ((as @ [a]) @ [x]) = sort (as @ [x]) @ [a]"
      by (rule properties_for_sort) (use le True in \<open>auto simp: sorted_append\<close>)
    with True snoc.IH[OF le(1), of x "a # bs"] show ?thesis
      by (simp add: nth_append list_update_append)
  next
    case False
    then have "sort ((as @ [a]) @ [x]) = (as @ [a]) @ [x]"
      by (intro properties_for_sort) (use le in \<open>auto simp: sorted_append\<close>)
    with False show ?thesis by (simp add: nth_append)
  qed
qed simp

lemma sortStrings_prefix:
  "i \<le> length xs \<Longrightarrow>
   fold (\<lambda>i xs. sift_down xs i) [1..<i] xs = sort (take i xs) @ drop i xs"
proof (induction i)
  case (Suc i)
  show ?case
  proof (cases "i = 0")
    case True
    with Suc.prems show ?thesis by (cases xs) simp_all
  next
    case False
    then have "[1..<Suc i] = [1..<i] @ [i]" by simp
    moreover have d: "drop i xs = xs ! i # drop (Suc i) xs" using Suc.prems by (simp add: Cons_nth_drop_Suc)
    moreover have "sort (sort (take i xs) @ [xs ! i]) = sort (take (Suc i) xs)"
      by (rule properties_for_sort) (use Suc.prems in \<open>simp_all add: take_Suc_conv_app_nth\<close>)
    ultimately show ?thesis
      using Suc sift_down_sort[of "sort (take i xs)" "xs ! i" "drop (Suc i) xs"] by (simp add: min_def)
  qed
qed simp

lemma sortStrings_sort: "sortStrings xs = sort xs"
  using sortStrings_prefix[of "length xs" xs] by (simp add: sortStrings_def)

fun split_on :: "('a \<Rightarrow> bool) \<Rightarrow> 'a list \<Rightarrow> 'a list list" where
  "split_on P [] = [[]]"
| "split_on P (x # xs) =
     (if P x then [] # split_on P xs else (x # hd (split_on P xs)) # tl (split_on P xs))"

lemma split_on_not_Nil [simp]: "split_on P xs \<noteq> []"
  by (cases xs) auto

lemma split_on_snoc:
  "split_on P (xs @ [x]) =
   (if P x then split_on P xs @ [[]] else butlast (split_on P xs) @ [last (split_on P xs) @ [x]])"
proof (induction xs)
  case (Cons y xs)
  obtain h t where "split_on P xs = h # t" by (cases "split_on P xs") auto
  with Cons show ?case by (cases t) simp_all
qed simp

definition name_tokens :: "string \<Rightarrow> string list" where
  "name_tokens s = filter (\<lambda>t. t \<noteq> []) (split_on is_delim s)"

lemma split_step_prefix:
  assumes "i \<le> length s" and "fold (split_step s) [0..<i] ([], 0) = (out, start)"
  shows "start \<le> i \<and> out = filter (\<lambda>t. t \<noteq> []) (butlast (split_on is_delim (take i s))) \<and>
    last (split_on is_delim (take i s)) = drop start (take i s)"
  using assms
proof (induction i arbitrary: out start)
  case (Suc i)
  obtain out' start' where f: "fold (split_step s) [0..<i] ([], 0) = (out', start')" by fastforce
  have t: "take (Suc i) s = take i s @ [s ! i]" using Suc.prems(1) by (simp add: take_Suc_conv_app_nth)
  have IH: "start' \<le> i" "out' = filter (\<lambda>t. t \<noteq> []) (butlast (split_on is_delim (take i s)))"
    "last (split_on is_delim (take i s)) = drop start' (take i s)"
    using Suc.IH[OF _ f] Suc.prems(1) by simp_all
  have "split_on is_delim (take i s) = butlast (split_on is_delim (take i s)) @ [drop start' (take i s)]"
    using IH(3) append_butlast_last_id[of "split_on is_delim (take i s)"] by simp
  moreover have last_seg: "filter (\<lambda>t. t \<noteq> []) (ss @ [drop start' (take i s)]) =
      (if start' < i then filter (\<lambda>t. t \<noteq> []) ss @ [take (i - start') (drop start' s)]
       else filter (\<lambda>t. t \<noteq> []) ss)" for ss
    using Suc.prems(1) by (simp add: drop_take)
  ultimately have filt: "filter (\<lambda>t. t \<noteq> []) (split_on is_delim (take i s)) =
      (if start' < i then out' @ [take (i - start') (drop start' s)] else out')"
    by (metis (lifting) IH(2) last_seg)
  have "split_step s i (out', start') = (out, start)" using Suc.prems(2) f by simp
  then show ?case
    using Suc.prems(1) IH filt by (auto simp: split_step_def t split_on_snoc split: if_splits)
qed simp

lemma splitOnDelimiters_tokens: "splitOnDelimiters s = name_tokens s"
proof -
  obtain out start where f: "fold (split_step s) [0..<length s] ([], 0) = (out, start)" by fastforce
  note p = split_step_prefix[OF order_refl f]
  have "split_on is_delim s = butlast (split_on is_delim s) @ [drop start s]"
    using p append_butlast_last_id[of "split_on is_delim s"] by simp
  then have "name_tokens s = filter (\<lambda>t. t \<noteq> []) (butlast (split_on is_delim s) @ [drop start s])"
    by (simp add: name_tokens_def)
  with p f show ?thesis by (simp add: splitOnDelimiters_def)
qed

lemma ReorderTokens_sorted:
  "ReorderTokens name = (join_with ''-'' (sort (map ToLower (name_tokens name))), length (name_tokens name))"
proof (cases "name = []")
  case True
  then show ?thesis by (simp add: ReorderTokens_def name_tokens_def)
qed (auto simp: ReorderTokens_def splitOnDelimiters_tokens sortStrings_sort Let_def)

lemma length_name_tokens: "length (map ToLower (name_tokens s)) = length (name_tokens s)"
  by simp

text \<open>ReorderTokens returns the delimiter-separated, non-empty tokens of the name, lower-cased,
  in sorted order and joined by hyphens, with their number: the swap-based insertion sort sorts.\<close>

theorem ReorderTokens_canonical:
  "ReorderTokens name =
     (join_with ''-'' (sort (map ToLower (name_tokens name))), length (name_tokens name))"
  by (rule ReorderTokens_sorted)

text \<open>The reorder key depends only on the multiset of tokens: two names whose tokens are the
  same up to order, whatever their delimiters, have the same key and the same token count.\<close>

theorem ReorderTokens_order_irrelevant:
  assumes "mset (splitOnDelimiters a) = mset (splitOnDelimiters b)"
  shows "ReorderTokens a = ReorderTokens b"
proof -
  have "sort (map ToLower (name_tokens a)) = sort (map ToLower (name_tokens b))"
    using assms by (intro properties_for_sort) (simp_all add: splitOnDelimiters_tokens)
  moreover have "length (name_tokens a) = length (name_tokens b)"
    using assms by (metis size_mset splitOnDelimiters_tokens)
  ultimately show ?thesis by (simp add: ReorderTokens_sorted)
qed

lemma ReorderTokens_order_irrelevant_witness:
  "ReorderTokens ''module-lib_x'' = ReorderTokens ''x..lib-module''"
  by (rule ReorderTokens_order_irrelevant) (simp add: splitOnDelimiters_tokens name_tokens_def is_delim_def)

section \<open>The set of homoglyph variants\<close>

text \<open>The candidates in the order in which the loops produce them.\<close>

definition position_variants :: "rune list \<Rightarrow> nat \<Rightarrow> string list" where
  "position_variants runes i =
     map (\<lambda>rep. utf8_encode (runes[i := rep]))
       (case map_of homoglyphMap (unicode_ToLower (runes ! i)) of None \<Rightarrow> [] | Some reps \<Rightarrow> reps)"

definition occurs_at :: "string \<Rightarrow> string \<Rightarrow> nat \<Rightarrow> bool" where
  "occurs_at p s i \<longleftrightarrow> i + length p \<le> length s \<and> take (length p) (drop i s) = p"

definition multi_variants :: "string \<Rightarrow> string \<times> string \<Rightarrow> string list" where
  "multi_variants name = (\<lambda>(p, rep).
     map (\<lambda>i. take i name @ rep @ drop (i + length p) name)
       (filter (occurs_at p name) [0..<length name]))"

definition homoglyph_variants :: "string \<Rightarrow> string set" where
  "homoglyph_variants name =
     (\<Union>i<length (utf8_decode name). set (position_variants (utf8_decode name) i)) \<union>
     (\<Union>e\<in>set multiHomoglyphMap. set (multi_variants name e))"

lemma expand_position_candidates:
  "expand_position runes i st = fold add_variant (position_variants runes i) st"
  by (simp add: expand_position_def position_variants_def fold_map o_def split: option.split)

lemma str_Index_drop:
  "str_Index (drop k s) p = Some n \<Longrightarrow> p \<noteq> [] \<Longrightarrow>
   occurs_at p s (k + n) \<and> (\<forall>i\<in>{k..<k + n}. \<not> occurs_at p s i)"
proof -
  assume a: "str_Index (drop k s) p = Some n" "p \<noteq> []"
  note d = str_Index_SomeD[OF a(1)]
  have "\<not> occurs_at p s i" if "k \<le> i" "i < k + n" for i
    using d that le_Suc_ex[OF that(1)] by (auto simp: occurs_at_def add.commute)
  with d a(2) show ?thesis
    by (cases "k \<le> length s") (auto simp: occurs_at_def add.commute)
qed

lemma str_Index_drop_None:
  "str_Index (drop k s) p = None \<Longrightarrow> k \<le> i \<Longrightarrow> \<not> occurs_at p s i"
  unfolding str_Index_None occurs_at_def using le_Suc_ex[of k i]
  by (auto simp: add.commute)

lemma filter_upt_gap:
  assumes "\<And>i. a \<le> i \<Longrightarrow> i < b \<Longrightarrow> \<not> P i" and "a \<le> b" "b < n" "P b"
  shows "filter P [a..<n] = b # filter P [Suc b..<n]"
proof -
  have "[a..<n] = [a..<b] @ b # [Suc b..<n]"
    using assms(2,3) by (metis le_add_diff_inverse upt_add_eq_append less_imp_le upt_conv_Cons)
  with assms show ?thesis by simp
qed

lemma expand_pattern_candidates:
  "occurs_at p name idx \<Longrightarrow> p \<noteq> [] \<Longrightarrow>
   expand_pattern name p rep idx st =
   fold add_variant (map (\<lambda>i. take i name @ rep @ drop (i + length p) name)
     (filter (occurs_at p name) [idx..<length name])) st"
proof (induction name p rep idx st rule: expand_pattern.induct)
  case (1 name p rep idx st)
  have idx: "idx < length name" using 1(2,3) by (cases p) (auto simp: occurs_at_def)
  have head: "filter (occurs_at p name) [idx..<length name] =
      idx # filter (occurs_at p name) [Suc idx..<length name]"
    using idx 1(2) by (simp add: upt_conv_Cons)
  show ?case
  proof (cases "str_Index (drop (idx + 1) name) p")
    case None
    then have "filter (occurs_at p name) [Suc idx..<length name] = []"
      using str_Index_drop_None[of "idx + 1" name p] by (auto simp: filter_empty_conv)
    with None show ?thesis by (subst expand_pattern.simps) (simp add: head Let_def)
  next
    case (Some n)
    note d = str_Index_drop[OF Some 1(3)]
    have b: "idx + 1 + n < length name" using d 1(3) by (cases p) (auto simp: occurs_at_def)
    have "filter (occurs_at p name) [Suc idx..<length name] =
        filter (occurs_at p name) [idx + 1 + n..<length name]"
      using filter_upt_gap[of "Suc idx" "idx + 1 + n" "occurs_at p name" "length name"] d b
      by (simp add: upt_conv_Cons)
    with Some idx 1(1)[OF refl Some _ _ 1(3)] d show ?thesis
      by (subst expand_pattern.simps) (simp add: head Let_def)
  qed
qed

lemma expand_multi_candidates:
  assumes "fst e \<noteq> []"
  shows "expand_multi name e st = fold add_variant (multi_variants name e) st"
proof (cases e)
  case (Pair p rep)
  show ?thesis
  proof (cases "str_Index name p")
    case None
    then have "filter (occurs_at p name) [0..<length name] = []"
      using str_Index_drop_None[of 0 name p] by (auto simp: filter_empty_conv)
    with None show ?thesis by (simp add: Pair expand_multi_def multi_variants_def)
  next
    case (Some n)
    then have d: "occurs_at p name n" "\<forall>i\<in>{0..<n}. \<not> occurs_at p name i"
      using str_Index_drop[of 0 name p n] assms Pair by simp_all
    have n: "n < length name" using d(1) assms Pair by (cases p) (auto simp: occurs_at_def)
    have "filter (occurs_at p name) [0..<length name] = filter (occurs_at p name) [n..<length name]"
      using filter_upt_gap[of 0 n "occurs_at p name" "length name"] d n by (simp add: upt_conv_Cons)
    with Some d(1) assms show ?thesis
      by (simp add: Pair expand_multi_def multi_variants_def expand_pattern_candidates)
  qed
qed

text \<open>All candidates go through one fold, whose invariant is simple.\<close>

definition variant_candidates :: "(string, string) gomap \<Rightarrow> string \<Rightarrow> string list" where
  "variant_candidates multi name =
     concat (map (position_variants (utf8_decode name)) [0..<length (utf8_decode name)])
     @ concat (map (multi_variants name) multi)"

lemma fold_concat: "fold (\<lambda>x. fold f (g x)) xs st = fold f (concat (map g xs)) st"
  by (induction xs arbitrary: st) auto

lemma ExpandHomoglyphs_candidates:
  assumes "\<forall>e\<in>set multi. fst e \<noteq> []"
  shows "ExpandHomoglyphs multi name = fst (fold add_variant (variant_candidates multi name) ([], {name}))"
proof -
  have "fold (expand_multi name) multi st = fold (\<lambda>e. fold add_variant (multi_variants name e)) multi st" for st
    by (intro fold_cong refl ext expand_multi_candidates) (use assms in blast)
  moreover have "fold (expand_position rs) is st = fold (\<lambda>i. fold add_variant (position_variants rs i)) is st"
    for rs "is" st
    by (intro fold_cong refl ext expand_position_candidates)
  ultimately show ?thesis
    by (simp add: ExpandHomoglyphs_def variant_candidates_def fold_concat[symmetric] Let_def)
qed

lemma add_variant_cases:
  "maxHomoglyphVariants \<le> length rs \<Longrightarrow> add_variant v (rs, seen) = (rs, seen)"
  "v \<in> seen \<Longrightarrow> add_variant v (rs, seen) = (rs, seen)"
  "length rs < maxHomoglyphVariants \<Longrightarrow> v \<notin> seen \<Longrightarrow> add_variant v (rs, seen) = (rs @ [v], insert v seen)"
  by (simp_all add: add_variant_def)

lemma add_variants_inv:
  assumes "fold add_variant vs (rs, insert name (set rs)) = (rs', seen)"
    and "distinct rs" "name \<notin> set rs" "length rs \<le> maxHomoglyphVariants"
  shows "distinct rs' \<and> name \<notin> set rs' \<and> length rs' \<le> maxHomoglyphVariants \<and>
    set rs \<subseteq> set rs' \<and> set rs' \<subseteq> set rs \<union> set vs \<and>
    (length rs' < maxHomoglyphVariants \<longrightarrow> set vs - {name} \<subseteq> set rs')"
  using assms
proof (induction vs arbitrary: rs)
  case (Cons v vs)
  let ?f = "fold add_variant vs"
  consider "maxHomoglyphVariants \<le> length rs" | "length rs < maxHomoglyphVariants" "v \<in> insert name (set rs)"
    | "length rs < maxHomoglyphVariants" "v \<notin> insert name (set rs)" by linarith
  then show ?case
  proof cases
    case 1
    then have "?f (rs, insert name (set rs)) = (rs', seen)"
      using Cons.prems(1) by (simp add: add_variant_cases)
    note IH = Cons.IH[OF this Cons.prems(2-4)]
    moreover have "length rs \<le> length rs'"
      using IH Cons.prems(2) card_mono[of "set rs'" "set rs"] by (simp add: distinct_card)
    ultimately show ?thesis using 1 by auto
  next
    case 2
    then have "?f (rs, insert name (set rs)) = (rs', seen)"
      using Cons.prems(1) by (simp add: add_variant_cases)
    from Cons.IH[OF this Cons.prems(2-4)] 2 show ?thesis by auto
  next
    case 3
    then have "?f (rs @ [v], insert name (set (rs @ [v]))) = (rs', seen)"
      using Cons.prems(1) by (simp add: add_variant_cases insert_commute)
    from Cons.IH[OF this] Cons.prems 3 show ?thesis by auto
  qed
qed simp

lemma variant_candidates_set:
  assumes "mset multi = mset multiHomoglyphMap"
  shows "set (variant_candidates multi name) = homoglyph_variants name"
  using mset_eq_setD[OF assms]
  by (auto simp: variant_candidates_def homoglyph_variants_def)

lemma ExpandHomoglyphs_inv:
  assumes "mset multi = mset multiHomoglyphMap"
  shows "distinct (ExpandHomoglyphs multi name) \<and> name \<notin> set (ExpandHomoglyphs multi name) \<and>
    length (ExpandHomoglyphs multi name) \<le> maxHomoglyphVariants \<and>
    set (ExpandHomoglyphs multi name) \<subseteq> homoglyph_variants name \<and>
    (length (ExpandHomoglyphs multi name) < maxHomoglyphVariants \<longrightarrow>
       homoglyph_variants name - {name} \<subseteq> set (ExpandHomoglyphs multi name))"
proof -
  have "\<forall>e\<in>set multi. fst e \<noteq> []"
    unfolding mset_eq_setD[OF assms] by (simp add: multiHomoglyphMap_def)
  note e = ExpandHomoglyphs_candidates[OF this, of name]
  obtain rs seen where "fold add_variant (variant_candidates multi name) ([], insert name (set [])) = (rs, seen)"
    by fastforce
  from add_variants_inv[OF this] this e show ?thesis
    by (simp add: variant_candidates_set[OF assms])
qed

text \<open>Whatever order the runtime enumerates the pattern map in, homoglyph expansion returns at
  most 50 distinct variants, never the name itself, each of them one substitution of the table
  away from the name.\<close>

theorem ExpandHomoglyphs_sound:
  assumes "mset multi = mset multiHomoglyphMap"
  shows "length (ExpandHomoglyphs multi name) \<le> 50 \<and> distinct (ExpandHomoglyphs multi name) \<and>
    set (ExpandHomoglyphs multi name) \<subseteq> homoglyph_variants name - {name}"
  using ExpandHomoglyphs_inv[OF assms, of name] by (auto simp: maxHomoglyphVariants_def)

lemma ExpandHomoglyphs_sound_witness:
  "set (ExpandHomoglyphs multiHomoglyphMap ''loda5h'') \<subseteq> homoglyph_variants ''loda5h'' - {''loda5h''}"
  using ExpandHomoglyphs_sound[of multiHomoglyphMap "''loda5h''"] by blast

lemma byte_of_char_of: "char_of n = c \<longleftrightarrow> n mod 256 = byte c" for n :: nat
  by (simp add: char_of_eq_iff take_bit_eq_mod)

lemmas homoglyph_eval =
  ExpandHomoglyphs_def homoglyphMap_def multiHomoglyphMap_def expand_position_def expand_multi_def
  expand_pattern.simps add_variant_def maxHomoglyphVariants_def unicode_ToLower_ascii str_Index.simps
  HasPrefix_def encode_rune_def valid_rune_def byte_of_char_of

text \<open>Below the cap the expansion is complete and does not depend on map order: the results are
  exactly the strings one table substitution away from the name.\<close>

theorem ExpandHomoglyphs_complete:
  assumes "mset multi = mset multiHomoglyphMap" and "length (ExpandHomoglyphs multi name) < 50"
  shows "set (ExpandHomoglyphs multi name) = homoglyph_variants name - {name}"
  using ExpandHomoglyphs_inv[OF assms(1), of name] assms(2)
  by (auto simp: maxHomoglyphVariants_def)

lemma ExpandHomoglyphs_complete_witness:
  "set (ExpandHomoglyphs (rev multiHomoglyphMap) ''m0'') = homoglyph_variants ''m0'' - {''m0''}"
proof (rule ExpandHomoglyphs_complete)
  show "length (ExpandHomoglyphs (rev multiHomoglyphMap) ''m0'') < 50"
    by (simp add: homoglyph_eval)
qed simp

section \<open>The confusables fold\<close>

text \<open>Every value of the table is an ASCII letter or digit that is lower case and not a key.\<close>

definition fold_target :: "rune \<Rightarrow> bool" where
  "fold_target v \<longleftrightarrow> v < 128 \<and> unicode_ToLower v = v \<and> confusables v = None"

lemma confusable_base_keys: "97 \<le> r \<Longrightarrow> r \<le> 122 \<Longrightarrow> map_of confusable_base r = None"
proof -
  assume r: "97 \<le> r" "r \<le> 122"
  have "list_all (\<lambda>(k, _). k < 97 \<or> 122 < k) confusable_base" by (simp add: confusable_base_def)
  then have "r \<notin> fst ` set confusable_base" using r by (fastforce simp: list_all_iff)
  then show ?thesis by (simp add: map_of_eq_None_iff)
qed

lemma ascii_lower_target: "97 \<le> r \<Longrightarrow> r \<le> 122 \<Longrightarrow> fold_target r"
  by (simp add: fold_target_def unicode_ToLower_ascii confusables_def confusable_base_keys)

lemma digit_target: "r \<in> {50, 52, 54, 55, 56, 57} \<Longrightarrow> fold_target r"
  unfolding insert_iff empty_iff
  by (elim disjE; simp add: fold_target_def unicode_ToLower_ascii confusables_def confusable_base_def)

lemma confusable_base_target: "map_of confusable_base r = Some v \<Longrightarrow> r \<noteq> 1058 \<Longrightarrow> fold_target v"
proof -
  assume "map_of confusable_base r = Some v" "r \<noteq> 1058"
  then have "(r, v) \<in> set (filter (\<lambda>(k, _). k \<noteq> 1058) confusable_base)"
    using map_of_SomeD by fastforce
  moreover have "list_all (\<lambda>(_, v). 97 \<le> v \<and> v \<le> 122) (filter (\<lambda>(k, _). k \<noteq> 1058) confusable_base)"
    by (simp add: confusable_base_def)
  ultimately show ?thesis
    by (auto simp: list_all_iff intro!: ascii_lower_target)
qed

lemma confusables_target: "confusables r = Some v \<Longrightarrow> fold_target v"
proof -
  assume c: "confusables r = Some v"
  consider (digit) "65296 \<le> r" "r \<le> 65305" | (low) "65345 \<le> r" "r \<le> 65370"
    | (up) "65313 \<le> r" "r \<le> 65338" | (te) "r = 1058"
    | (base) "map_of confusable_base r = Some v" "r \<noteq> 1058"
    using c by (auto simp: confusables_def split: if_splits)
  then show ?thesis
  proof cases
    case digit
    then obtain k where k: "r = 65296 + k" "k \<le> 9" using le_Suc_ex[of 65296 r] by auto
    then have "k = 0 \<or> k = 1 \<or> k = 2 \<or> k = 3 \<or> k = 4 \<or> k = 5 \<or> k = 6 \<or> k = 7 \<or> k = 8 \<or> k = 9"
      by presburger
    with c k(1) have "97 \<le> v \<and> v \<le> 122 \<or> v \<in> {50, 52, 54, 55, 56, 57}"
      by (elim disjE; simp add: confusables_def confusable_base_def)
    then show ?thesis using ascii_lower_target digit_target by blast
  next
    case base
    then show ?thesis by (rule confusable_base_target)
  qed (use c in \<open>auto simp: confusables_def intro!: ascii_lower_target\<close>)
qed

lemma fold_rune_target: "fold_target v \<Longrightarrow> fold_rune v = v"
  by (simp add: fold_target_def fold_rune_def)

lemma fold_rune_valid: "valid_rune r \<Longrightarrow> valid_rune (fold_rune r)"
proof (cases "confusables r")
  case (Some v)
  with confusables_target[OF Some] show ?thesis
    by (simp add: fold_rune_def fold_target_def valid_rune_def)
qed (simp add: fold_rune_def unicode_ToLower_valid)

lemma Normalize_runes: "Normalize s = utf8_encode (map fold_rune (utf8_decode s))"
  by (simp add: Normalize_def)

lemma decode_Normalize: "utf8_decode (Normalize s) = map fold_rune (utf8_decode s)"
  by (simp add: Normalize_runes utf8_decode_encode_map fold_rune_valid)

lemma Normalize_eq_iff: "Normalize s = Normalize t \<longleftrightarrow> map fold_rune (utf8_decode s) = map fold_rune (utf8_decode t)"
  by (metis Normalize_runes decode_Normalize)

lemma fold_rune_twice:
  "fold_rune (fold_rune r) = fold_rune r \<longleftrightarrow>
   (confusables r = None \<longrightarrow> confusables (unicode_ToLower r) = None)"
proof (cases "confusables r")
  case None
  show ?thesis
  proof (cases "confusables (unicode_ToLower r)")
    case (Some v)
    then have "v \<noteq> unicode_ToLower r" using confusables_target[OF Some] by (auto simp: fold_target_def)
    with None Some show ?thesis by (simp add: fold_rune_def)
  qed (use None in \<open>simp add: fold_rune_def\<close>)
next
  case (Some v)
  from fold_rune_target[OF confusables_target[OF Some]] Some show ?thesis by (simp add: fold_rune_def)
qed

lemma fold_rune_thrice: "fold_rune (fold_rune (fold_rune r)) = fold_rune (fold_rune r)"
proof (cases "confusables r")
  case None
  show ?thesis
  proof (cases "confusables (unicode_ToLower r)")
    case (Some v)
    from fold_rune_target[OF confusables_target[OF Some]] Some None show ?thesis by (simp add: fold_rune_def)
  qed (use None in \<open>simp add: fold_rune_def\<close>)
next
  case (Some v)
  from fold_rune_target[OF confusables_target[OF Some]] Some show ?thesis by (simp add: fold_rune_def)
qed

text \<open>Normalize is idempotent on a name exactly when no character outside the table lower-cases
  to a character in it; two passes always reach a form that a third leaves unchanged.\<close>

theorem Normalize_idempotent_iff:
  "(Normalize (Normalize s) \<noteq> Normalize s \<longleftrightarrow>
     list_ex (\<lambda>r. confusables r = None \<and> confusables (unicode_ToLower r) \<noteq> None) (utf8_decode s)) \<and>
   Normalize (Normalize (Normalize s)) = Normalize (Normalize s)"
proof
  show "Normalize (Normalize s) \<noteq> Normalize s \<longleftrightarrow>
     list_ex (\<lambda>r. confusables r = None \<and> confusables (unicode_ToLower r) \<noteq> None) (utf8_decode s)"
    unfolding Normalize_eq_iff decode_Normalize list_ex_iff using fold_rune_twice
    by (auto simp del: not_None_eq)
  show "Normalize (Normalize (Normalize s)) = Normalize (Normalize s)"
    unfolding Normalize_eq_iff decode_Normalize using fold_rune_thrice by simp
qed

text \<open>The comment of the table states that Normalize is idempotent. It is not: the capital
  Cyrillic letter U+0405 is not a key, lower-cases to U+0455, and a second pass gives 's'.\<close>

theorem Normalize_not_idempotent:
  "Normalize (Normalize (utf8_encode [1029])) = ''s'' \<and> Normalize (utf8_encode [1029]) \<noteq> ''s''"
proof -
  have f: "fold_rune 1029 = 1109" "fold_rune 1109 = 115"
    by (simp_all add: fold_rune_def confusables_def confusable_base_def unicode_ToLower_def lower_table_def in_range_def)
  have "utf8_decode (utf8_encode [1029]) = [1029]" by (rule utf8_decode_encode) (simp add: valid_rune_def)
  then have "utf8_decode (Normalize (utf8_encode [1029])) = [1109]" by (simp only: decode_Normalize f list.map)
  moreover have "Normalize (Normalize (utf8_encode [1029])) = utf8_encode [115]"
    by (simp only: Normalize_runes[of "Normalize (utf8_encode [1029])"] calculation f list.map)
  moreover have "utf8_decode ''s'' = [115]" by simp
  moreover have "utf8_encode [115] = ''s''" by (simp add: encode_rune_def valid_rune_def byte_of_char_of)
  ultimately show ?thesis by fastforce
qed

text \<open>Two names collide exactly when they differ as byte strings and agree character by character
  after folding; the relation is symmetric and irreflexive.\<close>

theorem IsHomoglyphCollision_iff:
  "(IsHomoglyphCollision a b \<longleftrightarrow>
     a \<noteq> b \<and> map fold_rune (utf8_decode a) = map fold_rune (utf8_decode b)) \<and>
   IsHomoglyphCollision a b = IsHomoglyphCollision b a \<and> \<not> IsHomoglyphCollision a a"
  by (auto simp: IsHomoglyphCollision_def Normalize_eq_iff)

section \<open>Major versions of Go modules\<close>

lemma decode_multi_ascii_append:
  assumes "byte c < 128"
  shows "decode_multi b (s @ c # t) = decode_multi b s"
proof -
  consider "s = []" | x where "s = [x]" | x y where "s = [x, y]" | x y z u where "s = x # y # z # u"
    by (metis list.exhaust)
  then show ?thesis
    by cases (use assms in \<open>auto simp: decode_multi.simps cont_def split: list.split\<close>)
qed

lemma decode_multi_length: "decode_multi b s = Some (r, k) \<Longrightarrow> k \<le> length s"
  by (auto simp: decode_multi.simps split: if_splits list.splits)

lemma utf8_decode_ascii_append:
  "byte c < 128 \<Longrightarrow> utf8_decode (s @ c # t) = utf8_decode s @ byte c # utf8_decode t"
proof (induction s rule: utf8_decode.induct)
  case (2 x s)
  show ?case
  proof (cases "byte x < 128 \<or> decode_multi (byte x) s = None")
    case True
    with 2 show ?thesis by (auto simp: decode_multi_ascii_append)
  next
    case False
    then obtain r k where "decode_multi (byte x) s = Some (r, k)" by auto
    with 2 False decode_multi_length[OF this] show ?thesis by (auto simp: decode_multi_ascii_append)
  qed
qed simp

lemma ToLower_ascii_append:
  assumes "byte c < 128"
  shows "ToLower (s @ c # t) = ToLower s @ byte_lower c # ToLower t"
  using assms ascii_lower_rune[of c] by (simp add: ToLower_runes utf8_decode_ascii_append)

lemma ToLower_digits: "allDigits n \<Longrightarrow> ToLower n = n"
  by (auto simp: allDigits_def ToLower_def is_ascii_def byte_lower_def list_all_iff intro!: map_idI)

lemma str_LastIndex_absent: "x \<notin> set s \<Longrightarrow> str_LastIndex s (x # p) = None"
  by (induction s) (auto simp: HasPrefix_def)

lemma str_LastIndex_append: "str_LastIndex s p = Some i \<Longrightarrow> str_LastIndex (a @ s) p = Some (length a + i)"
  by (induction a) auto

lemma str_LastIndex_major:
  assumes "allDigits n"
  shows "str_LastIndex (a @ ''/v'' @ n) ''/v'' = Some (length a)"
proof -
  have "CHR ''/'' \<notin> set n" using assms by (auto simp: allDigits_def list_all_iff)
  then have "str_LastIndex (''v'' @ n) ''/v'' = None" by (intro str_LastIndex_absent) simp
  then have "str_LastIndex (''/v'' @ n) ''/v'' = Some 0" by (simp add: HasPrefix_def)
  from str_LastIndex_append[OF this, of a] show ?thesis by simp
qed

text \<open>A major-version suffix /v2 and up of a Go module path is stripped and the rest of the path,
  owner included, is kept: every major of a module line has the same key as the bare path.\<close>

theorem NormalizeGo_major_version:
  assumes "p \<noteq> []" and "allDigits n" and "hd n \<noteq> CHR ''0''" and "n \<noteq> ''1''"
    and "\<not> HasPrefix (ToLower (p @ ''/v'' @ n)) ''gopkg.in/''"
  shows "NormalizeGo (p @ ''/v'' @ n) = ToLower p"
proof -
  have "byte (CHR ''v'') = (118::nat)" by simp
  then have l: "ToLower (p @ ''/v'' @ n) = ToLower p @ ''/v'' @ n"
    using ToLower_ascii_append[of "CHR ''/''" p "''v'' @ n"] ToLower_ascii_append[of "CHR ''v''" "[]" n]
      ToLower_digits[OF assms(2)]
    by (simp add: byte_lower_def)
  have "utf8_decode p \<noteq> []" using assms(1) by (cases p) (auto split: option.splits)
  then have "ToLower p \<noteq> []" by (cases "utf8_decode p") (auto simp: ToLower_runes)
  with assms str_LastIndex_major[OF assms(2), of "ToLower p"] show ?thesis
    unfolding NormalizeGo_def l Let_def by simp
qed

lemma NormalizeGo_major_version_witness:
  "NormalizeGo (''github.com/shirou/gopsutil'' @ ''/v'' @ ''4'') = ToLower ''github.com/shirou/gopsutil''"
  by (rule NormalizeGo_major_version)
    (simp_all add: allDigits_def ToLower_def is_ascii_def byte_lower_def HasPrefix_def)


end
