(* ===== verification/Detector.thy ===== *)
theory Detector
  imports BKTree Normalize Float64 "HOL-Library.Product_Lexorder"
begin

text \<open>
  The typosquat detector: typosquat/detector.go, the sibling exemption of typosquat/official.go,
  the download-ranked reference of typosquat/established.go and the GitHub Actions corpus of
  typosquat/github_actions.go. \<open>Detector\<close> is the struct, \<open>LoadEcosystem\<close> builds the indexes,
  \<open>check\<close> runs the steps of the method of that name one after the other (each step is a
  definition that returns the result or \<open>None\<close>), \<open>Check\<close> adds the two verdict adjustments.

  Three loops of the code range over Go maps, whose order changes from run to run. The orders
  are an argument of the model, a record \<open>MapOrder\<close> of functions that permute the entries:
  the facts say which verdicts depend on it. The seed files that the package embeds are the
  arguments \<open>npmSeed\<close> and \<open>pypiSeed\<close>. The logger and the mutex are left out.
\<close>

section \<open>Data\<close>

record DetectionResult =
  IsSuspected :: bool
  Confidence :: string
  SimilarTo :: string
  ResDistance :: nat
  Method :: string
  TargetRank :: int

definition no_result :: DetectionResult where
  "no_result = \<lparr>IsSuspected = False, Confidence = [], SimilarTo = [], ResDistance = 0, Method = [],
     TargetRank = 0\<rparr>"

record PopularPackage =
  Name :: string
  Rank :: int

record ThresholdConfig =
  VeryShortNameMaxDistance :: int
  ShortNameMaxDistance :: int
  LongNameMaxDistance :: int
  VeryShortNameLenCutoff :: int
  ShortNameLenCutoff :: int
  MaxRelativeDistance :: rat

definition defaultVeryShortNameMaxDistance :: int where "defaultVeryShortNameMaxDistance = 1"
definition defaultShortNameMaxDistance :: int where "defaultShortNameMaxDistance = 2"
definition defaultLongNameMaxDistance :: int where "defaultLongNameMaxDistance = 3"
definition defaultVeryShortNameLenCutoff :: int where "defaultVeryShortNameLenCutoff = 4"
definition defaultShortNameLenCutoff :: int where "defaultShortNameLenCutoff = 10"
definition defaultMaxRelativeDistance :: rat where "defaultMaxRelativeDistance = rnd (2 / 5)"

record reorderEntry =
  re_normalized :: string
  re_original :: string
  re_tokenCount :: nat

record Detector =
  trees :: "string \<rightharpoonup> string BKTree"
  lookup :: "string \<rightharpoonup> (string, string) gomap"
  ranks :: "string \<rightharpoonup> (string \<rightharpoonup> int)"
  norms :: "string \<rightharpoonup> normalizer"
  reorder :: "string \<rightharpoonup> (string, reorderEntry) gomap"
  confusable :: "string \<rightharpoonup> (string, string list) gomap"
  siblings :: "string \<rightharpoonup> string set"
  thresholds :: ThresholdConfig

definition with_defaults :: "ThresholdConfig \<Rightarrow> ThresholdConfig" where
  "with_defaults cfg = \<lparr>
     VeryShortNameMaxDistance =
       (if VeryShortNameMaxDistance cfg = 0 then defaultVeryShortNameMaxDistance else VeryShortNameMaxDistance cfg),
     ShortNameMaxDistance =
       (if ShortNameMaxDistance cfg = 0 then defaultShortNameMaxDistance else ShortNameMaxDistance cfg),
     LongNameMaxDistance =
       (if LongNameMaxDistance cfg = 0 then defaultLongNameMaxDistance else LongNameMaxDistance cfg),
     VeryShortNameLenCutoff =
       (if VeryShortNameLenCutoff cfg = 0 then defaultVeryShortNameLenCutoff else VeryShortNameLenCutoff cfg),
     ShortNameLenCutoff =
       (if ShortNameLenCutoff cfg = 0 then defaultShortNameLenCutoff else ShortNameLenCutoff cfg),
     MaxRelativeDistance =
       (if MaxRelativeDistance cfg = 0 then defaultMaxRelativeDistance else MaxRelativeDistance cfg)\<rparr>"

definition NewDetectorWithConfig :: "ThresholdConfig \<Rightarrow> Detector" where
  "NewDetectorWithConfig cfg = \<lparr>trees = Map.empty, lookup = Map.empty, ranks = Map.empty,
     norms = Map.empty, reorder = Map.empty, confusable = Map.empty, siblings = Map.empty,
     thresholds = with_defaults cfg\<rparr>"

definition NewDetector :: Detector where
  "NewDetector = NewDetectorWithConfig \<lparr>VeryShortNameMaxDistance = 0, ShortNameMaxDistance = 0,
     LongNameMaxDistance = 0, VeryShortNameLenCutoff = 0, ShortNameLenCutoff = 0, MaxRelativeDistance = 0\<rparr>"

section \<open>Loading an ecosystem\<close>

record Indexes =
  ix_tree :: "string BKTree"
  ix_names :: "(string, string) gomap"
  ix_ranks :: "string \<rightharpoonup> int"
  ix_reorder :: "(string, reorderEntry) gomap"
  ix_confusable :: "(string, string list) gomap"

definition empty_indexes :: Indexes where
  "empty_indexes = \<lparr>ix_tree = NewBKTree, ix_names = [], ix_ranks = Map.empty, ix_reorder = [], ix_confusable = []\<rparr>"

text \<open>The body of the loop of \<open>LoadEcosystem\<close> for the package at slice position \<open>i\<close>.\<close>

definition load_package :: "normalizer \<Rightarrow> nat \<times> PopularPackage \<Rightarrow> Indexes \<Rightarrow> Indexes" where
  "load_package nf = (\<lambda>(i, pkg) ix.
     (let normalized = nf (Name pkg) in
      if normalized = [] then ix
      else
        let rank = (if Rank pkg = 0 then int i + 1 else Rank pkg);
            cnorm = Normalize (Name pkg);
            (canonical, count) = ReorderTokens normalized
        in \<lparr>ix_tree = BKTree_Insert (ix_tree ix) normalized,
            ix_names = AList.update normalized (Name pkg) (ix_names ix),
            ix_ranks =
              (case ix_ranks ix normalized of
                 None \<Rightarrow> (ix_ranks ix)(normalized \<mapsto> rank)
               | Some prev \<Rightarrow> if rank < prev then (ix_ranks ix)(normalized \<mapsto> rank) else ix_ranks ix),
            ix_reorder =
              (if 2 \<le> count \<and> map_of (ix_reorder ix) canonical = None
               then AList.update canonical
                 \<lparr>re_normalized = normalized, re_original = Name pkg, re_tokenCount = count\<rparr> (ix_reorder ix)
               else ix_reorder ix),
            ix_confusable =
              (if cnorm \<noteq> []
               then AList.update cnorm (get_or (map_of (ix_confusable ix)) cnorm [] @ [Name pkg]) (ix_confusable ix)
               else ix_confusable ix)\<rparr>))"

definition load_packages :: "normalizer \<Rightarrow> PopularPackage list \<Rightarrow> Indexes" where
  "load_packages nf packages = fold (load_package nf) (enumerate 0 packages) empty_indexes"

definition LoadEcosystem :: "Detector \<Rightarrow> string \<Rightarrow> PopularPackage list \<Rightarrow> Detector" where
  "LoadEcosystem d ecosystem0 packages =
     (let ecosystem = ToLower ecosystem0;
          nf = NormalizerForFormat ecosystem;
          ix = load_packages nf packages
      in d\<lparr>trees := (trees d)(ecosystem \<mapsto> ix_tree ix),
           lookup := (lookup d)(ecosystem \<mapsto> ix_names ix),
           ranks := (ranks d)(ecosystem \<mapsto> ix_ranks ix),
           norms := (norms d)(ecosystem \<mapsto> nf),
           reorder := (reorder d)(ecosystem \<mapsto> ix_reorder ix),
           confusable := (confusable d)(ecosystem \<mapsto> ix_confusable ix)\<rparr>)"

definition HasIndex :: "Detector \<Rightarrow> string \<Rightarrow> bool" where
  "HasIndex d ecosystem =
     (case trees d (ToLower ecosystem) of None \<Rightarrow> False | Some tree \<Rightarrow> 0 < BKTree_Size tree)"

section \<open>The sibling exemption\<close>

definition nameSet :: "string list \<Rightarrow> string set" where
  "nameSet names = set (filter (\<lambda>n. n \<noteq> []) (map (\<lambda>n. TrimSpace (ToLower n)) names))"

definition officialNpmNames :: "string list" where
  "officialNpmNames =
    [''lodash.merge'', ''lodash.isplainobject'', ''lodash.once'', ''lodash.isstring'',
     ''lodash.camelcase'', ''lodash.includes'', ''lodash.isinteger'', ''lodash.isboolean'',
     ''lodash.debounce'', ''lodash.memoize'', ''lodash.isnumber'', ''lodash.uniq'',
     ''lodash.defaults'', ''lodash.sortby'', ''lodash.isequal'', ''lodash.isarguments'',
     ''lodash.castarray'', ''lodash.get'', ''lodash.clonedeep'', ''lodash.truncate'',
     ''lodash.flatten'', ''lodash.escaperegexp'', ''lodash.throttle'', ''lodash.difference'',
     ''lodash.union'', ''lodash.isfunction'', ''lodash.snakecase'', ''lodash.mergewith'',
     ''lodash.flattendeep'', ''lodash.groupby'', ''lodash.isnil'', ''lodash.startcase'',
     ''lodash.kebabcase'', ''lodash.isundefined'', ''lodash.upperfirst'', ''lodash.isobject'',
     ''lodash.uniqby'', ''lodash.isempty'', ''lodash.template'', ''lodash.templatesettings'',
     ''lodash._reinterpolate'', ''lodash.ismatch'', ''lodash.keys'', ''lodash-es'']"

definition officialSiblings :: "string \<rightharpoonup> string set" where
  "officialSiblings = [''npm'' \<mapsto> nameSet officialNpmNames]"

definition LoadOfficialSiblings :: "Detector \<Rightarrow> string \<Rightarrow> string list \<Rightarrow> Detector" where
  "LoadOfficialSiblings d ecosystem0 names =
     (let ecosystem = ToLower (TrimSpace ecosystem0) in
      if ecosystem = [] \<or> names = [] then d
      else
        let nf = NormalizerForFormat ecosystem;
            added = filter (\<lambda>n. n \<noteq> []) (map nf names)
        in d\<lparr>siblings := (siblings d)(ecosystem \<mapsto> get_or (siblings d) ecosystem {} \<union> set added)\<rparr>)"

definition isOfficialSibling :: "Detector \<Rightarrow> string \<Rightarrow> string \<Rightarrow> bool" where
  "isOfficialSibling d ecosystem normalized =
     (if normalized = [] then False
      else if normalized \<in> get_or officialSiblings ecosystem {} then True
      else normalized \<in> get_or (siblings d) ecosystem {})"

section \<open>The download-ranked reference\<close>

text \<open>The lines of \<open>bufio.Scanner\<close>: it stops at a line that does not fit its 64 KiB buffer.\<close>

definition scan_lines :: "string \<Rightarrow> string list" where
  "scan_lines text = takeWhile (\<lambda>l. length l < 65536) (split_byte (CHR 0x0A) text)"

definition established_line :: "normalizer \<Rightarrow> string \<Rightarrow> nat \<times> (string \<rightharpoonup> nat) \<Rightarrow> nat \<times> (string \<rightharpoonup> nat)" where
  "established_line nf line0 = (\<lambda>(rank, rmap).
     (let line = TrimSpace line0 in
      if line = [] \<or> HasPrefix line ''#'' then (rank, rmap)
      else
        let rank = rank + 1; key = nf line in
        if key = [] then (rank, rmap)
        else if rmap key = None then (rank, rmap(key \<mapsto> rank)) else (rank, rmap)))"

definition parse_established :: "normalizer \<Rightarrow> string \<Rightarrow> (string \<rightharpoonup> nat)" where
  "parse_established nf text = snd (fold (established_line nf) (scan_lines text) (0, Map.empty))"

definition loadEstablishedRanks :: "string \<Rightarrow> string \<Rightarrow> (string \<rightharpoonup> (string \<rightharpoonup> nat))" where
  "loadEstablishedRanks npmSeed pypiSeed =
     [''npm'' \<mapsto> parse_established (NormalizerForFormat ''npm'') npmSeed,
      ''pip'' \<mapsto> parse_established (NormalizerForFormat ''pip'') pypiSeed,
      ''pypi'' \<mapsto> parse_established (NormalizerForFormat ''pypi'') pypiSeed]"

definition establishedRank :: "(string \<rightharpoonup> (string \<rightharpoonup> nat)) \<Rightarrow> string \<Rightarrow> string \<Rightarrow> nat option" where
  "establishedRank est ecosystem name =
     (case est (ToLower (TrimSpace ecosystem)) of
        None \<Rightarrow> None
      | Some rmap \<Rightarrow>
          let key = NormalizerForFormat ecosystem name in
          if key = [] then None else rmap key)"

definition establishedCandidate :: "(string \<rightharpoonup> (string \<rightharpoonup> nat)) \<Rightarrow> string \<Rightarrow> string \<Rightarrow> bool" where
  "establishedCandidate est ecosystem candidate =
     (if candidate = [] then False else establishedRank est ecosystem candidate \<noteq> None)"

section \<open>Owner scopes\<close>

definition ownerScopeSeparator :: "string \<Rightarrow> char option" where
  "ownerScopeSeparator ecosystem =
     (if ToLower ecosystem = ''github_actions'' then Some (CHR ''/'')
      else if ToLower ecosystem = ''swift'' then Some (CHR ''.'')
      else None)"

definition ownerScopeOf :: "string \<Rightarrow> char \<Rightarrow> string option" where
  "ownerScopeOf name0 sep =
     (let name = ToLower (TrimSpace name0);
          name = (case index_byte name (CHR ''@'') of
                    Some k \<Rightarrow> if 0 < k then take k name else name
                  | None \<Rightarrow> name)
      in case index_byte name sep of
           None \<Rightarrow> None
         | Some i \<Rightarrow> if i = 0 then None else Some (take i name))"

definition sameOwnerSibling :: "string \<Rightarrow> string \<Rightarrow> string \<Rightarrow> bool" where
  "sameOwnerSibling ecosystem candidate popular =
     (case ownerScopeSeparator ecosystem of
        None \<Rightarrow> False
      | Some sep \<Rightarrow>
          if candidate = [] \<or> popular = [] then False
          else case (ownerScopeOf candidate sep, ownerScopeOf popular sep) of
                 (Some cs, Some ps) \<Rightarrow> cs = ps
               | _ \<Rightarrow> False)"

section \<open>The steps of a check\<close>

record MapOrder =
  mo_multi :: "(string, string) gomap"
  mo_names :: "(string, string) gomap \<Rightarrow> (string, string) gomap"
  mo_matches :: "string SearchResult list \<Rightarrow> string SearchResult list"

definition map_order_ok :: "MapOrder \<Rightarrow> bool" where
  "map_order_ok ord \<longleftrightarrow>
     mset (mo_multi ord) = mset multiHomoglyphMap \<and>
     (\<forall>m. mset (mo_names ord m) = mset m) \<and> (\<forall>ms. mset (mo_matches ord ms) = mset ms)"

definition go_order :: MapOrder where
  "go_order = \<lparr>mo_multi = multiHomoglyphMap, mo_names = id, mo_matches = id\<rparr>"

text \<open>Step 0: collision with a popular name after the confusables fold.\<close>

definition check_confusable ::
  "normalizer \<Rightarrow> (string \<rightharpoonup> int) \<Rightarrow> (string, string list) gomap \<Rightarrow> string \<Rightarrow> DetectionResult option" where
  "check_confusable nf rks confusableIdx packageName =
     (if confusableIdx = [] then None
      else
        let cnorm = Normalize packageName in
        if cnorm = [] then None
        else case map_of confusableIdx cnorm of
               None \<Rightarrow> None
             | Some popularNames \<Rightarrow>
                 map_option
                   (\<lambda>popular. \<lparr>IsSuspected = True, Confidence = ''high'', SimilarTo = popular,
                      ResDistance = 1, Method = ''homoglyph'', TargetRank = get_or rks (nf popular) 0\<rparr>)
                   (find (\<lambda>popular. popular \<noteq> packageName) popularNames))"

text \<open>Step 1: the nearest popular name by edit distance.\<close>

definition betterEditMatch :: "string SearchResult \<Rightarrow> string SearchResult \<Rightarrow> (string \<rightharpoonup> int) \<Rightarrow> bool" where
  "betterEditMatch cand best rks =
     (if Distance cand \<noteq> Distance best then Distance cand < Distance best
      else
        let cr = get_or rks (Word cand) 0; br = get_or rks (Word best) 0 in
        if cr \<noteq> br then (if cr = 0 \<or> br = 0 then br = 0 else cr < br)
        else Word cand < Word best)"

definition best_match :: "(string \<rightharpoonup> int) \<Rightarrow> string SearchResult list \<Rightarrow> string SearchResult" where
  "best_match rks matches = pick_best (\<lambda>m best. betterEditMatch m best rks) matches"

definition edit_threshold :: "ThresholdConfig \<Rightarrow> string \<Rightarrow> int" where
  "edit_threshold cfg normalized =
     (if int (length normalized) \<le> VeryShortNameLenCutoff cfg then VeryShortNameMaxDistance cfg
      else if ShortNameLenCutoff cfg < int (length normalized) then LongNameMaxDistance cfg
      else ShortNameMaxDistance cfg)"

text \<open>The quotient is a double; the conversions of the two lengths are rounded as well.\<close>

definition relative_ok :: "ThresholdConfig \<Rightarrow> string \<Rightarrow> string SearchResult \<Rightarrow> bool" where
  "relative_ok cfg normalized best =
     (if 0 < MaxRelativeDistance cfg then
        (let longer = max (length normalized) (length (Word best)) in
         if 0 < longer
         then \<not> MaxRelativeDistance cfg < fdiv (rnd (of_nat (Distance best))) (rnd (of_nat longer))
         else True)
      else True)"

definition check_edit ::
  "MapOrder \<Rightarrow> ThresholdConfig \<Rightarrow> string BKTree \<Rightarrow> (string, string) gomap \<Rightarrow> (string \<rightharpoonup> int) \<Rightarrow> string
   \<Rightarrow> DetectionResult option" where
  "check_edit ord cfg tree names rks normalized =
     (let matches = mo_matches ord (BKTree_Search tree normalized (edit_threshold cfg normalized)) in
      if matches = [] then None
      else
        let best = best_match rks matches in
        if relative_ok cfg normalized best then
          let original = get_or (map_of names) (Word best) [] in
          Some \<lparr>IsSuspected = True,
            Confidence = (if Distance best = 1 then ''high'' else ''medium''),
            SimilarTo = (if original = [] then Word best else original),
            ResDistance = Distance best, Method = ''edit-distance'',
            TargetRank = get_or rks (Word best) 0\<rparr>
        else None)"

text \<open>Step 1.5: the same tokens in another order.\<close>

definition check_reorder ::
  "(string, reorderEntry) gomap \<Rightarrow> (string \<rightharpoonup> int) \<Rightarrow> string \<Rightarrow> DetectionResult option" where
  "check_reorder reorderIdx rks normalized =
     (if reorderIdx = [] then None
      else
        let (canonical, count) = ReorderTokens normalized in
        if count < 2 then None
        else case map_of reorderIdx canonical of
               None \<Rightarrow> None
             | Some entry \<Rightarrow>
                 if re_tokenCount entry = count \<and> re_normalized entry \<noteq> normalized then
                   let dist = DamerauLevenshtein normalized (re_normalized entry) in
                   Some \<lparr>IsSuspected = True, Confidence = (if dist \<le> 1 then ''high'' else ''medium''),
                     SimilarTo = re_original entry, ResDistance = dist, Method = ''reorder'',
                     TargetRank = get_or rks (re_normalized entry) 0\<rparr>
                 else None)"

text \<open>Step 2: a homoglyph variant is a popular name.\<close>

definition check_homoglyph ::
  "MapOrder \<Rightarrow> (string, string) gomap \<Rightarrow> (string \<rightharpoonup> int) \<Rightarrow> string \<Rightarrow> DetectionResult option" where
  "check_homoglyph ord names rks normalized =
     (case find (\<lambda>v. map_of names v \<noteq> None) (ExpandHomoglyphs (mo_multi ord) normalized) of
        None \<Rightarrow> None
      | Some variant \<Rightarrow>
          Some \<lparr>IsSuspected = True, Confidence = ''high'', SimilarTo = the (map_of names variant),
            ResDistance = 1, Method = ''homoglyph'', TargetRank = get_or rks variant 0\<rparr>)"

text \<open>Step 3: a popular name embedded on a token boundary.\<close>

definition isNameDelimiter :: "char \<Rightarrow> bool" where
  "isNameDelimiter b \<longleftrightarrow>
     b = CHR ''-'' \<or> b = CHR ''_'' \<or> b = CHR ''.'' \<or> b = CHR ''/'' \<or> b = CHR ''@'' \<or> b = CHR '':''"

function aligned_from :: "string \<Rightarrow> string \<Rightarrow> nat \<Rightarrow> bool" where
  "aligned_from name part i =
     (case str_Index (drop i name) part of
        None \<Rightarrow> False
      | Some j \<Rightarrow>
          let start = i + j; finish = start + length part;
              startAligned = (start = 0 \<or> isNameDelimiter (name ! (start - 1)));
              endAligned = (finish = length name \<or> isNameDelimiter (name ! finish))
          in if startAligned \<or> endAligned then True
             else if length name < start + 1 + length part then False
             else aligned_from name part (start + 1))"
  by pat_completeness auto
termination
  by (relation "measure (\<lambda>(name, part, i). length name - i)") auto

declare aligned_from.simps [simp del]

definition tokenAlignedContains :: "string \<Rightarrow> string \<Rightarrow> bool" where
  "tokenAlignedContains name part =
     (if part = [] \<or> length name < length part then False else aligned_from name part 0)"

text \<open>The loop over the popular names: the state is the best result and its number of extra bytes.\<close>

definition combosquat_step ::
  "string \<Rightarrow> (string \<rightharpoonup> int) \<Rightarrow> string \<times> string \<Rightarrow> DetectionResult \<times> nat \<Rightarrow> DetectionResult \<times> nat" where
  "combosquat_step normalized rks = (\<lambda>(popularNorm, popularOrig) (best, bestExtra).
     (let extra = length normalized - length popularNorm in
      if length popularNorm < max 3 (length normalized - 8) then (best, bestExtra)
      else if length normalized \<le> length popularNorm then (best, bestExtra)
      else if 8 < extra \<or> bestExtra \<le> extra then (best, bestExtra)
      else if tokenAlignedContains normalized popularNorm then
        (\<lparr>IsSuspected = True, Confidence = ''low'', SimilarTo = popularOrig, ResDistance = extra,
           Method = ''combosquat'', TargetRank = get_or rks popularNorm 0\<rparr>, extra)
      else (best, bestExtra)))"

definition checkCombosquat ::
  "MapOrder \<Rightarrow> Detector \<Rightarrow> string \<Rightarrow> string \<Rightarrow> (string, string) gomap \<Rightarrow> (string \<rightharpoonup> int) \<Rightarrow> DetectionResult" where
  "checkCombosquat ord d ecosystem normalized names rks =
     (if length normalized < 4 then no_result
      else if isOfficialSibling d ecosystem normalized then no_result
      else fst (fold (combosquat_step normalized rks) (mo_names ord names) (no_result, 999)))"

section \<open>The check\<close>

definition check :: "MapOrder \<Rightarrow> Detector \<Rightarrow> string \<Rightarrow> string \<Rightarrow> DetectionResult" where
  "check ord d ecosystem0 packageName =
     (let ecosystem = ToLower ecosystem0;
          names = get_or (lookup d) ecosystem [];
          rks = get_or (ranks d) ecosystem Map.empty;
          reorderIdx = get_or (reorder d) ecosystem [];
          confusableIdx = get_or (confusable d) ecosystem []
      in case trees d ecosystem of
           None \<Rightarrow> no_result
         | Some tree \<Rightarrow>
             if BKTree_Size tree = 0 then no_result
             else
               let nf = the (norms d ecosystem); normalized = nf packageName in
               if normalized = [] then no_result
               else if map_of names normalized \<noteq> None then no_result
               else case check_confusable nf rks confusableIdx packageName of
                      Some r \<Rightarrow> r
                    | None \<Rightarrow> (case check_edit ord (thresholds d) tree names rks normalized of
                        Some r \<Rightarrow> r
                      | None \<Rightarrow> (case check_reorder reorderIdx rks normalized of
                          Some r \<Rightarrow> r
                        | None \<Rightarrow> (case check_homoglyph ord names rks normalized of
                            Some r \<Rightarrow> r
                          | None \<Rightarrow>
                              let result = checkCombosquat ord d ecosystem normalized names rks in
                              if IsSuspected result then result else no_result))))"

definition Check ::
  "(string \<rightharpoonup> (string \<rightharpoonup> nat)) \<Rightarrow> MapOrder \<Rightarrow> Detector \<Rightarrow> string \<Rightarrow> string \<Rightarrow> DetectionResult" where
  "Check est ord d ecosystem packageName =
     (let res = check ord d ecosystem packageName in
      if \<not> IsSuspected res then res
      else if establishedCandidate est ecosystem packageName then no_result
      else if Confidence res \<noteq> ''low'' \<and> sameOwnerSibling ecosystem packageName (SimilarTo res)
      then res\<lparr>Confidence := ''low''\<rparr>
      else res)"

definition EcosystemsWithTyposquatRisk :: "string list" where
  "EcosystemsWithTyposquatRisk =
    [''npm'', ''pip'', ''cargo'', ''composer'', ''rubygems'', ''nuget'', ''docker'', ''huggingface'',
     ''maven'', ''gradle'', ''swift'', ''go'', ''cocoapods'', ''pub'', ''github_actions'']"

definition IsLowRiskEcosystem :: "string \<Rightarrow> bool" where
  "IsLowRiskEcosystem ecosystem \<longleftrightarrow> ToLower ecosystem \<in> {''apt'', ''dnf'', ''yum'', ''homebrew'', ''brew''}"

section \<open>The GitHub Actions corpus\<close>

definition githubActionNames :: "string list" where
  "githubActionNames =
    [''actions/checkout'', ''actions/setup-node'', ''actions/setup-python'',
     ''actions/setup-go'', ''actions/setup-java'', ''actions/setup-dotnet'',
     ''actions/setup-ruby'', ''actions/cache'', ''actions/upload-artifact'',
     ''actions/download-artifact'', ''actions/github-script'', ''actions/labeler'',
     ''actions/stale'', ''actions/create-release'', ''actions/configure-pages'',
     ''actions/deploy-pages'', ''actions/upload-pages-artifact'',
     ''actions/first-interaction'', ''actions/dependency-review-action'',
     ''actions/add-to-project'', ''actions/attest-build-provenance'',
     ''aws-actions/configure-aws-credentials'', ''aws-actions/amazon-ecr-login'',
     ''aws-actions/amazon-ecs-deploy-task-definition'',
     ''aws-actions/amazon-ecs-render-task-definition'',
     ''aws-actions/aws-cloudformation-github-deploy'', ''aws-actions/setup-sam'',
     ''docker/login-action'', ''docker/build-push-action'', ''docker/setup-buildx-action'',
     ''docker/setup-qemu-action'', ''docker/metadata-action'', ''docker/bake-action'',
     ''github/codeql-action'', ''github/super-linter'', ''github/issue-labeler'',
     ''microsoft/setup-msbuild'', ''microsoft/playwright-github-action'', ''azure/login'',
     ''azure/k8s-deploy'', ''azure/webapps-deploy'', ''azure/aks-set-context'',
     ''azure/arm-deploy'', ''google-github-actions/auth'',
     ''google-github-actions/setup-gcloud'', ''google-github-actions/get-gke-credentials'',
     ''google-github-actions/deploy-cloudrun'', ''golangci/golangci-lint-action'',
     ''goreleaser/goreleaser-action'', ''pre-commit/action'', ''peaceiris/actions-gh-pages'',
     ''peaceiris/actions-hugo'', ''JS-DevTools/npm-publish'', ''softprops/action-gh-release'',
     ''ncipollo/release-action'', ''release-drafter/release-drafter'',
     ''semantic-release/semantic-release'', ''codecov/codecov-action'',
     ''coverallsapp/github-action'', ''reviewdog/action-eslint'',
     ''shogo82148/actions-goveralls'', ''crazy-max/ghaction-import-gpg'',
     ''sigstore/cosign-installer'', ''slsa-framework/slsa-github-generator'',
     ''step-security/harden-runner'', ''trufflesecurity/trufflehog'',
     ''gitleaks/gitleaks-action'', ''snyk/actions'', ''aquasecurity/trivy-action'',
     ''anchore/scan-action'', ''nick-fields/retry'', ''actions-rs/toolchain'',
     ''actions-rs/cargo'', ''dtolnay/rust-toolchain'', ''swatinem/rust-cache'',
     ''ruby/setup-ruby'', ''hashicorp/setup-terraform'', ''pulumi/actions'']"

definition PopularGitHubActions :: "PopularPackage list" where
  "PopularGitHubActions = map (\<lambda>(i, n). \<lparr>Name = n, Rank = int i\<rparr>) (enumerate 0 githubActionNames)"

definition NewGitHubActionsDetector :: Detector where
  "NewGitHubActionsDetector = LoadEcosystem NewDetector ''github_actions'' PopularGitHubActions"

section \<open>The nearest match\<close>

definition match_key :: "(string \<rightharpoonup> int) \<Rightarrow> string SearchResult \<Rightarrow> nat \<times> bool \<times> int \<times> string" where
  "match_key rks m = (Distance m, get_or rks (Word m) 0 = 0, get_or rks (Word m) 0, Word m)"

lemma betterEditMatch_key: "betterEditMatch m b rks \<longleftrightarrow> match_key rks m < match_key rks b"
  by (auto simp: betterEditMatch_def match_key_def less_prod_def Let_def)

lemma match_key_inject: "match_key rks m = match_key rks b \<Longrightarrow> m = b"
  by (cases m; cases b) (simp add: match_key_def)

interpretation edit_choice: strict_choice "\<lambda>m best. betterEditMatch m best rks" for rks
  unfolding betterEditMatch_key
  by unfold_locales (simp, erule (1) less_trans, metis match_key_inject neq_iff)

lemma best_match_in: "ms \<noteq> [] \<Longrightarrow> best_match rks ms \<in> set ms"
  unfolding best_match_def by (rule edit_choice.pick_best_in)

lemma best_match_cong: "set ms = set ms' \<Longrightarrow> best_match rks ms = best_match rks ms'"
  unfolding best_match_def by (rule edit_choice.pick_best_cong)

lemma betterEditMatch_closer: "Distance m < Distance b \<Longrightarrow> betterEditMatch m b rks"
  by (simp add: betterEditMatch_def)

lemma best_match_nearest: "m \<in> set ms \<Longrightarrow> Distance (best_match rks ms) \<le> Distance m"
  using edit_choice.pick_best_least[of m ms rks] betterEditMatch_closer[of m "best_match rks ms" rks]
  unfolding best_match_def by linarith

lemma map_order_matches:
  "map_order_ok ord \<Longrightarrow> set (mo_matches ord ms) = set ms"
  "map_order_ok ord \<Longrightarrow> mo_matches ord ms = [] \<longleftrightarrow> ms = []"
  unfolding map_order_ok_def by (metis mset_eq_setD) (metis mset_zero_iff)

lemma check_edit_order:
  assumes "map_order_ok o1" and "map_order_ok o2"
  shows "check_edit o1 cfg tree names rks q = check_edit o2 cfg tree names rks q"
  using assms best_match_cong[of "mo_matches o1 (BKTree_Search tree q (edit_threshold cfg q))"
      "mo_matches o2 (BKTree_Search tree q (edit_threshold cfg q))" rks]
  by (simp add: check_edit_def map_order_matches Let_def)

lemma go_order_ok: "map_order_ok go_order"
  by (simp add: map_order_ok_def go_order_def)

section \<open>Token alignment\<close>

definition aligned_at :: "string \<Rightarrow> string \<Rightarrow> nat \<Rightarrow> bool" where
  "aligned_at name part k \<longleftrightarrow> occurs_at part name k \<and>
     (k = 0 \<or> isNameDelimiter (name ! (k - 1)) \<or>
      k + length part = length name \<or> isNameDelimiter (name ! (k + length part)))"

lemma ex_ge_Suc: "(\<exists>k\<ge>n. P k) \<longleftrightarrow> P n \<or> (\<exists>k\<ge>Suc n. P k)"
  by (metis Suc_leD le_eq_less_or_eq Suc_leI order_refl)

lemma aligned_from_iff:
  "part \<noteq> [] \<Longrightarrow> aligned_from name part i \<longleftrightarrow> (\<exists>k\<ge>i. aligned_at name part k)"
proof (induction name part i rule: aligned_from.induct)
  case (1 name part i)
  show ?case
  proof (cases "str_Index (drop i name) part")
    case None
    with str_Index_drop_None[OF None] show ?thesis
      by (subst aligned_from.simps) (auto simp: aligned_at_def)
  next
    case (Some j)
    note d = str_Index_drop[OF Some 1(2)]
    let ?al = "i + j = 0 \<or> isNameDelimiter (name ! (i + j - 1)) \<or>
      i + j + length part = length name \<or> isNameDelimiter (name ! (i + j + length part))"
    have "(\<exists>k\<ge>i. aligned_at name part k) \<longleftrightarrow> ?al \<or> (\<exists>k\<ge>i + j + 1. aligned_at name part k)"
    proof -
      have "i + j \<le> k" if "i \<le> k" "aligned_at name part k" for k
      proof (rule ccontr)
        assume "\<not> ?thesis"
        with d that(1) have "\<not> occurs_at part name k" by simp
        with that(2) show False by (simp add: aligned_at_def)
      qed
      then have ge: "i \<le> k \<and> aligned_at name part k \<longleftrightarrow> i + j \<le> k \<and> aligned_at name part k" for k
        by (meson le_add1 le_trans)
      have "(\<exists>k\<ge>i. aligned_at name part k) \<longleftrightarrow>
          aligned_at name part (i + j) \<or> (\<exists>k\<ge>i + j + 1. aligned_at name part k)"
        unfolding ge using ex_ge_Suc[of "i + j" "aligned_at name part"] by simp
      moreover have "aligned_at name part (i + j) \<longleftrightarrow> ?al" using d by (simp add: aligned_at_def)
      ultimately show ?thesis by blast
    qed
    moreover have "\<not> (\<exists>k\<ge>i + j + 1. aligned_at name part k)" if "length name < i + j + 1 + length part"
      using that by (auto simp: aligned_at_def occurs_at_def)
    moreover have "aligned_from name part (i + j + 1) \<longleftrightarrow> (\<exists>k\<ge>i + j + 1. aligned_at name part k)"
      if "\<not> ?al" "\<not> length name < i + j + 1 + length part"
      using 1(1)[OF Some refl refl refl refl _ that(2) 1(2)] that(1) by argo
    moreover have "aligned_from name part i \<longleftrightarrow>
        (if ?al then True else if length name < i + j + 1 + length part then False
         else aligned_from name part (i + j + 1))"
      by (subst aligned_from.simps) (simp only: Some option.case Let_def disj_assoc)
    ultimately show ?thesis by argo
  qed
qed

lemma tokenAlignedContains_occurs:
  "tokenAlignedContains name part \<longleftrightarrow> part \<noteq> [] \<and> (\<exists>k. aligned_at name part k)"
  by (auto simp: tokenAlignedContains_def aligned_from_iff aligned_at_def occurs_at_def)

lemma aligned_at_split:
  "aligned_at (front @ part @ tail) part (length front) \<longleftrightarrow>
   front = [] \<or> isNameDelimiter (last front) \<or> tail = [] \<or> isNameDelimiter (hd tail)"
proof -
  have "(front @ part @ tail) ! (length front - 1) = last front" if "front \<noteq> []"
    using that by (simp add: nth_append last_conv_nth)
  moreover have "(front @ part @ tail) ! (length front + length part) = hd tail" if "tail \<noteq> []"
    using that by (simp add: nth_append hd_conv_nth)
  ultimately show ?thesis by (cases "tail = []"; cases "front = []") (simp_all add: aligned_at_def occurs_at_def)
qed

text \<open>tokenAlignedContains finds an occurrence of the part, at any position, that begins or ends on
  a token boundary: it does not stop at the first occurrence.\<close>

theorem tokenAlignedContains_iff:
  "tokenAlignedContains name part \<longleftrightarrow>
     part \<noteq> [] \<and>
     (\<exists>front tail. name = front @ part @ tail \<and>
        (front = [] \<or> isNameDelimiter (last front) \<or> tail = [] \<or> isNameDelimiter (hd tail)))"
proof -
  have "(\<exists>k. aligned_at name part k) \<longleftrightarrow> (\<exists>front tail. name = front @ part @ tail \<and>
        (front = [] \<or> isNameDelimiter (last front) \<or> tail = [] \<or> isNameDelimiter (hd tail)))" (is "?l \<longleftrightarrow> ?r")
  proof
    assume ?l
    then obtain k where k: "aligned_at name part k" ..
    then have o: "k + length part \<le> length name" "take (length part) (drop k name) = part"
      by (simp_all add: aligned_at_def occurs_at_def)
    then have "take k name @ part @ drop (k + length part) name = name" "k \<le> length name"
      by (metis append_take_drop_id drop_drop add.commute) (use o in linarith)
    then obtain front tail where n: "name = front @ part @ tail" "length front = k"
      by (metis length_take min.absorb2)
    with k aligned_at_split[of front part tail] show ?r by blast
  next
    assume ?r
    then obtain front tail where p: "name = front @ part @ tail"
      "front = [] \<or> isNameDelimiter (last front) \<or> tail = [] \<or> isNameDelimiter (hd tail)" by blast
    then have "aligned_at name part (length front)" using aligned_at_split[of front part tail] by blast
    then show ?l ..
  qed
  then show ?thesis by (simp add: tokenAlignedContains_occurs)
qed

section \<open>The combosquat lane\<close>

definition embeds :: "string \<Rightarrow> string \<Rightarrow> bool" where
  "embeds q p \<longleftrightarrow> 3 \<le> length p \<and> length p < length q \<and> length q \<le> length p + 8 \<and> tokenAlignedContains q p"

definition combo_result :: "string \<Rightarrow> (string \<rightharpoonup> int) \<Rightarrow> string \<times> string \<Rightarrow> DetectionResult" where
  "combo_result q rks e = \<lparr>IsSuspected = True, Confidence = ''low'', SimilarTo = snd e,
     ResDistance = length q - length (fst e), Method = ''combosquat'', TargetRank = get_or rks (fst e) 0\<rparr>"

lemma combosquat_step_embeds:
  "combosquat_step q rks e (best, extra) =
   (if embeds q (fst e) \<and> length q - length (fst e) < extra
    then (combo_result q rks e, length q - length (fst e)) else (best, extra))"
  by (cases e) (auto simp: combosquat_step_def embeds_def combo_result_def Let_def)

definition combo_extra :: "string \<Rightarrow> string \<times> string \<Rightarrow> nat" where
  "combo_extra q e = length q - length (fst e)"

lemma combosquat_fold:
  assumes "fold (combosquat_step q rks) es (best, extra) = (best', extra')"
  shows "extra' \<le> extra \<and>
    (\<forall>e\<in>set es. embeds q (fst e) \<longrightarrow> extra' \<le> combo_extra q e) \<and>
    (best' = best \<and> extra' = extra \<or>
     (\<exists>e\<in>set es. embeds q (fst e) \<and> best' = combo_result q rks e \<and> extra' = combo_extra q e))"
  using assms
proof (induction es arbitrary: best extra)
  case (Cons e es)
  show ?case
  proof (cases "embeds q (fst e) \<and> length q - length (fst e) < extra")
    case True
    with Cons.prems Cons.IH[of "combo_result q rks e" "length q - length (fst e)"]
    show ?thesis by (auto simp: combosquat_step_embeds combo_extra_def)
  next
    case False
    with Cons.prems Cons.IH[of best extra]
    show ?thesis by (auto simp: combosquat_step_embeds combo_extra_def)
  qed
qed simp

lemma embeds_extra: "embeds q p \<Longrightarrow> length q - length p \<le> 8"
  unfolding embeds_def by linarith

lemma no_result_simps [simp]:
  "IsSuspected no_result = False" "Confidence no_result = []" "SimilarTo no_result = []"
  "ResDistance no_result = 0" "Method no_result = []" "TargetRank no_result = 0"
  by (simp_all add: no_result_def)

lemma combo_result_simps [simp]:
  "IsSuspected (combo_result q rks e)" "Confidence (combo_result q rks e) = ''low''"
  "SimilarTo (combo_result q rks e) = snd e" "ResDistance (combo_result q rks e) = combo_extra q e"
  "Method (combo_result q rks e) = ''combosquat''" "TargetRank (combo_result q rks e) = get_or rks (fst e) 0"
  by (simp_all add: combo_result_def combo_extra_def)

lemma checkCombosquat_cases:
  assumes "map_order_ok ord"
  obtains (none) "checkCombosquat ord d eco q names rks = no_result"
      "length q < 4 \<or> isOfficialSibling d eco q \<or> (\<forall>e\<in>set names. \<not> embeds q (fst e))"
  | (hit) e where "e \<in> set names" "embeds q (fst e)" "4 \<le> length q" "\<not> isOfficialSibling d eco q"
      "checkCombosquat ord d eco q names rks = combo_result q rks e"
      "\<forall>e'\<in>set names. embeds q (fst e') \<longrightarrow> combo_extra q e \<le> combo_extra q e'"
proof -
  obtain best extra where f: "fold (combosquat_step q rks) (mo_names ord names) (no_result, 999) = (best, extra)"
    by fastforce
  have s: "set (mo_names ord names) = set names"
    using assms unfolding map_order_ok_def by (metis mset_eq_setD)
  note inv = combosquat_fold[OF f, unfolded s]
  show thesis
  proof (cases "length q < 4 \<or> isOfficialSibling d eco q")
    case True
    then have "checkCombosquat ord d eco q names rks = no_result" by (auto simp: checkCombosquat_def)
    with True show ?thesis using none by blast
  next
    case False
    then have c: "checkCombosquat ord d eco q names rks = best" by (simp add: checkCombosquat_def f)
    from inv consider "best = no_result" "extra = 999"
      | e where "e \<in> set names" "embeds q (fst e)" "best = combo_result q rks e" "extra = combo_extra q e"
      by blast
    then show ?thesis
    proof cases
      case 1
      have "\<not> embeds q (fst e)" if "e \<in> set names" for e
        using inv 1 that embeds_extra[of q "fst e"] by (force simp: combo_extra_def)
      with 1 c none show ?thesis by blast
    next
      case 2
      with False c inv hit show ?thesis by (simp add: not_less)
    qed
  qed
qed

text \<open>The combosquat lane fires exactly when the name has at least 4 bytes, is not a registered
  sibling, and some popular name of at least 3 bytes sits in it on a token boundary with 1 to 8
  further bytes; the result is graded low and reports such a name with the fewest further bytes.\<close>

theorem checkCombosquat_spec:
  assumes "map_order_ok ord"
  shows "let r = checkCombosquat ord d eco q names rks in
    (IsSuspected r \<longleftrightarrow>
      4 \<le> length q \<and> \<not> isOfficialSibling d eco q \<and> (\<exists>e\<in>set names. embeds q (fst e))) \<and>
    (IsSuspected r \<longrightarrow> Confidence r = ''low'' \<and>
      (\<exists>e\<in>set names. embeds q (fst e) \<and> SimilarTo r = snd e \<and> ResDistance r = combo_extra q e \<and>
        (\<forall>e'\<in>set names. embeds q (fst e') \<longrightarrow> ResDistance r \<le> combo_extra q e')))"
proof (rule checkCombosquat_cases[OF assms, of d eco q names rks])
  fix e
  assume "e \<in> set names" "embeds q (fst e)" "4 \<le> length q" "\<not> isOfficialSibling d eco q"
    and r: "checkCombosquat ord d eco q names rks = combo_result q rks e"
    and "\<forall>e'\<in>set names. embeds q (fst e') \<longrightarrow> combo_extra q e \<le> combo_extra q e'"
  then show ?thesis unfolding r Let_def by auto
qed (auto simp: Let_def)

lemma checkCombosquat_spec_witness:
  "IsSuspected (checkCombosquat go_order NewDetector ''pip'' ''abc-wxyz'' [(''abc'', ''abc'')] Map.empty)"
proof -
  have "embeds ''abc-wxyz'' ''abc''"
    by (simp add: embeds_def tokenAlignedContains_occurs aligned_at_def occurs_at_def isNameDelimiter_def)
      (intro exI[of _ 0], simp)
  moreover have "\<not> isOfficialSibling NewDetector ''pip'' ''abc-wxyz''"
    by (simp add: isOfficialSibling_def officialSiblings_def NewDetector_def NewDetectorWithConfig_def get_or_def)
  ultimately show ?thesis
    using checkCombosquat_spec[OF go_order_ok, of NewDetector "''pip''" "''abc-wxyz''" "[(''abc'', ''abc'')]" Map.empty]
    by (simp add: Let_def)
qed

text \<open>Whether the combosquat lane fires, and with how many further bytes, does not depend on the
  order in which the runtime enumerates the popular names.\<close>

theorem checkCombosquat_order_independent:
  assumes "map_order_ok o1" and "map_order_ok o2"
  shows "IsSuspected (checkCombosquat o1 d eco q names rks) = IsSuspected (checkCombosquat o2 d eco q names rks) \<and>
    ResDistance (checkCombosquat o1 d eco q names rks) = ResDistance (checkCombosquat o2 d eco q names rks)"
proof -
  note a = checkCombosquat_cases[OF assms(1), of d eco q names rks]
  note b = checkCombosquat_cases[OF assms(2), of d eco q names rks]
  show ?thesis
    by (rule a; rule b) (auto simp: not_le intro: le_antisym)
qed

lemma checkCombosquat_order_independent_witness:
  "ResDistance (checkCombosquat go_order NewDetector ''npm'' ''abc-xyz'' [(''abc'', ''abc'')] Map.empty) =
   ResDistance (checkCombosquat (go_order\<lparr>mo_names := rev\<rparr>) NewDetector ''npm'' ''abc-xyz'' [(''abc'', ''abc'')] Map.empty)"
  by (rule conjunct2[OF checkCombosquat_order_independent])
    (simp_all add: map_order_ok_def go_order_def)

text \<open>The reported name does depend on it: two popular names embedded with the same number of
  further bytes are resolved by map order, although the comment of betterEditMatch requires
  Check to be a pure function of corpus and query.\<close>

theorem checkCombosquat_order_dependent:
  "SimilarTo (checkCombosquat go_order NewDetector ''pip'' ''abc-xyz'' [(''abc'', ''abc''), (''xyz'', ''xyz'')] Map.empty) = ''abc'' \<and>
   SimilarTo (checkCombosquat (go_order\<lparr>mo_names := rev\<rparr>) NewDetector ''pip'' ''abc-xyz'' [(''abc'', ''abc''), (''xyz'', ''xyz'')] Map.empty) = ''xyz'' \<and>
   map_order_ok go_order \<and> map_order_ok (go_order\<lparr>mo_names := rev\<rparr>)"
proof -
  have e: "embeds ''abc-xyz'' ''abc''" "embeds ''abc-xyz'' ''xyz''"
    by (simp_all add: embeds_def tokenAlignedContains_occurs aligned_at_def occurs_at_def isNameDelimiter_def)
      (auto intro: exI[of _ 0] exI[of _ 4])
  then show ?thesis
    by (simp add: checkCombosquat_def combosquat_step_embeds isOfficialSibling_def officialSiblings_def
        NewDetector_def NewDetectorWithConfig_def get_or_def go_order_def map_order_ok_def combo_extra_def)
qed

section \<open>The loaded indexes\<close>

definition loaded_keys :: "normalizer \<Rightarrow> PopularPackage list \<Rightarrow> string list" where
  "loaded_keys nf ps = filter (\<lambda>w. w \<noteq> []) (map (\<lambda>p. nf (Name p)) ps)"

lemma loaded_keys_simps [simp]:
  "loaded_keys nf [] = []"
  "loaded_keys nf (p # ps) = (if nf (Name p) = [] then loaded_keys nf ps else nf (Name p) # loaded_keys nf ps)"
  by (simp_all add: loaded_keys_def)

lemma load_package_skip: "nf (Name p) = [] \<Longrightarrow> load_package nf (i, p) ix = ix"
  by (simp add: load_package_def)

lemma load_package_fields:
  assumes "nf (Name p) \<noteq> []"
  shows "ix_tree (load_package nf (i, p) ix) = BKTree_Insert (ix_tree ix) (nf (Name p))"
    "ix_names (load_package nf (i, p) ix) = AList.update (nf (Name p)) (Name p) (ix_names ix)"
  using assms by (simp_all add: load_package_def Let_def split: prod.split)

lemma load_tree:
  "ix_tree (fold (load_package nf) (enumerate k ps) ix) =
   fold (\<lambda>w t. BKTree_Insert t w) (loaded_keys nf ps) (ix_tree ix)"
  by (induction ps arbitrary: k ix) (auto simp: load_package_skip load_package_fields)

lemma load_packages_tree: "ix_tree (load_packages nf ps) = bk_build (loaded_keys nf ps)"
  by (simp add: load_packages_def load_tree bk_build_def empty_indexes_def)

text \<open>Every entry of an index comes from a loaded package.\<close>

definition indexes_ok :: "normalizer \<Rightarrow> PopularPackage list \<Rightarrow> Indexes \<Rightarrow> bool" where
  "indexes_ok nf ps ix \<longleftrightarrow>
     (\<forall>w. map_of (ix_names ix) w \<noteq> None \<longleftrightarrow> w \<in> set (loaded_keys nf ps)) \<and>
     (\<forall>w n. map_of (ix_names ix) w = Some n \<longrightarrow> (\<exists>p\<in>set ps. n = Name p \<and> nf n = w)) \<and>
     (\<forall>w. ix_ranks ix w \<noteq> None \<longleftrightarrow> w \<in> set (loaded_keys nf ps)) \<and>
     ((\<forall>p\<in>set ps. 0 \<le> Rank p) \<longrightarrow> (\<forall>w r. ix_ranks ix w = Some r \<longrightarrow> 0 < r)) \<and>
     (\<forall>c e. map_of (ix_reorder ix) c = Some e \<longrightarrow>
        re_normalized e \<in> set (loaded_keys nf ps) \<and> (\<exists>p\<in>set ps. re_original e = Name p)) \<and>
     (\<forall>c ns n. map_of (ix_confusable ix) c = Some ns \<longrightarrow> n \<in> set ns \<longrightarrow>
        nf n \<in> set (loaded_keys nf ps) \<and> (\<exists>p\<in>set ps. n = Name p))"

lemma indexes_okD:
  assumes "indexes_ok nf ps ix"
  shows "map_of (ix_names ix) w \<noteq> None \<longleftrightarrow> w \<in> set (loaded_keys nf ps)"
    and "map_of (ix_names ix) w = Some n \<Longrightarrow> \<exists>p\<in>set ps. n = Name p \<and> nf n = w"
    and "ix_ranks ix w \<noteq> None \<longleftrightarrow> w \<in> set (loaded_keys nf ps)"
    and "\<forall>p\<in>set ps. 0 \<le> Rank p \<Longrightarrow> ix_ranks ix w = Some r \<Longrightarrow> 0 < r"
    and "map_of (ix_reorder ix) c = Some e \<Longrightarrow>
      re_normalized e \<in> set (loaded_keys nf ps) \<and> (\<exists>p\<in>set ps. re_original e = Name p)"
    and "map_of (ix_confusable ix) c = Some ns \<Longrightarrow> n \<in> set ns \<Longrightarrow>
      nf n \<in> set (loaded_keys nf ps) \<and> (\<exists>p\<in>set ps. n = Name p)"
  using assms unfolding indexes_ok_def by blast+

lemma loaded_keys_snoc:
  "loaded_keys nf (ps @ [p]) = loaded_keys nf ps @ (if nf (Name p) = [] then [] else [nf (Name p)])"
  by (simp add: loaded_keys_def)

lemma load_package_ok:
  assumes ok: "indexes_ok nf ps ix" and p: "nf (Name p) \<noteq> []"
  shows "indexes_ok nf (ps @ [p]) (load_package nf (i, p) ix)"
proof -
  let ?w = "nf (Name p)" and ?ix = "load_package nf (i, p) ix"
  obtain c n where ct: "ReorderTokens ?w = (c, n)" by fastforce
  note D = indexes_okD[OF ok]
  have keys: "set (loaded_keys nf (ps @ [p])) = insert ?w (set (loaded_keys nf ps))"
    using p by (simp add: loaded_keys_snoc)
  have names: "map_of (ix_names ?ix) w = (if w = ?w then Some (Name p) else map_of (ix_names ix) w)" for w
    using p by (simp add: load_package_fields update_conv')
  have ranks: "ix_ranks ?ix w = (if w = ?w then Some r else ix_ranks ix w)"
    if "r = (case ix_ranks ix ?w of None \<Rightarrow> if Rank p = 0 then int i + 1 else Rank p
          | Some r \<Rightarrow> min r (if Rank p = 0 then int i + 1 else Rank p))" for w r
    using p that by (auto simp: load_package_def ct Let_def split: option.split)
  have reord: "map_of (ix_reorder ?ix) k = Some e \<Longrightarrow>
      map_of (ix_reorder ix) k = Some e \<or> (re_normalized e = ?w \<and> re_original e = Name p)" for k e
    using p by (auto simp: load_package_def ct Let_def update_conv' split: if_splits)
  have conf: "map_of (ix_confusable ?ix) k = Some ns \<Longrightarrow> x \<in> set ns \<Longrightarrow>
      x = Name p \<or> (\<exists>ns'. map_of (ix_confusable ix) k = Some ns' \<and> x \<in> set ns')" for k ns x
    using p by (auto simp: load_package_def ct Let_def update_conv' get_or_def split: if_splits option.splits)
  show ?thesis
    unfolding indexes_ok_def keys
  proof (intro conjI allI impI)
    fix w show "map_of (ix_names ?ix) w \<noteq> None \<longleftrightarrow> w \<in> insert ?w (set (loaded_keys nf ps))"
      using D(1)[of w] by (simp add: names)
    fix n show "map_of (ix_names ?ix) w = Some n \<Longrightarrow> \<exists>p\<in>set (ps @ [p]). n = Name p \<and> nf n = w"
      using D(2)[of w n] by (auto simp: names split: if_splits)
    show "ix_ranks ?ix w \<noteq> None \<longleftrightarrow> w \<in> insert ?w (set (loaded_keys nf ps))"
      using D(3)[of w] by (simp add: ranks[OF refl])
    fix r show "\<forall>p\<in>set (ps @ [p]). 0 \<le> Rank p \<Longrightarrow> ix_ranks ?ix w = Some r \<Longrightarrow> 0 < r"
      using D(4)[of w] D(4)[of ?w] by (auto simp: ranks[OF refl] split: if_splits option.splits)
    fix e k show "map_of (ix_reorder ?ix) k = Some e \<Longrightarrow> re_normalized e \<in> insert ?w (set (loaded_keys nf ps))"
      "map_of (ix_reorder ?ix) k = Some e \<Longrightarrow> \<exists>p\<in>set (ps @ [p]). re_original e = Name p"
      using reord[of k e] D(5)[of k e] by auto
    fix ns x show "map_of (ix_confusable ?ix) k = Some ns \<Longrightarrow> x \<in> set ns \<Longrightarrow>
        nf x \<in> insert ?w (set (loaded_keys nf ps))"
      "map_of (ix_confusable ?ix) k = Some ns \<Longrightarrow> x \<in> set ns \<Longrightarrow> \<exists>p\<in>set (ps @ [p]). x = Name p"
      using conf[of k ns x] D(6)[of k _ x] by auto
  qed
qed

lemma indexes_ok_skip:
  "indexes_ok nf ps ix \<Longrightarrow> nf (Name p) = [] \<Longrightarrow> indexes_ok nf (ps @ [p]) ix"
  unfolding indexes_ok_def by (simp add: loaded_keys_snoc)

lemma load_packages_ok: "indexes_ok nf ps (load_packages nf ps)"
  unfolding load_packages_def
proof (induction ps rule: rev_induct)
  case Nil
  then show ?case by (simp add: indexes_ok_def empty_indexes_def)
next
  case (snoc p ps)
  have "enumerate 0 (ps @ [p]) = enumerate 0 ps @ [(length ps, p)]"
    by (simp add: enumerate_append_eq)
  with snoc load_package_ok[OF snoc] indexes_ok_skip[OF snoc] show ?case
    by (cases "nf (Name p) = []") (simp_all add: load_package_skip)
qed

section \<open>Checks against a loaded ecosystem\<close>

definition key_of :: "string \<Rightarrow> string \<Rightarrow> string" where
  "key_of ecosystem name = NormalizerForFormat ecosystem name"

lemma NormalizerForFormat_ToLower [simp]: "NormalizerForFormat (ToLower e) = NormalizerForFormat e"
  by (simp add: NormalizerForFormat_def Let_def)

lemma NormalizerForFormat_Nil: "NormalizerForFormat e [] = []"
  by (auto simp: NormalizerForFormat_def Let_def NormalizeNPM_def NormalizePyPI_def NormalizeMaven_def
      NormalizeCargo_def NormalizeGo_def NormalizeDocker_def NormalizeComposer_def NormalizeRubyGems_def
      NormalizeNuGet_def NormalizeHuggingFace_def NormalizeCocoapods_def NormalizeGeneric_def
      NormalizeGitHubActions_def stripDelimiters_def replace_byte_def TrimPrefix_def HasPrefix_def
      trim_left.simps trim_right.simps TrimSpace_def index_byte_def)

definition check_loaded ::
  "MapOrder \<Rightarrow> Detector \<Rightarrow> string \<Rightarrow> PopularPackage list \<Rightarrow> string \<Rightarrow> DetectionResult" where
  "check_loaded ord d eco ps name = check ord (LoadEcosystem d eco ps) eco name"

text \<open>The check of a freshly loaded ecosystem, over the indexes of the load.\<close>

lemma check_LoadEcosystem:
  fixes d eco ps
  defines "nf \<equiv> NormalizerForFormat eco"
  defines "ix \<equiv> load_packages nf ps"
  defines "d' \<equiv> LoadEcosystem d eco ps"
  shows "check ord d' eco name =
    (if BKTree_Size (ix_tree ix) = 0 \<or> nf name = [] \<or> map_of (ix_names ix) (nf name) \<noteq> None then no_result
     else case check_confusable nf (ix_ranks ix) (ix_confusable ix) name of
       Some r \<Rightarrow> r
     | None \<Rightarrow> (case check_edit ord (thresholds d) (ix_tree ix) (ix_names ix) (ix_ranks ix) (nf name) of
         Some r \<Rightarrow> r
       | None \<Rightarrow> (case check_reorder (ix_reorder ix) (ix_ranks ix) (nf name) of
           Some r \<Rightarrow> r
         | None \<Rightarrow> (case check_homoglyph ord (ix_names ix) (ix_ranks ix) (nf name) of
             Some r \<Rightarrow> r
           | None \<Rightarrow> (let r = checkCombosquat ord d' (ToLower eco) (nf name) (ix_names ix) (ix_ranks ix)
                      in if IsSuspected r then r else no_result)))))"
proof -
  have f: "trees d' (ToLower eco) = Some (ix_tree ix)" "get_or (lookup d') (ToLower eco) [] = ix_names ix"
    "get_or (ranks d') (ToLower eco) Map.empty = ix_ranks ix" "the (norms d' (ToLower eco)) = nf"
    "get_or (reorder d') (ToLower eco) [] = ix_reorder ix"
    "get_or (confusable d') (ToLower eco) [] = ix_confusable ix" "thresholds d' = thresholds d"
    by (simp_all add: LoadEcosystem_def Let_def get_or_def assms)
  show ?thesis unfolding check_def Let_def f by simp
qed

lemma check_popular:
  assumes "p \<in> set ps" and "NormalizerForFormat eco (Name p) = NormalizerForFormat eco name"
  shows "check ord (LoadEcosystem d eco ps) eco name = no_result"
proof (cases "NormalizerForFormat eco name = []")
  case False
  with assms have "NormalizerForFormat eco name \<in> set (loaded_keys (NormalizerForFormat eco) ps)"
    by (auto simp: loaded_keys_def intro!: image_eqI[OF sym])
  then show ?thesis
    using indexes_okD(1)[OF load_packages_ok] by (simp add: check_LoadEcosystem)
qed (simp add: check_LoadEcosystem)

text \<open>A package whose normalized name is that of a loaded popular package is never suspected,
  whatever else it resembles and in whatever order the maps are enumerated.\<close>

theorem Check_popular_clear:
  assumes "p \<in> set ps" and "NormalizerForFormat eco (Name p) = NormalizerForFormat eco name"
  shows "Check est ord (LoadEcosystem d eco ps) eco name = no_result"
  using check_popular[OF assms] by (simp add: Check_def)

lemma Check_popular_clear_witness:
  "Check Map.empty go_order (LoadEcosystem NewDetector ''npm'' [\<lparr>Name = ''React'', Rank = 0\<rparr>]) ''npm'' ''react'' = no_result"
  by (rule Check_popular_clear[of "\<lparr>Name = ''React'', Rank = 0\<rparr>"])
    (simp_all add: NormalizerForFormat_def NormalizeNPM_def ToLower_def is_ascii_def byte_lower_def byte_of_char_of)

lemma match_in_index:
  assumes "map_order_ok ord" "mo_matches ord (BKTree_Search (bk_build ws) q k) \<noteq> []"
  shows "Word (best_match rks (mo_matches ord (BKTree_Search (bk_build ws) q k))) \<in> set ws"
  using best_match_in[OF assms(2), of rks] bk_build_subset[of ws]
  by (auto simp: map_order_matches[OF assms(1)] BKTree_Search_iff)

lemma load_names_distinct:
  "distinct (map fst (ix_names ix)) \<Longrightarrow>
   distinct (map fst (ix_names (fold (load_package nf) (enumerate k ps) ix)))"
proof (induction ps arbitrary: k ix)
  case (Cons p ps)
  then show ?case
    by (cases "nf (Name p) = []") (simp_all add: load_package_skip load_package_fields distinct_update)
qed simp

definition ranked_hit :: "PopularPackage list \<Rightarrow> DetectionResult \<Rightarrow> bool" where
  "ranked_hit ps r \<longleftrightarrow> SimilarTo r \<in> Name ` set ps \<and> 0 < TargetRank r"

lemma check_ranked_hit:
  assumes ord: "map_order_ok ord" and pos: "\<forall>p\<in>set ps. 0 \<le> Rank p"
    and s: "IsSuspected (check ord (LoadEcosystem d eco ps) eco name)"
  shows "ranked_hit ps (check ord (LoadEcosystem d eco ps) eco name)"
proof -
  define nf where "nf = NormalizerForFormat eco"
  define ix where "ix = load_packages nf ps"
  let ?q = "nf name" and ?K = "set (loaded_keys nf ps)"
  note D = indexes_okD[OF load_packages_ok[of nf ps], folded ix_def]
  have rank: "0 < get_or (ix_ranks ix) w 0" if "w \<in> ?K" for w
    using D(3)[of w] D(4)[OF pos, of w] that by (auto simp: get_or_def)
  have conf: "ranked_hit ps r" if "check_confusable nf (ix_ranks ix) (ix_confusable ix) name = Some r" for r
    using that D(6) rank
    by (fastforce simp: check_confusable_def ranked_hit_def Let_def split: if_splits option.splits dest: find_SomeD)
  have edit: "ranked_hit ps r"
    if h: "check_edit ord (thresholds d) (ix_tree ix) (ix_names ix) (ix_ranks ix) ?q = Some r" for r
  proof -
    let ?ms = "mo_matches ord (BKTree_Search (ix_tree ix) ?q (edit_threshold (thresholds d) ?q))"
    let ?w = "Word (best_match (ix_ranks ix) ?ms)"
    from h have "?ms \<noteq> []" by (auto simp: check_edit_def Let_def split: if_splits)
    then have w: "?w \<in> ?K" using match_in_index[OF ord] by (simp add: ix_def load_packages_tree)
    then obtain n where n: "map_of (ix_names ix) ?w = Some n" using D(1)[of ?w] by auto
    with D(2)[OF n] w have "n \<in> Name ` set ps" "n \<noteq> []"
      by (auto simp: loaded_keys_def nf_def NormalizerForFormat_Nil)
    with h n rank[OF w] show ?thesis
      by (auto simp: check_edit_def ranked_hit_def get_or_def Let_def split: if_splits)
  qed
  have reor: "ranked_hit ps r" if "check_reorder (ix_reorder ix) (ix_ranks ix) ?q = Some r" for r
    using that D(5) rank
    by (fastforce simp: check_reorder_def ranked_hit_def Let_def split: if_splits option.splits prod.splits)
  have homo: "ranked_hit ps r" if "check_homoglyph ord (ix_names ix) (ix_ranks ix) ?q = Some r" for r
  proof -
    from that obtain v n where v: "map_of (ix_names ix) v = Some n"
      and r: "SimilarTo r = n" "TargetRank r = get_or (ix_ranks ix) v 0"
      by (auto simp: check_homoglyph_def split: option.splits dest: find_SomeD)
    with D(1)[of v] D(2)[OF v] rank[of v] show ?thesis by (auto simp: ranked_hit_def)
  qed
  have combo: "ranked_hit ps r"
    if h: "checkCombosquat ord d' e ?q (ix_names ix) (ix_ranks ix) = r" "IsSuspected r" for r d' e
  proof (rule checkCombosquat_cases[OF ord, of d' e ?q "ix_names ix" "ix_ranks ix"])
    fix en assume "en \<in> set (ix_names ix)" and c: "checkCombosquat ord d' e ?q (ix_names ix) (ix_ranks ix) =
        combo_result ?q (ix_ranks ix) en"
    moreover have "distinct (map fst (ix_names ix))"
      unfolding ix_def load_packages_def by (rule load_names_distinct) (simp add: empty_indexes_def)
    ultimately have m: "map_of (ix_names ix) (fst en) = Some (snd en)" by (simp add: map_of_is_SomeI)
    with D(1)[of "fst en"] D(2)[OF m] rank[of "fst en"] h c show ?thesis by (auto simp: ranked_hit_def)
  qed (use h in simp)
  show ?thesis
    using s conf edit reor homo combo
    unfolding check_LoadEcosystem[of ord d eco ps name, folded nf_def, folded ix_def]
    by (auto simp: Let_def split: option.splits if_splits)
qed

text \<open>Every suspicion names a loaded package, and carries its popularity rank, which is never 0:
  slice position backfills a missing rank, and whichever step fires looks the rank up under a
  loaded key.\<close>

theorem Check_names_ranked_target:
  assumes "map_order_ok ord" and "\<forall>p\<in>set ps. 0 \<le> Rank p"
    and "IsSuspected (Check est ord (LoadEcosystem d eco ps) eco name)"
  shows "SimilarTo (Check est ord (LoadEcosystem d eco ps) eco name) \<in> Name ` set ps \<and>
    0 < TargetRank (Check est ord (LoadEcosystem d eco ps) eco name)"
  using assms(3) check_ranked_hit[OF assms(1,2), of d eco name]
  by (auto simp: Check_def ranked_hit_def Let_def split: if_splits)

section \<open>Detection of a single edit\<close>

lemma rnd_numeral [simp]: "rnd 0 = 0" "rnd 1 = 1" "rnd 3 = 3"
  using rnd_nat[of 0] rnd_nat[of 1] rnd_nat[of 3] by simp_all

lemma relative_one_edit:
  assumes "Distance b \<le> 1" and "3 \<le> length q" and "MaxRelativeDistance cfg = defaultMaxRelativeDistance"
  shows "relative_ok cfg q b"
proof -
  define n where "n = max (length q) (length (Word b))"
  have n: "3 \<le> n" using assms(2) by (simp add: n_def)
  have "rnd 3 \<le> rnd (of_nat n)" using n by (intro rnd_mono) simp
  then have n3: "3 \<le> rnd (of_nat n)" by simp
  have d: "rnd (of_nat (Distance b)) = of_nat (Distance b)" "of_nat (Distance b) \<le> (1::rat)"
    using assms(1) by (auto simp: le_Suc_eq)
  have "of_nat (Distance b) / rnd (of_nat n) \<le> 1 / 3"
    using d(2) n3 by (intro frac_le) simp_all
  also have "(1 / 3 :: rat) \<le> 2 / 5" by simp
  finally have "fdiv (rnd (of_nat (Distance b))) (rnd (of_nat n)) \<le> rnd (2 / 5)"
    unfolding fdiv_def d(1) by (rule rnd_mono)
  with n show ?thesis
    unfolding relative_ok_def assms(3) defaultMaxRelativeDistance_def n_def[symmetric] Let_def
    by (simp add: not_less)
qed

lemma edit_threshold_default: "1 \<le> edit_threshold (thresholds NewDetector) q"
  by (simp add: edit_threshold_def NewDetector_def NewDetectorWithConfig_def with_defaults_def
      defaultVeryShortNameMaxDistance_def defaultShortNameMaxDistance_def defaultLongNameMaxDistance_def)

lemma check_edit_one_edit:
  assumes ord: "map_order_ok ord" and cfg: "cfg = thresholds NewDetector"
    and w: "w \<in> set ws" "DamerauLevenshtein q w \<le> 1" and q: "3 \<le> length q"
  shows "\<exists>r. check_edit ord cfg (bk_build ws) names rks q = Some r \<and> IsSuspected r \<and> ResDistance r \<le> 1"
proof -
  let ?ms = "mo_matches ord (BKTree_Search (bk_build ws) q (edit_threshold cfg q))"
  obtain u where u: "u \<in> set (bk_tree_words (bk_build ws))" "DamerauLevenshtein w u = 0"
    using bk_build_covers[OF w(1)] by blast
  have "DamerauLevenshtein q u \<le> 1"
    using w(2) u(2) dlm.dist_triangle[of q u w] by simp
  then have "\<lparr>Word = u, Distance = DamerauLevenshtein q u\<rparr> \<in> set ?ms"
    using u(1) edit_threshold_default[of q]
    by (simp add: map_order_matches[OF ord] BKTree_Search_iff cfg)
  from best_match_nearest[OF this, of rks] \<open>DamerauLevenshtein q u \<le> 1\<close>
  have "Distance (best_match rks ?ms) \<le> 1" by simp
  moreover from this have "relative_ok cfg q (best_match rks ?ms)"
    by (intro relative_one_edit q) (simp_all add: cfg NewDetector_def NewDetectorWithConfig_def with_defaults_def)
  moreover have "?ms \<noteq> []" using \<open>_ \<in> set ?ms\<close> by auto
  ultimately show ?thesis by (auto simp: check_edit_def Let_def)
qed

lemma check_confusable_suspects: "check_confusable nf rks ci name = Some r \<Longrightarrow> IsSuspected r"
  by (auto simp: check_confusable_def Let_def split: if_splits option.splits)

lemma suspected_one_edit:
  assumes "map_order_ok ord" and "p \<in> set ps" and "NormalizerForFormat eco (Name p) \<noteq> []"
    and "DamerauLevenshtein (NormalizerForFormat eco name) (NormalizerForFormat eco (Name p)) \<le> 1"
    and "3 \<le> length (NormalizerForFormat eco name)"
    and "\<forall>p\<in>set ps. NormalizerForFormat eco (Name p) \<noteq> NormalizerForFormat eco name"
    and "\<not> establishedCandidate est eco name"
  shows "IsSuspected (Check est ord (LoadEcosystem NewDetector eco ps) eco name)"
proof -
  define nf where "nf = NormalizerForFormat eco"
  define ix where "ix = load_packages nf ps"
  have w: "nf (Name p) \<in> set (loaded_keys nf ps)"
    using assms(2,3) by (auto simp: loaded_keys_def nf_def)
  obtain r where r: "check_edit ord (thresholds NewDetector) (ix_tree ix) (ix_names ix) (ix_ranks ix) (nf name) = Some r"
      "IsSuspected r"
    using check_edit_one_edit[OF assms(1) refl w _ assms(5)[folded nf_def], of "ix_names ix" "ix_ranks ix"]
      assms(4) by (auto simp: ix_def load_packages_tree nf_def)
  have "map_of (ix_names ix) (nf name) = None"
    using indexes_okD(1)[OF load_packages_ok[of nf ps], of "nf name"] assms(6)
    by (auto simp: ix_def loaded_keys_def nf_def)
  moreover have "BKTree_Size (ix_tree ix) \<noteq> 0" "nf name \<noteq> []"
  proof -
    from bk_build_covers[OF w] have "bk_tree_words (bk_build (loaded_keys nf ps)) \<noteq> []" by auto
    with bk_build_tree_ok[of "loaded_keys nf ps"] show "BKTree_Size (ix_tree ix) \<noteq> 0"
      by (simp add: ix_def load_packages_tree bk_tree_ok_def BKTree_Size_def)
    show "nf name \<noteq> []" using assms(5) by (auto simp: nf_def)
  qed
  ultimately have "IsSuspected (check ord (LoadEcosystem NewDetector eco ps) eco name)"
    unfolding check_LoadEcosystem[of ord NewDetector eco ps name, folded nf_def, folded ix_def]
    using r check_confusable_suspects by (auto split: option.split)
  with assms(7) show ?thesis by (simp add: Check_def Let_def)
qed

lemma suspected_demo:
  "IsSuspected (Check Map.empty go_order (LoadEcosystem NewDetector ''npm'' [\<lparr>Name = ''abc'', Rank = 0\<rparr>]) ''npm'' ''acb'')"
proof (rule suspected_one_edit[OF go_order_ok, of "\<lparr>Name = ''abc'', Rank = 0\<rparr>"])
  have n: "NormalizerForFormat ''npm'' s = ToLower s" for s
    by (simp add: NormalizerForFormat_def NormalizeNPM_def ToLower_def is_ascii_def byte_lower_def)
  have l: "ToLower ''abc'' = ''abc''" "ToLower ''acb'' = ''acb''"
    by (simp_all add: ToLower_def is_ascii_def byte_lower_def)
  show "DamerauLevenshtein (NormalizerForFormat ''npm'' ''acb'')
      (NormalizerForFormat ''npm'' (Name \<lparr>Name = ''abc'', Rank = 0\<rparr>)) \<le> 1"
    unfolding n PopularPackage.select_convs l by code_simp
qed (simp_all add: NormalizerForFormat_def NormalizeNPM_def ToLower_def is_ascii_def byte_lower_def
    establishedCandidate_def establishedRank_def)

text \<open>C39: A name of at least 3 bytes that is one edit away from a loaded popular package, is not
  itself loaded and is not on the download-ranked reference, is always suspected, under the default
  thresholds and for every map order: neither BK-tree pruning nor the nearest-match selection
  nor the relative-distance guard loses it.\<close>

theorem Check_flags_one_edit:
  assumes "map_order_ok ord" and "p \<in> set ps" and "NormalizerForFormat eco (Name p) \<noteq> []"
    and "DamerauLevenshtein (NormalizerForFormat eco name) (NormalizerForFormat eco (Name p)) \<le> 1"
    and "3 \<le> length (NormalizerForFormat eco name)"
    and "\<forall>p\<in>set ps. NormalizerForFormat eco (Name p) \<noteq> NormalizerForFormat eco name"
    and "\<not> establishedCandidate est eco name"
  shows "IsSuspected (Check est ord (LoadEcosystem NewDetector eco ps) eco name)"
  using assms by (rule suspected_one_edit)

lemma Check_flags_one_edit_witness:
  "IsSuspected (Check Map.empty go_order (LoadEcosystem NewDetector ''npm'' [\<lparr>Name = ''abc'', Rank = 0\<rparr>]) ''npm'' ''acb'')"
proof (rule Check_flags_one_edit[OF go_order_ok, of "\<lparr>Name = ''abc'', Rank = 0\<rparr>"])
  have n: "NormalizerForFormat ''npm'' s = ToLower s" for s
    by (simp add: NormalizerForFormat_def NormalizeNPM_def ToLower_def is_ascii_def byte_lower_def)
  have l: "ToLower ''abc'' = ''abc''" "ToLower ''acb'' = ''acb''"
    by (simp_all add: ToLower_def is_ascii_def byte_lower_def)
  show "DamerauLevenshtein (NormalizerForFormat ''npm'' ''acb'')
      (NormalizerForFormat ''npm'' (Name \<lparr>Name = ''abc'', Rank = 0\<rparr>)) \<le> 1"
    unfolding n PopularPackage.select_convs l by code_simp
qed (simp_all add: NormalizerForFormat_def NormalizeNPM_def ToLower_def is_ascii_def byte_lower_def
    establishedCandidate_def establishedRank_def)

lemma Check_names_ranked_target_witness:
  "0 < TargetRank (Check Map.empty go_order (LoadEcosystem NewDetector ''npm'' [\<lparr>Name = ''abc'', Rank = 0\<rparr>]) ''npm'' ''acb'')"
  by (rule conjunct2[OF Check_names_ranked_target[OF go_order_ok _ suspected_demo]]) simp

section \<open>Which verdicts depend on map order\<close>

text \<open>The edit-distance and reorder lanes are pure functions of corpus and query: when one of
  them fires under one map order, the same result comes out under every other.\<close>

theorem check_edit_lane_deterministic:
  assumes "map_order_ok o1" and "map_order_ok o2"
    and "Method (check o1 d eco name) \<in> {''edit-distance'', ''reorder''}"
  shows "check o2 d eco name = check o1 d eco name"
proof -
  have m: "Method r = ''homoglyph''" if "check_homoglyph ord names rks q = Some r" for ord names rks q r
    using that by (auto simp: check_homoglyph_def split: option.splits)
  have c: "Method (checkCombosquat o1 d e q names rks) \<in> {[], ''combosquat''}" for e q names rks
    by (rule checkCombosquat_cases[OF assms(1), of d e q names rks]) simp_all
  let ?nf = "the (norms d (ToLower eco))" and ?names = "get_or (lookup d) (ToLower eco) []"
    and ?rks = "get_or (ranks d) (ToLower eco) Map.empty"
  let ?early = "check_confusable ?nf ?rks (get_or (confusable d) (ToLower eco) []) name"
    and ?re = "check_reorder (get_or (reorder d) (ToLower eco) []) ?rks (?nf name)"
  show ?thesis
  proof (cases "trees d (ToLower eco)")
    case (Some tree)
    let ?edit = "check_edit o1 (thresholds d) tree ?names ?rks (?nf name)"
    have e: "check_edit o2 (thresholds d) tree ?names ?rks (?nf name) = ?edit"
      by (rule check_edit_order[OF assms(2,1)])
    have hit: "?early \<noteq> None \<or> ?edit \<noteq> None \<or> ?re \<noteq> None"
      if "BKTree_Size tree \<noteq> 0" "?nf name \<noteq> []" "map_of ?names (?nf name) = None"
    proof (rule ccontr)
      assume "\<not> ?thesis"
      then have n: "?early = None" "?edit = None" "?re = None" by blast+
      have "Method (check o1 d eco name) \<in> {[], ''homoglyph'', ''combosquat''}"
      proof (cases "check_homoglyph o1 ?names ?rks (?nf name)")
        case None
        then show ?thesis
          using that n c[of "ToLower eco" "?nf name" ?names ?rks] unfolding check_def Let_def Some
          by (auto simp: None)
      next
        case (Some r)
        show ?thesis
          using that n m[OF Some] unfolding check_def Let_def \<open>trees d (ToLower eco) = _\<close> by (simp add: Some)
      qed
      with assms(3) show False by auto
    qed
    show ?thesis
    proof (cases "BKTree_Size tree = 0 \<or> ?nf name = [] \<or> map_of ?names (?nf name) \<noteq> None")
      case True
      then show ?thesis by (auto simp: check_def Let_def Some)
    next
      case False
      then have "?early \<noteq> None \<or> ?edit \<noteq> None \<or> ?re \<noteq> None" using hit by blast
      then show ?thesis
        unfolding check_def Let_def Some option.case e
        by (cases ?early; cases ?edit; cases ?re) (simp_all del: not_None_eq)
    qed
  qed (simp add: check_def)
qed

lemma check_edit_method: "check_edit ord cfg tree names rks q = Some r \<Longrightarrow> Method r = ''edit-distance''"
  by (auto simp: check_edit_def Let_def split: if_splits)

definition one_word_detector :: Detector where
  "one_word_detector = NewDetector\<lparr>trees := [''npm'' \<mapsto> bk_build [''abc'']],
     lookup := [''npm'' \<mapsto> [(''abc'', ''abc'')]], norms := [''npm'' \<mapsto> NormalizeNPM]\<rparr>"

lemma check_edit_lane_deterministic_witness:
  "check (go_order\<lparr>mo_names := rev\<rparr>) one_word_detector ''npm'' ''acb'' =
   check go_order one_word_detector ''npm'' ''acb''"
proof (rule check_edit_lane_deterministic[OF go_order_ok])
  show "map_order_ok (go_order\<lparr>mo_names := rev\<rparr>)"
    by (simp add: map_order_ok_def go_order_def)
  have "DamerauLevenshtein ''acb'' ''abc'' \<le> 1" by code_simp
  from check_edit_one_edit[OF go_order_ok refl _ this, of "[''abc'']" "[(''abc'', ''abc'')]" Map.empty]
  obtain r where r: "check_edit go_order (thresholds NewDetector) (bk_build [''abc'']) [(''abc'', ''abc'')] Map.empty ''acb'' = Some r"
    by auto
  have l: "ToLower ''npm'' = ''npm''" "ToLower ''acb'' = ''acb''"
    by (simp_all add: ToLower_def is_ascii_def byte_lower_def)
  have "BKTree_Size (bk_build [''abc'']) \<noteq> 0"
    by (simp add: bk_build_def BKTree_Insert_def bk_tree_insert_def NewBKTree_def BKTree_Size_def)
  then show "Method (check go_order one_word_detector ''npm'' ''acb'') \<in> {''edit-distance'', ''reorder''}"
    using r check_edit_method[OF r]
    by (simp add: check_def one_word_detector_def NewDetector_def NewDetectorWithConfig_def l get_or_def
        check_confusable_def NormalizeNPM_def)
qed

text \<open>A suspicion of Check is one of check with at most the confidence lowered: it is absent
  exactly when check finds nothing or the candidate is on the download-ranked reference, and a
  name in the owner scope of its look-alike is never graded above low.\<close>

theorem Check_adjusts_confidence_only:
  "let r = check ord d eco name; r' = Check est ord d eco name in
   (IsSuspected r' \<longleftrightarrow> IsSuspected r \<and> \<not> establishedCandidate est eco name) \<and>
   (IsSuspected r' \<longrightarrow> r' = r \<or> r' = r\<lparr>Confidence := ''low''\<rparr>) \<and>
   (IsSuspected r' \<and> sameOwnerSibling eco name (SimilarTo r) \<longrightarrow> Confidence r' = ''low'')"
  by (auto simp: Check_def Let_def)

lemma Check_adjusts_confidence_only_witness:
  "\<not> IsSuspected (Check Map.empty go_order NewDetector ''npm'' ''react'')"
  using Check_adjusts_confidence_only[of go_order NewDetector "''npm''" "''react''" Map.empty]
  by (simp add: Let_def check_def NewDetector_def NewDetectorWithConfig_def)

section \<open>The sibling exemption and the Actions corpus\<close>

text \<open>Registering siblings only adds names: a name is exempt afterwards exactly when it was before
  or is the normalized form of a registered one, in that ecosystem only; and an exempt name
  gets no verdict from the combosquat lane.\<close>

theorem LoadOfficialSiblings_additive:
  "(isOfficialSibling (LoadOfficialSiblings d eco ns) e q \<longleftrightarrow>
     isOfficialSibling d e q \<or>
     q \<noteq> [] \<and> e \<noteq> [] \<and> e = ToLower (TrimSpace eco) \<and> q \<in> NormalizerForFormat e ` set ns) \<and>
   (if isOfficialSibling d e q then checkCombosquat ord d e q names rks = no_result else True)"
  by (auto simp: isOfficialSibling_def LoadOfficialSiblings_def Let_def get_or_def checkCombosquat_def
      split: option.splits)


end
