(* ===== verification/CircuitBreaker.thy ===== *)
theory CircuitBreaker
  imports GoStrings
begin

text \<open>
  The circuit breaker of proxy/circuitbreaker.go. The record is the struct, each method is a
  function from the time of the call (nanoseconds, from the one clock the code reads) and the
  breaker to the result and the breaker; the mutex makes every method atomic, so a run is a
  sequence of timed events, and \<open>cb_reachable\<close> is what such sequences reach from
  \<open>NewCircuitBreaker\<close>. Logging is left out. An error is its message with, for every error of
  its unwrap chain, whether that one is a \<open>*net.DNSError\<close> (what \<open>errors.As\<close> looks for).
\<close>

section \<open>The state machine\<close>

datatype CircuitState = CircuitClosed | CircuitOpen | CircuitHalfOpen

record CircuitBreakerConfig =
  FailureThreshold :: int
  ResetTimeout :: int
  HalfOpenRequests :: int

definition withDefaults :: "CircuitBreakerConfig \<Rightarrow> CircuitBreakerConfig" where
  "withDefaults c = \<lparr>
     FailureThreshold = (if FailureThreshold c \<le> 0 then 5 else FailureThreshold c),
     ResetTimeout = (if ResetTimeout c \<le> 0 then 30 * 1000000000 else ResetTimeout c),
     HalfOpenRequests = (if HalfOpenRequests c \<le> 0 then 2 else HalfOpenRequests c)\<rparr>"

record CircuitBreaker =
  cfg :: CircuitBreakerConfig
  cb_state :: CircuitState
  consecutiveFail :: int
  lastFailTime :: int
  halfOpenPassed :: int
  lastProbeTime :: int

text \<open>The zero time of the two stamps is the argument \<open>zero\<close>; no branch reads it before it is set.\<close>

definition NewCircuitBreaker :: "int \<Rightarrow> CircuitBreakerConfig \<Rightarrow> CircuitBreaker" where
  "NewCircuitBreaker zero c = \<lparr>cfg = withDefaults c, cb_state = CircuitClosed, consecutiveFail = 0,
     lastFailTime = zero, halfOpenPassed = 0, lastProbeTime = zero\<rparr>"

definition setState :: "CircuitState \<Rightarrow> CircuitBreaker \<Rightarrow> CircuitBreaker" where
  "setState to cb = (if cb_state cb = to then cb else cb\<lparr>cb_state := to\<rparr>)"

definition Allow :: "int \<Rightarrow> CircuitBreaker \<Rightarrow> bool \<times> CircuitBreaker" where
  "Allow now cb =
     (case cb_state cb of
        CircuitClosed \<Rightarrow> (True, cb)
      | CircuitOpen \<Rightarrow>
          if ResetTimeout (cfg cb) \<le> now - lastFailTime cb
          then (True, (setState CircuitHalfOpen cb)\<lparr>halfOpenPassed := 0, lastProbeTime := now\<rparr>)
          else (False, cb)
      | CircuitHalfOpen \<Rightarrow>
          if HalfOpenRequests (cfg cb) \<le> halfOpenPassed cb then
            (if now - lastProbeTime cb < ResetTimeout (cfg cb) then (False, cb)
             else (True, cb\<lparr>halfOpenPassed := 1, lastProbeTime := now\<rparr>))
          else (True, cb\<lparr>halfOpenPassed := halfOpenPassed cb + 1, lastProbeTime := now\<rparr>))"

definition RecordSuccess :: "CircuitBreaker \<Rightarrow> CircuitBreaker" where
  "RecordSuccess cb0 =
     (let cb = cb0\<lparr>consecutiveFail := 0\<rparr> in
      if cb_state cb = CircuitHalfOpen then
        (let cb = cb\<lparr>halfOpenPassed := halfOpenPassed cb + 1\<rparr> in
         if HalfOpenRequests (cfg cb) \<le> halfOpenPassed cb then setState CircuitClosed cb else cb)
      else cb)"

definition RecordFailure :: "int \<Rightarrow> CircuitBreaker \<Rightarrow> CircuitBreaker" where
  "RecordFailure now cb0 =
     (let cb = cb0\<lparr>consecutiveFail := consecutiveFail cb0 + 1, lastFailTime := now\<rparr> in
      if cb_state cb = CircuitHalfOpen then setState CircuitOpen cb
      else if FailureThreshold (cfg cb) \<le> consecutiveFail cb then setState CircuitOpen cb
      else cb)"

definition State :: "int \<Rightarrow> CircuitBreaker \<Rightarrow> CircuitState \<times> CircuitBreaker" where
  "State now cb =
     (let cb' = (if cb_state cb = CircuitOpen \<and> ResetTimeout (cfg cb) \<le> now - lastFailTime cb
                 then (setState CircuitHalfOpen cb)\<lparr>halfOpenPassed := 0\<rparr> else cb)
      in (cb_state cb', cb'))"

definition ConsecutiveFailures :: "CircuitBreaker \<Rightarrow> int" where
  "ConsecutiveFailures cb = consecutiveFail cb"

record go_error =
  err_chain :: "bool list"
  err_message :: string

definition IsDNSError :: "go_error option \<Rightarrow> bool" where
  "IsDNSError err =
     (case err of
        None \<Rightarrow> False
      | Some e \<Rightarrow>
          if list_ex id (err_chain e) then True
          else Contains (err_message e) ''no such host'' \<or> Contains (err_message e) ''server misbehaving''
             \<or> Contains (err_message e) ''dns: '' \<or> Contains (err_message e) ''lookup '')"

definition RecordNetworkFailure :: "int \<Rightarrow> go_error option \<Rightarrow> CircuitBreaker \<Rightarrow> CircuitBreaker" where
  "RecordNetworkFailure now err cb =
     (if err = None then cb else if IsDNSError err then cb else RecordFailure now cb)"

section \<open>Runs\<close>

datatype cb_event = EvAllow | EvSuccess | EvFailure | EvNetwork "go_error option" | EvState

fun cb_exec :: "int \<times> cb_event \<Rightarrow> CircuitBreaker \<Rightarrow> CircuitBreaker" where
  "cb_exec (now, EvAllow) cb = snd (Allow now cb)"
| "cb_exec (now, EvSuccess) cb = RecordSuccess cb"
| "cb_exec (now, EvFailure) cb = RecordFailure now cb"
| "cb_exec (now, EvNetwork err) cb = RecordNetworkFailure now err cb"
| "cb_exec (now, EvState) cb = snd (State now cb)"

inductive cb_reachable :: "CircuitBreakerConfig \<Rightarrow> CircuitBreaker \<Rightarrow> bool" for c where
  start: "cb_reachable c (NewCircuitBreaker zero c)"
| step: "cb_reachable c cb \<Longrightarrow> cb_reachable c (cb_exec ev cb)"

lemmas cb_defs = Allow_def RecordSuccess_def RecordFailure_def State_def RecordNetworkFailure_def setState_def

definition cb_inv :: "CircuitBreaker \<Rightarrow> bool" where
  "cb_inv cb \<longleftrightarrow>
     0 < FailureThreshold (cfg cb) \<and> 0 < ResetTimeout (cfg cb) \<and> 0 < HalfOpenRequests (cfg cb) \<and>
     0 \<le> consecutiveFail cb \<and> 0 \<le> halfOpenPassed cb \<and>
     (cb_state cb = CircuitClosed \<longrightarrow> consecutiveFail cb < FailureThreshold (cfg cb)) \<and>
     (cb_state cb = CircuitHalfOpen \<longrightarrow> halfOpenPassed cb \<le> HalfOpenRequests (cfg cb))"

lemma cb_inv_exec: "cb_inv cb \<Longrightarrow> cb_inv (cb_exec (now, e) cb)"
  by (cases e; cases "cb_state cb") (auto simp: cb_inv_def cb_defs Let_def)

lemma cb_inv_new: "cb_inv (NewCircuitBreaker zero c)"
  by (simp add: cb_inv_def NewCircuitBreaker_def withDefaults_def)

lemma cb_exec_cfg [simp]: "cfg (cb_exec (now, e) cb) = cfg cb"
  by (cases e) (auto simp: cb_defs Let_def split: CircuitState.split)

lemma cb_reachable_inv: "cb_reachable c cb \<Longrightarrow> cb_inv cb \<and> cfg cb = withDefaults c"
proof (induction rule: cb_reachable.induct)
  case (start zero)
  have "cfg (NewCircuitBreaker zero c) = withDefaults c" by (simp add: NewCircuitBreaker_def)
  with cb_inv_new show ?case by blast
next
  case (step cb ev)
  then show ?case by (cases ev) (simp add: cb_inv_exec)
qed

section \<open>Properties\<close>

text \<open>In every reachable state of the breaker the configuration is positive, a closed circuit has
  seen fewer consecutive failures than the threshold, and a half-open one has handed out and
  confirmed at most HalfOpenRequests slots.\<close>

theorem breaker_invariant:
  assumes "cb_reachable c cb"
  shows "0 < ResetTimeout (cfg cb) \<and>
    (cb_state cb = CircuitClosed \<longrightarrow> 0 \<le> consecutiveFail cb \<and> consecutiveFail cb < FailureThreshold (cfg cb)) \<and>
    (cb_state cb = CircuitHalfOpen \<longrightarrow> 0 \<le> halfOpenPassed cb \<and> halfOpenPassed cb \<le> HalfOpenRequests (cfg cb))"
  using cb_reachable_inv[OF assms] by (auto simp: cb_inv_def)

definition demo_cfg :: CircuitBreakerConfig where
  "demo_cfg = \<lparr>FailureThreshold = 1, ResetTimeout = 10, HalfOpenRequests = 0\<rparr>"

definition demo_half_open :: CircuitBreaker where
  "demo_half_open = cb_exec (15, EvAllow) (cb_exec (5, EvFailure) (NewCircuitBreaker 0 demo_cfg))"

lemma demo_reachable: "cb_reachable demo_cfg demo_half_open"
  unfolding demo_half_open_def by (intro cb_reachable.intros)

lemma demo_state: "cb_state demo_half_open = CircuitHalfOpen" "cfg demo_half_open = withDefaults demo_cfg"
  by (simp_all add: demo_half_open_def demo_cfg_def NewCircuitBreaker_def withDefaults_def cb_defs)

lemma breaker_invariant_witness:
  "cb_state demo_half_open = CircuitHalfOpen \<and> halfOpenPassed demo_half_open \<le> HalfOpenRequests (withDefaults demo_cfg)"
  using breaker_invariant[OF demo_reachable] demo_state by simp

text \<open>An open circuit refuses every request until ResetTimeout has passed since the last
  recorded failure, and refusing changes nothing; from then on the next request is let
  through as a probe.\<close>

theorem open_circuit_refuses:
  assumes "cb_state cb = CircuitOpen"
  shows "(fst (Allow now cb) \<longleftrightarrow> ResetTimeout (cfg cb) \<le> now - lastFailTime cb) \<and>
    (\<not> fst (Allow now cb) \<longrightarrow> snd (Allow now cb) = cb) \<and>
    (fst (Allow now cb) \<longrightarrow> cb_state (snd (Allow now cb)) = CircuitHalfOpen)"
  using assms by (auto simp: cb_defs)

lemma open_circuit_refuses_witness:
  "\<not> fst (Allow 14 (RecordFailure 5 (NewCircuitBreaker 0 demo_cfg)))"
  using open_circuit_refuses[of "RecordFailure 5 (NewCircuitBreaker 0 demo_cfg)" 14]
  by (simp add: demo_cfg_def NewCircuitBreaker_def withDefaults_def cb_defs)

text \<open>C36: The breaker cannot get stuck: in any state, whatever became of the outstanding probes, a
  request made ResetTimeout after both the last failure and the last probe is allowed.\<close>

theorem breaker_never_stuck:
  assumes "ResetTimeout (cfg cb) \<le> now - lastFailTime cb" and "ResetTimeout (cfg cb) \<le> now - lastProbeTime cb"
  shows "fst (Allow now cb)"
  using assms by (auto simp: cb_defs split: CircuitState.split)

lemma breaker_never_stuck_witness:
  "fst (Allow 25 (demo_half_open\<lparr>halfOpenPassed := 7\<rparr>))"
  by (rule breaker_never_stuck)
    (simp_all add: demo_half_open_def demo_cfg_def NewCircuitBreaker_def withDefaults_def cb_defs)

fun failures :: "int list \<Rightarrow> CircuitBreaker \<Rightarrow> CircuitBreaker" where
  "failures [] cb = cb"
| "failures (t # ts) cb = failures ts (RecordFailure t cb)"

lemma failures_closed:
  assumes "cb_inv cb" "cb_state cb \<noteq> CircuitHalfOpen"
  shows "cb_state (failures ts cb) =
    (if cb_state cb = CircuitOpen \<or> FailureThreshold (cfg cb) \<le> consecutiveFail cb + int (length ts)
     then CircuitOpen else CircuitClosed)"
  using assms
proof (induction ts arbitrary: cb)
  case Nil
  then show ?case by (cases "cb_state cb") (auto simp: cb_inv_def)
next
  case (Cons t ts)
  have "cb_inv (RecordFailure t cb)" using cb_inv_exec[OF Cons.prems(1), of t EvFailure] by simp
  moreover have "cb_state (RecordFailure t cb) \<noteq> CircuitHalfOpen"
    using Cons.prems(2) by (simp add: cb_defs Let_def)
  ultimately have "cb_state (failures (t # ts) cb) =
      (if cb_state (RecordFailure t cb) = CircuitOpen \<or>
          FailureThreshold (cfg (RecordFailure t cb)) \<le> consecutiveFail (RecordFailure t cb) + int (length ts)
       then CircuitOpen else CircuitClosed)"
    using Cons.IH by simp
  then show ?case using Cons.prems(2) by (cases "cb_state cb") (auto simp: cb_defs Let_def)
qed

text \<open>After a success a run of failures opens the circuit exactly when it is as long as the
  threshold, whatever the times at which they happen: failures before the success do not count.\<close>

theorem opens_at_threshold:
  assumes "cb_reachable c cb" and "cb_state cb = CircuitClosed"
  shows "cb_state (failures ts (RecordSuccess cb)) =
    (if FailureThreshold (withDefaults c) \<le> int (length ts) then CircuitOpen else CircuitClosed)"
proof -
  have inv: "cb_inv cb" "cfg cb = withDefaults c" using cb_reachable_inv[OF assms(1)] by simp_all
  have "cb_inv (RecordSuccess cb)" using cb_inv_exec[OF inv(1), of undefined EvSuccess] by simp
  moreover have "cb_state (RecordSuccess cb) = CircuitClosed" "consecutiveFail (RecordSuccess cb) = 0"
    "cfg (RecordSuccess cb) = withDefaults c"
    using assms(2) inv(2) by (simp_all add: cb_defs Let_def)
  ultimately show ?thesis using failures_closed[of "RecordSuccess cb" ts] by simp
qed

lemma opens_at_threshold_witness:
  "cb_state (failures [3] (RecordSuccess (NewCircuitBreaker 0 demo_cfg))) = CircuitOpen"
  using opens_at_threshold[OF cb_reachable.start[of demo_cfg 0], of "[3]"]
  by (simp add: demo_cfg_def NewCircuitBreaker_def withDefaults_def)

fun allowed :: "nat \<Rightarrow> int \<Rightarrow> CircuitBreaker \<Rightarrow> nat \<times> CircuitBreaker" where
  "allowed 0 now cb = (0, cb)"
| "allowed (Suc n) now cb =
     (let (ok, cb') = Allow now cb; (k, cb'') = allowed n now cb' in ((if ok then 1 else 0) + k, cb''))"

lemma allowed_half_open:
  assumes "cb_state cb = CircuitHalfOpen" "0 < ResetTimeout (cfg cb)" "lastProbeTime cb = now"
    "halfOpenPassed cb \<le> HalfOpenRequests (cfg cb)"
  shows "fst (allowed n now cb) = min n (nat (HalfOpenRequests (cfg cb) - halfOpenPassed cb))"
  using assms
proof (induction n arbitrary: cb)
  case (Suc n)
  show ?case
  proof (cases "HalfOpenRequests (cfg cb) \<le> halfOpenPassed cb")
    case True
    with Suc.prems have "Allow now cb = (False, cb)" by (simp add: Allow_def)
    with Suc.IH[OF Suc.prems] True show ?thesis by (simp add: case_prod_beta Let_def)
  next
    case False
    define cb' where "cb' = cb\<lparr>halfOpenPassed := halfOpenPassed cb + 1, lastProbeTime := now\<rparr>"
    have "Allow now cb = (True, cb')" using False Suc.prems by (simp add: Allow_def cb'_def)
    moreover have "fst (allowed n now cb') = min n (nat (HalfOpenRequests (cfg cb) - (halfOpenPassed cb + 1)))"
      using Suc.IH[of cb'] Suc.prems False by (simp add: cb'_def)
    ultimately show ?thesis using False by (auto simp: case_prod_beta Let_def min_def)
  qed
qed simp

text \<open>A burst of requests on an open circuit whose timeout has passed lets through
  HalfOpenRequests + 1 probes and no more: the one that moves the circuit to half-open is
  not counted against the documented limit.\<close>

theorem half_open_probe_burst:
  assumes "cb_reachable c cb" and "cb_state cb = CircuitOpen"
    and "ResetTimeout (cfg cb) \<le> now - lastFailTime cb"
  shows "fst (allowed n now cb) = min n (Suc (nat (HalfOpenRequests (withDefaults c))))"
proof (cases n)
  case (Suc k)
  have inv: "cb_inv cb" "cfg cb = withDefaults c" using cb_reachable_inv[OF assms(1)] by simp_all
  define cb' where "cb' = cb\<lparr>cb_state := CircuitHalfOpen, halfOpenPassed := 0, lastProbeTime := now\<rparr>"
  have "Allow now cb = (True, cb')" using assms(2,3) by (simp add: Allow_def setState_def cb'_def)
  moreover have "fst (allowed k now cb') = min k (nat (HalfOpenRequests (withDefaults c)))"
    using allowed_half_open[of cb' now k] inv by (simp add: cb'_def cb_inv_def)
  ultimately show ?thesis by (simp add: Suc case_prod_beta Let_def)
qed simp

lemma half_open_probe_burst_witness:
  "fst (allowed 10 20 (RecordFailure 5 (NewCircuitBreaker 0 demo_cfg))) = 3"
proof -
  have "cb_reachable demo_cfg (cb_exec (5, EvFailure) (NewCircuitBreaker 0 demo_cfg))"
    by (intro cb_reachable.intros)
  from half_open_probe_burst[OF this, of 20 10] show ?thesis
    by (simp add: demo_cfg_def NewCircuitBreaker_def withDefaults_def cb_defs)
qed

text \<open>A success closes a half-open circuit as soon as the probes handed out and the successes
  together reach HalfOpenRequests: the two share one counter, so one success closes it when
  HalfOpenRequests - 1 further probes are still outstanding.\<close>

lemma half_open_success_counts_probes:
  assumes "cb_state cb = CircuitHalfOpen" and "halfOpenPassed cb = HalfOpenRequests (cfg cb) - 1"
  shows "cb_state (RecordSuccess cb) = CircuitClosed"
  using assms by (simp add: cb_defs Let_def)

text \<open>Failures that are DNS errors leave the breaker unchanged, in any number.\<close>

lemma dns_failures_ignored:
  assumes "list_all (\<lambda>(_, err). IsDNSError err) evs"
  shows "fold (\<lambda>(now, err). RecordNetworkFailure now err) evs cb = cb"
  using assms by (induction evs) (auto simp: RecordNetworkFailure_def)

end
