(* ===== verification/Freshness.thy ===== *)
theory Freshness
  imports CircuitBreaker
begin

text \<open>
  The freshness decisions of proxy/freshness.go: which cached documents may expire
  (\<open>isMutableDocument\<close>), when one has (\<open>metadataExpired\<close>), and whether an expired one may be
  treated as a cache miss (\<open>upstreamReachable\<close>, which reads the circuit breaker). The facet
  is the part of the struct that these methods read; the zero \<open>CachedAt\<close> is \<open>None\<close>.
\<close>

definition baseName :: "string \<Rightarrow> string" where
  "baseName p = (case str_LastIndex p ''/'' of None \<Rightarrow> p | Some i \<Rightarrow> drop (i + 1) p)"

text \<open>The loop of \<open>isHexString\<close> ranges over runes; a rune outside ASCII is no hex digit.\<close>

definition is_hex :: "rune \<Rightarrow> bool" where
  "is_hex r \<longleftrightarrow> (48 \<le> r \<and> r \<le> 57) \<or> (97 \<le> r \<and> r \<le> 102)"

definition isHexString :: "string \<Rightarrow> bool" where
  "isHexString s \<longleftrightarrow> list_all is_hex (utf8_decode s) \<and> s \<noteq> []"

text \<open>The arm shared by docker and homebrew: a manifest by tag or a tag list.\<close>

definition moving_tag :: "string \<Rightarrow> bool" where
  "moving_tag lower =
     (let segments = split_byte (CHR ''/'') lower; n = length segments in
      if n < 4 \<or> hd segments \<noteq> ''v2'' then False
      else if segments ! (n - 2) = ''manifests'' then \<not> Contains (segments ! (n - 1)) '':''
      else segments ! (n - 2) = ''tags'' \<and> segments ! (n - 1) = ''list'')"

definition isMutableDocument :: "string \<Rightarrow> string \<Rightarrow> bool" where
  "isMutableDocument format0 logicalPath =
     (let path = TrimSpace (TrimPrefix logicalPath ''/'') in
      if path = [] then False
      else
        let lower = ToLower path; format = ToLower (TrimSpace format0) in
        if format \<in> {''npm'', ''yarn'', ''bun''} then
          \<not> (HasPrefix lower ''-/'' \<or> Contains lower ''/-/'')
        else if format = ''pip'' then
          (if HasSuffix lower ''.metadata'' then False
           else lower = ''simple'' \<or> lower = ''simple/'' \<or> HasPrefix lower ''simple/'')
        else if format = ''composer'' then
          (if lower = ''packages.json'' \<or> HasPrefix lower ''p2/'' then True
           else HasPrefix lower ''p/'' \<and> \<not> Contains lower ''$'')
        else if format = ''docker'' then moving_tag lower
        else if format = ''homebrew'' then
          (if lower = ''api'' \<or> HasPrefix lower ''api/'' then True else moving_tag lower)
        else if format \<in> {''maven'', ''gradle''} then Contains (baseName lower) ''maven-metadata.xml''
        else if format = ''apt'' then
          (if Contains lower ''/by-hash/'' \<or> HasPrefix lower ''pool/'' \<or> Contains lower ''/pool/'' then False
           else if HasPrefix lower ''dists/'' \<or> Contains lower ''/dists/'' then True
           else
             let name = baseName lower in
             name = ''release'' \<or> name = ''inrelease'' \<or> name = ''release.gpg''
             \<or> HasPrefix name ''packages'' \<or> HasPrefix name ''sources'')
        else if format \<in> {''yum'', ''dnf''} then
          (if \<not> HasPrefix lower ''repodata/'' \<and> \<not> Contains lower ''/repodata/'' then False
           else
             let name = baseName lower in
             case index_byte name (CHR ''-'') of
               Some i \<Rightarrow> \<not> (40 \<le> i \<and> isHexString (take i name))
             | None \<Rightarrow> True)
        else False)"

record facet =
  f_format :: string
  f_metadataTTL :: int
  f_hasBaseURL :: bool
  f_hasClient :: bool
  f_circuitBreaker :: "CircuitBreaker option"

definition metadataExpired :: "int \<Rightarrow> facet option \<Rightarrow> string \<Rightarrow> int option \<Rightarrow> bool" where
  "metadataExpired now f logicalPath cachedAt =
     (case f of
        None \<Rightarrow> False
      | Some f \<Rightarrow>
          if f_metadataTTL f \<le> 0 then False
          else if \<not> isMutableDocument (f_format f) logicalPath then False
          else case cachedAt of None \<Rightarrow> True | Some t \<Rightarrow> f_metadataTTL f < now - t)"

text \<open>The result and the facet: asking a breaker for its state may move it to half-open.\<close>

definition upstreamReachable :: "int \<Rightarrow> facet option \<Rightarrow> bool \<times> facet option" where
  "upstreamReachable now f =
     (case f of
        None \<Rightarrow> (False, None)
      | Some f \<Rightarrow>
          if \<not> f_hasBaseURL f \<or> \<not> f_hasClient f then (False, Some f)
          else case f_circuitBreaker f of
                 None \<Rightarrow> (True, Some f)
               | Some cb \<Rightarrow>
                   let (s, cb') = State now cb
                   in (s \<noteq> CircuitOpen, Some (f\<lparr>f_circuitBreaker := Some cb'\<rparr>)))"

section \<open>Properties\<close>

lemma expired_antimono:
  "metadataExpired now f p (Some t) \<Longrightarrow> t' \<le> t \<Longrightarrow> now \<le> now' \<Longrightarrow> metadataExpired now' f p (Some t')"
  by (auto simp: metadataExpired_def split: option.splits if_splits)

text \<open>A cached entry is downgraded to a miss only for a document that changes at the origin and has
  outlived its TTL, and only while the upstream is configured and its circuit is not open; an
  open circuit keeps serving it exactly until ResetTimeout has passed since the last failure,
  and then asking moves the breaker to half-open.\<close>

theorem expired_entry_needs_upstream:
  assumes "f_circuitBreaker f = Some cb" and "f_hasBaseURL f" and "f_hasClient f"
    and "cb_state cb = CircuitOpen"
  shows "(fst (upstreamReachable now (Some f)) \<longleftrightarrow> ResetTimeout (cfg cb) \<le> now - lastFailTime cb) \<and>
    (fst (upstreamReachable now (Some f)) \<longrightarrow>
       (\<exists>cb'. snd (upstreamReachable now (Some f)) = Some (f\<lparr>f_circuitBreaker := Some cb'\<rparr>) \<and>
          cb_state cb' = CircuitHalfOpen \<and> halfOpenPassed cb' = 0)) \<and>
    (\<not> isMutableDocument (f_format f) p \<longrightarrow> \<not> metadataExpired now (Some f) p cachedAt)"
  using assms by (auto simp: upstreamReachable_def State_def setState_def metadataExpired_def Let_def)

definition demo_facet :: facet where
  "demo_facet = \<lparr>f_format = ''npm'', f_metadataTTL = 100, f_hasBaseURL = True, f_hasClient = True,
     f_circuitBreaker = Some (RecordFailure 5 (NewCircuitBreaker 0 demo_cfg))\<rparr>"

lemma expired_entry_needs_upstream_witness:
  "fst (upstreamReachable 15 (Some demo_facet)) \<and> \<not> fst (upstreamReachable 14 (Some demo_facet))"
  using expired_entry_needs_upstream[of demo_facet "RecordFailure 5 (NewCircuitBreaker 0 demo_cfg)" 15 "[]" None]
    expired_entry_needs_upstream[of demo_facet "RecordFailure 5 (NewCircuitBreaker 0 demo_cfg)" 14 "[]" None]
  by (simp add: demo_facet_def demo_cfg_def NewCircuitBreaker_def withDefaults_def cb_defs)

lemma split_byte_last_two:
  assumes "CHR ''/'' \<notin> set a" "CHR ''/'' \<notin> set b"
  shows "split_byte (CHR ''/'') (u @ ''/'' @ a @ ''/'' @ b) = split_byte (CHR ''/'') u @ [a, b]"
  using split_byte_append[of "CHR ''/''" u "a @ CHR ''/'' # b"] split_byte_append[of "CHR ''/''" a b]
    split_byte_id[OF assms(1)] split_byte_id[OF assms(2)] by simp

lemma moving_tag_digest:
  assumes "CHR ''/'' \<notin> set ref" "Contains ref '':''"
  shows "\<not> moving_tag (u @ ''/manifests/'' @ ref)"
proof -
  have "split_byte (CHR ''/'') (u @ ''/manifests/'' @ ref) = split_byte (CHR ''/'') u @ [''manifests'', ref]"
    using split_byte_last_two[of "''manifests''" ref u] assms(1) by simp
  with assms(2) show ?thesis by (simp add: moving_tag_def Let_def nth_append)
qed

end
