(* ===== verification/Caches.thy ===== *)
theory Caches
  imports GoStrings
begin

text \<open>
  The in-process caches: cache/negative_cache.go and cache/memory_cache.go. Times are integers
  (nanoseconds); every operation takes the time it reads. A Go map that the code ranges over
  (the entries of the negative cache) is an association list, and the order in which eviction
  enumerates it is the argument \<open>enum\<close>, a permutation. The methods are atomic under the mutex
  except \<open>Hit\<close> and \<open>Get\<close>, which read under a read lock and delete under a second lock: these
  two are split into their two steps so that operations of other goroutines can come between.
\<close>

section \<open>The negative cache\<close>

record NegativeCache =
  nc_ttl :: int
  nc_maxSize :: nat
  nc_entries :: "(string, int) gomap"

definition defaultMaxSize :: nat where "defaultMaxSize = 50000"

definition NewNegativeCache :: "int \<Rightarrow> int list \<Rightarrow> NegativeCache" where
  "NewNegativeCache ttl maxSize =
     \<lparr>nc_ttl = (if ttl \<le> 0 then 5 * 60 * 1000000000 else ttl),
      nc_maxSize = (case maxSize of ms # _ \<Rightarrow> if 0 < ms then nat ms else defaultMaxSize | [] \<Rightarrow> defaultMaxSize),
      nc_entries = []\<rparr>"

definition purgeExpiredLocked :: "int \<Rightarrow> NegativeCache \<Rightarrow> NegativeCache" where
  "purgeExpiredLocked now c = c\<lparr>nc_entries := filter (\<lambda>(k, e). \<not> e < now) (nc_entries c)\<rparr>"

text \<open>The first index of the latest expiry among the collected entries.\<close>

definition newest_index :: "(string \<times> int) list \<Rightarrow> nat" where
  "newest_index oldest =
     fold (\<lambda>i m. if snd (oldest ! m) < snd (oldest ! i) then i else m) [1..<length oldest] 0"

definition collect_oldest :: "nat \<Rightarrow> string \<times> int \<Rightarrow> (string \<times> int) list \<Rightarrow> (string \<times> int) list" where
  "collect_oldest evictCount kv oldest =
     (if length oldest < evictCount then oldest @ [kv]
      else let m = newest_index oldest in
           if snd kv < snd (oldest ! m) then oldest[m := kv] else oldest)"

definition evict_count :: "NegativeCache \<Rightarrow> nat" where
  "evict_count c = length (nc_entries c) - nc_maxSize c * 9 div 10"

definition evictOldestLocked ::
  "((string, int) gomap \<Rightarrow> (string, int) gomap) \<Rightarrow> NegativeCache \<Rightarrow> NegativeCache" where
  "evictOldestLocked enum c =
     (if evict_count c = 0 then c
      else
        let oldest = fold (collect_oldest (evict_count c)) (enum (nc_entries c)) []
        in c\<lparr>nc_entries := filter (\<lambda>(k, e). k \<notin> set (map fst oldest)) (nc_entries c)\<rparr>)"

definition Remember ::
  "((string, int) gomap \<Rightarrow> (string, int) gomap) \<Rightarrow> int \<Rightarrow> string \<Rightarrow> NegativeCache \<Rightarrow> NegativeCache" where
  "Remember enum now path c0 =
     (let c1 = (if nc_maxSize c0 \<le> length (nc_entries c0) then purgeExpiredLocked now c0 else c0);
          c2 = (if nc_maxSize c1 \<le> length (nc_entries c1) then evictOldestLocked enum c1 else c1)
      in c2\<lparr>nc_entries := AList.update path (now + nc_ttl c2) (nc_entries c2)\<rparr>)"

definition nc_delete :: "string \<Rightarrow> NegativeCache \<Rightarrow> NegativeCache" where
  "nc_delete path c = c\<lparr>nc_entries := AList.delete path (nc_entries c)\<rparr>"

text \<open>\<open>Hit\<close>: the read, which decides the result and whether to delete, and the delete.\<close>

datatype hit_read = HitMiss | HitExpired | HitFresh

definition Hit_read :: "int \<Rightarrow> string \<Rightarrow> NegativeCache \<Rightarrow> hit_read" where
  "Hit_read now path c =
     (case map_of (nc_entries c) path of
        None \<Rightarrow> HitMiss
      | Some expiry \<Rightarrow> if expiry < now then HitExpired else HitFresh)"

definition Hit_finish :: "hit_read \<Rightarrow> string \<Rightarrow> NegativeCache \<Rightarrow> bool \<times> NegativeCache" where
  "Hit_finish r path c = (r = HitFresh, if r = HitExpired then nc_delete path c else c)"

definition Hit :: "int \<Rightarrow> string \<Rightarrow> NegativeCache \<Rightarrow> bool \<times> NegativeCache" where
  "Hit now path c = Hit_finish (Hit_read now path c) path c"

definition Forget :: "string \<Rightarrow> NegativeCache \<Rightarrow> NegativeCache" where
  "Forget path c = (if path = [] then c else nc_delete path c)"

definition ForgetMatching :: "(string \<Rightarrow> bool) \<Rightarrow> NegativeCache \<Rightarrow> nat \<times> NegativeCache" where
  "ForgetMatching match c =
     (length (filter (\<lambda>(k, e). match k) (nc_entries c)),
      c\<lparr>nc_entries := filter (\<lambda>(k, e). \<not> match k) (nc_entries c)\<rparr>)"

definition Len :: "NegativeCache \<Rightarrow> nat" where
  "Len c = length (nc_entries c)"

definition ScopedKey :: "string \<Rightarrow> string \<Rightarrow> string" where
  "ScopedKey scope0 path0 =
     (let scope = TrimSpace scope0; path = TrimSpace path0 in
      if scope = [] \<or> path = [] then path else scope @ ''::'' @ path)"

section \<open>Eviction takes the oldest entries\<close>

definition nc_ok :: "NegativeCache \<Rightarrow> bool" where
  "nc_ok c \<longleftrightarrow> gomap_ok (nc_entries c) \<and> 0 < nc_maxSize c \<and> length (nc_entries c) \<le> nc_maxSize c"

lemma newest_index_prefix:
  fixes xs :: "(string \<times> int) list"
  assumes "k \<le> length xs" "0 < k"
  defines "m \<equiv> fold (\<lambda>i m. if snd (xs ! m) < snd (xs ! i) then i else m) [1..<k] 0"
  shows "m < k \<and> (\<forall>i<k. snd (xs ! i) \<le> snd (xs ! m))"
  unfolding m_def using assms(1,2)
proof (induction k)
  case (Suc k)
  show ?case
  proof (cases "k = 0")
    case False
    then have "[1..<Suc k] = [1..<k] @ [k]" by simp
    with Suc False show ?thesis by (auto simp: less_Suc_eq intro: order.trans less_imp_le)
  qed simp
qed simp

lemma newest_index:
  "oldest \<noteq> [] \<Longrightarrow> newest_index oldest < length oldest \<and>
   (\<forall>e\<in>set oldest. snd e \<le> snd (oldest ! newest_index oldest))"
proof -
  assume "oldest \<noteq> []"
  then have "0 < length oldest" by simp
  from newest_index_prefix[OF order_refl this, folded newest_index_def]
  have m: "newest_index oldest < length oldest"
    "\<And>i. i < length oldest \<Longrightarrow> snd (oldest ! i) \<le> snd (oldest ! newest_index oldest)" by blast+
  show ?thesis
  proof (intro conjI ballI)
    fix e assume "e \<in> set oldest"
    then obtain i where "i < length oldest" "oldest ! i = e" by (auto simp: in_set_conv_nth)
    with m(2)[of i] show "snd e \<le> snd (oldest ! newest_index oldest)" by simp
  qed (rule m(1))
qed

text \<open>The collected entries are \<open>n\<close> of those seen, and none of the others is older.\<close>

definition oldest_inv :: "nat \<Rightarrow> (string \<times> int) list \<Rightarrow> (string \<times> int) list \<Rightarrow> bool" where
  "oldest_inv n seen oldest \<longleftrightarrow>
     length oldest = min n (length seen) \<and> mset oldest \<subseteq># mset seen \<and>
     (\<forall>x \<in># mset seen - mset oldest. \<forall>y\<in>set oldest. snd y \<le> snd x)"

lemma collect_oldest_inv:
  assumes "oldest_inv n seen oldest" "0 < n"
  shows "oldest_inv n (seen @ [kv]) (collect_oldest n kv oldest)"
proof (cases "length oldest < n")
  case True
  with assms have "length seen = length oldest" by (auto simp: oldest_inv_def)
  moreover have "mset oldest \<subseteq># mset seen" using assms(1) by (simp add: oldest_inv_def)
  ultimately have "mset oldest = mset seen"
    using mset_subset_size[of "mset oldest" "mset seen"] by (auto simp: subset_mset.le_less)
  with True assms show ?thesis by (auto simp: oldest_inv_def collect_oldest_def)
next
  case False
  let ?m = "newest_index oldest" and ?o = "collect_oldest n kv oldest"
  from False assms have len: "length oldest = n" "n \<le> length seen" by (auto simp: oldest_inv_def)
  with assms(2) have "oldest \<noteq> []" by auto
  note m = newest_index[OF this]
  from assms(1) have sub: "mset oldest \<subseteq># mset seen"
    and le: "\<And>x y. x \<in># mset seen - mset oldest \<Longrightarrow> y \<in> set oldest \<Longrightarrow> snd y \<le> snd x"
    by (auto simp: oldest_inv_def)
  show ?thesis
  proof (cases "snd kv < snd (oldest ! ?m)")
    case False
    then have o: "?o = oldest" using len by (simp add: collect_oldest_def Let_def)
    have "mset (seen @ [kv]) - mset oldest = add_mset kv (mset seen - mset oldest)"
      using sub by (simp add: add_mset_diff_bothsides)
        (metis add_mset_add_single subset_mset.add_diff_assoc2)
    moreover have "snd y \<le> snd kv" if "y \<in> set oldest" for y using False m that by fastforce
    ultimately show ?thesis
      using le sub len by (auto simp: o oldest_inv_def intro: subset_mset.order_trans)
  next
    case True
    let ?rest = "mset oldest - {#oldest ! ?m#}"
    have o: "?o = oldest[?m := kv]" using len True by (simp add: collect_oldest_def Let_def)
    have mo: "mset ?o = add_mset kv ?rest" using m by (simp add: o mset_update)
    have mem: "oldest ! ?m \<in># mset oldest" using m by simp
    have "mset (seen @ [kv]) - mset ?o = add_mset (oldest ! ?m) (mset seen - mset oldest)"
      using mem sub unfolding mo
      by (metis add_mset_add_single add_mset_diff_bothsides insert_DiffM mset.simps(1,2) mset_append
          mset_subset_eqD multiset_diff_union_assoc single_subset_iff subset_mset.diff_diff_right union_commute)
    moreover have ym: "snd y \<le> snd (oldest ! ?m)" if "y \<in> set ?o" for y
      using that m True by (auto simp: o dest!: set_update_subset_insert[THEN subsetD])
    moreover have "snd y \<le> snd x" if "x \<in># mset seen - mset oldest" "y \<in> set ?o" for x y
      using ym[OF that(2)] le[OF that(1), of "oldest ! ?m"] mem by simp
    moreover have "mset ?o \<subseteq># mset (seen @ [kv])"
      using sub unfolding mo by (simp) (meson diff_subset_eq_self subset_mset.order_trans)
    moreover have "length ?o = length oldest" by (simp add: o)
    ultimately show ?thesis using len by (auto simp: oldest_inv_def)
  qed
qed

lemma collect_oldest_fold:
  assumes "0 < n"
  shows "oldest_inv n seen (fold (collect_oldest n) seen [])"
proof (induction seen rule: rev_induct)
  case (snoc kv seen)
  from collect_oldest_inv[OF snoc assms] show ?case by simp
qed (simp add: oldest_inv_def)

lemma evict_spec:
  assumes ok: "gomap_ok (nc_entries c)" and enum: "\<And>m. mset (enum m) = mset m"
  defines "es \<equiv> nc_entries c" and "kept \<equiv> nc_entries (evictOldestLocked enum c)"
  shows "set kept \<subseteq> set es" "gomap_ok kept" "length kept = min (length es) (nc_maxSize c * 9 div 10)"
    "\<And>x y. x \<in> set kept \<Longrightarrow> y \<in> set es - set kept \<Longrightarrow> snd y \<le> snd x"
proof -
  let ?n = "evict_count c"
  define oldest where "oldest = fold (collect_oldest ?n) (enum es) []"
  have d: "distinct (map fst es)" "distinct es" using ok by (auto simp: es_def gomap_ok_def distinct_map)
  show sub: "set kept \<subseteq> set es"
    by (auto simp: kept_def es_def evictOldestLocked_def Let_def)
  show "gomap_ok kept"
    using ok by (auto simp: kept_def evictOldestLocked_def Let_def gomap_ok_def distinct_map_filter)
  have main: "length kept = min (length es) (nc_maxSize c * 9 div 10) \<and>
      (\<forall>x y. x \<in> set kept \<longrightarrow> y \<in> set es - set kept \<longrightarrow> snd y \<le> snd x)"
  proof (cases "?n = 0")
    case True
    then have "kept = es" by (simp add: kept_def es_def evictOldestLocked_def)
    with True show ?thesis by (auto simp: evict_count_def es_def)
  next
    case False
    then have inv: "oldest_inv ?n (enum es) oldest" unfolding oldest_def by (intro collect_oldest_fold) simp
    then have len: "length oldest = ?n" and osub: "mset oldest \<subseteq># mset es"
      and le: "\<And>x y. x \<in># mset es - mset oldest \<Longrightarrow> y \<in> set oldest \<Longrightarrow> snd y \<le> snd x"
      using enum[of es] mset_eq_length[OF enum[of es]] by (auto simp: oldest_inv_def evict_count_def es_def)
    have "kept = filter (\<lambda>e. fst e \<notin> fst ` set oldest) es"
      using False unfolding kept_def evictOldestLocked_def oldest_def es_def Let_def
      by (simp add: case_prod_unfold)
    moreover have "set oldest \<subseteq> set es" using osub by (metis set_mset_mono set_mset_mset)
    ultimately have setk: "set kept = set es - set oldest"
      using d(1) by (auto simp: distinct_map inj_on_def)
    have do: "distinct oldest"
    proof -
      have "count (mset oldest) a = (if a \<in> set oldest then 1 else 0)" for a
      proof -
        have "count (mset es) a \<le> 1" using d(2) by (cases a) (simp add: distinct_count_atmost_1)
        with mset_subset_eq_count[OF osub, of a] have "count (mset oldest) a \<le> 1" by simp
        moreover have "0 < count (mset oldest) a \<longleftrightarrow> a \<in> set oldest" by (simp del: count_greater_eq_Suc_zero_iff)
        ultimately show ?thesis by (auto simp del: count_mset_0_iff count_greater_zero_iff)
      qed
      then show ?thesis by (simp add: distinct_count_atmost_1)
    qed
    have "distinct kept" using d(2) \<open>kept = _\<close> by simp
    then have "length kept = card (set es - set oldest)" by (simp add: setk[symmetric] distinct_card)
    also have "\<dots> = length es - ?n"
      using \<open>set oldest \<subseteq> set es\<close> by (simp add: card_Diff_subset distinct_card[OF do] distinct_card[OF d(2)] len)
    finally have "length kept = length es - ?n" .
    moreover have "snd y \<le> snd x" if "x \<in> set kept" "y \<in> set es - set kept" for x y
    proof (rule le)
      have "x \<notin># mset oldest" using that(1) setk by simp
      then have "count (mset oldest) x = 0" by (simp only: count_eq_zero_iff not_False_eq_True)
      moreover have "0 < count (mset es) x" using that(1) setk by simp
      ultimately show "x \<in># mset es - mset oldest" unfolding in_diff_count by linarith
      show "y \<in> set oldest" using that(2) setk by blast
    qed
    ultimately show ?thesis by (auto simp: evict_count_def es_def)
  qed
  show "length kept = min (length es) (nc_maxSize c * 9 div 10)" using main by blast
  show "\<And>x y. x \<in> set kept \<Longrightarrow> y \<in> set es - set kept \<Longrightarrow> snd y \<le> snd x" using main by blast
qed

section \<open>The size bound\<close>

lemma update_length_le: "length (AList.update k v m) \<le> Suc (length m)"
  by (induction m) auto

lemma nine_tenths: "0 < m \<Longrightarrow> m * 9 div 10 < (m :: nat)"
  by (simp add: div_less_iff_less_mult)

lemma Remember_ok:
  assumes "nc_ok c" and enum: "\<And>m. mset (enum m) = mset m"
  shows "nc_ok (Remember enum now path c)" and "nc_maxSize (Remember enum now path c) = nc_maxSize c"
proof -
  define c1 where "c1 = (if nc_maxSize c \<le> length (nc_entries c) then purgeExpiredLocked now c else c)"
  define c2 where "c2 = (if nc_maxSize c1 \<le> length (nc_entries c1) then evictOldestLocked enum c1 else c1)"
  have R: "Remember enum now path c = c2\<lparr>nc_entries := AList.update path (now + nc_ttl c2) (nc_entries c2)\<rparr>"
    by (simp add: Remember_def c1_def c2_def Let_def)
  have c1: "gomap_ok (nc_entries c1)" "nc_maxSize c1 = nc_maxSize c" "0 < nc_maxSize c1"
    using assms(1) by (auto simp: c1_def nc_ok_def purgeExpiredLocked_def gomap_ok_def distinct_map_filter)
  have "gomap_ok (nc_entries c2)" "nc_maxSize c2 = nc_maxSize c" "length (nc_entries c2) < nc_maxSize c"
    using evict_spec(2,3)[OF c1(1), where enum = enum, OF enum] c1 nine_tenths[OF c1(3)]
    by (auto simp: c2_def evictOldestLocked_def Let_def split: if_splits)
  then show "nc_ok (Remember enum now path c)" "nc_maxSize (Remember enum now path c) = nc_maxSize c"
    using update_length_le[of path "now + nc_ttl c2" "nc_entries c2"] assms(1)
    by (auto simp: R nc_ok_def gomap_ok_def distinct_update)
qed

datatype nc_event = NcRemember int string | NcHit int string | NcForget string
  | NcForgetMatching "string \<Rightarrow> bool" | NcPurge int

fun nc_exec :: "((string, int) gomap \<Rightarrow> (string, int) gomap) \<Rightarrow> nc_event \<Rightarrow> NegativeCache \<Rightarrow> NegativeCache" where
  "nc_exec enum (NcRemember now p) c = Remember enum now p c"
| "nc_exec enum (NcHit now p) c = snd (Hit now p c)"
| "nc_exec enum (NcForget p) c = Forget p c"
| "nc_exec enum (NcForgetMatching f) c = snd (ForgetMatching f c)"
| "nc_exec enum (NcPurge now) c = purgeExpiredLocked now c"

lemma nc_delete_ok: "nc_ok c \<Longrightarrow> nc_ok (nc_delete p c)"
  using length_delete_le[of p "nc_entries c"]
  by (auto simp: nc_ok_def nc_delete_def gomap_ok_def distinct_delete)

lemma nc_filter_ok: "nc_ok c \<Longrightarrow> nc_ok (c\<lparr>nc_entries := filter P (nc_entries c)\<rparr>)"
  by (auto simp: nc_ok_def gomap_ok_def distinct_map_filter intro: le_trans[OF length_filter_le])

lemma nc_exec_ok:
  assumes "nc_ok c" "\<And>m. mset (enum m) = mset m"
  shows "nc_ok (nc_exec enum e c) \<and> nc_maxSize (nc_exec enum e c) = nc_maxSize c"
proof (cases e)
  case (NcRemember now p)
  then show ?thesis using Remember_ok[OF assms] by simp
next
  case (NcHit now p)
  then show ?thesis using assms(1) nc_delete_ok by (simp add: Hit_def Hit_finish_def nc_delete_def)
next
  case (NcForget p)
  then show ?thesis using assms(1) nc_delete_ok by (simp add: Forget_def nc_delete_def)
next
  case (NcForgetMatching f)
  then show ?thesis using nc_filter_ok[OF assms(1)] by (simp add: ForgetMatching_def)
next
  case (NcPurge now)
  then show ?thesis using nc_filter_ok[OF assms(1)] by (simp add: purgeExpiredLocked_def)
qed

text \<open>The negative cache never holds more than maxSize entries: after any sequence of Remember, Hit,
  Forget, ForgetMatching and eviction ticks, at any times and for any map order, starting from
  a new cache.\<close>

theorem negative_cache_bounded:
  assumes "\<And>m. mset (enum m) = mset m"
  shows "Len (fold (nc_exec enum) evs (NewNegativeCache ttl ms)) \<le> nc_maxSize (NewNegativeCache ttl ms)"
proof -
  have "nc_ok (fold (nc_exec enum) evs c) \<and> nc_maxSize (fold (nc_exec enum) evs c) = nc_maxSize c"
    if "nc_ok c" for c
    using that
  proof (induction evs arbitrary: c)
    case (Cons e evs)
    from Cons.IH[of "nc_exec enum e c"] nc_exec_ok[OF Cons.prems assms, of e] show ?case by simp
  qed simp
  moreover have "nc_ok (NewNegativeCache ttl ms)"
    by (auto simp: nc_ok_def NewNegativeCache_def gomap_ok_def defaultMaxSize_def split: list.split)
  ultimately show ?thesis by (metis Len_def nc_ok_def)
qed

lemma negative_cache_bounded_witness:
  "Len (fold (nc_exec rev) [NcRemember 0 ''a'', NcRemember 1 ''b'', NcRemember 2 ''c''] (NewNegativeCache 9 [2])) \<le> 2"
  using negative_cache_bounded[of rev "[NcRemember 0 ''a'', NcRemember 1 ''b'', NcRemember 2 ''c'']" 9 "[2]"]
  by (simp add: NewNegativeCache_def)

text \<open>Eviction brings the cache down to nine tenths of its capacity by removing entries that expire
  no later than any entry it keeps, whatever order the entries are enumerated in.\<close>

theorem eviction_removes_oldest:
  assumes "gomap_ok (nc_entries c)" and "\<And>m. mset (enum m) = mset m"
    and "x \<in> set (nc_entries (evictOldestLocked enum c))"
    and "y \<in> set (nc_entries c)" and "y \<notin> set (nc_entries (evictOldestLocked enum c))"
  shows "snd y \<le> snd x \<and>
    length (nc_entries (evictOldestLocked enum c)) = min (length (nc_entries c)) (nc_maxSize c * 9 div 10)"
  using evict_spec[where enum = enum, OF assms(1,2)] assms(3-5) by blast

lemma eviction_removes_oldest_witness:
  "snd (''b'', 3 :: int) \<le> snd (''a'', 7 :: int) \<and>
   length (nc_entries (evictOldestLocked rev \<lparr>nc_ttl = 9, nc_maxSize = 2, nc_entries = [(''a'', 7), (''b'', 3)]\<rparr>)) = 1"
  using eviction_removes_oldest[of "\<lparr>nc_ttl = 9, nc_maxSize = 2, nc_entries = [(''a'', 7), (''b'', 3)]\<rparr>" rev "(''a'', 7)" "(''b'', 3)"]
  by (simp add: gomap_ok_def evictOldestLocked_def evict_count_def collect_oldest_def newest_index_def)

section \<open>Remembered paths and the two steps of Hit\<close>

lemma Remember_lookup: "map_of (nc_entries (Remember enum now p c)) p = Some (now + nc_ttl c)"
  by (simp add: Remember_def Let_def update_conv' evictOldestLocked_def purgeExpiredLocked_def)

text \<open>A remembered path is a hit until its TTL has passed and a miss afterwards, also when the cache
  was full and entries were evicted to make room; the miss removes the entry.\<close>

theorem remembered_path_hits:
  "(fst (Hit later p (Remember enum now p c)) \<longleftrightarrow> later \<le> now + nc_ttl c) \<and>
   (fst (Hit later p (Remember enum now p c)) \<or>
      map_of (nc_entries (snd (Hit later p (Remember enum now p c)))) p = None)"
  using Remember_lookup[of enum now p c]
  by (auto simp: Hit_def Hit_read_def Hit_finish_def nc_delete_def delete_conv' split: if_splits)

text \<open>Hit deletes without looking again: when another goroutine remembers the path anew between the
  read of an expired entry and the delete, the fresh entry is lost.\<close>

theorem hit_race_loses_fresh_entry:
  assumes "map_of (nc_entries c) p = Some expiry" and "expiry < now"
  shows "map_of (nc_entries (snd (Hit_finish (Hit_read now p c) p (Remember enum now p c)))) p = None \<and>
    map_of (nc_entries (Remember enum now p c)) p = Some (now + nc_ttl c)"
  using assms Remember_lookup[of enum now p c]
  by (simp add: Hit_read_def Hit_finish_def nc_delete_def delete_conv')

lemma hit_race_loses_fresh_entry_witness:
  "map_of (nc_entries (snd (Hit_finish (Hit_read 5 ''p'' \<lparr>nc_ttl = 9, nc_maxSize = 2, nc_entries = [(''p'', 3)]\<rparr>) ''p''
     (Remember id 5 ''p'' \<lparr>nc_ttl = 9, nc_maxSize = 2, nc_entries = [(''p'', 3)]\<rparr>)))) ''p'' = None"
  by (rule conjunct1[OF hit_race_loses_fresh_entry[where expiry = 3]]) simp_all

section \<open>The memory cache\<close>

text \<open>
  Values are byte strings; an entry without expiry has \<open>None\<close>. A subscription channel is a
  number: \<open>mc_buffers\<close> holds what is queued on it (Go buffers 16 messages), \<open>mc_shut\<close> the
  closed ones, \<open>mc_next\<close> the next unused number. Sending to a closed channel panics and is
  recovered, so the message is dropped.
\<close>

record memoryEntry =
  me_value :: string
  me_expiresAt :: "int option"

record MemoryCache =
  mc_entries :: "string \<rightharpoonup> memoryEntry"
  mc_sets :: "string \<rightharpoonup> string set"
  mc_channels :: "string \<rightharpoonup> nat list"
  mc_buffers :: "nat \<Rightarrow> string list"
  mc_shut :: "nat set"
  mc_next :: nat
  mc_closed :: bool

definition NewMemoryCache :: MemoryCache where
  "NewMemoryCache = \<lparr>mc_entries = Map.empty, mc_sets = Map.empty, mc_channels = Map.empty,
     mc_buffers = (\<lambda>_. []), mc_shut = {}, mc_next = 0, mc_closed = False\<rparr>"

definition entry_expired :: "int \<Rightarrow> memoryEntry \<Rightarrow> bool" where
  "entry_expired now e = (case me_expiresAt e of None \<Rightarrow> False | Some t \<Rightarrow> t < now)"

text \<open>\<open>Get\<close>: the read and, for an expired entry, the delete that looks again.\<close>

datatype get_read = GetMiss | GetExpired | GetValue string

definition Get_read :: "int \<Rightarrow> string \<Rightarrow> MemoryCache \<Rightarrow> get_read" where
  "Get_read now key m =
     (case mc_entries m key of
        None \<Rightarrow> GetMiss
      | Some e \<Rightarrow> if entry_expired now e then GetExpired else GetValue (me_value e))"

definition Get_finish :: "int \<Rightarrow> get_read \<Rightarrow> string \<Rightarrow> MemoryCache \<Rightarrow> string option \<times> MemoryCache" where
  "Get_finish now r key m =
     (case r of
        GetMiss \<Rightarrow> (None, m)
      | GetValue v \<Rightarrow> (Some v, m)
      | GetExpired \<Rightarrow>
          (None, case mc_entries m key of
                   None \<Rightarrow> m
                 | Some cur \<Rightarrow> if entry_expired now cur then m\<lparr>mc_entries := (mc_entries m)(key := None)\<rparr> else m))"

definition Get :: "int \<Rightarrow> string \<Rightarrow> MemoryCache \<Rightarrow> string option \<times> MemoryCache" where
  "Get now key m = Get_finish now (Get_read now key m) key m"

definition Set :: "int \<Rightarrow> string \<Rightarrow> string \<Rightarrow> int \<Rightarrow> MemoryCache \<Rightarrow> MemoryCache" where
  "Set now key value ttl m =
     m\<lparr>mc_entries := (mc_entries m)(key \<mapsto>
       \<lparr>me_value = value, me_expiresAt = (if 0 < ttl then Some (now + ttl) else None)\<rparr>)\<rparr>"

definition Delete :: "string list \<Rightarrow> MemoryCache \<Rightarrow> MemoryCache" where
  "Delete keys m = m\<lparr>mc_entries := fold (\<lambda>k e. e(k := None)) keys (mc_entries m)\<rparr>"

definition Exists :: "int \<Rightarrow> string \<Rightarrow> MemoryCache \<Rightarrow> bool \<times> MemoryCache" where
  "Exists now key m = (let (v, m') = Get now key m in (v \<noteq> None, m'))"

definition SetAdd :: "string \<Rightarrow> string list \<Rightarrow> MemoryCache \<Rightarrow> MemoryCache" where
  "SetAdd key members m =
     m\<lparr>mc_sets := (mc_sets m)(key \<mapsto> get_or (mc_sets m) key {} \<union> set members)\<rparr>"

definition SetMembers :: "string \<Rightarrow> MemoryCache \<Rightarrow> string set" where
  "SetMembers key m = get_or (mc_sets m) key {}"

definition SetRemove :: "string \<Rightarrow> string list \<Rightarrow> MemoryCache \<Rightarrow> MemoryCache" where
  "SetRemove key members m =
     (case mc_sets m key of
        None \<Rightarrow> m
      | Some s \<Rightarrow>
          let s' = s - set members
          in m\<lparr>mc_sets := (if s' = {} then (mc_sets m)(key := None) else (mc_sets m)(key \<mapsto> s'))\<rparr>)"

definition send :: "string \<Rightarrow> nat \<Rightarrow> MemoryCache \<Rightarrow> MemoryCache" where
  "send msg ch m =
     (if ch \<in> mc_shut m \<or> 16 \<le> length (mc_buffers m ch) then m
      else m\<lparr>mc_buffers := (mc_buffers m)(ch := mc_buffers m ch @ [msg])\<rparr>)"

definition Publish :: "string \<Rightarrow> string \<Rightarrow> MemoryCache \<Rightarrow> MemoryCache" where
  "Publish channel msg m = fold (send msg) (get_or (mc_channels m) channel []) m"

definition Subscribe :: "string \<Rightarrow> MemoryCache \<Rightarrow> nat \<times> MemoryCache" where
  "Subscribe channel m =
     (mc_next m,
      m\<lparr>mc_channels := (mc_channels m)(channel \<mapsto> get_or (mc_channels m) channel [] @ [mc_next m]),
        mc_next := mc_next m + 1\<rparr>)"

definition cancel :: "string \<Rightarrow> nat \<Rightarrow> MemoryCache \<Rightarrow> MemoryCache" where
  "cancel channel ch m =
     (let subs = remove1 ch (get_or (mc_channels m) channel [])
      in m\<lparr>mc_channels := (if subs = [] then (mc_channels m)(channel := None)
                          else (mc_channels m)(channel \<mapsto> subs)),
           mc_shut := insert ch (mc_shut m)\<rparr>)"

definition Close :: "MemoryCache \<Rightarrow> MemoryCache" where
  "Close m =
     (if mc_closed m then m
      else m\<lparr>mc_closed := True, mc_channels := Map.empty, mc_entries := Map.empty, mc_sets := Map.empty\<rparr>)"

text \<open>Get returns what Set stored last under the key until its TTL has passed (for ever when the TTL
  is not positive) and nothing afterwards; an expired entry is removed by the read, and no other
  key is affected.\<close>

theorem memory_cache_get_set:
  "fst (Get later k (Set now k v ttl m)) = (if ttl \<le> 0 \<or> later \<le> now + ttl then Some v else None) \<and>
   fst (Get later k' (Set now k v ttl m)) = (if k' = k then fst (Get later k (Set now k v ttl m)) else fst (Get later k' m)) \<and>
   (fst (Get later k m) = None \<longleftrightarrow> mc_entries (snd (Get later k m)) k = None)"
  by (auto simp: Get_def Get_read_def Get_finish_def Set_def entry_expired_def split: option.splits)

text \<open>Get, unlike Hit, survives the interleaving: when the key is set anew between the read of an
  expired entry and the delete, the new entry stays, unless it has expired as well.\<close>

theorem get_race_keeps_fresh_entry:
  assumes "Get_read now k m = GetExpired" and "ttl \<le> 0 \<or> now \<le> at' + ttl"
  shows "fst (Get now k (snd (Get_finish now (Get_read now k m) k (Set at' k v ttl m)))) = Some v"
  using assms by (auto simp: Get_def Get_read_def Get_finish_def Set_def entry_expired_def split: option.splits if_splits)

lemma get_race_keeps_fresh_entry_witness:
  "fst (Get 9 ''k'' (snd (Get_finish 9 (Get_read 9 ''k'' (Set 0 ''k'' ''old'' 5 NewMemoryCache)) ''k''
     (Set 8 ''k'' ''new'' 5 (Set 0 ''k'' ''old'' 5 NewMemoryCache))))) = Some ''new''"
  by (rule get_race_keeps_fresh_entry) (simp_all add: Get_read_def Set_def entry_expired_def)

text \<open>Sets, and the messages on a channel.\<close>

lemma set_members_laws:
  "SetMembers k' (SetAdd k xs m) = (if k' = k then SetMembers k m \<union> set xs else SetMembers k' m)"
  "SetMembers k' (SetRemove k xs m) = (if k' = k then SetMembers k m - set xs else SetMembers k' m)"
  by (auto simp: SetMembers_def SetAdd_def SetRemove_def get_or_def Let_def split: option.splits)

lemma fold_send_fields [simp]:
  "mc_channels (fold (send msg) subs m) = mc_channels m" "mc_shut (fold (send msg) subs m) = mc_shut m"
  "mc_next (fold (send msg) subs m) = mc_next m"
proof -
  have "mc_channels (fold (send msg) subs m) = mc_channels m \<and> mc_shut (fold (send msg) subs m) = mc_shut m \<and>
      mc_next (fold (send msg) subs m) = mc_next m"
    by (induction subs arbitrary: m) (simp_all add: send_def)
  then show "mc_channels (fold (send msg) subs m) = mc_channels m" "mc_shut (fold (send msg) subs m) = mc_shut m"
    "mc_next (fold (send msg) subs m) = mc_next m" by blast+
qed

lemma fold_send_buffers:
  "distinct subs \<Longrightarrow> mc_buffers (fold (send msg) subs m) ch =
   (if ch \<in> set subs \<and> ch \<notin> mc_shut m \<and> length (mc_buffers m ch) < 16
    then mc_buffers m ch @ [msg] else mc_buffers m ch)"
  by (induction subs arbitrary: m) (auto simp: send_def)

definition mc_ok :: "MemoryCache \<Rightarrow> bool" where
  "mc_ok m \<longleftrightarrow>
     (\<forall>c subs. mc_channels m c = Some subs \<longrightarrow>
        subs \<noteq> [] \<and> distinct subs \<and> (\<forall>ch\<in>set subs. ch < mc_next m \<and> ch \<notin> mc_shut m)) \<and>
     (\<forall>c c' subs subs'. mc_channels m c = Some subs \<longrightarrow> mc_channels m c' = Some subs' \<longrightarrow> c \<noteq> c' \<longrightarrow>
        set subs \<inter> set subs' = {}) \<and>
     (\<forall>ch\<in>mc_shut m. ch < mc_next m) \<and>
     (\<forall>ch. length (mc_buffers m ch) \<le> 16)"

lemma mc_okD:
  "mc_ok m \<Longrightarrow> mc_channels m c = Some subs \<Longrightarrow>
   subs \<noteq> [] \<and> distinct subs \<and> (\<forall>ch\<in>set subs. ch < mc_next m \<and> ch \<notin> mc_shut m)"
  by (simp add: mc_ok_def)

lemma Publish_ok: "mc_ok m \<Longrightarrow> mc_ok (Publish c msg m)"
proof -
  assume ok: "mc_ok m"
  have "distinct (get_or (mc_channels m) c [])"
    using mc_okD[OF ok] by (cases "mc_channels m c") auto
  then have "length (mc_buffers (Publish c msg m) ch) \<le> 16" for ch
    using ok by (auto simp: Publish_def fold_send_buffers mc_ok_def)
  with ok show ?thesis unfolding mc_ok_def Publish_def by simp
qed

lemma cancel_ok:
  assumes ok: "mc_ok m" and c: "ch \<in> set (get_or (mc_channels m) c [])"
  shows "mc_ok (cancel c ch m)"
proof -
  from c obtain subs where s: "mc_channels m c = Some subs" "ch \<in> set subs"
    by (cases "mc_channels m c") auto
  note D = mc_okD[OF ok]
  have other: "ch \<notin> set subs'" if "mc_channels m c' = Some subs'" "c' \<noteq> c" for c' subs'
    using ok s that unfolding mc_ok_def by blast
  show ?thesis
    unfolding mc_ok_def
  proof (intro conjI allI impI ballI)
    fix c' subs' assume a: "mc_channels (cancel c ch m) c' = Some subs'"
    have "subs' = remove1 ch subs \<and> subs' \<noteq> [] \<and> c' = c \<or> c' \<noteq> c \<and> mc_channels m c' = Some subs'"
      using a s(1) by (auto simp: cancel_def Let_def split: if_splits)
    then show "subs' \<noteq> []" "distinct subs'"
      using D[OF s(1)] D[of c' subs'] by (auto simp: distinct_remove1)
    fix x assume "x \<in> set subs'"
    with \<open>_ \<or> _\<close> show "x < mc_next (cancel c ch m)" "x \<notin> mc_shut (cancel c ch m)"
      using D[OF s(1)] D[of c' subs'] other[of c' subs'] notin_set_remove1
      by (auto simp: cancel_def Let_def dest: notin_set_remove1 in_set_remove1)
  next
    fix c1 c2 s1 s2
    assume "mc_channels (cancel c ch m) c1 = Some s1" "mc_channels (cancel c ch m) c2 = Some s2" "c1 \<noteq> c2"
    moreover have "\<exists>s. mc_channels m c' = Some s \<and> set s' \<subseteq> set s"
      if "mc_channels (cancel c ch m) c' = Some s'" for c' s'
      using that s(1) set_remove1_subset[of ch subs] by (auto simp: cancel_def Let_def split: if_splits)
    moreover have "mc_channels m c1 = Some t1 \<Longrightarrow> mc_channels m c2 = Some t2 \<Longrightarrow> set t1 \<inter> set t2 = {}" for t1 t2
      using ok \<open>c1 \<noteq> c2\<close> unfolding mc_ok_def by blast
    ultimately show "set s1 \<inter> set s2 = {}" by blast
  next
    fix x assume "x \<in> mc_shut (cancel c ch m)"
    then show "x < mc_next (cancel c ch m)"
      using ok s D[OF s(1)] by (auto simp: cancel_def Let_def mc_ok_def)
  next
    fix x show "length (mc_buffers (cancel c ch m) x) \<le> 16"
      using ok by (simp add: cancel_def Let_def mc_ok_def)
  qed
qed

lemma Subscribe_ok: "mc_ok m \<Longrightarrow> mc_ok (snd (Subscribe c m))"
  unfolding mc_ok_def Subscribe_def
  by (auto simp: get_or_def less_Suc_eq split: option.splits if_splits)

text \<open>A message published on a channel is queued exactly once, at the end, for every current
  subscriber of that channel with room in its buffer of 16, and for nobody else; buffers never
  exceed 16 messages.\<close>

theorem publish_delivers_once:
  assumes "mc_ok m"
  shows "mc_buffers (Publish c msg m) ch =
      (if ch \<in> set (get_or (mc_channels m) c []) \<and> length (mc_buffers m ch) < 16
       then mc_buffers m ch @ [msg] else mc_buffers m ch) \<and>
    mc_ok (Publish c msg m)"
proof -
  have d: "distinct (get_or (mc_channels m) c [])" "\<forall>ch\<in>set (get_or (mc_channels m) c []). ch \<notin> mc_shut m"
    using mc_okD[OF assms] by (cases "mc_channels m c"; auto)+
  then show ?thesis using Publish_ok[OF assms] by (auto simp: Publish_def fold_send_buffers)
qed

lemma NewMemoryCache_ok: "mc_ok NewMemoryCache"
  by (simp add: mc_ok_def NewMemoryCache_def)

lemma publish_delivers_once_witness:
  "mc_buffers (Publish ''c'' ''hi'' (snd (Subscribe ''c'' NewMemoryCache))) 0 = [''hi'']"
  using publish_delivers_once[OF Subscribe_ok[OF NewMemoryCache_ok], of "''c''" "''hi''" "''c''" 0]
  by (simp add: Subscribe_def NewMemoryCache_def get_or_def)

text \<open>A cancelled subscription receives nothing more, and a cache works on after \<open>Close\<close>.\<close>

lemma cancelled_gets_nothing:
  "mc_buffers (Publish c' msg (cancel c ch m)) ch = mc_buffers m ch"
proof -
  have "mc_buffers (fold (send msg) subs m') ch = mc_buffers m' ch" if "ch \<in> mc_shut m'" for subs m'
    using that
  proof (induction subs arbitrary: m')
    case (Cons s subs)
    have "ch \<in> mc_shut (send msg s m')" using Cons.prems by (simp add: send_def)
    from Cons.IH[OF this] Cons.prems show ?case by (auto simp: send_def)
  qed simp
  then show ?thesis by (simp add: Publish_def cancel_def Let_def)
qed

lemma set_after_close: "fst (Get now k (Set now k v 0 (Close m))) = Some v"
  by (simp add: Get_def Get_read_def Get_finish_def Set_def entry_expired_def)

end
