(* ===== verification/DepGraph.thy ===== *)
theory DepGraph
  imports GoStrings
begin

text \<open>
  The dependency graph of depgraph/graph.go. A node is a value of the map \<open>Nodes\<close> (the code
  shares pointers, and every update goes through the map); a map the code ranges over is an
  association list. \<open>Depth\<close> and \<open>PathFromRoot\<close> are breadth-first searches over an explicit
  queue, \<open>Descendants\<close> a depth-first search, \<open>Walk\<close> returns the nodes in the order in which
  it calls its argument. A nil dereference is the result \<open>None\<close>.
\<close>

section \<open>Keys\<close>

datatype Key = Key (Ecosystem: string) (KeyName: string) (Version: string)

definition key_string :: "Key \<Rightarrow> string" where
  "key_string k = Ecosystem k @ '':'' @ KeyName k @ ''@'' @ Version k"

definition keyLess :: "Key \<Rightarrow> Key \<Rightarrow> bool" where
  "keyLess a b =
     (if Ecosystem a \<noteq> Ecosystem b then Ecosystem a < Ecosystem b
      else if KeyName a \<noteq> KeyName b then KeyName a < KeyName b
      else Version a < Version b)"

text \<open>The order of the code is a linear order, so that the library's sorting applies to keys.\<close>

instantiation Key :: linorder
begin

definition less_Key :: "Key \<Rightarrow> Key \<Rightarrow> bool" where "less_Key a b = keyLess a b"
definition less_eq_Key :: "Key \<Rightarrow> Key \<Rightarrow> bool" where "less_eq_Key a b = (keyLess a b \<or> a = b)"

instance
proof
  fix x y z :: Key
  show "(x < y) = (x \<le> y \<and> \<not> y \<le> x)"
    by (auto simp: less_Key_def less_eq_Key_def keyLess_def split: if_splits)
  show "x \<le> x" by (simp add: less_eq_Key_def)
  show "x \<le> y \<Longrightarrow> y \<le> z \<Longrightarrow> x \<le> z"
    by (auto simp: less_eq_Key_def keyLess_def split: if_splits)
  show "x \<le> y \<Longrightarrow> y \<le> x \<Longrightarrow> x = y"
    by (auto simp: less_eq_Key_def keyLess_def split: if_splits)
  show "x \<le> y \<or> y \<le> x"
    by (cases x; cases y) (auto simp: less_eq_Key_def keyLess_def)
qed

end

section \<open>Graphs\<close>

record Node =
  n_Key :: Key
  n_Direct :: bool
  n_Prod :: bool
  n_Classifier :: string
  n_Parents :: "Key list"
  n_Children :: "Key list"

record Graph =
  g_Roots :: "Key list"
  g_Nodes :: "(Key, Node) gomap"
  g_edgeAttrs :: "Key \<times> Key \<Rightarrow> string \<rightharpoonup> string"

definition NewGraph :: Graph where
  "NewGraph = \<lparr>g_Roots = [], g_Nodes = [], g_edgeAttrs = (\<lambda>_. Map.empty)\<rparr>"

definition node_of :: "Graph \<Rightarrow> Key \<Rightarrow> Node option" where
  "node_of g = map_of (g_Nodes g)"

definition set_node :: "Key \<Rightarrow> Node \<Rightarrow> Graph \<Rightarrow> Graph" where
  "set_node k n g = g\<lparr>g_Nodes := AList.update k n (g_Nodes g)\<rparr>"

definition AddNode :: "Key \<Rightarrow> bool \<Rightarrow> bool \<Rightarrow> Graph \<Rightarrow> Graph" where
  "AddNode k direct isprod g =
     (case node_of g k of
        Some n \<Rightarrow> set_node k (n\<lparr>n_Direct := n_Direct n \<or> direct, n_Prod := n_Prod n \<or> isprod\<rparr>) g
      | None \<Rightarrow>
          set_node k \<lparr>n_Key = k, n_Direct = direct, n_Prod = isprod, n_Classifier = [], n_Parents = [],
            n_Children = []\<rparr> g)"

definition containsKey :: "Key list \<Rightarrow> Key \<Rightarrow> bool" where
  "containsKey ks k = list_ex (\<lambda>x. x = k) ks"

text \<open>The two appends of \<open>AddEdge\<close>; for a self-loop the second one sees the first.\<close>

definition append_child :: "Key \<Rightarrow> Node \<Rightarrow> Node" where
  "append_child c n = (if containsKey (n_Children n) c then n else n\<lparr>n_Children := n_Children n @ [c]\<rparr>)"

definition append_parent :: "Key \<Rightarrow> Node \<Rightarrow> Node" where
  "append_parent p n = (if containsKey (n_Parents n) p then n else n\<lparr>n_Parents := n_Parents n @ [p]\<rparr>)"

definition AddEdge :: "Key \<Rightarrow> Key \<Rightarrow> Graph \<Rightarrow> Graph" where
  "AddEdge parent child g =
     (case node_of g parent of
        None \<Rightarrow> g
      | Some p \<Rightarrow>
          case node_of g child of
            None \<Rightarrow> g
          | Some _ \<Rightarrow>
              let g1 = set_node parent (append_child child p) g
              in set_node child (append_parent parent (the (node_of g1 child))) g1)"

definition AddRoot :: "Key \<Rightarrow> Graph \<Rightarrow> Graph" where
  "AddRoot k g =
     (case node_of g k of
        None \<Rightarrow> g
      | Some n \<Rightarrow>
          if k \<in> set (g_Roots g) then g
          else set_node k (n\<lparr>n_Direct := True\<rparr>) (g\<lparr>g_Roots := g_Roots g @ [k]\<rparr>))"

text \<open>\<open>Validate\<close>: the first inconsistency in the order of the enumeration, as its message.\<close>

definition missing :: "Graph \<Rightarrow> Key list \<Rightarrow> Key option" where
  "missing g ks = find (\<lambda>k. node_of g k = None) ks"

definition validate_node :: "Graph \<Rightarrow> Key \<times> Node \<Rightarrow> string option" where
  "validate_node g = (\<lambda>(k, n).
     (case missing g (n_Children n) of
        Some c \<Rightarrow> Some (''depgraph: node '' @ key_string k @ '' has unknown child '' @ key_string c)
      | None \<Rightarrow>
          (case missing g (n_Parents n) of
             Some p \<Rightarrow> Some (''depgraph: node '' @ key_string k @ '' has unknown parent '' @ key_string p)
           | None \<Rightarrow> None)))"

definition Validate :: "Graph \<Rightarrow> string option" where
  "Validate g =
     (case missing g (g_Roots g) of
        Some r \<Rightarrow> Some (''depgraph: root '' @ key_string r @ '' not in Nodes'')
      | None \<Rightarrow>
          (case find (\<lambda>e. e \<noteq> None) (map (validate_node g) (g_Nodes g)) of Some e \<Rightarrow> e | None \<Rightarrow> None))"

definition children :: "Graph \<Rightarrow> Key \<Rightarrow> Key list" where
  "children g k = (case node_of g k of None \<Rightarrow> [] | Some n \<Rightarrow> n_Children n)"

definition parents :: "Graph \<Rightarrow> Key \<Rightarrow> Key list" where
  "parents g k = (case node_of g k of None \<Rightarrow> [] | Some n \<Rightarrow> n_Parents n)"

definition node_keys :: "Graph \<Rightarrow> Key set" where
  "node_keys g = {k. node_of g k \<noteq> None}"

definition all_children :: "Graph \<Rightarrow> Key set" where
  "all_children g = (\<Union>(k, n)\<in>set (g_Nodes g). set (n_Children n))"

lemma finite_all_children [simp]: "finite (all_children g)"
  by (auto simp: all_children_def)

lemma children_subset: "set (children g k) \<subseteq> all_children g"
proof (cases "node_of g k")
  case (Some n)
  then have "(k, n) \<in> set (g_Nodes g)" by (simp add: node_of_def map_of_SomeD)
  with Some show ?thesis by (auto simp: children_def all_children_def intro!: bexI[of _ "(k, n)"])
qed (simp add: children_def)

section \<open>Depth\<close>

text \<open>The loop over the children of one frame: it returns the depth when it meets the target.\<close>

fun depth_children ::
  "Key \<Rightarrow> int \<Rightarrow> Key list \<Rightarrow> Key set \<times> (Key \<times> int) list \<Rightarrow> int + (Key set \<times> (Key \<times> int) list)" where
  "depth_children k d [] st = Inr st"
| "depth_children k d (c # cs) (visited, queue) =
     (if c \<in> visited then depth_children k d cs (visited, queue)
      else if c = k then Inl (d + 1)
      else depth_children k d cs (insert c visited, queue @ [(c, d + 1)]))"

lemma depth_children_new:
  "depth_children k d cs (V, Q) = Inr (V', Q') \<Longrightarrow>
   \<exists>new. V' = V \<union> set new \<and> Q' = Q @ map (\<lambda>c. (c, d + 1)) new \<and> set new \<subseteq> set cs \<and>
     distinct new \<and> set new \<inter> V = {} \<and> set cs \<subseteq> V' \<and> k \<notin> set new"
proof (induction k d cs "(V, Q)" arbitrary: V Q rule: depth_children.induct)
  case (2 k d c cs V Q)
  show ?case
  proof (cases "c \<in> V")
    case True
    with 2(1)[OF True] 2(3) obtain new where "V' = V \<union> set new \<and> Q' = Q @ map (\<lambda>c. (c, d + 1)) new \<and>
        set new \<subseteq> set cs \<and> distinct new \<and> set new \<inter> V = {} \<and> set cs \<subseteq> V' \<and> k \<notin> set new"
      by auto
    with True show ?thesis by (intro exI[of _ new]) auto
  next
    case False
    with 2(3) have ck: "c \<noteq> k" by auto
    with False 2(3) 2(2)[OF False ck] obtain new where
      "V' = insert c V \<union> set new \<and> Q' = (Q @ [(c, d + 1)]) @ map (\<lambda>c. (c, d + 1)) new \<and>
        set new \<subseteq> set cs \<and> distinct new \<and> set new \<inter> insert c V = {} \<and> set cs \<subseteq> V' \<and> k \<notin> set new"
      by auto
    with False ck show ?thesis by (intro exI[of _ "c # new"]) auto
  qed
qed simp

lemma depth_children_found:
  "depth_children k d cs (V, Q) = Inl r \<Longrightarrow> r = d + 1 \<and> k \<in> set cs \<and> k \<notin> V"
  by (induction k d cs "(V, Q)" arbitrary: V Q rule: depth_children.induct) (auto split: if_splits)

text \<open>The main loop; \<open>None\<close> is the nil dereference of a frame whose key is not in the graph.\<close>

function depth_loop :: "Graph \<Rightarrow> Key \<Rightarrow> Key set \<times> (Key \<times> int) list \<Rightarrow> int option" where
  "depth_loop g k (visited, []) = Some (- 1)"
| "depth_loop g k (visited, (x, d) # queue) =
     (case node_of g x of
        None \<Rightarrow> None
      | Some n \<Rightarrow>
          case depth_children k d (n_Children n) (visited, queue) of
            Inl r \<Rightarrow> Some r
          | Inr st \<Rightarrow> depth_loop g k st)"
  by pat_completeness auto
termination
proof (relation "measures [\<lambda>(g, k, visited, queue). card (all_children g - visited), \<lambda>(g, k, visited, queue). length queue]")
  fix g k V x d Q n st
  assume n: "node_of g x = Some n" and r: "depth_children k d (n_Children n) (V, Q) = Inr st"
  obtain V' Q' where st: "st = (V', Q')" by fastforce
  obtain new where new: "V' = V \<union> set new" "Q' = Q @ map (\<lambda>c. (c, d + 1)) new" "set new \<subseteq> set (n_Children n)"
    "set new \<inter> V = {}"
    using depth_children_new[OF r[unfolded st]] by blast
  have sub: "set new \<subseteq> all_children g - V"
    using new children_subset[of g x] n by (auto simp: children_def)
  show "((g, k, st), g, k, V, (x, d) # Q)
      \<in> measures [\<lambda>(g, k, visited, queue). card (all_children g - visited), \<lambda>(g, k, visited, queue). length queue]"
  proof (cases "new = []")
    case True
    with new show ?thesis by (simp add: st)
  next
    case False
    then have "card (all_children g - V') < card (all_children g - V)"
      using new(1) sub by (intro psubset_card_mono) (auto simp: neq_Nil_conv)
    then show ?thesis by (simp add: st)
  qed
qed simp

definition Depth :: "Graph \<Rightarrow> Key \<Rightarrow> int option" where
  "Depth g k =
     (if node_of g k = None then Some (- 1)
      else if g_Roots g = [] then Some (- 1)
      else if k \<in> set (g_Roots g) then Some 0
      else depth_loop g k (set (g_Roots g), map (\<lambda>r. (r, 0)) (g_Roots g)))"

section \<open>Paths from the roots\<close>

inductive rpath :: "Graph \<Rightarrow> Key \<Rightarrow> nat \<Rightarrow> bool" for g where
  root: "r \<in> set (g_Roots g) \<Longrightarrow> rpath g r 0"
| edge: "rpath g u n \<Longrightarrow> v \<in> set (children g u) \<Longrightarrow> rpath g v (Suc n)"

inductive_cases rpath_0E: "rpath g v 0"
inductive_cases rpath_SucE: "rpath g v (Suc n)"

text \<open>
  The invariant of the search with target \<open>k\<close>: \<open>d\<close> is the level of the head of the queue.
  Everything at a level up to \<open>d\<close> is visited, what lies at \<open>d + 1\<close> is visited or a child of a
  frame at level \<open>d\<close> still in the queue, and visited keys that left the queue are expanded.
\<close>

definition bfs_inv :: "Graph \<Rightarrow> Key \<Rightarrow> nat \<Rightarrow> Key set \<Rightarrow> (Key \<times> nat) list \<Rightarrow> bool" where
  "bfs_inv g k d V Q \<longleftrightarrow>
     k \<notin> V \<and> set (g_Roots g) \<subseteq> V \<and>
     (\<forall>(x, e)\<in>set Q. x \<in> V \<and> rpath g x e \<and> (e = d \<or> e = Suc d)) \<and>
     sorted (map snd Q) \<and>
     (\<forall>v n. rpath g v n \<longrightarrow> n \<le> d \<longrightarrow> v \<in> V) \<and>
     (\<forall>v. rpath g v (Suc d) \<longrightarrow> v \<in> V \<or> (\<exists>u. (u, d) \<in> set Q \<and> v \<in> set (children g u))) \<and>
     (\<forall>v\<in>V. v \<notin> fst ` set Q \<longrightarrow> set (children g v) \<subseteq> V)"

lemma bfs_inv_next_level:
  assumes "bfs_inv g k d V Q" and "\<forall>(x, e)\<in>set Q. e \<noteq> d"
  shows "bfs_inv g k (Suc d) V Q"
proof -
  have lev: "\<And>v n. rpath g v n \<Longrightarrow> n \<le> d \<Longrightarrow> v \<in> V" and q: "\<And>x e. (x, e) \<in> set Q \<Longrightarrow> e = Suc d"
    and ex: "\<And>v. v \<in> V \<Longrightarrow> v \<notin> fst ` set Q \<Longrightarrow> set (children g v) \<subseteq> V"
    using assms unfolding bfs_inv_def by blast+
  have sd: "v \<in> V" if "rpath g v (Suc d)" for v
    using assms that unfolding bfs_inv_def by blast
  have "v \<in> V \<or> (\<exists>u. (u, Suc d) \<in> set Q \<and> v \<in> set (children g u))" if "rpath g v (Suc (Suc d))" for v
  proof -
    from that obtain u where u: "rpath g u (Suc d)" "v \<in> set (children g u)" by (rule rpath_SucE)
    show ?thesis
    proof (cases "u \<in> fst ` set Q")
      case True
      then obtain e where "(u, e) \<in> set Q" by auto
      with q u(2) show ?thesis by blast
    next
      case False
      with ex[OF sd[OF u(1)]] u(2) show ?thesis by blast
    qed
  qed
  with assms sd lev q show ?thesis unfolding bfs_inv_def by (auto simp: le_Suc_eq)
qed

lemma bfs_inv_step:
  assumes inv: "bfs_inv g k d V ((x, d) # Q)"
    and new: "V' = V \<union> set new" "Q' = Q @ map (\<lambda>c. (c, Suc d)) new" "set new \<subseteq> set (children g x)"
      "set (children g x) \<subseteq> V'" "k \<notin> set new"
  shows "bfs_inv g k d V' Q'"
proof -
  have x: "rpath g x d" using inv unfolding bfs_inv_def by auto
  have np: "rpath g c (Suc d)" if "c \<in> set new" for c
    using rpath.edge[OF x] new(3) that by blast
  have "sorted (map snd Q')"
    using inv by (auto simp: bfs_inv_def new(2) sorted_append o_def map_replicate_const)
  moreover have "set (children g v) \<subseteq> V'" if v: "v \<in> V'" "v \<notin> fst ` set Q'" for v
  proof (cases "v = x")
    case True
    with new(4) show ?thesis by simp
  next
    case False
    have "fst ` set Q' = fst ` set Q \<union> set new" unfolding new(2) by (simp add: image_Un image_image)
    with v new(1) have "v \<in> V" "v \<notin> fst ` set ((x, d) # Q)" using False by auto
    with inv have "set (children g v) \<subseteq> V" unfolding bfs_inv_def by blast
    with new(1) show ?thesis by blast
  qed
  moreover have "v \<in> V' \<or> (\<exists>u. (u, d) \<in> set Q' \<and> v \<in> set (children g u))" if "rpath g v (Suc d)" for v
  proof -
    have "v \<in> V \<or> (\<exists>u. (u, d) \<in> set ((x, d) # Q) \<and> v \<in> set (children g u))"
      using inv that unfolding bfs_inv_def by blast
    then consider "v \<in> V" | "v \<in> set (children g x)" | u where "(u, d) \<in> set Q" "v \<in> set (children g u)" by auto
    then show ?thesis using new(1,2,4) by cases auto
  qed
  moreover have "y \<in> V' \<and> rpath g y e \<and> (e = d \<or> e = Suc d)" if "(y, e) \<in> set Q'" for y e
  proof (cases "(y, e) \<in> set Q")
    case True
    with inv new(1) show ?thesis unfolding bfs_inv_def by auto
  next
    case False
    with that new(1,2) np show ?thesis by auto
  qed
  moreover have "k \<notin> V' \<and> set (g_Roots g) \<subseteq> V' \<and> (\<forall>v n. rpath g v n \<longrightarrow> n \<le> d \<longrightarrow> v \<in> V')"
    using inv new(1,5) unfolding bfs_inv_def by blast
  ultimately show ?thesis unfolding bfs_inv_def by blast
qed

text \<open>The least number of edges from a root.\<close>

definition least_depth :: "Graph \<Rightarrow> Key \<Rightarrow> int" where
  "least_depth g k = (if \<exists>n. rpath g k n then int (LEAST n. rpath g k n) else - 1)"

lemma bfs_found:
  assumes "bfs_inv g k d V ((x, d) # Q)" "k \<in> set (children g x)"
  shows "least_depth g k = int d + 1"
proof -
  have "rpath g k (Suc d)" using assms by (auto simp: bfs_inv_def intro: rpath.edge)
  moreover have "Suc d \<le> n" if "rpath g k n" for n
    using assms(1) that unfolding bfs_inv_def by (metis not_less_eq_eq)
  ultimately have "(LEAST n. rpath g k n) = Suc d" by (rule Least_equality)
  with \<open>rpath g k (Suc d)\<close> show ?thesis by (auto simp: least_depth_def)
qed

lemma bfs_exhausted:
  assumes "bfs_inv g k d V []"
  shows "least_depth g k = - 1"
proof -
  have "v \<in> V" if "rpath g v n" for v n
    using that
  proof (induction rule: rpath.induct)
    case (edge u n v)
    with assms show ?case unfolding bfs_inv_def by auto
  qed (use assms in \<open>auto simp: bfs_inv_def\<close>)
  moreover have "k \<notin> V" using assms by (simp add: bfs_inv_def)
  ultimately show ?thesis by (auto simp: least_depth_def)
qed

section \<open>Well-formed graphs\<close>

definition graph_ok :: "Graph \<Rightarrow> bool" where
  "graph_ok g \<longleftrightarrow>
     gomap_ok (g_Nodes g) \<and> distinct (g_Roots g) \<and> set (g_Roots g) \<subseteq> node_keys g \<and>
     (\<forall>k n. node_of g k = Some n \<longrightarrow> n_Key n = k \<and> distinct (n_Children n) \<and> distinct (n_Parents n)) \<and>
     (\<forall>k. set (children g k) \<subseteq> node_keys g \<and> set (parents g k) \<subseteq> node_keys g) \<and>
     (\<forall>p c. c \<in> set (children g p) \<longleftrightarrow> p \<in> set (parents g c)) \<and>
     (\<forall>k n. k \<in> set (g_Roots g) \<longrightarrow> node_of g k = Some n \<longrightarrow> n_Direct n)"

definition int_frames :: "(Key \<times> nat) list \<Rightarrow> (Key \<times> int) list" where
  "int_frames = map (\<lambda>(x, e). (x, int e))"

lemma int_frames_simps [simp]:
  "int_frames [] = []" "int_frames ((x, e) # q) = (x, int e) # int_frames q"
  "int_frames (p @ q) = int_frames p @ int_frames q"
  "int_frames (map (\<lambda>c. (c, e)) cs) = map (\<lambda>c. (c, int e)) cs"
  by (simp_all add: int_frames_def)

definition head_level :: "nat \<Rightarrow> (Key \<times> nat) list \<Rightarrow> bool" where
  "head_level d Q \<longleftrightarrow> (case Q of [] \<Rightarrow> True | (_, e) # _ \<Rightarrow> e = d)"

text \<open>The head of a queue whose levels are in order either has the old level or starts the next.\<close>

lemma bfs_relevel:
  assumes "bfs_inv g k d V Q"
  obtains d' where "bfs_inv g k d' V Q" "head_level d' Q"
proof (cases Q)
  case Nil
  with assms that show ?thesis by (auto simp: head_level_def)
next
  case (Cons p q)
  obtain x e where p: "p = (x, e)" by (cases p)
  show ?thesis
  proof (cases "e = d")
    case True
    with assms that Cons p show ?thesis by (auto simp: head_level_def)
  next
    case False
    with assms Cons p have e: "e = Suc d" and le: "\<forall>z\<in>set q. e \<le> snd z"
      unfolding bfs_inv_def by auto
    then have "\<forall>(y, e')\<in>set Q. e' \<noteq> d" using Cons p by fastforce
    with e bfs_inv_next_level[OF assms this] that Cons p show ?thesis by (auto simp: head_level_def)
  qed
qed

lemma depth_loop_correct:
  "(\<And>x. set (children g x) \<subseteq> node_keys g) \<Longrightarrow> bfs_inv g k d V Q \<Longrightarrow> head_level d Q \<Longrightarrow>
   fst ` set Q \<subseteq> node_keys g \<Longrightarrow> Qi = int_frames Q \<Longrightarrow>
   depth_loop g k (V, Qi) = Some (least_depth g k)"
proof (induction g k "(V, Qi)" arbitrary: V Qi Q d rule: depth_loop.induct)
  case (1 g k V)
  then have "Q = []" by (cases Q) (auto simp: int_frames_def)
  with 1 bfs_exhausted[of g k d V] show ?case by simp
next
  case (2 g k V x di qi)
  note cl = 2(2) and inv = 2(3) and hd = 2(4) and dom = 2(5) and Qi = 2(6)
  from Qi hd obtain q where Q: "Q = (x, d) # q" "qi = int_frames q" "di = int d"
    by (cases Q) (auto simp: head_level_def int_frames_def)
  from dom Q(1) obtain n where n: "node_of g x = Some n" by (auto simp: node_keys_def)
  then have ch: "n_Children n = children g x" by (simp add: children_def)
  show ?case
  proof (cases "depth_children k di (n_Children n) (V, qi)")
    case (Inl r)
    from depth_children_found[OF Inl] bfs_found[OF inv[unfolded Q(1)]] n Inl show ?thesis
      by (simp add: ch Q(3))
  next
    case (Inr st)
    obtain V' Qi' where st: "st = (V', Qi')" by fastforce
    obtain new where new: "V' = V \<union> set new" "Qi' = qi @ map (\<lambda>c. (c, di + 1)) new"
      "set new \<subseteq> set (children g x)" "set (children g x) \<subseteq> V'" "k \<notin> set new"
      using depth_children_new[OF Inr[unfolded st]] ch by auto
    have "bfs_inv g k d V' (q @ map (\<lambda>c. (c, Suc d)) new)"
      by (rule bfs_inv_step[OF inv[unfolded Q(1)] new(1) refl new(3,4,5)])
    then obtain d' where d': "bfs_inv g k d' V' (q @ map (\<lambda>c. (c, Suc d)) new)"
      "head_level d' (q @ map (\<lambda>c. (c, Suc d)) new)" by (rule bfs_relevel)
    have "depth_loop g k (V', Qi') = Some (least_depth g k)"
    proof (rule 2(1)[OF n Inr[unfolded st] cl d'])
      show "fst ` set (q @ map (\<lambda>c. (c, Suc d)) new) \<subseteq> node_keys g"
      proof -
        have "fst ` set q \<subseteq> node_keys g" "set new \<subseteq> node_keys g" using dom Q(1) new(3) cl[of x] by auto
        then show ?thesis by (simp add: image_Un image_image)
      qed
      show "Qi' = int_frames (q @ map (\<lambda>c. (c, Suc d)) new)" by (simp add: new(2) Q(2,3) add.commute)
    qed
    then show ?thesis by (simp add: n Inr st)
  qed
qed

lemma bfs_inv_start:
  assumes "k \<notin> set (g_Roots g)"
  shows "bfs_inv g k 0 (set (g_Roots g)) (map (\<lambda>r. (r, 0)) (g_Roots g))"
proof -
  have f: "fst ` set (map (\<lambda>r. (r, 0 :: nat)) (g_Roots g)) = set (g_Roots g)" by (simp add: image_image)
  have "v \<in> set (g_Roots g) \<or> (\<exists>u. u \<in> set (g_Roots g) \<and> v \<in> set (children g u))" if "rpath g v (Suc 0)" for v
    using that by (blast elim: rpath_SucE rpath_0E)
  then show ?thesis
    using assms unfolding bfs_inv_def f
    by (auto simp: o_def map_replicate_const intro: rpath.root elim: rpath_0E)
qed

lemma graph_okD:
  assumes "graph_ok g"
  shows "gomap_ok (g_Nodes g)" "distinct (g_Roots g)" "set (g_Roots g) \<subseteq> node_keys g"
    "set (children g k) \<subseteq> node_keys g" "set (parents g k) \<subseteq> node_keys g"
    "c \<in> set (children g p) \<longleftrightarrow> p \<in> set (parents g c)"
    "node_of g k = Some n \<Longrightarrow> n_Key n = k \<and> distinct (n_Children n) \<and> distinct (n_Parents n)"
    "k \<in> set (g_Roots g) \<Longrightarrow> node_of g k = Some n \<Longrightarrow> n_Direct n"
  using assms unfolding graph_ok_def by blast+

lemma rpath_node: "graph_ok g \<Longrightarrow> rpath g v n \<Longrightarrow> v \<in> node_keys g"
  by (erule rpath.cases) (use graph_okD(3,4) in blast)+

lemma Depth_least:
  assumes ok: "graph_ok g"
  shows "Depth g k = Some (least_depth g k)"
proof -
  have none: "least_depth g k = - 1" if "node_of g k = None \<or> g_Roots g = []"
  proof -
    have "\<not> rpath g k n" for n
    proof
      assume p: "rpath g k n"
      then have "g_Roots g \<noteq> []" by (induction rule: rpath.induct) auto
      with that rpath_node[OF ok p] show False by (auto simp: node_keys_def)
    qed
    then show ?thesis by (simp add: least_depth_def)
  qed
  have root: "least_depth g k = 0" if "k \<in> set (g_Roots g)"
    using rpath.root[OF that] by (auto simp: least_depth_def)
  have "depth_loop g k (set (g_Roots g), map (\<lambda>r. (r, 0)) (g_Roots g)) = Some (least_depth g k)"
    if "k \<notin> set (g_Roots g)" "g_Roots g \<noteq> []"
  proof (rule depth_loop_correct[OF graph_okD(4)[OF ok] bfs_inv_start[OF that(1)]])
    show "head_level 0 (map (\<lambda>r. (r, 0)) (g_Roots g))" using that(2) by (cases "g_Roots g") (simp_all add: head_level_def)
    show "fst ` set (map (\<lambda>r. (r, 0)) (g_Roots g)) \<subseteq> node_keys g" using graph_okD(3)[OF ok] by auto
  qed (simp add: int_frames_def)
  with none root show ?thesis by (simp add: Depth_def)
qed

section \<open>The path from a root\<close>

text \<open>The first occurrences of a list, in order: a loop that skips what it has seen.\<close>

definition dedup :: "'a list \<Rightarrow> 'a list" where
  "dedup xs = rev (remdups (rev xs))"

lemma dedup_simps [simp]: "distinct xs \<Longrightarrow> dedup xs = xs" "set (dedup xs) = set xs" "distinct (dedup xs)"
  by (simp_all add: dedup_def distinct_remdups_id)

fun path_children ::
  "Key \<Rightarrow> Key \<Rightarrow> Key list \<Rightarrow> (Key \<rightharpoonup> Key) \<times> Key list \<Rightarrow> (Key \<rightharpoonup> Key) + ((Key \<rightharpoonup> Key) \<times> Key list)" where
  "path_children t cur [] st = Inr st"
| "path_children t cur (c # cs) (preds, queue) =
     (if preds c \<noteq> None then path_children t cur cs (preds, queue)
      else if c = t then Inl (preds(c \<mapsto> cur))
      else path_children t cur cs (preds(c \<mapsto> cur), queue @ [c]))"

definition fresh_preds :: "Key \<Rightarrow> Key list \<Rightarrow> (Key \<rightharpoonup> Key)" where
  "fresh_preds cur new = (\<lambda>c. if c \<in> set new then Some cur else None)"

lemma fresh_preds_simps [simp]: "fresh_preds cur [] = Map.empty" "dom (fresh_preds cur new) = set new"
  by (auto simp: fresh_preds_def dom_def)

lemma path_children_new:
  "path_children t cur cs (P, Q) = Inr (P', Q') \<Longrightarrow>
   \<exists>new. P' = P ++ fresh_preds cur new \<and> Q' = Q @ new \<and> set new \<subseteq> set cs \<and> set new \<inter> dom P = {} \<and>
     set cs \<subseteq> dom P' \<and> t \<notin> set new"
proof (induction t cur cs "(P, Q)" arbitrary: P Q rule: path_children.induct)
  case (2 t cur c cs P Q)
  show ?case
  proof (cases "P c")
    case (Some p)
    with 2(1) 2(3) obtain new where "P' = P ++ fresh_preds cur new \<and> Q' = Q @ new \<and> set new \<subseteq> set cs \<and>
        set new \<inter> dom P = {} \<and> set cs \<subseteq> dom P' \<and> t \<notin> set new" by auto
    with Some show ?thesis by (intro exI[of _ new]) auto
  next
    case None
    with 2(3) have ct: "c \<noteq> t" by auto
    with None 2(3) 2(2)[OF _ ct] obtain new where
      n: "P' = P(c \<mapsto> cur) ++ fresh_preds cur new" "Q' = (Q @ [c]) @ new" "set new \<subseteq> set cs"
        "set new \<inter> dom (P(c \<mapsto> cur)) = {}" "set cs \<subseteq> dom P'" "t \<notin> set new" by auto
    have "P' = P ++ fresh_preds cur (c # new)"
      using n(4) by (auto simp: n(1) fresh_preds_def map_add_def fun_eq_iff)
    with n None ct show ?thesis by (intro exI[of _ "c # new"]) auto
  qed
qed simp

lemma path_children_found:
  "path_children t cur cs (P, Q) = Inl P' \<Longrightarrow>
   \<exists>new. P' = (P ++ fresh_preds cur new)(t \<mapsto> cur) \<and> set new \<subseteq> set cs \<and> set new \<inter> dom P = {} \<and>
     t \<in> set cs \<and> t \<notin> dom P \<and> t \<notin> set new"
proof (induction t cur cs "(P, Q)" arbitrary: P Q rule: path_children.induct)
  case (2 t cur c cs P Q)
  show ?case
  proof (cases "P c \<noteq> None \<or> c = t")
    case True
    then show ?thesis
    proof (cases "P c")
      case (Some p)
      with 2(1) 2(3) show ?thesis by fastforce
    next
      case None
      with True have "c = t" by simp
      with None 2(3) show ?thesis by (intro exI[of _ "[]"]) auto
    qed
  next
    case False
    with 2(3) 2(2) obtain new where
      n: "P' = (P(c \<mapsto> cur) ++ fresh_preds cur new)(t \<mapsto> cur)" "set new \<subseteq> set cs"
        "set new \<inter> dom (P(c \<mapsto> cur)) = {}" "t \<in> set cs" "t \<notin> dom (P(c \<mapsto> cur))" "t \<notin> set new" by auto
    have "P' = (P ++ fresh_preds cur (c # new))(t \<mapsto> cur)"
      using n(3) by (auto simp: n(1) fresh_preds_def map_add_def fun_eq_iff)
    with n False show ?thesis by (intro exI[of _ "c # new"]) auto
  qed
qed simp

function path_loop :: "Graph \<Rightarrow> Key \<Rightarrow> (Key \<rightharpoonup> Key) \<times> Key list \<Rightarrow> (Key \<rightharpoonup> Key) option" where
  "path_loop g t (preds, []) = None"
| "path_loop g t (preds, cur # queue) =
     (case node_of g cur of
        None \<Rightarrow> path_loop g t (preds, queue)
      | Some n \<Rightarrow>
          case path_children t cur (n_Children n) (preds, queue) of
            Inl preds' \<Rightarrow> Some preds'
          | Inr st \<Rightarrow> path_loop g t st)"
  by pat_completeness auto
termination
proof (relation "measures [\<lambda>(g, t, preds, queue). card (all_children g - dom preds), \<lambda>(g, t, preds, queue). length queue]")
  fix g t P cur Q n st
  assume n: "node_of g cur = Some n" and r: "path_children t cur (n_Children n) (P, Q) = Inr st"
  obtain P' Q' where st: "st = (P', Q')" by fastforce
  obtain new where new: "P' = P ++ fresh_preds cur new" "Q' = Q @ new" "set new \<subseteq> set (n_Children n)"
    "set new \<inter> dom P = {}"
    using path_children_new[OF r[unfolded st]] by blast
  have sub: "set new \<subseteq> all_children g - dom P"
    using new children_subset[of g cur] n by (auto simp: children_def)
  show "((g, t, st), g, t, P, cur # Q)
      \<in> measures [\<lambda>(g, t, preds, queue). card (all_children g - dom preds), \<lambda>(g, t, preds, queue). length queue]"
  proof (cases "new = []")
    case True
    with new show ?thesis by (simp add: st)
  next
    case False
    then have "card (all_children g - dom P') < card (all_children g - dom P)"
      using new(1) sub by (intro psubset_card_mono) (auto simp: neq_Nil_conv)
    then show ?thesis by (simp add: st)
  qed
qed auto

text \<open>
  The walk back along the predecessors: the outer option is termination (a cyclic map without
  a sentinel would spin), the empty list is the nil result for a broken chain.
\<close>

partial_function (option) back_walk :: "(Key \<rightharpoonup> Key) \<Rightarrow> Key \<Rightarrow> Key list \<Rightarrow> Key list option" where
  "back_walk preds cur acc =
     (case preds cur of
        None \<Rightarrow> Some []
      | Some p \<Rightarrow> if p = cur then Some (acc @ [cur]) else back_walk preds p (acc @ [cur]))"

definition PathFromRoot :: "Graph \<Rightarrow> Key \<Rightarrow> Key list option" where
  "PathFromRoot g target =
     (if node_of g target = None then Some []
      else if g_Roots g = [] then Some []
      else if target \<in> set (g_Roots g) then Some [target]
      else
        case path_loop g target (\<lambda>r. if r \<in> set (g_Roots g) then Some r else None, dedup (g_Roots g)) of
          None \<Rightarrow> Some []
        | Some preds \<Rightarrow> map_option rev (back_walk preds target []))"

text \<open>A chain of predecessors: the path from \<open>v\<close> back to a root.\<close>

inductive pchain :: "Graph \<Rightarrow> (Key \<rightharpoonup> Key) \<Rightarrow> Key \<Rightarrow> Key list \<Rightarrow> bool" for g P where
  pc_root: "P r = Some r \<Longrightarrow> r \<in> set (g_Roots g) \<Longrightarrow> pchain g P r [r]"
| pc_step: "P v = Some u \<Longrightarrow> u \<noteq> v \<Longrightarrow> v \<in> set (children g u) \<Longrightarrow> pchain g P u p \<Longrightarrow> pchain g P v (v # p)"

lemma pchain_mono:
  "pchain g P v p \<Longrightarrow> (\<And>x. x \<in> dom P \<Longrightarrow> P' x = P x) \<Longrightarrow> pchain g P' v p"
proof (induction rule: pchain.induct)
  case (pc_step v u p)
  have "P' v = Some u" using pc_step(1) pc_step(6)[of v] by (simp add: domI)
  with pc_step show ?case by (blast intro: pchain.pc_step)
next
  case (pc_root r)
  then have "P' r = Some r" by (simp add: domI)
  with pc_root show ?case by (blast intro: pchain.pc_root)
qed

lemma back_walk_chain: "pchain g P v p \<Longrightarrow> back_walk P v acc = Some (acc @ p)"
proof (induction arbitrary: acc rule: pchain.induct)
  case (pc_root r)
  then show ?case by (subst back_walk.simps) simp
next
  case (pc_step v u p)
  then show ?case by (subst back_walk.simps) simp
qed

text \<open>A path of the graph, from a root to its last key.\<close>

fun edges_ok :: "Graph \<Rightarrow> Key list \<Rightarrow> bool" where
  "edges_ok g (u # v # p) \<longleftrightarrow> v \<in> set (children g u) \<and> edges_ok g (v # p)"
| "edges_ok g p \<longleftrightarrow> True"

lemma edges_ok_snoc: "edges_ok g (p @ [u]) \<Longrightarrow> v \<in> set (children g u) \<Longrightarrow> edges_ok g (p @ [u, v])"
proof (induction p)
  case (Cons a p)
  then show ?case by (cases p) auto
qed simp

definition root_path :: "Graph \<Rightarrow> Key \<Rightarrow> Key list \<Rightarrow> bool" where
  "root_path g t p \<longleftrightarrow> p \<noteq> [] \<and> hd p \<in> set (g_Roots g) \<and> last p = t \<and> edges_ok g p"

lemma pchain_root_path: "pchain g P v p \<Longrightarrow> root_path g v (rev p)"
proof (induction rule: pchain.induct)
  case (pc_step v u p)
  then have "rev p \<noteq> []" "last (rev p) = u" by (simp_all add: root_path_def)
  then obtain q where q: "rev p = q @ [u]" by (metis append_butlast_last_id)
  have "hd (q @ [u, v]) = hd (rev p)" unfolding q by (cases q) simp_all
  then show ?case
    using pc_step edges_ok_snoc[of g q u v] unfolding root_path_def rev.simps q by simp
qed (simp add: root_path_def)

definition chains_inv :: "Graph \<Rightarrow> (Key \<rightharpoonup> Key) \<Rightarrow> (Key \<times> nat) list \<Rightarrow> bool" where
  "chains_inv g P Q \<longleftrightarrow> (\<forall>(x, e)\<in>set Q. \<exists>p. pchain g P x p \<and> length p = Suc e)"

lemma pchain_step_new:
  assumes "pchain g P u p" and "v \<notin> dom P" and "v \<in> set (children g u)"
    and "P' v = Some u" and "\<And>x. x \<in> dom P \<Longrightarrow> P' x = P x"
  shows "pchain g P' v (v # p)"
proof (rule pchain.pc_step)
  have "u \<in> dom P" using assms(1) by (cases rule: pchain.cases) auto
  with assms(2) show "u \<noteq> v" by auto
  show "pchain g P' u p" by (rule pchain_mono[OF assms(1,5)])
qed (use assms in auto)

lemma path_loop_correct:
  "(\<And>x. set (children g x) \<subseteq> node_keys g) \<Longrightarrow> bfs_inv g t d (dom P) Q \<Longrightarrow> head_level d Q \<Longrightarrow>
   fst ` set Q \<subseteq> node_keys g \<Longrightarrow> Qk = map fst Q \<Longrightarrow> chains_inv g P Q \<Longrightarrow>
   case path_loop g t (P, Qk) of
     None \<Rightarrow> least_depth g t = - 1
   | Some P' \<Rightarrow> \<exists>p. pchain g P' t p \<and> int (length p) = least_depth g t + 1"
proof (induction g t "(P, Qk)" arbitrary: P Qk Q d rule: path_loop.induct)
  case (1 g t P)
  then show ?case using bfs_exhausted[of g t d "dom P"] by simp
next
  case (2 g t P x qk)
  note cl = 2(3) and inv = 2(4) and hd = 2(5) and dom = 2(6) and Qk = 2(7) and ch_inv = 2(8)
  from Qk hd obtain q where Q: "Q = (x, d) # q" "qk = map fst q"
    by (cases Q) (auto simp: head_level_def)
  from dom Q(1) obtain n where n: "node_of g x = Some n" by (auto simp: node_keys_def)
  then have ch: "n_Children n = children g x" by (simp add: children_def)
  from ch_inv Q(1) obtain px where px: "pchain g P x px" "length px = Suc d" by (auto simp: chains_inv_def)
  show ?case
  proof (cases "path_children t x (n_Children n) (P, qk)")
    case (Inl P')
    obtain new where P': "P' = (P ++ fresh_preds x new)(t \<mapsto> x)" "set new \<inter> dom P = {}"
      "t \<in> set (children g x)" "t \<notin> dom P"
      using path_children_found[OF Inl] ch by auto
    have "P' y = P y" if "y \<in> dom P" for y
      using that P'(2,4) by (auto simp: P'(1) map_add_def fresh_preds_def)
    then have "pchain g P' t (t # px)"
      using P' by (intro pchain_step_new[OF px(1)]) auto
    moreover have "least_depth g t = int d + 1"
      using bfs_found[OF inv[unfolded Q(1)] P'(3)] .
    ultimately have "\<exists>p. pchain g P' t p \<and> int (length p) = least_depth g t + 1"
      using px(2) by (intro exI[of _ "t # px"]) simp
    then show ?thesis by (simp add: n Inl)
  next
    case (Inr st)
    obtain P' Q' where st: "st = (P', Q')" by fastforce
    obtain new where new: "P' = P ++ fresh_preds x new" "Q' = qk @ new" "set new \<subseteq> set (children g x)"
      "set new \<inter> dom P = {}" "set (children g x) \<subseteq> dom P'" "t \<notin> set new"
      using path_children_new[OF Inr[unfolded st]] ch by auto
    let ?Q = "q @ map (\<lambda>c. (c, Suc d)) new"
    have domP: "dom P' = dom P \<union> set new" by (auto simp: new(1))
    have same: "P' y = P y" if "y \<in> dom P" for y
      using that new(4) by (auto simp: new(1) map_add_def fresh_preds_def)
    have "bfs_inv g t d (dom P') ?Q"
      by (rule bfs_inv_step[OF inv[unfolded Q(1)] domP refl new(3,5,6)])
    then obtain d' where d': "bfs_inv g t d' (dom P') ?Q" "head_level d' ?Q" by (rule bfs_relevel)
    have "chains_inv g P' ?Q"
    proof -
      have "\<exists>p. pchain g P' y p \<and> length p = Suc e" if "(y, e) \<in> set q" for y e
        using ch_inv Q(1) that pchain_mono[OF _ same] unfolding chains_inv_def by fastforce
      moreover have "pchain g P' c (c # px)" if "c \<in> set new" for c
      proof (rule pchain_step_new[OF px(1) _ _ _ same])
        show "c \<notin> dom P" "c \<in> set (children g x)" using that new(3,4) by blast+
        show "P' c = Some x" using that by (simp add: new(1) map_add_def fresh_preds_def)
      qed
      ultimately show ?thesis using px(2) by (fastforce simp: chains_inv_def)
    qed
    moreover have "fst ` set ?Q \<subseteq> node_keys g"
      using dom Q(1) new(3) cl[of x] by (auto simp: image_Un image_image)
    moreover have "Q' = map fst ?Q" by (simp add: new(2) Q(2) o_def)
    ultimately show ?thesis
      using 2(2)[OF n Inr[unfolded st] cl d'] by (simp add: n Inr st)
  qed
qed

lemma PathFromRoot_cases:
  assumes ok: "graph_ok g"
  obtains (unreachable) "PathFromRoot g t = Some []" "least_depth g t = - 1"
  | (path) p where "PathFromRoot g t = Some p" "root_path g t p" "int (length p) = least_depth g t + 1"
proof -
  have D: "Depth g t = Some (least_depth g t)" by (rule Depth_least[OF ok])
  show thesis
  proof (cases "node_of g t = None \<or> g_Roots g = [] \<or> t \<in> set (g_Roots g)")
    case True
    with D that show ?thesis
      by (auto simp: PathFromRoot_def Depth_def root_path_def split: if_splits)
  next
    case False
    let ?P = "\<lambda>r. if r \<in> set (g_Roots g) then Some r else None"
    let ?Q = "map (\<lambda>r. (r, 0)) (g_Roots g)"
    have domP: "dom ?P = set (g_Roots g)" by (auto simp: dom_def)
    have "case path_loop g t (?P, g_Roots g) of None \<Rightarrow> least_depth g t = - 1
        | Some P' \<Rightarrow> \<exists>p. pchain g P' t p \<and> int (length p) = least_depth g t + 1"
    proof (rule path_loop_correct[OF graph_okD(4)[OF ok]])
      show "bfs_inv g t 0 (dom ?P) ?Q" unfolding domP using False by (intro bfs_inv_start) simp
      show "head_level 0 ?Q" using False by (cases "g_Roots g") (simp_all add: head_level_def)
      show "fst ` set ?Q \<subseteq> node_keys g" using graph_okD(3)[OF ok] by auto
      show "g_Roots g = map fst ?Q" by (simp add: o_def)
      show "chains_inv g ?P ?Q"
        by (auto simp: chains_inv_def intro!: exI[of _ "[_]"] pchain.pc_root)
    qed
    moreover have "dedup (g_Roots g) = g_Roots g" using graph_okD(2)[OF ok] by simp
    ultimately have l: "case path_loop g t (?P, dedup (g_Roots g)) of None \<Rightarrow> least_depth g t = - 1
        | Some P' \<Rightarrow> \<exists>p. pchain g P' t p \<and> int (length p) = least_depth g t + 1" by metis
    show ?thesis
    proof (cases "path_loop g t (?P, dedup (g_Roots g))")
      case None
      with l False that(1) show ?thesis by (simp add: PathFromRoot_def)
    next
      case (Some P')
      with l obtain p where p: "pchain g P' t p" "int (length p) = least_depth g t + 1" by auto
      have "PathFromRoot g t = Some (rev p)"
        using False Some back_walk_chain[OF p(1), of "[]"] by (auto simp: PathFromRoot_def)
      with that(2) pchain_root_path[OF p(1)] p(2) show ?thesis by simp
    qed
  qed
qed

section \<open>Descendants\<close>

text \<open>
  The recursive \<open>walk\<close> as a loop: the list holds the children still to be looked at by the
  pending calls, innermost first, which is the order in which the recursion reaches them.
\<close>

function walk :: "Graph \<Rightarrow> Key list \<Rightarrow> Key set \<times> Key list \<Rightarrow> Key set \<times> Key list" where
  "walk g [] st = st"
| "walk g (c # cs) (visited, out) =
     (if c \<in> visited \<or> c \<notin> all_children g then walk g cs (visited, out)
      else walk g (children g c @ cs) (insert c visited, out @ [c]))"
  by pat_completeness auto
termination
proof (relation "measures [\<lambda>(g, cs, visited, out). card (all_children g - visited), \<lambda>(g, cs, visited, out). length cs]")
  fix g c cs V and out :: "Key list"
  assume "\<not> (c \<in> V \<or> c \<notin> all_children g)"
  then have "card (all_children g - insert c V) < card (all_children g - V)"
    by (intro psubset_card_mono) auto
  then show "((g, children g c @ cs, insert c V, out @ [c]), g, c # cs, V, out)
      \<in> measures [\<lambda>(g, cs, visited, out). card (all_children g - visited), \<lambda>(g, cs, visited, out). length cs]"
    by simp
qed auto

definition Descendants :: "Graph \<Rightarrow> Key \<Rightarrow> Key list" where
  "Descendants g k = (if node_of g k = None then [] else sort (snd (walk g (children g k) ({}, []))))"

definition child_rel :: "Graph \<Rightarrow> (Key \<times> Key) set" where
  "child_rel g = {(u, v). v \<in> set (children g u)}"

lemma child_rel_children: "child_rel g `` {u} = set (children g u)"
  by (auto simp: child_rel_def)

lemma walk_inv:
  assumes "set cs \<subseteq> all_children g" and "distinct out" and "V = set out"
  shows "distinct (snd (walk g cs (V, out))) \<and>
    set (snd (walk g cs (V, out))) \<subseteq> V \<union> (child_rel g)\<^sup>* `` set cs \<and>
    V \<union> set cs \<subseteq> set (snd (walk g cs (V, out))) \<and>
    (\<forall>x\<in>set (snd (walk g cs (V, out))) - V. set (children g x) \<subseteq> set (snd (walk g cs (V, out))))"
  using assms
proof (induction g cs "(V, out)" arbitrary: V out rule: walk.induct)
  case (2 g c cs V out)
  show ?case
  proof (cases "c \<in> V")
    case True
    with 2(1) 2(3-) show ?thesis by auto
  next
    case False
    let ?cs = "children g c @ cs" and ?V = "insert c V" and ?out = "out @ [c]"
    let ?r = "set (snd (walk g ?cs (?V, ?out)))"
    have c: "c \<in> all_children g" using 2(3) by simp
    have IH: "distinct (snd (walk g ?cs (?V, ?out)))" "?r \<subseteq> ?V \<union> (child_rel g)\<^sup>* `` set ?cs"
      "?V \<union> set ?cs \<subseteq> ?r" "\<forall>x\<in>?r - ?V. set (children g x) \<subseteq> ?r"
      using 2(2) False c 2(3-) children_subset[of g c] by auto
    have split: "(child_rel g)\<^sup>* `` set ?cs = (child_rel g)\<^sup>* `` set (children g c) \<union> (child_rel g)\<^sup>* `` set cs"
      "(child_rel g)\<^sup>* `` set (c # cs) = (child_rel g)\<^sup>* `` {c} \<union> (child_rel g)\<^sup>* `` set cs"
      by auto
    have union: "A \<subseteq> V \<union> (Z \<union> Y)" if "A \<subseteq> insert c V \<union> (X \<union> Y)" "X \<subseteq> Z" "c \<in> Z" for A X Y Z
      using that by blast
    have "(child_rel g)\<^sup>* `` set (children g c) \<subseteq> (child_rel g)\<^sup>* `` {c}"
      by (auto simp: child_rel_def intro: converse_rtrancl_into_rtrancl)
    then have "?r \<subseteq> V \<union> (child_rel g)\<^sup>* `` set (c # cs)"
      unfolding split(2) by (rule union[OF IH(2)[unfolded split(1)]]) simp
    moreover have "\<forall>x\<in>?r - V. set (children g x) \<subseteq> ?r" using IH(3,4) by auto
    moreover have "V \<union> set (c # cs) \<subseteq> ?r" using IH(3) by auto
    moreover have step: "walk g (c # cs) (V, out) = walk g ?cs (?V, ?out)" using False c by simp
    ultimately show ?thesis using IH(1) unfolding step by blast
  qed
qed auto

lemma closed_rtrancl:
  assumes "x \<in> S" and "\<And>y. y \<in> S \<Longrightarrow> set (children g y) \<subseteq> S" and "(x, z) \<in> (child_rel g)\<^sup>*"
  shows "z \<in> S"
  using assms(3,1)
proof (induction rule: rtrancl_induct)
  case (step y z)
  then show ?case using assms(2)[of y] by (auto simp: child_rel_def)
qed

lemma Descendants_reachable:
  assumes "node_of g k \<noteq> None"
  shows "set (Descendants g k) = (child_rel g)\<^sup>+ `` {k} \<and> sorted (Descendants g k) \<and> distinct (Descendants g k)"
proof -
  let ?r = "snd (walk g (children g k) ({}, []))"
  note inv = walk_inv[OF children_subset[of g k], of "[]" "{}", simplified]
  have "(child_rel g)\<^sup>* `` set (children g k) = (child_rel g)\<^sup>+ `` {k}"
    unfolding child_rel_children[symmetric] by (auto simp: trancl_unfold_left)
  moreover have "(child_rel g)\<^sup>* `` set (children g k) \<subseteq> set ?r"
    using inv closed_rtrancl[of _ "set ?r" g] by blast
  ultimately have "set ?r = (child_rel g)\<^sup>+ `` {k}" using inv by blast
  then show ?thesis using assms inv by (auto simp: Descendants_def)
qed

section \<open>Walk\<close>

text \<open>The queue loop; the sorted children that were not seen join the queue.\<close>

function walk_queue :: "Graph \<Rightarrow> Key set \<times> Key list \<Rightarrow> Key list \<Rightarrow> Key set \<times> Key list" where
  "walk_queue g (visited, []) acc = (visited, acc)"
| "walk_queue g (visited, cur # queue) acc =
     (case node_of g cur of
        None \<Rightarrow> walk_queue g (visited, queue) acc
      | Some n \<Rightarrow>
          let new = filter (\<lambda>c. c \<notin> visited) (dedup (sort (n_Children n)))
          in walk_queue g (visited \<union> set new, queue @ new) (acc @ [cur]))"
  by pat_completeness auto
termination
proof (relation "measures [\<lambda>(g, (visited, queue), acc). card (all_children g - visited), \<lambda>(g, (visited, queue), acc). length queue]")
  fix g V cur Q and acc :: "Key list" and n new
  assume n: "node_of g cur = Some n" and new: "new = filter (\<lambda>c. c \<notin> V) (dedup (sort (n_Children n)))"
  have sub: "set new \<subseteq> all_children g - V" using children_subset[of g cur] n new by (auto simp: children_def)
  show "((g, (V \<union> set new, Q @ new), acc @ [cur]), g, (V, cur # Q), acc)
      \<in> measures [\<lambda>(g, (visited, queue), acc). card (all_children g - visited), \<lambda>(g, (visited, queue), acc). length queue]"
  proof (cases "new = []")
    case False
    then have "card (all_children g - (V \<union> set new)) < card (all_children g - V)"
      using sub by (intro psubset_card_mono) (auto simp: neq_Nil_conv)
    then show ?thesis by simp
  qed simp
qed auto

definition Walk :: "Graph \<Rightarrow> Key list" where
  "Walk g =
     (let roots = dedup (g_Roots g);
          (visited, acc) = walk_queue g (set roots, roots) [];
          orphans = sort (filter (\<lambda>k. k \<notin> visited) (map fst (g_Nodes g)))
      in acc @ orphans)"

lemma walk_queue_inv:
  assumes "\<And>x. set (children g x) \<subseteq> node_keys g"
  shows "distinct (acc @ Q) \<Longrightarrow> V = set (acc @ Q) \<Longrightarrow> set Q \<subseteq> node_keys g \<Longrightarrow>
    distinct (snd (walk_queue g (V, Q) acc)) \<and>
    fst (walk_queue g (V, Q) acc) = set (snd (walk_queue g (V, Q) acc)) \<and>
    (\<exists>rest. snd (walk_queue g (V, Q) acc) = acc @ Q @ rest \<and> set rest \<subseteq> node_keys g)"
  using assms
proof (induction g "(V, Q)" acc arbitrary: V Q rule: walk_queue.induct)
  case (2 g V cur q acc)
  obtain n where n: "node_of g cur = Some n" using 2(5) by (auto simp: node_keys_def)
  let ?new = "filter (\<lambda>c. c \<notin> V) (dedup (sort (n_Children n)))"
  let ?V = "V \<union> set ?new" and ?Q = "q @ ?new"
  have "set ?new \<subseteq> node_keys g" using 2(6)[of cur] n by (auto simp: children_def)
  then have IH: "distinct (snd (walk_queue g (?V, ?Q) (acc @ [cur]))) \<and>
      fst (walk_queue g (?V, ?Q) (acc @ [cur])) = set (snd (walk_queue g (?V, ?Q) (acc @ [cur]))) \<and>
      (\<exists>rest. snd (walk_queue g (?V, ?Q) (acc @ [cur])) = (acc @ [cur]) @ ?Q @ rest \<and> set rest \<subseteq> node_keys g)"
    using 2(3,4,5) by (intro 2(2)[OF n refl _ _ _ 2(6)]) auto
  have step: "walk_queue g (V, cur # q) acc = walk_queue g (?V, ?Q) (acc @ [cur])" using n by (simp add: Let_def)
  from IH obtain rest where "snd (walk_queue g (?V, ?Q) (acc @ [cur])) = acc @ (cur # q) @ (?new @ rest)"
    "set rest \<subseteq> node_keys g" by auto
  moreover have "set (?new @ rest) \<subseteq> node_keys g" using \<open>set ?new \<subseteq> node_keys g\<close> calculation(2) by simp
  ultimately show ?case using IH unfolding step by blast
qed auto

lemma gomap_key_set: "set (map fst (g_Nodes g)) = node_keys g"
  unfolding node_keys_def node_of_def dom_def[symmetric] dom_map_of_conv_image_fst by simp

lemma Walk_visits_all:
  assumes ok: "graph_ok g"
  shows "distinct (Walk g) \<and> set (Walk g) = node_keys g \<and> (\<exists>rest. Walk g = g_Roots g @ rest)"
proof -
  obtain V acc where w: "walk_queue g (set (g_Roots g), g_Roots g) [] = (V, acc)" by fastforce
  from walk_queue_inv[OF graph_okD(4)[OF ok], of "[]" "g_Roots g" "set (g_Roots g)"] graph_okD(2,3)[OF ok] w
  obtain rest where inv: "distinct acc" "V = set acc" "acc = g_Roots g @ rest" "set rest \<subseteq> node_keys g" by auto
  let ?o = "filter (\<lambda>k. k \<notin> V) (map fst (g_Nodes g))"
  have "Walk g = acc @ sort ?o" using graph_okD(2)[OF ok] w by (simp add: Walk_def)
  moreover have "distinct ?o" using graph_okD(1)[OF ok] by (simp add: gomap_ok_def)
  moreover have "set acc \<union> set ?o = node_keys g"
    using inv graph_okD(3)[OF ok] gomap_key_set[of g] by auto
  moreover have "set acc \<inter> set ?o = {}" using inv(2) by auto
  ultimately show ?thesis
    using inv(1,3) by (simp add: Un_assoc) blast
qed

section \<open>The operations keep a graph well formed\<close>

lemma node_of_set_node [simp]: "node_of (set_node k n g) = (node_of g)(k \<mapsto> n)"
  by (auto simp: node_of_def set_node_def update_conv')

lemma set_node_simps [simp]:
  "g_Roots (set_node k n g) = g_Roots g"
  "g_edgeAttrs (set_node k n g) = g_edgeAttrs g"
  "gomap_ok (g_Nodes (set_node k n g)) = gomap_ok (g_Nodes g)"
proof -
  show "gomap_ok (g_Nodes (set_node k n g)) = gomap_ok (g_Nodes g)"
    using distinct_update[of "g_Nodes g" k n]
    by (auto simp: set_node_def gomap_ok_def update_keys split: if_splits)
qed (simp_all add: set_node_def)

lemma node_of_roots_update [simp]: "node_of (g\<lparr>g_Roots := r\<rparr>) = node_of g"
  by (simp add: node_of_def fun_eq_iff)

lemma containsKey_iff [simp]: "containsKey ks k \<longleftrightarrow> k \<in> set ks"
  by (auto simp: containsKey_def list_ex_iff)

lemma append_simps [simp]:
  "n_Key (append_child c n) = n_Key n" "n_Direct (append_child c n) = n_Direct n"
  "n_Parents (append_child c n) = n_Parents n" "set (n_Children (append_child c n)) = insert c (set (n_Children n))"
  "distinct (n_Children (append_child c n)) = distinct (n_Children n)"
  "n_Key (append_parent p n) = n_Key n" "n_Direct (append_parent p n) = n_Direct n"
  "n_Children (append_parent p n) = n_Children n" "set (n_Parents (append_parent p n)) = insert p (set (n_Parents n))"
  "distinct (n_Parents (append_parent p n)) = distinct (n_Parents n)"
  by (auto simp: append_child_def append_parent_def)

lemma graph_ok_NewGraph [simp]: "graph_ok NewGraph"
  by (simp add: graph_ok_def NewGraph_def gomap_ok_def node_of_def children_def parents_def)

lemma children_parents_map [simp]:
  "children (set_node k n g) x = (if x = k then n_Children n else children g x)"
  "parents (set_node k n g) x = (if x = k then n_Parents n else parents g x)"
  "node_keys (set_node k n g) = insert k (node_keys g)"
  by (auto simp: children_def parents_def node_keys_def)

lemma children_parents_roots [simp]:
  "children (g\<lparr>g_Roots := r\<rparr>) = children g" "parents (g\<lparr>g_Roots := r\<rparr>) = parents g"
  "node_keys (g\<lparr>g_Roots := r\<rparr>) = node_keys g"
  by (auto simp: children_def parents_def node_keys_def fun_eq_iff)

lemma AddNode_children [simp]:
  "children (AddNode k d p g) = children g" "parents (AddNode k d p g) = parents g"
  "node_keys (AddNode k d p g) = insert k (node_keys g)" "g_Roots (AddNode k d p g) = g_Roots g"
  by (auto simp: AddNode_def fun_eq_iff children_def parents_def split: option.splits)

lemma AddNode_ok: "graph_ok g \<Longrightarrow> graph_ok (AddNode k d p g)"
  unfolding graph_ok_def AddNode_children
  by (auto simp: AddNode_def node_keys_def split: option.splits if_splits)

lemma AddRoot_children [simp]:
  "children (AddRoot k g) = children g" "parents (AddRoot k g) = parents g" "node_keys (AddRoot k g) = node_keys g"
  by (auto simp: AddRoot_def fun_eq_iff children_def parents_def node_keys_def split: option.splits)

lemma AddRoot_ok: "graph_ok g \<Longrightarrow> graph_ok (AddRoot k g)"
  unfolding graph_ok_def AddRoot_children
  by (auto simp: AddRoot_def node_keys_def split: option.splits if_splits)

text \<open>What an edge between two nodes does to the adjacency lists and the nodes.\<close>

lemma AddEdge_simps:
  assumes "p \<in> node_keys g" and "c \<in> node_keys g"
  shows "set (children (AddEdge p c g) x) = set (children g x) \<union> (if x = p then {c} else {})"
    and "set (parents (AddEdge p c g) x) = set (parents g x) \<union> (if x = c then {p} else {})"
    and "node_keys (AddEdge p c g) = node_keys g"
    and "g_Roots (AddEdge p c g) = g_Roots g"
proof -
  obtain m n where nodes: "node_of g p = Some m" "node_of g c = Some n"
    using assms by (auto simp: node_keys_def)
  have sets: "children g p = n_Children m" "parents g p = n_Parents m"
    "children g c = n_Children n" "parents g c = n_Parents n"
    using nodes by (simp_all add: children_def parents_def)
  show "set (children (AddEdge p c g) x) = set (children g x) \<union> (if x = p then {c} else {})"
    and "set (parents (AddEdge p c g) x) = set (parents g x) \<union> (if x = c then {p} else {})"
    and "node_keys (AddEdge p c g) = node_keys g" and "g_Roots (AddEdge p c g) = g_Roots g"
    using nodes assms sets by (simp_all add: AddEdge_def Let_def) (auto simp: node_keys_def)
qed

lemma AddEdge_absent: "p \<notin> node_keys g \<or> c \<notin> node_keys g \<Longrightarrow> AddEdge p c g = g"
  by (auto simp: AddEdge_def node_keys_def split: option.splits)

lemma AddEdge_nodes:
  assumes "node_of (AddEdge p c g) x = Some n"
  shows "\<exists>m. node_of g x = Some m \<and> n_Key n = n_Key m \<and> n_Direct n = n_Direct m \<and>
    (distinct (n_Children m) \<longrightarrow> distinct (n_Children n)) \<and> (distinct (n_Parents m) \<longrightarrow> distinct (n_Parents n))"
  using assms by (auto simp: AddEdge_def Let_def split: option.splits if_splits)

lemma AddEdge_map_ok [simp]: "gomap_ok (g_Nodes (AddEdge p c g)) = gomap_ok (g_Nodes g)"
  by (auto simp: AddEdge_def Let_def split: option.splits)

lemma AddEdge_ok:
  assumes ok: "graph_ok g"
  shows "graph_ok (AddEdge p c g)"
proof (cases "p \<in> node_keys g \<and> c \<in> node_keys g")
  case True
  then have p: "p \<in> node_keys g" and c: "c \<in> node_keys g" by auto
  show ?thesis
  proof -
    have "n_Key n = k \<and> distinct (n_Children n) \<and> distinct (n_Parents n) \<and> (k \<in> set (g_Roots g) \<longrightarrow> n_Direct n)"
      if "node_of (AddEdge p c g) k = Some n" for k n
      using AddEdge_nodes[OF that] ok by (auto simp: graph_ok_def)
    then show ?thesis
      using ok p c by (auto simp: graph_ok_def AddEdge_simps[OF p c])
  qed
qed (use ok AddEdge_absent in auto)

section \<open>Validation\<close>

lemma missing_None [simp]: "missing g ks = None \<longleftrightarrow> set ks \<subseteq> node_keys g"
  by (auto simp: missing_def find_None_iff node_keys_def)

lemma missing_Some: "missing g ks = Some k \<Longrightarrow> \<not> set ks \<subseteq> node_keys g"
  using missing_None[of g ks] by simp

lemma validate_node_None:
  "validate_node g (k, n) = None \<longleftrightarrow> set (n_Children n) \<subseteq> node_keys g \<and> set (n_Parents n) \<subseteq> node_keys g"
  unfolding validate_node_def by (auto split: option.splits dest: missing_Some)

definition structurally_closed :: "Graph \<Rightarrow> bool" where
  "structurally_closed g \<longleftrightarrow> set (g_Roots g) \<subseteq> node_keys g \<and>
     (\<forall>n\<in>snd ` set (g_Nodes g). set (n_Children n) \<subseteq> node_keys g \<and> set (n_Parents n) \<subseteq> node_keys g)"

text \<open>
  \<open>Validate\<close> reports no error exactly on the graphs whose roots and whose edges, in both
  directions, all lead to nodes of the graph.
\<close>

theorem Validate_iff: "(Validate g = None) = structurally_closed g"
proof -
  let ?es = "map (validate_node g) (g_Nodes g)"
  have f: "find (\<lambda>e. e \<noteq> None) ?es = None \<longleftrightarrow> (\<forall>n\<in>snd ` set (g_Nodes g). set (n_Children n) \<subseteq> node_keys g \<and> set (n_Parents n) \<subseteq> node_keys g)"
    by (force simp: find_None_iff validate_node_None simp flip: not_None_eq)
  have "e \<noteq> None" if "find (\<lambda>e. e \<noteq> None) ?es = Some e" for e
    using that by (auto simp: find_Some_iff)
  then have "Validate g = None \<longleftrightarrow> missing g (g_Roots g) = None \<and> find (\<lambda>e. e \<noteq> None) ?es = None"
    by (auto simp: Validate_def simp del: missing_None split: option.splits)
  then show ?thesis unfolding f by (simp add: structurally_closed_def)
qed

lemma graph_ok_closed: "graph_ok g \<Longrightarrow> structurally_closed g"
proof -
  assume ok: "graph_ok g"
  have "set (n_Children n) \<subseteq> node_keys g \<and> set (n_Parents n) \<subseteq> node_keys g" if "(k, n) \<in> set (g_Nodes g)" for k n
  proof -
    have "node_of g k = Some n" using ok that by (simp add: graph_ok_def gomap_ok_def node_of_def)
    then have "children g k = n_Children n" "parents g k = n_Parents n" by (simp_all add: children_def parents_def)
    with ok show ?thesis unfolding graph_ok_def by metis
  qed
  moreover have "set (g_Roots g) \<subseteq> node_keys g" using ok by (simp add: graph_ok_def)
  ultimately show ?thesis unfolding structurally_closed_def by (metis (no_types, lifting) image_iff prod.collapse)
qed

section \<open>Edge attributes\<close>

text \<open>The values of an attribute are kept as one string, joined with commas.\<close>

definition appendEdgeAttr :: "Key \<Rightarrow> Key \<Rightarrow> string \<Rightarrow> string \<Rightarrow> Graph \<Rightarrow> Graph" where
  "appendEdgeAttr parent child attr val g =
     (if attr = [] \<or> val = [] \<or> node_of g parent = None \<or> node_of g child = None then g
      else
        let attrs = g_edgeAttrs g (parent, child);
            cur = get_or attrs attr [];
            put = (\<lambda>v. g\<lparr>g_edgeAttrs := (g_edgeAttrs g)((parent, child) := attrs(attr \<mapsto> v))\<rparr>)
        in if cur = [] then put val
           else if list_ex (\<lambda>e. e = val) (split_byte (CHR '','') cur) then g
           else put (cur @ '','' @ val))"

definition edgeAttrList :: "Key \<Rightarrow> Key \<Rightarrow> string \<Rightarrow> Graph \<Rightarrow> string list" where
  "edgeAttrList parent child attr g =
     (let raw = get_or (g_edgeAttrs g (parent, child)) attr []
      in if raw = [] then [] else split_byte (CHR '','') raw)"

definition AddEdgeAttr :: "Key \<Rightarrow> Key \<Rightarrow> string \<Rightarrow> string \<Rightarrow> Graph \<Rightarrow> Graph" where
  "AddEdgeAttr = appendEdgeAttr"

definition EdgeAttr :: "Key \<Rightarrow> Key \<Rightarrow> string \<Rightarrow> Graph \<Rightarrow> string list" where
  "EdgeAttr = edgeAttrList"

definition AddEdgeConfig :: "Key \<Rightarrow> Key \<Rightarrow> string \<Rightarrow> Graph \<Rightarrow> Graph" where
  "AddEdgeConfig parent child cfg = appendEdgeAttr parent child ''configs'' cfg"

definition EdgeConfigs :: "Key \<Rightarrow> Key \<Rightarrow> Graph \<Rightarrow> string list" where
  "EdgeConfigs parent child = edgeAttrList parent child ''configs''"

lemma appendEdgeAttr_nodes [simp]:
  "g_Roots (appendEdgeAttr p c a v g) = g_Roots g" "g_Nodes (appendEdgeAttr p c a v g) = g_Nodes g"
  by (simp_all add: appendEdgeAttr_def Let_def)

lemma appendEdgeAttr_ok: "graph_ok (appendEdgeAttr p c a v g) = graph_ok g"
  by (simp add: graph_ok_def children_def parents_def node_keys_def node_of_def)

lemma get_or_upd [simp]: "get_or (m(k \<mapsto> v)) k' z = (if k' = k then v else get_or m k' z)"
  by (simp add: get_or_def)

lemma edgeAttrList_append:
  assumes "node_of g p \<noteq> None" and "node_of g c \<noteq> None" and "a \<noteq> []" and "v \<noteq> []" and "CHR '','' \<notin> set v"
  shows "edgeAttrList p' c' a' (appendEdgeAttr p c a v g) =
    (if (p', c', a') = (p, c, a) \<and> v \<notin> set (edgeAttrList p c a g) then edgeAttrList p c a g @ [v]
     else edgeAttrList p' c' a' g)"
proof -
  let ?cur = "get_or (g_edgeAttrs g (p, c)) a []"
  have "get_or (g_edgeAttrs (appendEdgeAttr p c a v g) (p', c')) a' [] =
      (if (p', c', a') = (p, c, a) then
         if ?cur = [] then v
         else if v \<in> set (split_byte (CHR '','') ?cur) then ?cur else ?cur @ (CHR '','' # v)
       else get_or (g_edgeAttrs g (p', c')) a' [])"
    using assms(1-4) by (simp add: appendEdgeAttr_def Let_def list_ex_iff del: not_None_eq)
  moreover have "split_byte (CHR '','') v = [v]" by (rule split_byte_id[OF assms(5)])
  ultimately show ?thesis
    using assms(4) by (simp add: edgeAttrList_def Let_def split_byte_append) blast
qed

text \<open>
  The value list of an edge attribute behaves as an ordered set: adding a value that has no
  comma to an edge between known nodes appends it unless the list has it already, and leaves
  every other edge and attribute alone; so adding it again changes nothing.
\<close>

theorem EdgeAttr_ordered_set:
  assumes "node_of g p \<noteq> None" and "node_of g c \<noteq> None" and "a \<noteq> []" and "v \<noteq> []" and "CHR '','' \<notin> set v"
  shows "EdgeAttr p' c' a' (AddEdgeAttr p c a v g) =
      (if (p', c', a') = (p, c, a) \<and> v \<notin> set (EdgeAttr p c a g) then EdgeAttr p c a g @ [v]
       else EdgeAttr p' c' a' g) \<and>
    EdgeAttr p' c' a' (AddEdgeAttr p c a v (AddEdgeAttr p c a v g)) = EdgeAttr p' c' a' (AddEdgeAttr p c a v g)"
proof
  note step = edgeAttrList_append[OF assms]
  have n: "node_of (appendEdgeAttr p c a v g) = node_of g" by (simp add: node_of_def)
  note step2 = edgeAttrList_append[of "appendEdgeAttr p c a v g" p c a v, unfolded n, OF assms]
  show "EdgeAttr p' c' a' (AddEdgeAttr p c a v g) =
      (if (p', c', a') = (p, c, a) \<and> v \<notin> set (EdgeAttr p c a g) then EdgeAttr p c a g @ [v]
       else EdgeAttr p' c' a' g)"
    using step by (simp add: EdgeAttr_def AddEdgeAttr_def)
  show "EdgeAttr p' c' a' (AddEdgeAttr p c a v (AddEdgeAttr p c a v g)) = EdgeAttr p' c' a' (AddEdgeAttr p c a v g)"
    unfolding EdgeAttr_def AddEdgeAttr_def step2 by (simp add: step)
qed

section \<open>Building a graph\<close>

text \<open>The calls by which a parser builds a graph, and the graph after a sequence of them.\<close>

datatype GraphCall =
    Call_AddNode Key bool bool
  | Call_AddEdge Key Key
  | Call_AddRoot Key
  | Call_AddEdgeAttr Key Key string string

primrec call :: "GraphCall \<Rightarrow> Graph \<Rightarrow> Graph" where
  "call (Call_AddNode k d p) = AddNode k d p"
| "call (Call_AddEdge p c) = AddEdge p c"
| "call (Call_AddRoot k) = AddRoot k"
| "call (Call_AddEdgeAttr p c a v) = AddEdgeAttr p c a v"

definition build :: "GraphCall list \<Rightarrow> Graph" where
  "build cs = fold call cs NewGraph"

lemma call_ok: "graph_ok g \<Longrightarrow> graph_ok (call c g)"
  by (cases c) (simp_all add: AddNode_ok AddEdge_ok AddRoot_ok AddEdgeAttr_def appendEdgeAttr_ok)

lemma graph_ok_build [simp]: "graph_ok (build cs)"
proof -
  have "graph_ok (fold call cs g)" if "graph_ok g" for g
    using that by (induction cs arbitrary: g) (simp_all add: call_ok)
  then show ?thesis by (simp add: build_def)
qed

text \<open>
  C35: Whatever calls a parser makes, in whatever order, the graph it builds is well formed: node
  keys and roots do not repeat, the adjacency lists have no duplicates and are inverse to each
  other, every edge and root leads to a node, roots are direct; so \<open>Validate\<close> has no error.
\<close>

theorem build_well_formed: "graph_ok (build cs) \<and> Validate (build cs) = None"
  by (simp add: Validate_iff graph_ok_closed)

section \<open>The traversals\<close>

text \<open>A cyclic graph for the concrete instances: \<open>a\<close> is the root, \<open>a \<rightarrow> b \<rightleftharpoons> c\<close>, and \<open>d\<close> is an orphan.\<close>

definition npm :: "string \<Rightarrow> Key" where
  "npm s = Key ''npm'' s ''1''"

definition cyclic :: Graph where
  "cyclic =
     (let a = npm ''a''; b = npm ''b''; c = npm ''c''; d = npm ''d''
      in build [Call_AddNode a False True, Call_AddNode b False True, Call_AddNode c False True,
           Call_AddNode d False True, Call_AddRoot a, Call_AddEdge a b, Call_AddEdge b c, Call_AddEdge c b])"

lemma graph_ok_cyclic [simp]: "graph_ok cyclic"
  by (simp add: cyclic_def Let_def)

text \<open>
  On a well-formed graph \<open>Depth\<close> returns: zero on a root, else the least number of edges of a
  path from a root, and -1 exactly when no path leads to the key (or the key is no node); cycles
  included.
\<close>

theorem Depth_shortest:
  assumes "graph_ok g"
  shows "\<exists>d. Depth g k = Some d \<and> (d = - 1 \<longleftrightarrow> (\<forall>n. \<not> rpath g k n)) \<and>
    (d \<noteq> - 1 \<longrightarrow> d \<ge> 0 \<and> rpath g k (nat d) \<and> (\<forall>n. rpath g k n \<longrightarrow> nat d \<le> n))"
proof (intro exI conjI)
  show "Depth g k = Some (least_depth g k)" by (rule Depth_least[OF assms])
qed (auto simp: least_depth_def intro: LeastI Least_le)

theorem Depth_shortest_witness:
  "\<exists>d. Depth cyclic (npm ''c'') = Some d \<and> (d = - 1 \<longleftrightarrow> (\<forall>n. \<not> rpath cyclic (npm ''c'') n)) \<and>
    (d \<noteq> - 1 \<longrightarrow> d \<ge> 0 \<and> rpath cyclic (npm ''c'') (nat d) \<and> (\<forall>n. rpath cyclic (npm ''c'') n \<longrightarrow> nat d \<le> n))"
  by (rule Depth_shortest) simp

text \<open>
  C33: On a well-formed graph \<open>PathFromRoot\<close> returns (its walk back along the predecessors ends even
  when the graph has cycles): nothing when no root leads to the target, and else a path along
  edges from a root to the target that is as short as any, one longer than \<open>Depth\<close> says.
\<close>

theorem PathFromRoot_shortest:
  assumes "graph_ok g"
  shows "\<exists>p d. PathFromRoot g t = Some p \<and> Depth g t = Some d \<and> int (length p) = d + 1 \<and>
    (if d = - 1 then p = [] else root_path g t p)"
  using assms
proof (cases rule: PathFromRoot_cases[of g t])
  case unreachable
  then show ?thesis using Depth_least[OF assms] by simp
next
  case (path p)
  then have "least_depth g t \<noteq> - 1" by (auto simp: root_path_def)
  then show ?thesis using path Depth_least[OF assms] by simp
qed

theorem PathFromRoot_shortest_witness:
  "\<exists>p d. PathFromRoot cyclic (npm ''c'') = Some p \<and> Depth cyclic (npm ''c'') = Some d \<and> int (length p) = d + 1 \<and>
    (if d = - 1 then p = [] else root_path cyclic (npm ''c'') p)"
  by (rule PathFromRoot_shortest) simp

text \<open>
  \<open>Descendants\<close> of a node lists, sorted and without repetition, exactly the keys that one or
  more edges lead to from it.
\<close>

theorem Descendants_exact:
  assumes "node_of g k \<noteq> None"
  shows "set (Descendants g k) = (child_rel g)\<^sup>+ `` {k} \<and> sorted (Descendants g k) \<and> distinct (Descendants g k)"
  using Descendants_reachable[OF assms] .

theorem Descendants_exact_witness:
  "set (Descendants cyclic (npm ''b'')) = (child_rel cyclic)\<^sup>+ `` {npm ''b''} \<and>
    sorted (Descendants cyclic (npm ''b'')) \<and> distinct (Descendants cyclic (npm ''b''))"
  by (rule Descendants_exact) code_simp

text \<open>A key on a cycle is its own descendant, whatever the comment of the code says.\<close>

lemma Descendants_cycle: "npm ''b'' \<in> set (Descendants cyclic (npm ''b''))"
  by code_simp

text \<open>
  C34: On a well-formed graph \<open>Walk\<close> visits every node exactly once, and the roots first, in the
  order in which they were added.
\<close>

theorem Walk_exactly_once:
  assumes "graph_ok g"
  shows "distinct (Walk g) \<and> set (Walk g) = node_keys g \<and> (\<exists>rest. Walk g = g_Roots g @ rest)"
  using Walk_visits_all[OF assms] .

theorem Walk_exactly_once_witness:
  "distinct (Walk cyclic) \<and> set (Walk cyclic) = node_keys cyclic \<and> (\<exists>rest. Walk cyclic = g_Roots cyclic @ rest)"
  by (rule Walk_exactly_once) simp

theorem EdgeAttr_ordered_set_witness:
  "EdgeAttr (npm ''a'') (npm ''b'') ''scope'' (AddEdgeAttr (npm ''a'') (npm ''b'') ''scope'' ''test'' cyclic) =
      (if (npm ''a'', npm ''b'', ''scope'') = (npm ''a'', npm ''b'', ''scope'') \<and>
          ''test'' \<notin> set (EdgeAttr (npm ''a'') (npm ''b'') ''scope'' cyclic)
       then EdgeAttr (npm ''a'') (npm ''b'') ''scope'' cyclic @ [''test'']
       else EdgeAttr (npm ''a'') (npm ''b'') ''scope'' cyclic) \<and>
    EdgeAttr (npm ''a'') (npm ''b'') ''scope'' (AddEdgeAttr (npm ''a'') (npm ''b'') ''scope'' ''test''
        (AddEdgeAttr (npm ''a'') (npm ''b'') ''scope'' ''test'' cyclic)) =
      EdgeAttr (npm ''a'') (npm ''b'') ''scope'' (AddEdgeAttr (npm ''a'') (npm ''b'') ''scope'' ''test'' cyclic)"
  by (rule EdgeAttr_ordered_set) code_simp+

text \<open>A value with a comma is read back as two, and adding it again changes the list.\<close>

lemma comma_value_not_idempotent:
  "let add = AddEdgeAttr (npm ''a'') (npm ''b'') ''scope'' ''x,y''
   in EdgeAttr (npm ''a'') (npm ''b'') ''scope'' (add cyclic) = [''x'', ''y''] \<and>
      EdgeAttr (npm ''a'') (npm ''b'') ''scope'' (add (add cyclic)) = [''x'', ''y'', ''x'', ''y'']"
  by code_simp

end
