(* ===== verification/RiskTypes.thy ===== *)
theory RiskTypes
  imports Float64 DepGraph "HOL-Library.Product_Lexorder"
begin

text \<open>
  The data of the risk engine: risk/category.go, risk/signal.go, risk/registry.go,
  risk/evaluation.go and the part of risk/input.go that the engine and the compound rules read.
  Everything is polymorphic in the rest of the input record, which the registered signals read.
  A Go map is an association list when the code ranges over it and a partial map otherwise; an
  instant is the number of nanoseconds since 1970 in UTC, the zero time is \<open>None\<close>.
\<close>

section \<open>Categories and severities\<close>

datatype Category =
    CategoryVulnerability
  | CategorySupplyChain
  | CategoryMaintenance
  | CategoryLicense
  | CategoryQuality
  | CategoryOther string

definition category_name :: "Category \<Rightarrow> string" where
  "category_name c =
     (case c of
        CategoryVulnerability \<Rightarrow> ''vulnerability''
      | CategorySupplyChain \<Rightarrow> ''supply_chain''
      | CategoryMaintenance \<Rightarrow> ''maintenance''
      | CategoryLicense \<Rightarrow> ''license''
      | CategoryQuality \<Rightarrow> ''quality''
      | CategoryOther s \<Rightarrow> s)"

text \<open>The decimal literals of the weights are the float64 values nearest to them.\<close>

definition CategoryWeights :: "(Category, rat) gomap" where
  "CategoryWeights =
     [(CategoryVulnerability, rnd (30 / 100)),
      (CategorySupplyChain, rnd (35 / 100)),
      (CategoryMaintenance, rnd (15 / 100)),
      (CategoryLicense, rnd (10 / 100)),
      (CategoryQuality, rnd (10 / 100))]"

definition AllCategories :: "Category list" where
  "AllCategories =
     [CategoryVulnerability, CategorySupplyChain, CategoryMaintenance, CategoryLicense, CategoryQuality]"

datatype Severity = SevUnknown | SevInfo | SevLow | SevMedium | SevHigh | SevCritical | SevOther string

definition severity_of :: "string \<Rightarrow> Severity" where
  "severity_of s =
     (if s = ''unknown'' then SevUnknown
      else if s = ''info'' then SevInfo
      else if s = ''low'' then SevLow
      else if s = ''medium'' then SevMedium
      else if s = ''high'' then SevHigh
      else if s = ''critical'' then SevCritical
      else SevOther s)"

definition Rank :: "Severity \<Rightarrow> int" where
  "Rank s =
     (case s of
        SevUnknown \<Rightarrow> 0
      | SevInfo \<Rightarrow> 1
      | SevLow \<Rightarrow> 2
      | SevMedium \<Rightarrow> 3
      | SevHigh \<Rightarrow> 4
      | SevCritical \<Rightarrow> 5
      | SevOther _ \<Rightarrow> - 1)"

section \<open>Signals\<close>

text \<open>The values of an evidence map; a nil map and an empty one are the same list.\<close>

datatype Any =
    AnyBool bool | AnyString string | AnyInt int | AnyFloat rat | AnyStrings "string list"
  | AnyMaps "(string \<times> Any) list list"

type_synonym Evidence = "(string, Any) gomap"

record 'i Signal =
  s_ID :: string
  s_Category :: Category
  s_Severity :: Severity
  s_Weight :: rat
  s_Title :: string
  s_Description :: string
  s_Fires :: "'i \<Rightarrow> bool \<times> string \<times> Evidence"
  s_MaxImpact :: int
  s_NotTunable :: bool
  s_DampEstablished :: bool
  s_TakeoverIndicator :: bool

definition IsTunable :: "'i Signal \<Rightarrow> bool" where
  "IsTunable s = (\<not> s_NotTunable s)"

text \<open>The cutoffs of the verdict bands, and the tightest ceiling inside the warn band.\<close>

definition thresholdQuarantine :: int where "thresholdQuarantine = 30"
definition thresholdWarn :: int where "thresholdWarn = 60"
definition maxImpactWarnTop :: int where "maxImpactWarnTop = thresholdWarn - 1"

lemmas thresholds = thresholdQuarantine_def thresholdWarn_def maxImpactWarnTop_def

record FiredSignal =
  f_ID :: string
  f_Category :: Category
  f_Title :: string
  f_Severity :: Severity
  f_Weight :: rat
  f_Detail :: string
  f_Evidence :: Evidence
  f_Compound :: bool

type_synonym Fired = "(string, FiredSignal) gomap"

section \<open>The registry\<close>

type_synonym 'i Registry = "(string, 'i Signal) gomap"

text \<open>
  \<open>register\<close> panics on a malformed or duplicate signal (a nil \<open>Fires\<close> has no counterpart: HOL
  functions are total); the panic value is the left summand.
\<close>

definition register :: "'i Signal \<Rightarrow> 'i Registry \<Rightarrow> string + 'i Registry" where
  "register s reg =
     (if s_ID s = [] then Inl ''risk.register: empty ID''
      else if category_name (s_Category s) = [] then Inl (''risk.register: '' @ s_ID s @ '' has empty Category'')
      else if s_Title s = [] then Inl (''risk.register: '' @ s_ID s @ '' has empty Title'')
      else if map_of reg (s_ID s) \<noteq> None then
        Inl (''risk.register: duplicate signal ID '' @ CHR 0x22 # s_ID s @ [CHR 0x22])
      else Inr (AList.update (s_ID s) s reg))"

definition SignalsByCategory :: "'i Registry \<Rightarrow> Category \<Rightarrow> 'i Signal list" where
  "SignalsByCategory reg cat = sort_key s_ID (filter (\<lambda>s. s_Category s = cat) (map snd reg))"

definition AllSignals :: "'i Registry \<Rightarrow> 'i Signal list" where
  "AllSignals reg = sort_key (\<lambda>s. (category_name (s_Category s), s_ID s)) (map snd reg)"

text \<open>What registration guarantees of the registry: it is keyed by the IDs of its signals.\<close>

definition registry_ok :: "'i Registry \<Rightarrow> bool" where
  "registry_ok reg \<longleftrightarrow> gomap_ok reg \<and> (\<forall>(id, s)\<in>set reg. s_ID s = id)"

section \<open>Evaluations\<close>

datatype Verdict =
    VerdictAllow
  | VerdictWarn
  | VerdictUpgradeAvailable
  | VerdictReplace
  | VerdictQuarantine
  | VerdictUnknown

definition verdict_name :: "Verdict \<Rightarrow> string" where
  "verdict_name v =
     (case v of
        VerdictAllow \<Rightarrow> ''allow''
      | VerdictWarn \<Rightarrow> ''warn''
      | VerdictUpgradeAvailable \<Rightarrow> ''upgrade_available''
      | VerdictReplace \<Rightarrow> ''replace''
      | VerdictQuarantine \<Rightarrow> ''quarantine''
      | VerdictUnknown \<Rightarrow> ''unknown'')"

record PackageKey =
  pk_Ecosystem :: string
  pk_Package :: string
  pk_Version :: string

record CategoryScore =
  c_Score :: int
  c_Grade :: string
  c_DataAvailable :: bool
  c_FiredSignals :: "FiredSignal list"

type_synonym CategoryScores = "(Category, CategoryScore) gomap"

text \<open>The empty string as \<open>WorstCategory\<close> is \<open>None\<close>.\<close>

record Score =
  sc_Overall :: int
  sc_Categories :: CategoryScores
  sc_MinCategoryScore :: int
  sc_WorstCategory :: "Category option"
  sc_CeilingSignal :: string

record TransitiveSeverity =
  ts_CriticalCount :: int
  ts_HighCount :: int
  ts_MediumCount :: int
  ts_LowCount :: int
  ts_MalwareCount :: int
  ts_BlockedCount :: int

definition no_severity :: TransitiveSeverity where
  "no_severity = \<lparr>ts_CriticalCount = 0, ts_HighCount = 0, ts_MediumCount = 0, ts_LowCount = 0,
     ts_MalwareCount = 0, ts_BlockedCount = 0\<rparr>"

record Resolution =
  r_Verdict :: Verdict
  r_Summary :: string
  r_SafeVersion :: string
  r_PatchAdvisory :: string
  r_Alternative :: string
  r_TransitiveBlame :: "PackageKey list"
  r_Rationale :: "string list"
  r_SafeVersionCorroborated :: bool
  r_TransitiveSeverity :: TransitiveSeverity

text \<open>A composite literal: the fields it does not name have their zero values.\<close>

definition resolution :: "Verdict \<Rightarrow> string \<Rightarrow> Resolution" where
  "resolution v summary =
     \<lparr>r_Verdict = v, r_Summary = summary, r_SafeVersion = [], r_PatchAdvisory = [], r_Alternative = [],
      r_TransitiveBlame = [], r_Rationale = [], r_SafeVersionCorroborated = False,
      r_TransitiveSeverity = no_severity\<rparr>"

record Evaluation =
  e_Key :: PackageKey
  e_DirectScore :: Score
  e_RolledUp :: Score
  e_Verdict :: Verdict
  e_Resolution :: Resolution
  e_EvaluatedAt :: int
  e_EngineVersion :: string

definition EngineVersion :: string where
  "EngineVersion = ''2.0''"

definition gradeForScore :: "int \<Rightarrow> string" where
  "gradeForScore score =
     (if 90 \<le> score then ''A''
      else if 80 \<le> score then ''B''
      else if 60 \<le> score then ''C''
      else if 40 \<le> score then ''D''
      else ''F'')"

section \<open>Known fixes\<close>

definition em_dash :: string where
  "em_dash = [CHR 0xE2, CHR 0x80, CHR 0x94]"

definition summary_no_fix_band :: string where
  "summary_no_fix_band = ''High-risk package with no known safe version or alternative. Manual review required.''"

definition summary_no_fix_critical :: string where
  "summary_no_fix_critical = ''Critical signal present with no upgrade or alternative path. Manual review required.''"

definition summary_no_fix_replace :: string where
  "summary_no_fix_replace = ''Package is high-risk with no safe version. Consider an alternative.''"

text \<open>The two tables; a replacement is a function of the version that its \<open>%s\<close> takes.\<close>

definition noFixSummaries :: "(string \<times> (string \<Rightarrow> string)) list" where
  "noFixSummaries =
     [(summary_no_fix_band,
       \<lambda>v. ''High-risk package. Patched in '' @ v @ '' '' @ em_dash @ '' upgrade and re-scan. Manual review required until then.''),
      (summary_no_fix_critical,
       \<lambda>v. ''Critical signal present. Patched in '' @ v @ '' '' @ em_dash @ '' upgrade and re-scan. Manual review required until then.''),
      (summary_no_fix_replace,
       \<lambda>v. ''Package is high-risk. Patched in '' @ v @ '' '' @ em_dash @ '' upgrade and re-scan, or consider an alternative.'')]"

definition noFixSummariesUncorroborated :: "(string \<times> (string \<Rightarrow> string)) list" where
  "noFixSummariesUncorroborated =
     [(summary_no_fix_band,
       \<lambda>v. ''High-risk package. Advisories name '' @ v @ '' as the fix; it is not confirmed published yet. Manual review required.''),
      (summary_no_fix_critical,
       \<lambda>v. ''Critical signal present. Advisories name '' @ v @ '' as the fix; it is not confirmed published yet. Manual review required.''),
      (summary_no_fix_replace,
       \<lambda>v. ''Package is high-risk. Advisories name '' @ v @ '' as the fix; it is not confirmed published yet. Consider an alternative.'')]"

text \<open>The receiver may be nil.\<close>

definition ApplyKnownFixCorroborated :: "string \<Rightarrow> bool \<Rightarrow> Resolution option \<Rightarrow> Resolution option" where
  "ApplyKnownFixCorroborated safeVersion corroborated ro =
     (case ro of
        None \<Rightarrow> None
      | Some r \<Rightarrow>
          if safeVersion = [] \<or> r_Verdict r = VerdictUnknown then Some r
          else
            let tbl = (if corroborated then noFixSummaries else noFixSummariesUncorroborated);
                advisory =
                  (if corroborated then ''Patched in '' @ safeVersion @ '' '' @ em_dash @ '' upgrade and re-scan.''
                   else ''Advisories name '' @ safeVersion @ '' as the fix; it is not confirmed published yet.'');
                r' = r\<lparr>r_SafeVersion := safeVersion, r_SafeVersionCorroborated := corroborated,
                       r_PatchAdvisory := advisory\<rparr>
            in case map_of tbl (r_Summary r) of
                 None \<Rightarrow> Some r'
               | Some replacement \<Rightarrow> Some (r'\<lparr>r_Summary := replacement safeVersion\<rparr>))"

definition ApplyKnownFix :: "string \<Rightarrow> Resolution option \<Rightarrow> Resolution option" where
  "ApplyKnownFix safeVersion = ApplyKnownFixCorroborated safeVersion True"

definition Evaluation_ApplyKnownFixCorroborated :: "string \<Rightarrow> bool \<Rightarrow> Evaluation option \<Rightarrow> Evaluation option" where
  "Evaluation_ApplyKnownFixCorroborated safeVersion corroborated eo =
     (case eo of
        None \<Rightarrow> None
      | Some e \<Rightarrow>
          Some (e\<lparr>e_Resolution := the (ApplyKnownFixCorroborated safeVersion corroborated (Some (e_Resolution e)))\<rparr>))"

definition Evaluation_ApplyKnownFix :: "string \<Rightarrow> Evaluation option \<Rightarrow> Evaluation option" where
  "Evaluation_ApplyKnownFix safeVersion = Evaluation_ApplyKnownFixCorroborated safeVersion True"

section \<open>Inputs and options\<close>

text \<open>
  The fields that the evaluator, the damper and the compound rules read; the others are the
  extension of the record.
\<close>

record Input =
  Ecosystem_in :: string
  Package :: string
  Version_in :: string
  SignalsUnavailable :: bool
  UnavailableReason :: string
  PublisherChanged :: bool
  HasInstallScript :: bool
  InstallScriptFetchesRemote :: bool
  EnvVarAccess :: bool
  NetworkAccess :: bool
  CapShell :: bool
  CapDynamicEval :: bool
  CapDynamicEvalObserved :: bool
  CapDynamicRequire :: bool
  MaliciousIOCKind :: string
  MaliciousIOCCoupled :: bool
  MaliciousIOCAtEntry :: bool
  ImportTimeKind :: string
  TrivialPackage :: bool
  SLSALevel :: int
  VersionAnomalyFlags :: "string list"
  VulnDataAvailable :: bool
  LicenseDataUnavailable :: bool
  FirstPublishedAt :: "int option"
  VersionCount :: int
  WeeklyDownloads :: "int option"
  Downloads :: "int option"
  DownloadsWindow :: string

text \<open>
  \<open>o_Now\<close> is the instant that the clock of the options returns; one evaluation reads it at one
  instant.
\<close>

record Options =
  o_Now :: int
  o_SafeUpgradeVersion :: string
  o_PerNodeSafeUpgrade :: "Key \<rightharpoonup> string"
  o_Alternative :: string
  o_CategoryWeights :: "(Category, rat) gomap option"
  o_SignalWeightOverrides :: "string \<rightharpoonup> int"
  o_NoEstablishedDamper :: bool

record 'i CompoundRule =
  cr_ID :: string
  cr_Category :: Category
  cr_Severity :: Severity
  cr_Weight :: rat
  cr_Title :: string
  cr_Description :: string
  cr_Fires :: "'i \<Rightarrow> Fired \<Rightarrow> bool \<times> string \<times> Evidence"
  cr_MaxImpact :: int
  cr_DampEstablished :: bool

end
