(* ===== verification/GoTime.thy ===== *)
theory GoTime
  imports Float64
begin

text \<open>
  Numbers in decimal, and Go's package time as the code uses it: an instant is a number of nanoseconds
  since 1970 in UTC, a \<open>time.Duration\<close> a 64-bit number of nanoseconds.
\<close>

section \<open>Numbers, durations and dates\<close>

function nat_digits :: "nat \<Rightarrow> string" where
  "nat_digits n =
     (if n < 10 then [char_of (48 + n)] else nat_digits (n div 10) @ [char_of (48 + n mod 10)])"
  by pat_completeness auto
termination by (relation "measure id") auto

declare nat_digits.simps [simp del]

definition itoa :: "int \<Rightarrow> string" where
  "itoa z = (if z < 0 then CHR ''-'' # nat_digits (nat (- z)) else nat_digits (nat z))"

text \<open>\<open>Time.Sub\<close> saturates at the least and the greatest duration.\<close>

definition time_Sub :: "int \<Rightarrow> int \<Rightarrow> int" where
  "time_Sub t u = max (- (2 ^ 63)) (min (2 ^ 63 - 1) (t - u))"

lemma time_Sub_mono: "t \<le> t' \<Longrightarrow> u' \<le> u \<Longrightarrow> time_Sub t u \<le> time_Sub t' u'"
  unfolding time_Sub_def by (intro max.mono min.mono) simp_all

definition Hour :: int where
  "Hour = 3600 * 1000000000"

text \<open>Year, month and day of an instant in the proleptic Gregorian calendar.\<close>

definition civil :: "int \<Rightarrow> int \<times> int \<times> int" where
  "civil t =
     (let z = t div (24 * Hour) + 719468;
          era = z div 146097;
          doe = z mod 146097;
          yoe = (doe - doe div 1460 + doe div 36524 - doe div 146096) div 365;
          doy = doe - (365 * yoe + yoe div 4 - yoe div 100);
          mp = (5 * doy + 2) div 153;
          d = doy - (153 * mp + 2) div 5 + 1;
          m = (if mp < 10 then mp + 3 else mp - 9)
      in (yoe + era * 400 + (if m \<le> 2 then 1 else 0), m, d))"

definition Year :: "int \<Rightarrow> int" where
  "Year t = fst (civil t)"

definition zero_pad :: "nat \<Rightarrow> string \<Rightarrow> string" where
  "zero_pad n s = replicate (n - length s) (CHR ''0'') @ s"

definition Format_date :: "int \<Rightarrow> string" where
  "Format_date t =
     (let (y, m, d) = civil t
      in zero_pad 4 (itoa y) @ ''-'' @ zero_pad 2 (itoa m) @ ''-'' @ zero_pad 2 (itoa d))"

lemma civil_examples:
  "civil 0 = (1970, 1, 1)"
  "civil (951782400 * 1000000000) = (2000, 2, 29)"
  "civil (- 2208988800 * 1000000000) = (1900, 1, 1)"
  "civil (1791331199 * 1000000000) = (2026, 10, 6)"
  by code_simp+

section \<open>Durations\<close>

text \<open>The wrap-around of \<open>int64\<close>, which multiplications of durations are subject to.\<close>

definition i64 :: "int \<Rightarrow> int" where
  "i64 z = (z + 2 ^ 63) mod 2 ^ 64 - 2 ^ 63"

lemma i64_id: "- (2 ^ 63) \<le> z \<Longrightarrow> z < 2 ^ 63 \<Longrightarrow> i64 z = z"
  by (simp add: i64_def)

text \<open>\<open>time.Duration(n) * 24 * time.Hour\<close>.\<close>

definition days :: "int \<Rightarrow> int" where
  "days n = i64 (i64 (n * 24) * Hour)"

lemma days_small: "0 \<le> n \<Longrightarrow> n \<le> 106751 \<Longrightarrow> days n = n * 24 * Hour"
  by (simp add: days_def i64_id Hour_def)

text \<open>\<open>Duration.Hours\<close>, and the age in whole days that the code computes from it.\<close>

definition Hours :: "int \<Rightarrow> rat" where
  "Hours d =
     (let h = (if d < 0 then - (- d div Hour) else d div Hour); n = d - h * Hour
      in fadd (rnd (of_int h)) (fdiv (rnd (of_int n)) (rnd (of_int Hour))))"

definition age_days :: "int \<Rightarrow> int \<Rightarrow> int" where
  "age_days now t = trunc (fdiv (Hours (time_Sub now t)) 24)"

definition whole_hours :: "int \<Rightarrow> int" where
  "whole_hours d = (if d < 0 then - (- d div Hour) else d div Hour)"

lemma Hour_pos: "0 < Hour"
  by (simp add: Hour_def)

lemma whole_hours_rest:
  "0 \<le> d \<Longrightarrow> 0 \<le> d - whole_hours d * Hour \<and> d - whole_hours d * Hour < Hour \<and> 0 \<le> whole_hours d"
  "d < 0 \<Longrightarrow> - Hour < d - whole_hours d * Hour \<and> d - whole_hours d * Hour \<le> 0 \<and> whole_hours d \<le> 0"
proof -
  have r: "u - u div Hour * Hour = u mod Hour" for u
    by (simp add: minus_div_mult_eq_mod)
  show "0 \<le> d \<Longrightarrow> 0 \<le> d - whole_hours d * Hour \<and> d - whole_hours d * Hour < Hour \<and> 0 \<le> whole_hours d"
    using r[of d] Hour_pos by (simp add: whole_hours_def pos_imp_zdiv_nonneg_iff)
  show "d < 0 \<Longrightarrow> - Hour < d - whole_hours d * Hour \<and> d - whole_hours d * Hour \<le> 0 \<and> whole_hours d \<le> 0"
    using r[of "- d"] Hour_pos pos_mod_bound[OF Hour_pos, of "- d"] pos_mod_sign[OF Hour_pos, of "- d"]
      pos_imp_zdiv_nonneg_iff[OF Hour_pos, of "- d"]
    unfolding whole_hours_def by simp
qed

lemma whole_hours_mono: "d \<le> d' \<Longrightarrow> whole_hours d \<le> whole_hours d'"
proof -
  assume le: "d \<le> d'"
  have H: "0 < Hour" by (simp add: Hour_def)
  show ?thesis
  proof (cases "d < 0 \<and> 0 \<le> d'")
    case True
    then show ?thesis using whole_hours_rest(1)[of d'] whole_hours_rest(2)[of d] by simp
  next
    case False
    then show ?thesis using le zdiv_mono1[OF _ H, of d d'] zdiv_mono1[OF _ H, of "- d'" "- d"]
      by (auto simp: whole_hours_def)
  qed
qed

lemma Hours_alt:
  assumes "\<bar>d\<bar> \<le> 2 ^ 63"
  shows "Hours d = rnd (of_int (whole_hours d) + rnd (of_int (d - whole_hours d * Hour) / of_int Hour))"
proof -
  have "d \<le> 2 ^ 63" "- (2 ^ 63) \<le> d" using assms by simp_all
  then have "whole_hours d \<le> whole_hours (2 ^ 63)" "whole_hours (- (2 ^ 63)) \<le> whole_hours d"
    by (simp_all add: whole_hours_mono)
  then have "\<bar>whole_hours d\<bar> < 2 ^ 53"
    by (simp add: whole_hours_def[of "9223372036854775808"] whole_hours_def[of "- 9223372036854775808"] Hour_def)
  moreover have "\<bar>d - whole_hours d * Hour\<bar> < 2 ^ 53"
    using whole_hours_rest[of d] by (cases "d < 0") (simp_all add: Hour_def)
  moreover have "rnd (of_int Hour) = of_int Hour" by (rule rnd_int) (simp add: Hour_def)
  ultimately show ?thesis
    by (simp add: Hours_def whole_hours_def[symmetric] Let_def fadd_def fdiv_def rnd_int del: of_int_diff of_int_mult)
qed

lemma rnd_1 [simp]: "rnd 1 = 1"
  using rnd_int[of 1] by simp

lemma Hours_mono:
  assumes "d \<le> d'" and "\<bar>d\<bar> \<le> 2 ^ 63" and "\<bar>d'\<bar> \<le> 2 ^ 63"
  shows "Hours d \<le> Hours d'"
proof -
  let ?h = whole_hours and ?f = "\<lambda>d. rnd (of_int (d - whole_hours d * Hour) / of_int Hour)"
  have H: "0 < (of_int Hour :: rat)" by (simp add: Hour_def)
  have b: "- Hour \<le> d - whole_hours d * Hour" "d - whole_hours d * Hour \<le> Hour" for d
    using whole_hours_rest[of d] Hour_pos by (cases "d < 0"; simp)+
  have up: "?f d \<le> 1" for d
  proof -
    have "of_int (d - whole_hours d * Hour) \<le> (of_int Hour :: rat)" using b(2)[of d] of_int_le_iff by blast
    then show ?thesis using H rnd_mono[of _ 1] by (simp add: divide_le_eq del: of_int_diff of_int_mult)
  qed
  have down: "- 1 \<le> ?f d" for d
  proof -
    have "of_int (- Hour) \<le> (of_int (d - whole_hours d * Hour) :: rat)" using b(1)[of d] of_int_le_iff by blast
    then have "- 1 \<le> (of_int (d - whole_hours d * Hour) :: rat) / of_int Hour"
      using H by (simp add: le_divide_eq del: of_int_diff of_int_mult)
    then show ?thesis using rnd_mono[of "- 1"] rnd_uminus[of 1] by (simp del: of_int_diff of_int_mult)
  qed
  have pos: "0 \<le> d \<Longrightarrow> 0 \<le> ?f d" for d
    using whole_hours_rest(1)[of d] H by (intro rnd_nonneg) (simp del: of_int_diff of_int_mult)
  have neg: "d < 0 \<Longrightarrow> ?f d \<le> 0" for d
    using whole_hours_rest(2)[of d] H rnd_mono[of _ 0]
    by (simp add: divide_le_0_iff del: of_int_diff of_int_mult)
  have "of_int (?h d) + ?f d \<le> of_int (?h d') + (?f d' :: rat)"
  proof (cases "?h d = ?h d'")
    case True
    have "?f d \<le> ?f d'"
      using assms(1) True H by (intro rnd_mono divide_right_mono) (simp_all del: of_int_diff of_int_mult)
    then show ?thesis using True by simp
  next
    case False
    then have h: "?h d + 1 \<le> ?h d'" using whole_hours_mono[OF assms(1)] by simp
    then have h': "of_int (?h d) + 1 \<le> (of_int (?h d') :: rat)" by (metis of_int_1 of_int_add of_int_le_iff)
    show ?thesis
    proof (cases "0 \<le> d'")
      case True
      then show ?thesis using h' up[of d] pos[of d'] by simp
    next
      case False
      then show ?thesis using h' neg[of d] down[of d'] assms(1) by simp
    qed
  qed
  then show ?thesis unfolding Hours_alt[OF assms(2)] Hours_alt[OF assms(3)] by (rule rnd_mono)
qed

lemma age_days_mono: "now \<le> now' \<Longrightarrow> age_days now t \<le> age_days now' t"
  unfolding age_days_def fdiv_def
  by (intro trunc_mono rnd_mono divide_right_mono Hours_mono time_Sub_mono) (simp_all add: time_Sub_def)

end
