(* ===== verification/Established.thy ===== *)
theory Established
  imports RiskTypes GoTime
begin

text \<open>
  risk/established.go: when a package counts as established, and the damper that softens the
  hygiene signals of an established package. The formatting of dates and numbers in the reasons
  is that of \<open>fmt.Sprintf\<close> and \<open>time.Format\<close> on UTC instants.
\<close>

section \<open>The establishment lines\<close>

definition EstablishedWeeklyDownloads :: int where "EstablishedWeeklyDownloads = 100000"
definition Established90DayDownloads :: int where "Established90DayDownloads = 75000"
definition EstablishedMinVersions :: int where "EstablishedMinVersions = 50"
definition EstablishedMinAge :: int where "EstablishedMinAge = 2 * 365 * 24 * Hour"
definition EstablishedLongLivedPackageAge :: int where "EstablishedLongLivedPackageAge = 5 * 365 * 24 * Hour"
definition EstablishedLongLivedVersionAge :: int where "EstablishedLongLivedVersionAge = 365 * 24 * Hour"
definition EstablishedCensusOldWeeklyDownloads :: int where "EstablishedCensusOldWeeklyDownloads = 1000"
definition EstablishedCensusOldBlockWeeklyDownloads :: int where "EstablishedCensusOldBlockWeeklyDownloads = 20000"

lemmas established_lines =
  EstablishedWeeklyDownloads_def Established90DayDownloads_def EstablishedMinVersions_def
  EstablishedMinAge_def EstablishedLongLivedPackageAge_def EstablishedLongLivedVersionAge_def
  EstablishedCensusOldWeeklyDownloads_def EstablishedCensusOldBlockWeeklyDownloads_def Hour_def

record EstablishedRow =
  er_Name :: string
  er_WeeklyDownloads :: int
  er_VersionCount :: int
  er_FirstPublished :: "int option"
  er_LastPublished :: "int option"
  er_Releases :: "string list option"

definition zero_row :: EstablishedRow where
  "zero_row = \<lparr>er_Name = [], er_WeeklyDownloads = 0, er_VersionCount = 0, er_FirstPublished = None,
     er_LastPublished = None, er_Releases = None\<rparr>"

text \<open>The result \<open>(reason, cleared)\<close>.\<close>

definition EstablishedClear :: "EstablishedRow \<Rightarrow> int \<Rightarrow> string \<times> bool" where
  "EstablishedClear row now =
     (if EstablishedWeeklyDownloads \<le> er_WeeklyDownloads row then
        (itoa (er_WeeklyDownloads row) @ '' downloads per week'', True)
      else
        (case er_FirstPublished row of
           None \<Rightarrow> ([], False)
         | Some first \<Rightarrow>
             if EstablishedMinVersions \<le> er_VersionCount row \<and> EstablishedMinAge \<le> time_Sub now first then
               (itoa (er_VersionCount row) @ '' versions since '' @ Format_date first, True)
             else
               (case er_LastPublished row of
                  None \<Rightarrow> ([], False)
                | Some latest \<Rightarrow>
                    if EstablishedLongLivedPackageAge \<le> time_Sub now first \<and>
                       EstablishedLongLivedVersionAge \<le> time_Sub now latest then
                      (''published since '' @ Format_date first @ '', last released '' @ Format_date latest, True)
                    else ([], False))))"

definition EstablishedTableClear :: "EstablishedRow \<Rightarrow> int \<Rightarrow> bool \<Rightarrow> string \<times> bool" where
  "EstablishedTableClear row now blockTier =
     (case EstablishedClear row now of
        (reason, True) \<Rightarrow> (reason, True)
      | (_, False) \<Rightarrow>
          let line = (if blockTier then EstablishedCensusOldBlockWeeklyDownloads
                      else EstablishedCensusOldWeeklyDownloads)
          in case er_FirstPublished row of
               None \<Rightarrow> ([], False)
             | Some first \<Rightarrow>
                 if line \<le> er_WeeklyDownloads row \<and> EstablishedLongLivedPackageAge \<le> time_Sub now first then
                   (''published since '' @ Format_date first @ '', '' @ itoa (er_WeeklyDownloads row) @
                    '' downloads per week'', True)
                 else ([], False))"

text \<open>The switch returns on some of its arms; otherwise the release history decides.\<close>

definition EstablishedReason ::
  "int option \<Rightarrow> string \<Rightarrow> int option \<Rightarrow> int \<Rightarrow> int option \<Rightarrow> int \<Rightarrow> string" where
  "EstablishedReason downloads window weekly versions first now =
     (let early =
        (if window = ''90d'' \<and> downloads \<noteq> None then
           (if Established90DayDownloads \<le> the downloads
            then Some (itoa (the downloads) @ '' downloads per 90d'') else None)
         else
           (case weekly of
              Some w \<Rightarrow>
                (case EstablishedClear (zero_row\<lparr>er_WeeklyDownloads := w\<rparr>) now of
                   (reason, ok) \<Rightarrow> if ok then Some reason else None)
            | None \<Rightarrow>
                if window = ''week'' \<and> downloads \<noteq> None \<and> EstablishedWeeklyDownloads \<le> the downloads
                then Some (itoa (the downloads) @ '' downloads per week'') else None))
      in case early of
           Some reason \<Rightarrow> reason
         | None \<Rightarrow>
             fst (EstablishedClear
               (zero_row\<lparr>er_VersionCount := versions,
                         er_FirstPublished := (case first of
                            None \<Rightarrow> None | Some t \<Rightarrow> if 1901 < Year t then Some t else None)\<rparr>) now))"

definition establishedInputReason :: "'a Input_scheme \<Rightarrow> int \<Rightarrow> string" where
  "establishedInputReason i now =
     EstablishedReason (Downloads i) (DownloadsWindow i) (WeeklyDownloads i) (VersionCount i)
       (FirstPublishedAt i) now"

section \<open>The damper\<close>

definition mark :: "bool \<Rightarrow> string \<Rightarrow> FiredSignal \<Rightarrow> FiredSignal" where
  "mark halve reason f =
     f\<lparr>f_Weight := (if halve then fdiv (f_Weight f) 2 else f_Weight f),
       f_Evidence := AList.update ''damped_reason'' (AnyString (''established package: '' @ reason))
         (AList.update ''damped'' (AnyBool True) (f_Evidence f))\<rparr>"

text \<open>The marked IDs, and the two maps after the updates in place.\<close>

definition mark_all :: "(string \<Rightarrow> bool) \<Rightarrow> bool \<Rightarrow> string \<Rightarrow> Fired \<Rightarrow> Fired" where
  "mark_all P halve reason = map (\<lambda>(id, f). (id, if P id then mark halve reason f else f))"

definition sig_flag :: "('i Signal \<Rightarrow> bool) \<Rightarrow> 'i Registry \<Rightarrow> string \<Rightarrow> bool" where
  "sig_flag flag reg sid = (case map_of reg sid of None \<Rightarrow> False | Some sig \<Rightarrow> flag sig)"

definition dampEstablished ::
  "'a Input_scheme Registry \<Rightarrow> 'a Input_scheme CompoundRule list \<Rightarrow> 'a Input_scheme \<Rightarrow> Fired \<Rightarrow> Fired \<Rightarrow> int \<Rightarrow>
   string list \<times> Fired \<times> Fired" where
  "dampEstablished reg rules i fired compnd now =
     (let reason = establishedInputReason i now in
      if reason = [] then ([], fired, compnd)
      else
        let popular = EstablishedReason (Downloads i) (DownloadsWindow i) (WeeklyDownloads i) 0 None now;
            present = filter (\<lambda>rule. map_of compnd (cr_ID rule) \<noteq> None) rules
        in if list_ex (\<lambda>rule. \<not> cr_DampEstablished rule) present then ([], fired, compnd)
           else if list_ex (sig_flag s_TakeoverIndicator reg) (map fst fired) then ([], fired, compnd)
           else
             let dampableCompounds = (if popular \<noteq> [] then map cr_ID present else []);
                 dampable = filter (sig_flag s_DampEstablished reg) (map fst fired)
             in (dampable @ dampableCompounds,
                 mark_all (sig_flag s_DampEstablished reg) True reason fired,
                 mark_all (\<lambda>id. id \<in> set dampableCompounds) False popular compnd))"

section \<open>What counts as established\<close>

definition row_le :: "EstablishedRow \<Rightarrow> EstablishedRow \<Rightarrow> bool" where
  "row_le r s \<longleftrightarrow> er_WeeklyDownloads r \<le> er_WeeklyDownloads s \<and> er_VersionCount r \<le> er_VersionCount s \<and>
     (\<forall>t. er_FirstPublished r = Some t \<longrightarrow> (\<exists>u\<le>t. er_FirstPublished s = Some u)) \<and>
     (\<forall>t. er_LastPublished r = Some t \<longrightarrow> (\<exists>u\<le>t. er_LastPublished s = Some u))"

lemma cleared_iff:
  "snd (EstablishedClear row now) \<longleftrightarrow>
     EstablishedWeeklyDownloads \<le> er_WeeklyDownloads row \<or>
     (\<exists>first. er_FirstPublished row = Some first \<and>
        (EstablishedMinVersions \<le> er_VersionCount row \<and> EstablishedMinAge \<le> time_Sub now first \<or>
         (\<exists>latest. er_LastPublished row = Some latest \<and> EstablishedLongLivedPackageAge \<le> time_Sub now first \<and>
            EstablishedLongLivedVersionAge \<le> time_Sub now latest)))"
  by (auto simp: EstablishedClear_def split: option.splits)

lemma table_cleared_iff:
  "snd (EstablishedTableClear row now blockTier) \<longleftrightarrow>
     snd (EstablishedClear row now) \<or>
     (\<exists>first. er_FirstPublished row = Some first \<and> EstablishedLongLivedPackageAge \<le> time_Sub now first \<and>
        (if blockTier then EstablishedCensusOldBlockWeeklyDownloads else EstablishedCensusOldWeeklyDownloads)
          \<le> er_WeeklyDownloads row)"
  by (cases "EstablishedClear row now") (auto simp: EstablishedTableClear_def Let_def split: option.splits bool.splits)

text \<open>
  Evidence only accumulates: if a row clears, for the server or in the table of the guard, then so
  does every row with at least as many downloads and versions and release dates at least as old,
  at every later time; and the table admits what the server admits, whatever the tier, the
  non-blocking tier what the blocking tier admits.
\<close>

theorem established_monotone:
  assumes "row_le r s" and "now \<le> now'"
  shows "(snd (EstablishedClear r now) \<longrightarrow> snd (EstablishedClear s now')) \<and>
    (snd (EstablishedTableClear r now b) \<longrightarrow> snd (EstablishedTableClear s now' b)) \<and>
    (snd (EstablishedClear r now) \<longrightarrow> snd (EstablishedTableClear r now b)) \<and>
    (snd (EstablishedTableClear r now True) \<longrightarrow> snd (EstablishedTableClear r now b))"
proof -
  have older: "\<exists>u. f s = Some u \<and> a \<le> time_Sub now' u"
    if "f r = Some t" "a \<le> time_Sub now t" "\<forall>t. f r = Some t \<longrightarrow> (\<exists>u\<le>t. f s = Some u)" for f t a
    using that time_Sub_mono[OF assms(2)] by (meson order_trans)
  note le = assms(1)[unfolded row_le_def]
  have clear: "snd (EstablishedClear r now) \<longrightarrow> snd (EstablishedClear s now')"
    unfolding cleared_iff using le older[of er_FirstPublished] older[of er_LastPublished]
    by (smt (verit, best) option.inject)
  moreover have "snd (EstablishedTableClear r now b) \<longrightarrow> snd (EstablishedTableClear s now' b)"
    unfolding table_cleared_iff using clear le older[of er_FirstPublished] by fastforce
  moreover have "snd (EstablishedTableClear r now True) \<longrightarrow> snd (EstablishedTableClear r now b)"
    unfolding table_cleared_iff by (auto simp: established_lines)
  ultimately show ?thesis unfolding table_cleared_iff by blast
qed

definition popular_row :: EstablishedRow where
  "popular_row = zero_row\<lparr>er_WeeklyDownloads := 250000\<rparr>"

theorem established_monotone_witness:
  "row_le popular_row (popular_row\<lparr>er_VersionCount := 3\<rparr>) \<and> snd (EstablishedClear popular_row 0) \<and>
   snd (EstablishedTableClear (popular_row\<lparr>er_VersionCount := 3\<rparr>) 5 True)"
proof -
  have "row_le popular_row (popular_row\<lparr>er_VersionCount := 3\<rparr>)" "snd (EstablishedClear popular_row 0)"
    by (simp_all add: row_le_def popular_row_def zero_row_def cleared_iff established_lines)
  with established_monotone[of popular_row "popular_row\<lparr>er_VersionCount := 3\<rparr>" 0 5 True] show ?thesis
    by (simp add: table_cleared_iff)
qed

text \<open>
  Unknown data establishes nothing: a package with no positive count of downloads and no known
  first release is established by no line, and a lookalike whose last release is unknown or
  less than a year old clears only on its downloads or on a release history.
\<close>

theorem unknown_establishes_nothing:
  shows "(er_WeeklyDownloads row \<le> 0 \<and> er_FirstPublished row = None \<longrightarrow>
      EstablishedTableClear row now b = ([], False)) \<and>
    (er_WeeklyDownloads row < EstablishedWeeklyDownloads \<and> er_VersionCount row < EstablishedMinVersions \<and>
     (\<forall>t. er_LastPublished row = Some t \<longrightarrow> time_Sub now t < EstablishedLongLivedVersionAge) \<longrightarrow>
      EstablishedClear row now = ([], False))"
  by (auto simp: EstablishedTableClear_def EstablishedClear_def Let_def established_lines split: option.splits)

theorem unknown_establishes_nothing_witness:
  "EstablishedTableClear zero_row 0 True = ([], False) \<and> EstablishedClear zero_row 0 = ([], False)"
  using unknown_establishes_nothing[of zero_row 0 True] by (simp add: zero_row_def established_lines)

end
