(* ===== verification/RiskCompound.thy ===== *)
theory RiskCompound
  imports RiskTypes
begin

text \<open>
  The compound rules of risk/compound.go, in the order in which the file registers them, with
  the predicates on ecosystems that they use. A rule reads the input and which primitive
  signals fired.
\<close>

section \<open>Signal identifiers\<close>

definition SignalSCKnownMalicious :: string where "SignalSCKnownMalicious = ''sc.known_malicious''"
definition SignalQualChecksumMismatch :: string where "SignalQualChecksumMismatch = ''qual.checksum_mismatch''"
definition SignalSCTransitiveMalware :: string where "SignalSCTransitiveMalware = ''sc.transitive_malware''"
definition SignalSCSLSALevelBonus :: string where "SignalSCSLSALevelBonus = ''sc.slsa_level_bonus''"
definition SignalQualVersionAnomaly :: string where "SignalQualVersionAnomaly = ''qual.version_anomaly''"
definition SignalSCPublisherChanged :: string where "SignalSCPublisherChanged = ''sc.publisher_changed''"
definition SignalSCInstallScriptNetwork :: string where "SignalSCInstallScriptNetwork = ''sc.install_script_fetches_remote''"
definition SignalSCInstallScriptEvalEnc :: string where "SignalSCInstallScriptEvalEnc = ''sc.install_script_eval_encoded''"
definition SignalSCExfilSinkUsed :: string where "SignalSCExfilSinkUsed = ''sc.exfil_sink_used''"
definition SignalSCImportTimeShell :: string where "SignalSCImportTimeShell = ''sc.import_time_shell''"
definition SignalSCInstallScriptOnly :: string where "SignalSCInstallScriptOnly = ''sc.install_script_only''"
definition SignalSCInstallScriptOnlyNPM :: string where "SignalSCInstallScriptOnlyNPM = ''sc.install_script_only_npm''"

definition CompoundSCTakeoverSignature :: string where "CompoundSCTakeoverSignature = ''sc.takeover_signature''"
definition CompoundSCNetShellInstallNPM :: string where "CompoundSCNetShellInstallNPM = ''sc.npm_install_net_shell''"
definition CompoundSCEnvNetInstall :: string where "CompoundSCEnvNetInstall = ''sc.env_net_install''"
definition CompoundSCExfilAtInstall :: string where "CompoundSCExfilAtInstall = ''sc.exfil_sink_at_install''"
definition CompoundSCNPMInstallHookShell :: string where "CompoundSCNPMInstallHookShell = ''sc.npm_install_hook_shell''"
definition CompoundSCExfilSinkNamed :: string where "CompoundSCExfilSinkNamed = ''sc.exfil_sink_named''"
definition CompoundSCImportTimeBeacon :: string where "CompoundSCImportTimeBeacon = ''sc.import_time_beacon''"
definition CompoundSCObfuscatedExecEval :: string where "CompoundSCObfuscatedExecEval = ''sc.obfuscated_exec_eval''"
definition CompoundSCTrivialDynamicCode :: string where "CompoundSCTrivialDynamicCode = ''sc.trivial_dynamic_code''"

lemmas compound_ids =
  CompoundSCTakeoverSignature_def CompoundSCNetShellInstallNPM_def CompoundSCEnvNetInstall_def
  CompoundSCExfilAtInstall_def CompoundSCNPMInstallHookShell_def CompoundSCExfilSinkNamed_def
  CompoundSCImportTimeBeacon_def CompoundSCObfuscatedExecEval_def CompoundSCTrivialDynamicCode_def

section \<open>Ecosystems\<close>

definition isNPMEcosystem :: "string \<Rightarrow> bool" where
  "isNPMEcosystem eco = (ToLower (TrimSpace eco) \<in> {''npm'', ''yarn'', ''bun''})"

definition IsPOMMaintainerEco :: "string \<Rightarrow> bool" where
  "IsPOMMaintainerEco eco = (ToLower (TrimSpace eco) \<in> {''maven'', ''gradle'', ''maven-central''})"

section \<open>The rules\<close>

definition no_fire :: "bool \<times> string \<times> Evidence" where
  "no_fire = (False, [], [])"

definition has_fired :: "Fired \<Rightarrow> string \<Rightarrow> bool" where
  "has_fired fired sid = (map_of fired sid \<noteq> None)"

definition takeover_signature :: "'a Input_scheme CompoundRule" where
  "takeover_signature =
     \<lparr>cr_ID = CompoundSCTakeoverSignature,
      cr_Category = CategorySupplyChain,
      cr_Severity = SevCritical,
      cr_Weight = - 55,
      cr_Title = ''Publisher change combined with install script'',
      cr_Description = ''A different publisher set released this version, and it runs an install-time lifecycle script ''
        @ em_dash @ '' the fingerprint of an account-takeover-and-drop-payload attack.'',
      cr_Fires = (\<lambda>i fired.
        if \<not> PublisherChanged i then no_fire
        else if IsPOMMaintainerEco (Ecosystem_in i) then no_fire
        else if \<not> HasInstallScript i \<and> \<not> InstallScriptFetchesRemote i then no_fire
        else
          let pubChanged = has_fired fired SignalSCPublisherChanged;
              installFetches = has_fired fired SignalSCInstallScriptNetwork;
              installOnly = has_fired fired SignalSCInstallScriptOnly
          in if \<not> pubChanged \<or> \<not> (installFetches \<or> installOnly) then no_fire
             else (True, ''New publisher introduced an install-time script in this version.'',
                   [(''installFetchesRemote'', AnyBool (InstallScriptFetchesRemote i))])),
      cr_MaxImpact = 0,
      cr_DampEstablished = False\<rparr>"

definition env_net_install :: "'a Input_scheme CompoundRule" where
  "env_net_install =
     \<lparr>cr_ID = CompoundSCEnvNetInstall,
      cr_Category = CategorySupplyChain,
      cr_Severity = SevHigh,
      cr_Weight = - 45,
      cr_Title = ''Install script reads env vars and makes network calls'',
      cr_Description = ''All three of (env-var read, network primitive, install-time lifecycle script) are present. The active-exfil fingerprint of credential-stealing malware in the install path.'',
      cr_Fires = (\<lambda>i fired.
        if \<not> isNPMEcosystem (Ecosystem_in i) then no_fire
        else if \<not> EnvVarAccess i \<or> \<not> NetworkAccess i then no_fire
        else if \<not> HasInstallScript i \<and> \<not> InstallScriptFetchesRemote i then no_fire
        else
          let installFetches = has_fired fired SignalSCInstallScriptNetwork;
              installOnly = has_fired fired SignalSCInstallScriptOnly
          in if \<not> (installFetches \<or> installOnly) then no_fire
             else (True, ''Package reads env vars, makes network calls, and runs an install-time script.'',
                   [(''envVarAccess'', AnyBool (EnvVarAccess i)),
                    (''networkAccess'', AnyBool (NetworkAccess i)),
                    (''installFetchesRemote'', AnyBool (InstallScriptFetchesRemote i))])),
      cr_MaxImpact = maxImpactWarnTop,
      cr_DampEstablished = True\<rparr>"

definition npm_install_net_shell :: "'a Input_scheme CompoundRule" where
  "npm_install_net_shell =
     \<lparr>cr_ID = CompoundSCNetShellInstallNPM,
      cr_Category = CategorySupplyChain,
      cr_Severity = SevHigh,
      cr_Weight = - 30,
      cr_Title = ''npm install script with network and shell access'',
      cr_Description = ''The package runs an install-time script and its source both reaches the network and spawns a shell. Measured on npm as a 0%-false-positive combination; deliberately not applied to other ecosystems, where a build-time setup script shelling out is ordinary.'',
      cr_Fires = (\<lambda>i fired.
        if \<not> isNPMEcosystem (Ecosystem_in i) then no_fire
        else if \<not> HasInstallScript i \<or> \<not> NetworkAccess i \<or> \<not> CapShell i then no_fire
        else (True, ''npm package runs an install script and its source uses both network and shell primitives.'',
              [(''hasInstallScript'', AnyBool True),
               (''networkAccess'', AnyBool True),
               (''shellAccess'', AnyBool True)])),
      cr_MaxImpact = maxImpactWarnTop,
      cr_DampEstablished = True\<rparr>"

definition exfil_sink_at_install :: "'a Input_scheme CompoundRule" where
  "exfil_sink_at_install =
     \<lparr>cr_ID = CompoundSCExfilAtInstall,
      cr_Category = CategorySupplyChain,
      cr_Severity = SevCritical,
      cr_Weight = - 40,
      cr_Title = ''Exfiltration endpoint in a package with a malicious install script'',
      cr_Description = ''The package's code sends to a hard-coded exfiltration endpoint and it executes malware-shaped code at install time. Two independent detectors agree.'',
      cr_Fires = (\<lambda>i fired.
        if \<not> MaliciousIOCAtEntry i then no_fire
        else
          let sink = has_fired fired SignalSCExfilSinkUsed;
              fetch = has_fired fired SignalSCInstallScriptNetwork;
              enc = has_fired fired SignalSCInstallScriptEvalEnc;
              shell = has_fired fired SignalSCImportTimeShell
          in if \<not> sink \<or> \<not> (fetch \<or> enc \<or> shell) then no_fire
             else (True, ''Code sends to an exfiltration endpoint and runs malware-shaped code at install time.'', [])),
      cr_MaxImpact = thresholdQuarantine - 1,
      cr_DampEstablished = False\<rparr>"

text \<open>The local helper \<open>warn\<close> fills in the category and the ceiling of the warn-ceiling set.\<close>

definition warn_rule ::
  "string \<Rightarrow> rat \<Rightarrow> bool \<Rightarrow> string \<Rightarrow> string \<Rightarrow>
   ('a Input_scheme \<Rightarrow> Fired \<Rightarrow> bool \<times> string \<times> Evidence) \<Rightarrow> 'a Input_scheme CompoundRule" where
  "warn_rule rid w damp title descr fires =
     \<lparr>cr_ID = rid, cr_Category = CategorySupplyChain, cr_Severity = SevMedium, cr_Weight = w,
      cr_Title = title, cr_Description = descr, cr_Fires = fires,
      cr_MaxImpact = maxImpactWarnTop, cr_DampEstablished = damp\<rparr>"

definition npm_install_hook_shell :: "'a Input_scheme CompoundRule" where
  "npm_install_hook_shell =
     warn_rule CompoundSCNPMInstallHookShell 0 True
       ''npm install script in a package that spawns a shell''
       ''The package runs an npm install hook and its source spawns a shell. On popular packages (binary installers) the warn ceiling does not apply.''
       (\<lambda>i fired.
          if \<not> has_fired fired SignalSCInstallScriptOnlyNPM \<or> \<not> CapShell i then no_fire
          else (True, ''npm package runs an install hook and its source spawns a shell.'', []))"

definition exfil_sink_named :: "'a Input_scheme CompoundRule" where
  "exfil_sink_named =
     warn_rule CompoundSCExfilSinkNamed 0 True
       ''Code names an exfiltration endpoint''
       ''Shipping code embeds a webhook, paste drop, tunnel or out-of-band host, though no file both names it and sends.''
       (\<lambda>i fired.
          if MaliciousIOCKind i \<noteq> ''exfil_host'' \<or> MaliciousIOCCoupled i then no_fire
          else (True, ''Shipping code names an exfiltration endpoint.'', []))"

definition import_time_beacon :: "'a Input_scheme CompoundRule" where
  "import_time_beacon =
     warn_rule CompoundSCImportTimeBeacon 0 True
       ''Python module beacons on import''
       ''Module-level code in the package's Python source reports host information over the network when it is imported.''
       (\<lambda>i fired.
          if ImportTimeKind i \<noteq> ''import_time_beacon'' then no_fire
          else (True, ''Module-level code beacons host information on import.'', []))"

definition obfuscated_exec_eval :: "'a Input_scheme CompoundRule" where
  "obfuscated_exec_eval =
     warn_rule CompoundSCObfuscatedExecEval (- 15) False
       ''Obfuscated code executed on import''
       ''Module-level code decodes a blob and executes it, and the package evaluates dynamic code.''
       (\<lambda>i fired.
          if ImportTimeKind i \<noteq> ''obfuscated_exec_bare'' \<or> \<not> CapDynamicEval i then no_fire
          else (True, ''Module-level decode-and-exec in a package that evaluates dynamic code.'', []))"

definition trivial_dynamic_code :: "'a Input_scheme CompoundRule" where
  "trivial_dynamic_code =
     warn_rule CompoundSCTrivialDynamicCode (- 10) False
       ''Trivial package runs dynamic code''
       ''The package is a few lines of code and evaluates a string or requires a computed module name.''
       (\<lambda>i fired.
          if \<not> TrivialPackage i \<or> \<not> (CapDynamicEvalObserved i \<or> CapDynamicRequire i) then no_fire
          else (True, ''Trivial package evaluates or requires dynamic code.'', []))"

definition CompoundRules :: "'a Input_scheme CompoundRule list" where
  "CompoundRules =
     [takeover_signature, env_net_install, npm_install_net_shell, exfil_sink_at_install,
      npm_install_hook_shell, exfil_sink_named, import_time_beacon, obfuscated_exec_eval,
      trivial_dynamic_code]"

lemmas compound_rules =
  takeover_signature_def env_net_install_def npm_install_net_shell_def exfil_sink_at_install_def
  npm_install_hook_shell_def exfil_sink_named_def import_time_beacon_def obfuscated_exec_eval_def
  trivial_dynamic_code_def warn_rule_def

definition rules_ok :: "'i CompoundRule list \<Rightarrow> bool" where
  "rules_ok rules \<longleftrightarrow> distinct (map cr_ID rules)"

lemma CompoundRules_distinct [simp]: "rules_ok CompoundRules"
  by (simp add: rules_ok_def CompoundRules_def compound_rules compound_ids)

text \<open>
  The table of compound rules is well formed: identifiers are distinct, every rule is a supply
  chain rule that never adds points, a rule with a ceiling holds the package at most at the top
  of the warn band, the one ceiling in the quarantine band belongs to a critical rule, and the
  damper may lift only ceilings of the warn band of rules that are not critical.
\<close>

theorem CompoundRules_well_formed:
  "distinct (map cr_ID CompoundRules) \<and>
   list_all (\<lambda>r. cr_Category r = CategorySupplyChain \<and> cr_Weight r \<le> 0 \<and>
      (if cr_MaxImpact r < thresholdQuarantine then cr_MaxImpact r = 0 \<or> cr_Severity r = SevCritical
       else cr_MaxImpact r = maxImpactWarnTop) \<and>
      (if cr_DampEstablished r then cr_MaxImpact r = maxImpactWarnTop \<and> cr_Severity r \<noteq> SevCritical else True))
     CompoundRules"
  by (simp add: CompoundRules_def compound_rules compound_ids thresholds)

end
