(* ===== verification/RiskEvaluator.thy ===== *)
theory RiskEvaluator
  imports Established RiskCompound
begin

text \<open>
  The evaluator of risk/evaluator.go. The registry and the list of compound rules are arguments:
  the theorems hold of every registry that \<open>register\<close> can build. Scores and weights are Go
  values: \<open>int\<close> is unbounded here (weights and counts are far from 2 to the 63), \<open>float64\<close> is a rational
  rounded after every operation.
\<close>

section \<open>Running the signals\<close>

text \<open>Control data in the evidence is applied and stripped.\<close>

definition evidenceSeverityOverride :: string where
  "evidenceSeverityOverride = ''severity_override''"

definition evidenceTitleOverride :: string where
  "evidenceTitleOverride = ''title_override''"

definition applySignalOverrides :: "Severity \<Rightarrow> string \<Rightarrow> Evidence \<Rightarrow> Severity \<times> string \<times> Evidence" where
  "applySignalOverrides sev title evidence =
     (if evidence = [] then (sev, title, evidence)
      else
        let (sev1, ev1) =
              (case map_of evidence evidenceSeverityOverride of
                 Some (AnyString v) \<Rightarrow>
                   if v \<noteq> [] then (severity_of v, AList.delete evidenceSeverityOverride evidence)
                   else (sev, evidence)
               | _ \<Rightarrow> (sev, evidence));
            (title1, ev2) =
              (case map_of ev1 evidenceTitleOverride of
                 Some (AnyString v) \<Rightarrow>
                   if v \<noteq> [] then (v, AList.delete evidenceTitleOverride ev1) else (title, ev1)
               | _ \<Rightarrow> (title, ev1))
        in (sev1, title1, ev2))"

text \<open>The body shared by the two loops over the registry.\<close>

definition run_signal :: "(string \<rightharpoonup> int) \<Rightarrow> 'i \<Rightarrow> string \<Rightarrow> 'i Signal \<Rightarrow> FiredSignal option" where
  "run_signal overrides i sid sig =
     (case s_Fires sig i of
        (fires, detail, evidence) \<Rightarrow>
          if \<not> fires then None
          else
            let w = (case overrides sid of Some ov \<Rightarrow> rnd (of_int ov) | None \<Rightarrow> s_Weight sig);
                (sev, title, ev) = applySignalOverrides (s_Severity sig) (s_Title sig) evidence
            in Some \<lparr>f_ID = sid, f_Category = s_Category sig, f_Title = title, f_Severity = sev,
                 f_Weight = w, f_Detail = detail, f_Evidence = ev, f_Compound = False\<rparr>)"

definition runNamedPrimitiveSignals :: "'i Registry \<Rightarrow> 'i \<Rightarrow> (string \<rightharpoonup> int) \<Rightarrow> string list \<Rightarrow> Fired" where
  "runNamedPrimitiveSignals reg i overrides ids =
     fold (\<lambda>sid out.
       case map_of reg sid of
         None \<Rightarrow> out
       | Some sig \<Rightarrow>
           (case run_signal overrides i sid sig of None \<Rightarrow> out | Some f \<Rightarrow> AList.update sid f out)) ids []"

definition runPrimitiveSignals :: "'i Registry \<Rightarrow> 'i \<Rightarrow> (string \<rightharpoonup> int) \<Rightarrow> Fired" where
  "runPrimitiveSignals reg i overrides =
     fold (\<lambda>(sid, sig) out.
       case run_signal overrides i sid sig of None \<Rightarrow> out | Some f \<Rightarrow> AList.update sid f out) reg []"

definition run_rule :: "(string \<rightharpoonup> int) \<Rightarrow> 'i \<Rightarrow> Fired \<Rightarrow> 'i CompoundRule \<Rightarrow> FiredSignal option" where
  "run_rule overrides i primitives rule =
     (case cr_Fires rule i primitives of
        (fires, detail, evidence) \<Rightarrow>
          if \<not> fires then None
          else Some \<lparr>f_ID = cr_ID rule, f_Category = cr_Category rule, f_Title = cr_Title rule,
            f_Severity = cr_Severity rule,
            f_Weight = (case overrides (cr_ID rule) of Some ov \<Rightarrow> rnd (of_int ov) | None \<Rightarrow> cr_Weight rule),
            f_Detail = detail, f_Evidence = evidence, f_Compound = True\<rparr>)"

definition runCompoundRules :: "'i CompoundRule list \<Rightarrow> 'i \<Rightarrow> Fired \<Rightarrow> (string \<rightharpoonup> int) \<Rightarrow> Fired" where
  "runCompoundRules rules i primitives overrides =
     fold (\<lambda>rule out.
       case run_rule overrides i primitives rule of
         None \<Rightarrow> out | Some f \<Rightarrow> AList.update (cr_ID rule) f out) rules []"

section \<open>Category scores\<close>

definition categoryBase :: int where "categoryBase = 100"
definition versionAnomalyWeightPerFlag :: int where "versionAnomalyWeightPerFlag = - 10"
definition MaxVersionAnomalyPenalty :: int where "MaxVersionAnomalyPenalty = - 30"

text \<open>
  What one fired signal adds to its category (\<open>None\<close> for a sentinel weight, which is only filed),
  and the record that is filed.
\<close>

definition contribution :: "'a Input_scheme \<Rightarrow> FiredSignal \<Rightarrow> int option \<times> FiredSignal" where
  "contribution i f =
     (if f_Weight f \<le> - 999 then (None, f)
      else if f_ID f = SignalSCSLSALevelBonus then
        let bonus = (if 4 \<le> SLSALevel i then 15 else if SLSALevel i = 3 then 10
                     else if SLSALevel i = 2 then 5 else 0)
        in (Some bonus, f\<lparr>f_Weight := of_int bonus\<rparr>)
      else if f_ID f = SignalQualVersionAnomaly then
        let n = int (length (VersionAnomalyFlags i));
            w = trunc (f_Weight f);
            perFlag = (if w = 0 then versionAnomalyWeightPerFlag else w);
            penalty = (if n * perFlag < MaxVersionAnomalyPenalty then MaxVersionAnomalyPenalty else n * perFlag)
        in (Some penalty, f\<lparr>f_Weight := rnd (of_int penalty)\<rparr>)
      else (Some (trunc (f_Weight f)), f))"

text \<open>The accumulators: points per category, and the filed records per category in order.\<close>

type_synonym Accumulators = "(Category, int) gomap \<times> (Category \<Rightarrow> FiredSignal list)"

definition add_points :: "Category \<Rightarrow> int \<Rightarrow> (Category, int) gomap \<Rightarrow> (Category, int) gomap" where
  "add_points c n m = AList.update c (get_or (map_of m) c 0 + n) m"

definition file_signal :: "FiredSignal \<Rightarrow> (Category \<Rightarrow> FiredSignal list) \<Rightarrow> Category \<Rightarrow> FiredSignal list" where
  "file_signal f b = b(f_Category f := b (f_Category f) @ [f])"

definition score_primitive :: "'a Input_scheme \<Rightarrow> FiredSignal \<Rightarrow> Accumulators \<Rightarrow> Accumulators" where
  "score_primitive i f st =
     (case contribution i f of
        (None, g) \<Rightarrow> (fst st, file_signal g (snd st))
      | (Some n, g) \<Rightarrow> (add_points (f_Category f) n (fst st), file_signal g (snd st)))"

definition score_compound :: "FiredSignal \<Rightarrow> Accumulators \<Rightarrow> Accumulators" where
  "score_compound f st = (add_points (f_Category f) (trunc (f_Weight f)) (fst st), file_signal f (snd st))"

text \<open>Most severe first, then by ID.\<close>

definition by_severity :: "FiredSignal list \<Rightarrow> FiredSignal list" where
  "by_severity = sort_key (\<lambda>f. (- Rank (f_Severity f), f_ID f))"

definition clamp :: "int \<Rightarrow> int" where
  "clamp n = (if n < 0 then 0 else if 100 < n then 100 else n)"

definition dataAvailable :: "Category \<Rightarrow> 'a Input_scheme \<Rightarrow> bool" where
  "dataAvailable cat i =
     (case cat of
        CategoryVulnerability \<Rightarrow> VulnDataAvailable i
      | CategoryLicense \<Rightarrow> \<not> LicenseDataUnavailable i
      | _ \<Rightarrow> True)"

definition computeCategoryScores :: "Fired \<Rightarrow> Fired \<Rightarrow> 'a Input_scheme \<Rightarrow> CategoryScores" where
  "computeCategoryScores primitives compnd i =
     (let start = (map (\<lambda>(cat, _). (cat, categoryBase)) CategoryWeights, \<lambda>_. []);
          (scores, buckets) =
            fold (score_compound \<circ> snd) compnd (fold (score_primitive i \<circ> snd) primitives start)
      in map (\<lambda>(cat, raw).
           (cat, \<lparr>c_Score = clamp raw, c_Grade = gradeForScore (clamp raw),
                  c_DataAvailable = dataAvailable cat i, c_FiredSignals = by_severity (buckets cat)\<rparr>)) scores)"

section \<open>The overall score\<close>

text \<open>The categories that count: present in the map, with data.\<close>

definition scored :: "CategoryScores \<Rightarrow> Category \<Rightarrow> CategoryScore option" where
  "scored cats cat =
     (case map_of cats cat of
        None \<Rightarrow> None
      | Some cs \<Rightarrow> if c_DataAvailable cs then Some cs else None)"

definition available_weight :: "CategoryScores \<Rightarrow> (Category, rat) gomap \<Rightarrow> rat" where
  "available_weight cats ws =
     fold (\<lambda>(cat, w) acc. case scored cats cat of None \<Rightarrow> acc | Some _ \<Rightarrow> fadd acc w) ws 0"

definition deficit_sum :: "CategoryScores \<Rightarrow> rat \<Rightarrow> (Category, rat) gomap \<Rightarrow> rat" where
  "deficit_sum cats tot ws =
     fold (\<lambda>(cat, w) acc.
       case scored cats cat of
         None \<Rightarrow> acc
       | Some cs \<Rightarrow> fadd acc (fmul (rnd (of_int (100 - c_Score cs))) (fdiv w tot))) ws 0"

definition overall_of_deficit :: "rat \<Rightarrow> int" where
  "overall_of_deficit d = clamp (100 - trunc (fadd d (1 / 2)))"

text \<open>The loop over a weight table in a given order; \<open>computeOverall\<close> iterates \<open>AllCategories\<close>.\<close>

definition weighted_overall :: "CategoryScores \<Rightarrow> (Category, rat) gomap \<Rightarrow> int" where
  "weighted_overall cats ws =
     (let tot = available_weight cats ws
      in if tot = 0 then 0 else overall_of_deficit (deficit_sum cats tot ws))"

definition computeOverall :: "CategoryScores \<Rightarrow> int" where
  "computeOverall cats =
     weighted_overall cats (map (\<lambda>cat. (cat, get_or (map_of CategoryWeights) cat 0)) AllCategories)"

definition ComputeOverallFromCategories :: "CategoryScores \<Rightarrow> int" where
  "ComputeOverallFromCategories = computeOverall"

definition ComputeOverallWithWeights :: "CategoryScores \<Rightarrow> (Category, rat) gomap option \<Rightarrow> int" where
  "ComputeOverallWithWeights cats weights =
     (case weights of None \<Rightarrow> computeOverall cats | Some ws \<Rightarrow> weighted_overall cats ws)"

section \<open>The ceiling\<close>

text \<open>\<open>None\<close> is the cap -1; ties go to the smaller ID.\<close>

definition consider_cap :: "string \<Rightarrow> int \<Rightarrow> (int \<times> string) option \<Rightarrow> (int \<times> string) option" where
  "consider_cap sid maxImpact cap =
     (if maxImpact \<le> 0 then cap
      else
        (case cap of
           None \<Rightarrow> Some (maxImpact, sid)
         | Some (c, cid) \<Rightarrow>
             if maxImpact < c \<or> (maxImpact = c \<and> sid < cid) then Some (maxImpact, sid) else cap))"

definition caps_of :: "'i Registry \<Rightarrow> 'i CompoundRule list \<Rightarrow> Fired \<Rightarrow> Fired \<Rightarrow> string list \<Rightarrow> (string \<times> int) list" where
  "caps_of reg rules primitives compnd damped =
     List.map_filter (\<lambda>sid. if sid \<in> set damped then None
        else map_option (\<lambda>sig. (sid, s_MaxImpact sig)) (map_of reg sid)) (map fst primitives) @
     List.map_filter (\<lambda>rule. if map_of compnd (cr_ID rule) \<noteq> None \<and> cr_ID rule \<notin> set damped
        then Some (cr_ID rule, cr_MaxImpact rule) else None) rules"

definition applyMaxImpactCeiling ::
  "'i Registry \<Rightarrow> 'i CompoundRule list \<Rightarrow> int \<Rightarrow> Fired \<Rightarrow> Fired \<Rightarrow> string list \<Rightarrow> int \<times> string" where
  "applyMaxImpactCeiling reg rules overall primitives compnd damped =
     (case fold (\<lambda>(sid, m). consider_cap sid m) (caps_of reg rules primitives compnd damped) None of
        None \<Rightarrow> (overall, [])
      | Some (cap, capID) \<Rightarrow> if overall \<le> cap then (overall, []) else (cap, capID))"

definition minCategoryScore :: "CategoryScores \<Rightarrow> int \<times> Category option" where
  "minCategoryScore cats =
     (if cats = [] then (0, None)
      else
        fold (\<lambda>cat (m, worst).
          case map_of cats cat of
            None \<Rightarrow> (m, worst)
          | Some cs \<Rightarrow> if worst = None \<or> c_Score cs < m then (c_Score cs, Some cat) else (m, worst))
          AllCategories (categoryBase, None))"

section \<open>The verdict\<close>

definition hasCriticalSignal :: "Fired \<Rightarrow> Fired \<Rightarrow> bool" where
  "hasCriticalSignal primitives compnd =
     (list_ex (\<lambda>(_, f). f_Severity f = SevCritical) primitives \<or>
      list_ex (\<lambda>(_, f). f_Severity f = SevCritical) compnd)"

definition absF :: "rat \<Rightarrow> rat" where
  "absF x = (if x < 0 then - x else x)"

definition topRationale :: "Fired \<Rightarrow> Fired \<Rightarrow> nat \<Rightarrow> string list" where
  "topRationale primitives compnd n =
     (let all = filter (\<lambda>f. f_Severity f \<noteq> SevInfo) (map snd primitives) @ map snd compnd
      in map f_ID (take n
           (sort_key (\<lambda>f. (- Rank (f_Severity f), - absF (f_Weight f), f_ID f)) all)))"

definition resolveVerdict :: "int \<Rightarrow> Fired \<Rightarrow> Fired \<Rightarrow> Options \<Rightarrow> Verdict \<times> Resolution" where
  "resolveVerdict overall primitives compnd opts =
     (let rationale = topRationale primitives compnd 3;
          hasCritical = hasCriticalSignal primitives compnd;
          safe = o_SafeUpgradeVersion opts;
          alt = o_Alternative opts;
          upgrade = (\<lambda>summary. (VerdictUpgradeAvailable,
            (resolution VerdictUpgradeAvailable summary)\<lparr>r_SafeVersion := safe, r_Rationale := rationale\<rparr>));
          replace = (\<lambda>summary. (VerdictReplace,
            (resolution VerdictReplace summary)\<lparr>r_Alternative := alt, r_Rationale := rationale\<rparr>));
          plain = (\<lambda>v summary. (v, (resolution v summary)\<lparr>r_Rationale := rationale\<rparr>))
      in
      if overall < thresholdQuarantine then
        (if safe \<noteq> [] then upgrade ''High-risk version. Upgrade to a safer version.''
         else if alt \<noteq> [] then replace summary_no_fix_replace
         else plain VerdictQuarantine summary_no_fix_band)
      else if overall < thresholdWarn then
        (if hasCritical then
           (if safe \<noteq> [] then upgrade ''Critical signal present. Upgrade to a safer version.''
            else if alt \<noteq> [] then replace ''Critical signal present. Consider an alternative package.''
            else plain VerdictQuarantine summary_no_fix_critical)
         else if safe \<noteq> [] then upgrade ''Package has notable risk. A safer version is available.''
         else plain VerdictWarn ''Package has notable risk signals. Review before use.'')
      else if hasCritical then
        (if safe \<noteq> [] then upgrade ''Critical signal present despite otherwise-clean categories. Upgrade to a safer version.''
         else if alt \<noteq> [] then replace ''Critical signal present. Consider an alternative package.''
         else plain VerdictQuarantine summary_no_fix_critical)
      else (VerdictAllow, resolution VerdictAllow ''Package shows no blocking risk signals.''))"

definition ResolveVerdictFromScore :: "int \<Rightarrow> Fired \<Rightarrow> Fired \<Rightarrow> Options \<Rightarrow> Verdict \<times> Resolution" where
  "ResolveVerdictFromScore = resolveVerdict"

section \<open>Upgrade promotion\<close>

definition upgradeVetoCategories :: "Category set" where
  "upgradeVetoCategories = {CategorySupplyChain, CategoryQuality}"

text \<open>The walk over the filed signals; \<open>None\<close> is the early return of \<open>false\<close>.\<close>

definition promote_step :: "FiredSignal \<Rightarrow> (Category, rat) gomap option \<Rightarrow> (Category, rat) gomap option" where
  "promote_step f st =
     (case st of
        None \<Rightarrow> None
      | Some deficit \<Rightarrow>
          if 0 \<le> f_Weight f then st
          else if f_Category f \<in> upgradeVetoCategories then None
          else Some (AList.update (f_Category f)
                 (fadd (get_or (map_of deficit) (f_Category f) 0) (- f_Weight f)) deficit))"

definition UpgradePromotionEligible :: "Evaluation option \<Rightarrow> bool" where
  "UpgradePromotionEligible eo =
     (case eo of
        None \<Rightarrow> False
      | Some ev \<Rightarrow>
          if e_Verdict ev \<notin> {VerdictWarn, VerdictQuarantine, VerdictReplace} then False
          else if sc_Overall (e_DirectScore ev) < thresholdQuarantine \<or>
                  sc_Overall (e_RolledUp ev) < thresholdQuarantine then False
          else
            (case fold promote_step
                 (concat (map (\<lambda>(_, cs). c_FiredSignals cs) (sc_Categories (e_DirectScore ev)))) (Some []) of
               None \<Rightarrow> False
             | Some deficit \<Rightarrow>
                 let vuln = get_or (map_of deficit) CategoryVulnerability 0
                 in if vuln \<le> 0 then False
                    else list_all (\<lambda>(cat, d). cat = CategoryVulnerability \<or> \<not> vuln \<le> d) deficit))"

section \<open>Evaluating a package\<close>

definition instantBlockIDs :: "string list" where
  "instantBlockIDs = [SignalSCKnownMalicious, SignalQualChecksumMismatch, SignalSCTransitiveMalware]"

definition instantBlockSummaries :: "string \<Rightarrow> string" where
  "instantBlockSummaries sid =
     (if sid = SignalSCKnownMalicious then ''Known-malicious package '' @ em_dash @ '' do not install.''
      else if sid = SignalQualChecksumMismatch then
        ''Artifact checksum mismatch '' @ em_dash @ '' tampered or corrupted bytes.''
      else if sid = SignalSCTransitiveMalware then
        ''Known-malicious package in the dependency closure '' @ em_dash @ '' do not install.''
      else [])"

definition package_key :: "'a Input_scheme \<Rightarrow> PackageKey" where
  "package_key i = \<lparr>pk_Ecosystem = Ecosystem_in i, pk_Package = Package i, pk_Version = Version_in i\<rparr>"

definition instantBlock :: "'a Input_scheme \<Rightarrow> Options \<Rightarrow> Fired \<Rightarrow> string \<Rightarrow> Evaluation" where
  "instantBlock i opts fired summary =
     (let buckets = fold (\<lambda>(_, f). file_signal f) fired (\<lambda>_. []);
          cats = map (\<lambda>(cat, _).
            (cat, \<lparr>c_Score = 0, c_Grade = ''F'', c_DataAvailable = True, c_FiredSignals = by_severity (buckets cat)\<rparr>))
            CategoryWeights;
          score = \<lparr>sc_Overall = 0, sc_Categories = cats, sc_MinCategoryScore = 0, sc_WorstCategory = None,
            sc_CeilingSignal = []\<rparr>
      in \<lparr>e_Key = package_key i, e_DirectScore = score, e_RolledUp = score, e_Verdict = VerdictQuarantine,
          e_Resolution = resolution VerdictQuarantine summary, e_EvaluatedAt = o_Now opts,
          e_EngineVersion = EngineVersion\<rparr>)"

definition instantBlockFrom :: "'a Input_scheme \<Rightarrow> Options \<Rightarrow> Fired \<Rightarrow> Evaluation option" where
  "instantBlockFrom i opts fired =
     map_option (\<lambda>sid. instantBlock i opts fired (instantBlockSummaries sid))
       (find (\<lambda>sid. map_of fired sid \<noteq> None) instantBlockIDs)"

definition instantBlockEvaluation :: "'a Input_scheme Registry \<Rightarrow> 'a Input_scheme \<Rightarrow> Options \<Rightarrow> Evaluation option" where
  "instantBlockEvaluation reg i opts =
     instantBlockFrom i opts (runNamedPrimitiveSignals reg i (o_SignalWeightOverrides opts) instantBlockIDs)"

definition UnavailableEvaluation :: "'a Input_scheme \<Rightarrow> Options \<Rightarrow> Evaluation" where
  "UnavailableEvaluation i opts =
     (let cats = map (\<lambda>cat. (cat, \<lparr>c_Score = 0, c_Grade = [], c_DataAvailable = False, c_FiredSignals = []\<rparr>))
            AllCategories;
          score = \<lparr>sc_Overall = 0, sc_Categories = cats, sc_MinCategoryScore = 0, sc_WorstCategory = None,
            sc_CeilingSignal = []\<rparr>;
          reason = TrimSpace (UnavailableReason i);
          summary =
            (if reason \<noteq> [] then
               ''Risk signals could not be evaluated for this package ('' @ reason @ '') '' @ em_dash
                 @ '' this is NOT a clean result.''
             else ''Risk signals could not be evaluated for this package '' @ em_dash
                 @ '' this is NOT a clean result.'')
      in \<lparr>e_Key = package_key i, e_DirectScore = score, e_RolledUp = score, e_Verdict = VerdictUnknown,
          e_Resolution = resolution VerdictUnknown summary, e_EvaluatedAt = o_Now opts,
          e_EngineVersion = EngineVersion\<rparr>)"

text \<open>The additive path, after the instant-block checks.\<close>

definition scored_evaluation ::
  "'a Input_scheme Registry \<Rightarrow> 'a Input_scheme CompoundRule list \<Rightarrow> 'a Input_scheme \<Rightarrow> Options \<Rightarrow> Fired \<Rightarrow> Evaluation" where
  "scored_evaluation reg rules i opts fired0 =
     (let compound0 = runCompoundRules rules i fired0 (o_SignalWeightOverrides opts);
          (damped, fired, compnd) =
            (if o_NoEstablishedDamper opts then ([], fired0, compound0)
             else dampEstablished reg rules i fired0 compound0 (o_Now opts));
          catScores = computeCategoryScores fired compnd i;
          (overall, ceilingSignal) =
            applyMaxImpactCeiling reg rules (ComputeOverallWithWeights catScores (o_CategoryWeights opts))
              fired compnd damped;
          (minScore, worst) = minCategoryScore catScores;
          direct = \<lparr>sc_Overall = overall, sc_Categories = catScores, sc_MinCategoryScore = minScore,
            sc_WorstCategory = worst, sc_CeilingSignal = ceilingSignal\<rparr>;
          (verdict, res) = resolveVerdict overall fired compnd opts
      in \<lparr>e_Key = package_key i, e_DirectScore = direct, e_RolledUp = direct, e_Verdict = verdict,
          e_Resolution = res, e_EvaluatedAt = o_Now opts, e_EngineVersion = EngineVersion\<rparr>)"

definition EvaluatePackage ::
  "'a Input_scheme Registry \<Rightarrow> 'a Input_scheme CompoundRule list \<Rightarrow> 'a Input_scheme \<Rightarrow> Options \<Rightarrow> Evaluation" where
  "EvaluatePackage reg rules i opts =
     (if SignalsUnavailable i then
        (case instantBlockEvaluation reg i opts of
           Some ev \<Rightarrow> ev
         | None \<Rightarrow> UnavailableEvaluation i opts)
      else
        let fired = runPrimitiveSignals reg i (o_SignalWeightOverrides opts)
        in case instantBlockFrom i opts fired of
             Some ev \<Rightarrow> ev
           | None \<Rightarrow> scored_evaluation reg rules i opts fired)"

end
