(* ===== verification/RiskScore.thy ===== *)
theory RiskScore
  imports RiskEvaluator
begin

text \<open>
  Properties of the scores: their range, monotonicity of the roll-up in floating point, the effect
  of the order of a weight table, the ceilings, and the weakest category.
\<close>

section \<open>Range\<close>

lemma clamp_range [simp]: "0 \<le> clamp n" "clamp n \<le> 100"
  by (simp_all add: clamp_def)

lemma clamp_mono: "m \<le> n \<Longrightarrow> clamp m \<le> clamp n"
  by (simp add: clamp_def)

lemma weighted_overall_range: "0 \<le> weighted_overall cats ws \<and> weighted_overall cats ws \<le> 100"
  by (simp add: weighted_overall_def overall_of_deficit_def Let_def)

lemma overall_range:
  "0 \<le> ComputeOverallWithWeights cats weights \<and> ComputeOverallWithWeights cats weights \<le> 100"
  using weighted_overall_range
  by (auto simp: ComputeOverallWithWeights_def computeOverall_def split: option.splits)

lemma category_scores_range:
  "(c, cs) \<in> set (computeCategoryScores p q i) \<Longrightarrow> 0 \<le> c_Score cs \<and> c_Score cs \<le> 100"
  by (auto simp: computeCategoryScores_def Let_def split: prod.splits)

section \<open>Monotonicity\<close>

text \<open>Scores that are at most those of another map, over the same categories with data.\<close>

definition scores_le :: "CategoryScores \<Rightarrow> CategoryScores \<Rightarrow> bool" where
  "scores_le a b \<longleftrightarrow>
     (\<forall>c. case (scored a c, scored b c) of
        (None, None) \<Rightarrow> True
      | (Some x, Some y) \<Rightarrow> c_Score x \<le> c_Score y
      | _ \<Rightarrow> False)"

lemma scores_leD:
  assumes "scores_le a b"
  shows "scored a c = None \<longleftrightarrow> scored b c = None"
    and "scored a c = Some x \<Longrightarrow> scored b c = Some y \<Longrightarrow> c_Score x \<le> c_Score y"
  using assms[unfolded scores_le_def, rule_format, of c] by (auto split: option.splits)

lemma available_weight_cong:
  assumes "scores_le a b"
  shows "available_weight a ws = available_weight b ws"
proof -
  have "(\<lambda>(cat, w) acc. case scored a cat of None \<Rightarrow> acc | Some _ \<Rightarrow> fadd acc w) =
      (\<lambda>(cat, w) acc. case scored b cat of None \<Rightarrow> acc | Some _ \<Rightarrow> fadd acc w)"
  proof (intro ext, clarify)
    fix c w acc
    show "(case scored a c of None \<Rightarrow> acc | Some _ \<Rightarrow> fadd acc w) =
        (case scored b c of None \<Rightarrow> acc | Some _ \<Rightarrow> fadd acc w)"
      using scores_leD(1)[OF assms, of c] by (cases "scored a c"; cases "scored b c") simp_all
  qed
  then show ?thesis by (simp add: available_weight_def)
qed

lemma available_weight_nonneg:
  assumes "\<forall>(c, w)\<in>set ws. 0 \<le> w"
  shows "0 \<le> available_weight a ws"
proof -
  have "0 \<le> fold (\<lambda>(cat, w) acc. case scored a cat of None \<Rightarrow> acc | Some _ \<Rightarrow> fadd acc w) ws acc"
    if "0 \<le> acc" for acc
    using that assms
    by (induction ws arbitrary: acc) (auto simp: fadd_def rnd_nonneg split: option.splits)
  then show ?thesis by (simp add: available_weight_def)
qed

lemma deficit_sum_mono:
  assumes le: "scores_le a b" and ws: "\<forall>(c, w)\<in>set ws. 0 \<le> w" and t: "0 \<le> t"
  shows "deficit_sum b t ws \<le> deficit_sum a t ws"
proof -
  let ?step = "\<lambda>cats (cat, w) acc. case scored cats cat of None \<Rightarrow> acc
      | Some cs \<Rightarrow> fadd acc (fmul (rnd (of_int (100 - c_Score cs))) (fdiv w t))"
  have "fold (?step b) ws acc \<le> fold (?step a) ws acc'" if "acc \<le> acc'" for acc acc'
    using that ws
  proof (induction ws arbitrary: acc acc')
    case (Cons x ws)
    obtain c w where x: "x = (c, w)" by fastforce
    with Cons.prems have w: "0 \<le> w" by simp
    have "?step b x acc \<le> ?step a x acc'"
    proof (cases "scored a c")
      case None
      then show ?thesis using scores_leD(1)[OF le, of c] Cons.prems(1) x by simp
    next
      case (Some xa)
      then obtain xb where xb: "scored b c = Some xb" using scores_leD(1)[OF le, of c] by fastforce
      have "rnd (of_int (100 - c_Score xb)) \<le> rnd (of_int (100 - c_Score xa))"
        using scores_leD(2)[OF le Some xb] by (intro rnd_mono) simp
      moreover have "0 \<le> fdiv w t" using w t by (simp add: fdiv_def rnd_nonneg)
      ultimately have "fmul (rnd (of_int (100 - c_Score xb))) (fdiv w t) \<le> fmul (rnd (of_int (100 - c_Score xa))) (fdiv w t)"
        unfolding fmul_def by (intro rnd_mono[of "_ * _"] mult_right_mono)
      then show ?thesis
        using Cons.prems(1) by (auto simp: x Some xb fadd_def intro!: rnd_mono add_mono)
    qed
    then show ?case using Cons.IH Cons.prems(2) by simp
  qed simp
  then show ?thesis by (simp add: deficit_sum_def)
qed

lemma weighted_overall_mono:
  assumes "scores_le a b" and "\<forall>(c, w)\<in>set ws. 0 \<le> w"
  shows "weighted_overall a ws \<le> weighted_overall b ws"
proof (cases "available_weight b ws = 0")
  case True
  then show ?thesis using available_weight_cong[OF assms(1), of ws] by (simp add: weighted_overall_def)
next
  case False
  let ?t = "available_weight b ws"
  have "deficit_sum b ?t ws \<le> deficit_sum a ?t ws"
    using assms by (intro deficit_sum_mono available_weight_nonneg)
  then have "trunc (fadd (deficit_sum b ?t ws) (1 / 2)) \<le> trunc (fadd (deficit_sum a ?t ws) (1 / 2))"
    unfolding fadd_def by (intro trunc_mono rnd_mono) simp
  then show ?thesis
    using False available_weight_cong[OF assms(1), of ws]
    by (simp add: weighted_overall_def overall_of_deficit_def Let_def clamp_mono)
qed

lemma CategoryWeights_nonneg: "\<forall>(c, w)\<in>set (map (\<lambda>cat. (cat, get_or (map_of CategoryWeights) cat 0)) AllCategories). 0 \<le> w"
  by (simp add: AllCategories_def CategoryWeights_def get_or_def rnd_nonneg)

text \<open>
  The overall score is monotone although it is computed in floating point: if the same categories
  have data and none scores higher, the overall score is not higher, for the built-in weights
  and for every table of non-negative weights; and it always lies between 0 and 100.
\<close>

theorem overall_monotone:
  assumes "scores_le a b" and "\<forall>ws. weights = Some ws \<longrightarrow> (\<forall>(c, w)\<in>set ws. 0 \<le> w)"
  shows "ComputeOverallWithWeights a weights \<le> ComputeOverallWithWeights b weights \<and>
    0 \<le> ComputeOverallWithWeights a weights \<and> ComputeOverallWithWeights b weights \<le> 100"
proof -
  have "ComputeOverallWithWeights a weights \<le> ComputeOverallWithWeights b weights"
    using assms weighted_overall_mono[OF assms(1)] weighted_overall_mono[OF assms(1) CategoryWeights_nonneg]
    by (auto simp: ComputeOverallWithWeights_def computeOverall_def split: option.splits)
  then show ?thesis using overall_range by blast
qed

definition cat_score :: "int \<Rightarrow> CategoryScore" where
  "cat_score n = \<lparr>c_Score = n, c_Grade = gradeForScore n, c_DataAvailable = True, c_FiredSignals = []\<rparr>"

theorem overall_monotone_witness:
  "ComputeOverallWithWeights [(CategoryQuality, cat_score 20)] None
     \<le> ComputeOverallWithWeights [(CategoryQuality, cat_score 80)] None"
proof -
  have "scores_le [(CategoryQuality, cat_score 20)] [(CategoryQuality, cat_score 80)]"
    by (simp add: scores_le_def scored_def cat_score_def)
  from overall_monotone[OF this, of None] show ?thesis by simp
qed

section \<open>The order of a weight table\<close>

text \<open>The roundings of the two sums below, each by its value scaled to 53 bits.\<close>

lemma order_example_steps:
  "rnd (7 / 10) = 3152519739159347 / 4503599627370496"
  "rnd (3 / 20) = 5404319552844595 / 36028797018963968"
  "fadd 0 (3152519739159347 / 4503599627370496) = 3152519739159347 / 4503599627370496"
  "fadd (3152519739159347 / 4503599627370496) (5404319552844595 / 36028797018963968) = 7656119366529843 / 9007199254740992"
  "fadd (7656119366529843 / 9007199254740992) (5404319552844595 / 36028797018963968) = 1"
  "fdiv (3152519739159347 / 4503599627370496) 1 = 3152519739159347 / 4503599627370496"
  "fmul 42 (3152519739159347 / 4503599627370496) = 4137682157646643 / 140737488355328"
  "fadd 0 (4137682157646643 / 140737488355328) = 4137682157646643 / 140737488355328"
  "fdiv (5404319552844595 / 36028797018963968) 1 = 5404319552844595 / 36028797018963968"
  "fmul 2 (5404319552844595 / 36028797018963968) = 5404319552844595 / 18014398509481984"
  "fadd (4137682157646643 / 140737488355328) (5404319552844595 / 18014398509481984) = 8359806808306483 / 281474976710656"
  "fmul 72 (5404319552844595 / 36028797018963968) = 6079859496950169 / 562949953421312"
  "fadd (8359806808306483 / 281474976710656) (6079859496950169 / 562949953421312) = 81 / 2"
  "fadd (81 / 2) (1 / 2) = 41"
  "fadd (4137682157646643 / 140737488355328) (6079859496950169 / 562949953421312) = 5657647031884185 / 140737488355328"
  "fadd (5657647031884185 / 140737488355328) (5404319552844595 / 18014398509481984) = 5699868278390783 / 140737488355328"
  "fadd (5699868278390783 / 140737488355328) (1 / 2) = 5770237022568447 / 140737488355328"
proof -
  show "rnd (7 / 10) = 3152519739159347 / 4503599627370496"
    using rnd_eqI[of "7 / 10" 53 6305039478318694] by (simp)
  show "rnd (3 / 20) = 5404319552844595 / 36028797018963968"
    using rnd_eqI[of "3 / 20" 55 5404319552844595] by (simp)
  show "fadd 0 (3152519739159347 / 4503599627370496) = 3152519739159347 / 4503599627370496"
    using rnd_eqI[of "0 + (3152519739159347 / 4503599627370496)" 53 6305039478318694] by (simp add: fadd_def)
  show "fadd (3152519739159347 / 4503599627370496) (5404319552844595 / 36028797018963968) = 7656119366529843 / 9007199254740992"
    using rnd_eqI[of "(3152519739159347 / 4503599627370496) + (5404319552844595 / 36028797018963968)" 53 7656119366529843] by (simp add: fadd_def)
  show "fadd (7656119366529843 / 9007199254740992) (5404319552844595 / 36028797018963968) = 1"
    using rnd_eqI[of "(7656119366529843 / 9007199254740992) + (5404319552844595 / 36028797018963968)" 53 9007199254740992] by (simp add: fadd_def)
  show "fdiv (3152519739159347 / 4503599627370496) 1 = 3152519739159347 / 4503599627370496"
    using rnd_eqI[of "(3152519739159347 / 4503599627370496) / 1" 53 6305039478318694] by (simp add: fdiv_def)
  show "fmul 42 (3152519739159347 / 4503599627370496) = 4137682157646643 / 140737488355328"
    using rnd_eqI[of "42 * (3152519739159347 / 4503599627370496)" 48 8275364315293286] by (simp add: fmul_def)
  show "fadd 0 (4137682157646643 / 140737488355328) = 4137682157646643 / 140737488355328"
    using rnd_eqI[of "0 + (4137682157646643 / 140737488355328)" 48 8275364315293286] by (simp add: fadd_def)
  show "fdiv (5404319552844595 / 36028797018963968) 1 = 5404319552844595 / 36028797018963968"
    using rnd_eqI[of "(5404319552844595 / 36028797018963968) / 1" 55 5404319552844595] by (simp add: fdiv_def)
  show "fmul 2 (5404319552844595 / 36028797018963968) = 5404319552844595 / 18014398509481984"
    using rnd_eqI[of "2 * (5404319552844595 / 36028797018963968)" 54 5404319552844595] by (simp add: fmul_def)
  show "fadd (4137682157646643 / 140737488355328) (5404319552844595 / 18014398509481984) = 8359806808306483 / 281474976710656"
    using rnd_eqI[of "(4137682157646643 / 140737488355328) + (5404319552844595 / 18014398509481984)" 48 8359806808306483] by (simp add: fadd_def)
  show "fmul 72 (5404319552844595 / 36028797018963968) = 6079859496950169 / 562949953421312"
    using rnd_eqI[of "72 * (5404319552844595 / 36028797018963968)" 49 6079859496950169] by (simp add: fmul_def)
  show "fadd (8359806808306483 / 281474976710656) (6079859496950169 / 562949953421312) = 81 / 2"
    using rnd_eqI[of "(8359806808306483 / 281474976710656) + (6079859496950169 / 562949953421312)" 47 5699868278390784] by (simp add: fadd_def)
  show "fadd (81 / 2) (1 / 2) = 41"
    using rnd_eqI[of "(81 / 2) + (1 / 2)" 47 5770237022568448] by (simp add: fadd_def)
  show "fadd (4137682157646643 / 140737488355328) (6079859496950169 / 562949953421312) = 5657647031884185 / 140737488355328"
    using rnd_eqI[of "(4137682157646643 / 140737488355328) + (6079859496950169 / 562949953421312)" 47 5657647031884185] by (simp add: fadd_def)
  show "fadd (5657647031884185 / 140737488355328) (5404319552844595 / 18014398509481984) = 5699868278390783 / 140737488355328"
    using rnd_eqI[of "(5657647031884185 / 140737488355328) + (5404319552844595 / 18014398509481984)" 47 5699868278390783] by (simp add: fadd_def)
  show "fadd (5699868278390783 / 140737488355328) (1 / 2) = 5770237022568447 / 140737488355328"
    using rnd_eqI[of "(5699868278390783 / 140737488355328) + (1 / 2)" 47 5770237022568447] by (simp add: fadd_def)
qed

text \<open>
  With the weights of an organisation the score depends on the order in which the runtime
  enumerates the weight map, because floating-point addition is not associative and the sum is
  rounded: for one table and one set of category scores, one order gives 59, in the warn band,
  and another gives 60, which is allowed.
\<close>

theorem weights_order_dependent:
  "let scores = [(CategoryVulnerability, cat_score 58), (CategorySupplyChain, cat_score 28),
         (CategoryQuality, cat_score 98)];
       v = (CategoryVulnerability, rnd (70 / 100));
       s = (CategorySupplyChain, rnd (15 / 100));
       q = (CategoryQuality, rnd (15 / 100))
   in ComputeOverallWithWeights scores (Some [v, q, s]) = thresholdWarn - 1 \<and>
      ComputeOverallWithWeights scores (Some [v, s, q]) = thresholdWarn"
proof -
  have ints: "rnd 42 = 42" "rnd 72 = 72" "rnd 2 = 2"
    using rnd_int[of 42] rnd_int[of 72] rnd_int[of 2] by simp_all
  show ?thesis
    by (simp add: ComputeOverallWithWeights_def weighted_overall_def available_weight_def deficit_sum_def
        scored_def cat_score_def order_example_steps ints overall_of_deficit_def clamp_def thresholds trunc_def Let_def floor_eq_iff)
qed

end
