(* ===== verification/RiskVerdict.thy ===== *)
theory RiskVerdict
  imports RiskScore
begin

text \<open>
  Properties of one evaluation: which signals fire, the instant block, unavailable packages,
  critical signals, ceilings, the damper, and the upgrade promotion.
\<close>

section \<open>Fired signals\<close>

lemma update_new: "k \<notin> fst ` set al \<Longrightarrow> AList.update k v al = al @ [(k, v)]"
  by (induction al) auto

text \<open>A loop that files the results of distinct keys builds the list of the results.\<close>

lemma fold_update_filter:
  assumes "distinct (map key xs)" and "key ` set xs \<inter> fst ` set acc = {}"
  shows "fold (\<lambda>x out. case g x of None \<Rightarrow> out | Some v \<Rightarrow> AList.update (key x) v out) xs acc =
    acc @ List.map_filter (\<lambda>x. map_option (Pair (key x)) (g x)) xs"
  using assms
proof (induction xs arbitrary: acc)
  case (Cons x xs)
  then show ?case
    by (cases "g x") (auto simp: update_new map_filter_simps)
qed (simp add: map_filter_simps)

lemma runPrimitiveSignals_filter:
  assumes "gomap_ok reg"
  shows "runPrimitiveSignals reg i ov =
    List.map_filter (\<lambda>(sid, sig). map_option (Pair sid) (run_signal ov i sid sig)) reg"
  using fold_update_filter[of fst reg "[]" "\<lambda>(sid, sig). run_signal ov i sid sig"] assms
  by (simp add: runPrimitiveSignals_def gomap_ok_def split_def)

lemma runCompoundRules_filter:
  assumes "rules_ok rules"
  shows "runCompoundRules rules i prims ov =
    List.map_filter (\<lambda>rule. map_option (Pair (cr_ID rule)) (run_rule ov i prims rule)) rules"
  using fold_update_filter[of cr_ID rules "[]" "run_rule ov i prims"] assms
  by (simp add: runCompoundRules_def rules_ok_def)

lemma map_of_map_filter:
  assumes "distinct (map key xs)" and "x \<in> set xs"
  shows "map_of (List.map_filter (\<lambda>x. map_option (Pair (key x)) (g x)) xs) (key x) = g x"
  using assms
proof (induction xs)
  case (Cons y xs)
  have none: "map_of (List.map_filter (\<lambda>x. map_option (Pair (key x)) (g x)) xs) (key y) = None"
    using Cons.prems(1) by (auto simp: map_of_eq_None_iff map_filter_def)
  show ?case
  proof (cases "x = y")
    case True
    with none show ?thesis by (cases "g y") (simp_all add: map_filter_simps)
  next
    case False
    with Cons.prems have "x \<in> set xs" by auto
    moreover from this have "key x \<in> key ` set xs" by (rule imageI)
    ultimately have "key x \<noteq> key y" using Cons.prems(1) by fastforce
    with Cons False \<open>x \<in> set (y # xs)\<close> show ?thesis by (cases "g y") (simp_all add: map_filter_simps)
  qed
qed simp

lemma fired_iff:
  assumes "gomap_ok reg"
  shows "map_of (runPrimitiveSignals reg i ov) sid = Option.bind (map_of reg sid) (run_signal ov i sid)"
proof (cases "map_of reg sid")
  case None
  then have "sid \<notin> fst ` set reg" by (simp add: map_of_eq_None_iff)
  then have "sid \<notin> fst ` set (runPrimitiveSignals reg i ov)"
    by (force simp: runPrimitiveSignals_filter[OF assms] map_filter_def)
  then have "map_of (runPrimitiveSignals reg i ov) sid = None" by (simp add: map_of_eq_None_iff)
  with None show ?thesis by simp
next
  case (Some sig)
  then have "(sid, sig) \<in> set reg" by (rule map_of_SomeD)
  from map_of_map_filter[OF _ this, of fst "\<lambda>(sid, sig). run_signal ov i sid sig"] assms Some
  show ?thesis by (simp add: runPrimitiveSignals_filter gomap_ok_def split_def)
qed

lemma fired_member:
  assumes "gomap_ok reg" and "map_of reg t = Some sig" and "fst (s_Fires sig i)"
  shows "t \<in> set (map fst (runPrimitiveSignals reg i ov))"
proof -
  have "run_signal ov i t sig \<noteq> None" using assms(3) by (auto simp: run_signal_def Let_def split: prod.splits)
  then have "map_of (runPrimitiveSignals reg i ov) t \<noteq> None" using assms(2) by (simp add: fired_iff[OF assms(1)])
  then show ?thesis by (simp add: map_of_eq_None_iff)
qed

lemma takeover_fired:
  assumes "gomap_ok reg" and "map_of reg t = Some sig" and "fst (s_Fires sig i)" and "s_TakeoverIndicator sig"
  shows "list_ex (sig_flag s_TakeoverIndicator reg) (map fst (runPrimitiveSignals reg i ov))"
proof -
  have "sig_flag s_TakeoverIndicator reg t" using assms(2,4) by (simp add: sig_flag_def)
  with fired_member[OF assms(1-3)] show ?thesis unfolding list_ex_iff by blast
qed

lemma map_filter_keys_distinct:
  "distinct (map key xs) \<Longrightarrow> distinct (map fst (List.map_filter (\<lambda>x. map_option (Pair (key x)) (g x)) xs))"
proof (induction xs)
  case (Cons x xs)
  have "fst ` set (List.map_filter (\<lambda>x. map_option (Pair (key x)) (g x)) xs) \<subseteq> key ` set xs"
    by (auto simp: map_filter_def)
  with Cons show ?case by (cases "g x") (auto simp: map_filter_simps)
qed (simp add: map_filter_simps)

lemma fired_ok: "gomap_ok reg \<Longrightarrow> gomap_ok (runPrimitiveSignals reg i ov)"
  using map_filter_keys_distinct[of fst reg "\<lambda>(sid, sig). run_signal ov i sid sig"]
  by (simp add: runPrimitiveSignals_filter gomap_ok_def split_def)

lemma compound_ok: "rules_ok rules \<Longrightarrow> gomap_ok (runCompoundRules rules i prims ov)"
  using map_filter_keys_distinct[of cr_ID rules "run_rule ov i prims"]
  by (simp add: runCompoundRules_filter gomap_ok_def rules_ok_def)

lemma run_signal_fires: "run_signal ov i sid sig \<noteq> None \<longleftrightarrow> fst (s_Fires sig i)"
  by (auto simp: run_signal_def Let_def split: prod.splits)

lemma run_signal_ID: "run_signal ov i sid sig = Some f \<Longrightarrow> f_ID f = sid \<and> \<not> f_Compound f \<and> f_Category f = s_Category sig"
  by (auto simp: run_signal_def Let_def split: prod.splits if_splits)

lemma named_fired:
  assumes "distinct ids"
  shows "map_of (runNamedPrimitiveSignals reg i ov ids) sid =
    (if sid \<in> set ids then Option.bind (map_of reg sid) (run_signal ov i sid) else None)"
proof -
  let ?g = "\<lambda>sid. Option.bind (map_of reg sid) (run_signal ov i sid)"
  have step: "(\<lambda>sid out. case map_of reg sid of None \<Rightarrow> out | Some sig \<Rightarrow>
        (case run_signal ov i sid sig of None \<Rightarrow> out | Some f \<Rightarrow> AList.update sid f out)) =
      (\<lambda>sid out. case ?g sid of None \<Rightarrow> out | Some v \<Rightarrow> AList.update sid v out)"
    by (auto simp: fun_eq_iff split: option.splits)
  have eq: "runNamedPrimitiveSignals reg i ov ids = List.map_filter (\<lambda>x. map_option (Pair x) (?g x)) ids"
    using fold_update_filter[of "\<lambda>x. x" ids "[]" ?g] assms unfolding runNamedPrimitiveSignals_def step by simp
  show ?thesis
  proof (cases "sid \<in> set ids")
    case True
    with map_of_map_filter[of "\<lambda>x. x" ids sid ?g] assms show ?thesis by (simp add: eq)
  next
    case False
    then have "sid \<notin> fst ` set (runNamedPrimitiveSignals reg i ov ids)" by (auto simp: eq map_filter_def)
    with False show ?thesis by (simp add: map_of_eq_None_iff)
  qed
qed

section \<open>Instant block\<close>

lemma instant_ids: "distinct instantBlockIDs"
  by (simp add: instantBlockIDs_def SignalSCKnownMalicious_def SignalQualChecksumMismatch_def SignalSCTransitiveMalware_def)

lemma instant_summaries: "sid \<in> set instantBlockIDs \<Longrightarrow> instantBlockSummaries sid \<noteq> []"
  by (auto simp: instantBlockIDs_def instantBlockSummaries_def)

definition blocks_instantly :: "'a Input_scheme Registry \<Rightarrow> 'a Input_scheme \<Rightarrow> bool" where
  "blocks_instantly reg i \<longleftrightarrow>
     (\<exists>sid\<in>set instantBlockIDs. \<exists>sig. map_of reg sid = Some sig \<and> fst (s_Fires sig i))"

lemma instantBlockFrom_iff:
  assumes "\<And>sid. sid \<in> set instantBlockIDs \<Longrightarrow>
    map_of fired sid = Option.bind (map_of reg sid) (run_signal ov i sid)"
  shows "instantBlockFrom i opts fired = None \<longleftrightarrow> \<not> blocks_instantly reg i"
proof -
  have "map_of fired sid \<noteq> None \<longleftrightarrow> (\<exists>sig. map_of reg sid = Some sig \<and> fst (s_Fires sig i))"
    if "sid \<in> set instantBlockIDs" for sid
    using assms[OF that] run_signal_fires[of ov i sid] by (cases "map_of reg sid") simp_all
  then show ?thesis
    unfolding instantBlockFrom_def blocks_instantly_def by (simp add: find_None_iff del: not_None_eq) blast
qed

lemma instantBlockFrom_result:
  assumes "instantBlockFrom i opts fired = Some ev"
  shows "e_Verdict ev = VerdictQuarantine \<and> sc_Overall (e_DirectScore ev) = 0 \<and>
    e_RolledUp ev = e_DirectScore ev \<and> r_Summary (e_Resolution ev) \<noteq> []"
proof -
  from assms obtain sid where sid: "find (\<lambda>sid. map_of fired sid \<noteq> None) instantBlockIDs = Some sid"
    and ev: "ev = instantBlock i opts fired (instantBlockSummaries sid)"
    by (auto simp: instantBlockFrom_def)
  from sid have "sid \<in> set instantBlockIDs" by (auto simp: find_Some_iff)
  with ev instant_summaries show ?thesis by (simp add: instantBlock_def resolution_def Let_def)
qed

lemma instant_cases:
  assumes "gomap_ok reg"
  shows "if blocks_instantly reg i
    then \<exists>fired. instantBlockFrom i opts fired = Some (EvaluatePackage reg rules i opts)
    else EvaluatePackage reg rules i opts =
      (if SignalsUnavailable i then UnavailableEvaluation i opts
       else scored_evaluation reg rules i opts (runPrimitiveSignals reg i (o_SignalWeightOverrides opts)))"
proof -
  let ?ov = "o_SignalWeightOverrides opts"
  have n: "instantBlockEvaluation reg i opts = None \<longleftrightarrow> \<not> blocks_instantly reg i"
    unfolding instantBlockEvaluation_def
    by (rule instantBlockFrom_iff[of _ _ ?ov]) (simp add: named_fired[OF instant_ids])
  have f: "instantBlockFrom i opts (runPrimitiveSignals reg i ?ov) = None \<longleftrightarrow> \<not> blocks_instantly reg i"
    by (rule instantBlockFrom_iff[of _ _ ?ov]) (simp add: fired_iff[OF assms])
  show ?thesis
    using n f by (auto simp: EvaluatePackage_def instantBlockEvaluation_def Let_def split: option.splits)
qed

lemma instant_block_law:
  assumes "gomap_ok reg" and "blocks_instantly reg i"
  shows "e_Verdict (EvaluatePackage reg rules i opts) = VerdictQuarantine \<and>
    sc_Overall (e_DirectScore (EvaluatePackage reg rules i opts)) = 0 \<and>
    sc_Overall (e_RolledUp (EvaluatePackage reg rules i opts)) = 0 \<and>
    r_Summary (e_Resolution (EvaluatePackage reg rules i opts)) \<noteq> []"
  using instant_cases[OF assms(1), of i opts rules] assms(2)
    instantBlockFrom_result[of i opts _ "EvaluatePackage reg rules i opts"] by auto

lemma unknown_iff:
  assumes "gomap_ok reg"
  shows "(e_Verdict (EvaluatePackage reg rules i opts) = VerdictUnknown) =
      (SignalsUnavailable i \<and> \<not> blocks_instantly reg i)"
proof -
  have "fst (resolveVerdict n p q opts) \<noteq> VerdictUnknown" for n p q
    by (simp add: resolveVerdict_def Let_def)
  then have "e_Verdict (scored_evaluation reg rules i opts fired) \<noteq> VerdictUnknown" for fired
    by (simp add: scored_evaluation_def Let_def split_def)
  moreover have "e_Verdict (UnavailableEvaluation i opts) = VerdictUnknown"
    by (simp add: UnavailableEvaluation_def Let_def)
  ultimately show ?thesis
    using instant_cases[OF assms, of i opts rules] instantBlockFrom_result[of i opts _ "EvaluatePackage reg rules i opts"]
    by (cases "blocks_instantly reg i"; cases "SignalsUnavailable i") auto
qed

text \<open>
  C5: An outage is never reported as a clean result: a package whose signals are unavailable is
  either quarantined by an instant block or gets the verdict unknown, and unknown is given to no
  other package.
\<close>

theorem unavailable_is_unknown:
  assumes "gomap_ok reg"
  shows "(e_Verdict (EvaluatePackage reg rules i opts) = VerdictUnknown) =
      (SignalsUnavailable i \<and> \<not> blocks_instantly reg i) \<and>
    (if SignalsUnavailable i \<and> blocks_instantly reg i
     then e_Verdict (EvaluatePackage reg rules i opts) = VerdictQuarantine else True)"
  using unknown_iff[OF assms, of rules i opts] instant_cases[OF assms, of i opts rules]
    instantBlockFrom_result[of i opts _ "EvaluatePackage reg rules i opts"]
  by auto

section \<open>The damper\<close>

text \<open>The fired sets that are scored: after the damper, unless the options turn it off.\<close>

definition damped_sets ::
  "'a Input_scheme Registry \<Rightarrow> 'a Input_scheme CompoundRule list \<Rightarrow> 'a Input_scheme \<Rightarrow> Options \<Rightarrow> Fired \<Rightarrow>
   string list \<times> Fired \<times> Fired" where
  "damped_sets reg rules i opts fired =
     (let compnd = runCompoundRules rules i fired (o_SignalWeightOverrides opts)
      in if o_NoEstablishedDamper opts then ([], fired, compnd)
         else dampEstablished reg rules i fired compnd (o_Now opts))"

lemma mark_simps [simp]:
  "f_ID (mark h r f) = f_ID f" "f_Category (mark h r f) = f_Category f" "f_Severity (mark h r f) = f_Severity f"
  "f_Compound (mark h r f) = f_Compound f" "f_Title (mark h r f) = f_Title f" "f_Detail (mark h r f) = f_Detail f"
  by (simp_all add: mark_def)

lemma mark_all_simps [simp]:
  "map fst (mark_all P h r m) = map fst m" "gomap_ok (mark_all P h r m) = gomap_ok m"
  "fst ` set (mark_all P h r m) = fst ` set m"
  "mark_all (\<lambda>_. False) h r m = m"
  by (auto simp: mark_all_def gomap_ok_def o_def split_def image_image)

lemma mark_all_critical [simp]:
  "list_ex (\<lambda>(_, f). f_Severity f = SevCritical) (mark_all P h r m) = list_ex (\<lambda>(_, f). f_Severity f = SevCritical) m"
  by (induction m) (auto simp: mark_all_def split: if_splits)

lemma map_of_mark_all: "map_of (mark_all P h r m) sid = map_option (if P sid then mark h r else (\<lambda>f. f)) (map_of m sid)"
  by (induction m) (auto simp: mark_all_def)

lemma dampEstablished_cases:
  obtains (off) "dampEstablished reg rules i fired compnd now = ([], fired, compnd)"
  | (on) reason popular C where
      "dampEstablished reg rules i fired compnd now =
        (filter (sig_flag s_DampEstablished reg) (map fst fired) @ C,
         mark_all (sig_flag s_DampEstablished reg) True reason fired,
         mark_all (\<lambda>sid. sid \<in> set C) False popular compnd)"
      "\<And>sid. sid \<in> set C \<Longrightarrow> \<exists>r\<in>set rules. cr_ID r = sid \<and> cr_DampEstablished r"
      "\<not> list_ex (sig_flag s_TakeoverIndicator reg) (map fst fired)"
      "\<And>r. r \<in> set rules \<Longrightarrow> map_of compnd (cr_ID r) \<noteq> None \<Longrightarrow> cr_DampEstablished r"
proof -
  let ?reason = "establishedInputReason i now"
  let ?popular = "EstablishedReason (Downloads i) (DownloadsWindow i) (WeeklyDownloads i) 0 None now"
  let ?present = "filter (\<lambda>rule. map_of compnd (cr_ID rule) \<noteq> None) rules"
  let ?C = "if ?popular \<noteq> [] then map cr_ID ?present else []"
  consider "dampEstablished reg rules i fired compnd now = ([], fired, compnd)"
    | "\<not> list_ex (\<lambda>rule. \<not> cr_DampEstablished rule) ?present"
      "\<not> list_ex (sig_flag s_TakeoverIndicator reg) (map fst fired)"
      "dampEstablished reg rules i fired compnd now =
        (filter (sig_flag s_DampEstablished reg) (map fst fired) @ ?C,
         mark_all (sig_flag s_DampEstablished reg) True ?reason fired,
         mark_all (\<lambda>sid. sid \<in> set ?C) False ?popular compnd)"
    unfolding dampEstablished_def Let_def by argo
  then show thesis
  proof cases
    case 1
    then show ?thesis by (rule off)
  next
    case 2
    then show ?thesis
      by (intro on[of ?C ?reason ?popular]) (auto simp: list_ex_iff split: if_splits)
  qed
qed

lemma damped_facts:
  assumes "damped_sets reg rules i opts fired = (D, p, q)"
  defines "compnd \<equiv> runCompoundRules rules i fired (o_SignalWeightOverrides opts)"
  shows "map fst p = map fst fired" and "map fst q = map fst compnd"
    and "hasCriticalSignal p q = hasCriticalSignal fired compnd"
    and "\<forall>sid\<in>set D. sig_flag s_DampEstablished reg sid \<or> (\<exists>r\<in>set rules. cr_ID r = sid \<and> cr_DampEstablished r)"
    and "list_ex (sig_flag s_TakeoverIndicator reg) (map fst fired) \<or>
      (\<exists>r\<in>set rules. map_of compnd (cr_ID r) \<noteq> None \<and> \<not> cr_DampEstablished r) \<Longrightarrow> (D, p, q) = ([], fired, compnd)"
proof -
  have "(map fst p = map fst fired \<and> map fst q = map fst compnd \<and>
      hasCriticalSignal p q = hasCriticalSignal fired compnd \<and>
      (\<forall>sid\<in>set D. sig_flag s_DampEstablished reg sid \<or> (\<exists>r\<in>set rules. cr_ID r = sid \<and> cr_DampEstablished r))) \<and>
      (list_ex (sig_flag s_TakeoverIndicator reg) (map fst fired) \<or>
       (\<exists>r\<in>set rules. map_of compnd (cr_ID r) \<noteq> None \<and> \<not> cr_DampEstablished r) \<longrightarrow> (D, p, q) = ([], fired, compnd))"
  proof (cases "o_NoEstablishedDamper opts")
    case True
    with assms(1) show ?thesis by (auto simp: damped_sets_def Let_def compnd_def)
  next
    case False
    with assms(1) have d: "dampEstablished reg rules i fired compnd (o_Now opts) = (D, p, q)"
      by (simp add: damped_sets_def Let_def compnd_def)
    show ?thesis
      by (cases rule: dampEstablished_cases[of reg rules i fired compnd "o_Now opts"])
        (use d in \<open>auto simp: hasCriticalSignal_def\<close>)
  qed
  then show "map fst p = map fst fired" and "map fst q = map fst compnd"
    and "hasCriticalSignal p q = hasCriticalSignal fired compnd"
    and "\<forall>sid\<in>set D. sig_flag s_DampEstablished reg sid \<or> (\<exists>r\<in>set rules. cr_ID r = sid \<and> cr_DampEstablished r)"
    and "list_ex (sig_flag s_TakeoverIndicator reg) (map fst fired) \<or>
      (\<exists>r\<in>set rules. map_of compnd (cr_ID r) \<noteq> None \<and> \<not> cr_DampEstablished r) \<Longrightarrow> (D, p, q) = ([], fired, compnd)"
    by blast+
qed

section \<open>Ceilings\<close>

text \<open>The ceiling in force is the best of the candidates in a strict order, the least ID first among equals.\<close>

definition cap_better :: "int \<times> string \<Rightarrow> int \<times> string \<Rightarrow> bool" where
  "cap_better x y = (fst x < fst y \<or> fst x = fst y \<and> snd x < snd y)"

interpretation cap_choice: strict_choice cap_better
  by unfold_locales (auto simp: cap_better_def)

definition cap_candidates :: "(string \<times> int) list \<Rightarrow> (int \<times> string) list" where
  "cap_candidates caps = map (\<lambda>(sid, m). (m, sid)) (filter (\<lambda>(sid, m). 0 < m) caps)"

lemma fold_consider_Some:
  "fold (\<lambda>(sid, m). consider_cap sid m) caps (Some b) =
    Some (fold (\<lambda>m best. if cap_better m best then m else best) (cap_candidates caps) b)"
  by (induction caps arbitrary: b)
    (auto simp: cap_candidates_def consider_cap_def cap_better_def split: prod.splits)

lemma fold_consider:
  "fold (\<lambda>(sid, m). consider_cap sid m) caps None =
    (if cap_candidates caps = [] then None else Some (pick_best cap_better (cap_candidates caps)))"
proof (induction caps)
  case (Cons x caps)
  obtain sid m where x: "x = (sid, m)" by fastforce
  show ?case
  proof (cases "0 < m")
    case True
    then have "fold (\<lambda>(sid, m). consider_cap sid m) (x # caps) None = fold (\<lambda>(sid, m). consider_cap sid m) caps (Some (m, sid))"
      by (simp add: x consider_cap_def)
    with True show ?thesis
      unfolding fold_consider_Some by (simp add: x cap_candidates_def pick_best_def)
  next
    case False
    then have "fold (\<lambda>(sid, m). consider_cap sid m) (x # caps) None = fold (\<lambda>(sid, m). consider_cap sid m) caps None"
      "cap_candidates (x # caps) = cap_candidates caps"
      by (simp_all add: x consider_cap_def cap_candidates_def)
    with Cons.IH show ?thesis by metis
  qed
qed (simp add: cap_candidates_def)

lemma ceiling_le_overall: "fst (applyMaxImpactCeiling reg rules n p q D) \<le> n"
  by (auto simp: applyMaxImpactCeiling_def split: option.splits)

lemma ceiling_holds:
  assumes "(sid, m) \<in> set (caps_of reg rules p q D)" and "0 < m"
  shows "fst (applyMaxImpactCeiling reg rules n p q D) \<le> m"
proof -
  let ?c = "cap_candidates (caps_of reg rules p q D)"
  have c: "(m, sid) \<in> set ?c" using assms by (force simp: cap_candidates_def)
  then have "?c \<noteq> []" by auto
  then have "fold (\<lambda>(sid, m). consider_cap sid m) (caps_of reg rules p q D) None = Some (pick_best cap_better ?c)"
    by (simp add: fold_consider)
  moreover have "fst (pick_best cap_better ?c) \<le> m"
    using cap_choice.pick_best_least[OF c] by (auto simp: cap_better_def)
  ultimately show ?thesis by (auto simp: applyMaxImpactCeiling_def split: prod.splits)
qed

lemma caps_of_primitive:
  assumes "sid \<in> fst ` set p" and "map_of reg sid = Some sig" and "sid \<notin> set D"
  shows "(sid, s_MaxImpact sig) \<in> set (caps_of reg rules p q D)"
  using assms by (force simp: caps_of_def map_filter_def)

section \<open>The verdict\<close>

text \<open>The evaluation of a package that is neither blocked instantly nor unavailable.\<close>

lemma scored_fields:
  assumes "damped_sets reg rules i opts fired = (D, p, q)"
  defines "ev \<equiv> scored_evaluation reg rules i opts fired"
  shows "(sc_Overall (e_DirectScore ev), sc_CeilingSignal (e_DirectScore ev)) =
      applyMaxImpactCeiling reg rules (ComputeOverallWithWeights (computeCategoryScores p q i) (o_CategoryWeights opts)) p q D"
    and "sc_Categories (e_DirectScore ev) = computeCategoryScores p q i"
    and "(e_Verdict ev, e_Resolution ev) = resolveVerdict (sc_Overall (e_DirectScore ev)) p q opts"
    and "e_RolledUp ev = e_DirectScore ev"
  using assms by (simp_all add: scored_evaluation_def damped_sets_def Let_def split_def)

definition evaluated :: "'a Input_scheme Registry \<Rightarrow> 'a Input_scheme \<Rightarrow> bool" where
  "evaluated reg i \<longleftrightarrow> \<not> SignalsUnavailable i \<and> \<not> blocks_instantly reg i"

lemma evaluated_scored:
  "gomap_ok reg \<Longrightarrow> evaluated reg i \<Longrightarrow> EvaluatePackage reg rules i opts =
    scored_evaluation reg rules i opts (runPrimitiveSignals reg i (o_SignalWeightOverrides opts))"
  using instant_cases[of reg i opts rules] by (simp add: evaluated_def)

lemma resolveVerdict_verdict:
  "fst (resolveVerdict n p q opts) =
    (if hasCriticalSignal p q \<or> n < thresholdQuarantine then
       if o_SafeUpgradeVersion opts \<noteq> [] then VerdictUpgradeAvailable
       else if o_Alternative opts \<noteq> [] then VerdictReplace else VerdictQuarantine
     else if n < thresholdWarn then
       if o_SafeUpgradeVersion opts \<noteq> [] then VerdictUpgradeAvailable else VerdictWarn
     else VerdictAllow)"
  by (simp add: resolveVerdict_def Let_def)

lemma verdict_law:
  fixes rules :: "'a Input_scheme CompoundRule list" and opts :: Options
  assumes "gomap_ok reg" and "evaluated reg i"
  defines "ev \<equiv> EvaluatePackage reg rules i opts"
    and "fired \<equiv> runPrimitiveSignals reg i (o_SignalWeightOverrides opts)"
  shows "if hasCriticalSignal fired (runCompoundRules rules i fired (o_SignalWeightOverrides opts))
    then e_Verdict ev \<in> {VerdictUpgradeAvailable, VerdictReplace, VerdictQuarantine} \<and>
      (if o_SafeUpgradeVersion opts = [] \<and> o_Alternative opts = [] then e_Verdict ev = VerdictQuarantine else True)
    else (e_Verdict ev = VerdictAllow) = (thresholdWarn \<le> sc_Overall (e_DirectScore ev))"
proof -
  obtain D p q where d: "damped_sets reg rules i opts fired = (D, p, q)" by (metis prod_cases3)
  have ev: "ev = scored_evaluation reg rules i opts fired"
    using evaluated_scored[OF assms(1,2)] by (simp add: ev_def fired_def)
  note v = scored_fields(3)[OF d, folded ev] damped_facts(3)[OF d]
  from v(1) have "e_Verdict ev = fst (resolveVerdict (sc_Overall (e_DirectScore ev)) p q opts)"
    by (metis fst_conv)
  then show ?thesis unfolding resolveVerdict_verdict v(2) by (simp add: thresholds)
qed

text \<open>
  C7: A package with a critical signal, primitive or compound, is never allowed and never merely
  warned about, whatever its score and even if the damper softened it: without a known safe
  version and alternative it is quarantined. And without a critical signal it is allowed exactly
  if its overall score, after the ceilings, is at least 60.
\<close>

theorem critical_never_allowed:
  fixes rules :: "'a Input_scheme CompoundRule list" and opts :: Options
  assumes "gomap_ok reg" and "evaluated reg i"
  defines "ev \<equiv> EvaluatePackage reg rules i opts"
    and "fired \<equiv> runPrimitiveSignals reg i (o_SignalWeightOverrides opts)"
  shows "if hasCriticalSignal fired (runCompoundRules rules i fired (o_SignalWeightOverrides opts))
    then e_Verdict ev \<in> {VerdictUpgradeAvailable, VerdictReplace, VerdictQuarantine} \<and>
      (if o_SafeUpgradeVersion opts = [] \<and> o_Alternative opts = [] then e_Verdict ev = VerdictQuarantine else True)
    else (e_Verdict ev = VerdictAllow) = (thresholdWarn \<le> sc_Overall (e_DirectScore ev))"
  unfolding ev_def fired_def using assms(1,2) by (rule verdict_law)

lemma ceiling_law:
  assumes "gomap_ok reg" and "evaluated reg i" and "map_of reg sid = Some sig" and "fst (s_Fires sig i)"
    and "0 < s_MaxImpact sig" and "sid \<notin> cr_ID ` set rules"
    and "\<not> s_DampEstablished sig \<or>
      (\<exists>t tsig. map_of reg t = Some tsig \<and> fst (s_Fires tsig i) \<and> s_TakeoverIndicator tsig)"
  shows "sc_Overall (e_DirectScore (EvaluatePackage reg rules i opts)) \<le> s_MaxImpact sig \<and>
    sc_Overall (e_RolledUp (EvaluatePackage reg rules i opts)) \<le> s_MaxImpact sig"
proof -
  let ?fired = "runPrimitiveSignals reg i (o_SignalWeightOverrides opts)"
  obtain D p q where d: "damped_sets reg rules i opts ?fired = (D, p, q)" by (metis prod_cases3)
  have "sid \<notin> set D"
  proof
    assume D: "sid \<in> set D"
    with damped_facts(4)[OF d] assms(6) have "sig_flag s_DampEstablished reg sid" by force
    then have "s_DampEstablished sig" using assms(3) by (simp add: sig_flag_def)
    then have "list_ex (sig_flag s_TakeoverIndicator reg) (map fst ?fired)"
      using assms(7) takeover_fired[OF assms(1)] by blast
    with damped_facts(5)[OF d] have "D = []" by simp
    with D show False by simp
  qed
  moreover have "sid \<in> fst ` set p"
    using fired_member[OF assms(1,3,4)] damped_facts(1)[OF d] by (metis list.set_map)
  ultimately have "(sid, s_MaxImpact sig) \<in> set (caps_of reg rules p q D)"
    using assms(3) by (intro caps_of_primitive)
  from ceiling_holds[OF this assms(5)] scored_fields(1,4)[OF d] show ?thesis
    by (metis evaluated_scored[OF assms(1,2)] fst_conv)
qed

text \<open>
  C12: Ceilings bind: a package on which a signal with a ceiling fires scores at most the ceiling,
  direct and rolled up, whatever the weights and however many other signals fire, unless the
  damper lifted it, which it does only for signals that opted in and never when a signal
  that indicates a takeover fired.
\<close>

theorem ceiling_binds:
  assumes "gomap_ok reg" and "evaluated reg i" and "map_of reg sid = Some sig" and "fst (s_Fires sig i)"
    and "0 < s_MaxImpact sig" and "sid \<notin> cr_ID ` set rules"
    and "\<not> s_DampEstablished sig \<or>
      (\<exists>t tsig. map_of reg t = Some tsig \<and> fst (s_Fires tsig i) \<and> s_TakeoverIndicator tsig)"
  shows "sc_Overall (e_DirectScore (EvaluatePackage reg rules i opts)) \<le> s_MaxImpact sig \<and>
    sc_Overall (e_RolledUp (EvaluatePackage reg rules i opts)) \<le> s_MaxImpact sig"
  using assms by (rule ceiling_law)

text \<open>
  The damper is suspended by evidence of a compromise: on a package on which a signal that
  indicates a takeover fired, or a compound rule that is not dampable, the evaluation is the one
  without the damper.
\<close>

theorem damper_suspended:
  assumes "gomap_ok reg"
    and "(\<exists>t tsig. map_of reg t = Some tsig \<and> fst (s_Fires tsig i) \<and> s_TakeoverIndicator tsig) \<or>
      (\<exists>r\<in>set rules. \<not> cr_DampEstablished r \<and>
        map_of (runCompoundRules rules i (runPrimitiveSignals reg i (o_SignalWeightOverrides opts))
          (o_SignalWeightOverrides opts)) (cr_ID r) \<noteq> None)"
  shows "EvaluatePackage reg rules i opts = EvaluatePackage reg rules i (opts\<lparr>o_NoEstablishedDamper := True\<rparr>)"
proof -
  let ?ov = "o_SignalWeightOverrides opts" and ?opts = "opts\<lparr>o_NoEstablishedDamper := True\<rparr>"
  let ?fired = "runPrimitiveSignals reg i ?ov"
  obtain D p q where d: "damped_sets reg rules i opts ?fired = (D, p, q)" by (metis prod_cases3)
  from assms(2) takeover_fired[OF assms(1)] damped_facts(5)[OF d]
  have "damped_sets reg rules i opts ?fired = ([], ?fired, runCompoundRules rules i ?fired ?ov)" using d by blast
  then have same: "damped_sets reg rules i opts ?fired = damped_sets reg rules i ?opts ?fired"
    by (simp add: damped_sets_def Let_def)
  have "resolveVerdict n p q ?opts = resolveVerdict n p q opts" for n p q by (simp add: resolveVerdict_def)
  then have "scored_evaluation reg rules i opts ?fired = scored_evaluation reg rules i ?opts ?fired"
    using same unfolding scored_evaluation_def damped_sets_def Let_def by simp
  moreover have "instantBlockFrom i ?opts f = instantBlockFrom i opts f" for f
    by (simp add: instantBlockFrom_def instantBlock_def)
  ultimately show ?thesis
    by (simp add: EvaluatePackage_def instantBlockEvaluation_def UnavailableEvaluation_def Let_def split: option.splits)
qed

section \<open>Upgrade promotion\<close>

text \<open>The filed signals of an evaluation, and the deficit of a category as the walk sums it.\<close>

definition filed :: "Evaluation \<Rightarrow> FiredSignal list" where
  "filed ev = concat (map (\<lambda>(_, cs). c_FiredSignals cs) (sc_Categories (e_DirectScore ev)))"

definition deficit_of :: "FiredSignal list \<Rightarrow> Category \<Rightarrow> rat" where
  "deficit_of fs c = fold (\<lambda>f acc. if f_Weight f < 0 \<and> f_Category f = c then fadd acc (- f_Weight f) else acc) fs 0"

lemma promote_fold:
  assumes "gomap_ok m"
  shows "(if \<exists>f\<in>set fs. f_Weight f < 0 \<and> f_Category f \<in> upgradeVetoCategories
      then fold promote_step fs (Some m) = None
      else \<exists>m'. fold promote_step fs (Some m) = Some m' \<and> gomap_ok m' \<and>
        (\<forall>c. get_or (map_of m') c 0 =
          fold (\<lambda>f acc. if f_Weight f < 0 \<and> f_Category f = c then fadd acc (- f_Weight f) else acc) fs
            (get_or (map_of m) c 0)))"
  using assms
proof (induction fs arbitrary: m)
  case (Cons f fs)
  have none: "fold promote_step fs None = None"
    by (induction fs) (simp_all add: promote_step_def)
  let ?m = "AList.update (f_Category f) (fadd (get_or (map_of m) (f_Category f) 0) (- f_Weight f)) m"
  have ok: "gomap_ok ?m" using Cons.prems distinct_update by (auto simp: gomap_ok_def)
  have get: "get_or (map_of ?m) c 0 =
      (if c = f_Category f then fadd (get_or (map_of m) c 0) (- f_Weight f) else get_or (map_of m) c 0)" for c
    by (simp add: update_conv')
  consider "0 \<le> f_Weight f" | "f_Weight f < 0" "f_Category f \<in> upgradeVetoCategories"
    | "f_Weight f < 0" "f_Category f \<notin> upgradeVetoCategories" by linarith
  then show ?case
  proof cases
    case 1
    then have step: "fold promote_step (f # fs) (Some m) = fold promote_step fs (Some m)" "\<not> f_Weight f < 0"
      by (simp_all add: promote_step_def)
    show ?thesis using Cons.IH[OF Cons.prems] unfolding step(1) by (simp add: step(2))
  next
    case 2
    then have "fold promote_step (f # fs) (Some m) = None" using none by (simp add: promote_step_def)
    with 2 show ?thesis by auto
  next
    case 3
    then have step: "fold promote_step (f # fs) (Some m) = fold promote_step fs (Some ?m)"
      by (simp add: promote_step_def)
    have "(if f_Weight f < 0 \<and> f_Category f = c then fadd (get_or (map_of m) c 0) (- f_Weight f)
        else get_or (map_of m) c 0) = get_or (map_of ?m) c 0" for c
      using 3 by (simp only: get) auto
    with Cons.IH[OF ok] 3 show ?thesis unfolding step by simp
  qed
qed simp

lemma get_or_entries:
  fixes v :: rat
  assumes "gomap_ok m" and "0 < v"
  shows "list_all (\<lambda>(c, d). c = k \<or> \<not> v \<le> d) m \<longleftrightarrow> (\<forall>c. c = k \<or> get_or (map_of m) c 0 < v)"
proof -
  have mem: "get_or (map_of m) c 0 = d" if "(c, d) \<in> set m" for c d
    using that assms(1) by (simp add: gomap_ok_def)
  have out: "get_or (map_of m) c 0 = 0 \<or> (c, get_or (map_of m) c 0) \<in> set m" for c
    by (cases "map_of m c") (auto dest: map_of_SomeD)
  show ?thesis
  proof
    assume l: "list_all (\<lambda>(c, d). c = k \<or> \<not> v \<le> d) m"
    show "\<forall>c. c = k \<or> get_or (map_of m) c 0 < v"
    proof
      fix c
      show "c = k \<or> get_or (map_of m) c 0 < v"
        using out[of c] l assms(2) unfolding list_all_iff by (fastforce simp: not_le)
    qed
  next
    assume r: "\<forall>c. c = k \<or> get_or (map_of m) c 0 < v"
    show "list_all (\<lambda>(c, d). c = k \<or> \<not> v \<le> d) m"
      using r mem by (force simp: list_all_iff not_le)
  qed
qed

text \<open>
  An evaluation may be promoted to an upgrade exactly if its verdict is adverse and was computed,
  neither its direct nor its rolled-up score is in the quarantine band, no signal of the supply
  chain or quality categories counts against the package, and the vulnerability deficit is
  positive and strictly exceeds that of every other category.
\<close>

theorem promotion_gates:
  "UpgradePromotionEligible (Some ev) \<longleftrightarrow>
     e_Verdict ev \<in> {VerdictWarn, VerdictQuarantine, VerdictReplace} \<and>
     thresholdQuarantine \<le> sc_Overall (e_DirectScore ev) \<and> thresholdQuarantine \<le> sc_Overall (e_RolledUp ev) \<and>
     \<not> (\<exists>f\<in>set (filed ev). f_Weight f < 0 \<and> f_Category f \<in> {CategorySupplyChain, CategoryQuality}) \<and>
     0 < deficit_of (filed ev) CategoryVulnerability \<and>
     (\<forall>c. c = CategoryVulnerability \<or> deficit_of (filed ev) c < deficit_of (filed ev) CategoryVulnerability)"
proof -
  have empty: "get_or Map.empty c 0 = (0::rat)" for c :: Category by simp
  have "gomap_ok ([] :: (Category, rat) gomap)" by (simp add: gomap_ok_def)
  then have fold: "if \<exists>f\<in>set (filed ev). f_Weight f < 0 \<and> f_Category f \<in> upgradeVetoCategories
      then fold promote_step (filed ev) (Some []) = None
      else \<exists>m. fold promote_step (filed ev) (Some []) = Some m \<and> gomap_ok m \<and>
        (\<forall>c. get_or (map_of m) c 0 = deficit_of (filed ev) c)"
    using promote_fold[of "[]" "filed ev"] unfolding deficit_of_def map_of.simps empty by blast
  show ?thesis
  proof (cases "\<exists>f\<in>set (filed ev). f_Weight f < 0 \<and> f_Category f \<in> upgradeVetoCategories")
    case True
    with fold have "fold promote_step (filed ev) (Some []) = None" by simp
    with True show ?thesis
      by (auto simp: UpgradePromotionEligible_def filed_def upgradeVetoCategories_def)
  next
    case False
    with fold obtain m where m: "fold promote_step (filed ev) (Some []) = Some m" "gomap_ok m"
      "\<forall>c. get_or (map_of m) c 0 = deficit_of (filed ev) c" by auto
    show ?thesis
    proof (cases "0 < deficit_of (filed ev) CategoryVulnerability")
      case True
      with get_or_entries[OF m(2) True, of CategoryVulnerability] m(3) m(1) False show ?thesis
        by (auto simp: UpgradePromotionEligible_def filed_def upgradeVetoCategories_def Let_def)
    next
      case neg: False
      with m(1,3) show ?thesis
        by (simp add: UpgradePromotionEligible_def filed_def Let_def)
    qed
  qed
qed

section \<open>Concrete instances\<close>

text \<open>A small registry: known malware, a critical vulnerability with a ceiling, a takeover indicator.\<close>

definition demo_signal ::
  "string \<Rightarrow> Category \<Rightarrow> Severity \<Rightarrow> rat \<Rightarrow> int \<Rightarrow> bool \<Rightarrow> bool \<Rightarrow> ('i \<Rightarrow> bool) \<Rightarrow> string \<times> 'i Signal" where
  "demo_signal sid cat sev w mx damp takeover fires =
     (sid, \<lparr>s_ID = sid, s_Category = cat, s_Severity = sev, s_Weight = w, s_Title = sid, s_Description = [],
       s_Fires = (\<lambda>i. (fires i, sid, [])), s_MaxImpact = mx, s_NotTunable = False,
       s_DampEstablished = damp, s_TakeoverIndicator = takeover\<rparr>)"

definition demo_registry :: "'a Input_scheme Registry" where
  "demo_registry =
     [demo_signal SignalSCKnownMalicious CategorySupplyChain SevCritical (- 1000) 0 False False TrivialPackage,
      demo_signal ''vuln.kev'' CategoryVulnerability SevCritical (- 60) 20 False False EnvVarAccess,
      demo_signal ''sc.publisher_changed'' CategorySupplyChain SevHigh (- 20) 40 False True PublisherChanged]"

definition demo_input :: Input where
  "demo_input =
     \<lparr>Ecosystem_in = ''pypi'', Package = ''p'', Version_in = ''1'', SignalsUnavailable = False, UnavailableReason = [],
      PublisherChanged = False, HasInstallScript = False, InstallScriptFetchesRemote = False, EnvVarAccess = False,
      NetworkAccess = False, CapShell = False, CapDynamicEval = False, CapDynamicEvalObserved = False,
      CapDynamicRequire = False, MaliciousIOCKind = [], MaliciousIOCCoupled = False, MaliciousIOCAtEntry = False,
      ImportTimeKind = [], TrivialPackage = False, SLSALevel = 0, VersionAnomalyFlags = [], VulnDataAvailable = True,
      LicenseDataUnavailable = False, FirstPublishedAt = None, VersionCount = 1, WeeklyDownloads = None,
      Downloads = None, DownloadsWindow = []\<rparr>"

definition demo_options :: Options where
  "demo_options =
     \<lparr>o_Now = 0, o_SafeUpgradeVersion = [], o_PerNodeSafeUpgrade = Map.empty, o_Alternative = [],
      o_CategoryWeights = None, o_SignalWeightOverrides = Map.empty, o_NoEstablishedDamper = False\<rparr>"

lemma demo_ok [simp]: "gomap_ok demo_registry"
  by (simp add: gomap_ok_def demo_registry_def demo_signal_def SignalSCKnownMalicious_def)

lemma demo_lookup:
  "map_of demo_registry SignalSCKnownMalicious = Some (snd (demo_registry ! 0))"
  "map_of demo_registry ''vuln.kev'' = Some (snd (demo_registry ! 1))"
  "map_of demo_registry ''sc.publisher_changed'' = Some (snd (demo_registry ! 2))"
  "map_of demo_registry SignalQualChecksumMismatch = None"
  "map_of demo_registry SignalSCTransitiveMalware = None"
  by (simp_all add: demo_registry_def demo_signal_def SignalSCKnownMalicious_def SignalQualChecksumMismatch_def
      SignalSCTransitiveMalware_def)

lemma demo_fires:
  "fst (s_Fires (snd (demo_registry ! 0)) i) = TrivialPackage i"
  "fst (s_Fires (snd (demo_registry ! 1)) i) = EnvVarAccess i"
  "fst (s_Fires (snd (demo_registry ! 2)) i) = PublisherChanged i"
  by (simp_all add: demo_registry_def demo_signal_def)

lemma demo_evaluated: "evaluated demo_registry i \<longleftrightarrow> \<not> SignalsUnavailable i \<and> \<not> TrivialPackage i"
  by (auto simp: evaluated_def blocks_instantly_def instantBlockIDs_def demo_lookup demo_fires)

theorem unavailable_is_unknown_witness:
  "e_Verdict (EvaluatePackage demo_registry CompoundRules (demo_input\<lparr>SignalsUnavailable := True\<rparr>) demo_options) = VerdictUnknown"
proof -
  have "\<not> blocks_instantly demo_registry (demo_input\<lparr>SignalsUnavailable := True\<rparr>)"
    by (auto simp: blocks_instantly_def instantBlockIDs_def demo_lookup demo_fires demo_input_def)
  with unavailable_is_unknown[OF demo_ok, of CompoundRules "demo_input\<lparr>SignalsUnavailable := True\<rparr>" demo_options]
  show ?thesis by simp
qed

text \<open>A known exploited vulnerability: the critical signal fires, and its ceiling is 20.\<close>

definition exploited :: Input where
  "exploited = demo_input\<lparr>EnvVarAccess := True\<rparr>"

lemma exploited_evaluated: "evaluated demo_registry exploited"
  by (simp add: demo_evaluated exploited_def demo_input_def)

theorem critical_never_allowed_witness:
  "e_Verdict (EvaluatePackage demo_registry CompoundRules exploited demo_options) = VerdictQuarantine"
proof -
  have "hasCriticalSignal (runPrimitiveSignals demo_registry exploited Map.empty) q" for q
    unfolding hasCriticalSignal_def runPrimitiveSignals_filter[OF demo_ok]
    by (simp add: map_filter_simps run_signal_def demo_registry_def
        demo_signal_def exploited_def demo_input_def applySignalOverrides_def)
  with critical_never_allowed[OF demo_ok exploited_evaluated, of demo_options CompoundRules]
  show ?thesis by (simp add: demo_options_def)
qed

theorem ceiling_binds_witness:
  "sc_Overall (e_DirectScore (EvaluatePackage demo_registry CompoundRules exploited demo_options)) \<le> 20"
proof -
  have "''vuln.kev'' \<notin> cr_ID ` set (CompoundRules :: Input CompoundRule list)"
    by (simp add: CompoundRules_def compound_rules compound_ids)
  with ceiling_binds[OF demo_ok exploited_evaluated demo_lookup(2), of CompoundRules demo_options]
  show ?thesis by (simp add: demo_registry_def demo_signal_def exploited_def)
qed

theorem damper_suspended_witness:
  "EvaluatePackage demo_registry CompoundRules (demo_input\<lparr>PublisherChanged := True\<rparr>) demo_options =
   EvaluatePackage demo_registry CompoundRules (demo_input\<lparr>PublisherChanged := True\<rparr>)
     (demo_options\<lparr>o_NoEstablishedDamper := True\<rparr>)"
proof (rule damper_suspended[OF demo_ok], intro disjI1 exI conjI)
  show "map_of demo_registry ''sc.publisher_changed'' = Some (snd (demo_registry ! 2))" by (rule demo_lookup)
qed (simp_all add: demo_registry_def demo_signal_def)

end
