(* ===== verification/RiskOrder.thy ===== *)
theory RiskOrder
  imports RiskVerdict
begin

text \<open>
  The evaluation of a package does not depend on the order in which the runtime enumerates the
  registry, nor on that of the maps of fired signals derived from it.
\<close>

section \<open>Permuted maps\<close>

lemma mset_map_filter_cong: "mset xs = mset ys \<Longrightarrow> mset (List.map_filter f xs) = mset (List.map_filter f ys)"
  by (simp add: map_filter_def)

lemma sort_key_perm:
  assumes "mset xs = mset ys" and "inj_on k (set xs)"
  shows "sort_key k xs = sort_key k ys"
  using assms by (intro sort_key_inj_key_eq) simp_all

text \<open>Two enumerations of one map of fired signals, which is keyed by their IDs.\<close>

definition same_fired :: "Fired \<Rightarrow> Fired \<Rightarrow> bool" where
  "same_fired p p' \<longleftrightarrow> mset p = mset p' \<and> gomap_ok p \<and> list_all (\<lambda>(k, f). f_ID f = k) p"

lemma same_firedD:
  assumes "same_fired p p'"
  shows "map_of p = map_of p'" "set p = set p'" "mset (map snd p) = mset (map snd p')" "gomap_ok p'"
    "inj_on f_ID (set (map snd p))" "mset (map fst p) = mset (map fst p')"
proof -
  have m: "mset p = mset p'" and ok: "gomap_ok p" using assms by (auto simp: same_fired_def)
  show "map_of p = map_of p'" by (rule map_of_perm[OF ok m])
  show "set p = set p'" by (rule mset_eq_setD[OF m])
  show "mset (map snd p) = mset (map snd p')" "mset (map fst p) = mset (map fst p')" using m by simp_all
  show "gomap_ok p'" using ok gomap_ok_perm[OF m] by simp
  show "inj_on f_ID (set (map snd p))"
  proof (rule inj_onI)
    fix x y
    assume "x \<in> set (map snd p)" "y \<in> set (map snd p)" and eq: "f_ID x = f_ID y"
    then obtain k l where kl: "(k, x) \<in> set p" "(l, y) \<in> set p" by auto
    then have "f_ID x = k" "f_ID y = l" using assms by (auto simp: same_fired_def list_all_iff)
    then have "k = l" using eq by simp
    with kl ok show "x = y" by (auto simp: gomap_ok_def dest: eq_key_imp_eq_value)
  qed
qed

lemma same_fired_run:
  assumes "gomap_ok reg" and "mset reg = mset reg'"
  shows "same_fired (runPrimitiveSignals reg i ov) (runPrimitiveSignals reg' i ov)"
proof -
  have ok': "gomap_ok reg'" using assms gomap_ok_perm by blast
  have "mset (runPrimitiveSignals reg i ov) = mset (runPrimitiveSignals reg' i ov)"
    unfolding runPrimitiveSignals_filter[OF assms(1)] runPrimitiveSignals_filter[OF ok']
    by (rule mset_map_filter_cong[OF assms(2)])
  moreover have "list_all (\<lambda>(k, f). f_ID f = k) (runPrimitiveSignals reg i ov)"
    by (auto simp: runPrimitiveSignals_filter[OF assms(1)] map_filter_def list_all_iff dest: run_signal_ID)
  ultimately show ?thesis using fired_ok[OF assms(1)] by (simp add: same_fired_def)
qed

lemma same_fired_mark: "same_fired p p' \<Longrightarrow> same_fired (mark_all P h r p) (mark_all P h r p')"
  unfolding same_fired_def mark_all_simps(2) by (auto simp: mark_all_def list_all_iff)

section \<open>Buckets and points\<close>

lemma fold_file:
  "fold (\<lambda>(_, f). file_signal f) p b c = b c @ filter (\<lambda>f. f_Category f = c) (map snd p)"
  by (induction p arbitrary: b) (auto simp: file_signal_def)

lemma by_severity_perm:
  "mset fs = mset gs \<Longrightarrow> inj_on f_ID (set fs) \<Longrightarrow> by_severity fs = by_severity gs"
  unfolding by_severity_def by (rule sort_key_perm) (auto simp: inj_on_def)

lemma filter_category_perm:
  assumes "same_fired p p'"
  shows "by_severity (filter (\<lambda>f. f_Category f = c) (map snd p)) = by_severity (filter (\<lambda>f. f_Category f = c) (map snd p'))"
proof (rule by_severity_perm)
  show "mset (filter (\<lambda>f. f_Category f = c) (map snd p)) = mset (filter (\<lambda>f. f_Category f = c) (map snd p'))"
    using same_firedD(3)[OF assms] by (metis mset_filter)
  show "inj_on f_ID (set (filter (\<lambda>f. f_Category f = c) (map snd p)))"
    using same_firedD(5)[OF assms] by (rule inj_on_subset) auto
qed

lemma instantBlockFrom_perm:
  assumes "same_fired p p'"
  shows "instantBlockFrom i opts p = instantBlockFrom i opts p'"
proof -
  have "instantBlock i opts p s = instantBlock i opts p' s" for s
    using filter_category_perm[OF assms] by (simp add: instantBlock_def Let_def fold_file)
  then show ?thesis unfolding instantBlockFrom_def same_firedD(1)[OF assms] by simp
qed

definition points :: "'a Input_scheme \<Rightarrow> FiredSignal \<Rightarrow> int" where
  "points i f = (case fst (contribution i f) of None \<Rightarrow> 0 | Some n \<Rightarrow> n)"

lemma contribution_simps [simp]:
  "f_ID (snd (contribution i f)) = f_ID f" "f_Category (snd (contribution i f)) = f_Category f"
  by (simp_all add: contribution_def Let_def)

lemma update_present:
  "distinct (map fst m) \<Longrightarrow> c \<in> fst ` set m \<Longrightarrow>
    AList.update c (get_or (map_of m) c 0 + n) m = map (\<lambda>(k, v). (k, if k = c then v + n else v)) m"
proof (induction m)
  case (Cons x m)
  obtain k v where x: "x = (k, v)" by fastforce
  have same: "map (\<lambda>(k, v). (k, if k = c then v + n else v)) m = m" if "c \<notin> fst ` set m"
    using that by (induction m) auto
  show ?case
  proof (cases "k = c")
    case True
    with Cons.prems(1) x same show ?thesis by (simp add: get_or_def)
  next
    case False
    with Cons x show ?thesis by (auto simp: get_or_def)
  qed
qed simp

definition add_all :: "(FiredSignal \<Rightarrow> int) \<Rightarrow> FiredSignal list \<Rightarrow> (Category, int) gomap \<Rightarrow> (Category, int) gomap" where
  "add_all pts fs m = map (\<lambda>(c, n). (c, n + sum_list (map pts (filter (\<lambda>f. f_Category f = c) fs)))) m"

lemma add_all_Cons:
  assumes "distinct (map fst m)" and "f_Category f \<in> fst ` set m"
  shows "add_all pts fs (add_points (f_Category f) (pts f) m) = add_all pts (f # fs) m"
  unfolding add_points_def update_present[OF assms] by (auto simp: add_all_def)

lemma add_points_keys: "c \<in> fst ` set m \<Longrightarrow> map fst (add_points c n m) = map fst m"
  by (auto simp: add_points_def update_keys)

lemma add_all_keys [simp]: "map fst (add_all pts fs m) = map fst m" "fst ` set (add_all pts fs m) = fst ` set m"
  by (auto simp: add_all_def o_def split_def image_image)

lemma fold_primitives:
  assumes "distinct (map fst m)" and "f_Category ` set (map snd p) \<subseteq> fst ` set m"
  shows "fold (score_primitive i \<circ> snd) p (m, b) =
    (add_all (points i) (map snd p) m,
     \<lambda>c. b c @ map (snd \<circ> contribution i) (filter (\<lambda>f. f_Category f = c) (map snd p)))"
  using assms
proof (induction p arbitrary: m b)
  case (Cons x p)
  obtain f where f: "snd x = f" by blast
  have c: "f_Category f \<in> fst ` set m" using Cons.prems(2) f by auto
  show ?case
  proof (cases "fst (contribution i f)")
    case None
    then obtain g where g: "contribution i f = (None, g)" by (cases "contribution i f") auto
    then have "f_Category g = f_Category f" using contribution_simps(2)[of i f] by simp
    moreover have "add_all (points i) (f # fs) m = add_all (points i) fs m" for fs
      using None by (auto simp: add_all_def points_def)
    ultimately show ?thesis
      using Cons.IH[of m] Cons.prems f g
      by (auto simp: score_primitive_def file_signal_def fun_eq_iff)
  next
    case (Some n)
    then obtain g where g: "contribution i f = (Some n, g)" by (cases "contribution i f") auto
    then have cat: "f_Category g = f_Category f" using contribution_simps(2)[of i f] by simp
    let ?m = "add_points (f_Category f) n m"
    have keys: "map fst ?m = map fst m" using c by (rule add_points_keys)
    then have "distinct (map fst ?m)" "f_Category ` set (map snd p) \<subseteq> fst ` set ?m"
      using Cons.prems by (auto simp: keys simp flip: set_map)
    note IH = Cons.IH[OF this]
    have "points i f = n" using Some by (simp add: points_def)
    then have "add_all (points i) fs ?m = add_all (points i) (f # fs) m" for fs
      using add_all_Cons[OF Cons.prems(1) c, of "points i"] by simp
    with IH f g cat show ?thesis
      by (auto simp: score_primitive_def file_signal_def fun_eq_iff)
  qed
qed (auto simp: add_all_def split_def)

lemma fold_compounds:
  assumes "distinct (map fst m)" and "f_Category ` set (map snd q) \<subseteq> fst ` set m"
  shows "fold (score_compound \<circ> snd) q (m, b) =
    (add_all (\<lambda>f. trunc (f_Weight f)) (map snd q) m, \<lambda>c. b c @ filter (\<lambda>f. f_Category f = c) (map snd q))"
  using assms
proof (induction q arbitrary: m b)
  case (Cons x q)
  obtain f where f: "snd x = f" by blast
  have c: "f_Category f \<in> fst ` set m" using Cons.prems(2) f by auto
  let ?m = "add_points (f_Category f) (trunc (f_Weight f)) m"
  have keys: "map fst ?m = map fst m" using c by (rule add_points_keys)
  then have "distinct (map fst ?m)" "f_Category ` set (map snd q) \<subseteq> fst ` set ?m"
    using Cons.prems by (auto simp: keys simp flip: set_map)
  from Cons.IH[OF this] add_all_Cons[OF Cons.prems(1) c, of "\<lambda>f. trunc (f_Weight f)"] f show ?case
    by (auto simp: score_compound_def file_signal_def fun_eq_iff)
qed (auto simp: add_all_def split_def)

lemma add_all_perm:
  assumes "mset fs = mset gs"
  shows "add_all pts fs m = add_all pts gs m"
proof -
  have "sum_list (map pts (filter (\<lambda>f. f_Category f = c) fs)) = sum_list (map pts (filter (\<lambda>f. f_Category f = c) gs))" for c
  proof -
    have "mset (map pts (filter (\<lambda>f. f_Category f = c) fs)) = mset (map pts (filter (\<lambda>f. f_Category f = c) gs))"
      using assms by simp
    then show ?thesis by (metis sum_mset_sum_list)
  qed
  then show ?thesis by (simp add: add_all_def)
qed

section \<open>The evaluation\<close>

text \<open>The five categories, and the records of primitives and compounds under distinct IDs.\<close>

definition known :: "Fired \<Rightarrow> bool" where
  "known p \<longleftrightarrow> f_Category ` set (map snd p) \<subseteq> set AllCategories"

definition apart :: "Fired \<Rightarrow> Fired \<Rightarrow> bool" where
  "apart p q \<longleftrightarrow> f_ID ` set (map snd p) \<inter> f_ID ` set (map snd q) = {}"

lemma apart_inj:
  assumes "same_fired p p'" and "same_fired q q'" and "apart p q"
  shows "inj_on f_ID (set (map snd p) \<union> set (map snd q))"
  using same_firedD(5)[OF assms(1)] same_firedD(5)[OF assms(2)] assms(3)
  by (intro inj_on_Un[THEN iffD2]) (auto simp: apart_def)

lemma start_keys:
  "distinct (map fst (map (\<lambda>(cat, _). (cat, categoryBase)) CategoryWeights))"
  "fst ` set (map (\<lambda>(cat, _). (cat, categoryBase)) CategoryWeights) = set AllCategories"
  by (simp_all add: CategoryWeights_def AllCategories_def)

lemma computeCategoryScores_perm:
  assumes p: "same_fired p p'" and q: "same_fired q q'" and "known p" "known q" and a: "apart p q"
  shows "computeCategoryScores p q i = computeCategoryScores p' q' i"
proof -
  define m0 where "m0 = map (\<lambda>(cat, _ :: rat). (cat, categoryBase)) CategoryWeights"
  note start = start_keys[folded m0_def]
  have folds: "fold (score_compound \<circ> snd) y (fold (score_primitive i \<circ> snd) x (m0, \<lambda>_. [])) =
      (add_all (\<lambda>f. trunc (f_Weight f)) (map snd y) (add_all (points i) (map snd x) m0),
       \<lambda>c. map (snd \<circ> contribution i) (filter (\<lambda>f. f_Category f = c) (map snd x)) @
           filter (\<lambda>f. f_Category f = c) (map snd y))"
    if "known x" "known y" for x y
  proof -
    have x: "f_Category ` set (map snd x) \<subseteq> fst ` set m0" and y: "f_Category ` set (map snd y) \<subseteq> fst ` set m0"
      using that start(2) by (auto simp: known_def)
    show ?thesis
      unfolding fold_primitives[OF start(1) x]
      using fold_compounds[of "add_all (points i) (map snd x) m0" y] start(1) y by simp
  qed
  have k': "known p'" "known q'"
    using assms(3,4) same_firedD(2)[OF p] same_firedD(2)[OF q] by (simp_all add: known_def)
  have "by_severity (map (snd \<circ> contribution i) (filter (\<lambda>f. f_Category f = c) (map snd p)) @
          filter (\<lambda>f. f_Category f = c) (map snd q)) =
        by_severity (map (snd \<circ> contribution i) (filter (\<lambda>f. f_Category f = c) (map snd p')) @
          filter (\<lambda>f. f_Category f = c) (map snd q'))" for c
  proof (rule by_severity_perm)
    show "mset (map (snd \<circ> contribution i) (filter (\<lambda>f. f_Category f = c) (map snd p)) @
        filter (\<lambda>f. f_Category f = c) (map snd q)) =
      mset (map (snd \<circ> contribution i) (filter (\<lambda>f. f_Category f = c) (map snd p')) @
        filter (\<lambda>f. f_Category f = c) (map snd q'))"
      using same_firedD(3)[OF p] same_firedD(3)[OF q] by (simp only: mset_append mset_map mset_filter)
    have "inj_on f_ID ((snd \<circ> contribution i) ` set (map snd p) \<union> set (map snd q))"
    proof -
      have "inj_on f_ID ((snd \<circ> contribution i) ` set (map snd p))"
        using same_firedD(5)[OF p] by (auto simp: inj_on_def)
      moreover have "f_ID ` (snd \<circ> contribution i) ` set (map snd p) = f_ID ` set (map snd p)"
        by (simp add: image_image)
      ultimately show ?thesis
        using same_firedD(5)[OF q] a unfolding apart_def by (intro inj_on_Un[THEN iffD2]) blast
    qed
    then show "inj_on f_ID (set (map (snd \<circ> contribution i) (filter (\<lambda>f. f_Category f = c) (map snd p)) @
        filter (\<lambda>f. f_Category f = c) (map snd q)))"
      by (rule inj_on_subset) auto
  qed
  moreover have "add_all w (map snd q) (add_all (points i) (map snd p) m0) =
      add_all w (map snd q') (add_all (points i) (map snd p') m0)" for w
    using add_all_perm[OF same_firedD(3)[OF p]] add_all_perm[OF same_firedD(3)[OF q]] by metis
  ultimately show ?thesis
    unfolding computeCategoryScores_def m0_def[symmetric]
    by (simp add: Let_def folds assms(3,4) k' split: prod.splits)
qed

lemma caps_perm:
  assumes "same_fired p p'" and "same_fired q q'" and "map_of reg = map_of reg'" and "set D = set D'"
  shows "applyMaxImpactCeiling reg rules n p q D = applyMaxImpactCeiling reg' rules n p' q' D'"
proof -
  have "set (map fst p) = set (map fst p')" using same_firedD(6)[OF assms(1)] by (rule mset_eq_setD)
  then have "set (caps_of reg rules p q D) = set (caps_of reg' rules p' q' D')"
    unfolding caps_of_def same_firedD(1)[OF assms(2)] assms(3,4) by (simp add: map_filter_def)
  then have c: "set (cap_candidates (caps_of reg rules p q D)) = set (cap_candidates (caps_of reg' rules p' q' D'))"
    by (simp add: cap_candidates_def)
  then have "cap_candidates (caps_of reg rules p q D) = [] \<longleftrightarrow> cap_candidates (caps_of reg' rules p' q' D') = []"
    by (metis set_empty)
  then show ?thesis
    unfolding applyMaxImpactCeiling_def fold_consider using cap_choice.pick_best_cong[OF c] by simp
qed

lemma resolveVerdict_perm:
  assumes "same_fired p p'" and "same_fired q q'" and "apart p q"
  shows "resolveVerdict n p q opts = resolveVerdict n p' q' opts"
proof -
  have "hasCriticalSignal p q = hasCriticalSignal p' q'"
    using same_firedD(2)[OF assms(1)] same_firedD(2)[OF assms(2)] by (simp add: hasCriticalSignal_def list_ex_iff)
  moreover have "topRationale p q k = topRationale p' q' k" for k
  proof -
    let ?all = "\<lambda>p q. filter (\<lambda>f. f_Severity f \<noteq> SevInfo) (map snd p) @ map snd q"
    have "mset (?all p q) = mset (?all p' q')"
      using same_firedD(3)[OF assms(1)] same_firedD(3)[OF assms(2)] by (simp only: mset_append mset_filter)
    moreover have "inj_on f_ID (set (?all p q))"
      using apart_inj[OF assms] by (rule inj_on_subset) auto
    then have "inj_on ((snd \<circ> snd) \<circ> (\<lambda>f. (- Rank (f_Severity f), - absF (f_Weight f), f_ID f))) (set (?all p q))"
      by (simp only: o_def snd_conv)
    then have "inj_on (\<lambda>f. (- Rank (f_Severity f), - absF (f_Weight f), f_ID f)) (set (?all p q))"
      by (rule inj_on_imageI2)
    ultimately have "sort_key (\<lambda>f. (- Rank (f_Severity f), - absF (f_Weight f), f_ID f)) (?all p q) =
        sort_key (\<lambda>f. (- Rank (f_Severity f), - absF (f_Weight f), f_ID f)) (?all p' q')"
      by (rule sort_key_perm)
    then show ?thesis by (simp add: topRationale_def Let_def)
  qed
  ultimately show ?thesis by (simp add: resolveVerdict_def)
qed

lemma CompoundRules_fires:
  assumes "has_fired p = has_fired p'" and "rule \<in> set CompoundRules"
  shows "cr_Fires rule i p = cr_Fires rule i p'"
proof -
  have "list_all (\<lambda>rule. cr_Fires rule i p = cr_Fires rule i p') CompoundRules"
    unfolding CompoundRules_def list.pred_inject compound_rules CompoundRule.select_convs assms(1)
    by (intro conjI refl list.pred_inject(1))
  with assms(2) show ?thesis by (simp add: list_all_iff)
qed

lemma CompoundRules_ext:
  assumes "map_of p = map_of p'"
  shows "runCompoundRules CompoundRules i p ov = runCompoundRules CompoundRules i p' ov"
proof -
  have "has_fired p = has_fired p'" using assms by (simp add: has_fired_def fun_eq_iff)
  then have "run_rule ov i p rule = run_rule ov i p' rule" if "rule \<in> set CompoundRules" for rule
    using CompoundRules_fires[OF _ that, of p p' i] by (simp add: run_rule_def)
  then show ?thesis
    unfolding runCompoundRules_def by (intro fold_cong refl) simp
qed

lemma compounds_same: "rules_ok rules \<Longrightarrow> same_fired (runCompoundRules rules i p ov) (runCompoundRules rules i p ov)"
proof -
  assume ok: "rules_ok rules"
  have "list_all (\<lambda>(k, f). f_ID f = k) (runCompoundRules rules i p ov)"
    by (auto simp: runCompoundRules_filter[OF ok] map_filter_def list_all_iff run_rule_def split: prod.splits if_splits)
  then show ?thesis using compound_ok[OF ok] by (simp add: same_fired_def)
qed

lemma mark_all_cats [simp]:
  "known (mark_all P h r p) = known p" "apart (mark_all P h r p) (mark_all Q k s q) = apart p q"
proof -
  have "map (f_Category \<circ> snd) (mark_all P h r p) = map (f_Category \<circ> snd) p"
    "map (f_ID \<circ> snd) (mark_all P h r p) = map (f_ID \<circ> snd) p" for P h r p
    by (auto simp: mark_all_def)
  from this[THEN arg_cong[of _ _ set]]
  show "known (mark_all P h r p) = known p" "apart (mark_all P h r p) (mark_all Q k s q) = apart p q"
    by (simp_all add: known_def apart_def image_comp)
qed

lemma dampEstablished_perm:
  assumes p: "same_fired p p'" and q: "same_fired q q" and "map_of reg = map_of reg'" and "known p" "known q" "apart p q"
  obtains D D' x x' y y' where
    "dampEstablished reg rules i p q now = (D, x, y)" "dampEstablished reg' rules i p' q now = (D', x', y')"
    "set D = set D'" "same_fired x x'" "same_fired y y'" "known x" "known y" "apart x y"
proof -
  have flag: "sig_flag f reg = sig_flag f reg'" for f using assms(3) by (simp add: sig_flag_def fun_eq_iff)
  have keys: "set (map fst p) = set (map fst p')" using same_firedD(6)[OF p] by (rule mset_eq_setD)
  then have ex: "list_ex P (map fst p) = list_ex P (map fst p')" for P by (simp only: list_ex_iff)
  have ft: "set (filter P (map fst p)) = set (filter P (map fst p'))" for P
    using keys by (simp only: set_filter)
  let ?r = "establishedInputReason i now"
  let ?s = "EstablishedReason (Downloads i) (DownloadsWindow i) (WeeklyDownloads i) 0 None now"
  let ?present = "filter (\<lambda>rule. map_of q (cr_ID rule) \<noteq> None) rules"
  let ?C = "if ?s \<noteq> [] then map cr_ID ?present else []"
  let ?off = "?r = [] \<or> list_ex (\<lambda>rule. \<not> cr_DampEstablished rule) ?present \<or>
      list_ex (sig_flag s_TakeoverIndicator reg') (map fst p')"
  let ?res = "\<lambda>z. if ?off then ([], z, q)
      else (filter (sig_flag s_DampEstablished reg') (map fst z) @ ?C,
            mark_all (sig_flag s_DampEstablished reg') True ?r z, mark_all (\<lambda>sid. sid \<in> set ?C) False ?s q)"
  have A: "dampEstablished reg rules i p q now = ?res p"
    unfolding dampEstablished_def Let_def flag ex by argo
  have B: "dampEstablished reg' rules i p' q now = ?res p'"
    unfolding dampEstablished_def Let_def by argo
  show thesis
  proof (cases ?off)
    case True
    show ?thesis
      by (rule that[OF A[unfolded if_P[OF True]] B[unfolded if_P[OF True]]]) (use p q assms(4-6) in simp_all)
  next
    case False
    show ?thesis
    proof (rule that[OF A[unfolded if_not_P[OF False]] B[unfolded if_not_P[OF False]]])
      show "same_fired (mark_all (sig_flag s_DampEstablished reg') True ?r p) (mark_all (sig_flag s_DampEstablished reg') True ?r p')"
        by (rule same_fired_mark[OF p])
      show "same_fired (mark_all (\<lambda>sid. sid \<in> set ?C) False ?s q) (mark_all (\<lambda>sid. sid \<in> set ?C) False ?s q)"
        by (rule same_fired_mark[OF q])
      show "set (filter (sig_flag s_DampEstablished reg') (map fst p) @ ?C) =
          set (filter (sig_flag s_DampEstablished reg') (map fst p') @ ?C)"
        unfolding set_append using ft[of "sig_flag s_DampEstablished reg'"] by blast
    qed (use assms(4-6) in simp_all)
  qed
qed

lemma fired_known:
  assumes "gomap_ok reg" and "\<forall>(sid, sig)\<in>set reg. s_Category sig \<in> set AllCategories"
  shows "known (runPrimitiveSignals reg i ov)"
  using assms(2)
  by (fastforce simp: known_def runPrimitiveSignals_filter[OF assms(1)] map_filter_def dest: run_signal_ID)

lemma compounds_known: "known (runCompoundRules CompoundRules i p ov)"
proof -
  have "list_all (\<lambda>r. cr_Category r = CategorySupplyChain) CompoundRules"
    unfolding CompoundRules_def list.pred_inject compound_rules CompoundRule.select_convs
    by (intro conjI refl list.pred_inject(1))
  then have "f_Category f = CategorySupplyChain" if "run_rule ov i p r = Some f" "r \<in> set CompoundRules" for r f
    using that by (auto simp: run_rule_def list_all_iff split: prod.splits if_splits)
  then show ?thesis
    unfolding known_def runCompoundRules_filter[OF CompoundRules_distinct]
    by (auto simp: map_filter_def AllCategories_def)
qed

lemma run_rule_ID: "run_rule ov i p r = Some f \<Longrightarrow> f_ID f = cr_ID r"
  by (auto simp: run_rule_def split: prod.splits if_splits)

lemma compound_IDs:
  assumes "(k, f) \<in> set (runCompoundRules CompoundRules (i :: 'a Input_scheme) p ov)"
  shows "f_ID f \<in> cr_ID ` set (CompoundRules :: 'a Input_scheme CompoundRule list)"
proof -
  from assms obtain r where "r \<in> set CompoundRules" "run_rule ov i p r = Some f"
    by (auto simp: runCompoundRules_filter[OF CompoundRules_distinct] map_filter_def)
  with run_rule_ID[of ov i p r f] show ?thesis by simp
qed

lemma fired_apart:
  assumes "gomap_ok reg" and "fst ` set reg \<inter> cr_ID ` set (CompoundRules :: 'a Input_scheme CompoundRule list) = {}"
  shows "apart (runPrimitiveSignals reg (i :: 'a Input_scheme) ov) (runCompoundRules CompoundRules i p ov)"
proof -
  have "f_ID f \<in> fst ` set reg" if "(k, f) \<in> set (runPrimitiveSignals reg i ov)" for k f
    using that by (force simp: runPrimitiveSignals_filter[OF assms(1)] map_filter_def dest: run_signal_ID)
  with assms(2) compound_IDs show ?thesis unfolding apart_def by fastforce
qed

text \<open>
  C6: The evaluation of a package is a function of the package and the registered signals: it does
  not depend on the order in which the runtime enumerates the registry or the maps of fired
  signals, in no part of the result: scores, filed signals, ceiling and its attribution, verdict,
  summary and rationale.
\<close>

theorem evaluation_order_independent:
  fixes reg :: "'a Input_scheme Registry"
  assumes ok: "gomap_ok reg" and perm: "mset reg = mset reg'"
    and cats: "\<forall>(sid, sig)\<in>set reg. s_Category sig \<in> set AllCategories"
    and ids: "fst ` set reg \<inter> cr_ID ` set (CompoundRules :: 'a Input_scheme CompoundRule list) = {}"
  shows "EvaluatePackage reg CompoundRules i opts = EvaluatePackage reg' CompoundRules i opts"
proof -
  let ?ov = "o_SignalWeightOverrides opts"
  let ?p = "runPrimitiveSignals reg i ?ov" and ?p' = "runPrimitiveSignals reg' i ?ov"
  let ?q = "runCompoundRules CompoundRules i ?p ?ov"
  have m: "map_of reg = map_of reg'" by (rule map_of_perm[OF ok perm])
  have p: "same_fired ?p ?p'" by (rule same_fired_run[OF ok perm])
  have q: "same_fired ?q ?q" by (rule compounds_same) simp
  have q': "runCompoundRules CompoundRules i ?p' ?ov = ?q"
    by (rule CompoundRules_ext[OF same_firedD(1)[OF p, symmetric]])
  note facts = fired_known[OF ok cats] compounds_known fired_apart[OF ok ids]
  have "\<exists>D D' x x' y y'. damped_sets reg CompoundRules i opts ?p = (D, x, y) \<and>
      damped_sets reg' CompoundRules i opts ?p' = (D', x', y') \<and> set D = set D' \<and>
      same_fired x x' \<and> same_fired y y' \<and> known x \<and> known y \<and> apart x y"
  proof (cases "o_NoEstablishedDamper opts")
    case True
    with p q facts show ?thesis by (simp add: damped_sets_def q' Let_def)
  next
    case False
    then show ?thesis
      using dampEstablished_perm[OF p q m facts, of CompoundRules i "o_Now opts"]
      by (simp add: damped_sets_def q' Let_def) metis
  qed
  then obtain D D' x x' y y' where d: "damped_sets reg CompoundRules i opts ?p = (D, x, y)"
      "damped_sets reg' CompoundRules i opts ?p' = (D', x', y')"
    and s: "set D = set D'" "same_fired x x'" "same_fired y y'" "known x" "known y" "apart x y"
    by blast
  have scored: "scored_evaluation reg CompoundRules i opts ?p = scored_evaluation reg' CompoundRules i opts ?p'"
    using d unfolding scored_evaluation_def damped_sets_def Let_def
    by (simp add: computeCategoryScores_perm[OF s(2-6)] caps_perm[OF s(2,3) m s(1)] resolveVerdict_perm[OF s(2,3,6)])
  have "runNamedPrimitiveSignals reg i ?ov ids = runNamedPrimitiveSignals reg' i ?ov ids" for ids
    by (simp add: runNamedPrimitiveSignals_def m)
  then show ?thesis
    using scored instantBlockFrom_perm[OF p, of i opts]
    by (simp add: EvaluatePackage_def instantBlockEvaluation_def Let_def split: option.splits)
qed

theorem evaluation_order_independent_witness:
  "EvaluatePackage demo_registry CompoundRules exploited demo_options =
   EvaluatePackage (rev demo_registry) CompoundRules exploited demo_options"
proof (rule evaluation_order_independent[OF demo_ok])
  show "\<forall>(sid, sig)\<in>set demo_registry. s_Category sig \<in> set AllCategories"
    by (simp add: demo_registry_def demo_signal_def AllCategories_def)
  show "fst ` set demo_registry \<inter> cr_ID ` set (CompoundRules :: Input CompoundRule list) = {}"
    by (simp add: demo_registry_def demo_signal_def CompoundRules_def compound_rules compound_ids SignalSCKnownMalicious_def)
qed simp

end
