(* ===== verification/RiskTree.thy ===== *)
theory RiskTree
  imports RiskOrder
begin

text \<open>
  The evaluation of a dependency graph: risk/tree.go. Pass 1 evaluates every node, pass 2 folds the
  deficits of the descendants into each node and may re-resolve its verdict or promote it, pass 3
  builds the view of the tree, and the summary counts. A pointer to an evaluation is the entry of
  \<open>ByKey\<close> under its key, which pass 2 updates in place; a pointer to a node of the view is the
  key of that node.
\<close>

section \<open>Decay\<close>

definition TransitiveDecayBase :: rat where "TransitiveDecayBase = rnd (6 / 10)"
definition TransitiveProdWeight :: rat where "TransitiveProdWeight = 1"
definition TransitiveDevWeight :: rat where "TransitiveDevWeight = rnd (4 / 10)"
definition TransitiveBlameThreshold :: int where "TransitiveBlameThreshold = 5"

text \<open>
  \<open>math.Pow\<close> for a non-negative integral exponent multiplies repeated squares; it scales the
  mantissa by powers of two, which no rounding sees.
\<close>

fun pow_loop :: "nat \<Rightarrow> rat \<Rightarrow> rat \<Rightarrow> rat" where
  "pow_loop n a x =
     (if n = 0 then a
      else pow_loop (n div 2) (if odd n then fmul a x else a) (fmul x x))"

declare pow_loop.simps [simp del]

definition math_Pow :: "rat \<Rightarrow> nat \<Rightarrow> rat" where
  "math_Pow x n = (if n = 0 \<or> x = 1 then 1 else if n = 1 then x else pow_loop n 1 x)"

section \<open>Depths\<close>

text \<open>The map of depths in the order of discovery.\<close>

function bfs_depths_loop :: "Graph \<Rightarrow> (Key, nat) gomap \<Rightarrow> (Key \<times> nat) list \<Rightarrow> (Key, nat) gomap" where
  "bfs_depths_loop g out [] = out"
| "bfs_depths_loop g out ((x, d) # q) =
     (case node_of g x of
        None \<Rightarrow> bfs_depths_loop g out q
      | Some n \<Rightarrow>
          let new = map (\<lambda>c. (c, d + 1)) (filter (\<lambda>c. c \<notin> fst ` set out) (dedup (n_Children n)))
          in bfs_depths_loop g (out @ new) (q @ new))"
  by pat_completeness auto
termination
proof (relation "measures [\<lambda>(g, out, q). card (all_children g - fst ` set out), \<lambda>(g, out, q). length q]")
  fix g x d q n new and out :: "(Key, nat) gomap"
  assume n: "node_of g x = Some n"
    and new: "new = map (\<lambda>c. (c, d + 1 :: nat)) (filter (\<lambda>c. c \<notin> fst ` set out) (dedup (n_Children n)))"
  have "fst ` set new = set (filter (\<lambda>c. c \<notin> fst ` set out) (dedup (n_Children n)))"
    by (simp add: new image_image)
  then have sub: "fst ` set new \<subseteq> all_children g - fst ` set out"
    using children_subset[of g x] n unfolding children_def by auto
  show "((g, out @ new, q @ new), g, out, (x, d) # q)
      \<in> measures [\<lambda>(g, out, q). card (all_children g - fst ` set out), \<lambda>(g, out, q). length q]"
  proof (cases "new = []")
    case False
    then obtain c where "c \<in> fst ` set new" by (cases new) auto
    then have "card (all_children g - fst ` set (out @ new)) < card (all_children g - fst ` set out)"
      using sub unfolding set_append image_Un
      by (intro psubset_card_mono finite_Diff finite_all_children psubsetI) blast+
    then show ?thesis by simp
  qed simp
qed auto

definition bfsDepths :: "Graph \<Rightarrow> Key \<Rightarrow> (Key, nat) gomap" where
  "bfsDepths g self =
     (if node_of g self = None then [(self, 0)] else bfs_depths_loop g [(self, 0)] [(self, 0)])"

definition risk_key :: "Key \<Rightarrow> PackageKey" where
  "risk_key k = \<lparr>pk_Ecosystem = Ecosystem k, pk_Package = KeyName k, pk_Version = Version k\<rparr>"

definition graph_key :: "PackageKey \<Rightarrow> Key" where
  "graph_key k = Key (pk_Ecosystem k) (pk_Package k) (pk_Version k)"

definition descendantDepth :: "Graph \<Rightarrow> Key \<Rightarrow> PackageKey \<Rightarrow> nat" where
  "descendantDepth g self target = get_or (map_of (bfsDepths g self)) (graph_key target) 0"

section \<open>The roll-up of one node\<close>

text \<open>The share of a deficit that reaches a node from a descendant.\<close>

definition effective :: "Graph \<Rightarrow> Key \<Rightarrow> nat \<Rightarrow> CategoryScore \<Rightarrow> rat" where
  "effective g dk depth cs =
     (let prodW = (case node_of g dk of
            Some n \<Rightarrow> if n_Prod n then TransitiveProdWeight else TransitiveDevWeight
          | None \<Rightarrow> TransitiveProdWeight)
      in fmul (fmul (rnd (of_int (100 - c_Score cs))) (math_Pow TransitiveDecayBase depth)) prodW)"

definition absorb :: "rat \<Rightarrow> CategoryScore \<Rightarrow> CategoryScore" where
  "absorb e cs =
     (if rnd (of_int (100 - c_Score cs)) < e then
        let newScore = clamp (100 - trunc (fadd e (1 / 2)))
        in cs\<lparr>c_Score := newScore, c_Grade := gradeForScore newScore\<rparr>
      else cs)"

text \<open>One category of a descendant: the running categories, and its greatest contribution so far.\<close>

definition absorb_category ::
  "(Category \<Rightarrow> rat) \<Rightarrow> Graph \<Rightarrow> Key \<Rightarrow> nat \<Rightarrow> Category \<times> CategoryScore \<Rightarrow> CategoryScores \<times> rat \<Rightarrow> CategoryScores \<times> rat" where
  "absorb_category orig g dk depth = (\<lambda>(cat, descCS) (rolled, maxCat).
     case map_of rolled cat of
       None \<Rightarrow> (rolled, maxCat)
     | Some selfCS \<Rightarrow>
         let e = effective g dk depth descCS; d = fsub e (orig cat)
         in (AList.update cat (absorb e selfCS) rolled, if maxCat < d then d else maxCat))"

text \<open>One descendant: the key itself, unknown keys and unevaluated ones are skipped.\<close>

definition absorb_descendant ::
  "(Category \<Rightarrow> rat) \<Rightarrow> Graph \<Rightarrow> Key \<Rightarrow> (Key \<rightharpoonup> Evaluation) \<Rightarrow> Key \<times> nat \<Rightarrow> CategoryScores \<times> (Key \<times> rat) list \<Rightarrow>
   CategoryScores \<times> (Key \<times> rat) list" where
  "absorb_descendant orig g self byKey = (\<lambda>(dk, depth) (rolled, contribs).
     if dk = self \<or> depth = 0 then (rolled, contribs)
     else
       (case byKey dk of
          None \<Rightarrow> (rolled, contribs)
        | Some dEval \<Rightarrow>
            if e_Verdict dEval = VerdictUnknown then (rolled, contribs)
            else
              let (rolled', maxCat) =
                    fold (absorb_category orig g dk depth) (sc_Categories (e_DirectScore dEval)) (rolled, 0)
              in (rolled', if 0 < maxCat then contribs @ [(dk, maxCat)] else contribs)))"

text \<open>The loop over the depths, in the order in which the map is enumerated.\<close>

definition rollup_over ::
  "(Key, nat) gomap \<Rightarrow> Graph \<Rightarrow> Key \<Rightarrow> Evaluation \<Rightarrow> (Key \<rightharpoonup> Evaluation) \<Rightarrow> Score \<times> PackageKey list" where
  "rollup_over depths g self selfEval byKey =
     (let cats = sc_Categories (e_DirectScore selfEval);
          orig = (\<lambda>cat. case map_of cats cat of None \<Rightarrow> 0 | Some cs \<Rightarrow> rnd (of_int (100 - c_Score cs)));
          (rolled, contribs) = fold (absorb_descendant orig g self byKey) depths (cats, []);
          ranked = sort_key (\<lambda>(k, amount). (- amount, k)) contribs;
          blame = map (\<lambda>(k, _). risk_key k) (take 3 ranked);
          overall = min (ComputeOverallFromCategories rolled) (sc_Overall (e_DirectScore selfEval))
      in (\<lparr>sc_Overall = overall, sc_Categories = rolled, sc_MinCategoryScore = 0, sc_WorstCategory = None,
           sc_CeilingSignal = []\<rparr>, blame))"

definition rollupForNode :: "Graph \<Rightarrow> Key \<Rightarrow> Evaluation \<Rightarrow> (Key \<rightharpoonup> Evaluation) \<Rightarrow> Score \<times> PackageKey list" where
  "rollupForNode g self selfEval byKey = rollup_over (bfsDepths g self) g self selfEval byKey"

section \<open>Promotion in the tree\<close>

definition promoteNodeInTree ::
  "'a Input_scheme Registry \<Rightarrow> 'a Input_scheme CompoundRule list \<Rightarrow> Key \<Rightarrow> 'a Input_scheme \<Rightarrow> Options \<Rightarrow>
   Evaluation \<Rightarrow> Evaluation" where
  "promoteNodeInTree reg rules k i opts ev =
     (let safeVersion = get_or (o_PerNodeSafeUpgrade opts) k [] in
      if safeVersion = [] then ev
      else if \<not> UpgradePromotionEligible (Some ev) then ev
      else
        let nodeOpts = opts\<lparr>o_PerNodeSafeUpgrade := Map.empty, o_SafeUpgradeVersion := safeVersion\<rparr>;
            promoted = EvaluatePackage reg rules i nodeOpts
        in if e_Verdict promoted \<noteq> VerdictUpgradeAvailable then ev
           else if r_SafeVersion (e_Resolution promoted) \<noteq> safeVersion then ev
           else if sc_Overall (e_DirectScore promoted) \<noteq> sc_Overall (e_DirectScore ev) then ev
           else promoted\<lparr>e_DirectScore := e_DirectScore ev, e_RolledUp := e_RolledUp ev,
                  e_Resolution := (e_Resolution promoted)\<lparr>
                    r_TransitiveBlame := r_TransitiveBlame (e_Resolution ev),
                    r_TransitiveSeverity := r_TransitiveSeverity (e_Resolution ev)\<rparr>\<rparr>)"

section \<open>Evaluating a tree\<close>

text \<open>An input with no identity is replaced by one made from the key: all other fields are zero.\<close>

definition effective_input ::
  "(PackageKey \<Rightarrow> 'a Input_scheme) \<Rightarrow> (Key \<rightharpoonup> 'a Input_scheme) \<Rightarrow> Key \<Rightarrow> 'a Input_scheme" where
  "effective_input empty_input inputs k =
     (case inputs k of
        None \<Rightarrow> empty_input (risk_key k)
      | Some i \<Rightarrow>
          if Ecosystem_in i = [] \<and> Package i = [] \<and> Version_in i = [] then empty_input (risk_key k) else i)"

text \<open>The body of pass 2 for one node.\<close>

definition transitive_summary :: "PackageKey \<Rightarrow> Verdict \<Rightarrow> string" where
  "transitive_summary b v =
     ''Transitive dependency '' @ pk_Package b @ ''@'' @ pk_Version b @ '' drags this package into '' @
     verdict_name v @ '' territory.''"

definition fold_transitive :: "Graph \<Rightarrow> Options \<Rightarrow> (Key \<rightharpoonup> Evaluation) \<Rightarrow> Key \<Rightarrow> Evaluation \<Rightarrow> Evaluation" where
  "fold_transitive g opts byKey k ev =
     (let (rolled, blame) = rollupForNode g k ev byKey;
          ev1 = ev\<lparr>e_RolledUp := rolled\<rparr>;
          drop = sc_Overall (e_DirectScore ev) - sc_Overall rolled
      in if TransitiveBlameThreshold < drop \<and> blame \<noteq> [] then
           let (newVerdict, newResolution) = ResolveVerdictFromScore (sc_Overall rolled) [] [] opts
           in ev1\<lparr>e_Verdict := newVerdict,
                  e_Resolution := newResolution\<lparr>r_Rationale := r_Rationale (e_Resolution ev),
                    r_TransitiveBlame := blame, r_Summary := transitive_summary (hd blame) newVerdict\<rparr>\<rparr>
         else if blame \<noteq> [] then ev1\<lparr>e_Resolution := (e_Resolution ev)\<lparr>r_TransitiveBlame := blame\<rparr>\<rparr>
         else ev1)"

definition pass2_node ::
  "'a Input_scheme Registry \<Rightarrow> 'a Input_scheme CompoundRule list \<Rightarrow> Graph \<Rightarrow> (Key \<Rightarrow> 'a Input_scheme) \<Rightarrow> Options \<Rightarrow>
   (Key \<rightharpoonup> Evaluation) \<Rightarrow> Key \<Rightarrow> Evaluation \<Rightarrow> Evaluation" where
  "pass2_node reg rules g eff opts byKey k ev =
     (if e_Verdict ev = VerdictUnknown then ev
      else promoteNodeInTree reg rules k (eff k) opts (fold_transitive g opts byKey k ev))"

text \<open>The loop updates the evaluations in place, in the order in which the map is enumerated.\<close>

definition pass2 ::
  "'a Input_scheme Registry \<Rightarrow> 'a Input_scheme CompoundRule list \<Rightarrow> Graph \<Rightarrow> (Key \<Rightarrow> 'a Input_scheme) \<Rightarrow> Options \<Rightarrow>
   Key list \<Rightarrow> (Key, Evaluation) gomap \<Rightarrow> (Key, Evaluation) gomap" where
  "pass2 reg rules g eff opts =
     fold (\<lambda>k byKey.
       case map_of byKey k of
         None \<Rightarrow> byKey
       | Some ev \<Rightarrow> AList.update k (pass2_node reg rules g eff opts (map_of byKey) k ev) byKey)"

definition pass1 ::
  "'a Input_scheme Registry \<Rightarrow> 'a Input_scheme CompoundRule list \<Rightarrow> Graph \<Rightarrow> (Key \<Rightarrow> 'a Input_scheme) \<Rightarrow> Options \<Rightarrow>
   (Key, Evaluation) gomap" where
  "pass1 reg rules g eff opts = map (\<lambda>(k, _). (k, EvaluatePackage reg rules (eff k) opts)) (g_Nodes g)"

text \<open>
  The view of the tree. \<open>build\<close> returns the node that it has built before for a key, so that the
  list of pending keys holds the children of nodes still under construction; the child pointers
  of a node are those of all its children that are nodes of the graph.
\<close>

record EvaluatedNode =
  en_Key :: Key
  en_Direct :: bool
  en_Depth :: nat
  en_Prod :: bool
  en_Eval :: "Evaluation option"
  en_Children :: "Key list"

function build_view ::
  "Graph \<Rightarrow> (Key \<rightharpoonup> Evaluation) \<Rightarrow> (Key \<times> nat) list \<Rightarrow> (Key, EvaluatedNode) gomap \<Rightarrow> (Key, EvaluatedNode) gomap" where
  "build_view g byKey [] built = built"
| "build_view g byKey ((k, depth) # pending) built =
     (if map_of built k \<noteq> None then build_view g byKey pending built
      else
        (case node_of g k of
           None \<Rightarrow> build_view g byKey pending built
         | Some n \<Rightarrow>
             let cs = filter (\<lambda>c. node_of g c \<noteq> None) (sort (n_Children n));
                 en = \<lparr>en_Key = k, en_Direct = n_Direct n, en_Depth = depth, en_Prod = n_Prod n,
                       en_Eval = byKey k, en_Children = cs\<rparr>
             in build_view g byKey (map (\<lambda>c. (c, depth + 1)) cs @ pending) (built @ [(k, en)])))"
  by pat_completeness auto
termination
proof (relation "measures [\<lambda>(g, byKey, pending, built). card (fst ` set (g_Nodes g) - fst ` set built),
    \<lambda>(g, byKey, pending, built). length pending]")
  fix g :: Graph and byKey :: "Key \<rightharpoonup> Evaluation" and k depth pending built n cs en
  assume fresh: "\<not> map_of built k \<noteq> (None :: EvaluatedNode option)" and n: "node_of g k = Some n"
  have "k \<in> fst ` set (g_Nodes g)" using n by (force simp: node_of_def dest: map_of_SomeD)
  moreover have "k \<notin> fst ` set built" using fresh by (simp add: map_of_eq_None_iff)
  ultimately have "card (fst ` set (g_Nodes g) - fst ` set (built @ [(k, en)])) < card (fst ` set (g_Nodes g) - fst ` set built)"
    by (intro psubset_card_mono) auto
  then show "((g, byKey, map (\<lambda>c. (c, depth + 1)) cs @ pending, built @ [(k, en)]), g, byKey, (k, depth) # pending, built)
      \<in> measures [\<lambda>(g, byKey, pending, built). card (fst ` set (g_Nodes g) - fst ` set built),
    \<lambda>(g, byKey, pending, built). length pending]"
    by simp
qed auto

record TreeSummary =
  su_TotalNodes :: nat
  su_DirectCount :: nat
  su_TransitiveCount :: nat
  su_ByVerdict :: "Verdict \<Rightarrow> nat"
  su_MinOverall :: int
  su_MaxTransitiveBlameChain :: nat
  su_UnknownCount :: nat

definition summary_start :: "nat \<Rightarrow> TreeSummary" where
  "summary_start n =
     \<lparr>su_TotalNodes = n, su_DirectCount = 0, su_TransitiveCount = 0, su_ByVerdict = (\<lambda>_. 0),
      su_MinOverall = 100, su_MaxTransitiveBlameChain = 0, su_UnknownCount = 0\<rparr>"

definition summarize :: "Graph \<Rightarrow> Key \<times> Evaluation \<Rightarrow> TreeSummary \<Rightarrow> TreeSummary" where
  "summarize g = (\<lambda>(k, ev) s.
     let direct = (case node_of g k of None \<Rightarrow> False | Some n \<Rightarrow> n_Direct n);
         s1 = (if direct then s\<lparr>su_DirectCount := su_DirectCount s + 1\<rparr>
               else s\<lparr>su_TransitiveCount := su_TransitiveCount s + 1\<rparr>);
         s2 = s1\<lparr>su_ByVerdict := (su_ByVerdict s1)(e_Verdict ev := su_ByVerdict s1 (e_Verdict ev) + 1)\<rparr>
     in if e_Verdict ev = VerdictUnknown then s2\<lparr>su_UnknownCount := su_UnknownCount s2 + 1\<rparr>
        else s2\<lparr>su_MinOverall := min (su_MinOverall s2) (sc_Overall (e_RolledUp ev)),
                su_MaxTransitiveBlameChain :=
                  fold (\<lambda>bk m. max m (descendantDepth g k bk)) (r_TransitiveBlame (e_Resolution ev))
                    (su_MaxTransitiveBlameChain s2)\<rparr>)"

record TreeEvaluation =
  te_Roots :: "Key list"
  te_View :: "(Key, EvaluatedNode) gomap"
  te_ByKey :: "(Key, Evaluation) gomap"
  te_Summary :: TreeSummary

definition EvaluateTree ::
  "'a Input_scheme Registry \<Rightarrow> 'a Input_scheme CompoundRule list \<Rightarrow> (PackageKey \<Rightarrow> 'a Input_scheme) \<Rightarrow>
   Graph option \<Rightarrow> (Key \<rightharpoonup> 'a Input_scheme) \<Rightarrow> Options \<Rightarrow> TreeEvaluation" where
  "EvaluateTree reg rules empty_input go inputs opts =
     (case go of
        None \<Rightarrow> \<lparr>te_Roots = [], te_View = [], te_ByKey = [], te_Summary = summary_start 0\<rparr>
      | Some g \<Rightarrow>
          if g_Nodes g = [] then
            \<lparr>te_Roots = [], te_View = [], te_ByKey = [], te_Summary = summary_start 0\<rparr>
          else
            let eff = effective_input empty_input inputs;
                byKey1 = pass1 reg rules g eff opts;
                byKey = pass2 reg rules g eff opts (map fst byKey1) byKey1;
                view = fold (\<lambda>r built. build_view g (map_of byKey) [(r, 0)] built) (g_Roots g) [];
                roots = filter (\<lambda>r. node_of g r \<noteq> None) (g_Roots g)
            in \<lparr>te_Roots = roots, te_View = view, te_ByKey = byKey,
                te_Summary = fold (summarize g) byKey (summary_start (length byKey))\<rparr>)"

end
