(* ===== verification/RiskTreeProps.thy ===== *)
theory RiskTreeProps
  imports RiskTree
begin

text \<open>
  Properties of the evaluation of a dependency graph: the depths are shortest distances, the
  roll-up of a node only lowers scores and does not depend on the order in which the runtime
  enumerates the descendants, pass 2 does not depend on the order of the nodes, and what a
  verdict in the tree means.
\<close>

section \<open>Depths\<close>

abbreviation rooted :: "Graph \<Rightarrow> Key \<Rightarrow> Graph" where
  "rooted g r \<equiv> g\<lparr>g_Roots := [r]\<rparr>"

lemma bfs_depths_loop_rooted: "bfs_depths_loop (rooted g r) out Q = bfs_depths_loop g out Q"
  by (induction g out Q rule: bfs_depths_loop.induct) (simp_all split: option.splits)

lemma infinite_keys: "infinite (UNIV :: Key set)"
proof -
  have "inj (\<lambda>n. Key [] [] (replicate n (CHR ''a'')))"
    by (rule injI) (metis Key.inject length_replicate)
  then have "infinite (range (\<lambda>n. Key [] [] (replicate n (CHR ''a''))))" using finite_imageD by blast
  then show ?thesis using finite_subset[OF subset_UNIV] by blast
qed

lemma bfs_depths_loop_correct:
  assumes "\<And>x. set (children g x) \<subseteq> node_keys g" and "k \<notin> all_children g"
  shows "bfs_inv g k d (fst ` set out) Q \<Longrightarrow> head_level d Q \<Longrightarrow> fst ` set Q \<subseteq> node_keys g \<Longrightarrow>
    distinct (map fst out) \<Longrightarrow> \<forall>(v, e)\<in>set out. least_depth g v = int e \<Longrightarrow>
    distinct (map fst (bfs_depths_loop g out Q)) \<and>
    (\<forall>(v, e)\<in>set (bfs_depths_loop g out Q). least_depth g v = int e) \<and>
    (\<forall>v. v \<notin> fst ` set (bfs_depths_loop g out Q) \<longrightarrow> least_depth g v = - 1)"
  using assms
proof (induction g out Q arbitrary: d rule: bfs_depths_loop.induct)
  case (1 g out)
  have "least_depth g v = - 1" if "v \<notin> fst ` set out" for v
  proof (rule bfs_exhausted)
    show "bfs_inv g v d (fst ` set out) []" using 1(1) that by (simp add: bfs_inv_def)
  qed
  with 1 show ?case by simp
next
  case (2 g out x e q)
  note inv = 2(3) and hd = 2(4) and dom = 2(5) and dist = 2(6) and least = 2(7) and cl = 2(8) and k = 2(9)
  have e: "e = d" using hd by (simp add: head_level_def)
  from dom obtain n where n: "node_of g x = Some n" by (auto simp: node_keys_def)
  then have ch: "n_Children n = children g x" by (simp add: children_def)
  let ?new = "filter (\<lambda>c. c \<notin> fst ` set out) (dedup (n_Children n))"
  let ?out = "out @ map (\<lambda>c. (c, Suc d)) ?new" and ?Q = "q @ map (\<lambda>c. (c, Suc d)) ?new"
  have sub: "set ?new \<subseteq> set (children g x)" by (auto simp: ch)
  have V: "fst ` set ?out = fst ` set out \<union> set ?new" by (simp add: image_Un image_image)
  have "bfs_inv g k d (fst ` set ?out) ?Q"
  proof (rule bfs_inv_step[OF inv[unfolded e] V refl sub])
    show "set (children g x) \<subseteq> fst ` set ?out" unfolding V by (auto simp: ch)
    show "k \<notin> set ?new" using k sub children_subset[of g x] by blast
  qed
  then obtain d' where d': "bfs_inv g k d' (fst ` set ?out) ?Q" "head_level d' ?Q" by (rule bfs_relevel)
  have "least_depth g c = int (Suc d)" if "c \<in> set ?new" for c
  proof -
    have x: "rpath g x d" using inv e by (auto simp: bfs_inv_def)
    with sub that have path: "rpath g c (Suc d)" by (blast intro: rpath.edge)
    have "c \<notin> fst ` set out" using that by simp
    then have "\<not> m \<le> d" if "rpath g c m" for m using inv e that unfolding bfs_inv_def by blast
    then have "(LEAST m. rpath g c m) = Suc d" using path by (intro Least_equality) (auto simp: not_le Suc_le_eq)
    with path show ?thesis by (auto simp: least_depth_def)
  qed
  then have least': "\<forall>(v, e)\<in>set ?out. least_depth g v = int e" using least by auto
  have "fst ` set ?Q \<subseteq> node_keys g"
  proof -
    have "fst ` set q \<subseteq> node_keys g" "set ?new \<subseteq> node_keys g" using dom sub cl[of x] by auto
    then show ?thesis by (simp add: image_Un image_image)
  qed
  moreover have "distinct (map fst ?out)" using dist by (auto simp: o_def)
  ultimately show ?case
    using 2(2)[OF n refl, of d'] d' least' cl k n e by (simp add: Let_def)
qed

text \<open>
  The depths used for the decay are shortest distances: on a well-formed graph \<open>bfsDepths\<close> has an
  entry for exactly the nodes that the package reaches, with the least number of edges to each.
\<close>

theorem bfsDepths_shortest:
  assumes "graph_ok g" and "self \<in> node_keys g"
  shows "map_of (bfsDepths g self) k =
    (if least_depth (g\<lparr>g_Roots := [self]\<rparr>) k = - 1 then None else Some (nat (least_depth (g\<lparr>g_Roots := [self]\<rparr>) k)))"
proof -
  let ?g = "rooted g self" and ?R = "bfsDepths g self"
  have R: "?R = bfs_depths_loop ?g [(self, 0)] [(self, 0)]"
    using assms(2) by (auto simp: bfsDepths_def bfs_depths_loop_rooted node_keys_def)
  have "finite (insert self (all_children ?g))" by simp
  then obtain f where f: "f \<notin> insert self (all_children ?g)" using ex_new_if_finite[OF infinite_keys] by blast
  have root: "least_depth ?g self = 0"
  proof -
    have "rpath ?g self 0" by (rule rpath.root) simp
    then have "(LEAST n. rpath ?g self n) = 0" by (rule Least_eq_0)
    with \<open>rpath ?g self 0\<close> show ?thesis by (auto simp: least_depth_def)
  qed
  have "bfs_inv ?g f 0 (fst ` set [(self, 0 :: nat)]) [(self, 0)]" using bfs_inv_start[of f ?g] f by simp
  then have loop: "distinct (map fst ?R)" "\<forall>(v, e)\<in>set ?R. least_depth ?g v = int e"
    "\<forall>v. v \<notin> fst ` set ?R \<longrightarrow> least_depth ?g v = - 1"
    using bfs_depths_loop_correct[of ?g f 0 "[(self, 0)]" "[(self, 0)]"] graph_okD(4)[OF assms(1)] f assms(2) root
    unfolding R by (simp_all add: head_level_def)
  show ?thesis
  proof (cases "map_of ?R k")
    case None
    then have "k \<notin> fst ` set ?R" by (simp add: map_of_eq_None_iff)
    with None loop(3) show ?thesis by simp
  next
    case (Some e)
    then have "least_depth ?g k = int e" using loop(2) by (auto dest: map_of_SomeD)
    with Some show ?thesis by simp
  qed
qed

theorem bfsDepths_shortest_witness:
  "map_of (bfsDepths cyclic (npm ''a'')) (npm ''c'') =
    (if least_depth (cyclic\<lparr>g_Roots := [npm ''a'']\<rparr>) (npm ''c'') = - 1 then None
     else Some (nat (least_depth (cyclic\<lparr>g_Roots := [npm ''a'']\<rparr>) (npm ''c''))))"
proof (rule bfsDepths_shortest[OF graph_ok_cyclic])
  have "node_of cyclic (npm ''a'') \<noteq> None" by code_simp
  then show "npm ''a'' \<in> node_keys cyclic" by (simp add: node_keys_def)
qed

section \<open>Rounding of deficits\<close>

lemma rnd_half: "rnd (x / 2) = rnd x / 2"
proof -
  have pos: "rnd_pos (x / 2) = rnd_pos x / 2" if x: "0 < x" for x
  proof -
    have p: "pow2 e = 2 * pow2 (e - 1)" for e using pow2_Suc[of "e - 1"] by simp
    have "lg (x / 2) = lg x - 1"
      using lg_bounds[OF x] p[of "lg x"] p[of "lg x + 1"] x by (intro lg_unique) simp_all
    then have q: "lg (x / 2) - 52 = lg x - 52 - 1" by simp
    show ?thesis unfolding rnd_pos_def Let_def q p[of "lg x - 52"] by simp
  qed
  show ?thesis using pos[of x] pos[of "- x"] by (auto simp: rnd_def)
qed

definition rd :: "rat \<Rightarrow> int" where
  "rd e = trunc (fadd e (1 / 2))"

lemma rd_mono: "x \<le> y \<Longrightarrow> rd x \<le> rd y"
  unfolding rd_def fadd_def by (intro trunc_mono rnd_mono) simp

lemma rd_int:
  assumes "0 \<le> z" and "z \<le> 100"
  shows "rd (of_int z) = z"
proof -
  have eq: "of_int z + 1 / 2 = (of_int (2 * z + 1) / 2 :: rat)" by simp
  have "fadd (of_int z) (1 / 2) = of_int (2 * z + 1) / 2"
    using rnd_half[of "of_int (2 * z + 1)"] rnd_int[of "2 * z + 1"] assms unfolding fadd_def eq by simp
  then show ?thesis using assms by (simp add: rd_def trunc_def floor_eq_iff)
qed

lemma pow_loop_unit: "0 \<le> a \<Longrightarrow> a \<le> 1 \<Longrightarrow> 0 \<le> x \<Longrightarrow> x \<le> 1 \<Longrightarrow> 0 \<le> pow_loop n a x \<and> pow_loop n a x \<le> 1"
proof (induction n a x rule: pow_loop.induct)
  case (1 n a x)
  have m: "0 \<le> fmul u v \<and> fmul u v \<le> 1" if "0 \<le> u" "u \<le> 1" "0 \<le> v" "v \<le> 1" for u v
    using rnd_mono[of "u * v" 1] rnd_int[of 1] that by (auto simp: fmul_def rnd_nonneg mult_le_one)
  from 1 m[of a x] m[of x x] show ?case unfolding pow_loop.simps[of n a x] by auto
qed

lemma decay_unit: "0 \<le> math_Pow TransitiveDecayBase n \<and> math_Pow TransitiveDecayBase n \<le> 1"
proof -
  have "0 \<le> TransitiveDecayBase \<and> TransitiveDecayBase \<le> 1"
    using rnd_mono[of "6 / 10" 1] rnd_int[of 1] by (simp add: TransitiveDecayBase_def rnd_nonneg)
  then show ?thesis using pow_loop_unit[of 1 TransitiveDecayBase n] by (auto simp: math_Pow_def)
qed

definition in_range_score :: "CategoryScore \<Rightarrow> bool" where
  "in_range_score cs \<longleftrightarrow> 0 \<le> c_Score cs \<and> c_Score cs \<le> 100"

lemma effective_range:
  assumes "in_range_score cs"
  shows "0 \<le> effective g dk n cs \<and> effective g dk n cs \<le> 100"
proof -
  have le: "0 \<le> fmul u v \<and> fmul u v \<le> 100" if "0 \<le> u" "u \<le> 100" "0 \<le> v" "v \<le> 1" for u v
    using rnd_mono[of "u * v" 100] rnd_int[of 100] mult_mono[of u 100 v 1] that by (auto simp: fmul_def rnd_nonneg)
  have "0 \<le> rnd (of_int (100 - c_Score cs)) \<and> rnd (of_int (100 - c_Score cs)) \<le> 100"
    using rnd_mono[of "of_int (100 - c_Score cs)" 100] rnd_int[of 100] assms
    by (auto simp: in_range_score_def intro!: rnd_nonneg)
  then have d: "0 \<le> fmul (rnd (of_int (100 - c_Score cs))) (math_Pow TransitiveDecayBase n) \<and>
      fmul (rnd (of_int (100 - c_Score cs))) (math_Pow TransitiveDecayBase n) \<le> 100"
    using decay_unit by (intro le) auto
  have "0 \<le> TransitiveProdWeight \<and> TransitiveProdWeight \<le> 1" "0 \<le> TransitiveDevWeight \<and> TransitiveDevWeight \<le> 1"
    using rnd_mono[of "4 / 10" 1] rnd_int[of 1]
    by (simp_all add: TransitiveProdWeight_def TransitiveDevWeight_def rnd_nonneg)
  then show ?thesis
    using d unfolding effective_def Let_def by (intro le) (auto split: option.splits)
qed

text \<open>Absorbing one deficit: the score becomes the smaller one of itself and what the deficit leaves.\<close>

lemma absorb_score:
  assumes "in_range_score cs" and "0 \<le> e" and "e \<le> 100"
  shows "c_Score (absorb e cs) = min (c_Score cs) (100 - rd e) \<and> in_range_score (absorb e cs)"
    and "absorb e cs = (if of_int (100 - c_Score cs) < e
      then cs\<lparr>c_Score := min (c_Score cs) (100 - rd e), c_Grade := gradeForScore (min (c_Score cs) (100 - rd e))\<rparr> else cs)"
proof -
  let ?D = "100 - c_Score cs"
  have D: "0 \<le> ?D" "?D \<le> 100" using assms(1) by (auto simp: in_range_score_def)
  then have f: "rnd (of_int ?D) = of_int ?D" by (intro rnd_int) simp
  have e: "0 \<le> rd e" "rd e \<le> 100"
    using rd_mono[OF assms(2)] rd_mono[OF assms(3)] rd_int[of 0] rd_int[of 100] by simp_all
  have le: "rd e \<le> ?D" if "e \<le> of_int ?D" using rd_mono[OF that] rd_int[OF D] by simp
  have ge: "?D \<le> rd e" if "of_int ?D < e" using rd_mono[of "of_int ?D" e] that rd_int[OF D] by simp
  show "absorb e cs = (if of_int ?D < e
      then cs\<lparr>c_Score := min (c_Score cs) (100 - rd e), c_Grade := gradeForScore (min (c_Score cs) (100 - rd e))\<rparr> else cs)"
  proof (cases "of_int ?D < e")
    case True
    with ge e have "clamp (100 - rd e) = min (c_Score cs) (100 - rd e)" by (auto simp: clamp_def)
    with True show ?thesis unfolding absorb_def f rd_def[symmetric] Let_def by simp
  next
    case False
    then show ?thesis unfolding absorb_def f by simp
  qed
  then show "c_Score (absorb e cs) = min (c_Score cs) (100 - rd e) \<and> in_range_score (absorb e cs)"
    using le ge e D assms(1) by (auto simp: in_range_score_def min_def not_less)
qed

lemma fold_absorb:
  assumes "in_range_score cs" and "\<forall>e\<in>set es. 0 \<le> e \<and> e \<le> 100"
  shows "fold absorb es cs =
    (if \<exists>e\<in>set es. of_int (100 - c_Score cs) < e
     then let m = Min (insert (c_Score cs) ((\<lambda>e. 100 - rd e) ` set es)) in cs\<lparr>c_Score := m, c_Grade := gradeForScore m\<rparr>
     else cs)"
  using assms
proof (induction es arbitrary: cs)
  case (Cons e es)
  let ?cs = "absorb e cs"
  have e: "0 \<le> e" "e \<le> 100" using Cons.prems(2) by auto
  note a = absorb_score[OF Cons.prems(1) e]
  have IH: "fold absorb es ?cs =
    (if \<exists>e\<in>set es. of_int (100 - c_Score ?cs) < e
     then let m = Min (insert (c_Score ?cs) ((\<lambda>e. 100 - rd e) ` set es)) in ?cs\<lparr>c_Score := m, c_Grade := gradeForScore m\<rparr>
     else ?cs)"
    using Cons.IH[of ?cs] a(1) Cons.prems(2) by auto
  have min: "Min (insert (c_Score ?cs) ((\<lambda>e. 100 - rd e) ` set es)) =
      Min (insert (c_Score cs) ((\<lambda>e. 100 - rd e) ` set (e # es)))"
    using a(1) by (cases "es = []") (simp_all add: min.assoc min.left_commute)
  have bound: "rd x \<le> 100 - c_Score ?cs" if "x \<in> set es" "\<not> of_int (100 - c_Score ?cs) < x" for x
  proof -
    have z: "0 \<le> 100 - c_Score ?cs" "100 - c_Score ?cs \<le> 100" using a(1) by (auto simp: in_range_score_def)
    have "x \<le> of_int (100 - c_Score ?cs)" using that(2) by (rule leI)
    then show ?thesis using rd_mono rd_int[OF z] by metis
  qed
  have low: "Min (insert (c_Score ?cs) ((\<lambda>e. 100 - rd e) ` set es)) = c_Score ?cs"
    if none: "\<not> (\<exists>x\<in>set es. of_int (100 - c_Score ?cs) < x)"
  proof (rule Min_eqI)
    fix y
    assume "y \<in> insert (c_Score ?cs) ((\<lambda>e. 100 - rd e) ` set es)"
    then consider "y = c_Score ?cs" | x where "x \<in> set es" "y = 100 - rd x" by auto
    then show "c_Score ?cs \<le> y" using bound none by cases fastforce+
  qed simp_all
  show ?case
  proof (cases "of_int (100 - c_Score cs) < e")
    case True
    then show ?thesis using IH low min a(2) by (auto simp: Let_def a(1))
  next
    case False
    then have "?cs = cs" using a(2) by simp
    with IH min False show ?thesis by (auto simp: Let_def)
  qed
qed simp

section \<open>The roll-up as a function of the descendants\<close>

abbreviation categories :: "Evaluation \<Rightarrow> CategoryScores" where
  "categories ev \<equiv> sc_Categories (e_DirectScore ev)"

definition scores_ok :: "Evaluation \<Rightarrow> bool" where
  "scores_ok ev \<longleftrightarrow> gomap_ok (categories ev) \<and> list_all (\<lambda>(_, cs). in_range_score cs) (categories ev)"

lemma update_as_map:
  "distinct (map fst m) \<Longrightarrow> map_of m c = Some x \<Longrightarrow>
    AList.update c v m = map (\<lambda>(k, y). (k, if k = c then v else y)) m"
proof (induction m)
  case (Cons p m)
  have same: "map (\<lambda>(k, y). (k, if k = c then v else y)) m = m" if "c \<notin> fst ` set m"
    using that by (induction m) auto
  from Cons same show ?case by (cases p) auto
qed simp

lemma absorb_categories:
  assumes "gomap_ok dcats" and "gomap_ok rolled"
  shows "fold (absorb_category orig g dk n) dcats (rolled, mx) =
    (map (\<lambda>(c, cs). (c, case map_of dcats c of None \<Rightarrow> cs | Some d \<Rightarrow> absorb (effective g dk n d) cs)) rolled,
     fold (\<lambda>(c, d) m. if c \<in> fst ` set rolled then max m (fsub (effective g dk n d) (orig c)) else m) dcats mx)"
  using assms
proof (induction dcats arbitrary: rolled mx)
  case (Cons p dcats)
  obtain c d where p: "p = (c, d)" by fastforce
  have ok: "gomap_ok dcats" and c: "map_of dcats c = None"
    using Cons.prems(1) p by (auto simp: gomap_ok_def map_of_eq_None_iff)
  show ?case
  proof (cases "map_of rolled c")
    case None
    then have "c \<notin> fst ` set rolled" by (simp add: map_of_eq_None_iff)
    moreover from this have "map (\<lambda>(k, cs). (k, case map_of (p # dcats) k of None \<Rightarrow> cs | Some d \<Rightarrow> absorb (effective g dk n d) cs)) rolled =
        map (\<lambda>(k, cs). (k, case map_of dcats k of None \<Rightarrow> cs | Some d \<Rightarrow> absorb (effective g dk n d) cs)) rolled"
      by (intro map_cong) (force simp: p)+
    ultimately show ?thesis
      using Cons.IH[OF ok Cons.prems(2)] None by (simp add: p absorb_category_def)
  next
    case (Some x)
    let ?v = "absorb (effective g dk n d) x"
    let ?m = "map (\<lambda>(k, y). (k, if k = c then ?v else y)) rolled"
    have d: "distinct (map fst rolled)" using Cons.prems(2) by (simp add: gomap_ok_def)
    have upd: "AList.update c ?v rolled = ?m" by (rule update_as_map[OF d Some])
    have keys: "map fst ?m = map fst rolled" by (simp add: o_def split_def)
    have okm: "gomap_ok ?m" using d unfolding gomap_ok_def keys .
    have im: "fst ` set ?m = fst ` set rolled" using arg_cong[OF keys, of set] by (simp only: set_map)
    have mem: "c \<in> fst ` set rolled" using Some by (force dest: map_of_SomeD)
    have "y = x" if "(c, y) \<in> set rolled" for y using that Some d by simp
    then have "map (\<lambda>(k, cs). (k, case map_of dcats k of None \<Rightarrow> cs | Some d \<Rightarrow> absorb (effective g dk n d) cs)) ?m =
        map (\<lambda>(k, cs). (k, case map_of (p # dcats) k of None \<Rightarrow> cs | Some d \<Rightarrow> absorb (effective g dk n d) cs)) rolled"
      using c by (auto simp: p)
    moreover have "absorb_category orig g dk n p (rolled, mx) = (?m, max mx (fsub (effective g dk n d) (orig c)))"
      using Some upd by (auto simp: p absorb_category_def Let_def max_def)
    moreover note Cons.IH[OF ok okm, of "max mx (fsub (effective g dk n d) (orig c))", unfolded im]
    ultimately show ?thesis using mem by (simp only: fold_simps p prod.case if_True)
  qed
qed simp

text \<open>The deficit that one descendant brings to a category, and its entry in the ranking.\<close>

definition counted :: "Key \<Rightarrow> (Key \<rightharpoonup> Evaluation) \<Rightarrow> Key \<times> nat \<Rightarrow> Evaluation option" where
  "counted self byKey = (\<lambda>(dk, n).
     if dk = self \<or> n = 0 then None
     else Option.bind (byKey dk) (\<lambda>ev. if e_Verdict ev = VerdictUnknown then None else Some ev))"

definition effect :: "Graph \<Rightarrow> Key \<Rightarrow> (Key \<rightharpoonup> Evaluation) \<Rightarrow> Category \<Rightarrow> Key \<times> nat \<Rightarrow> rat option" where
  "effect g self byKey c x =
     Option.bind (counted self byKey x) (\<lambda>ev. map_option (effective g (fst x) (snd x)) (map_of (categories ev) c))"

definition blame_entry ::
  "(Category \<Rightarrow> rat) \<Rightarrow> Category set \<Rightarrow> Graph \<Rightarrow> Key \<Rightarrow> (Key \<rightharpoonup> Evaluation) \<Rightarrow> Key \<times> nat \<Rightarrow> (Key \<times> rat) option" where
  "blame_entry orig keys g self byKey x =
     Option.bind (counted self byKey x) (\<lambda>ev.
       let m = fold (\<lambda>(c, d) m. if c \<in> keys then max m (fsub (effective g (fst x) (snd x) d) (orig c)) else m)
             (categories ev) 0
       in if 0 < m then Some (fst x, m) else None)"

lemma absorb_descendants:
  assumes "gomap_ok rolled" and "\<And>dk ev. byKey dk = Some ev \<Longrightarrow> gomap_ok (categories ev)"
  shows "fold (absorb_descendant orig g self byKey) depths (rolled, contribs) =
    (map (\<lambda>(c, cs). (c, fold absorb (List.map_filter (effect g self byKey c) depths) cs)) rolled,
     contribs @ List.map_filter (blame_entry orig (fst ` set rolled) g self byKey) depths)"
  using assms(1)
proof (induction depths arbitrary: rolled contribs)
  case (Cons x depths)
  obtain dk n where x: "x = (dk, n)" by fastforce
  show ?case
  proof (cases "counted self byKey x")
    case None
    then have "absorb_descendant orig g self byKey x (rolled, contribs) = (rolled, contribs)"
      by (auto simp: x counted_def absorb_descendant_def split: if_splits option.splits)
    with None Cons show ?thesis by (simp add: effect_def blame_entry_def map_filter_simps)
  next
    case (Some ev)
    then have c: "\<not> (dk = self \<or> n = 0)" "byKey dk = Some ev" "e_Verdict ev \<noteq> VerdictUnknown"
      by (auto simp: x counted_def bind_eq_Some_conv split: if_splits)
    let ?f = "\<lambda>(c, cs). (c, case map_of (categories ev) c of None \<Rightarrow> cs | Some d \<Rightarrow> absorb (effective g dk n d) cs)"
    let ?m = "fold (\<lambda>(c, d) m. if c \<in> fst ` set rolled then max m (fsub (effective g dk n d) (orig c)) else m) (categories ev) 0"
    have step: "absorb_descendant orig g self byKey x (rolled, contribs) =
        (map ?f rolled, if 0 < ?m then contribs @ [(dk, ?m)] else contribs)"
      using c absorb_categories[OF assms(2)[OF c(2)] Cons.prems, of orig g dk n 0]
      by (simp add: x absorb_descendant_def)
    have ok: "gomap_ok (map ?f rolled)" and keys: "fst ` set (map ?f rolled) = fst ` set rolled"
      using Cons.prems by (auto simp: gomap_ok_def o_def split_def image_image)
    have eff: "effect g self byKey c x = map_option (effective g dk n) (map_of (categories ev) c)" for c
      using Some by (simp add: effect_def x)
    have be: "blame_entry orig K g self byKey x =
        (let m = fold (\<lambda>(c, d) m. if c \<in> K then max m (fsub (effective g dk n d) (orig c)) else m) (categories ev) 0
         in if 0 < m then Some (dk, m) else None)" for K
      using Some unfolding blame_entry_def x fst_conv snd_conv by simp
    have fst_part: "fold absorb (List.map_filter (effect g self byKey c) (x # depths)) cs =
        fold absorb (List.map_filter (effect g self byKey c) depths) (snd (?f (c, cs)))" for c cs
      by (simp add: map_filter_simps eff split: option.splits)
    have "map (\<lambda>(c, cs). (c, fold absorb (List.map_filter (effect g self byKey c) depths) cs)) (map ?f rolled) =
        map (\<lambda>(c, cs). (c, fold absorb (List.map_filter (effect g self byKey c) (x # depths)) cs)) rolled"
      unfolding fst_part by auto
    moreover have "(if 0 < ?m then contribs @ [(dk, ?m)] else contribs) @
          List.map_filter (blame_entry orig (fst ` set rolled) g self byKey) depths =
        contribs @ List.map_filter (blame_entry orig (fst ` set rolled) g self byKey) (x # depths)"
      by (simp add: map_filter_simps be Let_def)
    ultimately show ?thesis
      unfolding fold_simps step Cons.IH[OF ok] keys by (simp only:)
  qed
qed (simp add: map_filter_simps split_def)

lemma fold_absorb_cong:
  assumes "in_range_score cs" and "\<forall>e\<in>set es. 0 \<le> e \<and> e \<le> 100" and "set es = set es'"
  shows "fold absorb es cs = fold absorb es' cs"
  using assms fold_absorb[of cs es] fold_absorb[of cs es'] by simp

lemma set_map_filter: "set (List.map_filter f xs) = {y. \<exists>x\<in>set xs. f x = Some y}"
  by (induction xs) (auto simp: map_filter_simps split: option.splits)

lemma scores_okD:
  assumes "scores_ok ev"
  shows "gomap_ok (categories ev)" and "(c, cs) \<in> set (categories ev) \<Longrightarrow> in_range_score cs"
  using assms by (auto simp: scores_ok_def list_all_iff)

lemma effects_range:
  assumes "\<And>dk ev. byKey dk = Some ev \<Longrightarrow> scores_ok ev"
  shows "\<forall>e\<in>set (List.map_filter (effect g self byKey c) depths). 0 \<le> e \<and> e \<le> 100"
proof -
  have "0 \<le> e \<and> e \<le> 100" if e: "effect g self byKey c x = Some e" for x e
  proof -
    from e obtain ev cs where "byKey (fst x) = Some ev" "map_of (categories ev) c = Some cs"
      "e = effective g (fst x) (snd x) cs"
      by (auto simp: effect_def counted_def bind_eq_Some_conv split: if_splits prod.splits)
    with scores_okD(2)[OF assms] show ?thesis using effective_range by (metis map_of_SomeD)
  qed
  then show ?thesis by (auto simp: set_map_filter)
qed

lemma bfs_depths_loop_distinct: "distinct (map fst out) \<Longrightarrow> distinct (map fst (bfs_depths_loop g out Q))"
proof (induction g out Q rule: bfs_depths_loop.induct)
  case (2 g out x d q)
  then show ?case by (auto simp: Let_def o_def split: option.splits)
qed simp

lemma bfsDepths_distinct: "gomap_ok (bfsDepths g self)"
  using bfs_depths_loop_distinct[of "[(self, 0)]" g "[(self, 0)]"]
  by (simp add: bfsDepths_def gomap_ok_def del: bfs_depths_loop.simps)

lemma blame_entries_distinct:
  assumes "gomap_ok depths"
  shows "distinct (map fst (List.map_filter (blame_entry orig K g self byKey) depths))"
proof -
  have "fst y = fst x" if "blame_entry orig K g self byKey x = Some y" for x y
    using that by (auto simp: blame_entry_def bind_eq_Some_conv Let_def split: if_splits)
  then have keys: "fst ` set (List.map_filter (blame_entry orig K g self byKey) xs) \<subseteq> fst ` set xs" for xs
    by (force simp: set_map_filter)
  show ?thesis
    using assms unfolding gomap_ok_def
  proof (induction depths)
    case (Cons x xs)
    show ?case
    proof (cases "blame_entry orig K g self byKey x")
      case (Some y)
      then have "fst y = fst x" using \<open>\<And>x y. blame_entry orig K g self byKey x = Some y \<Longrightarrow> fst y = fst x\<close> by simp
      with Some Cons keys[of xs] show ?thesis by (auto simp: map_filter_simps)
    qed (use Cons in \<open>simp add: map_filter_simps\<close>)
  qed (simp add: map_filter_simps)
qed

text \<open>
  C14: The roll-up of a node is a function of its descendants: for every order in which the runtime
  enumerates the map of depths, \<open>rollupForNode\<close> yields the same score, the same category scores and
  the same three blamed dependencies in the same order.
\<close>

theorem rollup_order_independent:
  assumes "mset depths = mset (bfsDepths g self)"
    and "scores_ok ev" and "\<And>dk e. byKey dk = Some e \<Longrightarrow> scores_ok e"
  shows "rollup_over depths g self ev byKey = rollupForNode g self ev byKey"
proof -
  let ?cats = "categories ev" and ?bfs = "bfsDepths g self"
  define orig where "orig = (\<lambda>cat. case map_of ?cats cat of None \<Rightarrow> 0 | Some cs \<Rightarrow> rnd (of_int (100 - c_Score cs)))"
  let ?b = "blame_entry orig (fst ` set ?cats) g self byKey"
  note folds = absorb_descendants[where byKey = byKey and orig = orig and g = g and self = self,
      OF scores_okD(1)[OF assms(2)] scores_okD(1)[OF assms(3)]]
  have "set depths = set ?bfs" using assms(1) by (rule mset_eq_setD)
  then have s: "set (List.map_filter f depths) = set (List.map_filter f ?bfs)" for f :: "Key \<times> nat \<Rightarrow> 'b option"
    by (simp add: set_map_filter)
  have "fold absorb (List.map_filter (effect g self byKey c) depths) cs = fold absorb (List.map_filter (effect g self byKey c) ?bfs) cs"
    if "(c, cs) \<in> set ?cats" for c cs
    using fold_absorb_cong[OF scores_okD(2)[OF assms(2) that] effects_range s] assms(3) by blast
  then have rolled: "map (\<lambda>(c, cs). (c, fold absorb (List.map_filter (effect g self byKey c) depths) cs)) ?cats =
      map (\<lambda>(c, cs). (c, fold absorb (List.map_filter (effect g self byKey c) ?bfs) cs)) ?cats"
    by auto
  have "inj_on (\<lambda>(k, amount). (- amount, k)) (set (List.map_filter ?b depths))"
    using blame_entries_distinct[of depths orig "fst ` set ?cats" g self byKey]
      gomap_ok_perm[OF assms(1)] bfsDepths_distinct by (auto simp: inj_on_def)
  then have "sort_key (\<lambda>(k, amount). (- amount, k)) (List.map_filter ?b depths) =
      sort_key (\<lambda>(k, amount). (- amount, k)) (List.map_filter ?b ?bfs)"
    using mset_map_filter_cong[OF assms(1)] by (intro sort_key_perm)
  then show ?thesis
    unfolding rollupForNode_def rollup_over_def Let_def orig_def[symmetric] by (simp add: folds rolled)
qed

text \<open>Every evaluation of a package has well-formed scores.\<close>

lemma gomap_ok_update: "gomap_ok m \<Longrightarrow> gomap_ok (AList.update k v m)"
  by (simp add: gomap_ok_def distinct_update)

lemma points_ok:
  assumes "gomap_ok (fst st)"
  shows "gomap_ok (fst (fold (score_primitive i \<circ> snd) p st))" and "gomap_ok (fst (fold (score_compound \<circ> snd) p st))"
  using assms
  by (induction p arbitrary: st)
    (auto simp: score_primitive_def score_compound_def add_points_def gomap_ok_update split: prod.splits option.splits)

lemma computed_scores_ok:
  "gomap_ok (computeCategoryScores p q i) \<and> list_all (\<lambda>(_, cs). in_range_score cs) (computeCategoryScores p q i)"
proof -
  let ?s = "fold (score_compound \<circ> snd) q (fold (score_primitive i \<circ> snd) p
    (map (\<lambda>(cat, _). (cat, categoryBase)) CategoryWeights, \<lambda>_. []))"
  have "gomap_ok (fst ?s)" by (intro points_ok) (simp add: gomap_ok_def CategoryWeights_def)
  then have "distinct (map fst (computeCategoryScores p q i))"
    by (simp add: computeCategoryScores_def gomap_ok_def o_def split_def Let_def)
  moreover have "list_all (\<lambda>(_, cs). in_range_score cs) (computeCategoryScores p q i)"
    using category_scores_range[of _ _ p q i] by (auto simp: list_all_iff in_range_score_def)
  ultimately show ?thesis by (simp add: gomap_ok_def)
qed

lemma EvaluatePackage_scores_ok: "scores_ok (EvaluatePackage reg rules i opts)"
proof -
  have "scores_ok (instantBlock i opts fired s)" for fired s
    by (simp add: instantBlock_def scores_ok_def gomap_ok_def in_range_score_def CategoryWeights_def Let_def)
  then have a: "scores_ok ev" if "instantBlockFrom i opts fired = Some ev" for fired ev
    using that by (auto simp: instantBlockFrom_def simp del: find_None_iff)
  have b: "scores_ok (UnavailableEvaluation i opts)"
    by (simp add: UnavailableEvaluation_def scores_ok_def gomap_ok_def in_range_score_def AllCategories_def Let_def)
  have c: "scores_ok (scored_evaluation reg rules i opts fired)" for fired
    using computed_scores_ok by (auto simp: scored_evaluation_def scores_ok_def Let_def split: prod.splits)
  show ?thesis
    unfolding EvaluatePackage_def instantBlockEvaluation_def Let_def
    using a b c by (auto split: option.splits)
qed

text \<open>An example: in the cyclic graph, every package but the first is a known exploited one.\<close>

definition chain_eval :: "Key \<Rightarrow> Evaluation" where
  "chain_eval k = EvaluatePackage demo_registry CompoundRules
     (if k = npm ''a'' then demo_input else exploited) demo_options"

theorem rollup_order_independent_witness:
  "rollup_over (rev (bfsDepths cyclic (npm ''a''))) cyclic (npm ''a'') (chain_eval (npm ''a'')) (Some \<circ> chain_eval) =
   rollupForNode cyclic (npm ''a'') (chain_eval (npm ''a'')) (Some \<circ> chain_eval)"
  by (rule rollup_order_independent) (auto simp: chain_eval_def EvaluatePackage_scores_ok)

text \<open>
  The roll-up never raises a score and stays in range: the overall score is at most the direct one
  and every category keeps its place with a score between 0 and the direct one, its data flag and
  its filed signals, whatever the descendants are.
\<close>

theorem rollup_never_raises:
  fixes g :: Graph and self :: Key
  assumes "scores_ok ev" and "\<And>dk e. byKey dk = Some e \<Longrightarrow> scores_ok e"
  defines "rolled \<equiv> fst (rollupForNode g self ev byKey)"
  shows "sc_Overall rolled \<le> sc_Overall (e_DirectScore ev) \<and>
    list_all2 (\<lambda>(c, r) (c', d). c = c' \<and> c_Score r \<le> c_Score d \<and> 0 \<le> c_Score r \<and> c_Score r \<le> 100 \<and>
        c_DataAvailable r = c_DataAvailable d \<and> c_FiredSignals r = c_FiredSignals d)
      (sc_Categories rolled) (sc_Categories (e_DirectScore ev))"
proof -
  have one: "c_Score (fold absorb es cs) \<le> c_Score cs \<and> in_range_score (fold absorb es cs) \<and>
      c_DataAvailable (fold absorb es cs) = c_DataAvailable cs \<and> c_FiredSignals (fold absorb es cs) = c_FiredSignals cs"
    if "in_range_score cs" "\<forall>e\<in>set es. 0 \<le> e \<and> e \<le> 100" for es cs
    using that
  proof (induction es arbitrary: cs)
    case (Cons e es)
    have "0 \<le> e" "e \<le> 100" using Cons.prems(2) by auto
    note a = absorb_score(1)[OF Cons.prems(1) this]
    have "c_DataAvailable (absorb e cs) = c_DataAvailable cs" "c_FiredSignals (absorb e cs) = c_FiredSignals cs"
      by (simp_all add: absorb_def Let_def)
    with a Cons.IH[of "absorb e cs"] Cons.prems(2) show ?case by fastforce
  qed simp
  note folds = absorb_descendants[where byKey = byKey and g = g and self = self,
      OF scores_okD(1)[OF assms(1)] scores_okD(1)[OF assms(2)]]
  have cats: "sc_Categories rolled =
      map (\<lambda>(c, cs). (c, fold absorb (List.map_filter (effect g self byKey c) (bfsDepths g self)) cs)) (categories ev)"
    by (simp add: assms(3) rollupForNode_def rollup_over_def Let_def folds)
  have "sc_Overall rolled \<le> sc_Overall (e_DirectScore ev)"
    by (simp add: assms(3) rollupForNode_def rollup_over_def Let_def split_def)
  moreover have "list_all2 (\<lambda>(c, r) (c', d). c = c' \<and> c_Score r \<le> c_Score d \<and> 0 \<le> c_Score r \<and> c_Score r \<le> 100 \<and>
        c_DataAvailable r = c_DataAvailable d \<and> c_FiredSignals r = c_FiredSignals d)
      (sc_Categories rolled) (categories ev)"
    unfolding cats list_all2_map1 list.rel_refl_strong
    using one[OF scores_okD(2)[OF assms(1)] effects_range[OF assms(2)]]
    by (auto intro!: list.rel_refl_strong simp: in_range_score_def)
  ultimately show ?thesis by blast
qed

theorem rollup_never_raises_witness:
  "sc_Overall (fst (rollupForNode cyclic (npm ''a'') (chain_eval (npm ''a'')) (Some \<circ> chain_eval)))
     \<le> sc_Overall (e_DirectScore (chain_eval (npm ''a'')))"
  using rollup_never_raises[of "chain_eval (npm ''a'')" "Some \<circ> chain_eval" cyclic "npm ''a''"]
  by (auto simp: chain_eval_def EvaluatePackage_scores_ok)

section \<open>Pass 2\<close>

text \<open>What the roll-up reads of another evaluation, which pass 2 never changes.\<close>

definition reading :: "Evaluation \<Rightarrow> Score \<times> bool" where
  "reading ev = (e_DirectScore ev, e_Verdict ev = VerdictUnknown)"

lemma rollup_cong:
  assumes "\<And>k. map_option reading (b k) = map_option reading (b' k)"
  shows "rollupForNode g self ev b = rollupForNode g self ev b'"
proof -
  have "absorb_descendant orig g self b x st = absorb_descendant orig g self b' x st" for orig x st
    using assms[of "fst x"]
    by (cases "b (fst x)"; cases "b' (fst x)")
      (auto simp: absorb_descendant_def reading_def split_def)
  then have "absorb_descendant orig g self b = absorb_descendant orig g self b'" for orig by (intro ext)
  then show ?thesis by (simp add: rollupForNode_def rollup_over_def)
qed

lemma resolved_known: "fst (ResolveVerdictFromScore n p q opts) \<noteq> VerdictUnknown"
  unfolding ResolveVerdictFromScore_def resolveVerdict_verdict by simp

lemma fold_transitive_fields:
  "e_DirectScore (fold_transitive g opts b k ev) = e_DirectScore ev"
  "e_RolledUp (fold_transitive g opts b k ev) = fst (rollupForNode g k ev b)"
  "e_Verdict ev \<noteq> VerdictUnknown \<Longrightarrow> e_Verdict (fold_transitive g opts b k ev) \<noteq> VerdictUnknown"
  using resolved_known by (auto simp: fold_transitive_def Let_def split: prod.splits) (metis fst_conv)

lemma promote_fields:
  "e_DirectScore (promoteNodeInTree reg rules k i opts ev) = e_DirectScore ev"
  "e_RolledUp (promoteNodeInTree reg rules k i opts ev) = e_RolledUp ev"
  "r_TransitiveBlame (e_Resolution (promoteNodeInTree reg rules k i opts ev)) = r_TransitiveBlame (e_Resolution ev)"
  "e_Verdict ev \<noteq> VerdictUnknown \<Longrightarrow> e_Verdict (promoteNodeInTree reg rules k i opts ev) \<noteq> VerdictUnknown"
  by (simp_all add: promoteNodeInTree_def Let_def)

lemma pass2_node_reading: "reading (pass2_node reg rules g eff opts b k ev) = reading ev"
  using fold_transitive_fields(3) promote_fields(4)
  by (auto simp: reading_def pass2_node_def promote_fields fold_transitive_fields)

lemma pass2_node_cong:
  assumes "\<And>k. map_option reading (b k) = map_option reading (b' k)"
  shows "pass2_node reg rules g eff opts b k ev = pass2_node reg rules g eff opts b' k ev"
  by (simp add: pass2_node_def fold_transitive_def rollup_cong[OF assms])

lemma map_of_values: "map_of (map (\<lambda>(k, v). (k, f k v)) m) k = map_option (f k) (map_of m k)"
  by (induction m) auto

text \<open>
  C13: Pass 2 updates the evaluations in place while it reads them, in the unspecified order of a Go
  map, and yet every order gives what a simultaneous update would give: each node is folded
  from the pass-1 evaluations of its descendants alone.
\<close>

theorem pass2_simultaneous:
  fixes eff :: "Key \<Rightarrow> 'a Input_scheme"
  assumes "gomap_ok m" and "distinct ks" and "set ks = fst ` set m"
  shows "pass2 reg rules g eff opts ks m = map (\<lambda>(k, ev). (k, pass2_node reg rules g eff opts (map_of m) k ev)) m"
proof -
  let ?P = "pass2_node reg rules g eff opts (map_of m)"
  let ?st = "\<lambda>D. map (\<lambda>(k, ev). (k, if k \<in> D then ?P k ev else ev)) m"
  have same: "map_option reading (map_of (?st D) k) = map_option reading (map_of m k)" for D k
    by (cases "k \<in> D") (simp_all add: map_of_values option.map_comp o_def pass2_node_reading)
  have ok: "distinct (map fst (?st D))" for D
    using assms(1) by (simp add: gomap_ok_def o_def split_def)
  have step: "(case map_of (?st D) k of None \<Rightarrow> ?st D
       | Some ev \<Rightarrow> AList.update k (pass2_node reg rules g eff opts (map_of (?st D)) k ev) (?st D)) = ?st (insert k D)"
    if k: "k \<notin> D" for k D
  proof (cases "map_of m k")
    case None
    then have "ka \<noteq> k" if "(ka, v) \<in> set m" for ka v using that by (force simp: map_of_eq_None_iff)
    with None show ?thesis by (auto simp: map_of_values)
  next
    case (Some ev)
    then have s: "map_of (?st D) k = Some ev" using k by (simp add: map_of_values)
    have "v = ev" if "(k, v) \<in> set m" for v using that Some assms(1) by (simp add: gomap_ok_def)
    then show ?thesis
      using s k unfolding update_as_map[OF ok s] pass2_node_cong[OF same] by auto
  qed
  have "pass2 reg rules g eff opts ks (?st D) = ?st (D \<union> set ks)" if "D \<inter> set ks = {}" for D
    using assms(2) that
  proof (induction ks arbitrary: D)
    case (Cons k ks)
    then have "pass2 reg rules g eff opts (k # ks) (?st D) = pass2 reg rules g eff opts ks (?st (insert k D))"
      using step[of k D] by (simp add: pass2_def)
    also have "\<dots> = ?st (insert k D \<union> set ks)" using Cons by (intro Cons.IH) auto
    finally show ?case by simp
  qed (simp add: pass2_def)
  from this[of "{}"] have "pass2 reg rules g eff opts ks m = ?st (set ks)" by (simp add: split_def)
  also have "\<dots> = map (\<lambda>(k, ev). (k, ?P k ev)) m" using assms(3) by force
  finally show ?thesis .
qed

theorem pass2_simultaneous_witness:
  "pass2 demo_registry CompoundRules cyclic (\<lambda>_. exploited) demo_options [npm ''b'', npm ''a'']
      [(npm ''a'', chain_eval (npm ''a'')), (npm ''b'', chain_eval (npm ''b''))] =
   pass2 demo_registry CompoundRules cyclic (\<lambda>_. exploited) demo_options [npm ''a'', npm ''b'']
      [(npm ''a'', chain_eval (npm ''a'')), (npm ''b'', chain_eval (npm ''b''))]"
proof -
  let ?m = "[(npm ''a'', chain_eval (npm ''a'')), (npm ''b'', chain_eval (npm ''b''))]"
  have "npm ''a'' \<noteq> npm ''b''" by (simp add: npm_def)
  then show ?thesis
    using pass2_simultaneous[of ?m "[npm ''b'', npm ''a'']" demo_registry CompoundRules cyclic "\<lambda>_. exploited" demo_options]
      pass2_simultaneous[of ?m "[npm ''a'', npm ''b'']" demo_registry CompoundRules cyclic "\<lambda>_. exploited" demo_options]
    by (simp add: gomap_ok_def insert_commute)
qed

end
