(* ===== verification/RiskTreeVerdict.thy ===== *)
theory RiskTreeVerdict
  imports RiskTreeProps
begin

text \<open>
  What the verdicts and the summary of an evaluated dependency graph mean: the evaluation of each
  node in terms of pass 1, promotion inside the tree, the counters of the summary, and what pass 2
  forgets when it resolves a verdict again.
\<close>

section \<open>The evaluation of a node\<close>

definition tree_node ::
  "'a Input_scheme Registry \<Rightarrow> 'a Input_scheme CompoundRule list \<Rightarrow> (PackageKey \<Rightarrow> 'a Input_scheme) \<Rightarrow>
   Graph \<Rightarrow> (Key \<rightharpoonup> 'a Input_scheme) \<Rightarrow> Options \<Rightarrow> Key \<Rightarrow> Evaluation" where
  "tree_node reg rules z g inputs opts k =
     pass2_node reg rules g (effective_input z inputs) opts
       (map_of (pass1 reg rules g (effective_input z inputs) opts)) k
       (EvaluatePackage reg rules (effective_input z inputs k) opts)"

lemma ByKey_nodes:
  assumes "gomap_ok (g_Nodes g)"
  shows "te_ByKey (EvaluateTree reg rules z (Some g) inputs opts) =
    map (\<lambda>k. (k, tree_node reg rules z g inputs opts k)) (map fst (g_Nodes g))"
proof (cases "g_Nodes g = []")
  case False
  let ?eff = "effective_input z inputs"
  let ?m = "pass1 reg rules g ?eff opts"
  have keys: "map fst ?m = map fst (g_Nodes g)" by (simp add: pass1_def o_def split_def)
  then have ok: "gomap_ok ?m" and dist: "distinct (map fst ?m)" using assms by (simp_all add: gomap_ok_def)
  have "pass2 reg rules g ?eff opts (map fst ?m) ?m =
      map (\<lambda>(k, ev). (k, pass2_node reg rules g ?eff opts (map_of ?m) k ev)) ?m"
    by (rule pass2_simultaneous[OF ok dist]) (simp only: set_map)
  then show ?thesis
    using False unfolding EvaluateTree_def Let_def tree_node_def by (simp add: pass1_def split_def)
qed (simp add: EvaluateTree_def)

lemma tree_node_unknown:
  assumes "gomap_ok reg"
  shows "(e_Verdict (tree_node reg rules z g inputs opts k) = VerdictUnknown) =
    (SignalsUnavailable (effective_input z inputs k) \<and> \<not> blocks_instantly reg (effective_input z inputs k))"
proof -
  have "(e_Verdict (tree_node reg rules z g inputs opts k) = VerdictUnknown) =
      (e_Verdict (EvaluatePackage reg rules (effective_input z inputs k) opts) = VerdictUnknown)"
    using pass2_node_reading[of reg rules g "effective_input z inputs" opts] unfolding reading_def tree_node_def by blast
  then show ?thesis by (simp add: unknown_iff[OF assms])
qed

section \<open>The summary\<close>

definition is_direct :: "Graph \<Rightarrow> Key \<Rightarrow> bool" where
  "is_direct g k = (case node_of g k of None \<Rightarrow> False | Some n \<Rightarrow> n_Direct n)"

lemma summarize_fold:
  "su_TotalNodes (fold (summarize g) m s) = su_TotalNodes s"
  "su_DirectCount (fold (summarize g) m s) = su_DirectCount s + length (filter (is_direct g \<circ> fst) m)"
  "su_TransitiveCount (fold (summarize g) m s) = su_TransitiveCount s + length (filter (\<lambda>x. \<not> is_direct g (fst x)) m)"
  "su_ByVerdict (fold (summarize g) m s) v = su_ByVerdict s v + length (filter (\<lambda>x. e_Verdict (snd x) = v) m)"
  "su_UnknownCount (fold (summarize g) m s) =
     su_UnknownCount s + length (filter (\<lambda>x. e_Verdict (snd x) = VerdictUnknown) m)"
  "su_MinOverall (fold (summarize g) m s) =
     fold (\<lambda>x. min (sc_Overall (e_RolledUp (snd x)))) (filter (\<lambda>x. e_Verdict (snd x) \<noteq> VerdictUnknown) m) (su_MinOverall s)"
  by (induction m arbitrary: s) (auto simp: summarize_def is_direct_def Let_def min.commute split: option.splits)

lemma fold_min_Min: "fold (\<lambda>x. min (f x)) xs (m :: int) = Min (insert m (f ` set xs))"
proof (induction xs arbitrary: m)
  case (Cons x xs)
  show ?case
  proof (cases "xs = []")
    case False
    then show ?thesis using Cons by (simp add: min.left_commute)
  qed (simp add: min.commute)
qed simp

text \<open>
  The summary of a tree tells outages apart: every node is counted once as direct or transitive and once
  under its verdict; the unknown count is the number of nodes whose signals were unavailable and
  that are not instantly blocked; and the least overall score ranges over the other nodes alone
  (100 if there is none).
\<close>

theorem tree_summary_counts:
  fixes reg :: "'a Input_scheme Registry" and rules :: "'a Input_scheme CompoundRule list"
    and z :: "PackageKey \<Rightarrow> 'a Input_scheme" and inputs :: "Key \<rightharpoonup> 'a Input_scheme" and opts :: Options
  assumes "gomap_ok reg" and "gomap_ok (g_Nodes g)"
  defines "te \<equiv> EvaluateTree reg rules z (Some g) inputs opts"
    and "lost \<equiv> (\<lambda>k. SignalsUnavailable (effective_input z inputs k) \<and>
           \<not> blocks_instantly reg (effective_input z inputs k))"
  shows "map fst (te_ByKey te) = map fst (g_Nodes g) \<and>
    su_TotalNodes (te_Summary te) = length (g_Nodes g) \<and>
    su_DirectCount (te_Summary te) + su_TransitiveCount (te_Summary te) = length (g_Nodes g) \<and>
    (\<forall>v. su_ByVerdict (te_Summary te) v = length (filter (\<lambda>x. e_Verdict (snd x) = v) (te_ByKey te))) \<and>
    su_UnknownCount (te_Summary te) = length (filter lost (map fst (g_Nodes g))) \<and>
    su_MinOverall (te_Summary te) =
      Min (insert 100 ((\<lambda>x. sc_Overall (e_RolledUp (snd x))) ` {x \<in> set (te_ByKey te). \<not> lost (fst x)}))"
proof -
  note nodes = ByKey_nodes[OF assms(2), of reg rules z inputs opts, folded te_def]
  have sum: "te_Summary te = fold (summarize g) (te_ByKey te) (summary_start (length (te_ByKey te)))"
    by (simp add: te_def EvaluateTree_def Let_def)
  have len: "length (te_ByKey te) = length (g_Nodes g)" by (simp add: nodes)
  have known: "(e_Verdict (snd x) = VerdictUnknown) = lost (fst x)" if "x \<in> set (te_ByKey te)" for x
    using that tree_node_unknown[OF assms(1)] by (auto simp: nodes lost_def)
  then have "filter (\<lambda>x. e_Verdict (snd x) = VerdictUnknown) (te_ByKey te) = filter (lost \<circ> fst) (te_ByKey te)"
    by (intro filter_cong) auto
  then have unknown: "length (filter (\<lambda>x. e_Verdict (snd x) = VerdictUnknown) (te_ByKey te)) =
      length (filter lost (map fst (g_Nodes g)))"
    by (simp add: nodes filter_map o_def)
  have least: "{x \<in> set (te_ByKey te). e_Verdict (snd x) \<noteq> VerdictUnknown} = {x \<in> set (te_ByKey te). \<not> lost (fst x)}"
    using known by auto
  have "su_DirectCount (te_Summary te) + su_TransitiveCount (te_Summary te) = length (te_ByKey te)"
    using sum_length_filter_compl[of "is_direct g \<circ> fst" "te_ByKey te"]
    by (simp add: sum summarize_fold summary_start_def o_def)
  moreover have "map fst (te_ByKey te) = map fst (g_Nodes g)" by (simp add: nodes o_def)
  ultimately show ?thesis
    using unknown
    by (simp add: sum summarize_fold summary_start_def len fold_min_Min least del: filter_map)
qed

theorem tree_summary_counts_witness:
  "su_UnknownCount (te_Summary (EvaluateTree demo_registry CompoundRules (\<lambda>_. demo_input) (Some cyclic)
     [npm ''a'' \<mapsto> demo_input\<lparr>SignalsUnavailable := True\<rparr>, npm ''b'' \<mapsto> exploited] demo_options)) = 1"
proof -
  have nodes: "map fst (g_Nodes cyclic) = [npm ''a'', npm ''b'', npm ''c'', npm ''d'']" by code_simp
  then have ok: "gomap_ok (g_Nodes cyclic)" by (simp add: gomap_ok_def npm_def)
  have "su_UnknownCount (te_Summary (EvaluateTree demo_registry CompoundRules (\<lambda>_. demo_input) (Some cyclic)
     [npm ''a'' \<mapsto> demo_input\<lparr>SignalsUnavailable := True\<rparr>, npm ''b'' \<mapsto> exploited] demo_options)) =
    length (filter (\<lambda>k. SignalsUnavailable (effective_input (\<lambda>_. demo_input)
        [npm ''a'' \<mapsto> demo_input\<lparr>SignalsUnavailable := True\<rparr>, npm ''b'' \<mapsto> exploited] k) \<and>
      \<not> blocks_instantly demo_registry (effective_input (\<lambda>_. demo_input)
        [npm ''a'' \<mapsto> demo_input\<lparr>SignalsUnavailable := True\<rparr>, npm ''b'' \<mapsto> exploited] k)) (map fst (g_Nodes cyclic)))"
    using tree_summary_counts[OF demo_ok ok] by blast
  then show ?thesis
    by (simp add: nodes effective_input_def npm_def demo_input_def exploited_def blocks_instantly_def
        instantBlockIDs_def demo_lookup demo_fires)
qed

section \<open>Promotion in the tree\<close>

text \<open>
  Promotion inside the tree needs the node's own evidence and moves nothing but the verdict: a
  promoted node has a candidate of its own, which is the version it is told to take, and passed
  every gate with the scores after the roll-up, so that a node that its dependencies dragged below
  30 stays blocked; scores and blame are kept in any case.
\<close>

theorem promotion_in_tree_sound:
  "let ev' = promoteNodeInTree reg rules k i opts ev;
       candidate = get_or (o_PerNodeSafeUpgrade opts) k []
   in e_DirectScore ev' = e_DirectScore ev \<and> e_RolledUp ev' = e_RolledUp ev \<and>
      r_TransitiveBlame (e_Resolution ev') = r_TransitiveBlame (e_Resolution ev) \<and>
      (if candidate \<noteq> [] \<and> thresholdQuarantine \<le> sc_Overall (e_DirectScore ev) \<and>
          thresholdQuarantine \<le> sc_Overall (e_RolledUp ev) \<and> UpgradePromotionEligible (Some ev)
       then (ev' \<noteq> ev) = (e_Verdict ev' = VerdictUpgradeAvailable \<and> r_SafeVersion (e_Resolution ev') = candidate)
       else ev' = ev)"
proof -
  define ev' where "ev' = promoteNodeInTree reg rules k i opts ev"
  define candidate where "candidate = get_or (o_PerNodeSafeUpgrade opts) k []"
  have band: "thresholdQuarantine \<le> sc_Overall (e_DirectScore ev) \<and> thresholdQuarantine \<le> sc_Overall (e_RolledUp ev) \<and>
      e_Verdict ev \<noteq> VerdictUpgradeAvailable" if "UpgradePromotionEligible (Some ev)"
    using that by (auto simp: UpgradePromotionEligible_def not_less split: if_splits)
  have "ev' = ev \<or> candidate \<noteq> [] \<and> UpgradePromotionEligible (Some ev) \<and>
      e_Verdict ev' = VerdictUpgradeAvailable \<and> r_SafeVersion (e_Resolution ev') = candidate"
    unfolding ev'_def candidate_def promoteNodeInTree_def Let_def by simp
  then show ?thesis
    using band unfolding Let_def ev'_def[symmetric] candidate_def[symmetric]
    by (auto simp: ev'_def promote_fields)
qed

end
