(* ===== verification/GoMatch.thy ===== *)
theory GoMatch
  imports GoStrings
begin

text \<open>
  The matching functions of the Go library that the policy engine calls: \<open>strings.EqualFold\<close>,
  \<open>strings.ToUpper\<close>, \<open>strings.Fields\<close>, \<open>path.Match\<close> and \<open>url.PathUnescape\<close>. A pattern error is \<open>None\<close>.
\<close>

section \<open>Case folding\<close>

text \<open>Runes that fold to a letter without being its upper case (the orbits of more than two runes).\<close>

definition fold_special :: "(rune \<times> rune) list" where
  "fold_special =
     [(181, 956), (304, 304), (383, 115), (837, 953), (962, 963), (976, 946), (977, 952), (981, 966), (982, 960),
     (1008, 954), (1009, 961), (1013, 949), (7296, 1074), (7297, 1076), (7298, 1086), (7299, 1089), (7300, 1090),
     (7301, 1090), (7302, 1098), (7303, 1123), (7304, 42571), (7835, 7777), (8126, 953)]"

definition fold_case :: "rune \<Rightarrow> rune" where
  "fold_case r = (case map_of fold_special r of Some l \<Rightarrow> l | None \<Rightarrow> unicode_ToLower r)"

definition EqualFold :: "string \<Rightarrow> string \<Rightarrow> bool" where
  "EqualFold s t \<longleftrightarrow> map fold_case (utf8_decode s) = map fold_case (utf8_decode t)"

lemma EqualFold_refl [simp]: "EqualFold s s"
  by (simp add: EqualFold_def)

lemma EqualFold_sym: "EqualFold s t \<Longrightarrow> EqualFold t s"
  by (simp add: EqualFold_def)

lemma EqualFold_trans: "EqualFold s t \<Longrightarrow> EqualFold t u \<Longrightarrow> EqualFold s u"
  by (simp add: EqualFold_def)

lemma fold_case_ascii: "r < 128 \<Longrightarrow> fold_case r = (if 65 \<le> r \<and> r \<le> 90 then r + 32 else r)"
  by (simp add: fold_case_def fold_special_def unicode_ToLower_ascii)

lemma EqualFold_ascii:
  assumes "is_ascii s" and "is_ascii t"
  shows "EqualFold s t \<longleftrightarrow> map byte_lower s = map byte_lower t"
proof -
  have "map fold_case (map byte u) = map byte (map byte_lower u)" if "is_ascii u" for u
    using that by (induction u) (auto simp: is_ascii_def fold_case_ascii byte_lower_def)
  moreover have "inj (of_char :: char \<Rightarrow> nat)" by (simp add: inj_def)
  ultimately show ?thesis
    using assms by (simp add: EqualFold_def utf8_decode_ascii inj_map_eq_map del: map_map)
qed

text \<open>
  Upper case: the inverse of the lower-case table, whose first range for an image holds the upper-case
  rune, and the lower-case runes that are no image.
\<close>

definition upper_special :: "(rune \<times> rune) list" where
  "upper_special =
     [(181, 924), (223, 223), (305, 73), (383, 83), (453, 452), (456, 455), (459, 458), (498, 497), (837, 921),
     (962, 931), (976, 914), (977, 920), (981, 934), (982, 928), (1008, 922), (1009, 929), (1013, 917),
     (7296, 1042), (7297, 1044), (7298, 1054), (7299, 1057), (7300, 1058), (7301, 1058), (7302, 1066),
     (7303, 1122), (7304, 42570), (7835, 7776), (8126, 921)]"

definition unicode_ToUpper :: "rune \<Rightarrow> rune" where
  "unicode_ToUpper r =
     (case map_of upper_special r of
        Some u \<Rightarrow> u
      | None \<Rightarrow>
          (case find (\<lambda>(lo, hi, st, t). t \<le> r \<and> r \<le> t + (hi - lo) \<and> (r - t) mod st = 0) lower_table of
             None \<Rightarrow> r
           | Some (lo, hi, st, t) \<Rightarrow> lo + (r - t)))"

definition ToUpper :: "string \<Rightarrow> string" where
  "ToUpper s = utf8_encode (map unicode_ToUpper (utf8_decode s))"

text \<open>On ASCII strings upper case is computed bytewise.\<close>

definition byte_upper :: "char \<Rightarrow> char" where
  "byte_upper c = (if 97 \<le> byte c \<and> byte c \<le> 122 then char_of (byte c - 32) else c)"

lemma upper_sources: "list_all (\<lambda>(lo, hi, st, t). 128 \<le> t \<or> t = 97 \<and> lo = 65 \<and> hi = 90 \<and> st = 1 \<or> t = 105 \<and> lo = hi \<or> t = 107 \<and> lo = hi) lower_table"
  by (simp add: lower_table_def)

lemma unicode_ToUpper_ascii:
  assumes "r < 128"
  shows "unicode_ToUpper r = (if 97 \<le> r \<and> r \<le> 122 then r - 32 else r)"
proof (cases "97 \<le> r \<and> r \<le> 122")
  case True
  with assms show ?thesis by (auto simp: unicode_ToUpper_def upper_special_def lower_table_def)
next
  case False
  have "\<not> (t \<le> r \<and> r \<le> t + (hi - lo) \<and> (r - t) mod st = 0)" if "(lo, hi, st, t) \<in> set lower_table" for lo hi st t
  proof -
    from upper_sources that have "128 \<le> t \<or> t = 97 \<and> lo = 65 \<and> hi = 90 \<and> st = 1 \<or> t = 105 \<and> lo = hi \<or> t = 107 \<and> lo = hi"
      unfolding list_all_iff by (auto dest!: bspec)
    with assms False show ?thesis by auto
  qed
  then have "find (\<lambda>(lo, hi, st, t). t \<le> r \<and> r \<le> t + (hi - lo) \<and> (r - t) mod st = 0) lower_table = None"
    unfolding find_None_iff by (auto split: prod.splits)
  with False assms show ?thesis by (auto simp: unicode_ToUpper_def upper_special_def)
qed

lemma ToUpper_ascii:
  assumes "is_ascii s"
  shows "ToUpper s = map byte_upper s"
proof -
  have "utf8_encode (map unicode_ToUpper (map byte u)) = map byte_upper u" if "is_ascii u" for u
    using that
    by (induction u) (auto simp: is_ascii_def unicode_ToUpper_ascii byte_upper_def encode_rune_def valid_rune_def Let_def)
  with assms show ?thesis by (simp add: ToUpper_def utf8_decode_ascii del: map_map)
qed
section \<open>Fields\<close>

text \<open>\<open>strings.Fields\<close>: the maximal runs of runes that are no white space.\<close>

definition DecodeRune :: "string \<Rightarrow> rune \<times> nat" where
  "DecodeRune s =
     (case s of
        [] \<Rightarrow> (65533, 0)
      | c # s' \<Rightarrow>
          if byte c < 128 then (byte c, 1)
          else (case decode_multi (byte c) s' of None \<Rightarrow> (65533, 1) | Some (r, k) \<Rightarrow> (r, Suc k)))"

lemma DecodeRune_pos: "s \<noteq> [] \<Longrightarrow> 0 < snd (DecodeRune s)"
  by (auto simp: DecodeRune_def split: list.splits option.splits)

lemma DecodeRune_less: "(r, n) = DecodeRune s \<Longrightarrow> s \<noteq> [] \<Longrightarrow> length (drop n s) < length s"
  using DecodeRune_pos[of s] by (cases "DecodeRune s") auto

function fields_from :: "string \<Rightarrow> string \<Rightarrow> string list" where
  "fields_from cur s =
     (if s = [] then (if cur = [] then [] else [cur])
      else
        let (r, n) = DecodeRune s in
        if r \<in> set space_runes then (if cur = [] then [] else [cur]) @ fields_from [] (drop n s)
        else fields_from (cur @ take n s) (drop n s))"
  by pat_completeness auto
termination
  by (relation "measure (\<lambda>(_, s). length s)") (auto dest: DecodeRune_less)

declare fields_from.simps [simp del]

definition Fields :: "string \<Rightarrow> string list" where
  "Fields s = fields_from [] s"

section \<open>path.Match\<close>

text \<open>A chunk of the pattern: whether a star precedes it, the chunk up to the next star, the rest.\<close>

fun scan_to :: "bool \<Rightarrow> string \<Rightarrow> string \<times> string" where
  "scan_to inrange [] = ([], [])"
| "scan_to inrange (c # s) =
     (if c = CHR 0x5C then
        (case s of [] \<Rightarrow> ([c], []) | d # s' \<Rightarrow> (let (a, b) = scan_to inrange s' in (c # d # a, b)))
      else if c = CHR ''*'' \<and> \<not> inrange then ([], c # s)
      else
        (let (a, b) = scan_to (if c = CHR ''['' then True else if c = CHR '']'' then False else inrange) s
         in (c # a, b)))"

definition scan_chunk :: "string \<Rightarrow> bool \<times> string \<times> string" where
  "scan_chunk p = (p \<noteq> [] \<and> hd p = CHR ''*'', scan_to False (dropWhile (\<lambda>c. c = CHR ''*'') p))"

lemma scan_to_append: "scan_to b s = (c, r) \<Longrightarrow> s = c @ r"
  by (induction b s arbitrary: c r rule: scan_to.induct) (auto split: if_splits list.splits prod.splits)

lemma scan_to_nonempty: "c \<noteq> CHR ''*'' \<Longrightarrow> fst (scan_to b (c # s)) \<noteq> []"
  by (cases s) (auto simp: case_prod_unfold Let_def)

lemma scan_chunk_less: "scan_chunk p = (star, c, r) \<Longrightarrow> p \<noteq> [] \<Longrightarrow> length r < length p"
proof -
  assume s: "scan_chunk p = (star, c, r)" and p: "p \<noteq> []"
  let ?q = "dropWhile (\<lambda>c. c = CHR ''*'') p"
  have q: "?q = c @ r" using s scan_to_append by (auto simp: scan_chunk_def)
  show ?thesis
  proof (cases "hd p = CHR ''*''")
    case True
    then have "length ?q < length p" using p by (cases p) (auto simp: le_imp_less_Suc length_dropWhile_le)
    with q show ?thesis by simp
  next
    case False
    then have "?q = p" using p by (cases p) auto
    moreover have "c \<noteq> []"
      using s False p scan_to_nonempty[of "hd p" False "tl p"] \<open>?q = p\<close> by (cases p) (auto simp: scan_chunk_def)
    ultimately show ?thesis using q by (cases c) auto
  qed
qed

definition get_esc :: "string \<Rightarrow> (rune \<times> string) option" where
  "get_esc chunk =
     (case chunk of
        [] \<Rightarrow> None
      | c # rest \<Rightarrow>
          if c = CHR ''-'' \<or> c = CHR '']'' then None
          else
            let chunk1 = (if c = CHR 0x5C then rest else chunk) in
            if chunk1 = [] then None
            else
              let (r, n) = DecodeRune chunk1 in
              if (r = 65533 \<and> n = 1) \<or> drop n chunk1 = [] then None else Some (r, drop n chunk1))"

lemma get_esc_less:
  assumes "get_esc chunk = Some (r, rest)"
  shows "length rest < length chunk \<and> rest \<noteq> []"
proof -
  obtain c t where c: "chunk = c # t" using assms by (cases chunk) (auto simp: get_esc_def)
  define d where "d = (if c = CHR 0x5C then t else chunk)"
  have d: "d \<noteq> []" "length d \<le> length chunk" "rest = drop (snd (DecodeRune d)) d" "rest \<noteq> []"
    using assms by (auto simp: get_esc_def c d_def[symmetric] Let_def split: if_splits prod.splits)
       (auto simp: d_def c)
  then show ?thesis using DecodeRune_pos[of d] by simp
qed

function class_loop :: "rune \<Rightarrow> string \<Rightarrow> nat \<Rightarrow> bool \<Rightarrow> (bool \<times> string) option" where
  "class_loop r chunk nrange m =
     (if chunk \<noteq> [] \<and> hd chunk = CHR '']'' \<and> 0 < nrange then Some (m, tl chunk)
      else
        (case get_esc chunk of
           None \<Rightarrow> None
         | Some (lo, c1) \<Rightarrow>
             if hd c1 = CHR ''-'' then
               (case get_esc (tl c1) of
                  None \<Rightarrow> None
                | Some (hi, c2) \<Rightarrow> class_loop r c2 (Suc nrange) (m \<or> (lo \<le> r \<and> r \<le> hi)))
             else class_loop r c1 (Suc nrange) (m \<or> r = lo)))"
  by pat_completeness auto
termination
  by (relation "measure (\<lambda>(_, chunk, _). length chunk)") (auto dest!: get_esc_less)

declare class_loop.simps [simp del]

lemma class_loop_less: "class_loop r chunk n m = Some (b, rest) \<Longrightarrow> length rest < length chunk"
proof (induction r chunk n m rule: class_loop.induct)
  case (1 r chunk n m)
  show ?case
  proof (cases "chunk \<noteq> [] \<and> hd chunk = CHR '']'' \<and> 0 < n")
    case True
    then show ?thesis using "1.prems" by (subst (asm) class_loop.simps) (cases chunk; auto)
  next
    case False
    obtain lo c1 where e: "get_esc chunk = Some (lo, c1)"
      using "1.prems" False by (subst (asm) class_loop.simps) (auto split: option.splits)
    have l1: "length c1 < length chunk" using get_esc_less[OF e] by simp
    show ?thesis
    proof (cases "hd c1 = CHR ''-''")
      case True
      obtain hi c2 where f: "get_esc (tl c1) = Some (hi, c2)"
        using "1.prems" False e True by (subst (asm) class_loop.simps) (auto split: option.splits)
      have "length c2 < length (tl c1)" using get_esc_less[OF f] by simp
      moreover have "length rest < length c2"
        using "1.prems" False e True f "1.IH"(1)[OF False e refl True f refl]
        by (subst (asm) class_loop.simps) simp
      ultimately show ?thesis using l1 by simp
    next
      case F: False
      have "length rest < length c1"
        using "1.prems" False e F "1.IH"(2)[OF False e refl F]
        by (subst (asm) class_loop.simps) simp
      then show ?thesis using l1 by simp
    qed
  qed
qed


text \<open>
  A chunk against the name: \<open>None\<close> is a bad pattern, \<open>Some None\<close> no match, \<open>Some (Some t)\<close> a match that
  leaves \<open>t\<close>. After a failure the rest of the chunk is only parsed.
\<close>

function match_chunk :: "bool \<Rightarrow> string \<Rightarrow> string \<Rightarrow> string option option" where
  "match_chunk failed chunk s =
     (case chunk of
        [] \<Rightarrow> Some (if failed then None else Some s)
      | c # ch \<Rightarrow>
          let failed = (failed \<or> s = []) in
          if c = CHR ''['' then
            let (r, n) = (if failed then (0, 0) else DecodeRune s);
                negated = (ch \<noteq> [] \<and> hd ch = CHR 0x5E)
            in
              (case class_loop r (if negated then tl ch else ch) 0 False of
                 None \<Rightarrow> None
               | Some (m, ch') \<Rightarrow> match_chunk (failed \<or> m = negated) ch' (drop n s))
          else if c = CHR ''?'' then
            (if failed then match_chunk True ch s
             else match_chunk (hd s = CHR ''/'') ch (drop (snd (DecodeRune s)) s))
          else if c = CHR 0x5C then
            (case ch of
               [] \<Rightarrow> None
             | d # ch' \<Rightarrow> if failed then match_chunk True ch' s else match_chunk (d \<noteq> hd s) ch' (tl s))
          else (if failed then match_chunk True ch s else match_chunk (c \<noteq> hd s) ch (tl s)))"
  by pat_completeness auto
termination
  by (relation "measure (\<lambda>(_, chunk, _). length chunk)") (auto dest!: class_loop_less split: if_splits)

declare match_chunk.simps [simp del]

text \<open>The star: the chunk is tried after skipping one, two, ... bytes, none of them a slash.\<close>

fun star_try :: "string \<Rightarrow> bool \<Rightarrow> string \<Rightarrow> string option option" where
  "star_try chunk final [] = Some None"
| "star_try chunk final (c # s) =
     (if c = CHR ''/'' then Some None
      else
        (case match_chunk False chunk s of
           None \<Rightarrow> None
         | Some (Some t) \<Rightarrow> if final \<and> t \<noteq> [] then star_try chunk final s else Some (Some t)
         | Some None \<Rightarrow> star_try chunk final s))"

text \<open>The syntax check of what the pattern still holds after a failure.\<close>

function chunks_ok :: "string \<Rightarrow> bool" where
  "chunks_ok p =
     (if p = [] then True
      else (case scan_chunk p of (_, chunk, rest) \<Rightarrow> match_chunk False chunk [] \<noteq> None \<and> chunks_ok rest))"
  by pat_completeness auto
termination
  by (relation "measure length") (auto dest: scan_chunk_less[OF sym])

declare chunks_ok.simps [simp del]

function path_match :: "string \<Rightarrow> string \<Rightarrow> bool option" where
  "path_match p name =
     (if p = [] then Some (name = [])
      else
        (case scan_chunk p of (star, chunk, rest) \<Rightarrow>
           if star \<and> chunk = [] then Some (CHR ''/'' \<notin> set name)
           else
             let fail = (if chunks_ok rest then Some False else None);
                 skip = (if star then
                           (case star_try chunk (rest = []) name of
                              None \<Rightarrow> None
                            | Some (Some t) \<Rightarrow> path_match rest t
                            | Some None \<Rightarrow> fail)
                         else fail)
             in
               (case match_chunk False chunk name of
                  Some (Some t) \<Rightarrow> if t = [] \<or> rest \<noteq> [] then path_match rest t else skip
                | Some None \<Rightarrow> skip
                | None \<Rightarrow> None)))"
  by pat_completeness auto
termination
  by (relation "measure (\<lambda>(p, _). length p)") (auto dest: scan_chunk_less[OF sym] simp: scan_chunk_less)

declare path_match.simps [simp del]

section \<open>url.PathUnescape\<close>

definition hex_val :: "char \<Rightarrow> nat option" where
  "hex_val c =
     (let b = byte c in
      if 48 \<le> b \<and> b \<le> 57 then Some (b - 48)
      else if 97 \<le> b \<and> b \<le> 102 then Some (b - 87)
      else if 65 \<le> b \<and> b \<le> 70 then Some (b - 55)
      else None)"

fun PathUnescape :: "string \<Rightarrow> string option" where
  "PathUnescape [] = Some []"
| "PathUnescape (c # s) =
     (if c = CHR ''%'' then
        (case s of
           h # l # s' \<Rightarrow>
             (case (hex_val h, hex_val l) of
                (Some a, Some b) \<Rightarrow> map_option ((#) (char_of (16 * a + b))) (PathUnescape s')
              | _ \<Rightarrow> None)
         | _ \<Rightarrow> None)
      else map_option ((#) c) (PathUnescape s))"

end
