(* ===== verification/License.thy ===== *)
theory License
  imports GoMatch Prelude
begin

text \<open>
  risk/license_classifier.go: from the licence string of a package to the five tags and the strength
  band. The SPDX library (\<open>spdxexp\<close>) is a parameter: the identifiers of an expression, and whether one
  identifier is valid. The strings are the registry's own, so a free-text name is first rewritten.
\<close>

section \<open>Strings\<close>

text \<open>\<open>strings.ReplaceAll\<close> for a non-empty old string, and \<open>strings.Replace\<close> of the first occurrence.\<close>

function ReplaceAll :: "string \<Rightarrow> string \<Rightarrow> string \<Rightarrow> string" where
  "ReplaceAll old new [] = []"
| "ReplaceAll old new (c # s) =
     (if old \<noteq> [] \<and> HasPrefix (c # s) old
      then new @ ReplaceAll old new (drop (length old) (c # s))
      else c # ReplaceAll old new s)"
  by pat_completeness auto
termination
  by (relation "measure (\<lambda>(_, _, s). length s)") (auto simp: neq_Nil_conv)

definition Replace1 :: "string \<Rightarrow> string \<Rightarrow> string \<Rightarrow> string" where
  "Replace1 s old new =
     (case str_Index s old of None \<Rightarrow> s | Some i \<Rightarrow> take i s @ new @ drop (i + length old) s)"

text \<open>\<open>strings.Trim\<close> with an ASCII cutset, \<open>strings.TrimSuffix\<close>.\<close>

definition Trim :: "string \<Rightarrow> string \<Rightarrow> string" where
  "Trim s cutset =
     rev (dropWhile (\<lambda>c. c \<in> set cutset) (rev (dropWhile (\<lambda>c. c \<in> set cutset) s)))"

section \<open>Tags, bands, prefixes\<close>

record Spdx =
  ExtractLicenses :: "string \<Rightarrow> string list option"
  ValidateLicense :: "string \<Rightarrow> bool"

definition LicenseTagCopyleft :: string where "LicenseTagCopyleft = ''license.copyleft''"
definition LicenseTagNonPermissive :: string where "LicenseTagNonPermissive = ''license.non_permissive''"
definition LicenseTagExceptionPresent :: string where "LicenseTagExceptionPresent = ''license.exception_present''"
definition LicenseTagAmbiguous :: string where "LicenseTagAmbiguous = ''license.ambiguous_classifier''"
definition LicenseTagUnidentified :: string where "LicenseTagUnidentified = ''license.unidentified''"

lemmas license_tags =
  LicenseTagCopyleft_def LicenseTagNonPermissive_def LicenseTagExceptionPresent_def LicenseTagAmbiguous_def
  LicenseTagUnidentified_def

definition weakCopyleftPrefixes :: "string list" where
  "weakCopyleftPrefixes =
     [''lgpl-'', ''lgpl'', ''cddl-'', ''cddl'', ''mpl-'', ''mpl'', ''epl-'', ''epl'', ''ms-rl'', ''cecill-c'']"

definition strongCopyleftPrefixes :: "string list" where
  "strongCopyleftPrefixes =
     [''agpl-'', ''agpl'', ''gpl-'', ''gpl'', ''eupl-'', ''eupl'', ''osl-'', ''osl'', ''sspl-'', ''sspl'', ''sleepycat'']"

definition copyleftPrefixes :: "string list" where
  "copyleftPrefixes = weakCopyleftPrefixes @ strongCopyleftPrefixes"

definition sourceAvailablePrefixes :: "string list" where
  "sourceAvailablePrefixes =
     [''busl-'', ''sspl-'', ''elastic-'', ''rsal-'', ''confluent'', ''commons-clause'', ''server-side-public-license'']"

definition matchesPrefix :: "string \<Rightarrow> string list \<Rightarrow> bool" where
  "matchesPrefix s ps \<longleftrightarrow> (\<exists>p \<in> set ps. HasPrefix s p)"

text \<open>The order of the bands is the order of their constants.\<close>

datatype LicenseStrength =
    LicenseStrengthPermissive | LicenseStrengthWeakCopyleft | LicenseStrengthSourceAvailable
  | LicenseStrengthStrongCopyleft

definition band :: "LicenseStrength \<Rightarrow> nat" where
  "band s =
     (case s of LicenseStrengthPermissive \<Rightarrow> 0 | LicenseStrengthWeakCopyleft \<Rightarrow> 1
      | LicenseStrengthSourceAvailable \<Rightarrow> 2 | LicenseStrengthStrongCopyleft \<Rightarrow> 3)"

instantiation LicenseStrength :: linorder
begin

definition less_eq_LicenseStrength :: "LicenseStrength \<Rightarrow> LicenseStrength \<Rightarrow> bool" where
  "less_eq_LicenseStrength s t \<longleftrightarrow> band s \<le> band t"

definition less_LicenseStrength :: "LicenseStrength \<Rightarrow> LicenseStrength \<Rightarrow> bool" where
  "less_LicenseStrength s t \<longleftrightarrow> band s < band t"

instance
proof
  fix s t :: LicenseStrength
  show "s \<le> t \<Longrightarrow> t \<le> s \<Longrightarrow> s = t"
    by (cases s; cases t) (simp_all add: less_eq_LicenseStrength_def band_def)
qed (auto simp: less_eq_LicenseStrength_def less_LicenseStrength_def)

end

section \<open>Reading an identifier\<close>

text \<open>Share-alike, and non-commercial or no-derivatives, of a lower-case Creative Commons identifier.\<close>

definition ccTerms :: "string \<Rightarrow> bool \<times> bool" where
  "ccTerms low =
     (if \<not> HasPrefix low ''cc-by'' then (False, False)
      else (Contains low ''-sa'', Contains low ''-nc'' \<or> Contains low ''-nd''))"

definition familyOf :: "string \<Rightarrow> string" where
  "familyOf i = (case str_Index i ''-'' of Some n \<Rightarrow> if 0 < n then take n i else i | None \<Rightarrow> i)"

definition containsWordWith :: "string \<Rightarrow> bool" where
  "containsWordWith expr = Contains (ToUpper expr) '' WITH ''"

definition connectives :: "string list" where
  "connectives = ['' AND '', '' and '', '' OR '', '' or '', '' WITH '', '' with '']"

definition splitLicenseTokens :: "string \<Rightarrow> string list" where
  "splitLicenseTokens raw =
     filter (\<lambda>t. t \<noteq> [])
       (map (\<lambda>t. Trim (TrimSpace t) ''() '')
         (split_byte (CHR ''|'') (fold (\<lambda>s sep. ReplaceAll s ''|'' sep) connectives raw)))"

definition licenseNameAliases :: "(string, string) gomap" where
  "licenseNameAliases =
     [(''apache license 2.0'', ''Apache-2.0''),
      (''apache license version 2.0'', ''Apache-2.0''),
      (''apache software license 2.0'', ''Apache-2.0''),
      (''apache software license version 2.0'', ''Apache-2.0''),
      (''apache software licenses'', ''Apache-2.0''),
      (''apache public license 2.0'', ''Apache-2.0''),
      (''apache 2.0'', ''Apache-2.0''),
      (''apache 2'', ''Apache-2.0''),
      (''asl 2.0'', ''Apache-2.0''),
      (''apache license'', ''Apache-2.0''),
      (''mit license'', ''MIT''),
      (''mit license mit'', ''MIT''),
      (''expat license'', ''MIT''),
      (''bsd 3 clause license'', ''BSD-3-Clause''),
      (''bsd 3 clause'', ''BSD-3-Clause''),
      (''3 clause bsd license'', ''BSD-3-Clause''),
      (''new bsd license'', ''BSD-3-Clause''),
      (''modified bsd license'', ''BSD-3-Clause''),
      (''revised bsd license'', ''BSD-3-Clause''),
      (''bsd 3 clause new or revised license'', ''BSD-3-Clause''),
      (''bsd 2 clause license'', ''BSD-2-Clause''),
      (''bsd 2 clause'', ''BSD-2-Clause''),
      (''2 clause bsd license'', ''BSD-2-Clause''),
      (''simplified bsd license'', ''BSD-2-Clause''),
      (''freebsd license'', ''BSD-2-Clause''),
      (''bsd 2 clause simplified license'', ''BSD-2-Clause''),
      (''bsd 3 clause clear license'', ''BSD-3-Clause-Clear''),
      (''bsd zero clause license'', ''0BSD''),
      (''bsd 4 clause original or old license'', ''BSD-4-Clause''),
      (''eclipse public license 2.0'', ''EPL-2.0''),
      (''eclipse public license 2.0 epl 2.0'', ''EPL-2.0''),
      (''eclipse public license version 2.0'', ''EPL-2.0''),
      (''epl 2.0'', ''EPL-2.0''),
      (''eclipse public license 1.0'', ''EPL-1.0''),
      (''eclipse public license version 1.0'', ''EPL-1.0''),
      (''epl 1.0'', ''EPL-1.0''),
      (''eclipse public license'', ''EPL''),
      (''eclipse distribution license 1.0'', ''BSD-3-Clause''),
      (''mozilla public license 2.0'', ''MPL-2.0''),
      (''mozilla public license version 2.0'', ''MPL-2.0''),
      (''mpl 2.0'', ''MPL-2.0''),
      (''mozilla public license 1.1'', ''MPL-1.1''),
      (''mpl 1.1'', ''MPL-1.1''),
      (''mozilla public license'', ''MPL''),
      (''gnu general public license'', ''GPL''),
      (''gnu general public license gpl'', ''GPL''),
      (''gnu general public license 2.0'', ''GPL-2.0-only''),
      (''gnu general public license version 2'', ''GPL-2.0-only''),
      (''gnu general public license version 2.0'', ''GPL-2.0-only''),
      (''gpl 2.0'', ''GPL-2.0-only''),
      (''gnu general public license 3.0'', ''GPL-3.0-only''),
      (''gnu general public license version 3'', ''GPL-3.0-only''),
      (''gnu general public license version 3.0'', ''GPL-3.0-only''),
      (''gpl 3.0'', ''GPL-3.0-only''),
      (''gnu lesser general public license'', ''LGPL''),
      (''gnu lesser general public license lgpl'', ''LGPL''),
      (''gnu library general public license'', ''LGPL''),
      (''gnu library or lesser general public license'', ''LGPL''),
      (''gnu lesser general public license 2.1'', ''LGPL-2.1-only''),
      (''gnu lesser general public license version 2.1'', ''LGPL-2.1-only''),
      (''lgpl 2.1'', ''LGPL-2.1-only''),
      (''gnu lesser general public license 3.0'', ''LGPL-3.0-only''),
      (''lgpl 3.0'', ''LGPL-3.0-only''),
      (''gnu affero general public license'', ''AGPL''),
      (''gnu affero general public license 3.0'', ''AGPL-3.0-only''),
      (''gnu affero general public license version 3'', ''AGPL-3.0-only''),
      (''agpl 3.0'', ''AGPL-3.0-only''),
      (''common development and distribution license'', ''CDDL''),
      (''common development and distribution license 1.0'', ''CDDL-1.0''),
      (''common development and distribution license 1.1'', ''CDDL-1.1''),
      (''cddl 1.0'', ''CDDL-1.0''),
      (''cddl 1.1'', ''CDDL-1.1''),
      (''business source license 1.1'', ''BUSL-1.1''),
      (''elastic license 2.0'', ''Elastic-2.0''),
      (''server side public license'', ''SSPL-1.0''),
      (''server side public license 1'', ''SSPL-1.0''),
      (''isc license'', ''ISC''),
      (''zlib license'', ''Zlib''),
      (''python software foundation license'', ''Python-2.0''),
      (''psf license'', ''Python-2.0''),
      (''the unlicense'', ''Unlicense''),
      (''unlicense'', ''Unlicense''),
      (''cc0 1.0 universal'', ''CC0-1.0''),
      (''cc0'', ''CC0-1.0''),
      (''cc0 1.0'', ''CC0-1.0''),
      (''creative commons zero 1.0 universal'', ''CC0-1.0''),
      (''boost software license 1.0'', ''BSL-1.0''),
      (''academic free license 3.0'', ''AFL-3.0''),
      (''artistic license 2.0'', ''Artistic-2.0''),
      (''microsoft public license'', ''MS-PL''),
      (''do what the fuck you want to public license'', ''WTFPL''),
      (''apache software license'', ''Apache-2.0''),
      (''gnu general public license 2 gplv2'', ''GPL-2.0-only''),
      (''gnu general public license 2 or later gplv2'', ''GPL-2.0-or-later''),
      (''gnu general public license 3 gplv3'', ''GPL-3.0-only''),
      (''gnu general public license 3 or later gplv3'', ''GPL-3.0-or-later''),
      (''gnu lesser general public license 2 lgplv2'', ''LGPL-2.0-only''),
      (''gnu lesser general public license 2 or later lgplv2'', ''LGPL-2.0-or-later''),
      (''gnu lesser general public license 3 lgplv3'', ''LGPL-3.0-only''),
      (''gnu lesser general public license 3 or later lgplv3'', ''LGPL-3.0-or-later''),
      (''gnu library or lesser general public license lgpl'', ''LGPL''),
      (''gnu affero general public license 3'', ''AGPL-3.0-only''),
      (''gnu affero general public license 3 or later agplv3'', ''AGPL-3.0-or-later''),
      (''mozilla public license 2.0 mpl 2.0'', ''MPL-2.0''),
      (''mozilla public license 1.1 mpl 1.1'', ''MPL-1.1''),
      (''eclipse public license 1.0 epl 1.0'', ''EPL-1.0''),
      (''european union public licence 1.1 eupl 1.1'', ''EUPL-1.1''),
      (''european union public licence 1.2 eupl 1.2'', ''EUPL-1.2''),
      (''common development and distribution license 1.0 cddl 1.0'', ''CDDL-1.0''),
      (''isc license iscl'', ''ISC''),
      (''unlicense unlicense'', ''Unlicense''),
      (''boost software license 1.0 bsl 1.0'', ''BSL-1.0''),
      (''cc0 1.0 universal cc0 1.0 public domain dedication'', ''CC0-1.0''),
      (''mit no attribution license mit 0'', ''MIT-0''),
      (''zero clause bsd 0bsd'', ''0BSD''),
      (''universal permissive license upl'', ''UPL-1.0''),
      (''gnu lgpl 3'', ''LGPL-3.0-only''),
      (''gnu lesser general public license lgpl version 3'', ''LGPL-3.0-only''),
      (''gplv3'', ''GPL-3.0-only''),
      (''gpl 3'', ''GPL-3.0-only''),
      (''gpl version 3'', ''GPL-3.0-only''),
      (''gplv2'', ''GPL-2.0-only''),
      (''gpl 2'', ''GPL-2.0-only''),
      (''gpl version 2'', ''GPL-2.0-only''),
      (''agpl 3'', ''AGPL-3.0-only''),
      (''agplv3'', ''AGPL-3.0-only''),
      (''lgplv3'', ''LGPL-3.0-only''),
      (''lgplv2.1'', ''LGPL''),
      (''gnu lesser general public license version 3'', ''LGPL-3.0-only''),
      (''gnu lesser general public license 2.1 or later'', ''LGPL-2.1-or-later''),
      (''gnu lesser general public license version 2.1 or later'', ''LGPL-2.1-or-later''),
      (''gnu lesser general public license 3 or later'', ''LGPL-3.0-or-later''),
      (''gnu lesser general public license version 3 or later'', ''LGPL-3.0-or-later''),
      (''gnu general public license 2 or later'', ''GPL-2.0-or-later''),
      (''gnu general public license version 2 or later'', ''GPL-2.0-or-later''),
      (''gnu general public license 3 or later'', ''GPL-3.0-or-later''),
      (''gnu general public license version 3 or later'', ''GPL-3.0-or-later''),
      (''eclipse public license v 1.0'', ''EPL-1.0''),
      (''eclipse public license v 2.0'', ''EPL-2.0''),
      (''apache'', ''Apache-2.0''),
      (''apl2'', ''Apache-2.0''),
      (''mit apache 2.0'', ''MIT OR Apache-2.0''),
      (''apache 2.0 mit'', ''Apache-2.0 OR MIT''),
      (''bsd license'', ''BSD'')]"

definition licenseFamilyTokens :: "string list" where
  "licenseFamilyTokens = [''gpl'', ''lgpl'', ''agpl'', ''mpl'', ''epl'', ''cddl'', ''eupl'', ''bsd'']"

definition minFullTextPrefixTokens :: nat where "minFullTextPrefixTokens = 3"

section \<open>Free-text names\<close>

text \<open>The loop of \<open>licenseNameKey\<close> over the runes: letters, digits and dots, every other run is one space.\<close>

fun key_runes :: "bool \<Rightarrow> rune list \<Rightarrow> string" where
  "key_runes space [] = []"
| "key_runes space (r # rs) =
     (if (97 \<le> r \<and> r \<le> 122) \<or> (48 \<le> r \<and> r \<le> 57) \<or> r = 46 then char_of r # key_runes False rs
      else if \<not> space then CHR '' '' # key_runes True rs
      else key_runes True rs)"

definition is_digit :: "char \<Rightarrow> bool" where
  "is_digit c \<longleftrightarrow> 48 \<le> byte c \<and> byte c \<le> 57"

definition drop_v :: "string \<Rightarrow> string" where
  "drop_v f = (case f of v # d # ds \<Rightarrow> if v = CHR ''v'' \<and> is_digit d then d # ds else f | _ \<Rightarrow> f)"

definition licenseNameKey :: "string \<Rightarrow> string" where
  "licenseNameKey s =
     join_with '' '' (map drop_v (Fields
       (TrimPrefix (TrimSpace (key_runes True (utf8_decode (ToLower s)))) ''the '')))"

text \<open>
  The words of a Creative Commons name: what one word says, and whether it takes the next one with it.
\<close>

datatype cc_term = CC_by | CC_nc | CC_nd | CC_sa | CC_skip | CC_version string

definition cc_term_of :: "string \<Rightarrow> string \<Rightarrow> (cc_term \<times> bool) option" where
  "cc_term_of w nxt =
     (if w = ''by'' \<or> w = ''attribution'' then Some (CC_by, False)
      else if w = ''nc'' \<or> w = ''noncommercial'' then Some (CC_nc, False)
      else if w = ''non'' \<and> nxt = ''commercial'' then Some (CC_nc, True)
      else if w = ''sa'' \<or> w = ''sharealike'' then Some (CC_sa, False)
      else if w = ''share'' \<and> nxt = ''alike'' then Some (CC_sa, True)
      else if w = ''nd'' \<or> w = ''noderivatives'' \<or> w = ''noderivs'' then Some (CC_nd, False)
      else if w = ''no'' \<and> (nxt = ''derivatives'' \<or> nxt = ''derivs'') then Some (CC_nd, True)
      else if w \<in> {''international'', ''license'', ''licence'', ''unported'', ''generic''} then Some (CC_skip, False)
      else if length (filter (\<lambda>c. c = CHR ''.'') w) = 1 \<and> Trim w ''0123456789.'' = [] then
        Some (CC_version w, False)
      else None)"

fun cc_words :: "string list \<Rightarrow> cc_term list option" where
  "cc_words [] = Some []"
| "cc_words (w # ws) =
     (case cc_term_of w (case ws of [] \<Rightarrow> [] | v # _ \<Rightarrow> v) of
        None \<Rightarrow> None
      | Some (t, two) \<Rightarrow> map_option (Cons t) (cc_words (if two then drop 1 ws else ws)))"

text \<open>The last version wins.\<close>

definition cc_version :: "cc_term list \<Rightarrow> string" where
  "cc_version ts = fold (\<lambda>t v. case t of CC_version w \<Rightarrow> w | _ \<Rightarrow> v) ts []"

definition creativeCommonsID :: "Spdx \<Rightarrow> string \<Rightarrow> string option" where
  "creativeCommonsID sp key =
     (let words = Fields key;
          rest =
            (if 2 < length words \<and> take 2 words = [''creative'', ''commons''] then Some (drop 2 words)
             else if 1 < length words \<and> take 1 words = [''cc''] then Some (drop 1 words)
             else None)
      in case Option.bind rest cc_words of
           None \<Rightarrow> None
         | Some ts \<Rightarrow>
             if CC_by \<notin> set ts \<or> cc_version ts = [] \<or> (CC_nd \<in> set ts \<and> CC_sa \<in> set ts) then None
             else
               let i = ''CC-BY'' @ (if CC_nc \<in> set ts then ''-NC'' else []) @ (if CC_nd \<in> set ts then ''-ND'' else [])
                         @ (if CC_sa \<in> set ts then ''-SA'' else []) @ ''-'' @ cc_version ts
               in if ValidateLicense sp i then Some i else None)"

definition licenseURLAlias :: "Spdx \<Rightarrow> string \<Rightarrow> string option" where
  "licenseURLAlias sp raw =
     (let low = ToLower raw in
      if \<not> HasPrefix low ''http://'' \<and> \<not> HasPrefix low ''https://'' then None
      else
        let u = TrimSuffix (TrimPrefix (TrimPrefix (TrimPrefix low ''http://'') ''https://'') ''www.'') ''/'' in
        if u \<in> {''apache.org/licenses/license-2.0'', ''apache.org/licenses/license-2.0.txt'',
                ''apache.org/licenses/license-2.0.html'', ''aws.amazon.com/apache2.0''} then Some ''Apache-2.0''
        else if HasPrefix u ''opensource.org/licenses/'' then
          let i = TrimSuffix (TrimSpace raw) ''/'';
              j = (case str_LastIndex i ''/'' of None \<Rightarrow> i | Some n \<Rightarrow> drop (n + 1) i);
              k = TrimSuffix (TrimSuffix j ''.php'') ''.html''
          in if ValidateLicense sp k then Some k else None
        else None)"

definition isConnective :: "string \<Rightarrow> bool" where
  "isConnective s \<longleftrightarrow> ToUpper (TrimSpace s) \<in> {''AND'', ''OR'', ''WITH''}"

text \<open>One operand: an identifier that the library accepts is never rewritten.\<close>

definition normalize_operand :: "Spdx \<Rightarrow> string \<Rightarrow> string option" where
  "normalize_operand sp p =
     (let trimmed = Trim (TrimSpace p) ''()'' in
      if trimmed = [] \<or> isConnective trimmed then None
      else if ValidateLicense sp trimmed then None
      else map_option (Replace1 p trimmed) (map_of licenseNameAliases (licenseNameKey trimmed)))"

definition normalizeOperands :: "Spdx \<Rightarrow> string \<Rightarrow> string option" where
  "normalizeOperands sp raw =
     (let spaced = fold (\<lambda>c s. ReplaceAll c (CHR 0x00 # c @ [CHR 0x00]) s) connectives raw;
          parts = split_byte (CHR 0x00) spaced
      in if \<forall>p \<in> set parts. normalize_operand sp p = None then None
         else Some (concat (map (\<lambda>p. case normalize_operand sp p of None \<Rightarrow> p | Some q \<Rightarrow> q) parts)))"

text \<open>The first two lines that are not blank, and the longest alias that prefixes them; the table is ranged over.\<close>

definition alias_fits :: "string \<Rightarrow> string \<Rightarrow> bool" where
  "alias_fits head k \<longleftrightarrow>
     minFullTextPrefixTokens \<le> length (Fields k) \<and> (head = k \<or> HasPrefix head (k @ '' ''))"

definition longest_alias :: "string \<Rightarrow> (string, string) gomap \<Rightarrow> string \<times> string" where
  "longest_alias head aliases =
     fold (\<lambda>(k, i) (bk, bi). if alias_fits head k \<and> length bk < length k then (k, i) else (bk, bi)) aliases ([], [])"

definition text_head :: "string \<Rightarrow> string list" where
  "text_head raw =
     take 2 (filter (\<lambda>t. t \<noteq> [])
       (map TrimSpace (split_byte (CHR 0x0A) (ReplaceAll [CHR 0x0D, CHR 0x0A] [CHR 0x0A] raw))))"

definition fullTextHeadAlias :: "(string, string) gomap \<Rightarrow> string \<Rightarrow> string option" where
  "fullTextHeadAlias aliases raw =
     (let ls = text_head raw in
      if ls = [] then None
      else
        let i = snd (longest_alias (licenseNameKey (join_with '' '' ls)) aliases) in
        if i = [] then None else Some i)"

definition mitGrantKey :: string where
  "mitGrantKey = licenseNameKey ''Permission is hereby granted, free of charge, to any person obtaining a copy''"

text \<open>The last segment of a pasted trove classifier.\<close>

definition trove_name :: "string \<Rightarrow> string option" where
  "trove_name raw =
     (if HasPrefix raw ''License ::'' then
        (case str_LastIndex raw ''::'' of
           None \<Rightarrow> None
         | Some i \<Rightarrow> (let name = TrimSpace (drop (i + 2) raw) in if name = [] then None else Some name))
      else None)"

text \<open>The steps after the trove classifier; \<open>expr\<close> comes back when nothing is recognised.\<close>

definition normalize_name :: "Spdx \<Rightarrow> string \<Rightarrow> string \<Rightarrow> string" where
  "normalize_name sp expr raw =
     (case licenseURLAlias sp raw of
        Some i \<Rightarrow> i
      | None \<Rightarrow>
          let key = licenseNameKey raw in
          (case map_of licenseNameAliases key of
             Some i \<Rightarrow> i
           | None \<Rightarrow>
               (case if HasPrefix key ''gnu '' then map_of licenseNameAliases (drop 4 key) else None of
                  Some i \<Rightarrow> i
                | None \<Rightarrow>
                    (case creativeCommonsID sp key of
                       Some i \<Rightarrow> i
                     | None \<Rightarrow>
                         (case normalizeOperands sp raw of
                            Some out \<Rightarrow> out
                          | None \<Rightarrow>
                              if CHR 0x0A \<in> set raw \<or> CHR 0x0D \<in> set raw \<or> 200 < length raw then
                                (case fullTextHeadAlias licenseNameAliases raw of
                                   Some i \<Rightarrow> i
                                 | None \<Rightarrow> if Contains (licenseNameKey raw) mitGrantKey then ''MIT'' else expr)
                              else expr)))))"

lemma length_trim_left: "length (trim_left s) \<le> length s"
  by (induction s rule: trim_left.induct) (subst trim_left.simps, auto split: option.splits)

lemma length_trim_right: "length (trim_right s) \<le> length s"
  by (induction s rule: trim_right.induct) (subst trim_right.simps, auto split: option.splits)

lemma length_TrimSpace: "length (TrimSpace s) \<le> length s"
  unfolding TrimSpace_def using length_trim_left length_trim_right order_trans by blast

lemma trove_name_less:
  assumes "trove_name (TrimSpace s) = Some n"
  shows "length n < length s"
proof -
  obtain i where i: "HasPrefix (TrimSpace s) ''License ::''" "n = TrimSpace (drop (i + 2) (TrimSpace s))"
    using assms by (auto simp: trove_name_def Let_def split: if_splits option.splits)
  from i(1) have "0 < length (TrimSpace s)" by (auto simp: HasPrefix_def)
  then have "length (drop (i + 2) (TrimSpace s)) < length (TrimSpace s)" by simp
  moreover have "length n \<le> length (drop (i + 2) (TrimSpace s))" by (simp only: i(2) length_TrimSpace)
  ultimately show ?thesis using length_TrimSpace[of s] by linarith
qed

function NormalizeLicenseExpression :: "Spdx \<Rightarrow> string \<Rightarrow> string" where
  "NormalizeLicenseExpression sp expr =
     (let raw = TrimSpace expr in
      if raw = [] then expr
      else
        (case trove_name raw of
           Some name \<Rightarrow> NormalizeLicenseExpression sp name
         | None \<Rightarrow> normalize_name sp expr raw))"
  by pat_completeness auto
termination
  by (relation "measure (\<lambda>(_, s). length s)") (auto simp: trove_name_less)

declare NormalizeLicenseExpression.simps [simp del]

text \<open>The identifiers of an expression that the library can read.\<close>

definition parsed :: "Spdx \<Rightarrow> string \<Rightarrow> string list option" where
  "parsed sp raw =
     (case ExtractLicenses sp raw of None \<Rightarrow> None | Some ids \<Rightarrow> if ids = [] then None else Some ids)"

definition normalizeIfUnparsed :: "Spdx \<Rightarrow> string \<Rightarrow> string" where
  "normalizeIfUnparsed sp raw = (if parsed sp raw \<noteq> None then raw else NormalizeLicenseExpression sp raw)"

section \<open>The strength band\<close>

definition id_strength :: "string \<Rightarrow> LicenseStrength" where
  "id_strength i =
     (let low = ToLower (Trim (TrimSpace i) ''() '') in
      if matchesPrefix low strongCopyleftPrefixes then LicenseStrengthStrongCopyleft
      else if matchesPrefix low sourceAvailablePrefixes \<or> Contains low ''commons'' \<or> snd (ccTerms low) then
        LicenseStrengthSourceAvailable
      else if matchesPrefix low weakCopyleftPrefixes \<or> fst (ccTerms low) then LicenseStrengthWeakCopyleft
      else LicenseStrengthPermissive)"

definition LicenseStrengthOf :: "Spdx \<Rightarrow> string \<Rightarrow> LicenseStrength" where
  "LicenseStrengthOf sp expression =
     (if TrimSpace expression = [] then LicenseStrengthPermissive
      else
        let raw = normalizeIfUnparsed sp (TrimSpace expression);
            ids = (case parsed sp raw of Some ids \<Rightarrow> ids | None \<Rightarrow> splitLicenseTokens raw)
        in fold (\<lambda>i best. if best < id_strength i then id_strength i else best) ids LicenseStrengthPermissive)"

section \<open>The tags\<close>

definition add_tag :: "string \<Rightarrow> string list \<Rightarrow> string list" where
  "add_tag t tags = (if t \<in> set tags then tags else tags @ [t])"

definition add_if :: "bool \<Rightarrow> string \<Rightarrow> string list \<Rightarrow> string list" where
  "add_if b t tags = (if b then add_tag t tags else tags)"

text \<open>The two readings of a token that both paths share.\<close>

definition is_copyleft :: "string \<Rightarrow> bool" where
  "is_copyleft low \<longleftrightarrow> matchesPrefix low copyleftPrefixes \<or> fst (ccTerms low)"

definition is_source_available :: "string \<Rightarrow> bool" where
  "is_source_available low \<longleftrightarrow> matchesPrefix low sourceAvailablePrefixes \<or> snd (ccTerms low)"

text \<open>The family of a token, or none when it is no licence that is known.\<close>

definition token_family :: "Spdx \<Rightarrow> string \<Rightarrow> string option" where
  "token_family sp t =
     (let low = ToLower t in
      if low \<in> set licenseFamilyTokens then Some low
      else if matchesPrefix low copyleftPrefixes \<or> matchesPrefix low sourceAvailablePrefixes then Some (familyOf low)
      else if ValidateLicense sp t then Some (familyOf low) else None)"

text \<open>\<open>fallbackClassify\<close>: the tags after its additions, and whether no token was a licence.\<close>

definition fallbackClassify :: "Spdx \<Rightarrow> string \<Rightarrow> string list \<Rightarrow> string list \<times> bool" where
  "fallbackClassify sp raw tags =
     (let upper = ToUpper raw;
          hasCompound = (Contains upper '' AND '' \<or> Contains upper '' OR '');
          tokens = splitLicenseTokens raw;
          sawNoassertion = (\<exists>t \<in> set tokens. EqualFold t ''NOASSERTION'');
          rest = filter (\<lambda>t. \<not> EqualFold t ''NOASSERTION'') tokens;
          copyleft = (\<exists>t \<in> set rest. is_copyleft (ToLower t));
          sourceAvail = (\<exists>t \<in> set rest. is_source_available (ToLower t) \<or> Contains (ToLower t) ''commons'');
          families = remdups (List.map_filter (token_family sp) rest);
          sawNonSPDX = (\<exists>t \<in> set rest. token_family sp t = None)
      in (add_if (hasCompound \<and> (1 < length families \<or> ((sawNoassertion \<or> sawNonSPDX) \<and> families \<noteq> [])))
            LicenseTagAmbiguous
            (add_if (copyleft \<or> sourceAvail) LicenseTagNonPermissive (add_if copyleft LicenseTagCopyleft tags)),
          families = []))"

definition classify_ids :: "string list \<Rightarrow> string list \<Rightarrow> string list" where
  "classify_ids ids tags =
     (let lows = map ToLower ids;
          noassertionMixed = (''noassertion'' \<in> set lows);
          rest = filter (\<lambda>l. l \<noteq> ''noassertion'') lows;
          families = remdups (map familyOf rest);
          copyleft = (\<exists>l \<in> set rest. is_copyleft l);
          sourceAvail = (\<exists>l \<in> set rest. is_source_available l)
      in add_if (noassertionMixed \<and> families = []) LicenseTagUnidentified
           (add_if (1 < length families \<or> (noassertionMixed \<and> families \<noteq> [])) LicenseTagAmbiguous
             (add_if (copyleft \<or> sourceAvail) LicenseTagNonPermissive (add_if copyleft LicenseTagCopyleft tags))))"

definition Classify :: "Spdx \<Rightarrow> string \<Rightarrow> string list" where
  "Classify sp expression =
     (let raw0 = TrimSpace expression in
      if raw0 = [] \<or> ToUpper raw0 = ''NOASSERTION'' \<or> ToUpper raw0 = ''NONE'' then [LicenseTagUnidentified]
      else
        let raw = normalizeIfUnparsed sp raw0;
            tags = add_if (containsWordWith raw) LicenseTagExceptionPresent []
        in case parsed sp raw of
             None \<Rightarrow>
               (case fallbackClassify sp raw tags of (tags', unknown) \<Rightarrow> add_if unknown LicenseTagUnidentified tags')
           | Some ids \<Rightarrow> classify_ids ids tags)"

definition IsAllPermissive :: "Spdx \<Rightarrow> string \<Rightarrow> bool" where
  "IsAllPermissive sp expression =
     (let raw = normalizeIfUnparsed sp (TrimSpace expression);
          upper = '' '' @ ToUpper (map (\<lambda>c. if c = CHR ''('' \<or> c = CHR '')'' then CHR '' '' else c) raw) @ '' '';
          tokens = splitLicenseTokens raw
      in (Contains upper '' OR '' \<or> Contains upper '' AND '') \<and> \<not> Contains upper '' WITH '' \<and>
         2 \<le> length tokens \<and>
         (\<forall>t \<in> set tokens.
            let low = ToLower t in
            \<not> fst (ccTerms low) \<and> \<not> snd (ccTerms low) \<and> low \<noteq> ''noassertion'' \<and>
            \<not> matchesPrefix low copyleftPrefixes \<and> \<not> matchesPrefix low sourceAvailablePrefixes \<and>
            \<not> Contains low ''commons'' \<and>
            (low \<in> set licenseFamilyTokens \<or> ValidateLicense sp t)))"

end
