(* ===== verification/SignalInput.thy ===== *)
theory SignalInput
  imports RiskCompound License GoTime
begin

text \<open>
  The rest of the input record of risk/input.go, which only the registered signals read, as a chain of
  extensions of the part that the engine reads; and what the signals read of their environment.
\<close>

text \<open>An item of capability evidence, from risk/registry_capability.go.\<close>

record CapEvidenceEntry =
  ce_File :: string
  ce_Line :: int
  ce_Snippet :: string

record ScriptInput = Input +
  IsKnownMalicious :: bool
  MalwareID :: string
  MalwareSummary :: string

record VulnInput = ScriptInput +
  IsVulnerable :: bool
  MaxCVSS :: rat
  EPSSScore :: rat
  KnownExploited :: bool
  CVEs :: "string list"
  FixAvailable :: bool
  FixedCVEs :: "string list"

record NameInput = VulnInput +
  IsSuspectedTyposquat :: bool
  TyposquatConfidence :: string
  TyposquatSimilarTo :: string
  DormantLookalikeSimilarTo :: string
  DormantLookalikeConfidence :: string
  DormantLookalikePriorVersion :: string
  DormantLookalikeGapDays :: int
  PublisherChangeEvaluated :: bool
  VersionAnomalyEvaluated :: bool
  ProvenanceDowngradeFrom :: string
  ProvenanceDowngradePriorCount :: int

record ScanInput = NameInput +
  InstallScriptEvalEncoded :: bool
  DependencyCredential :: string
  AppCredentialSend :: string
  DefenderTamper :: string
  PriorScanAvailable :: bool
  PriorVersion :: string
  ShellAccessAppeared :: bool
  FilesystemAccessAppeared :: bool
  EnvVarAccessAppeared :: bool
  HasHiddenUnicode :: bool
  HiddenUnicodeHits :: int
  HiddenUnicodeKinds :: "string list"

record TrustInput = ScanInput +
  HasProvenance :: bool
  ProvenanceStatus :: string
  BuilderID :: string
  SignatureVerified :: bool
  HasSourceRepo :: bool
  RepoLinkStatus :: string
  PublishVelocityAnomaly :: bool
  MaintainerAccountAgeDays :: int
  NonExistentAuthor :: bool

record ReleaseInput = TrustInput +
  PublishedAt :: "int option"
  LatestReleaseAt :: "int option"
  LastRepoCommitAt :: "int option"
  MaintainerCount :: int
  Stars :: int
  Forks :: int
  OpenIssues :: int
  Subscribers :: int
  VersionDataAvailable :: bool
  RepoArchived :: "bool option"

record LicenseInput = ReleaseInput +
  LicenseSPDX :: string
  LicenseChangedFromPrev :: bool
  LicensePriorSPDX :: string
  LicensePriorVersion :: string
  LicenseTags :: "string list"
  LicenseFromFile :: bool

record StateInput = LicenseInput +
  DeprecatedByMaintainer :: bool
  DeprecationReason :: string
  RelocatedTo :: string
  VersionPublishedAt :: "int option"
  NewerVersion :: string
  NewerVersionAt :: "int option"
  PriorReleaseVersion :: string
  PriorReleaseAt :: "int option"
  ShrinkwrapPresent :: bool
  ManifestConfusion :: bool
  ManifestConfusionFields :: "string list"
  ChecksumVerified :: bool
  ChecksumMismatch :: bool
  IsMinifiedCode :: bool
  MinifiedFiles :: "string list"

record ArtifactInput = StateInput +
  ArtifactSubtype :: string
  DangerousPickleOpcode :: bool
  DangerousPickleFiles :: "string list"
  DangerousPickleSummary :: string
  SuspiciousPickleOpcode :: bool
  UnsafeSerializationFormat :: bool
  PrefersSafetensorsAvailable :: bool
  ModelCardInjection :: bool
  ModelCardKinds :: "string list"
  AgentToolDeclared :: bool
  AgentToolDangerousCapability :: bool
  AgentToolCapabilities :: "string list"
  MCPServerUnverified :: bool
  PromptTemplateInjection :: bool
  HasGitURLDep :: bool
  GitURLDeps :: "string list"
  HasHTTPURLDep :: bool
  HTTPURLDeps :: "string list"

record ActionInput = ArtifactInput +
  ActionRefUnpinned :: bool
  ActionRefUnpinnedRefs :: "string list"
  ActionRefUnknownPublisher :: bool
  ActionRefUnknownPublishers :: "string list"
  ActionRefTyposquat :: bool
  ActionRefTyposquats :: "string list"
  ActionRefMalicious :: bool
  ActionRefMaliciousRefs :: "string list"
  ActionPwnRequest :: bool
  ActionPwnRequestLocs :: "string list"
  ActionCommentTriggerUnguarded :: bool
  ActionCommentTriggerUnguardedLocs :: "string list"
  ActionScriptInjection :: bool
  ActionScriptInjectionLocs :: "string list"
  ActionDecodeExec :: bool
  ActionDecodeExecLocs :: "string list"

record CapInput = ActionInput +
  CapNetwork :: bool
  CapNetworkEvidence :: "CapEvidenceEntry list"
  CapShellEvidence :: "CapEvidenceEntry list"
  CapFilesystemWrite :: bool
  CapFilesystemWriteEvidence :: "CapEvidenceEntry list"
  CapFilesystemRead :: bool
  CapFilesystemReadEvidence :: "CapEvidenceEntry list"
  CapEnvAccess :: bool
  CapEnvAccessEvidence :: "CapEvidenceEntry list"
  CapNativeCode :: bool
  CapNativeCodeEvidence :: "CapEvidenceEntry list"
  CapDynamicEvalEvidence :: "CapEvidenceEntry list"
  CapURLStrings :: bool
  CapURLStringsEvidence :: "CapEvidenceEntry list"
  CapDebugAccess :: bool
  CapDebugAccessEvidence :: "CapEvidenceEntry list"
  CapTelemetry :: bool
  CapTelemetryEvidence :: "CapEvidenceEntry list"
  CapDynamicRequireEvidence :: "CapEvidenceEntry list"
  CapCounts :: "string \<rightharpoonup> int"

record SignalInput = CapInput +
  TransitiveCriticalCount :: int
  TransitiveHighCount :: int
  TransitiveMediumCount :: int
  TransitiveLowCount :: int
  TransitiveMalwareCount :: int
  TransitiveBlockedCount :: int

text \<open>
  The clock, the variables CHAINSAW_OFFLINE and CHAINSAW_HIDDEN_UNICODE_ZEROWIDTH_THRESHOLD, the SPDX library, and the
  printable runes beyond ASCII, which only the quoting of a name in a message reads.
\<close>

record SignalEnv =
  env_Now :: int
  env_Offline :: string
  env_ZeroWidth :: string
  env_Spdx :: Spdx
  env_IsPrint :: "rune \<Rightarrow> bool"

definition Since :: "SignalEnv \<Rightarrow> int \<Rightarrow> int" where
  "Since env t = time_Sub (env_Now env) t"

section \<open>Signals and messages\<close>

text \<open>A composite literal: the fields that it does not name have their zero values.\<close>

definition signal ::
  "string \<Rightarrow> Category \<Rightarrow> Severity \<Rightarrow> rat \<Rightarrow> string \<Rightarrow> string \<Rightarrow>
   ('i \<Rightarrow> bool \<times> string \<times> Evidence) \<Rightarrow> 'i Signal" where
  "signal sid cat sev w title descr fires =
     \<lparr>s_ID = sid, s_Category = cat, s_Severity = sev, s_Weight = w, s_Title = title, s_Description = descr,
      s_Fires = fires, s_MaxImpact = 0, s_NotTunable = False, s_DampEstablished = False,
      s_TakeoverIndicator = False\<rparr>"

lemma signal_simps [simp]:
  "s_ID (signal sid cat sev w title descr fires) = sid"
  "s_Category (signal sid cat sev w title descr fires) = cat"
  "s_Severity (signal sid cat sev w title descr fires) = sev"
  "s_Weight (signal sid cat sev w title descr fires) = w"
  "s_Title (signal sid cat sev w title descr fires) = title"
  "s_Fires (signal sid cat sev w title descr fires) = fires"
  "s_MaxImpact (signal sid cat sev w title descr fires) = 0"
  "s_NotTunable (signal sid cat sev w title descr fires) = False"
  "s_DampEstablished (signal sid cat sev w title descr fires) = False"
  "s_TakeoverIndicator (signal sid cat sev w title descr fires) = False"
  by (simp_all add: signal_def)

text \<open>\<open>strconv.Quote\<close>.\<close>

definition hex_digit :: "nat \<Rightarrow> char" where
  "hex_digit n = (if n < 10 then char_of (48 + n) else char_of (87 + n))"

definition hex_width :: "nat \<Rightarrow> nat \<Rightarrow> string" where
  "hex_width k n = map (\<lambda>i. hex_digit (n div 16 ^ (k - 1 - i) mod 16)) [0..<k]"

definition quote_rune :: "(rune \<Rightarrow> bool) \<Rightarrow> rune \<Rightarrow> string" where
  "quote_rune print r =
     (if r = 34 \<or> r = 92 then [CHR 0x5C, char_of r]
      else if r < 128 \<and> 32 \<le> r \<and> r \<noteq> 127 then [char_of r]
      else if 128 \<le> r \<and> print r then encode_rune r
      else if r = 7 then [CHR 0x5C, CHR ''a'']
      else if r = 8 then [CHR 0x5C, CHR ''b'']
      else if r = 12 then [CHR 0x5C, CHR ''f'']
      else if r = 10 then [CHR 0x5C, CHR ''n'']
      else if r = 13 then [CHR 0x5C, CHR ''r'']
      else if r = 9 then [CHR 0x5C, CHR ''t'']
      else if r = 11 then [CHR 0x5C, CHR ''v'']
      else if r < 32 \<or> r = 127 then [CHR 0x5C, CHR ''x''] @ hex_width 2 r
      else if r < 65536 then [CHR 0x5C, CHR ''u''] @ hex_width 4 r
      else [CHR 0x5C, CHR ''U''] @ hex_width 8 r)"

text \<open>A byte that starts no rune is quoted as a byte; \<open>U+FFFD\<close> of width one marks it.\<close>

function quote_bytes :: "(rune \<Rightarrow> bool) \<Rightarrow> string \<Rightarrow> string" where
  "quote_bytes print s =
     (if s = [] then []
      else
        (case DecodeRune s of
           (r, n) \<Rightarrow>
             (if n = 1 \<and> r = 65533 then [CHR 0x5C, CHR ''x''] @ hex_width 2 (byte (hd s)) else quote_rune print r)
               @ quote_bytes print (drop n s)))"
  by pat_completeness auto
termination
  by (relation "measure (\<lambda>(_, s). length s)") (auto dest: DecodeRune_less)

declare quote_bytes.simps [simp del]

definition Quote :: "(rune \<Rightarrow> bool) \<Rightarrow> string \<Rightarrow> string" where
  "Quote print s = [CHR 0x22] @ quote_bytes print s @ [CHR 0x22]"

text \<open>\<open>Time.UTC().Format(time.RFC3339)\<close>.\<close>

definition Format_RFC3339 :: "int \<Rightarrow> string" where
  "Format_RFC3339 t =
     (let sec = t div 1000000000 mod 86400
      in Format_date t @ ''T'' @ zero_pad 2 (itoa (sec div 3600)) @ '':'' @ zero_pad 2 (itoa (sec div 60 mod 60))
           @ '':'' @ zero_pad 2 (itoa (sec mod 60)) @ ''Z'')"

definition capEvidence :: "CapEvidenceEntry list \<Rightarrow> int \<Rightarrow> Evidence" where
  "capEvidence ev n =
     (if ev = [] then []
      else
        (''locations'', AnyMaps (map (\<lambda>e.
            (''file'', AnyString (ce_File e))
            # (if 0 < ce_Line e then [(''line'', AnyInt (ce_Line e))] else [])
            @ (if ce_Snippet e \<noteq> [] then [(''snippet'', AnyString (ce_Snippet e))] else [])) ev))
        # (if int (length ev) < n then [(''count'', AnyInt n)] else []))"

text \<open>The zero value of the input: no fact is known, and every flag is off.\<close>

definition zero_input :: SignalInput where
  "zero_input =
     \<lparr>Ecosystem_in = [], Package = [], Version_in = [], SignalsUnavailable = False, UnavailableReason = [],
      PublisherChanged = False, HasInstallScript = False, InstallScriptFetchesRemote = False,
      EnvVarAccess = False, NetworkAccess = False, CapShell = False, CapDynamicEval = False,
      CapDynamicEvalObserved = False, CapDynamicRequire = False, MaliciousIOCKind = [],
      MaliciousIOCCoupled = False, MaliciousIOCAtEntry = False, ImportTimeKind = [], TrivialPackage = False,
      SLSALevel = 0, VersionAnomalyFlags = [], VulnDataAvailable = False, LicenseDataUnavailable = False,
      FirstPublishedAt = None, VersionCount = 0, WeeklyDownloads = None, Downloads = None, DownloadsWindow = [],
      IsKnownMalicious = False, MalwareID = [], MalwareSummary = [], IsVulnerable = False, MaxCVSS = 0,
      EPSSScore = 0, KnownExploited = False, CVEs = [], FixAvailable = False, FixedCVEs = [],
      IsSuspectedTyposquat = False, TyposquatConfidence = [], TyposquatSimilarTo = [],
      DormantLookalikeSimilarTo = [], DormantLookalikeConfidence = [], DormantLookalikePriorVersion = [],
      DormantLookalikeGapDays = 0, PublisherChangeEvaluated = False, VersionAnomalyEvaluated = False,
      ProvenanceDowngradeFrom = [], ProvenanceDowngradePriorCount = 0, InstallScriptEvalEncoded = False,
      DependencyCredential = [], AppCredentialSend = [], DefenderTamper = [], PriorScanAvailable = False,
      PriorVersion = [], ShellAccessAppeared = False, FilesystemAccessAppeared = False,
      EnvVarAccessAppeared = False, HasHiddenUnicode = False, HiddenUnicodeHits = 0, HiddenUnicodeKinds = [],
      HasProvenance = False, ProvenanceStatus = [], BuilderID = [], SignatureVerified = False,
      HasSourceRepo = False, RepoLinkStatus = [], PublishVelocityAnomaly = False, MaintainerAccountAgeDays = 0,
      NonExistentAuthor = False, PublishedAt = None, LatestReleaseAt = None, LastRepoCommitAt = None,
      MaintainerCount = 0, Stars = 0, Forks = 0, OpenIssues = 0, Subscribers = 0, VersionDataAvailable = False,
      RepoArchived = None, LicenseSPDX = [], LicenseChangedFromPrev = False, LicensePriorSPDX = [],
      LicensePriorVersion = [], LicenseTags = [], LicenseFromFile = False, DeprecatedByMaintainer = False,
      DeprecationReason = [], RelocatedTo = [], VersionPublishedAt = None, NewerVersion = [],
      NewerVersionAt = None, PriorReleaseVersion = [], PriorReleaseAt = None, ShrinkwrapPresent = False,
      ManifestConfusion = False, ManifestConfusionFields = [], ChecksumVerified = False, ChecksumMismatch = False,
      IsMinifiedCode = False, MinifiedFiles = [], ArtifactSubtype = [], DangerousPickleOpcode = False,
      DangerousPickleFiles = [], DangerousPickleSummary = [], SuspiciousPickleOpcode = False,
      UnsafeSerializationFormat = False, PrefersSafetensorsAvailable = False, ModelCardInjection = False,
      ModelCardKinds = [], AgentToolDeclared = False, AgentToolDangerousCapability = False,
      AgentToolCapabilities = [], MCPServerUnverified = False, PromptTemplateInjection = False,
      HasGitURLDep = False, GitURLDeps = [], HasHTTPURLDep = False, HTTPURLDeps = [], ActionRefUnpinned = False,
      ActionRefUnpinnedRefs = [], ActionRefUnknownPublisher = False, ActionRefUnknownPublishers = [],
      ActionRefTyposquat = False, ActionRefTyposquats = [], ActionRefMalicious = False,
      ActionRefMaliciousRefs = [], ActionPwnRequest = False, ActionPwnRequestLocs = [],
      ActionCommentTriggerUnguarded = False, ActionCommentTriggerUnguardedLocs = [],
      ActionScriptInjection = False, ActionScriptInjectionLocs = [], ActionDecodeExec = False,
      ActionDecodeExecLocs = [], CapNetwork = False, CapNetworkEvidence = [], CapShellEvidence = [],
      CapFilesystemWrite = False, CapFilesystemWriteEvidence = [], CapFilesystemRead = False,
      CapFilesystemReadEvidence = [], CapEnvAccess = False, CapEnvAccessEvidence = [], CapNativeCode = False,
      CapNativeCodeEvidence = [], CapDynamicEvalEvidence = [], CapURLStrings = False, CapURLStringsEvidence = [],
      CapDebugAccess = False, CapDebugAccessEvidence = [], CapTelemetry = False, CapTelemetryEvidence = [],
      CapDynamicRequireEvidence = [], CapCounts = Map.empty, TransitiveCriticalCount = 0, TransitiveHighCount = 0,
      TransitiveMediumCount = 0, TransitiveLowCount = 0, TransitiveMalwareCount = 0,
      TransitiveBlockedCount = 0\<rparr>"

end
