(* ===== verification/SignalIds.thy ===== *)
theory SignalIds
  imports SignalInput
begin

text \<open>
  The identifiers of the registered signals, besides those that the compound rules name (in RiskCompound).
\<close>

definition SignalActionUnpinnedRef :: string where "SignalActionUnpinnedRef = ''action.unpinned_ref''"
definition SignalActionUnknownPublisher :: string where
  "SignalActionUnknownPublisher = ''action.unknown_publisher''"
definition SignalActionTyposquat :: string where "SignalActionTyposquat = ''action.typosquat''"
definition SignalActionMalicious :: string where "SignalActionMalicious = ''action.malicious''"
definition SignalActionPwnRequest :: string where "SignalActionPwnRequest = ''action.pwn_request''"
definition SignalActionCommentTriggerUnguarded :: string where
  "SignalActionCommentTriggerUnguarded = ''action.comment_trigger_unguarded''"
definition SignalActionScriptInjection :: string where
  "SignalActionScriptInjection = ''action.script_injection''"
definition SignalActionDecodeExec :: string where "SignalActionDecodeExec = ''action.decode_exec''"
definition SignalAIDangerousPickle :: string where "SignalAIDangerousPickle = ''ai.dangerous_pickle_opcode''"
definition SignalAISuspiciousPickle :: string where "SignalAISuspiciousPickle = ''ai.suspicious_pickle_opcode''"
definition SignalAIUnsafeSerialization :: string where
  "SignalAIUnsafeSerialization = ''ai.unsafe_serialization_format''"
definition SignalAIPrefersSafetensors :: string where "SignalAIPrefersSafetensors = ''ai.prefers_safetensors''"
definition SignalAIModelCardInjection :: string where "SignalAIModelCardInjection = ''ai.model_card_injection''"
definition SignalAIAgentToolDangerous :: string where
  "SignalAIAgentToolDangerous = ''ai.agent_tool_dangerous_capability''"
definition SignalAIAgentToolDeclared :: string where "SignalAIAgentToolDeclared = ''ai.agent_tool_declared''"
definition SignalAIMCPServerUnverified :: string where
  "SignalAIMCPServerUnverified = ''ai.mcp_server_unverified''"
definition SignalAIPromptTemplateInjection :: string where
  "SignalAIPromptTemplateInjection = ''ai.prompt_template_injection''"
definition SignalCapNetwork :: string where "SignalCapNetwork = ''cap.network''"
definition SignalCapShell :: string where "SignalCapShell = ''cap.shell''"
definition SignalCapFilesystemWrite :: string where "SignalCapFilesystemWrite = ''cap.filesystem_write''"
definition SignalCapFilesystemRead :: string where "SignalCapFilesystemRead = ''cap.filesystem_read''"
definition SignalCapEnvAccess :: string where "SignalCapEnvAccess = ''cap.env_access''"
definition SignalCapNativeCode :: string where "SignalCapNativeCode = ''cap.native_code''"
definition SignalCapDynamicEval :: string where "SignalCapDynamicEval = ''cap.dynamic_eval''"
definition SignalCapDynamicEvalObs :: string where "SignalCapDynamicEvalObs = ''cap.dynamic_eval_observed''"
definition SignalCapURLStrings :: string where "SignalCapURLStrings = ''cap.url_strings''"
definition SignalCapDebugAccess :: string where "SignalCapDebugAccess = ''cap.debug_access''"
definition SignalCapTelemetry :: string where "SignalCapTelemetry = ''cap.telemetry''"
definition SignalCapDynamicRequire :: string where "SignalCapDynamicRequire = ''cap.dynamic_require''"
definition SignalSCDormantLookalikeRelease :: string where
  "SignalSCDormantLookalikeRelease = ''sc.dormant_lookalike_release''"
definition SignalLicMissing :: string where "SignalLicMissing = ''lic.missing''"
definition SignalLicChangedFromPrev :: string where
  "SignalLicChangedFromPrev = ''lic.changed_from_previous_version''"
definition SignalLicSPDXPresent :: string where "SignalLicSPDXPresent = ''lic.spdx_present''"
definition SignalLicCopyleft :: string where "SignalLicCopyleft = ''license.copyleft''"
definition SignalLicNonPermissive :: string where "SignalLicNonPermissive = ''license.non_permissive''"
definition SignalLicExceptionPresent :: string where "SignalLicExceptionPresent = ''license.exception_present''"
definition SignalLicAmbiguousClassifier :: string where
  "SignalLicAmbiguousClassifier = ''license.ambiguous_classifier''"
definition SignalLicUnidentified :: string where "SignalLicUnidentified = ''license.unidentified''"
definition SignalMaintAbandonedRepo :: string where "SignalMaintAbandonedRepo = ''maint.abandoned_repo''"
definition SignalMaintNoRecentRelease :: string where "SignalMaintNoRecentRelease = ''maint.no_recent_release''"
definition SignalMaintVeryNewPackage :: string where "SignalMaintVeryNewPackage = ''maint.very_new_package''"
definition SignalMaintSingleMaintainer :: string where
  "SignalMaintSingleMaintainer = ''maint.single_maintainer''"
definition SignalMaintHealthyCadence :: string where "SignalMaintHealthyCadence = ''maint.healthy_cadence''"
definition SignalMaintUnpopularPackage :: string where
  "SignalMaintUnpopularPackage = ''maint.unpopular_package''"
definition SignalMaintRelocated :: string where "SignalMaintRelocated = ''maint.relocated''"
definition SignalSCReleaseAfterDormancy :: string where
  "SignalSCReleaseAfterDormancy = ''sc.release_after_dormancy''"
definition SignalMaintOutdatedVersion :: string where "SignalMaintOutdatedVersion = ''maint.outdated_version''"
definition SignalQualChecksumVerified :: string where "SignalQualChecksumVerified = ''qual.checksum_verified''"
definition SignalQualMinifiedCode :: string where "SignalQualMinifiedCode = ''qual.minified_code''"
definition SignalSCTyposquatHigh :: string where "SignalSCTyposquatHigh = ''sc.typosquat_high''"
definition SignalSCTyposquatMedium :: string where "SignalSCTyposquatMedium = ''sc.typosquat_medium''"
definition SignalSCTyposquatLow :: string where "SignalSCTyposquatLow = ''sc.typosquat_low''"
definition SignalSCPOMDeveloperListChanged :: string where
  "SignalSCPOMDeveloperListChanged = ''sc.pom_developer_list_changed''"
definition SignalSCDependencyCredential :: string where
  "SignalSCDependencyCredential = ''sc.dependency_credential''"
definition SignalSCAppCredentialExfil :: string where "SignalSCAppCredentialExfil = ''sc.app_credential_exfil''"
definition SignalSCDefenderTamper :: string where "SignalSCDefenderTamper = ''sc.defender_tamper''"
definition SignalSCShellAppeared :: string where "SignalSCShellAppeared = ''sc.shell_access_appeared''"
definition SignalSCFilesystemAppeared :: string where
  "SignalSCFilesystemAppeared = ''sc.filesystem_access_appeared''"
definition SignalSCEnvVarAppeared :: string where "SignalSCEnvVarAppeared = ''sc.env_access_appeared''"
definition SignalSCHiddenUnicode :: string where "SignalSCHiddenUnicode = ''sc.hidden_unicode''"
definition SignalSCRepoOwnershipMismatch :: string where
  "SignalSCRepoOwnershipMismatch = ''sc.repo_ownership_mismatch''"
definition SignalSCRepoArchived :: string where "SignalSCRepoArchived = ''sc.repo_archived''"
definition SignalSCRepoMissing :: string where "SignalSCRepoMissing = ''sc.repo_missing''"
definition SignalSCRepoMissingEstablished :: string where
  "SignalSCRepoMissingEstablished = ''sc.repo_missing_established''"
definition SignalSCProvenanceVerified :: string where "SignalSCProvenanceVerified = ''sc.provenance_verified''"
definition SignalSCBuilderRefVersionMismatch :: string where
  "SignalSCBuilderRefVersionMismatch = ''sc.builder_ref_version_mismatch''"
definition SignalSCPublishVelocity :: string where "SignalSCPublishVelocity = ''sc.publish_velocity_anomaly''"
definition SignalSCSignatureVerified :: string where "SignalSCSignatureVerified = ''sc.signature_verified''"
definition SignalSCGitURLDependency :: string where "SignalSCGitURLDependency = ''sc.git_url_dependency''"
definition SignalSCHTTPURLDependency :: string where "SignalSCHTTPURLDependency = ''sc.http_url_dependency''"
definition SignalSCMaintainerAccountVeryYoung :: string where
  "SignalSCMaintainerAccountVeryYoung = ''sc.maintainer_account_very_young''"
definition SignalSCMaintainerAccountYoung :: string where
  "SignalSCMaintainerAccountYoung = ''sc.maintainer_account_young''"
definition SignalSCMaintainerAccountSomewhatYoung :: string where
  "SignalSCMaintainerAccountSomewhatYoung = ''sc.maintainer_account_somewhat_young''"
definition SignalSCNonExistentAuthor :: string where "SignalSCNonExistentAuthor = ''sc.non_existent_author''"
definition SignalSCTransitiveCriticalVuln :: string where
  "SignalSCTransitiveCriticalVuln = ''sc.transitive_critical_vuln''"
definition SignalSCTransitiveHighVuln :: string where "SignalSCTransitiveHighVuln = ''sc.transitive_high_vuln''"
definition SignalSCProvenanceDowngrade :: string where
  "SignalSCProvenanceDowngrade = ''sc.provenance_downgrade''"
definition SignalVulnKEV :: string where "SignalVulnKEV = ''vuln.kev''"
definition SignalVulnFixAvailable :: string where "SignalVulnFixAvailable = ''vuln.fix_available''"
definition SignalVulnCVSSCritical :: string where "SignalVulnCVSSCritical = ''vuln.cvss_critical''"
definition SignalVulnCVSSHigh :: string where "SignalVulnCVSSHigh = ''vuln.cvss_high''"
definition SignalVulnCVSSMedium :: string where "SignalVulnCVSSMedium = ''vuln.cvss_medium''"
definition SignalVulnCVSSLow :: string where "SignalVulnCVSSLow = ''vuln.cvss_low''"
definition SignalVulnEPSSHigh :: string where "SignalVulnEPSSHigh = ''vuln.epss_high''"
definition SignalVulnKnownVuln :: string where "SignalVulnKnownVuln = ''vuln.known_vulnerable''"
definition SignalSCDeprecatedByMaintainer :: string where
  "SignalSCDeprecatedByMaintainer = ''sc.deprecated_by_maintainer''"
definition SignalSCShrinkwrapPresent :: string where "SignalSCShrinkwrapPresent = ''sc.shrinkwrap_present''"
definition SignalSCManifestConfusion :: string where "SignalSCManifestConfusion = ''sc.manifest_confusion''"

lemmas signal_ids =
  SignalActionUnpinnedRef_def SignalActionUnknownPublisher_def SignalActionTyposquat_def
  SignalActionMalicious_def SignalActionPwnRequest_def SignalActionCommentTriggerUnguarded_def
  SignalActionScriptInjection_def SignalActionDecodeExec_def SignalAIDangerousPickle_def
  SignalAISuspiciousPickle_def SignalAIUnsafeSerialization_def SignalAIPrefersSafetensors_def
  SignalAIModelCardInjection_def SignalAIAgentToolDangerous_def SignalAIAgentToolDeclared_def
  SignalAIMCPServerUnverified_def SignalAIPromptTemplateInjection_def SignalCapNetwork_def
  SignalCapShell_def SignalCapFilesystemWrite_def SignalCapFilesystemRead_def
  SignalCapEnvAccess_def SignalCapNativeCode_def SignalCapDynamicEval_def
  SignalCapDynamicEvalObs_def SignalCapURLStrings_def SignalCapDebugAccess_def
  SignalCapTelemetry_def SignalCapDynamicRequire_def SignalSCDormantLookalikeRelease_def
  SignalLicMissing_def SignalLicChangedFromPrev_def SignalLicSPDXPresent_def
  SignalLicCopyleft_def SignalLicNonPermissive_def SignalLicExceptionPresent_def
  SignalLicAmbiguousClassifier_def SignalLicUnidentified_def SignalMaintAbandonedRepo_def
  SignalMaintNoRecentRelease_def SignalMaintVeryNewPackage_def SignalMaintSingleMaintainer_def
  SignalMaintHealthyCadence_def SignalMaintUnpopularPackage_def SignalMaintRelocated_def
  SignalSCReleaseAfterDormancy_def SignalMaintOutdatedVersion_def SignalQualChecksumVerified_def
  SignalQualMinifiedCode_def SignalSCTyposquatHigh_def SignalSCTyposquatMedium_def
  SignalSCTyposquatLow_def SignalSCPOMDeveloperListChanged_def SignalSCDependencyCredential_def
  SignalSCAppCredentialExfil_def SignalSCDefenderTamper_def SignalSCShellAppeared_def
  SignalSCFilesystemAppeared_def SignalSCEnvVarAppeared_def SignalSCHiddenUnicode_def
  SignalSCRepoOwnershipMismatch_def SignalSCRepoArchived_def SignalSCRepoMissing_def
  SignalSCRepoMissingEstablished_def SignalSCProvenanceVerified_def SignalSCBuilderRefVersionMismatch_def
  SignalSCPublishVelocity_def SignalSCSignatureVerified_def SignalSCGitURLDependency_def
  SignalSCHTTPURLDependency_def SignalSCMaintainerAccountVeryYoung_def SignalSCMaintainerAccountYoung_def
  SignalSCMaintainerAccountSomewhatYoung_def SignalSCNonExistentAuthor_def SignalSCTransitiveCriticalVuln_def
  SignalSCTransitiveHighVuln_def SignalSCProvenanceDowngrade_def SignalVulnKEV_def
  SignalVulnFixAvailable_def SignalVulnCVSSCritical_def SignalVulnCVSSHigh_def
  SignalVulnCVSSMedium_def SignalVulnCVSSLow_def SignalVulnEPSSHigh_def
  SignalVulnKnownVuln_def SignalSCDeprecatedByMaintainer_def SignalSCShrinkwrapPresent_def
  SignalSCManifestConfusion_def SignalQualChecksumMismatch_def SignalQualVersionAnomaly_def
  SignalSCExfilSinkUsed_def SignalSCImportTimeShell_def SignalSCInstallScriptEvalEnc_def
  SignalSCInstallScriptNetwork_def SignalSCInstallScriptOnly_def SignalSCInstallScriptOnlyNPM_def
  SignalSCKnownMalicious_def SignalSCPublisherChanged_def SignalSCSLSALevelBonus_def
  SignalSCTransitiveMalware_def

end
