(* ===== verification/SignalsMaint.thy ===== *)
theory SignalsMaint
  imports SignalIds
begin

text \<open>
  The maintenance signals of risk/registry_maintenance.go and registry_maintenance_state.go, and the
  supply-chain signals of registry_wave1.go and registry_dormant_lookalike.go.
\<close>

section \<open>registry_maintenance.go\<close>

text \<open>A time that is set and is more recent than a window.\<close>

definition younger :: "SignalEnv \<Rightarrow> int option \<Rightarrow> int \<Rightarrow> bool" where
  "younger env t window = (case t of None \<Rightarrow> False | Some u \<Rightarrow> Since env u < window)"

definition isNPMEco :: "string \<Rightarrow> bool" where
  "isNPMEco eco = (eco \<in> {''npm'', ''yarn'', ''bun'', ''pnpm''})"

definition isPyPIEco :: "string \<Rightarrow> bool" where
  "isPyPIEco eco = (eco \<in> {''pip'', ''pypi''})"

definition unpopularThreshold :: "string \<Rightarrow> string \<Rightarrow> (int \<times> string) option" where
  "unpopularThreshold eco window =
     (if isNPMEco eco \<and> window = ''week'' then Some (100, ''npm'')
      else if isPyPIEco eco \<and> window = ''week'' then Some (50, ''PyPI'')
      else if eco = ''cargo'' \<and> window = ''90d'' then Some (100, ''crates.io'')
      else if eco = ''composer'' \<and> window = ''month'' then Some (50, ''Packagist'')
      else if eco = ''rubygems'' \<and> window = ''total'' then Some (12000, ''RubyGems'')
      else if eco = ''nuget'' \<and> window = ''total'' then Some (75000, ''NuGet'')
      else if eco = ''homebrew'' \<and> window = ''90d'' then Some (50, ''Homebrew'')
      else None)"

definition downloadsWindowPhrase :: "(string, string) gomap" where
  "downloadsWindowPhrase =
     [(''week'', ''weekly downloads''), (''month'', ''downloads in the last month''),
      (''90d'', ''downloads in the last 90 days''), (''total'', ''downloads in total'')]"

definition AbandonedRepoThreshold :: int where "AbandonedRepoThreshold = 365 * 24 * Hour"
definition NoRecentReleaseThreshold :: int where "NoRecentReleaseThreshold = 2 * 365 * 24 * Hour"
definition VeryNewPackageThreshold :: int where "VeryNewPackageThreshold = 30 * 24 * Hour"
definition VeryNewPackageMaxVersions :: int where "VeryNewPackageMaxVersions = 3"
definition HealthyCadenceMaxAge :: int where "HealthyCadenceMaxAge = 90 * 24 * Hour"
definition HealthyCadenceMinVersions :: int where "HealthyCadenceMinVersions = 5"
definition ArchivedRepoRecentReleaseWindow :: int where "ArchivedRepoRecentReleaseWindow = 365 * 24 * Hour"
definition RepoMissingYoungWindow :: int where "RepoMissingYoungWindow = 90 * 24 * Hour"
definition unknownDownloadsSentinel :: int where "unknownDownloadsSentinel = - 1"

definition isOfflineForSignal :: "SignalEnv \<Rightarrow> bool" where
  "isOfflineForSignal env = (ToLower (TrimSpace (env_Offline env)) \<in> {''1'', ''true'', ''on'', ''yes''})"

text \<open>The count that is judged, and its window: the older field holds a weekly count.\<close>

definition counted_downloads :: "'a Input_scheme \<Rightarrow> int option \<times> string" where
  "counted_downloads i =
     (case Downloads i of Some d \<Rightarrow> (Some d, DownloadsWindow i) | None \<Rightarrow> (WeeklyDownloads i, ''week''))"

definition sig_maint_abandoned_repo :: "SignalEnv \<Rightarrow> 'a ReleaseInput_scheme Signal" where
  "sig_maint_abandoned_repo env =
     (signal SignalMaintAbandonedRepo CategoryMaintenance SevHigh (- 25)
       ''Source repository looks abandoned''
       ''No commits to the source repo in over 12 months.''
       (\<lambda>i.
         case LastRepoCommitAt i of
           None \<Rightarrow> no_fire
         | Some t \<Rightarrow>
             if RepoArchived i = Some True then no_fire
             else if Since env t < AbandonedRepoThreshold then no_fire
             else (True, ''No commits in over a year.'', [(''lastCommitAt'', AnyString (Format_RFC3339 t))])))
       \<lparr>s_DampEstablished := True\<rparr>"

definition sig_maint_no_recent_release :: "SignalEnv \<Rightarrow> 'a ReleaseInput_scheme Signal" where
  "sig_maint_no_recent_release env =
     signal SignalMaintNoRecentRelease CategoryMaintenance SevInfo 0
       ''No recent releases''
       ''Latest release is over 24 months old.''
       (\<lambda>i.
         case LatestReleaseAt i of
           None \<Rightarrow> no_fire
         | Some t \<Rightarrow>
             if Since env t < NoRecentReleaseThreshold then no_fire
             else (True, ''No releases in the last two years.'', [(''latestReleaseAt'', AnyString (Format_RFC3339 t))]))"

definition sig_maint_very_new_package :: "SignalEnv \<Rightarrow> 'a ReleaseInput_scheme Signal" where
  "sig_maint_very_new_package env =
     signal SignalMaintVeryNewPackage CategoryMaintenance SevMedium (- 10)
       ''Very new package''
       ''Package is less than 30 days old with few historical versions.''
       (\<lambda>i.
         case PublishedAt i of
           None \<Rightarrow> no_fire
         | Some t \<Rightarrow>
             if VeryNewPackageThreshold < Since env t then no_fire
             else if \<not> VersionDataAvailable i then no_fire
             else if VeryNewPackageMaxVersions < VersionCount i then no_fire
             else (True, ''Package is brand-new with very few prior versions.'',
                   [(''versionCount'', AnyInt (VersionCount i))]))"

definition sig_maint_single_maintainer :: "'a ReleaseInput_scheme Signal" where
  "sig_maint_single_maintainer =
     (signal SignalMaintSingleMaintainer CategoryMaintenance SevLow (- 5)
       ''Single maintainer''
       (''Only one maintainer '' @ em_dash @ '' bus-factor and takeover-target risk.'')
       (\<lambda>i.
         if IsPOMMaintainerEco (Ecosystem_in i) then no_fire
         else if MaintainerCount i \<noteq> 1 then no_fire
         else (True, ''Package has only one maintainer.'', [])))
       \<lparr>s_DampEstablished := True\<rparr>"

definition sig_maint_healthy_cadence :: "SignalEnv \<Rightarrow> 'a ReleaseInput_scheme Signal" where
  "sig_maint_healthy_cadence env =
     signal SignalMaintHealthyCadence CategoryMaintenance SevInfo 10
       ''Healthy release cadence''
       ''Recent release within 90 days and a history of >=5 versions.''
       (\<lambda>i.
         case LatestReleaseAt i of
           None \<Rightarrow> no_fire
         | Some t \<Rightarrow>
             if HealthyCadenceMaxAge < Since env t then no_fire
             else if VersionCount i < HealthyCadenceMinVersions then no_fire
             else (True, ''Recent releases and a track record of historical versions.'', []))"

definition sig_maint_unpopular_package :: "SignalEnv \<Rightarrow> 'a Input_scheme Signal" where
  "sig_maint_unpopular_package env =
     signal SignalMaintUnpopularPackage CategoryMaintenance SevInfo 0
       ''Very low download count''
       (''The package has very few downloads (npm <100/wk, PyPI <50/wk, crates.io <100 in 90 ''
         @ ''days, Packagist <50/month, Homebrew <50 installs in 90 days, RubyGems <12,000 and ''
         @ ''NuGet <75,000 in total), suggesting minimal community adoption. When download data ''
         @ ''is unavailable the signal fires with severity 'unknown'.'')
       (\<lambda>i.
         case counted_downloads i of
           (None, window) \<Rightarrow> no_fire
         | (Some dl, window) \<Rightarrow>
             if dl = unknownDownloadsSentinel then
               (True,
                if isOfflineForSignal env then ''Weekly download data unavailable (offline mode).''
                else if window \<noteq> ''week'' then ''Download count unavailable (air-gap or fetch error).''
                else ''Weekly download count unavailable (air-gap or fetch error).'',
                [(''severity_override'', AnyString ''unknown''),
                 (''title_override'', AnyString ''Download count unavailable'')])
             else
               (case unpopularThreshold (Ecosystem_in i) window of
                  None \<Rightarrow> no_fire
                | Some (threshold, registry) \<Rightarrow>
                    if threshold \<le> dl then no_fire
                    else
                      (True,
                       ''Package has very few '' @ get_or (map_of downloadsWindowPhrase) window [] @ '' on '' @ registry
                         @ ''.'',
                       [(''downloads'', AnyInt dl), (''window'', AnyString window), (''threshold'', AnyInt threshold)]
                         @ (if window = ''week'' then [(''weekly_downloads'', AnyInt dl)] else []))))"

lemmas maintenance_signals =
  sig_maint_abandoned_repo_def sig_maint_no_recent_release_def sig_maint_very_new_package_def
  sig_maint_single_maintainer_def sig_maint_healthy_cadence_def sig_maint_unpopular_package_def

section \<open>registry_maintenance_state.go\<close>

definition DormancyGapThreshold :: int where "DormancyGapThreshold = 2 * 365 * 24 * Hour"
definition OutdatedVersionThreshold :: int where "OutdatedVersionThreshold = NoRecentReleaseThreshold"

definition sig_maint_relocated :: "'a StateInput_scheme Signal" where
  "sig_maint_relocated =
     signal SignalMaintRelocated CategoryMaintenance SevLow 0
       ''Coordinate relocated''
       (''The Maven POM declares a <relocation>: this coordinate has moved and the build resolves ''
         @ ''the named target instead.'')
       (\<lambda>i.
         if RelocatedTo i = [] then no_fire
         else (True, ''Relocated to '' @ RelocatedTo i @ ''.'',
               [(''relocatedTo'', AnyString (RelocatedTo i))]))"

definition sig_sc_release_after_dormancy :: "'a StateInput_scheme Signal" where
  "sig_sc_release_after_dormancy =
     signal SignalSCReleaseAfterDormancy CategorySupplyChain SevInfo 0
       ''Release after long dormancy''
       ''This version was published more than two years after the previous release.''
       (\<lambda>i.
         case (VersionPublishedAt i, PriorReleaseAt i) of
           (Some t, Some prior) \<Rightarrow>
             if PriorReleaseVersion i = [] then no_fire
             else if time_Sub t prior < DormancyGapThreshold then no_fire
             else
               (True, ''Published '' @ itoa (age_days t prior) @ '' days after the previous release (''
                  @ PriorReleaseVersion i @ '').'',
                [(''gapDays'', AnyInt (age_days t prior)), (''priorVersion'', AnyString (PriorReleaseVersion i)),
                 (''priorReleasedAt'', AnyString (Format_RFC3339 prior))])
         | _ \<Rightarrow> no_fire)"

definition sig_maint_outdated_version :: "SignalEnv \<Rightarrow> 'a StateInput_scheme Signal" where
  "sig_maint_outdated_version env =
     signal SignalMaintOutdatedVersion CategoryMaintenance SevInfo 0
       ''Outdated version''
       (''This version was published over two years ago and a newer non-prerelease version '' @ ''exists.'')
       (\<lambda>i.
         case (VersionPublishedAt i, NewerVersionAt i) of
           (Some t, Some newer) \<Rightarrow>
             if NewerVersion i = [] then no_fire
             else if Since env t < OutdatedVersionThreshold then no_fire
             else
               (True, ''Published '' @ Format_date t @ ''; newer version '' @ NewerVersion i @ '' published ''
                  @ Format_date newer @ ''.'',
                [(''versionPublishedAt'', AnyString (Format_RFC3339 t)),
                 (''newerVersion'', AnyString (NewerVersion i)),
                 (''newerVersionAt'', AnyString (Format_RFC3339 newer))])
         | _ \<Rightarrow> no_fire)"

lemmas maintenance_state_signals =
  sig_maint_relocated_def sig_sc_release_after_dormancy_def sig_maint_outdated_version_def

section \<open>registry_wave1.go\<close>

definition sig_sc_deprecated_by_maintainer :: "'a StateInput_scheme Signal" where
  "sig_sc_deprecated_by_maintainer =
     (signal SignalSCDeprecatedByMaintainer CategorySupplyChain SevMedium (- 15)
       ''Deprecated by maintainer''
       (''Registry reports this version is deprecated, yanked, retracted (Go), unlisted (NuGet) ''
         @ ''or abandoned/archived (Packagist, PyPI project status, Go module Deprecated:).'')
       (\<lambda>i.
         if \<not> DeprecatedByMaintainer i then no_fire
         else (True, if DeprecationReason i \<noteq> [] then ''Maintainer deprecation: '' @ DeprecationReason i
                     else ''Maintainer has deprecated this version.'',
               [(''reason'', AnyString (DeprecationReason i))])))
       \<lparr>s_MaxImpact := maxImpactWarnTop\<rparr>"

definition sig_sc_shrinkwrap_present :: "'a StateInput_scheme Signal" where
  "sig_sc_shrinkwrap_present =
     signal SignalSCShrinkwrapPresent CategorySupplyChain SevLow (- 10)
       ''Bundled dependency lockfile''
       (''Artifact ships an npm-shrinkwrap.json at its root. npm honours it when installing ''
         @ ''the package as a dependency, so it pins the transitive graph past the consumer's ''
         @ ''own resolution.'')
       (\<lambda>i.
         if \<not> ShrinkwrapPresent i then no_fire
         else (True, ''Artifact bundles a dependency lockfile '' @ em_dash @ '' review the pinned transitive deps.'',
               []))"

definition sig_sc_manifest_confusion :: "'a StateInput_scheme Signal" where
  "sig_sc_manifest_confusion =
     (signal SignalSCManifestConfusion CategorySupplyChain SevHigh (- 45)
       ''Registry/tarball manifest mismatch''
       ''Registry JSON package.json and tarball package.json diverge semantically.''
       (\<lambda>i.
         if \<not> ManifestConfusion i then no_fire
         else (True, ''Registry-side package.json differs from the tarball '' @ em_dash
               @ '' possible metadata-tampering attack.'',
               [(''divergentFields'', AnyStrings (ManifestConfusionFields i))])))
       \<lparr>s_TakeoverIndicator := True\<rparr>"

lemmas wave1_signals =
  sig_sc_deprecated_by_maintainer_def sig_sc_shrinkwrap_present_def sig_sc_manifest_confusion_def

section \<open>registry_dormant_lookalike.go\<close>

definition sig_sc_dormant_lookalike_release :: "SignalEnv \<Rightarrow> 'a NameInput_scheme Signal" where
  "sig_sc_dormant_lookalike_release env =
     (signal SignalSCDormantLookalikeRelease CategorySupplyChain SevMedium (- 20)
       ''Lookalike name, fresh release after long dormancy''
       (''The name resembles a popular package. The typosquat flag was cleared because the ''
         @ ''package is established, but this release came more than two years after the previous '' @ ''one.'')
       (\<lambda>i.
         if DormantLookalikeSimilarTo i = [] then no_fire
         else (True, ''Name resembles '' @ Quote (env_IsPrint env) (DormantLookalikeSimilarTo i)
                 @ ''; cleared as established, but this release came '' @ itoa (DormantLookalikeGapDays i)
                 @ '' days after the previous one ('' @ DormantLookalikePriorVersion i @ '').'',
               [(''similarTo'', AnyString (DormantLookalikeSimilarTo i)),
                (''confidence'', AnyString (DormantLookalikeConfidence i)),
                (''priorVersion'', AnyString (DormantLookalikePriorVersion i)),
                (''gapDays'', AnyInt (DormantLookalikeGapDays i))])))
       \<lparr>s_MaxImpact := maxImpactWarnTop\<rparr>"

lemmas dormant_lookalike_signals =
  sig_sc_dormant_lookalike_release_def

end
