(* ===== verification/HiddenUnicode.thy ===== *)
theory HiddenUnicode
  imports GoMatch
begin

text \<open>
  hiddenunicode/scan.go: the scanner for invisible and bidirectional runes in the source files of an
  artifact. The environment variables are arguments: the text of the variable, empty when it is not
  set. The sizes are unbounded integers: the sum of the sizes of files in memory stays below \<open>2^63\<close>.
\<close>

section \<open>Kinds\<close>

definition KindZeroWidth :: string where "KindZeroWidth = ''zero_width''"
definition KindBidiOverride :: string where "KindBidiOverride = ''bidi_override''"
definition KindTag :: string where "KindTag = ''tag''"
definition KindVariationSelector :: string where "KindVariationSelector = ''variation_selector''"

lemmas kinds = KindZeroWidth_def KindBidiOverride_def KindTag_def KindVariationSelector_def

definition minVariationSelectorRun :: nat where "minVariationSelectorRun = 4"

definition isVariationSelector :: "rune \<Rightarrow> bool" where
  "isVariationSelector r = ((0xFE00 \<le> r \<and> r \<le> 0xFE0F) \<or> (0xE0100 \<le> r \<and> r \<le> 0xE01EF))"

record Hit =
  h_Offset :: nat
  h_Rune :: rune
  h_Kind :: string

record Result =
  r_Hits :: nat
  r_Kinds :: "string list"
  r_KindHits :: "(string, nat) gomap"
  r_PerFile :: "(string, Hit list) gomap"
  r_Truncated :: bool

definition NormalizeKind :: "rune \<Rightarrow> string" where
  "NormalizeKind r =
     (if 0x200B \<le> r \<and> r \<le> 0x200F then KindZeroWidth
      else if 0x202A \<le> r \<and> r \<le> 0x202E then KindBidiOverride
      else if 0x2066 \<le> r \<and> r \<le> 0x2069 then KindBidiOverride
      else if 0xE0000 \<le> r \<and> r \<le> 0xE007F then KindTag
      else [])"

section \<open>Files\<close>

definition defaultMaxFiles :: int where "defaultMaxFiles = 500"
definition defaultMaxBytes :: int where "defaultMaxBytes = 50 * 1024 * 1024"

definition sourceExtensions :: "string list" where
  "sourceExtensions =
     [''.js'', ''.ts'', ''.jsx'', ''.tsx'', ''.mjs'', ''.cjs'', ''.py'', ''.rb'', ''.rs'', ''.go'', ''.java'',
      ''.php'', ''.cs'', ''.cr'', ''.coffee'', ''.md'', ''.txt'', ''.json'', ''.yaml'', ''.yml'', ''.toml'',
      ''.xml'', ''.gemspec'', ''.nuspec'', ''.swift'', ''.kt'', ''.kts'', ''.gradle'', ''.scala'', ''.dart'']"

text \<open>\<open>filepath.Ext\<close>: from the last dot of the last component.\<close>

definition filepath_Ext :: "string \<Rightarrow> string" where
  "filepath_Ext path =
     (let back = rev path; tail = takeWhile (\<lambda>c. c \<noteq> CHR ''.'' \<and> c \<noteq> CHR ''/'') back
      in case drop (length tail) back of
           c # _ \<Rightarrow> if c = CHR ''.'' then CHR ''.'' # rev tail else []
         | [] \<Rightarrow> [])"

definition isAllowedExt :: "string \<Rightarrow> bool" where
  "isAllowedExt path = (ToLower (filepath_Ext path) \<in> set sourceExtensions)"

definition isBinary :: "string \<Rightarrow> bool" where
  "isBinary data = (\<exists>c \<in> set (take 4096 data). byte c = 0)"

section \<open>One file\<close>

text \<open>The loop of \<open>scanBytes\<close>: the offset, the rest of the data, the open run, and the hits.\<close>

definition flushRun :: "Hit list \<Rightarrow> Hit list \<Rightarrow> Hit list" where
  "flushRun vsRun hits = (if minVariationSelectorRun \<le> length vsRun then hits @ vsRun else hits)"

function scan_loop :: "nat \<Rightarrow> string \<Rightarrow> Hit list \<Rightarrow> Hit list \<Rightarrow> Hit list" where
  "scan_loop i data vsRun hits =
     (if data = [] then flushRun vsRun hits
      else
        (case DecodeRune data of
           (r, width) \<Rightarrow>
             if r = 65533 \<and> width = 1 then scan_loop (i + 1) (drop 1 data) [] (flushRun vsRun hits)
             else if isVariationSelector r then
               scan_loop (i + width) (drop width data)
                 (vsRun @ [\<lparr>h_Offset = i, h_Rune = r, h_Kind = KindVariationSelector\<rparr>]) hits
             else if r < 0x200B then scan_loop (i + width) (drop width data) [] (flushRun vsRun hits)
             else
               scan_loop (i + width) (drop width data) []
                 (flushRun vsRun hits
                    @ (if NormalizeKind r \<noteq> [] then [\<lparr>h_Offset = i, h_Rune = r, h_Kind = NormalizeKind r\<rparr>]
                       else []))))"
  by pat_completeness auto
termination
  by (relation "measure (\<lambda>(_, data, _). length data)") (auto dest: DecodeRune_less)

declare scan_loop.simps [simp del]

definition scanBytes :: "string \<Rightarrow> Hit list" where
  "scanBytes data = scan_loop 0 data [] []"

section \<open>The artifact\<close>

record limits =
  maxFiles :: int
  maxBytes :: int

definition parseEnvInt :: "string \<Rightarrow> int \<Rightarrow> int" where
  "parseEnvInt value fallback =
     (let raw = TrimSpace value in
      if raw = [] then fallback
      else case Atoi raw of None \<Rightarrow> fallback | Some v \<Rightarrow> if v \<le> 0 then fallback else v)"

definition budget :: "string \<Rightarrow> string \<Rightarrow> limits" where
  "budget files bytes =
     \<lparr>maxFiles = parseEnvInt files defaultMaxFiles, maxBytes = parseEnvInt bytes defaultMaxBytes\<rparr>"

text \<open>The loop over the sorted paths: inspected files and bytes so far, and the result.\<close>

definition bump :: "(string, nat) gomap \<Rightarrow> Hit \<Rightarrow> (string, nat) gomap" where
  "bump m h = AList.update (h_Kind h) (get_or (map_of m) (h_Kind h) 0 + 1) m"

fun scan_files :: "(string, string) gomap \<Rightarrow> limits \<Rightarrow> string list \<Rightarrow> int \<Rightarrow> int \<Rightarrow> Result \<Rightarrow> Result" where
  "scan_files files lim [] inspected totalBytes res = res"
| "scan_files files lim (path # paths) inspected totalBytes res =
     (if maxFiles lim \<le> inspected then res\<lparr>r_Truncated := True\<rparr>
      else if \<not> isAllowedExt path then scan_files files lim paths inspected totalBytes res
      else
        let data = get_or (map_of files) path []; n = int (length data) in
        if data = [] then scan_files files lim paths (inspected + 1) totalBytes res
        else if maxBytes lim < totalBytes + n then res\<lparr>r_Truncated := True\<rparr>
        else if isBinary data then scan_files files lim paths (inspected + 1) (totalBytes + n) res
        else
          let hits = scanBytes data in
          if hits = [] then scan_files files lim paths (inspected + 1) (totalBytes + n) res
          else
            scan_files files lim paths (inspected + 1) (totalBytes + n)
              (res\<lparr>r_Hits := r_Hits res + length hits,
                   r_KindHits := fold (\<lambda>h m. bump m h) hits (r_KindHits res),
                   r_PerFile := AList.update path hits (r_PerFile res)\<rparr>))"

definition no_hits :: Result where
  "no_hits = \<lparr>r_Hits = 0, r_Kinds = [], r_KindHits = [], r_PerFile = [], r_Truncated = False\<rparr>"

definition scanWithLimits :: "(string, string) gomap \<Rightarrow> limits \<Rightarrow> Result" where
  "scanWithLimits files lim =
     (let res = scan_files files lim (sort (map fst files)) 0 0 no_hits
      in res\<lparr>r_Kinds := sort (map fst (r_KindHits res))\<rparr>)"

definition Scan :: "string \<Rightarrow> string \<Rightarrow> (string, string) gomap \<Rightarrow> Result" where
  "Scan max_files max_bytes files = scanWithLimits files (budget max_files max_bytes)"

section \<open>Verdicts\<close>

definition Threshold :: "string \<Rightarrow> int" where
  "Threshold value = parseEnvInt value 1"

definition defaultZeroWidthThreshold :: int where "defaultZeroWidthThreshold = 32"

definition ZeroWidthThreshold :: "string \<Rightarrow> int" where
  "ZeroWidthThreshold value = parseEnvInt value defaultZeroWidthThreshold"

definition Adverse :: "string \<Rightarrow> int \<Rightarrow> string list \<Rightarrow> bool" where
  "Adverse value hits kinds =
     (if kinds = [] then True
      else if \<exists>k \<in> set kinds. k \<noteq> KindZeroWidth then True
      else ZeroWidthThreshold value \<le> hits)"

end
