(* ===== verification/SignalsSupply.thy ===== *)
theory SignalsSupply
  imports SignalsMaint HiddenUnicode
begin

text \<open>
  The supply-chain signals of risk/registry_supplychain.go.
\<close>

section \<open>registry_supplychain.go\<close>

definition ProvenanceDowngradeMinPrior :: int where "ProvenanceDowngradeMinPrior = 2"

text \<open>The tag that \<open>@refs/tags/(.+)$\<close> captures: the rest of the text after its leftmost match.\<close>

fun builder_tag :: "string \<Rightarrow> string" where
  "builder_tag [] = []"
| "builder_tag (c # s) =
     (let rest = drop 11 (c # s) in
      if HasPrefix (c # s) ''@refs/tags/'' \<and> rest \<noteq> [] \<and> CHR 0x0A \<notin> set rest then rest
      else builder_tag s)"

text \<open>The longest prefix of digits, dot, digits, and so on: \<open>[0-9]+(\.[0-9]+)*\<close>.\<close>

function dotted_digits :: "string \<Rightarrow> string" where
  "dotted_digits s =
     (case s of
        [] \<Rightarrow> []
      | c # s' \<Rightarrow>
          let d = takeWhile is_digit s' in
          if c \<noteq> CHR ''.'' \<or> d = [] then [] else c # d @ dotted_digits (drop (length d) s'))"
  by pat_completeness auto
termination
  by (relation "measure length") auto

declare dotted_digits.simps [simp del]

definition version_core :: "string \<Rightarrow> string" where
  "version_core s =
     (let d = takeWhile is_digit s in if d = [] then [] else d @ dotted_digits (drop (length d) s))"

definition builderRefVersionMismatch :: "string \<Rightarrow> string \<Rightarrow> string \<times> string \<times> bool" where
  "builderRefVersionMismatch builderID version =
     (let tag = builder_tag builderID; vcore = version_core (TrimPrefix version ''v'')
      in (tag, vcore, tag \<noteq> [] \<and> vcore \<noteq> [] \<and> \<not> Contains (ToLower tag) (ToLower vcore)))"

definition youngOrUnknownAge :: "SignalEnv \<Rightarrow> 'a StateInput_scheme \<Rightarrow> bool" where
  "youngOrUnknownAge env i =
     (let t = (case PublishedAt i of None \<Rightarrow> VersionPublishedAt i | Some u \<Rightarrow> Some u)
      in if t = None \<or> younger env t RepoMissingYoungWindow then True
         else younger env (FirstPublishedAt i) RepoMissingYoungWindow)"

definition sig_sc_known_malicious :: "'a ScriptInput_scheme Signal" where
  "sig_sc_known_malicious =
     (signal SignalSCKnownMalicious CategorySupplyChain SevCritical (- 1000)
       ''Known-malicious package''
       ''Matched a curated malware index entry. Short-circuits evaluation.''
       (\<lambda>i.
         if \<not> IsKnownMalicious i then no_fire
         else (True, ''This package is on the known-malicious index '' @ em_dash @ '' do not install.'',
               [(''malwareId'', AnyString (MalwareID i)), (''summary'', AnyString (MalwareSummary i))])))
       \<lparr>s_NotTunable := True, s_TakeoverIndicator := True\<rparr>"

definition sig_sc_typosquat_high :: "'a NameInput_scheme Signal" where
  "sig_sc_typosquat_high =
     (signal SignalSCTyposquatHigh CategorySupplyChain SevCritical (- 40)
       ''Likely typosquat (high confidence)''
       []
       (\<lambda>i.
         if \<not> IsSuspectedTyposquat i \<or> TyposquatConfidence i \<noteq> ''high'' then no_fire
         else (True, ''Name is highly similar to a popular package.'',
               [(''similarTo'', AnyString (TyposquatSimilarTo i))])))
       \<lparr>s_MaxImpact := 30, s_DampEstablished := True\<rparr>"

definition sig_sc_typosquat_medium :: "'a NameInput_scheme Signal" where
  "sig_sc_typosquat_medium =
     (signal SignalSCTyposquatMedium CategorySupplyChain SevMedium (- 20)
       ''Possible typosquat (medium confidence)''
       []
       (\<lambda>i.
         if \<not> IsSuspectedTyposquat i \<or> TyposquatConfidence i \<noteq> ''medium'' then no_fire
         else (True, ''Name is similar to a popular package.'',
               [(''similarTo'', AnyString (TyposquatSimilarTo i))])))
       \<lparr>s_DampEstablished := True\<rparr>"

definition sig_sc_typosquat_low :: "'a NameInput_scheme Signal" where
  "sig_sc_typosquat_low =
     (signal SignalSCTyposquatLow CategorySupplyChain SevLow (- 8)
       ''Name similarity to popular package (low confidence)''
       []
       (\<lambda>i.
         if \<not> IsSuspectedTyposquat i \<or> TyposquatConfidence i \<noteq> ''low'' then no_fire
         else (True, ''Name is weakly similar to a popular package.'',
               [(''similarTo'', AnyString (TyposquatSimilarTo i))])))
       \<lparr>s_DampEstablished := True\<rparr>"

definition sig_sc_publisher_changed :: "'a Input_scheme Signal" where
  "sig_sc_publisher_changed =
     (signal SignalSCPublisherChanged CategorySupplyChain SevHigh (- 25)
       ''Publisher changed from previous version''
       (''The maintainer set for this version differs from the previous version '' @ em_dash
         @ '' common signature of account takeover.'')
       (\<lambda>i.
         if \<not> PublisherChanged i then no_fire
         else if IsPOMMaintainerEco (Ecosystem_in i) then no_fire
         else (True, ''Publisher identity changed between versions.'', [])))
       \<lparr>s_MaxImpact := 40, s_TakeoverIndicator := True\<rparr>"

definition sig_sc_pom_developer_list_changed :: "'a Input_scheme Signal" where
  "sig_sc_pom_developer_list_changed =
     signal SignalSCPOMDeveloperListChanged CategorySupplyChain SevLow (- 5)
       ''Declared developer list changed''
       (''The POM <developers> block differs from the previous version. This block is self-declared ''
         @ ''documentation, not a registry-enforced publishing identity, so a change here is context '' @ em_dash
         @ '' commonly a committer added or removed, or a sponsor rename '' @ em_dash
         @ '' and not evidence of account takeover.'')
       (\<lambda>i.
         if \<not> PublisherChanged i then no_fire
         else if \<not> IsPOMMaintainerEco (Ecosystem_in i) then no_fire
         else (True, ''Declared <developers> list differs from the previous version.'', []))"

definition sig_sc_install_script_fetches_remote :: "'a Input_scheme Signal" where
  "sig_sc_install_script_fetches_remote =
     (signal SignalSCInstallScriptNetwork CategorySupplyChain SevHigh (- 25)
       ''Install script makes network calls''
       ''The package's install/postinstall script fetches remote content at install time.''
       (\<lambda>i.
         if \<not> InstallScriptFetchesRemote i then no_fire
         else (True, ''Install-time lifecycle script fetches remote content.'', [])))
       \<lparr>s_MaxImpact := 40, s_TakeoverIndicator := True\<rparr>"

definition sig_sc_install_script_eval_encoded :: "'a ScanInput_scheme Signal" where
  "sig_sc_install_script_eval_encoded =
     (signal SignalSCInstallScriptEvalEnc CategorySupplyChain SevHigh (- 25)
       ''Install script evaluates encoded content''
       (''The package's install-time script contains obfuscation or encoded-eval markers '' @ em_dash
         @ '' a payload decoded and executed during install, which is the delivery step of most ''
         @ ''install-time malware.'')
       (\<lambda>i.
         if \<not> InstallScriptEvalEncoded i then no_fire
         else (True, ''Install script decodes and evaluates encoded content.'', [])))
       \<lparr>s_MaxImpact := 40, s_TakeoverIndicator := True\<rparr>"

definition sig_sc_exfil_sink_used :: "'a Input_scheme Signal" where
  "sig_sc_exfil_sink_used =
     (signal SignalSCExfilSinkUsed CategorySupplyChain SevHigh (- 30)
       ''Code sends data to an exfiltration endpoint''
       (''The package's own code embeds a webhook, paste drop, tunnel or out-of-band host and ''
         @ ''makes an outbound call from the same file. Legitimate libraries do not ship a hard-coded ''
         @ ''exfiltration sink.'')
       (\<lambda>i.
         if MaliciousIOCKind i \<noteq> ''exfil_host'' \<or> \<not> MaliciousIOCCoupled i then no_fire
         else (True, ''Shipping code embeds an exfiltration endpoint and sends from the same file.'', [])))
       \<lparr>s_MaxImpact := 40, s_TakeoverIndicator := True\<rparr>"

definition sig_sc_import_time_shell :: "'a Input_scheme Signal" where
  "sig_sc_import_time_shell =
     (signal SignalSCImportTimeShell CategorySupplyChain SevHigh (- 25)
       ''Package runs a shell command or downloaded code on import''
       (''Code in the package spawns a shell or runs content it downloads when the package ''
         @ ''is imported, required or autoloaded, or (setup.py) installed.'')
       (\<lambda>i.
         if ImportTimeKind i = ''top_level_shell'' then
           (True, ''Module-level code spawns a shell at import time.'', [])
         else if ImportTimeKind i = ''download_exec'' then
           (True, ''Code runs content it downloads when the package is imported or loaded.'', [])
         else no_fire))
       \<lparr>s_MaxImpact := 40, s_TakeoverIndicator := True\<rparr>"

definition sig_sc_dependency_credential :: "'a ScanInput_scheme Signal" where
  "sig_sc_dependency_credential =
     (signal SignalSCDependencyCredential CategorySupplyChain SevHigh (- 25)
       ''Dependency spec embeds a credential''
       (''A dependency is fetched with a forge or registry token, or a user:password, written ''
         @ ''into the package's manifest or lockfile.'')
       (\<lambda>i.
         if DependencyCredential i = [] then no_fire
         else (True, ''Credential in a dependency spec: '' @ DependencyCredential i, [])))
       \<lparr>s_MaxImpact := 40, s_TakeoverIndicator := True\<rparr>"

definition sig_sc_app_credential_exfil :: "'a ScanInput_scheme Signal" where
  "sig_sc_app_credential_exfil =
     (signal SignalSCAppCredentialExfil CategorySupplyChain SevHigh (- 25)
       ''Code sends another application's credentials''
       (''A file reads an application's private credential store (an AI coding assistant's ''
         @ ''auth or transcripts, a CLI keychain, git's credential file) and makes an outbound '' @ ''call.'')
       (\<lambda>i.
         if AppCredentialSend i = [] then no_fire
         else (True, ''Reads and sends: '' @ AppCredentialSend i, [])))
       \<lparr>s_MaxImpact := 40, s_TakeoverIndicator := True\<rparr>"

definition sig_sc_defender_tamper :: "'a ScanInput_scheme Signal" where
  "sig_sc_defender_tamper =
     (signal SignalSCDefenderTamper CategorySupplyChain SevHigh (- 20)
       ''Code disables or excludes Windows Defender''
       (''A shipping file runs Set-MpPreference -Disable* or Add-MpPreference -Exclusion*, ''
         @ ''or writes the Smart App Control policy state, turning off or carving holes in the ''
         @ ''host's protection. PowerShell -EncodedCommand payloads are decoded first.'')
       (\<lambda>i.
         if DefenderTamper i = [] then no_fire
         else (True, ''Defender tampering: '' @ DefenderTamper i, [])))
       \<lparr>s_MaxImpact := 40, s_TakeoverIndicator := True\<rparr>"

definition sig_sc_install_script_only :: "'a Input_scheme Signal" where
  "sig_sc_install_script_only =
     signal SignalSCInstallScriptOnly CategorySupplyChain SevInfo 0
       ''Install lifecycle script present''
       []
       (\<lambda>i.
         if \<not> HasInstallScript i \<or> InstallScriptFetchesRemote i then no_fire
         else (True, ''Package has an install/postinstall script.'', []))"

definition sig_sc_install_script_only_npm :: "'a Input_scheme Signal" where
  "sig_sc_install_script_only_npm =
     signal SignalSCInstallScriptOnlyNPM CategorySupplyChain SevLow (- 5)
       ''npm install lifecycle script present''
       []
       (\<lambda>i.
         if \<not> isNPMEcosystem (Ecosystem_in i) then no_fire
         else if \<not> HasInstallScript i \<or> InstallScriptFetchesRemote i then no_fire
         else (True, ''npm package has an install/postinstall script.'', []))"

definition sig_sc_hidden_unicode :: "SignalEnv \<Rightarrow> 'a ScanInput_scheme Signal" where
  "sig_sc_hidden_unicode env =
     (signal SignalSCHiddenUnicode CategorySupplyChain SevMedium (- 20)
       ''Hidden Unicode in source''
       (''Source files contain invisible or bidirectional Unicode that can hide malicious code ''
         @ ''from review.'')
       (\<lambda>i.
         if \<not> HasHiddenUnicode i then no_fire
         else if \<not> Adverse (env_ZeroWidth env) (HiddenUnicodeHits i) (HiddenUnicodeKinds i) then no_fire
         else
           (True,
            if KindBidiOverride \<in> set (HiddenUnicodeKinds i) then
              ''Source contains bidirectional-override Unicode '' @ em_dash
                @ '' code can render differently from how it compiles (Trojan Source).''
            else ''Source contains invisible/bidi Unicode code points.'',
            if HiddenUnicodeKinds i = [] then []
            else [(''hiddenUnicodeKinds'', AnyStrings (HiddenUnicodeKinds i)),
                  (''hiddenUnicodeHits'', AnyInt (HiddenUnicodeHits i))])))
       \<lparr>s_MaxImpact := maxImpactWarnTop\<rparr>"

definition sig_sc_repo_ownership_mismatch :: "'a TrustInput_scheme Signal" where
  "sig_sc_repo_ownership_mismatch =
     (signal SignalSCRepoOwnershipMismatch CategorySupplyChain SevHigh (- 20)
       ''Source repo ownership mismatch''
       (''Registry-advertised source repo is owned by a different account than the publisher '' @ em_dash
         @ '' common in typosquat kits.'')
       (\<lambda>i.
         if RepoLinkStatus i \<noteq> ''ownership_mismatch'' then no_fire
         else (True, ''Declared source repo owner does not match the publisher.'', [])))
       \<lparr>s_MaxImpact := 40, s_TakeoverIndicator := True\<rparr>"

definition sig_sc_repo_archived :: "SignalEnv \<Rightarrow> 'a ReleaseInput_scheme Signal" where
  "sig_sc_repo_archived env =
     (signal SignalSCRepoArchived CategorySupplyChain SevMedium (- 12)
       ''Source repo archived''
       []
       (\<lambda>i.
         if RepoLinkStatus i \<noteq> ''archived'' then no_fire
         else if younger env (LatestReleaseAt i) ArchivedRepoRecentReleaseWindow then no_fire
         else (True, ''Source repository is archived (read-only).'', [])))
       \<lparr>s_MaxImpact := maxImpactWarnTop, s_DampEstablished := True\<rparr>"

definition sig_sc_repo_missing :: "SignalEnv \<Rightarrow> 'a StateInput_scheme Signal" where
  "sig_sc_repo_missing env =
     (signal SignalSCRepoMissing CategorySupplyChain SevMedium (- 12)
       ''Source repo missing''
       []
       (\<lambda>i.
         if RepoLinkStatus i \<noteq> ''missing'' \<or> \<not> youngOrUnknownAge env i then no_fire
         else (True, ''Declared source repository is unreachable or deleted.'', [])))
       \<lparr>s_MaxImpact := maxImpactWarnTop, s_DampEstablished := True\<rparr>"

definition sig_sc_repo_missing_established :: "SignalEnv \<Rightarrow> 'a StateInput_scheme Signal" where
  "sig_sc_repo_missing_established env =
     (signal SignalSCRepoMissingEstablished CategorySupplyChain SevLow (- 12)
       ''Source repo missing (established package)''
       (''The declared source repository no longer resolves, on a package and version both ''
         @ ''older than 90 days.'')
       (\<lambda>i.
         if RepoLinkStatus i \<noteq> ''missing'' \<or> youngOrUnknownAge env i then no_fire
         else (True, ''Declared source repository is unreachable or deleted.'', [])))
       \<lparr>s_DampEstablished := True\<rparr>"

definition sig_sc_provenance_verified :: "'a TrustInput_scheme Signal" where
  "sig_sc_provenance_verified =
     signal SignalSCProvenanceVerified CategorySupplyChain SevInfo 15
       ''Verified build provenance''
       ''Package has verifiable sigstore/SLSA provenance attestation.''
       (\<lambda>i.
         if \<not> HasProvenance i \<or> ProvenanceStatus i \<noteq> ''verified'' then no_fire
         else if snd (snd (builderRefVersionMismatch (BuilderID i) (Version_in i))) then no_fire
         else (True, ''Verified provenance attestation present.'', []))"

definition sig_sc_builder_ref_version_mismatch :: "'a TrustInput_scheme Signal" where
  "sig_sc_builder_ref_version_mismatch =
     signal SignalSCBuilderRefVersionMismatch CategorySupplyChain SevLow (- 5)
       ''Built from a tag that does not name this version''
       (''The provenance builder ref is a git tag that does not contain this package version '' @ em_dash
         @ '' the shape of the 2026-08-04 keyv/cacheable attestations.'')
       (\<lambda>i.
         case builderRefVersionMismatch (BuilderID i) (Version_in i) of
           (tag, vcore, fires) \<Rightarrow>
             if \<not> fires then no_fire
             else (True, ''Provenance was built from a tag that does not name this version.'',
                   [(''tag'', AnyString tag), (''versionCore'', AnyString vcore)]))"

definition sig_sc_provenance_downgrade :: "'a NameInput_scheme Signal" where
  "sig_sc_provenance_downgrade =
     (signal SignalSCProvenanceDowngrade CategorySupplyChain SevHigh (- 25)
       ''Published without provenance after attested releases''
       (''This version has no provenance attestation although the releases before it on its ''
         @ ''line did. A stolen publish token cannot produce one tied to the project's CI.'')
       (\<lambda>i.
         if ProvenanceDowngradeFrom i = [] \<or> ProvenanceDowngradePriorCount i < ProvenanceDowngradeMinPrior then no_fire
         else (True, ''No provenance attestation; the '' @ itoa (ProvenanceDowngradePriorCount i)
                 @ '' releases before it had one (last: '' @ ProvenanceDowngradeFrom i @ '').'',
               [(''lastAttestedVersion'', AnyString (ProvenanceDowngradeFrom i)),
                (''priorAttestedCount'', AnyInt (ProvenanceDowngradePriorCount i))])))
       \<lparr>s_MaxImpact := 40, s_TakeoverIndicator := True\<rparr>"

definition sig_sc_slsa_level_bonus :: "'a TrustInput_scheme Signal" where
  "sig_sc_slsa_level_bonus =
     signal SignalSCSLSALevelBonus CategorySupplyChain SevInfo 0
       ''SLSA build level bonus''
       (''Verified attestation claims a higher SLSA build level (L2/L3/L4) '' @ em_dash
         @ '' additional reward beyond bare provenance.'')
       (\<lambda>i.
         if \<not> HasProvenance i \<or> ProvenanceStatus i \<noteq> ''verified'' then no_fire
         else if SLSALevel i < 2 then no_fire
         else if snd (snd (builderRefVersionMismatch (BuilderID i) (Version_in i))) then no_fire
         else (True, ''Verified attestation claims a higher SLSA level.'', [(''slsaLevel'', AnyInt (SLSALevel i))]))"

definition sig_sc_signature_verified :: "'a TrustInput_scheme Signal" where
  "sig_sc_signature_verified =
     signal SignalSCSignatureVerified CategorySupplyChain SevInfo 5
       ''Upstream signature verified''
       ''Cryptographic verification against an independent trust root succeeded.''
       (\<lambda>i.
         if \<not> SignatureVerified i then no_fire
         else (True, ''Upstream signature verified against independent trust root.'', []))"

definition sig_sc_publish_velocity_anomaly :: "'a TrustInput_scheme Signal" where
  "sig_sc_publish_velocity_anomaly =
     (signal SignalSCPublishVelocity CategorySupplyChain SevMedium (- 15)
       ''Abnormal publish velocity''
       (''Publisher set pushed an unusually high number of releases in the trailing 24h '' @ em_dash
         @ '' Shai-Hulud worm signature.'')
       (\<lambda>i.
         if \<not> PublishVelocityAnomaly i then no_fire
         else (True, ''Publisher has pushed an abnormal number of versions recently.'', [])))
       \<lparr>s_MaxImpact := 55\<rparr>"

definition sig_sc_maintainer_account_very_young :: "'a TrustInput_scheme Signal" where
  "sig_sc_maintainer_account_very_young =
     (signal SignalSCMaintainerAccountVeryYoung CategorySupplyChain SevHigh (- 25)
       ''Maintainer account very young (<30 days)''
       ''The youngest maintainer account is less than 30 days old.''
       (\<lambda>i.
         if MaintainerAccountAgeDays i \<le> 0 \<or> 30 \<le> MaintainerAccountAgeDays i then no_fire
         else (True, ''Youngest maintainer account is brand new.'',
               [(''days'', AnyInt (MaintainerAccountAgeDays i))])))
       \<lparr>s_MaxImpact := 40, s_TakeoverIndicator := True\<rparr>"

definition sig_sc_maintainer_account_young :: "'a TrustInput_scheme Signal" where
  "sig_sc_maintainer_account_young =
     (signal SignalSCMaintainerAccountYoung CategorySupplyChain SevMedium (- 15)
       ''Maintainer account young (<90 days)''
       ''The youngest maintainer account is less than 90 days old.''
       (\<lambda>i.
         if MaintainerAccountAgeDays i < 30 \<or> 90 \<le> MaintainerAccountAgeDays i then no_fire
         else (True, ''Youngest maintainer account is recent.'',
               [(''days'', AnyInt (MaintainerAccountAgeDays i))])))
       \<lparr>s_TakeoverIndicator := True\<rparr>"

definition sig_sc_maintainer_account_somewhat_young :: "'a TrustInput_scheme Signal" where
  "sig_sc_maintainer_account_somewhat_young =
     signal SignalSCMaintainerAccountSomewhatYoung CategorySupplyChain SevLow (- 5)
       ''Maintainer account under 6 months''
       ''The youngest maintainer account is less than 180 days old.''
       (\<lambda>i.
         if MaintainerAccountAgeDays i < 90 \<or> 180 \<le> MaintainerAccountAgeDays i then no_fire
         else (True, ''Youngest maintainer account is under six months.'',
               [(''days'', AnyInt (MaintainerAccountAgeDays i))]))"

definition sig_sc_non_existent_author :: "'a TrustInput_scheme Signal" where
  "sig_sc_non_existent_author =
     (signal SignalSCNonExistentAuthor CategorySupplyChain SevHigh (- 20)
       ''Declared author does not exist on registry''
       ''The package's declared author email/name does not resolve to a real registry account.''
       (\<lambda>i.
         if \<not> NonExistentAuthor i then no_fire
         else (True, ''Author identity does not resolve to a registry account.'', [])))
       \<lparr>s_MaxImpact := 40, s_TakeoverIndicator := True\<rparr>"

definition sig_sc_git_url_dependency :: "'a ArtifactInput_scheme Signal" where
  "sig_sc_git_url_dependency =
     signal SignalSCGitURLDependency CategorySupplyChain SevLow (- 8)
       ''Git URL dependency''
       (''A package.json dependency resolves to a git URL (git+https://, git+ssh://, git://, ''
         @ ''github:user/repo) and bypasses the registry hash chain.'')
       (\<lambda>i.
         if \<not> HasGitURLDep i then no_fire
         else (True, ''Dependency resolved via git URL '' @ em_dash @ '' bypasses registry integrity hash.'',
               [(''deps'', AnyStrings (GitURLDeps i))]))"

definition sig_sc_http_url_dependency :: "'a ArtifactInput_scheme Signal" where
  "sig_sc_http_url_dependency =
     signal SignalSCHTTPURLDependency CategorySupplyChain SevLow (- 8)
       ''HTTP(S) tarball URL dependency''
       (''A package.json dependency resolves to a raw http:// or https:// tarball URL outside ''
         @ ''the standard npm/yarn registries.'')
       (\<lambda>i.
         if \<not> HasHTTPURLDep i then no_fire
         else (True, ''Dependency resolved via raw HTTP(S) URL '' @ em_dash @ '' not covered by registry integrity hash.'',
               [(''deps'', AnyStrings (HTTPURLDeps i))]))"

definition sig_sc_transitive_critical_vuln :: "'a SignalInput_scheme Signal" where
  "sig_sc_transitive_critical_vuln =
     (signal SignalSCTransitiveCriticalVuln CategorySupplyChain SevCritical (- 40)
       ''Transitive critical vulnerability''
       ''One or more critical-severity CVEs are reachable through the dependency closure.''
       (\<lambda>i.
         if TransitiveCriticalCount i \<le> 0 then no_fire
         else (True, itoa (TransitiveCriticalCount i) @ '' critical CVE(s) reachable via dependencies.'',
               [(''count'', AnyInt (TransitiveCriticalCount i))])))
       \<lparr>s_MaxImpact := 30\<rparr>"

definition sig_sc_transitive_high_vuln :: "'a SignalInput_scheme Signal" where
  "sig_sc_transitive_high_vuln =
     (signal SignalSCTransitiveHighVuln CategorySupplyChain SevHigh (- 20)
       ''Transitive high-severity vulnerability''
       ''One or more high-severity CVEs are reachable through the dependency closure.''
       (\<lambda>i.
         if TransitiveHighCount i \<le> 0 then no_fire
         else (True, itoa (TransitiveHighCount i) @ '' high-severity CVE(s) reachable via dependencies.'',
               [(''count'', AnyInt (TransitiveHighCount i))])))
       \<lparr>s_MaxImpact := 50\<rparr>"

definition sig_sc_transitive_malware :: "'a SignalInput_scheme Signal" where
  "sig_sc_transitive_malware =
     (signal SignalSCTransitiveMalware CategorySupplyChain SevCritical (- 1000)
       ''Malware in transitive closure''
       ''A descendant in the dependency closure is flagged on the known-malicious index.''
       (\<lambda>i.
         if TransitiveMalwareCount i \<le> 0 then no_fire
         else (True, itoa (TransitiveMalwareCount i) @ '' malicious descendant(s) reachable via dependencies.'',
               [(''count'', AnyInt (TransitiveMalwareCount i))])))
       \<lparr>s_NotTunable := True, s_TakeoverIndicator := True\<rparr>"

definition sig_sc_shell_access_appeared :: "'a ScanInput_scheme Signal" where
  "sig_sc_shell_access_appeared =
     (signal SignalSCShellAppeared CategorySupplyChain SevHigh (- 20)
       ''Shell execution introduced in this version''
       (''This version's source spawns a shell and the previous version we scanned did not. ''
         @ ''Measured at 49.3% of real takeovers against 0.9% of ordinary version bumps.'')
       (\<lambda>i.
         if \<not> PriorScanAvailable i \<or> \<not> ShellAccessAppeared i then no_fire
         else (True, ''Shell execution appeared in this version.'',
               [(''priorVersion'', AnyString (PriorVersion i))])))
       \<lparr>s_MaxImpact := 40, s_TakeoverIndicator := True\<rparr>"

definition sig_sc_filesystem_access_appeared :: "'a ScanInput_scheme Signal" where
  "sig_sc_filesystem_access_appeared =
     (signal SignalSCFilesystemAppeared CategorySupplyChain SevLow (- 10)
       ''Filesystem access introduced in this version''
       (''This version's source reads or writes the filesystem and the previous version we ''
         @ ''scanned did not. 45.1% of takeovers against 1.7% of ordinary version bumps.'')
       (\<lambda>i.
         if \<not> PriorScanAvailable i \<or> \<not> FilesystemAccessAppeared i then no_fire
         else (True, ''Filesystem access appeared in this version.'',
               [(''priorVersion'', AnyString (PriorVersion i))])))
       \<lparr>s_TakeoverIndicator := True\<rparr>"

definition sig_sc_env_access_appeared :: "'a ScanInput_scheme Signal" where
  "sig_sc_env_access_appeared =
     (signal SignalSCEnvVarAppeared CategorySupplyChain SevLow (- 10)
       ''Environment-variable access introduced in this version''
       (''This version's source reads process environment variables and the previous version ''
         @ ''we scanned did not. 36.6% of takeovers against 0.0% of ordinary version bumps.'')
       (\<lambda>i.
         if \<not> PriorScanAvailable i \<or> \<not> EnvVarAccessAppeared i then no_fire
         else (True, ''Environment-variable access appeared in this version.'',
               [(''priorVersion'', AnyString (PriorVersion i))])))
       \<lparr>s_TakeoverIndicator := True\<rparr>"

lemmas supplychain_signals =
  sig_sc_known_malicious_def sig_sc_typosquat_high_def sig_sc_typosquat_medium_def
  sig_sc_typosquat_low_def sig_sc_publisher_changed_def sig_sc_pom_developer_list_changed_def
  sig_sc_install_script_fetches_remote_def sig_sc_install_script_eval_encoded_def sig_sc_exfil_sink_used_def
  sig_sc_import_time_shell_def sig_sc_dependency_credential_def sig_sc_app_credential_exfil_def
  sig_sc_defender_tamper_def sig_sc_install_script_only_def sig_sc_install_script_only_npm_def
  sig_sc_hidden_unicode_def sig_sc_repo_ownership_mismatch_def sig_sc_repo_archived_def
  sig_sc_repo_missing_def sig_sc_repo_missing_established_def sig_sc_provenance_verified_def
  sig_sc_builder_ref_version_mismatch_def sig_sc_provenance_downgrade_def sig_sc_slsa_level_bonus_def
  sig_sc_signature_verified_def sig_sc_publish_velocity_anomaly_def sig_sc_maintainer_account_very_young_def
  sig_sc_maintainer_account_young_def sig_sc_maintainer_account_somewhat_young_def sig_sc_non_existent_author_def
  sig_sc_git_url_dependency_def sig_sc_http_url_dependency_def sig_sc_transitive_critical_vuln_def
  sig_sc_transitive_high_vuln_def sig_sc_transitive_malware_def sig_sc_shell_access_appeared_def
  sig_sc_filesystem_access_appeared_def sig_sc_env_access_appeared_def

end
