(* ===== verification/RiskTreeReresolve.thy ===== *)
theory RiskTreeReresolve
  imports RiskTreeVerdict SignalsSupply
begin

text \<open>
  The arithmetic of a tree of two packages, an application with the takeover signature that depends on known malware:
  the scores of the categories, the overall scores and the roll-up over the two nodes. \<open>RiskTreeRegistry\<close> derives from
  it, over the program's registry, what pass 2 of risk/tree.go forgets.
\<close>

section \<open>The two packages\<close>

definition pypi :: "string \<Rightarrow> Key" where
  "pypi s = Key ''pypi'' s ''1''"

definition takeover_graph :: Graph where
  "takeover_graph =
     build [Call_AddNode (pypi ''app'') True True, Call_AddNode (pypi ''bad'') False True,
       Call_AddRoot (pypi ''app''), Call_AddEdge (pypi ''app'') (pypi ''bad'')]"

lemma takeover_steps:
  "rnd (3 / 10) = 5404319552844595 / 18014398509481984"
  "rnd (7 / 20) = 3152519739159347 / 9007199254740992"
  "rnd (3 / 20) = 5404319552844595 / 36028797018963968"
  "rnd (1 / 10) = 3602879701896397 / 36028797018963968"
  "fadd 0 (5404319552844595 / 18014398509481984) = 5404319552844595 / 18014398509481984"
  "fadd (5404319552844595 / 18014398509481984) (3152519739159347 / 9007199254740992) = 1463669878895411 / 2251799813685248"
  "fadd (1463669878895411 / 2251799813685248) (5404319552844595 / 36028797018963968) = 7205759403792793 / 9007199254740992"
  "fadd (7205759403792793 / 9007199254740992) (3602879701896397 / 36028797018963968) = 2026619832316723 / 2251799813685248"
  "fadd (2026619832316723 / 2251799813685248) (3602879701896397 / 36028797018963968) = 9007199254740991 / 9007199254740992"
  "rnd 0 = 0"
  "fdiv (5404319552844595 / 18014398509481984) (9007199254740991 / 9007199254740992) = 1351079888211149 / 4503599627370496"
  "fmul 0 (1351079888211149 / 4503599627370496) = 0"
  "fadd 0 0 = 0"
  "rnd 80 = 80"
  "fdiv (3152519739159347 / 9007199254740992) (9007199254740991 / 9007199254740992) = 6305039478318695 / 18014398509481984"
  "fmul 80 (6305039478318695 / 18014398509481984) = 7881299347898369 / 281474976710656"
  "fadd 0 (7881299347898369 / 281474976710656) = 7881299347898369 / 281474976710656"
  "fdiv (5404319552844595 / 36028797018963968) (9007199254740991 / 9007199254740992) = 1351079888211149 / 9007199254740992"
  "fmul 0 (1351079888211149 / 9007199254740992) = 0"
  "fadd (7881299347898369 / 281474976710656) 0 = 7881299347898369 / 281474976710656"
  "fdiv (3602879701896397 / 36028797018963968) (9007199254740991 / 9007199254740992) = 7205759403792795 / 72057594037927936"
  "fmul 0 (7205759403792795 / 72057594037927936) = 0"
  "fadd (7881299347898369 / 281474976710656) (1 / 2) = 8022036836253697 / 281474976710656"
  "rnd 60 = 60"
  "fmul 60 (1351079888211149 / 4503599627370496) = 5066549580791809 / 281474976710656"
  "fadd 0 (5066549580791809 / 281474976710656) = 5066549580791809 / 281474976710656"
  "fadd (5066549580791809 / 281474976710656) (7881299347898369 / 281474976710656) = 6473924464345089 / 140737488355328"
  "fmul 60 (1351079888211149 / 9007199254740992) = 5066549580791809 / 562949953421312"
  "fadd (6473924464345089 / 140737488355328) (5066549580791809 / 562949953421312) = 7740561859543041 / 140737488355328"
  "fmul 60 (7205759403792795 / 72057594037927936) = 6755399441055745 / 1125899906842624"
  "fadd (7740561859543041 / 140737488355328) (6755399441055745 / 1125899906842624) = 8584986789675009 / 140737488355328"
  "fadd (8584986789675009 / 140737488355328) (6755399441055745 / 1125899906842624) = 4714705859903489 / 70368744177664"
  "fadd (4714705859903489 / 70368744177664) (1 / 2) = 4749890231992321 / 70368744177664"
  "rnd (3 / 5) = 5404319552844595 / 9007199254740992"
  "fmul 100 (5404319552844595 / 9007199254740992) = 60"
  "fmul 60 1 = 60"
  "fadd 60 (1 / 2) = 121 / 2"
proof -
  show "rnd (3 / 10) = 5404319552844595 / 18014398509481984"
    using rnd_eqI[of "3 / 10" 54 5404319552844595] by (simp)
  show "rnd (7 / 20) = 3152519739159347 / 9007199254740992"
    using rnd_eqI[of "7 / 20" 54 6305039478318694] by (simp)
  show "rnd (3 / 20) = 5404319552844595 / 36028797018963968"
    using rnd_eqI[of "3 / 20" 55 5404319552844595] by (simp)
  show "rnd (1 / 10) = 3602879701896397 / 36028797018963968"
    using rnd_eqI[of "1 / 10" 56 7205759403792794] by (simp)
  show "fadd 0 (5404319552844595 / 18014398509481984) = 5404319552844595 / 18014398509481984"
    using rnd_eqI[of "0 + (5404319552844595 / 18014398509481984)" 54 5404319552844595] by (simp add: fadd_def)
  show "fadd (5404319552844595 / 18014398509481984) (3152519739159347 / 9007199254740992) = 1463669878895411 / 2251799813685248"
    using rnd_tieI[of "(5404319552844595 / 18014398509481984) + (3152519739159347 / 9007199254740992)" 53 5854679515581644] by (simp add: fadd_def)
  show "fadd (1463669878895411 / 2251799813685248) (5404319552844595 / 36028797018963968) = 7205759403792793 / 9007199254740992"
    using rnd_eqI[of "(1463669878895411 / 2251799813685248) + (5404319552844595 / 36028797018963968)" 53 7205759403792793] by (simp add: fadd_def)
  show "fadd (7205759403792793 / 9007199254740992) (3602879701896397 / 36028797018963968) = 2026619832316723 / 2251799813685248"
    using rnd_eqI[of "(7205759403792793 / 9007199254740992) + (3602879701896397 / 36028797018963968)" 53 8106479329266892] by (simp add: fadd_def)
  show "fadd (2026619832316723 / 2251799813685248) (3602879701896397 / 36028797018963968) = 9007199254740991 / 9007199254740992"
    using rnd_eqI[of "(2026619832316723 / 2251799813685248) + (3602879701896397 / 36028797018963968)" 53 9007199254740991] by (simp add: fadd_def)
  show "rnd 0 = 0"
    by (simp)
  show "fdiv (5404319552844595 / 18014398509481984) (9007199254740991 / 9007199254740992) = 1351079888211149 / 4503599627370496"
    using rnd_eqI[of "(5404319552844595 / 18014398509481984) / (9007199254740991 / 9007199254740992)" 54 5404319552844596] by (simp add: fdiv_def)
  show "fmul 0 (1351079888211149 / 4503599627370496) = 0"
    by (simp add: fmul_def)
  show "fadd 0 0 = 0"
    by (simp add: fadd_def)
  show "rnd 80 = 80"
    using rnd_eqI[of "80" 46 5629499534213120] by (simp)
  show "fdiv (3152519739159347 / 9007199254740992) (9007199254740991 / 9007199254740992) = 6305039478318695 / 18014398509481984"
    using rnd_eqI[of "(3152519739159347 / 9007199254740992) / (9007199254740991 / 9007199254740992)" 54 6305039478318695] by (simp add: fdiv_def)
  show "fmul 80 (6305039478318695 / 18014398509481984) = 7881299347898369 / 281474976710656"
    using rnd_eqI[of "80 * (6305039478318695 / 18014398509481984)" 48 7881299347898369] by (simp add: fmul_def)
  show "fadd 0 (7881299347898369 / 281474976710656) = 7881299347898369 / 281474976710656"
    using rnd_eqI[of "0 + (7881299347898369 / 281474976710656)" 48 7881299347898369] by (simp add: fadd_def)
  show "fdiv (5404319552844595 / 36028797018963968) (9007199254740991 / 9007199254740992) = 1351079888211149 / 9007199254740992"
    using rnd_eqI[of "(5404319552844595 / 36028797018963968) / (9007199254740991 / 9007199254740992)" 55 5404319552844596] by (simp add: fdiv_def)
  show "fmul 0 (1351079888211149 / 9007199254740992) = 0"
    by (simp add: fmul_def)
  show "fadd (7881299347898369 / 281474976710656) 0 = 7881299347898369 / 281474976710656"
    using rnd_eqI[of "(7881299347898369 / 281474976710656) + 0" 48 7881299347898369] by (simp add: fadd_def)
  show "fdiv (3602879701896397 / 36028797018963968) (9007199254740991 / 9007199254740992) = 7205759403792795 / 72057594037927936"
    using rnd_eqI[of "(3602879701896397 / 36028797018963968) / (9007199254740991 / 9007199254740992)" 56 7205759403792795] by (simp add: fdiv_def)
  show "fmul 0 (7205759403792795 / 72057594037927936) = 0"
    by (simp add: fmul_def)
  show "fadd (7881299347898369 / 281474976710656) (1 / 2) = 8022036836253697 / 281474976710656"
    using rnd_eqI[of "(7881299347898369 / 281474976710656) + (1 / 2)" 48 8022036836253697] by (simp add: fadd_def)
  show "rnd 60 = 60"
    using rnd_eqI[of "60" 47 8444249301319680] by (simp)
  show "fmul 60 (1351079888211149 / 4503599627370496) = 5066549580791809 / 281474976710656"
    using rnd_eqI[of "60 * (1351079888211149 / 4503599627370496)" 48 5066549580791809] by (simp add: fmul_def)
  show "fadd 0 (5066549580791809 / 281474976710656) = 5066549580791809 / 281474976710656"
    using rnd_eqI[of "0 + (5066549580791809 / 281474976710656)" 48 5066549580791809] by (simp add: fadd_def)
  show "fadd (5066549580791809 / 281474976710656) (7881299347898369 / 281474976710656) = 6473924464345089 / 140737488355328"
    using rnd_eqI[of "(5066549580791809 / 281474976710656) + (7881299347898369 / 281474976710656)" 47 6473924464345089] by (simp add: fadd_def)
  show "fmul 60 (1351079888211149 / 9007199254740992) = 5066549580791809 / 562949953421312"
    using rnd_eqI[of "60 * (1351079888211149 / 9007199254740992)" 49 5066549580791809] by (simp add: fmul_def)
  show "fadd (6473924464345089 / 140737488355328) (5066549580791809 / 562949953421312) = 7740561859543041 / 140737488355328"
    using rnd_eqI[of "(6473924464345089 / 140737488355328) + (5066549580791809 / 562949953421312)" 47 7740561859543041] by (simp add: fadd_def)
  show "fmul 60 (7205759403792795 / 72057594037927936) = 6755399441055745 / 1125899906842624"
    using rnd_eqI[of "60 * (7205759403792795 / 72057594037927936)" 50 6755399441055745] by (simp add: fmul_def)
  show "fadd (7740561859543041 / 140737488355328) (6755399441055745 / 1125899906842624) = 8584986789675009 / 140737488355328"
    using rnd_eqI[of "(7740561859543041 / 140737488355328) + (6755399441055745 / 1125899906842624)" 47 8584986789675009] by (simp add: fadd_def)
  show "fadd (8584986789675009 / 140737488355328) (6755399441055745 / 1125899906842624) = 4714705859903489 / 70368744177664"
    using rnd_eqI[of "(8584986789675009 / 140737488355328) + (6755399441055745 / 1125899906842624)" 46 4714705859903489] by (simp add: fadd_def)
  show "fadd (4714705859903489 / 70368744177664) (1 / 2) = 4749890231992321 / 70368744177664"
    using rnd_eqI[of "(4714705859903489 / 70368744177664) + (1 / 2)" 46 4749890231992321] by (simp add: fadd_def)
  show "rnd (3 / 5) = 5404319552844595 / 9007199254740992"
    using rnd_eqI[of "3 / 5" 53 5404319552844595] by (simp)
  show "fmul 100 (5404319552844595 / 9007199254740992) = 60"
    using rnd_eqI[of "100 * (5404319552844595 / 9007199254740992)" 47 8444249301319680] by (simp add: fmul_def)
  show "fmul 60 1 = 60"
    using rnd_eqI[of "60 * 1" 47 8444249301319680] by (simp add: fmul_def)
  show "fadd 60 (1 / 2) = 121 / 2"
    using rnd_eqI[of "60 + (1 / 2)" 47 8514618045497344] by (simp add: fadd_def)
qed

lemma pypi_lower: "ToLower (TrimSpace ''pypi'') = ''pypi''"
  by (simp add: TrimSpace_visible visible_def ToLower_def is_ascii_def byte_lower_def)

lemma pypi_eco [simp]: "\<not> isNPMEcosystem ''pypi''" "\<not> IsPOMMaintainerEco ''pypi''"
  by (simp_all add: isNPMEcosystem_def IsPOMMaintainerEco_def pypi_lower)


definition pub_fired :: FiredSignal where
  "pub_fired = \<lparr>f_ID = SignalSCPublisherChanged, f_Category = CategorySupplyChain,
     f_Title = ''Publisher changed from previous version'', f_Severity = SevHigh, f_Weight = - 25,
     f_Detail = ''Publisher identity changed between versions.'', f_Evidence = [], f_Compound = False\<rparr>"

definition inst_fired :: FiredSignal where
  "inst_fired = \<lparr>f_ID = SignalSCInstallScriptOnly, f_Category = CategorySupplyChain,
     f_Title = ''Install lifecycle script present'', f_Severity = SevInfo, f_Weight = 0,
     f_Detail = ''Package has an install/postinstall script.'', f_Evidence = [], f_Compound = False\<rparr>"

definition takeover_fired :: FiredSignal where
  "takeover_fired = \<lparr>f_ID = CompoundSCTakeoverSignature, f_Category = CategorySupplyChain,
     f_Title = ''Publisher change combined with install script'', f_Severity = SevCritical, f_Weight = - 55,
     f_Detail = ''New publisher introduced an install-time script in this version.'',
     f_Evidence = [(''installFetchesRemote'', AnyBool False)], f_Compound = True\<rparr>"

definition graded :: "int \<Rightarrow> FiredSignal list \<Rightarrow> CategoryScore" where
  "graded n fs = \<lparr>c_Score = n, c_Grade = gradeForScore n, c_DataAvailable = True, c_FiredSignals = fs\<rparr>"

lemma direct_overall:
  "computeOverall [(CategoryVulnerability, graded 100 fs1), (CategorySupplyChain, graded 20 fs2), (CategoryMaintenance, graded 100 fs3),
     (CategoryLicense, graded 100 fs4), (CategoryQuality, graded 100 fs5)] = 72"
  by (simp add: computeOverall_def weighted_overall_def available_weight_def deficit_sum_def scored_def graded_def
      AllCategories_def CategoryWeights_def get_or_def takeover_steps overall_of_deficit_def trunc_def clamp_def floor_eq_iff)

lemma rolled_overall:
  "computeOverall [(CategoryVulnerability, graded 40 fs1), (CategorySupplyChain, graded 20 fs2), (CategoryMaintenance, graded 40 fs3),
     (CategoryLicense, graded 40 fs4), (CategoryQuality, graded 40 fs5)] = 33"
  by (simp add: computeOverall_def weighted_overall_def available_weight_def deficit_sum_def scored_def graded_def
      AllCategories_def CategoryWeights_def get_or_def takeover_steps overall_of_deficit_def trunc_def clamp_def floor_eq_iff)

section \<open>The tree\<close>

lemma takeover_graph_facts:
  "map fst (g_Nodes takeover_graph) = [pypi ''app'', pypi ''bad'']"
  "bfsDepths takeover_graph (pypi ''app'') = [(pypi ''app'', 0), (pypi ''bad'', 1)]"
  "map_option n_Prod (node_of takeover_graph (pypi ''bad'')) = Some True"
  by code_simp+

lemma decay_one: "c_Score x = 0 \<Longrightarrow> effective takeover_graph (pypi ''bad'') 1 x = 60"
  using takeover_graph_facts(3) rnd_int[of 100]
  by (auto simp: effective_def TransitiveProdWeight_def TransitiveDecayBase_def math_Pow_def takeover_steps)

lemma absorb_60: "absorb 60 (graded 100 fs) = graded 40 fs" "absorb 60 (graded 20 fs) = graded 20 fs"
proof -
  have "\<lfloor>121 / 2 :: rat\<rfloor> = 60" by (simp add: floor_eq_iff)
  then show "absorb 60 (graded 100 fs) = graded 40 fs" "absorb 60 (graded 20 fs) = graded 20 fs"
    by (simp_all add: absorb_def graded_def takeover_steps trunc_def clamp_def Let_def)
qed

lemma rolled_up:
  assumes "e_Verdict b \<noteq> VerdictUnknown" and "byKey (pypi ''bad'') = Some b"
    and "categories b = map (\<lambda>c. (c, \<lparr>c_Score = 0, c_Grade = ''F'', c_DataAvailable = True, c_FiredSignals = f c\<rparr>))
      [CategoryVulnerability, CategorySupplyChain, CategoryMaintenance, CategoryLicense, CategoryQuality]"
    and "sc_Overall (e_DirectScore a) = 40"
    and "categories a = [(CategoryVulnerability, graded 100 []), (CategorySupplyChain, graded 20 fs),
      (CategoryMaintenance, graded 100 []), (CategoryLicense, graded 100 []), (CategoryQuality, graded 100 [])]"
  shows "sc_Overall (fst (rollupForNode takeover_graph (pypi ''app'') a byKey)) = 33 \<and>
    snd (rollupForNode takeover_graph (pypi ''app'') a byKey) = [risk_key (pypi ''bad'')]"
proof -
  have ne: "pypi ''bad'' \<noteq> pypi ''app''" by (simp add: pypi_def)
  have r: "rnd 100 = 100" "fsub 60 0 = 60" "fsub 60 80 = - 20"
    using rnd_int[of 100] rnd_int[of "- 20"] rnd_int[of 60] by (simp_all add: fsub_def)
  have orig: "(case map_of (categories a) c of None \<Rightarrow> 0 | Some cs \<Rightarrow> rnd (of_int (100 - c_Score cs))) =
      (if c = CategorySupplyChain then 80 else 0)" for c
    by (cases c) (simp_all add: assms(5) graded_def takeover_steps)
  have "fold (absorb_category (\<lambda>c. if c = CategorySupplyChain then 80 else 0) takeover_graph (pypi ''bad'') 1)
      (categories b) (categories a, 0) =
    ([(CategoryVulnerability, graded 40 []), (CategorySupplyChain, graded 20 fs),
      (CategoryMaintenance, graded 40 []), (CategoryLicense, graded 40 []), (CategoryQuality, graded 40 [])], 60)"
    by (simp add: assms(3,5) absorb_category_def decay_one[unfolded One_nat_def] absorb_60 r Let_def)
  then have "fold (absorb_descendant (\<lambda>c. if c = CategorySupplyChain then 80 else 0) takeover_graph (pypi ''app'') byKey)
      [(pypi ''app'', 0), (pypi ''bad'', 1)] (categories a, []) =
    ([(CategoryVulnerability, graded 40 []), (CategorySupplyChain, graded 20 fs),
      (CategoryMaintenance, graded 40 []), (CategoryLicense, graded 40 []), (CategoryQuality, graded 40 [])], [(pypi ''bad'', 60)])"
    using assms(1,2) ne by (simp add: absorb_descendant_def)
  then show ?thesis
    unfolding rollupForNode_def rollup_over_def takeover_graph_facts Let_def orig
    by (simp add: ComputeOverallFromCategories_def rolled_overall assms(4))
qed

end
