(* ===== verification/SignalsVuln.thy ===== *)
theory SignalsVuln
  imports SignalIds
begin

text \<open>
  The vulnerability, licence and quality signals of risk/registry_vulnerability.go, registry_license.go
  and registry_quality.go.
\<close>

section \<open>registry_vulnerability.go\<close>

definition hasScoredVulnSignal :: "'a VulnInput_scheme \<Rightarrow> bool" where
  "hasScoredVulnSignal i \<longleftrightarrow> KnownExploited i \<or> 0 < MaxCVSS i \<or> 1 / 2 < EPSSScore i"

definition sig_vuln_kev :: "'a VulnInput_scheme Signal" where
  "sig_vuln_kev =
     (signal SignalVulnKEV CategoryVulnerability SevCritical (- 60)
       ''Known-exploited vulnerability''
       (''CISA KEV catalog or equivalent '' @ em_dash @ '' active in-the-wild exploitation.'')
       (\<lambda>i.
         if \<not> KnownExploited i then no_fire
         else (True, ''This package has a vulnerability that is being actively exploited.'',
               [(''cves'', AnyStrings (CVEs i)), (''cvss'', AnyFloat (MaxCVSS i))])))
       \<lparr>s_MaxImpact := 20, s_NotTunable := True\<rparr>"

definition sig_vuln_fix_available :: "'a VulnInput_scheme Signal" where
  "sig_vuln_fix_available =
     signal SignalVulnFixAvailable CategoryVulnerability SevInfo 5
       ''Fix available''
       (''At least one CVE on this package has a patched upstream version, alongside a scored ''
         @ ''severity signal.'')
       (\<lambda>i.
         if \<not> IsVulnerable i \<or> \<not> FixAvailable i then no_fire
         else if \<not> hasScoredVulnSignal i then no_fire
         else (True, ''A patched version is available for at least one CVE on this package.'',
               [(''fixedCVEs'', AnyStrings (FixedCVEs i))]))"

definition sig_vuln_known_vulnerable :: "'a VulnInput_scheme Signal" where
  "sig_vuln_known_vulnerable =
     (signal SignalVulnKnownVuln CategoryVulnerability SevMedium (- 10)
       ''Known-vulnerable version (severity unscored)''
       ''A matched advisory affects this version and no source supplies a CVSS score for it.''
       (\<lambda>i.
         if \<not> IsVulnerable i \<or> hasScoredVulnSignal i then no_fire
         else (True, ''A published advisory affects this version; no severity score is available for it.'',
               [(''cves'', AnyStrings (CVEs i))])))
       \<lparr>s_MaxImpact := maxImpactWarnTop\<rparr>"

definition sig_vuln_cvss_critical :: "'a VulnInput_scheme Signal" where
  "sig_vuln_cvss_critical =
     (signal SignalVulnCVSSCritical CategoryVulnerability SevCritical (- 35)
       ''Critical-severity CVE''
       ''CVSS >= 9.0 without confirmed in-the-wild exploitation.''
       (\<lambda>i.
         if \<not> IsVulnerable i \<or> KnownExploited i then no_fire
         else if MaxCVSS i < 9 then no_fire
         else (True, ''Critical-severity CVE affecting this version.'',
               [(''cves'', AnyStrings (CVEs i)), (''cvss'', AnyFloat (MaxCVSS i))])))
       \<lparr>s_MaxImpact := 30\<rparr>"

definition sig_vuln_cvss_high :: "'a VulnInput_scheme Signal" where
  "sig_vuln_cvss_high =
     (signal SignalVulnCVSSHigh CategoryVulnerability SevHigh (- 20)
       ''High-severity CVE''
       ''CVSS 7.0-8.9.''
       (\<lambda>i.
         if \<not> IsVulnerable i \<or> KnownExploited i then no_fire
         else if MaxCVSS i < 7 \<or> 9 \<le> MaxCVSS i then no_fire
         else (True, ''High-severity CVE affecting this version.'',
               [(''cves'', AnyStrings (CVEs i)), (''cvss'', AnyFloat (MaxCVSS i))])))
       \<lparr>s_MaxImpact := 40\<rparr>"

definition sig_vuln_cvss_medium :: "'a VulnInput_scheme Signal" where
  "sig_vuln_cvss_medium =
     (signal SignalVulnCVSSMedium CategoryVulnerability SevMedium (- 10)
       ''Medium-severity CVE''
       ''CVSS 4.0-6.9.''
       (\<lambda>i.
         if \<not> IsVulnerable i \<or> KnownExploited i then no_fire
         else if MaxCVSS i < 4 \<or> 7 \<le> MaxCVSS i then no_fire
         else (True, ''Medium-severity CVE affecting this version.'',
               [(''cves'', AnyStrings (CVEs i)), (''cvss'', AnyFloat (MaxCVSS i))])))
       \<lparr>s_MaxImpact := maxImpactWarnTop\<rparr>"

definition sig_vuln_cvss_low :: "'a VulnInput_scheme Signal" where
  "sig_vuln_cvss_low =
     signal SignalVulnCVSSLow CategoryVulnerability SevLow (- 3)
       ''Low-severity CVE''
       ''CVSS below 4.0.''
       (\<lambda>i.
         if \<not> IsVulnerable i \<or> KnownExploited i then no_fire
         else if MaxCVSS i \<le> 0 \<or> 4 \<le> MaxCVSS i then no_fire
         else (True, ''Low-severity CVE affecting this version.'',
               [(''cves'', AnyStrings (CVEs i)), (''cvss'', AnyFloat (MaxCVSS i))]))"

definition sig_vuln_epss_high :: "'a VulnInput_scheme Signal" where
  "sig_vuln_epss_high =
     signal SignalVulnEPSSHigh CategoryVulnerability SevHigh (- 15)
       ''High exploit probability (EPSS)''
       (''EPSS score above 0.5 '' @ em_dash
         @ '' elevated probability of exploitation regardless of CVSS tier.'')
       (\<lambda>i.
         if EPSSScore i \<le> 1 / 2 then no_fire
         else (True, ''Elevated probability of exploitation in the next 30 days.'',
               [(''epss'', AnyFloat (EPSSScore i))]))"

lemmas vulnerability_signals =
  sig_vuln_kev_def sig_vuln_fix_available_def sig_vuln_known_vulnerable_def
  sig_vuln_cvss_critical_def sig_vuln_cvss_high_def sig_vuln_cvss_medium_def
  sig_vuln_cvss_low_def sig_vuln_epss_high_def

section \<open>registry_license.go\<close>

definition registerLicenseTagSignal ::
  "string \<Rightarrow> Severity \<Rightarrow> rat \<Rightarrow> string \<Rightarrow> string \<Rightarrow> string \<Rightarrow> 'a LicenseInput_scheme Signal" where
  "registerLicenseTagSignal sid sev weight title desc tag =
     signal sid CategoryLicense sev weight title desc
       (\<lambda>i.
         if tag \<in> set (LicenseTags i) then
           (True, desc, [(''license'', AnyString (LicenseSPDX i)), (''tag'', AnyString tag)])
         else no_fire)"

definition sig_lic_missing :: "'a LicenseInput_scheme Signal" where
  "sig_lic_missing =
     signal SignalLicMissing CategoryLicense SevMedium (- 15)
       ''No license declared''
       (''Package does not declare a license '' @ em_dash @ '' ambiguous legal standing for downstream use.'')
       (\<lambda>i.
         if LicenseSPDX i \<noteq> [] \<or> LicenseDataUnavailable i then no_fire
         else (True, ''Package does not declare a license.'', []))"

definition sig_lic_changed_from_previous_version :: "'a LicenseInput_scheme Signal" where
  "sig_lic_changed_from_previous_version =
     signal SignalLicChangedFromPrev CategoryLicense SevMedium 0
       ''Licence became more restrictive than a version we hold''
       (''This version declares a copyleft or non-permissive licence that the previously scanned ''
         @ ''version did not.'')
       (\<lambda>i.
         if \<not> LicenseChangedFromPrev i then no_fire
         else (True, ''Licence is more restrictive than a version we hold.'',
               [(''license'', AnyString (LicenseSPDX i)),
                (''priorLicense'', AnyString (LicensePriorSPDX i)),
                (''priorVersion'', AnyString (LicensePriorVersion i))]))"

definition sig_lic_spdx_present :: "SignalEnv \<Rightarrow> 'a LicenseInput_scheme Signal" where
  "sig_lic_spdx_present env =
     signal SignalLicSPDXPresent CategoryLicense SevInfo 5
       ''SPDX license declared''
       []
       (\<lambda>i.
         if LicenseSPDX i = [] \<or> LicenseFromFile i then no_fire
         else if LicenseTagUnidentified \<in> set (Classify (env_Spdx env) (LicenseSPDX i)) then no_fire
         else (True, ''Package declares an SPDX license.'', [(''license'', AnyString (LicenseSPDX i))]))"

definition sig_license_copyleft :: "'a LicenseInput_scheme Signal" where
  "sig_license_copyleft =
     registerLicenseTagSignal SignalLicCopyleft SevMedium (- 10)
       ''Copyleft license''
       ''Declared license is copyleft (GPL / AGPL / LGPL / MPL / CDDL / OSL).''
       LicenseTagCopyleft"

definition sig_license_non_permissive :: "SignalEnv \<Rightarrow> 'a LicenseInput_scheme Signal" where
  "sig_license_non_permissive env =
     signal SignalLicNonPermissive CategoryLicense SevMedium (- 20)
       ''Non-permissive license''
       ''Declared license is copyleft or source-available (BUSL, SSPL, Commons Clause, ELv2).''
       (\<lambda>i.
         if LicenseTagNonPermissive \<notin> set (LicenseTags i) then no_fire
         else if LicenseStrengthOf (env_Spdx env) (LicenseSPDX i) = LicenseStrengthWeakCopyleft then no_fire
         else (True, ''Declared license is copyleft or source-available (BUSL, SSPL, Commons Clause, ELv2).'',
               [(''license'', AnyString (LicenseSPDX i)), (''tag'', AnyString LicenseTagNonPermissive)]))"

definition sig_license_exception_present :: "'a LicenseInput_scheme Signal" where
  "sig_license_exception_present =
     registerLicenseTagSignal SignalLicExceptionPresent SevInfo (- 5)
       ''License carries a WITH exception''
       (''Declared expression contains a WITH <exception> clause '' @ em_dash @ '' review the exception text.'')
       LicenseTagExceptionPresent"

definition sig_license_ambiguous_classifier :: "SignalEnv \<Rightarrow> 'a LicenseInput_scheme Signal" where
  "sig_license_ambiguous_classifier env =
     signal SignalLicAmbiguousClassifier CategoryLicense SevLow (- 10)
       ''Ambiguous license expression''
       (''License expression combines multiple distinct license families '' @ em_dash
         @ '' operator choice required.'')
       (\<lambda>i.
         if IsAllPermissive (env_Spdx env) (LicenseSPDX i) then no_fire
         else if LicenseTagAmbiguous \<in> set (LicenseTags i) then
           (True, ''License expression combines multiple distinct license families '' @ em_dash
               @ '' operator choice required.'',
            [(''license'', AnyString (LicenseSPDX i)), (''tag'', AnyString LicenseTagAmbiguous)])
         else no_fire)"

definition sig_license_unidentified :: "'a LicenseInput_scheme Signal" where
  "sig_license_unidentified =
     signal SignalLicUnidentified CategoryLicense SevMedium (- 15)
       ''Unidentified license''
       ''License expression is NOASSERTION or not recognisable as SPDX.''
       (\<lambda>i.
         if TrimSpace (LicenseSPDX i) = [] then no_fire
         else if LicenseTagUnidentified \<in> set (LicenseTags i) then
           (True, ''License expression is NOASSERTION or not recognisable as SPDX.'',
            [(''license'', AnyString (LicenseSPDX i)), (''tag'', AnyString LicenseTagUnidentified)])
         else no_fire)"

lemmas license_signals =
  sig_lic_missing_def sig_lic_changed_from_previous_version_def sig_lic_spdx_present_def
  sig_license_copyleft_def sig_license_non_permissive_def sig_license_exception_present_def
  sig_license_ambiguous_classifier_def sig_license_unidentified_def

section \<open>registry_quality.go\<close>

definition sig_qual_checksum_mismatch :: "'a StateInput_scheme Signal" where
  "sig_qual_checksum_mismatch =
     (signal SignalQualChecksumMismatch CategoryQuality SevCritical (- 1000)
       ''Artifact checksum mismatch''
       (''Registry-declared artifact hash does not match the downloaded bytes '' @ em_dash
         @ '' tamper indicator.'')
       (\<lambda>i.
         if \<not> ChecksumMismatch i then no_fire
         else (True, ''Declared checksum does not match actual bytes.'', [])))
       \<lparr>s_NotTunable := True\<rparr>"

definition sig_qual_checksum_verified :: "'a StateInput_scheme Signal" where
  "sig_qual_checksum_verified =
     signal SignalQualChecksumVerified CategoryQuality SevInfo 5
       ''Checksum verified''
       []
       (\<lambda>i.
         if \<not> ChecksumVerified i then no_fire
         else (True, ''Artifact hash matches the registry declaration.'', []))"

definition sig_qual_version_anomaly :: "'a Input_scheme Signal" where
  "sig_qual_version_anomaly =
     (signal SignalQualVersionAnomaly CategoryQuality SevMedium (- 10)
       ''Version publishing anomaly''
       (''Version number / timestamps / content diverge from the expected publishing pattern ''
         @ ''(e.g. timestamp regression, major-version skip).'')
       (\<lambda>i.
         if int (length (VersionAnomalyFlags i)) = 0 then no_fire
         else (True, ''One or more version-publishing anomalies detected.'',
               [(''flags'', AnyStrings (VersionAnomalyFlags i))])))
       \<lparr>s_MaxImpact := maxImpactWarnTop, s_DampEstablished := True\<rparr>"

definition sig_qual_minified_code :: "'a StateInput_scheme Signal" where
  "sig_qual_minified_code =
     signal SignalQualMinifiedCode CategoryQuality SevInfo 0
       ''Shipped source appears minified or bundled''
       (''One or more JS/MJS/CJS files in the published artifact exhibit minification heuristics ''
         @ ''(very long average line length, or very long single line, or no comments). Minified ''
         @ ''code is harder to audit for malicious modifications.'')
       (\<lambda>i.
         if \<not> IsMinifiedCode i then no_fire
         else (True, ''Published JS source contains minified or bundled files.'',
               if MinifiedFiles i \<noteq> [] then [(''files'', AnyStrings (MinifiedFiles i))] else []))"

lemmas quality_signals =
  sig_qual_checksum_mismatch_def sig_qual_checksum_verified_def sig_qual_version_anomaly_def
  sig_qual_minified_code_def

end
