(* ===== verification/SignalsArtifact.thy ===== *)
theory SignalsArtifact
  imports SignalIds
begin

text \<open>
  The signals on GitHub actions, AI artifacts and capabilities, of risk/registry_actions.go,
  registry_aiartifact.go, registry_capability.go and registry_capability_debug_telemetry.go.
\<close>

section \<open>registry_actions.go\<close>

definition registerActionLint ::
  "string \<Rightarrow> string \<Rightarrow> string \<Rightarrow> string \<Rightarrow>
   ('a ActionInput_scheme \<Rightarrow> bool \<times> string list) \<Rightarrow> 'a ActionInput_scheme Signal" where
  "registerActionLint sid title desc msg field =
     signal sid CategorySupplyChain SevHigh 0 title desc
       (\<lambda>i.
         case field i of
           (fired, locs) \<Rightarrow>
             if \<not> fired then no_fire else (True, msg, [(''locations'', AnyStrings locs)]))"

definition sig_action_unpinned_ref :: "'a ActionInput_scheme Signal" where
  "sig_action_unpinned_ref =
     signal SignalActionUnpinnedRef CategorySupplyChain SevMedium (- 15)
       ''Unpinned GitHub Action reference''
       (''Action ref uses a branch or tag instead of a 40-char commit SHA '' @ em_dash
         @ '' re-taggable upstream.'')
       (\<lambda>i.
         if \<not> ActionRefUnpinned i then no_fire
         else (True, ''Action ref is not pinned to a 40-char commit SHA.'',
               [(''refs'', AnyStrings (ActionRefUnpinnedRefs i))]))"

definition sig_action_unknown_publisher :: "'a ActionInput_scheme Signal" where
  "sig_action_unknown_publisher =
     signal SignalActionUnknownPublisher CategorySupplyChain SevLow (- 5)
       ''GitHub Action from unknown publisher''
       ''Action owner is not in the known-good publisher allowlist.''
       (\<lambda>i.
         if \<not> ActionRefUnknownPublisher i then no_fire
         else (True, ''Action ref's owner is not in the known-good publisher list.'',
               [(''publishers'', AnyStrings (ActionRefUnknownPublishers i))]))"

definition sig_action_typosquat :: "'a ActionInput_scheme Signal" where
  "sig_action_typosquat =
     signal SignalActionTyposquat CategorySupplyChain SevHigh (- 40)
       ''GitHub Action name resembles a popular Action''
       ''Action name is a likely typosquat of a well-known Action.''
       (\<lambda>i.
         if \<not> ActionRefTyposquat i then no_fire
         else (True, ''Action name is highly similar to a popular Action.'',
               [(''refs'', AnyStrings (ActionRefTyposquats i))]))"

definition sig_action_malicious :: "'a ActionInput_scheme Signal" where
  "sig_action_malicious =
     signal SignalActionMalicious CategorySupplyChain SevHigh (- 50)
       ''GitHub Action ref flagged as malicious''
       ''Action ref appears in the curated malicious-Action feed.''
       (\<lambda>i.
         if \<not> ActionRefMalicious i then no_fire
         else (True, ''Action ref is on the malicious-Action feed.'',
               [(''refs'', AnyStrings (ActionRefMaliciousRefs i))]))"

definition sig_action_pwn_request :: "'a ActionInput_scheme Signal" where
  "sig_action_pwn_request =
     registerActionLint SignalActionPwnRequest
       ''Privileged workflow runs pull request code''
       (''A pull_request_target or workflow_run workflow checks out the pull request head and ''
         @ ''then runs a step, so a fork's code runs with the base repository's secrets and write '' @ ''token.'')
       ''Workflow checks out the pull request head under a privileged trigger and runs it.''
       (\<lambda>i. (ActionPwnRequest i, ActionPwnRequestLocs i))"

definition sig_action_comment_trigger_unguarded :: "'a ActionInput_scheme Signal" where
  "sig_action_comment_trigger_unguarded =
     registerActionLint SignalActionCommentTriggerUnguarded
       ''Comment-triggered workflow is not restricted to members''
       (''An issue_comment or pull_request_review_comment job holds secrets, id-token: write ''
         @ ''or a publish step, and no if: checks the commenter's author_association.'')
       ''Any GitHub user's comment can trigger a privileged job.''
       (\<lambda>i. (ActionCommentTriggerUnguarded i, ActionCommentTriggerUnguardedLocs i))"

definition sig_action_script_injection :: "'a ActionInput_scheme Signal" where
  "sig_action_script_injection =
     registerActionLint SignalActionScriptInjection
       ''Attacker-written text interpolated into a shell step''
       (''A ${{ }} expression carrying a comment body, issue or pull request title/body, review ''
         @ ''body or branch name is interpolated directly into a run: step.'')
       ''Untrusted event text is interpolated into a shell run: step.''
       (\<lambda>i. (ActionScriptInjection i, ActionScriptInjectionLocs i))"

definition sig_action_decode_exec :: "'a ActionInput_scheme Signal" where
  "sig_action_decode_exec =
     registerActionLint SignalActionDecodeExec
       ''Workflow step decodes a payload and executes it''
       (''A run: step decodes an encoded payload (base64 -d, FromBase64String, PowerShell -EncodedCommand) ''
         @ ''and pipes or passes it to an interpreter, so the code that runs cannot be read in ''
         @ ''the workflow.'')
       ''A run: step executes a decoded payload.''
       (\<lambda>i. (ActionDecodeExec i, ActionDecodeExecLocs i))"

lemmas actions_signals =
  sig_action_unpinned_ref_def sig_action_unknown_publisher_def sig_action_typosquat_def
  sig_action_malicious_def sig_action_pwn_request_def sig_action_comment_trigger_unguarded_def
  sig_action_script_injection_def sig_action_decode_exec_def

section \<open>registry_aiartifact.go\<close>

definition sig_ai_dangerous_pickle_opcode :: "'a ArtifactInput_scheme Signal" where
  "sig_ai_dangerous_pickle_opcode =
     (signal SignalAIDangerousPickle CategorySupplyChain SevCritical (- 100)
       ''Dangerous pickle opcode in model weights''
       (''A serialized weight file references a module with no legitimate place in a model ''
         @ ''checkpoint (os, subprocess, builtins.eval, '' @ [CHR 0xE2, CHR 0x80, CHR 0xA6]
         @ ''). Loading the file executes arbitrary code.'')
       (\<lambda>i.
         if \<not> DangerousPickleOpcode i then no_fire
         else (True, ''Pickle deserialization grants the publisher arbitrary code execution.'',
               [(''files'', AnyStrings (DangerousPickleFiles i)),
                (''summary'', AnyString (DangerousPickleSummary i))])))
       \<lparr>s_MaxImpact := 15\<rparr>"

definition sig_ai_suspicious_pickle_opcode :: "'a ArtifactInput_scheme Signal" where
  "sig_ai_suspicious_pickle_opcode =
     signal SignalAISuspiciousPickle CategorySupplyChain SevMedium (- 15)
       ''Pickle imports uncommon for model weights''
       (''Pickle stream references modules (ctypes, torch.distributed, '' @ [CHR 0xE2, CHR 0x80, CHR 0xA6]
         @ '') that are unusual for serialized weights.'')
       (\<lambda>i.
         if \<not> SuspiciousPickleOpcode i \<or> DangerousPickleOpcode i then no_fire
         else (True, ''Pickle imports modules not typically seen in checkpoints '' @ em_dash @ '' review.'',
               []))"

definition sig_ai_unsafe_serialization_format :: "'a ArtifactInput_scheme Signal" where
  "sig_ai_unsafe_serialization_format =
     signal SignalAIUnsafeSerialization CategorySupplyChain SevLow (- 10)
       ''Unsafe serialization format (pickle without safetensors)''
       (''Artifact ships pickle weights and does not provide a safetensors alternative. Even ''
         @ ''without a malicious payload, pickle is a code-execution surface.'')
       (\<lambda>i.
         if \<not> UnsafeSerializationFormat i then no_fire
         else (True, ''No safetensors alternative '' @ em_dash @ '' consumers must trust pickle deserialization.'',
               []))"

definition sig_ai_prefers_safetensors :: "'a ArtifactInput_scheme Signal" where
  "sig_ai_prefers_safetensors =
     signal SignalAIPrefersSafetensors CategorySupplyChain SevInfo 5
       ''Safetensors weights available''
       (''Artifact ships a safetensors copy of the weights '' @ em_dash
         @ '' consumers can opt out of pickle deserialization.'')
       (\<lambda>i.
         if \<not> PrefersSafetensorsAvailable i then no_fire
         else (True, ''Safetensors alternative is published '' @ em_dash @ '' pin to it where possible.'', []))"

definition sig_ai_model_card_injection :: "'a ArtifactInput_scheme Signal" where
  "sig_ai_model_card_injection =
     signal SignalAIModelCardInjection CategorySupplyChain SevMedium (- 20)
       ''Model card contains injection markers''
       (''Card contains hidden unicode, classic prompt-injection phrasing, embedded <script>, ''
         @ ''or large base64 in frontmatter '' @ em_dash
         @ '' tampering surface for downstream agents that ingest cards verbatim.'')
       (\<lambda>i.
         if \<not> ModelCardInjection i then no_fire
         else (True, ''Model card contains tampering markers that can mislead downstream agents.'',
               [(''kinds'', AnyStrings (ModelCardKinds i))]))"

definition sig_ai_agent_tool_dangerous_capability :: "'a ArtifactInput_scheme Signal" where
  "sig_ai_agent_tool_dangerous_capability =
     (signal SignalAIAgentToolDangerous CategorySupplyChain SevHigh (- 30)
       ''Agent tool declares dangerous capability''
       (''Declared MCP server / agent tool exposes filesystem write, subprocess execution, ''
         @ ''or arbitrary network egress to the model.'')
       (\<lambda>i.
         if \<not> AgentToolDangerousCapability i then no_fire
         else (True, ''Tool schema reveals data-exfiltration or RCE capabilities.'',
               [(''capabilities'', AnyStrings (AgentToolCapabilities i))])))
       \<lparr>s_MaxImpact := 40\<rparr>"

definition sig_ai_agent_tool_declared :: "'a ArtifactInput_scheme Signal" where
  "sig_ai_agent_tool_declared =
     signal SignalAIAgentToolDeclared CategoryQuality SevInfo 0
       ''Package declares an MCP server / agent tool''
       (''Inventory signal '' @ em_dash
         @ '' package self-declares an MCP server or agent tool entry point. Use for visibility, ''
         @ ''not for blocking.'')
       (\<lambda>i.
         if \<not> AgentToolDeclared i then no_fire
         else (True, ''Package self-declares an MCP server / agent tool.'', []))"

definition sig_ai_mcp_server_unverified :: "'a ArtifactInput_scheme Signal" where
  "sig_ai_mcp_server_unverified =
     signal SignalAIMCPServerUnverified CategoryQuality SevLow (- 8)
       ''MCP server lacks verified provenance''
       (''Package declares an MCP server but lacks sigstore/SLSA provenance or a verified source ''
         @ ''repository link.'')
       (\<lambda>i.
         if \<not> MCPServerUnverified i then no_fire
         else (True, ''MCP server cannot be tied to a verified build or source repo.'', []))"

definition sig_ai_prompt_template_injection :: "'a ArtifactInput_scheme Signal" where
  "sig_ai_prompt_template_injection =
     signal SignalAIPromptTemplateInjection CategorySupplyChain SevMedium (- 20)
       ''Prompt template contains injection markers''
       (''Prompt-template artifact contains jailbreak phrasing, hidden unicode, or other tampering ''
         @ ''markers.'')
       (\<lambda>i.
         if \<not> PromptTemplateInjection i then no_fire
         else (True, ''Prompt template contains injection markers.'', []))"

lemmas aiartifact_signals =
  sig_ai_dangerous_pickle_opcode_def sig_ai_suspicious_pickle_opcode_def sig_ai_unsafe_serialization_format_def
  sig_ai_prefers_safetensors_def sig_ai_model_card_injection_def sig_ai_agent_tool_dangerous_capability_def
  sig_ai_agent_tool_declared_def sig_ai_mcp_server_unverified_def sig_ai_prompt_template_injection_def

section \<open>registry_capability.go\<close>

definition sig_cap_network :: "'a CapInput_scheme Signal" where
  "sig_cap_network =
     signal SignalCapNetwork CategorySupplyChain SevInfo 0
       ''Package can open network connections''
       (''Source code imports net/http/https/dgram/tls or uses fetch()/XMLHttpRequest '' @ em_dash
         @ '' the package can make outbound network calls at runtime.'')
       (\<lambda>i.
         if \<not> CapNetwork i then no_fire
         else (True, ''Package source imports network primitives (net/http/https/dgram/tls/fetch).'',
               capEvidence (CapNetworkEvidence i) (get_or (CapCounts i) SignalCapNetwork 0)))"

definition sig_cap_shell :: "'a CapInput_scheme Signal" where
  "sig_cap_shell =
     signal SignalCapShell CategorySupplyChain SevInfo 0
       ''Package can execute shell commands''
       (''Source code imports child_process or calls exec/spawn '' @ em_dash
         @ '' the package can run arbitrary commands at runtime.'')
       (\<lambda>i.
         if \<not> CapShell i then no_fire
         else (True, ''Package source imports child_process or calls exec/spawn.'',
               capEvidence (CapShellEvidence i) (get_or (CapCounts i) SignalCapShell 0)))"

definition sig_cap_filesystem_write :: "'a CapInput_scheme Signal" where
  "sig_cap_filesystem_write =
     signal SignalCapFilesystemWrite CategorySupplyChain SevInfo 0
       ''Package can write to the filesystem''
       ''Source code calls fs.writeFile/writeFileSync/appendFile/createWriteStream/unlink/rename.''
       (\<lambda>i.
         if \<not> CapFilesystemWrite i then no_fire
         else (True, ''Package source calls filesystem write APIs.'',
               capEvidence (CapFilesystemWriteEvidence i) (get_or (CapCounts i) SignalCapFilesystemWrite 0)))"

definition sig_cap_filesystem_read :: "'a CapInput_scheme Signal" where
  "sig_cap_filesystem_read =
     signal SignalCapFilesystemRead CategorySupplyChain SevInfo 0
       ''Package can read from the filesystem''
       (''Source code calls fs.readFile/readFileSync/createReadStream/readdir '' @ em_dash
         @ '' many packages legitimately read config files.'')
       (\<lambda>i.
         if \<not> CapFilesystemRead i then no_fire
         else (True, ''Package source calls filesystem read APIs.'',
               capEvidence (CapFilesystemReadEvidence i) (get_or (CapCounts i) SignalCapFilesystemRead 0)))"

definition sig_cap_env_access :: "'a CapInput_scheme Signal" where
  "sig_cap_env_access =
     signal SignalCapEnvAccess CategorySupplyChain SevInfo 0
       ''Package reads environment variables''
       (''Source code references process.env '' @ em_dash
         @ '' common and often benign, but combined with network access can exfiltrate secrets.'')
       (\<lambda>i.
         if \<not> CapEnvAccess i then no_fire
         else (True, ''Package source reads process.env.'',
               capEvidence (CapEnvAccessEvidence i) (get_or (CapCounts i) SignalCapEnvAccess 0)))"

definition sig_cap_native_code :: "'a CapInput_scheme Signal" where
  "sig_cap_native_code =
     signal SignalCapNativeCode CategorySupplyChain SevInfo 0
       ''Package uses native (C/C++) bindings''
       (''Package ships a .node file, binding.gyp, or references node-gyp '' @ em_dash
         @ '' native addons bypass the V8 sandbox entirely.'')
       (\<lambda>i.
         if \<not> CapNativeCode i then no_fire
         else (True, ''Package ships native addon or build descriptor.'',
               capEvidence (CapNativeCodeEvidence i) (get_or (CapCounts i) SignalCapNativeCode 0)))"

definition sig_cap_dynamic_eval :: "'a CapInput_scheme Signal" where
  "sig_cap_dynamic_eval =
     signal SignalCapDynamicEval CategorySupplyChain SevLow (- 3)
       ''Package uses dynamic code evaluation''
       (''Source code calls eval(), Function(), or vm.runIn*Context() '' @ em_dash
         @ '' dynamic eval is rarely benign in production libraries and is a common obfuscation '' @ ''vector.'')
       (\<lambda>i.
         if \<not> CapDynamicEval i then no_fire
         else (True, ''Package source uses eval() or dynamic code construction.'',
               capEvidence (CapDynamicEvalEvidence i) (get_or (CapCounts i) SignalCapDynamicEval 0)))"

definition sig_cap_dynamic_eval_observed :: "'a Input_scheme Signal" where
  "sig_cap_dynamic_eval_observed =
     signal SignalCapDynamicEvalObs CategorySupplyChain SevInfo 0
       ''Dynamic code evaluation observed in source''
       (''A source scan matched eval()/exec()/Function() style dynamic evaluation. Weaker evidence ''
         @ ''than cap.dynamic_eval: this is a pattern match across eight languages, not a resolved ''
         @ ''call site.'')
       (\<lambda>i.
         if \<not> CapDynamicEvalObserved i then no_fire
         else (True, ''Source scan matched dynamic code evaluation.'', []))"

definition sig_cap_url_strings :: "'a CapInput_scheme Signal" where
  "sig_cap_url_strings =
     signal SignalCapURLStrings CategorySupplyChain SevInfo 0
       ''Package source contains URLs''
       (''Source files outside the README, licence and manifest contain http(s) URLs '' @ em_dash
         @ '' hosts the package may contact at runtime.'')
       (\<lambda>i.
         if \<not> CapURLStrings i then no_fire
         else (True, ''Source files contain http(s) URLs.'',
               capEvidence (CapURLStringsEvidence i) (get_or (CapCounts i) SignalCapURLStrings 0)))"

lemmas capability_signals =
  sig_cap_network_def sig_cap_shell_def sig_cap_filesystem_write_def
  sig_cap_filesystem_read_def sig_cap_env_access_def sig_cap_native_code_def
  sig_cap_dynamic_eval_def sig_cap_dynamic_eval_observed_def sig_cap_url_strings_def

section \<open>registry_capability_debug_telemetry.go\<close>

definition sig_cap_debug_access :: "'a CapInput_scheme Signal" where
  "sig_cap_debug_access =
     signal SignalCapDebugAccess CategorySupplyChain SevInfo 0
       ''Package uses runtime debug or introspection modules''
       (''JavaScript source imports node's vm, inspector or v8 module, or reaches internal ''
         @ ''bindings through process.binding '' @ em_dash
         @ '' code that compiles, inspects or reaches under the runtime.'')
       (\<lambda>i.
         if \<not> CapDebugAccess i then no_fire
         else (True, ''Package source imports vm, inspector or v8, or calls process.binding.'',
               capEvidence (CapDebugAccessEvidence i) 0))"

definition sig_cap_telemetry :: "'a CapInput_scheme Signal" where
  "sig_cap_telemetry =
     signal SignalCapTelemetry CategorySupplyChain SevInfo 0
       ''Package contains telemetry''
       (''Source code names a telemetry endpoint (a telemetry.* host, or Scarf) or reads a ''
         @ ''telemetry switch such as NEXT_TELEMETRY_DISABLED or DO_NOT_TRACK '' @ em_dash
         @ '' the package likely reports on its own use.'')
       (\<lambda>i.
         if \<not> CapTelemetry i then no_fire
         else (True, ''Package source names a telemetry endpoint or reads a telemetry switch.'',
               capEvidence (CapTelemetryEvidence i) 0))"

definition sig_cap_dynamic_require :: "'a CapInput_scheme Signal" where
  "sig_cap_dynamic_require =
     signal SignalCapDynamicRequire CategorySupplyChain SevInfo 0
       ''Package loads modules by computed name''
       (''JavaScript source calls require() with a non-literal argument (a variable, a path.join, ''
         @ ''a template with ${}), or Python source calls __import__() or importlib.import_module() ''
         @ ''with one, so which module is loaded is decided at run time.'')
       (\<lambda>i.
         if \<not> CapDynamicRequire i then no_fire
         else (True, ''Package source loads a module by a computed name (require, __import__ or import_module).'',
               capEvidence (CapDynamicRequireEvidence i) 0))"

lemmas capability_debug_telemetry_signals =
  sig_cap_debug_access_def sig_cap_telemetry_def sig_cap_dynamic_require_def

end
