(* ===== verification/SignalRegistry.thy ===== *)
theory SignalRegistry
  imports SignalsVuln SignalsSupply SignalsArtifact
begin

text \<open>
  The registry of risk/registry.go as the initialisation of the package fills it: the initialisers of the
  files run in the order of the file names, and each calls \<open>register\<close> once for every signal.
\<close>

definition actions_init :: "'a SignalInput_scheme Signal list" where
  "actions_init =
     [sig_action_unpinned_ref, sig_action_unknown_publisher, sig_action_typosquat, sig_action_malicious,
      sig_action_pwn_request, sig_action_comment_trigger_unguarded, sig_action_script_injection,
      sig_action_decode_exec]"

definition aiartifact_init :: "'a SignalInput_scheme Signal list" where
  "aiartifact_init =
     [sig_ai_dangerous_pickle_opcode, sig_ai_suspicious_pickle_opcode,
      sig_ai_unsafe_serialization_format, sig_ai_prefers_safetensors, sig_ai_model_card_injection,
      sig_ai_agent_tool_dangerous_capability, sig_ai_agent_tool_declared, sig_ai_mcp_server_unverified,
      sig_ai_prompt_template_injection]"

definition capability_init :: "'a SignalInput_scheme Signal list" where
  "capability_init =
     [sig_cap_network, sig_cap_shell, sig_cap_filesystem_write, sig_cap_filesystem_read,
      sig_cap_env_access, sig_cap_native_code, sig_cap_dynamic_eval, sig_cap_dynamic_eval_observed,
      sig_cap_url_strings]"

definition capability_debug_telemetry_init :: "'a SignalInput_scheme Signal list" where
  "capability_debug_telemetry_init =
     [sig_cap_debug_access, sig_cap_telemetry, sig_cap_dynamic_require]"

definition dormant_lookalike_init :: "SignalEnv \<Rightarrow> 'a SignalInput_scheme Signal list" where
  "dormant_lookalike_init env =
     [sig_sc_dormant_lookalike_release env]"

definition license_init :: "SignalEnv \<Rightarrow> 'a SignalInput_scheme Signal list" where
  "license_init env =
     [sig_lic_missing, sig_lic_changed_from_previous_version, sig_lic_spdx_present env,
      sig_license_copyleft, sig_license_non_permissive env, sig_license_exception_present,
      sig_license_ambiguous_classifier env, sig_license_unidentified]"

definition maintenance_init :: "SignalEnv \<Rightarrow> 'a SignalInput_scheme Signal list" where
  "maintenance_init env =
     [sig_maint_abandoned_repo env, sig_maint_no_recent_release env, sig_maint_very_new_package env,
      sig_maint_single_maintainer, sig_maint_healthy_cadence env, sig_maint_unpopular_package env]"

definition maintenance_state_init :: "SignalEnv \<Rightarrow> 'a SignalInput_scheme Signal list" where
  "maintenance_state_init env =
     [sig_maint_relocated, sig_sc_release_after_dormancy, sig_maint_outdated_version env]"

definition quality_init :: "'a SignalInput_scheme Signal list" where
  "quality_init =
     [sig_qual_checksum_mismatch, sig_qual_checksum_verified, sig_qual_version_anomaly,
      sig_qual_minified_code]"

definition supplychain_init :: "SignalEnv \<Rightarrow> 'a SignalInput_scheme Signal list" where
  "supplychain_init env =
     [sig_sc_known_malicious, sig_sc_typosquat_high, sig_sc_typosquat_medium, sig_sc_typosquat_low,
      sig_sc_publisher_changed, sig_sc_pom_developer_list_changed, sig_sc_install_script_fetches_remote,
      sig_sc_install_script_eval_encoded, sig_sc_exfil_sink_used, sig_sc_import_time_shell,
      sig_sc_dependency_credential, sig_sc_app_credential_exfil, sig_sc_defender_tamper,
      sig_sc_install_script_only, sig_sc_install_script_only_npm, sig_sc_hidden_unicode env,
      sig_sc_repo_ownership_mismatch, sig_sc_repo_archived env, sig_sc_repo_missing env,
      sig_sc_repo_missing_established env, sig_sc_provenance_verified,
      sig_sc_builder_ref_version_mismatch, sig_sc_provenance_downgrade, sig_sc_slsa_level_bonus,
      sig_sc_signature_verified, sig_sc_publish_velocity_anomaly, sig_sc_maintainer_account_very_young,
      sig_sc_maintainer_account_young, sig_sc_maintainer_account_somewhat_young,
      sig_sc_non_existent_author, sig_sc_git_url_dependency, sig_sc_http_url_dependency,
      sig_sc_transitive_critical_vuln, sig_sc_transitive_high_vuln, sig_sc_transitive_malware,
      sig_sc_shell_access_appeared, sig_sc_filesystem_access_appeared, sig_sc_env_access_appeared]"

definition vulnerability_init :: "'a SignalInput_scheme Signal list" where
  "vulnerability_init =
     [sig_vuln_kev, sig_vuln_fix_available, sig_vuln_known_vulnerable, sig_vuln_cvss_critical,
      sig_vuln_cvss_high, sig_vuln_cvss_medium, sig_vuln_cvss_low, sig_vuln_epss_high]"

definition wave1_init :: "'a SignalInput_scheme Signal list" where
  "wave1_init =
     [sig_sc_deprecated_by_maintainer, sig_sc_shrinkwrap_present, sig_sc_manifest_confusion]"

definition signals :: "SignalEnv \<Rightarrow> 'a SignalInput_scheme Signal list" where
  "signals env =
     actions_init
     @ aiartifact_init
     @ capability_init
     @ capability_debug_telemetry_init
     @ dormant_lookalike_init env
     @ license_init env
     @ maintenance_init env
     @ maintenance_state_init env
     @ quality_init
     @ supplychain_init env
     @ vulnerability_init
     @ wave1_init"

definition register_all :: "'i Signal list \<Rightarrow> string + 'i Registry" where
  "register_all ss =
     fold (\<lambda>s r. case r of Inl panic \<Rightarrow> Inl panic | Inr reg \<Rightarrow> register s reg) ss (Inr [])"

lemmas init_lists =
  signals_def actions_init_def aiartifact_init_def capability_init_def capability_debug_telemetry_init_def
  dormant_lookalike_init_def license_init_def maintenance_init_def maintenance_state_init_def
  quality_init_def supplychain_init_def vulnerability_init_def wave1_init_def

lemmas signal_defs =
  actions_signals
  aiartifact_signals
  capability_signals
  capability_debug_telemetry_signals
  dormant_lookalike_signals
  license_signals
  maintenance_signals
  maintenance_state_signals
  quality_signals
  supplychain_signals
  vulnerability_signals
  wave1_signals
  registerLicenseTagSignal_def registerActionLint_def

end
