(* ===== verification/SignalTable.thy ===== *)
theory SignalTable
  imports SignalRegistry
begin

text \<open>
  The attributes of the registered signals, file by file: what an audit of the calibration reads. The
  properties of the registry that do not concern when a signal fires are computed on these rows.
\<close>

named_theorems signal_tables "the attributes of the signals of one file"

text \<open>The attributes under the updates that the declarations use, without evaluating the texts.\<close>

lemma update_rules:
  "s_ID (s\<lparr>s_MaxImpact := m\<rparr>) = s_ID s"
  "s_Category (s\<lparr>s_MaxImpact := m\<rparr>) = s_Category s"
  "s_Severity (s\<lparr>s_MaxImpact := m\<rparr>) = s_Severity s"
  "s_Weight (s\<lparr>s_MaxImpact := m\<rparr>) = s_Weight s"
  "s_Title (s\<lparr>s_MaxImpact := m\<rparr>) = s_Title s"
  "s_Fires (s\<lparr>s_MaxImpact := m\<rparr>) = s_Fires s"
  "s_MaxImpact (s\<lparr>s_MaxImpact := m\<rparr>) = m"
  "s_NotTunable (s\<lparr>s_MaxImpact := m\<rparr>) = s_NotTunable s"
  "s_DampEstablished (s\<lparr>s_MaxImpact := m\<rparr>) = s_DampEstablished s"
  "s_TakeoverIndicator (s\<lparr>s_MaxImpact := m\<rparr>) = s_TakeoverIndicator s"
  "s_ID (s\<lparr>s_NotTunable := b\<rparr>) = s_ID s"
  "s_Category (s\<lparr>s_NotTunable := b\<rparr>) = s_Category s"
  "s_Severity (s\<lparr>s_NotTunable := b\<rparr>) = s_Severity s"
  "s_Weight (s\<lparr>s_NotTunable := b\<rparr>) = s_Weight s"
  "s_Title (s\<lparr>s_NotTunable := b\<rparr>) = s_Title s"
  "s_Fires (s\<lparr>s_NotTunable := b\<rparr>) = s_Fires s"
  "s_MaxImpact (s\<lparr>s_NotTunable := b\<rparr>) = s_MaxImpact s"
  "s_NotTunable (s\<lparr>s_NotTunable := b\<rparr>) = b"
  "s_DampEstablished (s\<lparr>s_NotTunable := b\<rparr>) = s_DampEstablished s"
  "s_TakeoverIndicator (s\<lparr>s_NotTunable := b\<rparr>) = s_TakeoverIndicator s"
  "s_ID (s\<lparr>s_DampEstablished := b\<rparr>) = s_ID s"
  "s_Category (s\<lparr>s_DampEstablished := b\<rparr>) = s_Category s"
  "s_Severity (s\<lparr>s_DampEstablished := b\<rparr>) = s_Severity s"
  "s_Weight (s\<lparr>s_DampEstablished := b\<rparr>) = s_Weight s"
  "s_Title (s\<lparr>s_DampEstablished := b\<rparr>) = s_Title s"
  "s_Fires (s\<lparr>s_DampEstablished := b\<rparr>) = s_Fires s"
  "s_MaxImpact (s\<lparr>s_DampEstablished := b\<rparr>) = s_MaxImpact s"
  "s_NotTunable (s\<lparr>s_DampEstablished := b\<rparr>) = s_NotTunable s"
  "s_DampEstablished (s\<lparr>s_DampEstablished := b\<rparr>) = b"
  "s_TakeoverIndicator (s\<lparr>s_DampEstablished := b\<rparr>) = s_TakeoverIndicator s"
  "s_ID (s\<lparr>s_TakeoverIndicator := b\<rparr>) = s_ID s"
  "s_Category (s\<lparr>s_TakeoverIndicator := b\<rparr>) = s_Category s"
  "s_Severity (s\<lparr>s_TakeoverIndicator := b\<rparr>) = s_Severity s"
  "s_Weight (s\<lparr>s_TakeoverIndicator := b\<rparr>) = s_Weight s"
  "s_Title (s\<lparr>s_TakeoverIndicator := b\<rparr>) = s_Title s"
  "s_Fires (s\<lparr>s_TakeoverIndicator := b\<rparr>) = s_Fires s"
  "s_MaxImpact (s\<lparr>s_TakeoverIndicator := b\<rparr>) = s_MaxImpact s"
  "s_NotTunable (s\<lparr>s_TakeoverIndicator := b\<rparr>) = s_NotTunable s"
  "s_DampEstablished (s\<lparr>s_TakeoverIndicator := b\<rparr>) = s_DampEstablished s"
  "s_TakeoverIndicator (s\<lparr>s_TakeoverIndicator := b\<rparr>) = b"
  by simp_all

definition signal_row :: "'i Signal \<Rightarrow> string \<times> Category \<times> Severity \<times> rat \<times> int \<times> bool \<times> bool \<times> bool" where
  "signal_row s = (s_ID s, s_Category s, s_Severity s, s_Weight s, s_MaxImpact s, s_NotTunable s, s_DampEstablished s,
     s_TakeoverIndicator s)"

lemmas row_rules = signal_row_def list.map update_rules signal_simps

lemma actions_table [signal_tables]:
  "map signal_row actions_init =
     [(SignalActionUnpinnedRef, CategorySupplyChain, SevMedium, - 15, 0, False, False, False),
      (SignalActionUnknownPublisher, CategorySupplyChain, SevLow, - 5, 0, False, False, False),
      (SignalActionTyposquat, CategorySupplyChain, SevHigh, - 40, 0, False, False, False),
      (SignalActionMalicious, CategorySupplyChain, SevHigh, - 50, 0, False, False, False),
      (SignalActionPwnRequest, CategorySupplyChain, SevHigh, 0, 0, False, False, False),
      (SignalActionCommentTriggerUnguarded, CategorySupplyChain, SevHigh, 0, 0, False, False, False),
      (SignalActionScriptInjection, CategorySupplyChain, SevHigh, 0, 0, False, False, False),
      (SignalActionDecodeExec, CategorySupplyChain, SevHigh, 0, 0, False, False, False)]"
  by (simp only: actions_init_def actions_signals registerLicenseTagSignal_def registerActionLint_def row_rules)

lemma aiartifact_table [signal_tables]:
  "map signal_row aiartifact_init =
     [(SignalAIDangerousPickle, CategorySupplyChain, SevCritical, - 100, 15, False, False, False),
      (SignalAISuspiciousPickle, CategorySupplyChain, SevMedium, - 15, 0, False, False, False),
      (SignalAIUnsafeSerialization, CategorySupplyChain, SevLow, - 10, 0, False, False, False),
      (SignalAIPrefersSafetensors, CategorySupplyChain, SevInfo, 5, 0, False, False, False),
      (SignalAIModelCardInjection, CategorySupplyChain, SevMedium, - 20, 0, False, False, False),
      (SignalAIAgentToolDangerous, CategorySupplyChain, SevHigh, - 30, 40, False, False, False),
      (SignalAIAgentToolDeclared, CategoryQuality, SevInfo, 0, 0, False, False, False),
      (SignalAIMCPServerUnverified, CategoryQuality, SevLow, - 8, 0, False, False, False),
      (SignalAIPromptTemplateInjection, CategorySupplyChain, SevMedium, - 20, 0, False, False, False)]"
  by (simp only: aiartifact_init_def aiartifact_signals registerLicenseTagSignal_def registerActionLint_def row_rules)

lemma capability_table [signal_tables]:
  "map signal_row capability_init =
     [(SignalCapNetwork, CategorySupplyChain, SevInfo, 0, 0, False, False, False),
      (SignalCapShell, CategorySupplyChain, SevInfo, 0, 0, False, False, False),
      (SignalCapFilesystemWrite, CategorySupplyChain, SevInfo, 0, 0, False, False, False),
      (SignalCapFilesystemRead, CategorySupplyChain, SevInfo, 0, 0, False, False, False),
      (SignalCapEnvAccess, CategorySupplyChain, SevInfo, 0, 0, False, False, False),
      (SignalCapNativeCode, CategorySupplyChain, SevInfo, 0, 0, False, False, False),
      (SignalCapDynamicEval, CategorySupplyChain, SevLow, - 3, 0, False, False, False),
      (SignalCapDynamicEvalObs, CategorySupplyChain, SevInfo, 0, 0, False, False, False),
      (SignalCapURLStrings, CategorySupplyChain, SevInfo, 0, 0, False, False, False)]"
  by (simp only: capability_init_def capability_signals registerLicenseTagSignal_def registerActionLint_def row_rules)

lemma capability_debug_telemetry_table [signal_tables]:
  "map signal_row capability_debug_telemetry_init =
     [(SignalCapDebugAccess, CategorySupplyChain, SevInfo, 0, 0, False, False, False),
      (SignalCapTelemetry, CategorySupplyChain, SevInfo, 0, 0, False, False, False),
      (SignalCapDynamicRequire, CategorySupplyChain, SevInfo, 0, 0, False, False, False)]"
  by (simp only: capability_debug_telemetry_init_def capability_debug_telemetry_signals registerLicenseTagSignal_def registerActionLint_def row_rules)

lemma dormant_lookalike_table [signal_tables]:
  "map signal_row (dormant_lookalike_init env) =
     [(SignalSCDormantLookalikeRelease, CategorySupplyChain, SevMedium, - 20, maxImpactWarnTop, False, False, False)]"
  by (simp only: dormant_lookalike_init_def dormant_lookalike_signals registerLicenseTagSignal_def registerActionLint_def row_rules)

lemma license_table [signal_tables]:
  "map signal_row (license_init env) =
     [(SignalLicMissing, CategoryLicense, SevMedium, - 15, 0, False, False, False),
      (SignalLicChangedFromPrev, CategoryLicense, SevMedium, 0, 0, False, False, False),
      (SignalLicSPDXPresent, CategoryLicense, SevInfo, 5, 0, False, False, False),
      (SignalLicCopyleft, CategoryLicense, SevMedium, - 10, 0, False, False, False),
      (SignalLicNonPermissive, CategoryLicense, SevMedium, - 20, 0, False, False, False),
      (SignalLicExceptionPresent, CategoryLicense, SevInfo, - 5, 0, False, False, False),
      (SignalLicAmbiguousClassifier, CategoryLicense, SevLow, - 10, 0, False, False, False),
      (SignalLicUnidentified, CategoryLicense, SevMedium, - 15, 0, False, False, False)]"
  by (simp only: license_init_def license_signals registerLicenseTagSignal_def registerActionLint_def row_rules)

lemma maintenance_table [signal_tables]:
  "map signal_row (maintenance_init env) =
     [(SignalMaintAbandonedRepo, CategoryMaintenance, SevHigh, - 25, 0, False, True, False),
      (SignalMaintNoRecentRelease, CategoryMaintenance, SevInfo, 0, 0, False, False, False),
      (SignalMaintVeryNewPackage, CategoryMaintenance, SevMedium, - 10, 0, False, False, False),
      (SignalMaintSingleMaintainer, CategoryMaintenance, SevLow, - 5, 0, False, True, False),
      (SignalMaintHealthyCadence, CategoryMaintenance, SevInfo, 10, 0, False, False, False),
      (SignalMaintUnpopularPackage, CategoryMaintenance, SevInfo, 0, 0, False, False, False)]"
  by (simp only: maintenance_init_def maintenance_signals registerLicenseTagSignal_def registerActionLint_def row_rules)

lemma maintenance_state_table [signal_tables]:
  "map signal_row (maintenance_state_init env) =
     [(SignalMaintRelocated, CategoryMaintenance, SevLow, 0, 0, False, False, False),
      (SignalSCReleaseAfterDormancy, CategorySupplyChain, SevInfo, 0, 0, False, False, False),
      (SignalMaintOutdatedVersion, CategoryMaintenance, SevInfo, 0, 0, False, False, False)]"
  by (simp only: maintenance_state_init_def maintenance_state_signals registerLicenseTagSignal_def registerActionLint_def row_rules)

lemma quality_table [signal_tables]:
  "map signal_row quality_init =
     [(SignalQualChecksumMismatch, CategoryQuality, SevCritical, - 1000, 0, True, False, False),
      (SignalQualChecksumVerified, CategoryQuality, SevInfo, 5, 0, False, False, False),
      (SignalQualVersionAnomaly, CategoryQuality, SevMedium, - 10, maxImpactWarnTop, False, True, False),
      (SignalQualMinifiedCode, CategoryQuality, SevInfo, 0, 0, False, False, False)]"
  by (simp only: quality_init_def quality_signals registerLicenseTagSignal_def registerActionLint_def row_rules)

lemma supplychain_table [signal_tables]:
  "map signal_row (supplychain_init env) =
     [(SignalSCKnownMalicious, CategorySupplyChain, SevCritical, - 1000, 0, True, False, True),
      (SignalSCTyposquatHigh, CategorySupplyChain, SevCritical, - 40, 30, False, True, False),
      (SignalSCTyposquatMedium, CategorySupplyChain, SevMedium, - 20, 0, False, True, False),
      (SignalSCTyposquatLow, CategorySupplyChain, SevLow, - 8, 0, False, True, False),
      (SignalSCPublisherChanged, CategorySupplyChain, SevHigh, - 25, 40, False, False, True),
      (SignalSCPOMDeveloperListChanged, CategorySupplyChain, SevLow, - 5, 0, False, False, False),
      (SignalSCInstallScriptNetwork, CategorySupplyChain, SevHigh, - 25, 40, False, False, True),
      (SignalSCInstallScriptEvalEnc, CategorySupplyChain, SevHigh, - 25, 40, False, False, True),
      (SignalSCExfilSinkUsed, CategorySupplyChain, SevHigh, - 30, 40, False, False, True),
      (SignalSCImportTimeShell, CategorySupplyChain, SevHigh, - 25, 40, False, False, True),
      (SignalSCDependencyCredential, CategorySupplyChain, SevHigh, - 25, 40, False, False, True),
      (SignalSCAppCredentialExfil, CategorySupplyChain, SevHigh, - 25, 40, False, False, True),
      (SignalSCDefenderTamper, CategorySupplyChain, SevHigh, - 20, 40, False, False, True),
      (SignalSCInstallScriptOnly, CategorySupplyChain, SevInfo, 0, 0, False, False, False),
      (SignalSCInstallScriptOnlyNPM, CategorySupplyChain, SevLow, - 5, 0, False, False, False),
      (SignalSCHiddenUnicode, CategorySupplyChain, SevMedium, - 20, maxImpactWarnTop, False, False, False),
      (SignalSCRepoOwnershipMismatch, CategorySupplyChain, SevHigh, - 20, 40, False, False, True),
      (SignalSCRepoArchived, CategorySupplyChain, SevMedium, - 12, maxImpactWarnTop, False, True, False),
      (SignalSCRepoMissing, CategorySupplyChain, SevMedium, - 12, maxImpactWarnTop, False, True, False),
      (SignalSCRepoMissingEstablished, CategorySupplyChain, SevLow, - 12, 0, False, True, False),
      (SignalSCProvenanceVerified, CategorySupplyChain, SevInfo, 15, 0, False, False, False),
      (SignalSCBuilderRefVersionMismatch, CategorySupplyChain, SevLow, - 5, 0, False, False, False),
      (SignalSCProvenanceDowngrade, CategorySupplyChain, SevHigh, - 25, 40, False, False, True),
      (SignalSCSLSALevelBonus, CategorySupplyChain, SevInfo, 0, 0, False, False, False),
      (SignalSCSignatureVerified, CategorySupplyChain, SevInfo, 5, 0, False, False, False),
      (SignalSCPublishVelocity, CategorySupplyChain, SevMedium, - 15, 55, False, False, False),
      (SignalSCMaintainerAccountVeryYoung, CategorySupplyChain, SevHigh, - 25, 40, False, False, True),
      (SignalSCMaintainerAccountYoung, CategorySupplyChain, SevMedium, - 15, 0, False, False, True),
      (SignalSCMaintainerAccountSomewhatYoung, CategorySupplyChain, SevLow, - 5, 0, False, False, False),
      (SignalSCNonExistentAuthor, CategorySupplyChain, SevHigh, - 20, 40, False, False, True),
      (SignalSCGitURLDependency, CategorySupplyChain, SevLow, - 8, 0, False, False, False),
      (SignalSCHTTPURLDependency, CategorySupplyChain, SevLow, - 8, 0, False, False, False),
      (SignalSCTransitiveCriticalVuln, CategorySupplyChain, SevCritical, - 40, 30, False, False, False),
      (SignalSCTransitiveHighVuln, CategorySupplyChain, SevHigh, - 20, 50, False, False, False),
      (SignalSCTransitiveMalware, CategorySupplyChain, SevCritical, - 1000, 0, True, False, True),
      (SignalSCShellAppeared, CategorySupplyChain, SevHigh, - 20, 40, False, False, True),
      (SignalSCFilesystemAppeared, CategorySupplyChain, SevLow, - 10, 0, False, False, True),
      (SignalSCEnvVarAppeared, CategorySupplyChain, SevLow, - 10, 0, False, False, True)]"
  by (simp only: supplychain_init_def supplychain_signals registerLicenseTagSignal_def registerActionLint_def row_rules)

lemma vulnerability_table [signal_tables]:
  "map signal_row vulnerability_init =
     [(SignalVulnKEV, CategoryVulnerability, SevCritical, - 60, 20, True, False, False),
      (SignalVulnFixAvailable, CategoryVulnerability, SevInfo, 5, 0, False, False, False),
      (SignalVulnKnownVuln, CategoryVulnerability, SevMedium, - 10, maxImpactWarnTop, False, False, False),
      (SignalVulnCVSSCritical, CategoryVulnerability, SevCritical, - 35, 30, False, False, False),
      (SignalVulnCVSSHigh, CategoryVulnerability, SevHigh, - 20, 40, False, False, False),
      (SignalVulnCVSSMedium, CategoryVulnerability, SevMedium, - 10, maxImpactWarnTop, False, False, False),
      (SignalVulnCVSSLow, CategoryVulnerability, SevLow, - 3, 0, False, False, False),
      (SignalVulnEPSSHigh, CategoryVulnerability, SevHigh, - 15, 0, False, False, False)]"
  by (simp only: vulnerability_init_def vulnerability_signals registerLicenseTagSignal_def registerActionLint_def row_rules)

lemma wave1_table [signal_tables]:
  "map signal_row wave1_init =
     [(SignalSCDeprecatedByMaintainer, CategorySupplyChain, SevMedium, - 15, maxImpactWarnTop, False, False, False),
      (SignalSCShrinkwrapPresent, CategorySupplyChain, SevLow, - 10, 0, False, False, False),
      (SignalSCManifestConfusion, CategorySupplyChain, SevHigh, - 45, 0, False, False, True)]"
  by (simp only: wave1_init_def wave1_signals registerLicenseTagSignal_def registerActionLint_def row_rules)

end
