(* ===== verification/SignalProps.thy ===== *)
theory SignalProps
  imports SignalTable RiskVerdict
begin

text \<open>
  The registry that the package initialisation builds: the initialisers never panic, and how the signals are
  calibrated. What follows for the verdicts of the engine holds for every input, whatever the overrides, the
  weights and the other signals are.
\<close>

section \<open>Registration\<close>

definition Registry :: "SignalEnv \<Rightarrow> 'a SignalInput_scheme Registry" where
  "Registry env = map (\<lambda>s. (s_ID s, s)) (signals env)"

lemma cards: "map signal_row (signals env :: 'a SignalInput_scheme Signal list) = concat (map (map signal_row)
    [actions_init :: 'a SignalInput_scheme Signal list, aiartifact_init, capability_init, capability_debug_telemetry_init, dormant_lookalike_init env,
     license_init env, maintenance_init env, maintenance_state_init env, quality_init, supplychain_init env,
     vulnerability_init, wave1_init])"
  by (simp add: signals_def)

lemma all_signals:
  "(\<forall>s \<in> set ss. P (signal_row s)) = list_all P (map signal_row ss)"
  by (simp add: list_all_iff)

lemma signal_IDs: "map s_ID ss = map fst (map signal_row ss)"
  by (simp add: signal_row_def comp_def)

lemma signal_ids_distinct: "distinct (map s_ID (signals env))"
  unfolding signal_IDs cards by (simp add: signal_tables signal_ids)

lemma Registry_ok [simp]: "gomap_ok (Registry env)"
  using signal_ids_distinct by (simp add: gomap_ok_def Registry_def comp_def)

lemma Registry_lookup: "s \<in> set (signals env) \<Longrightarrow> map_of (Registry env) (s_ID s) = Some s"
  using Registry_ok by (intro map_of_is_SomeI) (auto simp: gomap_ok_def Registry_def)

lemma Registry_member: "map_of (Registry env) sid = Some s \<Longrightarrow> s \<in> set (signals env) \<and> s_ID s = sid"
  by (auto simp: Registry_def dest!: map_of_SomeD)

lemma signals_titled: "list_all (\<lambda>s. s_Title s \<noteq> []) (signals env)"
  by (simp only: init_lists signal_defs list_all_append list.pred_inject update_rules signal_simps list.distinct
      append_is_Nil_conv simp_thms append_Cons append_Nil)

lemma signals_named:
  "\<forall>s \<in> set (signals env :: 'a SignalInput_scheme Signal list). s_ID s \<noteq> [] \<and> s_Title s \<noteq> [] \<and> category_name (s_Category s) \<noteq> []"
proof -
  have "list_all (\<lambda>c. fst c \<noteq> [] \<and> category_name (fst (snd c)) \<noteq> []) (map signal_row (signals env :: 'a SignalInput_scheme Signal list))"
    unfolding cards by (simp add: signal_tables signal_ids category_name_def)
  with signals_titled show ?thesis by (simp add: list_all_iff signal_row_def)
qed

lemma register_new:
  assumes "s_ID s \<noteq> []" and "s_Title s \<noteq> []" and "category_name (s_Category s) \<noteq> []" and "s_ID s \<notin> fst ` set reg"
  shows "register s reg = Inr (reg @ [(s_ID s, s)])"
proof -
  have "map_of reg (s_ID s) = None" using assms(4) by (simp add: map_of_eq_None_iff)
  with assms show ?thesis by (simp add: register_def update_new)
qed

lemma register_fold:
  assumes "\<forall>s \<in> set ss. s_ID s \<noteq> [] \<and> s_Title s \<noteq> [] \<and> category_name (s_Category s) \<noteq> []"
    and "distinct (map fst reg @ map s_ID ss)"
  shows "fold (\<lambda>s r. case r of Inl panic \<Rightarrow> Inl panic | Inr reg \<Rightarrow> register s reg) ss (Inr reg) =
    Inr (reg @ map (\<lambda>s. (s_ID s, s)) ss)"
  using assms
proof (induction ss arbitrary: reg)
  case (Cons s ss)
  then have "register s reg = Inr (reg @ [(s_ID s, s)])" by (intro register_new) auto
  moreover have "distinct (map fst (reg @ [(s_ID s, s)]) @ map s_ID ss)" using Cons.prems(2) by simp
  ultimately show ?case using Cons by simp
qed simp

lemma register_all_ok:
  assumes "\<forall>s \<in> set ss. s_ID s \<noteq> [] \<and> s_Title s \<noteq> [] \<and> category_name (s_Category s) \<noteq> []"
    and "distinct (map s_ID ss)"
  shows "register_all ss = Inr (map (\<lambda>s. (s_ID s, s)) ss)"
  using register_fold[of ss "[]"] assms by (simp add: register_all_def)

text \<open>
  C4: The initialisation of the package registers its hundred signals without a panic: every identifier, title and
  category is set, no identifier is used twice, and the registry that results meets the
  well-formedness that the theorems on the engine ask for.
\<close>

theorem registration_succeeds:
  "register_all (signals env) = Inr (Registry env) \<and> registry_ok (Registry env) \<and> length (Registry env) = 100"
proof (intro conjI)
  show "register_all (signals env) = Inr (Registry env)"
    unfolding Registry_def by (rule register_all_ok[OF signals_named signal_ids_distinct])
  show "registry_ok (Registry env)"
    unfolding registry_ok_def by (simp add: Registry_ok) (auto simp: Registry_def)
  show "length (Registry env) = 100"
    by (simp add: Registry_def init_lists)
qed

section \<open>Calibration\<close>

definition calibrated :: "string \<times> Category \<times> Severity \<times> rat \<times> int \<times> bool \<times> bool \<times> bool \<Rightarrow> bool" where
  "calibrated c =
     (case c of (sid, cat, sev, w, cap, locked, damp, takeover) \<Rightarrow>
        0 \<le> cap \<and> cap < thresholdWarn \<and>
        (if 0 < cap \<and> cap \<le> thresholdQuarantine then sev = SevCritical else True) \<and>
        (if sev = SevCritical then 0 < cap \<or> sid \<in> set instantBlockIDs else True) \<and>
        (w \<le> - 1000) = (sid \<in> set instantBlockIDs) \<and>
        (if sid \<in> set instantBlockIDs then locked else True) \<and>
        \<not> (damp \<and> takeover) \<and>
        (if damp then cat \<noteq> CategoryVulnerability \<and> cat \<noteq> CategoryLicense else True))"

theorem signals_calibrated: "\<forall>s \<in> set (signals env). calibrated (signal_row s)"
  unfolding all_signals cards
  by (simp add: signal_tables calibrated_def signal_ids instantBlockIDs_def thresholds)

section \<open>Verdicts\<close>

lemma signal_no_rule: "\<forall>s \<in> set (signals env :: 'a SignalInput_scheme Signal list). s_ID s \<notin> cr_ID ` set CompoundRules"
proof -
  have "list_all (\<lambda>c. fst c \<notin> cr_ID ` set CompoundRules) (map signal_row (signals env :: 'a SignalInput_scheme Signal list))"
    unfolding cards by (simp add: signal_tables signal_ids CompoundRules_def compound_rules compound_ids)
  then show ?thesis by (simp add: list_all_iff signal_row_def)
qed

text \<open>A ceiling that the damper cannot lift binds the scores, and every ceiling is below the allow band.\<close>

lemma ceilinged:
  assumes "evaluated (Registry env) i" and "s \<in> set (signals env)" and "fst (s_Fires s i)" and "0 < s_MaxImpact s"
    and "\<not> s_DampEstablished s"
  shows "sc_Overall (e_DirectScore (EvaluatePackage (Registry env) CompoundRules i opts)) \<le> s_MaxImpact s \<and>
    sc_Overall (e_RolledUp (EvaluatePackage (Registry env) CompoundRules i opts)) \<le> s_MaxImpact s \<and>
    e_Verdict (EvaluatePackage (Registry env) CompoundRules i opts) \<noteq> VerdictAllow"
proof -
  have "s_ID s \<notin> cr_ID ` set CompoundRules" using signal_no_rule assms(2) by blast
  then have c: "sc_Overall (e_DirectScore (EvaluatePackage (Registry env) CompoundRules i opts)) \<le> s_MaxImpact s \<and>
      sc_Overall (e_RolledUp (EvaluatePackage (Registry env) CompoundRules i opts)) \<le> s_MaxImpact s"
    using assms by (intro ceiling_law[OF Registry_ok assms(1) Registry_lookup]) simp_all
  have "s_MaxImpact s < thresholdWarn"
    using signals_calibrated assms(2) by (force simp: calibrated_def signal_row_def)
  with c have "\<not> thresholdWarn \<le> sc_Overall (e_DirectScore (EvaluatePackage (Registry env) CompoundRules i opts))"
    by linarith
  then have "e_Verdict (EvaluatePackage (Registry env) CompoundRules i opts) \<noteq> VerdictAllow"
    using verdict_law[OF Registry_ok assms(1), where rules = CompoundRules and opts = opts] by (auto split: if_splits)
  with c show ?thesis by blast
qed

text \<open>A critical signal whose evidence does not change its severity leads to a blocking verdict.\<close>

lemma critical_blocks:
  assumes "evaluated (Registry env) i" and "s \<in> set (signals env)" and "fst (s_Fires s i)" and "s_Severity s = SevCritical"
    and "map_of (snd (snd (s_Fires s i))) evidenceSeverityOverride = None"
  shows "e_Verdict (EvaluatePackage (Registry env) CompoundRules i opts)
    \<in> {VerdictUpgradeAvailable, VerdictReplace, VerdictQuarantine}"
proof -
  let ?fired = "runPrimitiveSignals (Registry env) i (o_SignalWeightOverrides opts)"
  obtain d ev where f: "s_Fires s i = (True, d, ev)" using assms(3) by (metis fst_conv prod_cases3)
  have "fst (applySignalOverrides SevCritical (s_Title s) ev) = SevCritical"
    using assms(5) by (simp add: f applySignalOverrides_def Let_def split: prod.splits)
  then obtain g where "run_signal (o_SignalWeightOverrides opts) i (s_ID s) s = Some g" "f_Severity g = SevCritical"
    using f assms(4) by (cases "applySignalOverrides SevCritical (s_Title s) ev") (simp add: run_signal_def)
  then have "map_of ?fired (s_ID s) = Some g" "f_Severity g = SevCritical"
    by (simp_all add: fired_iff[OF Registry_ok] Registry_lookup[OF assms(2)])
  then have "hasCriticalSignal ?fired (runCompoundRules CompoundRules i ?fired (o_SignalWeightOverrides opts))"
    by (auto simp: hasCriticalSignal_def list_ex_iff dest!: map_of_SomeD)
  with verdict_law[OF Registry_ok assms(1), where rules = CompoundRules and opts = opts] show ?thesis by simp
qed

section \<open>Malware and tampering\<close>

lemma known_bad_iff:
  fixes i :: "'a SignalInput_scheme"
  shows "blocks_instantly (Registry env) i \<longleftrightarrow> IsKnownMalicious i \<or> ChecksumMismatch i \<or> 0 < TransitiveMalwareCount i"
proof -
  let ?k = "sig_sc_known_malicious :: 'a SignalInput_scheme Signal"
    and ?c = "sig_qual_checksum_mismatch :: 'a SignalInput_scheme Signal"
    and ?t = "sig_sc_transitive_malware :: 'a SignalInput_scheme Signal"
  note defs = sig_sc_known_malicious_def sig_qual_checksum_mismatch_def sig_sc_transitive_malware_def no_fire_def
  have "?k \<in> set (signals env)" "?c \<in> set (signals env)" "?t \<in> set (signals env)" by (simp_all add: init_lists)
  note m = this[THEN Registry_lookup]
  have ids: "s_ID ?k = SignalSCKnownMalicious" "s_ID ?c = SignalQualChecksumMismatch" "s_ID ?t = SignalSCTransitiveMalware"
    by (simp_all add: defs)
  have "fst (s_Fires ?k i) = IsKnownMalicious i" "fst (s_Fires ?c i) = ChecksumMismatch i"
    "fst (s_Fires ?t i) = (0 < TransitiveMalwareCount i)"
    by (auto simp: defs)
  then show ?thesis by (simp add: blocks_instantly_def instantBlockIDs_def m[unfolded ids])
qed

text \<open>
  C1: A package that is known to be malicious, that has a tampered checksum or that pulls in malware is quarantined with
  score 0 and an explanation, whatever the other facts, rules, options and weights are, and also while
  the remaining signals are unavailable.
\<close>

theorem known_bad_quarantined:
  assumes "IsKnownMalicious i \<or> ChecksumMismatch i \<or> 0 < TransitiveMalwareCount i"
  shows "e_Verdict (EvaluatePackage (Registry env) rules i opts) = VerdictQuarantine \<and>
    sc_Overall (e_DirectScore (EvaluatePackage (Registry env) rules i opts)) = 0 \<and>
    sc_Overall (e_RolledUp (EvaluatePackage (Registry env) rules i opts)) = 0 \<and>
    r_Summary (e_Resolution (EvaluatePackage (Registry env) rules i opts)) \<noteq> []"
  using assms by (intro instant_block_law) (simp_all add: known_bad_iff)

section \<open>Vulnerabilities\<close>

text \<open>The ladder of ceilings: exploited, critical, high, medium, and not scored at all.\<close>

definition vuln_ceiling :: "'a VulnInput_scheme \<Rightarrow> int option" where
  "vuln_ceiling i =
     (if KnownExploited i then Some 20
      else if \<not> IsVulnerable i then None
      else if 9 \<le> MaxCVSS i then Some 30
      else if 7 \<le> MaxCVSS i then Some 40
      else if 4 \<le> MaxCVSS i then Some 59
      else if \<not> hasScoredVulnSignal i then Some 59
      else None)"

text \<open>The signal of the rung: it fires, carries the ceiling and is out of the damper's reach.\<close>

lemma vuln_rung:
  fixes i :: "'a SignalInput_scheme"
  assumes "vuln_ceiling i = Some m"
  shows "\<exists>s \<in> set (signals env). fst (s_Fires s i) \<and> s_MaxImpact s = m \<and> \<not> s_DampEstablished s \<and> 0 < m \<and>
    (m \<le> 30 \<longrightarrow> s_Severity s = SevCritical \<and> map_of (snd (snd (s_Fires s i))) evidenceSeverityOverride = None)"
proof -
  note rungs = sig_vuln_kev_def sig_vuln_cvss_critical_def sig_vuln_cvss_high_def sig_vuln_cvss_medium_def
    sig_vuln_known_vulnerable_def no_fire_def thresholds evidenceSeverityOverride_def
  define s :: "'a SignalInput_scheme Signal" where "s =
    (if m = 20 then sig_vuln_kev else if m = 30 then sig_vuln_cvss_critical else if m = 40 then sig_vuln_cvss_high
     else if hasScoredVulnSignal i then sig_vuln_cvss_medium else sig_vuln_known_vulnerable)"
  have "s \<in> set (signals env)" by (simp add: s_def init_lists)
  moreover have "fst (s_Fires s i) \<and> s_MaxImpact s = m \<and> \<not> s_DampEstablished s \<and> 0 < m \<and>
    (m \<le> 30 \<longrightarrow> s_Severity s = SevCritical \<and> map_of (snd (snd (s_Fires s i))) evidenceSeverityOverride = None)"
    using assms by (auto simp: vuln_ceiling_def s_def rungs hasScoredVulnSignal_def split: if_splits)
  ultimately show ?thesis by blast
qed

text \<open>
  C2: A package whose signals could be evaluated and that stands on a rung of the ladder of vulnerabilities keeps below the
  ceiling of its rung in both of its scores, whatever else is known about it, and is never allowed: 20 when
  a vulnerability is known to be exploited, and, when it is vulnerable, 30 for a CVSS score of at least 9, 40 for at least
  7, 59 for at least 4, and 59 without any score when the EPSS probability is at most one half. In the two worst rungs
  its verdict is an upgrade, a replacement or quarantine. (A CVSS score below 4, and an advisory without a
  score that is more likely to be exploited, are on no rung.)
\<close>

theorem vulnerable_is_capped:
  assumes "\<not> SignalsUnavailable i" and "vuln_ceiling i = Some m"
  shows "sc_Overall (e_DirectScore (EvaluatePackage (Registry env) CompoundRules i opts)) \<le> m \<and>
    sc_Overall (e_RolledUp (EvaluatePackage (Registry env) CompoundRules i opts)) \<le> m \<and>
    e_Verdict (EvaluatePackage (Registry env) CompoundRules i opts) \<noteq> VerdictAllow \<and>
    (m \<le> 30 \<longrightarrow> e_Verdict (EvaluatePackage (Registry env) CompoundRules i opts)
      \<in> {VerdictUpgradeAvailable, VerdictReplace, VerdictQuarantine})"
proof (cases "blocks_instantly (Registry env) i")
  case True
  have "0 < m" using assms(2) by (auto simp: vuln_ceiling_def split: if_splits)
  with instant_block_law[OF Registry_ok True, of CompoundRules opts] show ?thesis by simp
next
  case False
  with assms(1) have ev: "evaluated (Registry env) i" by (simp add: evaluated_def)
  obtain s where s: "s \<in> set (signals env)" "fst (s_Fires s i)" "s_MaxImpact s = m" "\<not> s_DampEstablished s" "0 < m"
    and crit: "m \<le> 30 \<Longrightarrow> s_Severity s = SevCritical \<and> map_of (snd (snd (s_Fires s i))) evidenceSeverityOverride = None"
    using vuln_rung[OF assms(2), of env] by blast
  from ceilinged[OF ev s(1,2) _ s(4), of opts] s(3,5) critical_blocks[OF ev s(1,2)] crit
  show ?thesis by blast
qed

section \<open>Examples\<close>

definition tampered :: SignalInput where
  "tampered = zero_input\<lparr>Ecosystem_in := ''npm'', ChecksumMismatch := True, SignalsUnavailable := True\<rparr>"

definition critical_cve :: SignalInput where
  "critical_cve = zero_input\<lparr>Ecosystem_in := ''npm'', VulnDataAvailable := True, IsVulnerable := True, MaxCVSS := 49 / 5\<rparr>"

definition some_env :: SignalEnv where
  "some_env =
     \<lparr>env_Now = 0, env_Offline = [], env_ZeroWidth = [],
      env_Spdx = \<lparr>ExtractLicenses = (\<lambda>_. None), ValidateLicense = (\<lambda>_. False)\<rparr>, env_IsPrint = (\<lambda>_. True)\<rparr>"

lemma critical_cve_evaluated: "evaluated (Registry env) critical_cve"
  by (simp add: evaluated_def known_bad_iff) (simp add: critical_cve_def zero_input_def)

theorem known_bad_quarantined_witness:
  "e_Verdict (EvaluatePackage (Registry some_env) CompoundRules tampered demo_options) = VerdictQuarantine"
proof -
  have "ChecksumMismatch tampered" by (simp add: tampered_def)
  then show ?thesis using known_bad_quarantined[of tampered some_env CompoundRules demo_options] by blast
qed

theorem vulnerable_is_capped_witness:
  "sc_Overall (e_RolledUp (EvaluatePackage (Registry some_env) CompoundRules critical_cve demo_options)) \<le> 30 \<and>
   e_Verdict (EvaluatePackage (Registry some_env) CompoundRules critical_cve demo_options)
     \<in> {VerdictUpgradeAvailable, VerdictReplace, VerdictQuarantine}"
proof -
  have "vuln_ceiling critical_cve = Some 30"
    by (simp add: vuln_ceiling_def critical_cve_def zero_input_def)
  moreover have "\<not> SignalsUnavailable critical_cve" using critical_cve_evaluated[of some_env] by (simp add: evaluated_def)
  ultimately show ?thesis using vulnerable_is_capped[of critical_cve 30 some_env demo_options] by simp
qed

end
