(* ===== verification/SignalGaps.thy ===== *)
theory SignalGaps
  imports SignalProps RiskTreeReresolve
begin

text \<open>
  A gap in the ladder of vulnerability signals: the count of the tiers that fire on a vulnerable package, and the
  verdict of a package that falls through it.
\<close>

section \<open>The tiers\<close>

definition vuln_tiers :: "'a VulnInput_scheme Signal list" where
  "vuln_tiers =
     [sig_vuln_kev, sig_vuln_cvss_critical, sig_vuln_cvss_high, sig_vuln_cvss_medium, sig_vuln_cvss_low,
      sig_vuln_known_vulnerable]"

definition firing :: "'i Signal list \<Rightarrow> 'i \<Rightarrow> nat" where
  "firing ss i = length (filter (\<lambda>s. fst (s_Fires s i)) ss)"

lemma tier_fires [simp]:
  "fst (s_Fires sig_vuln_kev i) = KnownExploited i"
  "fst (s_Fires sig_vuln_cvss_critical i) = (IsVulnerable i \<and> \<not> KnownExploited i \<and> 9 \<le> MaxCVSS i)"
  "fst (s_Fires sig_vuln_cvss_high i) = (IsVulnerable i \<and> \<not> KnownExploited i \<and> 7 \<le> MaxCVSS i \<and> MaxCVSS i < 9)"
  "fst (s_Fires sig_vuln_cvss_medium i) = (IsVulnerable i \<and> \<not> KnownExploited i \<and> 4 \<le> MaxCVSS i \<and> MaxCVSS i < 7)"
  "fst (s_Fires sig_vuln_cvss_low i) = (IsVulnerable i \<and> \<not> KnownExploited i \<and> 0 < MaxCVSS i \<and> MaxCVSS i < 4)"
  "fst (s_Fires sig_vuln_known_vulnerable i) = (IsVulnerable i \<and> \<not> hasScoredVulnSignal i)"
  "fst (s_Fires sig_vuln_fix_available i) = (IsVulnerable i \<and> FixAvailable i \<and> hasScoredVulnSignal i)"
  by (auto simp: vulnerability_signals no_fire_def)

theorem one_vulnerability_tier:
  "firing vuln_tiers i =
     (if KnownExploited i then 1
      else if \<not> IsVulnerable i then 0
      else if MaxCVSS i \<le> 0 \<and> 1 / 2 < EPSSScore i then 0 else 1) \<and>
   (fst (s_Fires sig_vuln_fix_available i) \<longrightarrow> \<not> fst (s_Fires sig_vuln_known_vulnerable i))"
  by (auto simp: firing_def vuln_tiers_def hasScoredVulnSignal_def)

section \<open>A package that falls through\<close>

text \<open>A published advisory, without a CVSS score, that is exploited with probability \<open>e\<close>.\<close>

definition advisory :: "rat \<Rightarrow> SignalInput" where
  "advisory e = zero_input\<lparr>Ecosystem_in := ''pypi'', Package := ''p'', Version_in := ''1'', VulnDataAvailable := True,
     IsVulnerable := True, EPSSScore := e, LicenseSPDX := ''MIT'', LicenseFromFile := True\<rparr>"

lemmas advisory_fields = advisory_def zero_input_def

text \<open>The firing of a list of signals, computed without evaluating their texts.\<close>

lemmas firing_rules =
  init_lists signal_defs list.pred_inject list_all_append update_rules signal_simps append_Nil append_Cons simp_thms

lemma advisory_quiet:
  "list_all (\<lambda>s. \<not> fst (s_Fires s (advisory e)))
     (actions_init @ aiartifact_init @ capability_init @ capability_debug_telemetry_init @ dormant_lookalike_init env)"
  "list_all (\<lambda>s. \<not> fst (s_Fires s (advisory e)))
     (license_init env @ maintenance_init env @ maintenance_state_init env @ quality_init)"
  "list_all (\<lambda>s. \<not> fst (s_Fires s (advisory e))) (supplychain_init env @ wave1_init)"
  by ((simp only: firing_rules), (simp add: advisory_fields no_fire_def counted_downloads_def
      builderRefVersionMismatch_def))+

definition epss_fired :: "rat \<Rightarrow> FiredSignal" where
  "epss_fired e = \<lparr>f_ID = SignalVulnEPSSHigh, f_Category = CategoryVulnerability,
     f_Title = ''High exploit probability (EPSS)'', f_Severity = SevHigh, f_Weight = - 15,
     f_Detail = ''Elevated probability of exploitation in the next 30 days.'',
     f_Evidence = [(''epss'', AnyFloat e)], f_Compound = False\<rparr>"

lemma map_filter_none: "(\<forall>x \<in> set xs. f x = None) \<Longrightarrow> List.map_filter f xs = []"
  by (induction xs) (simp_all add: map_filter_simps)

lemma map_filter_append: "List.map_filter f (xs @ ys) = List.map_filter f xs @ List.map_filter f ys"
  by (simp add: map_filter_def)

lemma quiet_run:
  "list_all (\<lambda>s. \<not> fst (s_Fires s i)) ss \<Longrightarrow>
     List.map_filter (\<lambda>(sid, s). map_option (Pair sid) (run_signal ov i sid s)) (map (\<lambda>s. (s_ID s, s)) ss) = []"
  using run_signal_fires[of ov i] by (intro map_filter_none) (fastforce simp: list_all_iff)

lemma advisory_fired:
  assumes "1 / 2 < e"
  shows "runPrimitiveSignals (Registry env) (advisory e) Map.empty = [(SignalVulnEPSSHigh, epss_fired e)]"
proof -
  define run where "run = (\<lambda>ss. List.map_filter
    (\<lambda>(sid, s). map_option (Pair sid) (run_signal Map.empty (advisory e) sid s)) (map (\<lambda>s. (s_ID s, s)) ss))"
  have quiet: "run ss = []" if "list_all (\<lambda>s. \<not> fst (s_Fires s (advisory e))) ss" for ss
    unfolding run_def by (rule quiet_run[OF that])
  have split: "run (xs @ ys) = run xs @ run ys" for xs ys by (simp add: run_def map_filter_append)
  let ?tiers = "[sig_vuln_kev, sig_vuln_fix_available, sig_vuln_known_vulnerable, sig_vuln_cvss_critical,
    sig_vuln_cvss_high, sig_vuln_cvss_medium, sig_vuln_cvss_low]"
  have t: "run ?tiers = []"
    using assms by (intro quiet) (simp add: hasScoredVulnSignal_def, simp add: advisory_fields)
  have e: "run [sig_vuln_epss_high] = [(SignalVulnEPSSHigh, epss_fired e)]"
    using assms by (simp add: run_def sig_vuln_epss_high_def run_signal_def advisory_fields epss_fired_def
        map_filter_simps applySignalOverrides_def evidenceSeverityOverride_def evidenceTitleOverride_def)
  have "run vulnerability_init = run (?tiers @ [sig_vuln_epss_high])" by (simp add: vulnerability_init_def)
  then have tiers: "run vulnerability_init = [(SignalVulnEPSSHigh, epss_fired e)]"
    unfolding split t e by simp
  have "runPrimitiveSignals (Registry env) (advisory e) Map.empty = run (signals env)"
    unfolding runPrimitiveSignals_filter[OF Registry_ok] run_def by (simp add: Registry_def)
  also have "signals env =
    (actions_init @ aiartifact_init @ capability_init @ capability_debug_telemetry_init @ dormant_lookalike_init env)
    @ (license_init env @ maintenance_init env @ maintenance_state_init env @ quality_init)
    @ supplychain_init env @ vulnerability_init @ wave1_init"
    unfolding signals_def by simp
  also have "run \<dots> = [(SignalVulnEPSSHigh, epss_fired e)]"
    using advisory_quiet(3)[of e env]
    unfolding split[of "_ @ _ @ _ @ _ @ _"] split[of "_ @ _ @ _ @ _"] quiet[OF advisory_quiet(1)] quiet[OF advisory_quiet(2)]
    by (simp add: split tiers quiet)
  finally show ?thesis .
qed

lemma advisory_compounds: "runCompoundRules CompoundRules (advisory e) [(SignalVulnEPSSHigh, epss_fired e)] Map.empty = []"
  by (simp add: runCompoundRules_def CompoundRules_def compound_rules run_rule_def advisory_fields no_fire_def
      has_fired_def compound_ids signal_ids)

lemma advisory_damped:
  "damped_sets (Registry env) CompoundRules (advisory e) demo_options [(SignalVulnEPSSHigh, epss_fired e)] =
    ([], [(SignalVulnEPSSHigh, epss_fired e)], [])"
proof -
  have "establishedInputReason (advisory e) 0 = []"
    by (simp add: establishedInputReason_def EstablishedReason_def EstablishedClear_def advisory_fields zero_row_def
        established_lines Let_def)
  then show ?thesis
    by (simp add: damped_sets_def demo_options_def dampEstablished_def advisory_compounds)
qed

lemma advisory_scores:
  "computeCategoryScores [(SignalVulnEPSSHigh, epss_fired e)] [] (advisory e) =
    [(CategoryVulnerability, graded 85 [epss_fired e]), (CategorySupplyChain, graded 100 []),
     (CategoryMaintenance, graded 100 []), (CategoryLicense, graded 100 []), (CategoryQuality, graded 100 [])]"
  by (simp add: computeCategoryScores_def CategoryWeights_def categoryBase_def score_primitive_def
      contribution_def epss_fired_def add_points_def file_signal_def trunc_def signal_ids
      clamp_def dataAvailable_def graded_def advisory_fields by_severity_def get_or_def)

lemma advisory_steps:
  "fmul 0 x = 0"
  "fmul 15 (1351079888211149 / 4503599627370496) = 5066549580791809 / 1125899906842624"
  "fadd 0 (5066549580791809 / 1125899906842624) = 5066549580791809 / 1125899906842624"
  "fadd (5066549580791809 / 1125899906842624) 0 = 5066549580791809 / 1125899906842624"
  "fadd (5066549580791809 / 1125899906842624) (1 / 2) = 5629499534213121 / 1125899906842624"
proof -
  show "fmul 0 x = 0" by (simp add: fmul_def)
  show "fmul 15 (1351079888211149 / 4503599627370496) = 5066549580791809 / 1125899906842624"
    using rnd_eqI[of "15 * (1351079888211149 / 4503599627370496)" 50 5066549580791809] by (simp add: fmul_def)
  show "fadd 0 (5066549580791809 / 1125899906842624) = 5066549580791809 / 1125899906842624"
    "fadd (5066549580791809 / 1125899906842624) 0 = 5066549580791809 / 1125899906842624"
    using rnd_eqI[of "5066549580791809 / 1125899906842624" 50 5066549580791809] by (simp_all add: fadd_def)
  show "fadd (5066549580791809 / 1125899906842624) (1 / 2) = 5629499534213121 / 1125899906842624"
    using rnd_eqI[of "5066549580791809 / 1125899906842624 + 1 / 2" 50 5629499534213121] by (simp add: fadd_def)
qed

lemma advisory_overall:
  "computeOverall [(CategoryVulnerability, graded 85 fs), (CategorySupplyChain, graded 100 []),
     (CategoryMaintenance, graded 100 []), (CategoryLicense, graded 100 []), (CategoryQuality, graded 100 [])] = 95"
proof -
  have "rnd 15 = 15" using rnd_int[of 15] by simp
  then show ?thesis
    by (simp add: computeOverall_def weighted_overall_def available_weight_def deficit_sum_def scored_def graded_def
      AllCategories_def CategoryWeights_def get_or_def takeover_steps advisory_steps overall_of_deficit_def trunc_def
      clamp_def floor_eq_iff)
qed

lemma advisory_evaluated: "evaluated (Registry env) (advisory e)"
  by (simp add: evaluated_def known_bad_iff) (simp add: advisory_fields)

text \<open>
  C3: A published advisory without a CVSS score is held below 60 and not allowed - unless it is likely to be exploited: an
  EPSS probability above one half switches off the signal of the unscored advisory, and the package is
  allowed with score 95.
\<close>

theorem likely_exploited_is_allowed:
  "let ev = EvaluatePackage (Registry env) CompoundRules (advisory e) demo_options
   in if 1 / 2 < e then e_Verdict ev = VerdictAllow \<and> sc_Overall (e_DirectScore ev) = 95
      else e_Verdict ev \<noteq> VerdictAllow \<and> sc_Overall (e_DirectScore ev) \<le> 59"
proof (cases "1 / 2 < e")
  case True
  define ev where "ev = EvaluatePackage (Registry env) CompoundRules (advisory e) demo_options"
  let ?p = "[(SignalVulnEPSSHigh, epss_fired e)]"
  have ev: "ev = scored_evaluation (Registry env) CompoundRules (advisory e) demo_options ?p"
    using evaluated_scored[OF Registry_ok advisory_evaluated]
    by (simp add: ev_def demo_options_def advisory_fired[OF True])
  note f = scored_fields[OF advisory_damped[of env e], folded ev]
  have "map_of (Registry env :: SignalInput Registry) SignalVulnEPSSHigh = Some sig_vuln_epss_high"
    using Registry_lookup[of "sig_vuln_epss_high :: SignalInput Signal" env] by (simp add: init_lists) (simp add: sig_vuln_epss_high_def)
  moreover have "s_MaxImpact (sig_vuln_epss_high :: SignalInput Signal) = 0" by (simp add: sig_vuln_epss_high_def)
  ultimately have caps: "caps_of (Registry env :: SignalInput Registry) CompoundRules ?p [] [] = [(SignalVulnEPSSHigh, 0)]"
    by (simp add: caps_of_def map_filter_simps CompoundRules_def)
  have o: "sc_Overall (e_DirectScore (ev)) = 95"
    using f(1) by (simp add: advisory_scores ComputeOverallWithWeights_def demo_options_def advisory_overall
        applyMaxImpactCeiling_def caps consider_cap_def)
  moreover have "e_Verdict (ev) = VerdictAllow"
    using arg_cong[OF f(3), of fst]
    by (simp add: o resolveVerdict_verdict hasCriticalSignal_def epss_fired_def demo_options_def thresholds)
  ultimately show ?thesis using True by (simp add: ev_def Let_def)
next
  case False
  then have "vuln_ceiling (advisory e) = Some 59"
    by (simp add: vuln_ceiling_def hasScoredVulnSignal_def) (simp add: advisory_fields)
  from vuln_rung[OF this, of env] obtain s where "s \<in> set (signals env)" "fst (s_Fires s (advisory e))"
    "s_MaxImpact s = 59" "\<not> s_DampEstablished s" by auto
  with ceilinged[OF advisory_evaluated, where s = s and opts = demo_options] False show ?thesis by (simp add: Let_def)
qed

end
