(* ===== verification/RiskTreeRegistry.thy ===== *)
theory RiskTreeRegistry
  imports SignalGaps
begin

text \<open>
  What pass 2 of risk/tree.go forgets: the verdict after a transitive drop is resolved from the rolled-up score with empty
  maps of fired signals. Over the program's registry of signals, a tree of two packages turns a quarantine into a
  warning.
\<close>

section \<open>The two packages\<close>

text \<open>A new publisher, with an install script; and its dependency, which is known malware.\<close>

definition taken_over :: SignalInput where
  "taken_over = zero_input\<lparr>Ecosystem_in := ''pypi'', Package := ''app'', Version_in := ''1'', VulnDataAvailable := True,
     LicenseSPDX := ''MIT'', LicenseFromFile := True, PublisherChanged := True, HasInstallScript := True\<rparr>"

definition malware :: SignalInput where
  "malware = zero_input\<lparr>Ecosystem_in := ''pypi'', Package := ''bad'', Version_in := ''1'', IsKnownMalicious := True\<rparr>"

lemmas taken_over_fields = taken_over_def zero_input_def

section \<open>The signals of the application\<close>

definition supply_quiet :: "SignalEnv \<Rightarrow> SignalInput Signal list list" where
  "supply_quiet env =
     [[sig_sc_known_malicious, sig_sc_typosquat_high, sig_sc_typosquat_medium, sig_sc_typosquat_low],
      [sig_sc_pom_developer_list_changed, sig_sc_install_script_fetches_remote,
      sig_sc_install_script_eval_encoded, sig_sc_exfil_sink_used, sig_sc_import_time_shell,
      sig_sc_dependency_credential, sig_sc_app_credential_exfil, sig_sc_defender_tamper],
      [sig_sc_install_script_only_npm, sig_sc_hidden_unicode env,
      sig_sc_repo_ownership_mismatch, sig_sc_repo_archived env, sig_sc_repo_missing env,
      sig_sc_repo_missing_established env, sig_sc_provenance_verified,
      sig_sc_builder_ref_version_mismatch, sig_sc_provenance_downgrade, sig_sc_slsa_level_bonus,
      sig_sc_signature_verified, sig_sc_publish_velocity_anomaly, sig_sc_maintainer_account_very_young,
      sig_sc_maintainer_account_young, sig_sc_maintainer_account_somewhat_young,
      sig_sc_non_existent_author, sig_sc_git_url_dependency, sig_sc_http_url_dependency,
      sig_sc_transitive_critical_vuln, sig_sc_transitive_high_vuln, sig_sc_transitive_malware,
      sig_sc_shell_access_appeared, sig_sc_filesystem_access_appeared, sig_sc_env_access_appeared]]"

lemma supply_split:
  "supplychain_init env =
     supply_quiet env ! 0 @ [sig_sc_publisher_changed] @ supply_quiet env ! 1 @ [sig_sc_install_script_only] @ supply_quiet env ! 2"
  by (simp add: supplychain_init_def supply_quiet_def)

lemma taken_over_quiet:
  "list_all (\<lambda>s. \<not> fst (s_Fires s taken_over))
     (actions_init @ aiartifact_init @ capability_init @ capability_debug_telemetry_init @ dormant_lookalike_init env)"
  "list_all (\<lambda>s. \<not> fst (s_Fires s taken_over))
     (license_init env @ maintenance_init env @ maintenance_state_init env @ quality_init)"
  "list_all (\<lambda>s. \<not> fst (s_Fires s taken_over)) (vulnerability_init @ wave1_init)"
  "list_all (\<lambda>s. \<not> fst (s_Fires s taken_over)) (supply_quiet env ! 0)"
  "list_all (\<lambda>s. \<not> fst (s_Fires s taken_over)) (supply_quiet env ! 1)"
  "list_all (\<lambda>s. \<not> fst (s_Fires s taken_over)) (supply_quiet env ! 2)"
  by ((simp only: firing_rules supply_quiet_def nth_Cons_0 nth_Cons_Suc One_nat_def numeral_2_eq_2),
      (simp add: taken_over_fields no_fire_def counted_downloads_def builderRefVersionMismatch_def
        isNPMEcosystem_def IsPOMMaintainerEco_def pypi_lower hasScoredVulnSignal_def))+

lemma taken_over_fired:
  "runPrimitiveSignals (Registry env) taken_over Map.empty =
    [(SignalSCPublisherChanged, pub_fired), (SignalSCInstallScriptOnly, inst_fired)]"
proof -
  define run where "run = (\<lambda>ss. List.map_filter
    (\<lambda>(sid, s). map_option (Pair sid) (run_signal Map.empty taken_over sid s)) (map (\<lambda>s. (s_ID s, s)) ss))"
  have quiet: "run ss = []" if "list_all (\<lambda>s. \<not> fst (s_Fires s taken_over)) ss" for ss
    unfolding run_def by (rule quiet_run[OF that])
  have split: "run (xs @ ys) = run xs @ run ys" for xs ys by (simp add: run_def map_filter_append)
  have p: "run [sig_sc_publisher_changed] = [(SignalSCPublisherChanged, pub_fired)]"
    by (simp add: run_def sig_sc_publisher_changed_def run_signal_def taken_over_fields pub_fired_def
        map_filter_simps applySignalOverrides_def evidenceSeverityOverride_def evidenceTitleOverride_def)
  have i: "run [sig_sc_install_script_only] = [(SignalSCInstallScriptOnly, inst_fired)]"
    by (simp add: run_def sig_sc_install_script_only_def run_signal_def taken_over_fields inst_fired_def isNPMEcosystem_def
        pypi_lower map_filter_simps applySignalOverrides_def evidenceSeverityOverride_def evidenceTitleOverride_def)
  have "runPrimitiveSignals (Registry env) taken_over Map.empty = run (signals env)"
    unfolding runPrimitiveSignals_filter[OF Registry_ok] run_def by (simp add: Registry_def)
  also have "signals env =
    (actions_init @ aiartifact_init @ capability_init @ capability_debug_telemetry_init @ dormant_lookalike_init env)
    @ (license_init env @ maintenance_init env @ maintenance_state_init env @ quality_init)
    @ supplychain_init env @ (vulnerability_init @ wave1_init)"
    unfolding signals_def by simp
  also have "run \<dots> = run (supplychain_init env)"
    unfolding split[of "_ @ _ @ _ @ _ @ _"] split[of "_ @ _ @ _ @ _"] quiet[OF taken_over_quiet(1)] quiet[OF taken_over_quiet(2)]
    by (simp add: split quiet[OF taken_over_quiet(3), unfolded split])
  also have "\<dots> = [(SignalSCPublisherChanged, pub_fired), (SignalSCInstallScriptOnly, inst_fired)]"
    unfolding supply_split split p i quiet[OF taken_over_quiet(4)] quiet[OF taken_over_quiet(5)] quiet[OF taken_over_quiet(6)] by simp
  finally show ?thesis .
qed

lemma taken_over_compound:
  "runCompoundRules CompoundRules taken_over
     [(SignalSCPublisherChanged, pub_fired), (SignalSCInstallScriptOnly, inst_fired)] Map.empty =
    [(CompoundSCTakeoverSignature, takeover_fired)]"
  by (simp add: runCompoundRules_def CompoundRules_def compound_rules run_rule_def taken_over_fields no_fire_def
      has_fired_def compound_ids takeover_fired_def SignalSCPublisherChanged_def SignalSCInstallScriptOnly_def)

lemma taken_over_scores:
  "computeCategoryScores [(SignalSCPublisherChanged, pub_fired), (SignalSCInstallScriptOnly, inst_fired)]
      [(CompoundSCTakeoverSignature, takeover_fired)] taken_over =
    [(CategoryVulnerability, graded 100 []),
     (CategorySupplyChain, graded 20 (by_severity [pub_fired, inst_fired, takeover_fired])),
     (CategoryMaintenance, graded 100 []), (CategoryLicense, graded 100 []), (CategoryQuality, graded 100 [])]"
  by (simp add: computeCategoryScores_def CategoryWeights_def categoryBase_def score_primitive_def score_compound_def
      contribution_def pub_fired_def inst_fired_def takeover_fired_def add_points_def file_signal_def trunc_def
      SignalSCPublisherChanged_def SignalSCInstallScriptOnly_def SignalSCSLSALevelBonus_def SignalQualVersionAnomaly_def
      clamp_def dataAvailable_def graded_def taken_over_fields by_severity_def get_or_def)

lemma taken_over_damped:
  "damped_sets (Registry env) CompoundRules taken_over demo_options
      [(SignalSCPublisherChanged, pub_fired), (SignalSCInstallScriptOnly, inst_fired)] =
    ([], [(SignalSCPublisherChanged, pub_fired), (SignalSCInstallScriptOnly, inst_fired)],
     [(CompoundSCTakeoverSignature, takeover_fired)])"
proof -
  have "establishedInputReason taken_over 0 = []"
    by (simp add: establishedInputReason_def EstablishedReason_def EstablishedClear_def taken_over_fields zero_row_def
        established_lines Let_def)
  then show ?thesis
    by (simp add: damped_sets_def demo_options_def dampEstablished_def taken_over_compound)
qed

section \<open>The evaluations alone\<close>

lemma takeover_lookups:
  "map_of (Registry env :: SignalInput Registry) SignalSCPublisherChanged = Some sig_sc_publisher_changed"
  "map_of (Registry env :: SignalInput Registry) SignalSCInstallScriptOnly = Some sig_sc_install_script_only"
proof -
  have "(sig_sc_publisher_changed :: SignalInput Signal) \<in> set (signals env)"
    "(sig_sc_install_script_only :: SignalInput Signal) \<in> set (signals env)"
    by (simp_all add: signals_def supply_split)
  from this[THEN Registry_lookup] show
    "map_of (Registry env :: SignalInput Registry) SignalSCPublisherChanged = Some sig_sc_publisher_changed"
    "map_of (Registry env :: SignalInput Registry) SignalSCInstallScriptOnly = Some sig_sc_install_script_only"
    by (simp_all add: sig_sc_publisher_changed_def sig_sc_install_script_only_def)
qed

lemma taken_over_alone:
  fixes env :: SignalEnv
  defines "ev \<equiv> EvaluatePackage (Registry env) CompoundRules taken_over demo_options"
  shows "e_Verdict ev = VerdictQuarantine" and "sc_Overall (e_DirectScore ev) = 40"
    and "categories ev = [(CategoryVulnerability, graded 100 []),
      (CategorySupplyChain, graded 20 (by_severity [pub_fired, inst_fired, takeover_fired])),
      (CategoryMaintenance, graded 100 []), (CategoryLicense, graded 100 []), (CategoryQuality, graded 100 [])]"
proof -
  let ?p = "[(SignalSCPublisherChanged, pub_fired), (SignalSCInstallScriptOnly, inst_fired)]"
  have e: "evaluated (Registry env) taken_over"
    by (simp add: evaluated_def known_bad_iff) (simp add: taken_over_fields)
  have "o_SignalWeightOverrides demo_options = Map.empty" by (simp add: demo_options_def)
  then have ev: "ev = scored_evaluation (Registry env) CompoundRules taken_over demo_options ?p"
    using evaluated_scored[OF Registry_ok e, of CompoundRules demo_options] by (simp add: ev_def taken_over_fired)
  note f = scored_fields[OF taken_over_damped[of env], folded ev]
  show "categories ev = [(CategoryVulnerability, graded 100 []),
      (CategorySupplyChain, graded 20 (by_severity [pub_fired, inst_fired, takeover_fired])),
      (CategoryMaintenance, graded 100 []), (CategoryLicense, graded 100 []), (CategoryQuality, graded 100 [])]"
    using f(2) by (simp add: taken_over_scores)
  have caps: "caps_of (Registry env :: SignalInput Registry) CompoundRules ?p [(CompoundSCTakeoverSignature, takeover_fired)] [] =
      [(SignalSCPublisherChanged, 40), (SignalSCInstallScriptOnly, 0), (CompoundSCTakeoverSignature, 0)]"
    by (simp add: caps_of_def takeover_lookups sig_sc_publisher_changed_def sig_sc_install_script_only_def CompoundRules_def
        compound_rules compound_ids map_filter_simps)
  show o40: "sc_Overall (e_DirectScore ev) = 40"
    using f(1) by (simp add: taken_over_scores ComputeOverallWithWeights_def demo_options_def direct_overall
        applyMaxImpactCeiling_def caps consider_cap_def)
  show "e_Verdict ev = VerdictQuarantine"
    using arg_cong[OF f(3), of fst]
    by (simp add: o40 resolveVerdict_verdict hasCriticalSignal_def takeover_fired_def demo_options_def)
qed

lemma malware_alone:
  fixes env :: SignalEnv
  defines "ev \<equiv> EvaluatePackage (Registry env) CompoundRules malware demo_options"
  shows "e_Verdict ev = VerdictQuarantine"
    and "\<exists>f. categories ev = map (\<lambda>c. (c, \<lparr>c_Score = 0, c_Grade = ''F'', c_DataAvailable = True, c_FiredSignals = f c\<rparr>))
      [CategoryVulnerability, CategorySupplyChain, CategoryMaintenance, CategoryLicense, CategoryQuality]"
proof -
  have "blocks_instantly (Registry env) malware" by (simp add: known_bad_iff) (simp add: malware_def)
  then obtain fired where b: "instantBlockFrom malware demo_options fired = Some ev"
    using instant_cases[OF Registry_ok, of env malware demo_options CompoundRules] by (auto simp: ev_def)
  from instantBlockFrom_result[OF b] show "e_Verdict ev = VerdictQuarantine" by simp
  from b obtain s where "ev = instantBlock malware demo_options fired s"
    by (auto simp: instantBlockFrom_def simp del: find_None_iff)
  then show "\<exists>f. categories ev = map (\<lambda>c. (c, \<lparr>c_Score = 0, c_Grade = ''F'', c_DataAvailable = True, c_FiredSignals = f c\<rparr>))
      [CategoryVulnerability, CategorySupplyChain, CategoryMaintenance, CategoryLicense, CategoryQuality]"
    by (auto simp: instantBlock_def CategoryWeights_def Let_def)
qed

section \<open>The tree\<close>

text \<open>
  C32: Pass 2 forgets critical signals, so that a worse tree gets a milder verdict. Over the program's own registry of signals
  and its compound rules, whatever the environment: a package with a new publisher and an install script, which
  the takeover rule calls critical, is quarantined on its own with score 40; in a tree in which it depends on known
  malware its score drops to 33, the verdict is resolved again without its fired signals, and it is merely warned
  about.
\<close>

theorem critical_forgotten_after_drop:
  "let te = EvaluateTree (Registry env) CompoundRules (\<lambda>k. zero_input\<lparr>Package := pk_Package k\<rparr>) (Some takeover_graph)
         [pypi ''app'' \<mapsto> taken_over, pypi ''bad'' \<mapsto> malware] demo_options;
       alone = EvaluatePackage (Registry env) CompoundRules taken_over demo_options;
       node = map_of (te_ByKey te)
   in e_Verdict alone = VerdictQuarantine \<and> sc_Overall (e_DirectScore alone) = 40 \<and>
      map_option e_Verdict (node (pypi ''app'')) = Some VerdictWarn \<and>
      map_option (sc_Overall \<circ> e_RolledUp) (node (pypi ''app'')) = Some 33"
proof -
  let ?inputs = "[pypi ''app'' \<mapsto> taken_over, pypi ''bad'' \<mapsto> malware]"
  let ?z = "\<lambda>k. zero_input\<lparr>Package := pk_Package k\<rparr>"
  let ?byKey = "map_of (pass1 (Registry env) CompoundRules takeover_graph (effective_input ?z ?inputs) demo_options)"
  let ?a = "EvaluatePackage (Registry env) CompoundRules taken_over demo_options"
  let ?n = "tree_node (Registry env) CompoundRules ?z takeover_graph ?inputs demo_options (pypi ''app'')"
  have ne: "pypi ''app'' \<noteq> pypi ''bad''" by (simp add: pypi_def)
  have ok: "gomap_ok (g_Nodes takeover_graph)" using ne by (simp add: gomap_ok_def takeover_graph_facts)
  have eff: "effective_input ?z ?inputs (pypi ''app'') = taken_over" "effective_input ?z ?inputs (pypi ''bad'') = malware"
    using ne by (simp_all add: effective_input_def taken_over_def malware_def)
  have pass1: "pass1 reg rules g e opts = map (\<lambda>k. (k, EvaluatePackage reg rules (e k) opts)) (map fst (g_Nodes g))"
    for reg rules g e opts by (simp add: pass1_def split_def)
  have b: "?byKey (pypi ''bad'') = Some (EvaluatePackage (Registry env) CompoundRules malware demo_options)"
    using ne by (simp add: pass1 takeover_graph_facts eff)
  obtain f where f: "categories (EvaluatePackage (Registry env) CompoundRules malware demo_options) =
      map (\<lambda>c. (c, \<lparr>c_Score = 0, c_Grade = ''F'', c_DataAvailable = True, c_FiredSignals = f c\<rparr>))
        [CategoryVulnerability, CategorySupplyChain, CategoryMaintenance, CategoryLicense, CategoryQuality]"
    using malware_alone(2)[of env] by blast
  have rolled: "sc_Overall (fst (rollupForNode takeover_graph (pypi ''app'') ?a ?byKey)) = 33"
    "snd (rollupForNode takeover_graph (pypi ''app'') ?a ?byKey) = [risk_key (pypi ''bad'')]"
    using rolled_up[where byKey = ?byKey and f = f, OF _ b f taken_over_alone(2,3)] malware_alone(1) by simp_all
  have "fst (resolveVerdict 33 [] [] demo_options) = VerdictWarn"
    by (simp add: resolveVerdict_verdict hasCriticalSignal_def thresholds demo_options_def)
  then have fold: "e_Verdict (fold_transitive takeover_graph demo_options ?byKey (pypi ''app'') ?a) = VerdictWarn"
    using rolled by (simp add: fold_transitive_def split_def Let_def taken_over_alone(2) TransitiveBlameThreshold_def
        ResolveVerdictFromScore_def)
  have "?n = fold_transitive takeover_graph demo_options ?byKey (pypi ''app'') ?a"
    unfolding tree_node_def pass2_node_def eff taken_over_alone(1)
    by (simp add: promoteNodeInTree_def demo_options_def)
  then have "e_Verdict ?n = VerdictWarn" "sc_Overall (e_RolledUp ?n) = 33"
    using fold rolled(1) by (simp_all add: fold_transitive_fields)
  then show ?thesis
    unfolding Let_def ByKey_nodes[OF ok] takeover_graph_facts
    using taken_over_alone(1,2)[of env] by simp
qed

end
