(* ===== verification/GoNet.thy ===== *)
theory GoNet
  imports GoMatch GoTime "HOL-Library.Word"
begin

unbundle bit_operations_syntax

text \<open>
  The part of Go's \<open>net/netip\<close> that the policy engine calls: \<open>ParseAddr\<close>, \<open>Addr.Unmap\<close>, \<open>ParsePrefix\<close>,
  \<open>Prefix.Masked\<close> and \<open>Prefix.Contains\<close>. An address is a word of its width, with the zone of an IPv6
  address; an error is \<open>None\<close>.
\<close>

datatype Addr = V4 "32 word" | V6 "128 word" string

section \<open>Parsing\<close>

definition dec_val :: "char \<Rightarrow> nat option" where
  "dec_val c = (if 48 \<le> byte c \<and> byte c \<le> 57 then Some (byte c - 48) else None)"

text \<open>
  \<open>parseIPv4Fields\<close>: the value and the digits of the current octet, the octets before it; the flag
  says that the octet has no digit yet.
\<close>

fun v4_fields :: "bool \<Rightarrow> nat \<Rightarrow> nat \<Rightarrow> nat list \<Rightarrow> string \<Rightarrow> nat list option" where
  "v4_fields fresh val digits fs [] = (if length fs < 3 then None else Some (fs @ [val]))"
| "v4_fields fresh val digits fs (c # s) =
     (case dec_val c of
        Some d \<Rightarrow>
          if digits = 1 \<and> val = 0 then None
          else if 255 < val * 10 + d then None
          else v4_fields False (val * 10 + d) (digits + 1) fs s
      | None \<Rightarrow>
          if c = CHR ''.'' then
            (if fresh \<or> s = [] then None
             else if length fs = 3 then None
             else v4_fields True 0 0 (fs @ [val]) s)
          else None)"

definition parseIPv4Fields :: "string \<Rightarrow> nat list option" where
  "parseIPv4Fields s = v4_fields True 0 0 [] s"

definition of_bytes :: "nat list \<Rightarrow> 'a::len word" where
  "of_bytes bs = foldl (\<lambda>a b. a * 256 + of_nat b) 0 bs"

definition parseIPv4 :: "string \<Rightarrow> Addr option" where
  "parseIPv4 s = map_option (\<lambda>fs. V4 (of_bytes fs)) (parseIPv4Fields s)"

text \<open>A group of hexadecimal digits: how many, their value, the rest of the string.\<close>

fun hex_group :: "nat \<Rightarrow> nat \<Rightarrow> string \<Rightarrow> (nat \<times> nat \<times> string) option" where
  "hex_group off acc [] = Some (off, acc, [])"
| "hex_group off acc (c # s) =
     (case hex_val c of
        None \<Rightarrow> Some (off, acc, c # s)
      | Some d \<Rightarrow> if 3 < off \<or> 65535 < acc * 16 + d then None else hex_group (off + 1) (acc * 16 + d) s)"

text \<open>The loop of \<open>parseIPv6\<close>: the bytes so far and where the ellipsis was.\<close>

function v6_groups :: "nat list \<Rightarrow> nat option \<Rightarrow> string \<Rightarrow> (nat list \<times> nat option \<times> string) option" where
  "v6_groups ip ell s =
     (if 16 \<le> length ip then Some (ip, ell, s)
      else
        (case hex_group 0 0 s of
           None \<Rightarrow> None
         | Some (off, acc, rest) \<Rightarrow>
             if off = 0 then None
             else if rest \<noteq> [] \<and> hd rest = CHR ''.'' then
               (if ell = None \<and> length ip \<noteq> 12 then None
                else if 16 < length ip + 4 then None
                else map_option (\<lambda>fs. (ip @ fs, ell, [])) (parseIPv4Fields s))
             else
               let ip' = ip @ [acc div 256, acc mod 256] in
               if rest = [] then Some (ip', ell, [])
               else if hd rest \<noteq> CHR '':'' \<or> tl rest = [] then None
               else if hd (tl rest) = CHR '':'' then
                 (if ell \<noteq> None then None
                  else if tl (tl rest) = [] then Some (ip', Some (length ip'), [])
                  else v6_groups ip' (Some (length ip')) (tl (tl rest)))
               else v6_groups ip' ell (tl rest)))"
  by pat_completeness auto
termination
  by (relation "measure (\<lambda>(ip, _). 16 - length ip)") auto

declare v6_groups.simps [simp del]

definition parseIPv6 :: "string \<Rightarrow> Addr option" where
  "parseIPv6 inp =
     (let (s, zone) = (case index_byte inp (CHR ''%'') of
                         None \<Rightarrow> (inp, []) | Some i \<Rightarrow> (take i inp, drop (i + 1) inp))
      in
        if CHR ''%'' \<in> set inp \<and> zone = [] then None
        else
          let lead = (2 \<le> length s \<and> s ! 0 = CHR '':'' \<and> s ! 1 = CHR '':'');
              s' = (if lead then drop 2 s else s)
          in
            if lead \<and> s' = [] then Some (V6 0 zone)
            else
              (case v6_groups [] (if lead then Some 0 else None) s' of
                 None \<Rightarrow> None
               | Some (ip, ell, rest) \<Rightarrow>
                   if rest \<noteq> [] then None
                   else if length ip < 16 then
                     (case ell of
                        None \<Rightarrow> None
                      | Some e \<Rightarrow> Some (V6 (of_bytes (take e ip @ replicate (16 - length ip) 0 @ drop e ip)) zone))
                   else if ell \<noteq> None then None
                   else Some (V6 (of_bytes ip) zone)))"

text \<open>\<open>ParseAddr\<close>: the first dot, colon or percent sign decides.\<close>

definition ParseAddr :: "string \<Rightarrow> Addr option" where
  "ParseAddr s =
     (case find (\<lambda>c. c \<in> {CHR ''.'', CHR '':'', CHR ''%''}) s of
        None \<Rightarrow> None
      | Some c \<Rightarrow> if c = CHR ''.'' then parseIPv4 s else if c = CHR '':'' then parseIPv6 s else None)"

definition Unmap :: "Addr \<Rightarrow> Addr" where
  "Unmap a = (case a of V6 w z \<Rightarrow> if drop_bit 32 w = 0xFFFF then V4 (ucast w) else a | V4 w \<Rightarrow> a)"

definition BitLen :: "Addr \<Rightarrow> nat" where
  "BitLen a = (case a of V4 _ \<Rightarrow> 32 | V6 _ _ \<Rightarrow> 128)"

definition hasZone :: "Addr \<Rightarrow> bool" where
  "hasZone a = (case a of V4 _ \<Rightarrow> False | V6 _ z \<Rightarrow> z \<noteq> [])"

section \<open>Prefixes\<close>

record Prefix =
  prefix_ip :: Addr
  prefix_bits :: nat

text \<open>The digits after the slash: no sign, no leading zero.\<close>

definition prefix_len :: "string \<Rightarrow> nat option" where
  "prefix_len s =
     (if s = [] \<or> (1 < length s \<and> hd s = CHR ''0'') \<or> (\<exists>c \<in> set s. dec_val c = None) then None
      else Some (foldl (\<lambda>a c. a * 10 + the (dec_val c)) 0 s))"

definition ParsePrefix :: "string \<Rightarrow> Prefix option" where
  "ParsePrefix s =
     (case str_LastIndex s ''/'' of
        None \<Rightarrow> None
      | Some i \<Rightarrow>
          (case ParseAddr (take i s) of
             None \<Rightarrow> None
           | Some ip \<Rightarrow>
               if hasZone ip then None
               else
                 (case prefix_len (drop (i + 1) s) of
                    None \<Rightarrow> None
                  | Some bits \<Rightarrow>
                      if BitLen ip < bits then None else Some \<lparr>prefix_ip = ip, prefix_bits = bits\<rparr>)))"

definition Masked :: "Prefix \<Rightarrow> Prefix" where
  "Masked p = p\<lparr>prefix_ip :=
     (case prefix_ip p of
        V4 w \<Rightarrow> V4 (push_bit (32 - prefix_bits p) (drop_bit (32 - prefix_bits p) w))
      | V6 w z \<Rightarrow> V6 (push_bit (128 - prefix_bits p) (drop_bit (128 - prefix_bits p) w)) z)\<rparr>"

definition Prefix_Contains :: "Prefix \<Rightarrow> Addr \<Rightarrow> bool" where
  "Prefix_Contains p a =
     (case (prefix_ip p, a) of
        (V4 v, V4 w) \<Rightarrow> drop_bit (32 - prefix_bits p) (w XOR v) = 0
      | (V6 v _, V6 w z) \<Rightarrow> z = [] \<and> drop_bit (128 - prefix_bits p) (w XOR v) = 0
      | _ \<Rightarrow> False)"

lemma drop_push_drop [simp]: "drop_bit n (push_bit n (drop_bit n (v :: 'a::len word))) = drop_bit n v"
  by (rule bit_eqI) (auto simp: bit_simps dest: bit_imp_le_length)

lemma word_xor_0_iff: "(u XOR v = 0) = (u = (v :: 'a::len word))"
  by (metis xor.assoc xor.left_neutral xor_self_eq)

lemma Masked_Contains:
  "Prefix_Contains (Masked p) a =
     (case (prefix_ip p, a) of
        (V4 v, V4 w) \<Rightarrow> drop_bit (32 - prefix_bits p) w = drop_bit (32 - prefix_bits p) v
      | (V6 v _, V6 w z) \<Rightarrow> z = [] \<and> drop_bit (128 - prefix_bits p) w = drop_bit (128 - prefix_bits p) v
      | _ \<Rightarrow> False)"
  by (auto simp: Prefix_Contains_def Masked_def drop_bit_xor word_xor_0_iff split: Addr.splits)

section \<open>Printing\<close>

function hex_digits :: "nat \<Rightarrow> string" where
  "hex_digits n =
     (if n < 16 then [''0123456789abcdef'' ! n] else hex_digits (n div 16) @ [''0123456789abcdef'' ! (n mod 16)])"
  by pat_completeness auto
termination by (relation "measure id") auto

declare hex_digits.simps [simp del]

text \<open>The digits of a word in base \<open>2 ^ b\<close>, the most significant first.\<close>

definition word_digits :: "nat \<Rightarrow> nat \<Rightarrow> 'a::len word \<Rightarrow> nat list" where
  "word_digits b k w = map (\<lambda>i. unat (take_bit b (drop_bit (b * (k - 1 - i)) w))) [0..<k]"

definition string4 :: "32 word \<Rightarrow> string" where
  "string4 w = join_with ''.'' (map nat_digits (word_digits 8 4 w))"

text \<open>The first longest run of at least two zero groups, as its start and its end.\<close>

definition zero_run_step :: "nat list \<Rightarrow> nat \<Rightarrow> nat \<times> nat \<Rightarrow> nat \<times> nat" where
  "zero_run_step gs i = (\<lambda>(s, e).
     let j = i + length (takeWhile (\<lambda>g. g = 0) (drop i gs)) in
     if 2 \<le> j - i \<and> e - s < j - i then (i, j) else (s, e))"

definition zero_run :: "nat list \<Rightarrow> nat \<times> nat" where
  "zero_run gs = fold (zero_run_step gs) [0..<length gs] (255, 255)"

definition string6_groups :: "nat list \<Rightarrow> string" where
  "string6_groups gs =
     (case zero_run gs of (s, e) \<Rightarrow>
        if s = 255 then join_with '':'' (map hex_digits gs)
        else join_with '':'' (map hex_digits (take s gs)) @ ''::'' @ join_with '':'' (map hex_digits (drop e gs)))"

definition Addr_String :: "Addr \<Rightarrow> string" where
  "Addr_String a =
     (case a of
        V4 w \<Rightarrow> string4 w
      | V6 w z \<Rightarrow>
          (if drop_bit 32 w = 0xFFFF then ''::ffff:'' @ string4 (ucast w)
           else string6_groups (word_digits 16 8 w)) @
          (if z = [] then [] else CHR ''%'' # z))"

definition Prefix_String :: "Prefix \<Rightarrow> string" where
  "Prefix_String p = Addr_String (prefix_ip p) @ ''/'' @ nat_digits (prefix_bits p)"

end
