(* ===== verification/Origin.thy ===== *)
theory Origin
  imports GoMatch
begin

text \<open>
  The allow-list of origins of depparser/origin/policy.go: which patterns are legal
  (\<open>ValidateLocationPattern\<close>) and whether a location matches one (\<open>MatchLocation\<close>), segment by segment.
  The derivation of a location from a source string needs \<open>net/url\<close> and is not modelled.
\<close>

section \<open>Patterns\<close>

datatype pattern_error = PatternEmpty | PatternScheme | PatternUserinfo | PatternSpace | PatternSize | PatternGlob

definition MaxLocationPatterns :: nat where "MaxLocationPatterns = 100"

definition cut :: "char \<Rightarrow> string \<Rightarrow> string \<times> string option" where
  "cut d s = (case index_byte s d of None \<Rightarrow> (s, None) | Some i \<Rightarrow> (take i s, Some (drop (i + 1) s)))"

definition bad_port :: "string \<Rightarrow> bool" where
  "bad_port host =
     (case snd (cut (CHR '':'') host) of
        None \<Rightarrow> False
      | Some port \<Rightarrow> (case Atoi port of None \<Rightarrow> True | Some n \<Rightarrow> n < 1 \<or> 65535 < n))"

definition ValidateLocationPattern :: "string \<Rightarrow> pattern_error option" where
  "ValidateLocationPattern p =
     (let segs = split_byte (CHR ''/'') p in
      if TrimSpace p = [] then Some PatternEmpty
      else if Contains p ''://'' then Some PatternScheme
      else if Contains p ''@'' then Some PatternUserinfo
      else if \<exists>c \<in> set p. c \<in> {CHR '' '', CHR 0x09, CHR 0x0D, CHR 0x0A} then Some PatternSpace
      else if 2 < length (filter (\<lambda>s. s = ''**'') segs) \<or> 512 < length p then Some PatternSize
      else if bad_port (fst (cut (CHR ''/'') p)) then Some PatternScheme
      else if \<exists>s \<in> set segs. path_match s [] = None then Some PatternGlob
      else None)"

text \<open>\<open>validateNonRegistryOriginNotIn\<close> of policy/store.go.\<close>

definition validateNonRegistryOriginNotIn :: "string list \<Rightarrow> bool" where
  "validateNonRegistryOriginNotIn ps \<longleftrightarrow>
     length ps \<le> MaxLocationPatterns \<and> list_all (\<lambda>p. ValidateLocationPattern p = None) ps"

section \<open>Locations\<close>

definition dot_segment :: "string \<Rightarrow> bool" where
  "dot_segment s \<longleftrightarrow> s = [] \<or> s = ''.'' \<or> s = ''..''"

definition plainLocation :: "string \<Rightarrow> bool" where
  "plainLocation loc =
     (case PathUnescape loc of
        None \<Rightarrow> False
      | Some dec \<Rightarrow>
          loc \<noteq> [] \<and> list_all (\<lambda>l. list_all (\<lambda>s. \<not> dot_segment s) (split_byte (CHR ''/'') l)) [loc, dec])"

function matchSegs :: "string list \<Rightarrow> string list \<Rightarrow> bool \<Rightarrow> bool" where
  "matchSegs [] segs host = (segs = [])"
| "matchSegs (p # pat) segs host =
     (if p = ''**'' then \<exists>i \<in> set [0..<length segs + 1]. matchSegs pat (drop i segs) False
      else
        (case segs of
           [] \<Rightarrow> False
         | s # ss \<Rightarrow>
             (let p' = (if host then ToLower p else p); s' = (if host then ToLower s else s) in
              path_match p' s' = Some True \<and> matchSegs pat ss False)))"
  by pat_completeness auto
termination
  by (relation "measure (\<lambda>(pat, _). length pat)") auto

declare matchSegs.simps(2) [simp del]

definition MatchLocation :: "string \<Rightarrow> string \<Rightarrow> bool" where
  "MatchLocation p loc \<longleftrightarrow>
     plainLocation loc \<and> ValidateLocationPattern p = None \<and>
     matchSegs (split_byte (CHR ''/'') p) (split_byte (CHR ''/'') loc) True"

section \<open>Literal segments\<close>

definition literal :: "string \<Rightarrow> bool" where
  "literal p \<longleftrightarrow> list_all (\<lambda>c. c \<notin> {CHR ''*'', CHR ''?'', CHR ''['', CHR 0x5C}) p"

lemma literal_simps [simp]:
  "literal []"
  "literal (c # p) = (c \<notin> {CHR ''*'', CHR ''?'', CHR ''['', CHR 0x5C} \<and> literal p)"
  by (auto simp: literal_def)

lemma scan_to_literal: "literal p \<Longrightarrow> scan_to False p = (p, [])"
  by (induction p) (auto split: prod.splits)

lemma scan_chunk_literal: "literal p \<Longrightarrow> scan_chunk p = (False, p, [])"
  by (cases p) (auto simp: scan_chunk_def scan_to_literal)

lemma match_chunk_literal:
  "literal p \<Longrightarrow> match_chunk failed p s =
     Some (if \<not> failed \<and> take (length p) s = p then Some (drop (length p) s) else None)"
proof (induction p arbitrary: failed s)
  case Nil
  then show ?case by (simp add: match_chunk.simps)
next
  case (Cons c p)
  then show ?case by (subst match_chunk.simps) (cases s; auto simp: Let_def)
qed

lemma path_match_literal:
  assumes "literal p"
  shows "path_match p s = Some (p = s)"
proof (cases "p = []")
  case True
  then show ?thesis by (auto simp: path_match.simps)
next
  case False
  have "path_match p s =
      (if take (length p) s = p \<and> drop (length p) s = [] then path_match [] [] else Some False)"
    using False assms
    by (subst path_match.simps) (auto simp: scan_chunk_literal match_chunk_literal chunks_ok.simps)
  moreover have "(take (length p) s = p \<and> drop (length p) s = []) = (p = s)"
    by (metis append_Nil2 append_take_drop_id drop_all order_refl take_all)
  ultimately show ?thesis by (auto simp: path_match.simps)
qed

section \<open>What an allow-list vouches for\<close>

lemma special_bytes:
  "c \<in> {CHR ''*'', CHR ''?'', CHR ''['', CHR 0x5C} \<longleftrightarrow> byte c \<in> {42, 63, 91, 92 :: nat}"
proof -
  have "c = d \<longleftrightarrow> byte c = (byte d :: nat)" for d by simp
  from this[of "CHR ''*''"] this[of "CHR ''?''"] this[of "CHR ''[''"] this[of "CHR 0x5C"] show ?thesis by simp
qed

lemma byte_lower_literal: "byte_lower c \<in> {CHR ''*'', CHR ''?'', CHR ''['', CHR 0x5C} \<longleftrightarrow>
    c \<in> {CHR ''*'', CHR ''?'', CHR ''['', CHR 0x5C}"
  unfolding special_bytes by (auto simp: byte_lower_def)

lemma ToLower_literal: "is_ascii p \<Longrightarrow> literal p \<Longrightarrow> literal (ToLower p)"
  by (simp add: ToLower_ascii literal_def list.pred_map comp_def byte_lower_literal del: insert_iff)

lemma literal_not_stars: "literal p \<Longrightarrow> p \<noteq> ''**''"
  by auto

lemma matchSegs_stars: "matchSegs [''**''] segs host"
  by (auto simp: matchSegs.simps(2))

lemma matchSegs_literal:
  assumes "literal p" and "host \<Longrightarrow> is_ascii p"
  shows "matchSegs (p # pat) segs host \<longleftrightarrow>
     (\<exists>s ss. segs = s # ss \<and> (if host then ToLower s = ToLower p else s = p) \<and> matchSegs pat ss False)"
  using assms
  by (cases segs; cases host)
     (auto simp: matchSegs.simps(2) literal_not_stars path_match_literal ToLower_literal Let_def)

lemma split_org:
  "CHR ''/'' \<notin> set h \<Longrightarrow> CHR ''/'' \<notin> set org \<Longrightarrow>
     split_byte (CHR ''/'') (h @ ''/'' @ org @ ''/**'') = [h, org, ''**'']"
  using split_byte_append[of "CHR ''/''" h "org @ ''/**''"] split_byte_append[of "CHR ''/''" org "''**''"]
  by (simp add: split_byte_id)

text \<open>
  The pattern \<open>host/org/**\<close> vouches exactly for the locations whose first segment is the host, in any case, and whose
  second is the organisation, provided that no segment is empty or a dot segment, before and after
  percent-decoding: no location that a client would resolve to another organisation is vouched for.
\<close>

theorem allow_list_is_confined:
  assumes "literal h" "is_ascii h" "literal org" "CHR ''/'' \<notin> set h" "CHR ''/'' \<notin> set org"
  shows "MatchLocation (h @ ''/'' @ org @ ''/**'') loc \<longleftrightarrow>
     ValidateLocationPattern (h @ ''/'' @ org @ ''/**'') = None \<and> plainLocation loc \<and>
     (\<exists>host rest. split_byte (CHR ''/'') loc = host # org # rest \<and> ToLower host = ToLower h)"
  unfolding MatchLocation_def split_org[OF assms(4,5)]
  using assms by (auto simp: matchSegs_literal matchSegs_stars)

lemma allow_list_is_confined_witness:
  "\<not> MatchLocation (''github.com'' @ ''/'' @ ''myorg'' @ ''/**'') ''github.com/evil/x'' \<and>
   \<not> plainLocation ''github.com/myorg/%2e%2e/evil''"
proof (intro conjI)
  have "split_byte (CHR ''/'') ''github.com/evil/x'' = [''github.com'', ''evil'', ''x'']" by simp
  then show "\<not> MatchLocation (''github.com'' @ ''/'' @ ''myorg'' @ ''/**'') ''github.com/evil/x''"
    by (subst allow_list_is_confined) (simp_all add: is_ascii_def)
  have dot: "char_of (46 :: nat) = CHR ''.''" by code_simp
  then have "PathUnescape ''github.com/myorg/%2e%2e/evil'' = Some ''github.com/myorg/../evil''"
    by (simp add: hex_val_def)
  then show "\<not> plainLocation ''github.com/myorg/%2e%2e/evil''" by (simp add: plainLocation_def dot_segment_def)
qed

end
