(* ===== verification/PolicyTypes.thy ===== *)
theory PolicyTypes
  imports GoMatch GoTime
begin

text \<open>
  The data of the policy engine: the records of policy/store.go (\<open>Policy\<close> and its parts) and the
  \<open>EvaluationContext\<close> of policy/evaluator.go, field by field. Mode, Kind and Status are strings, as in the
  source; a pointer is an option, an instant a number of nanoseconds since 1970, a float64 its rational
  value (JSON carries no NaN and no infinity).
\<close>

section \<open>Modes, kinds and states\<close>

type_synonym Mode = string
type_synonym Kind = string
type_synonym Status = string

definition ModeAllow :: Mode where "ModeAllow = ''allow''"
definition ModeBlock :: Mode where "ModeBlock = ''block''"
definition ModeMonitor :: Mode where "ModeMonitor = ''monitor''"
definition ModeQuarantine :: Mode where "ModeQuarantine = ''quarantine''"
definition ModeBlockAfterGrace :: Mode where "ModeBlockAfterGrace = ''block_after_grace''"

definition KindEnforcement :: Kind where "KindEnforcement = []"
definition KindRouting :: Kind where "KindRouting = ''routing''"
definition KindException :: Kind where "KindException = ''exception''"

definition StatusEnabled :: Status where "StatusEnabled = ''enabled''"
definition StatusDisabled :: Status where "StatusDisabled = ''disabled''"
definition StatusPendingApproval :: Status where "StatusPendingApproval = ''pending_approval''"

lemmas mode_defs = ModeAllow_def ModeBlock_def ModeMonitor_def ModeQuarantine_def ModeBlockAfterGrace_def
lemmas kind_defs = KindEnforcement_def KindRouting_def KindException_def
lemmas status_defs = StatusEnabled_def StatusDisabled_def StatusPendingApproval_def

lemma modes_distinct [simp]:
  "ModeAllow \<noteq> ModeBlock" "ModeAllow \<noteq> ModeMonitor" "ModeAllow \<noteq> ModeQuarantine" "ModeAllow \<noteq> ModeBlockAfterGrace"
  "ModeBlock \<noteq> ModeAllow" "ModeBlock \<noteq> ModeMonitor" "ModeBlock \<noteq> ModeQuarantine" "ModeBlock \<noteq> ModeBlockAfterGrace"
  "ModeMonitor \<noteq> ModeAllow" "ModeMonitor \<noteq> ModeBlock" "ModeMonitor \<noteq> ModeQuarantine" "ModeMonitor \<noteq> ModeBlockAfterGrace"
  "ModeQuarantine \<noteq> ModeAllow" "ModeQuarantine \<noteq> ModeBlock" "ModeQuarantine \<noteq> ModeMonitor" "ModeQuarantine \<noteq> ModeBlockAfterGrace"
  "ModeBlockAfterGrace \<noteq> ModeAllow" "ModeBlockAfterGrace \<noteq> ModeBlock" "ModeBlockAfterGrace \<noteq> ModeMonitor"
  "ModeBlockAfterGrace \<noteq> ModeQuarantine"
  by (simp_all add: mode_defs)

lemma kinds_distinct [simp]:
  "KindEnforcement \<noteq> KindRouting" "KindEnforcement \<noteq> KindException" "KindRouting \<noteq> KindEnforcement"
  "KindRouting \<noteq> KindException" "KindException \<noteq> KindEnforcement" "KindException \<noteq> KindRouting"
  by (simp_all add: kind_defs)

section \<open>Policies\<close>

record Identifier =
  id_TargetPackageName :: string
  id_TargetPackageRepo :: string
  id_TargetPackageVersion :: string

record RoutingRule =
  routing_PathGlob :: string
  routing_PackagePattern :: string
  routing_Notify :: string

record Scope =
  scope_TargetClient :: "string list"
  scope_TargetGroup :: "string list"
  scope_TargetRepos :: "string list"
  scope_TargetRequestingCountry :: "string list"
  scope_TargetRequestingIP :: "string list"

record Conditions =
  cond_IsVulnerable :: "bool option"
  cond_PackageAge :: "int option"
  cond_CooldownDays :: "int option"
  cond_CVSSMin :: "rat option"
  cond_CVSSMax :: "rat option"
  cond_EPSSMin :: "rat option"
  cond_EPSSMax :: "rat option"
  cond_InKEV :: "bool option"
  cond_PackageLicense :: "string list"
  cond_Ecosystems :: "string list"
  cond_RequireSLSALevel :: "int option"
  cond_RequireBuilderID :: "string list"
  cond_RequireBuilderIssuer :: "string list"
  cond_RequireSourceRepo :: "string list"
  cond_RequireTransparencyLog :: "bool option"
  cond_ForbidCacheStale :: "bool option"
  cond_RequireAttestation :: "bool option"
  cond_HasProvenance :: "bool option"
  cond_IsSuspectedTyposquat :: "bool option"
  cond_IsKnownMalicious :: "bool option"
  cond_TrustScoreMin :: "int option"
  cond_TrustScoreMax :: "int option"
  cond_ReservedNamespaces :: "string list"
  cond_HasInstallScript :: "bool option"
  cond_InstallScriptFetchesRemote :: "bool option"
  cond_ImportTimeExecution :: "bool option"
  cond_MaliciousIOC :: "bool option"
  cond_BuildRsExecutes :: "bool option"
  cond_PublisherChanged :: "bool option"
  cond_VersionAnomaly :: "bool option"
  cond_VersionAnomalyKinds :: "string list"
  cond_HasHiddenUnicode :: "bool option"
  cond_HiddenUnicodeKinds :: "string list"
  cond_PublishVelocityAnomaly :: "bool option"
  cond_PublishVelocityThreshold24h :: "int option"
  cond_LicenseCopyleft :: "bool option"
  cond_LicenseNonPermissive :: "bool option"
  cond_LicenseExceptionPresent :: "bool option"
  cond_LicenseAmbiguousClassifier :: "bool option"
  cond_LicenseUnidentified :: "bool option"
  cond_DeprecatedByMaintainer :: "bool option"
  cond_ShrinkwrapPresent :: "bool option"
  cond_ManifestConfusion :: "bool option"
  cond_GitDependency :: "bool option"
  cond_HTTPTarballDependency :: "bool option"
  cond_WildcardDependencyRange :: "bool option"
  cond_BadDependencySemver :: "bool option"
  cond_NonRegistrySource :: "bool option"
  cond_NonRegistrySourceUnpinned :: "bool option"
  cond_NonRegistryOriginNotIn :: "string list"
  cond_UsesEval :: "bool option"
  cond_NetworkAccess :: "bool option"
  cond_ShellAccess :: "bool option"
  cond_FilesystemAccess :: "bool option"
  cond_EnvVarAccess :: "bool option"
  cond_NativeBinaryPresent :: "bool option"
  cond_HighEntropyStrings :: "bool option"
  cond_URLStrings :: "bool option"
  cond_MinifiedCode :: "bool option"
  cond_TrivialPackage :: "bool option"
  cond_TooManyFiles :: "bool option"
  cond_NonExistentAuthor :: "bool option"
  cond_FirstTimeCollaborator :: "bool option"
  cond_SuspiciousRepoStars :: "bool option"
  cond_MaintainerAccountAgeDaysMax :: "int option"
  cond_DangerousPickle :: "bool option"
  cond_UnsafeSerializationFormat :: "bool option"
  cond_ModelCardInjection :: "bool option"
  cond_AgentToolDangerousCapability :: "bool option"
  cond_MCPServerDeclared :: "bool option"
  cond_PromptTemplateInjection :: "bool option"

record Policy =
  pol_ID :: string
  pol_Name :: string
  pol_Description :: string
  pol_Precedence :: int
  pol_Mode :: Mode
  pol_Status :: Status
  pol_CreatedAt :: int
  pol_UpdatedAt :: int
  pol_Identifier :: Identifier
  pol_Conditions :: Conditions
  pol_Scope :: Scope
  pol_Decision :: string
  pol_CVE :: string
  pol_Note :: string
  pol_CreatedBy :: string
  pol_ApproverID :: string
  pol_CreatedByPrincipal :: string
  pol_Kind :: Kind
  pol_Routing :: "RoutingRule option"
  pol_ExpiresAt :: "int option"
  pol_GraceDays :: "int option"

definition DefaultGraceDays :: int where "DefaultGraceDays = 7"

definition EffectiveGraceDays :: "Policy \<Rightarrow> int" where
  "EffectiveGraceDays p =
     (case pol_GraceDays p of Some n \<Rightarrow> if 0 < n then n else DefaultGraceDays | None \<Rightarrow> DefaultGraceDays)"

definition IsMonitorMode :: "Policy \<Rightarrow> bool" where
  "IsMonitorMode p \<longleftrightarrow> pol_Mode p = ModeMonitor"

definition scope_isEmpty :: "Scope \<Rightarrow> bool" where
  "scope_isEmpty s \<longleftrightarrow>
     scope_TargetClient s = [] \<and> scope_TargetGroup s = [] \<and> scope_TargetRepos s = [] \<and>
     scope_TargetRequestingCountry s = [] \<and> scope_TargetRequestingIP s = []"

section \<open>The context of a request\<close>

record EvaluationContext =
  ctx_Repository :: string
  ctx_RepositoryFormat :: string
  ctx_PackageName :: string
  ctx_PackageVersion :: string
  ctx_ClientID :: string
  ctx_ClientGroups :: "string list"
  ctx_RequestingIP :: string
  ctx_RequestingCountry :: string
  ctx_IsInternalPackage :: bool
  ctx_PackageReleaseDate :: "int option"
  ctx_VersionReleaseDate :: "int option"
  ctx_LicenseSPDX :: string
  ctx_IsVulnerable :: bool
  ctx_CVSSScore :: rat
  ctx_EPSSScore :: rat
  ctx_CVEs :: "string list"
  ctx_InKEV :: bool
  ctx_KEVUnavailable :: bool
  ctx_HasProvenance :: bool
  ctx_ProvenanceStatus :: string
  ctx_IsSuspectedTyposquat :: bool
  ctx_IsKnownMalicious :: bool
  ctx_TrustScore :: "int option"
  ctx_PublisherChanged :: bool
  ctx_SignalsUnavailable :: bool
  ctx_SLSALevel :: int
  ctx_AttestationBuilderID :: string
  ctx_AttestationIssuer :: string
  ctx_AttestationSourceRepo :: string
  ctx_AttestationTransparencyLog :: string
  ctx_AttestationCacheStale :: bool
  ctx_HasInstallScript :: bool
  ctx_InstallScriptFetchesRemote :: bool
  ctx_ImportTimeExecution :: bool
  ctx_MaliciousIOC :: bool
  ctx_BuildRsExecutes :: bool
  ctx_VersionAnomaly :: bool
  ctx_VersionAnomalyFlags :: "string list"
  ctx_HasHiddenUnicode :: bool
  ctx_HiddenUnicodeKinds :: "string list"
  ctx_PublishVelocity24h :: int
  ctx_LicenseTags :: "string list"
  ctx_DeprecatedByMaintainer :: bool
  ctx_ShrinkwrapPresent :: bool
  ctx_ManifestConfusion :: bool
  ctx_GitDependency :: bool
  ctx_HTTPTarballDependency :: bool
  ctx_WildcardDependencyRange :: bool
  ctx_BadDependencySemver :: bool
  ctx_NonRegistrySource :: bool
  ctx_NonRegistrySourceUnpinned :: bool
  ctx_NonRegistryOrigin :: string
  ctx_UsesEval :: bool
  ctx_NetworkAccess :: bool
  ctx_ShellAccess :: bool
  ctx_FilesystemAccess :: bool
  ctx_EnvVarAccess :: bool
  ctx_NativeBinaryPresent :: bool
  ctx_HighEntropyStrings :: bool
  ctx_URLStrings :: bool
  ctx_MinifiedCode :: bool
  ctx_TrivialPackage :: bool
  ctx_TooManyFiles :: bool
  ctx_NonExistentAuthor :: bool
  ctx_FirstTimeCollaborator :: "bool option"
  ctx_SuspiciousRepoStars :: bool
  ctx_MaintainerAccountAgeDays :: int
  ctx_ArtifactSubtype :: string
  ctx_DangerousPickle :: bool
  ctx_UnsafeSerializationFormat :: bool
  ctx_ModelCardInjection :: bool
  ctx_AgentToolDangerousCapability :: bool
  ctx_MCPServerDeclared :: bool
  ctx_PromptTemplateInjection :: bool
  ctx_ChecksumUnavailable :: bool
  ctx_OrgID :: string

section \<open>Zero values\<close>

text \<open>The zero values of the structs: nothing is targeted, no condition is set, nothing is known.\<close>

definition no_identifier :: Identifier where
  "no_identifier =
    \<lparr>id_TargetPackageName = [],
     id_TargetPackageRepo = [],
     id_TargetPackageVersion = []\<rparr>"

definition no_scope :: Scope where
  "no_scope =
    \<lparr>scope_TargetClient = [],
     scope_TargetGroup = [],
     scope_TargetRepos = [],
     scope_TargetRequestingCountry = [],
     scope_TargetRequestingIP = []\<rparr>"

definition no_conditions :: Conditions where
  "no_conditions =
    \<lparr>cond_IsVulnerable = None,
     cond_PackageAge = None,
     cond_CooldownDays = None,
     cond_CVSSMin = None,
     cond_CVSSMax = None,
     cond_EPSSMin = None,
     cond_EPSSMax = None,
     cond_InKEV = None,
     cond_PackageLicense = [],
     cond_Ecosystems = [],
     cond_RequireSLSALevel = None,
     cond_RequireBuilderID = [],
     cond_RequireBuilderIssuer = [],
     cond_RequireSourceRepo = [],
     cond_RequireTransparencyLog = None,
     cond_ForbidCacheStale = None,
     cond_RequireAttestation = None,
     cond_HasProvenance = None,
     cond_IsSuspectedTyposquat = None,
     cond_IsKnownMalicious = None,
     cond_TrustScoreMin = None,
     cond_TrustScoreMax = None,
     cond_ReservedNamespaces = [],
     cond_HasInstallScript = None,
     cond_InstallScriptFetchesRemote = None,
     cond_ImportTimeExecution = None,
     cond_MaliciousIOC = None,
     cond_BuildRsExecutes = None,
     cond_PublisherChanged = None,
     cond_VersionAnomaly = None,
     cond_VersionAnomalyKinds = [],
     cond_HasHiddenUnicode = None,
     cond_HiddenUnicodeKinds = [],
     cond_PublishVelocityAnomaly = None,
     cond_PublishVelocityThreshold24h = None,
     cond_LicenseCopyleft = None,
     cond_LicenseNonPermissive = None,
     cond_LicenseExceptionPresent = None,
     cond_LicenseAmbiguousClassifier = None,
     cond_LicenseUnidentified = None,
     cond_DeprecatedByMaintainer = None,
     cond_ShrinkwrapPresent = None,
     cond_ManifestConfusion = None,
     cond_GitDependency = None,
     cond_HTTPTarballDependency = None,
     cond_WildcardDependencyRange = None,
     cond_BadDependencySemver = None,
     cond_NonRegistrySource = None,
     cond_NonRegistrySourceUnpinned = None,
     cond_NonRegistryOriginNotIn = [],
     cond_UsesEval = None,
     cond_NetworkAccess = None,
     cond_ShellAccess = None,
     cond_FilesystemAccess = None,
     cond_EnvVarAccess = None,
     cond_NativeBinaryPresent = None,
     cond_HighEntropyStrings = None,
     cond_URLStrings = None,
     cond_MinifiedCode = None,
     cond_TrivialPackage = None,
     cond_TooManyFiles = None,
     cond_NonExistentAuthor = None,
     cond_FirstTimeCollaborator = None,
     cond_SuspiciousRepoStars = None,
     cond_MaintainerAccountAgeDaysMax = None,
     cond_DangerousPickle = None,
     cond_UnsafeSerializationFormat = None,
     cond_ModelCardInjection = None,
     cond_AgentToolDangerousCapability = None,
     cond_MCPServerDeclared = None,
     cond_PromptTemplateInjection = None\<rparr>"

definition zero_context :: EvaluationContext where
  "zero_context =
    \<lparr>ctx_Repository = [],
     ctx_RepositoryFormat = [],
     ctx_PackageName = [],
     ctx_PackageVersion = [],
     ctx_ClientID = [],
     ctx_ClientGroups = [],
     ctx_RequestingIP = [],
     ctx_RequestingCountry = [],
     ctx_IsInternalPackage = False,
     ctx_PackageReleaseDate = None,
     ctx_VersionReleaseDate = None,
     ctx_LicenseSPDX = [],
     ctx_IsVulnerable = False,
     ctx_CVSSScore = 0,
     ctx_EPSSScore = 0,
     ctx_CVEs = [],
     ctx_InKEV = False,
     ctx_KEVUnavailable = False,
     ctx_HasProvenance = False,
     ctx_ProvenanceStatus = [],
     ctx_IsSuspectedTyposquat = False,
     ctx_IsKnownMalicious = False,
     ctx_TrustScore = None,
     ctx_PublisherChanged = False,
     ctx_SignalsUnavailable = False,
     ctx_SLSALevel = 0,
     ctx_AttestationBuilderID = [],
     ctx_AttestationIssuer = [],
     ctx_AttestationSourceRepo = [],
     ctx_AttestationTransparencyLog = [],
     ctx_AttestationCacheStale = False,
     ctx_HasInstallScript = False,
     ctx_InstallScriptFetchesRemote = False,
     ctx_ImportTimeExecution = False,
     ctx_MaliciousIOC = False,
     ctx_BuildRsExecutes = False,
     ctx_VersionAnomaly = False,
     ctx_VersionAnomalyFlags = [],
     ctx_HasHiddenUnicode = False,
     ctx_HiddenUnicodeKinds = [],
     ctx_PublishVelocity24h = 0,
     ctx_LicenseTags = [],
     ctx_DeprecatedByMaintainer = False,
     ctx_ShrinkwrapPresent = False,
     ctx_ManifestConfusion = False,
     ctx_GitDependency = False,
     ctx_HTTPTarballDependency = False,
     ctx_WildcardDependencyRange = False,
     ctx_BadDependencySemver = False,
     ctx_NonRegistrySource = False,
     ctx_NonRegistrySourceUnpinned = False,
     ctx_NonRegistryOrigin = [],
     ctx_UsesEval = False,
     ctx_NetworkAccess = False,
     ctx_ShellAccess = False,
     ctx_FilesystemAccess = False,
     ctx_EnvVarAccess = False,
     ctx_NativeBinaryPresent = False,
     ctx_HighEntropyStrings = False,
     ctx_URLStrings = False,
     ctx_MinifiedCode = False,
     ctx_TrivialPackage = False,
     ctx_TooManyFiles = False,
     ctx_NonExistentAuthor = False,
     ctx_FirstTimeCollaborator = None,
     ctx_SuspiciousRepoStars = False,
     ctx_MaintainerAccountAgeDays = 0,
     ctx_ArtifactSubtype = [],
     ctx_DangerousPickle = False,
     ctx_UnsafeSerializationFormat = False,
     ctx_ModelCardInjection = False,
     ctx_AgentToolDangerousCapability = False,
     ctx_MCPServerDeclared = False,
     ctx_PromptTemplateInjection = False,
     ctx_ChecksumUnavailable = False,
     ctx_OrgID = []\<rparr>"

text \<open>An enabled enforcement policy with nothing else set.\<close>

definition plain_policy :: "string \<Rightarrow> Mode \<Rightarrow> Policy" where
  "plain_policy ident mode =
    \<lparr>pol_ID = ident, pol_Name = [], pol_Description = [], pol_Precedence = 0, pol_Mode = mode,
     pol_Status = StatusEnabled, pol_CreatedAt = 0, pol_UpdatedAt = 0, pol_Identifier = no_identifier,
     pol_Conditions = no_conditions, pol_Scope = no_scope, pol_Decision = [], pol_CVE = [], pol_Note = [],
     pol_CreatedBy = [], pol_ApproverID = [], pol_CreatedByPrincipal = [], pol_Kind = KindEnforcement,
     pol_Routing = None, pol_ExpiresAt = None, pol_GraceDays = None\<rparr>"

end
