(* ===== verification/PolicyMatrix.thy ===== *)
theory PolicyMatrix
  imports PolicyTypes "HOL-Library.List_Lexorder" "HOL-Library.Char_ord"
begin

text \<open>
  policy/proxy_matrix.go and policy/advisory_lane.go: which condition columns the proxy of an ecosystem
  can populate, which columns a policy uses, and which of them have no advisory source behind them. The
  matrix is an association list with a row per ecosystem, in the order of the source.
\<close>

section \<open>Columns\<close>

datatype SupportLevel = SupportFull | SupportNone | SupportPartial

type_synonym ConditionType = string
type_synonym Ecosystem = string

definition ConditionScorecard :: ConditionType where "ConditionScorecard = ''Scorecard''"
definition ConditionMalwareIndex :: ConditionType where "ConditionMalwareIndex = ''MalwareIndex''"
definition ConditionEPSS :: ConditionType where "ConditionEPSS = ''EPSS''"
definition ConditionCVE :: ConditionType where "ConditionCVE = ''CVE''"
definition ConditionPackageAge :: ConditionType where "ConditionPackageAge = ''PackageAge''"
definition ConditionCooldown :: ConditionType where "ConditionCooldown = ''Cooldown''"
definition ConditionLicense :: ConditionType where "ConditionLicense = ''License''"
definition ConditionHasProvenance :: ConditionType where "ConditionHasProvenance = ''HasProvenance''"
definition ConditionTyposquat :: ConditionType where "ConditionTyposquat = ''Typosquat''"
definition ConditionCVSS :: ConditionType where "ConditionCVSS = ''CVSS''"
definition ConditionReservedNamespaces :: ConditionType where "ConditionReservedNamespaces = ''ReservedNamespaces''"
definition ConditionHasInstallScript :: ConditionType where "ConditionHasInstallScript = ''HasInstallScript''"
definition ConditionInstallScriptFetchesRemote :: ConditionType where "ConditionInstallScriptFetchesRemote = ''InstallScriptFetchesRemote''"
definition ConditionImportTimeExecution :: ConditionType where "ConditionImportTimeExecution = ''ImportTimeExecution''"
definition ConditionMaliciousIOC :: ConditionType where "ConditionMaliciousIOC = ''MaliciousIOC''"
definition ConditionBuildRsExecutes :: ConditionType where "ConditionBuildRsExecutes = ''BuildRsExecutes''"
definition ConditionPublisherChanged :: ConditionType where "ConditionPublisherChanged = ''PublisherChanged''"
definition ConditionVersionAnomaly :: ConditionType where "ConditionVersionAnomaly = ''VersionAnomaly''"
definition ConditionHasHiddenUnicode :: ConditionType where "ConditionHasHiddenUnicode = ''HasHiddenUnicode''"
definition ConditionPublishVelocityAnomaly :: ConditionType where "ConditionPublishVelocityAnomaly = ''PublishVelocityAnomaly''"
definition ConditionLicenseCopyleft :: ConditionType where "ConditionLicenseCopyleft = ''LicenseCopyleft''"
definition ConditionLicenseNonPermissive :: ConditionType where "ConditionLicenseNonPermissive = ''LicenseNonPermissive''"
definition ConditionLicenseExceptionPresent :: ConditionType where "ConditionLicenseExceptionPresent = ''LicenseExceptionPresent''"
definition ConditionLicenseAmbiguousClassifier :: ConditionType where "ConditionLicenseAmbiguousClassifier = ''LicenseAmbiguousClassifier''"
definition ConditionLicenseUnidentified :: ConditionType where "ConditionLicenseUnidentified = ''LicenseUnidentified''"
definition ConditionDeprecatedByMaintainer :: ConditionType where "ConditionDeprecatedByMaintainer = ''DeprecatedByMaintainer''"
definition ConditionShrinkwrapPresent :: ConditionType where "ConditionShrinkwrapPresent = ''ShrinkwrapPresent''"
definition ConditionManifestConfusion :: ConditionType where "ConditionManifestConfusion = ''ManifestConfusion''"
definition ConditionGitDependency :: ConditionType where "ConditionGitDependency = ''GitDependency''"
definition ConditionHTTPTarballDependency :: ConditionType where "ConditionHTTPTarballDependency = ''HTTPTarballDependency''"
definition ConditionWildcardDependencyRange :: ConditionType where "ConditionWildcardDependencyRange = ''WildcardDependencyRange''"
definition ConditionBadDependencySemver :: ConditionType where "ConditionBadDependencySemver = ''BadDependencySemver''"
definition ConditionNonRegistrySource :: ConditionType where "ConditionNonRegistrySource = ''NonRegistrySource''"
definition ConditionUsesEval :: ConditionType where "ConditionUsesEval = ''UsesEval''"
definition ConditionNetworkAccess :: ConditionType where "ConditionNetworkAccess = ''NetworkAccess''"
definition ConditionShellAccess :: ConditionType where "ConditionShellAccess = ''ShellAccess''"
definition ConditionFilesystemAccess :: ConditionType where "ConditionFilesystemAccess = ''FilesystemAccess''"
definition ConditionEnvVarAccess :: ConditionType where "ConditionEnvVarAccess = ''EnvVarAccess''"
definition ConditionNativeBinaryPresent :: ConditionType where "ConditionNativeBinaryPresent = ''NativeBinaryPresent''"
definition ConditionHighEntropyStrings :: ConditionType where "ConditionHighEntropyStrings = ''HighEntropyStrings''"
definition ConditionURLStrings :: ConditionType where "ConditionURLStrings = ''URLStrings''"
definition ConditionMinifiedCode :: ConditionType where "ConditionMinifiedCode = ''MinifiedCode''"
definition ConditionTrivialPackage :: ConditionType where "ConditionTrivialPackage = ''TrivialPackage''"
definition ConditionTooManyFiles :: ConditionType where "ConditionTooManyFiles = ''TooManyFiles''"
definition ConditionNonExistentAuthor :: ConditionType where "ConditionNonExistentAuthor = ''NonExistentAuthor''"
definition ConditionFirstTimeCollaborator :: ConditionType where "ConditionFirstTimeCollaborator = ''FirstTimeCollaborator''"
definition ConditionSuspiciousRepoStars :: ConditionType where "ConditionSuspiciousRepoStars = ''SuspiciousRepoStars''"
definition ConditionMaintainerAccountAge :: ConditionType where "ConditionMaintainerAccountAge = ''MaintainerAccountAge''"
definition ConditionDangerousPickle :: ConditionType where "ConditionDangerousPickle = ''DangerousPickle''"
definition ConditionUnsafeSerializationFormat :: ConditionType where "ConditionUnsafeSerializationFormat = ''UnsafeSerializationFormat''"
definition ConditionModelCardInjection :: ConditionType where "ConditionModelCardInjection = ''ModelCardInjection''"
definition ConditionAgentToolDangerousCapability :: ConditionType where "ConditionAgentToolDangerousCapability = ''AgentToolDangerousCapability''"
definition ConditionMCPServerDeclared :: ConditionType where "ConditionMCPServerDeclared = ''MCPServerDeclared''"
definition ConditionPromptTemplateInjection :: ConditionType where "ConditionPromptTemplateInjection = ''PromptTemplateInjection''"

lemmas condition_names =
  ConditionScorecard_def ConditionMalwareIndex_def ConditionEPSS_def ConditionCVE_def
  ConditionPackageAge_def ConditionCooldown_def ConditionLicense_def ConditionHasProvenance_def
  ConditionTyposquat_def ConditionCVSS_def ConditionReservedNamespaces_def ConditionHasInstallScript_def
  ConditionInstallScriptFetchesRemote_def ConditionImportTimeExecution_def ConditionMaliciousIOC_def
  ConditionBuildRsExecutes_def ConditionPublisherChanged_def ConditionVersionAnomaly_def
  ConditionHasHiddenUnicode_def ConditionPublishVelocityAnomaly_def ConditionLicenseCopyleft_def
  ConditionLicenseNonPermissive_def ConditionLicenseExceptionPresent_def
  ConditionLicenseAmbiguousClassifier_def ConditionLicenseUnidentified_def
  ConditionDeprecatedByMaintainer_def ConditionShrinkwrapPresent_def ConditionManifestConfusion_def
  ConditionGitDependency_def ConditionHTTPTarballDependency_def ConditionWildcardDependencyRange_def
  ConditionBadDependencySemver_def ConditionNonRegistrySource_def ConditionUsesEval_def
  ConditionNetworkAccess_def ConditionShellAccess_def ConditionFilesystemAccess_def
  ConditionEnvVarAccess_def ConditionNativeBinaryPresent_def ConditionHighEntropyStrings_def
  ConditionURLStrings_def ConditionMinifiedCode_def ConditionTrivialPackage_def
  ConditionTooManyFiles_def ConditionNonExistentAuthor_def ConditionFirstTimeCollaborator_def
  ConditionSuspiciousRepoStars_def ConditionMaintainerAccountAge_def ConditionDangerousPickle_def
  ConditionUnsafeSerializationFormat_def ConditionModelCardInjection_def
  ConditionAgentToolDangerousCapability_def ConditionMCPServerDeclared_def
  ConditionPromptTemplateInjection_def

definition EcoNPM :: Ecosystem where "EcoNPM = ''npm''"
definition EcoPyPI :: Ecosystem where "EcoPyPI = ''pip''"
definition EcoMaven :: Ecosystem where "EcoMaven = ''maven''"
definition EcoCargo :: Ecosystem where "EcoCargo = ''cargo''"
definition EcoComposer :: Ecosystem where "EcoComposer = ''composer''"
definition EcoRubyGems :: Ecosystem where "EcoRubyGems = ''rubygems''"
definition EcoNuGet :: Ecosystem where "EcoNuGet = ''nuget''"
definition EcoGo :: Ecosystem where "EcoGo = ''go''"
definition EcoHuggingFace :: Ecosystem where "EcoHuggingFace = ''huggingface''"
definition EcoCocoaPods :: Ecosystem where "EcoCocoaPods = ''cocoapods''"
definition EcoSwift :: Ecosystem where "EcoSwift = ''swift''"
definition EcoPub :: Ecosystem where "EcoPub = ''pub''"
definition EcoDocker :: Ecosystem where "EcoDocker = ''docker''"
definition EcoAPT :: Ecosystem where "EcoAPT = ''apt''"
definition EcoYum :: Ecosystem where "EcoYum = ''yum''"
definition EcoDNF :: Ecosystem where "EcoDNF = ''dnf''"
definition EcoHomebrew :: Ecosystem where "EcoHomebrew = ''homebrew''"

lemmas ecosystem_names =
  EcoNPM_def EcoPyPI_def EcoMaven_def EcoCargo_def EcoComposer_def EcoRubyGems_def EcoNuGet_def
  EcoGo_def EcoHuggingFace_def EcoCocoaPods_def EcoSwift_def EcoPub_def EcoDocker_def EcoAPT_def
  EcoYum_def EcoDNF_def EcoHomebrew_def

definition AllConditions :: "ConditionType list" where
  "AllConditions =
     [ConditionScorecard, ConditionMalwareIndex, ConditionEPSS, ConditionCVE, ConditionPackageAge,
      ConditionCooldown, ConditionLicense, ConditionHasProvenance, ConditionTyposquat, ConditionCVSS,
      ConditionReservedNamespaces, ConditionHasInstallScript, ConditionInstallScriptFetchesRemote,
      ConditionImportTimeExecution, ConditionMaliciousIOC, ConditionBuildRsExecutes,
      ConditionPublisherChanged, ConditionVersionAnomaly, ConditionHasHiddenUnicode,
      ConditionPublishVelocityAnomaly, ConditionLicenseCopyleft, ConditionLicenseNonPermissive,
      ConditionLicenseExceptionPresent, ConditionLicenseAmbiguousClassifier,
      ConditionLicenseUnidentified, ConditionDeprecatedByMaintainer, ConditionShrinkwrapPresent,
      ConditionManifestConfusion, ConditionGitDependency, ConditionHTTPTarballDependency,
      ConditionWildcardDependencyRange, ConditionBadDependencySemver, ConditionNonRegistrySource,
      ConditionUsesEval, ConditionNetworkAccess, ConditionShellAccess, ConditionFilesystemAccess,
      ConditionEnvVarAccess, ConditionNativeBinaryPresent, ConditionHighEntropyStrings,
      ConditionURLStrings, ConditionMinifiedCode, ConditionTrivialPackage, ConditionTooManyFiles,
      ConditionNonExistentAuthor, ConditionFirstTimeCollaborator, ConditionSuspiciousRepoStars,
      ConditionDangerousPickle, ConditionUnsafeSerializationFormat, ConditionModelCardInjection,
      ConditionAgentToolDangerousCapability, ConditionMCPServerDeclared,
      ConditionPromptTemplateInjection, ConditionMaintainerAccountAge]"

definition AllEcosystems :: "Ecosystem list" where
  "AllEcosystems =
     [EcoNPM, EcoPyPI, EcoMaven, EcoCargo, EcoComposer, EcoRubyGems, EcoNuGet, EcoGo, EcoHuggingFace,
      EcoCocoaPods, EcoSwift, EcoPub, EcoDocker, EcoAPT, EcoYum, EcoDNF, EcoHomebrew]"

definition contextOnlyConditions :: "ConditionType list" where
  "contextOnlyConditions =
     [ConditionUsesEval, ConditionNetworkAccess, ConditionShellAccess, ConditionFilesystemAccess,
      ConditionEnvVarAccess]"

definition IsContextOnlyCondition :: "ConditionType \<Rightarrow> bool" where
  "IsContextOnlyCondition c \<longleftrightarrow> c \<in> set contextOnlyConditions"

section \<open>The matrix\<close>

definition row_EcoNPM :: "(ConditionType \<times> SupportLevel) list" where
  "row_EcoNPM =
     [(ConditionScorecard, SupportNone), (ConditionMalwareIndex, SupportFull), (ConditionEPSS,
      SupportFull), (ConditionCVE, SupportFull), (ConditionPackageAge, SupportFull), (ConditionCooldown,
      SupportFull), (ConditionLicense, SupportFull), (ConditionHasProvenance, SupportFull),
      (ConditionTyposquat, SupportFull), (ConditionCVSS, SupportFull), (ConditionReservedNamespaces,
      SupportFull), (ConditionHasInstallScript, SupportFull), (ConditionInstallScriptFetchesRemote,
      SupportFull), (ConditionImportTimeExecution, SupportFull), (ConditionMaliciousIOC, SupportFull),
      (ConditionBuildRsExecutes, SupportNone), (ConditionPublisherChanged, SupportFull),
      (ConditionVersionAnomaly, SupportFull), (ConditionHasHiddenUnicode, SupportFull),
      (ConditionPublishVelocityAnomaly, SupportFull), (ConditionLicenseCopyleft, SupportFull),
      (ConditionLicenseNonPermissive, SupportFull), (ConditionLicenseExceptionPresent, SupportFull),
      (ConditionLicenseAmbiguousClassifier, SupportFull), (ConditionLicenseUnidentified, SupportFull),
      (ConditionDeprecatedByMaintainer, SupportFull), (ConditionShrinkwrapPresent, SupportFull),
      (ConditionManifestConfusion, SupportFull), (ConditionGitDependency, SupportFull),
      (ConditionHTTPTarballDependency, SupportFull), (ConditionWildcardDependencyRange, SupportFull),
      (ConditionBadDependencySemver, SupportFull), (ConditionNonRegistrySource, SupportNone),
      (ConditionUsesEval, SupportFull), (ConditionNetworkAccess, SupportFull), (ConditionShellAccess,
      SupportFull), (ConditionFilesystemAccess, SupportFull), (ConditionEnvVarAccess, SupportFull),
      (ConditionNativeBinaryPresent, SupportFull), (ConditionHighEntropyStrings, SupportFull),
      (ConditionURLStrings, SupportFull), (ConditionMinifiedCode, SupportFull),
      (ConditionTrivialPackage, SupportFull), (ConditionTooManyFiles, SupportFull),
      (ConditionNonExistentAuthor, SupportPartial), (ConditionFirstTimeCollaborator, SupportPartial),
      (ConditionSuspiciousRepoStars, SupportPartial), (ConditionMaintainerAccountAge, SupportPartial),
      (ConditionDangerousPickle, SupportNone), (ConditionUnsafeSerializationFormat, SupportNone),
      (ConditionModelCardInjection, SupportNone), (ConditionAgentToolDangerousCapability, SupportFull),
      (ConditionMCPServerDeclared, SupportFull), (ConditionPromptTemplateInjection, SupportFull)]"

definition row_EcoPyPI :: "(ConditionType \<times> SupportLevel) list" where
  "row_EcoPyPI =
     [(ConditionScorecard, SupportNone), (ConditionMalwareIndex, SupportFull), (ConditionEPSS,
      SupportFull), (ConditionCVE, SupportFull), (ConditionPackageAge, SupportFull), (ConditionCooldown,
      SupportFull), (ConditionLicense, SupportFull), (ConditionHasProvenance, SupportFull),
      (ConditionTyposquat, SupportFull), (ConditionCVSS, SupportFull), (ConditionReservedNamespaces,
      SupportFull), (ConditionHasInstallScript, SupportFull), (ConditionInstallScriptFetchesRemote,
      SupportFull), (ConditionImportTimeExecution, SupportFull), (ConditionMaliciousIOC, SupportFull),
      (ConditionBuildRsExecutes, SupportNone), (ConditionPublisherChanged, SupportFull),
      (ConditionVersionAnomaly, SupportFull), (ConditionHasHiddenUnicode, SupportFull),
      (ConditionPublishVelocityAnomaly, SupportFull), (ConditionLicenseCopyleft, SupportFull),
      (ConditionLicenseNonPermissive, SupportFull), (ConditionLicenseExceptionPresent, SupportFull),
      (ConditionLicenseAmbiguousClassifier, SupportFull), (ConditionLicenseUnidentified, SupportFull),
      (ConditionDeprecatedByMaintainer, SupportFull), (ConditionShrinkwrapPresent, SupportFull),
      (ConditionManifestConfusion, SupportNone), (ConditionGitDependency, SupportFull),
      (ConditionHTTPTarballDependency, SupportFull), (ConditionWildcardDependencyRange, SupportFull),
      (ConditionBadDependencySemver, SupportFull), (ConditionNonRegistrySource, SupportNone),
      (ConditionUsesEval, SupportFull), (ConditionNetworkAccess, SupportFull), (ConditionShellAccess,
      SupportFull), (ConditionFilesystemAccess, SupportFull), (ConditionEnvVarAccess, SupportFull),
      (ConditionNativeBinaryPresent, SupportFull), (ConditionHighEntropyStrings, SupportFull),
      (ConditionURLStrings, SupportFull), (ConditionMinifiedCode, SupportFull),
      (ConditionTrivialPackage, SupportFull), (ConditionTooManyFiles, SupportFull),
      (ConditionNonExistentAuthor, SupportPartial), (ConditionFirstTimeCollaborator, SupportPartial),
      (ConditionSuspiciousRepoStars, SupportPartial), (ConditionMaintainerAccountAge, SupportPartial),
      (ConditionDangerousPickle, SupportFull), (ConditionUnsafeSerializationFormat, SupportFull),
      (ConditionModelCardInjection, SupportNone), (ConditionAgentToolDangerousCapability, SupportFull),
      (ConditionMCPServerDeclared, SupportFull), (ConditionPromptTemplateInjection, SupportFull)]"

definition row_EcoMaven :: "(ConditionType \<times> SupportLevel) list" where
  "row_EcoMaven =
     [(ConditionScorecard, SupportNone), (ConditionMalwareIndex, SupportFull), (ConditionEPSS,
      SupportFull), (ConditionCVE, SupportFull), (ConditionPackageAge, SupportPartial),
      (ConditionCooldown, SupportFull), (ConditionLicense, SupportFull), (ConditionHasProvenance,
      SupportFull), (ConditionTyposquat, SupportFull), (ConditionCVSS, SupportFull),
      (ConditionReservedNamespaces, SupportFull), (ConditionHasInstallScript, SupportNone),
      (ConditionInstallScriptFetchesRemote, SupportNone), (ConditionImportTimeExecution, SupportNone),
      (ConditionMaliciousIOC, SupportFull), (ConditionBuildRsExecutes, SupportNone),
      (ConditionPublisherChanged, SupportPartial), (ConditionVersionAnomaly, SupportFull),
      (ConditionHasHiddenUnicode, SupportFull), (ConditionPublishVelocityAnomaly, SupportPartial),
      (ConditionLicenseCopyleft, SupportFull), (ConditionLicenseNonPermissive, SupportFull),
      (ConditionLicenseExceptionPresent, SupportFull), (ConditionLicenseAmbiguousClassifier,
      SupportFull), (ConditionLicenseUnidentified, SupportFull), (ConditionDeprecatedByMaintainer,
      SupportNone), (ConditionShrinkwrapPresent, SupportNone), (ConditionManifestConfusion,
      SupportNone), (ConditionGitDependency, SupportNone), (ConditionHTTPTarballDependency,
      SupportNone), (ConditionWildcardDependencyRange, SupportPartial), (ConditionBadDependencySemver,
      SupportPartial), (ConditionNonRegistrySource, SupportNone), (ConditionUsesEval, SupportPartial),
      (ConditionNetworkAccess, SupportPartial), (ConditionShellAccess, SupportPartial),
      (ConditionFilesystemAccess, SupportPartial), (ConditionEnvVarAccess, SupportPartial),
      (ConditionNativeBinaryPresent, SupportFull), (ConditionHighEntropyStrings, SupportPartial),
      (ConditionURLStrings, SupportPartial), (ConditionMinifiedCode, SupportPartial),
      (ConditionTrivialPackage, SupportPartial), (ConditionTooManyFiles, SupportFull),
      (ConditionNonExistentAuthor, SupportNone), (ConditionFirstTimeCollaborator, SupportPartial),
      (ConditionSuspiciousRepoStars, SupportPartial), (ConditionMaintainerAccountAge, SupportNone),
      (ConditionDangerousPickle, SupportNone), (ConditionUnsafeSerializationFormat, SupportNone),
      (ConditionModelCardInjection, SupportNone), (ConditionAgentToolDangerousCapability, SupportNone),
      (ConditionMCPServerDeclared, SupportNone), (ConditionPromptTemplateInjection, SupportNone)]"

definition row_EcoPub :: "(ConditionType \<times> SupportLevel) list" where
  "row_EcoPub =
     [(ConditionScorecard, SupportNone), (ConditionMalwareIndex, SupportPartial), (ConditionEPSS,
      SupportFull), (ConditionCVE, SupportFull), (ConditionPackageAge, SupportPartial),
      (ConditionCooldown, SupportFull), (ConditionLicense, SupportFull), (ConditionHasProvenance,
      SupportNone), (ConditionTyposquat, SupportFull), (ConditionCVSS, SupportFull),
      (ConditionReservedNamespaces, SupportFull), (ConditionHasInstallScript, SupportNone),
      (ConditionInstallScriptFetchesRemote, SupportNone), (ConditionImportTimeExecution, SupportNone),
      (ConditionMaliciousIOC, SupportFull), (ConditionBuildRsExecutes, SupportNone),
      (ConditionPublisherChanged, SupportFull), (ConditionVersionAnomaly, SupportFull),
      (ConditionHasHiddenUnicode, SupportFull), (ConditionPublishVelocityAnomaly, SupportNone),
      (ConditionLicenseCopyleft, SupportFull), (ConditionLicenseNonPermissive, SupportFull),
      (ConditionLicenseExceptionPresent, SupportFull), (ConditionLicenseAmbiguousClassifier,
      SupportFull), (ConditionLicenseUnidentified, SupportFull), (ConditionDeprecatedByMaintainer,
      SupportFull), (ConditionShrinkwrapPresent, SupportNone), (ConditionManifestConfusion,
      SupportNone), (ConditionGitDependency, SupportNone), (ConditionHTTPTarballDependency,
      SupportNone), (ConditionWildcardDependencyRange, SupportNone), (ConditionBadDependencySemver,
      SupportNone), (ConditionNonRegistrySource, SupportNone), (ConditionUsesEval, SupportNone),
      (ConditionNetworkAccess, SupportPartial), (ConditionShellAccess, SupportPartial),
      (ConditionFilesystemAccess, SupportPartial), (ConditionEnvVarAccess, SupportPartial),
      (ConditionNativeBinaryPresent, SupportPartial), (ConditionHighEntropyStrings, SupportPartial),
      (ConditionURLStrings, SupportPartial), (ConditionMinifiedCode, SupportPartial),
      (ConditionTrivialPackage, SupportPartial), (ConditionTooManyFiles, SupportFull),
      (ConditionNonExistentAuthor, SupportNone), (ConditionFirstTimeCollaborator, SupportNone),
      (ConditionSuspiciousRepoStars, SupportPartial), (ConditionMaintainerAccountAge, SupportNone),
      (ConditionDangerousPickle, SupportNone), (ConditionUnsafeSerializationFormat, SupportNone),
      (ConditionModelCardInjection, SupportNone), (ConditionAgentToolDangerousCapability, SupportNone),
      (ConditionMCPServerDeclared, SupportNone), (ConditionPromptTemplateInjection, SupportNone)]"

definition row_EcoHomebrew :: "(ConditionType \<times> SupportLevel) list" where
  "row_EcoHomebrew =
     [(ConditionScorecard, SupportNone), (ConditionMalwareIndex, SupportPartial), (ConditionEPSS,
      SupportFull), (ConditionCVE, SupportFull), (ConditionPackageAge, SupportPartial),
      (ConditionCooldown, SupportFull), (ConditionLicense, SupportFull), (ConditionHasProvenance,
      SupportFull), (ConditionTyposquat, SupportNone), (ConditionCVSS, SupportFull),
      (ConditionReservedNamespaces, SupportFull), (ConditionHasInstallScript, SupportNone),
      (ConditionInstallScriptFetchesRemote, SupportNone), (ConditionImportTimeExecution, SupportNone),
      (ConditionMaliciousIOC, SupportPartial), (ConditionBuildRsExecutes, SupportNone),
      (ConditionPublisherChanged, SupportNone), (ConditionVersionAnomaly, SupportNone),
      (ConditionHasHiddenUnicode, SupportNone), (ConditionPublishVelocityAnomaly, SupportNone),
      (ConditionLicenseCopyleft, SupportFull), (ConditionLicenseNonPermissive, SupportFull),
      (ConditionLicenseExceptionPresent, SupportFull), (ConditionLicenseAmbiguousClassifier,
      SupportFull), (ConditionLicenseUnidentified, SupportFull), (ConditionDeprecatedByMaintainer,
      SupportFull), (ConditionShrinkwrapPresent, SupportNone), (ConditionManifestConfusion,
      SupportNone), (ConditionGitDependency, SupportNone), (ConditionHTTPTarballDependency,
      SupportNone), (ConditionWildcardDependencyRange, SupportNone), (ConditionBadDependencySemver,
      SupportNone), (ConditionNonRegistrySource, SupportNone), (ConditionUsesEval, SupportNone),
      (ConditionNetworkAccess, SupportNone), (ConditionShellAccess, SupportNone),
      (ConditionFilesystemAccess, SupportNone), (ConditionEnvVarAccess, SupportNone),
      (ConditionNativeBinaryPresent, SupportPartial), (ConditionHighEntropyStrings, SupportNone),
      (ConditionURLStrings, SupportNone), (ConditionMinifiedCode, SupportNone),
      (ConditionTrivialPackage, SupportNone), (ConditionTooManyFiles, SupportFull),
      (ConditionNonExistentAuthor, SupportNone), (ConditionFirstTimeCollaborator, SupportNone),
      (ConditionSuspiciousRepoStars, SupportPartial), (ConditionMaintainerAccountAge, SupportNone),
      (ConditionDangerousPickle, SupportNone), (ConditionUnsafeSerializationFormat, SupportNone),
      (ConditionModelCardInjection, SupportNone), (ConditionAgentToolDangerousCapability, SupportNone),
      (ConditionMCPServerDeclared, SupportNone), (ConditionPromptTemplateInjection, SupportNone)]"

definition row_EcoCargo :: "(ConditionType \<times> SupportLevel) list" where
  "row_EcoCargo =
     [(ConditionScorecard, SupportNone), (ConditionMalwareIndex, SupportFull), (ConditionEPSS,
      SupportFull), (ConditionCVE, SupportFull), (ConditionPackageAge, SupportPartial),
      (ConditionCooldown, SupportFull), (ConditionLicense, SupportFull), (ConditionHasProvenance,
      SupportNone), (ConditionTyposquat, SupportFull), (ConditionCVSS, SupportFull),
      (ConditionReservedNamespaces, SupportFull), (ConditionHasInstallScript, SupportFull),
      (ConditionInstallScriptFetchesRemote, SupportFull), (ConditionImportTimeExecution, SupportNone),
      (ConditionMaliciousIOC, SupportFull), (ConditionBuildRsExecutes, SupportFull),
      (ConditionPublisherChanged, SupportFull), (ConditionVersionAnomaly, SupportFull),
      (ConditionHasHiddenUnicode, SupportFull), (ConditionPublishVelocityAnomaly, SupportNone),
      (ConditionLicenseCopyleft, SupportFull), (ConditionLicenseNonPermissive, SupportFull),
      (ConditionLicenseExceptionPresent, SupportFull), (ConditionLicenseAmbiguousClassifier,
      SupportFull), (ConditionLicenseUnidentified, SupportFull), (ConditionDeprecatedByMaintainer,
      SupportFull), (ConditionShrinkwrapPresent, SupportFull), (ConditionManifestConfusion,
      SupportNone), (ConditionGitDependency, SupportFull), (ConditionHTTPTarballDependency,
      SupportNone), (ConditionWildcardDependencyRange, SupportFull), (ConditionBadDependencySemver,
      SupportFull), (ConditionNonRegistrySource, SupportNone), (ConditionUsesEval, SupportNone),
      (ConditionNetworkAccess, SupportFull), (ConditionShellAccess, SupportFull),
      (ConditionFilesystemAccess, SupportFull), (ConditionEnvVarAccess, SupportFull),
      (ConditionNativeBinaryPresent, SupportFull), (ConditionHighEntropyStrings, SupportFull),
      (ConditionURLStrings, SupportFull), (ConditionMinifiedCode, SupportFull),
      (ConditionTrivialPackage, SupportFull), (ConditionTooManyFiles, SupportFull),
      (ConditionNonExistentAuthor, SupportNone), (ConditionFirstTimeCollaborator, SupportNone),
      (ConditionSuspiciousRepoStars, SupportPartial), (ConditionMaintainerAccountAge, SupportPartial),
      (ConditionDangerousPickle, SupportNone), (ConditionUnsafeSerializationFormat, SupportNone),
      (ConditionModelCardInjection, SupportNone), (ConditionAgentToolDangerousCapability, SupportNone),
      (ConditionMCPServerDeclared, SupportNone), (ConditionPromptTemplateInjection, SupportNone)]"

definition row_EcoComposer :: "(ConditionType \<times> SupportLevel) list" where
  "row_EcoComposer =
     [(ConditionScorecard, SupportNone), (ConditionMalwareIndex, SupportFull), (ConditionEPSS,
      SupportFull), (ConditionCVE, SupportFull), (ConditionPackageAge, SupportFull), (ConditionCooldown,
      SupportFull), (ConditionLicense, SupportFull), (ConditionHasProvenance, SupportNone),
      (ConditionTyposquat, SupportFull), (ConditionCVSS, SupportFull), (ConditionReservedNamespaces,
      SupportFull), (ConditionHasInstallScript, SupportFull), (ConditionInstallScriptFetchesRemote,
      SupportFull), (ConditionImportTimeExecution, SupportFull), (ConditionMaliciousIOC, SupportFull),
      (ConditionBuildRsExecutes, SupportNone), (ConditionPublisherChanged, SupportNone),
      (ConditionVersionAnomaly, SupportFull), (ConditionHasHiddenUnicode, SupportFull),
      (ConditionPublishVelocityAnomaly, SupportNone), (ConditionLicenseCopyleft, SupportFull),
      (ConditionLicenseNonPermissive, SupportFull), (ConditionLicenseExceptionPresent, SupportFull),
      (ConditionLicenseAmbiguousClassifier, SupportFull), (ConditionLicenseUnidentified, SupportFull),
      (ConditionDeprecatedByMaintainer, SupportFull), (ConditionShrinkwrapPresent, SupportFull),
      (ConditionManifestConfusion, SupportNone), (ConditionGitDependency, SupportFull),
      (ConditionHTTPTarballDependency, SupportFull), (ConditionWildcardDependencyRange, SupportPartial),
      (ConditionBadDependencySemver, SupportPartial), (ConditionNonRegistrySource, SupportNone),
      (ConditionUsesEval, SupportFull), (ConditionNetworkAccess, SupportFull), (ConditionShellAccess,
      SupportFull), (ConditionFilesystemAccess, SupportFull), (ConditionEnvVarAccess, SupportFull),
      (ConditionNativeBinaryPresent, SupportFull), (ConditionHighEntropyStrings, SupportFull),
      (ConditionURLStrings, SupportFull), (ConditionMinifiedCode, SupportFull),
      (ConditionTrivialPackage, SupportFull), (ConditionTooManyFiles, SupportFull),
      (ConditionNonExistentAuthor, SupportNone), (ConditionFirstTimeCollaborator, SupportNone),
      (ConditionSuspiciousRepoStars, SupportPartial), (ConditionMaintainerAccountAge, SupportPartial),
      (ConditionDangerousPickle, SupportNone), (ConditionUnsafeSerializationFormat, SupportNone),
      (ConditionModelCardInjection, SupportNone), (ConditionAgentToolDangerousCapability, SupportNone),
      (ConditionMCPServerDeclared, SupportNone), (ConditionPromptTemplateInjection, SupportNone)]"

definition row_EcoRubyGems :: "(ConditionType \<times> SupportLevel) list" where
  "row_EcoRubyGems =
     [(ConditionScorecard, SupportNone), (ConditionMalwareIndex, SupportFull), (ConditionEPSS,
      SupportFull), (ConditionCVE, SupportFull), (ConditionPackageAge, SupportPartial),
      (ConditionCooldown, SupportFull), (ConditionLicense, SupportFull), (ConditionHasProvenance,
      SupportFull), (ConditionTyposquat, SupportFull), (ConditionCVSS, SupportFull),
      (ConditionReservedNamespaces, SupportFull), (ConditionHasInstallScript, SupportFull),
      (ConditionInstallScriptFetchesRemote, SupportFull), (ConditionImportTimeExecution, SupportFull),
      (ConditionMaliciousIOC, SupportFull), (ConditionBuildRsExecutes, SupportNone),
      (ConditionPublisherChanged, SupportFull), (ConditionVersionAnomaly, SupportFull),
      (ConditionHasHiddenUnicode, SupportFull), (ConditionPublishVelocityAnomaly, SupportFull),
      (ConditionLicenseCopyleft, SupportFull), (ConditionLicenseNonPermissive, SupportFull),
      (ConditionLicenseExceptionPresent, SupportFull), (ConditionLicenseAmbiguousClassifier,
      SupportFull), (ConditionLicenseUnidentified, SupportFull), (ConditionDeprecatedByMaintainer,
      SupportNone), (ConditionShrinkwrapPresent, SupportFull), (ConditionManifestConfusion,
      SupportNone), (ConditionGitDependency, SupportFull), (ConditionHTTPTarballDependency,
      SupportNone), (ConditionWildcardDependencyRange, SupportFull), (ConditionBadDependencySemver,
      SupportFull), (ConditionNonRegistrySource, SupportNone), (ConditionUsesEval, SupportFull),
      (ConditionNetworkAccess, SupportFull), (ConditionShellAccess, SupportFull),
      (ConditionFilesystemAccess, SupportFull), (ConditionEnvVarAccess, SupportFull),
      (ConditionNativeBinaryPresent, SupportFull), (ConditionHighEntropyStrings, SupportFull),
      (ConditionURLStrings, SupportFull), (ConditionMinifiedCode, SupportFull),
      (ConditionTrivialPackage, SupportFull), (ConditionTooManyFiles, SupportFull),
      (ConditionNonExistentAuthor, SupportPartial), (ConditionFirstTimeCollaborator, SupportPartial),
      (ConditionSuspiciousRepoStars, SupportPartial), (ConditionMaintainerAccountAge, SupportPartial),
      (ConditionDangerousPickle, SupportNone), (ConditionUnsafeSerializationFormat, SupportNone),
      (ConditionModelCardInjection, SupportNone), (ConditionAgentToolDangerousCapability, SupportNone),
      (ConditionMCPServerDeclared, SupportNone), (ConditionPromptTemplateInjection, SupportNone)]"

definition row_EcoNuGet :: "(ConditionType \<times> SupportLevel) list" where
  "row_EcoNuGet =
     [(ConditionScorecard, SupportNone), (ConditionMalwareIndex, SupportFull), (ConditionEPSS,
      SupportFull), (ConditionCVE, SupportFull), (ConditionPackageAge, SupportPartial),
      (ConditionCooldown, SupportFull), (ConditionLicense, SupportFull), (ConditionHasProvenance,
      SupportFull), (ConditionTyposquat, SupportFull), (ConditionCVSS, SupportFull),
      (ConditionReservedNamespaces, SupportFull), (ConditionHasInstallScript, SupportFull),
      (ConditionInstallScriptFetchesRemote, SupportFull), (ConditionImportTimeExecution, SupportNone),
      (ConditionMaliciousIOC, SupportFull), (ConditionBuildRsExecutes, SupportNone),
      (ConditionPublisherChanged, SupportFull), (ConditionVersionAnomaly, SupportFull),
      (ConditionHasHiddenUnicode, SupportFull), (ConditionPublishVelocityAnomaly, SupportFull),
      (ConditionLicenseCopyleft, SupportFull), (ConditionLicenseNonPermissive, SupportFull),
      (ConditionLicenseExceptionPresent, SupportFull), (ConditionLicenseAmbiguousClassifier,
      SupportFull), (ConditionLicenseUnidentified, SupportFull), (ConditionDeprecatedByMaintainer,
      SupportFull), (ConditionShrinkwrapPresent, SupportNone), (ConditionManifestConfusion,
      SupportNone), (ConditionGitDependency, SupportNone), (ConditionHTTPTarballDependency,
      SupportNone), (ConditionWildcardDependencyRange, SupportNone), (ConditionBadDependencySemver,
      SupportNone), (ConditionNonRegistrySource, SupportNone), (ConditionUsesEval, SupportPartial),
      (ConditionNetworkAccess, SupportPartial), (ConditionShellAccess, SupportPartial),
      (ConditionFilesystemAccess, SupportPartial), (ConditionEnvVarAccess, SupportPartial),
      (ConditionNativeBinaryPresent, SupportFull), (ConditionHighEntropyStrings, SupportPartial),
      (ConditionURLStrings, SupportPartial), (ConditionMinifiedCode, SupportPartial),
      (ConditionTrivialPackage, SupportPartial), (ConditionTooManyFiles, SupportFull),
      (ConditionNonExistentAuthor, SupportNone), (ConditionFirstTimeCollaborator, SupportPartial),
      (ConditionSuspiciousRepoStars, SupportPartial), (ConditionMaintainerAccountAge, SupportNone),
      (ConditionDangerousPickle, SupportNone), (ConditionUnsafeSerializationFormat, SupportNone),
      (ConditionModelCardInjection, SupportNone), (ConditionAgentToolDangerousCapability, SupportNone),
      (ConditionMCPServerDeclared, SupportNone), (ConditionPromptTemplateInjection, SupportNone)]"

definition row_EcoGo :: "(ConditionType \<times> SupportLevel) list" where
  "row_EcoGo =
     [(ConditionScorecard, SupportNone), (ConditionMalwareIndex, SupportFull), (ConditionEPSS,
      SupportFull), (ConditionCVE, SupportFull), (ConditionPackageAge, SupportPartial),
      (ConditionCooldown, SupportFull), (ConditionLicense, SupportFull), (ConditionHasProvenance,
      SupportFull), (ConditionTyposquat, SupportFull), (ConditionCVSS, SupportFull),
      (ConditionReservedNamespaces, SupportFull), (ConditionHasInstallScript, SupportNone),
      (ConditionInstallScriptFetchesRemote, SupportNone), (ConditionImportTimeExecution, SupportNone),
      (ConditionMaliciousIOC, SupportFull), (ConditionBuildRsExecutes, SupportNone),
      (ConditionPublisherChanged, SupportNone), (ConditionVersionAnomaly, SupportFull),
      (ConditionHasHiddenUnicode, SupportFull), (ConditionPublishVelocityAnomaly, SupportNone),
      (ConditionLicenseCopyleft, SupportFull), (ConditionLicenseNonPermissive, SupportFull),
      (ConditionLicenseExceptionPresent, SupportFull), (ConditionLicenseAmbiguousClassifier,
      SupportFull), (ConditionLicenseUnidentified, SupportFull), (ConditionDeprecatedByMaintainer,
      SupportFull), (ConditionShrinkwrapPresent, SupportNone), (ConditionManifestConfusion,
      SupportNone), (ConditionGitDependency, SupportNone), (ConditionHTTPTarballDependency,
      SupportNone), (ConditionWildcardDependencyRange, SupportNone), (ConditionBadDependencySemver,
      SupportFull), (ConditionNonRegistrySource, SupportNone), (ConditionUsesEval, SupportNone),
      (ConditionNetworkAccess, SupportFull), (ConditionShellAccess, SupportFull),
      (ConditionFilesystemAccess, SupportFull), (ConditionEnvVarAccess, SupportFull),
      (ConditionNativeBinaryPresent, SupportFull), (ConditionHighEntropyStrings, SupportFull),
      (ConditionURLStrings, SupportFull), (ConditionMinifiedCode, SupportFull),
      (ConditionTrivialPackage, SupportFull), (ConditionTooManyFiles, SupportFull),
      (ConditionNonExistentAuthor, SupportNone), (ConditionFirstTimeCollaborator, SupportNone),
      (ConditionSuspiciousRepoStars, SupportPartial), (ConditionMaintainerAccountAge, SupportNone),
      (ConditionDangerousPickle, SupportNone), (ConditionUnsafeSerializationFormat, SupportNone),
      (ConditionModelCardInjection, SupportNone), (ConditionAgentToolDangerousCapability, SupportNone),
      (ConditionMCPServerDeclared, SupportNone), (ConditionPromptTemplateInjection, SupportNone)]"

definition row_EcoHuggingFace :: "(ConditionType \<times> SupportLevel) list" where
  "row_EcoHuggingFace =
     [(ConditionScorecard, SupportNone), (ConditionMalwareIndex, SupportFull), (ConditionEPSS,
      SupportFull), (ConditionCVE, SupportFull), (ConditionPackageAge, SupportPartial),
      (ConditionCooldown, SupportFull), (ConditionLicense, SupportFull), (ConditionHasProvenance,
      SupportFull), (ConditionTyposquat, SupportFull), (ConditionCVSS, SupportFull),
      (ConditionReservedNamespaces, SupportFull), (ConditionHasInstallScript, SupportNone),
      (ConditionInstallScriptFetchesRemote, SupportNone), (ConditionImportTimeExecution, SupportNone),
      (ConditionMaliciousIOC, SupportFull), (ConditionBuildRsExecutes, SupportNone),
      (ConditionPublisherChanged, SupportNone), (ConditionVersionAnomaly, SupportFull),
      (ConditionHasHiddenUnicode, SupportPartial), (ConditionPublishVelocityAnomaly, SupportNone),
      (ConditionLicenseCopyleft, SupportFull), (ConditionLicenseNonPermissive, SupportFull),
      (ConditionLicenseExceptionPresent, SupportFull), (ConditionLicenseAmbiguousClassifier,
      SupportFull), (ConditionLicenseUnidentified, SupportFull), (ConditionDeprecatedByMaintainer,
      SupportNone), (ConditionShrinkwrapPresent, SupportNone), (ConditionManifestConfusion,
      SupportNone), (ConditionGitDependency, SupportNone), (ConditionHTTPTarballDependency,
      SupportNone), (ConditionWildcardDependencyRange, SupportNone), (ConditionBadDependencySemver,
      SupportNone), (ConditionNonRegistrySource, SupportNone), (ConditionUsesEval, SupportNone),
      (ConditionNetworkAccess, SupportNone), (ConditionShellAccess, SupportNone),
      (ConditionFilesystemAccess, SupportNone), (ConditionEnvVarAccess, SupportNone),
      (ConditionNativeBinaryPresent, SupportNone), (ConditionHighEntropyStrings, SupportNone),
      (ConditionURLStrings, SupportNone), (ConditionMinifiedCode, SupportNone),
      (ConditionTrivialPackage, SupportNone), (ConditionTooManyFiles, SupportNone),
      (ConditionNonExistentAuthor, SupportNone), (ConditionFirstTimeCollaborator, SupportNone),
      (ConditionSuspiciousRepoStars, SupportNone), (ConditionMaintainerAccountAge, SupportPartial),
      (ConditionDangerousPickle, SupportFull), (ConditionUnsafeSerializationFormat, SupportFull),
      (ConditionModelCardInjection, SupportFull), (ConditionAgentToolDangerousCapability, SupportNone),
      (ConditionMCPServerDeclared, SupportNone), (ConditionPromptTemplateInjection, SupportFull)]"

definition row_EcoCocoaPods :: "(ConditionType \<times> SupportLevel) list" where
  "row_EcoCocoaPods =
     [(ConditionScorecard, SupportNone), (ConditionMalwareIndex, SupportFull), (ConditionEPSS,
      SupportFull), (ConditionCVE, SupportFull), (ConditionPackageAge, SupportPartial),
      (ConditionCooldown, SupportFull), (ConditionLicense, SupportFull), (ConditionHasProvenance,
      SupportNone), (ConditionTyposquat, SupportFull), (ConditionCVSS, SupportFull),
      (ConditionReservedNamespaces, SupportFull), (ConditionHasInstallScript, SupportNone),
      (ConditionInstallScriptFetchesRemote, SupportNone), (ConditionImportTimeExecution, SupportNone),
      (ConditionMaliciousIOC, SupportFull), (ConditionBuildRsExecutes, SupportNone),
      (ConditionPublisherChanged, SupportNone), (ConditionVersionAnomaly, SupportFull),
      (ConditionHasHiddenUnicode, SupportFull), (ConditionPublishVelocityAnomaly, SupportNone),
      (ConditionLicenseCopyleft, SupportFull), (ConditionLicenseNonPermissive, SupportFull),
      (ConditionLicenseExceptionPresent, SupportFull), (ConditionLicenseAmbiguousClassifier,
      SupportFull), (ConditionLicenseUnidentified, SupportFull), (ConditionDeprecatedByMaintainer,
      SupportNone), (ConditionShrinkwrapPresent, SupportNone), (ConditionManifestConfusion,
      SupportNone), (ConditionGitDependency, SupportNone), (ConditionHTTPTarballDependency,
      SupportNone), (ConditionWildcardDependencyRange, SupportNone), (ConditionBadDependencySemver,
      SupportNone), (ConditionNonRegistrySource, SupportNone), (ConditionUsesEval, SupportNone),
      (ConditionNetworkAccess, SupportFull), (ConditionShellAccess, SupportFull),
      (ConditionFilesystemAccess, SupportFull), (ConditionEnvVarAccess, SupportFull),
      (ConditionNativeBinaryPresent, SupportPartial), (ConditionHighEntropyStrings, SupportFull),
      (ConditionURLStrings, SupportFull), (ConditionMinifiedCode, SupportFull),
      (ConditionTrivialPackage, SupportFull), (ConditionTooManyFiles, SupportFull),
      (ConditionNonExistentAuthor, SupportNone), (ConditionFirstTimeCollaborator, SupportNone),
      (ConditionSuspiciousRepoStars, SupportPartial), (ConditionMaintainerAccountAge, SupportNone),
      (ConditionDangerousPickle, SupportNone), (ConditionUnsafeSerializationFormat, SupportNone),
      (ConditionModelCardInjection, SupportNone), (ConditionAgentToolDangerousCapability, SupportNone),
      (ConditionMCPServerDeclared, SupportNone), (ConditionPromptTemplateInjection, SupportNone)]"

definition row_EcoSwift :: "(ConditionType \<times> SupportLevel) list" where
  "row_EcoSwift =
     [(ConditionScorecard, SupportNone), (ConditionMalwareIndex, SupportFull), (ConditionEPSS,
      SupportFull), (ConditionCVE, SupportFull), (ConditionPackageAge, SupportPartial),
      (ConditionCooldown, SupportFull), (ConditionLicense, SupportPartial), (ConditionHasProvenance,
      SupportPartial), (ConditionTyposquat, SupportFull), (ConditionCVSS, SupportFull),
      (ConditionReservedNamespaces, SupportFull), (ConditionHasInstallScript, SupportNone),
      (ConditionInstallScriptFetchesRemote, SupportNone), (ConditionImportTimeExecution, SupportNone),
      (ConditionMaliciousIOC, SupportFull), (ConditionBuildRsExecutes, SupportNone),
      (ConditionPublisherChanged, SupportNone), (ConditionVersionAnomaly, SupportFull),
      (ConditionHasHiddenUnicode, SupportFull), (ConditionPublishVelocityAnomaly, SupportNone),
      (ConditionLicenseCopyleft, SupportPartial), (ConditionLicenseNonPermissive, SupportPartial),
      (ConditionLicenseExceptionPresent, SupportPartial), (ConditionLicenseAmbiguousClassifier,
      SupportPartial), (ConditionLicenseUnidentified, SupportPartial), (ConditionDeprecatedByMaintainer,
      SupportNone), (ConditionShrinkwrapPresent, SupportNone), (ConditionManifestConfusion,
      SupportNone), (ConditionGitDependency, SupportNone), (ConditionHTTPTarballDependency,
      SupportNone), (ConditionWildcardDependencyRange, SupportNone), (ConditionBadDependencySemver,
      SupportNone), (ConditionNonRegistrySource, SupportNone), (ConditionUsesEval, SupportNone),
      (ConditionNetworkAccess, SupportFull), (ConditionShellAccess, SupportFull),
      (ConditionFilesystemAccess, SupportFull), (ConditionEnvVarAccess, SupportFull),
      (ConditionNativeBinaryPresent, SupportFull), (ConditionHighEntropyStrings, SupportFull),
      (ConditionURLStrings, SupportFull), (ConditionMinifiedCode, SupportFull),
      (ConditionTrivialPackage, SupportFull), (ConditionTooManyFiles, SupportFull),
      (ConditionNonExistentAuthor, SupportNone), (ConditionFirstTimeCollaborator, SupportNone),
      (ConditionSuspiciousRepoStars, SupportPartial), (ConditionMaintainerAccountAge, SupportNone),
      (ConditionDangerousPickle, SupportNone), (ConditionUnsafeSerializationFormat, SupportNone),
      (ConditionModelCardInjection, SupportNone), (ConditionAgentToolDangerousCapability, SupportNone),
      (ConditionMCPServerDeclared, SupportNone), (ConditionPromptTemplateInjection, SupportNone)]"

definition row_EcoDocker :: "(ConditionType \<times> SupportLevel) list" where
  "row_EcoDocker =
     [(ConditionScorecard, SupportNone), (ConditionMalwareIndex, SupportFull), (ConditionEPSS,
      SupportFull), (ConditionCVE, SupportFull), (ConditionPackageAge, SupportPartial),
      (ConditionCooldown, SupportFull), (ConditionLicense, SupportFull), (ConditionHasProvenance,
      SupportFull), (ConditionTyposquat, SupportFull), (ConditionCVSS, SupportFull),
      (ConditionReservedNamespaces, SupportFull), (ConditionHasInstallScript, SupportNone),
      (ConditionInstallScriptFetchesRemote, SupportNone), (ConditionImportTimeExecution, SupportNone),
      (ConditionMaliciousIOC, SupportFull), (ConditionBuildRsExecutes, SupportNone),
      (ConditionPublisherChanged, SupportNone), (ConditionVersionAnomaly, SupportNone),
      (ConditionHasHiddenUnicode, SupportNone), (ConditionPublishVelocityAnomaly, SupportNone),
      (ConditionLicenseCopyleft, SupportFull), (ConditionLicenseNonPermissive, SupportFull),
      (ConditionLicenseExceptionPresent, SupportFull), (ConditionLicenseAmbiguousClassifier,
      SupportFull), (ConditionLicenseUnidentified, SupportFull), (ConditionDeprecatedByMaintainer,
      SupportNone), (ConditionShrinkwrapPresent, SupportNone), (ConditionManifestConfusion,
      SupportNone), (ConditionGitDependency, SupportNone), (ConditionHTTPTarballDependency,
      SupportNone), (ConditionWildcardDependencyRange, SupportNone), (ConditionBadDependencySemver,
      SupportNone), (ConditionNonRegistrySource, SupportNone), (ConditionUsesEval, SupportNone),
      (ConditionNetworkAccess, SupportNone), (ConditionShellAccess, SupportNone),
      (ConditionFilesystemAccess, SupportNone), (ConditionEnvVarAccess, SupportNone),
      (ConditionNativeBinaryPresent, SupportNone), (ConditionHighEntropyStrings, SupportNone),
      (ConditionURLStrings, SupportNone), (ConditionMinifiedCode, SupportNone),
      (ConditionTrivialPackage, SupportNone), (ConditionTooManyFiles, SupportNone),
      (ConditionNonExistentAuthor, SupportNone), (ConditionFirstTimeCollaborator, SupportNone),
      (ConditionSuspiciousRepoStars, SupportNone), (ConditionMaintainerAccountAge, SupportPartial),
      (ConditionDangerousPickle, SupportNone), (ConditionUnsafeSerializationFormat, SupportNone),
      (ConditionModelCardInjection, SupportNone), (ConditionAgentToolDangerousCapability, SupportNone),
      (ConditionMCPServerDeclared, SupportNone), (ConditionPromptTemplateInjection, SupportNone)]"

definition row_EcoAPT :: "(ConditionType \<times> SupportLevel) list" where
  "row_EcoAPT =
     [(ConditionScorecard, SupportNone), (ConditionMalwareIndex, SupportPartial), (ConditionEPSS,
      SupportFull), (ConditionCVE, SupportFull), (ConditionPackageAge, SupportNone), (ConditionCooldown,
      SupportPartial), (ConditionLicense, SupportFull), (ConditionHasProvenance, SupportFull),
      (ConditionTyposquat, SupportNone), (ConditionCVSS, SupportFull), (ConditionReservedNamespaces,
      SupportFull), (ConditionHasInstallScript, SupportNone), (ConditionInstallScriptFetchesRemote,
      SupportNone), (ConditionImportTimeExecution, SupportNone), (ConditionMaliciousIOC, SupportFull),
      (ConditionBuildRsExecutes, SupportNone), (ConditionPublisherChanged, SupportNone),
      (ConditionVersionAnomaly, SupportNone), (ConditionHasHiddenUnicode, SupportNone),
      (ConditionPublishVelocityAnomaly, SupportNone), (ConditionLicenseCopyleft, SupportFull),
      (ConditionLicenseNonPermissive, SupportFull), (ConditionLicenseExceptionPresent, SupportFull),
      (ConditionLicenseAmbiguousClassifier, SupportFull), (ConditionLicenseUnidentified, SupportFull),
      (ConditionDeprecatedByMaintainer, SupportNone), (ConditionShrinkwrapPresent, SupportNone),
      (ConditionManifestConfusion, SupportNone), (ConditionGitDependency, SupportNone),
      (ConditionHTTPTarballDependency, SupportNone), (ConditionWildcardDependencyRange, SupportNone),
      (ConditionBadDependencySemver, SupportNone), (ConditionNonRegistrySource, SupportNone),
      (ConditionUsesEval, SupportNone), (ConditionNetworkAccess, SupportNone), (ConditionShellAccess,
      SupportNone), (ConditionFilesystemAccess, SupportNone), (ConditionEnvVarAccess, SupportNone),
      (ConditionNativeBinaryPresent, SupportNone), (ConditionHighEntropyStrings, SupportNone),
      (ConditionURLStrings, SupportNone), (ConditionMinifiedCode, SupportNone),
      (ConditionTrivialPackage, SupportNone), (ConditionTooManyFiles, SupportNone),
      (ConditionNonExistentAuthor, SupportNone), (ConditionFirstTimeCollaborator, SupportNone),
      (ConditionSuspiciousRepoStars, SupportNone), (ConditionMaintainerAccountAge, SupportNone),
      (ConditionDangerousPickle, SupportNone), (ConditionUnsafeSerializationFormat, SupportNone),
      (ConditionModelCardInjection, SupportNone), (ConditionAgentToolDangerousCapability, SupportNone),
      (ConditionMCPServerDeclared, SupportNone), (ConditionPromptTemplateInjection, SupportNone)]"

definition row_EcoYum :: "(ConditionType \<times> SupportLevel) list" where
  "row_EcoYum =
     [(ConditionScorecard, SupportNone), (ConditionMalwareIndex, SupportPartial), (ConditionEPSS,
      SupportFull), (ConditionCVE, SupportFull), (ConditionPackageAge, SupportPartial),
      (ConditionCooldown, SupportFull), (ConditionLicense, SupportFull), (ConditionHasProvenance,
      SupportFull), (ConditionTyposquat, SupportNone), (ConditionCVSS, SupportFull),
      (ConditionReservedNamespaces, SupportFull), (ConditionHasInstallScript, SupportNone),
      (ConditionInstallScriptFetchesRemote, SupportNone), (ConditionImportTimeExecution, SupportNone),
      (ConditionMaliciousIOC, SupportFull), (ConditionBuildRsExecutes, SupportNone),
      (ConditionPublisherChanged, SupportNone), (ConditionVersionAnomaly, SupportNone),
      (ConditionHasHiddenUnicode, SupportNone), (ConditionPublishVelocityAnomaly, SupportNone),
      (ConditionLicenseCopyleft, SupportFull), (ConditionLicenseNonPermissive, SupportFull),
      (ConditionLicenseExceptionPresent, SupportFull), (ConditionLicenseAmbiguousClassifier,
      SupportFull), (ConditionLicenseUnidentified, SupportFull), (ConditionDeprecatedByMaintainer,
      SupportNone), (ConditionShrinkwrapPresent, SupportNone), (ConditionManifestConfusion,
      SupportNone), (ConditionGitDependency, SupportNone), (ConditionHTTPTarballDependency,
      SupportNone), (ConditionWildcardDependencyRange, SupportNone), (ConditionBadDependencySemver,
      SupportNone), (ConditionNonRegistrySource, SupportNone), (ConditionUsesEval, SupportNone),
      (ConditionNetworkAccess, SupportNone), (ConditionShellAccess, SupportNone),
      (ConditionFilesystemAccess, SupportNone), (ConditionEnvVarAccess, SupportNone),
      (ConditionNativeBinaryPresent, SupportNone), (ConditionHighEntropyStrings, SupportNone),
      (ConditionURLStrings, SupportNone), (ConditionMinifiedCode, SupportNone),
      (ConditionTrivialPackage, SupportNone), (ConditionTooManyFiles, SupportNone),
      (ConditionNonExistentAuthor, SupportNone), (ConditionFirstTimeCollaborator, SupportNone),
      (ConditionSuspiciousRepoStars, SupportNone), (ConditionMaintainerAccountAge, SupportNone),
      (ConditionDangerousPickle, SupportNone), (ConditionUnsafeSerializationFormat, SupportNone),
      (ConditionModelCardInjection, SupportNone), (ConditionAgentToolDangerousCapability, SupportNone),
      (ConditionMCPServerDeclared, SupportNone), (ConditionPromptTemplateInjection, SupportNone)]"

definition row_EcoDNF :: "(ConditionType \<times> SupportLevel) list" where
  "row_EcoDNF =
     [(ConditionScorecard, SupportNone), (ConditionMalwareIndex, SupportPartial), (ConditionEPSS,
      SupportFull), (ConditionCVE, SupportFull), (ConditionPackageAge, SupportPartial),
      (ConditionCooldown, SupportFull), (ConditionLicense, SupportFull), (ConditionHasProvenance,
      SupportFull), (ConditionTyposquat, SupportNone), (ConditionCVSS, SupportFull),
      (ConditionReservedNamespaces, SupportFull), (ConditionHasInstallScript, SupportNone),
      (ConditionInstallScriptFetchesRemote, SupportNone), (ConditionImportTimeExecution, SupportNone),
      (ConditionMaliciousIOC, SupportFull), (ConditionBuildRsExecutes, SupportNone),
      (ConditionPublisherChanged, SupportNone), (ConditionVersionAnomaly, SupportNone),
      (ConditionHasHiddenUnicode, SupportNone), (ConditionPublishVelocityAnomaly, SupportNone),
      (ConditionLicenseCopyleft, SupportFull), (ConditionLicenseNonPermissive, SupportFull),
      (ConditionLicenseExceptionPresent, SupportFull), (ConditionLicenseAmbiguousClassifier,
      SupportFull), (ConditionLicenseUnidentified, SupportFull), (ConditionDeprecatedByMaintainer,
      SupportNone), (ConditionShrinkwrapPresent, SupportNone), (ConditionManifestConfusion,
      SupportNone), (ConditionGitDependency, SupportNone), (ConditionHTTPTarballDependency,
      SupportNone), (ConditionWildcardDependencyRange, SupportNone), (ConditionBadDependencySemver,
      SupportNone), (ConditionNonRegistrySource, SupportNone), (ConditionUsesEval, SupportNone),
      (ConditionNetworkAccess, SupportNone), (ConditionShellAccess, SupportNone),
      (ConditionFilesystemAccess, SupportNone), (ConditionEnvVarAccess, SupportNone),
      (ConditionNativeBinaryPresent, SupportNone), (ConditionHighEntropyStrings, SupportNone),
      (ConditionURLStrings, SupportNone), (ConditionMinifiedCode, SupportNone),
      (ConditionTrivialPackage, SupportNone), (ConditionTooManyFiles, SupportNone),
      (ConditionNonExistentAuthor, SupportNone), (ConditionFirstTimeCollaborator, SupportNone),
      (ConditionSuspiciousRepoStars, SupportNone), (ConditionMaintainerAccountAge, SupportNone),
      (ConditionDangerousPickle, SupportNone), (ConditionUnsafeSerializationFormat, SupportNone),
      (ConditionModelCardInjection, SupportNone), (ConditionAgentToolDangerousCapability, SupportNone),
      (ConditionMCPServerDeclared, SupportNone), (ConditionPromptTemplateInjection, SupportNone)]"

definition SupportMatrix :: "(Ecosystem \<times> (ConditionType \<times> SupportLevel) list) list" where
  "SupportMatrix =
     [(EcoNPM, row_EcoNPM), (EcoPyPI, row_EcoPyPI), (EcoMaven, row_EcoMaven), (EcoPub, row_EcoPub),
      (EcoHomebrew, row_EcoHomebrew), (EcoCargo, row_EcoCargo), (EcoComposer, row_EcoComposer),
      (EcoRubyGems, row_EcoRubyGems), (EcoNuGet, row_EcoNuGet), (EcoGo, row_EcoGo), (EcoHuggingFace,
      row_EcoHuggingFace), (EcoCocoaPods, row_EcoCocoaPods), (EcoSwift, row_EcoSwift), (EcoDocker,
      row_EcoDocker), (EcoAPT, row_EcoAPT), (EcoYum, row_EcoYum), (EcoDNF, row_EcoDNF)]"

lemmas matrix_rows =
  row_EcoNPM_def row_EcoPyPI_def row_EcoMaven_def row_EcoPub_def row_EcoHomebrew_def row_EcoCargo_def
  row_EcoComposer_def row_EcoRubyGems_def row_EcoNuGet_def row_EcoGo_def row_EcoHuggingFace_def
  row_EcoCocoaPods_def row_EcoSwift_def row_EcoDocker_def row_EcoAPT_def row_EcoYum_def row_EcoDNF_def

definition Support :: "Ecosystem \<Rightarrow> ConditionType \<Rightarrow> SupportLevel" where
  "Support eco c =
     (case map_of SupportMatrix eco of
        None \<Rightarrow> SupportFull
      | Some row \<Rightarrow> (case map_of row c of None \<Rightarrow> SupportFull | Some level \<Rightarrow> level))"

definition IsUnsupported :: "Ecosystem \<Rightarrow> ConditionType \<Rightarrow> bool" where
  "IsUnsupported eco c \<longleftrightarrow> Support eco c = SupportNone"

definition EcosystemForFormat :: "string \<Rightarrow> Ecosystem" where
  "EcosystemForFormat f =
     (if f \<in> {''npm'', ''bun'', ''yarn''} then EcoNPM
      else if f \<in> {''pip'', ''pypi''} then EcoPyPI
      else if f \<in> {''maven'', ''gradle''} then EcoMaven
      else if f = ''pub'' then EcoPub
      else if f = ''cargo'' then EcoCargo
      else if f = ''composer'' then EcoComposer
      else if f = ''rubygems'' then EcoRubyGems
      else if f = ''nuget'' then EcoNuGet
      else if f \<in> {''go'', ''gomod''} then EcoGo
      else if f = ''huggingface'' then EcoHuggingFace
      else if f = ''cocoapods'' then EcoCocoaPods
      else if f = ''swift'' then EcoSwift
      else if f \<in> {''docker'', ''oci''} then EcoDocker
      else if f = ''apt'' then EcoAPT
      else if f = ''yum'' then EcoYum
      else if f = ''dnf'' then EcoDNF
      else if f \<in> {''homebrew'', ''brew''} then EcoHomebrew
      else [])"

section \<open>The columns that a policy uses\<close>

text \<open>\<open>dedupeConditions\<close> leaves a list of at most one column as it is, and sorts a longer one.\<close>

fun first_seen :: "ConditionType list \<Rightarrow> ConditionType list \<Rightarrow> ConditionType list" where
  "first_seen seen [] = []"
| "first_seen seen (c # cs) = (if c \<in> set seen then first_seen seen cs else c # first_seen (c # seen) cs)"

definition dedupeConditions :: "ConditionType list \<Rightarrow> ConditionType list" where
  "dedupeConditions cs = (if length cs \<le> 1 then cs else sort (first_seen [] cs))"

definition used_when :: "bool \<Rightarrow> ConditionType \<Rightarrow> ConditionType list" where
  "used_when b c = (if b then [c] else [])"

definition conditions_used :: "Conditions \<Rightarrow> ConditionType list" where
  "conditions_used c = concat
     [used_when (cond_IsVulnerable c \<noteq> None \<or> cond_CVSSMin c \<noteq> None \<or> cond_CVSSMax c \<noteq> None \<or> cond_InKEV c \<noteq> None) ConditionCVE,
      used_when (cond_CVSSMin c \<noteq> None \<or> cond_CVSSMax c \<noteq> None) ConditionCVSS,
      used_when (cond_EPSSMin c \<noteq> None \<or> cond_EPSSMax c \<noteq> None) ConditionEPSS,
      used_when (cond_PackageAge c \<noteq> None) ConditionPackageAge,
      used_when (cond_CooldownDays c \<noteq> None) ConditionCooldown,
      used_when (cond_PackageLicense c \<noteq> []) ConditionLicense,
      used_when (cond_HasProvenance c \<noteq> None) ConditionHasProvenance,
      used_when (cond_IsSuspectedTyposquat c \<noteq> None) ConditionTyposquat,
      used_when (cond_IsKnownMalicious c \<noteq> None) ConditionMalwareIndex,
      used_when (cond_ReservedNamespaces c \<noteq> []) ConditionReservedNamespaces,
      used_when (cond_HasInstallScript c \<noteq> None) ConditionHasInstallScript,
      used_when (cond_InstallScriptFetchesRemote c \<noteq> None) ConditionInstallScriptFetchesRemote,
      used_when (cond_ImportTimeExecution c \<noteq> None) ConditionImportTimeExecution,
      used_when (cond_MaliciousIOC c \<noteq> None) ConditionMaliciousIOC,
      used_when (cond_BuildRsExecutes c \<noteq> None) ConditionBuildRsExecutes,
      used_when (cond_PublisherChanged c \<noteq> None) ConditionPublisherChanged,
      used_when (cond_VersionAnomaly c \<noteq> None \<or> cond_VersionAnomalyKinds c \<noteq> []) ConditionVersionAnomaly,
      used_when (cond_HasHiddenUnicode c \<noteq> None \<or> cond_HiddenUnicodeKinds c \<noteq> []) ConditionHasHiddenUnicode,
      used_when (cond_PublishVelocityAnomaly c \<noteq> None) ConditionPublishVelocityAnomaly,
      used_when (cond_LicenseCopyleft c \<noteq> None) ConditionLicenseCopyleft,
      used_when (cond_LicenseNonPermissive c \<noteq> None) ConditionLicenseNonPermissive,
      used_when (cond_LicenseExceptionPresent c \<noteq> None) ConditionLicenseExceptionPresent,
      used_when (cond_LicenseAmbiguousClassifier c \<noteq> None) ConditionLicenseAmbiguousClassifier,
      used_when (cond_LicenseUnidentified c \<noteq> None) ConditionLicenseUnidentified,
      used_when (cond_DeprecatedByMaintainer c \<noteq> None) ConditionDeprecatedByMaintainer,
      used_when (cond_ShrinkwrapPresent c \<noteq> None) ConditionShrinkwrapPresent,
      used_when (cond_ManifestConfusion c \<noteq> None) ConditionManifestConfusion,
      used_when (cond_GitDependency c \<noteq> None) ConditionGitDependency,
      used_when (cond_HTTPTarballDependency c \<noteq> None) ConditionHTTPTarballDependency,
      used_when (cond_WildcardDependencyRange c \<noteq> None) ConditionWildcardDependencyRange,
      used_when (cond_BadDependencySemver c \<noteq> None) ConditionBadDependencySemver,
      used_when (cond_NonRegistrySource c \<noteq> None \<or> cond_NonRegistrySourceUnpinned c \<noteq> None \<or> cond_NonRegistryOriginNotIn c \<noteq> []) ConditionNonRegistrySource,
      used_when (cond_UsesEval c \<noteq> None) ConditionUsesEval,
      used_when (cond_NetworkAccess c \<noteq> None) ConditionNetworkAccess,
      used_when (cond_ShellAccess c \<noteq> None) ConditionShellAccess,
      used_when (cond_FilesystemAccess c \<noteq> None) ConditionFilesystemAccess,
      used_when (cond_EnvVarAccess c \<noteq> None) ConditionEnvVarAccess,
      used_when (cond_NativeBinaryPresent c \<noteq> None) ConditionNativeBinaryPresent,
      used_when (cond_HighEntropyStrings c \<noteq> None) ConditionHighEntropyStrings,
      used_when (cond_URLStrings c \<noteq> None) ConditionURLStrings,
      used_when (cond_MinifiedCode c \<noteq> None) ConditionMinifiedCode,
      used_when (cond_TrivialPackage c \<noteq> None) ConditionTrivialPackage,
      used_when (cond_TooManyFiles c \<noteq> None) ConditionTooManyFiles,
      used_when (cond_NonExistentAuthor c \<noteq> None) ConditionNonExistentAuthor,
      used_when (cond_FirstTimeCollaborator c \<noteq> None) ConditionFirstTimeCollaborator,
      used_when (cond_SuspiciousRepoStars c \<noteq> None) ConditionSuspiciousRepoStars,
      used_when (cond_MaintainerAccountAgeDaysMax c \<noteq> None) ConditionMaintainerAccountAge,
      used_when (cond_DangerousPickle c \<noteq> None) ConditionDangerousPickle,
      used_when (cond_UnsafeSerializationFormat c \<noteq> None) ConditionUnsafeSerializationFormat,
      used_when (cond_ModelCardInjection c \<noteq> None) ConditionModelCardInjection,
      used_when (cond_AgentToolDangerousCapability c \<noteq> None) ConditionAgentToolDangerousCapability,
      used_when (cond_MCPServerDeclared c \<noteq> None) ConditionMCPServerDeclared,
      used_when (cond_PromptTemplateInjection c \<noteq> None) ConditionPromptTemplateInjection]"

definition ConditionsUsedBy :: "Conditions \<Rightarrow> ConditionType list" where
  "ConditionsUsedBy c = dedupeConditions (conditions_used c)"

section \<open>The dark advisory lane\<close>

definition vulnerabilityLaneConditions :: "ConditionType list" where
  "vulnerabilityLaneConditions = [ConditionCVE, ConditionCVSS, ConditionEPSS]"

definition ecosystemsWithAdvisorySource :: "Ecosystem list" where
  "ecosystemsWithAdvisorySource =
     [EcoNPM, EcoPyPI, EcoMaven, EcoCargo, EcoRubyGems, EcoNuGet, EcoComposer, EcoGo, EcoPub, EcoSwift,
      EcoDocker, EcoHomebrew]"

definition EcosystemHasAdvisorySource :: "Ecosystem \<Rightarrow> bool" where
  "EcosystemHasAdvisorySource eco \<longleftrightarrow>
     eco \<notin> set (map fst SupportMatrix) \<or> eco \<in> set ecosystemsWithAdvisorySource"

definition EcosystemsWithoutAdvisorySource :: "Ecosystem list" where
  "EcosystemsWithoutAdvisorySource = filter (\<lambda>e. \<not> EcosystemHasAdvisorySource e) AllEcosystems"

definition DarkAdvisoryConditions :: "Ecosystem \<Rightarrow> Conditions \<Rightarrow> ConditionType list" where
  "DarkAdvisoryConditions eco c =
     (if eco = [] \<or> EcosystemHasAdvisorySource eco then []
      else
        let used = ConditionsUsedBy c in
        if used = [] then []
        else filter (\<lambda>k. k \<in> set used \<and> \<not> IsUnsupported eco k) vulnerabilityLaneConditions)"

section \<open>Facts on the matrix\<close>

lemma first_seen_set: "set (first_seen seen cs) = set cs - set seen"
  by (induction seen cs rule: first_seen.induct) auto

lemma first_seen_distinct: "distinct (first_seen seen cs)"
  by (induction seen cs rule: first_seen.induct) (auto simp: first_seen_set)

lemma dedupeConditions_set [simp]: "set (dedupeConditions cs) = set cs"
  by (simp add: dedupeConditions_def first_seen_set)

lemma short_list: "length xs \<le> 1 \<Longrightarrow> sorted xs \<and> distinct xs"
  by (cases xs) auto

lemma dedupeConditions_sorted: "sorted (dedupeConditions cs)"
  using short_list[of cs] unfolding dedupeConditions_def by (cases "length cs \<le> 1") simp_all

lemma dedupeConditions_distinct: "distinct (dedupeConditions cs)"
  using short_list[of cs] unfolding dedupeConditions_def
  by (cases "length cs \<le> 1") (simp_all add: first_seen_distinct)

lemma used_when_mem [simp]: "(k \<in> set (used_when b c)) = (b \<and> k = c)"
  by (auto simp: used_when_def)

lemma rows_uniform: "list_all (\<lambda>(e, row). map fst row = map fst row_EcoNPM) SupportMatrix"
  by (simp add: SupportMatrix_def matrix_rows)

lemma row_columns: "set (map fst row_EcoNPM) = set AllConditions"
  by (simp add: row_EcoNPM_def AllConditions_def insert_commute)

lemma matrix_row: "map_of SupportMatrix e = Some row \<Longrightarrow> set (map fst row) = set AllConditions"
proof -
  assume "map_of SupportMatrix e = Some row"
  then have "map fst row = map fst row_EcoNPM"
    using rows_uniform by (auto simp: list_all_iff dest!: map_of_SomeD)
  then show ?thesis using row_columns by metis
qed

lemma matrix_ecosystems: "set (map fst SupportMatrix) = set AllEcosystems"
  by (simp add: SupportMatrix_def AllEcosystems_def insert_commute)

lemma Support_defined:
  assumes "e \<in> set AllEcosystems" and "c \<in> set AllConditions"
  shows "\<exists>row level. map_of SupportMatrix e = Some row \<and> map_of row c = Some level \<and> Support e c = level"
proof -
  have "e \<in> set (map fst SupportMatrix)" using assms(1) matrix_ecosystems by blast
  then obtain row where row: "map_of SupportMatrix e = Some row"
    by (metis list.set_map map_of_eq_None_iff option.exhaust)
  have "c \<in> set (map fst row)" using matrix_row[OF row] assms(2) by blast
  then obtain level where "map_of row c = Some level"
    by (metis list.set_map map_of_eq_None_iff option.exhaust)
  with row show ?thesis by (simp add: Support_def)
qed

lemma EcosystemForFormat_known: "EcosystemForFormat f = [] \<or> EcosystemForFormat f \<in> set AllEcosystems"
  by (simp add: EcosystemForFormat_def AllEcosystems_def)

lemma ConditionsUsedBy_columns: "set (ConditionsUsedBy c) \<subseteq> set AllConditions"
proof
  fix k assume "k \<in> set (ConditionsUsedBy c)"
  then have "k \<in> set (conditions_used c)" by (simp add: ConditionsUsedBy_def)
  then show "k \<in> set AllConditions"
    unfolding conditions_used_def set_concat by (auto simp: AllConditions_def)
qed

text \<open>
  The support matrix has an entry for every column that a policy can use on every ecosystem that a format
  resolves to: no pair falls through to the default, which would report an unknown pair as supported.
\<close>

theorem support_matrix_total:
  assumes "EcosystemForFormat f \<noteq> []" and "k \<in> set (ConditionsUsedBy c)"
  shows "\<exists>row level. map_of SupportMatrix (EcosystemForFormat f) = Some row \<and> map_of row k = Some level \<and>
     IsUnsupported (EcosystemForFormat f) k = (level = SupportNone)"
  using Support_defined[of "EcosystemForFormat f" k] EcosystemForFormat_known[of f] ConditionsUsedBy_columns[of c] assms
  by (auto simp: IsUnsupported_def)

lemma support_matrix_total_witness:
  "\<exists>row level. map_of SupportMatrix EcoNPM = Some row \<and> map_of row ConditionBuildRsExecutes = Some level \<and>
     IsUnsupported EcoNPM ConditionBuildRsExecutes = (level = SupportNone)"
proof -
  have "EcosystemForFormat ''yarn'' = EcoNPM" by (simp add: EcosystemForFormat_def)
  moreover have "EcoNPM \<noteq> []" by (simp add: EcoNPM_def)
  moreover have "ConditionBuildRsExecutes \<in> set (ConditionsUsedBy (no_conditions\<lparr>cond_BuildRsExecutes := Some True\<rparr>))"
    by (simp add: ConditionsUsedBy_def conditions_used_def used_when_def no_conditions_def)
  ultimately show ?thesis
    using support_matrix_total[of "''yarn''" ConditionBuildRsExecutes "no_conditions\<lparr>cond_BuildRsExecutes := Some True\<rparr>"]
    by simp
qed

end
