(* ===== verification/PolicyMatch.thy ===== *)
theory PolicyMatch
  imports PolicyMatrix Origin GoNet Normalize
begin

text \<open>
  The matchers of policy/evaluator.go: does a rule target a coordinate (\<open>matchesIdentifier\<close>), a requester
  (\<open>matchesScope\<close>), and do the facts of the package satisfy its conditions (\<open>matchesConditions\<close>, a
  conjunction over the fields that are set, here in groups in the order of the source). The semver
  library is a parameter.
\<close>

section \<open>Helpers\<close>

text \<open>\<open>Masterminds/semver\<close>: parsing a version, parsing a constraint, and the check.\<close>

record ('v, 'c) Semver =
  NewVersion :: "string \<Rightarrow> 'v option"
  NewConstraint :: "string \<Rightarrow> 'c option"
  Check_constraint :: "'c \<Rightarrow> 'v \<Rightarrow> bool"

definition matchesPattern :: "string \<Rightarrow> string \<Rightarrow> bool" where
  "matchesPattern v pattern \<longleftrightarrow> pattern = ''*'' \<or> EqualFold v pattern"

definition format_ecosystem :: "string \<Rightarrow> Ecosystem" where
  "format_ecosystem f = EcosystemForFormat (ToLower (TrimSpace f))"

definition matchesPackageName :: "string \<Rightarrow> string \<Rightarrow> string \<Rightarrow> bool" where
  "matchesPackageName format v pattern =
     (if pattern = ''*'' then True
      else if format_ecosystem format = EcoPyPI then NormalizePyPI v = NormalizePyPI pattern
      else matchesPattern v pattern)"

definition matchesVersion :: "('v, 'c) Semver \<Rightarrow> string \<Rightarrow> string \<Rightarrow> bool" where
  "matchesVersion sv version constraint =
     (if TrimSpace constraint = ''*'' then True
      else
        (case NewVersion sv version of
           None \<Rightarrow> EqualFold version constraint
         | Some v \<Rightarrow>
             (case NewConstraint sv constraint of
                None \<Rightarrow> EqualFold version constraint
              | Some c \<Rightarrow> Check_constraint sv c v)))"

definition matchesEcosystemList :: "string \<Rightarrow> string list \<Rightarrow> bool" where
  "matchesEcosystemList format allowed =
     (let f = ToLower (TrimSpace format) in
      f \<noteq> [] \<and> (\<exists>eco \<in> set allowed. EqualFold (TrimSpace eco) f))"

definition provenanceVerified :: "string \<Rightarrow> bool" where
  "provenanceVerified status \<longleftrightarrow> EqualFold (TrimSpace status) ''verified''"

definition containsAnySubstring :: "string \<Rightarrow> string list \<Rightarrow> bool" where
  "containsAnySubstring haystack needles \<longleftrightarrow>
     haystack \<noteq> [] \<and> (\<exists>n \<in> set needles. n \<noteq> [] \<and> Contains haystack n)"

definition list_contains :: "string list \<Rightarrow> string \<Rightarrow> bool" where
  "list_contains xs v \<longleftrightarrow> (\<exists>x \<in> set xs. EqualFold (TrimSpace x) (TrimSpace v))"

text \<open>The loop of \<open>spdxExpressionTokens\<close>: the tokens seen, and whether the last one was WITH.\<close>

fun spdx_tokens :: "string list \<Rightarrow> bool \<Rightarrow> string list \<Rightarrow> string list" where
  "spdx_tokens seen skip [] = []"
| "spdx_tokens seen skip (f # fs) =
     (let field = TrimSpace f; upper = ToUpper field in
      if upper \<in> {[], ''AND'', ''OR''} then spdx_tokens seen skip fs
      else if upper = ''WITH'' then spdx_tokens seen True fs
      else if skip then spdx_tokens seen False fs
      else if upper \<in> set seen then spdx_tokens seen skip fs
      else field # spdx_tokens (upper # seen) skip fs)"

definition spdxExpressionTokens :: "string \<Rightarrow> string list" where
  "spdxExpressionTokens expr =
     (let e = TrimSpace expr in
      if e = [] then []
      else
        spdx_tokens [] False
          (Fields (map (\<lambda>c. if c = CHR ''('' \<or> c = CHR '')'' then CHR '' '' else c) e)))"

definition matchesLicenseCondition :: "string list \<Rightarrow> string \<Rightarrow> bool" where
  "matchesLicenseCondition licenses resolved =
     (let r = TrimSpace resolved in
      r \<noteq> [] \<and> (list_contains licenses r \<or> (\<exists>t \<in> set (spdxExpressionTokens r). list_contains licenses t)))"

definition hasAnyIntersection :: "string list \<Rightarrow> string list \<Rightarrow> bool" where
  "hasAnyIntersection xs ys \<longleftrightarrow> (\<exists>x \<in> set xs. \<exists>y \<in> set ys. EqualFold (TrimSpace x) (TrimSpace y))"

definition hasAnyKindIntersection :: "string list \<Rightarrow> string list \<Rightarrow> bool" where
  "hasAnyKindIntersection policyKinds ctxKinds \<longleftrightarrow>
     (\<exists>x \<in> set policyKinds. \<exists>y \<in> set ctxKinds.
        ToLower (TrimSpace x) \<noteq> [] \<and> ToLower (TrimSpace x) = ToLower (TrimSpace y))"

definition hasLicenseTag :: "string list \<Rightarrow> string \<Rightarrow> bool" where
  "hasLicenseTag tags want \<longleftrightarrow> want \<in> set tags"

definition isUnrestrictedScopeValue :: "string \<Rightarrow> bool" where
  "isUnrestrictedScopeValue s \<longleftrightarrow> TrimSpace s = ''*'' \<or> EqualFold (TrimSpace s) ''all''"

definition hasMeaningfulValue :: "string \<Rightarrow> bool" where
  "hasMeaningfulValue s \<longleftrightarrow> TrimSpace s \<noteq> [] \<and> TrimSpace s \<noteq> ''*'' \<and> \<not> EqualFold (TrimSpace s) ''all''"

definition hasMeaningfulValues :: "string list \<Rightarrow> bool" where
  "hasMeaningfulValues xs \<longleftrightarrow> (\<exists>x \<in> set xs. hasMeaningfulValue x)"

definition matchesCountryList :: "string \<Rightarrow> string list \<Rightarrow> bool" where
  "matchesCountryList country patterns \<longleftrightarrow>
     (\<exists>p \<in> set patterns. TrimSpace p \<noteq> [] \<and>
        (isUnrestrictedScopeValue (TrimSpace p) \<or> EqualFold (TrimSpace p) (TrimSpace country)))"

text \<open>One pattern of \<open>matchesIPList\<close> against an unmapped address.\<close>

definition ip_matches :: "Addr \<Rightarrow> string \<Rightarrow> bool" where
  "ip_matches ip pattern =
     (let p = TrimSpace pattern in
      if p = [] then False
      else if isUnrestrictedScopeValue p then True
      else if Contains p ''/'' then
        (case ParsePrefix p of None \<Rightarrow> False | Some pre \<Rightarrow> Prefix_Contains (Masked pre) ip)
      else (case ParseAddr p of None \<Rightarrow> False | Some a \<Rightarrow> Unmap a = ip))"

definition matchesIPList :: "string \<Rightarrow> string list \<Rightarrow> bool" where
  "matchesIPList ip patterns =
     (if \<exists>p \<in> set patterns. isUnrestrictedScopeValue p then True
      else
        (case ParseAddr (TrimSpace ip) of
           None \<Rightarrow> False
         | Some a \<Rightarrow> \<exists>p \<in> set patterns. ip_matches (Unmap a) p))"

text \<open>One pattern of \<open>matchesReservedNamespace\<close>.\<close>

definition namespace_matches :: "string \<Rightarrow> string \<Rightarrow> bool" where
  "namespace_matches name pattern =
     (let p = TrimSpace pattern in
      if p = [] then False
      else if HasSuffix p ''*'' then HasPrefix (ToLower name) (ToLower (take (length p - 1) p))
      else if HasSuffix p ''/'' \<and> HasPrefix p ''@'' then HasPrefix (ToLower name) (ToLower p)
      else if HasSuffix p ''.'' then HasPrefix (ToLower name) (ToLower p)
      else path_match (ToLower p) (ToLower name) = Some True \<or> EqualFold name p)"

definition matchesReservedNamespace :: "string \<Rightarrow> string list \<Rightarrow> bool" where
  "matchesReservedNamespace name patterns \<longleftrightarrow> (\<exists>p \<in> set patterns. namespace_matches name p)"

definition nonRegistryOriginAllowed :: "string list \<Rightarrow> string \<Rightarrow> bool" where
  "nonRegistryOriginAllowed patterns loc \<longleftrightarrow> (\<exists>p \<in> set patterns. MatchLocation (TrimSpace p) loc)"

section \<open>Identifier and scope\<close>

definition matchesIdentifier :: "('v, 'c) Semver \<Rightarrow> EvaluationContext \<Rightarrow> Identifier \<Rightarrow> bool" where
  "matchesIdentifier sv x i =
     (if id_TargetPackageName i = [] \<and> id_TargetPackageRepo i = [] \<and> id_TargetPackageVersion i = [] then True
      else if id_TargetPackageRepo i \<noteq> [] \<and> \<not> matchesPattern (ctx_Repository x) (id_TargetPackageRepo i) then False
      else if id_TargetPackageName i \<noteq> [] \<and>
              \<not> matchesPackageName (ctx_RepositoryFormat x) (ctx_PackageName x) (id_TargetPackageName i) then False
      else if id_TargetPackageVersion i \<noteq> [] \<and>
              \<not> matchesVersion sv (ctx_PackageVersion x) (id_TargetPackageVersion i) then False
      else True)"

definition matchesScope :: "EvaluationContext \<Rightarrow> Scope \<Rightarrow> bool" where
  "matchesScope x s =
     (if scope_isEmpty s then True
      else if scope_TargetClient s \<noteq> [] \<and> \<not> list_contains (scope_TargetClient s) (ctx_ClientID x) then False
      else if scope_TargetGroup s \<noteq> [] \<and> \<not> hasAnyIntersection (scope_TargetGroup s) (ctx_ClientGroups x) then False
      else if scope_TargetRepos s \<noteq> [] \<and> \<not> list_contains (scope_TargetRepos s) (ctx_Repository x) then False
      else if scope_TargetRequestingCountry s \<noteq> [] \<and>
              \<not> matchesCountryList (ctx_RequestingCountry x) (scope_TargetRequestingCountry s) then False
      else if scope_TargetRequestingIP s \<noteq> [] \<and>
              \<not> matchesIPList (ctx_RequestingIP x) (scope_TargetRequestingIP s) then False
      else True)"

section \<open>Conditions\<close>

text \<open>A pointer that is set must agree with the fact; a bound that is set must hold.\<close>

definition agrees :: "bool option \<Rightarrow> bool \<Rightarrow> bool" where
  "agrees c v = (case c of None \<Rightarrow> True | Some b \<Rightarrow> b = v)"

definition at_least :: "'a::linorder option \<Rightarrow> 'a \<Rightarrow> bool" where
  "at_least c v = (case c of None \<Rightarrow> True | Some b \<Rightarrow> b \<le> v)"

definition at_most :: "'a::linorder option \<Rightarrow> 'a \<Rightarrow> bool" where
  "at_most c v = (case c of None \<Rightarrow> True | Some b \<Rightarrow> v \<le> b)"

definition young_enough :: "int \<Rightarrow> int option \<Rightarrow> int \<Rightarrow> bool" where
  "young_enough now date n = (case date of None \<Rightarrow> False | Some t \<Rightarrow> age_days now t \<le> n)"

text \<open>Attestation identity counts only when the provenance verified.\<close>

definition proven :: "EvaluationContext \<Rightarrow> string \<Rightarrow> string" where
  "proven x s = (if provenanceVerified (ctx_ProvenanceStatus x) then s else [])"

definition DefaultPublishVelocityThreshold24h :: int where "DefaultPublishVelocityThreshold24h = 20"

definition velocity_threshold :: "Conditions \<Rightarrow> int" where
  "velocity_threshold c =
     (case cond_PublishVelocityThreshold24h c of
        Some n \<Rightarrow> if 0 < n then n else DefaultPublishVelocityThreshold24h
      | None \<Rightarrow> DefaultPublishVelocityThreshold24h)"

definition match_ecosystem :: "EvaluationContext \<Rightarrow> Conditions \<Rightarrow> bool" where
  "match_ecosystem x c \<longleftrightarrow>
     (cond_Ecosystems c \<noteq> [] \<longrightarrow> matchesEcosystemList (ctx_RepositoryFormat x) (cond_Ecosystems c))"

definition match_age :: "int \<Rightarrow> EvaluationContext \<Rightarrow> Conditions \<Rightarrow> bool" where
  "match_age now x c \<longleftrightarrow>
     (case cond_PackageAge c of None \<Rightarrow> True | Some n \<Rightarrow> young_enough now (ctx_PackageReleaseDate x) n) \<and>
     (case cond_CooldownDays c of None \<Rightarrow> True | Some n \<Rightarrow> young_enough now (ctx_VersionReleaseDate x) n)"

definition match_vulnerability :: "EvaluationContext \<Rightarrow> Conditions \<Rightarrow> bool" where
  "match_vulnerability x c \<longleftrightarrow>
     at_least (cond_CVSSMin c) (ctx_CVSSScore x) \<and>
     at_most (cond_CVSSMax c) (ctx_CVSSScore x) \<and>
     at_least (cond_EPSSMin c) (ctx_EPSSScore x) \<and>
     at_most (cond_EPSSMax c) (ctx_EPSSScore x) \<and>
     agrees (cond_InKEV c) (ctx_InKEV x \<or> (ctx_KEVUnavailable x \<and> ctx_IsVulnerable x))"

definition match_licence :: "EvaluationContext \<Rightarrow> Conditions \<Rightarrow> bool" where
  "match_licence x c \<longleftrightarrow>
     (cond_PackageLicense c \<noteq> [] \<longrightarrow> matchesLicenseCondition (cond_PackageLicense c) (ctx_LicenseSPDX x))"

definition match_attestation :: "EvaluationContext \<Rightarrow> Conditions \<Rightarrow> bool" where
  "match_attestation x c \<longleftrightarrow>
     agrees (cond_HasProvenance c) (ctx_HasProvenance x) \<and>
     agrees (cond_RequireAttestation c) (ctx_HasProvenance x \<and> 1 \<le> ctx_SLSALevel x) \<and>
     at_least (cond_RequireSLSALevel c) (ctx_SLSALevel x) \<and>
     (cond_RequireBuilderID c \<noteq> [] \<longrightarrow> containsAnySubstring (proven x (ctx_AttestationBuilderID x)) (cond_RequireBuilderID c)) \<and>
     (cond_RequireBuilderIssuer c \<noteq> [] \<longrightarrow> containsAnySubstring (proven x (ctx_AttestationIssuer x)) (cond_RequireBuilderIssuer c)) \<and>
     (cond_RequireSourceRepo c \<noteq> [] \<longrightarrow> containsAnySubstring (proven x (ctx_AttestationSourceRepo x)) (cond_RequireSourceRepo c)) \<and>
     agrees (cond_RequireTransparencyLog c) (proven x (ctx_AttestationTransparencyLog x) \<noteq> []) \<and>
     (cond_ForbidCacheStale c = Some True \<longrightarrow> \<not> ctx_AttestationCacheStale x)"

definition match_trust :: "EvaluationContext \<Rightarrow> Conditions \<Rightarrow> bool" where
  "match_trust x c \<longleftrightarrow>
     agrees (cond_IsSuspectedTyposquat c) (ctx_IsSuspectedTyposquat x) \<and>
     agrees (cond_IsKnownMalicious c) (ctx_IsKnownMalicious x) \<and>
     (cond_TrustScoreMin c \<noteq> None \<longrightarrow> ctx_TrustScore x \<noteq> None \<and> the (cond_TrustScoreMin c) \<le> the (ctx_TrustScore x)) \<and>
     (cond_TrustScoreMax c \<noteq> None \<longrightarrow> ctx_TrustScore x \<noteq> None \<and> the (ctx_TrustScore x) \<le> the (cond_TrustScoreMax c)) \<and>
     (cond_ReservedNamespaces c \<noteq> [] \<longrightarrow> matchesReservedNamespace (ctx_PackageName x) (cond_ReservedNamespaces c))"

definition match_behaviour :: "EvaluationContext \<Rightarrow> Conditions \<Rightarrow> bool" where
  "match_behaviour x c \<longleftrightarrow>
     agrees (cond_HasInstallScript c) (ctx_HasInstallScript x) \<and>
     agrees (cond_InstallScriptFetchesRemote c) (ctx_InstallScriptFetchesRemote x) \<and>
     agrees (cond_ImportTimeExecution c) (ctx_ImportTimeExecution x) \<and>
     agrees (cond_MaliciousIOC c) (ctx_MaliciousIOC x) \<and>
     agrees (cond_BuildRsExecutes c) (ctx_BuildRsExecutes x) \<and>
     agrees (cond_PublisherChanged c) (ctx_PublisherChanged x) \<and>
     agrees (cond_VersionAnomaly c) (ctx_VersionAnomaly x \<or> ctx_VersionAnomalyFlags x \<noteq> []) \<and>
     (cond_VersionAnomalyKinds c \<noteq> [] \<longrightarrow> hasAnyIntersection (cond_VersionAnomalyKinds c) (ctx_VersionAnomalyFlags x)) \<and>
     agrees (cond_HasHiddenUnicode c) (ctx_HasHiddenUnicode x) \<and>
     (cond_HiddenUnicodeKinds c \<noteq> [] \<longrightarrow> hasAnyKindIntersection (cond_HiddenUnicodeKinds c) (ctx_HiddenUnicodeKinds x)) \<and>
     agrees (cond_PublishVelocityAnomaly c) (velocity_threshold c < ctx_PublishVelocity24h x)"

definition match_manifest :: "EvaluationContext \<Rightarrow> Conditions \<Rightarrow> bool" where
  "match_manifest x c \<longleftrightarrow>
     agrees (cond_LicenseCopyleft c) (hasLicenseTag (ctx_LicenseTags x) ''license.copyleft'') \<and>
     agrees (cond_LicenseNonPermissive c) (hasLicenseTag (ctx_LicenseTags x) ''license.non_permissive'') \<and>
     agrees (cond_LicenseExceptionPresent c) (hasLicenseTag (ctx_LicenseTags x) ''license.exception_present'') \<and>
     agrees (cond_LicenseAmbiguousClassifier c) (hasLicenseTag (ctx_LicenseTags x) ''license.ambiguous_classifier'') \<and>
     agrees (cond_LicenseUnidentified c) (hasLicenseTag (ctx_LicenseTags x) ''license.unidentified'') \<and>
     agrees (cond_DeprecatedByMaintainer c) (ctx_DeprecatedByMaintainer x) \<and>
     agrees (cond_ShrinkwrapPresent c) (ctx_ShrinkwrapPresent x) \<and>
     agrees (cond_ManifestConfusion c) (ctx_ManifestConfusion x) \<and>
     agrees (cond_GitDependency c) (ctx_GitDependency x) \<and>
     agrees (cond_HTTPTarballDependency c) (ctx_HTTPTarballDependency x)"

definition match_origin :: "EvaluationContext \<Rightarrow> Conditions \<Rightarrow> bool" where
  "match_origin x c \<longleftrightarrow>
     agrees (cond_NonRegistrySource c) (ctx_NonRegistrySource x) \<and>
     agrees (cond_NonRegistrySourceUnpinned c) (ctx_NonRegistrySource x \<and> ctx_NonRegistrySourceUnpinned x) \<and>
     (hasMeaningfulValues (cond_NonRegistryOriginNotIn c) \<longrightarrow>
       ctx_NonRegistrySource x \<and> \<not> nonRegistryOriginAllowed (cond_NonRegistryOriginNotIn c) (ctx_NonRegistryOrigin x))"

definition match_source_code :: "EvaluationContext \<Rightarrow> Conditions \<Rightarrow> bool" where
  "match_source_code x c \<longleftrightarrow>
     agrees (cond_WildcardDependencyRange c) (ctx_WildcardDependencyRange x) \<and>
     agrees (cond_BadDependencySemver c) (ctx_BadDependencySemver x) \<and>
     agrees (cond_UsesEval c) (ctx_UsesEval x) \<and>
     agrees (cond_NetworkAccess c) (ctx_NetworkAccess x) \<and>
     agrees (cond_ShellAccess c) (ctx_ShellAccess x) \<and>
     agrees (cond_FilesystemAccess c) (ctx_FilesystemAccess x) \<and>
     agrees (cond_EnvVarAccess c) (ctx_EnvVarAccess x) \<and>
     agrees (cond_NativeBinaryPresent c) (ctx_NativeBinaryPresent x) \<and>
     agrees (cond_HighEntropyStrings c) (ctx_HighEntropyStrings x) \<and>
     agrees (cond_URLStrings c) (ctx_URLStrings x) \<and>
     agrees (cond_MinifiedCode c) (ctx_MinifiedCode x) \<and>
     agrees (cond_TrivialPackage c) (ctx_TrivialPackage x) \<and>
     agrees (cond_TooManyFiles c) (ctx_TooManyFiles x) \<and>
     agrees (cond_NonExistentAuthor c) (ctx_NonExistentAuthor x)"

definition match_publisher :: "EvaluationContext \<Rightarrow> Conditions \<Rightarrow> bool" where
  "match_publisher x c \<longleftrightarrow>
     (cond_FirstTimeCollaborator c \<noteq> None \<longrightarrow> ctx_FirstTimeCollaborator x = cond_FirstTimeCollaborator c) \<and>
     agrees (cond_SuspiciousRepoStars c) (ctx_SuspiciousRepoStars x) \<and>
     (case cond_MaintainerAccountAgeDaysMax c of None \<Rightarrow> True
      | Some n \<Rightarrow> 0 < ctx_MaintainerAccountAgeDays x \<and> ctx_MaintainerAccountAgeDays x \<le> n)"

definition match_ai_artifact :: "EvaluationContext \<Rightarrow> Conditions \<Rightarrow> bool" where
  "match_ai_artifact x c \<longleftrightarrow>
     agrees (cond_DangerousPickle c) (ctx_DangerousPickle x) \<and>
     agrees (cond_UnsafeSerializationFormat c) (ctx_UnsafeSerializationFormat x) \<and>
     agrees (cond_ModelCardInjection c) (ctx_ModelCardInjection x) \<and>
     agrees (cond_AgentToolDangerousCapability c) (ctx_AgentToolDangerousCapability x) \<and>
     agrees (cond_MCPServerDeclared c) (ctx_MCPServerDeclared x) \<and>
     agrees (cond_PromptTemplateInjection c) (ctx_PromptTemplateInjection x)"

definition matchesConditions :: "int \<Rightarrow> EvaluationContext \<Rightarrow> Conditions \<Rightarrow> bool" where
  "matchesConditions now x c \<longleftrightarrow>
     match_ecosystem x c \<and>
     agrees (cond_IsVulnerable c) (ctx_IsVulnerable x) \<and>
     match_age now x c \<and>
     match_vulnerability x c \<and>
     match_licence x c \<and>
     match_attestation x c \<and>
     match_trust x c \<and>
     match_behaviour x c \<and>
     match_manifest x c \<and>
     match_origin x c \<and>
     match_source_code x c \<and>
     match_publisher x c \<and>
     match_ai_artifact x c"

lemmas match_defs =
  match_ecosystem_def match_age_def match_vulnerability_def match_licence_def match_attestation_def match_trust_def
  match_behaviour_def match_manifest_def match_origin_def match_source_code_def match_publisher_def match_ai_artifact_def

section \<open>Policies\<close>

definition ExceptionExcludesMalware :: "Policy \<Rightarrow> bool" where
  "ExceptionExcludesMalware p \<longleftrightarrow>
     pol_Kind p = KindException \<and> cond_IsKnownMalicious (pol_Conditions p) = Some False"

definition matchesPolicy :: "('v, 'c) Semver \<Rightarrow> int \<Rightarrow> EvaluationContext \<Rightarrow> Policy \<Rightarrow> bool" where
  "matchesPolicy sv now x p =
     (if \<not> matchesIdentifier sv x (pol_Identifier p) then False
      else if \<not> matchesScope x (pol_Scope p) then False
      else if pol_Kind p = KindException then \<not> (ExceptionExcludesMalware p \<and> ctx_IsKnownMalicious x)
      else matchesConditions now x (pol_Conditions p))"

lemma agrees_simps [simp]: "agrees None v" "agrees (Some b) v = (b = v)"
  by (simp_all add: agrees_def)

lemma bound_simps [simp]:
  "at_least None v" "at_least (Some b) v = (b \<le> v)" "at_most None v" "at_most (Some b) v = (v \<le> b)"
  by (simp_all add: at_least_def at_most_def)

text \<open>A rule without conditions matches every package, and one without scope or identifier too.\<close>

lemma matches_no_conditions [simp]: "matchesConditions now x no_conditions"
  by (simp add: matchesConditions_def match_defs no_conditions_def hasMeaningfulValues_def)

lemma matches_no_scope [simp]: "matchesScope x no_scope"
  by (simp add: matchesScope_def no_scope_def scope_isEmpty_def)

lemma matches_no_identifier [simp]: "matchesIdentifier sv x no_identifier"
  by (simp add: matchesIdentifier_def no_identifier_def)

end
