(* ===== verification/PolicyEvaluator.thy ===== *)
theory PolicyEvaluator
  imports PolicyMatch
begin

text \<open>
  policy/evaluator.go from the evaluation loop outwards: expiry of exceptions, the guards that skip a rule,
  the grace window, the first-match loop with its monitor rule, and the stamp of a bypass suspect.
  An evaluation returns its result together with the events that it emits, in order; the
  collaborators that the server injects are fields of \<open>Evaluator\<close>.
\<close>

section \<open>Results, events, collaborators\<close>

record EvaluationResult =
  res_Action :: Mode
  res_MatchedPolicy :: "Policy option"
  res_Reason :: string

record SkipAuditEvent =
  sk_OrgID :: string
  sk_PolicyID :: string
  sk_Ecosystem :: string
  sk_Condition :: string
  sk_Reason :: string
  sk_RuleEvaluated :: bool

text \<open>An audit event, or a sample of the counter of gates without a publish date.\<close>

datatype event = Audit SkipAuditEvent | DateUnavailable string string

record graceMode =
  grace_flag :: "string \<Rightarrow> bool"
  grace_preexisting :: "string \<Rightarrow> string \<Rightarrow> string \<Rightarrow> int \<Rightarrow> bool"

record ('v, 'c) Evaluator =
  ev_semver :: "('v, 'c) Semver"
  ev_auditor :: bool
  ev_logger :: bool
  ev_bypassChecker :: "(string \<Rightarrow> string \<Rightarrow> bool) option"
  ev_grace :: "graceMode option"

definition SkipReasonUnsupportedEcosystem :: string where
  "SkipReasonUnsupportedEcosystem = ''unsupported_ecosystem''"
definition SkipReasonChecksumUnavailable :: string where
  "SkipReasonChecksumUnavailable = ''checksum_unavailable''"
definition SkipReasonNoAdvisorySource :: string where
  "SkipReasonNoAdvisorySource = ''no_advisory_source''"
definition SkipReasonPublishDateUnavailable :: string where
  "SkipReasonPublishDateUnavailable = ''publish_date_unavailable''"

definition ReasonBypassSuspected :: string where "ReasonBypassSuspected = ''BYPASS_SUSPECTED''"

section \<open>Reasons and labels\<close>

definition buildReason :: "Policy \<Rightarrow> string" where
  "buildReason p =
     (if pol_Mode p = ModeBlock then ''blocked by policy: '' @ pol_ID p
      else if pol_Mode p = ModeMonitor then ''monitored by policy: '' @ pol_ID p
      else if pol_Mode p = ModeQuarantine then ''quarantined by policy: '' @ pol_ID p
      else ''allowed by policy: '' @ pol_ID p)"

definition blockAfterGraceReason :: "Policy \<Rightarrow> string \<Rightarrow> string" where
  "blockAfterGraceReason p resolvedAs =
     (if resolvedAs = ''monitor'' then ''within grace window by policy: '' @ pol_ID p
      else ''blocked after grace by policy: '' @ pol_ID p)"

definition evalResultLabel :: "Mode \<Rightarrow> string" where
  "evalResultLabel m = (if m = ModeBlock \<or> m = ModeQuarantine then ''block'' else ''allow'')"

section \<open>Expiry of exceptions\<close>

text \<open>The zero \<open>time.Time\<close>, 1 January of the year 1.\<close>

definition zero_time :: int where "zero_time = - 62135596800 * 1000000000"

definition IsExpiredException :: "Policy \<Rightarrow> int \<Rightarrow> int \<Rightarrow> bool" where
  "IsExpiredException p ageDays now =
     (if pol_Mode p \<noteq> ModeAllow then False
      else if pol_ExpiresAt p \<noteq> None \<and> pol_ExpiresAt p \<noteq> Some zero_time then the (pol_ExpiresAt p) < now
      else if \<not> (pol_Kind p = KindException \<or> cond_IsVulnerable (pol_Conditions p) = Some True) then False
      else if ageDays \<le> 0 then False
      else days ageDays < time_Sub now (pol_CreatedAt p))"

section \<open>Guards that skip a rule\<close>

definition detectUnsupported :: "EvaluationContext \<Rightarrow> Policy \<Rightarrow> ConditionType list" where
  "detectUnsupported x p =
     (if ctx_RepositoryFormat x = [] then []
      else
        let eco = format_ecosystem (ctx_RepositoryFormat x) in
        if eco = [] then [] else filter (IsUnsupported eco) (ConditionsUsedBy (pol_Conditions p)))"

definition detectChecksumUnavailable :: "Policy \<Rightarrow> ConditionType list" where
  "detectChecksumUnavailable p =
     (if cond_IsVulnerable (pol_Conditions p) \<noteq> None then [ConditionCVE] else []) @
     (if cond_HasProvenance (pol_Conditions p) \<noteq> None then [ConditionHasProvenance] else [])"

definition darkPublishDateConditions :: "EvaluationContext \<Rightarrow> Conditions \<Rightarrow> ConditionType list" where
  "darkPublishDateConditions x c =
     (if cond_PackageAge c \<noteq> None \<and> ctx_PackageReleaseDate x = None then [ConditionPackageAge] else []) @
     (if cond_CooldownDays c \<noteq> None \<and> ctx_VersionReleaseDate x = None then [ConditionCooldown] else [])"

section \<open>Events\<close>

definition recordSkipEvents ::
  "('v, 'c) Evaluator \<Rightarrow> EvaluationContext \<Rightarrow> Policy \<Rightarrow> ConditionType list \<Rightarrow> string \<Rightarrow> bool \<Rightarrow> event list" where
  "recordSkipEvents e x p conds reason evaluated =
     (if ev_auditor e then
        map (\<lambda>c. Audit \<lparr>sk_OrgID = ctx_OrgID x, sk_PolicyID = pol_ID p,
                        sk_Ecosystem = ToLower (TrimSpace (ctx_RepositoryFormat x)), sk_Condition = c,
                        sk_Reason = (if TrimSpace reason = [] then SkipReasonUnsupportedEcosystem else reason),
                        sk_RuleEvaluated = evaluated\<rparr>) conds
      else [])"

definition recordSkipped ::
  "('v, 'c) Evaluator \<Rightarrow> EvaluationContext \<Rightarrow> Policy \<Rightarrow> ConditionType list \<Rightarrow> string \<Rightarrow> event list" where
  "recordSkipped e x p conds reason = recordSkipEvents e x p conds reason False"

definition recordDarkAdvisoryLane :: "('v, 'c) Evaluator \<Rightarrow> EvaluationContext \<Rightarrow> Policy \<Rightarrow> event list" where
  "recordDarkAdvisoryLane e x p =
     (if \<not> ev_auditor e \<and> \<not> ev_logger e then []
      else
        let eco = format_ecosystem (ctx_RepositoryFormat x);
            dark = DarkAdvisoryConditions eco (pol_Conditions p)
        in
          if eco = [] \<or> dark = [] then []
          else if \<not> matchesIdentifier (ev_semver e) x (pol_Identifier p) \<or> \<not> matchesScope x (pol_Scope p) then []
          else recordSkipEvents e x p dark SkipReasonNoAdvisorySource True)"

definition ReportPublishDateUnavailable :: "string \<Rightarrow> string \<Rightarrow> event" where
  "ReportPublishDateUnavailable c ecosystem =
     (let eco = ToLower (TrimSpace ecosystem) in DateUnavailable c (if eco = [] then ''unknown'' else eco))"

definition recordDarkPublishDate :: "('v, 'c) Evaluator \<Rightarrow> EvaluationContext \<Rightarrow> Policy \<Rightarrow> event list" where
  "recordDarkPublishDate e x p =
     (let dark = darkPublishDateConditions x (pol_Conditions p) in
      if dark = [] then []
      else if \<not> matchesIdentifier (ev_semver e) x (pol_Identifier p) \<or> \<not> matchesScope x (pol_Scope p) then []
      else
        let format = ToLower (TrimSpace (ctx_RepositoryFormat x));
            eco = EcosystemForFormat format;
            reportable = filter (\<lambda>c. \<not> (eco \<noteq> [] \<and> IsUnsupported eco c)) dark
        in
          map (\<lambda>c. ReportPublishDateUnavailable c format) reportable @
          (if reportable = [] \<or> (\<not> ev_auditor e \<and> \<not> ev_logger e) then []
           else recordSkipEvents e x p reportable SkipReasonPublishDateUnavailable True))"

section \<open>The grace window\<close>

definition resolveAction ::
  "('v, 'c) Evaluator \<Rightarrow> EvaluationContext \<Rightarrow> Policy \<Rightarrow> int \<Rightarrow> Mode \<times> string" where
  "resolveAction e x p now =
     (if pol_Mode p \<noteq> ModeBlockAfterGrace then (pol_Mode p, buildReason p)
      else
        (case ev_grace e of
           None \<Rightarrow> (ModeBlock, blockAfterGraceReason p ''block'')
         | Some g \<Rightarrow>
             if \<not> grace_flag g (ctx_OrgID x) then (ModeBlock, blockAfterGraceReason p ''block'')
             else if ctx_IsKnownMalicious x \<or> ctx_IsVulnerable x then
               (ModeBlock, blockAfterGraceReason p ''block'')
             else if pol_CreatedAt p + days (EffectiveGraceDays p) \<le> now then
               (ModeBlock, blockAfterGraceReason p ''block'')
             else if \<not> grace_preexisting g (ctx_OrgID x) (ctx_Repository x) (ctx_PackageName x) (pol_CreatedAt p) then
               (ModeBlock, blockAfterGraceReason p ''block'')
             else (ModeMonitor, blockAfterGraceReason p ''monitor'')))"

section \<open>The loop\<close>

definition no_match :: EvaluationResult where
  "no_match = \<lparr>res_Action = ModeAllow, res_MatchedPolicy = None, res_Reason = ''no matching policy''\<rparr>"

text \<open>One policy: the events it emits, and the result when it is in force and matches.\<close>

definition try_policy ::
  "('v, 'c) Evaluator \<Rightarrow> EvaluationContext \<Rightarrow> int \<Rightarrow> int \<Rightarrow> Policy \<Rightarrow> event list \<times> EvaluationResult option" where
  "try_policy e x ageDays now p =
     (if pol_Status p \<noteq> StatusEnabled then ([], None)
      else if IsExpiredException p ageDays now then ([], None)
      else if detectUnsupported x p \<noteq> [] then
        (recordSkipped e x p (detectUnsupported x p) SkipReasonUnsupportedEcosystem, None)
      else if ctx_ChecksumUnavailable x \<and> detectChecksumUnavailable p \<noteq> [] then
        (recordSkipped e x p (detectChecksumUnavailable p) SkipReasonChecksumUnavailable, None)
      else
        (recordDarkAdvisoryLane e x p @ recordDarkPublishDate e x p,
         if matchesPolicy (ev_semver e) now x p then
           (case resolveAction e x p now of
              (action, reason) \<Rightarrow>
                Some \<lparr>res_Action = action, res_MatchedPolicy = Some p, res_Reason = reason\<rparr>)
         else None))"

fun policy_loop ::
  "('v, 'c) Evaluator \<Rightarrow> EvaluationContext \<Rightarrow> int \<Rightarrow> int \<Rightarrow> EvaluationResult option \<Rightarrow> Policy list
    \<Rightarrow> event list \<times> EvaluationResult" where
  "policy_loop e x ageDays now firstMonitor [] =
     ([], case firstMonitor of Some m \<Rightarrow> m | None \<Rightarrow> no_match)"
| "policy_loop e x ageDays now firstMonitor (p # ps) =
     (case try_policy e x ageDays now p of
        (evs, None) \<Rightarrow>
          (case policy_loop e x ageDays now firstMonitor ps of (evs', r) \<Rightarrow> (evs @ evs', r))
      | (evs, Some r) \<Rightarrow>
          if res_Action r = ModeMonitor then
            (case policy_loop e x ageDays now (if firstMonitor = None then Some r else firstMonitor) ps of
               (evs', r') \<Rightarrow> (evs @ evs', r'))
          else if res_Action r = ModeAllow \<and> firstMonitor \<noteq> None then (evs, the firstMonitor)
          else (evs, r))"

definition evaluatePolicies ::
  "('v, 'c) Evaluator \<Rightarrow> EvaluationContext \<Rightarrow> Policy list \<Rightarrow> int \<Rightarrow> int \<Rightarrow> event list \<times> EvaluationResult" where
  "evaluatePolicies e x ps ageDays now = policy_loop e x ageDays now None ps"

definition applyBypassQuarantine ::
  "('v, 'c) Evaluator \<Rightarrow> EvaluationContext \<Rightarrow> EvaluationResult \<Rightarrow> EvaluationResult" where
  "applyBypassQuarantine e x r =
     (case ev_bypassChecker e of
        None \<Rightarrow> r
      | Some checker \<Rightarrow>
          if ctx_OrgID x = [] \<or> ctx_ClientID x = [] then r
          else if \<not> checker (ctx_OrgID x) (ctx_ClientID x) then r
          else if res_Reason r = [] then r\<lparr>res_Reason := ReasonBypassSuspected\<rparr>
          else if \<not> Contains (res_Reason r) ReasonBypassSuspected then
            r\<lparr>res_Reason := res_Reason r @ ''; '' @ ReasonBypassSuspected\<rparr>
          else r)"

text \<open>The column to which the fire of a rule is attributed: its only one.\<close>

definition recordConditionFireIfSingle :: "EvaluationResult \<Rightarrow> (ConditionType \<times> string) option" where
  "recordConditionFireIfSingle r =
     (case res_MatchedPolicy r of
        None \<Rightarrow> None
      | Some p \<Rightarrow>
          (case ConditionsUsedBy (pol_Conditions p) of
             [c] \<Rightarrow> Some (c, evalResultLabel (res_Action r))
           | _ \<Rightarrow> None))"

definition EvaluateWithPolicies ::
  "('v, 'c) Evaluator \<Rightarrow> EvaluationContext \<Rightarrow> Policy list \<Rightarrow> int \<Rightarrow> int \<Rightarrow> event list \<times> EvaluationResult" where
  "EvaluateWithPolicies e x ps ageDays now =
     (case evaluatePolicies e x ps ageDays now of (evs, r) \<Rightarrow> (evs, applyBypassQuarantine e x r))"

end
