(* ===== verification/PolicyCache.thy ===== *)
theory PolicyCache
  imports PolicyEvaluator
begin

text \<open>
  The memoisation of verdicts: policy/cache.go and the stateful \<open>Evaluate\<close> of policy/evaluator.go. A key holds the
  coordinate, and a fingerprint of the requester when a policy of the organisation is scoped; an organisation
  with a grace policy is not cached. The pinned metadata of the tests is left out. \<open>Evaluate_read\<close> and
  \<open>Evaluate_finish\<close> are the two halves of a miss, between which an invalidation can run.
\<close>

section \<open>Keys\<close>

record cacheKey =
  key_OrgID :: string
  key_Repo :: string
  key_PackageName :: string
  key_Version :: string
  key_Scope :: string

record policyMeta =
  meta_hasScopedPolicies :: bool
  meta_hasGracePolicies :: bool

definition computePolicyMeta :: "Policy list \<Rightarrow> policyMeta" where
  "computePolicyMeta ps =
     (let on = filter (\<lambda>p. pol_Status p = StatusEnabled) ps in
      \<lparr>meta_hasScopedPolicies = (\<exists>p \<in> set on. \<not> scope_isEmpty (pol_Scope p)),
       meta_hasGracePolicies = (\<exists>p \<in> set on. pol_Mode p = ModeBlockAfterGrace)\<rparr>)"

definition scopeFingerprint :: "string \<Rightarrow> string list \<Rightarrow> string \<Rightarrow> string \<Rightarrow> string" where
  "scopeFingerprint clientID groups ip country =
     clientID @ ''|'' @ join_with '','' (sort groups) @ ''|'' @ ip @ ''|'' @ country"

definition evalCacheKeyFor :: "EvaluationContext \<Rightarrow> policyMeta \<Rightarrow> cacheKey option" where
  "evalCacheKeyFor x m =
     (if ctx_PackageName x = [] \<or> ctx_PackageVersion x = [] then None
      else if meta_hasGracePolicies m then None
      else Some
        \<lparr>key_OrgID = ctx_OrgID x, key_Repo = ctx_Repository x, key_PackageName = ctx_PackageName x,
         key_Version = ctx_PackageVersion x,
         key_Scope =
           (if meta_hasScopedPolicies m then
              scopeFingerprint (ctx_ClientID x) (ctx_ClientGroups x) (ctx_RequestingIP x) (ctx_RequestingCountry x)
            else [])\<rparr>)"

section \<open>The cache\<close>

record cacheEntry =
  ce_result :: EvaluationResult
  ce_expiresAt :: int

record evalCache =
  ec_entries :: "cacheKey \<rightharpoonup> cacheEntry"
  ec_ttl :: int

definition DefaultEvalCacheTTL :: int where "DefaultEvalCacheTTL = 60 * 1000000000"

definition newEvalCache :: "int \<Rightarrow> evalCache" where
  "newEvalCache ttl =
     \<lparr>ec_entries = Map.empty, ec_ttl = (if ttl \<le> 0 then DefaultEvalCacheTTL else ttl)\<rparr>"

definition cache_Get :: "int \<Rightarrow> evalCache option \<Rightarrow> cacheKey \<Rightarrow> EvaluationResult option" where
  "cache_Get now c k =
     (case c of
        None \<Rightarrow> None
      | Some c \<Rightarrow>
          (case ec_entries c k of
             None \<Rightarrow> None
           | Some en \<Rightarrow> if ce_expiresAt en < now then None else Some (ce_result en)))"

definition cache_Put :: "int \<Rightarrow> evalCache option \<Rightarrow> cacheKey \<Rightarrow> EvaluationResult \<Rightarrow> evalCache option" where
  "cache_Put now c k r =
     map_option (\<lambda>c. c\<lparr>ec_entries := (ec_entries c)(k \<mapsto> \<lparr>ce_result = r, ce_expiresAt = now + ec_ttl c\<rparr>)\<rparr>) c"

definition cache_Invalidate :: "evalCache option \<Rightarrow> evalCache option" where
  "cache_Invalidate c = map_option (\<lambda>c. c\<lparr>ec_entries := Map.empty\<rparr>) c"

definition cache_InvalidateOrg :: "string \<Rightarrow> evalCache option \<Rightarrow> evalCache option" where
  "cache_InvalidateOrg org c =
     (let o' = TrimSpace org in
      if o' = [] then cache_Invalidate c
      else map_option
        (\<lambda>c. c\<lparr>ec_entries := (\<lambda>k. if key_OrgID k = o' then None else ec_entries c k)\<rparr>) c)"

section \<open>Evaluate\<close>

text \<open>The mutable part of an evaluator: the cache and the memoised metadata.\<close>

record EvalState =
  es_cache :: "evalCache option"
  es_meta :: "policyMeta option"

definition WithEvalCache :: "int \<Rightarrow> EvalState \<Rightarrow> EvalState" where
  "WithEvalCache ttl s = s\<lparr>es_cache := Some (newEvalCache ttl)\<rparr>"

definition InvalidateCache :: "EvalState \<Rightarrow> EvalState" where
  "InvalidateCache s = s\<lparr>es_cache := cache_Invalidate (es_cache s), es_meta := None\<rparr>"

definition InvalidateCacheForOrg :: "string \<Rightarrow> EvalState \<Rightarrow> EvalState" where
  "InvalidateCacheForOrg org s = s\<lparr>es_cache := cache_InvalidateOrg org (es_cache s), es_meta := None\<rparr>"

text \<open>
  The store: none, or what listing the policies yields now, an error or the policies. The first half
  answers at once (\<open>Inl\<close>: the result and whether it came with an error) or hands over the policies that
  it read and the key under which the verdict is to be kept.
\<close>

definition Evaluate_read ::
  "('v, 'c) Evaluator \<Rightarrow> (string + Policy list) option \<Rightarrow> EvaluationContext \<Rightarrow> int \<Rightarrow> EvalState
    \<Rightarrow> ((EvaluationResult \<times> string option) + (Policy list \<times> cacheKey option)) \<times> EvalState" where
  "Evaluate_read e store x now s =
     (case store of
        None \<Rightarrow> (Inl (\<lparr>res_Action = ModeAllow, res_MatchedPolicy = None, res_Reason = ''no policy store''\<rparr>, None), s)
      | Some listed \<Rightarrow>
          let failed = (\<lambda>err. Inl (\<lparr>res_Action = ModeAllow, res_MatchedPolicy = None,
                                   res_Reason = ''policy fetch failed''\<rparr>, Some err));
              cached = (\<lambda>m s'. case evalCacheKeyFor x m of
                                 None \<Rightarrow> None
                               | Some k \<Rightarrow> map_option (applyBypassQuarantine e x) (cache_Get now (es_cache s') k))
          in
            (case es_meta s of
               None \<Rightarrow>
                 (case listed of
                    Inl err \<Rightarrow> (failed err, s)
                  | Inr ps \<Rightarrow>
                      let m = computePolicyMeta ps; s' = s\<lparr>es_meta := Some m\<rparr> in
                      (case cached m s' of
                         Some r \<Rightarrow> (Inl (r, None), s')
                       | None \<Rightarrow> (Inr (ps, evalCacheKeyFor x m), s')))
             | Some m \<Rightarrow>
                 (case cached m s of
                    Some r \<Rightarrow> (Inl (r, None), s)
                  | None \<Rightarrow>
                      (case listed of
                         Inl err \<Rightarrow> (failed err, s)
                       | Inr ps \<Rightarrow>
                           (Inr (ps, evalCacheKeyFor x m), s\<lparr>es_meta := Some (computePolicyMeta ps)\<rparr>)))))"

definition Evaluate_finish ::
  "('v, 'c) Evaluator \<Rightarrow> EvaluationContext \<Rightarrow> int \<Rightarrow> int \<Rightarrow> Policy list \<Rightarrow> cacheKey option \<Rightarrow> EvalState
    \<Rightarrow> event list \<times> EvaluationResult \<times> EvalState" where
  "Evaluate_finish e x ageDays now ps key s =
     (case evaluatePolicies e x ps ageDays now of (evs, r) \<Rightarrow>
        let s' = (case key of None \<Rightarrow> s | Some k \<Rightarrow> s\<lparr>es_cache := cache_Put now (es_cache s) k r\<rparr>) in
        (evs, applyBypassQuarantine e x r, s'))"

definition Evaluate ::
  "('v, 'c) Evaluator \<Rightarrow> (string + Policy list) option \<Rightarrow> EvaluationContext \<Rightarrow> int \<Rightarrow> int \<Rightarrow> EvalState
    \<Rightarrow> event list \<times> (EvaluationResult \<times> string option) \<times> EvalState" where
  "Evaluate e store x ageDays now s =
     (case Evaluate_read e store x now s of
        (Inl r, s') \<Rightarrow> ([], r, s')
      | (Inr (ps, key), s') \<Rightarrow>
          (case Evaluate_finish e x ageDays now ps key s' of (evs, r, s'') \<Rightarrow> (evs, (r, None), s'')))"

end
