(* ===== verification/PolicyProps.thy ===== *)
theory PolicyProps
  imports PolicyCache
begin

text \<open>
  What an evaluation promises: the loop refines a declarative first-match rule, monitor rules never
  shadow an enforcing one, the grace window never relaxes a block on malware or a vulnerable package, and
  facts that are unknown or unverified never satisfy a condition.
\<close>

section \<open>A request and an evaluator for the examples\<close>

definition quiet :: "(nat, nat) Evaluator" where
  "quiet =
     \<lparr>ev_semver = \<lparr>NewVersion = (\<lambda>s. if s = [] then None else Some (length s)),
                   NewConstraint = (\<lambda>s. if s = [] then None else Some (length s)),
                   Check_constraint = (\<lambda>c v. c = v)\<rparr>,
      ev_auditor = True, ev_logger = True, ev_bypassChecker = None, ev_grace = None\<rparr>"

definition demo_context :: EvaluationContext where
  "demo_context =
     zero_context\<lparr>ctx_OrgID := ''org'', ctx_Repository := ''npm-all'', ctx_RepositoryFormat := ''npm'',
                  ctx_PackageName := ''left-pad'', ctx_PackageVersion := ''1.3.0''\<rparr>"

lemma ConditionsUsedBy_none [simp]: "ConditionsUsedBy no_conditions = []"
  by (simp add: ConditionsUsedBy_def conditions_used_def used_when_def no_conditions_def dedupeConditions_def)

lemma plain_policy_simps [simp]:
  "pol_Mode (plain_policy i m) = m" "pol_Status (plain_policy i m) = StatusEnabled"
  "pol_Kind (plain_policy i m) = KindEnforcement" "pol_Identifier (plain_policy i m) = no_identifier"
  "pol_Scope (plain_policy i m) = no_scope" "pol_Conditions (plain_policy i m) = no_conditions"
  "pol_CreatedAt (plain_policy i m) = 0" "pol_ID (plain_policy i m) = i" "pol_ExpiresAt (plain_policy i m) = None"
  "pol_Decision (plain_policy i m) = []"
  by (simp_all add: plain_policy_def)

lemma no_conditions_checksum [simp]:
  "cond_IsVulnerable no_conditions = None" "cond_HasProvenance no_conditions = None"
  by (simp_all add: no_conditions_def)

definition block_everything :: Policy where
  "block_everything = (plain_policy ''freeze'' ModeBlock)\<lparr>pol_Identifier := no_identifier\<lparr>id_TargetPackageName := ''*''\<rparr>\<rparr>"

definition watch_everything :: Policy where
  "watch_everything = plain_policy ''watch'' ModeMonitor"

lemma block_everything_matches: "snd (try_policy e x a now block_everything) \<noteq> None"
proof -
  have "matchesIdentifier sv x (no_identifier\<lparr>id_TargetPackageName := ''*''\<rparr>)" for sv :: "('a, 'b) Semver"
    by (simp add: matchesIdentifier_def no_identifier_def matchesPackageName_def)
  then show ?thesis
    by (simp add: try_policy_def IsExpiredException_def detectUnsupported_def detectChecksumUnavailable_def Let_def
        block_everything_def matchesPolicy_def resolveAction_def)
qed

lemma block_everything_enforces: "pol_Mode block_everything = ModeBlock"
  by (simp add: block_everything_def)

section \<open>The loop as a first-match rule\<close>

text \<open>The results of the rules in force that match, in order of precedence.\<close>

definition live_matches ::
  "('v, 'c) Evaluator \<Rightarrow> EvaluationContext \<Rightarrow> int \<Rightarrow> int \<Rightarrow> Policy list \<Rightarrow> EvaluationResult list" where
  "live_matches e x ageDays now ps = List.map_filter (\<lambda>p. snd (try_policy e x ageDays now p)) ps"

text \<open>
  The specification: the first match that is no monitor decides when it denies; otherwise the very first
  match is the result.
\<close>

definition first_match :: "EvaluationResult list \<Rightarrow> EvaluationResult" where
  "first_match rs =
     (case find (\<lambda>r. res_Action r \<noteq> ModeMonitor) rs of
        Some r \<Rightarrow> if res_Action r = ModeAllow then hd rs else r
      | None \<Rightarrow> if rs = [] then no_match else hd rs)"

lemma live_matches_simps [simp]:
  "live_matches e x a now [] = []"
  "live_matches e x a now (p # ps) =
     (case snd (try_policy e x a now p) of
        None \<Rightarrow> live_matches e x a now ps | Some r \<Rightarrow> r # live_matches e x a now ps)"
  by (auto simp: live_matches_def List.map_filter_def split: option.splits)

lemma live_matches_append:
  "live_matches e x a now (ps @ qs) = live_matches e x a now ps @ live_matches e x a now qs"
  by (induction ps) (auto split: option.splits)

lemma policy_loop_first_match:
  "snd (policy_loop e x a now fm ps) =
     (case fm of
        None \<Rightarrow> first_match (live_matches e x a now ps)
      | Some m \<Rightarrow> if res_Action m = ModeMonitor then first_match (m # live_matches e x a now ps)
                  else snd (policy_loop e x a now fm ps))"
proof (induction ps arbitrary: fm)
  case Nil
  then show ?case by (auto simp: first_match_def Let_def split: option.splits)
next
  case (Cons p ps)
  have fm: "first_match (m # m' # rs) = first_match (m # rs)"
    if "res_Action m = ModeMonitor" "res_Action m' = ModeMonitor" for m m' rs
    using that by (simp add: first_match_def split: option.split)
  obtain evs r where t: "try_policy e x a now p = (evs, r)" by (cases "try_policy e x a now p")
  show ?case
  proof (cases r)
    case None
    then show ?thesis using Cons[of fm] t by (auto split: prod.splits option.splits)
  next
    case (Some r)
    show ?thesis
    proof (cases "res_Action r = ModeMonitor")
      case True
      then show ?thesis
        using Cons[of "Some r"] Cons[of fm] t Some fm by (auto split: prod.splits option.splits)
    next
      case False
      then show ?thesis using t Some by (auto simp: first_match_def Let_def split: prod.splits option.splits)
    qed
  qed
qed

lemma evaluate_first_match:
  "snd (evaluatePolicies e x ps a now) = first_match (live_matches e x a now ps)"
  by (simp add: evaluatePolicies_def policy_loop_first_match)

text \<open>
  Which rules count, written without the loop: a rule that is enabled, not expired, asks for nothing that the ecosystem
  lacks and, without a checksum, for nothing that needs one, and whose target, scope and conditions match.
\<close>

definition applies :: "('v, 'c) Evaluator \<Rightarrow> EvaluationContext \<Rightarrow> int \<Rightarrow> int \<Rightarrow> Policy \<Rightarrow> bool" where
  "applies e x ageDays now p \<longleftrightarrow>
     pol_Status p = StatusEnabled \<and> \<not> IsExpiredException p ageDays now \<and> detectUnsupported x p = [] \<and>
     (ctx_ChecksumUnavailable x \<longrightarrow> detectChecksumUnavailable p = []) \<and> matchesPolicy (ev_semver e) now x p"

definition outcome :: "('v, 'c) Evaluator \<Rightarrow> EvaluationContext \<Rightarrow> int \<Rightarrow> Policy \<Rightarrow> EvaluationResult" where
  "outcome e x now p =
     \<lparr>res_Action = fst (resolveAction e x p now), res_MatchedPolicy = Some p, res_Reason = snd (resolveAction e x p now)\<rparr>"

lemma try_policy_applies:
  "snd (try_policy e x a now p) = (if applies e x a now p then Some (outcome e x now p) else None)"
  by (auto simp: try_policy_def applies_def outcome_def split: prod.splits)

lemma live_matches_applies: "live_matches e x a now ps = map (outcome e x now) (filter (applies e x a now) ps)"
  by (induction ps) (simp_all add: try_policy_applies)

text \<open>
  C15: The evaluation loop computes the first-match rule: of the rules that are enabled, unexpired, supported by the
  ecosystem, decidable without a checksum when there is none, and matching, the first that is no monitor decides if it
  denies; otherwise the first of them all is the result, and without any the request is allowed. The mark of a
  suspected bypass is added to that result.
\<close>

theorem evaluation_refines_first_match:
  "snd (EvaluateWithPolicies e x ps ageDays now) =
     applyBypassQuarantine e x (first_match (map (outcome e x now) (filter (applies e x ageDays now) ps)))"
  using evaluate_first_match[of e x ps ageDays now]
  by (auto simp: EvaluateWithPolicies_def live_matches_applies split: prod.splits)

definition denies :: "EvaluationResult \<Rightarrow> bool" where
  "denies r \<longleftrightarrow> res_Action r \<noteq> ModeAllow \<and> res_Action r \<noteq> ModeMonitor"

text \<open>The rule that denies, if one does: the first match that is no monitor, unless it allows.\<close>

definition first_deny :: "EvaluationResult list \<Rightarrow> EvaluationResult option" where
  "first_deny rs =
     (case find (\<lambda>r. res_Action r \<noteq> ModeMonitor) rs of
        Some r \<Rightarrow> if res_Action r = ModeAllow then None else Some r | None \<Rightarrow> None)"

lemma first_deny_simps [simp]:
  "first_deny [] = None"
  "first_deny (r # rs) =
     (if res_Action r = ModeMonitor then first_deny rs
      else if res_Action r = ModeAllow then None else Some r)"
  by (auto simp: first_deny_def)

lemma first_match_no_deny:
  "first_deny rs = None \<Longrightarrow> \<not> denies (first_match rs)"
  by (cases rs) (auto simp: first_deny_def first_match_def denies_def no_match_def split: option.splits if_splits)

lemma first_match_deny:
  "first_deny rs = Some r \<Longrightarrow> first_match rs = r \<and> denies r"
  by (auto simp: first_deny_def first_match_def denies_def dest: find_SomeD split: option.splits if_splits)

lemma denies_first_match: "denies (first_match rs) \<longleftrightarrow> first_deny rs \<noteq> None"
  using first_match_no_deny first_match_deny by (cases "first_deny rs") auto

section \<open>Monitor rules\<close>

lemma resolveAction_id: "pol_Mode p \<noteq> ModeBlockAfterGrace \<Longrightarrow> resolveAction e x p now = (pol_Mode p, buildReason p)"
  by (simp add: resolveAction_def)

lemma try_policy_action:
  "snd (try_policy e x a now p) = Some r \<Longrightarrow>
     r = \<lparr>res_Action = fst (resolveAction e x p now), res_MatchedPolicy = Some p,
          res_Reason = snd (resolveAction e x p now)\<rparr>"
  by (auto simp: try_policy_def split: if_splits prod.splits)

lemma first_deny_without_monitors:
  "first_deny (live_matches e x a now (filter (\<lambda>p. pol_Mode p \<noteq> ModeMonitor) ps)) =
     first_deny (live_matches e x a now ps)"
  by (induction ps) (auto split: option.splits dest!: try_policy_action simp: resolveAction_id)

text \<open>
  C16: A rule in monitor mode observes: taking every monitor rule out of the list changes neither whether the
  request is denied nor, when it is, by which rule and with which reason.
\<close>

theorem monitors_never_shadow:
  fixes ps :: "Policy list" and e x a now
  assumes "qs = filter (\<lambda>p. \<not> IsMonitorMode p) ps"
  shows "denies (snd (evaluatePolicies e x ps a now)) = denies (snd (evaluatePolicies e x qs a now)) \<and>
     (denies (snd (evaluatePolicies e x ps a now)) \<longrightarrow>
        snd (evaluatePolicies e x ps a now) = snd (evaluatePolicies e x qs a now))"
  using first_deny_without_monitors[of e x a now ps] first_match_deny
  by (auto simp: assms evaluate_first_match denies_first_match IsMonitorMode_def)

section \<open>Blocks that hold\<close>

lemma first_deny_append:
  "first_deny (rs @ qs) =
     (case find (\<lambda>r. res_Action r \<noteq> ModeMonitor) rs of None \<Rightarrow> first_deny qs | Some _ \<Rightarrow> first_deny rs)"
  by (induction rs) (auto split: option.splits)

lemma no_allow_before:
  assumes "\<And>q r. q \<in> set ps \<Longrightarrow> snd (try_policy e x a now q) = Some r \<Longrightarrow> res_Action r \<noteq> ModeAllow"
    and "first_deny rs \<noteq> None"
  shows "first_deny (live_matches e x a now ps @ rs) \<noteq> None"
  using assms by (induction ps) (auto split: option.splits)

text \<open>An enforcing rule: a block or a quarantine, and a grace rule on a package that is malicious or vulnerable.\<close>

definition enforces :: "EvaluationContext \<Rightarrow> Policy \<Rightarrow> bool" where
  "enforces x p \<longleftrightarrow>
     pol_Mode p = ModeBlock \<or> pol_Mode p = ModeQuarantine \<or>
     (pol_Mode p = ModeBlockAfterGrace \<and> (ctx_IsKnownMalicious x \<or> ctx_IsVulnerable x))"

lemma enforces_denies:
  "enforces x p \<Longrightarrow> snd (try_policy e x a now p) = Some r \<Longrightarrow> denies r"
  by (drule try_policy_action) (auto simp: enforces_def denies_def resolveAction_def split: option.splits)

lemma enforcing_match:
  assumes p: "enforces x p" "snd (try_policy e x a now p) \<noteq> None"
    and before: "\<forall>q \<in> set before. pol_Mode q = ModeAllow \<longrightarrow> snd (try_policy e x a now q) = None"
  shows "denies (snd (evaluatePolicies e x (before @ p # after) a now))"
proof -
  obtain r where r: "snd (try_policy e x a now p) = Some r" using p by auto
  have "first_deny (live_matches e x a now (p # after)) \<noteq> None"
    using enforces_denies[OF p(1) r] r by (auto simp: denies_def)
  moreover have "res_Action r' \<noteq> ModeAllow"
    if "q \<in> set before" "snd (try_policy e x a now q) = Some r'" for q r'
    using that before try_policy_action[OF that(2)]
    by (auto simp: resolveAction_def split: if_splits option.splits)
  ultimately show ?thesis
    by (simp add: evaluate_first_match denies_first_match live_matches_append no_allow_before del: live_matches_simps)
qed

text \<open>
  An enforcing rule that matches denies the request wherever it stands, unless a rule that allows
  matches before it: no monitor rule, and no grace window when the package is known to be malicious or
  vulnerable, lets the request through.
\<close>

theorem enforcing_match_denies:
  assumes "enforces x p" "snd (try_policy e x a now p) \<noteq> None"
    and "\<forall>q \<in> set before. pol_Mode q = ModeAllow \<longrightarrow> snd (try_policy e x a now q) = None"
  shows "denies (snd (evaluatePolicies e x (before @ p # after) a now))"
  using assms by (rule enforcing_match)

lemma enforcing_match_denies_witness:
  "denies (snd (evaluatePolicies quiet demo_context ([watch_everything] @ block_everything # []) 0 0))"
  by (rule enforcing_match_denies)
     (simp_all add: enforces_def block_everything_enforces block_everything_matches[unfolded not_None_eq] watch_everything_def)

text \<open>
  C17: An exception that was minted with \<open>isKnownMalicious: false\<close> is as good as absent once the package is known
  to be malicious.
\<close>

theorem narrowed_exception_never_covers_malware:
  assumes "ctx_IsKnownMalicious x"
  shows "snd (evaluatePolicies e x ps a now) =
           snd (evaluatePolicies e x (filter (\<lambda>p. \<not> ExceptionExcludesMalware p) ps) a now)"
proof -
  have "snd (try_policy e x a now p) = None" if "ExceptionExcludesMalware p" for p
    using that assms by (auto simp: try_policy_def matchesPolicy_def ExceptionExcludesMalware_def)
  then have "live_matches e x a now (filter (\<lambda>p. \<not> ExceptionExcludesMalware p) ps) = live_matches e x a now ps"
    by (induction ps) (auto split: option.splits)
  then show ?thesis by (simp add: evaluate_first_match)
qed

definition backlog_exception :: Policy where
  "backlog_exception =
     (plain_policy ''backlog'' ModeAllow)
       \<lparr>pol_Kind := KindException, pol_Conditions := no_conditions\<lparr>cond_IsKnownMalicious := Some False\<rparr>\<rparr>"

lemma narrowed_exception_never_covers_malware_witness:
  "denies (snd (evaluatePolicies quiet (demo_context\<lparr>ctx_IsKnownMalicious := True\<rparr>)
     [backlog_exception, block_everything] 0 0))"
proof -
  let ?x = "demo_context\<lparr>ctx_IsKnownMalicious := True\<rparr>"
  have "filter (\<lambda>p. \<not> ExceptionExcludesMalware p) [backlog_exception, block_everything] = [block_everything]"
    by (simp add: ExceptionExcludesMalware_def backlog_exception_def block_everything_def)
  moreover have "enforces ?x block_everything" by (simp add: enforces_def block_everything_enforces)
  ultimately show ?thesis
    using narrowed_exception_never_covers_malware[of ?x quiet "[backlog_exception, block_everything]" 0 0]
      enforcing_match[OF _ block_everything_matches, of ?x "[]" quiet 0 0 "[]"]
    by simp
qed

lemma monitors_never_shadow_witness:
  "denies (snd (evaluatePolicies quiet demo_context [watch_everything, block_everything] 0 0)) \<and>
   snd (evaluatePolicies quiet demo_context [watch_everything, block_everything] 0 0) =
     snd (evaluatePolicies quiet demo_context [block_everything] 0 0)"
proof -
  have "enforces demo_context block_everything" by (simp add: enforces_def block_everything_enforces)
  then have "denies (snd (evaluatePolicies quiet demo_context [watch_everything, block_everything] 0 0))"
    using enforcing_match[OF _ block_everything_matches, of demo_context "[watch_everything]" quiet 0 0 "[]"]
    by (simp add: watch_everything_def)
  moreover have "filter (\<lambda>p. \<not> IsMonitorMode p) [watch_everything, block_everything] = [block_everything]"
    by (simp add: IsMonitorMode_def watch_everything_def block_everything_enforces)
  ultimately show ?thesis
    using monitors_never_shadow[OF refl, of quiet demo_context "[watch_everything, block_everything]" 0 0] by simp
qed

section \<open>The grace window\<close>

text \<open>The window, with a day of 24 hours in nanoseconds: the override when it is positive, else a week.\<close>

definition grace_end :: "Policy \<Rightarrow> int" where
  "grace_end p = pol_CreatedAt p + 86400000000000 * (case pol_GraceDays p of None \<Rightarrow> 7 | Some n \<Rightarrow> if n \<le> 0 then 7 else n)"

definition relaxed :: "('v, 'c) Evaluator \<Rightarrow> EvaluationContext \<Rightarrow> int \<Rightarrow> Policy \<Rightarrow> bool" where
  "relaxed e x now p \<longleftrightarrow>
     (case ev_grace e of
        None \<Rightarrow> False
      | Some g \<Rightarrow>
          grace_flag g (ctx_OrgID x) \<and> \<not> ctx_IsKnownMalicious x \<and> \<not> ctx_IsVulnerable x \<and> now < grace_end p \<and>
          grace_preexisting g (ctx_OrgID x) (ctx_Repository x) (ctx_PackageName x) (pol_CreatedAt p))"

lemma grace_action:
  assumes "pol_Mode p = ModeBlockAfterGrace" and "\<forall>n. pol_GraceDays p = Some n \<longrightarrow> n \<le> 106751"
  shows "fst (resolveAction e x p now) = (if relaxed e x now p then ModeMonitor else ModeBlock)"
proof -
  have "pol_CreatedAt p + days (EffectiveGraceDays p) = grace_end p"
    using assms(2)
    by (auto simp: grace_end_def EffectiveGraceDays_def DefaultGraceDays_def days_small Hour_def split: option.splits)
  with assms(1) show ?thesis by (auto simp: resolveAction_def relaxed_def split: option.splits)
qed

text \<open>
  C18: The first rule that applies to a request, when it is a grace rule: outside of the window it blocks, and inside
  it only observes, so that the request is denied by the first later rule that denies it, if one does, and let through
  otherwise. Inside means that the organisation has the flag, the package is neither malicious nor vulnerable
  and was seen before the rule was written, and the rule is younger than its days (7 without a positive
  override), to the nanosecond. An override is at most 106751 days here; a longer window overflows.
\<close>

theorem grace_relaxation:
  fixes p :: Policy and before after :: "Policy list" and e x a now
  assumes "pol_Mode p = ModeBlockAfterGrace" and "\<forall>n. pol_GraceDays p = Some n \<longrightarrow> n \<le> 106751"
    and "applies e x a now p" and "\<forall>q \<in> set before. \<not> applies e x a now q"
  defines "r \<equiv> snd (evaluatePolicies e x (before @ p # after) a now)"
    and "later \<equiv> snd (evaluatePolicies e x after a now)"
  shows "res_Action r =
      (if relaxed e x now p then if denies later then res_Action later else ModeMonitor else ModeBlock) \<and>
    res_MatchedPolicy r = (if relaxed e x now p \<and> denies later then res_MatchedPolicy later else Some p)"
proof -
  let ?rs = "live_matches e x a now after"
  have "filter (applies e x a now) (before @ p # after) = p # filter (applies e x a now) after"
    using assms(3,4) by simp
  then have r: "r = first_match (outcome e x now p # ?rs)"
    by (simp add: r_def evaluate_first_match live_matches_applies)
  have l: "later = first_match ?rs" by (simp add: later_def evaluate_first_match)
  have o: "res_Action (outcome e x now p) = (if relaxed e x now p then ModeMonitor else ModeBlock)"
    "res_MatchedPolicy (outcome e x now p) = Some p"
    using grace_action[OF assms(1,2), of e x now] by (simp_all add: outcome_def)
  show ?thesis
  proof (cases "relaxed e x now p")
    case False
    then show ?thesis using o by (simp add: r first_match_def)
  next
    case True
    show ?thesis
    proof (cases "first_deny ?rs")
      case None
      then have "first_match (outcome e x now p # ?rs) = outcome e x now p"
        using True o by (auto simp: first_match_def first_deny_def split: option.splits if_splits)
      with None True o show ?thesis by (simp add: r l denies_first_match)
    next
      case (Some d)
      then have "first_match (outcome e x now p # ?rs) = d" "first_match ?rs = d"
        using True o first_match_deny[OF Some] first_match_deny[of "outcome e x now p # ?rs" d] by simp_all
      with True first_match_deny[OF Some] show ?thesis by (simp add: r l)
    qed
  qed
qed

definition graced :: "(nat, nat) Evaluator" where
  "graced = quiet\<lparr>ev_grace := Some \<lparr>grace_flag = (\<lambda>_. True), grace_preexisting = (\<lambda>_ _ _ _. True)\<rparr>\<rparr>"

lemma plain_grace_applies: "applies graced x a now (plain_policy ''grace'' ModeBlockAfterGrace)"
  by (simp add: applies_def IsExpiredException_def detectUnsupported_def detectChecksumUnavailable_def matchesPolicy_def Let_def)

lemma plain_grace_days: "pol_GraceDays (plain_policy i m) = None"
  by (simp add: plain_policy_def)

text \<open>A nanosecond before the end of the week, and at its end.\<close>

lemma grace_relaxation_witness:
  "res_Action (snd (evaluatePolicies graced demo_context [plain_policy ''grace'' ModeBlockAfterGrace] 0 604799999999999)) = ModeMonitor \<and>
   res_Action (snd (evaluatePolicies graced demo_context [plain_policy ''grace'' ModeBlockAfterGrace] 0 604800000000000)) = ModeBlock"
proof -
  let ?p = "plain_policy ''grace'' ModeBlockAfterGrace"
  have w: "relaxed graced demo_context 604799999999999 ?p" "\<not> relaxed graced demo_context 604800000000000 ?p"
    by (simp_all add: relaxed_def grace_end_def graced_def demo_context_def zero_context_def plain_grace_days)
  have none: "\<not> denies (snd (evaluatePolicies graced demo_context [] 0 now))" for now
    by (simp add: evaluate_first_match denies_first_match)
  show ?thesis
    using grace_relaxation[of ?p graced demo_context 0 604799999999999 "[]" "[]"]
      grace_relaxation[of ?p graced demo_context 0 604800000000000 "[]" "[]"] w none
    by (simp add: plain_grace_applies plain_grace_days)
qed

lemma EffectiveGraceDays_pos: "0 < EffectiveGraceDays p"
  by (simp add: EffectiveGraceDays_def DefaultGraceDays_def split: option.split)

text \<open>
  The window of 106752 days or more overflows the 64-bit duration and is over before the rule exists,
  although a positive override is meant never to collapse the window.
\<close>

theorem grace_window_overflows:
  "EffectiveGraceDays (p\<lparr>pol_GraceDays := Some 106752\<rparr>) = 106752"
  "pol_CreatedAt p + days (EffectiveGraceDays (p\<lparr>pol_GraceDays := Some 106752\<rparr>)) < pol_CreatedAt p"
  by (simp_all add: EffectiveGraceDays_def days_def i64_def Hour_def)

end
