(* ===== verification/PolicyFacts.thy ===== *)
theory PolicyFacts
  imports PolicyProps
begin

text \<open>
  How the conditions of a rule read the facts: what is unknown or unverified, how time passes, which
  requesters can be told apart, and rules that match more than they are meant to.
\<close>

section \<open>Unknown and unverified facts\<close>

text \<open>
  A rule that asks for the trust score, an age or the uploader's history does not match when the score, the date or the
  history is missing, and a KEV rule matches without a catalog only on a vulnerable package. The CVSS and EPSS
  scores have no such state: an unknown one is 0, which meets a maximum.
\<close>

lemma missing_facts_never_match:
  assumes "matchesConditions now x c"
  shows "(cond_TrustScoreMin c \<noteq> None \<or> cond_TrustScoreMax c \<noteq> None \<longrightarrow> ctx_TrustScore x \<noteq> None) \<and>
    (cond_PackageAge c \<noteq> None \<longrightarrow> ctx_PackageReleaseDate x \<noteq> None) \<and>
    (cond_CooldownDays c \<noteq> None \<longrightarrow> ctx_VersionReleaseDate x \<noteq> None) \<and>
    (cond_FirstTimeCollaborator c \<noteq> None \<longrightarrow> ctx_FirstTimeCollaborator x \<noteq> None) \<and>
    (cond_MaintainerAccountAgeDaysMax c \<noteq> None \<longrightarrow> 0 < ctx_MaintainerAccountAgeDays x) \<and>
    (cond_InKEV c = Some True \<longrightarrow> ctx_InKEV x \<or> ctx_KEVUnavailable x \<and> ctx_IsVulnerable x)"
  using assms
  by (auto simp: matchesConditions_def match_trust_def match_age_def match_publisher_def match_vulnerability_def
        young_enough_def split: option.splits)

text \<open>
  The identity that an attestation claims is no evidence before the attestation verified: changing
  builder, issuer, source repository or log entry of an unverified attestation changes no match.
\<close>

theorem unverified_identity_is_ignored:
  assumes "\<not> provenanceVerified (ctx_ProvenanceStatus x)"
  shows "matchesConditions now
           (x\<lparr>ctx_AttestationBuilderID := builder, ctx_AttestationIssuer := issuer,
              ctx_AttestationSourceRepo := repo, ctx_AttestationTransparencyLog := entry\<rparr>) c =
         matchesConditions now x c"
  using assms by (simp add: matchesConditions_def match_defs proven_def cong: option.case_cong)

lemma unverified_identity_is_ignored_witness:
  "\<not> matchesConditions 0 (demo_context\<lparr>ctx_AttestationBuilderID := ''github.com/acme'', ctx_AttestationIssuer := [],
     ctx_AttestationSourceRepo := [], ctx_AttestationTransparencyLog := []\<rparr>)
     (no_conditions\<lparr>cond_RequireBuilderID := [''acme'']\<rparr>)"
proof -
  have u: "\<not> provenanceVerified (ctx_ProvenanceStatus demo_context)"
    by (simp add: provenanceVerified_def demo_context_def zero_context_def TrimSpace_visible visible_def
        EqualFold_ascii is_ascii_def)
  have "\<not> match_attestation demo_context (no_conditions\<lparr>cond_RequireBuilderID := [''acme'']\<rparr>)"
    by (simp add: match_attestation_def demo_context_def zero_context_def containsAnySubstring_def proven_def)
  then have "\<not> matchesConditions 0 demo_context (no_conditions\<lparr>cond_RequireBuilderID := [''acme'']\<rparr>)"
    by (simp add: matchesConditions_def)
  with unverified_identity_is_ignored[OF u] show ?thesis by simp
qed

section \<open>Time\<close>

lemma young_enough_antimono:
  "young_enough now' date n \<Longrightarrow> now \<le> now' \<Longrightarrow> young_enough now date n"
  using age_days_mono by (auto simp: young_enough_def split: option.splits intro: order_trans)

text \<open>
  Time only releases: conditions that hold of the same facts at a later time held before, so that a
  package that has left a cooldown or an age window never comes back into it.
\<close>

theorem windows_only_close:
  assumes "matchesConditions now' x c" and "now \<le> now'"
  shows "matchesConditions now x c"
  using assms young_enough_antimono[OF _ assms(2)]
  by (auto simp: matchesConditions_def match_age_def split: option.splits)

lemma windows_only_close_witness:
  "matchesConditions 0 (demo_context\<lparr>ctx_VersionReleaseDate := Some 0\<rparr>) (no_conditions\<lparr>cond_CooldownDays := Some 10\<rparr>)"
proof (rule windows_only_close)
  show "matchesConditions 1 (demo_context\<lparr>ctx_VersionReleaseDate := Some 0\<rparr>) (no_conditions\<lparr>cond_CooldownDays := Some 10\<rparr>)"
  proof -
    have "age_days 1 0 \<le> 10"
    proof -
      have "age_days 1 0 \<le> age_days 86400000000000 0" by (rule age_days_mono) simp
      moreover have "Hours (time_Sub 86400000000000 0) = rnd (of_int 24)"
        by (simp add: Hours_alt time_Sub_def whole_hours_def Hour_def)
      ultimately show ?thesis
        using rnd_int[of 24] rnd_int[of 1] trunc_int[of 1] by (simp add: age_days_def fdiv_def)
    qed
    then show ?thesis
      by (simp add: matchesConditions_def match_defs no_conditions_def hasMeaningfulValues_def young_enough_def)
  qed
qed simp

text \<open>An exception that has expired stays expired.\<close>

theorem expiry_is_final:
  assumes "IsExpiredException p ageDays now" and "now \<le> now'"
  shows "IsExpiredException p ageDays now'"
  using assms time_Sub_mono[of now now' "pol_CreatedAt p" "pol_CreatedAt p"]
  by (auto simp: IsExpiredException_def split: if_splits)

lemma expiry_is_final_witness:
  "IsExpiredException ((plain_policy ''x'' ModeAllow)\<lparr>pol_ExpiresAt := Some 5\<rparr>) 0 9"
  by (rule expiry_is_final[of _ _ 6]) (simp_all add: IsExpiredException_def zero_time_def)

section \<open>The stamp of a suspect\<close>

lemma applyBypassQuarantine_simps [simp]:
  "res_Action (applyBypassQuarantine e x r) = res_Action r"
  "res_MatchedPolicy (applyBypassQuarantine e x r) = res_MatchedPolicy r"
  by (auto simp: applyBypassQuarantine_def split: option.split)

text \<open>
  The stamp of a bypass suspect leaves the action and the matched policy as they are, keeps the reason as a
  prefix, and is put on once.
\<close>

theorem bypass_stamp_is_additive:
  "res_Action (applyBypassQuarantine e x r) = res_Action r \<and>
   res_MatchedPolicy (applyBypassQuarantine e x r) = res_MatchedPolicy r \<and>
   HasPrefix (res_Reason (applyBypassQuarantine e x r)) (res_Reason r) \<and>
   applyBypassQuarantine e x (applyBypassQuarantine e x r) = applyBypassQuarantine e x r"
proof (intro conjI)
  have c: "Contains (s @ t @ u) t" for s t u
  proof -
    have "\<exists>k. k + length t \<le> length (s @ t @ u) \<and> take (length t) (drop k (s @ t @ u)) = t"
      by (rule exI[of _ "length s"]) simp
    then show ?thesis unfolding Contains_def using str_Index_None[of "s @ t @ u" t] by blast
  qed
  show "res_Action (applyBypassQuarantine e x r) = res_Action r"
    "res_MatchedPolicy (applyBypassQuarantine e x r) = res_MatchedPolicy r"
    "HasPrefix (res_Reason (applyBypassQuarantine e x r)) (res_Reason r)"
    by (auto simp: applyBypassQuarantine_def HasPrefix_iff split: option.split)
  have k: "Contains ReasonBypassSuspected ReasonBypassSuspected"
    "Contains (s @ ''; '' @ ReasonBypassSuspected) ReasonBypassSuspected" for s
    using c[of "[]" ReasonBypassSuspected "[]"] c[of "s @ ''; ''" ReasonBypassSuspected "[]"] by simp_all
  have "ReasonBypassSuspected \<noteq> []" by (simp add: ReasonBypassSuspected_def)
  then show "applyBypassQuarantine e x (applyBypassQuarantine e x r) = applyBypassQuarantine e x r"
    using k by (cases "ev_bypassChecker e") (simp_all add: applyBypassQuarantine_def)
qed

end
