(* ===== verification/PolicyStore.thy ===== *)
theory PolicyStore
  imports PolicyCache
begin

text \<open>
  The rules that a policy must pass before policy/store.go saves it: normalisation, validation, bounds, and what an
  edit may keep of an old row. The rows themselves live in Postgres and are not modelled; an error is a
  value of \<open>policy_error\<close>.
\<close>

section \<open>Does a policy constrain anything?\<close>

definition hasPolicyIdentifier :: "Identifier \<Rightarrow> bool" where
  "hasPolicyIdentifier i \<longleftrightarrow>
     hasMeaningfulValue (id_TargetPackageName i) \<or> hasMeaningfulValue (id_TargetPackageRepo i) \<or>
     hasMeaningfulValue (id_TargetPackageVersion i)"

definition hasPolicyCondition :: "Conditions \<Rightarrow> bool" where
  "hasPolicyCondition c \<longleftrightarrow>
     cond_IsVulnerable c \<noteq> None \<or> cond_PackageAge c \<noteq> None \<or>
     cond_CooldownDays c \<noteq> None \<or> cond_CVSSMin c \<noteq> None \<or> cond_CVSSMax c \<noteq> None
     \<or> cond_EPSSMin c \<noteq> None \<or> cond_EPSSMax c \<noteq> None \<or> cond_InKEV c \<noteq> None
     \<or> hasMeaningfulValues (cond_PackageLicense c) \<or> cond_HasProvenance c \<noteq> None \<or>
     cond_IsSuspectedTyposquat c \<noteq> None \<or> cond_IsKnownMalicious c \<noteq> None \<or>
     cond_TrustScoreMin c \<noteq> None \<or> cond_TrustScoreMax c \<noteq> None \<or>
     hasMeaningfulValues (cond_ReservedNamespaces c) \<or> cond_HasInstallScript c \<noteq> None \<or>
     cond_InstallScriptFetchesRemote c \<noteq> None \<or> cond_ImportTimeExecution c \<noteq> None \<or>
     cond_MaliciousIOC c \<noteq> None \<or> cond_BuildRsExecutes c \<noteq> None \<or>
     cond_PublisherChanged c \<noteq> None \<or> cond_VersionAnomaly c \<noteq> None \<or>
     hasMeaningfulValues (cond_VersionAnomalyKinds c) \<or> cond_HasHiddenUnicode c \<noteq> None \<or>
     hasMeaningfulValues (cond_HiddenUnicodeKinds c) \<or> cond_PublishVelocityAnomaly c \<noteq> None \<or>
     cond_PublishVelocityThreshold24h c \<noteq> None \<or> cond_LicenseCopyleft c \<noteq> None \<or>
     cond_LicenseNonPermissive c \<noteq> None \<or> cond_LicenseExceptionPresent c \<noteq> None \<or>
     cond_LicenseAmbiguousClassifier c \<noteq> None \<or> cond_LicenseUnidentified c \<noteq> None \<or>
     cond_DeprecatedByMaintainer c \<noteq> None \<or> cond_ShrinkwrapPresent c \<noteq> None \<or>
     cond_ManifestConfusion c \<noteq> None \<or> cond_GitDependency c \<noteq> None \<or>
     cond_HTTPTarballDependency c \<noteq> None \<or> cond_WildcardDependencyRange c \<noteq> None \<or>
     cond_BadDependencySemver c \<noteq> None \<or> cond_NonRegistrySource c \<noteq> None \<or>
     cond_NonRegistrySourceUnpinned c \<noteq> None \<or>
     hasMeaningfulValues (cond_NonRegistryOriginNotIn c) \<or> cond_UsesEval c \<noteq> None \<or>
     cond_NetworkAccess c \<noteq> None \<or> cond_ShellAccess c \<noteq> None \<or>
     cond_FilesystemAccess c \<noteq> None \<or> cond_EnvVarAccess c \<noteq> None \<or>
     cond_NativeBinaryPresent c \<noteq> None \<or> cond_HighEntropyStrings c \<noteq> None \<or>
     cond_URLStrings c \<noteq> None \<or> cond_MinifiedCode c \<noteq> None \<or>
     cond_TrivialPackage c \<noteq> None \<or> cond_TooManyFiles c \<noteq> None \<or>
     cond_NonExistentAuthor c \<noteq> None \<or> cond_FirstTimeCollaborator c \<noteq> None \<or>
     cond_SuspiciousRepoStars c \<noteq> None \<or> cond_MaintainerAccountAgeDaysMax c \<noteq> None \<or>
     hasMeaningfulValues (cond_Ecosystems c) \<or> cond_RequireAttestation c \<noteq> None \<or>
     cond_RequireSLSALevel c \<noteq> None \<or> hasMeaningfulValues (cond_RequireBuilderID c) \<or>
     hasMeaningfulValues (cond_RequireBuilderIssuer c) \<or> hasMeaningfulValues (cond_RequireSourceRepo c)
     \<or> cond_RequireTransparencyLog c \<noteq> None \<or> cond_ForbidCacheStale c \<noteq> None \<or>
     cond_DangerousPickle c \<noteq> None \<or> cond_UnsafeSerializationFormat c \<noteq> None \<or>
     cond_ModelCardInjection c \<noteq> None \<or> cond_AgentToolDangerousCapability c \<noteq> None \<or>
     cond_MCPServerDeclared c \<noteq> None \<or> cond_PromptTemplateInjection c \<noteq> None"

definition hasPolicyScope :: "Scope \<Rightarrow> bool" where
  "hasPolicyScope s \<longleftrightarrow>
     hasMeaningfulValues (scope_TargetClient s) \<or> hasMeaningfulValues (scope_TargetGroup s) \<or>
     hasMeaningfulValues (scope_TargetRepos s) \<or> hasMeaningfulValues (scope_TargetRequestingCountry s) \<or>
     hasMeaningfulValues (scope_TargetRequestingIP s)"

definition hasPolicyConstraint :: "Policy \<Rightarrow> bool" where
  "hasPolicyConstraint p \<longleftrightarrow>
     hasPolicyIdentifier (pol_Identifier p) \<or> hasPolicyCondition (pol_Conditions p) \<or> hasPolicyScope (pol_Scope p)"

text \<open>The reflection over the fields of \<open>Conditions\<close>, without the context-only signals and the bare parameter.\<close>

definition HasGateableConstraint :: "Conditions \<Rightarrow> bool" where
  "HasGateableConstraint c \<longleftrightarrow>
     cond_IsVulnerable c \<noteq> None \<or> cond_PackageAge c \<noteq> None \<or>
     cond_CooldownDays c \<noteq> None \<or> cond_CVSSMin c \<noteq> None \<or> cond_CVSSMax c \<noteq> None
     \<or> cond_EPSSMin c \<noteq> None \<or> cond_EPSSMax c \<noteq> None \<or> cond_InKEV c \<noteq> None
     \<or> cond_PackageLicense c \<noteq> [] \<or> cond_Ecosystems c \<noteq> [] \<or>
     cond_RequireSLSALevel c \<noteq> None \<or> cond_RequireBuilderID c \<noteq> [] \<or>
     cond_RequireBuilderIssuer c \<noteq> [] \<or> cond_RequireSourceRepo c \<noteq> [] \<or>
     cond_RequireTransparencyLog c \<noteq> None \<or> cond_ForbidCacheStale c \<noteq> None \<or>
     cond_RequireAttestation c \<noteq> None \<or> cond_HasProvenance c \<noteq> None \<or>
     cond_IsSuspectedTyposquat c \<noteq> None \<or> cond_IsKnownMalicious c \<noteq> None \<or>
     cond_TrustScoreMin c \<noteq> None \<or> cond_TrustScoreMax c \<noteq> None \<or>
     cond_ReservedNamespaces c \<noteq> [] \<or> cond_HasInstallScript c \<noteq> None \<or>
     cond_InstallScriptFetchesRemote c \<noteq> None \<or> cond_ImportTimeExecution c \<noteq> None \<or>
     cond_MaliciousIOC c \<noteq> None \<or> cond_BuildRsExecutes c \<noteq> None \<or>
     cond_PublisherChanged c \<noteq> None \<or> cond_VersionAnomaly c \<noteq> None \<or>
     cond_VersionAnomalyKinds c \<noteq> [] \<or> cond_HasHiddenUnicode c \<noteq> None \<or>
     cond_HiddenUnicodeKinds c \<noteq> [] \<or> cond_PublishVelocityAnomaly c \<noteq> None \<or>
     cond_LicenseCopyleft c \<noteq> None \<or> cond_LicenseNonPermissive c \<noteq> None \<or>
     cond_LicenseExceptionPresent c \<noteq> None \<or> cond_LicenseAmbiguousClassifier c \<noteq> None
     \<or> cond_LicenseUnidentified c \<noteq> None \<or> cond_DeprecatedByMaintainer c \<noteq> None \<or>
     cond_ShrinkwrapPresent c \<noteq> None \<or> cond_ManifestConfusion c \<noteq> None \<or>
     cond_GitDependency c \<noteq> None \<or> cond_HTTPTarballDependency c \<noteq> None \<or>
     cond_WildcardDependencyRange c \<noteq> None \<or> cond_BadDependencySemver c \<noteq> None \<or>
     cond_NonRegistrySource c \<noteq> None \<or> cond_NonRegistrySourceUnpinned c \<noteq> None \<or>
     cond_NonRegistryOriginNotIn c \<noteq> [] \<or> cond_NativeBinaryPresent c \<noteq> None \<or>
     cond_HighEntropyStrings c \<noteq> None \<or> cond_URLStrings c \<noteq> None \<or>
     cond_MinifiedCode c \<noteq> None \<or> cond_TrivialPackage c \<noteq> None \<or>
     cond_TooManyFiles c \<noteq> None \<or> cond_NonExistentAuthor c \<noteq> None \<or>
     cond_FirstTimeCollaborator c \<noteq> None \<or> cond_SuspiciousRepoStars c \<noteq> None \<or>
     cond_MaintainerAccountAgeDaysMax c \<noteq> None \<or> cond_DangerousPickle c \<noteq> None \<or>
     cond_UnsafeSerializationFormat c \<noteq> None \<or> cond_ModelCardInjection c \<noteq> None \<or>
     cond_AgentToolDangerousCapability c \<noteq> None \<or> cond_MCPServerDeclared c \<noteq> None \<or>
     cond_PromptTemplateInjection c \<noteq> None"

definition ContextOnlyConditionsUsed :: "Conditions \<Rightarrow> ConditionType list" where
  "ContextOnlyConditionsUsed c = sort (filter IsContextOnlyCondition (ConditionsUsedBy c))"

definition StandaloneContextOnlyViolation :: "Conditions \<Rightarrow> Identifier \<Rightarrow> Scope \<Rightarrow> ConditionType list" where
  "StandaloneContextOnlyViolation c i s =
     (let contextOnly = ContextOnlyConditionsUsed c in
      if contextOnly = [] then []
      else if HasGateableConstraint c then []
      else if hasPolicyIdentifier i \<or> hasPolicyScope s then []
      else contextOnly)"

section \<open>Validation\<close>

datatype policy_error =
    RoutingModeMissing | InvalidMode | RoutingBodyMissing | RoutingMatcherMissing | InvalidNotify
  | InvalidStatus | NoConstraint | StandaloneContextOnly "ConditionType list" | InvalidOrigin | InvalidDecision

definition validatePolicy :: "Policy \<Rightarrow> policy_error option" where
  "validatePolicy p =
     (if pol_Kind p = KindRouting then
        (if pol_Mode p = [] then Some RoutingModeMissing
         else if pol_Mode p \<notin> {ModeAllow, ModeBlock, ModeMonitor, ModeQuarantine} then Some InvalidMode
         else
           (case pol_Routing p of
              None \<Rightarrow> Some RoutingBodyMissing
            | Some r \<Rightarrow>
                if TrimSpace (routing_PathGlob r) = [] \<and> TrimSpace (routing_PackagePattern r) = [] then
                  Some RoutingMatcherMissing
                else if routing_Notify r \<noteq> [] \<and> routing_Notify r \<noteq> ''codeowners'' then Some InvalidNotify
                else if pol_Status p \<notin> {StatusEnabled, StatusDisabled} then Some InvalidStatus
                else None))
      else if pol_Mode p \<notin> {ModeAllow, ModeBlock, ModeMonitor, ModeQuarantine, ModeBlockAfterGrace} then
        Some InvalidMode
      else if pol_Status p \<notin> {StatusEnabled, StatusDisabled, StatusPendingApproval} then Some InvalidStatus
      else if \<not> hasPolicyConstraint p then Some NoConstraint
      else if StandaloneContextOnlyViolation (pol_Conditions p) (pol_Identifier p) (pol_Scope p) \<noteq> [] then
        Some (StandaloneContextOnly
                (StandaloneContextOnlyViolation (pol_Conditions p) (pol_Identifier p) (pol_Scope p)))
      else if \<not> validateNonRegistryOriginNotIn (cond_NonRegistryOriginNotIn (pol_Conditions p)) then
        Some InvalidOrigin
      else if pol_Decision p \<notin> {[], ''allow'', ''deny'', ''monitor''} then Some InvalidDecision
      else None)"

definition ReservedFindingPolicyIDPrefix :: string where "ReservedFindingPolicyIDPrefix = ''recall:''"

definition reservedID :: "string \<Rightarrow> bool" where
  "reservedID i \<longleftrightarrow> HasPrefix (ToLower (TrimSpace i)) ReservedFindingPolicyIDPrefix"

section \<open>Bounds\<close>

text \<open>A violated bound; an infinite bound is \<open>None\<close>.\<close>

record RangeError =
  range_Field :: string
  range_Min :: "rat option"
  range_Max :: "rat option"
  range_Got :: rat
  range_Unit :: string

definition violation :: "string \<Rightarrow> rat option \<Rightarrow> rat option \<Rightarrow> rat \<Rightarrow> RangeError" where
  "violation field lo hi got =
     \<lparr>range_Field = field, range_Min = lo, range_Max = hi, range_Got = got, range_Unit = []\<rparr>"

text \<open>\<open>checkFloat\<close> and \<open>checkInt\<close>: the violation of one bound.\<close>

definition check_range :: "string \<Rightarrow> rat option \<Rightarrow> rat \<Rightarrow> rat option \<Rightarrow> RangeError list" where
  "check_range field v lo hi =
     (case v of
        None \<Rightarrow> []
      | Some r \<Rightarrow>
          if r < lo \<or> (case hi of None \<Rightarrow> False | Some h \<Rightarrow> h < r)
          then [violation field (Some lo) hi r] else [])"

definition to_float :: "int option \<Rightarrow> rat option" where
  "to_float v = map_option (\<lambda>n. rnd (of_int n)) v"

text \<open>
  A pair of bounds: the second is looked at only when the first is legal, and the two are compared only when both
  are legal and set.
\<close>

definition check_pair :: "string \<Rightarrow> string \<Rightarrow> rat option \<Rightarrow> rat option \<Rightarrow> rat \<Rightarrow> RangeError list" where
  "check_pair fmin fmax lo hi limit =
     (case check_range fmin lo 0 (Some limit) of
        e # es \<Rightarrow> e # es
      | [] \<Rightarrow>
          (case check_range fmax hi 0 (Some limit) of
             e # es \<Rightarrow> e # es
           | [] \<Rightarrow>
               (case (lo, hi) of
                  (Some l, Some h) \<Rightarrow> if h < l then [violation fmin (Some 0) (Some h) l] else []
                | _ \<Rightarrow> [])))"

definition conditionRangeViolations :: "Conditions \<Rightarrow> RangeError list" where
  "conditionRangeViolations c =
     check_pair ''conditions.cvssMin'' ''conditions.cvssMax'' (cond_CVSSMin c) (cond_CVSSMax c) 10 @
     check_pair ''conditions.epssMin'' ''conditions.epssMax'' (cond_EPSSMin c) (cond_EPSSMax c) 1 @
     check_range ''conditions.packageAge'' (to_float (cond_PackageAge c)) 0 None @
     check_range ''conditions.cooldownDays'' (to_float (cond_CooldownDays c)) 0 None @
     check_range ''conditions.requireSlsaLevel'' (to_float (cond_RequireSLSALevel c)) 1 (Some 4) @
     check_pair ''conditions.trustScoreMin'' ''conditions.trustScoreMax''
       (to_float (cond_TrustScoreMin c)) (to_float (cond_TrustScoreMax c)) 100"

definition validateConditionBounds :: "Conditions \<Rightarrow> RangeError option" where
  "validateConditionBounds c =
     (case conditionRangeViolations c of [] \<Rightarrow> None | e # _ \<Rightarrow> Some e)"

definition MaxPolicyNameRunes :: nat where "MaxPolicyNameRunes = 512"

definition RuneCountInString :: "string \<Rightarrow> nat" where
  "RuneCountInString s = length (utf8_decode s)"

definition policyRangeViolations :: "Policy \<Rightarrow> RangeError list" where
  "policyRangeViolations p =
     (let n = RuneCountInString (pol_Name p) in
      if MaxPolicyNameRunes < n then
        [\<lparr>range_Field = ''name'', range_Min = None, range_Max = Some (of_nat MaxPolicyNameRunes),
          range_Got = of_nat n, range_Unit = ''characters''\<rparr>]
      else []) @ conditionRangeViolations (pol_Conditions p)"

definition preexisting_violation :: "Policy \<Rightarrow> Policy \<Rightarrow> RangeError \<Rightarrow> bool" where
  "preexisting_violation prev nxt nv =
     (if range_Field nv = ''name'' then pol_Name prev = pol_Name nxt
      else \<exists>pv \<in> set (policyRangeViolations prev).
             range_Field pv = range_Field nv \<and> range_Got pv = range_Got nv \<and>
             range_Min pv = range_Min nv \<and> range_Max pv = range_Max nv)"

definition introducedRangeViolations :: "Policy \<Rightarrow> Policy \<Rightarrow> RangeError list" where
  "introducedRangeViolations prev nxt =
     filter (\<lambda>nv. \<not> preexisting_violation prev nxt nv) (policyRangeViolations nxt)"

definition TruncateName :: "string \<Rightarrow> string" where
  "TruncateName s =
     (if RuneCountInString s \<le> MaxPolicyNameRunes then s
      else utf8_encode (take MaxPolicyNameRunes (utf8_decode s)))"

section \<open>Normalisation\<close>

text \<open>The values in order, without what a set already holds under its key.\<close>

fun distinct_by :: "(string \<Rightarrow> string) \<Rightarrow> string list \<Rightarrow> string list \<Rightarrow> string list" where
  "distinct_by key seen [] = []"
| "distinct_by key seen (v # vs) =
     (if key v \<in> set seen then distinct_by key seen vs else v # distinct_by key (key v # seen) vs)"

definition normalizeCountryScope :: "string list \<Rightarrow> string list" where
  "normalizeCountryScope values =
     distinct_by (\<lambda>v. v) []
       (filter (\<lambda>v. v \<noteq> [] \<and> \<not> isUnrestrictedScopeValue v) (map (\<lambda>v. ToUpper (TrimSpace v)) values))"

text \<open>One value of \<open>normalizeIPScope\<close>: \<open>None\<close> is an error.\<close>

definition canonical_ip :: "string \<Rightarrow> string option" where
  "canonical_ip v =
     (if Contains v ''/'' then map_option (\<lambda>p. Prefix_String (Masked p)) (ParsePrefix v)
      else map_option (\<lambda>a. Addr_String (Unmap a)) (ParseAddr v))"

definition normalizeIPScope :: "string list \<Rightarrow> string list option" where
  "normalizeIPScope values =
     (let vs = filter (\<lambda>v. v \<noteq> [] \<and> \<not> isUnrestrictedScopeValue v) (map TrimSpace values) in
      map_option (distinct_by ToLower []) (those (map canonical_ip vs)))"

definition normalizePolicy :: "Policy \<Rightarrow> Policy option" where
  "normalizePolicy p =
     (let i = pol_Identifier p; s = pol_Scope p in
      map_option
        (\<lambda>ips.
          p\<lparr>pol_Name := TrimSpace (pol_Name p), pol_Description := TrimSpace (pol_Description p),
            pol_Identifier :=
              \<lparr>id_TargetPackageName = TrimSpace (id_TargetPackageName i),
               id_TargetPackageRepo = TrimSpace (id_TargetPackageRepo i),
               id_TargetPackageVersion = TrimSpace (id_TargetPackageVersion i)\<rparr>,
            pol_Decision := ToLower (TrimSpace (pol_Decision p)), pol_CVE := TrimSpace (pol_CVE p),
            pol_Note := TrimSpace (pol_Note p),
            pol_Scope :=
              s\<lparr>scope_TargetRequestingCountry := normalizeCountryScope (scope_TargetRequestingCountry s),
                scope_TargetRequestingIP := ips\<rparr>\<rparr>)
        (normalizeIPScope (scope_TargetRequestingIP s)))"

text \<open>\<open>normalizeHashStrings\<close>: the first spelling of every key, sorted by key.\<close>

definition normalizeHashStrings :: "string list \<Rightarrow> string list" where
  "normalizeHashStrings values =
     sort_key ToLower (distinct_by ToLower [] (filter (\<lambda>v. v \<noteq> []) (map TrimSpace values)))"

end
