(* ===== verification/PolicyGaps.thy ===== *)
theory PolicyGaps
  imports PolicyFacts PolicyStore
begin

text \<open>
  Policies that the validation accepts and that do not do what their description says, each on a concrete
  policy: a routing rule that blocks, a rule with only a parameter that matches everything, an exception that
  is skipped, an edit that brings in a bound out of range, a scope that shrinks when it is saved.
\<close>

section \<open>A routing rule enforces its mode\<close>

definition routing_rule :: "Mode \<Rightarrow> Policy" where
  "routing_rule m =
     (plain_policy ''route'' m)
       \<lparr>pol_Kind := KindRouting,
        pol_Routing := Some \<lparr>routing_PathGlob = ''/services/**'', routing_PackagePattern = [], routing_Notify = ''codeowners''\<rparr>\<rparr>"

text \<open>A routing rule as its form leaves it: a body, and no target, scope, condition or expiry of its own.\<close>

definition bare_routing :: "Policy \<Rightarrow> bool" where
  "bare_routing p \<longleftrightarrow>
     pol_Kind p = KindRouting \<and> pol_Status p = StatusEnabled \<and> pol_Identifier p = no_identifier \<and>
     pol_Scope p = no_scope \<and> pol_Conditions p = no_conditions \<and> pol_ExpiresAt p = None"

lemma bare_routing_applies: "bare_routing p \<Longrightarrow> applies e x a now p"
  by (auto simp: bare_routing_def applies_def IsExpiredException_def detectUnsupported_def
        detectChecksumUnavailable_def matchesPolicy_def Let_def)

lemma routing_modes:
  "pol_Kind p = KindRouting \<Longrightarrow> validatePolicy p = None \<Longrightarrow> pol_Mode p \<in> {ModeAllow, ModeBlock, ModeMonitor, ModeQuarantine}"
  by (auto simp: validatePolicy_def split: if_splits)

text \<open>
  C22: A routing rule is to notify the owners of a path and never to gate an install, but the evaluation does not
  look at the kind: a routing rule that the validation accepts, that has no target, scope, condition or expiry and
  whose mode is not monitor, decides every request to which no earlier rule applies, with its mode: block or quarantine
  denies the request, and allow lets it through whatever the rules after it say.
\<close>

theorem routing_rules_enforce:
  fixes p :: Policy and before after :: "Policy list" and e x a now
  assumes "validatePolicy p = None" and "bare_routing p" and "pol_Mode p \<noteq> ModeMonitor"
    and "\<forall>q \<in> set before. \<not> applies e x a now q"
  shows "res_Action (snd (evaluatePolicies e x (before @ p # after) a now)) = pol_Mode p \<and>
     res_MatchedPolicy (snd (evaluatePolicies e x (before @ p # after) a now)) = Some p \<and>
     pol_Mode p \<in> {ModeAllow, ModeBlock, ModeQuarantine}"
proof -
  have m: "pol_Mode p \<in> {ModeAllow, ModeBlock, ModeQuarantine}"
    using routing_modes[of p] assms(1-3) by (auto simp: bare_routing_def)
  then have "pol_Mode p \<noteq> ModeBlockAfterGrace" by auto
  then have o: "res_Action (outcome e x now p) = pol_Mode p" "res_MatchedPolicy (outcome e x now p) = Some p"
    by (simp_all add: outcome_def resolveAction_id)
  have "filter (applies e x a now) (before @ p # after) = p # filter (applies e x a now) after"
    using assms(4) bare_routing_applies[OF assms(2), of e x a now] by simp
  then have "snd (evaluatePolicies e x (before @ p # after) a now) =
      first_match (outcome e x now p # map (outcome e x now) (filter (applies e x a now) after))"
    by (simp add: evaluate_first_match live_matches_applies)
  with o m assms(3) show ?thesis by (simp add: first_match_def)
qed

lemma routing_rules_enforce_witness:
  "res_Action (snd (evaluatePolicies quiet demo_context [routing_rule ModeBlock] 0 0)) = ModeBlock"
proof -
  have t: "TrimSpace ''/services/**'' \<noteq> []" by (simp add: TrimSpace_visible visible_def)
  have k: "pol_Kind (routing_rule ModeBlock) = KindRouting" "pol_Mode (routing_rule ModeBlock) = ModeBlock"
    "pol_Status (routing_rule ModeBlock) = StatusEnabled"
    "pol_Routing (routing_rule ModeBlock) =
       Some \<lparr>routing_PathGlob = ''/services/**'', routing_PackagePattern = [], routing_Notify = ''codeowners''\<rparr>"
    by (simp_all add: routing_rule_def)
  have "ModeBlock \<noteq> []" by (simp add: mode_defs)
  with t have v: "validatePolicy (routing_rule ModeBlock) = None" unfolding validatePolicy_def k by simp
  have "bare_routing (routing_rule ModeBlock)" by (simp add: bare_routing_def routing_rule_def)
  from routing_rules_enforce[OF v this, of "[]" quiet demo_context 0 0 "[]"] k(2) show ?thesis by simp
qed

section \<open>A bare parameter\<close>

definition threshold_rule :: Policy where
  "threshold_rule =
     (plain_policy ''worm'' ModeBlock)
       \<lparr>pol_Conditions := no_conditions\<lparr>cond_PublishVelocityThreshold24h := Some 50\<rparr>\<rparr>"

lemma threshold_matches: "matchesConditions now x (no_conditions\<lparr>cond_PublishVelocityThreshold24h := Some n\<rparr>)"
  by (simp add: matchesConditions_def match_defs no_conditions_def hasMeaningfulValues_def)

lemma threshold_constrains: "cond_PublishVelocityThreshold24h c \<noteq> None \<Longrightarrow> hasPolicyCondition c"
  by (simp add: hasPolicyCondition_def)

text \<open>
  A threshold alone, without the condition that it parameterises, is meant to be inert; the validation
  counts it as a condition, and the rule matches every package.
\<close>

theorem threshold_rule_blocks_everything:
  "validatePolicy threshold_rule = None \<and>
   denies (snd (evaluatePolicies e x (threshold_rule # ps) a now))"
proof (intro conjI)
  have u: "ConditionsUsedBy (pol_Conditions threshold_rule) = []"
    by (simp add: threshold_rule_def ConditionsUsedBy_def conditions_used_def used_when_def no_conditions_def
        dedupeConditions_def)
  have "hasPolicyCondition (pol_Conditions threshold_rule)"
    by (rule threshold_constrains) (simp add: threshold_rule_def)
  moreover have "cond_NonRegistryOriginNotIn (pol_Conditions threshold_rule) = []"
    by (simp add: threshold_rule_def no_conditions_def)
  moreover have "pol_Kind threshold_rule = KindEnforcement" "pol_Mode threshold_rule = ModeBlock"
    "pol_Status threshold_rule = StatusEnabled" "pol_Decision threshold_rule = []"
    by (simp_all add: threshold_rule_def)
  ultimately show "validatePolicy threshold_rule = None"
    using u by (simp add: validatePolicy_def hasPolicyConstraint_def StandaloneContextOnlyViolation_def
        ContextOnlyConditionsUsed_def validateNonRegistryOriginNotIn_def)
  have "snd (try_policy e x a now threshold_rule) \<noteq> None"
    using u threshold_matches[of now x 50]
    by (auto simp: try_policy_def threshold_rule_def IsExpiredException_def detectUnsupported_def
        detectChecksumUnavailable_def matchesPolicy_def resolveAction_def Let_def)
  moreover have "enforces x threshold_rule" by (simp add: enforces_def threshold_rule_def)
  ultimately show "denies (snd (evaluatePolicies e x (threshold_rule # ps) a now))"
    using enforcing_match[of x threshold_rule e a now "[]" ps] by simp
qed

section \<open>Exceptions that are skipped\<close>

definition vulnerability_exception :: Policy where
  "vulnerability_exception =
     (plain_policy ''accept'' ModeAllow)
       \<lparr>pol_Kind := KindException, pol_Conditions := no_conditions\<lparr>cond_IsVulnerable := Some True\<rparr>\<rparr>"

definition block_all :: Policy where
  "block_all =
     (plain_policy ''block-malware'' ModeBlock)
       \<lparr>pol_Conditions := no_conditions\<lparr>cond_IsKnownMalicious := Some True\<rparr>\<rparr>"

text \<open>
  An exception must bypass every later block of its coordinate regardless of the state of its conditions, but the
  guard for a missing checksum skips it because it carries \<open>isVulnerable\<close>: the same exception is in force
  with a checksum and void without one.
\<close>

theorem exception_void_without_checksum:
  "snd (try_policy e x 0 now vulnerability_exception) \<noteq> None \<longleftrightarrow>
     \<not> ctx_ChecksumUnavailable x \<and> detectUnsupported x vulnerability_exception = []"
proof -
  have "pol_Mode vulnerability_exception = ModeAllow" "pol_Kind vulnerability_exception = KindException"
    "pol_Status vulnerability_exception = StatusEnabled" "pol_ExpiresAt vulnerability_exception = None"
    "cond_IsVulnerable (pol_Conditions vulnerability_exception) = Some True"
    "cond_IsKnownMalicious (pol_Conditions vulnerability_exception) = None"
    "pol_Identifier vulnerability_exception = no_identifier" "pol_Scope vulnerability_exception = no_scope"
    by (simp_all add: vulnerability_exception_def no_conditions_def)
  then show ?thesis
    by (simp add: try_policy_def IsExpiredException_def detectChecksumUnavailable_def matchesPolicy_def
        ExceptionExcludesMalware_def resolveAction_id)
qed

section \<open>Edits\<close>

definition with_cvss :: "rat option \<Rightarrow> rat option \<Rightarrow> Policy" where
  "with_cvss lo hi =
     (plain_policy ''p'' ModeBlock)\<lparr>pol_Conditions := no_conditions\<lparr>cond_CVSSMin := lo, cond_CVSSMax := hi\<rparr>\<rparr>"

text \<open>
  An edit may keep a bound that was out of range before and must not add one; with an illegal minimum kept, an
  illegal maximum is added unnoticed, because the second bound of a pair is only looked at when the first is legal.
\<close>

theorem added_violation_unnoticed:
  "introducedRangeViolations (with_cvss (Some (- 1)) None) (with_cvss (Some (- 1)) (Some 99)) = []"
  "introducedRangeViolations (with_cvss None None) (with_cvss None (Some 99)) \<noteq> []"
  by (simp_all add: introducedRangeViolations_def preexisting_violation_def policyRangeViolations_def
      conditionRangeViolations_def check_pair_def check_range_def violation_def with_cvss_def no_conditions_def
      to_float_def plain_policy_def RuneCountInString_def utf8_decode.simps MaxPolicyNameRunes_def)

section \<open>Scopes\<close>

lemma unrestricted_star: "isUnrestrictedScopeValue ''*''" "\<not> isUnrestrictedScopeValue ''10.0.0.0/8''"
  by (simp_all add: isUnrestrictedScopeValue_def TrimSpace_visible visible_def EqualFold_ascii is_ascii_def
      byte_lower_def)

lemma slash8: "canonical_ip ''10.0.0.0/8'' = Some ''10.0.0.0/8''"
  by code_simp

lemma slash8_excludes: "map_option (\<lambda>a. ip_matches (Unmap a) ''10.0.0.0/8'') (ParseAddr ''192.168.0.1'') = Some False"
proof -
  have "ParseAddr ''192.168.0.1'' = Some (V4 0xC0A80001)" by code_simp
  moreover have "ParsePrefix ''10.0.0.0/8'' = Some \<lparr>prefix_ip = V4 0x0A000000, prefix_bits = 8\<rparr>" by code_simp
  moreover have "\<not> Prefix_Contains (Masked \<lparr>prefix_ip = V4 0x0A000000, prefix_bits = 8\<rparr>) (V4 0xC0A80001)"
    by code_simp
  moreover have "Contains ''10.0.0.0/8'' ''/''" by code_simp
  ultimately show ?thesis
    using unrestricted_star by (simp add: ip_matches_def TrimSpace_visible visible_def Unmap_def)
qed

text \<open>
  A list of addresses that holds the wildcard matches every requester, until the policy is saved: the
  normalisation drops the wildcard and keeps the others.
\<close>

theorem saving_narrows_a_wildcard_scope:
  "matchesIPList ''192.168.0.1'' [''*'', ''10.0.0.0/8'']"
  "normalizeIPScope [''*'', ''10.0.0.0/8''] = Some [''10.0.0.0/8'']"
  "\<not> matchesIPList ''192.168.0.1'' [''10.0.0.0/8'']"
proof -
  have v: "TrimSpace ''192.168.0.1'' = ''192.168.0.1''" "TrimSpace ''10.0.0.0/8'' = ''10.0.0.0/8''"
    "TrimSpace ''*'' = ''*''"
    by (simp_all add: TrimSpace_visible visible_def)
  show "matchesIPList ''192.168.0.1'' [''*'', ''10.0.0.0/8'']"
    using unrestricted_star by (simp add: matchesIPList_def)
  show "normalizeIPScope [''*'', ''10.0.0.0/8''] = Some [''10.0.0.0/8'']"
    using unrestricted_star slash8 v by (simp add: normalizeIPScope_def)
  show "\<not> matchesIPList ''192.168.0.1'' [''10.0.0.0/8'']"
    using unrestricted_star slash8_excludes v by (auto simp: matchesIPList_def split: option.splits)
qed

end
