(* ===== verification/PolicyCacheProps.thy ===== *)
theory PolicyCacheProps
  imports PolicyGaps
begin

text \<open>
  The verdict cache: what a key may leave out, where a cached verdict comes from, and the two ways in which a
  verdict reaches a request that it was not computed for.
\<close>

section \<open>What a verdict depends on\<close>

definition from_requester ::
  "string \<Rightarrow> string list \<Rightarrow> string \<Rightarrow> string \<Rightarrow> EvaluationContext \<Rightarrow> EvaluationContext" where
  "from_requester client groups ip country x =
     x\<lparr>ctx_ClientID := client, ctx_ClientGroups := groups, ctx_RequestingIP := ip, ctx_RequestingCountry := country\<rparr>"

lemma from_requester_simps [simp]:
  "ctx_OrgID (from_requester c g i k x) = ctx_OrgID x"
  "ctx_Repository (from_requester c g i k x) = ctx_Repository x"
  "ctx_PackageName (from_requester c g i k x) = ctx_PackageName x"
  "ctx_PackageVersion (from_requester c g i k x) = ctx_PackageVersion x"
  "ctx_RepositoryFormat (from_requester c g i k x) = ctx_RepositoryFormat x"
  "ctx_ChecksumUnavailable (from_requester c g i k x) = ctx_ChecksumUnavailable x"
  "ctx_IsKnownMalicious (from_requester c g i k x) = ctx_IsKnownMalicious x"
  "ctx_IsVulnerable (from_requester c g i k x) = ctx_IsVulnerable x"
  "ctx_PackageReleaseDate (from_requester c g i k x) = ctx_PackageReleaseDate x"
  "ctx_VersionReleaseDate (from_requester c g i k x) = ctx_VersionReleaseDate x"
  "ctx_ClientID (from_requester c g i k x) = c" "ctx_ClientGroups (from_requester c g i k x) = g"
  "ctx_RequestingIP (from_requester c g i k x) = i" "ctx_RequestingCountry (from_requester c g i k x) = k"
  by (simp_all add: from_requester_def)

lemma matchesIdentifier_requester [simp]:
  "matchesIdentifier sv (from_requester c g i k x) = matchesIdentifier sv x"
  by (rule ext) (simp add: matchesIdentifier_def)

lemma matchesConditions_requester [simp]:
  "matchesConditions now (from_requester c g i k x) cond = matchesConditions now x cond"
  by (simp add: from_requester_def matchesConditions_def match_defs proven_def cong: option.case_cong)

lemma matchesScope_empty: "scope_isEmpty s \<Longrightarrow> matchesScope x s"
  by (simp add: matchesScope_def)

lemma try_policy_requester:
  assumes "pol_Status p = StatusEnabled \<Longrightarrow>
             matchesScope (from_requester c g i k x) (pol_Scope p) = matchesScope x (pol_Scope p)"
  shows "try_policy e (from_requester c g i k x) a now p = try_policy e x a now p"
proof (cases "pol_Status p = StatusEnabled")
  case True
  note m = assms[OF True]
  let ?y = "from_requester c g i k x"
  have u: "detectUnsupported ?y p = detectUnsupported x p"
    by (simp only: detectUnsupported_def from_requester_simps)
  have r: "recordSkipEvents e ?y p cs reason b = recordSkipEvents e x p cs reason b" for cs reason b
    by (simp only: recordSkipEvents_def from_requester_simps)
  then have s: "recordSkipped e ?y p cs reason = recordSkipped e x p cs reason" for cs reason
    by (simp only: recordSkipped_def)
  have d: "recordDarkAdvisoryLane e ?y p = recordDarkAdvisoryLane e x p"
    by (simp only: recordDarkAdvisoryLane_def from_requester_simps matchesIdentifier_requester m r)
  have l: "recordDarkPublishDate e ?y p = recordDarkPublishDate e x p"
    by (simp only: recordDarkPublishDate_def darkPublishDateConditions_def from_requester_simps
        matchesIdentifier_requester m r)
  have p: "matchesPolicy (ev_semver e) now ?y p = matchesPolicy (ev_semver e) now x p"
    by (simp only: matchesPolicy_def from_requester_simps matchesIdentifier_requester matchesConditions_requester m)
  have a: "resolveAction e ?y p now = resolveAction e x p now"
    by (simp only: resolveAction_def from_requester_simps)
  show ?thesis by (simp only: try_policy_def u s d l p a from_requester_simps)
qed (simp add: try_policy_def)

lemma policy_loop_cong:
  "(\<And>p. p \<in> set ps \<Longrightarrow> try_policy e x a now p = try_policy e x' a now p) \<Longrightarrow>
     policy_loop e x a now fm ps = policy_loop e x' a now fm ps"
  by (induction ps arbitrary: fm) (auto split: option.splits prod.splits)

text \<open>
  While no enabled policy is scoped, the verdict and the events are the same for every requester: the key may
  leave client, groups, address and country out.
\<close>

theorem unscoped_verdict_ignores_requester:
  assumes "\<not> meta_hasScopedPolicies (computePolicyMeta ps)"
  shows "evaluatePolicies e (from_requester c g i k x) ps a now = evaluatePolicies e x ps a now"
  unfolding evaluatePolicies_def
proof (rule policy_loop_cong)
  fix p assume "p \<in> set ps"
  then have "scope_isEmpty (pol_Scope p)" if "pol_Status p = StatusEnabled"
    using assms that by (auto simp: computePolicyMeta_def Let_def)
  then show "try_policy e (from_requester c g i k x) a now p = try_policy e x a now p"
    by (intro try_policy_requester) (simp add: matchesScope_empty)
qed

lemma unscoped_verdict_ignores_requester_witness:
  "evaluatePolicies quiet (from_requester ''ci'' [''a''] ''10.0.0.1'' ''US'' demo_context) [block_everything] 0 0 =
   evaluatePolicies quiet demo_context [block_everything] 0 0"
  by (rule unscoped_verdict_ignores_requester)
     (simp add: computePolicyMeta_def block_everything_def scope_isEmpty_def no_scope_def)

lemma hasAnyIntersection_set: "set ys = set ys' \<Longrightarrow> hasAnyIntersection xs ys = hasAnyIntersection xs ys'"
  by (simp add: hasAnyIntersection_def)

text \<open>The order of the groups is irrelevant to the verdict, and the fingerprint forgets it.\<close>

theorem group_order_is_irrelevant:
  assumes "mset g = mset g'"
  shows "evaluatePolicies e (from_requester c g i k x) ps a now =
       evaluatePolicies e (from_requester c g' i k x) ps a now \<and>
     scopeFingerprint c g i k = scopeFingerprint c g' i k"
proof (intro conjI)
  have s: "set g = set g'" using assms by (metis set_mset_mset)
  have f: "from_requester c g i k x = from_requester c g i k (from_requester c g' i k x)"
    by (simp add: from_requester_def)
  have m: "matchesScope (from_requester c g i k x) s = matchesScope (from_requester c g' i k x) s" for s
    using hasAnyIntersection_set[OF \<open>set g = set g'\<close>] by (simp add: matchesScope_def)
  show "evaluatePolicies e (from_requester c g i k x) ps a now =
      evaluatePolicies e (from_requester c g' i k x) ps a now"
    unfolding evaluatePolicies_def
    by (rule policy_loop_cong) (use m f in \<open>metis try_policy_requester\<close>)
  show "scopeFingerprint c g i k = scopeFingerprint c g' i k"
    using assms by (simp add: scopeFingerprint_def properties_for_sort[of "sort g" g'])
qed

lemma group_order_is_irrelevant_witness:
  "scopeFingerprint ''c'' [''b'', ''a''] ''10.0.0.1'' ''US'' = scopeFingerprint ''c'' [''a'', ''b''] ''10.0.0.1'' ''US''"
  by (rule group_order_is_irrelevant[THEN conjunct2]) simp

section \<open>Where a cached verdict comes from\<close>

text \<open>
  The runs of an evaluator: requests, the two halves of a request with other steps between them, and
  invalidations. The policies that a second half works on may be any that were listed before.
\<close>

inductive es_run :: "('v, 'c) Evaluator \<Rightarrow> int \<Rightarrow> EvalState \<Rightarrow> bool" for e ttl where
  start: "es_run e ttl \<lparr>es_cache = Some (newEvalCache ttl), es_meta = None\<rparr>"
| read: "es_run e ttl s \<Longrightarrow> Evaluate_read e store x now s = (out, s') \<Longrightarrow> es_run e ttl s'"
| finish: "es_run e ttl s \<Longrightarrow> Evaluate_finish e x a now ps (evalCacheKeyFor x m) s = (evs, r, s') \<Longrightarrow> es_run e ttl s'"
| invalidate: "es_run e ttl s \<Longrightarrow> es_run e ttl (InvalidateCache s)"
| invalidate_org: "es_run e ttl s \<Longrightarrow> es_run e ttl (InvalidateCacheForOrg org s)"

definition entry_ok :: "('v, 'c) Evaluator \<Rightarrow> int \<Rightarrow> cacheKey \<Rightarrow> cacheEntry \<Rightarrow> bool" where
  "entry_ok e ttl k en \<longleftrightarrow>
     (\<exists>x a now ps m. evalCacheKeyFor x m = Some k \<and> ce_result en = snd (evaluatePolicies e x ps a now) \<and>
        ce_expiresAt en = now + ttl)"

definition cache_ok :: "('v, 'c) Evaluator \<Rightarrow> int \<Rightarrow> EvalState \<Rightarrow> bool" where
  "cache_ok e ttl s \<longleftrightarrow>
     (\<forall>c. es_cache s = Some c \<longrightarrow> ec_ttl c = ttl \<and> (\<forall>k en. ec_entries c k = Some en \<longrightarrow> entry_ok e ttl k en))"

lemma Evaluate_read_cache: "Evaluate_read e store x now s = (out, s') \<Longrightarrow> es_cache s' = es_cache s"
  by (auto simp: Evaluate_read_def Let_def split: option.splits sum.splits)

lemma es_run_cache_ok:
  assumes "es_run e ttl s" and "0 < ttl"
  shows "cache_ok e ttl s"
  using assms
proof (induction rule: es_run.induct)
  case start
  then show ?case by (simp add: cache_ok_def newEvalCache_def)
next
  case (read s store x now out s')
  then show ?case by (simp add: cache_ok_def Evaluate_read_cache)
next
  case (finish s x a now ps m evs r s')
  obtain evs' v where v: "evaluatePolicies e x ps a now = (evs', v)" by (cases "evaluatePolicies e x ps a now")
  show ?case
  proof (cases "evalCacheKeyFor x m")
    case None
    then have "s' = s" using finish.hyps(2) v by (simp add: Evaluate_finish_def)
    then show ?thesis using finish by simp
  next
    case (Some k)
    then have s': "es_cache s' = cache_Put now (es_cache s) k v"
      using finish.hyps(2) v by (auto simp: Evaluate_finish_def Let_def)
    have "entry_ok e ttl k \<lparr>ce_result = v, ce_expiresAt = now + ttl\<rparr>"
      unfolding entry_ok_def using Some v
      by (intro exI[of _ x] exI[of _ a] exI[of _ now] exI[of _ ps] exI[of _ m]) simp
    then show ?thesis using finish.IH finish.prems s' by (auto simp: cache_ok_def cache_Put_def split: if_splits)
  qed
next
  case (invalidate s)
  then show ?case by (auto simp: cache_ok_def InvalidateCache_def cache_Invalidate_def)
next
  case (invalidate_org s org)
  then show ?case
    by (auto simp: cache_ok_def InvalidateCacheForOrg_def cache_InvalidateOrg_def cache_Invalidate_def Let_def
        split: if_splits)
qed

text \<open>
  C31: Whatever requests, interrupted requests and invalidations came before: a verdict that is served from the
  cache was computed for a context with the same organisation, repository, package and version, at most the
  time to live ago, and never for a request without a package name or version.
\<close>

theorem cached_verdict_origin:
  assumes run: "es_run e ttl s" and pos: "0 < ttl"
    and hit: "Evaluate_read e (Some store) x now s = (Inl (r, None), s')"
  shows "\<exists>x' a' now' ps'. r = applyBypassQuarantine e x (snd (evaluatePolicies e x' ps' a' now')) \<and>
     ctx_OrgID x' = ctx_OrgID x \<and> ctx_Repository x' = ctx_Repository x \<and>
     ctx_PackageName x' = ctx_PackageName x \<and> ctx_PackageVersion x' = ctx_PackageVersion x \<and>
     ctx_PackageName x \<noteq> [] \<and> ctx_PackageVersion x \<noteq> [] \<and> now \<le> now' + ttl"
proof -
  have ok: "cache_ok e ttl s" using es_run_cache_ok run pos .
  obtain m k v where k: "evalCacheKeyFor x m = Some k" and g: "cache_Get now (es_cache s) k = Some v"
    and r: "r = applyBypassQuarantine e x v"
    using hit by (auto simp: Evaluate_read_def Let_def split: option.splits sum.splits)
  obtain en where en: "entry_ok e ttl k en" "ce_result en = v" "now \<le> ce_expiresAt en"
    using g ok by (fastforce simp: cache_Get_def cache_ok_def not_less split: option.splits if_splits)
  obtain x' a' now' ps' m' where o: "evalCacheKeyFor x' m' = Some k"
    "ce_result en = snd (evaluatePolicies e x' ps' a' now')" "ce_expiresAt en = now' + ttl"
    using en(1) by (auto simp: entry_ok_def)
  have "ctx_OrgID x' = ctx_OrgID x \<and> ctx_Repository x' = ctx_Repository x \<and>
     ctx_PackageName x' = ctx_PackageName x \<and> ctx_PackageVersion x' = ctx_PackageVersion x \<and>
     ctx_PackageName x \<noteq> [] \<and> ctx_PackageVersion x \<noteq> []"
    using k o(1) by (auto simp: evalCacheKeyFor_def split: if_splits)
  then show ?thesis using r o(2,3) en(2,3) by metis
qed

definition fresh_state :: EvalState where
  "fresh_state = \<lparr>es_cache = Some (newEvalCache DefaultEvalCacheTTL), es_meta = None\<rparr>"

definition plain_meta :: policyMeta where
  "plain_meta = \<lparr>meta_hasScopedPolicies = False, meta_hasGracePolicies = False\<rparr>"

definition demo_key :: cacheKey where
  "demo_key = \<lparr>key_OrgID = ''org'', key_Repo = ''npm-all'', key_PackageName = ''left-pad'', key_Version = ''1.3.0'',
               key_Scope = []\<rparr>"

definition warm_state :: EvalState where
  "warm_state = \<lparr>es_cache = cache_Put 0 (es_cache fresh_state) demo_key no_match, es_meta = Some plain_meta\<rparr>"

lemma demo_key: "evalCacheKeyFor demo_context plain_meta = Some demo_key"
  by (simp add: evalCacheKeyFor_def demo_context_def zero_context_def plain_meta_def demo_key_def)

lemma meta_nil [simp]: "computePolicyMeta [] = plain_meta"
  by (simp add: computePolicyMeta_def plain_meta_def)

lemma evaluate_nil [simp]: "evaluatePolicies e x [] a now = ([], no_match)"
  by (simp add: evaluatePolicies_def)

lemma bypass_quiet [simp]: "applyBypassQuarantine quiet x r = r"
  by (simp add: applyBypassQuarantine_def quiet_def)

lemma warm_run: "es_run quiet DefaultEvalCacheTTL warm_state"
proof -
  have s: "es_run quiet DefaultEvalCacheTTL fresh_state" unfolding fresh_state_def by (rule es_run.start)
  have "Evaluate_read quiet (Some (Inr [])) demo_context 0 fresh_state =
      (Inr ([], Some demo_key), fresh_state\<lparr>es_meta := Some plain_meta\<rparr>)"
    by (simp add: Evaluate_read_def fresh_state_def demo_key cache_Get_def newEvalCache_def Let_def)
  note r = es_run.read[OF s this]
  have "Evaluate_finish quiet demo_context 0 0 [] (evalCacheKeyFor demo_context plain_meta)
      (fresh_state\<lparr>es_meta := Some plain_meta\<rparr>) = ([], no_match, warm_state)"
    by (simp add: Evaluate_finish_def demo_key warm_state_def fresh_state_def)
  from es_run.finish[OF r this] show ?thesis .
qed

lemma warm_hit: "Evaluate_read quiet (Some (Inr [])) demo_context 5 warm_state = (Inl (no_match, None), warm_state)"
  by (simp add: Evaluate_read_def warm_state_def demo_key cache_Get_def cache_Put_def fresh_state_def newEvalCache_def
      DefaultEvalCacheTTL_def Let_def)

lemma cached_verdict_origin_witness:
  "\<exists>x' a' now' ps'. no_match = applyBypassQuarantine quiet demo_context (snd (evaluatePolicies quiet x' ps' a' now')) \<and>
     ctx_OrgID x' = ctx_OrgID demo_context \<and> ctx_Repository x' = ctx_Repository demo_context \<and>
     ctx_PackageName x' = ctx_PackageName demo_context \<and> ctx_PackageVersion x' = ctx_PackageVersion demo_context \<and>
     ctx_PackageName demo_context \<noteq> [] \<and> ctx_PackageVersion demo_context \<noteq> [] \<and> 5 \<le> now' + DefaultEvalCacheTTL"
  by (rule cached_verdict_origin[OF warm_run _ warm_hit]) (simp add: DefaultEvalCacheTTL_def)

section \<open>Verdicts that reach the wrong request\<close>

text \<open>A verdict that was kept under a key is served to every later request with that key.\<close>

lemma verdict_is_shared:
  assumes "evalCacheKeyFor x' m = Some k" and "es_cache s = Some c" and "now' \<le> now + ec_ttl c"
    and "es_meta s = Some m \<or> es_meta s = None \<and> computePolicyMeta new = m"
  shows "fst (snd (Evaluate e (Some (Inr new)) x' a' now' (snd (snd (Evaluate_finish e x a now ps (Some k) s))))) =
           (applyBypassQuarantine e x' (snd (evaluatePolicies e x ps a now)), None)"
  using assms
  by (auto simp: Evaluate_def Evaluate_read_def Evaluate_finish_def cache_Get_def cache_Put_def Let_def
      split: prod.split)

definition group_rule :: Policy where
  "group_rule = (plain_policy ''contractors'' ModeBlock)\<lparr>pol_Scope := no_scope\<lparr>scope_TargetGroup := [''a'']\<rparr>\<rparr>"

definition demo_requester :: "string list \<Rightarrow> EvaluationContext" where
  "demo_requester groups = from_requester ''c'' groups ''10.0.0.1'' ''US'' demo_context"

definition scoped_meta :: policyMeta where
  "scoped_meta = \<lparr>meta_hasScopedPolicies = True, meta_hasGracePolicies = False\<rparr>"

lemma group_rule_simps [simp]:
  "pol_Mode group_rule = ModeBlock" "pol_Status group_rule = StatusEnabled" "pol_Kind group_rule = KindEnforcement"
  "pol_Identifier group_rule = no_identifier" "pol_Conditions group_rule = no_conditions"
  "pol_Scope group_rule = no_scope\<lparr>scope_TargetGroup := [''a'']\<rparr>"
  by (simp_all add: group_rule_def)

lemma group_rule_meta: "computePolicyMeta [group_rule] = scoped_meta"
  by (simp add: computePolicyMeta_def scoped_meta_def scope_isEmpty_def no_scope_def)

lemma group_rule_matches:
  "snd (try_policy e (demo_requester g) a now group_rule) \<noteq> None \<longleftrightarrow> hasAnyIntersection [''a''] g"
  by (simp add: try_policy_def IsExpiredException_def detectUnsupported_def detectChecksumUnavailable_def Let_def
      matchesPolicy_def resolveAction_id)
     (simp add: matchesScope_def scope_isEmpty_def no_scope_def demo_requester_def)

lemma groups_differ: "\<not> hasAnyIntersection [''a''] [''a,b'']" "hasAnyIntersection [''a''] [''a'', ''b'']"
  by (simp_all add: hasAnyIntersection_def TrimSpace_visible visible_def EqualFold_ascii is_ascii_def byte_lower_def)

lemma group_keys:
  "evalCacheKeyFor (demo_requester [''a,b'']) scoped_meta = evalCacheKeyFor (demo_requester [''a'', ''b'']) scoped_meta"
  "evalCacheKeyFor (demo_requester g) scoped_meta \<noteq> None"
proof -
  have "join_with '','' (sort [''a,b'']) = join_with '','' (sort [''a'', ''b''])" by code_simp
  then show "evalCacheKeyFor (demo_requester [''a,b'']) scoped_meta =
      evalCacheKeyFor (demo_requester [''a'', ''b'']) scoped_meta"
    by (simp add: evalCacheKeyFor_def scopeFingerprint_def demo_requester_def)
  show "evalCacheKeyFor (demo_requester g) scoped_meta \<noteq> None"
    by (simp add: evalCacheKeyFor_def scoped_meta_def demo_requester_def demo_context_def zero_context_def)
qed

text \<open>
  The fingerprint does not separate its parts: a requester in the groups \<open>a\<close> and \<open>b\<close> has the key of one in the single
  group \<open>a,b\<close>. A rule that blocks group \<open>a\<close> then lets the first request of group \<open>a,b\<close> through, and for the
  time to live also a requester of group \<open>a\<close>, whom it denies when the cache is cold.
\<close>

theorem fingerprint_shares_verdicts:
  fixes e :: "('v, 'c) Evaluator"
  defines "first \<equiv> Evaluate e (Some (Inr [group_rule])) (demo_requester [''a,b'']) 0 0 fresh_state"
  shows "denies (snd (evaluatePolicies e (demo_requester [''a'', ''b'']) [group_rule] 0 1))"
    and "\<not> denies (fst (fst (snd (Evaluate e (Some (Inr [group_rule])) (demo_requester [''a'', ''b'']) 0 1
                                      (snd (snd first))))))"
proof -
  have "enforces (demo_requester [''a'', ''b'']) group_rule" by (simp add: enforces_def)
  moreover have "snd (try_policy e (demo_requester [''a'', ''b'']) 0 1 group_rule) \<noteq> None"
    using group_rule_matches[of e "[''a'', ''b'']" 0 1] groups_differ(2) by blast
  ultimately show "denies (snd (evaluatePolicies e (demo_requester [''a'', ''b'']) [group_rule] 0 1))"
    using enforcing_match[of "demo_requester [''a'', ''b'']" group_rule e 0 1 "[]" "[]"] by simp
  obtain k where k: "evalCacheKeyFor (demo_requester [''a,b'']) scoped_meta = Some k"
    "evalCacheKeyFor (demo_requester [''a'', ''b'']) scoped_meta = Some k"
    using group_keys by (metis not_Some_eq)
  let ?s = "fresh_state\<lparr>es_meta := Some scoped_meta\<rparr>"
  have "Evaluate_read e (Some (Inr [group_rule])) (demo_requester [''a,b'']) 0 fresh_state =
      (Inr ([group_rule], Some k), ?s)"
    by (simp add: Evaluate_read_def fresh_state_def k group_rule_meta cache_Get_def newEvalCache_def Let_def)
  then have "snd (snd first) =
      snd (snd (Evaluate_finish e (demo_requester [''a,b'']) 0 0 [group_rule] (Some k) ?s))"
    by (simp add: first_def Evaluate_def split: prod.split)
  moreover have "es_cache ?s = Some (newEvalCache DefaultEvalCacheTTL)" by (simp add: fresh_state_def)
  ultimately have v: "fst (fst (snd (Evaluate e (Some (Inr [group_rule])) (demo_requester [''a'', ''b'']) 0 1
        (snd (snd first))))) =
      applyBypassQuarantine e (demo_requester [''a'', ''b''])
        (snd (evaluatePolicies e (demo_requester [''a,b'']) [group_rule] 0 0))"
    using verdict_is_shared[OF k(2), of ?s "newEvalCache DefaultEvalCacheTTL" 1 0 "[group_rule]" e 0
        "demo_requester [''a,b'']" 0 "[group_rule]"]
    by (simp add: newEvalCache_def DefaultEvalCacheTTL_def)
  have "snd (try_policy e (demo_requester [''a,b'']) 0 0 group_rule) = None"
    using group_rule_matches[of e "[''a,b'']"] groups_differ(1) by blast
  then have "\<not> denies (snd (evaluatePolicies e (demo_requester [''a,b'']) [group_rule] 0 0))"
    by (simp add: evaluate_first_match denies_first_match)
  with v show "\<not> denies (fst (fst (snd (Evaluate e (Some (Inr [group_rule])) (demo_requester [''a'', ''b'']) 0 1
                                      (snd (snd first))))))"
    by (simp add: denies_def)
qed

text \<open>
  An invalidation cannot reach a request that has read the policies and not yet kept its verdict: the
  verdict on the old policies is kept after the flush and served under the new ones.
\<close>

theorem stale_verdict_after_invalidation:
  fixes e :: "('v, 'c) Evaluator" and x :: EvaluationContext and a now :: int and old new :: "Policy list"
  assumes key: "evalCacheKeyFor x plain_meta = Some k"
    and plain: "computePolicyMeta old = plain_meta" "computePolicyMeta new = plain_meta"
  defines "after_read \<equiv> snd (Evaluate_read e (Some (Inr old)) x now fresh_state)"
  defines "after_flush \<equiv> InvalidateCache after_read"
  defines "after_put \<equiv> snd (snd (Evaluate_finish e x a now old (Some k) after_flush))"
  shows "Evaluate_read e (Some (Inr old)) x now fresh_state = (Inr (old, Some k), after_read)"
    and "fst (snd (Evaluate e (Some (Inr new)) x a now after_put)) =
           (applyBypassQuarantine e x (snd (evaluatePolicies e x old a now)), None)"
proof -
  show r: "Evaluate_read e (Some (Inr old)) x now fresh_state = (Inr (old, Some k), after_read)"
    by (simp add: after_read_def Evaluate_read_def fresh_state_def plain key cache_Get_def newEvalCache_def Let_def)
  have "es_cache after_read = es_cache fresh_state" using Evaluate_read_cache[OF r] .
  then have "es_cache after_flush = Some (newEvalCache DefaultEvalCacheTTL)" "es_meta after_flush = None"
    by (simp_all add: after_flush_def InvalidateCache_def cache_Invalidate_def fresh_state_def newEvalCache_def)
  then show "fst (snd (Evaluate e (Some (Inr new)) x a now after_put)) =
      (applyBypassQuarantine e x (snd (evaluatePolicies e x old a now)), None)"
    using verdict_is_shared[OF key, of after_flush "newEvalCache DefaultEvalCacheTTL" now now new e a x a old] plain
    by (simp add: after_put_def newEvalCache_def DefaultEvalCacheTTL_def)
qed

lemma stale_verdict_after_invalidation_witness:
  "fst (snd (Evaluate quiet (Some (Inr [block_everything])) demo_context 0 0
      (snd (snd (Evaluate_finish quiet demo_context 0 0 [] (Some demo_key)
        (InvalidateCache (snd (Evaluate_read quiet (Some (Inr [])) demo_context 0 fresh_state)))))))) =
     (no_match, None) \<and>
   denies (snd (evaluatePolicies quiet demo_context [block_everything] 0 0))"
proof -
  have "computePolicyMeta [block_everything] = plain_meta"
    by (simp add: computePolicyMeta_def plain_meta_def block_everything_def scope_isEmpty_def no_scope_def)
  note stale = stale_verdict_after_invalidation(2)[OF demo_key meta_nil this, of quiet 0 0]
  have "snd (try_policy quiet demo_context 0 0 block_everything) \<noteq> None" by (rule block_everything_matches)
  moreover have "enforces demo_context block_everything" by (simp add: enforces_def block_everything_enforces)
  ultimately have "denies (snd (evaluatePolicies quiet demo_context [block_everything] 0 0))"
    using enforcing_match[of demo_context block_everything quiet 0 0 "[]" "[]"] by simp
  with stale show ?thesis by simp
qed

end
