(* ===== verification/LicenseProps.thy ===== *)
theory LicenseProps
  imports License
begin

text \<open>
  What the licence classifier promises: the tags are a set, copyleft licences are non-permissive, the
  tags and the strength band of one expression agree, and the head of a pasted body does not depend on the
  order in which the table of names is enumerated.
\<close>

section \<open>The tags as a set\<close>

lemma add_tag_set [simp]: "set (add_tag t tags) = insert t (set tags)"
  by (auto simp: add_tag_def)

lemma add_tag_distinct [simp]: "distinct (add_tag t tags) = distinct tags"
  by (auto simp: add_tag_def)

lemma add_if_simps [simp]:
  "u \<in> set (add_if b t tags) \<longleftrightarrow> (b \<and> u = t) \<or> u \<in> set tags"
  "distinct (add_if b t tags) = distinct tags"
  by (simp_all add: add_if_def)

lemma tags_apart [simp]:
  "LicenseTagCopyleft \<noteq> LicenseTagNonPermissive" "LicenseTagCopyleft \<noteq> LicenseTagExceptionPresent"
  "LicenseTagCopyleft \<noteq> LicenseTagAmbiguous" "LicenseTagCopyleft \<noteq> LicenseTagUnidentified"
  "LicenseTagNonPermissive \<noteq> LicenseTagCopyleft" "LicenseTagExceptionPresent \<noteq> LicenseTagCopyleft"
  "LicenseTagAmbiguous \<noteq> LicenseTagCopyleft" "LicenseTagUnidentified \<noteq> LicenseTagCopyleft"
  "LicenseTagNonPermissive \<noteq> LicenseTagExceptionPresent" "LicenseTagNonPermissive \<noteq> LicenseTagAmbiguous"
  "LicenseTagNonPermissive \<noteq> LicenseTagUnidentified" "LicenseTagExceptionPresent \<noteq> LicenseTagNonPermissive"
  "LicenseTagAmbiguous \<noteq> LicenseTagNonPermissive" "LicenseTagUnidentified \<noteq> LicenseTagNonPermissive"
  "LicenseTagExceptionPresent \<noteq> LicenseTagAmbiguous" "LicenseTagExceptionPresent \<noteq> LicenseTagUnidentified"
  "LicenseTagAmbiguous \<noteq> LicenseTagExceptionPresent" "LicenseTagUnidentified \<noteq> LicenseTagExceptionPresent"
  "LicenseTagAmbiguous \<noteq> LicenseTagUnidentified" "LicenseTagUnidentified \<noteq> LicenseTagAmbiguous"
  by (simp_all add: license_tags)

text \<open>The expression that is classified, and its identifiers.\<close>

definition license_raw :: "Spdx \<Rightarrow> string \<Rightarrow> string" where
  "license_raw sp e = normalizeIfUnparsed sp (TrimSpace e)"

definition license_ids :: "Spdx \<Rightarrow> string \<Rightarrow> string list" where
  "license_ids sp e =
     (case parsed sp (license_raw sp e) of Some ids \<Rightarrow> ids | None \<Rightarrow> splitLicenseTokens (license_raw sp e))"

definition declared :: "string \<Rightarrow> bool" where
  "declared e \<longleftrightarrow> TrimSpace e \<noteq> [] \<and> ToUpper (TrimSpace e) \<noteq> ''NOASSERTION'' \<and> ToUpper (TrimSpace e) \<noteq> ''NONE''"

lemma Classify_cases:
  "Classify sp e =
     (if \<not> declared e then [LicenseTagUnidentified]
      else
        let tags = add_if (containsWordWith (license_raw sp e)) LicenseTagExceptionPresent [] in
        case parsed sp (license_raw sp e) of
          None \<Rightarrow>
            (case fallbackClassify sp (license_raw sp e) tags of
               (tags', unknown) \<Rightarrow> add_if unknown LicenseTagUnidentified tags')
        | Some ids \<Rightarrow> classify_ids ids tags)"
  unfolding Classify_def declared_def license_raw_def Let_def by simp

definition all_tags :: "string set" where
  "all_tags =
     {LicenseTagCopyleft, LicenseTagNonPermissive, LicenseTagExceptionPresent, LicenseTagAmbiguous, LicenseTagUnidentified}"

text \<open>An addition keeps a list of tags well formed; both paths only make such additions.\<close>

definition tags_ok :: "string list \<Rightarrow> bool" where
  "tags_ok tags \<longleftrightarrow> distinct tags \<and> set tags \<subseteq> all_tags \<and>
     (LicenseTagCopyleft \<in> set tags \<longrightarrow> LicenseTagNonPermissive \<in> set tags)"

lemma tags_ok_add:
  "tags_ok tags \<Longrightarrow> t \<in> {LicenseTagExceptionPresent, LicenseTagAmbiguous, LicenseTagUnidentified} \<Longrightarrow>
     tags_ok (add_if b t tags)"
  by (auto simp: tags_ok_def all_tags_def subset_iff)

lemma tags_ok_superset:
  "tags_ok tags \<Longrightarrow> tags_ok (add_if (c \<or> s) LicenseTagNonPermissive (add_if c LicenseTagCopyleft tags))"
  by (auto simp: tags_ok_def all_tags_def subset_iff)

lemma tags_ok_fallback: "tags_ok tags \<Longrightarrow> tags_ok (fst (fallbackClassify sp raw tags))"
  unfolding fallbackClassify_def Let_def fst_conv by (intro tags_ok_add tags_ok_superset) simp_all

lemma tags_ok_ids: "tags_ok tags \<Longrightarrow> tags_ok (classify_ids ids tags)"
  unfolding classify_ids_def Let_def by (intro tags_ok_add tags_ok_superset) simp_all

lemma tags_ok_Classify: "tags_ok (Classify sp e)"
proof -
  have "tags_ok []" by (simp add: tags_ok_def)
  then have s: "tags_ok (add_if b LicenseTagExceptionPresent [])" for b by (intro tags_ok_add) simp_all
  have u: "tags_ok [LicenseTagUnidentified]" by (simp add: tags_ok_def all_tags_def)
  show ?thesis
    unfolding Classify_cases Let_def
    using u tags_ok_ids[OF s] tags_ok_fallback[OF s]
    by (auto split: option.splits prod.splits intro!: tags_ok_add) (metis fst_conv)+
qed

text \<open>
  The tags of an expression have no duplicates and are tags of the taxonomy, a copyleft licence is
  non-permissive, and the empty expression and the two placeholders are unidentified and nothing else.
\<close>

theorem Classify_well_formed:
  "distinct (Classify sp e) \<and> set (Classify sp e) \<subseteq> all_tags \<and>
   (LicenseTagCopyleft \<in> set (Classify sp e) \<longrightarrow> LicenseTagNonPermissive \<in> set (Classify sp e)) \<and>
   (declared e \<or> Classify sp e = [LicenseTagUnidentified])"
  using tags_ok_Classify[of sp e] by (auto simp: tags_ok_def Classify_cases)

section \<open>Tags and bands\<close>

lemma matchesPrefix_append [simp]: "matchesPrefix s (ps @ qs) \<longleftrightarrow> matchesPrefix s ps \<or> matchesPrefix s qs"
  by (auto simp: matchesPrefix_def)

lemma band_simps [simp]:
  "LicenseStrengthPermissive \<le> s" "(s \<le> LicenseStrengthPermissive) = (s = LicenseStrengthPermissive)"
  by (cases s; simp add: less_eq_LicenseStrength_def band_def)+

lemma fold_strongest:
  fixes f :: "'a \<Rightarrow> 'b::linorder"
  shows "fold (\<lambda>i best. if best < f i then f i else best) xs b = Max (insert b (f ` set xs))"
proof (induction xs arbitrary: b)
  case (Cons x xs)
  have "insert b (f ` set (x # xs)) = insert b (insert (f x) (f ` set xs))" by auto
  moreover have "Max (insert b (insert (f x) A)) = Max (insert (if b < f x then f x else b) A)" if "finite A" for A
    using that by (cases "A = {}") (auto simp: max_def not_less)
  ultimately show ?case using Cons by simp
qed simp

lemma strength_of:
  "TrimSpace e \<noteq> [] \<Longrightarrow>
     LicenseStrengthOf sp e = Max (insert LicenseStrengthPermissive (id_strength ` set (license_ids sp e)))"
  unfolding LicenseStrengthOf_def license_ids_def license_raw_def Let_def by (simp only: fold_strongest if_False)

text \<open>An identifier as the library returns it, and no placeholder.\<close>

definition plain_id :: "string \<Rightarrow> bool" where
  "plain_id i \<longleftrightarrow> Trim (TrimSpace i) ''() '' = i \<and> ToLower i \<noteq> ''noassertion'' \<and> \<not> EqualFold i ''NOASSERTION''"

lemma strength_permissive:
  "plain_id i \<Longrightarrow> id_strength i = LicenseStrengthPermissive \<longleftrightarrow>
     \<not> is_copyleft (ToLower i) \<and> \<not> is_source_available (ToLower i) \<and> \<not> Contains (ToLower i) ''commons''"
  by (auto simp: id_strength_def plain_id_def is_copyleft_def is_source_available_def copyleftPrefixes_def Let_def)

lemma strength_copyleft:
  "plain_id i \<Longrightarrow> id_strength i \<in> {LicenseStrengthWeakCopyleft, LicenseStrengthStrongCopyleft} \<Longrightarrow>
     is_copyleft (ToLower i)"
  by (auto simp: id_strength_def plain_id_def is_copyleft_def copyleftPrefixes_def Let_def split: if_splits)

definition plain_ids :: "Spdx \<Rightarrow> string \<Rightarrow> bool" where
  "plain_ids sp e \<longleftrightarrow> list_all plain_id (license_ids sp e) \<and>
     (parsed sp (license_raw sp e) \<noteq> None \<longrightarrow>
       list_all (\<lambda>i. \<not> Contains (ToLower i) ''commons'') (license_ids sp e))"

lemma Classify_tags:
  assumes "declared e" and "plain_ids sp e"
  shows "LicenseTagCopyleft \<in> set (Classify sp e) \<longleftrightarrow> (\<exists>i \<in> set (license_ids sp e). is_copyleft (ToLower i))"
    and "LicenseTagNonPermissive \<in> set (Classify sp e) \<longleftrightarrow>
      (\<exists>i \<in> set (license_ids sp e). id_strength i \<noteq> LicenseStrengthPermissive)"
proof -
  let ?ids = "license_ids sp e"
  have p: "plain_id i" if "i \<in> set ?ids" for i using that assms(2) by (auto simp: plain_ids_def list_all_iff)
  have "(LicenseTagCopyleft \<in> set (Classify sp e) \<longleftrightarrow> (\<exists>i \<in> set ?ids. is_copyleft (ToLower i))) \<and>
    (LicenseTagNonPermissive \<in> set (Classify sp e) \<longleftrightarrow>
      (\<exists>i \<in> set ?ids. is_copyleft (ToLower i) \<or> is_source_available (ToLower i) \<or> Contains (ToLower i) ''commons''))"
  proof (cases "parsed sp (license_raw sp e)")
    case None
    then have i: "?ids = splitLicenseTokens (license_raw sp e)" by (simp add: license_ids_def)
    have "\<not> EqualFold t ''NOASSERTION''" if "t \<in> set ?ids" for t using p[OF that] by (simp add: plain_id_def)
    then show ?thesis
      using None assms(1) by (simp add: Classify_cases fallbackClassify_def Let_def i[symmetric]) blast
  next
    case (Some ids)
    then have i: "?ids = ids" by (simp add: license_ids_def)
    have "ToLower j \<noteq> ''noassertion''" if "j \<in> set ids" for j using p[of j] that by (simp add: plain_id_def i)
    moreover have "\<not> Contains (ToLower j) ''commons''" if "j \<in> set ids" for j
      using that assms(2) Some by (auto simp: plain_ids_def i list_all_iff)
    ultimately show ?thesis
      using Some assms(1) by (simp add: Classify_cases classify_ids_def Let_def i) blast
  qed
  moreover have "id_strength i \<noteq> LicenseStrengthPermissive \<longleftrightarrow>
      is_copyleft (ToLower i) \<or> is_source_available (ToLower i) \<or> Contains (ToLower i) ''commons''"
    if "i \<in> set ?ids" for i using strength_permissive[OF p[OF that]] by simp
  ultimately show "LicenseTagCopyleft \<in> set (Classify sp e) \<longleftrightarrow> (\<exists>i \<in> set ?ids. is_copyleft (ToLower i))"
    and "LicenseTagNonPermissive \<in> set (Classify sp e) \<longleftrightarrow>
      (\<exists>i \<in> set ?ids. id_strength i \<noteq> LicenseStrengthPermissive)"
    by (simp_all cong: bex_cong)
qed

lemma Max_permissive:
  "finite A \<Longrightarrow> Max (insert LicenseStrengthPermissive A) = LicenseStrengthPermissive \<longleftrightarrow>
     (\<forall>s \<in> A. s = LicenseStrengthPermissive)"
  using Max_ge[of "insert LicenseStrengthPermissive A"] Max_in[of "insert LicenseStrengthPermissive A"]
  by (metis band_simps(2) finite_insert insertCI insertE insert_not_empty)

text \<open>
  Tags and band of one expression agree: it is tagged non-permissive exactly when its band is not the permissive one,
  and both copyleft bands are tagged copyleft. (The library returns bare identifiers; no operand is a
  placeholder.)
\<close>

lemma tags_follow_band:
  assumes "declared e" and "plain_ids sp e"
  shows "(LicenseTagNonPermissive \<in> set (Classify sp e) \<longleftrightarrow> LicenseStrengthOf sp e \<noteq> LicenseStrengthPermissive) \<and>
    (LicenseStrengthOf sp e \<in> {LicenseStrengthWeakCopyleft, LicenseStrengthStrongCopyleft} \<longrightarrow>
       LicenseTagCopyleft \<in> set (Classify sp e))"
proof -
  let ?S = "insert LicenseStrengthPermissive (id_strength ` set (license_ids sp e))"
  have p: "plain_id i" if "i \<in> set (license_ids sp e)" for i
    using that assms(2) by (auto simp: plain_ids_def list_all_iff)
  have m: "LicenseStrengthOf sp e = Max ?S" using assms(1) by (simp add: strength_of declared_def)
  then have "Max ?S \<in> ?S" by (intro Max_in) simp_all
  moreover have "s \<le> Max ?S" if "s \<in> ?S" for s using that by (intro Max_ge) simp_all
  ultimately have ne: "Max ?S \<noteq> LicenseStrengthPermissive \<longleftrightarrow>
      (\<exists>i \<in> set (license_ids sp e). id_strength i \<noteq> LicenseStrengthPermissive)"
    by (simp add: Max_permissive)
  have "LicenseTagCopyleft \<in> set (Classify sp e)"
    if "Max ?S \<in> {LicenseStrengthWeakCopyleft, LicenseStrengthStrongCopyleft}"
  proof -
    from that \<open>Max ?S \<in> ?S\<close> obtain i where "i \<in> set (license_ids sp e)"
      "id_strength i \<in> {LicenseStrengthWeakCopyleft, LicenseStrengthStrongCopyleft}" by auto
    with strength_copyleft[OF p] Classify_tags(1)[OF assms] show ?thesis by blast
  qed
  with ne show ?thesis unfolding m Classify_tags(2)[OF assms] by blast
qed

section \<open>The head of a pasted body\<close>

text \<open>Two names of one length that prefix the same text are the same name.\<close>

lemma alias_fits_unique:
  assumes "alias_fits head k" "alias_fits head k'" "length k = length k'"
  shows "k = k'"
proof -
  have "take (length u) head = u" if "alias_fits head u" for u
    using that by (auto simp: alias_fits_def HasPrefix_iff)
  then show ?thesis using assms by metis
qed

text \<open>The fold keeps the longest alias that fits, and it is determined by the set of entries.\<close>

definition best_alias :: "string \<Rightarrow> (string \<times> string) set \<Rightarrow> string \<times> string \<Rightarrow> bool" where
  "best_alias head S b \<longleftrightarrow>
     (if fst b = [] then snd b = [] \<and> (\<forall>e \<in> S. \<not> alias_fits head (fst e))
      else b \<in> S \<and> alias_fits head (fst b) \<and> (\<forall>e \<in> S. alias_fits head (fst e) \<longrightarrow> length (fst e) \<le> length (fst b)))"

lemma longest_alias_best:
  "\<forall>e \<in> set m. fst e \<noteq> [] \<Longrightarrow> best_alias head (set m) (longest_alias head m)"
proof (induction m rule: rev_induct)
  case (snoc e m)
  let ?b = "longest_alias head m"
  have s: "longest_alias head (m @ [e]) = (if alias_fits head (fst e) \<and> length (fst ?b) < length (fst e) then e else ?b)"
    by (simp add: longest_alias_def split: prod.splits)
  show ?case
    using snoc unfolding s best_alias_def by (cases "fst ?b = []") (auto simp: not_less)
qed (simp add: longest_alias_def best_alias_def)

lemma best_alias_unique:
  assumes "best_alias head (set m) b" "best_alias head (set m) b'" "gomap_ok m" "\<forall>e \<in> set m. fst e \<noteq> []"
  shows "b = b'"
proof (cases "fst b = []")
  case True
  then have "fst b' = []" using assms by (auto simp: best_alias_def split: if_splits)
  with True assms show ?thesis by (simp add: best_alias_def prod_eq_iff)
next
  case False
  then have b: "b \<in> set m" "alias_fits head (fst b)" using assms(1) by (simp_all add: best_alias_def)
  then have False': "fst b' \<noteq> []" using assms(2) by (auto simp: best_alias_def split: if_splits)
  then have b': "b' \<in> set m" "alias_fits head (fst b')" using assms(2) by (simp_all add: best_alias_def)
  have "length (fst b) = length (fst b')"
    using assms(1,2) b b' False False' by (auto simp: best_alias_def intro: le_antisym)
  then have "fst b = fst b'" using alias_fits_unique b(2) b'(2) by blast
  with b(1) b'(1) assms(3) show ?thesis
    by (metis gomap_ok_def map_of_eq_Some_iff option.inject prod.collapse)
qed

text \<open>
  The runtime enumerates the table of names in any order: the name that the head of a pasted body gets is the same in
  each of them.
\<close>

theorem fullTextHeadAlias_order_independent:
  assumes "gomap_ok m" and "\<forall>e \<in> set m. fst e \<noteq> []" and "mset m = mset m'"
  shows "fullTextHeadAlias m raw = fullTextHeadAlias m' raw"
proof -
  have sm: "set m = set m'" using assms(3) by (metis set_mset_mset)
  have "longest_alias head m = longest_alias head m'" for head
    using best_alias_unique[OF longest_alias_best _ assms(1,2)] longest_alias_best[of m'] assms(2) sm by metis
  then show ?thesis by (simp add: fullTextHeadAlias_def Let_def)
qed

theorem fullTextHeadAlias_order_independent_witness:
  "fullTextHeadAlias [(''apache license version 2.0'', ''Apache-2.0''), (''eclipse public license'', ''EPL-2.0'')]
     ''Apache License, Version 2.0'' =
   fullTextHeadAlias [(''eclipse public license'', ''EPL-2.0''), (''apache license version 2.0'', ''Apache-2.0'')]
     ''Apache License, Version 2.0''"
  by (rule fullTextHeadAlias_order_independent) (simp_all add: gomap_ok_def add_mset_commute)

end
