(* ===== verification/HiddenUnicodeProps.thy ===== *)
theory HiddenUnicodeProps
  imports HiddenUnicode
begin

text \<open>
  The scanner against its specification: the hits of a file are those of the maximal runs of variation selectors
  that are long enough and of the other suspect runes; and the aggregate over the files of an artifact.
\<close>

section \<open>One file\<close>

text \<open>The decoded runes of a file with their offsets; an invalid byte is marked.\<close>

function items :: "nat \<Rightarrow> string \<Rightarrow> (nat \<times> rune \<times> bool) list" where
  "items i data =
     (if data = [] then []
      else case DecodeRune data of (r, w) \<Rightarrow> (i, r, r = 65533 \<and> w = 1) # items (i + w) (drop w data))"
  by pat_completeness auto
termination
  by (relation "measure (\<lambda>(_, data). length data)") (auto dest: DecodeRune_less)

declare items.simps [simp del]

definition selector :: "nat \<times> rune \<times> bool \<Rightarrow> bool" where
  "selector x \<longleftrightarrow> isVariationSelector (fst (snd x)) \<and> \<not> snd (snd x)"

definition selector_hit :: "nat \<times> rune \<times> bool \<Rightarrow> Hit" where
  "selector_hit x = \<lparr>h_Offset = fst x, h_Rune = fst (snd x), h_Kind = KindVariationSelector\<rparr>"

definition rune_hit :: "nat \<times> rune \<times> bool \<Rightarrow> Hit list" where
  "rune_hit x =
     (if NormalizeKind (fst (snd x)) \<noteq> [] then [\<lparr>h_Offset = fst x, h_Rune = fst (snd x), h_Kind = NormalizeKind (fst (snd x))\<rparr>]
      else [])"

function run_hits :: "(nat \<times> rune \<times> bool) list \<Rightarrow> Hit list" where
  "run_hits [] = []"
| "run_hits (x # xs) =
     (if selector x then
        (let run = x # takeWhile selector xs in if 4 \<le> length run then map selector_hit run else [])
          @ run_hits (dropWhile selector xs)
      else rune_hit x @ run_hits xs)"
  by pat_completeness auto
termination
  by (relation "measure length") (auto intro: le_imp_less_Suc length_dropWhile_le)

lemma NormalizeKind_low: "r < 0x200B \<Longrightarrow> NormalizeKind r = []"
  by (simp add: NormalizeKind_def)

lemma item_simps [simp]: "selector (i, r, b) \<longleftrightarrow> isVariationSelector r \<and> \<not> b" "rune_hit (i, 65533, b) = []"
  by (simp_all add: selector_def rune_hit_def NormalizeKind_def)

lemma run_hits_run:
  "run_hits xs =
     (if 4 \<le> length (takeWhile selector xs) then map selector_hit (takeWhile selector xs) else [])
       @ run_hits (dropWhile selector xs)"
  by (cases xs) (simp_all add: Let_def)

lemma scan_loop_runs:
  "scan_loop i data vs hits =
     hits @ (let run = vs @ map selector_hit (takeWhile selector (items i data))
             in if 4 \<le> length run then run else [])
       @ run_hits (dropWhile selector (items i data))"
proof (induction i data vs hits rule: scan_loop.induct)
  case (1 i data vs hits)
  show ?case
  proof (cases "data = []")
    case True
    then show ?thesis by (simp add: scan_loop.simps items.simps flushRun_def minVariationSelectorRun_def)
  next
    case False
    obtain r w where d: "DecodeRune data = (r, w)" by force
    define bad where "bad \<longleftrightarrow> r = 65533 \<and> w = 1"
    let ?x = "(i, r, bad)"
    have it: "items i data = ?x # items (i + w) (drop w data)"
      using False d by (simp add: items.simps[of i data] bad_def)
    have L: "scan_loop i data vs hits =
        (if bad then scan_loop (i + 1) (drop 1 data) [] (flushRun vs hits)
         else if isVariationSelector r then scan_loop (i + w) (drop w data) (vs @ [selector_hit ?x]) hits
         else if r < 0x200B then scan_loop (i + w) (drop w data) [] (flushRun vs hits)
         else scan_loop (i + w) (drop w data) [] (flushRun vs hits @ rune_hit ?x))"
      by (subst scan_loop.simps) (simp add: False d rune_hit_def selector_hit_def bad_def)
    note IH = 1[OF False d[symmetric], folded bad_def]
    note flush = flushRun_def minVariationSelectorRun_def
    show ?thesis
    proof (cases bad)
      case True
      then have "r = 65533" "w = 1" by (simp_all add: bad_def)
      with IH(1)[OF True] True show ?thesis
        using run_hits_run[of "items (Suc i) (drop (Suc 0) data)"] by (simp add: L it flush Let_def)
    next
      case ok: False
      note tail = run_hits_run[of "items (i + w) (drop w data)"]
      consider (vs) "isVariationSelector r" | (low) "\<not> isVariationSelector r" "r < 0x200B"
        | (other) "\<not> isVariationSelector r" "\<not> r < 0x200B" by blast
      then show ?thesis
      proof cases
        case vs
        have "scan_loop i data vs hits = scan_loop (i + w) (drop w data) (vs @ [selector_hit ?x]) hits"
          using L ok vs by simp
        with IH(2)[OF ok vs] ok vs show ?thesis by (simp add: it selector_hit_def Let_def)
      next
        case low
        with IH(3)[OF ok low] ok tail show ?thesis
          by (simp add: L it rune_hit_def NormalizeKind_low flush Let_def)
      next
        case other
        have "scan_loop i data vs hits = scan_loop (i + w) (drop w data) [] (flushRun vs hits @
            (if NormalizeKind r \<noteq> [] then [\<lparr>h_Offset = i, h_Rune = r, h_Kind = NormalizeKind r\<rparr>] else []))"
          using L ok other by (simp add: rune_hit_def)
        note eq = trans[OF this IH(4)[OF ok other]]
        show ?thesis unfolding eq using ok other tail by (simp add: it rune_hit_def flush Let_def)
      qed
    qed
  qed
qed

lemma scanBytes_runs: "scanBytes data = run_hits (items 0 data)"
  using run_hits_run[of "items 0 data"] by (simp add: scanBytes_def scan_loop_runs Let_def)

text \<open>
  C40: The scanner of one file, a loop over the bytes that buffers an open run of variation selectors, computes what the
  file means: decode the text, group the runes into maximal runs, report a run of variation selectors in full when
  it has at least four of them and not at all otherwise, and report every other suspect rune.
\<close>

theorem scanBytes_maximal_runs: "scanBytes data = run_hits (items 0 data)"
  by (rule scanBytes_runs)

section \<open>The artifact\<close>

text \<open>What the scan owes to one file, and the report over the first paths.\<close>

definition file_data :: "(string, string) gomap \<Rightarrow> string \<Rightarrow> string" where
  "file_data files p = get_or (map_of files) p []"

definition file_hits :: "(string, string) gomap \<Rightarrow> string \<Rightarrow> Hit list" where
  "file_hits files p =
     (if isAllowedExt p \<and> \<not> isBinary (file_data files p) then scanBytes (file_data files p) else [])"

definition report :: "(string, string) gomap \<Rightarrow> string list \<Rightarrow> (string, Hit list) gomap" where
  "report files ps = filter (\<lambda>(p, hits). hits \<noteq> []) (map (\<lambda>p. (p, file_hits files p)) ps)"

definition report_hits :: "(string, string) gomap \<Rightarrow> string list \<Rightarrow> Hit list" where
  "report_hits files ps = concat (map (file_hits files) ps)"

definition inspected_bytes :: "(string, string) gomap \<Rightarrow> string list \<Rightarrow> int" where
  "inspected_bytes files ps = sum_list (map (\<lambda>p. int (length (file_data files p))) (filter isAllowedExt ps))"

lemma report_simps [simp]:
  "report files [] = []" "report_hits files [] = []" "inspected_bytes files [] = 0"
  "report files (p # ps) = (if file_hits files p = [] then report files ps else (p, file_hits files p) # report files ps)"
  "report_hits files (p # ps) = file_hits files p @ report_hits files ps"
  "inspected_bytes files (p # ps) =
     (if isAllowedExt p then int (length (file_data files p)) else 0) + inspected_bytes files ps"
  by (simp_all add: report_def report_hits_def inspected_bytes_def)

lemma scanBytes_empty [simp]: "scanBytes [] = []"
  by (simp add: scanBytes_runs items.simps)

definition reported :: "Result \<Rightarrow> (string, string) gomap \<Rightarrow> string list \<Rightarrow> bool \<Rightarrow> Result" where
  "reported res files ps short =
     res\<lparr>r_Hits := r_Hits res + length (report_hits files ps), r_KindHits := fold (\<lambda>h m. bump m h) (report_hits files ps) (r_KindHits res),
         r_PerFile := r_PerFile res @ report files ps, r_Truncated := r_Truncated res \<or> short\<rparr>"

lemma reported_none [simp]: "reported res files [] short = res\<lparr>r_Truncated := r_Truncated res \<or> short\<rparr>"
  by (simp add: reported_def)

lemma update_fresh: "k \<notin> fst ` set al \<Longrightarrow> AList.update k v al = al @ [(k, v)]"
  by (induction al) auto

lemma scan_files_prefix:
  assumes "distinct (map fst (r_PerFile res) @ paths)" and "n \<le> maxFiles lim" and "b \<le> maxBytes lim"
  shows "\<exists>k \<le> length paths. scan_files files lim paths n b res = reported res files (take k paths) (k < length paths) \<and>
    n + int (length (filter isAllowedExt (take k paths))) \<le> maxFiles lim \<and>
    b + inspected_bytes files (take k paths) \<le> maxBytes lim"
  using assms
proof (induction paths arbitrary: n b res)
  case Nil
  then show ?case by (intro exI[of _ 0]) simp
next
  case (Cons p ps)
  let ?data = "file_data files p" and ?hits = "file_hits files p"
  have stop: ?case if "scan_files files lim (p # ps) n b res = res\<lparr>r_Truncated := True\<rparr>"
    using that Cons.prems by (intro exI[of _ 0]) simp
  have go: ?case if "scan_files files lim (p # ps) n b res = scan_files files lim ps n' b' res'"
    and "res' = reported res files [p] False" and "n' \<le> maxFiles lim" and "b' \<le> maxBytes lim"
    and "n' = n + (if isAllowedExt p then 1 else 0)" and "b' = b + inspected_bytes files [p]" for n' b' res'
  proof -
    have "distinct (map fst (r_PerFile res') @ ps)" using Cons.prems(1) that(2) by (auto simp: reported_def)
    from Cons.IH[OF this that(3,4)] obtain k where k: "k \<le> length ps"
      "scan_files files lim ps n' b' res' = reported res' files (take k ps) (k < length ps)"
      "n' + int (length (filter isAllowedExt (take k ps))) \<le> maxFiles lim"
      "b' + inspected_bytes files (take k ps) \<le> maxBytes lim" by blast
    moreover have "reported res' files (take k ps) c = reported res files (p # take k ps) c" for c
      using that(2) by (simp add: reported_def)
    ultimately show ?thesis using that by (intro exI[of _ "Suc k"]) auto
  qed
  show ?case
  proof (cases "maxFiles lim \<le> n")
    case True
    then show ?thesis by (intro stop) simp
  next
    case n: False
    note S = scan_files.simps(2)[of files lim p ps n b res, folded file_data_def]
    show ?thesis
    proof (cases "isAllowedExt p")
      case False
      then show ?thesis using n Cons.prems
        by (intro go[of n b res]) (simp_all add: reported_def file_hits_def)
    next
      case a: True
      show ?thesis
      proof (cases "?data = []")
        case True
        then show ?thesis using n a Cons.prems
          by (intro go[of "n + 1" b res]) (simp_all add: reported_def file_hits_def file_data_def[symmetric] Let_def)
      next
        case d: False
        show ?thesis
        proof (cases "maxBytes lim < b + int (length ?data)")
          case True
          then show ?thesis using n a d by (intro stop) (simp add: file_data_def[symmetric] Let_def)
        next
          case fits: False
          show ?thesis
          proof (cases "?hits = []")
            case True
            then show ?thesis using n a d fits Cons.prems
              by (intro go[of "n + 1" "b + int (length ?data)" res])
                (auto simp: reported_def file_hits_def file_data_def[symmetric] Let_def split: if_splits)
          next
            case hits: False
            then have h: "\<not> isBinary ?data" "scanBytes ?data = ?hits" using a by (auto simp: file_hits_def split: if_splits)
            have "p \<notin> fst ` set (r_PerFile res)" using Cons.prems(1) by auto
            then show ?thesis using n a d fits hits h Cons.prems
              by (intro go[of "n + 1" "b + int (length ?data)" "res\<lparr>r_Hits := r_Hits res + length ?hits,
                   r_KindHits := fold (\<lambda>h m. bump m h) ?hits (r_KindHits res),
                   r_PerFile := AList.update p ?hits (r_PerFile res)\<rparr>"])
                (simp_all add: reported_def file_data_def[symmetric] Let_def update_fresh)
          qed
        qed
      qed
    qed
  qed
qed

section \<open>Kinds\<close>

lemma map_of_update: "map_of (AList.update k v m) j = (if j = k then Some v else map_of m j)"
  by (simp add: update_conv')

lemma bump_count: "get_or (map_of (bump m h)) k 0 = get_or (map_of m) k 0 + (if h_Kind h = k then 1 else 0)"
  by (simp add: bump_def map_of_update get_or_def)

lemma fold_bump_count:
  "get_or (map_of (fold (\<lambda>h m. bump m h) hs m)) k 0 = get_or (map_of m) k 0 + length (filter (\<lambda>h. h_Kind h = k) hs)"
  by (induction hs arbitrary: m) (simp_all add: bump_count)

lemma fold_bump_keys:
  "distinct (map fst m) \<Longrightarrow> distinct (map fst (fold (\<lambda>h m. bump m h) hs m)) \<and>
     fst ` set (fold (\<lambda>h m. bump m h) hs m) = fst ` set m \<union> h_Kind ` set hs"
proof (induction hs arbitrary: m)
  case (Cons h hs)
  have "distinct (map fst (bump m h))" using Cons.prems by (simp add: bump_def distinct_update)
  moreover have "fst ` set (bump m h) = insert (h_Kind h) (fst ` set m)"
    unfolding bump_def dom_map_of_conv_image_fst[symmetric] by (auto simp: map_of_update split: if_splits)
  ultimately show ?case using Cons.IH[of "bump m h"] by auto
qed simp

lemma parseEnvInt_pos: "0 < fallback \<Longrightarrow> 0 < parseEnvInt v fallback"
  by (auto simp: parseEnvInt_def Let_def split: option.splits)

text \<open>The kinds of the hits, in order.\<close>

definition kinds_of :: "Hit list \<Rightarrow> string list" where
  "kinds_of hs = sorted_list_of_set (h_Kind ` set hs)"

lemma sort_keys: "distinct ks \<Longrightarrow> sort ks = sorted_list_of_set (set ks)"
  by (simp add: sorted_list_of_set_sort_remdups distinct_remdups_id)

text \<open>
  The scan of an artifact reads a prefix of its files in the order of their names: the report, its counters and its
  kinds are those of the hits in that prefix, the prefix respects the budget of files and of bytes, and the
  scan calls itself truncated exactly when files are left over.
\<close>

theorem Scan_reports_prefix:
  assumes "gomap_ok files"
  shows "\<exists>k \<le> length files.
    let ps = take k (sort (map fst files)); hs = report_hits files ps; res = Scan max_files max_bytes files
    in r_PerFile res = report files ps \<and> r_Hits res = length hs \<and> r_Kinds res = kinds_of hs \<and>
       (\<forall>kind. get_or (map_of (r_KindHits res)) kind 0 = length (filter (\<lambda>h. h_Kind h = kind) hs)) \<and>
       (r_Truncated res \<longleftrightarrow> k < length files) \<and>
       int (length (filter isAllowedExt ps)) \<le> maxFiles (budget max_files max_bytes) \<and>
       inspected_bytes files ps \<le> maxBytes (budget max_files max_bytes)"
proof -
  let ?lim = "budget max_files max_bytes" and ?paths = "sort (map fst files)"
  have "0 < maxFiles ?lim" "0 < maxBytes ?lim"
    by (simp_all add: budget_def parseEnvInt_pos defaultMaxFiles_def defaultMaxBytes_def)
  then obtain k where k: "k \<le> length files"
    "scan_files files ?lim ?paths 0 0 no_hits = reported no_hits files (take k ?paths) (k < length files)"
    "int (length (filter isAllowedExt (take k ?paths))) \<le> maxFiles ?lim"
    "inspected_bytes files (take k ?paths) \<le> maxBytes ?lim"
    using scan_files_prefix[of no_hits ?paths 0 ?lim 0 files] assms by (auto simp: no_hits_def gomap_ok_def)
  let ?hs = "report_hits files (take k ?paths)"
  have "sort (map fst (fold (\<lambda>h m. bump m h) ?hs [])) = kinds_of ?hs"
    using fold_bump_keys[of "[]" ?hs] by (simp add: sort_keys kinds_of_def)
  with k show ?thesis
    by (intro exI[of _ k]) (simp add: Scan_def scanWithLimits_def reported_def no_hits_def Let_def fold_bump_count)
qed

section \<open>Example\<close>

text \<open>A file with a right-to-left override, and one that the scan does not read.\<close>

definition demo_files :: "(string, string) gomap" where
  "demo_files = [(''x.js'', [CHR 0x61, CHR 0xE2, CHR 0x80, CHR 0xAE]), (''logo.png'', [CHR 0xE2, CHR 0x80, CHR 0xAE])]"

theorem Scan_reports_prefix_witness:
  "\<exists>k \<le> 2. let hs = report_hits demo_files (take k (sort [''x.js'', ''logo.png'']))
     in r_Hits (Scan [] [] demo_files) = length hs \<and> r_Kinds (Scan [] [] demo_files) = kinds_of hs"
proof -
  have ok: "gomap_ok demo_files" by (simp add: gomap_ok_def demo_files_def)
  have len: "length demo_files = 2" and names: "map fst demo_files = [''x.js'', ''logo.png'']"
    by (simp_all add: demo_files_def)
  from Scan_reports_prefix[OF ok, of "[]" "[]"] obtain k where k: "k \<le> 2"
    "r_Hits (Scan [] [] demo_files) = length (report_hits demo_files (take k (sort [''x.js'', ''logo.png''])))"
    "r_Kinds (Scan [] [] demo_files) = kinds_of (report_hits demo_files (take k (sort [''x.js'', ''logo.png''])))"
    unfolding len names Let_def by blast
  show ?thesis unfolding Let_def by (rule exI[of _ k]) (intro conjI k)
qed

end
