(* ===== verification/SignalLicense.thy ===== *)
theory SignalLicense
  imports SignalRegistry LicenseProps
begin

text \<open>
  The licence signals on the output of the classifier: which of them exclude one another, and the price of a
  licence by its band. The tags of the input are those that the projection takes from the classifier.
\<close>

definition classified :: "SignalEnv \<Rightarrow> 'a LicenseInput_scheme \<Rightarrow> bool" where
  "classified env i \<longleftrightarrow> LicenseTags i = Classify (env_Spdx env) (LicenseSPDX i)"

lemma license_fires [simp]:
  "fst (s_Fires sig_lic_missing i) = (LicenseSPDX i = [] \<and> \<not> LicenseDataUnavailable i)"
  "fst (s_Fires (sig_lic_spdx_present env) i) =
     (LicenseSPDX i \<noteq> [] \<and> \<not> LicenseFromFile i \<and>
      LicenseTagUnidentified \<notin> set (Classify (env_Spdx env) (LicenseSPDX i)))"
  "fst (s_Fires sig_license_copyleft i) = (LicenseTagCopyleft \<in> set (LicenseTags i))"
  "fst (s_Fires (sig_license_non_permissive env) i) =
     (LicenseTagNonPermissive \<in> set (LicenseTags i) \<and>
      LicenseStrengthOf (env_Spdx env) (LicenseSPDX i) \<noteq> LicenseStrengthWeakCopyleft)"
  "fst (s_Fires sig_license_unidentified i) =
     (TrimSpace (LicenseSPDX i) \<noteq> [] \<and> LicenseTagUnidentified \<in> set (LicenseTags i))"
  by (auto simp: license_signals registerLicenseTagSignal_def no_fire_def)

theorem license_signals_exclusive:
  assumes "classified env i"
  shows "length (filter (\<lambda>s. fst (s_Fires s i)) [sig_lic_missing, sig_lic_spdx_present env, sig_license_unidentified]) \<le> 1"
proof -
  have "TrimSpace [] = []" by (simp add: TrimSpace_def trim_left.simps trim_right.simps)
  with assms show ?thesis by (auto simp: classified_def)
qed

definition license_price :: "SignalEnv \<Rightarrow> 'a LicenseInput_scheme \<Rightarrow> rat" where
  "license_price env i =
     sum_list (map (\<lambda>s. if fst (s_Fires s i) then - s_Weight s else 0)
       [sig_license_copyleft, sig_license_non_permissive env])"

lemma license_weights [simp]:
  "s_Weight sig_license_copyleft = - 10" "s_Weight (sig_license_non_permissive env) = - 20"
  by (simp_all add: license_signals registerLicenseTagSignal_def)

lemma license_price_cases:
  "license_price env i =
     (if LicenseTagCopyleft \<in> set (LicenseTags i) then 10 else 0) +
     (if LicenseTagNonPermissive \<in> set (LicenseTags i) \<and>
         LicenseStrengthOf (env_Spdx env) (LicenseSPDX i) \<noteq> LicenseStrengthWeakCopyleft then 20 else 0)"
  by (simp add: license_price_def)

text \<open>
  The points that the licence signals take off follow the strength of the licence: none for a permissive one, 10 for weak
  copyleft, 20 or 30 for a source-available one and 30 for strong copyleft, so a stricter licence never costs less.
\<close>

theorem license_price_follows_band:
  assumes "classified env i" and "declared (LicenseSPDX i)" and "plain_ids (env_Spdx env) (LicenseSPDX i)"
  shows "case LicenseStrengthOf (env_Spdx env) (LicenseSPDX i) of
      LicenseStrengthPermissive \<Rightarrow> license_price env i = 0
    | LicenseStrengthWeakCopyleft \<Rightarrow> license_price env i = 10
    | LicenseStrengthSourceAvailable \<Rightarrow> license_price env i \<in> {20, 30}
    | LicenseStrengthStrongCopyleft \<Rightarrow> license_price env i = 30"
proof -
  have "LicenseTagCopyleft \<in> set (LicenseTags i) \<Longrightarrow> LicenseTagNonPermissive \<in> set (LicenseTags i)"
    using tags_ok_Classify[of "env_Spdx env" "LicenseSPDX i"] assms(1) by (simp add: tags_ok_def classified_def)
  with tags_follow_band[OF assms(2,3)] assms(1) show ?thesis
    by (cases "LicenseStrengthOf (env_Spdx env) (LicenseSPDX i)") (auto simp: license_price_cases classified_def)
qed

section \<open>Examples\<close>

text \<open>A library that takes every string for one valid identifier.\<close>

definition one_id_env :: SignalEnv where
  "one_id_env =
     \<lparr>env_Now = 0, env_Offline = [], env_ZeroWidth = [],
      env_Spdx = \<lparr>ExtractLicenses = (\<lambda>s. Some [s]), ValidateLicense = (\<lambda>_. True)\<rparr>, env_IsPrint = (\<lambda>_. True)\<rparr>"

definition gpl_input :: SignalInput where
  "gpl_input = zero_input\<lparr>LicenseSPDX := ''gpl-2.0'', LicenseTags := Classify (env_Spdx one_id_env) ''gpl-2.0''\<rparr>"

lemma gpl_trim: "TrimSpace ''gpl-2.0'' = ''gpl-2.0''"
  by (simp add: TrimSpace_visible visible_def)

lemma gpl_fields: "LicenseSPDX gpl_input = ''gpl-2.0''" "classified one_id_env gpl_input"
  by (simp_all add: gpl_input_def zero_input_def classified_def)

lemma gpl_lower: "ToLower ''gpl-2.0'' = ''gpl-2.0''"
  by (simp add: ToLower_def is_ascii_def byte_lower_def)

lemma gpl_ids: "license_ids (env_Spdx one_id_env) ''gpl-2.0'' = [''gpl-2.0'']"
  by (simp add: license_ids_def license_raw_def parsed_def one_id_env_def normalizeIfUnparsed_def gpl_trim)

lemma gpl_declared: "declared ''gpl-2.0''"
  by (simp add: declared_def gpl_trim ToUpper_ascii is_ascii_def)

lemma gpl_plain: "plain_ids (env_Spdx one_id_env) ''gpl-2.0''"
  by (simp add: plain_ids_def gpl_ids plain_id_def gpl_trim gpl_lower Trim_def EqualFold_ascii is_ascii_def Contains_def HasPrefix_def
      str_Index.simps)

lemma gpl_strong: "LicenseStrengthOf (env_Spdx one_id_env) ''gpl-2.0'' = LicenseStrengthStrongCopyleft"
  by (simp add: strength_of gpl_trim gpl_ids id_strength_def gpl_lower Trim_def matchesPrefix_def
      strongCopyleftPrefixes_def HasPrefix_def Let_def max_def)

theorem license_signals_exclusive_witness:
  "length (filter (\<lambda>s. fst (s_Fires s gpl_input))
     [sig_lic_missing, sig_lic_spdx_present one_id_env, sig_license_unidentified]) \<le> 1"
  by (rule license_signals_exclusive) (rule gpl_fields)

theorem license_price_follows_band_witness: "license_price one_id_env gpl_input = 30"
  using license_price_follows_band[of one_id_env gpl_input] by (simp add: gpl_fields gpl_declared gpl_plain gpl_strong)

end
