(* ===== verification/GoBufio.thy ===== *)
theory GoBufio
  imports GoStrings
begin

text \<open>
  \<open>bufio.Scanner\<close> with \<open>ScanLines\<close> over a reader that never fails: the lines, without their line ends, and whether the
  scan stopped at a line that does not fit the buffer. A line fits when it is shorter than the limit of the
  buffer; the lines before one that does not are still delivered.
\<close>

definition line_feed :: char where "line_feed = CHR 0x0A"

definition dropCR :: "string \<Rightarrow> string" where
  "dropCR s = (if s \<noteq> [] \<and> last s = CHR 0x0D then butlast s else s)"

function scan_lines :: "nat \<Rightarrow> string \<Rightarrow> string list \<times> bool" where
  "scan_lines limit s =
     (if s = [] then ([], False)
      else
        let line = takeWhile (\<lambda>c. c \<noteq> line_feed) s in
        if limit \<le> length line then ([], True)
        else
          (case scan_lines limit (drop (Suc (length line)) s) of
             (ls, too_long) \<Rightarrow> (dropCR line # ls, too_long)))"
  by pat_completeness auto
termination
  by (relation "measure (\<lambda>(_, s). length s)") auto

declare scan_lines.simps [simp del]

lemma scan_lines_Nil [simp]: "scan_lines limit [] = ([], False)"
  by (simp add: scan_lines.simps)

lemma scan_lines_long:
  "limit \<le> length (takeWhile (\<lambda>c. c \<noteq> line_feed) s) \<Longrightarrow> s \<noteq> [] \<Longrightarrow> scan_lines limit s = ([], True)"
  by (simp add: scan_lines.simps)

end
