(* ===== verification/GoDuration.thy ===== *)
theory GoDuration
  imports GoTime GoStrings
begin

text \<open>
  \<open>time.ParseDuration\<close>: a sign and a sequence of decimal numbers with units, in nanoseconds. The sum is a 64-bit
  number and the fraction of a term is computed in binary64, as the library does.
\<close>

definition is_digit :: "char \<Rightarrow> bool" where
  "is_digit c \<longleftrightarrow> CHR ''0'' \<le> c \<and> c \<le> CHR ''9''"

definition digit_of :: "char \<Rightarrow> nat" where
  "digit_of c = of_char c - 48"

text \<open>The digits in front; \<open>None\<close> when they exceed \<open>2^63\<close>.\<close>

fun leadingInt :: "nat \<Rightarrow> string \<Rightarrow> (nat \<times> string) option" where
  "leadingInt x [] = Some (x, [])"
| "leadingInt x (c # s) =
     (if \<not> is_digit c then Some (x, c # s)
      else if 2 ^ 63 div 10 < x then None
      else if 2 ^ 63 < x * 10 + digit_of c then None
      else leadingInt (x * 10 + digit_of c) s)"

text \<open>The digits of a fraction and their scale; digits that do not fit are passed over.\<close>

fun leadingFraction :: "nat \<Rightarrow> rat \<Rightarrow> bool \<Rightarrow> string \<Rightarrow> nat \<times> rat \<times> string" where
  "leadingFraction x scale full [] = (x, scale, [])"
| "leadingFraction x scale full (c # s) =
     (if \<not> is_digit c then (x, scale, c # s)
      else if full \<or> (2 ^ 63 - 1) div 10 < x \<or> 2 ^ 63 < x * 10 + digit_of c then leadingFraction x scale True s
      else leadingFraction (x * 10 + digit_of c) (fmul scale 10) False s)"

definition unit_of :: "string \<Rightarrow> nat option" where
  "unit_of u =
     (if u = ''ns'' then Some 1
      else if u = ''us'' \<or> u = [CHR 0xC2, CHR 0xB5, CHR ''s''] \<or> u = [CHR 0xCE, CHR 0xBC, CHR ''s''] then Some 1000
      else if u = ''ms'' then Some 1000000
      else if u = ''s'' then Some 1000000000
      else if u = ''m'' then Some 60000000000
      else if u = ''h'' then Some 3600000000000
      else None)"

definition in_unit :: "char \<Rightarrow> bool" where
  "in_unit c \<longleftrightarrow> c \<noteq> CHR ''.'' \<and> \<not> is_digit c"

lemma leadingInt_length: "leadingInt x s = Some (v, r) \<Longrightarrow> length r \<le> length s"
  by (induction x s rule: leadingInt.induct) (auto split: if_splits)

lemma leadingFraction_length: "leadingFraction x sc full s = (v, sc', r) \<Longrightarrow> length r \<le> length s"
  by (induction x sc full s rule: leadingFraction.induct) (auto split: if_splits)

text \<open>The number in front of a unit: its whole part, fraction and scale, and the rest.\<close>

definition number_part :: "string \<Rightarrow> (nat \<times> nat \<times> rat \<times> string) option" where
  "number_part s =
     (if s = [] \<or> \<not> (hd s = CHR ''.'' \<or> is_digit (hd s)) then None
      else
        (case leadingInt 0 s of
           None \<Rightarrow> None
         | Some (v, r) \<Rightarrow>
             if r \<noteq> [] \<and> hd r = CHR ''.'' then
               (case leadingFraction 0 1 False (tl r) of
                  (f, scale, r') \<Rightarrow>
                    if length r = length s \<and> length r' = length (tl r) then None else Some (v, f, scale, r'))
             else if length r = length s then None
             else Some (v, 0, 1, r)))"

lemma number_part_length: "number_part s = Some (v, f, sc, r) \<Longrightarrow> length r \<le> length s"
  by (auto simp: number_part_def split: option.splits if_splits prod.splits
      dest!: leadingInt_length leadingFraction_length)

definition scaled :: "nat \<Rightarrow> nat \<Rightarrow> rat \<Rightarrow> nat \<Rightarrow> nat option" where
  "scaled v f scale unit =
     (if 2 ^ 63 div unit < v then None
      else if 0 < f then
        let v' = v * unit + nat (trunc (fmul (rnd (of_nat f)) (fdiv (of_nat unit) scale))) in
        if 2 ^ 63 < v' then None else Some v'
      else Some (v * unit))"

function duration_terms :: "nat \<Rightarrow> string \<Rightarrow> nat option" where
  "duration_terms d s =
     (if s = [] then Some d
      else
        (case number_part s of
           None \<Rightarrow> None
         | Some (v, f, scale, r) \<Rightarrow>
             if takeWhile in_unit r = [] then None
             else
               (case unit_of (takeWhile in_unit r) of
                  None \<Rightarrow> None
                | Some unit \<Rightarrow>
                    (case scaled v f scale unit of
                       None \<Rightarrow> None
                     | Some w \<Rightarrow>
                         let d' = (d + w) mod 2 ^ 64 in
                         if 2 ^ 63 < d' then None else duration_terms d' (dropWhile in_unit r)))))"
  by pat_completeness auto
termination
proof (relation "measure (\<lambda>(d, s). length s)", goal_cases)
  case (2 d s a v b f c scale r unit w d')
  then have "length r \<le> length s" by (auto dest!: number_part_length)
  moreover have "length (dropWhile in_unit r) < length r"
    using 2(6) by (cases r) (auto intro: le_less_trans[OF length_dropWhile_le] split: if_splits)
  ultimately show ?case by simp
qed simp

declare duration_terms.simps [simp del]

definition ParseDuration :: "string \<Rightarrow> int option" where
  "ParseDuration s =
     (let signed = s \<noteq> [] \<and> (hd s = CHR ''-'' \<or> hd s = CHR ''+'');
          neg = signed \<and> hd s = CHR ''-'';
          r = (if signed then tl s else s)
      in
        if r = ''0'' then Some 0
        else if r = [] then None
        else
          (case duration_terms 0 r of
             None \<Rightarrow> None
           | Some d \<Rightarrow> if neg then Some (- int d) else if 2 ^ 63 - 1 < d then None else Some (int d)))"

lemma duration_examples:
  "ParseDuration ''30s'' = Some 30000000000" "ParseDuration ''-1h2m'' = Some (- 3720000000000)"
  "ParseDuration ''15'' = None" "ParseDuration ''9999999h'' = None"
  by (simp_all add: ParseDuration_def duration_terms.simps number_part_def is_digit_def digit_of_def in_unit_def unit_of_def
      scaled_def less_eq_char_def of_char_def Let_def)

end
