(* ===== verification/Codeowners.thy ===== *)
theory Codeowners
  imports GoBufio GoMatch
begin

text \<open>
  The CODEOWNERS files of codeowners/parser.go: parsing the lines into patterns with owners, and the matcher that
  finds the owners of a path. A position in a string is the number of bytes before it.
\<close>

section \<open>Parsing\<close>

record Mapping =
  m_Pattern :: string
  m_Owners :: "string list"
  m_LineNo :: nat

text \<open>The line up to a comment; a backslash keeps a hash.\<close>

fun strip_comment :: "string \<Rightarrow> string" where
  "strip_comment [] = []"
| "strip_comment [c] = (if c = CHR ''#'' then [] else [c])"
| "strip_comment (c # d # cs) =
     (if c = CHR 0x5C \<and> d = CHR ''#'' then CHR ''#'' # strip_comment cs
      else if c = CHR ''#'' then []
      else c # strip_comment (d # cs))"

definition tokenize :: "string \<Rightarrow> string list option" where
  "tokenize raw =
     (let line = TrimSpace (strip_comment raw) in if line = [] then None else Some (Fields line))"

definition validOwner :: "string \<Rightarrow> bool" where
  "validOwner s =
     (if length s < 2 then False
      else if HasPrefix s ''@'' then 1 < length s
      else
        (case index_byte s (CHR ''@'') of
           None \<Rightarrow> False
         | Some i \<Rightarrow> i \<noteq> 0 \<and> i \<noteq> length s - 1 \<and> Contains (drop (i + 1) s) ''.''))"

definition parse_line :: "nat \<Rightarrow> string \<Rightarrow> Mapping list" where
  "parse_line n raw =
     (case tokenize raw of
        Some (pattern # fs) \<Rightarrow>
          (let owners = filter validOwner fs in
           if owners = [] then [] else [\<lparr>m_Pattern = pattern, m_Owners = owners, m_LineNo = n\<rparr>])
      | _ \<Rightarrow> [])"

fun parse_lines :: "nat \<Rightarrow> string list \<Rightarrow> Mapping list" where
  "parse_lines n [] = []"
| "parse_lines n (raw # rest) = parse_line n raw @ parse_lines (Suc n) rest"

text \<open>An error for a line that does not fit the buffer of one megabyte.\<close>

definition Parse :: "string \<Rightarrow> Mapping list option" where
  "Parse src =
     (case scan_lines (1024 * 1024) src of (ls, too_long) \<Rightarrow> if too_long then None else Some (parse_lines 1 ls))"

section \<open>Patterns\<close>

text \<open>The body of a character class: the offset of the closing bracket, and whether the byte is listed.\<close>

fun class_body :: "string \<Rightarrow> nat \<Rightarrow> char \<Rightarrow> bool \<Rightarrow> (bool \<times> nat) option" where
  "class_body [] i r matched = None"
| "class_body (c # cs) i r matched =
     (if c = CHR '']'' then Some (matched, i)
      else
        (case cs of
           d # e # rest \<Rightarrow>
             if d = CHR ''-'' \<and> e \<noteq> CHR '']'' then
               class_body rest (i + 3) r (matched \<or> byte c \<le> byte r \<and> byte r \<le> byte e)
             else class_body cs (i + 1) r (matched \<or> c = r)
         | _ \<Rightarrow> class_body cs (i + 1) r (matched \<or> c = r)))"

definition classMatch :: "string \<Rightarrow> char \<Rightarrow> bool \<times> nat" where
  "classMatch pat r =
     (if length pat < 2 \<or> hd pat \<noteq> CHR ''['' then (False, 0)
      else
        let negate = (pat ! 1 = CHR ''!'' \<or> pat ! 1 = CHR ''^'');
            start = (if negate then 2 else 1)
        in case class_body (drop start pat) start r False of
             None \<Rightarrow> (False, 0)
           | Some (matched, i) \<Rightarrow> (matched \<noteq> negate, i + 1))"

lemma classMatch_advances: "fst (classMatch pat r) \<Longrightarrow> 0 < snd (classMatch pat r)"
  by (auto simp: classMatch_def Let_def split: if_splits option.splits)

text \<open>
  The walk of \<open>globMatchPrefix\<close>: the rest of the pattern, the rest of the string and the position; the positions at which
  the pattern can be used up.
\<close>

function glob_walk :: "string \<Rightarrow> string \<Rightarrow> nat \<Rightarrow> nat list" where
  "glob_walk pat s si =
     (case pat of
        [] \<Rightarrow> [si]
      | c # ps \<Rightarrow>
          if c = CHR ''*'' then
            (if ps \<noteq> [] \<and> hd ps = CHR ''*'' then
               concat (map (\<lambda>k. glob_walk (TrimPrefix (tl ps) ''/'') (drop k s) (si + k)) [0..<Suc (length s)])
             else
               concat (map (\<lambda>k. glob_walk ps (drop k s) (si + k))
                 [0..<Suc (length (takeWhile (\<lambda>x. x \<noteq> CHR ''/'') s))]))
          else if c = CHR ''?'' then
            (if s = [] \<or> hd s = CHR ''/'' then [] else glob_walk ps (tl s) (si + 1))
          else if c = CHR ''['' then
            (if s = [] then []
             else if fst (classMatch pat (hd s)) then
               glob_walk (drop (snd (classMatch pat (hd s))) pat) (tl s) (si + 1)
             else [])
          else if c = CHR 0x5C then
            (if ps = [] \<or> s = [] \<or> hd ps \<noteq> hd s then [] else glob_walk (tl ps) (tl s) (si + 1))
          else
            (if s = [] \<or> hd s \<noteq> c then [] else glob_walk ps (tl s) (si + 1)))"
  by pat_completeness auto
termination
  by (relation "measure (\<lambda>(pat, _, _). length pat)")
     (auto simp: neq_Nil_conv TrimPrefix_def split: if_splits dest: classMatch_advances)

declare glob_walk.simps [simp del]

definition globMatchPrefix :: "string \<Rightarrow> string \<Rightarrow> nat list" where
  "globMatchPrefix pat s = glob_walk pat s 0"

definition matchAnchored :: "string \<Rightarrow> string \<Rightarrow> bool \<Rightarrow> bool" where
  "matchAnchored pattern p dirOnly \<longleftrightarrow>
     (\<exists>n \<in> set (globMatchPrefix pattern p).
        if dirOnly then n < length p \<and> p ! n = CHR ''/''
        else n = length p \<or> n < length p \<and> p ! n = CHR ''/'')"

definition matchPattern :: "string \<Rightarrow> string \<Rightarrow> bool" where
  "matchPattern pattern0 p =
     (if pattern0 = [] then False
      else
        let dirOnly = (HasSuffix pattern0 ''/'' \<and> pattern0 \<noteq> ''/'');
            pattern = (if dirOnly then butlast pattern0 else pattern0)
        in if HasPrefix pattern ''/'' then matchAnchored (drop 1 pattern) p dirOnly
           else if \<not> Contains pattern ''/'' then
             (let segments = split_byte (CHR ''/'') p in
              \<exists>i \<in> {0..<length segments}. matchAnchored pattern (join_with ''/'' (drop i segments)) dirOnly)
           else matchAnchored pattern p dirOnly)"

text \<open>The last pattern that matches decides; no owners when none does.\<close>

definition Lookup :: "Mapping list \<Rightarrow> string \<Rightarrow> string list" where
  "Lookup mappings p0 =
     (let p = TrimPrefix p0 ''/'' in
      case find (\<lambda>m. matchPattern (m_Pattern m) p) (rev mappings) of None \<Rightarrow> [] | Some m \<Rightarrow> m_Owners m)"

end
