(* ===== verification/CodeownersProps.thy ===== *)
theory CodeownersProps
  imports Codeowners
begin

text \<open>
  The matcher against the language of its patterns: a pattern is a sequence of tokens, each with a language of byte
  strings, and the walk finds exactly the prefix_ends of the path in the language of the pattern. Parsing
  yields only mappings with owners, in the order of the lines, and the last mapping that matches decides.
\<close>

section \<open>The language of a pattern\<close>

datatype glob_token = Lit char | One_byte | Within_segment | Any_path | Class "char set"

primrec token_lang :: "glob_token \<Rightarrow> string set" where
  "token_lang (Lit c) = {[c]}"
| "token_lang One_byte = {[c] | c. c \<noteq> CHR ''/''}"
| "token_lang Within_segment = {u. CHR ''/'' \<notin> set u}"
| "token_lang Any_path = UNIV"
| "token_lang (Class cs) = {[c] | c. c \<in> cs}"

fun glob_lang :: "glob_token list \<Rightarrow> string set" where
  "glob_lang [] = {[]}"
| "glob_lang (t # ts) = {u @ v | u v. u \<in> token_lang t \<and> v \<in> glob_lang ts}"

text \<open>The length of a character class does not depend on the byte that is tested.\<close>

lemma class_body_length: "map_option snd (class_body cs i r m) = map_option snd (class_body cs i r' m')"
proof (induction cs i r m arbitrary: m' rule: class_body.induct)
  case (2 c cs i r m)
  then show ?case
    by (cases cs; cases "tl cs") (simp_all del: class_body.simps add: class_body.simps(2)[of c] split: if_splits)
qed simp

lemma classMatch_length: "snd (classMatch pat r) = snd (classMatch pat r')"
proof -
  have "map_option snd (class_body cs i r False) = map_option snd (class_body cs i r' False)" for cs i
    by (rule class_body_length)
  from this[of "drop st pat" st for st] show ?thesis
    by (auto simp: classMatch_def Let_def split: option.splits) (metis option.map option.distinct(1) option.inject snd_conv)+
qed

text \<open>The tokens of a pattern; a class that is not closed and a backslash at the end match nothing.\<close>

definition nothing :: glob_token where "nothing = Class {}"

function tokens :: "string \<Rightarrow> glob_token list" where
  "tokens pat =
     (case pat of
        [] \<Rightarrow> []
      | c # ps \<Rightarrow>
          if c = CHR ''*'' then
            (if ps \<noteq> [] \<and> hd ps = CHR ''*'' then
               Any_path # tokens (TrimPrefix (tl ps) ''/'')
             else Within_segment # tokens ps)
          else if c = CHR ''?'' then One_byte # tokens ps
          else if c = CHR ''['' then
            (let n = snd (classMatch pat CHR 0x00) in
             if n = 0 then [nothing] else Class {r. fst (classMatch pat r)} # tokens (drop n pat))
          else if c = CHR 0x5C then (if ps = [] then [nothing] else Lit (hd ps) # tokens (tl ps))
          else Lit c # tokens ps)"
  by pat_completeness auto
termination
  by (relation "measure length") (auto simp: neq_Nil_conv TrimPrefix_def)

declare tokens.simps [simp del]

definition prefix_ends :: "string \<Rightarrow> string set \<Rightarrow> nat \<Rightarrow> nat set" where
  "prefix_ends s L si = {si + k | k. k \<le> length s \<and> take k s \<in> L}"

lemma prefix_ends_Nil [simp]: "prefix_ends s {[]} si = {si}"
  by (auto simp: prefix_ends_def)

lemma prefix_ends_one:
  "prefix_ends s {u @ v | u v. u \<in> {[c] | c. P c} \<and> v \<in> L} si =
     (if s \<noteq> [] \<and> P (hd s) then prefix_ends (tl s) L (si + 1) else {})"
proof (cases s)
  case (Cons x xs)
  have "take k s \<in> {u @ v | u v. u \<in> {[c] | c. P c} \<and> v \<in> L} \<longleftrightarrow> 0 < k \<and> P x \<and> take (k - 1) xs \<in> L" for k
  proof (cases k)
    case (Suc j)
    have "x # take j xs \<in> {u @ v | u v. u \<in> {[c] | c. P c} \<and> v \<in> L} \<longleftrightarrow> P x \<and> take j xs \<in> L"
      (is "?l \<longleftrightarrow> ?r")
    proof
      assume ?r
      then have "x # take j xs = [x] @ take j xs \<and> P x \<and> take j xs \<in> L" by simp
      then show ?l by blast
    qed auto
    then show ?thesis using Cons Suc by simp
  qed auto
  then have "prefix_ends s {u @ v | u v. u \<in> {[c] | c. P c} \<and> v \<in> L} si =
      {si + k | k. k \<le> length s \<and> 0 < k \<and> P x \<and> take (k - 1) xs \<in> L}"
    by (simp add: prefix_ends_def)
  also have "\<dots> = (if P x then {si + Suc k | k. k \<le> length xs \<and> take k xs \<in> L} else {})"
    using Cons by (auto simp: gr0_conv_Suc)
  finally show ?thesis using Cons by (simp add: prefix_ends_def)
qed (auto simp: prefix_ends_def)

lemma prefix_ends_many:
  "prefix_ends s {u @ v | u v. u \<in> M \<and> v \<in> L} si =
     (\<Union>k \<in> {k. k \<le> length s \<and> take k s \<in> M}. prefix_ends (drop k s) L (si + k))"
proof (intro set_eqI iffI)
  fix n assume "n \<in> prefix_ends s {u @ v | u v. u \<in> M \<and> v \<in> L} si"
  then obtain j u v where j: "j \<le> length s" "n = si + j" "take j s = u @ v" "u \<in> M" "v \<in> L"
    by (auto simp: prefix_ends_def)
  have len: "length u + length v = j" using j(1,3) by (metis length_append length_take min.absorb2)
  have "take (length u) s = u" using j(3) len by (metis append_eq_conv_conj le_add1 take_take min.absorb1)
  moreover have "take (length v) (drop (length u) s) = v"
    using j(3) len by (metis add.commute add_diff_cancel_left' append_eq_conv_conj drop_take)
  ultimately show "n \<in> (\<Union>k \<in> {k. k \<le> length s \<and> take k s \<in> M}. prefix_ends (drop k s) L (si + k))"
    using j len by (intro UN_I[of "length u"]) (auto simp: prefix_ends_def intro!: exI[of _ "length v"])
next
  fix n assume "n \<in> (\<Union>k \<in> {k. k \<le> length s \<and> take k s \<in> M}. prefix_ends (drop k s) L (si + k))"
  then obtain k l where kl: "k \<le> length s" "take k s \<in> M" "l \<le> length s - k" "take l (drop k s) \<in> L" "n = si + k + l"
    by (auto simp: prefix_ends_def)
  then have "take (k + l) s = take k s @ take l (drop k s)" by (simp add: take_add)
  with kl show "n \<in> prefix_ends s {u @ v | u v. u \<in> M \<and> v \<in> L} si"
    by (auto simp: prefix_ends_def intro!: exI[of _ "k + l"])
qed

lemma within_segment_takes:
  "{k. k \<le> length s \<and> CHR ''/'' \<notin> set (take k s)} =
     set [0..<Suc (length (takeWhile (\<lambda>x. x \<noteq> CHR ''/'') s))]"
proof (induction s)
  case (Cons a s)
  have "{k. k \<le> length (a # s) \<and> CHR ''/'' \<notin> set (take k (a # s))} =
      insert 0 (if a = CHR ''/'' then {} else Suc ` {k. k \<le> length s \<and> CHR ''/'' \<notin> set (take k s)})"
    by (auto simp: image_iff take_Cons split: nat.splits) (metis Suc_le_mono not0_implies_Suc)+
  with Cons show ?case by (auto simp: image_iff less_Suc_eq_0_disj)
qed simp

lemma token_lang_nothing [simp]: "token_lang nothing = {}"
  by (simp add: nothing_def)

lemma prefix_ends_empty [simp]: "prefix_ends s {} si = {}"
  by (simp add: prefix_ends_def)

lemma set_concat_upto: "set (concat (map f [0..<Suc n])) = (\<Union>k \<in> {k. k \<le> n}. set (f k))"
  by (auto simp: less_Suc_eq_le simp del: upt_Suc)

lemma glob_walk_prefixes: "set (glob_walk pat s si) = prefix_ends s (glob_lang (tokens pat)) si"
proof (induction pat s si rule: glob_walk.induct)
  case (1 pat s si)
  show ?case
  proof (cases pat)
    case Nil
    then show ?thesis by (simp add: glob_walk.simps[of "[]"] tokens.simps[of "[]"])
  next
    case (Cons c ps)
    note IH = 1[OF Cons] and step = glob_walk.simps[of pat s si, unfolded Cons list.case] tokens.simps[of pat, unfolded Cons list.case]
    consider (path) "c = CHR ''*''" "ps \<noteq> [] \<and> hd ps = CHR ''*''" | (seg) "c = CHR ''*''" "\<not> (ps \<noteq> [] \<and> hd ps = CHR ''*'')"
      | (one) "c = CHR ''?''" | (cls) "c = CHR ''[''" | (esc) "c = CHR 0x5C"
      | (lit) "c \<noteq> CHR ''*''" "c \<noteq> CHR ''?''" "c \<noteq> CHR ''[''" "c \<noteq> CHR 0x5C" by blast
    then show ?thesis
    proof cases
      case path
      let ?rest = "TrimPrefix (tl ps) ''/''"
      have "set (glob_walk ?rest (drop k s) (si + k)) = prefix_ends (drop k s) (glob_lang (tokens ?rest)) (si + k)"
        if "k \<le> length s" for k
        using IH(1)[OF path, of k] that by (simp only: set_upt atLeastLessThan_iff) simp
      then have "set (glob_walk pat s si) =
          (\<Union>k \<in> {k. k \<le> length s \<and> take k s \<in> UNIV}. prefix_ends (drop k s) (glob_lang (tokens ?rest)) (si + k))"
        unfolding Cons step(1) using path by (simp only: set_concat_upto if_True simp_thms) simp
      also have "\<dots> = prefix_ends s (glob_lang (Any_path # tokens ?rest)) si"
        using prefix_ends_many[of s UNIV "glob_lang (tokens ?rest)" si] by simp
      also have "Any_path # tokens ?rest = tokens pat" unfolding Cons step(2) using path by simp
      finally show ?thesis .
    next
      case seg
      then have "tokens pat = Within_segment # tokens ps" unfolding Cons step(2) by auto
      then show ?thesis
        using IH(2)[OF seg] prefix_ends_many[of s "{u. CHR ''/'' \<notin> set u}" "glob_lang (tokens ps)" si] seg
        unfolding Cons step(1) by (auto simp: within_segment_takes)
    next
      case one
      then have "tokens pat = One_byte # tokens ps" unfolding Cons step(2) by simp
      then show ?thesis
        using IH(3)[OF _ one] prefix_ends_one[of s "\<lambda>c. c \<noteq> CHR ''/''" "glob_lang (tokens ps)" si] one
        unfolding Cons step(1) by auto
    next
      case cls
      define n where "n = snd (classMatch pat CHR 0x00)"
      have n: "snd (classMatch pat r) = n" for r by (simp add: n_def classMatch_length[of pat r "CHR 0x00"])
      have toks: "tokens pat = (if n = 0 then [nothing] else Class {r. fst (classMatch pat r)} # tokens (drop n pat))"
        unfolding Cons step(2) using cls by (simp add: n_def Cons Let_def)
      have walk: "glob_walk pat s si =
          (if s = [] \<or> \<not> fst (classMatch pat (hd s)) then [] else glob_walk (drop n pat) (tl s) (si + 1))"
        using step(1) cls n[of "hd s"] by (simp add: Cons)
      have "n \<noteq> 0" if "fst (classMatch pat r)" for r using classMatch_advances[OF that] n[of r] by simp
      then have lang: "prefix_ends s (glob_lang (tokens pat)) si =
          (if s = [] \<or> \<not> fst (classMatch pat (hd s)) then {}
           else prefix_ends (tl s) (glob_lang (tokens (drop n pat))) (si + 1))"
        using prefix_ends_one[of s "\<lambda>r. fst (classMatch pat r)" "glob_lang (tokens (drop n pat))" si]
        unfolding toks by (cases "n = 0") auto
      show ?thesis
        unfolding walk lang using IH(4)[OF _ _ cls] cls n[of "hd s"] by (auto simp: Cons)
    next
      case esc
      then have "tokens pat = (if ps = [] then [nothing] else Lit (hd ps) # tokens (tl ps))" unfolding Cons step(2) by simp
      then show ?thesis
        using IH(5)[OF _ _ _ esc] prefix_ends_one[of s "\<lambda>x. x = hd ps" "glob_lang (tokens (tl ps))" si] esc
        unfolding Cons step(1) by auto
    next
      case lit
      then have "tokens pat = Lit c # tokens ps" unfolding Cons step(2) by simp
      then show ?thesis
        using IH(6)[OF lit] prefix_ends_one[of s "\<lambda>x. x = c" "glob_lang (tokens ps)" si] lit
        unfolding Cons step(1) by auto
    qed
  qed
qed

section \<open>Patterns against paths\<close>

text \<open>What a match leaves of the path: nothing or a subtree, and only a subtree for a pattern of directories.\<close>

definition below :: "bool \<Rightarrow> string \<Rightarrow> bool" where
  "below dirOnly v \<longleftrightarrow> HasPrefix v ''/'' \<or> \<not> dirOnly \<and> v = []"

lemma HasPrefix_slash: "HasPrefix v ''/'' \<longleftrightarrow> v \<noteq> [] \<and> hd v = CHR ''/''"
  by (cases v) (auto simp: HasPrefix_def)

lemma below_drop:
  assumes "n \<le> length p"
  shows "below dirOnly (drop n p) \<longleftrightarrow>
    (if dirOnly then n < length p \<and> p ! n = CHR ''/'' else n = length p \<or> n < length p \<and> p ! n = CHR ''/'')"
  using assms by (auto simp: below_def HasPrefix_slash hd_drop_conv_nth)

lemma matchAnchored_lang:
  "matchAnchored pattern p dirOnly \<longleftrightarrow> (\<exists>u v. p = u @ v \<and> u \<in> glob_lang (tokens pattern) \<and> below dirOnly v)"
proof -
  have "matchAnchored pattern p dirOnly \<longleftrightarrow>
      (\<exists>n \<le> length p. take n p \<in> glob_lang (tokens pattern) \<and> below dirOnly (drop n p))"
  proof -
    have "set (globMatchPrefix pattern p) = {n. n \<le> length p \<and> take n p \<in> glob_lang (tokens pattern)}"
      by (auto simp: globMatchPrefix_def glob_walk_prefixes prefix_ends_def)
    then show ?thesis unfolding matchAnchored_def using below_drop[of _ p dirOnly] by blast
  qed
  also have "\<dots> \<longleftrightarrow> (\<exists>u v. p = u @ v \<and> u \<in> glob_lang (tokens pattern) \<and> below dirOnly v)"
    by (metis append_eq_conv_conj append_take_drop_id le_add1 length_append)
  finally show ?thesis .
qed

text \<open>The tails of a path that start at a segment.\<close>

lemma join_Cons: "ts \<noteq> [] \<Longrightarrow> join_with d (t # ts) = t @ d @ join_with d ts"
  by (cases ts) auto

lemma segment_tails:
  "(\<lambda>i. join_with ''/'' (drop i (split_byte CHR ''/'' p))) ` {0..<length (split_byte CHR ''/'' p)} =
     {t. \<exists>w. p = w @ t \<and> (w = [] \<or> last w = CHR ''/'')}"
  (is "?tails p = ?ends p")
proof (induction "length (filter (\<lambda>c. c = CHR ''/'') p)" arbitrary: p)
  case 0
  then have no: "CHR ''/'' \<notin> set p" by (auto simp: filter_empty_conv)
  then have "?ends p = {p}" by auto (metis append_Nil in_set_conv_decomp last_in_set UnI1 set_append)
  with no show ?case by (simp add: split_byte_id)
next
  case (Suc n)
  then have "filter (\<lambda>c. c = CHR ''/'') p \<noteq> []" by auto
  then have "CHR ''/'' \<in> set p" by (simp add: filter_empty_conv)
  then obtain x y where p: "p = x @ CHR ''/'' # y" and no: "CHR ''/'' \<notin> set x"
    by (auto dest: split_list_first)
  have "filter (\<lambda>c. c = CHR ''/'') x = []" using no by (auto simp: filter_empty_conv)
  then have IH: "?tails y = ?ends y" using Suc(2) p by (intro Suc.hyps(1)) simp
  have seg: "split_byte CHR ''/'' p = x # split_byte CHR ''/'' y"
    using split_byte_append[of "CHR ''/''" x y] split_byte_id[OF no] by (simp add: p)
  have upt: "{0..<length (split_byte CHR ''/'' p)} = insert 0 (Suc ` {0..<length (split_byte CHR ''/'' y)})"
    by (simp add: seg image_Suc_atLeastLessThan) (simp add: atLeast0_lessThan_Suc_eq_insert_0)
  have "?tails p = insert (join_with ''/'' (split_byte CHR ''/'' p)) (?tails y)"
    unfolding upt by (simp only: image_insert image_image drop_0) (simp only: seg drop_Suc_Cons)
  then have "?tails p = insert p (?tails y)" by (simp only: join_split_byte)
  moreover have "?ends p = insert p (?ends y)"
  proof (intro set_eqI iffI)
    fix t assume "t \<in> ?ends p"
    then obtain w where w: "p = w @ t" "w = [] \<or> last w = CHR ''/''" by blast
    show "t \<in> insert p (?ends y)"
    proof (cases "length w \<le> length x")
      case True
      then have "w = take (length w) x" using w(1) p by (metis append_eq_conv_conj take_append take_take min.absorb1 append_take_drop_id diff_is_0_eq' take0 append_Nil2)
      then have "set w \<subseteq> set x" by (metis set_take_subset)
      with w no have "w = []" by (metis last_in_set subsetD)
      with w show ?thesis by simp
    next
      case False
      then obtain w' where "w = x @ CHR ''/'' # w'"
        using w(1) p by (auto simp: append_eq_append_conv2 Cons_eq_append_conv)
      with w p have "y = w' @ t" "w' = [] \<or> last w' = CHR ''/''" by (auto split: if_splits)
      then show ?thesis by blast
    qed
  next
    fix t assume "t \<in> insert p (?ends y)"
    then consider "t = p" | w where "y = w @ t" "w = [] \<or> last w = CHR ''/''" by blast
    then show "t \<in> ?ends p"
    proof cases
      case (2 w)
      then have "p = (x @ CHR ''/'' # w) @ t \<and> last (x @ CHR ''/'' # w) = CHR ''/''" by (auto simp: p)
      then show ?thesis by blast
    qed simp
  qed
  ultimately show ?case using IH by simp
qed

text \<open>The part of a pattern that is a glob: without the slash of a directory and without the anchor.\<close>

definition dir_only :: "string \<Rightarrow> bool" where
  "dir_only pattern \<longleftrightarrow> HasSuffix pattern ''/'' \<and> pattern \<noteq> ''/''"

definition undirected :: "string \<Rightarrow> string" where
  "undirected pattern = (if dir_only pattern then butlast pattern else pattern)"

lemma Contains_byte: "Contains s [c] \<longleftrightarrow> c \<in> set s"
proof -
  have "c \<in> set s \<longleftrightarrow> (\<exists>k < length s. s ! k = c)" by (auto simp: in_set_conv_nth)
  also have "\<dots> \<longleftrightarrow> (\<exists>k. k + 1 \<le> length s \<and> take 1 (drop k s) = [c])"
    by (auto simp: take_Suc hd_drop_conv_nth Suc_le_eq)
  finally show ?thesis unfolding Contains_def str_Index_None by auto
qed

lemma matchPattern_lang:
  "matchPattern pattern p \<longleftrightarrow> pattern \<noteq> [] \<and>
     (\<exists>w u v. p = w @ u @ v \<and> below (dir_only pattern) v \<and>
        u \<in> glob_lang (tokens (TrimPrefix (undirected pattern) ''/'')) \<and>
        (if CHR ''/'' \<in> set (undirected pattern) then w = [] else w = [] \<or> last w = CHR ''/''))"
proof (cases "pattern = []")
  case False
  let ?b = "undirected pattern" and ?d = "dir_only pattern"
  have un: "undirected pattern = (if ?d then butlast pattern else pattern)" by (simp add: undirected_def)
  have eq: "matchPattern pattern p =
      (if HasPrefix ?b ''/'' then matchAnchored (drop 1 ?b) p ?d
       else if \<not> Contains ?b ''/'' then
         (\<exists>t \<in> (\<lambda>i. join_with ''/'' (drop i (split_byte CHR ''/'' p))) ` {0..<length (split_byte CHR ''/'' p)}.
            matchAnchored ?b t ?d)
       else matchAnchored ?b p ?d)"
    unfolding matchPattern_def undirected_def dir_only_def Let_def using False by (simp add: bex_simps)
  consider (root) "HasPrefix ?b ''/''" "CHR ''/'' \<in> set ?b" | (free) "\<not> HasPrefix ?b ''/''" "CHR ''/'' \<notin> set ?b"
    | (rel) "\<not> HasPrefix ?b ''/''" "CHR ''/'' \<in> set ?b"
    by (metis HasPrefix_slash hd_in_set)
  then show ?thesis
  proof cases
    case free
    then show ?thesis using False unfolding eq segment_tails
      by (simp add: Contains_byte TrimPrefix_def matchAnchored_lang) blast
  qed (use False in \<open>simp_all add: eq Contains_byte TrimPrefix_def matchAnchored_lang, blast+\<close>)
qed (simp add: matchPattern_def)

text \<open>
  C25: The matcher decides the language of the pattern: a path is owned when it splits into a part above the pattern, a part in its
  language, and nothing or a subtree below (a subtree alone for a pattern that ends in a slash); the part above is
  empty for a pattern with a slash in it, and ends at a segment otherwise.
\<close>

theorem matchPattern_decides:
  "matchPattern pattern p \<longleftrightarrow> pattern \<noteq> [] \<and>
     (\<exists>w u v. p = w @ u @ v \<and> below (dir_only pattern) v \<and>
        u \<in> glob_lang (tokens (TrimPrefix (undirected pattern) ''/'')) \<and>
        (if CHR ''/'' \<in> set (undirected pattern) then w = [] else w = [] \<or> last w = CHR ''/''))"
  by (rule matchPattern_lang)

section \<open>Files\<close>

lemma find_rev:
  "find P (rev xs) = Some x \<longleftrightarrow> (\<exists>before after. xs = before @ x # after \<and> P x \<and> filter P after = [])"
proof (induction xs rule: rev_induct)
  case (snoc y xs)
  show ?case
  proof
    assume a: "find P (rev (xs @ [y])) = Some x"
    show "\<exists>before after. xs @ [y] = before @ x # after \<and> P x \<and> filter P after = []"
    proof (cases "P y")
      case False
      with a snoc obtain before after where "xs = before @ x # after" "P x" "filter P after = []" by auto
      with False show ?thesis by (intro exI[of _ before] exI[of _ "after @ [y]"]) simp
    next
      case True
      with a show ?thesis by (intro exI[of _ xs] exI[of _ "[]"]) simp
    qed
  next
    assume "\<exists>before after. xs @ [y] = before @ x # after \<and> P x \<and> filter P after = []"
    then obtain before after where *: "xs @ [y] = before @ x # after" "P x" "filter P after = []" by blast
    then show "find P (rev (xs @ [y])) = Some x"
      using snoc by (cases after rule: rev_cases) (auto split: if_splits)
  qed
qed simp

lemma Lookup_last:
  "(\<exists>before m after. ms = before @ m # after \<and> matchPattern (m_Pattern m) (TrimPrefix p ''/'') \<and>
      filter (\<lambda>m'. matchPattern (m_Pattern m') (TrimPrefix p ''/'')) after = [] \<and> Lookup ms p = m_Owners m) \<or>
   filter (\<lambda>m'. matchPattern (m_Pattern m') (TrimPrefix p ''/'')) ms = [] \<and> Lookup ms p = []"
proof (cases "find (\<lambda>m'. matchPattern (m_Pattern m') (TrimPrefix p ''/'')) (rev ms)")
  case None
  then have "Lookup ms p = []" by (simp add: Lookup_def)
  with None show ?thesis by (simp add: find_None_iff filter_empty_conv)
next
  case (Some m)
  then show ?thesis unfolding find_rev by (auto simp: Lookup_def Some)
qed

text \<open>
  The mappings of a file: every one has a pattern and owners, all of a valid shape, and they come in the order of their
  lines, at most one per line.
\<close>

lemma parse_line_ok:
  "m \<in> set (parse_line n raw) \<Longrightarrow> m_LineNo m = n \<and> m_Owners m \<noteq> [] \<and> list_all validOwner (m_Owners m)"
  by (auto simp: parse_line_def Let_def list_all_iff split: option.splits list.splits if_splits)

lemma parse_lines_ok:
  "m \<in> set (parse_lines n raws) \<Longrightarrow> n \<le> m_LineNo m \<and> m_LineNo m < n + length raws \<and> m_Owners m \<noteq> [] \<and> list_all validOwner (m_Owners m)"
  by (induction n raws rule: parse_lines.induct) (force dest: parse_line_ok)+

lemma parse_line_short: "length (parse_line n raw) \<le> 1"
  by (auto simp: parse_line_def Let_def split: option.splits list.splits)

lemma parse_lines_sorted: "sorted_wrt (<) (map m_LineNo (parse_lines n raws))"
proof (induction n raws rule: parse_lines.induct)
  case (2 n raw rest)
  have "\<forall>m \<in> set (parse_line n raw). \<forall>m' \<in> set (parse_lines (Suc n) rest). m_LineNo m < m_LineNo m'"
    by (auto dest!: parse_line_ok parse_lines_ok)
  moreover have "sorted_wrt (<) (map m_LineNo (parse_line n raw))"
    using parse_line_short[of n raw] by (cases "parse_line n raw") auto
  ultimately show ?case using 2 by (simp add: sorted_wrt_append sorted_wrt_map)
qed simp

lemma Parse_ok:
  assumes "Parse src = Some ms"
  shows "sorted_wrt (<) (map m_LineNo ms)" and "m \<in> set ms \<Longrightarrow> m_Owners m \<noteq> [] \<and> list_all validOwner (m_Owners m)"
  using assms parse_lines_sorted[of 1 "fst (scan_lines (1024 * 1024) src)"]
  by (auto simp: Parse_def split: prod.splits if_splits dest: parse_lines_ok)

text \<open>
  A pattern that begins with two stars and a slash is said to follow gitignore, where it names a file in any directory;
  it also matches in the middle of a name.
\<close>

lemma double_star_splits_names: "matchPattern ''**/logs'' ''build/catalogs''"
proof -
  have "tokens ''**/logs'' = [Any_path, Lit CHR ''l'', Lit CHR ''o'', Lit CHR ''g'', Lit CHR ''s'']"
    by (simp add: tokens.simps TrimPrefix_def HasPrefix_def)
  moreover have "''build/catalogs'' = ''build/cata'' @ ''logs''" by simp
  ultimately have "''build/catalogs'' \<in> glob_lang (tokens ''**/logs'')" by simp
  then show ?thesis
    unfolding matchPattern_lang
    by (intro conjI exI[of _ "[]"] exI[of _ "''build/catalogs''"])
       (simp_all add: below_def undirected_def dir_only_def HasSuffix_def TrimPrefix_def HasPrefix_def)
qed

end
