(* ===== verification/PolicyRouting.thy ===== *)
theory PolicyRouting
  imports PolicyTypes Codeowners
begin

text \<open>
  The routing rules of policy/routing.go: after the enforcement decision, the rules of kind routing that match a
  violation are resolved to owners, and dispatched. The index of owners and the dispatcher are
  collaborators: the index is an argument that may fail, and a dispatch is a value of the result, in order.
\<close>

record RoutingViolation =
  rv_OrgID :: string
  rv_Repository :: string
  rv_PackageName :: string
  rv_PackageVersion :: string
  rv_LogicalPath :: string
  rv_PolicyID :: string
  rv_Reason :: string

record RoutingMatch =
  rm_PolicyID :: string
  rm_Rule :: RoutingRule
  rm_Owners :: "string list"

section \<open>The index of owners\<close>

text \<open>\<open>MappingsIndex\<close>: the parsed mappings of a repository of an organisation.\<close>

type_synonym MappingsIndex = "string \<rightharpoonup> Mapping list"

definition NewMappingsIndex :: MappingsIndex where
  "NewMappingsIndex = Map.empty"

definition mappingsKey :: "string \<Rightarrow> string \<Rightarrow> string" where
  "mappingsKey orgID repo = ToLower (TrimSpace orgID) @ [CHR 0x00] @ ToLower (TrimSpace repo)"

definition Set_mappings :: "MappingsIndex \<Rightarrow> string \<Rightarrow> string \<Rightarrow> Mapping list \<Rightarrow> MappingsIndex" where
  "Set_mappings m orgID repo mappings = m(mappingsKey orgID repo \<mapsto> mappings)"

definition LookupOwners :: "MappingsIndex \<Rightarrow> string \<Rightarrow> string \<Rightarrow> string \<Rightarrow> string list" where
  "LookupOwners m orgID repo repoPath =
     (case m (mappingsKey orgID repo) of
        None \<Rightarrow> []
      | Some mappings \<Rightarrow> if mappings = [] then [] else Lookup mappings repoPath)"

section \<open>Matching\<close>

definition matchPathGlob :: "string \<Rightarrow> string \<Rightarrow> bool" where
  "matchPathGlob glob target0 =
     (let target = TrimPrefix (TrimSpace target0) ''/'' in
      if target = [] then False
      else Lookup [\<lparr>m_Pattern = glob, m_Owners = [''@routing-probe''], m_LineNo = 1\<rparr>] target \<noteq> [])"

definition routingRuleMatches :: "RoutingRule \<Rightarrow> RoutingViolation \<Rightarrow> bool" where
  "routingRuleMatches rule v =
     (let pathGlob = TrimSpace (routing_PathGlob rule); pkgPattern = TrimSpace (routing_PackagePattern rule) in
      pathGlob \<noteq> [] \<and> rv_LogicalPath v \<noteq> [] \<and> matchPathGlob pathGlob (rv_LogicalPath v) \<or>
      pkgPattern \<noteq> [] \<and> rv_PackageName v \<noteq> [] \<and>
        (path_match pkgPattern (rv_PackageName v) = Some True \<or> pkgPattern = rv_PackageName v))"

section \<open>Evaluation\<close>

text \<open>The index, when there is one: the owners of a path in a repository of an organisation, or an error.\<close>

type_synonym CodeownersIndex = "(string \<Rightarrow> string \<Rightarrow> string \<Rightarrow> string list option) option"

definition resolve_owners :: "CodeownersIndex \<Rightarrow> RoutingViolation \<Rightarrow> string list" where
  "resolve_owners index v =
     (case index of
        None \<Rightarrow> []
      | Some lookup \<Rightarrow>
          if rv_LogicalPath v = [] \<or> rv_Repository v = [] then []
          else (case lookup (rv_OrgID v) (rv_Repository v) (rv_LogicalPath v) of None \<Rightarrow> [] | Some os \<Rightarrow> os))"

definition route :: "CodeownersIndex \<Rightarrow> RoutingViolation \<Rightarrow> Policy \<Rightarrow> RoutingMatch list" where
  "route index v pol =
     (if pol_Kind pol \<noteq> KindRouting then []
      else
        (case pol_Routing pol of
           None \<Rightarrow> []
         | Some rule \<Rightarrow>
             if pol_Status pol \<noteq> StatusEnabled then []
             else if \<not> routingRuleMatches rule v then []
             else [\<lparr>rm_PolicyID = pol_ID pol, rm_Rule = rule, rm_Owners = resolve_owners index v\<rparr>]))"

text \<open>The matches returned; each of them is also handed to the dispatcher, whose errors are ignored.\<close>

definition EvaluateRouting :: "Policy list \<Rightarrow> RoutingViolation \<Rightarrow> CodeownersIndex \<Rightarrow> RoutingMatch list" where
  "EvaluateRouting policies v index = concat (map (route index v) policies)"

section \<open>Laws\<close>

text \<open>A path rule matches the paths that a line of a CODEOWNERS file with the same pattern owns.\<close>

lemma matchPathGlob_pattern:
  "matchPathGlob glob target \<longleftrightarrow>
     (let t = TrimPrefix (TrimSpace target) ''/'' in t \<noteq> [] \<and> matchPattern glob (TrimPrefix t ''/''))"
  by (simp add: matchPathGlob_def Lookup_def Let_def)

lemma LookupOwners_Set:
  "LookupOwners (Set_mappings m orgID repo ms) orgID' repo' path =
     (if mappingsKey orgID' repo' = mappingsKey orgID repo then Lookup ms path else LookupOwners m orgID' repo' path)"
  by (simp add: LookupOwners_def Set_mappings_def Lookup_def)

text \<open>The keys of the index are said to be case-sensitive in the organisation; they are not.\<close>

lemma organisations_share_an_index:
  "LookupOwners (Set_mappings m ''Acme'' repo ms) ''acme'' repo path = Lookup ms path"
proof -
  have "visible ''Acme''" "visible ''acme''" by (simp_all add: visible_def)
  moreover have "ToLower ''Acme'' = ToLower ''acme''" by code_simp
  ultimately have "mappingsKey ''acme'' repo = mappingsKey ''Acme'' repo"
    by (simp add: mappingsKey_def TrimSpace_visible)
  then show ?thesis by (simp add: LookupOwners_Set)
qed

lemma EvaluateRouting_rules:
  "set (EvaluateRouting policies v index) =
     {\<lparr>rm_PolicyID = pol_ID pol, rm_Rule = rule, rm_Owners = resolve_owners index v\<rparr> | pol rule.
       pol \<in> set policies \<and> pol_Kind pol = KindRouting \<and> pol_Routing pol = Some rule \<and>
       pol_Status pol = StatusEnabled \<and> routingRuleMatches rule v}"
proof -
  have "set (route index v pol) =
      {\<lparr>rm_PolicyID = pol_ID pol, rm_Rule = rule, rm_Owners = resolve_owners index v\<rparr> | rule.
        pol_Kind pol = KindRouting \<and> pol_Routing pol = Some rule \<and>
        pol_Status pol = StatusEnabled \<and> routingRuleMatches rule v}" for pol
    by (auto simp: route_def split: option.split)
  then show ?thesis by (auto simp: EvaluateRouting_def)
qed

end
