(* ===== verification/PolicyRange.thy ===== *)
theory PolicyRange
  imports PolicyStore
begin

text \<open>
  The audit of stored thresholds in policy/policy_range_audit.go: which numeric conditions of a policy can
  never be met or are always met, and the sentence that tells the operator what that does. A threshold is a
  finite number (JSON has no NaN and no infinity); an upper bound of infinity is no bound.
\<close>

section \<open>Numbers as text\<close>

text \<open>
  \<open>strconv.FormatFloat\<close> in the format f with the shortest precision: the digits of the shortest decimal that rounds to the
  number. \<open>dec_exp\<close> is the exponent that brings it into the interval from one tenth to one; 400 steps reach
  every binary64.
\<close>

fun dec_exp :: "nat \<Rightarrow> rat \<Rightarrow> int" where
  "dec_exp 0 v = 0"
| "dec_exp (Suc n) v = (if v < 1 / 10 then dec_exp n (10 * v) - 1 else if 1 \<le> v then dec_exp n (v / 10) + 1 else 0)"

definition ten_to :: "int \<Rightarrow> rat" where
  "ten_to e = (if 0 \<le> e then 10 ^ nat e else 1 / 10 ^ nat (- e))"

text \<open>The candidate with \<open>nd\<close> digits: the number of units in the last place, when it rounds to the number.\<close>

definition shortest_try :: "rat \<Rightarrow> int \<Rightarrow> nat \<Rightarrow> int option" where
  "shortest_try v dp nd =
     (let unit = ten_to (dp - int nd); lo = \<lfloor>v / unit\<rfloor>;
          okdown = (rnd (of_int lo * unit) = v); okup = (rnd (of_int (lo + 1) * unit) = v)
      in if okdown \<and> okup then Some (rne (v / unit)) else if okdown then Some lo else if okup then Some (lo + 1) else None)"

fun shortest_from :: "rat \<Rightarrow> int \<Rightarrow> nat list \<Rightarrow> int \<times> int" where
  "shortest_from v dp [] = (0, 0)"
| "shortest_from v dp (nd # nds) =
     (case shortest_try v dp nd of Some m \<Rightarrow> (m, int nd - dp) | None \<Rightarrow> shortest_from v dp nds)"

definition trim_zeros :: "string \<Rightarrow> string" where
  "trim_zeros s = rev (dropWhile (\<lambda>c. c = CHR ''0'') (rev s))"

text \<open>\<open>m\<close> units of the decimal place \<open>s\<close>.\<close>

definition decimal_text :: "int \<Rightarrow> int \<Rightarrow> string" where
  "decimal_text m s =
     (let ds = itoa m in
      if s \<le> 0 then ds @ replicate (nat (- s)) CHR ''0''
      else
        let k = nat s; padded = replicate (Suc k - length ds) CHR ''0'' @ ds;
            whole = take (length padded - k) padded; frac = trim_zeros (drop (length padded - k) padded)
        in whole @ (if frac = [] then [] else CHR ''.'' # frac))"

definition formatBound :: "rat \<Rightarrow> string" where
  "formatBound v =
     (if v = 0 then ''0''
      else
        let a = \<bar>v\<bar>; (m, s) = shortest_from a (dec_exp 400 a) [1..<18]
        in (if v < 0 then ''-'' else []) @ decimal_text m s)"

definition em_dash_bytes :: string where "em_dash_bytes = [CHR 0xE2, CHR 0x80, CHR 0x94]"

section \<open>The rules\<close>

definition RangeAuditSeverityError :: string where "RangeAuditSeverityError = ''error''"
definition RangeAuditSeverityWarning :: string where "RangeAuditSeverityWarning = ''warning''"
definition RangeEffectNeverFires :: string where "RangeEffectNeverFires = ''never_fires''"
definition RangeEffectMatchesEverything :: string where "RangeEffectMatchesEverything = ''matches_everything''"

record RangeAuditFinding =
  raf_OrgID :: string
  raf_PolicyID :: string
  raf_PolicyName :: string
  raf_Kind :: Kind
  raf_Mode :: Mode
  raf_Status :: Status
  raf_Severity :: string
  raf_Field :: string
  raf_Value :: rat
  raf_Min :: "rat option"
  raf_Max :: "rat option"
  raf_ValidRange :: string
  raf_Effect :: string
  raf_Comparison :: string
  raf_Consequence :: string
  raf_Suggestion :: string

datatype rangeStyle = StyleMin | StyleMax

record rangeFieldRule =
  rf_field :: string
  rf_structField :: string
  rf_style :: rangeStyle
  rf_boundMin :: rat
  rf_boundMax :: "rat option"
  rf_signalMin :: rat
  rf_signalMax :: "rat option"
  rf_signal :: string
  rf_comparison :: string
  rf_floorMeans :: string
  rf_absentPopulation :: string
  rf_suggestion :: string
  rf_get :: "Conditions \<Rightarrow> rat option"

definition rangeFieldRules :: "rangeFieldRule list" where
  "rangeFieldRules = [
    \<lparr>rf_field = ''conditions.cvssMin'', rf_structField = ''CVSSMin'', rf_style = StyleMin,
      rf_boundMin = 0, rf_boundMax = Some 10, rf_signalMin = 0, rf_signalMax = Some 10,
      rf_signal = ''CVSS score'',
      rf_comparison = ''the evaluator drops the package when ctx.CVSSScore < cvssMin'',
      rf_floorMeans = ''a package with no CVE at all scores 0'',
      rf_absentPopulation = [],
      rf_suggestion =
        ''use a real severity floor (cvssMin: 7 for high, 9 for critical), or pair the rule with isVulnerable: true'',
      rf_get = cond_CVSSMin\<rparr>,
    \<lparr>rf_field = ''conditions.cvssMax'', rf_structField = ''CVSSMax'', rf_style = StyleMax,
      rf_boundMin = 0, rf_boundMax = Some 10, rf_signalMin = 0, rf_signalMax = Some 10,
      rf_signal = ''CVSS score'',
      rf_comparison = ''the evaluator drops the package when ctx.CVSSScore > cvssMax'',
      rf_floorMeans = ''a package with no CVE at all scores 0'',
      rf_absentPopulation = [],
      rf_suggestion =
        ''drop the upper bound entirely if the rule is not meant to exclude the most severe CVEs'',
      rf_get = cond_CVSSMax\<rparr>,
    \<lparr>rf_field = ''conditions.epssMin'', rf_structField = ''EPSSMin'', rf_style = StyleMin,
      rf_boundMin = 0, rf_boundMax = Some 1, rf_signalMin = 0, rf_signalMax = Some 1,
      rf_signal = ''EPSS probability'',
      rf_comparison = ''the evaluator drops the package when ctx.EPSSScore < epssMin'',
      rf_floorMeans = ''a package with no EPSS record at all scores 0'',
      rf_absentPopulation = [],
      rf_suggestion =
        ''use a real probability floor (epssMin: 0.1), or pair the rule with isVulnerable: true'',
      rf_get = cond_EPSSMin\<rparr>,
    \<lparr>rf_field = ''conditions.epssMax'', rf_structField = ''EPSSMax'', rf_style = StyleMax,
      rf_boundMin = 0, rf_boundMax = Some 1, rf_signalMin = 0, rf_signalMax = Some 1,
      rf_signal = ''EPSS probability'',
      rf_comparison = ''the evaluator drops the package when ctx.EPSSScore > epssMax'',
      rf_floorMeans = ''a package with no EPSS record at all scores 0'',
      rf_absentPopulation = [],
      rf_suggestion =
        ''drop the upper bound entirely if the rule is not meant to exclude the most exploitable CVEs'',
      rf_get = cond_EPSSMax\<rparr>,
    \<lparr>rf_field = ''conditions.trustScoreMin'', rf_structField = ''TrustScoreMin'', rf_style = StyleMin,
      rf_boundMin = 0, rf_boundMax = Some 100, rf_signalMin = 0, rf_signalMax = Some 100,
      rf_signal = ''trust score'',
      rf_comparison = ''the evaluator drops the package when it has no trust score, or when ctx.TrustScore < trustScoreMin'',
      rf_floorMeans = ''the lowest score a rated package can carry is 0'',
      rf_absentPopulation = ''a package with no trust score matches neither trust bound'',
      rf_suggestion =
        ''use a real floor (trustScoreMin: 40), or express the intent with signalsUnavailable instead'',
      rf_get = (\<lambda>c. to_float (cond_TrustScoreMin c))\<rparr>,
    \<lparr>rf_field = ''conditions.trustScoreMax'', rf_structField = ''TrustScoreMax'', rf_style = StyleMax,
      rf_boundMin = 0, rf_boundMax = Some 100, rf_signalMin = 0, rf_signalMax = Some 100,
      rf_signal = ''trust score'',
      rf_comparison = ''the evaluator drops the package when it has no trust score, or when ctx.TrustScore > trustScoreMax'',
      rf_floorMeans = ''the lowest score a rated package can carry is 0'',
      rf_absentPopulation = ''a package with no trust score matches neither trust bound'',
      rf_suggestion =
        ''drop the upper bound entirely if the rule is not meant to exclude well-rated packages'',
      rf_get = (\<lambda>c. to_float (cond_TrustScoreMax c))\<rparr>,
    \<lparr>rf_field = ''conditions.requireSlsaLevel'', rf_structField = ''RequireSLSALevel'', rf_style = StyleMin,
      rf_boundMin = 1, rf_boundMax = Some 4, rf_signalMin = 0, rf_signalMax = Some 4,
      rf_signal = ''SLSA build level'',
      rf_comparison = ''the evaluator drops the package when ctx.SLSALevel < requireSlsaLevel'',
      rf_floorMeans = ''an unattested package is level 0'',
      rf_absentPopulation = [],
      rf_suggestion =
        ''SLSA levels run 1-4; use requireAttestation: true for the '' @ [CHR 0x27] @ ''any verified attestation'' @ [CHR 0x27] @ '' rule'',
      rf_get = (\<lambda>c. to_float (cond_RequireSLSALevel c))\<rparr>,
    \<lparr>rf_field = ''conditions.packageAge'', rf_structField = ''PackageAge'', rf_style = StyleMax,
      rf_boundMin = 0, rf_boundMax = None, rf_signalMin = 0, rf_signalMax = None,
      rf_signal = ''package age in days'',
      rf_comparison = ''the evaluator drops the package when its age in days > packageAge'',
      rf_floorMeans = ''a package published today is 0 days old'',
      rf_absentPopulation = [],
      rf_suggestion =
        ''packageAge is a maximum age in days and cannot be negative'',
      rf_get = (\<lambda>c. to_float (cond_PackageAge c))\<rparr>,
    \<lparr>rf_field = ''conditions.cooldownDays'', rf_structField = ''CooldownDays'', rf_style = StyleMax,
      rf_boundMin = 0, rf_boundMax = None, rf_signalMin = 0, rf_signalMax = None,
      rf_signal = ''version publish age in days'',
      rf_comparison = ''the evaluator drops the package when this version'' @ [CHR 0x27] @ ''s age in days > cooldownDays'',
      rf_floorMeans = ''a version published today is 0 days old'',
      rf_absentPopulation = [],
      rf_suggestion =
        ''cooldownDays is a window in days and cannot be negative'',
      rf_get = (\<lambda>c. to_float (cond_CooldownDays c))\<rparr>]"

definition no_rule :: "string \<Rightarrow> rangeFieldRule" where
  "no_rule field =
     \<lparr>rf_field = field, rf_structField = [], rf_style = StyleMin, rf_boundMin = 0, rf_boundMax = Some 0,
      rf_signalMin = 0, rf_signalMax = Some 0, rf_signal = [], rf_comparison = [], rf_floorMeans = [],
      rf_absentPopulation = [], rf_suggestion = [], rf_get = (\<lambda>_. None)\<rparr>"

definition ruleFor :: "string \<Rightarrow> rangeFieldRule" where
  "ruleFor field = (case find (\<lambda>r. rf_field r = field) rangeFieldRules of Some r \<Rightarrow> r | None \<Rightarrow> no_rule field)"

section \<open>Classification\<close>

definition above :: "rat option \<Rightarrow> rat \<Rightarrow> bool" where
  "above limit v = (case limit of None \<Rightarrow> False | Some b \<Rightarrow> b < v)"

definition reaches :: "rat option \<Rightarrow> rat \<Rightarrow> bool" where
  "reaches limit v = (case limit of None \<Rightarrow> False | Some b \<Rightarrow> b \<le> v)"

definition classifyValue :: "rangeFieldRule \<Rightarrow> rat \<Rightarrow> string option" where
  "classifyValue r v =
     (case rf_style r of
        StyleMin \<Rightarrow>
          if above (rf_signalMax r) v then Some RangeEffectNeverFires
          else if v \<le> rf_signalMin r then Some RangeEffectMatchesEverything else None
      | StyleMax \<Rightarrow>
          if v < rf_signalMin r then Some RangeEffectNeverFires
          else if reaches (rf_signalMax r) v then Some RangeEffectMatchesEverything else None)"

definition severityFor :: "rangeFieldRule \<Rightarrow> rat \<Rightarrow> string" where
  "severityFor r v =
     (if v < rf_boundMin r \<or> above (rf_boundMax r) v then RangeAuditSeverityError else RangeAuditSeverityWarning)"

definition boundsOf :: "rangeFieldRule \<Rightarrow> rat option \<times> rat option \<times> string" where
  "boundsOf r =
     (Some (rf_boundMin r), rf_boundMax r,
      (case rf_boundMax r of
         Some m \<Rightarrow> formatBound (rf_boundMin r) @ '' to '' @ formatBound m
       | None \<Rightarrow> formatBound (rf_boundMin r) @ '' or greater''))"

section \<open>What a finding means\<close>

text \<open>\<open>narrowsBeyond\<close> reflects over the fields of the conditions: their names, and whether they are set.\<close>

definition condition_fields :: "Conditions \<Rightarrow> (string \<times> bool) list" where
  "condition_fields c = [
    (''IsVulnerable'', cond_IsVulnerable c \<noteq> None),
    (''PackageAge'', cond_PackageAge c \<noteq> None),
    (''CooldownDays'', cond_CooldownDays c \<noteq> None),
    (''CVSSMin'', cond_CVSSMin c \<noteq> None),
    (''CVSSMax'', cond_CVSSMax c \<noteq> None),
    (''EPSSMin'', cond_EPSSMin c \<noteq> None),
    (''EPSSMax'', cond_EPSSMax c \<noteq> None),
    (''InKEV'', cond_InKEV c \<noteq> None),
    (''PackageLicense'', cond_PackageLicense c \<noteq> []),
    (''Ecosystems'', cond_Ecosystems c \<noteq> []),
    (''RequireSLSALevel'', cond_RequireSLSALevel c \<noteq> None),
    (''RequireBuilderID'', cond_RequireBuilderID c \<noteq> []),
    (''RequireBuilderIssuer'', cond_RequireBuilderIssuer c \<noteq> []),
    (''RequireSourceRepo'', cond_RequireSourceRepo c \<noteq> []),
    (''RequireTransparencyLog'', cond_RequireTransparencyLog c \<noteq> None),
    (''ForbidCacheStale'', cond_ForbidCacheStale c \<noteq> None),
    (''RequireAttestation'', cond_RequireAttestation c \<noteq> None),
    (''HasProvenance'', cond_HasProvenance c \<noteq> None),
    (''IsSuspectedTyposquat'', cond_IsSuspectedTyposquat c \<noteq> None),
    (''IsKnownMalicious'', cond_IsKnownMalicious c \<noteq> None),
    (''TrustScoreMin'', cond_TrustScoreMin c \<noteq> None),
    (''TrustScoreMax'', cond_TrustScoreMax c \<noteq> None),
    (''ReservedNamespaces'', cond_ReservedNamespaces c \<noteq> []),
    (''HasInstallScript'', cond_HasInstallScript c \<noteq> None),
    (''InstallScriptFetchesRemote'', cond_InstallScriptFetchesRemote c \<noteq> None),
    (''ImportTimeExecution'', cond_ImportTimeExecution c \<noteq> None),
    (''MaliciousIOC'', cond_MaliciousIOC c \<noteq> None),
    (''BuildRsExecutes'', cond_BuildRsExecutes c \<noteq> None),
    (''PublisherChanged'', cond_PublisherChanged c \<noteq> None),
    (''VersionAnomaly'', cond_VersionAnomaly c \<noteq> None),
    (''VersionAnomalyKinds'', cond_VersionAnomalyKinds c \<noteq> []),
    (''HasHiddenUnicode'', cond_HasHiddenUnicode c \<noteq> None),
    (''HiddenUnicodeKinds'', cond_HiddenUnicodeKinds c \<noteq> []),
    (''PublishVelocityAnomaly'', cond_PublishVelocityAnomaly c \<noteq> None),
    (''PublishVelocityThreshold24h'', cond_PublishVelocityThreshold24h c \<noteq> None),
    (''LicenseCopyleft'', cond_LicenseCopyleft c \<noteq> None),
    (''LicenseNonPermissive'', cond_LicenseNonPermissive c \<noteq> None),
    (''LicenseExceptionPresent'', cond_LicenseExceptionPresent c \<noteq> None),
    (''LicenseAmbiguousClassifier'', cond_LicenseAmbiguousClassifier c \<noteq> None),
    (''LicenseUnidentified'', cond_LicenseUnidentified c \<noteq> None),
    (''DeprecatedByMaintainer'', cond_DeprecatedByMaintainer c \<noteq> None),
    (''ShrinkwrapPresent'', cond_ShrinkwrapPresent c \<noteq> None),
    (''ManifestConfusion'', cond_ManifestConfusion c \<noteq> None),
    (''GitDependency'', cond_GitDependency c \<noteq> None),
    (''HTTPTarballDependency'', cond_HTTPTarballDependency c \<noteq> None),
    (''WildcardDependencyRange'', cond_WildcardDependencyRange c \<noteq> None),
    (''BadDependencySemver'', cond_BadDependencySemver c \<noteq> None),
    (''NonRegistrySource'', cond_NonRegistrySource c \<noteq> None),
    (''NonRegistrySourceUnpinned'', cond_NonRegistrySourceUnpinned c \<noteq> None),
    (''NonRegistryOriginNotIn'', cond_NonRegistryOriginNotIn c \<noteq> []),
    (''UsesEval'', cond_UsesEval c \<noteq> None),
    (''NetworkAccess'', cond_NetworkAccess c \<noteq> None),
    (''ShellAccess'', cond_ShellAccess c \<noteq> None),
    (''FilesystemAccess'', cond_FilesystemAccess c \<noteq> None),
    (''EnvVarAccess'', cond_EnvVarAccess c \<noteq> None),
    (''NativeBinaryPresent'', cond_NativeBinaryPresent c \<noteq> None),
    (''HighEntropyStrings'', cond_HighEntropyStrings c \<noteq> None),
    (''URLStrings'', cond_URLStrings c \<noteq> None),
    (''MinifiedCode'', cond_MinifiedCode c \<noteq> None),
    (''TrivialPackage'', cond_TrivialPackage c \<noteq> None),
    (''TooManyFiles'', cond_TooManyFiles c \<noteq> None),
    (''NonExistentAuthor'', cond_NonExistentAuthor c \<noteq> None),
    (''FirstTimeCollaborator'', cond_FirstTimeCollaborator c \<noteq> None),
    (''SuspiciousRepoStars'', cond_SuspiciousRepoStars c \<noteq> None),
    (''MaintainerAccountAgeDaysMax'', cond_MaintainerAccountAgeDaysMax c \<noteq> None),
    (''DangerousPickle'', cond_DangerousPickle c \<noteq> None),
    (''UnsafeSerializationFormat'', cond_UnsafeSerializationFormat c \<noteq> None),
    (''ModelCardInjection'', cond_ModelCardInjection c \<noteq> None),
    (''AgentToolDangerousCapability'', cond_AgentToolDangerousCapability c \<noteq> None),
    (''MCPServerDeclared'', cond_MCPServerDeclared c \<noteq> None),
    (''PromptTemplateInjection'', cond_PromptTemplateInjection c \<noteq> None)]"

definition narrowsBeyond :: "Policy \<Rightarrow> string \<Rightarrow> string list \<Rightarrow> bool" where
  "narrowsBeyond p structField inert \<longleftrightarrow>
     hasPolicyIdentifier (pol_Identifier p) \<or> hasPolicyScope (pol_Scope p) \<or>
     list_ex (\<lambda>(name, is_set). name \<noteq> structField \<and> name \<notin> set inert \<and> name \<noteq> ''PublishVelocityThreshold24h'' \<and> is_set)
       (condition_fields (pol_Conditions p))"

definition whyNever :: "rangeFieldRule \<Rightarrow> rat \<Rightarrow> string" where
  "whyNever r v =
     (case rf_style r of
        StyleMin \<Rightarrow>
          ''no package'' @ [CHR 0x27] @ ''s '' @ rf_signal r @ '' can reach '' @ formatBound v @
          (case rf_signalMax r of
             None \<Rightarrow> []
           | Some m \<Rightarrow> '' '' @ em_dash_bytes @ '' the highest possible is '' @ formatBound m)
      | StyleMax \<Rightarrow>
          ''no package'' @ [CHR 0x27] @ ''s '' @ rf_signal r @ '' can be at or below '' @ formatBound v @
          '' '' @ em_dash_bytes @ '' the lowest possible is '' @ formatBound (rf_signalMin r))"

definition whyNeverPair :: "rangeFieldRule \<Rightarrow> rat \<Rightarrow> rat option \<Rightarrow> string" where
  "whyNeverPair r lo hi =
     (case hi of
        None \<Rightarrow> ''the minimum '' @ rf_signal r @ '' is above the paired maximum''
      | Some h \<Rightarrow>
          ''no package'' @ [CHR 0x27] @ ''s '' @ rf_signal r @ '' can be at or above '' @ formatBound lo @
          '' and at or below '' @ formatBound h @ '' at the same time'')"

definition whyAll :: "rangeFieldRule \<Rightarrow> rat \<Rightarrow> string" where
  "whyAll r v =
     (let base = ''every package'' @ [CHR 0x27] @ ''s '' @ rf_signal r @
            (case rf_style r of StyleMin \<Rightarrow> '' is at or above '' | StyleMax \<Rightarrow> '' is at or below '') @ formatBound v
      in if rf_absentPopulation r \<noteq> [] then
           base @ '', and '' @ rf_floorMeans r @ '', so this matches every rated package; '' @ rf_absentPopulation r
         else base @ '' '' @ em_dash_bytes @ '' '' @ rf_floorMeans r)"

definition modeNoun :: "Mode \<Rightarrow> string" where
  "modeNoun m = (if m = ModeBlockAfterGrace then ''block-after-grace'' else if m = [] then ''unset-mode'' else m)"

definition statusNoun :: "Status \<Rightarrow> string" where
  "statusNoun s = (if s = [] then ''in an unset status'' else s)"

definition modeMatchesNothing :: "Mode \<Rightarrow> string" where
  "modeMatchesNothing m =
     (if m = ModeBlock then ''blocks nothing''
      else if m = ModeBlockAfterGrace then ''blocks nothing once its grace window ends''
      else if m = ModeQuarantine then ''quarantines nothing''
      else if m = ModeMonitor then ''records nothing''
      else if m = ModeAllow then ''exempts nothing''
      else ''matches nothing'')"

definition modeMatchesEverything :: "Mode \<Rightarrow> bool \<Rightarrow> string" where
  "modeMatchesEverything m ratedOnly =
     (let subject = (if ratedOnly then ''every request whose package carries the signal'' else ''every request that reaches it'') in
      if m = ModeBlock then ''blocks '' @ subject
      else if m = ModeBlockAfterGrace then ''blocks '' @ subject @ '' once its grace window ends''
      else if m = ModeQuarantine then ''quarantines '' @ subject
      else if m = ModeMonitor then ''records a would-block for '' @ subject
      else if m = ModeAllow then ''exempts '' @ subject @ '' from every lower-priority rule''
      else ''matches '' @ subject)"

definition rangeConsequence :: "Policy \<Rightarrow> rangeFieldRule \<Rightarrow> RangeAuditFinding \<Rightarrow> bool \<Rightarrow> bool \<Rightarrow> string" where
  "rangeConsequence p r f narrowed pairViolation =
     (if pol_Kind p = KindException then
        ''no effect on enforcement: this row is an exception, and the evaluator matches an exception on its identifier and scope alone ''
        @ em_dash_bytes @ '' it never reads these conditions.''
      else if pol_Kind p = KindRouting then
        ''no effect on enforcement: routing rules are evaluated by the routing engine, which never reads conditions and never gates an install.''
      else if raf_Effect f = RangeEffectNeverFires \<or> raf_Effect f = RangeEffectMatchesEverything then
        (if raf_Effect f = RangeEffectNeverFires then
           ''never fires: '' @ (if pairViolation then whyNeverPair r (raf_Value f) (raf_Max f) else whyNever r (raf_Value f)) @
           '', and a policy'' @ [CHR 0x27] @ ''s conditions are AND-ed, so this '' @ modeNoun (pol_Mode p) @ '' policy '' @
           modeMatchesNothing (pol_Mode p) @ ''.''
         else if narrowed then
           ''matches every package ('' @ whyAll r (raf_Value f) @ ''), so this condition narrows nothing '' @ em_dash_bytes @
           '' what the policy does is decided entirely by its other conditions.''
         else
           ''matches every package ('' @ whyAll r (raf_Value f) @ ''), and nothing else on this policy narrows it, so this '' @
           modeNoun (pol_Mode p) @ '' policy '' @ modeMatchesEverything (pol_Mode p) (rf_absentPopulation r \<noteq> []) @ ''.'')
        @ (if pol_Status p \<noteq> StatusEnabled then
             '' The row is '' @ statusNoun (pol_Status p) @ '', so it does not evaluate until it is enabled.''
           else [])
      else [])"

section \<open>The audit\<close>

definition inBound :: "rat option \<Rightarrow> rat \<Rightarrow> rat \<Rightarrow> bool" where
  "inBound v lo hi = (case v of None \<Rightarrow> True | Some x \<Rightarrow> lo \<le> x \<and> x \<le> hi)"

definition pair_finding :: "Policy \<Rightarrow> string \<Rightarrow> rat \<Rightarrow> rat \<Rightarrow> RangeAuditFinding" where
  "pair_finding p minField lo hi =
     (let r = ruleFor minField in
      \<lparr>raf_OrgID = [], raf_PolicyID = pol_ID p, raf_PolicyName = pol_Name p, raf_Kind = pol_Kind p, raf_Mode = pol_Mode p,
       raf_Status = pol_Status p, raf_Severity = RangeAuditSeverityError, raf_Field = minField, raf_Value = lo,
       raf_Min = Some (rf_boundMin r), raf_Max = Some hi,
       raf_ValidRange = formatBound (rf_boundMin r) @ '' to '' @ formatBound hi,
       raf_Effect = RangeEffectNeverFires,
       raf_Comparison = rf_comparison r @ '', and again when it is above the paired maximum'',
       raf_Consequence = [],
       raf_Suggestion = ''the minimum is above the maximum; no '' @ rf_signal r @ '' can satisfy both''\<rparr>)"

definition pair_of :: "Policy \<Rightarrow> string \<Rightarrow> rat option \<Rightarrow> rat option \<Rightarrow> rat \<Rightarrow> RangeAuditFinding list" where
  "pair_of p minField lo hi limit =
     (case (lo, hi) of
        (Some l, Some h) \<Rightarrow>
          if inBound lo 0 limit \<and> inBound hi 0 limit \<and> h < l then [pair_finding p minField l h] else []
      | _ \<Rightarrow> [])"

definition pairFindings :: "Policy \<Rightarrow> RangeAuditFinding list" where
  "pairFindings p =
     (let c = pol_Conditions p in
      pair_of p ''conditions.cvssMin'' (cond_CVSSMin c) (cond_CVSSMax c) 10 @
      pair_of p ''conditions.epssMin'' (cond_EPSSMin c) (cond_EPSSMax c) 1 @
      (case (cond_TrustScoreMin c, cond_TrustScoreMax c) of
         (Some l, Some h) \<Rightarrow>
           if inBound (to_float (Some l)) 0 100 \<and> inBound (to_float (Some h)) 0 100 \<and> h < l then
             [pair_finding p ''conditions.trustScoreMin'' (rnd (of_int l)) (rnd (of_int h))]
           else []
       | _ \<Rightarrow> []))"

record candidate =
  cand_finding :: RangeAuditFinding
  cand_rule :: rangeFieldRule
  cand_ceilingOnly :: bool
  cand_pairViolation :: bool

definition rule_candidate :: "string \<Rightarrow> Policy \<Rightarrow> rangeFieldRule \<Rightarrow> candidate list" where
  "rule_candidate orgID p r =
     (case rf_get r (pol_Conditions p) of
        None \<Rightarrow> []
      | Some v \<Rightarrow>
          (case classifyValue r v of
             None \<Rightarrow> []
           | Some effect \<Rightarrow>
               (case boundsOf r of
                  (lo, hi, valid) \<Rightarrow>
                    [\<lparr>cand_finding =
                        \<lparr>raf_OrgID = orgID, raf_PolicyID = pol_ID p, raf_PolicyName = pol_Name p, raf_Kind = pol_Kind p,
                         raf_Mode = pol_Mode p, raf_Status = pol_Status p, raf_Severity = severityFor r v,
                         raf_Field = rf_field r, raf_Value = v, raf_Min = lo, raf_Max = hi, raf_ValidRange = valid,
                         raf_Effect = effect, raf_Comparison = rf_comparison r, raf_Consequence = [],
                         raf_Suggestion = rf_suggestion r\<rparr>,
                      cand_rule = r,
                      cand_ceilingOnly =
                        (rf_style r = StyleMax \<and> effect = RangeEffectMatchesEverything \<and>
                         severityFor r v = RangeAuditSeverityWarning),
                      cand_pairViolation = False\<rparr>])))"

definition candidates :: "string \<Rightarrow> Policy \<Rightarrow> candidate list" where
  "candidates orgID p =
     concat (map (rule_candidate orgID p) rangeFieldRules) @
     map (\<lambda>f. \<lparr>cand_finding = f, cand_rule = ruleFor (raf_Field f), cand_ceilingOnly = False, cand_pairViolation = True\<rparr>)
       (pairFindings p)"

definition inert_fields :: "candidate list \<Rightarrow> string list" where
  "inert_fields cands =
     map (\<lambda>c. rf_structField (cand_rule c))
       (filter (\<lambda>c. raf_Effect (cand_finding c) = RangeEffectMatchesEverything) cands)"

definition auditOnePolicy :: "string \<Rightarrow> Policy \<Rightarrow> RangeAuditFinding list" where
  "auditOnePolicy orgID p =
     (let cands = candidates orgID p;
          narrowed = (\<lambda>c. narrowsBeyond p (rf_structField (cand_rule c)) (inert_fields cands))
      in map (\<lambda>c. (cand_finding c)
                \<lparr>raf_Consequence := rangeConsequence p (cand_rule c) (cand_finding c) (narrowed c) (cand_pairViolation c)\<rparr>)
           (filter (\<lambda>c. \<not> (cand_ceilingOnly c \<and> narrowed c)) cands))"

definition AuditPolicyRanges :: "string \<Rightarrow> Policy list \<Rightarrow> RangeAuditFinding list" where
  "AuditPolicyRanges orgID policies = concat (map (auditOnePolicy orgID) policies)"

end
