(* ===== verification/PolicyRangeProps.thy ===== *)
theory PolicyRangeProps
  imports PolicyRange PolicyGaps
begin

text \<open>
  The audit against the evaluator: a threshold that is reported as never met keeps its policy from matching any
  package, one that is reported as always met can be dropped without changing what the policy matches, and
  every violation of the bounds that the store enforces is reported.
\<close>

section \<open>Rounded integers\<close>

lemma rnd_int_cmp:
  assumes "\<bar>k\<bar> < 2 ^ 52"
  shows "of_int k < rnd (of_int n) \<longleftrightarrow> k < n" and "rnd (of_int n) < of_int k \<longleftrightarrow> n < k"
proof -
  have e: "rnd (of_int k) = of_int k" "rnd (of_int (k + 1)) = of_int (k + 1)" "rnd (of_int (k - 1)) = of_int (k - 1)"
    using assms by (intro rnd_int; simp)+
  show "of_int k < rnd (of_int n) \<longleftrightarrow> k < n"
  proof
    assume "k < n"
    then have "rnd (of_int (k + 1)) \<le> rnd (of_int n)" by (intro rnd_mono) simp
    with e(2) show "of_int k < rnd (of_int n)" by simp
  next
    assume "of_int k < rnd (of_int n)"
    then show "k < n" using rnd_mono[of "of_int n" "of_int k"] e(1) by (cases "k < n") auto
  qed
  show "rnd (of_int n) < of_int k \<longleftrightarrow> n < k"
  proof
    assume "n < k"
    then have "rnd (of_int n) \<le> rnd (of_int (k - 1))" by (intro rnd_mono) simp
    with e(3) show "rnd (of_int n) < of_int k" by simp
  next
    assume "rnd (of_int n) < of_int k"
    then show "n < k" using rnd_mono[of "of_int k" "of_int n"] e(1) by (cases "n < k") auto
  qed
qed

lemma rnd_int_bounds [simp]:
  "100 < rnd (of_int n) \<longleftrightarrow> 100 < n" "4 < rnd (of_int n) \<longleftrightarrow> 4 < n"
  "rnd (of_int n) < 0 \<longleftrightarrow> n < 0" "rnd (of_int n) < 1 \<longleftrightarrow> n < 1"
  "rnd (of_int n) \<le> 0 \<longleftrightarrow> n \<le> 0" "100 \<le> rnd (of_int n) \<longleftrightarrow> 100 \<le> n"
  using rnd_int_cmp[of 100 n] rnd_int_cmp[of 4 n] rnd_int_cmp[of 0 n] rnd_int_cmp[of 1 n] by (auto simp: not_less[symmetric])

lemma age_days_nonneg: "t \<le> now \<Longrightarrow> 0 \<le> age_days now t"
proof -
  have "time_Sub t t = 0" by (simp add: time_Sub_def)
  then have "age_days t t = 0" using trunc_int[of 0] by (simp add: age_days_def Hours_def fdiv_def fadd_def)
  then show "t \<le> now \<Longrightarrow> 0 \<le> age_days now t" using age_days_mono[of t now t] by simp
qed

section \<open>The domain of the signals\<close>

definition in_domain :: "int \<Rightarrow> EvaluationContext \<Rightarrow> bool" where
  "in_domain now x \<longleftrightarrow>
     0 \<le> ctx_CVSSScore x \<and> ctx_CVSSScore x \<le> 10 \<and> 0 \<le> ctx_EPSSScore x \<and> ctx_EPSSScore x \<le> 1 \<and>
     0 \<le> ctx_SLSALevel x \<and> ctx_SLSALevel x \<le> 4 \<and>
     (case ctx_TrustScore x of None \<Rightarrow> True | Some t \<Rightarrow> 0 \<le> t \<and> t \<le> 100) \<and>
     (case ctx_PackageReleaseDate x of None \<Rightarrow> True | Some t \<Rightarrow> t \<le> now) \<and>
     (case ctx_VersionReleaseDate x of None \<Rightarrow> True | Some t \<Rightarrow> t \<le> now)"

lemmas effect_defs = RangeEffectNeverFires_def RangeEffectMatchesEverything_def

lemma effects_distinct [simp]: "RangeEffectNeverFires \<noteq> RangeEffectMatchesEverything" "RangeEffectMatchesEverything \<noteq> RangeEffectNeverFires"
  by (simp_all add: effect_defs)

lemmas audit_rules = classifyValue_def above_def reaches_def to_float_def
lemmas threshold_groups = matchesConditions_def match_age_def match_vulnerability_def match_attestation_def match_trust_def

lemma thresholds_met:
  assumes "matchesConditions now x c"
  shows "at_least (cond_CVSSMin c) (ctx_CVSSScore x)" "at_most (cond_CVSSMax c) (ctx_CVSSScore x)"
    "at_least (cond_EPSSMin c) (ctx_EPSSScore x)" "at_most (cond_EPSSMax c) (ctx_EPSSScore x)"
    "at_least (cond_RequireSLSALevel c) (ctx_SLSALevel x)"
    "cond_TrustScoreMin c = Some n \<Longrightarrow> \<exists>t. ctx_TrustScore x = Some t \<and> n \<le> t"
    "cond_TrustScoreMax c = Some n \<Longrightarrow> \<exists>t. ctx_TrustScore x = Some t \<and> t \<le> n"
    "cond_PackageAge c = Some n \<Longrightarrow> young_enough now (ctx_PackageReleaseDate x) n"
    "cond_CooldownDays c = Some n \<Longrightarrow> young_enough now (ctx_VersionReleaseDate x) n"
  using assms by (auto simp: threshold_groups)

lemma rule_facts [simp]:
  "rf_get (rangeFieldRules ! 0) c = cond_CVSSMin c" "rf_style (rangeFieldRules ! 0) = StyleMin" "rf_signalMin (rangeFieldRules ! 0) = 0" "rf_signalMax (rangeFieldRules ! 0) = Some 10"
  "rf_boundMin (rangeFieldRules ! 0) = 0" "rf_boundMax (rangeFieldRules ! 0) = Some 10" "rf_field (rangeFieldRules ! 0) = ''conditions.cvssMin''" "rf_structField (rangeFieldRules ! 0) = ''CVSSMin''"
  "rf_get (rangeFieldRules ! Suc 0) c = cond_CVSSMax c" "rf_style (rangeFieldRules ! Suc 0) = StyleMax" "rf_signalMin (rangeFieldRules ! Suc 0) = 0" "rf_signalMax (rangeFieldRules ! Suc 0) = Some 10"
  "rf_boundMin (rangeFieldRules ! Suc 0) = 0" "rf_boundMax (rangeFieldRules ! Suc 0) = Some 10" "rf_field (rangeFieldRules ! Suc 0) = ''conditions.cvssMax''" "rf_structField (rangeFieldRules ! Suc 0) = ''CVSSMax''"
  "rf_get (rangeFieldRules ! 2) c = cond_EPSSMin c" "rf_style (rangeFieldRules ! 2) = StyleMin" "rf_signalMin (rangeFieldRules ! 2) = 0" "rf_signalMax (rangeFieldRules ! 2) = Some 1"
  "rf_boundMin (rangeFieldRules ! 2) = 0" "rf_boundMax (rangeFieldRules ! 2) = Some 1" "rf_field (rangeFieldRules ! 2) = ''conditions.epssMin''" "rf_structField (rangeFieldRules ! 2) = ''EPSSMin''"
  "rf_get (rangeFieldRules ! 3) c = cond_EPSSMax c" "rf_style (rangeFieldRules ! 3) = StyleMax" "rf_signalMin (rangeFieldRules ! 3) = 0" "rf_signalMax (rangeFieldRules ! 3) = Some 1"
  "rf_boundMin (rangeFieldRules ! 3) = 0" "rf_boundMax (rangeFieldRules ! 3) = Some 1" "rf_field (rangeFieldRules ! 3) = ''conditions.epssMax''" "rf_structField (rangeFieldRules ! 3) = ''EPSSMax''"
  "rf_get (rangeFieldRules ! 4) c = to_float (cond_TrustScoreMin c)" "rf_style (rangeFieldRules ! 4) = StyleMin" "rf_signalMin (rangeFieldRules ! 4) = 0" "rf_signalMax (rangeFieldRules ! 4) = Some 100"
  "rf_boundMin (rangeFieldRules ! 4) = 0" "rf_boundMax (rangeFieldRules ! 4) = Some 100" "rf_field (rangeFieldRules ! 4) = ''conditions.trustScoreMin''" "rf_structField (rangeFieldRules ! 4) = ''TrustScoreMin''"
  "rf_get (rangeFieldRules ! 5) c = to_float (cond_TrustScoreMax c)" "rf_style (rangeFieldRules ! 5) = StyleMax" "rf_signalMin (rangeFieldRules ! 5) = 0" "rf_signalMax (rangeFieldRules ! 5) = Some 100"
  "rf_boundMin (rangeFieldRules ! 5) = 0" "rf_boundMax (rangeFieldRules ! 5) = Some 100" "rf_field (rangeFieldRules ! 5) = ''conditions.trustScoreMax''" "rf_structField (rangeFieldRules ! 5) = ''TrustScoreMax''"
  "rf_get (rangeFieldRules ! 6) c = to_float (cond_RequireSLSALevel c)" "rf_style (rangeFieldRules ! 6) = StyleMin" "rf_signalMin (rangeFieldRules ! 6) = 0" "rf_signalMax (rangeFieldRules ! 6) = Some 4"
  "rf_boundMin (rangeFieldRules ! 6) = 1" "rf_boundMax (rangeFieldRules ! 6) = Some 4" "rf_field (rangeFieldRules ! 6) = ''conditions.requireSlsaLevel''" "rf_structField (rangeFieldRules ! 6) = ''RequireSLSALevel''"
  "rf_get (rangeFieldRules ! 7) c = to_float (cond_PackageAge c)" "rf_style (rangeFieldRules ! 7) = StyleMax" "rf_signalMin (rangeFieldRules ! 7) = 0" "rf_signalMax (rangeFieldRules ! 7) = None"
  "rf_boundMin (rangeFieldRules ! 7) = 0" "rf_boundMax (rangeFieldRules ! 7) = None" "rf_field (rangeFieldRules ! 7) = ''conditions.packageAge''" "rf_structField (rangeFieldRules ! 7) = ''PackageAge''"
  "rf_get (rangeFieldRules ! 8) c = to_float (cond_CooldownDays c)" "rf_style (rangeFieldRules ! 8) = StyleMax" "rf_signalMin (rangeFieldRules ! 8) = 0" "rf_signalMax (rangeFieldRules ! 8) = None"
  "rf_boundMin (rangeFieldRules ! 8) = 0" "rf_boundMax (rangeFieldRules ! 8) = None" "rf_field (rangeFieldRules ! 8) = ''conditions.cooldownDays''" "rf_structField (rangeFieldRules ! 8) = ''CooldownDays''"
  by (simp_all only: rangeFieldRules_def nth_Cons_0 nth_Cons_numeral nth_Cons_Suc numeral_2_eq_2 One_nat_def rangeFieldRule.simps diff_Suc_1 pred_numeral_simps BitM.simps eval_nat_numeral)

lemma rule_forall:
  "(\<forall>r \<in> set rangeFieldRules. P r) \<longleftrightarrow>
     P (rangeFieldRules ! 0) \<and> P (rangeFieldRules ! Suc 0) \<and> P (rangeFieldRules ! 2) \<and> P (rangeFieldRules ! 3) \<and>
     P (rangeFieldRules ! 4) \<and> P (rangeFieldRules ! 5) \<and> P (rangeFieldRules ! 6) \<and> P (rangeFieldRules ! 7) \<and>
     P (rangeFieldRules ! 8)"
proof -
  have "length rangeFieldRules = 9" by (simp only: rangeFieldRules_def list.size)
  then have "set rangeFieldRules = (!) rangeFieldRules ` set [0..<9]" by (metis map_nth set_map)
  also have "[0..<9] = [0, Suc 0, 2, 3, 4, 5, 6, 7, 8]" by code_simp
  finally show ?thesis by simp
qed

definition never :: "rangeFieldRule \<Rightarrow> Conditions \<Rightarrow> bool" where
  "never r c \<longleftrightarrow> (\<exists>v. rf_get r c = Some v \<and> classifyValue r v = Some RangeEffectNeverFires)"

lemma never_rule:
  assumes "matchesConditions now x c" and "in_domain now x"
  shows "\<forall>r \<in> set rangeFieldRules. \<not> never r c"
proof -
  note m = thresholds_met[OF assms(1)] and d = assms(2)[unfolded in_domain_def]
  note defs = never_def classifyValue_def above_def reaches_def to_float_def at_least_def at_most_def young_enough_def
  show ?thesis unfolding rule_forall
  proof (intro conjI)
    show "\<not> never (rangeFieldRules ! 0) c" using m(1) d by (simp add: defs split: option.splits)
    show "\<not> never (rangeFieldRules ! Suc 0) c"
      "\<not> never (rangeFieldRules ! 2) c" "\<not> never (rangeFieldRules ! 3) c"
      using m(1-4) d by (auto simp: defs )
    show "\<not> never (rangeFieldRules ! 4) c"
      using m(6) d by (auto simp: defs  split: if_splits)
    show "\<not> never (rangeFieldRules ! 5) c"
      using m(7) d by (auto simp: defs  split: if_splits)
    show "\<not> never (rangeFieldRules ! 6) c"
      using m(5) d by (auto simp: defs  split: if_splits)
    have age: "\<not> never r c" if "rf_get r c = to_float age" "rf_style r = StyleMax" "rf_signalMin r = 0" "rf_signalMax r = None"
      "case t of None \<Rightarrow> True | Some t \<Rightarrow> t \<le> now" "\<And>n. age = Some n \<Longrightarrow> young_enough now t n" for r age t
    proof (cases age)
      case None
      with that(1) show ?thesis by (simp add: never_def to_float_def)
    next
      case (Some n)
      from that(6)[OF Some] obtain d where d: "t = Some d" "age_days now d \<le> n"
        by (cases t) (auto simp: young_enough_def)
      then have "0 \<le> n" using that(5) age_days_nonneg[of d now] by simp
      with Some that(1-4) show ?thesis by (simp add: never_def to_float_def classifyValue_def reaches_def)
    qed
    show "\<not> never (rangeFieldRules ! 7) c"
      by (rule age[of _ "cond_PackageAge c" "ctx_PackageReleaseDate x"]) (use m(8) d in simp_all)
    show "\<not> never (rangeFieldRules ! 8) c"
      by (rule age[of _ "cond_CooldownDays c" "ctx_VersionReleaseDate x"]) (use m(9) d in simp_all)
  qed
qed

lemma never_pair:
  assumes "matchesConditions now x (pol_Conditions p)"
  shows "pairFindings p = []"
proof -
  note m = thresholds_met[OF assms]
  have "pair_of p f (cond_CVSSMin (pol_Conditions p)) (cond_CVSSMax (pol_Conditions p)) lim = []"
    "pair_of p f (cond_EPSSMin (pol_Conditions p)) (cond_EPSSMax (pol_Conditions p)) lim = []" for f lim
    using m(1-4) by (auto simp: pair_of_def at_least_def at_most_def split: option.splits)
  moreover have "l \<le> h" if "cond_TrustScoreMin (pol_Conditions p) = Some l" "cond_TrustScoreMax (pol_Conditions p) = Some h" for l h
    using m(6)[OF that(1)] m(7)[OF that(2)] by auto
  ultimately show ?thesis by (auto simp: pairFindings_def Let_def not_less split: option.splits)
qed

section \<open>Dropping a threshold\<close>

text \<open>The conditions without one of the nine thresholds, by the name the audit gives it.\<close>

definition drop_threshold :: "string \<Rightarrow> Conditions \<Rightarrow> Conditions" where
  "drop_threshold f c =
     (if f = ''conditions.cvssMin'' then c\<lparr>cond_CVSSMin := None\<rparr>
      else if f = ''conditions.cvssMax'' then c\<lparr>cond_CVSSMax := None\<rparr>
      else if f = ''conditions.epssMin'' then c\<lparr>cond_EPSSMin := None\<rparr>
      else if f = ''conditions.epssMax'' then c\<lparr>cond_EPSSMax := None\<rparr>
      else if f = ''conditions.trustScoreMin'' then c\<lparr>cond_TrustScoreMin := None\<rparr>
      else if f = ''conditions.trustScoreMax'' then c\<lparr>cond_TrustScoreMax := None\<rparr>
      else if f = ''conditions.requireSlsaLevel'' then c\<lparr>cond_RequireSLSALevel := None\<rparr>
      else if f = ''conditions.packageAge'' then c\<lparr>cond_PackageAge := None\<rparr>
      else if f = ''conditions.cooldownDays'' then c\<lparr>cond_CooldownDays := None\<rparr> else c)"

text \<open>The package carries the signal the threshold is compared with: only the trust score may be absent.\<close>

definition carries :: "string \<Rightarrow> EvaluationContext \<Rightarrow> bool" where
  "carries f x \<longleftrightarrow> (f = ''conditions.trustScoreMin'' \<or> f = ''conditions.trustScoreMax'' \<longrightarrow> ctx_TrustScore x \<noteq> None)"

definition inert :: "rangeFieldRule \<Rightarrow> Conditions \<Rightarrow> bool" where
  "inert r c \<longleftrightarrow> (\<exists>v. rf_get r c = Some v \<and> classifyValue r v = Some RangeEffectMatchesEverything)"

definition droppable :: "int \<Rightarrow> EvaluationContext \<Rightarrow> Conditions \<Rightarrow> rangeFieldRule \<Rightarrow> bool" where
  "droppable now x c r \<longleftrightarrow>
     (inert r c \<longrightarrow> carries (rf_field r) x \<longrightarrow>
       matchesConditions now x (drop_threshold (rf_field r) c) = matchesConditions now x c)"

lemma match_update [simp]:
  "match_ecosystem x (c\<lparr>cond_CVSSMin := v\<rparr>) = match_ecosystem x c" "match_age now x (c\<lparr>cond_CVSSMin := v\<rparr>) = match_age now x c" "match_licence x (c\<lparr>cond_CVSSMin := v\<rparr>) = match_licence x c" "match_attestation x (c\<lparr>cond_CVSSMin := v\<rparr>) = match_attestation x c" "match_trust x (c\<lparr>cond_CVSSMin := v\<rparr>) = match_trust x c" "match_behaviour x (c\<lparr>cond_CVSSMin := v\<rparr>) = match_behaviour x c" "match_manifest x (c\<lparr>cond_CVSSMin := v\<rparr>) = match_manifest x c" "match_origin x (c\<lparr>cond_CVSSMin := v\<rparr>) = match_origin x c" "match_source_code x (c\<lparr>cond_CVSSMin := v\<rparr>) = match_source_code x c" "match_publisher x (c\<lparr>cond_CVSSMin := v\<rparr>) = match_publisher x c" "match_ai_artifact x (c\<lparr>cond_CVSSMin := v\<rparr>) = match_ai_artifact x c"
  "match_ecosystem x (c\<lparr>cond_CVSSMax := v\<rparr>) = match_ecosystem x c" "match_age now x (c\<lparr>cond_CVSSMax := v\<rparr>) = match_age now x c" "match_licence x (c\<lparr>cond_CVSSMax := v\<rparr>) = match_licence x c" "match_attestation x (c\<lparr>cond_CVSSMax := v\<rparr>) = match_attestation x c" "match_trust x (c\<lparr>cond_CVSSMax := v\<rparr>) = match_trust x c" "match_behaviour x (c\<lparr>cond_CVSSMax := v\<rparr>) = match_behaviour x c" "match_manifest x (c\<lparr>cond_CVSSMax := v\<rparr>) = match_manifest x c" "match_origin x (c\<lparr>cond_CVSSMax := v\<rparr>) = match_origin x c" "match_source_code x (c\<lparr>cond_CVSSMax := v\<rparr>) = match_source_code x c" "match_publisher x (c\<lparr>cond_CVSSMax := v\<rparr>) = match_publisher x c" "match_ai_artifact x (c\<lparr>cond_CVSSMax := v\<rparr>) = match_ai_artifact x c"
  "match_ecosystem x (c\<lparr>cond_EPSSMin := v\<rparr>) = match_ecosystem x c" "match_age now x (c\<lparr>cond_EPSSMin := v\<rparr>) = match_age now x c" "match_licence x (c\<lparr>cond_EPSSMin := v\<rparr>) = match_licence x c" "match_attestation x (c\<lparr>cond_EPSSMin := v\<rparr>) = match_attestation x c" "match_trust x (c\<lparr>cond_EPSSMin := v\<rparr>) = match_trust x c" "match_behaviour x (c\<lparr>cond_EPSSMin := v\<rparr>) = match_behaviour x c" "match_manifest x (c\<lparr>cond_EPSSMin := v\<rparr>) = match_manifest x c" "match_origin x (c\<lparr>cond_EPSSMin := v\<rparr>) = match_origin x c" "match_source_code x (c\<lparr>cond_EPSSMin := v\<rparr>) = match_source_code x c" "match_publisher x (c\<lparr>cond_EPSSMin := v\<rparr>) = match_publisher x c" "match_ai_artifact x (c\<lparr>cond_EPSSMin := v\<rparr>) = match_ai_artifact x c"
  "match_ecosystem x (c\<lparr>cond_EPSSMax := v\<rparr>) = match_ecosystem x c" "match_age now x (c\<lparr>cond_EPSSMax := v\<rparr>) = match_age now x c" "match_licence x (c\<lparr>cond_EPSSMax := v\<rparr>) = match_licence x c" "match_attestation x (c\<lparr>cond_EPSSMax := v\<rparr>) = match_attestation x c" "match_trust x (c\<lparr>cond_EPSSMax := v\<rparr>) = match_trust x c" "match_behaviour x (c\<lparr>cond_EPSSMax := v\<rparr>) = match_behaviour x c" "match_manifest x (c\<lparr>cond_EPSSMax := v\<rparr>) = match_manifest x c" "match_origin x (c\<lparr>cond_EPSSMax := v\<rparr>) = match_origin x c" "match_source_code x (c\<lparr>cond_EPSSMax := v\<rparr>) = match_source_code x c" "match_publisher x (c\<lparr>cond_EPSSMax := v\<rparr>) = match_publisher x c" "match_ai_artifact x (c\<lparr>cond_EPSSMax := v\<rparr>) = match_ai_artifact x c"
  "match_ecosystem x (c\<lparr>cond_TrustScoreMin := n\<rparr>) = match_ecosystem x c" "match_age now x (c\<lparr>cond_TrustScoreMin := n\<rparr>) = match_age now x c" "match_vulnerability x (c\<lparr>cond_TrustScoreMin := n\<rparr>) = match_vulnerability x c" "match_licence x (c\<lparr>cond_TrustScoreMin := n\<rparr>) = match_licence x c" "match_attestation x (c\<lparr>cond_TrustScoreMin := n\<rparr>) = match_attestation x c" "match_behaviour x (c\<lparr>cond_TrustScoreMin := n\<rparr>) = match_behaviour x c" "match_manifest x (c\<lparr>cond_TrustScoreMin := n\<rparr>) = match_manifest x c" "match_origin x (c\<lparr>cond_TrustScoreMin := n\<rparr>) = match_origin x c" "match_source_code x (c\<lparr>cond_TrustScoreMin := n\<rparr>) = match_source_code x c" "match_publisher x (c\<lparr>cond_TrustScoreMin := n\<rparr>) = match_publisher x c" "match_ai_artifact x (c\<lparr>cond_TrustScoreMin := n\<rparr>) = match_ai_artifact x c"
  "match_ecosystem x (c\<lparr>cond_TrustScoreMax := n\<rparr>) = match_ecosystem x c" "match_age now x (c\<lparr>cond_TrustScoreMax := n\<rparr>) = match_age now x c" "match_vulnerability x (c\<lparr>cond_TrustScoreMax := n\<rparr>) = match_vulnerability x c" "match_licence x (c\<lparr>cond_TrustScoreMax := n\<rparr>) = match_licence x c" "match_attestation x (c\<lparr>cond_TrustScoreMax := n\<rparr>) = match_attestation x c" "match_behaviour x (c\<lparr>cond_TrustScoreMax := n\<rparr>) = match_behaviour x c" "match_manifest x (c\<lparr>cond_TrustScoreMax := n\<rparr>) = match_manifest x c" "match_origin x (c\<lparr>cond_TrustScoreMax := n\<rparr>) = match_origin x c" "match_source_code x (c\<lparr>cond_TrustScoreMax := n\<rparr>) = match_source_code x c" "match_publisher x (c\<lparr>cond_TrustScoreMax := n\<rparr>) = match_publisher x c" "match_ai_artifact x (c\<lparr>cond_TrustScoreMax := n\<rparr>) = match_ai_artifact x c"
  "match_ecosystem x (c\<lparr>cond_RequireSLSALevel := n\<rparr>) = match_ecosystem x c" "match_age now x (c\<lparr>cond_RequireSLSALevel := n\<rparr>) = match_age now x c" "match_vulnerability x (c\<lparr>cond_RequireSLSALevel := n\<rparr>) = match_vulnerability x c" "match_licence x (c\<lparr>cond_RequireSLSALevel := n\<rparr>) = match_licence x c" "match_trust x (c\<lparr>cond_RequireSLSALevel := n\<rparr>) = match_trust x c" "match_behaviour x (c\<lparr>cond_RequireSLSALevel := n\<rparr>) = match_behaviour x c" "match_manifest x (c\<lparr>cond_RequireSLSALevel := n\<rparr>) = match_manifest x c" "match_origin x (c\<lparr>cond_RequireSLSALevel := n\<rparr>) = match_origin x c" "match_source_code x (c\<lparr>cond_RequireSLSALevel := n\<rparr>) = match_source_code x c" "match_publisher x (c\<lparr>cond_RequireSLSALevel := n\<rparr>) = match_publisher x c" "match_ai_artifact x (c\<lparr>cond_RequireSLSALevel := n\<rparr>) = match_ai_artifact x c"
  by (simp_all add: match_defs velocity_threshold_def)

lemma inert_rule:
  assumes "in_domain now x"
  shows "\<forall>r \<in> set rangeFieldRules. droppable now x c r"
proof -
  note d = assms[unfolded in_domain_def]
  note defs = droppable_def inert_def drop_threshold_def carries_def classifyValue_def above_def reaches_def to_float_def
  have d1: "inert (rangeFieldRules ! 0) c \<Longrightarrow> at_least (cond_CVSSMin c) (ctx_CVSSScore x)"
    "inert (rangeFieldRules ! Suc 0) c \<Longrightarrow> at_most (cond_CVSSMax c) (ctx_CVSSScore x)"
    "inert (rangeFieldRules ! 2) c \<Longrightarrow> at_least (cond_EPSSMin c) (ctx_EPSSScore x)"
    "inert (rangeFieldRules ! 3) c \<Longrightarrow> at_most (cond_EPSSMax c) (ctx_EPSSScore x)"
    using d by (auto simp: inert_def classifyValue_def above_def reaches_def split: if_splits)
  have d2: "inert (rangeFieldRules ! 6) c \<Longrightarrow> at_least (cond_RequireSLSALevel c) (ctx_SLSALevel x)"
    using d by (auto simp: inert_def classifyValue_def above_def reaches_def to_float_def split: if_splits)
  have d3: "\<lbrakk>inert (rangeFieldRules ! 4) c; ctx_TrustScore x = Some t; cond_TrustScoreMin c = Some n\<rbrakk> \<Longrightarrow> n \<le> t"
    "\<lbrakk>inert (rangeFieldRules ! 5) c; ctx_TrustScore x = Some t; cond_TrustScoreMax c = Some n\<rbrakk> \<Longrightarrow> t \<le> n" for t n
    using d by (auto simp: inert_def classifyValue_def above_def reaches_def to_float_def split: if_splits)
  note at = droppable_def carries_def drop_threshold_def matchesConditions_def
  show ?thesis unfolding rule_forall
  proof (intro conjI)
    show "droppable now x c (rangeFieldRules ! 0)" using d1(1) by (simp add: at match_vulnerability_def)
    show "droppable now x c (rangeFieldRules ! Suc 0)" using d1(2) by (simp add: at match_vulnerability_def)
    show "droppable now x c (rangeFieldRules ! 2)" using d1(3) by (simp add: at match_vulnerability_def)
    show "droppable now x c (rangeFieldRules ! 3)" using d1(4) by (simp add: at match_vulnerability_def)
    show "droppable now x c (rangeFieldRules ! 4)" using d3(1) by (auto simp: at match_trust_def)
    show "droppable now x c (rangeFieldRules ! 5)" using d3(2) by (auto simp: at match_trust_def)
    show "droppable now x c (rangeFieldRules ! 6)" using d2 by (simp add: at match_attestation_def)
    show "droppable now x c (rangeFieldRules ! 7)" by (simp add: defs split: if_splits)
    show "droppable now x c (rangeFieldRules ! 8)" by (simp add: defs split: if_splits)
  qed
qed

section \<open>The findings of the audit\<close>

lemma rule_candidate_cases:
  assumes "k \<in> set (rule_candidate org p r)"
  shows "\<exists>v. rf_get r (pol_Conditions p) = Some v \<and> classifyValue r v = Some (raf_Effect (cand_finding k)) \<and>
           raf_Field (cand_finding k) = rf_field r"
  using assms
  by (cases "rf_get r (pol_Conditions p)"; cases "classifyValue r (the (rf_get r (pol_Conditions p)))")
    (auto simp: rule_candidate_def boundsOf_def)

lemma pair_effect: "f \<in> set (pairFindings p) \<Longrightarrow> raf_Effect f = RangeEffectNeverFires"
  by (auto simp: pairFindings_def pair_of_def pair_finding_def Let_def split: option.splits if_splits)

lemma finding_cases:
  assumes "f \<in> set (auditOnePolicy org p)"
  obtains (rule) r v where "r \<in> set rangeFieldRules" "rf_get r (pol_Conditions p) = Some v"
      "classifyValue r v = Some (raf_Effect f)" "raf_Field f = rf_field r"
  | (pair) "pairFindings p \<noteq> []" "raf_Effect f = RangeEffectNeverFires"
proof -
  from assms obtain k where k: "k \<in> set (candidates org p)"
    and f: "raf_Effect f = raf_Effect (cand_finding k)" "raf_Field f = raf_Field (cand_finding k)"
    by (auto simp: auditOnePolicy_def Let_def)
  from k consider r where "r \<in> set rangeFieldRules" "k \<in> set (rule_candidate org p r)"
    | g where "g \<in> set (pairFindings p)" "cand_finding k = g"
    by (auto simp: candidates_def)
  then show thesis
  proof cases
    case 1
    with rule_candidate_cases[OF 1(2)] f that(1) show ?thesis by auto
  next
    case 2
    with f pair_effect[of g p] have "pairFindings p \<noteq> []" "raf_Effect f = RangeEffectNeverFires" by auto
    then show ?thesis by (rule that(2))
  qed
qed

lemma classify_effect:
  "classifyValue r v = Some e \<Longrightarrow> e = RangeEffectNeverFires \<or> e = RangeEffectMatchesEverything"
  by (auto simp: classifyValue_def split: rangeStyle.splits if_splits)

lemma audit_finding_meaning:
  assumes "f \<in> set (auditOnePolicy org p)" and "in_domain now x"
  shows "(raf_Effect f = RangeEffectNeverFires \<and> \<not> matchesConditions now x (pol_Conditions p)) \<or>
     (raf_Effect f = RangeEffectMatchesEverything \<and>
      (carries (raf_Field f) x \<longrightarrow>
        matchesConditions now x (drop_threshold (raf_Field f) (pol_Conditions p)) =
        matchesConditions now x (pol_Conditions p)))"
  using assms(1)
proof (cases rule: finding_cases)
  case (rule r v)
  from classify_effect[OF rule(3)] show ?thesis
  proof
    assume e: "raf_Effect f = RangeEffectNeverFires"
    with rule have "never r (pol_Conditions p)" by (auto simp: never_def)
    with never_rule[OF _ assms(2), of "pol_Conditions p"] rule(1) e show ?thesis by blast
  next
    assume e: "raf_Effect f = RangeEffectMatchesEverything"
    with rule have "inert r (pol_Conditions p)" by (auto simp: inert_def)
    with inert_rule[OF assms(2), of "pol_Conditions p"] rule(1,4) e show ?thesis by (auto simp: droppable_def)
  qed
next
  case pair
  with never_pair[of now x p] show ?thesis by auto
qed

text \<open>A candidate that is not only a ceiling becomes a finding.\<close>

lemma candidate_finding:
  assumes "k \<in> set (candidates org p)" and "\<not> cand_ceilingOnly k"
  obtains f where "f \<in> set (auditOnePolicy org p)" "raf_Effect f = raf_Effect (cand_finding k)"
    "raf_Field f = raf_Field (cand_finding k)" "raf_Severity f = raf_Severity (cand_finding k)"
proof
  let ?f = "(cand_finding k)\<lparr>raf_Consequence := rangeConsequence p (cand_rule k) (cand_finding k)
      (narrowsBeyond p (rf_structField (cand_rule k)) (inert_fields (candidates org p))) (cand_pairViolation k)\<rparr>"
  show "?f \<in> set (auditOnePolicy org p)" unfolding auditOnePolicy_def Let_def set_map set_filter using assms by blast
qed simp_all

definition with_conditions :: "Policy \<Rightarrow> Conditions \<Rightarrow> Policy" where
  "with_conditions p c = p\<lparr>pol_Conditions := c\<rparr>"

text \<open>
  C19: The audit of stored thresholds is right about the evaluator. For a package whose signals are in their
  domain (scores within their scales, release dates not in the future), a policy other than an exception with a
  finding never_fires does not match, and one with a finding matches_everything matches exactly when the policy
  without that threshold does, provided the package carries the signal.
\<close>
theorem range_audit_sound:
  assumes "f \<in> set (auditOnePolicy org p)" and "in_domain now x" and "pol_Kind p \<noteq> KindException"
  shows "if raf_Effect f = RangeEffectNeverFires then \<not> matchesPolicy sv now x p
         else carries (raf_Field f) x \<longrightarrow>
           (matchesPolicy sv now x (with_conditions p (drop_threshold (raf_Field f) (pol_Conditions p))) =
            matchesPolicy sv now x p)"
  using audit_finding_meaning[OF assms(1,2)] assms(3)
  by (auto simp: matchesPolicy_def with_conditions_def)

lemma in_domain_demo: "in_domain 0 demo_context"
  by (simp add: in_domain_def demo_context_def zero_context_def)

lemma unreachable_minimum:
  obtains f where "f \<in> set (auditOnePolicy org (with_cvss (Some 11) None))" "raf_Effect f = RangeEffectNeverFires"
proof -
  let ?p = "with_cvss (Some 11) None"
  have c: "cond_CVSSMin (pol_Conditions ?p) = Some 11" by (simp add: with_cvss_def)
  have r: "rangeFieldRules ! 0 \<in> set rangeFieldRules" by (simp add: rangeFieldRules_def)
  from c obtain k where k: "k \<in> set (rule_candidate org ?p (rangeFieldRules ! 0))"
      "raf_Effect (cand_finding k) = RangeEffectNeverFires" "\<not> cand_ceilingOnly k"
    by (auto simp: rule_candidate_def boundsOf_def classifyValue_def above_def)
  have "k \<in> set (candidates org ?p)" unfolding candidates_def set_append set_concat set_map using k(1) r by blast
  from candidate_finding[OF this k(3)] k(2) that show thesis by metis
qed

theorem range_audit_sound_witness:
  "\<not> matchesPolicy (ev_semver quiet) 0 demo_context (with_cvss (Some 11) None)"
proof (rule unreachable_minimum)
  fix f assume f: "f \<in> set (auditOnePolicy ''org'' (with_cvss (Some 11) None))" "raf_Effect f = RangeEffectNeverFires"
  have "pol_Kind (with_cvss (Some 11) None) \<noteq> KindException"
    by (simp add: with_cvss_def KindException_def KindEnforcement_def)
  from range_audit_sound[OF f(1) in_domain_demo this, of "ev_semver quiet"] f(2) show ?thesis by simp
qed

section \<open>Nothing the store rejects goes unreported\<close>

definition reported :: "string \<Rightarrow> Policy \<Rightarrow> string set" where
  "reported org p =
     raf_Field ` set (filter (\<lambda>f. raf_Severity f = RangeAuditSeverityError) (auditOnePolicy org p))"

lemma reported_candidate:
  assumes "k \<in> set (candidates org p)" and "raf_Severity (cand_finding k) = RangeAuditSeverityError" and "\<not> cand_ceilingOnly k"
  shows "raf_Field (cand_finding k) \<in> reported org p"
proof -
  from candidate_finding[OF assms(1,3)] assms(2) obtain f where
    "f \<in> set (auditOnePolicy org p)" "raf_Field f = raf_Field (cand_finding k)" "raf_Severity f = RangeAuditSeverityError"
    by auto
  then show ?thesis unfolding reported_def by (intro image_eqI[where x = f]) simp_all
qed

lemma severities_distinct [simp]: "RangeAuditSeverityWarning \<noteq> RangeAuditSeverityError" "RangeAuditSeverityError \<noteq> RangeAuditSeverityWarning"
  by (simp_all add: RangeAuditSeverityWarning_def RangeAuditSeverityError_def)

definition covers :: "string \<Rightarrow> Policy \<Rightarrow> rangeFieldRule \<Rightarrow> bool" where
  "covers org p r \<longleftrightarrow>
     (\<forall>v. rf_get r (pol_Conditions p) = Some v \<longrightarrow> classifyValue r v \<noteq> None \<longrightarrow> severityFor r v = RangeAuditSeverityError \<longrightarrow>
        rf_field r \<in> reported org p)"

lemma every_rule_covers: "\<forall>r \<in> set rangeFieldRules. covers org p r"
proof
  fix r assume r: "r \<in> set rangeFieldRules"
  show "covers org p r" unfolding covers_def
  proof (intro allI impI)
    fix v assume v: "rf_get r (pol_Conditions p) = Some v" "classifyValue r v \<noteq> None" "severityFor r v = RangeAuditSeverityError"
    then obtain k where k: "k \<in> set (rule_candidate org p r)" "raf_Severity (cand_finding k) = RangeAuditSeverityError"
      "\<not> cand_ceilingOnly k" "raf_Field (cand_finding k) = rf_field r"
      by (auto simp: rule_candidate_def boundsOf_def)
    with r reported_candidate[of k org p] show "rf_field r \<in> reported org p" by (auto simp: candidates_def)
  qed
qed

lemma pair_reported: "raf_Field ` set (pairFindings p) \<subseteq> reported org p"
proof
  fix a assume "a \<in> raf_Field ` set (pairFindings p)"
  then obtain f where f: "f \<in> set (pairFindings p)" "a = raf_Field f" by auto
  let ?k = "\<lparr>cand_finding = f, cand_rule = ruleFor (raf_Field f), cand_ceilingOnly = False, cand_pairViolation = True\<rparr>"
  have "?k \<in> set (candidates org p)" using f(1) by (auto simp: candidates_def)
  moreover have "raf_Severity f = RangeAuditSeverityError"
    using f(1) by (auto simp: pairFindings_def pair_of_def pair_finding_def Let_def split: option.splits if_splits)
  ultimately show "a \<in> reported org p" using reported_candidate[of ?k org p] f(2) by simp
qed

definition legal :: "rangeFieldRule \<Rightarrow> Conditions \<Rightarrow> bool" where
  "legal r c \<longleftrightarrow> (\<forall>v. rf_get r c = Some v \<longrightarrow> classifyValue r v = None \<longrightarrow> severityFor r v = RangeAuditSeverityWarning)"

text \<open>A value outside the bounds the store enforces is one the audit classifies.\<close>

lemma every_rule_legal: "\<forall>r \<in> set rangeFieldRules. legal r c"
  unfolding rule_forall
  by (intro conjI) (auto simp: legal_def classifyValue_def severityFor_def above_def reaches_def to_float_def split: if_splits)

definition checked :: "string \<Rightarrow> Policy \<Rightarrow> rangeFieldRule \<Rightarrow> bool" where
  "checked org p r \<longleftrightarrow>
     range_Field ` set (check_range (rf_field r) (rf_get r (pol_Conditions p)) (rf_boundMin r) (rf_boundMax r)) \<subseteq> reported org p"

lemma every_rule_checked: "\<forall>r \<in> set rangeFieldRules. checked org p r"
proof
  fix r assume r: "r \<in> set rangeFieldRules"
  show "checked org p r"
  proof (cases "rf_get r (pol_Conditions p)")
    case None
    then show ?thesis by (simp add: checked_def check_range_def)
  next
    case (Some v)
    have bad: "severityFor r v = RangeAuditSeverityError" if "v < rf_boundMin r \<or> (case rf_boundMax r of None \<Rightarrow> False | Some h \<Rightarrow> h < v)"
      using that by (simp add: severityFor_def above_def split: option.splits)
    with Some r every_rule_covers[of org p] every_rule_legal[of "pol_Conditions p"] show ?thesis
      by (auto simp: checked_def check_range_def covers_def legal_def violation_def)
  qed
qed

lemma check_pair_reported:
  assumes "range_Field ` set (check_range fmin lo 0 (Some limit)) \<subseteq> S" and "range_Field ` set (check_range fmax hi 0 (Some limit)) \<subseteq> S"
    and "\<And>l h. \<lbrakk>lo = Some l; hi = Some h; inBound lo 0 limit; inBound hi 0 limit; h < l\<rbrakk> \<Longrightarrow> fmin \<in> S"
  shows "range_Field ` set (check_pair fmin fmax lo hi limit) \<subseteq> S"
  using assms
  by (auto simp: check_pair_def check_range_def violation_def inBound_def not_less split: option.splits if_splits list.splits)

lemma field_checked:
  "range_Field ` set (check_range ''conditions.cvssMin'' (cond_CVSSMin (pol_Conditions p)) 0 (Some 10)) \<subseteq> reported org p"
  "range_Field ` set (check_range ''conditions.cvssMax'' (cond_CVSSMax (pol_Conditions p)) 0 (Some 10)) \<subseteq> reported org p"
  "range_Field ` set (check_range ''conditions.epssMin'' (cond_EPSSMin (pol_Conditions p)) 0 (Some 1)) \<subseteq> reported org p"
  "range_Field ` set (check_range ''conditions.epssMax'' (cond_EPSSMax (pol_Conditions p)) 0 (Some 1)) \<subseteq> reported org p"
  "range_Field ` set (check_range ''conditions.trustScoreMin'' (to_float (cond_TrustScoreMin (pol_Conditions p))) 0 (Some 100)) \<subseteq> reported org p"
  "range_Field ` set (check_range ''conditions.trustScoreMax'' (to_float (cond_TrustScoreMax (pol_Conditions p))) 0 (Some 100)) \<subseteq> reported org p"
  "range_Field ` set (check_range ''conditions.requireSlsaLevel'' (to_float (cond_RequireSLSALevel (pol_Conditions p))) 1 (Some 4)) \<subseteq> reported org p"
  "range_Field ` set (check_range ''conditions.packageAge'' (to_float (cond_PackageAge (pol_Conditions p))) 0 None) \<subseteq> reported org p"
  "range_Field ` set (check_range ''conditions.cooldownDays'' (to_float (cond_CooldownDays (pol_Conditions p))) 0 None) \<subseteq> reported org p"
  using every_rule_checked[of org p, unfolded rule_forall checked_def rule_facts] by - (elim conjE, assumption)+

lemma pair_of_reported:
  assumes "set (pair_of p fmin lo hi limit) \<subseteq> set (pairFindings p)"
    and "lo = Some l" "hi = Some h" "inBound lo 0 limit" "inBound hi 0 limit" "h < l"
  shows "fmin \<in> reported org p"
  using pair_reported[of p org] assms by (auto simp: pair_of_def pair_finding_def Let_def)

lemma trust_pair_reported:
  assumes "to_float (cond_TrustScoreMin (pol_Conditions p)) = Some l" "to_float (cond_TrustScoreMax (pol_Conditions p)) = Some h"
    "inBound (to_float (cond_TrustScoreMin (pol_Conditions p))) 0 100" "inBound (to_float (cond_TrustScoreMax (pol_Conditions p))) 0 100"
    "h < l"
  shows "''conditions.trustScoreMin'' \<in> reported org p"
proof -
  from assms(1,2) obtain m n where mn: "cond_TrustScoreMin (pol_Conditions p) = Some m" "l = rnd (of_int m)"
      "cond_TrustScoreMax (pol_Conditions p) = Some n" "h = rnd (of_int n)"
    by (auto simp: to_float_def)
  have "n < m"
  proof (rule ccontr)
    assume "\<not> n < m"
    then have "rnd (of_int m) \<le> rnd (of_int n)" by (intro rnd_mono) simp
    with assms(5) mn show False by simp
  qed
  with assms(3,4) mn have "pair_finding p ''conditions.trustScoreMin'' l h \<in> set (pairFindings p)"
    by (simp add: pairFindings_def Let_def to_float_def)
  then have "raf_Field (pair_finding p ''conditions.trustScoreMin'' l h) \<in> reported org p" using pair_reported[of p org] by blast
  then show ?thesis by (simp add: pair_finding_def Let_def)
qed

text \<open>
  C20: Every field for which the store would reject the conditions of a policy (a number outside its bounds, or a minimum
  above its maximum) is the field of an error of the audit: the audit misses no violation of a stored policy.
\<close>
theorem violations_are_audited:
  "range_Field ` set (conditionRangeViolations (pol_Conditions p)) \<subseteq>
   raf_Field ` set (filter (\<lambda>f. raf_Severity f = RangeAuditSeverityError) (auditOnePolicy org p))"
proof -
  let ?c = "pol_Conditions p"
  have "set (pair_of p ''conditions.cvssMin'' (cond_CVSSMin ?c) (cond_CVSSMax ?c) 10) \<subseteq> set (pairFindings p)"
    "set (pair_of p ''conditions.epssMin'' (cond_EPSSMin ?c) (cond_EPSSMax ?c) 1) \<subseteq> set (pairFindings p)"
    by (auto simp: pairFindings_def Let_def)
  note pairs = this[THEN pair_of_reported]
  have "range_Field ` set (check_pair ''conditions.cvssMin'' ''conditions.cvssMax'' (cond_CVSSMin ?c) (cond_CVSSMax ?c) 10) \<subseteq> reported org p"
    by (intro check_pair_reported field_checked pairs(1))
  moreover have "range_Field ` set (check_pair ''conditions.epssMin'' ''conditions.epssMax'' (cond_EPSSMin ?c) (cond_EPSSMax ?c) 1) \<subseteq> reported org p"
    by (intro check_pair_reported field_checked pairs(2))
  moreover have "range_Field ` set (check_pair ''conditions.trustScoreMin'' ''conditions.trustScoreMax''
      (to_float (cond_TrustScoreMin ?c)) (to_float (cond_TrustScoreMax ?c)) 100) \<subseteq> reported org p"
    by (intro check_pair_reported field_checked trust_pair_reported)
  ultimately show ?thesis
    using field_checked(7-9)[of p org]
    unfolding conditionRangeViolations_def set_append image_Un reported_def by (intro Un_least)
qed

end
