(* ===== verification/PolicyInput.thy ===== *)
theory PolicyInput
  imports PolicyEvaluator
begin

text \<open>
  The document a rule sees: policy/input.go. \<open>ContextToInput\<close> projects a request onto the canonical input, and
  \<open>document\<close> is its JSON object under the tags of the struct, a member with a zero value left out. The
  order of the members is that of the struct; a string is taken to be valid UTF-8.
\<close>

section \<open>Surfaces\<close>

type_synonym SurfaceTag = string

definition SurfacePR :: SurfaceTag where "SurfacePR = ''pr''"
definition SurfaceProxy :: SurfaceTag where "SurfaceProxy = ''proxy''"
definition SurfacePublish :: SurfaceTag where "SurfacePublish = ''publish''"
definition SurfacePromote :: SurfaceTag where "SurfacePromote = ''promote''"
definition SurfaceDeploy :: SurfaceTag where "SurfaceDeploy = ''deploy''"
definition SurfaceRuntime :: SurfaceTag where "SurfaceRuntime = ''runtime''"

definition AllSurfaces :: "SurfaceTag list" where
  "AllSurfaces = [SurfacePR, SurfaceProxy, SurfacePublish, SurfacePromote, SurfaceDeploy, SurfaceRuntime]"

section \<open>The input\<close>

record Input =
  in_Surface :: SurfaceTag
  in_Repository :: string
  in_RepositoryFormat :: string
  in_PackageName :: string
  in_PackageVersion :: string
  in_ClientID :: string
  in_ClientGroups :: "string list"
  in_RequestingIP :: string
  in_RequestingCountry :: string
  in_IsInternal :: bool
  in_PackageReleaseDate :: string
  in_LicenseSPDX :: string
  in_LicenseTags :: "string list"
  in_IsVulnerable :: bool
  in_CVSSScore :: rat
  in_EPSSScore :: rat
  in_CVEs :: "string list"
  in_InKEV :: bool
  in_HasProvenance :: bool
  in_ProvenanceStatus :: string
  in_IsSuspectedTyposquat :: bool
  in_IsKnownMalicious :: bool
  in_TrustScore :: "int option"
  in_PublisherChanged :: bool
  in_SignalsUnavailable :: bool
  in_SLSALevel :: int
  in_AttestationBuilderID :: string
  in_AttestationIssuer :: string
  in_AttestationSourceRepo :: string
  in_AttestationTransparencyLog :: string
  in_AttestationCacheStale :: bool
  in_HasInstallScript :: bool
  in_InstallScriptFetchesRemote :: bool
  in_ImportTimeExecution :: bool
  in_MaliciousIOC :: bool
  in_BuildRsExecutes :: bool
  in_VersionAnomaly :: bool
  in_VersionAnomalyFlags :: "string list"
  in_HasHiddenUnicode :: bool
  in_HiddenUnicodeKinds :: "string list"
  in_PublishVelocity24h :: int
  in_DeprecatedByMaintainer :: bool
  in_ShrinkwrapPresent :: bool
  in_ManifestConfusion :: bool
  in_GitDependency :: bool
  in_HTTPTarballDependency :: bool
  in_WildcardDependencyRange :: bool
  in_BadDependencySemver :: bool
  in_NonRegistrySource :: bool
  in_NonRegistrySourceUnpinned :: bool
  in_NonRegistryOrigin :: string
  in_UsesEval :: bool
  in_NetworkAccess :: bool
  in_ShellAccess :: bool
  in_FilesystemAccess :: bool
  in_EnvVarAccess :: bool
  in_NativeBinaryPresent :: bool
  in_HighEntropyStrings :: bool
  in_URLStrings :: bool
  in_MinifiedCode :: bool
  in_TrivialPackage :: bool
  in_TooManyFiles :: bool
  in_NonExistentAuthor :: bool
  in_FirstTimeCollaborator :: "bool option"
  in_SuspiciousRepoStars :: bool
  in_MaintainerAccountAgeDays :: int
  in_ArtifactSubtype :: string
  in_DangerousPickle :: bool
  in_UnsafeSerializationFormat :: bool
  in_ModelCardInjection :: bool
  in_AgentToolDangerousCapability :: bool
  in_MCPServerDeclared :: bool
  in_PromptTemplateInjection :: bool
  in_ChecksumUnavailable :: bool

text \<open>\<open>t.UTC().Format(time.RFC3339)\<close>.\<close>

definition Format_RFC3339 :: "int \<Rightarrow> string" where
  "Format_RFC3339 t =
     (let s = (t div 1000000000) mod 86400 in
      Format_date t @ ''T'' @ zero_pad 2 (itoa (s div 3600)) @ '':'' @ zero_pad 2 (itoa (s div 60 mod 60)) @ '':'' @
      zero_pad 2 (itoa (s mod 60)) @ ''Z'')"

definition release_date :: "int option \<Rightarrow> string" where
  "release_date d = (case d of None \<Rightarrow> [] | Some t \<Rightarrow> if t = zero_time then [] else Format_RFC3339 t)"

definition ContextToInput :: "SurfaceTag \<Rightarrow> EvaluationContext \<Rightarrow> Input" where
  "ContextToInput surface x =
    \<lparr>in_Surface = surface,
     in_Repository = ctx_Repository x,
     in_RepositoryFormat = ToLower (ctx_RepositoryFormat x),
     in_PackageName = ctx_PackageName x,
     in_PackageVersion = ctx_PackageVersion x,
     in_ClientID = ctx_ClientID x,
     in_ClientGroups = ctx_ClientGroups x,
     in_RequestingIP = ctx_RequestingIP x,
     in_RequestingCountry = ctx_RequestingCountry x,
     in_IsInternal = ctx_IsInternalPackage x,
     in_PackageReleaseDate = release_date (ctx_PackageReleaseDate x),
     in_LicenseSPDX = ctx_LicenseSPDX x,
     in_LicenseTags = ctx_LicenseTags x,
     in_IsVulnerable = ctx_IsVulnerable x,
     in_CVSSScore = ctx_CVSSScore x,
     in_EPSSScore = ctx_EPSSScore x,
     in_CVEs = ctx_CVEs x,
     in_InKEV = ctx_InKEV x,
     in_HasProvenance = ctx_HasProvenance x,
     in_ProvenanceStatus = ctx_ProvenanceStatus x,
     in_IsSuspectedTyposquat = ctx_IsSuspectedTyposquat x,
     in_IsKnownMalicious = ctx_IsKnownMalicious x,
     in_TrustScore = ctx_TrustScore x,
     in_PublisherChanged = ctx_PublisherChanged x,
     in_SignalsUnavailable = ctx_SignalsUnavailable x,
     in_SLSALevel = ctx_SLSALevel x,
     in_AttestationBuilderID = ctx_AttestationBuilderID x,
     in_AttestationIssuer = ctx_AttestationIssuer x,
     in_AttestationSourceRepo = ctx_AttestationSourceRepo x,
     in_AttestationTransparencyLog = ctx_AttestationTransparencyLog x,
     in_AttestationCacheStale = ctx_AttestationCacheStale x,
     in_HasInstallScript = ctx_HasInstallScript x,
     in_InstallScriptFetchesRemote = ctx_InstallScriptFetchesRemote x,
     in_ImportTimeExecution = ctx_ImportTimeExecution x,
     in_MaliciousIOC = ctx_MaliciousIOC x,
     in_BuildRsExecutes = ctx_BuildRsExecutes x,
     in_VersionAnomaly = ctx_VersionAnomaly x,
     in_VersionAnomalyFlags = ctx_VersionAnomalyFlags x,
     in_HasHiddenUnicode = ctx_HasHiddenUnicode x,
     in_HiddenUnicodeKinds = ctx_HiddenUnicodeKinds x,
     in_PublishVelocity24h = ctx_PublishVelocity24h x,
     in_DeprecatedByMaintainer = ctx_DeprecatedByMaintainer x,
     in_ShrinkwrapPresent = ctx_ShrinkwrapPresent x,
     in_ManifestConfusion = ctx_ManifestConfusion x,
     in_GitDependency = ctx_GitDependency x,
     in_HTTPTarballDependency = ctx_HTTPTarballDependency x,
     in_WildcardDependencyRange = ctx_WildcardDependencyRange x,
     in_BadDependencySemver = ctx_BadDependencySemver x,
     in_NonRegistrySource = ctx_NonRegistrySource x,
     in_NonRegistrySourceUnpinned = ctx_NonRegistrySourceUnpinned x,
     in_NonRegistryOrigin = ctx_NonRegistryOrigin x,
     in_UsesEval = ctx_UsesEval x,
     in_NetworkAccess = ctx_NetworkAccess x,
     in_ShellAccess = ctx_ShellAccess x,
     in_FilesystemAccess = ctx_FilesystemAccess x,
     in_EnvVarAccess = ctx_EnvVarAccess x,
     in_NativeBinaryPresent = ctx_NativeBinaryPresent x,
     in_HighEntropyStrings = ctx_HighEntropyStrings x,
     in_URLStrings = ctx_URLStrings x,
     in_MinifiedCode = ctx_MinifiedCode x,
     in_TrivialPackage = ctx_TrivialPackage x,
     in_TooManyFiles = ctx_TooManyFiles x,
     in_NonExistentAuthor = ctx_NonExistentAuthor x,
     in_FirstTimeCollaborator = ctx_FirstTimeCollaborator x,
     in_SuspiciousRepoStars = ctx_SuspiciousRepoStars x,
     in_MaintainerAccountAgeDays = ctx_MaintainerAccountAgeDays x,
     in_ArtifactSubtype = ctx_ArtifactSubtype x,
     in_DangerousPickle = ctx_DangerousPickle x,
     in_UnsafeSerializationFormat = ctx_UnsafeSerializationFormat x,
     in_ModelCardInjection = ctx_ModelCardInjection x,
     in_AgentToolDangerousCapability = ctx_AgentToolDangerousCapability x,
     in_MCPServerDeclared = ctx_MCPServerDeclared x,
     in_PromptTemplateInjection = ctx_PromptTemplateInjection x,
     in_ChecksumUnavailable = ctx_ChecksumUnavailable x\<rparr>"

section \<open>The document\<close>

datatype json = JStr string | JNum rat | JBool bool | JArr "string list"

text \<open>A field with \<open>omitempty\<close>: \<open>None\<close> when its member is left out.\<close>

definition of_string :: "string \<Rightarrow> json option" where
  "of_string s = (if s = [] then None else Some (JStr s))"

definition of_strings :: "string list \<Rightarrow> json option" where
  "of_strings xs = (if xs = [] then None else Some (JArr xs))"

definition of_bool :: "bool \<Rightarrow> json option" where
  "of_bool b = (if b then Some (JBool True) else None)"

definition of_float :: "rat \<Rightarrow> json option" where
  "of_float q = (if q = 0 then None else Some (JNum q))"

definition of_int64 :: "int \<Rightarrow> json option" where
  "of_int64 n = (if n = 0 then None else Some (JNum (of_int n)))"

definition of_int_ptr :: "int option \<Rightarrow> json option" where
  "of_int_ptr n = map_option (\<lambda>z. JNum (of_int z)) n"

definition of_bool_ptr :: "bool option \<Rightarrow> json option" where
  "of_bool_ptr b = map_option JBool b"

text \<open>The tags of the struct.\<close>

definition fields :: "Input \<Rightarrow> (string \<times> json option) list" where
  "fields i = [
       (''surface'', Some (JStr (in_Surface i))),
       (''repository'', of_string (in_Repository i)),
       (''ecosystem'', of_string (in_RepositoryFormat i)),
       (''package'', of_string (in_PackageName i)),
       (''version'', of_string (in_PackageVersion i)),
       (''clientId'', of_string (in_ClientID i)),
       (''clientGroups'', of_strings (in_ClientGroups i)),
       (''requestingIp'', of_string (in_RequestingIP i)),
       (''requestingCountry'', of_string (in_RequestingCountry i)),
       (''isInternal'', of_bool (in_IsInternal i)),
       (''releaseDate'', of_string (in_PackageReleaseDate i)),
       (''licenseSpdx'', of_string (in_LicenseSPDX i)),
       (''licenseTags'', of_strings (in_LicenseTags i)),
       (''isVulnerable'', of_bool (in_IsVulnerable i)),
       (''cvss'', of_float (in_CVSSScore i)),
       (''epss'', of_float (in_EPSSScore i)),
       (''cves'', of_strings (in_CVEs i)),
       (''inKEV'', of_bool (in_InKEV i)),
       (''hasProvenance'', of_bool (in_HasProvenance i)),
       (''provenanceStatus'', of_string (in_ProvenanceStatus i)),
       (''isSuspectedTyposquat'', of_bool (in_IsSuspectedTyposquat i)),
       (''isKnownMalicious'', of_bool (in_IsKnownMalicious i)),
       (''trustScore'', of_int_ptr (in_TrustScore i)),
       (''publisherChanged'', of_bool (in_PublisherChanged i)),
       (''signalsUnavailable'', of_bool (in_SignalsUnavailable i)),
       (''slsaLevel'', of_int64 (in_SLSALevel i)),
       (''attestationBuilderId'', of_string (in_AttestationBuilderID i)),
       (''attestationIssuer'', of_string (in_AttestationIssuer i)),
       (''attestationSourceRepo'', of_string (in_AttestationSourceRepo i)),
       (''attestationTransparencyLog'', of_string (in_AttestationTransparencyLog i)),
       (''attestationCacheStale'', of_bool (in_AttestationCacheStale i)),
       (''hasInstallScript'', of_bool (in_HasInstallScript i)),
       (''installScriptFetchesRemote'', of_bool (in_InstallScriptFetchesRemote i)),
       (''importTimeExecution'', of_bool (in_ImportTimeExecution i)),
       (''maliciousIOC'', of_bool (in_MaliciousIOC i)),
       (''buildRsExecutes'', of_bool (in_BuildRsExecutes i)),
       (''versionAnomaly'', of_bool (in_VersionAnomaly i)),
       (''versionAnomalyFlags'', of_strings (in_VersionAnomalyFlags i)),
       (''hasHiddenUnicode'', of_bool (in_HasHiddenUnicode i)),
       (''hiddenUnicodeKinds'', of_strings (in_HiddenUnicodeKinds i)),
       (''publishVelocity24h'', of_int64 (in_PublishVelocity24h i)),
       (''deprecatedByMaintainer'', of_bool (in_DeprecatedByMaintainer i)),
       (''shrinkwrapPresent'', of_bool (in_ShrinkwrapPresent i)),
       (''manifestConfusion'', of_bool (in_ManifestConfusion i)),
       (''gitDependency'', of_bool (in_GitDependency i)),
       (''httpTarballDependency'', of_bool (in_HTTPTarballDependency i)),
       (''wildcardDependencyRange'', of_bool (in_WildcardDependencyRange i)),
       (''badDependencySemver'', of_bool (in_BadDependencySemver i)),
       (''nonRegistrySource'', of_bool (in_NonRegistrySource i)),
       (''nonRegistrySourceUnpinned'', of_bool (in_NonRegistrySourceUnpinned i)),
       (''nonRegistryOrigin'', of_string (in_NonRegistryOrigin i)),
       (''usesEval'', of_bool (in_UsesEval i)),
       (''networkAccess'', of_bool (in_NetworkAccess i)),
       (''shellAccess'', of_bool (in_ShellAccess i)),
       (''filesystemAccess'', of_bool (in_FilesystemAccess i)),
       (''envVarAccess'', of_bool (in_EnvVarAccess i)),
       (''nativeBinaryPresent'', of_bool (in_NativeBinaryPresent i)),
       (''highEntropyStrings'', of_bool (in_HighEntropyStrings i)),
       (''urlStrings'', of_bool (in_URLStrings i)),
       (''minifiedCode'', of_bool (in_MinifiedCode i)),
       (''trivialPackage'', of_bool (in_TrivialPackage i)),
       (''tooManyFiles'', of_bool (in_TooManyFiles i)),
       (''nonExistentAuthor'', of_bool (in_NonExistentAuthor i)),
       (''firstTimeCollaborator'', of_bool_ptr (in_FirstTimeCollaborator i)),
       (''suspiciousRepoStars'', of_bool (in_SuspiciousRepoStars i)),
       (''maintainerAccountAgeDays'', of_int64 (in_MaintainerAccountAgeDays i)),
       (''artifactSubtype'', of_string (in_ArtifactSubtype i)),
       (''dangerousPickle'', of_bool (in_DangerousPickle i)),
       (''unsafeSerializationFormat'', of_bool (in_UnsafeSerializationFormat i)),
       (''modelCardInjection'', of_bool (in_ModelCardInjection i)),
       (''agentToolDangerousCapability'', of_bool (in_AgentToolDangerousCapability i)),
       (''mcpServerDeclared'', of_bool (in_MCPServerDeclared i)),
       (''promptTemplateInjection'', of_bool (in_PromptTemplateInjection i)),
       (''checksumUnavailable'', of_bool (in_ChecksumUnavailable i))]"

definition document :: "Input \<Rightarrow> (string \<times> json) list" where
  "document i = List.map_filter (\<lambda>(k, v). map_option (Pair k) v) (fields i)"

section \<open>Reading a document\<close>

text \<open>
  \<open>json.Unmarshal\<close> into an \<open>Input\<close> of zero values, for a document whose members have the types of the fields; a
  member is looked up by its exact name.
\<close>

definition to_string :: "json option \<Rightarrow> string" where
  "to_string v = (case v of Some (JStr s) \<Rightarrow> s | _ \<Rightarrow> [])"

definition to_strings :: "json option \<Rightarrow> string list" where
  "to_strings v = (case v of Some (JArr xs) \<Rightarrow> xs | _ \<Rightarrow> [])"

definition to_bool :: "json option \<Rightarrow> bool" where
  "to_bool v = (case v of Some (JBool b) \<Rightarrow> b | _ \<Rightarrow> False)"

definition to_rat :: "json option \<Rightarrow> rat" where
  "to_rat v = (case v of Some (JNum q) \<Rightarrow> q | _ \<Rightarrow> 0)"

definition to_int :: "json option \<Rightarrow> int" where
  "to_int v = (case v of Some (JNum q) \<Rightarrow> \<lfloor>q\<rfloor> | _ \<Rightarrow> 0)"

definition to_int_ptr :: "json option \<Rightarrow> int option" where
  "to_int_ptr v = (case v of Some (JNum q) \<Rightarrow> Some \<lfloor>q\<rfloor> | _ \<Rightarrow> None)"

definition to_bool_ptr :: "json option \<Rightarrow> bool option" where
  "to_bool_ptr v = (case v of Some (JBool b) \<Rightarrow> Some b | _ \<Rightarrow> None)"

definition undocument :: "(string \<rightharpoonup> json) \<Rightarrow> Input" where
  "undocument m =
    \<lparr>in_Surface = to_string (m ''surface''),
     in_Repository = to_string (m ''repository''),
     in_RepositoryFormat = to_string (m ''ecosystem''),
     in_PackageName = to_string (m ''package''),
     in_PackageVersion = to_string (m ''version''),
     in_ClientID = to_string (m ''clientId''),
     in_ClientGroups = to_strings (m ''clientGroups''),
     in_RequestingIP = to_string (m ''requestingIp''),
     in_RequestingCountry = to_string (m ''requestingCountry''),
     in_IsInternal = to_bool (m ''isInternal''),
     in_PackageReleaseDate = to_string (m ''releaseDate''),
     in_LicenseSPDX = to_string (m ''licenseSpdx''),
     in_LicenseTags = to_strings (m ''licenseTags''),
     in_IsVulnerable = to_bool (m ''isVulnerable''),
     in_CVSSScore = to_rat (m ''cvss''),
     in_EPSSScore = to_rat (m ''epss''),
     in_CVEs = to_strings (m ''cves''),
     in_InKEV = to_bool (m ''inKEV''),
     in_HasProvenance = to_bool (m ''hasProvenance''),
     in_ProvenanceStatus = to_string (m ''provenanceStatus''),
     in_IsSuspectedTyposquat = to_bool (m ''isSuspectedTyposquat''),
     in_IsKnownMalicious = to_bool (m ''isKnownMalicious''),
     in_TrustScore = to_int_ptr (m ''trustScore''),
     in_PublisherChanged = to_bool (m ''publisherChanged''),
     in_SignalsUnavailable = to_bool (m ''signalsUnavailable''),
     in_SLSALevel = to_int (m ''slsaLevel''),
     in_AttestationBuilderID = to_string (m ''attestationBuilderId''),
     in_AttestationIssuer = to_string (m ''attestationIssuer''),
     in_AttestationSourceRepo = to_string (m ''attestationSourceRepo''),
     in_AttestationTransparencyLog = to_string (m ''attestationTransparencyLog''),
     in_AttestationCacheStale = to_bool (m ''attestationCacheStale''),
     in_HasInstallScript = to_bool (m ''hasInstallScript''),
     in_InstallScriptFetchesRemote = to_bool (m ''installScriptFetchesRemote''),
     in_ImportTimeExecution = to_bool (m ''importTimeExecution''),
     in_MaliciousIOC = to_bool (m ''maliciousIOC''),
     in_BuildRsExecutes = to_bool (m ''buildRsExecutes''),
     in_VersionAnomaly = to_bool (m ''versionAnomaly''),
     in_VersionAnomalyFlags = to_strings (m ''versionAnomalyFlags''),
     in_HasHiddenUnicode = to_bool (m ''hasHiddenUnicode''),
     in_HiddenUnicodeKinds = to_strings (m ''hiddenUnicodeKinds''),
     in_PublishVelocity24h = to_int (m ''publishVelocity24h''),
     in_DeprecatedByMaintainer = to_bool (m ''deprecatedByMaintainer''),
     in_ShrinkwrapPresent = to_bool (m ''shrinkwrapPresent''),
     in_ManifestConfusion = to_bool (m ''manifestConfusion''),
     in_GitDependency = to_bool (m ''gitDependency''),
     in_HTTPTarballDependency = to_bool (m ''httpTarballDependency''),
     in_WildcardDependencyRange = to_bool (m ''wildcardDependencyRange''),
     in_BadDependencySemver = to_bool (m ''badDependencySemver''),
     in_NonRegistrySource = to_bool (m ''nonRegistrySource''),
     in_NonRegistrySourceUnpinned = to_bool (m ''nonRegistrySourceUnpinned''),
     in_NonRegistryOrigin = to_string (m ''nonRegistryOrigin''),
     in_UsesEval = to_bool (m ''usesEval''),
     in_NetworkAccess = to_bool (m ''networkAccess''),
     in_ShellAccess = to_bool (m ''shellAccess''),
     in_FilesystemAccess = to_bool (m ''filesystemAccess''),
     in_EnvVarAccess = to_bool (m ''envVarAccess''),
     in_NativeBinaryPresent = to_bool (m ''nativeBinaryPresent''),
     in_HighEntropyStrings = to_bool (m ''highEntropyStrings''),
     in_URLStrings = to_bool (m ''urlStrings''),
     in_MinifiedCode = to_bool (m ''minifiedCode''),
     in_TrivialPackage = to_bool (m ''trivialPackage''),
     in_TooManyFiles = to_bool (m ''tooManyFiles''),
     in_NonExistentAuthor = to_bool (m ''nonExistentAuthor''),
     in_FirstTimeCollaborator = to_bool_ptr (m ''firstTimeCollaborator''),
     in_SuspiciousRepoStars = to_bool (m ''suspiciousRepoStars''),
     in_MaintainerAccountAgeDays = to_int (m ''maintainerAccountAgeDays''),
     in_ArtifactSubtype = to_string (m ''artifactSubtype''),
     in_DangerousPickle = to_bool (m ''dangerousPickle''),
     in_UnsafeSerializationFormat = to_bool (m ''unsafeSerializationFormat''),
     in_ModelCardInjection = to_bool (m ''modelCardInjection''),
     in_AgentToolDangerousCapability = to_bool (m ''agentToolDangerousCapability''),
     in_MCPServerDeclared = to_bool (m ''mcpServerDeclared''),
     in_PromptTemplateInjection = to_bool (m ''promptTemplateInjection''),
     in_ChecksumUnavailable = to_bool (m ''checksumUnavailable'')\<rparr>"

section \<open>Nothing is lost\<close>

lemmas member_defs = of_string_def of_strings_def of_bool_def of_float_def of_int64_def of_int_ptr_def of_bool_ptr_def
lemmas read_defs = to_string_def to_strings_def to_bool_def to_rat_def to_int_def to_int_ptr_def to_bool_ptr_def

lemma map_of_members:
  "distinct (map fst ms) \<Longrightarrow> list_all (\<lambda>(k, v). map_of (List.map_filter (\<lambda>(k, v). map_option (Pair k) v) ms) k = v) ms"
proof (induction ms)
  case (Cons m ms)
  obtain k v where m: "m = (k, v)" by (cases m)
  have keys: "fst ` set (List.map_filter (\<lambda>(k, v). map_option (Pair k) v) ms) \<subseteq> fst ` set ms"
    by (force simp: map_filter_def)
  with Cons.prems m have "map_of (List.map_filter (\<lambda>(k, v). map_option (Pair k) v) ms) k = None"
    by (auto simp: map_of_eq_None_iff)
  moreover have "list_all (\<lambda>(k', v). k' \<noteq> k) ms" using Cons.prems m by (force simp: list_all_iff)
  ultimately show ?case using Cons m
    by (cases v) (auto simp: map_filter_simps list_all_iff)
qed (simp add: map_filter_def)

lemma fields_distinct: "distinct (map fst (fields i))"
  by (simp add: fields_def)

lemma read_member [simp]:
  "to_string (of_string s) = s" "to_strings (of_strings xs) = xs" "to_bool (of_bool b) = b" "to_rat (of_float q) = q"
  "to_int (of_int64 n) = n" "to_int_ptr (of_int_ptr m) = m" "to_bool_ptr (of_bool_ptr v) = v"
  "to_string (Some (JStr s)) = s"
  by (simp_all add: member_defs read_defs split: option.splits)

text \<open>Reading a document back gives the input.\<close>
lemma document_roundtrip: "undocument (map_of (document i)) = i"
proof -
  let ?M = "map_of (document i)"
  have "list_all (\<lambda>(k, v). ?M k = v) (fields i)"
    using map_of_members[OF fields_distinct[of i]] by (simp only: document_def)
  note lookups = this[unfolded fields_def list.pred_inject prod.case]
  show ?thesis unfolding undocument_def by (simp only: lookups read_member) (cases i, simp)
qed

text \<open>What the document carries of a request: the context without the facts that it leaves out or shows as a text.\<close>

definition carried :: "EvaluationContext \<Rightarrow> EvaluationContext" where
  "carried x =
     x\<lparr>ctx_OrgID := [], ctx_VersionReleaseDate := None, ctx_KEVUnavailable := False,
       ctx_RepositoryFormat := ToLower (ctx_RepositoryFormat x), ctx_PackageReleaseDate := None\<rparr>"

lemma document_injective: "map_of (document i) = map_of (document j) \<longleftrightarrow> i = j"
  using document_roundtrip by metis

lemma input_carried:
  "ContextToInput surface x = ContextToInput surface' y \<longleftrightarrow>
     surface = surface' \<and> release_date (ctx_PackageReleaseDate x) = release_date (ctx_PackageReleaseDate y) \<and>
     carried x = carried y"
  by (cases x; cases y; rule iffI) (simp_all add: ContextToInput_def carried_def)


end
