(* ===== verification/PolicyDsl.thy ===== *)
theory PolicyDsl
  imports PolicyInput "HOL-Library.Product_Lexorder"
begin

text \<open>
  The engine for an organisation's own rules: policy/dsl/engine.go. What a Rego query yields is an argument (OPA is
  a library): its results, an error or a panic. The model has the discovery of the bundle in the file system,
  the projection of results to violations, and the merge of their actions.
\<close>

section \<open>Actions\<close>

type_synonym Action = string

definition ActionAllow :: Action where "ActionAllow = ''allow''"
definition ActionMonitor :: Action where "ActionMonitor = ''monitor''"
definition ActionQuarantine :: Action where "ActionQuarantine = ''quarantine''"
definition ActionBlock :: Action where "ActionBlock = ''block''"
definition ActionNotifyOwner :: Action where "ActionNotifyOwner = ''notify_owner''"

lemmas action_defs = ActionAllow_def ActionMonitor_def ActionQuarantine_def ActionBlock_def ActionNotifyOwner_def

definition strictness :: "Action \<Rightarrow> nat" where
  "strictness a =
     (if a = ActionBlock then 4 else if a = ActionQuarantine then 3 else if a = ActionMonitor then 2
      else if a = ActionAllow then 1 else if a = ActionNotifyOwner then 1 else 0)"

definition Stricter :: "Action \<Rightarrow> Action \<Rightarrow> Action" where
  "Stricter a b = (if strictness a < strictness b then b else a)"

section \<open>Violations\<close>

record Violation =
  v_RuleID :: string
  v_Action :: Action
  v_Message :: string
  v_ExceptionEligible :: bool
  v_OwnerTeam :: string
  v_OwnerHandle :: string
  v_OwnerContactURL :: string

record Decision =
  dec_Action :: Action
  dec_Violations :: "Violation list"

text \<open>A value of a Rego result, after its conversion to Go: a set is an array.\<close>

datatype rego_value =
  RNull | RBool bool | RNumber rat | RString string | RArray "rego_value list" | RObject "(string \<times> rego_value) list"

definition string_member :: "(string \<rightharpoonup> rego_value) \<Rightarrow> string \<Rightarrow> string option" where
  "string_member m k = (case m k of Some (RString s) \<Rightarrow> Some s | _ \<Rightarrow> None)"

definition bool_member :: "(string \<rightharpoonup> rego_value) \<Rightarrow> string \<Rightarrow> bool option" where
  "bool_member m k = (case m k of Some (RBool b) \<Rightarrow> Some b | _ \<Rightarrow> None)"

definition violationFromMap :: "(string \<rightharpoonup> rego_value) \<Rightarrow> Violation option" where
  "violationFromMap m =
     (let action = (case string_member m ''action'' of Some a \<Rightarrow> ToLower (TrimSpace a) | None \<Rightarrow> ActionBlock);
          v = \<lparr>v_RuleID =
                (case string_member m ''rule_id'' of
                   Some i \<Rightarrow> i
                 | None \<Rightarrow> (case string_member m ''ruleId'' of Some i \<Rightarrow> i | None \<Rightarrow> [])),
               v_Action = action,
               v_Message = (case string_member m ''message'' of Some s \<Rightarrow> s | None \<Rightarrow> []),
               v_ExceptionEligible =
                (case bool_member m ''exception_eligible'' of
                   Some b \<Rightarrow> b
                 | None \<Rightarrow> (case bool_member m ''exceptionEligible'' of Some b \<Rightarrow> b | None \<Rightarrow> False)),
               v_OwnerTeam = [], v_OwnerHandle = [], v_OwnerContactURL = []\<rparr>
      in if action = [] then None else Some v)"

fun collectViolations :: "rego_value \<Rightarrow> Decision \<Rightarrow> Decision" where
  "collectViolations (RObject ms) out =
     (case violationFromMap (map_of ms) of
        None \<Rightarrow> out
      | Some v \<Rightarrow>
          out\<lparr>dec_Violations := dec_Violations out @ [v], dec_Action := Stricter (dec_Action out) (v_Action v)\<rparr>)"
| "collectViolations (RArray vs) out = fold collectViolations vs out"
| "collectViolations _ out = out"

text \<open>A result set: for each result the values of its expressions.\<close>

type_synonym ResultSet = "rego_value list list"

definition reduce :: "ResultSet \<Rightarrow> Decision" where
  "reduce rs =
     (let out = fold (fold collectViolations) rs \<lparr>dec_Action = ActionAllow, dec_Violations = []\<rparr>
      in out\<lparr>dec_Violations := sort_key (\<lambda>v. (v_RuleID v, v_Message v)) (dec_Violations out)\<rparr>)"

section \<open>The engine\<close>

datatype eval_outcome = Evaluated ResultSet | EvalError string | EvalPanic string

record Skip =
  skip_Path :: string
  skip_Reason :: string

record dsl_Engine =
  eng_prepared :: "Input \<Rightarrow> eval_outcome"
  eng_digest :: string
  eng_modules :: "string list"
  eng_skipped :: "Skip list"

definition Skipped :: "dsl_Engine option \<Rightarrow> Skip list" where
  "Skipped e = (case e of None \<Rightarrow> [] | Some d \<Rightarrow> eng_skipped d)"

definition Empty :: "dsl_Engine option \<Rightarrow> bool" where
  "Empty e = (case e of None \<Rightarrow> True | Some d \<Rightarrow> eng_modules d = [])"

definition Modules :: "dsl_Engine option \<Rightarrow> string list" where
  "Modules e = (case e of None \<Rightarrow> [] | Some d \<Rightarrow> eng_modules d)"

definition Digest :: "dsl_Engine option \<Rightarrow> string" where
  "Digest e = (case e of None \<Rightarrow> [] | Some d \<Rightarrow> eng_digest d)"

text \<open>What \<open>Decide\<close> yields: a decision, an error it returns, or the panic of a rule.\<close>

datatype decide_outcome = Decided Decision | DecideError string | DecidePanic string

definition dsl_Decide :: "dsl_Engine \<Rightarrow> Input \<Rightarrow> decide_outcome" where
  "dsl_Decide e input =
     (if Empty (Some e) then Decided \<lparr>dec_Action = ActionAllow, dec_Violations = []\<rparr>
      else
        (case eng_prepared e input of
           EvalPanic msg \<Rightarrow> DecidePanic msg
         | EvalError err \<Rightarrow> DecideError (''eval rego: '' @ err)
         | Evaluated rs \<Rightarrow> Decided (reduce rs)))"

section \<open>Discovery\<close>

text \<open>
  The file system: a file, a directory with its entries in lexical order, a directory that cannot be read, and a
  symbolic link with what it resolves to (\<open>None\<close>: nothing). \<open>os.Stat\<close> follows links, \<open>filepath.WalkDir\<close>
  does not, neither at its root nor below. Source paths are clean, in the sense of \<open>filepath.Clean\<close>.
\<close>

datatype node = File | Dir "(string \<times> node) list" | Unreadable string | Link "node option"

fun Stat :: "node \<Rightarrow> node option" where
  "Stat (Link None) = None"
| "Stat (Link (Some n)) = Stat n"
| "Stat n = Some n"

definition Join :: "string \<Rightarrow> string \<Rightarrow> string" where
  "Join dir name = (if dir = ''.'' then name else if HasSuffix dir ''/'' then dir @ name else dir @ ''/'' @ name)"

definition is_rego :: "string \<Rightarrow> bool" where
  "is_rego path \<longleftrightarrow> HasSuffix path ''.rego''"

text \<open>The files and the skips that the callback of the walk adds, in order.\<close>

fun walk :: "string \<Rightarrow> node \<Rightarrow> string list \<times> Skip list" where
  "walk path (Dir es) =
     (concat (map (\<lambda>(name, n). fst (walk (Join path name) n)) es),
      concat (map (\<lambda>(name, n). snd (walk (Join path name) n)) es))"
| "walk path (Unreadable reason) = ([], [\<lparr>skip_Path = path, skip_Reason = reason\<rparr>])"
| "walk path n = (if is_rego path then [path] else [], [])"

text \<open>One source: a path and what is there (\<open>Inr None\<close>: nothing, \<open>Inl\<close>: an error other than that).\<close>

definition discover_source :: "string \<Rightarrow> (string + node option) \<Rightarrow> string + (string list \<times> Skip list)" where
  "discover_source src at_path =
     (case at_path of
        Inl err \<Rightarrow> Inl err
      | Inr found \<Rightarrow>
          (case Option.bind found Stat of
             None \<Rightarrow> Inr ([], [\<lparr>skip_Path = src, skip_Reason = ''does not exist''\<rparr>])
           | Some File \<Rightarrow> Inr (if is_rego src then [src] else [], [])
           | Some _ \<Rightarrow> Inr (walk src (the found))))"

fun discover_all :: "(string \<Rightarrow> string + node option) \<Rightarrow> string list \<Rightarrow> string list \<Rightarrow> Skip list \<Rightarrow> string + (string list \<times> Skip list)" where
  "discover_all fs [] out skips = Inr (out, skips)"
| "discover_all fs (src # srcs) out skips =
     (case discover_source src (fs src) of
        Inl err \<Rightarrow> Inl err
      | Inr (o', s') \<Rightarrow> discover_all fs srcs (out @ o') (skips @ s'))"

definition discover :: "(string \<Rightarrow> string + node option) \<Rightarrow> string list \<Rightarrow> string + (string list \<times> Skip list)" where
  "discover fs sources =
     (case discover_all fs sources [] [] of
        Inl err \<Rightarrow> Inl err
      | Inr (out, skips) \<Rightarrow> Inr (remdups_adj (sort out), skips))"

section \<open>Construction\<close>

record Options =
  opt_Sources :: "string list"
  opt_Modules :: "(string, string) gomap"
  opt_Query :: string

definition DefaultQuery :: string where "DefaultQuery = ''data.chainsaw.policy.decision''"

text \<open>
  The text that is hashed: for each file its path and its bytes, or the error of reading it, and for each module
  compiled in its name and its body.
\<close>

definition digest_file :: "(string \<Rightarrow> string + string) \<Rightarrow> string \<Rightarrow> string" where
  "digest_file read p =
     p @ [CHR 0x00] @ (case read p of Inl err \<Rightarrow> ''err:'' @ err | Inr body \<Rightarrow> body @ [CHR 0x01])"

definition sourceDigest :: "(string \<Rightarrow> string) \<Rightarrow> (string \<Rightarrow> string + string) \<Rightarrow> string list \<Rightarrow> string" where
  "sourceDigest sha read paths = sha (concat (map (digest_file read) paths))"

definition bundleDigest ::
  "(string \<Rightarrow> string) \<Rightarrow> (string \<Rightarrow> string + string) \<Rightarrow> string list \<Rightarrow> (string, string) gomap \<Rightarrow> string list \<Rightarrow> string" where
  "bundleDigest sha read paths modules names =
     (if modules = [] then sourceDigest sha read paths
      else sha (concat (map (digest_file read) paths) @
                concat (map (\<lambda>n. n @ [CHR 0x00] @ get_or (map_of modules) n [] @ [CHR 0x01]) names)))"

fun read_all :: "(string \<Rightarrow> string + string) \<Rightarrow> string list \<Rightarrow> string + (string \<times> string) list" where
  "read_all read [] = Inr []"
| "read_all read (f # fs) =
     (case read f of
        Inl err \<Rightarrow> Inl (''read rego module '' @ f @ '': '' @ err)
      | Inr src \<Rightarrow> (case read_all read fs of Inl err \<Rightarrow> Inl err | Inr ms \<Rightarrow> Inr ((f, src) # ms)))"

text \<open>\<open>compile\<close> is Rego's preparation of a query over named modules; \<open>sha\<close> the hexadecimal SHA-256.\<close>

definition dsl_New ::
  "(string \<Rightarrow> (string \<times> string) list \<Rightarrow> string + (Input \<Rightarrow> eval_outcome)) \<Rightarrow> (string \<Rightarrow> string) \<Rightarrow> (string \<Rightarrow> string + node option) \<Rightarrow>
   (string \<Rightarrow> string + string) \<Rightarrow> Options \<Rightarrow> string + dsl_Engine" where
  "dsl_New compile sha fs read opts =
     (case discover fs (opt_Sources opts) of
        Inl err \<Rightarrow> Inl err
      | Inr (files, skips) \<Rightarrow>
          if files = [] \<and> opt_Modules opts = [] then
            Inr \<lparr>eng_prepared = (\<lambda>_. Evaluated []), eng_digest = [], eng_modules = [], eng_skipped = skips\<rparr>
          else
            (case read_all read files of
               Inl err \<Rightarrow> Inl err
             | Inr sources \<Rightarrow>
                 let inline = sort (map fst (opt_Modules opts));
                     query = (if opt_Query opts = [] then DefaultQuery else opt_Query opts)
                 in
                   (case compile query (sources @ map (\<lambda>n. (n, get_or (map_of (opt_Modules opts)) n [])) inline) of
                      Inl err \<Rightarrow> Inl (''compile rego bundle: '' @ err)
                    | Inr prepared \<Rightarrow>
                        Inr \<lparr>eng_prepared = prepared, eng_digest = bundleDigest sha read files (opt_Modules opts) inline,
                             eng_modules = files @ inline, eng_skipped = skips\<rparr>)))"

definition Load ::
  "(string \<Rightarrow> (string \<times> string) list \<Rightarrow> string + (Input \<Rightarrow> eval_outcome)) \<Rightarrow> (string \<Rightarrow> string) \<Rightarrow> (string \<Rightarrow> string + node option) \<Rightarrow>
   (string \<Rightarrow> string + string) \<Rightarrow> string list \<Rightarrow> string + dsl_Engine" where
  "Load compile sha fs read sources =
     dsl_New compile sha fs read \<lparr>opt_Sources = sources, opt_Modules = [], opt_Query = []\<rparr>"

end
