(* ===== verification/PolicyEngine.thy ===== *)
theory PolicyEngine
  imports PolicyDsl PolicyCache
begin

text \<open>
  The facade in front of the two engines, policyengine/engine.go: \<open>Decide\<close> merges the verdict of the native
  evaluator with that of the organisation's own rules and adds the owner to notify.
\<close>

record EngineDecision =
  ed_Action :: Action
  ed_Surface :: SurfaceTag
  ed_Violations :: "Violation list"
  ed_MatchedNative :: Mode
  ed_NativePolicyID :: string
  ed_BundleDigest :: string

text \<open>
  An engine: the native evaluator with its store (none: only rules are wired), the age of exceptions, the rules,
  and the resolver of owners, from organisation, repository and package to team, handle and contact address.
\<close>

type_synonym OwnerResolver = "string \<Rightarrow> string \<Rightarrow> string \<Rightarrow> (string \<times> string \<times> string) option"

record ('v, 'c) Engine =
  pe_native :: "(('v, 'c) Evaluator \<times> (string + Policy list) option) option"
  pe_exceptionAgeDays :: int
  pe_dsl :: "dsl_Engine option"
  pe_ownerResolver :: "OwnerResolver option"

definition SetDSL :: "dsl_Engine option \<Rightarrow> ('v, 'c) Engine \<Rightarrow> ('v, 'c) Engine" where
  "SetDSL d e = e\<lparr>pe_dsl := d\<rparr>"

definition SetOwnerResolver :: "OwnerResolver option \<Rightarrow> ('v, 'c) Engine \<Rightarrow> ('v, 'c) Engine" where
  "SetOwnerResolver r e = e\<lparr>pe_ownerResolver := r\<rparr>"

definition New ::
  "(('v, 'c) Evaluator \<times> (string + Policy list) option) option \<Rightarrow> int \<Rightarrow> dsl_Engine option \<Rightarrow> ('v, 'c) Engine" where
  "New native ageDays d = \<lparr>pe_native = native, pe_exceptionAgeDays = ageDays, pe_dsl = d, pe_ownerResolver = None\<rparr>"

definition nativeToAction :: "Mode \<Rightarrow> Action" where
  "nativeToAction m =
     (if m = ModeBlock then ActionBlock else if m = ModeQuarantine then ActionQuarantine
      else if m = ModeMonitor then ActionMonitor else ActionAllow)"

text \<open>A panic becomes an error; the captured stack is left out of its text.\<close>

definition safeDecide :: "dsl_Engine \<Rightarrow> Input \<Rightarrow> string + Decision" where
  "safeDecide d input =
     (case dsl_Decide d input of
        Decided dec \<Rightarrow> Inr dec
      | DecideError err \<Rightarrow> Inl err
      | DecidePanic msg \<Rightarrow> Inl (''dsl decide panicked: '' @ msg))"

definition allow_decision :: "SurfaceTag \<Rightarrow> EngineDecision" where
  "allow_decision surface =
     \<lparr>ed_Action = ActionAllow, ed_Surface = surface, ed_Violations = [], ed_MatchedNative = ModeAllow,
      ed_NativePolicyID = [], ed_BundleDigest = []\<rparr>"

text \<open>The native leg, given what the evaluator answered.\<close>

definition merge_native :: "EvaluationResult \<Rightarrow> EngineDecision \<Rightarrow> EngineDecision" where
  "merge_native r out =
     (let out = out\<lparr>ed_MatchedNative := res_Action r\<rparr> in
      case res_MatchedPolicy r of
        None \<Rightarrow> out
      | Some p \<Rightarrow>
          let a = nativeToAction (res_Action r);
              out = out\<lparr>ed_NativePolicyID := pol_ID p, ed_Action := Stricter (ed_Action out) a\<rparr>
          in
            if a = ActionAllow then out
            else out\<lparr>ed_Violations := ed_Violations out @
                  [\<lparr>v_RuleID = ''native:'' @ pol_ID p, v_Action = a, v_Message = res_Reason r, v_ExceptionEligible = False,
                    v_OwnerTeam = [], v_OwnerHandle = [], v_OwnerContactURL = []\<rparr>]\<rparr>)"

text \<open>The leg of the rules: an error fails open.\<close>

definition merge_rules :: "dsl_Engine option \<Rightarrow> Input \<Rightarrow> EngineDecision \<Rightarrow> EngineDecision" where
  "merge_rules rules input out =
     (if Empty rules then out
      else
        (case rules of
           None \<Rightarrow> out
         | Some d \<Rightarrow>
             let out =
                  (case safeDecide d input of
                     Inl err \<Rightarrow> out
                   | Inr dec \<Rightarrow>
                       out\<lparr>ed_Action := Stricter (ed_Action out) (dec_Action dec),
                           ed_Violations := ed_Violations out @ dec_Violations dec\<rparr>)
             in out\<lparr>ed_BundleDigest := Digest (Some d)\<rparr>))"

definition backfill :: "string \<times> string \<times> string \<Rightarrow> Violation \<Rightarrow> Violation" where
  "backfill owner v =
     (case owner of (team, handle, url) \<Rightarrow>
        if v_Action v \<noteq> ActionNotifyOwner then v
        else v\<lparr>v_OwnerTeam := (if v_OwnerTeam v = [] then team else v_OwnerTeam v),
               v_OwnerHandle := (if v_OwnerHandle v = [] then handle else v_OwnerHandle v),
               v_OwnerContactURL := (if v_OwnerContactURL v = [] then url else v_OwnerContactURL v)\<rparr>)"

definition emitOwnerRouting :: "OwnerResolver option \<Rightarrow> EvaluationContext \<Rightarrow> EngineDecision \<Rightarrow> EngineDecision" where
  "emitOwnerRouting resolver x out =
     (case resolver of
        None \<Rightarrow> out
      | Some resolve \<Rightarrow>
          let enforcement = ed_Action out = ActionBlock \<or> ed_Action out = ActionQuarantine \<or> ed_Action out = ActionMonitor;
              hasNotifyOwner = list_ex (\<lambda>v. v_Action v = ActionNotifyOwner) (ed_Violations out)
          in
            if \<not> enforcement \<and> \<not> hasNotifyOwner then out
            else
              (case resolve (ctx_OrgID x) (ctx_Repository x) (ctx_PackageName x) of
                 None \<Rightarrow> out
               | Some (team, handle, url) \<Rightarrow>
                   let filled = map (backfill (team, handle, url)) (ed_Violations out) in
                   out\<lparr>ed_Violations :=
                     (if enforcement \<and> \<not> hasNotifyOwner then
                        filled @ [\<lparr>v_RuleID = ''ownership:auto'', v_Action = ActionNotifyOwner,
                                   v_Message = ''violation routed to owning team'', v_ExceptionEligible = False,
                                   v_OwnerTeam = team, v_OwnerHandle = handle, v_OwnerContactURL = url\<rparr>]
                      else filled)\<rparr>))"

definition Decide ::
  "('v, 'c) Engine \<Rightarrow> SurfaceTag \<Rightarrow> EvaluationContext \<Rightarrow> int \<Rightarrow> EvalState
    \<Rightarrow> (EngineDecision \<times> string option) \<times> event list \<times> EvalState" where
  "Decide e surface x now s =
     (let rest = (\<lambda>out. emitOwnerRouting (pe_ownerResolver e) x (merge_rules (pe_dsl e) (ContextToInput surface x) out)) in
      case pe_native e of
        None \<Rightarrow> ((rest (allow_decision surface), None), [], s)
      | Some (ev, store) \<Rightarrow>
          (case Evaluate ev store x (pe_exceptionAgeDays e) now s of
             (evs, (r, Some err), s') \<Rightarrow> ((allow_decision surface, Some err), evs, s')
           | (evs, (r, None), s') \<Rightarrow> ((rest (merge_native r (allow_decision surface)), None), evs, s')))"

definition DecideInput :: "('v, 'c) Engine option \<Rightarrow> Input \<Rightarrow> EngineDecision" where
  "DecideInput e input =
     (case e of
        None \<Rightarrow> allow_decision (in_Surface input)
      | Some eng \<Rightarrow> merge_rules (pe_dsl eng) input (allow_decision (in_Surface input)))"

end
