(* ===== verification/PolicyEngineProps.thy ===== *)
theory PolicyEngineProps
  imports PolicyEngine PolicyProps
begin

text \<open>
  The merge of the two engines: which action a result set stands for, that the rules and the owner routing only
  ever tighten the native verdict, and that an enforcing policy that matches is a denial at every surface. The
  last section is about the discovery of bundles.
\<close>

section \<open>Strictness\<close>

lemma action_distinct [simp]:
  "ActionAllow \<noteq> ActionMonitor" "ActionAllow \<noteq> ActionQuarantine" "ActionAllow \<noteq> ActionBlock" "ActionAllow \<noteq> ActionNotifyOwner"
  "ActionMonitor \<noteq> ActionAllow" "ActionMonitor \<noteq> ActionQuarantine" "ActionMonitor \<noteq> ActionBlock" "ActionMonitor \<noteq> ActionNotifyOwner"
  "ActionQuarantine \<noteq> ActionAllow" "ActionQuarantine \<noteq> ActionMonitor" "ActionQuarantine \<noteq> ActionBlock" "ActionQuarantine \<noteq> ActionNotifyOwner"
  "ActionBlock \<noteq> ActionAllow" "ActionBlock \<noteq> ActionMonitor" "ActionBlock \<noteq> ActionQuarantine" "ActionBlock \<noteq> ActionNotifyOwner"
  "ActionNotifyOwner \<noteq> ActionAllow" "ActionNotifyOwner \<noteq> ActionMonitor" "ActionNotifyOwner \<noteq> ActionQuarantine" "ActionNotifyOwner \<noteq> ActionBlock"
  by (simp_all add: action_defs)

lemma strictness_Stricter [simp]: "strictness (Stricter a b) = max (strictness a) (strictness b)"
  by (simp add: Stricter_def)

text \<open>The strictest of a set of actions: the verbs that enforce, in order, and otherwise allow.\<close>

definition strongest :: "Action set \<Rightarrow> Action" where
  "strongest S =
     (if ActionBlock \<in> S then ActionBlock else if ActionQuarantine \<in> S then ActionQuarantine
      else if ActionMonitor \<in> S then ActionMonitor else ActionAllow)"

lemma Stricter_strongest: "Stricter (strongest S) a = strongest (insert a S)"
  by (auto simp: Stricter_def strictness_def strongest_def)

section \<open>Result sets\<close>

text \<open>The violations a value stands for, in order.\<close>

fun violations_of :: "rego_value \<Rightarrow> Violation list" where
  "violations_of (RObject ms) = (case violationFromMap (map_of ms) of None \<Rightarrow> [] | Some v \<Rightarrow> [v])"
| "violations_of (RArray vs) = concat (map violations_of vs)"
| "violations_of _ = []"

definition adding :: "Violation list \<Rightarrow> Decision \<Rightarrow> Decision" where
  "adding vs d =
     d\<lparr>dec_Violations := dec_Violations d @ vs, dec_Action := foldl Stricter (dec_Action d) (map v_Action vs)\<rparr>"

lemma adding_simps [simp]: "adding [] d = d" "adding vs (adding us d) = adding (us @ vs) d"
  by (simp_all add: adding_def)

lemma fold_adding: "(\<And>v. v \<in> set vs \<Longrightarrow> f v = adding (g v)) \<Longrightarrow> fold f vs d = adding (concat (map g vs)) d"
  by (induction vs arbitrary: d) simp_all

lemma collectViolations_adding: "collectViolations v = adding (violations_of v)"
proof
  fix d show "collectViolations v d = adding (violations_of v) d"
  proof (induction v arbitrary: d rule: violations_of.induct)
    case (1 ms) then show ?case by (simp add: adding_def split: option.splits)
  next
    case (2 vs)
    then have "collectViolations v = adding (violations_of v)" if "v \<in> set vs" for v using that by auto
    then show ?case by (simp add: fold_adding)
  qed simp_all
qed

definition all_violations :: "ResultSet \<Rightarrow> Violation list" where
  "all_violations rs = concat (map (\<lambda>vs. concat (map violations_of vs)) rs)"

lemma foldl_Stricter: "foldl Stricter (strongest S) as = strongest (S \<union> set as)"
  by (induction as arbitrary: S) (simp_all add: Stricter_strongest)

lemma reduce_eq:
  "reduce rs =
     \<lparr>dec_Action = strongest (v_Action ` set (all_violations rs)),
      dec_Violations = sort_key (\<lambda>v. (v_RuleID v, v_Message v)) (all_violations rs)\<rparr>"
proof -
  have inner: "fold collectViolations vs = adding (concat (map violations_of vs))" for vs
    by (rule ext) (simp add: fold_adding collectViolations_adding)
  have "fold (fold collectViolations) rs d = adding (all_violations rs) d" for d
    unfolding all_violations_def by (rule fold_adding) (simp add: inner)
  moreover have "foldl Stricter ActionAllow as = strongest (set as)" for as
    using foldl_Stricter[of "{}" as] by (simp add: strongest_def[of "{}"])
  ultimately show ?thesis by (simp add: reduce_def adding_def Let_def)
qed

text \<open>
  C23: The decision of the rules is the strictest enforcing verb among their violations, and allow when there is none: a
  misspelt verb and a notification of the owner weigh nothing, and the order of the results decides nothing.
\<close>
theorem reduce_decides:
  "dec_Action (reduce rs) = strongest (v_Action ` set (all_violations rs)) \<and>
   mset (dec_Violations (reduce rs)) = mset (all_violations rs)"
  by (simp add: reduce_eq)

section \<open>The facade\<close>

text \<open>What either leg contributes.\<close>

definition native_action :: "EvaluationResult \<Rightarrow> Action" where
  "native_action r = (if res_MatchedPolicy r = None then ActionAllow else nativeToAction (res_Action r))"

definition rules_action :: "dsl_Engine option \<Rightarrow> Input \<Rightarrow> Action" where
  "rules_action rules input =
     (case rules of
        None \<Rightarrow> ActionAllow
      | Some d \<Rightarrow>
          if eng_modules d = [] then ActionAllow
          else (case eng_prepared d input of Evaluated rs \<Rightarrow> dec_Action (reduce rs) | _ \<Rightarrow> ActionAllow))"

lemma emitOwnerRouting_action [simp]: "ed_Action (emitOwnerRouting r x out) = ed_Action out"
  by (auto simp: emitOwnerRouting_def Let_def split: option.splits)

lemma merge_native_action [simp]: "ed_Action (merge_native r (allow_decision s)) = Stricter ActionAllow (native_action r)"
  by (auto simp: merge_native_def native_action_def Let_def allow_decision_def Stricter_def split: option.splits)

lemma Stricter_allow: "a \<in> {ActionAllow, ActionMonitor, ActionQuarantine, ActionBlock} \<Longrightarrow> Stricter a ActionAllow = a"
  by (auto simp: Stricter_def strictness_def)

lemma merge_rules_action:
  assumes "ed_Action out \<in> {ActionAllow, ActionMonitor, ActionQuarantine, ActionBlock}"
  shows "ed_Action (merge_rules rules input out) = Stricter (ed_Action out) (rules_action rules input)"
  using assms
  by (auto simp: merge_rules_def Empty_def rules_action_def safeDecide_def dsl_Decide_def Let_def Stricter_allow
      split: option.splits eval_outcome.splits)

lemma native_action_range: "native_action r \<in> {ActionAllow, ActionMonitor, ActionQuarantine, ActionBlock}"
  by (simp add: native_action_def nativeToAction_def)

lemma rules_action_range: "rules_action rules input \<in> {ActionAllow, ActionMonitor, ActionQuarantine, ActionBlock}"
  by (auto simp: rules_action_def reduce_eq strongest_def split: option.splits eval_outcome.splits)

lemma strongest_pair:
  "a \<in> {ActionAllow, ActionMonitor, ActionQuarantine, ActionBlock} \<Longrightarrow> Stricter (Stricter ActionAllow a) b = strongest {a, b}"
  using Stricter_strongest[of "{}" a] Stricter_strongest[of "{a}" b]
  by (simp add: strongest_def[of "{}"] insert_commute)

lemma Stricter_allow_range:
  "a \<in> {ActionAllow, ActionMonitor, ActionQuarantine, ActionBlock} \<Longrightarrow> Stricter ActionAllow a \<in> {ActionAllow, ActionMonitor, ActionQuarantine, ActionBlock}"
  by (auto simp: Stricter_def)

lemma facade_action:
  "ed_Action (emitOwnerRouting res x (merge_rules rules input (merge_native r (allow_decision surface)))) =
     strongest {native_action r, rules_action rules input}"
  using merge_rules_action[of "merge_native r (allow_decision surface)" rules input]
    Stricter_allow_range[OF native_action_range[of r]] strongest_pair[OF native_action_range[of r]]
  by simp

text \<open>The native verdict that a call of the facade gets: what the evaluator answers, or no match without one.\<close>

definition native_verdict :: "('v, 'c) Engine \<Rightarrow> EvaluationContext \<Rightarrow> int \<Rightarrow> EvalState \<Rightarrow> EvaluationResult \<times> string option" where
  "native_verdict e x now s =
     (case pe_native e of
        None \<Rightarrow> (no_match, None)
      | Some (ev, store) \<Rightarrow> fst (snd (Evaluate ev store x (pe_exceptionAgeDays e) now s)))"

lemma allow_decision_simps [simp]: "ed_Action (allow_decision surface) = ActionAllow" "ed_Violations (allow_decision surface) = []"
  by (simp_all add: allow_decision_def)

lemma merge_native_no_match: "merge_native no_match (allow_decision surface) = allow_decision surface"
  by (simp add: merge_native_def no_match_def allow_decision_def)

lemma Decide_action:
  "ed_Action (fst (fst (Decide e surface x now s))) =
     (if snd (native_verdict e x now s) \<noteq> None then ActionAllow
      else strongest {native_action (fst (native_verdict e x now s)), rules_action (pe_dsl e) (ContextToInput surface x)})"
  using facade_action[of "pe_ownerResolver e" x "pe_dsl e" "ContextToInput surface x" no_match surface]
  by (auto simp: Decide_def native_verdict_def facade_action[simplified] merge_native_no_match Let_def split: option.splits prod.splits)


section \<open>From a policy to every surface\<close>

definition known_modes :: "Mode set" where
  "known_modes = {ModeAllow, ModeMonitor, ModeBlock, ModeQuarantine, ModeBlockAfterGrace}"

text \<open>
  No verdict on the request is kept: there is no cache, or it was flushed, or its entry has expired.
\<close>

definition uncached :: "EvaluationContext \<Rightarrow> int \<Rightarrow> EvalState \<Rightarrow> bool" where
  "uncached x now s \<longleftrightarrow>
     (\<forall>m k. evalCacheKeyFor x m = Some k \<longrightarrow> cache_Get now (es_cache s) k = None)"

lemma uncached_flushed: "uncached x now (InvalidateCache s)"
  by (auto simp: uncached_def InvalidateCache_def cache_Invalidate_def cache_Get_def split: option.splits)

lemma uncached_without: "es_cache s = None \<Longrightarrow> uncached x now s"
  by (simp add: uncached_def cache_Get_def)

lemma evaluate_cold:
  assumes "uncached x now s"
  shows "fst (snd (Evaluate ev (Some (Inr ps)) x a now s)) = (snd (EvaluateWithPolicies ev x ps a now), None)"
proof -
  have g: "cache_Get now (es_cache s) k = None" if "evalCacheKeyFor x m = Some k" for m k
    using assms that by (simp add: uncached_def)
  show ?thesis
    by (auto simp: Evaluate_def Evaluate_read_def Evaluate_finish_def EvaluateWithPolicies_def Let_def g
        split: option.splits prod.splits)
qed

lemma first_match_action:
  assumes "denies (first_match (live_matches e x a now ps))" and "pol_Mode ` set ps \<subseteq> known_modes"
  shows "native_action (first_match (live_matches e x a now ps)) \<in> {ActionBlock, ActionQuarantine}"
proof -
  let ?rs = "live_matches e x a now ps"
  from assms(1) obtain r where "first_deny ?rs = Some r" by (auto simp: denies_first_match)
  then have fm: "first_match ?rs = r" "denies r" using first_match_deny[of ?rs r] by simp_all
  from \<open>first_deny ?rs = Some r\<close> have "find (\<lambda>r. res_Action r \<noteq> ModeMonitor) ?rs = Some r"
    by (auto simp: first_deny_def split: option.splits if_splits)
  then have "r \<in> set ?rs" by (metis find_Some_iff nth_mem)
  then obtain p where p: "p \<in> set ps" "snd (try_policy e x a now p) = Some r"
    by (auto simp: live_matches_def map_filter_def split: option.splits)
  have "pol_Mode p \<in> known_modes" using assms(2) p(1) by auto
  with try_policy_action[OF p(2)] fm show ?thesis
    by (auto simp: native_action_def nativeToAction_def denies_def known_modes_def resolveAction_def split: option.splits if_splits)
qed

lemma bypass_keeps_action: "native_action (applyBypassQuarantine e x r) = native_action r"
  by (auto simp: native_action_def applyBypassQuarantine_def split: option.splits)

lemma strongest_denial: "a \<in> {ActionBlock, ActionQuarantine} \<Longrightarrow> strongest {a, b} \<in> {ActionBlock, ActionQuarantine}"
  by (auto simp: strongest_def)

text \<open>
  C8: An enforcing policy that matches, with no allowing policy that matches before it, is a block or a quarantine at every
  surface, whatever the organisation's rules answer, whether they fail, and whoever owns the package; provided that
  the store lists its policies, all with a mode that the program knows, and that no earlier verdict on the request is
  served from the cache (there is none, it was flushed, or the entry has expired).
\<close>
theorem enforcing_policy_denies_everywhere:
  assumes "pe_native e = Some (ev, Some (Inr (before @ p # after)))" and "uncached x now s"
    and "enforces x p" and "snd (try_policy ev x (pe_exceptionAgeDays e) now p) \<noteq> None"
    and "\<forall>q \<in> set before. pol_Mode q = ModeAllow \<longrightarrow> snd (try_policy ev x (pe_exceptionAgeDays e) now q) = None"
    and "pol_Mode ` set (before @ p # after) \<subseteq> known_modes"
  shows "ed_Action (fst (fst (Decide e surface x now s))) \<in> {ActionBlock, ActionQuarantine}"
proof -
  let ?ps = "before @ p # after" and ?a = "pe_exceptionAgeDays e"
  have d: "denies (first_match (live_matches ev x ?a now ?ps))"
    using enforcing_match[OF assms(3-5), of after] by (simp add: evaluate_first_match)
  have "native_verdict e x now s = (applyBypassQuarantine ev x (first_match (live_matches ev x ?a now ?ps)), None)"
    using evaluate_cold[OF assms(2), of ev ?ps ?a] evaluate_first_match[of ev x ?ps ?a now]
    by (auto simp: native_verdict_def assms(1) EvaluateWithPolicies_def split: prod.splits)
  then show ?thesis
    using strongest_denial[OF first_match_action[OF d assms(6)]] by (simp add: Decide_action bypass_keeps_action)
qed

text \<open>Rules that panic on every input.\<close>

definition broken_rules :: dsl_Engine where
  "broken_rules = \<lparr>eng_prepared = (\<lambda>_. EvalPanic ''nil''), eng_digest = ''d'', eng_modules = [''a.rego''], eng_skipped = []\<rparr>"

theorem enforcing_policy_denies_everywhere_witness:
  "ed_Action (fst (fst (Decide (New (Some (quiet, Some (Inr [watch_everything, block_everything]))) 0 (Some broken_rules))
     SurfaceProxy demo_context 0 (InvalidateCache (WithEvalCache 0 \<lparr>es_cache = None, es_meta = None\<rparr>))))) \<in> {ActionBlock, ActionQuarantine}"
  by (rule enforcing_policy_denies_everywhere[of _ quiet "[watch_everything]" block_everything "[]"])
     (simp_all add: New_def enforces_def block_everything_enforces block_everything_matches[unfolded not_None_eq]
        watch_everything_def known_modes_def uncached_flushed)

end
