(* ===== verification/PolicyCli.thy ===== *)
theory PolicyCli
  imports PolicyEngine
begin

text \<open>
  The commands that run the rules without a server, cli/policy_dsl.go, and the lane of the install guard that asks
  them, cli/guard_policy.go. The loaded bundle and the decoded fixture are arguments; a command answers with its exit
  code and the decision it printed.
\<close>

section \<open>Exit codes\<close>

definition ExitBlocked :: int where "ExitBlocked = 1"
definition ExitOpError :: int where "ExitOpError = 2"
definition ExitUsage :: int where "ExitUsage = 4"

definition refuseIncompleteBundle :: "dsl_Engine \<Rightarrow> int option" where
  "refuseIncompleteBundle eng = (if Skipped (Some eng) = [] then None else Some ExitOpError)"

definition readInputFixture :: "(string + 'raw) \<Rightarrow> ('raw \<Rightarrow> string + Input) \<Rightarrow> string + Input" where
  "readInputFixture file decode =
     (case file of
        Inl err \<Rightarrow> Inl err
      | Inr data \<Rightarrow> (case decode data of Inl err \<Rightarrow> Inl (''decode input: '' @ err) | Inr i \<Rightarrow> Inr i))"

definition decision_exit :: "Action \<Rightarrow> int" where
  "decision_exit a = (if a = ActionBlock \<or> a = ActionQuarantine then ExitBlocked else 0)"

section \<open>The commands\<close>

text \<open>
  \<open>policy eval\<close>. A panic of a rule ends the process: it is the exit code 2 of the Go runtime.
\<close>

definition runPolicyEval :: "(string + dsl_Engine) \<Rightarrow> (string + Input) \<Rightarrow> int \<times> Decision option" where
  "runPolicyEval loaded fixture =
     (case loaded of
        Inl err \<Rightarrow> (2, None)
      | Inr eng \<Rightarrow>
          (case refuseIncompleteBundle eng of
             Some code \<Rightarrow> (code, None)
           | None \<Rightarrow>
               if Empty (Some eng) then (2, None)
               else
                 (case fixture of
                    Inl err \<Rightarrow> (2, None)
                  | Inr i \<Rightarrow>
                      (case dsl_Decide eng i of
                         DecidePanic msg \<Rightarrow> (2, None)
                       | DecideError err \<Rightarrow> (2, None)
                       | Decided dec \<Rightarrow> (decision_exit (dec_Action dec), Some dec)))))"

text \<open>\<open>policy gate\<close>: the surface is checked first and stamped on the fixture, and the facade decides.\<close>

definition runPolicyGate :: "string \<Rightarrow> (string + dsl_Engine) \<Rightarrow> (string + Input) \<Rightarrow> int \<times> EngineDecision option" where
  "runPolicyGate surface loaded fixture =
     (if surface \<notin> set AllSurfaces then (ExitUsage, None)
      else
        (case loaded of
           Inl err \<Rightarrow> (2, None)
         | Inr eng \<Rightarrow>
             (case refuseIncompleteBundle eng of
                Some code \<Rightarrow> (code, None)
              | None \<Rightarrow>
                  if Empty (Some eng) then (ExitOpError, None)
                  else
                    (case fixture of
                       Inl err \<Rightarrow> (2, None)
                     | Inr i \<Rightarrow>
                         let dec = DecideInput (Some (New (None :: ((nat, nat) Evaluator \<times> _) option) 0 (Some eng)))
                                     (i\<lparr>in_Surface := surface\<rparr>)
                         in (decision_exit (ed_Action dec), Some dec)))))"

section \<open>The lane of the install guard\<close>

definition decisiveViolation :: "EngineDecision \<Rightarrow> Violation option" where
  "decisiveViolation dec =
     (case ed_Violations dec of
        [] \<Rightarrow> None
      | v # vs \<Rightarrow>
          (case find (\<lambda>v. v_Action v = ed_Action dec) (v # vs) of Some w \<Rightarrow> Some w | None \<Rightarrow> Some v))"

definition guardPolicyReason :: "EngineDecision \<Rightarrow> string" where
  "guardPolicyReason dec =
     (case decisiveViolation dec of
        None \<Rightarrow> ''refused by policy''
      | Some v \<Rightarrow>
          let msg = (if v_Message v = [] then ''refused by policy'' else v_Message v) in
          if v_RuleID v \<noteq> [] then msg @ '' (policy rule '' @ v_RuleID v @ '')'' else msg)"

definition guardSeverityPolicy :: string where "guardSeverityPolicy = ''policy''"

record guardVerdict =
  gv_Block :: bool
  gv_Severity :: string
  gv_Reason :: string

text \<open>The engine of the process (none when not even the built-in bundle compiled) on the input of a package.\<close>

definition guardPolicyLane :: "('v, 'c) Engine option \<Rightarrow> Input \<Rightarrow> guardVerdict option" where
  "guardPolicyLane eng i =
     (case eng of
        None \<Rightarrow> None
      | Some e \<Rightarrow>
          let dec = DecideInput (Some e) i in
          if ed_Action dec = ActionBlock \<or> ed_Action dec = ActionQuarantine then
            Some \<lparr>gv_Block = True, gv_Severity = guardSeverityPolicy, gv_Reason = guardPolicyReason dec\<rparr>
          else if ed_Action dec = ActionMonitor then
            Some \<lparr>gv_Block = False, gv_Severity = guardSeverityPolicy, gv_Reason = guardPolicyReason dec\<rparr>
          else None)"

end
