(* ===== verification/PolicyCliProps.thy ===== *)
theory PolicyCliProps
  imports PolicyCli PolicyEngineProps
begin

text \<open>
  The commands over the facade: the gate of a surface against the evaluation of a fixture, the reason the install
  guard gives, and the bundles that discovery misses.
\<close>

section \<open>The commands agree\<close>

text \<open>A bundle that was read completely, holds a rule and answers on the input.\<close>

definition answers :: "(string + dsl_Engine) \<Rightarrow> Input \<Rightarrow> bool" where
  "answers loaded i \<longleftrightarrow>
     (case loaded of
        Inl err \<Rightarrow> True
      | Inr eng \<Rightarrow> (case eng_prepared eng i of Evaluated rs \<Rightarrow> True | _ \<Rightarrow> False))"

lemma DecideInput_action: "ed_Action (DecideInput (Some e) i) = rules_action (pe_dsl e) i"
  using merge_rules_action[of "allow_decision (in_Surface i)" "pe_dsl e" i] rules_action_range[of "pe_dsl e" i]
  by (auto simp: DecideInput_def Stricter_def strictness_def)

lemma New_simps [simp]: "pe_dsl (New n a d) = d" "pe_native (New n a d) = n" "pe_exceptionAgeDays (New n a d) = a"
  "pe_ownerResolver (New n a d) = None"
  by (simp_all add: New_def)

lemma gate_exit:
  assumes "surface \<in> set AllSurfaces" and "answers loaded (i\<lparr>in_Surface := surface\<rparr>)"
  shows "fst (runPolicyGate surface loaded (Inr i)) = fst (runPolicyEval loaded (Inr (i\<lparr>in_Surface := surface\<rparr>)))"
  using assms
  by (auto simp: runPolicyGate_def runPolicyEval_def answers_def DecideInput_action rules_action_def dsl_Decide_def Empty_def
      Let_def ExitOpError_def split: sum.splits option.splits eval_outcome.splits)

text \<open>
  C24: The gate of a surface exits as the evaluation of the fixture stamped with that surface does, for every bundle
  that loads or fails to load, as long as its rules answer.
\<close>
theorem gate_matches_eval:
  assumes "surface \<in> set AllSurfaces" and "answers loaded (i\<lparr>in_Surface := surface\<rparr>)"
  shows "fst (runPolicyGate surface loaded (Inr i)) = fst (runPolicyEval loaded (Inr (i\<lparr>in_Surface := surface\<rparr>)))"
  using assms by (rule gate_exit)

text \<open>A bundle with one rule that refuses a surface.\<close>

definition surface_rule :: "Input \<Rightarrow> eval_outcome" where
  "surface_rule i =
     Evaluated (if in_Surface i = SurfacePR then [[RArray [RObject [(''rule_id'', RString ''r'')]]]] else [])"

definition surface_bundle :: dsl_Engine where
  "surface_bundle = \<lparr>eng_prepared = surface_rule, eng_digest = ''d'', eng_modules = [''a.rego''], eng_skipped = []\<rparr>"

theorem gate_matches_eval_witness:
  "fst (runPolicyGate SurfacePR (Inr surface_bundle) (Inr (ContextToInput SurfaceProxy demo_context))) =
   fst (runPolicyEval (Inr surface_bundle) (Inr ((ContextToInput SurfaceProxy demo_context)\<lparr>in_Surface := SurfacePR\<rparr>)))"
  by (rule gate_matches_eval) (simp_all add: AllSurfaces_def answers_def surface_bundle_def surface_rule_def)

text \<open>
  With a rule that fails, the two part: the evaluation exits with 2, and the gate with 0 as for an allow.
\<close>
lemma gate_passes_broken_rules:
  "fst (runPolicyGate SurfacePR (Inr broken_rules) (Inr i)) = 0 \<and> fst (runPolicyEval (Inr broken_rules) (Inr i)) = 2"
  by (simp add: runPolicyGate_def runPolicyEval_def refuseIncompleteBundle_def Skipped_def broken_rules_def Empty_def
      AllSurfaces_def dsl_Decide_def Let_def DecideInput_action rules_action_def decision_exit_def)

section \<open>The guard names the rule\<close>

lemma DecideInput_violations:
  "ed_Violations (DecideInput (Some e) i) =
     (case pe_dsl e of
        None \<Rightarrow> []
      | Some d \<Rightarrow>
          if eng_modules d = [] then []
          else (case eng_prepared d i of Evaluated rs \<Rightarrow> dec_Violations (reduce rs) | _ \<Rightarrow> []))"
  by (auto simp: DecideInput_def merge_rules_def Empty_def safeDecide_def dsl_Decide_def Let_def
      split: option.splits eval_outcome.splits)

lemma strongest_cases: "strongest S = ActionAllow \<or> strongest S \<in> S"
  by (simp add: strongest_def)

lemma decision_has_cause:
  assumes "ed_Action (DecideInput (Some e) i) \<noteq> ActionAllow"
  shows "\<exists>v \<in> set (ed_Violations (DecideInput (Some e) i)). v_Action v = ed_Action (DecideInput (Some e) i)"
proof -
  from assms obtain d rs where d: "pe_dsl e = Some d" "eng_modules d \<noteq> []" "eng_prepared d i = Evaluated rs"
    by (auto simp: DecideInput_action rules_action_def split: option.splits if_splits eval_outcome.splits)
  with assms strongest_cases[of "v_Action ` set (all_violations rs)"] show ?thesis
    by (auto simp: DecideInput_action DecideInput_violations rules_action_def reduce_eq)
qed

text \<open>
  A verdict of the guard's policy lane gives as its reason the rule of a violation whose action is the decision's, not
  that of another rule that happened to come first.
\<close>
theorem guard_names_the_deciding_rule:
  assumes "guardPolicyLane (Some e) i = Some verdict"
  shows "\<exists>v \<in> set (ed_Violations (DecideInput (Some e) i)).
      v_Action v = ed_Action (DecideInput (Some e) i) \<and>
      gv_Block verdict = (v_Action v \<in> {ActionBlock, ActionQuarantine}) \<and>
      gv_Reason verdict =
        (if v_Message v = [] then ''refused by policy'' else v_Message v) @
        (if v_RuleID v = [] then [] else '' (policy rule '' @ v_RuleID v @ '')'')"
proof -
  let ?d = "DecideInput (Some e) i"
  from assms have act: "ed_Action ?d \<noteq> ActionAllow" and v: "gv_Reason verdict = guardPolicyReason ?d"
    "gv_Block verdict \<longleftrightarrow> ed_Action ?d \<in> {ActionBlock, ActionQuarantine}"
    by (auto simp: guardPolicyLane_def Let_def split: if_splits)
  from decision_has_cause[OF act] obtain w where "find (\<lambda>v. v_Action v = ed_Action ?d) (ed_Violations ?d) = Some w"
    by (cases "find (\<lambda>v. v_Action v = ed_Action ?d) (ed_Violations ?d)") (auto simp: find_None_iff)
  moreover from this have "w \<in> set (ed_Violations ?d)" "v_Action w = ed_Action ?d"
    by (auto simp: find_Some_iff)
  moreover from calculation have "decisiveViolation ?d = Some w"
    by (auto simp: decisiveViolation_def split: list.splits)
  ultimately show ?thesis using v by (intro bexI[of _ w]) (simp_all add: guardPolicyReason_def Let_def)
qed

lemma default_action: "violationFromMap [''rule_id'' \<mapsto> RString ''r''] =
    Some \<lparr>v_RuleID = ''r'', v_Action = ActionBlock, v_Message = [], v_ExceptionEligible = False, v_OwnerTeam = [],
      v_OwnerHandle = [], v_OwnerContactURL = []\<rparr>"
  by (simp add: violationFromMap_def string_member_def bool_member_def Let_def ActionBlock_def)

definition surface_engine :: "(nat, nat) Engine" where
  "surface_engine = New None 0 (Some surface_bundle)"

lemma surface_bundle_refuses:
  "in_Surface i = SurfacePR \<Longrightarrow> guardPolicyLane (Some surface_engine) i =
     Some \<lparr>gv_Block = True, gv_Severity = guardSeverityPolicy,
           gv_Reason = guardPolicyReason (DecideInput (Some surface_engine) i)\<rparr>"
  by (simp add: guardPolicyLane_def DecideInput_action rules_action_def surface_engine_def surface_bundle_def surface_rule_def reduce_eq
      all_violations_def default_action strongest_def)

theorem guard_names_the_deciding_rule_witness:
  "\<exists>v. v \<in> set (ed_Violations (DecideInput (Some surface_engine) (ContextToInput SurfacePR demo_context)))"
  using guard_names_the_deciding_rule[OF surface_bundle_refuses, of "ContextToInput SurfacePR demo_context"]
  by (auto simp: ContextToInput_def)

section \<open>Bundles behind links\<close>

text \<open>
  A directory of rules that is reached through a symbolic link is neither read nor recorded as skipped: given as the
  source it is an empty bundle, and below a source its rules are missing from a bundle that counts as complete.
\<close>
lemma linked_rules_vanish:
  "discover (\<lambda>_. Inr (Some (Link (Some (Dir [(''a.rego'', File)]))))) [''rules''] = Inr ([], [])"
  "discover (\<lambda>_. Inr (Some (Dir [(''a.rego'', File), (''shared'', Link (Some (Dir [(''b.rego'', File)])))]))) [''rules''] =
     Inr ([''rules/a.rego''], [])"
  by (simp_all add: discover_def discover_source_def is_rego_def HasSuffix_def Join_def)

end
