(* ===== verification/TrustScore.thy ===== *)
theory TrustScore
  imports GoTime
begin

text \<open>
  The explanation of the trust score that the interface renders: trustscore/score.go. \<open>Compute\<close> maps the signals of a
  version to a breakdown by signal and a total between 0 and 100; its clock is an argument.
\<close>

section \<open>Signals and breakdown\<close>

record Breakdown =
  bd_MalwareCheck :: int
  bd_VulnStatus :: int
  bd_Provenance :: int
  bd_AttestationBase :: int
  bd_SLSALevelBonus :: int
  bd_LicenseCompliance :: int
  bd_PackageAge :: int
  bd_TyposquatCheck :: int
  bd_SourceRepo :: int
  bd_VersionCount :: int
  bd_ChecksumVerified :: int
  bd_SignatureVerified :: int
  bd_RepoLinkStatus :: string
  bd_InstallScript :: int
  bd_ImportTimeExecution :: int
  bd_MaliciousIOC :: int
  bd_PublisherChanged :: int
  bd_VersionAnomaly :: int
  bd_HiddenUnicode :: int
  bd_PublishVelocityAnomaly :: int
  bd_KnownExploitedCVE :: int
  bd_DangerousPickleOpcode :: int
  bd_ModelCardInjection :: int
  bd_AgentToolDangerousCapability :: int
  bd_TyposquatOwnBytesCoupling :: int

record Signals =
  ts_IsKnownMalicious :: bool
  ts_IsVulnerable :: bool
  ts_MaxCVSS :: rat
  ts_LicenseSPDX :: string
  ts_VersionReleaseDate :: "int option"
  ts_IsSuspectedTyposquat :: bool
  ts_TyposquatConfidence :: string
  ts_ChecksumVerified :: bool
  ts_SignatureVerified :: bool
  ts_HasInstallScript :: bool
  ts_InstallScriptFetchesRemote :: bool
  ts_ImportTimeExecution :: bool
  ts_ImportTimeKind :: string
  ts_MaliciousIOC :: bool
  ts_PublishVelocityAnomaly :: bool
  ts_HasProvenance :: bool
  ts_ProvenanceStatus :: string
  ts_SLSALevel :: int
  ts_AttestationFirst :: bool
  ts_HasSourceRepo :: bool
  ts_RepoLinkStatus :: string
  ts_VersionCount :: int
  ts_PublisherChanged :: bool
  ts_VersionAnomalyFlags :: "string list"
  ts_HasHiddenUnicode :: bool
  ts_KnownExploitedCVE :: bool
  ts_DangerousPickleOpcode :: bool
  ts_ModelCardInjection :: bool
  ts_AgentToolDangerousCapability :: bool

record Score =
  sc_Total :: int
  sc_Breakdown :: Breakdown
  sc_ComputedAt :: int
  sc_IsComplete :: bool

definition no_breakdown :: Breakdown where
  "no_breakdown =
    \<lparr>bd_MalwareCheck = 0,
     bd_VulnStatus = 0,
     bd_Provenance = 0,
     bd_AttestationBase = 0,
     bd_SLSALevelBonus = 0,
     bd_LicenseCompliance = 0,
     bd_PackageAge = 0,
     bd_TyposquatCheck = 0,
     bd_SourceRepo = 0,
     bd_VersionCount = 0,
     bd_ChecksumVerified = 0,
     bd_SignatureVerified = 0,
     bd_RepoLinkStatus = [],
     bd_InstallScript = 0,
     bd_ImportTimeExecution = 0,
     bd_MaliciousIOC = 0,
     bd_PublisherChanged = 0,
     bd_VersionAnomaly = 0,
     bd_HiddenUnicode = 0,
     bd_PublishVelocityAnomaly = 0,
     bd_KnownExploitedCVE = 0,
     bd_DangerousPickleOpcode = 0,
     bd_ModelCardInjection = 0,
     bd_AgentToolDangerousCapability = 0,
     bd_TyposquatOwnBytesCoupling = 0\<rparr>"

text \<open>The zero value of the signals.\<close>

definition no_signals :: Signals where
  "no_signals =
    \<lparr>ts_IsKnownMalicious = False,
     ts_IsVulnerable = False,
     ts_MaxCVSS = 0,
     ts_LicenseSPDX = [],
     ts_VersionReleaseDate = None,
     ts_IsSuspectedTyposquat = False,
     ts_TyposquatConfidence = [],
     ts_ChecksumVerified = False,
     ts_SignatureVerified = False,
     ts_HasInstallScript = False,
     ts_InstallScriptFetchesRemote = False,
     ts_ImportTimeExecution = False,
     ts_ImportTimeKind = [],
     ts_MaliciousIOC = False,
     ts_PublishVelocityAnomaly = False,
     ts_HasProvenance = False,
     ts_ProvenanceStatus = [],
     ts_SLSALevel = 0,
     ts_AttestationFirst = False,
     ts_HasSourceRepo = False,
     ts_RepoLinkStatus = [],
     ts_VersionCount = 0,
     ts_PublisherChanged = False,
     ts_VersionAnomalyFlags = [],
     ts_HasHiddenUnicode = False,
     ts_KnownExploitedCVE = False,
     ts_DangerousPickleOpcode = False,
     ts_ModelCardInjection = False,
     ts_AgentToolDangerousCapability = False\<rparr>"

section \<open>The parts of the breakdown\<close>

definition ownBytesSignalFired :: "Signals \<Rightarrow> bool" where
  "ownBytesSignalFired s \<longleftrightarrow>
     ts_HasInstallScript s \<or> ts_InstallScriptFetchesRemote s \<or> ts_ImportTimeExecution s \<or> ts_MaliciousIOC s \<or>
     ts_HasHiddenUnicode s \<or> ts_DangerousPickleOpcode s \<or> ts_ModelCardInjection s \<or> ts_AgentToolDangerousCapability s"

definition vuln_status :: "Signals \<Rightarrow> int" where
  "vuln_status s =
     (if \<not> ts_IsVulnerable s then 20 else if ts_MaxCVSS s < 4 then 10 else if ts_MaxCVSS s < 7 then 5 else 0)"

definition attested :: "Signals \<Rightarrow> bool" where
  "attested s \<longleftrightarrow> ts_HasProvenance s \<and> ts_ProvenanceStatus s = ''verified''"

definition provenance_part :: "Signals \<Rightarrow> int" where
  "provenance_part s = (if \<not> ts_AttestationFirst s \<and> attested s then 25 else 0)"

definition attestation_base :: "Signals \<Rightarrow> int" where
  "attestation_base s = (if \<not> ts_AttestationFirst s then 0 else if attested s then 70 else 30)"

definition slsa_bonus :: "Signals \<Rightarrow> int" where
  "slsa_bonus s =
     (if \<not> (ts_AttestationFirst s \<and> attested s) then 0
      else if 4 \<le> ts_SLSALevel s then 15 else if ts_SLSALevel s = 3 then 10 else if ts_SLSALevel s = 2 then 5 else 0)"

definition age_part :: "int \<Rightarrow> Signals \<Rightarrow> int" where
  "age_part now s =
     (case ts_VersionReleaseDate s of
        None \<Rightarrow> 0 | Some t \<Rightarrow> if 30 * 24 * Hour < time_Sub now t then 10 else 0)"

definition typosquat_part :: "Signals \<Rightarrow> int" where
  "typosquat_part s =
     (if \<not> ts_IsSuspectedTyposquat s then 10
      else if ts_TyposquatConfidence s = ''high'' then - 30
      else if ts_TyposquatConfidence s = ''medium'' then - 20
      else if ts_TyposquatConfidence s = ''low'' then - 10 else - 15)"

definition repo_part :: "Signals \<Rightarrow> int" where
  "repo_part s =
     (let st = ts_RepoLinkStatus s in
      if st = ''ok'' then 10 else if st = ''unknown'' then 0
      else if st = ''archived'' \<or> st = ''missing'' then - 10
      else if st = ''ownership_mismatch'' then - 20
      else if ts_HasSourceRepo s then 10 else 0)"

definition versions_part :: "Signals \<Rightarrow> int" where
  "versions_part s = (if 3 \<le> ts_VersionCount s then 10 else if 2 \<le> ts_VersionCount s then 5 else 0)"

definition install_part :: "Signals \<Rightarrow> int" where
  "install_part s = (if ts_InstallScriptFetchesRemote s then - 20 else if ts_HasInstallScript s then - 5 else 0)"

definition import_part :: "Signals \<Rightarrow> int" where
  "import_part s =
     (if ts_ImportTimeExecution s then (if ts_ImportTimeKind s = ''obfuscated_exec_bare'' then - 10 else - 30) else 0)"

definition anomaly_part :: "Signals \<Rightarrow> int" where
  "anomaly_part s =
     (let n = int (length (ts_VersionAnomalyFlags s)) in
      if 0 < n then (if n * - 15 < - 30 then - 30 else n * - 15) else 0)"

definition breakdown :: "int \<Rightarrow> Signals \<Rightarrow> Breakdown" where
  "breakdown now s =
     no_breakdown
       \<lparr>bd_VulnStatus := vuln_status s,
        bd_Provenance := provenance_part s,
        bd_AttestationBase := attestation_base s,
        bd_SLSALevelBonus := slsa_bonus s,
        bd_LicenseCompliance := (if ts_LicenseSPDX s \<noteq> [] then 10 else 0),
        bd_PackageAge := age_part now s,
        bd_TyposquatCheck := typosquat_part s,
        bd_RepoLinkStatus := ts_RepoLinkStatus s,
        bd_SourceRepo := repo_part s,
        bd_VersionCount := versions_part s,
        bd_ChecksumVerified := (if ts_ChecksumVerified s then 5 else 0),
        bd_SignatureVerified := (if ts_SignatureVerified s then 5 else 0),
        bd_InstallScript := install_part s,
        bd_ImportTimeExecution := import_part s,
        bd_MaliciousIOC := (if ts_MaliciousIOC s then - 30 else 0),
        bd_PublisherChanged := (if ts_PublisherChanged s then - 25 else 0),
        bd_VersionAnomaly := anomaly_part s,
        bd_HiddenUnicode := (if ts_HasHiddenUnicode s then - 20 else 0),
        bd_PublishVelocityAnomaly := (if ts_PublishVelocityAnomaly s then - 20 else 0),
        bd_KnownExploitedCVE := (if ts_KnownExploitedCVE s then - 25 else 0),
        bd_DangerousPickleOpcode := (if ts_DangerousPickleOpcode s then - 30 else 0),
        bd_ModelCardInjection := (if ts_ModelCardInjection s then - 10 else 0),
        bd_AgentToolDangerousCapability := (if ts_AgentToolDangerousCapability s then - 15 else 0),
        bd_TyposquatOwnBytesCoupling :=
          (if ts_IsSuspectedTyposquat s \<and> ownBytesSignalFired s then - 20 else 0)\<rparr>"

definition breakdown_sum :: "Breakdown \<Rightarrow> int" where
  "breakdown_sum b =
     bd_MalwareCheck b +
     bd_VulnStatus b +
     bd_Provenance b +
     bd_AttestationBase b +
     bd_SLSALevelBonus b +
     bd_LicenseCompliance b +
     bd_PackageAge b +
     bd_TyposquatCheck b +
     bd_SourceRepo b +
     bd_VersionCount b +
     bd_ChecksumVerified b +
     bd_SignatureVerified b +
     bd_InstallScript b +
     bd_ImportTimeExecution b +
     bd_MaliciousIOC b +
     bd_PublisherChanged b +
     bd_VersionAnomaly b +
     bd_HiddenUnicode b +
     bd_PublishVelocityAnomaly b +
     bd_KnownExploitedCVE b +
     bd_DangerousPickleOpcode b +
     bd_ModelCardInjection b +
     bd_AgentToolDangerousCapability b +
     bd_TyposquatOwnBytesCoupling b"

section \<open>The score\<close>

definition clamp_total :: "int \<Rightarrow> int" where
  "clamp_total t = (let t = (if t < 0 then 0 else t) in if 100 < t then 100 else t)"

definition Compute :: "int \<Rightarrow> Signals \<Rightarrow> Score" where
  "Compute now s =
     (if ts_IsKnownMalicious s then
        \<lparr>sc_Total = 0, sc_Breakdown = no_breakdown\<lparr>bd_MalwareCheck := - 100\<rparr>, sc_ComputedAt = now, sc_IsComplete = True\<rparr>
      else
        let b = breakdown now s in
        \<lparr>sc_Total = clamp_total (breakdown_sum b), sc_Breakdown = b, sc_ComputedAt = now,
         sc_IsComplete = (ts_HasProvenance s \<or> ts_ProvenanceStatus s \<noteq> [])\<rparr>)"

section \<open>Bounds\<close>

lemma part_bounds:
  "0 \<le> vuln_status s" "vuln_status s \<le> 20" "0 \<le> provenance_part s" "provenance_part s \<le> 25"
  "0 \<le> attestation_base s" "attestation_base s \<le> 70" "0 \<le> slsa_bonus s" "slsa_bonus s \<le> 15"
  "0 \<le> age_part now s" "age_part now s \<le> 10" "- 30 \<le> typosquat_part s" "typosquat_part s \<le> 10"
  "- 20 \<le> repo_part s" "repo_part s \<le> 10" "0 \<le> versions_part s" "versions_part s \<le> 10"
  "- 20 \<le> install_part s" "install_part s \<le> 0" "- 30 \<le> import_part s" "import_part s \<le> 0"
  "- 30 \<le> anomaly_part s" "anomaly_part s \<le> 0"
  by (simp_all add: vuln_status_def provenance_part_def attestation_base_def slsa_bonus_def age_part_def typosquat_part_def
      repo_part_def versions_part_def install_part_def import_part_def anomaly_part_def Let_def split: option.splits)

lemma clamp_bounds: "0 \<le> clamp_total t" "clamp_total t \<le> 100"
  by (simp_all add: clamp_total_def Let_def)

lemma clamp_total_mono: "t \<le> u \<Longrightarrow> clamp_total t \<le> clamp_total u"
  by (simp add: clamp_total_def Let_def)

text \<open>
  The order of risk, on the observations alone: the second set of signals has every alarm of the first, and no better
  news. A suspicion is the worse the more confident it is (an unnamed confidence counts between low and medium), the
  repository the worse from a good link over nothing known, an archived or missing one and a mismatch of ownership, the age
  the worse the later the release, and an unknown date is the worst.
\<close>

definition confidence_rank :: "string \<Rightarrow> nat" where
  "confidence_rank c = (if c = ''high'' then 4 else if c = ''medium'' then 3 else if c = ''low'' then 1 else 2)"

definition link_rank :: "Signals \<Rightarrow> nat" where
  "link_rank s =
     (if ts_RepoLinkStatus s = ''ownership_mismatch'' then 3
      else if ts_RepoLinkStatus s \<in> {''archived'', ''missing''} then 2
      else if ts_RepoLinkStatus s = ''ok'' \<or> ts_RepoLinkStatus s \<noteq> ''unknown'' \<and> ts_HasSourceRepo s then 0
      else 1)"

definition no_older :: "Signals \<Rightarrow> Signals \<Rightarrow> bool" where
  "no_older s s' =
     (case ts_VersionReleaseDate s' of
        None \<Rightarrow> True
      | Some t' \<Rightarrow> (case ts_VersionReleaseDate s of None \<Rightarrow> False | Some t \<Rightarrow> t \<le> t'))"

definition no_safer :: "Signals \<Rightarrow> Signals \<Rightarrow> bool" where
  "no_safer s s' \<longleftrightarrow>
     (ts_IsKnownMalicious s \<le> ts_IsKnownMalicious s') \<and>
     (ts_IsVulnerable s \<le> ts_IsVulnerable s') \<and> ts_MaxCVSS s \<le> ts_MaxCVSS s' \<and>
     ((ts_LicenseSPDX s' \<noteq> []) \<le> (ts_LicenseSPDX s \<noteq> [])) \<and> no_older s s' \<and>
     (ts_IsSuspectedTyposquat s \<le> ts_IsSuspectedTyposquat s') \<and>
     confidence_rank (ts_TyposquatConfidence s) \<le> confidence_rank (ts_TyposquatConfidence s') \<and>
     (ts_ChecksumVerified s' \<le> ts_ChecksumVerified s) \<and> (ts_SignatureVerified s' \<le> ts_SignatureVerified s) \<and>
     (ts_HasInstallScript s \<le> ts_HasInstallScript s') \<and>
     (ts_InstallScriptFetchesRemote s \<le> ts_InstallScriptFetchesRemote s') \<and>
     (ts_ImportTimeExecution s \<le> ts_ImportTimeExecution s') \<and>
     ((ts_ImportTimeKind s' = ''obfuscated_exec_bare'') \<le> (ts_ImportTimeKind s = ''obfuscated_exec_bare'')) \<and>
     (ts_MaliciousIOC s \<le> ts_MaliciousIOC s') \<and>
     (ts_PublishVelocityAnomaly s \<le> ts_PublishVelocityAnomaly s') \<and>
     ts_AttestationFirst s' = ts_AttestationFirst s \<and> (ts_HasProvenance s' \<le> ts_HasProvenance s) \<and>
     ((ts_ProvenanceStatus s' = ''verified'') \<le> (ts_ProvenanceStatus s = ''verified'')) \<and> ts_SLSALevel s' \<le> ts_SLSALevel s \<and>
     link_rank s \<le> link_rank s' \<and> ts_VersionCount s' \<le> ts_VersionCount s \<and>
     (ts_PublisherChanged s \<le> ts_PublisherChanged s') \<and>
     length (ts_VersionAnomalyFlags s) \<le> length (ts_VersionAnomalyFlags s') \<and>
     (ts_HasHiddenUnicode s \<le> ts_HasHiddenUnicode s') \<and> (ts_KnownExploitedCVE s \<le> ts_KnownExploitedCVE s') \<and>
     (ts_DangerousPickleOpcode s \<le> ts_DangerousPickleOpcode s') \<and> (ts_ModelCardInjection s \<le> ts_ModelCardInjection s') \<and>
     (ts_AgentToolDangerousCapability s \<le> ts_AgentToolDangerousCapability s')"

lemma parts_mono:
  assumes "no_safer s s'"
  shows "vuln_status s' \<le> vuln_status s" "provenance_part s' \<le> provenance_part s" "attestation_base s' \<le> attestation_base s"
    "slsa_bonus s' \<le> slsa_bonus s" "typosquat_part s' \<le> typosquat_part s" "versions_part s' \<le> versions_part s"
    "install_part s' \<le> install_part s" "import_part s' \<le> import_part s" "anomaly_part s' \<le> anomaly_part s"
    "ownBytesSignalFired s \<le> ownBytesSignalFired s'" "age_part now s' \<le> age_part now s" "repo_part s' \<le> repo_part s"
proof -
  have "no_older s s'" using assms by (simp add: no_safer_def)
  then show "age_part now s' \<le> age_part now s"
    using time_Sub_mono[of now now] by (fastforce simp: no_older_def age_part_def split: option.splits)
  have "link_rank s \<le> link_rank s'" using assms by (simp add: no_safer_def)
  then show "repo_part s' \<le> repo_part s" by (auto simp: link_rank_def repo_part_def Let_def split: if_splits)
  have att: "attested s' \<le> attested s" using assms by (simp add: no_safer_def attested_def)
  have "ts_IsVulnerable s \<le> ts_IsVulnerable s'" "ts_MaxCVSS s \<le> ts_MaxCVSS s'"
    using assms by (simp_all add: no_safer_def)
  then show "vuln_status s' \<le> vuln_status s" by (auto simp: vuln_status_def split: if_splits)
  have "ts_AttestationFirst s' = ts_AttestationFirst s" "attested s' \<le> attested s"
    using assms att by (simp_all add: no_safer_def)
  then show "provenance_part s' \<le> provenance_part s" by (auto simp: provenance_part_def split: if_splits)
  have "ts_AttestationFirst s' = ts_AttestationFirst s" "attested s' \<le> attested s"
    using assms att by (simp_all add: no_safer_def)
  then show "attestation_base s' \<le> attestation_base s" by (auto simp: attestation_base_def split: if_splits)
  have "ts_AttestationFirst s' = ts_AttestationFirst s" "attested s' \<le> attested s" "ts_SLSALevel s' \<le> ts_SLSALevel s"
    using assms att by (simp_all add: no_safer_def)
  then show "slsa_bonus s' \<le> slsa_bonus s" by (auto simp: slsa_bonus_def split: if_splits)
  have "ts_IsSuspectedTyposquat s \<le> ts_IsSuspectedTyposquat s'" "confidence_rank (ts_TyposquatConfidence s) \<le> confidence_rank (ts_TyposquatConfidence s')"
    using assms by (simp_all add: no_safer_def)
  then show "typosquat_part s' \<le> typosquat_part s" by (auto simp: typosquat_part_def confidence_rank_def split: if_splits)
  have "ts_VersionCount s' \<le> ts_VersionCount s"
    using assms by (simp_all add: no_safer_def)
  then show "versions_part s' \<le> versions_part s" by (auto simp: versions_part_def split: if_splits)
  have "ts_HasInstallScript s \<le> ts_HasInstallScript s'" "ts_InstallScriptFetchesRemote s \<le> ts_InstallScriptFetchesRemote s'"
    using assms by (simp_all add: no_safer_def)
  then show "install_part s' \<le> install_part s" by (auto simp: install_part_def split: if_splits)
  have "ts_ImportTimeExecution s \<le> ts_ImportTimeExecution s'" "(ts_ImportTimeKind s' = ''obfuscated_exec_bare'') \<le> (ts_ImportTimeKind s = ''obfuscated_exec_bare'')"
    using assms by (simp_all add: no_safer_def)
  then show "import_part s' \<le> import_part s" by (auto simp: import_part_def split: if_splits)
  have "length (ts_VersionAnomalyFlags s) \<le> length (ts_VersionAnomalyFlags s')"
    using assms by (simp_all add: no_safer_def)
  then show "anomaly_part s' \<le> anomaly_part s" by (auto simp: anomaly_part_def Let_def split: if_splits)
  have "ts_HasInstallScript s \<le> ts_HasInstallScript s'" "ts_InstallScriptFetchesRemote s \<le> ts_InstallScriptFetchesRemote s'" "ts_ImportTimeExecution s \<le> ts_ImportTimeExecution s'" "ts_MaliciousIOC s \<le> ts_MaliciousIOC s'" "ts_HasHiddenUnicode s \<le> ts_HasHiddenUnicode s'" "ts_DangerousPickleOpcode s \<le> ts_DangerousPickleOpcode s'" "ts_ModelCardInjection s \<le> ts_ModelCardInjection s'" "ts_AgentToolDangerousCapability s \<le> ts_AgentToolDangerousCapability s'"
    using assms by (simp_all add: no_safer_def)
  then show "ownBytesSignalFired s \<le> ownBytesSignalFired s'" by (auto simp: ownBytesSignalFired_def)
qed

text \<open>A safer package scores at least as much, and every total is between 0 and 100.\<close>

lemma safer_scores_more:
  assumes "no_safer s s'"
  shows "sc_Total (Compute now s') \<le> sc_Total (Compute now s)"
proof (cases "ts_IsKnownMalicious s'")
  case True
  then show ?thesis using clamp_bounds by (simp add: Compute_def Let_def)
next
  case False
  have le: "(if b then - k else 0) \<le> (if a then - k else (0::int))" if "a \<le> b" "0 \<le> k" for a b k
    using that by auto
  have ge: "(if b then k else 0) \<le> (if a then k else (0::int))" if "b \<le> a" "0 \<le> k" for a b k
    using that by auto
  note d = assms[unfolded no_safer_def]
  from d False have "\<not> ts_IsKnownMalicious s" by auto
  moreover have "breakdown_sum (breakdown now s') \<le> breakdown_sum (breakdown now s)"
    unfolding breakdown_sum_def breakdown_def
    apply (simp only: Breakdown.simps no_breakdown_def)
    apply (intro add_mono order_refl le ge parts_mono[OF assms])
    using d parts_mono(10)[OF assms] by simp_all
  ultimately show ?thesis using False clamp_total_mono by (simp add: Compute_def Let_def)
qed

section \<open>Properties\<close>

text \<open>
  The total is a percentage, it is the clamped sum of the breakdown, and a known malicious version has the least.
\<close>
theorem trust_total_bounded:
  "sc_Total (Compute now s) \<in> {0..100} \<and>
   sc_Total (Compute now s) = clamp_total (breakdown_sum (sc_Breakdown (Compute now s)))"
proof -
  have "clamp_total (breakdown_sum (no_breakdown\<lparr>bd_MalwareCheck := - 100\<rparr>)) = 0"
    by (simp add: breakdown_sum_def no_breakdown_def clamp_total_def)
  then show ?thesis using clamp_bounds by (simp add: Compute_def Let_def)
qed

text \<open>
  C30: A version that has every alarm of another and no better news does not score higher: no alarm, and no conjunction
  of alarms, ever pays. Alarms and news are compared as they are observed (a repository that is archived, missing or
  owned by another, a later or unknown release date, a lower count of versions, a missing attestation), not by their points.
\<close>
theorem alarms_never_pay:
  assumes "no_safer s s'"
  shows "sc_Total (Compute now s') \<le> sc_Total (Compute now s)"
  using assms by (rule safer_scores_more)

theorem alarms_never_pay_witness:
  "sc_Total (Compute 0 (no_signals\<lparr>ts_IsSuspectedTyposquat := True, ts_HasInstallScript := True\<rparr>)) \<le> sc_Total (Compute 0 no_signals)"
  by (rule alarms_never_pay) (simp add: no_safer_def no_signals_def no_older_def link_rank_def)

text \<open>A version with every good mark.\<close>

definition good_marks :: Signals where
  "good_marks =
     no_signals\<lparr>ts_LicenseSPDX := ''MIT'', ts_VersionReleaseDate := Some 0, ts_ChecksumVerified := True, ts_SignatureVerified := True,
       ts_HasSourceRepo := True, ts_VersionCount := 3, ts_AttestationFirst := True\<rparr>"

lemma good_marks_parts: "age_part (31 * 24 * Hour) good_marks = 10"
  by (simp add: age_part_def good_marks_def time_Sub_def Hour_def)

text \<open>
  With the attestation first, a version without any attestation and with every other good mark still scores 100.
\<close>
lemma unattested_can_score_full:
  "sc_Total (Compute (31 * 24 * Hour) good_marks) = 100"
  using good_marks_parts
  by (simp add: Compute_def Let_def breakdown_def breakdown_sum_def no_breakdown_def clamp_total_def vuln_status_def
      provenance_part_def attestation_base_def slsa_bonus_def attested_def typosquat_part_def repo_part_def versions_part_def
      install_part_def import_part_def anomaly_part_def good_marks_def no_signals_def ownBytesSignalFired_def)

text \<open>
  The total is clamped, so a known exploit does not always lower it: an attested version with a low-severity flaw
  keeps its 100 when the flaw is known to be exploited.
\<close>

definition attested_flaw :: "bool \<Rightarrow> Signals" where
  "attested_flaw kev =
     good_marks\<lparr>ts_HasProvenance := True, ts_ProvenanceStatus := ''verified'', ts_SLSALevel := 4, ts_IsVulnerable := True, ts_KnownExploitedCVE := kev\<rparr>"

lemma exploit_without_cost:
  "sc_Total (Compute (31 * 24 * Hour) (attested_flaw kev)) = 100"
proof -
  have "age_part (31 * 24 * Hour) (attested_flaw kev) = 10"
    using good_marks_parts by (simp add: age_part_def attested_flaw_def)
  then show ?thesis
    by (simp add: Compute_def Let_def breakdown_def breakdown_sum_def no_breakdown_def clamp_total_def vuln_status_def
      provenance_part_def attestation_base_def slsa_bonus_def attested_def typosquat_part_def repo_part_def versions_part_def
      install_part_def import_part_def anomaly_part_def attested_flaw_def good_marks_def no_signals_def ownBytesSignalFired_def)
qed

text \<open>A suspected typosquat of low confidence with a bare install script scores 60 with the coupling.\<close>

definition coupled :: Signals where
  "coupled =
     good_marks\<lparr>ts_AttestationFirst := False, ts_HasProvenance := True, ts_ProvenanceStatus := ''verified'',
       ts_IsSuspectedTyposquat := True, ts_TyposquatConfidence := ''low'', ts_HasInstallScript := True\<rparr>"

lemma coupled_stays_above_50:
  "sc_Total (Compute (31 * 24 * Hour) coupled) = 60"
proof -
  have "age_part (31 * 24 * Hour) coupled = 10"
    using good_marks_parts by (simp add: age_part_def coupled_def)
  then show ?thesis
    by (simp add: Compute_def Let_def breakdown_def breakdown_sum_def no_breakdown_def clamp_total_def vuln_status_def
      provenance_part_def attestation_base_def slsa_bonus_def attested_def typosquat_part_def repo_part_def versions_part_def
      install_part_def import_part_def anomaly_part_def coupled_def good_marks_def no_signals_def ownBytesSignalFired_def)
qed

end
