(* ===== verification/Minified.thy ===== *)
theory Minified
  imports HiddenUnicode GoBufio
begin

text \<open>
  The detector of minified JavaScript, risk/minified.go. A package directory is a tree of named entries in the lexical
  order of the walk; the contents of a file that cannot be opened, or of a link to anything but a file, are
  \<open>None\<close>.
\<close>

definition minifiedMaxFileSize :: nat where "minifiedMaxFileSize = 5 * 1024 * 1024"
definition minifiedAvgLineLenHigh :: nat where "minifiedAvgLineLenHigh = 500"
definition minifiedMaxLineLenAbsHigh :: nat where "minifiedMaxLineLenAbsHigh = 50000"
definition minifiedAvgLineLenMed :: nat where "minifiedAvgLineLenMed = 200"

definition jsExtensions :: "string set" where "jsExtensions = {''.js'', ''.mjs'', ''.cjs''}"

definition skipDirs :: "string set" where "skipDirs = {''node_modules'', ''test'', ''tests'', ''__tests__''}"

section \<open>One file\<close>

definition is_comment :: "string \<Rightarrow> bool" where
  "is_comment line \<longleftrightarrow> HasPrefix (TrimSpace line) ''//'' \<or> HasPrefix (TrimSpace line) ''/*''"

text \<open>The loop of the scanner: lines, characters, comments and the longest line so far.\<close>

fun count_lines :: "string list \<Rightarrow> nat \<times> nat \<times> nat \<times> nat \<Rightarrow> nat \<times> nat \<times> nat \<times> nat" where
  "count_lines [] acc = acc"
| "count_lines (line # lines) (totalLines, totalChars, commentLines, maxLineLen) =
     count_lines lines
       (totalLines + 1, totalChars + length line, (if is_comment line then commentLines + 1 else commentLines),
        (if maxLineLen < length line then length line else maxLineLen))"

definition line_limit :: nat where "line_limit = 512 * 1024"

definition looksMinifiedOnDisk :: "string option \<Rightarrow> bool" where
  "looksMinifiedOnDisk content =
     (case content of
        None \<Rightarrow> False
      | Some data \<Rightarrow>
          (case count_lines (fst (scan_lines line_limit data)) (0, 0, 0, 0) of
             (totalLines, totalChars, commentLines, maxLineLen) \<Rightarrow>
               if totalLines = 0 then False
               else
                 let avg = totalChars div totalLines in
                 if minifiedAvgLineLenHigh < avg then True
                 else if minifiedMaxLineLenAbsHigh < maxLineLen then True
                 else if commentLines = 0 \<and> minifiedAvgLineLenMed < avg then True
                 else False))"

section \<open>The walk\<close>

datatype pkg_node = PFile "string option" | PDir "(string \<times> pkg_node) list" | PUnreadable

definition is_test_file :: "string \<Rightarrow> bool" where
  "is_test_file name =
     (let base = ToLower name in
      HasSuffix base ''.test.js'' \<or> HasSuffix base ''.test.mjs'' \<or> HasSuffix base ''.test.cjs'' \<or>
      HasSuffix base ''.spec.js'' \<or> HasSuffix base ''.spec.mjs'' \<or> HasSuffix base ''.spec.cjs'')"

text \<open>The decision on a file with the given name; one that cannot be opened has no lines.\<close>

definition flag_file :: "string \<Rightarrow> string option \<Rightarrow> bool" where
  "flag_file name content =
     (if ToLower (filepath_Ext name) \<notin> jsExtensions then False
      else if is_test_file name then False
      else if (case content of None \<Rightarrow> False | Some data \<Rightarrow> minifiedMaxFileSize < length data) then False
      else looksMinifiedOnDisk content)"

definition slash_join :: "string list \<Rightarrow> string" where
  "slash_join ps = (if ps = [] then ''.'' else concat (hd ps # map (\<lambda>p. CHR ''/'' # p) (tl ps)))"

text \<open>\<open>rel\<close> holds the components below the package directory, \<open>name\<close> the last one (of the root: its own name).\<close>

fun walk_minified :: "string list \<Rightarrow> string \<Rightarrow> pkg_node \<Rightarrow> string list" where
  "walk_minified rel name (PDir es) =
     (if name \<in> skipDirs then []
      else if rel \<noteq> [] \<and> slash_join rel \<noteq> ''dist'' \<and> slash_join rel \<noteq> ''lib'' \<and> 1 < length rel then []
      else concat (map (\<lambda>(n, e). walk_minified (rel @ [n]) n e) es))"
| "walk_minified rel name PUnreadable = []"
| "walk_minified rel name (PFile content) = (if flag_file name content then [slash_join rel] else [])"

text \<open>\<open>None\<close>: there is nothing at the path. The walk never returns an error.\<close>

definition DetectMinified :: "string \<Rightarrow> pkg_node option \<Rightarrow> string list" where
  "DetectMinified name root = (case root of None \<Rightarrow> [] | Some n \<Rightarrow> walk_minified [] name n)"

section \<open>What is flagged\<close>

text \<open>A file with the given contents lies at the given components.\<close>

fun file_at :: "pkg_node \<Rightarrow> string list \<Rightarrow> string option \<Rightarrow> bool" where
  "file_at (PFile c) ps content \<longleftrightarrow> ps = [] \<and> c = content"
| "file_at (PDir es) ps content \<longleftrightarrow> (\<exists>(n, e) \<in> set es. ps \<noteq> [] \<and> n = hd ps \<and> file_at e (tl ps) content)"
| "file_at PUnreadable ps content \<longleftrightarrow> False"

lemma slash_join_deep:
  assumes "1 < length rel"
  shows "CHR ''/'' \<in> set (slash_join rel)"
proof -
  from assms obtain a b cs where "rel = a # b # cs" by (cases rel; cases "tl rel") auto
  then show ?thesis by (simp add: slash_join_def)
qed

lemma scanned_dir: "(rel \<noteq> [] \<and> slash_join rel \<noteq> ''dist'' \<and> slash_join rel \<noteq> ''lib'' \<and> 1 < length rel) \<longleftrightarrow> 1 < length rel"
  using slash_join_deep[of rel] by auto

text \<open>The directories on the way from the root named \<open>name\<close> to the components \<open>ps\<close>.\<close>

definition dirs_on :: "string \<Rightarrow> string list \<Rightarrow> string set" where
  "dirs_on name ps = (if ps = [] then {} else insert name (set (butlast ps)))"

definition file_name :: "string \<Rightarrow> string list \<Rightarrow> string" where
  "file_name name ps = (if ps = [] then name else last ps)"

definition flagged_at :: "string list \<Rightarrow> string \<Rightarrow> pkg_node \<Rightarrow> string list \<Rightarrow> bool" where
  "flagged_at rel name n ps \<longleftrightarrow>
     (\<exists>content. file_at n ps content \<and> flag_file (file_name name ps) content) \<and>
     dirs_on name ps \<inter> skipDirs = {} \<and> (ps \<noteq> [] \<longrightarrow> length (rel @ ps) \<le> 2)"

lemma flagged_at_dir:
  assumes "name \<notin> skipDirs" and "length rel \<le> 1"
  shows "flagged_at rel name (PDir es) ps \<longleftrightarrow> (\<exists>(m, e) \<in> set es. \<exists>qs. ps = m # qs \<and> flagged_at (rel @ [m]) m e qs)"
proof (cases ps)
  case Nil
  then show ?thesis by (simp add: flagged_at_def split_def)
next
  case (Cons m qs)
  have "file_name name (m # qs) = file_name m qs" "dirs_on name (m # qs) \<inter> skipDirs = dirs_on m qs \<inter> skipDirs"
    using assms(1) by (auto simp: file_name_def dirs_on_def)
  moreover have "length (rel @ m # qs) \<le> 2 \<longleftrightarrow> (qs \<noteq> [] \<longrightarrow> length ((rel @ [m]) @ qs) \<le> 2)"
    using assms(2) by (cases qs) auto
  ultimately show ?thesis unfolding flagged_at_def Cons by (simp add: split_def) blast
qed

lemma flagged_at_skipped: "name \<in> skipDirs \<or> 1 < length rel \<Longrightarrow> \<not> flagged_at rel name (PDir es) ps"
  by (cases ps) (auto simp: flagged_at_def dirs_on_def)

lemma walk_minified_set: "set (walk_minified rel name n) = {slash_join (rel @ ps) | ps. flagged_at rel name n ps}"
proof (induction rel name n rule: walk_minified.induct)
  case (1 rel name es)
  show ?case
  proof (cases "name \<in> skipDirs \<or> 1 < length rel")
    case True
    then have "walk_minified rel name (PDir es) = []" by (simp only: walk_minified.simps scanned_dir) auto
    then show ?thesis using flagged_at_skipped[OF True] by simp
  next
    case False
    then have w: "walk_minified rel name (PDir es) = concat (map (\<lambda>(m, e). walk_minified (rel @ [m]) m e) es)"
      by (simp only: walk_minified.simps scanned_dir) auto
    have step: "set (walk_minified (rel @ [m]) m e) = {slash_join ((rel @ [m]) @ ps) | ps. flagged_at (rel @ [m]) m e ps}"
      if "(m, e) \<in> set es" for m e
      using 1[OF _ _ that refl] False by (simp only: scanned_dir) blast
    have "x \<in> set (walk_minified rel name (PDir es)) \<longleftrightarrow>
        (\<exists>(m, e) \<in> set es. \<exists>qs. x = slash_join ((rel @ [m]) @ qs) \<and> flagged_at (rel @ [m]) m e qs)" for x
      unfolding w using step by (auto simp: split_def)
    moreover have "flagged_at rel name (PDir es) ps \<longleftrightarrow> (\<exists>(m, e) \<in> set es. \<exists>qs. ps = m # qs \<and> flagged_at (rel @ [m]) m e qs)" for ps
      using False by (intro flagged_at_dir) auto
    ultimately show ?thesis by (simp only: set_eq_iff mem_Collect_eq split_def append_assoc append.simps) blast
  qed
qed (auto simp: flagged_at_def dirs_on_def file_name_def)

text \<open>
  C29: The flagged paths are those of the files that the heuristics flag, in the root and its immediate
  subdirectories, except below a directory on the skip list (the root's own name counts).
\<close>
theorem detected_files:
  "set (DetectMinified name (Some root)) =
     {slash_join ps | ps. (\<exists>content. file_at root ps content \<and> flag_file (file_name name ps) content) \<and>
        dirs_on name ps \<inter> skipDirs = {} \<and> length ps \<le> 2}"
  using walk_minified_set[of "[]" name root] by (auto simp: DetectMinified_def flagged_at_def)

section \<open>The heuristics\<close>

lemma count_lines_eq:
  "count_lines ls (t, c, k, m) =
     (t + length ls, c + sum_list (map length ls), k + length (filter is_comment ls), foldl max m (map length ls))"
  by (induction ls arbitrary: t c k m) (auto simp: max_def)

lemma long_first_line:
  assumes "line_limit \<le> length (takeWhile (\<lambda>c. c \<noteq> line_feed) data)"
  shows "\<not> looksMinifiedOnDisk (Some data)"
proof -
  have "data \<noteq> []" using assms by (auto simp: line_limit_def)
  then show ?thesis using scan_lines_long[OF assms] by (simp add: looksMinifiedOnDisk_def)
qed

text \<open>
  A bundle on a single line of half a mebibyte or more is never flagged: the scanner stops before it has
  delivered a line. One that is a byte shorter is.
\<close>
lemma big_bundle_is_missed:
  assumes "line_feed \<notin> set data" and "line_limit \<le> length data"
  shows "\<not> flag_file name (Some data)"
proof -
  have "takeWhile (\<lambda>c. c \<noteq> line_feed) data = data" using assms(1) by (auto simp: takeWhile_eq_all_conv)
  with assms(2) have "line_limit \<le> length (takeWhile (\<lambda>c. c \<noteq> line_feed) data)" by (simp only:)
  from long_first_line[OF this] show ?thesis by (simp add: flag_file_def)
qed

lemma smaller_bundle_is_flagged:
  assumes "line_feed \<notin> set data" and "length data < line_limit" and "minifiedMaxLineLenAbsHigh + 1 < length data"
  shows "looksMinifiedOnDisk (Some data)"
proof -
  have t: "takeWhile (\<lambda>c. c \<noteq> line_feed) data = data" using assms(1) by (auto simp: takeWhile_eq_all_conv)
  have "fst (scan_lines line_limit data) = [dropCR data]"
    using assms by (subst scan_lines.simps) (auto simp: t not_le)
  moreover have "length data \<le> length (dropCR data) + 1" by (simp add: dropCR_def)
  ultimately show ?thesis
    using assms(3) by (simp add: looksMinifiedOnDisk_def Let_def minifiedMaxLineLenAbsHigh_def minifiedAvgLineLenHigh_def)
qed

text \<open>A package in a directory that happens to be called \<open>test\<close> is not looked at.\<close>

lemma package_named_test: "DetectMinified ''test'' (Some (PDir es)) = []"
  by (simp add: DetectMinified_def skipDirs_def)

text \<open>Any subdirectory of the root is scanned, not only dist and lib.\<close>

lemma every_subdirectory_is_scanned:
  assumes "flag_file ''a.js'' c"
  shows "''src/a.js'' \<in> set (DetectMinified ''pkg'' (Some (PDir [(''src'', PDir [(''a.js'', PFile c)])])))"
  using assms by (simp add: DetectMinified_def skipDirs_def slash_join_def)

end
