(* ===== verification/Coverage.thy ===== *)
theory Coverage
  imports GoTime GoStrings
begin

text \<open>
  The fail-closed gate of coverage/: which data sources an operator declares mandatory (\<open>Posture\<close>), what a
  surface observed of them (\<open>Ledger\<close>), and whether a package may proceed (\<open>Gate\<close>); and the derivation of a ledger
  from a scan, intelligence/coverage.go. Instants are nanoseconds; the clock is an argument.
\<close>

section \<open>Statuses\<close>

type_synonym SourceStatus = string

definition StatusOK :: SourceStatus where "StatusOK = ''ok''"
definition StatusUnavailable :: SourceStatus where "StatusUnavailable = ''unavailable''"
definition StatusNotApplicable :: SourceStatus where "StatusNotApplicable = ''not_applicable''"
definition StatusError :: SourceStatus where "StatusError = ''error''"

definition unavailableCodes :: "string list" where
  "unavailableCodes =
    [''timeout'', ''context_cancelled'', ''transport'', ''breaker_open'', ''rate_limited'',
     ''registry_fetch_exhausted_retries'', ''mod_fetch_failed'', ''github_meta_fetch_failed'',
     ''gitlab_meta_fetch_failed'', ''codeberg_meta_fetch_failed'', ''bitbucket_meta_fetch_failed'',
     ''timeline_fetch_failed'', ''license_unavailable'', ''repo_check_rate_limited'',
     ''repo_check_unavailable'', ''transitive_dep_not_cached'', ''osv_bundle_dormant'',
     ''transitive_dep_superseded'', ''transitive_dep_lookup_error'']"

definition okCodes :: "string list" where
  "okCodes =
    [[], ''not_found'', ''http_404'', ''version_not_found'', ''package_not_found'',
     ''transitive_dep_constraint_conflict'']"

definition notApplicableCodes :: "string list" where
  "notApplicableCodes =
    [''ecosystem_unsupported'', ''needs_artifact'', ''version_not_evaluable'', ''coordinate_malformed'']"

definition StatusForWarnCode :: "string \<Rightarrow> SourceStatus" where
  "StatusForWarnCode raw =
     (if raw \<in> set okCodes then StatusOK
      else if raw \<in> set unavailableCodes then StatusUnavailable
      else if raw \<in> set notApplicableCodes then StatusNotApplicable
      else if HasPrefix raw ''http_'' \<and> length (drop 5 raw) = 3 \<and>
              (drop 5 raw ! 0 = CHR ''4'' \<or> drop 5 raw ! 0 = CHR ''5'') then StatusUnavailable
      else StatusError)"

section \<open>Sources\<close>

type_synonym Source = string

definition SourceMalware :: Source where "SourceMalware = ''malware''"
definition SourceCVE :: Source where "SourceCVE = ''cve''"
definition SourceTyposquat :: Source where "SourceTyposquat = ''typosquat''"
definition SourceProvenance :: Source where "SourceProvenance = ''provenance''"
definition SourceRegistryMetadata :: Source where "SourceRegistryMetadata = ''registry_metadata''"
definition SourceChecksum :: Source where "SourceChecksum = ''checksum''"
definition SourceInstallScripts :: Source where "SourceInstallScripts = ''install_scripts''"
definition SourceHiddenUnicode :: Source where "SourceHiddenUnicode = ''hidden_unicode''"

definition AllSources :: "Source list" where
  "AllSources =
     [SourceMalware, SourceCVE, SourceTyposquat, SourceProvenance, SourceRegistryMetadata, SourceChecksum,
      SourceInstallScripts, SourceHiddenUnicode]"

definition v1Allowlist :: "Source set" where
  "v1Allowlist =
     {SourceMalware, SourceCVE, SourceTyposquat, SourceProvenance, SourceRegistryMetadata, SourceChecksum,
      SourceInstallScripts, SourceHiddenUnicode}"

datatype CoverageError =
  UnknownSource string | BadVersion int | UnknownMode string | NothingRequired | NegativeGrace | BadMaxAge | GraceTooLong |
  BadDuration string | UnattestableSources string "Source list" "Source list"

definition ParseSource :: "string \<Rightarrow> CoverageError + Source" where
  "ParseSource name = (if name \<notin> v1Allowlist then Inl (UnknownSource name) else Inr name)"

section \<open>Posture\<close>

definition ModeOff :: string where "ModeOff = ''off''"
definition ModeWarn :: string where "ModeWarn = ''warn''"
definition ModeClosed :: string where "ModeClosed = ''closed''"

definition Second :: int where "Second = 1000000000"
definition DefaultGrace :: int where "DefaultGrace = 30 * Second"
definition DefaultMaxLedgerAge :: int where "DefaultMaxLedgerAge = 15 * 60 * Second"

record Posture =
  po_Version :: int
  po_Mode :: string
  po_Required :: "Source list"
  po_Grace :: int
  po_MaxLedgerAge :: int

fun first_error :: "Source list \<Rightarrow> CoverageError option" where
  "first_error [] = None"
| "first_error (s # ss) = (case ParseSource s of Inl e \<Rightarrow> Some e | Inr _ \<Rightarrow> first_error ss)"

definition Validate :: "Posture \<Rightarrow> CoverageError option" where
  "Validate p =
     (if po_Version p \<noteq> 1 then Some (BadVersion (po_Version p))
      else if po_Mode p \<noteq> ModeOff \<and> po_Mode p \<noteq> ModeWarn \<and> po_Mode p \<noteq> ModeClosed then Some (UnknownMode (po_Mode p))
      else if po_Mode p = ModeOff then None
      else if po_Required p = [] then Some NothingRequired
      else
        (case first_error (po_Required p) of
           Some e \<Rightarrow> Some e
         | None \<Rightarrow>
             if po_Grace p < 0 then Some NegativeGrace
             else if po_MaxLedgerAge p \<le> 0 then Some BadMaxAge
             else if po_MaxLedgerAge p \<le> po_Grace p then Some GraceTooLong
             else None))"

section \<open>What a surface can attest\<close>

definition metadataOnlySources :: "Source list" where
  "metadataOnlySources = [SourceMalware, SourceCVE, SourceTyposquat, SourceProvenance, SourceRegistryMetadata]"

definition artifactBoundSources :: "Source list" where
  "artifactBoundSources = [SourceChecksum, SourceInstallScripts, SourceHiddenUnicode]"

definition MetadataOnlySources :: "Source list" where "MetadataOnlySources = metadataOnlySources"
definition ArtifactBoundSources :: "Source list" where "ArtifactBoundSources = artifactBoundSources"

text \<open>The loop over the required sources: those seen are skipped.\<close>

fun unattestable :: "Source list \<Rightarrow> Source list \<Rightarrow> Source list \<Rightarrow> Source list" where
  "unattestable attestable seen [] = []"
| "unattestable attestable seen (s # ss) =
     (if s \<in> set attestable \<or> s \<in> set seen then unattestable attestable seen ss
      else s # unattestable attestable (s # seen) ss)"

definition ValidateForSurface :: "Posture \<Rightarrow> string \<Rightarrow> Source list \<Rightarrow> CoverageError option" where
  "ValidateForSurface p surface attestable =
     (case Validate p of
        Some e \<Rightarrow> Some e
      | None \<Rightarrow>
          if po_Mode p = ModeOff then None
          else
            let bad = unattestable attestable [] (po_Required p) in
            if bad = [] then None else Some (UnattestableSources surface (sort bad) attestable))"

section \<open>Ledgers\<close>

text \<open>The zero \<open>time.Time\<close> is the first instant of the year 1.\<close>

definition never_seen :: int where "never_seen = - 62135596800 * 1000000000"

record Entry =
  en_Status :: SourceStatus
  en_Producer :: string
  en_Code :: string
  en_ObservedAt :: int
  en_LastOKAt :: int

type_synonym Ledger = "Source \<rightharpoonup> Entry"

definition no_entry :: Entry where
  "no_entry = \<lparr>en_Status = [], en_Producer = [], en_Code = [], en_ObservedAt = never_seen, en_LastOKAt = never_seen\<rparr>"

definition entry_of :: "Ledger \<Rightarrow> Source \<Rightarrow> Entry" where
  "entry_of led src = (case led src of None \<Rightarrow> no_entry | Some e \<Rightarrow> e)"

section \<open>The gate\<close>

record GateDecision =
  gd_Block :: bool
  gd_Warn :: bool
  gd_Missing :: "Source list"
  gd_Reason :: string

definition no_decision :: GateDecision where
  "no_decision = \<lparr>gd_Block = False, gd_Warn = False, gd_Missing = [], gd_Reason = []\<rparr>"

definition effectiveStatus :: "Entry \<Rightarrow> Posture \<Rightarrow> int \<Rightarrow> SourceStatus" where
  "effectiveStatus e p now =
     (if en_ObservedAt e = never_seen \<or> po_MaxLedgerAge p < time_Sub now (en_ObservedAt e) then StatusUnavailable
      else if en_Status e = StatusUnavailable \<and> en_LastOKAt e \<noteq> never_seen \<and> time_Sub now (en_LastOKAt e) \<le> po_Grace p then StatusOK
      else en_Status e)"

definition Gate :: "Posture \<Rightarrow> Ledger \<Rightarrow> int \<Rightarrow> GateDecision" where
  "Gate p led now =
     (if po_Mode p = ModeOff then no_decision
      else
        let missing = filter (\<lambda>src. effectiveStatus (entry_of led src) p now = StatusUnavailable) (po_Required p) in
        if missing = [] then no_decision
        else
          let missing = sort missing;
              reason = ''required signal coverage unavailable: '' @ join_with '', '' missing
          in
            if po_Mode p = ModeWarn then \<lparr>gd_Block = False, gd_Warn = True, gd_Missing = missing, gd_Reason = reason\<rparr>
            else \<lparr>gd_Block = True, gd_Warn = False, gd_Missing = missing, gd_Reason = reason\<rparr>)"

section \<open>The ledger of a scan\<close>

definition providerToSource :: "string \<rightharpoonup> Source" where
  "providerToSource =
     [''malware'' \<mapsto> SourceMalware, ''cve'' \<mapsto> SourceCVE, ''osv'' \<mapsto> SourceCVE, ''typosquat'' \<mapsto> SourceTyposquat,
      ''provenance'' \<mapsto> SourceProvenance, ''registrymetadata'' \<mapsto> SourceRegistryMetadata, ''checksum'' \<mapsto> SourceChecksum,
      ''installscripts'' \<mapsto> SourceInstallScripts, ''hiddenunicode'' \<mapsto> SourceHiddenUnicode]"

text \<open>Of a report: when it was collected, the providers that ran, and the warnings as provider and code.\<close>

record Observation =
  ob_CollectedAt :: int
  ob_ProviderTimings :: "string list"
  ob_Warnings :: "(string \<times> string) list"

definition record_timing :: "int \<Rightarrow> string \<Rightarrow> Ledger \<Rightarrow> Ledger" where
  "record_timing at_time provider led =
     (case providerToSource provider of
        None \<Rightarrow> led
      | Some src \<Rightarrow>
          led(src \<mapsto> \<lparr>en_Status = StatusOK, en_Producer = provider, en_Code = [], en_ObservedAt = at_time, en_LastOKAt = at_time\<rparr>))"

definition record_warning :: "int \<Rightarrow> string \<times> string \<Rightarrow> Ledger \<Rightarrow> Ledger" where
  "record_warning at_time w led =
     (case providerToSource (fst w) of
        None \<Rightarrow> led
      | Some src \<Rightarrow>
          let status = StatusForWarnCode (snd w) in
          if status = StatusOK then led
          else
            let lastOK = en_LastOKAt (entry_of led src);
                lastOK = (if \<not> lastOK < at_time then never_seen else lastOK)
            in led(src \<mapsto> \<lparr>en_Status = status, en_Producer = fst w, en_Code = snd w, en_ObservedAt = at_time, en_LastOKAt = lastOK\<rparr>))"

definition LedgerFromReport :: "Observation option \<Rightarrow> Ledger" where
  "LedgerFromReport r =
     (case r of
        None \<Rightarrow> Map.empty
      | Some ob \<Rightarrow>
          fold (record_warning (ob_CollectedAt ob)) (ob_Warnings ob)
            (fold (record_timing (ob_CollectedAt ob)) (ob_ProviderTimings ob) Map.empty))"

end
