(* ===== verification/CoverageEnv.thy ===== *)
theory CoverageEnv
  imports Coverage GoDuration
begin

text \<open>
  The posture from the environment, coverage/env.go: one parser that every surface shares. The environment is a
  function from names to values, the empty string for an unset variable.
\<close>

definition EnvMode :: string where "EnvMode = ''CHAINSAW_COVERAGE_MODE''"
definition EnvRequired :: string where "EnvRequired = ''CHAINSAW_COVERAGE_REQUIRED''"
definition EnvGrace :: string where "EnvGrace = ''CHAINSAW_COVERAGE_GRACE''"
definition EnvMaxAge :: string where "EnvMaxAge = ''CHAINSAW_COVERAGE_MAX_LEDGER_AGE''"
definition EnvBreakGlass :: string where "EnvBreakGlass = ''CHAINSAW_COVERAGE_BREAK_GLASS''"

definition isTruthy :: "string \<Rightarrow> bool" where
  "isTruthy v \<longleftrightarrow> TrimSpace (ToLower v) \<in> {''1'', ''true'', ''yes'', ''on''}"

definition durationOr :: "string \<Rightarrow> int \<Rightarrow> string \<Rightarrow> CoverageError + int" where
  "durationOr raw fallback name =
     (let r = TrimSpace raw in
      if r = [] then Inr fallback
      else (case ParseDuration r of None \<Rightarrow> Inl (BadDuration name) | Some d \<Rightarrow> Inr d))"

fun required_sources :: "string list \<Rightarrow> CoverageError + Source list" where
  "required_sources [] = Inr []"
| "required_sources (raw # raws) =
     (let name = TrimSpace raw in
      if name = [] then required_sources raws
      else
        (case ParseSource name of
           Inl e \<Rightarrow> Inl e
         | Inr src \<Rightarrow> (case required_sources raws of Inl e \<Rightarrow> Inl e | Inr srcs \<Rightarrow> Inr (src # srcs))))"

definition off_posture :: Posture where
  "off_posture = \<lparr>po_Version = 1, po_Mode = ModeOff, po_Required = [], po_Grace = 0, po_MaxLedgerAge = 0\<rparr>"

text \<open>The posture or the error, and whether the break-glass callback was called.\<close>

definition PostureFromEnv :: "(string \<Rightarrow> string) \<Rightarrow> (CoverageError + Posture) \<times> bool" where
  "PostureFromEnv getenv =
     (let mode = TrimSpace (ToLower (getenv EnvMode)) in
      if mode = [] then (Inr off_posture, False)
      else if isTruthy (getenv EnvBreakGlass) then (Inr off_posture, True)
      else
        (case required_sources (split_byte CHR '','' (getenv EnvRequired)) of
           Inl e \<Rightarrow> Inl e
         | Inr req \<Rightarrow>
             (case durationOr (getenv EnvGrace) DefaultGrace EnvGrace of
                Inl e \<Rightarrow> Inl e
              | Inr grace \<Rightarrow>
                  (case durationOr (getenv EnvMaxAge) DefaultMaxLedgerAge EnvMaxAge of
                     Inl e \<Rightarrow> Inl e
                   | Inr age \<Rightarrow>
                       let p = \<lparr>po_Version = 1, po_Mode = mode, po_Required = req, po_Grace = grace, po_MaxLedgerAge = age\<rparr>
                       in (case Validate p of Some e \<Rightarrow> Inl e | None \<Rightarrow> Inr p))),
         False))"

end
