(* ===== verification/CoverageProps.thy ===== *)
theory CoverageProps
  imports CoverageEnv
begin

text \<open>
  The fail-closed gate: what blocks, that an accepted configuration is never inert or silently off, that age beats
  grace, and how a scan's failures reach the gate.
\<close>

section \<open>The gate\<close>

lemma statuses_distinct [simp]:
  "StatusOK \<noteq> StatusUnavailable" "StatusOK \<noteq> StatusError" "StatusOK \<noteq> StatusNotApplicable" "StatusUnavailable \<noteq> StatusOK"
  "StatusUnavailable \<noteq> StatusError" "StatusUnavailable \<noteq> StatusNotApplicable" "StatusError \<noteq> StatusOK"
  "StatusError \<noteq> StatusUnavailable" "StatusNotApplicable \<noteq> StatusOK" "StatusNotApplicable \<noteq> StatusUnavailable"
  by (simp_all add: StatusOK_def StatusUnavailable_def StatusError_def StatusNotApplicable_def)

lemma coverage_modes_distinct [simp]: "ModeOff \<noteq> ModeWarn" "ModeOff \<noteq> ModeClosed" "ModeWarn \<noteq> ModeOff" "ModeWarn \<noteq> ModeClosed"
  "ModeClosed \<noteq> ModeOff" "ModeClosed \<noteq> ModeWarn"
  by (simp_all add: ModeOff_def ModeWarn_def ModeClosed_def)

text \<open>A source that nothing vouches for: not observed, observed too long ago, or down for longer than the grace.\<close>

definition down :: "Posture \<Rightarrow> Ledger \<Rightarrow> int \<Rightarrow> Source \<Rightarrow> bool" where
  "down p led now src \<longleftrightarrow> effectiveStatus (entry_of led src) p now = StatusUnavailable"

lemma gate_cases:
  "Gate p led now =
     (if po_Mode p = ModeOff \<or> filter (down p led now) (po_Required p) = [] then no_decision
      else \<lparr>gd_Block = (po_Mode p \<noteq> ModeWarn), gd_Warn = (po_Mode p = ModeWarn),
            gd_Missing = sort (filter (down p led now) (po_Required p)),
            gd_Reason = ''required signal coverage unavailable: '' @ join_with '', '' (sort (filter (down p led now) (po_Required p)))\<rparr>)"
  by (simp add: Gate_def down_def[abs_def] Let_def)

text \<open>
  Warn is a dry run of closed: for the same posture, ledger and instant it names the same sources with the same
  reason, and warns exactly when closed blocks.
\<close>
theorem warn_is_a_dry_run:
  "(let w = Gate (p\<lparr>po_Mode := ModeWarn\<rparr>) led now; c = Gate (p\<lparr>po_Mode := ModeClosed\<rparr>) led now in
    gd_Warn w = gd_Block c \<and> \<not> gd_Block w \<and> \<not> gd_Warn c \<and> gd_Missing w = gd_Missing c \<and> gd_Reason w = gd_Reason c)"
proof -
  have "down (p\<lparr>po_Mode := m\<rparr>) led now = down p led now" for m by (auto simp: down_def effectiveStatus_def fun_eq_iff)
  then show ?thesis by (simp add: gate_cases Let_def no_decision_def)
qed

text \<open>The age of an observation beats the grace: nothing vouches for what it saw too long ago.\<close>

lemma too_old_is_down:
  "po_MaxLedgerAge p < time_Sub now (en_ObservedAt (entry_of led src)) \<Longrightarrow> down p led now src"
  by (simp add: down_def effectiveStatus_def)

lemma absent_is_down: "led src = None \<Longrightarrow> down p led now src"
  by (simp add: down_def effectiveStatus_def entry_of_def no_entry_def)

section \<open>Accepted configurations\<close>

lemma first_error_None: "first_error ss = None \<longleftrightarrow> set ss \<subseteq> v1Allowlist"
  by (induction ss) (auto simp: ParseSource_def)

lemma unattestable_set: "set (unattestable a seen ss) = set ss - set a - set seen"
  by (induction a seen ss rule: unattestable.induct) auto

lemma Validate_None:
  "Validate p = None \<longleftrightarrow> po_Version p = 1 \<and>
     (po_Mode p = ModeOff \<or>
      (po_Mode p = ModeWarn \<or> po_Mode p = ModeClosed) \<and> po_Required p \<noteq> [] \<and> set (po_Required p) \<subseteq> v1Allowlist \<and>
      0 \<le> po_Grace p \<and> po_Grace p < po_MaxLedgerAge p)"
  by (auto simp: Validate_def first_error_None[symmetric] split: option.splits)

text \<open>
  C27: A posture that a surface accepts is off, or it demands at least one source and only sources the surface can
  observe, with a grace that ends before the ledger is too old: a control that can fire.
\<close>
theorem accepted_posture_can_fire:
  "ValidateForSurface p surface attestable = None \<longleftrightarrow>
     po_Version p = 1 \<and>
     (po_Mode p = ModeOff \<or>
      (po_Mode p = ModeWarn \<or> po_Mode p = ModeClosed) \<and> po_Required p \<noteq> [] \<and>
      set (po_Required p) \<subseteq> v1Allowlist \<inter> set attestable \<and> 0 \<le> po_Grace p \<and> po_Grace p < po_MaxLedgerAge p)"
proof -
  have "unattestable attestable [] (po_Required p) = [] \<longleftrightarrow> set (po_Required p) \<subseteq> set attestable"
    using unattestable_set[of attestable "[]" "po_Required p"] by (metis Diff_eq_empty_iff Diff_empty empty_set set_empty)
  then show ?thesis
    using Validate_None[of p] by (auto simp: ValidateForSurface_def Let_def split: option.splits)
qed

lemma env_off:
  assumes "PostureFromEnv getenv = (Inr p, glass)" and "po_Mode p = ModeOff"
  shows "TrimSpace (ToLower (getenv EnvMode)) \<in> {[], ModeOff} \<or> isTruthy (getenv EnvBreakGlass) \<and> glass"
  using assms by (auto simp: PostureFromEnv_def Let_def split: if_splits sum.splits option.splits)

text \<open>
  The environment never turns the gate off by accident: the parsed posture is off only when the mode is unset or
  off, or when the break-glass variable is set, and then the callback was called. Any other mistake is an error.
\<close>
theorem gate_is_never_silently_off:
  assumes "PostureFromEnv getenv = (Inr p, glass)" and "po_Mode p = ModeOff"
  shows "TrimSpace (ToLower (getenv EnvMode)) \<in> {[], ModeOff} \<or> isTruthy (getenv EnvBreakGlass) \<and> glass"
  using assms by (rule env_off)

theorem gate_is_never_silently_off_witness:
  "TrimSpace (ToLower []) \<in> {[], ModeOff} \<or> isTruthy [] \<and> False"
proof -
  have "TrimSpace (ToLower []) = []" by code_simp
  then have "PostureFromEnv (\<lambda>_. []) = (Inr off_posture, False)" by (simp add: PostureFromEnv_def)
  from gate_is_never_silently_off[OF this] show ?thesis by (simp add: off_posture_def)
qed

section \<open>From a scan to the gate\<close>

text \<open>The code of the last warning that a source's providers raised and that is no answer of the source.\<close>

definition source_codes :: "Source \<Rightarrow> (string \<times> string) list \<Rightarrow> string list" where
  "source_codes src ws =
     map snd (filter (\<lambda>w. providerToSource (fst w) = Some src \<and> StatusForWarnCode (snd w) \<noteq> StatusOK) ws)"

definition ran :: "Source \<Rightarrow> string list \<Rightarrow> bool" where
  "ran src ps \<longleftrightarrow> (\<exists>p \<in> set ps. providerToSource p = Some src)"

lemma timings_ledger:
  "(case fold (record_timing t) ps led src of
      None \<Rightarrow> \<not> ran src ps \<and> led src = None
    | Some e \<Rightarrow> (if ran src ps then en_Status e = StatusOK \<and> en_ObservedAt e = t \<and> en_LastOKAt e = t else led src = Some e))"
proof (induction ps arbitrary: led)
  case Nil
  then show ?case by (simp add: ran_def split: option.splits)
next
  case (Cons p ps)
  have r: "ran src (p # ps) \<longleftrightarrow> providerToSource p = Some src \<or> ran src ps" by (auto simp: ran_def)
  show ?case using Cons.IH[of "record_timing t p led"]
    by (auto simp: r record_timing_def split: option.splits if_splits)
qed

lemma warnings_ledger:
  assumes "\<And>e. led src = Some e \<Longrightarrow> en_LastOKAt e = t \<or> en_LastOKAt e = never_seen"
  shows "source_codes src ws = [] \<Longrightarrow> fold (record_warning t) ws led src = led src"
    and "source_codes src ws \<noteq> [] \<Longrightarrow> \<exists>e. fold (record_warning t) ws led src = Some e \<and>
           en_Status e = StatusForWarnCode (last (source_codes src ws)) \<and> en_ObservedAt e = t \<and> en_LastOKAt e = never_seen"
proof -
  have "(source_codes src ws = [] \<longrightarrow> fold (record_warning t) ws led src = led src) \<and>
    (source_codes src ws \<noteq> [] \<longrightarrow> (\<exists>e. fold (record_warning t) ws led src = Some e \<and>
       en_Status e = StatusForWarnCode (last (source_codes src ws)) \<and> en_ObservedAt e = t \<and> en_LastOKAt e = never_seen))"
    using assms
  proof (induction ws rule: rev_induct)
    case Nil
    then show ?case by (simp add: source_codes_def)
  next
    case (snoc w ws)
    let ?led = "fold (record_warning t) ws led"
    have ih: "(source_codes src ws = [] \<longrightarrow> ?led src = led src) \<and>
      (source_codes src ws \<noteq> [] \<longrightarrow> (\<exists>e. ?led src = Some e \<and>
        en_Status e = StatusForWarnCode (last (source_codes src ws)) \<and> en_ObservedAt e = t \<and> en_LastOKAt e = never_seen))"
      using snoc by blast
    have ok: "en_LastOKAt e = t \<or> en_LastOKAt e = never_seen" if "?led src = Some e" for e
      using ih snoc.prems that by (cases "source_codes src ws = []") auto
    show ?case
    proof (cases "providerToSource (fst w) = Some src \<and> StatusForWarnCode (snd w) \<noteq> StatusOK")
      case True
      have "(if \<not> en_LastOKAt (entry_of ?led src) < t then never_seen else en_LastOKAt (entry_of ?led src)) = never_seen"
        using ok by (auto simp: entry_of_def no_entry_def split: option.splits)
      with True show ?thesis by (simp add: source_codes_def record_warning_def[of t w] Let_def)
    next
      case False
      then have "record_warning t w ?led src = ?led src"
        by (auto simp: record_warning_def[of t w] Let_def split: option.splits)
      moreover have "source_codes src (ws @ [w]) = source_codes src ws" using False by (auto simp: source_codes_def)
      ultimately show ?thesis using ih by simp
    qed
  qed
  then show "source_codes src ws = [] \<Longrightarrow> fold (record_warning t) ws led src = led src"
    and "source_codes src ws \<noteq> [] \<Longrightarrow> \<exists>e. fold (record_warning t) ws led src = Some e \<and>
           en_Status e = StatusForWarnCode (last (source_codes src ws)) \<and> en_ObservedAt e = t \<and> en_LastOKAt e = never_seen"
    by auto
qed

text \<open>What the gate makes of a scan, source by source.\<close>

definition scan_fails :: "Posture \<Rightarrow> Observation \<Rightarrow> int \<Rightarrow> Source \<Rightarrow> bool" where
  "scan_fails p ob now src \<longleftrightarrow>
     ob_CollectedAt ob = never_seen \<or> po_MaxLedgerAge p < time_Sub now (ob_CollectedAt ob) \<or>
     (if source_codes src (ob_Warnings ob) = [] then \<not> ran src (ob_ProviderTimings ob)
      else StatusForWarnCode (last (source_codes src (ob_Warnings ob))) = StatusUnavailable)"

lemma scan_down: "down p (LedgerFromReport (Some ob)) now src = scan_fails p ob now src"
proof -
  let ?t = "ob_CollectedAt ob" and ?ws = "ob_Warnings ob"
  let ?led0 = "fold (record_timing ?t) (ob_ProviderTimings ob) Map.empty"
  have t: "case ?led0 src of None \<Rightarrow> \<not> ran src (ob_ProviderTimings ob)
      | Some e \<Rightarrow> ran src (ob_ProviderTimings ob) \<and> en_Status e = StatusOK \<and> en_ObservedAt e = ?t \<and> en_LastOKAt e = ?t"
    using timings_ledger[where t = ?t and ps = "ob_ProviderTimings ob" and led = Map.empty and src = src] by (auto split: option.splits if_splits)
  then have l0: "en_LastOKAt e = ?t \<or> en_LastOKAt e = never_seen" if "?led0 src = Some e" for e using that by simp
  note w = warnings_ledger[where led = ?led0 and src = src and t = ?t and ws = ?ws, OF l0]
  show ?thesis
  proof (cases "source_codes src ?ws = []")
    case True
    with w(1) t show ?thesis
      by (auto simp: down_def effectiveStatus_def entry_of_def no_entry_def LedgerFromReport_def scan_fails_def split: option.splits)
  next
    case False
    with w(2) obtain e where "LedgerFromReport (Some ob) src = Some e"
      "en_Status e = StatusForWarnCode (last (source_codes src ?ws))" "en_ObservedAt e = ?t" "en_LastOKAt e = never_seen"
      by (auto simp: LedgerFromReport_def)
    with False show ?thesis by (auto simp: down_def effectiveStatus_def entry_of_def scan_fails_def)
  qed
qed

text \<open>
  C10: A closed gate refuses the package of a scan exactly when a required source failed in it. A source failed
  when the scan is undated or too old; otherwise its warnings decide, leaving out those that are an answer: if there is none
  left, it failed when none of its providers ran; if there are some, it failed when the last of them means that the source
  was not reached, and not when the last one means that the source does not apply, whether a provider ran or not.
  The grace rescues no failure of the scan itself.
\<close>
theorem closed_gate_on_a_scan:
  "gd_Block (Gate (p\<lparr>po_Mode := ModeClosed\<rparr>) (LedgerFromReport (Some ob)) now) =
     (filter (scan_fails p ob now) (po_Required p) \<noteq> [])"
proof -
  have "down (p\<lparr>po_Mode := ModeClosed\<rparr>) (LedgerFromReport (Some ob)) now = scan_fails p ob now"
    by (rule ext) (simp add: scan_down scan_fails_def)
  then show ?thesis by (simp add: gate_cases no_decision_def)
qed

text \<open>
  With two providers for a source the last warning decides: a parse error of the second covers up that the first
  had no data at all, and the gate opens.
\<close>

definition two_warnings :: "(string \<times> string) list \<Rightarrow> Observation" where
  "two_warnings ws = \<lparr>ob_CollectedAt = 0, ob_ProviderTimings = [''osv'', ''cve''], ob_Warnings = ws\<rparr>"

definition closed_on_cve :: Posture where
  "closed_on_cve =
     \<lparr>po_Version = 1, po_Mode = ModeClosed, po_Required = [SourceCVE], po_Grace = DefaultGrace, po_MaxLedgerAge = DefaultMaxLedgerAge\<rparr>"

lemma codes: "StatusForWarnCode ''osv_bundle_dormant'' = StatusUnavailable" "StatusForWarnCode ''parse_failed'' = StatusError"
  by (simp_all add: StatusForWarnCode_def okCodes_def unavailableCodes_def notApplicableCodes_def HasPrefix_def)

lemma later_warning_opens_the_gate:
  "\<not> gd_Block (Gate closed_on_cve (LedgerFromReport (Some (two_warnings [(''osv'', ''osv_bundle_dormant''), (''cve'', ''parse_failed'')]))) 0) \<and>
   gd_Block (Gate closed_on_cve (LedgerFromReport (Some (two_warnings [(''cve'', ''parse_failed''), (''osv'', ''osv_bundle_dormant'')]))) 0)"
proof -
  have ps: "providerToSource ''osv'' = Some SourceCVE" "providerToSource ''cve'' = Some SourceCVE"
    by (simp_all add: providerToSource_def)
  have now: "0 \<noteq> never_seen" "\<not> DefaultMaxLedgerAge < time_Sub 0 0"
    by (simp_all add: never_seen_def DefaultMaxLedgerAge_def Second_def time_Sub_def)
  show ?thesis
    using now codes
    by (simp add: gate_cases scan_down scan_fails_def closed_on_cve_def two_warnings_def source_codes_def ps no_decision_def)
qed

end
