(* ===== verification/SafeDialer.thy ===== *)
theory SafeDialer
  imports GoNet
begin

text \<open>
  The guard against server-side request forgery, httpclient/safedialer.go: which addresses and host names the server
  must not connect to, what the environment may release, and the dialer that checks every resolved address and
  dials the address itself. Resolution and the socket are arguments.
\<close>

section \<open>Addresses\<close>

text \<open>A \<open>net.IP\<close>: nil, four bytes, sixteen bytes, or a slice of another length.\<close>

datatype net_IP = NilIP | IP4 "32 word" | IP16 "128 word" | OddIP

definition To4 :: "net_IP \<Rightarrow> 32 word option" where
  "To4 ip =
     (case ip of
        IP4 w \<Rightarrow> Some w
      | IP16 w \<Rightarrow> if drop_bit 32 w = 0xFFFF then Some (ucast w) else None
      | _ \<Rightarrow> None)"

text \<open>\<open>net.ParseIP\<close>: an address without a zone, in sixteen bytes.\<close>

definition ParseIP :: "string \<Rightarrow> net_IP option" where
  "ParseIP s =
     (case ParseAddr s of
        Some (V4 w) \<Rightarrow> Some (IP16 (push_bit 32 0xFFFF OR ucast w))
      | Some (V6 w zone) \<Rightarrow> if zone = [] then Some (IP16 w) else None
      | None \<Rightarrow> None)"

section \<open>The tables\<close>

datatype blockClass = blockNone | blockMetadata | blockCGNAT | blockReserved

record 'w cidrRule =
  rule_cidr :: string
  rule_net :: 'w
  rule_bits :: nat
  rule_reason :: string
  rule_class :: blockClass

definition blockedV4 :: "32 word cidrRule list" where
  "blockedV4 = [
    \<lparr>rule_cidr = ''0.0.0.0/8'', rule_net = 0x0, rule_bits = 8, rule_reason = ''unspecified / this-network address (RFC 1122)'', rule_class = blockReserved\<rparr>,
    \<lparr>rule_cidr = ''10.0.0.0/8'', rule_net = 0xA000000, rule_bits = 8, rule_reason = ''private address (RFC 1918)'', rule_class = blockReserved\<rparr>,
    \<lparr>rule_cidr = ''100.64.0.0/10'', rule_net = 0x64400000, rule_bits = 10, rule_reason = ''carrier-grade NAT address (RFC 6598)'', rule_class = blockCGNAT\<rparr>,
    \<lparr>rule_cidr = ''127.0.0.0/8'', rule_net = 0x7F000000, rule_bits = 8, rule_reason = ''loopback address'', rule_class = blockReserved\<rparr>,
    \<lparr>rule_cidr = ''169.254.0.0/16'', rule_net = 0xA9FE0000, rule_bits = 16, rule_reason = ''link-local address (RFC 3927, cloud metadata)'', rule_class = blockReserved\<rparr>,
    \<lparr>rule_cidr = ''172.16.0.0/12'', rule_net = 0xAC100000, rule_bits = 12, rule_reason = ''private address (RFC 1918)'', rule_class = blockReserved\<rparr>,
    \<lparr>rule_cidr = ''192.0.0.0/24'', rule_net = 0xC0000000, rule_bits = 24, rule_reason = ''IETF protocol-assignment address (RFC 6890)'', rule_class = blockReserved\<rparr>,
    \<lparr>rule_cidr = ''192.168.0.0/16'', rule_net = 0xC0A80000, rule_bits = 16, rule_reason = ''private address (RFC 1918)'', rule_class = blockReserved\<rparr>,
    \<lparr>rule_cidr = ''198.18.0.0/15'', rule_net = 0xC6120000, rule_bits = 15, rule_reason = ''benchmarking address (RFC 2544)'', rule_class = blockReserved\<rparr>,
    \<lparr>rule_cidr = ''224.0.0.0/4'', rule_net = 0xE0000000, rule_bits = 4, rule_reason = ''multicast address'', rule_class = blockReserved\<rparr>,
    \<lparr>rule_cidr = ''240.0.0.0/4'', rule_net = 0xF0000000, rule_bits = 4, rule_reason = ''reserved / future-use address (RFC 1112)'', rule_class = blockReserved\<rparr>]"

definition blockedV6 :: "128 word cidrRule list" where
  "blockedV6 = [
    \<lparr>rule_cidr = ''::/128'', rule_net = 0x0, rule_bits = 128, rule_reason = ''unspecified address'', rule_class = blockReserved\<rparr>,
    \<lparr>rule_cidr = ''::1/128'', rule_net = 0x1, rule_bits = 128, rule_reason = ''loopback address'', rule_class = blockReserved\<rparr>,
    \<lparr>rule_cidr = ''fc00::/7'', rule_net = 0xFC000000000000000000000000000000, rule_bits = 7, rule_reason = ''unique-local address (RFC 4193)'', rule_class = blockReserved\<rparr>,
    \<lparr>rule_cidr = ''fe80::/10'', rule_net = 0xFE800000000000000000000000000000, rule_bits = 10, rule_reason = ''link-local address'', rule_class = blockReserved\<rparr>,
    \<lparr>rule_cidr = ''ff00::/8'', rule_net = 0xFF000000000000000000000000000000, rule_bits = 8, rule_reason = ''multicast address'', rule_class = blockReserved\<rparr>]"

text \<open>The metadata endpoints, by address: the code looks them up by their canonical text, which determines the address.\<close>

definition metadataV4 :: "(32 word \<times> string) list" where
  "metadataV4 = [
    (0xA9FEA9FE, ''cloud instance-metadata endpoint (AWS/GCE/Azure/OpenStack IMDS)''),
    (0x646464C8, ''cloud instance-metadata endpoint (Alibaba Cloud)''),
    (0xC00000C0, ''cloud instance-metadata endpoint (Oracle Cloud)'')]"

definition metadataV6 :: "(128 word \<times> string) list" where
  "metadataV6 = [
    (0xFD000EC2000000000000000000000254, ''cloud instance-metadata endpoint (AWS IMDS over IPv6)'')]"

definition reservedHostnames :: "string list" where
  "reservedHostnames = [
    ''localhost'', ''metadata.google.internal'', ''metadata.goog'', ''instance-data'', ''169.254.169.254'', ''100.100.100.200'', ''192.0.0.192'']"

definition reservedSuffixes :: "string list" where
  "reservedSuffixes = [''.local'', ''.internal'', ''.localhost'', ''.localdomain'']"

definition AllowPrivateUpstreamsEnv :: string where "AllowPrivateUpstreamsEnv = ''CHAINSAW_ALLOW_PRIVATE_UPSTREAMS''"
definition AllowCGNATUpstreamsEnv :: string where "AllowCGNATUpstreamsEnv = ''CHAINSAW_ALLOW_CGNAT_UPSTREAMS''"

section \<open>Classification\<close>

definition in_net :: "'a::len word cidrRule \<Rightarrow> 'a word \<Rightarrow> bool" where
  "in_net r w \<longleftrightarrow> drop_bit (LENGTH('a) - rule_bits r) w = drop_bit (LENGTH('a) - rule_bits r) (rule_net r)"

text \<open>The reason and the class of a rule; \<open>classify_word\<close> goes through the literals, the table and the backstop.\<close>

definition classify_word ::
  "('a::len word \<times> string) list \<Rightarrow> 'a word cidrRule list \<Rightarrow> ('a word \<Rightarrow> bool) \<Rightarrow> 'a word \<Rightarrow> string \<times> blockClass" where
  "classify_word literals table global_unicast w =
     (case map_of literals w of
        Some reason \<Rightarrow> (reason, blockMetadata)
      | None \<Rightarrow>
          (case find (\<lambda>r. in_net r w) table of
             Some r \<Rightarrow> (rule_reason r, rule_class r)
           | None \<Rightarrow>
               if \<not> global_unicast w then (''not a globally routable unicast address'', blockReserved)
               else ([], blockNone)))"

text \<open>\<open>IP.IsGlobalUnicast\<close>: not broadcast, unspecified, loopback, multicast or link-local.\<close>

definition global_unicast4 :: "32 word \<Rightarrow> bool" where
  "global_unicast4 w \<longleftrightarrow>
     w \<noteq> 0xFFFFFFFF \<and> w \<noteq> 0 \<and> drop_bit 24 w \<noteq> 127 \<and> drop_bit 28 w \<noteq> 14 \<and> drop_bit 16 w \<noteq> 0xA9FE"

definition global_unicast6 :: "128 word \<Rightarrow> bool" where
  "global_unicast6 w \<longleftrightarrow> w \<noteq> 0 \<and> w \<noteq> 1 \<and> drop_bit 120 w \<noteq> 0xFF \<and> drop_bit 118 w \<noteq> 0x3FA"

definition classifyIP :: "net_IP \<Rightarrow> string \<times> blockClass" where
  "classifyIP ip =
     (case ip of
        NilIP \<Rightarrow> (''invalid address'', blockReserved)
      | OddIP \<Rightarrow> (''not a globally routable unicast address'', blockReserved)
      | _ \<Rightarrow>
          (case To4 ip of
             Some w \<Rightarrow> classify_word metadataV4 blockedV4 global_unicast4 w
           | None \<Rightarrow>
               (case ip of
                  IP16 w \<Rightarrow> classify_word metadataV6 blockedV6 global_unicast6 w
                | _ \<Rightarrow> (''not a globally routable unicast address'', blockReserved))))"

definition isBlockedIP :: "net_IP \<Rightarrow> bool" where
  "isBlockedIP ip \<longleftrightarrow> snd (classifyIP ip) \<noteq> blockNone"

section \<open>The environment\<close>

definition envTruthy :: "(string \<Rightarrow> string) \<Rightarrow> string \<Rightarrow> bool" where
  "envTruthy getenv name \<longleftrightarrow> ToLower (TrimSpace (getenv name)) \<in> {''1'', ''true'', ''yes'', ''on''}"

definition allowPrivateUpstreams :: "(string \<Rightarrow> string) \<Rightarrow> bool" where
  "allowPrivateUpstreams getenv = envTruthy getenv AllowPrivateUpstreamsEnv"

definition allowCGNATUpstreams :: "(string \<Rightarrow> string) \<Rightarrow> bool" where
  "allowCGNATUpstreams getenv = envTruthy getenv AllowCGNATUpstreamsEnv"

definition allowedGiven :: "blockClass \<Rightarrow> bool \<Rightarrow> bool \<Rightarrow> bool" where
  "allowedGiven c private cgnat =
     (case c of
        blockNone \<Rightarrow> True
      | blockMetadata \<Rightarrow> False
      | blockCGNAT \<Rightarrow> private \<or> cgnat
      | blockReserved \<Rightarrow> private)"

record OutboundIPVerdict =
  ov_Blocked :: bool
  ov_Reason :: string
  ov_EnvHatch :: string

definition ClassifyOutboundIP :: "(string \<Rightarrow> string) \<Rightarrow> net_IP \<Rightarrow> OutboundIPVerdict" where
  "ClassifyOutboundIP getenv ip =
     (case classifyIP ip of
        (reason, blockNone) \<Rightarrow> \<lparr>ov_Blocked = False, ov_Reason = [], ov_EnvHatch = []\<rparr>
      | (reason, blockCGNAT) \<Rightarrow>
          if allowCGNATUpstreams getenv then \<lparr>ov_Blocked = False, ov_Reason = [], ov_EnvHatch = []\<rparr>
          else \<lparr>ov_Blocked = True, ov_Reason = reason, ov_EnvHatch = AllowCGNATUpstreamsEnv\<rparr>
      | (reason, _) \<Rightarrow> \<lparr>ov_Blocked = True, ov_Reason = reason, ov_EnvHatch = []\<rparr>)"

definition IsReservedHostname :: "string \<Rightarrow> bool" where
  "IsReservedHostname host =
     (let t = ToLower (TrimSpace host); h = (if HasSuffix t ''.'' then butlast t else t) in
      if h = [] then False
      else if h \<in> set reservedHostnames then True
      else if list_ex (HasSuffix h) reservedSuffixes then True
      else HasPrefix h ''localhost.'')"

section \<open>The dialer\<close>

text \<open>
  How a dial ends: connected, refused by the guard for a reason, or failed for another. The first component is the
  list of the addresses to which a connection was attempted, in order.
\<close>

datatype dial_outcome = Connected net_IP | RefusedIP net_IP string blockClass | DialError string

definition want_families :: "string \<Rightarrow> bool \<times> bool" where
  "want_families network =
     (if network \<in> {''tcp4'', ''udp4'', ''ip4''} then (True, False)
      else if network \<in> {''tcp6'', ''udp6'', ''ip6''} then (False, True) else (True, True))"

fun dial_resolved ::
  "(net_IP \<Rightarrow> string option) \<Rightarrow> string \<Rightarrow> bool \<Rightarrow> bool \<Rightarrow> dial_outcome option \<Rightarrow> net_IP list
    \<Rightarrow> net_IP list \<times> dial_outcome option" where
  "dial_resolved dial network private cgnat firstErr [] = ([], firstErr)"
| "dial_resolved dial network private cgnat firstErr (ip # ips) =
     (let isV4 = To4 ip \<noteq> None; (wantV4, wantV6) = want_families network in
      if isV4 \<and> \<not> wantV4 then dial_resolved dial network private cgnat firstErr ips
      else if \<not> isV4 \<and> \<not> wantV6 then dial_resolved dial network private cgnat firstErr ips
      else
        (case classifyIP ip of
           (reason, c) \<Rightarrow>
             if \<not> allowedGiven c private cgnat then
               dial_resolved dial network private cgnat (Some (RefusedIP ip reason c)) ips
             else
               (case dial ip of
                  None \<Rightarrow> ([ip], Some (Connected ip))
                | Some err \<Rightarrow>
                    (case dial_resolved dial network private cgnat
                            (if firstErr = None then Some (DialError err) else firstErr) ips of
                       (tried, r) \<Rightarrow> (ip # tried, r)))))"

text \<open>\<open>resolve\<close> answers with an error or the addresses of a name; \<open>dial\<close> with an error or a connection.\<close>

definition DialContext ::
  "(string \<Rightarrow> string) \<Rightarrow> (string \<Rightarrow> string + net_IP list) \<Rightarrow> (net_IP \<Rightarrow> string option) \<Rightarrow> string \<Rightarrow> string
    \<Rightarrow> net_IP list \<times> dial_outcome" where
  "DialContext getenv resolve dial network host =
     (let private = allowPrivateUpstreams getenv; cgnat = allowCGNATUpstreams getenv in
      case ParseIP host of
        Some ip \<Rightarrow>
          (case classifyIP ip of
             (reason, c) \<Rightarrow>
               if \<not> allowedGiven c private cgnat then ([], RefusedIP ip reason c)
               else ([ip], case dial ip of None \<Rightarrow> Connected ip | Some err \<Rightarrow> DialError err))
      | None \<Rightarrow>
          (case resolve host of
             Inl err \<Rightarrow> ([], DialError err)
           | Inr ips \<Rightarrow>
               if ips = [] then ([], DialError (''httpclient: no addresses resolved for '' @ host))
               else
                 (case dial_resolved dial network private cgnat None ips of
                    (tried, Some r) \<Rightarrow> (tried, r)
                  | (tried, None) \<Rightarrow> (tried, DialError (''httpclient: no dialable addresses for '' @ host)))))"

end
