(* ===== verification/SafeDialerProps.thy ===== *)
theory SafeDialerProps
  imports SafeDialer
begin

text \<open>
  The guard against request forgery: the tables as intervals of addresses, and what the dialer can connect to.
\<close>

section \<open>Tables\<close>

text \<open>The internal and the carrier-grade ranges, and the metadata endpoints, as numbers.\<close>

definition internal4 :: "nat set" where
  "internal4 =
     {0x00000000..0x00FFFFFF} \<union> {0x0A000000..0x0AFFFFFF} \<union> {0x7F000000..0x7FFFFFFF} \<union> {0xA9FE0000..0xA9FEFFFF} \<union>
     {0xAC100000..0xAC1FFFFF} \<union> {0xC0000000..0xC00000FF} \<union> {0xC0A80000..0xC0A8FFFF} \<union> {0xC6120000..0xC613FFFF} \<union>
     {0xE0000000..0xFFFFFFFF}"

definition cgnat4 :: "nat set" where "cgnat4 = {0x64400000..0x647FFFFF}"

definition metadata4 :: "nat set" where "metadata4 = {0xA9FEA9FE, 0x646464C8, 0xC00000C0}"

definition internal6 :: "nat set" where
  "internal6 = {0, 1} \<union> {0xFC * 2 ^ 120..0xFE * 2 ^ 120 - 1} \<union> {0xFE8 * 2 ^ 116..0xFEC * 2 ^ 116 - 1} \<union> {0xFF * 2 ^ 120..2 ^ 128 - 1}"

definition metadata6 :: "nat set" where "metadata6 = {0xFD000EC2000000000000000000000254}"

lemma div_interval: "u div 2 ^ k = b \<longleftrightarrow> b * 2 ^ k \<le> u \<and> u < (b + 1) * 2 ^ k" for u b :: nat
proof
  assume "u div 2 ^ k = b"
  then show "b * 2 ^ k \<le> u \<and> u < (b + 1) * 2 ^ k"
    using div_times_less_eq_dividend[of u "2 ^ k"] dividend_less_times_div[of "2 ^ k" u] by (simp add: algebra_simps)
next
  assume "b * 2 ^ k \<le> u \<and> u < (b + 1) * 2 ^ k"
  then show "u div 2 ^ k = b" by (intro div_nat_eqI) (simp_all add: algebra_simps)
qed

lemma unat_drop_div: "unat (drop_bit k v) = unat v div 2 ^ k" for v :: "'a::len word"
  unfolding unat_drop_bit_eq by (simp only: drop_bit_eq_div)

lemma in_net_interval:
  fixes w :: "'a::len word"
  assumes "k = LENGTH('a) - rule_bits r" and "unat (rule_net r) div 2 ^ k = b"
  shows "in_net r w \<longleftrightarrow> b * 2 ^ k \<le> unat w \<and> unat w < (b + 1) * 2 ^ k"
proof -
  have "in_net r w \<longleftrightarrow> unat (drop_bit k w) = unat (drop_bit k (rule_net r))"
    unfolding assms(1) in_net_def by (rule word_eq_iff_unsigned)
  also have "\<dots> \<longleftrightarrow> unat w div 2 ^ k = b"
    unfolding unat_drop_div assms(2) ..
  finally show ?thesis unfolding div_interval .
qed

text \<open>The interval of a rule, by its network and its length.\<close>

lemma in_net4:
  "in_net \<lparr>rule_cidr = c, rule_net = n, rule_bits = b, rule_reason = rs, rule_class = k\<rparr> (w :: 32 word) \<longleftrightarrow>
     unat n div 2 ^ (32 - b) * 2 ^ (32 - b) \<le> unat w \<and> unat w < (unat n div 2 ^ (32 - b) + 1) * 2 ^ (32 - b)"
  by (rule in_net_interval) simp_all

lemma in_net6:
  "in_net \<lparr>rule_cidr = c, rule_net = n, rule_bits = b, rule_reason = rs, rule_class = k\<rparr> (w :: 128 word) \<longleftrightarrow>
     unat n div 2 ^ (128 - b) * 2 ^ (128 - b) \<le> unat w \<and> unat w < (unat n div 2 ^ (128 - b) + 1) * 2 ^ (128 - b)"
  by (rule in_net_interval) simp_all

lemma unat_bound4: "unat (w :: 32 word) < 2 ^ 32" using unsigned_less[of w] by simp
lemma unat_bound6: "unat (w :: 128 word) < 2 ^ 128" using unsigned_less[of w] by simp

lemma table4_none: "find (\<lambda>r. in_net r w) blockedV4 = None \<longleftrightarrow> unat w \<notin> internal4 \<and> unat w \<notin> cgnat4"
proof -
  have "(\<exists>r \<in> set blockedV4. in_net r w) \<longleftrightarrow> unat w \<in> internal4 \<or> unat w \<in> cgnat4"
    using unat_bound4[of w]
    unfolding blockedV4_def list.set bex_simps in_net4 internal4_def cgnat4_def Un_iff atLeastAtMost_iff
    by simp presburger
  then show ?thesis unfolding find_None_iff by blast
qed

lemma table4_some:
  "find (\<lambda>r. in_net r w) blockedV4 = Some r \<Longrightarrow> rule_class r = (if unat w \<in> cgnat4 then blockCGNAT else blockReserved)"
proof -
  assume "find (\<lambda>r. in_net r w) blockedV4 = Some r"
  then have "r \<in> set blockedV4" "in_net r w" by (auto simp: find_Some_iff)
  then show ?thesis unfolding blockedV4_def list.set insert_iff empty_iff
    by (elim disjE) (simp_all add: in_net4 cgnat4_def)
qed

lemma table6_none: "find (\<lambda>r. in_net r w) blockedV6 = None \<longleftrightarrow> unat w \<notin> internal6"
proof -
  have "(\<exists>r \<in> set blockedV6. in_net r w) \<longleftrightarrow> unat w \<in> internal6"
    using unat_bound6[of w]
    unfolding blockedV6_def list.set bex_simps in_net6 internal6_def Un_iff atLeastAtMost_iff insert_iff empty_iff
    by simp presburger
  then show ?thesis unfolding find_None_iff by blast
qed

lemma table6_some: "find (\<lambda>r. in_net r w) blockedV6 = Some r \<Longrightarrow> rule_class r = blockReserved"
  by (auto simp: find_Some_iff blockedV6_def in_set_conv_nth nth_Cons' split: if_splits)

section \<open>Classes\<close>

lemma global_unicast4_table: "unat w \<notin> internal4 \<Longrightarrow> global_unicast4 w"
  unfolding global_unicast4_def word_eq_iff_unsigned[where 'a = nat] unat_drop_div div_interval internal4_def Un_iff atLeastAtMost_iff
  by simp presburger

lemma global_unicast6_table: "unat w \<notin> internal6 \<Longrightarrow> global_unicast6 w"
  unfolding global_unicast6_def word_eq_iff_unsigned[where 'a = nat] unat_drop_div div_interval internal6_def Un_iff
    atLeastAtMost_iff insert_iff empty_iff
  using unat_bound6[of w] by simp presburger

text \<open>The class of an address by its number.\<close>

definition address_class :: "net_IP \<Rightarrow> blockClass" where
  "address_class ip =
     (case To4 ip of
        Some w \<Rightarrow>
          if unat w \<in> metadata4 then blockMetadata else if unat w \<in> cgnat4 then blockCGNAT
          else if unat w \<in> internal4 then blockReserved else blockNone
      | None \<Rightarrow>
          (case ip of
             IP16 w \<Rightarrow>
               if unat w \<in> metadata6 then blockMetadata else if unat w \<in> internal6 then blockReserved else blockNone
           | _ \<Rightarrow> blockReserved))"

lemma literals4: "map_of metadataV4 w \<noteq> None \<longleftrightarrow> unat w \<in> metadata4"
  by (simp add: metadataV4_def metadata4_def word_eq_iff_unsigned[where 'a = nat])

lemma literals6: "map_of metadataV6 w \<noteq> None \<longleftrightarrow> unat w \<in> metadata6"
  by (simp add: metadataV6_def metadata6_def word_eq_iff_unsigned[where 'a = nat])

lemma classify_word4:
  "snd (classify_word metadataV4 blockedV4 global_unicast4 w) =
     (if unat w \<in> metadata4 then blockMetadata else if unat w \<in> cgnat4 then blockCGNAT
      else if unat w \<in> internal4 then blockReserved else blockNone)"
proof (cases "map_of metadataV4 w")
  case None
  with literals4[of w] have m: "unat w \<notin> metadata4" by simp
  show ?thesis
  proof (cases "find (\<lambda>r. in_net r w) blockedV4")
    case f: None
    with None m table4_none[of w] global_unicast4_table[of w] show ?thesis by (simp add: classify_word_def)
  next
    case (Some r)
    with None m table4_some[OF Some] table4_none[of w] show ?thesis by (auto simp: classify_word_def)
  qed
next
  case (Some reason)
  with literals4[of w] show ?thesis by (simp add: classify_word_def)
qed

lemma classify_word6:
  "snd (classify_word metadataV6 blockedV6 global_unicast6 w) =
     (if unat w \<in> metadata6 then blockMetadata else if unat w \<in> internal6 then blockReserved else blockNone)"
proof (cases "map_of metadataV6 w")
  case None
  with literals6[of w] have m: "unat w \<notin> metadata6" by simp
  show ?thesis
  proof (cases "find (\<lambda>r. in_net r w) blockedV6")
    case f: None
    with None m table6_none[of w] global_unicast6_table[of w] show ?thesis by (simp add: classify_word_def)
  next
    case (Some r)
    with None m table6_some[OF Some] table6_none[of w] show ?thesis by (auto simp: classify_word_def)
  qed
next
  case (Some reason)
  with literals6[of w] show ?thesis by (simp add: classify_word_def)
qed

lemma classify_class: "snd (classifyIP ip) = address_class ip"
  by (cases ip) (simp_all add: classifyIP_def address_class_def To4_def classify_word4 classify_word6)

text \<open>
  C28: The tables block exactly the internal ranges: an address is metadata, carrier-grade or reserved by its number
  alone, in four bytes or as an IPv4-mapped IPv6 address, and everything else is allowed. In particular the
  backstop behind the tables never fires for a well-formed address.
\<close>
theorem tables_are_intervals: "snd (classifyIP ip) = address_class ip"
  by (rule classify_class)

section \<open>Dialing\<close>

lemma dial_resolved_allowed:
  "set (fst (dial_resolved dial network private cgnat firstErr ips)) \<subseteq> {ip. allowedGiven (address_class ip) private cgnat}"
proof (induction ips arbitrary: firstErr)
  case (Cons ip ips)
  obtain reason c where c: "classifyIP ip = (reason, c)" by (cases "classifyIP ip")
  then have "address_class ip = c" using classify_class[of ip] by simp
  moreover have "allowedGiven (address_class x) private cgnat"
    if "dial_resolved dial network private cgnat fe ips = (t, r)" "x \<in> set t" for fe t r x
    using Cons.IH[of fe] that by auto
  ultimately show ?case using c Cons.IH by (auto simp: Let_def split: prod.splits option.splits)
qed simp

lemma dials_allowed:
  "set (fst (DialContext getenv resolve dial network host)) \<subseteq>
     {ip. allowedGiven (address_class ip) (allowPrivateUpstreams getenv) (allowCGNATUpstreams getenv)}"
proof (cases "ParseIP host")
  case None
  have "set tried \<subseteq> {ip. allowedGiven (address_class ip) (allowPrivateUpstreams getenv) (allowCGNATUpstreams getenv)}"
    if "dial_resolved dial network (allowPrivateUpstreams getenv) (allowCGNATUpstreams getenv) None ips = (tried, r)" for ips tried r
    using dial_resolved_allowed[of dial network "allowPrivateUpstreams getenv" "allowCGNATUpstreams getenv" None ips] that by simp
  with None show ?thesis by (auto simp: DialContext_def Let_def split: sum.splits prod.splits option.splits)
next
  case (Some ip)
  obtain reason c where c: "classifyIP ip = (reason, c)" by (cases "classifyIP ip")
  then have "address_class ip = c" using classify_class[of ip] by simp
  with Some c show ?thesis by (simp add: DialContext_def Let_def)
qed

text \<open>
  C11: Whatever a name resolves to and however often its answer changes, a connection is only ever attempted to an address
  that the environment allows: never to a metadata endpoint, to an internal range only with the private opt-in,
  and to the carrier-grade range only with one of the two opt-ins.
\<close>
theorem dials_only_what_is_allowed:
  "set (fst (DialContext getenv resolve dial network host)) \<subseteq>
     {ip. allowedGiven (address_class ip) (allowPrivateUpstreams getenv) (allowCGNATUpstreams getenv)}"
  by (rule dials_allowed)

text \<open>
  The IPv6 forms that a translator maps to IPv4 are not unmapped: the metadata endpoint behind the NAT64 prefix, and
  behind 6to4, passes the guard.
\<close>
lemma translated_metadata_is_allowed:
  "snd (classifyIP (IP16 0x0064FF9B0000000000000000A9FEA9FE)) = blockNone"
  "snd (classifyIP (IP16 0x2002A9FEA9FE00000000000000000000)) = blockNone"
  by (simp_all add: classify_class address_class_def To4_def metadata6_def internal6_def drop_bit_eq_div unat_div_distrib
      word_eq_iff_unsigned[where 'a = nat])

end
