(* ===== verification/Kev.thy ===== *)
theory Kev
  imports GoTime
begin

text \<open>
  The index of known exploited vulnerabilities, kev/index.go: a snapshot of the catalogue that a successful load
  replaces and a failed one leaves alone. What a fetch yields is an argument.
\<close>

definition DefaultRefreshInterval :: int where "DefaultRefreshInterval = 24 * Hour"
definition never_refreshed :: int where "never_refreshed = - 62135596800 * 1000000000"

record kev_Entry =
  kev_CVE :: string
  kev_DateAdded :: string
  kev_Ransomware :: bool

record feedEntry =
  fe_CVE :: string
  fe_DateAdded :: string
  fe_Ransomware :: string

record Index =
  ix_entries :: "string \<rightharpoonup> kev_Entry"
  ix_lastRefresh :: int
  ix_RefreshInterval :: int

definition kev_New :: Index where
  "kev_New = \<lparr>ix_entries = Map.empty, ix_lastRefresh = never_refreshed, ix_RefreshInterval = 0\<rparr>"

definition kev_Lookup :: "Index \<Rightarrow> string \<Rightarrow> kev_Entry option" where
  "kev_Lookup i cve = (if cve = [] then None else ix_entries i cve)"

text \<open>How a fetch ends: a request that cannot be built or sent, a status outside 200 to 299, or a decoded body.\<close>

datatype fetch = FetchError string | FetchStatus int | DecodeError string | Feed "feedEntry list"

definition add_entry :: "feedEntry \<Rightarrow> (string \<rightharpoonup> kev_Entry) \<Rightarrow> (string \<rightharpoonup> kev_Entry)" where
  "add_entry e m =
     (if fe_CVE e = [] then m
      else m(fe_CVE e \<mapsto> \<lparr>kev_CVE = fe_CVE e, kev_DateAdded = fe_DateAdded e, kev_Ransomware = (fe_Ransomware e = ''Known'')\<rparr>))"

definition kev_Load :: "int \<Rightarrow> fetch \<Rightarrow> Index \<Rightarrow> Index \<times> string option" where
  "kev_Load now f i =
     (case f of
        FetchError err \<Rightarrow> (i, Some (''kev: fetch: '' @ err))
      | FetchStatus code \<Rightarrow> (i, Some (''kev: fetch status '' @ itoa code))
      | DecodeError err \<Rightarrow> (i, Some (''kev: decode: '' @ err))
      | Feed es \<Rightarrow> (i\<lparr>ix_entries := fold add_entry es Map.empty, ix_lastRefresh := now\<rparr>, None))"

definition is_fresh :: "int \<Rightarrow> Index \<Rightarrow> bool" where
  "is_fresh now i \<longleftrightarrow>
     ix_lastRefresh i \<noteq> never_refreshed \<and>
     time_Sub now (ix_lastRefresh i) < (if ix_RefreshInterval i \<le> 0 then DefaultRefreshInterval else ix_RefreshInterval i)"

definition kev_EnsureFresh :: "int \<Rightarrow> fetch \<Rightarrow> Index \<Rightarrow> Index \<times> string option" where
  "kev_EnsureFresh now f i = (if is_fresh now i then (i, None) else kev_Load now f i)"

section \<open>Snapshots\<close>

lemma fold_add_entry:
  "fold add_entry es m cve =
     (case rev (filter (\<lambda>e. fe_CVE e = cve \<and> cve \<noteq> []) es) of
        [] \<Rightarrow> m cve
      | e # _ \<Rightarrow> Some \<lparr>kev_CVE = cve, kev_DateAdded = fe_DateAdded e, kev_Ransomware = (fe_Ransomware e = ''Known'')\<rparr>)"
proof (induction es arbitrary: m rule: rev_induct)
  case (snoc e es)
  then show ?case by (auto simp: add_entry_def split: list.splits)
qed simp

text \<open>
  After a load every lookup answers from one catalogue: the last entry of the feed for the identifier when the load
  succeeded, and the snapshot before it, untouched, when it failed.
\<close>
theorem lookups_are_from_one_snapshot:
  "kev_Lookup (fst (kev_Load now f i)) cve =
     (case f of
        Feed es \<Rightarrow>
          (case rev (filter (\<lambda>e. fe_CVE e = cve \<and> cve \<noteq> []) es) of
             [] \<Rightarrow> None
           | e # _ \<Rightarrow> Some \<lparr>kev_CVE = cve, kev_DateAdded = fe_DateAdded e, kev_Ransomware = (fe_Ransomware e = ''Known'')\<rparr>)
      | _ \<Rightarrow> kev_Lookup i cve)"
  by (auto simp: kev_Load_def kev_Lookup_def fold_add_entry split: fetch.splits list.splits)

end
