(* ===== verification/FeatureFlags.thy ===== *)
theory FeatureFlags
  imports GoMatch
begin

text \<open>
  Feature flags, featureflags/client.go, and the inventory of the variables that weaken enforcement,
  enforcementposture/inventory.go. The flag provider is an argument: what it answers to a key, an identity and a
  group. The environment is the list of its entries, each name once, as \<open>os.Environ\<close> gives it.
\<close>

section \<open>Environment overrides\<close>

definition envOverridePrefix :: string where "envOverridePrefix = ''CHAINSAW_FF_''"

definition envOverrideKey :: "string \<Rightarrow> string" where
  "envOverrideKey flag = envOverridePrefix @ ToUpper flag"

text \<open>\<open>None\<close>: not present.\<close>

definition parseEnvBool :: "string \<Rightarrow> bool option" where
  "parseEnvBool raw =
     (let v = ToLower (TrimSpace raw) in
      if v = [] then None else Some (v \<in> {''1'', ''true'', ''yes'', ''on''}))"

text \<open>An entry of the environment as name and value; one without a name is ignored.\<close>

definition split_entry :: "string \<Rightarrow> (string \<times> string) option" where
  "split_entry kv =
     (let k = takeWhile (\<lambda>c. c \<noteq> CHR ''='') kv in
      if k = [] \<or> length k = length kv then None else Some (k, drop (Suc (length k)) kv))"

definition LookupEnv :: "string list \<Rightarrow> string \<Rightarrow> string option" where
  "LookupEnv environ name = map_of (List.map_filter split_entry environ) name"

section \<open>Evaluation\<close>

datatype flag_value = FlagBool bool | FlagString string | FlagOther string
datatype flag_error = ErrFlagKeyEmpty | ErrProviderNotConfigured | ErrNoIdentity | ErrProviderUnreachable string

record Payload =
  pl_Key :: string
  pl_DistinctId :: string
  pl_Organization :: "string option"

record Client =
  fc_client :: "(Payload \<Rightarrow> string + flag_value) option"
  fc_overrides :: "string \<rightharpoonup> bool"

definition SetOverride :: "string \<Rightarrow> bool \<Rightarrow> Client option \<Rightarrow> Client option" where
  "SetOverride flag v c = map_option (\<lambda>c. c\<lparr>fc_overrides := (fc_overrides c)(flag \<mapsto> v)\<rparr>) c"

definition NewWithClient :: "(Payload \<Rightarrow> string + flag_value) option \<Rightarrow> Client" where
  "NewWithClient p = \<lparr>fc_client = p, fc_overrides = Map.empty\<rparr>"

text \<open>The part of \<open>EvalStrict\<close> behind the environment: the pinned value, the provider, the default.\<close>

definition asked :: "Client option \<Rightarrow> string \<Rightarrow> string \<Rightarrow> string \<Rightarrow> bool \<Rightarrow> bool \<times> flag_error option" where
  "asked c flag userID orgID defaultValue =
     (case c of
        None \<Rightarrow> (defaultValue, Some ErrProviderNotConfigured)
      | Some cl \<Rightarrow>
          (case fc_overrides cl flag of
             Some v \<Rightarrow> (v, None)
           | None \<Rightarrow>
               (case fc_client cl of
                  None \<Rightarrow> (defaultValue, Some ErrProviderNotConfigured)
                | Some isFeatureEnabled \<Rightarrow>
                    let distinct_id = (if userID = [] then ''org:'' @ orgID else ''user:'' @ userID) in
                    if distinct_id = ''user:'' \<or> distinct_id = ''org:'' then (defaultValue, Some ErrNoIdentity)
                    else
                      (case isFeatureEnabled \<lparr>pl_Key = flag, pl_DistinctId = distinct_id,
                              pl_Organization = (if orgID \<noteq> [] then Some orgID else None)\<rparr> of
                         Inl err \<Rightarrow> (defaultValue, Some (ErrProviderUnreachable err))
                       | Inr (FlagBool v) \<Rightarrow> (v, None)
                       | Inr (FlagString v) \<Rightarrow> (EqualFold v ''true'' \<or> v = ''1'', None)
                       | Inr (FlagOther t) \<Rightarrow> (defaultValue, Some (ErrProviderUnreachable (''unexpected value type '' @ t)))))))"

text \<open>The answer with its error, and the override that was consulted.\<close>

definition EvalStrict ::
  "string list \<Rightarrow> Client option \<Rightarrow> string \<Rightarrow> string \<Rightarrow> string \<Rightarrow> bool
    \<Rightarrow> (bool \<times> flag_error option) \<times> (string \<times> string) option" where
  "EvalStrict environ c flag userID orgID defaultValue =
     (if flag = [] then ((defaultValue, Some ErrFlagKeyEmpty), None)
      else
        case LookupEnv environ (envOverrideKey flag) of
          None \<Rightarrow> (asked c flag userID orgID defaultValue, None)
        | Some raw \<Rightarrow>
            (case parseEnvBool raw of
               None \<Rightarrow> (asked c flag userID orgID defaultValue, None)
             | Some v \<Rightarrow> ((v, None), Some (envOverrideKey flag, raw))))"

definition Eval :: "string list \<Rightarrow> Client option \<Rightarrow> string \<Rightarrow> string \<Rightarrow> string \<Rightarrow> bool \<Rightarrow> bool" where
  "Eval environ c flag userID orgID defaultValue = fst (fst (EvalStrict environ c flag userID orgID defaultValue))"

definition IsEnabled :: "string list \<Rightarrow> Client option \<Rightarrow> string \<Rightarrow> string \<Rightarrow> string \<Rightarrow> bool \<Rightarrow> bool" where
  "IsEnabled environ c flag userID orgID defaultValue = Eval environ c flag userID orgID defaultValue"

definition Unavailable :: "flag_error option \<Rightarrow> bool" where
  "Unavailable e = (case e of Some (ErrProviderUnreachable _) \<Rightarrow> True | _ \<Rightarrow> False)"

text \<open>\<open>recordEnvOverride\<close> on the map of the process.\<close>

definition recordEnvOverride :: "(string \<times> string) option \<Rightarrow> (string \<rightharpoonup> string) \<Rightarrow> (string \<rightharpoonup> string)" where
  "recordEnvOverride consulted m = (case consulted of None \<Rightarrow> m | Some (env, raw) \<Rightarrow> m(env \<mapsto> raw))"

definition override_step :: "string \<Rightarrow> (string \<rightharpoonup> string) \<Rightarrow> (string \<rightharpoonup> string)" where
  "override_step kv out =
     (case split_entry kv of
        None \<Rightarrow> out
      | Some (key, v) \<Rightarrow>
          if \<not> HasPrefix key envOverridePrefix then out
          else if parseEnvBool v = None then out
          else out(key \<mapsto> v))"

definition EnvOverridesInEffect :: "string list \<Rightarrow> (string \<rightharpoonup> string)" where
  "EnvOverridesInEffect environ = fold override_step environ Map.empty"

section \<open>The inventory\<close>

record Weakening =
  wk_Env :: string
  wk_Value :: string
  wk_Effect :: string

record known_variable =
  kn_env :: string
  kn_effect :: string
  kn_weakOnlyIf :: "(string \<Rightarrow> bool) option"

definition known :: "known_variable list" where
  "known = [
    \<lparr>kn_env = ''CHAINSAW_COVERAGE_BREAK_GLASS'',
      kn_effect = ''coverage fail-closed gate disabled (guard, proxy, publish, admission)'',
      kn_weakOnlyIf = None\<rparr>,
    \<lparr>kn_env = ''CHAINSAW_INTEL_BUNDLE_SKIP_VERIFY'',
      kn_effect = ''Sigstore signature verification of the intelligence bundle skipped'',
      kn_weakOnlyIf = None\<rparr>,
    \<lparr>kn_env = ''CHAINSAW_OPA_SKIP_VERIFY'',
      kn_effect = ''OPA policy-bundle signature verification skipped'',
      kn_weakOnlyIf = None\<rparr>,
    \<lparr>kn_env = ''CHAINSAW_OPA_BUNDLE_SKIP_VERIFY'',
      kn_effect = ''OPA policy-bundle signature verification skipped'',
      kn_weakOnlyIf = None\<rparr>,
    \<lparr>kn_env = ''CHAINSAW_ALLOW_INSECURE_TLS'',
      kn_effect = ''TLS certificate verification may be skipped for admin-flagged upstream hosts'',
      kn_weakOnlyIf = None\<rparr>,
    \<lparr>kn_env = ''CHAINSAW_ALLOW_PRIVATE_UPSTREAMS'',
      kn_effect = ''SSRF guard permits private/loopback/link-local upstream addresses'',
      kn_weakOnlyIf = None\<rparr>,
    \<lparr>kn_env = ''CHAINSAW_ALLOW_CGNAT_UPSTREAMS'',
      kn_effect = ''SSRF guard permits CGNAT upstream addresses'',
      kn_weakOnlyIf = None\<rparr>,
    \<lparr>kn_env = ''CHAINSAW_S3_INSECURE'',
      kn_effect = ''blob-store transport security relaxed'',
      kn_weakOnlyIf = None\<rparr>,
    \<lparr>kn_env = ''CHAINSAW_GUARD_ALLOWLIST'',
      kn_effect = ''local guard waiver file read from an operator-chosen path'',
      kn_weakOnlyIf = Some (\<lambda>v. TrimSpace v \<noteq> [])\<rparr>,
    \<lparr>kn_env = ''CHAINSAW_KEV_DISABLED'',
      kn_effect = ''CISA KEV enrichment provider disabled'',
      kn_weakOnlyIf = None\<rparr>,
    \<lparr>kn_env = ''CHAINSAW_ADMISSION_FAIL_MODE'',
      kn_effect = ''Kubernetes admission webhook fails OPEN when signals are unavailable'',
      kn_weakOnlyIf = Some (\<lambda>v. EqualFold (TrimSpace v) ''open'')\<rparr>]"

definition truthy :: "string \<Rightarrow> bool" where
  "truthy v \<longleftrightarrow> ToLower (TrimSpace v) \<in> {''1'', ''true'', ''yes'', ''on''}"

definition known_weakening :: "(string \<Rightarrow> string) \<Rightarrow> known_variable \<Rightarrow> Weakening option" where
  "known_weakening getenv k =
     (let v = getenv (kn_env k) in
      if v = [] then None
      else if \<not> (case kn_weakOnlyIf k of None \<Rightarrow> truthy v | Some f \<Rightarrow> f v) then None
      else Some \<lparr>wk_Env = kn_env k, wk_Value = v, wk_Effect = kn_effect k\<rparr>)"

definition override_weakening :: "string \<times> string \<Rightarrow> Weakening" where
  "override_weakening ev =
     \<lparr>wk_Env = fst ev, wk_Value = snd ev,
      wk_Effect = ''feature flag forced process-wide, overriding the flag provider '' @
        ''(a forced-off security flag disables the control it gates)''\<rparr>"

text \<open>The overrides in the order in which the map is enumerated.\<close>

definition Scan :: "(string \<Rightarrow> string) option \<Rightarrow> (string \<times> string) list \<Rightarrow> Weakening list" where
  "Scan getenv flagOverrides =
     (case getenv of
        None \<Rightarrow> []
      | Some g \<Rightarrow> sort_key wk_Env (List.map_filter (known_weakening g) known @ map override_weakening flagOverrides))"

definition Summary :: "Weakening list \<Rightarrow> string" where
  "Summary ws =
     (if ws = [] then [] else join_with ''; '' (map (\<lambda>x. wk_Env x @ ''='' @ wk_Value x @ '' ('' @ wk_Effect x @ '')'') ws))"

section \<open>Overrides\<close>

text \<open>An error of an evaluation always comes with the default.\<close>

lemma asked_answer: "asked c flag user org d = (v, Some e) \<Longrightarrow> v = d"
  unfolding asked_def Let_def
  by (simp split: option.split_asm sum.split_asm flag_value.split_asm if_split_asm)

lemma asked_default: "snd (asked c flag user org d) \<noteq> None \<Longrightarrow> fst (asked c flag user org d) = d"
  by (cases "asked c flag user org d") (auto dest: asked_answer)

lemma EvalStrict_default:
  "snd (fst (EvalStrict environ c flag user org d)) \<noteq> None \<Longrightarrow> fst (fst (EvalStrict environ c flag user org d)) = d"
  using asked_default[of c flag user org d] by (auto simp: EvalStrict_def split: if_splits option.splits)

text \<open>An outage is reported only when a configured provider was asked and no override was set.\<close>

lemma asked_outage:
  "Unavailable (snd (asked c flag user org d)) \<Longrightarrow> \<exists>cl. c = Some cl \<and> fc_client cl \<noteq> None \<and> fc_overrides cl flag = None"
  by (auto simp: asked_def Unavailable_def split: option.splits)

lemma outage_was_asked:
  assumes "Unavailable (snd (fst (EvalStrict environ c flag user org d)))"
  shows "\<exists>cl. c = Some cl \<and> fc_client cl \<noteq> None \<and> fc_overrides cl flag = None"
proof (rule asked_outage)
  show "Unavailable (snd (asked c flag user org d))"
    using assms by (simp add: EvalStrict_def split: if_splits option.splits) (simp_all add: Unavailable_def)
qed

text \<open>A test override shadows a wired provider.\<close>

lemma override_shadows_provider:
  "EvalStrict [] (SetOverride ''f'' v (Some (NewWithClient (Some (\<lambda>_. Inr (FlagBool (\<not> v))))))) ''f'' ''u'' [] d = ((v, None), None)"
  by (simp add: EvalStrict_def asked_def LookupEnv_def map_filter_def SetOverride_def NewWithClient_def)

lemma override_step_keeps: "m k \<noteq> None \<Longrightarrow> override_step kv m k \<noteq> None"
  by (auto simp: override_step_def split: option.splits prod.splits)

lemma fold_override_keeps: "m k \<noteq> None \<Longrightarrow> fold override_step environ m k \<noteq> None"
proof (induction environ arbitrary: m)
  case (Cons e es)
  show ?case using Cons.IH[of "override_step e m"] override_step_keeps[of m k e, OF Cons.prems] by (simp del: not_None_eq)
qed simp

lemma fold_override_has:
  assumes "kv \<in> set environ" and "split_entry kv = Some (k, v)" and "HasPrefix k envOverridePrefix" and "parseEnvBool v \<noteq> None"
  shows "fold override_step environ m k \<noteq> None"
  using assms(1)
proof (induction environ arbitrary: m)
  case (Cons e es)
  show ?case
  proof (cases "e = kv")
    case True
    with assms(2-4) have "override_step e m k \<noteq> None" by (simp add: override_step_def del: not_None_eq)
    from fold_override_keeps[of "override_step e m" k es, OF this] show ?thesis by (simp del: not_None_eq)
  next
    case False
    with Cons show ?thesis by (simp del: not_None_eq)
  qed
qed simp

lemma override_key_prefix: "HasPrefix (envOverrideKey flag) envOverridePrefix"
  by (simp add: envOverrideKey_def HasPrefix_def)

lemma consulted_in_effect:
  assumes "snd (EvalStrict environ c flag user org d) = Some (env, raw)"
  shows "EnvOverridesInEffect environ env \<noteq> None"
proof -
  from assms have l: "LookupEnv environ (envOverrideKey flag) = Some raw" "parseEnvBool raw \<noteq> None" "env = envOverrideKey flag"
    by (auto simp: EvalStrict_def Let_def split: if_splits option.splits)
  from l(1) have "(envOverrideKey flag, raw) \<in> set (List.map_filter split_entry environ)"
    by (auto simp: LookupEnv_def dest: map_of_SomeD)
  then obtain kv where "kv \<in> set environ" "split_entry kv = Some (envOverrideKey flag, raw)"
    by (auto simp: map_filter_def)
  from fold_override_has[OF this override_key_prefix l(2)] l(3) show ?thesis by (simp add: EnvOverridesInEffect_def)
qed

text \<open>
  No override of a flag is invisible: when an evaluation took its answer from the environment, the startup inventory
  over the overrides in effect names that variable.
\<close>
theorem overrides_are_visible:
  assumes "snd (EvalStrict environ c flag user org d) = Some (env, raw)" and "map_of overrides = EnvOverridesInEffect environ"
  shows "env \<in> wk_Env ` set (Scan (Some getenv) overrides)"
proof -
  from consulted_in_effect[OF assms(1)] assms(2) obtain v where "(env, v) \<in> set overrides"
    by (metis map_of_SomeD not_None_eq)
  then have "override_weakening (env, v) \<in> set (Scan (Some getenv) overrides)" by (simp add: Scan_def)
  then show ?thesis by (intro image_eqI[where x = "override_weakening (env, v)"]) (simp_all add: override_weakening_def)
qed

end
