(* ===== verification/OsvVersion.thy ===== *)
theory OsvVersion
  imports GoMatch Normalize "HOL-Library.Product_Lexorder"
begin

text \<open>
  The versions that advisories speak of, intelligence/osv/bundle.go: one comparator for each ecosystem. The orders of
  PEP 440, of RubyGems, of Maven and of semantic versions are libraries, and arguments here: what they parse, and how they
  order what they parse. NuGet's order is the program's own, and so is Homebrew's (homebrew.go). \<open>None\<close> stands for the
  error of a comparison: a version that cannot be ordered.
\<close>

section \<open>Library orders\<close>

datatype grammar = Pep440 | GemVersion | MavenVersion | SemVer

record version_libs =
  parses :: "grammar \<Rightarrow> string \<Rightarrow> bool"
  orders :: "grammar \<Rightarrow> string \<Rightarrow> string \<Rightarrow> int"

text \<open>\<open>strconv.ParseUint\<close> with base 10 and 64 bits.\<close>

definition ParseUint :: "string \<Rightarrow> nat option" where
  "ParseUint s =
     (case digits_val s of None \<Rightarrow> None | Some n \<Rightarrow> if n < 2 ^ 64 then Some (nat n) else None)"

section \<open>Ecosystems\<close>

definition CanonicalEcosystem :: "string \<Rightarrow> string" where
  "CanonicalEcosystem ecosystem =
     (let e = ToLower (TrimSpace ecosystem) in
      if e \<in> {''npm'', ''yarn'', ''bun''} then ''npm''
      else if e \<in> {''pip'', ''pypi''} then ''pypi''
      else if e \<in> {''maven'', ''gradle''} then ''maven''
      else if e \<in> {''cargo'', ''crates'', ''crates.io''} then ''cargo''
      else if e \<in> {''rubygems'', ''gem''} then ''rubygems''
      else if e = ''nuget'' then ''nuget''
      else if e \<in> {''composer'', ''packagist''} then ''packagist''
      else if e = ''pub'' then ''pub''
      else if e \<in> {''go'', ''gomod''} then ''go''
      else if e \<in> {''swift'', ''swifturl''} then ''swift''
      else if e \<in> {''homebrew'', ''brew''} then ''homebrew''
      else [])"

section \<open>Prefixes\<close>

definition ascii_digit :: "char \<Rightarrow> bool" where
  "ascii_digit c \<longleftrightarrow> 48 \<le> byte c \<and> byte c \<le> 57"

definition normalizeVersionPrefix :: "string \<Rightarrow> string" where
  "normalizeVersionPrefix v0 =
     (let v = TrimSpace v0 in
      case v of
        c # d # _ \<Rightarrow> if (c = CHR ''v'' \<or> c = CHR ''V'') \<and> ascii_digit d then tl v else v
      | _ \<Rightarrow> v)"

definition requireNumericLead :: "string \<Rightarrow> string \<Rightarrow> bool" where
  "requireNumericLead a b \<longleftrightarrow> list_all (\<lambda>v. v \<noteq> [] \<and> ascii_digit (hd v)) [a, b]"

text \<open>The text that is handed to the semantic-version library, when it parses.\<close>

definition parseSemver :: "version_libs \<Rightarrow> string \<Rightarrow> string option" where
  "parseSemver libs v =
     (let s = TrimPrefix (TrimSpace v) ''v'';
          core = takeWhile (\<lambda>c. c \<noteq> CHR ''-'' \<and> c \<noteq> CHR ''+'') s;
          suffix = drop (length core) s;
          parts = split_byte (CHR ''.'') core;
          head = join_with ''.'' (take 3 parts) @ suffix;
          s = (if 3 < length parts \<and> parses libs SemVer head then head else s)
      in if parses libs SemVer s then Some s else None)"

section \<open>NuGet\<close>

record nugetVersion =
  nv_nums :: "nat list"
  nv_pre :: string

definition parseNuGet :: "string \<Rightarrow> nugetVersion option" where
  "parseNuGet v =
     (let s = TrimPrefix (TrimSpace v) ''v'' in
      if s = [] then None
      else
        let s = takeWhile (\<lambda>c. c \<noteq> CHR ''+'') s;
            core = takeWhile (\<lambda>c. c \<noteq> CHR ''-'') s;
            pre = drop (Suc (length core)) s;
            parts = split_byte (CHR ''.'') core
        in if 4 < length parts then None
           else
             (case those (map (\<lambda>p. ParseUint (TrimSpace p)) parts) of
                None \<Rightarrow> None
              | Some ns \<Rightarrow> Some \<lparr>nv_nums = ns @ replicate (4 - length ns) 0, nv_pre = pre\<rparr>))"

fun compare_idents :: "string list \<Rightarrow> string list \<Rightarrow> int" where
  "compare_idents [] [] = 0"
| "compare_idents [] (y # ys) = -1"
| "compare_idents (x # xs) [] = 1"
| "compare_idents (x # xs) (y # ys) =
     (case (ParseUint x, ParseUint y) of
        (Some m, Some n) \<Rightarrow> if m \<noteq> n then (if m < n then -1 else 1) else compare_idents xs ys
      | (Some m, None) \<Rightarrow> -1
      | (None, Some n) \<Rightarrow> 1
      | (None, None) \<Rightarrow> if x < y then -1 else if y < x then 1 else compare_idents xs ys)"

definition compareNuGetPrerelease :: "string \<Rightarrow> string \<Rightarrow> int" where
  "compareNuGetPrerelease a b =
     (if a = [] \<and> b = [] then 0 else if a = [] then 1 else if b = [] then -1
      else compare_idents (split_byte (CHR ''.'') (ToLower a)) (split_byte (CHR ''.'') (ToLower b)))"

fun compare_nums :: "nat list \<Rightarrow> nat list \<Rightarrow> int" where
  "compare_nums (m # ms) (n # ns) = (if m < n then -1 else if n < m then 1 else compare_nums ms ns)"
| "compare_nums _ _ = 0"

definition nuget_compare :: "nugetVersion \<Rightarrow> nugetVersion \<Rightarrow> int" where
  "nuget_compare a b =
     (let c = compare_nums (nv_nums a) (nv_nums b) in
      if c \<noteq> 0 then c else compareNuGetPrerelease (nv_pre a) (nv_pre b))"

section \<open>The order of NuGet versions\<close>

text \<open>The sign of a comparison in a linear order.\<close>

definition sign_of :: "'a::linorder \<Rightarrow> 'a \<Rightarrow> int" where
  "sign_of a b = (if a < b then -1 else if b < a then 1 else 0)"

definition ident_key :: "string \<Rightarrow> nat \<times> nat \<times> string" where
  "ident_key x = (case ParseUint x of Some n \<Rightarrow> (0, n, []) | None \<Rightarrow> (1, 0, x))"

definition nuget_key :: "nugetVersion \<Rightarrow> nat list \<times> nat \<times> (nat \<times> nat \<times> string) list" where
  "nuget_key v =
     (nv_nums v,
      if nv_pre v = [] then (1, []) else (0, map ident_key (split_byte (CHR ''.'') (ToLower (nv_pre v)))))"

lemma compare_idents_key: "compare_idents xs ys = sign_of (map ident_key xs) (map ident_key ys)"
  by (induction xs ys rule: compare_idents.induct) (auto simp: sign_of_def ident_key_def split: option.splits)

lemma compare_nums_key: "length ms = length ns \<Longrightarrow> compare_nums ms ns = sign_of ms ns"
  by (induction ms ns rule: compare_nums.induct) (auto simp: sign_of_def)

lemma nuget_compare_key:
  assumes "length (nv_nums a) = length (nv_nums b)"
  shows "nuget_compare a b = sign_of (nuget_key a) (nuget_key b)"
  using assms
  by (auto simp: nuget_compare_def Let_def compare_nums_key compareNuGetPrerelease_def compare_idents_key nuget_key_def
      sign_of_def)

lemma those_length: "those xs = Some ys \<Longrightarrow> length ys = length xs"
  by (induction xs arbitrary: ys) (auto split: option.splits)

lemma parseNuGet_length: "parseNuGet v = Some n \<Longrightarrow> length (nv_nums n) = 4"
  by (auto simp: parseNuGet_def Let_def split: if_splits option.splits dest: those_length)

section \<open>Homebrew: digits\<close>

text \<open>
  The regular expression of Homebrew's tokens is a scanner here: at every position its alternatives are tried in order,
  each as long as it goes, and a position where none matches is skipped. It works on runes, each with the bytes it was
  decoded from.
\<close>

definition string_compare :: "string \<Rightarrow> string \<Rightarrow> int" where
  "string_compare a b = sign_of a b"

definition compareDigits :: "string \<Rightarrow> string \<Rightarrow> int" where
  "compareDigits a0 b0 =
     (let a = dropWhile (\<lambda>c. c = CHR ''0'') a0; b = dropWhile (\<lambda>c. c = CHR ''0'') b0 in
      if length a \<noteq> length b then (if length a < length b then -1 else 1) else string_compare a b)"

definition isDigits :: "string \<Rightarrow> bool" where
  "isDigits s \<longleftrightarrow> s \<noteq> [] \<and> list_all ascii_digit s"

text \<open>The index of the last underscore, its absence as \<open>None\<close>.\<close>

definition splitHomebrewRevision :: "string \<Rightarrow> string \<times> string" where
  "splitHomebrewRevision v0 =
     (let v = TrimSpace v0 in
      case str_LastIndex v ''_'' of
        None \<Rightarrow> (v, ''0'')
      | Some i \<Rightarrow>
          if 0 < i \<and> i < length v - 1 \<and> isDigits (drop (i + 1) v) then (take i v, drop (i + 1) v) else (v, ''0''))"

section \<open>Homebrew: tokens\<close>

datatype hbKind = hbAlpha | hbBeta | hbPre | hbRC | hbPatch | hbPost | hbNum | hbWord | hbNull

definition kind_rank :: "hbKind \<Rightarrow> nat" where
  "kind_rank k =
     (case k of hbAlpha \<Rightarrow> 0 | hbBeta \<Rightarrow> 1 | hbPre \<Rightarrow> 2 | hbRC \<Rightarrow> 3 | hbPatch \<Rightarrow> 4 | hbPost \<Rightarrow> 5 | hbNum \<Rightarrow> 6 | hbWord \<Rightarrow> 7
      | hbNull \<Rightarrow> 8)"

record hbToken =
  tok_kind :: hbKind
  tok_val :: string

definition special :: "hbToken \<Rightarrow> bool" where
  "special t \<longleftrightarrow> kind_rank (tok_kind t) \<le> kind_rank hbPost"

definition token_rev :: "hbToken \<Rightarrow> string" where
  "token_rev t =
     (let ds = takeWhile ascii_digit (dropWhile (\<lambda>c. \<not> ascii_digit c) (tok_val t)) in if ds = [] then ''0'' else ds)"

function rune_chunks :: "string \<Rightarrow> (rune \<times> string) list" where
  "rune_chunks s =
     (if s = [] then []
      else let (r, n) = DecodeRune s; k = max 1 n in (r, take k s) # rune_chunks (drop k s))"
  by pat_completeness auto
termination
  by (relation "measure length") (auto split: prod.splits)

declare rune_chunks.simps [simp del]

text \<open>Case folding of the pattern: the long s and the Kelvin sign fold to ASCII letters.\<close>

definition fold_ci :: "rune \<Rightarrow> rune" where
  "fold_ci r = (if r = 0x17F then 115 else if r = 0x212A then 107 else if 65 \<le> r \<and> r \<le> 90 then r + 32 else r)"

definition lit :: "string \<Rightarrow> (rune \<times> string) list \<Rightarrow> bool" where
  "lit w cs \<longleftrightarrow> map (fold_ci \<circ> fst) (take (length w) cs) = map byte w"

definition digit_rune :: "rune \<times> string \<Rightarrow> bool" where
  "digit_rune c \<longleftrightarrow> 48 \<le> fst c \<and> fst c \<le> 57"

definition letter_rune :: "rune \<times> string \<Rightarrow> bool" where
  "letter_rune c \<longleftrightarrow> 97 \<le> fold_ci (fst c) \<and> fold_ci (fst c) \<le> 122"

text \<open>The number of runes that match at the front; 0 for none.\<close>

definition hbScan :: "(rune \<times> string) list \<Rightarrow> nat" where
  "hbScan cs =
     (let digits = (\<lambda>k. length (takeWhile digit_rune (drop k cs))) in
      if lit ''alpha'' cs then 5 + digits 5
      else if lit ''a'' cs \<and> 0 < digits 1 then 1 + digits 1
      else if lit ''beta'' cs then 4 + digits 4
      else if lit ''b'' cs \<and> 0 < digits 1 then 1 + digits 1
      else if lit ''pre'' cs then 3 + digits 3
      else if lit ''rc'' cs then 2 + digits 2
      else if lit ''p'' cs then 1 + digits 1
      else if cs \<noteq> [] \<and> fst (hd cs) \<noteq> 10 \<and> lit ''post'' (drop 1 cs) \<and> 0 < digits 5 then 5 + digits 5
      else if 0 < digits 0 then digits 0
      else length (takeWhile letter_rune cs))"

function find_all :: "(rune \<times> string) list \<Rightarrow> string list" where
  "find_all cs =
     (if cs = [] then []
      else if hbScan cs = 0 then find_all (tl cs)
      else concat (map snd (take (hbScan cs) cs)) # find_all (drop (hbScan cs) cs))"
  by pat_completeness auto
termination
  by (relation "measure length") auto

declare find_all.simps [simp del]

definition token_kind :: "string \<Rightarrow> hbKind" where
  "token_kind m =
     (let l = ToLower m in
      if 5 < length l \<and> take 4 (drop 1 l) = ''post'' \<and> isDigits (drop 5 l) then hbPost
      else if ascii_digit (hd m) then hbNum
      else if HasPrefix l ''alpha'' \<or> hd l = CHR ''a'' \<and> 1 < length l \<and> isDigits (tl l) then hbAlpha
      else if HasPrefix l ''beta'' \<or> hd l = CHR ''b'' \<and> 1 < length l \<and> isDigits (tl l) then hbBeta
      else if HasPrefix l ''pre'' then hbPre
      else if HasPrefix l ''rc'' then hbRC
      else if hd l = CHR ''p'' \<and> (length l = 1 \<or> isDigits (tl l)) then hbPatch
      else hbWord)"

definition homebrewTokens :: "string \<Rightarrow> hbToken list" where
  "homebrewTokens v = map (\<lambda>m. \<lparr>tok_kind = token_kind m, tok_val = m\<rparr>) (find_all (rune_chunks v))"

section \<open>Comparison\<close>

definition null_against :: "hbToken \<Rightarrow> int" where
  "null_against y =
     (if tok_kind y = hbNum then - compareDigits (tok_val y) ''0''
      else if kind_rank (tok_kind y) \<le> kind_rank hbRC then 1 else -1)"

definition compareHBToken :: "hbToken \<Rightarrow> hbToken \<Rightarrow> int" where
  "compareHBToken x y =
     (if tok_kind x = hbNull \<and> tok_kind y = hbNull then 0
      else if tok_kind x = hbNull then null_against y
      else if tok_kind y = hbNull then - null_against x
      else if tok_kind x = hbNum \<and> tok_kind y = hbNum then compareDigits (tok_val x) (tok_val y)
      else if tok_kind x = hbNum then 1
      else if tok_kind y = hbNum then -1
      else if special x \<and> special y \<and> tok_kind x = tok_kind y then compareDigits (token_rev x) (token_rev y)
      else if special x \<and> special y \<and> (kind_rank (tok_kind x) \<le> kind_rank hbRC \<or> kind_rank (tok_kind y) \<le> kind_rank hbRC)
        then (if kind_rank (tok_kind x) < kind_rank (tok_kind y) then -1 else 1)
      else string_compare (tok_val x) (tok_val y))"

definition null_token :: hbToken where "null_token = \<lparr>tok_kind = hbNull, tok_val = []\<rparr>"

definition token_at :: "hbToken list \<Rightarrow> hbToken" where
  "token_at ts = (case ts of [] \<Rightarrow> null_token | t # _ \<Rightarrow> t)"

function hb_loop :: "hbToken list \<Rightarrow> hbToken list \<Rightarrow> int" where
  "hb_loop ta tb =
     (if ta = [] \<and> tb = [] then 0
      else
        let x = token_at ta; y = token_at tb; c = compareHBToken x y in
        if c = 0 then hb_loop (tl ta) (tl tb)
        else if tok_kind x = hbNum \<and> tok_kind y \<noteq> hbNum then
          (if 0 < compareDigits (tok_val x) ''0'' then 1 else hb_loop (tl ta) tb)
        else if tok_kind x \<noteq> hbNum \<and> tok_kind y = hbNum then
          (if 0 < compareDigits (tok_val y) ''0'' then -1 else hb_loop ta (tl tb))
        else c)"
  by pat_completeness auto
termination
  by (relation "measure (\<lambda>(a, b). length a + length b)") (auto simp: token_at_def null_token_def neq_Nil_conv split: list.splits)

declare hb_loop.simps [simp del]

definition hbHead :: "string \<Rightarrow> bool" where
  "hbHead v \<longleftrightarrow> v = ''HEAD'' \<or> HasPrefix v ''HEAD-'' \<and> CHR 0x0A \<notin> set (drop 5 v)"

definition compareHomebrewVersion :: "string \<Rightarrow> string \<Rightarrow> int option" where
  "compareHomebrewVersion a b =
     (if a = b then Some 0
      else if hbHead a \<or> hbHead b then Some (if hbHead a \<and> hbHead b then 0 else if hbHead a then 1 else -1)
      else
        let ta = homebrewTokens a; tb = homebrewTokens b in
        if ta = [] \<or> tb = [] then None else Some (hb_loop ta tb))"

definition compareHomebrew :: "string \<Rightarrow> string \<Rightarrow> int option" where
  "compareHomebrew a b =
     (case (splitHomebrewRevision a, splitHomebrewRevision b) of
        ((va, ra), (vb, rb)) \<Rightarrow>
          (case compareHomebrewVersion va vb of
             None \<Rightarrow> None
           | Some c \<Rightarrow> if c \<noteq> 0 then Some c else Some (compareDigits ra rb)))"

section \<open>Antisymmetry\<close>

lemma sign_of_swap: "sign_of b a = - sign_of a b"
  by (auto simp: sign_of_def)

lemma compareDigits_swap: "compareDigits b a = - compareDigits a b"
  by (simp add: compareDigits_def Let_def string_compare_def sign_of_swap[of "dropWhile _ b"])

lemma compareHBToken_swap: "compareHBToken y x = - compareHBToken x y"
proof -
  have "kind_rank (tok_kind x) = kind_rank (tok_kind y) \<longleftrightarrow> tok_kind x = tok_kind y"
    by (cases "tok_kind x"; cases "tok_kind y") (simp_all add: kind_rank_def)
  then show ?thesis
    using compareDigits_swap[of "tok_val x" "tok_val y"] compareDigits_swap[of "token_rev x" "token_rev y"]
      sign_of_swap[of "tok_val x" "tok_val y"]
    by (auto simp: compareHBToken_def string_compare_def)
qed

lemma hb_loop_swap: "hb_loop tb ta = - hb_loop ta tb"
proof (induction ta tb rule: hb_loop.induct)
  case (1 ta tb)
  define x where "x = token_at ta"
  define y where "y = token_at tb"
  have swap: "compareHBToken y x = - compareHBToken x y" by (rule compareHBToken_swap)
  note IH = 1[unfolded Let_def, folded x_def y_def]
  show ?case
    unfolding hb_loop.simps[of tb ta] hb_loop.simps[of ta tb] Let_def x_def[symmetric] y_def[symmetric]
    using IH swap by auto
qed

lemma compareHomebrewVersion_swap: "compareHomebrewVersion b a = map_option uminus (compareHomebrewVersion a b)"
  by (auto simp: compareHomebrewVersion_def Let_def hb_loop_swap[of "homebrewTokens b"])

text \<open>The order is antisymmetric: swapping the versions swaps the sign, and an error stays an error.\<close>

lemma compareHomebrew_swap: "compareHomebrew b a = map_option uminus (compareHomebrew a b)"
proof -
  obtain va ra vb rb where s: "splitHomebrewRevision a = (va, ra)" "splitHomebrewRevision b = (vb, rb)"
    by (cases "splitHomebrewRevision a"; cases "splitHomebrewRevision b") auto
  show ?thesis
    using compareHomebrewVersion_swap[of vb va] compareDigits_swap[of rb ra]
    by (auto simp: compareHomebrew_def s split: option.splits)
qed

text \<open>It is no order: 1.0 is below 1.0foo, that below 1.0rc1, and that below 1.0.\<close>

lemma split_plain: "visible v \<Longrightarrow> str_LastIndex v ''_'' = None \<Longrightarrow> splitHomebrewRevision v = (v, ''0'')"
  by (simp add: splitHomebrewRevision_def TrimSpace_visible)

lemmas token_evals = homebrewTokens_def rune_chunks.simps DecodeRune_def find_all.simps hbScan_def lit_def fold_ci_def
  digit_rune_def letter_rune_def token_kind_def ToLower_def is_ascii_def byte_lower_def ascii_digit_def isDigits_def
  HasPrefix_def

lemma cycle_tokens:
  "homebrewTokens ''1.0'' = [\<lparr>tok_kind = hbNum, tok_val = ''1''\<rparr>, \<lparr>tok_kind = hbNum, tok_val = ''0''\<rparr>]"
  "homebrewTokens ''1.0foo'' = homebrewTokens ''1.0'' @ [\<lparr>tok_kind = hbWord, tok_val = ''foo''\<rparr>]"
  "homebrewTokens ''1.0rc1'' = homebrewTokens ''1.0'' @ [\<lparr>tok_kind = hbRC, tok_val = ''rc1''\<rparr>]"
  by (simp_all add: token_evals)

lemma homebrew_cycle:
  "compareHomebrew ''1.0'' ''1.0foo'' = Some (- 1) \<and> compareHomebrew ''1.0foo'' ''1.0rc1'' = Some (- 1) \<and>
   compareHomebrew ''1.0rc1'' ''1.0'' = Some (- 1)"
proof -
  have v: "visible ''1.0''" "visible ''1.0foo''" "visible ''1.0rc1''" by (simp_all add: visible_def)
  have u: "str_LastIndex ''1.0'' ''_'' = None" "str_LastIndex ''1.0foo'' ''_'' = None" "str_LastIndex ''1.0rc1'' ''_'' = None"
    by (simp_all add: HasPrefix_def)
  have h: "\<not> hbHead ''1.0''" "\<not> hbHead ''1.0foo''" "\<not> hbHead ''1.0rc1''" by (simp_all add: hbHead_def HasPrefix_def)
  show ?thesis
    using v u h
    by (simp add: compareHomebrew_def split_plain compareHomebrewVersion_def cycle_tokens hb_loop.simps token_at_def
        null_token_def compareHBToken_def null_against_def compareDigits_def string_compare_def sign_of_def kind_rank_def
        special_def)
qed

end
