(* ===== verification/OsvIndex.thy ===== *)
theory OsvIndex
  imports OsvVersion Float64
begin

text \<open>
  The advisory index, intelligence/osv/bundle.go and overrides.go: which advisories of a package affect a version. The
  orders of the libraries are the argument \<open>libs\<close>, the reviewed corrections (overrides.json) the argument \<open>os\<close>. An
  advisory is a hit, cleared, or undecidable.
\<close>

section \<open>Comparison by ecosystem\<close>

definition by_library :: "version_libs \<Rightarrow> grammar \<Rightarrow> string \<Rightarrow> string \<Rightarrow> int option" where
  "by_library libs g a b = (if parses libs g a \<and> parses libs g b then Some (orders libs g a b) else None)"

definition compareVersions :: "version_libs \<Rightarrow> string \<Rightarrow> string \<Rightarrow> string \<Rightarrow> int option" where
  "compareVersions libs ecosystem a0 b0 =
     (let a = normalizeVersionPrefix a0; b = normalizeVersionPrefix b0; eco = CanonicalEcosystem ecosystem in
      if eco = ''nuget'' then
        (case (parseNuGet a, parseNuGet b) of (Some va, Some vb) \<Rightarrow> Some (nuget_compare va vb) | _ \<Rightarrow> None)
      else if eco = ''pypi'' then by_library libs Pep440 a b
      else if eco = ''rubygems'' then by_library libs GemVersion a b
      else if eco = ''homebrew'' then compareHomebrew a b
      else if eco = ''maven'' \<or> eco = ''packagist'' then
        (if requireNumericLead a b then by_library libs MavenVersion a b else None)
      else
        (case (parseSemver libs a, parseSemver libs b) of
           (Some va, Some vb) \<Rightarrow> Some (orders libs SemVer va vb)
         | _ \<Rightarrow> None))"

section \<open>Names\<close>

definition homebrew_NormalizeName :: "string \<Rightarrow> string" where
  "homebrew_NormalizeName name =
     (let n = ToLower (TrimSpace name) in
      if HasPrefix n ''homebrew/core/'' then TrimPrefix n ''homebrew/core/''
      else if HasPrefix n ''homebrew/cask/'' then TrimPrefix n ''homebrew/cask/'' else n)"

definition IsThirdPartyTapName :: "string \<Rightarrow> bool" where
  "IsThirdPartyTapName name =
     (let n = ToLower (TrimSpace name) in
      if length (filter (\<lambda>c. c = CHR ''/'') n) < 2 then False
      else \<not> HasPrefix n ''homebrew/core/'' \<and> \<not> HasPrefix n ''homebrew/cask/'')"

text \<open>\<open>strings.Cut\<close> at one byte.\<close>

definition cut_byte :: "char \<Rightarrow> string \<Rightarrow> (string \<times> string) option" where
  "cut_byte d s =
     (case index_byte s d of None \<Rightarrow> None | Some i \<Rightarrow> Some (take i s, drop (i + 1) s))"

definition swiftKey :: "string \<Rightarrow> string" where
  "swiftKey name =
     (let n = ToLower name;
          n = TrimPrefix (TrimPrefix n ''https://'') ''http://'';
          n = TrimSuffix (TrimSuffix n ''/'') ''.git''
      in if \<not> HasPrefix n ''github.com/'' then n
         else
           (case cut_byte (CHR ''/'') (TrimPrefix n ''github.com/'') of
              Some (owner, repo) \<Rightarrow>
                if owner \<noteq> [] \<and> repo \<noteq> [] \<and> CHR ''/'' \<notin> set repo then owner @ ''.'' @ repo else n
            | None \<Rightarrow> n))"

text \<open>\<open>[]\<close>: no key.\<close>

definition canonicalKey :: "string \<Rightarrow> string \<Rightarrow> string" where
  "canonicalKey ecosystem pkg =
     (let eco = CanonicalEcosystem ecosystem; name = TrimSpace pkg in
      if eco = [] \<or> name = [] then []
      else
        let name =
          (if eco = ''pypi'' then NormalizePyPI name
           else if eco = ''nuget'' \<or> eco = ''packagist'' then ToLower name
           else if eco = ''homebrew'' then homebrew_NormalizeName name
           else if eco = ''swift'' then swiftKey name
           else name)
        in eco @ [CHR 0x00] @ name)"

definition AbsenceIsNegative :: "string \<Rightarrow> string \<Rightarrow> bool" where
  "AbsenceIsNegative ecosystem pkg =
     (let eco = CanonicalEcosystem ecosystem in
      if eco = ''homebrew'' then \<not> IsThirdPartyTapName pkg
      else if eco = ''swift'' then
        (let k = swiftKey (TrimSpace pkg) in
         case cut_byte (CHR ''.'') k of
           None \<Rightarrow> False
         | Some (owner, repo) \<Rightarrow> owner \<noteq> [] \<and> repo \<noteq> [] \<and> CHR ''/'' \<notin> set k \<and> CHR '':'' \<notin> set k)
      else True)"

section \<open>Advisories\<close>

record VulnerableRange =
  vr_Introduced :: string
  vr_Fixed :: string
  vr_LastAffected :: string

record Advisory =
  ad_Ecosystem :: string
  ad_Package :: string
  ad_VulnerableVersions :: "string list"
  ad_VulnerableRanges :: "VulnerableRange list"
  ad_AdvisoryID :: string
  ad_Summary :: string
  ad_CVSSScore :: rat
  ad_Severity :: string
  ad_FixedVersions :: "string list"
  ad_Aliases :: "string list"
  ad_Published :: string
  ad_Modified :: string

definition PreferredCVE :: "Advisory \<Rightarrow> string" where
  "PreferredCVE a =
     (case find (\<lambda>alias. HasPrefix (ToUpper alias) ''CVE-'') (ad_Aliases a) of
        Some alias \<Rightarrow> ToUpper alias
      | None \<Rightarrow> ad_AdvisoryID a)"

section \<open>Ranges\<close>

text \<open>
  The matcher takes the comparator of the ecosystem as \<open>cmp\<close>. The loop of \<open>earliestFixAbove\<close> carries the best fix
  so far.
\<close>

definition open_lower :: "string \<Rightarrow> bool" where
  "open_lower introduced \<longleftrightarrow> TrimSpace introduced = [] \<or> TrimSpace introduced = ''0''"

fun earliest_fix :: "(string \<Rightarrow> string \<Rightarrow> int option) \<Rightarrow> string \<Rightarrow> string list \<Rightarrow> string \<Rightarrow> string" where
  "earliest_fix cmp introduced [] best = best"
| "earliest_fix cmp introduced (raw # raws) best =
     (let fix = TrimSpace raw in
      if fix = [] then earliest_fix cmp introduced raws best
      else if \<not> open_lower introduced \<and> (case cmp fix (TrimSpace introduced) of None \<Rightarrow> True | Some c \<Rightarrow> c \<le> 0) then
        earliest_fix cmp introduced raws best
      else if best = [] then earliest_fix cmp introduced raws fix
      else
        (case cmp fix best of
           None \<Rightarrow> earliest_fix cmp introduced raws best
         | Some c \<Rightarrow> earliest_fix cmp introduced raws (if c < 0 then fix else best)))"

definition earliestFixAbove :: "(string \<Rightarrow> string \<Rightarrow> int option) \<Rightarrow> string list \<Rightarrow> string \<Rightarrow> string" where
  "earliestFixAbove cmp fixedVersions introduced = earliest_fix cmp introduced fixedVersions []"

text \<open>The range without an upper bound is closed at the earliest declared fix.\<close>

definition clamp_range :: "(string \<Rightarrow> string \<Rightarrow> int option) \<Rightarrow> string list \<Rightarrow> VulnerableRange \<Rightarrow> VulnerableRange" where
  "clamp_range cmp fixedVersions r =
     (if vr_Fixed r = [] \<and> vr_LastAffected r = [] then
        (let c = earliestFixAbove cmp fixedVersions (vr_Introduced r) in if c \<noteq> [] then r\<lparr>vr_Fixed := c\<rparr> else r)
      else r)"

text \<open>One bound: \<open>None\<close> when the comparison failed, else whether the version is on the affected side.\<close>

definition bound_ok :: "(string \<Rightarrow> string \<Rightarrow> int option) \<Rightarrow> (int \<Rightarrow> bool) \<Rightarrow> bool \<Rightarrow> string \<Rightarrow> string \<Rightarrow> bool option" where
  "bound_ok cmp side absent query b =
     (if absent then Some True else map_option side (cmp query (TrimSpace b)))"

definition rangeAffectsEx :: "(string \<Rightarrow> string \<Rightarrow> int option) \<Rightarrow> VulnerableRange \<Rightarrow> string list \<Rightarrow> string \<Rightarrow> bool \<times> bool" where
  "rangeAffectsEx cmp r0 fixedVersions query =
     (let r = clamp_range cmp fixedVersions r0 in
      if vr_Introduced r = [] \<and> vr_Fixed r = [] \<and> vr_LastAffected r = [] then (True, False)
      else if vr_LastAffected r \<noteq> [] \<and> vr_LastAffected r = query then (True, False)
      else if vr_Fixed r = query then (False, False)
      else if vr_Introduced r = query then (True, False)
      else
        (case bound_ok cmp (\<lambda>c. 0 \<le> c) (open_lower (vr_Introduced r)) query (vr_Introduced r) of
           None \<Rightarrow> (False, True)
         | Some False \<Rightarrow> (False, False)
         | Some True \<Rightarrow>
             (case bound_ok cmp (\<lambda>c. c < 0) (TrimSpace (vr_Fixed r) = []) query (vr_Fixed r) of
                None \<Rightarrow> (False, True)
              | Some False \<Rightarrow> (False, False)
              | Some True \<Rightarrow>
                  (case bound_ok cmp (\<lambda>c. c \<le> 0) (TrimSpace (vr_LastAffected r) = []) query (vr_LastAffected r) of
                     None \<Rightarrow> (False, True)
                   | Some False \<Rightarrow> (False, False)
                   | Some True \<Rightarrow> (True, False)))))"

fun ranges_affect ::
  "(string \<Rightarrow> string \<Rightarrow> int option) \<Rightarrow> string list \<Rightarrow> string \<Rightarrow> VulnerableRange list \<Rightarrow> bool \<Rightarrow> bool \<times> bool" where
  "ranges_affect cmp fixedVersions v [] undecidable = (False, undecidable)"
| "ranges_affect cmp fixedVersions v (r # rs) undecidable =
     (case rangeAffectsEx cmp r fixedVersions v of
        (hit, undecided) \<Rightarrow>
          if hit then (True, False) else ranges_affect cmp fixedVersions v rs (undecided \<or> undecidable))"

definition advisoryAffectsEx :: "version_libs \<Rightarrow> Advisory \<Rightarrow> string \<Rightarrow> bool \<times> bool" where
  "advisoryAffectsEx libs a version =
     (let v = TrimSpace version in
      if v = [] then (False, False)
      else if list_ex (\<lambda>w. TrimSpace w = v) (ad_VulnerableVersions a) then (True, False)
      else ranges_affect (compareVersions libs (ad_Ecosystem a)) (ad_FixedVersions a) v (ad_VulnerableRanges a) False)"

definition advisoryAffects :: "version_libs \<Rightarrow> Advisory \<Rightarrow> string \<Rightarrow> bool" where
  "advisoryAffects libs a version = fst (advisoryAffectsEx libs a version)"

definition osv_matchesVersion :: "string list \<Rightarrow> string \<Rightarrow> bool" where
  "osv_matchesVersion affected version =
     (let v = TrimSpace version in v \<noteq> [] \<and> list_ex (\<lambda>a. TrimSpace a = v) affected)"

section \<open>Overrides\<close>

definition OverrideNotAffected :: string where "OverrideNotAffected = ''not_affected''"
definition OverrideNotice :: string where "OverrideNotice = ''notice''"

record Override =
  ov_Kind :: string
  ov_AdvisoryID :: string
  ov_Ecosystem :: string
  ov_Package :: string
  ov_Introduced :: string
  ov_Fixed :: string
  ov_Reason :: string
  ov_Evidence :: "string list"
  ov_Reviewed :: string
  ov_UpstreamRanges :: "VulnerableRange list"

text \<open>The check of the decoded list; the error of the code names the advisory.\<close>

datatype override_error = UnknownKind string string | FieldRequired string

definition check_override :: "Override \<Rightarrow> override_error option" where
  "check_override c =
     (if ov_Kind c \<noteq> OverrideNotAffected \<and> ov_Kind c \<noteq> OverrideNotice then Some (UnknownKind (ov_AdvisoryID c) (ov_Kind c))
      else if ov_AdvisoryID c = [] \<or> canonicalKey (ov_Ecosystem c) (ov_Package c) = [] \<or> TrimSpace (ov_Reason c) = [] \<or>
              ov_Evidence c = [] \<or> ov_Reviewed c = [] \<or> ov_UpstreamRanges c = []
        then Some (FieldRequired (ov_AdvisoryID c)) else None)"

definition parseOverrides :: "Override list \<Rightarrow> override_error + Override list" where
  "parseOverrides out =
     (case List.map_filter check_override out of [] \<Rightarrow> Inr out | e # _ \<Rightarrow> Inl e)"

definition override_applies :: "version_libs \<Rightarrow> Advisory \<Rightarrow> string \<Rightarrow> Override \<Rightarrow> bool" where
  "override_applies libs a version c \<longleftrightarrow>
     ov_AdvisoryID c = ad_AdvisoryID a \<and>
     canonicalKey (ov_Ecosystem c) (ov_Package c) = canonicalKey (ad_Ecosystem a) (ad_Package a) \<and>
     ov_UpstreamRanges c = ad_VulnerableRanges a \<and>
     (ov_Introduced c = [] \<or> ov_Introduced c = ''0'' \<or>
       (case compareVersions libs (ad_Ecosystem a) version (ov_Introduced c) of None \<Rightarrow> False | Some d \<Rightarrow> 0 \<le> d)) \<and>
     (ov_Fixed c = [] \<or>
       (case compareVersions libs (ad_Ecosystem a) version (ov_Fixed c) of None \<Rightarrow> False | Some d \<Rightarrow> d < 0))"

definition overrideFor :: "version_libs \<Rightarrow> Override list \<Rightarrow> Advisory \<Rightarrow> string \<Rightarrow> Override option" where
  "overrideFor libs os a version = find (override_applies libs a version) os"

section \<open>The index\<close>

record osv_Index =
  oi_byPackage :: "string \<rightharpoonup> Advisory list"
  oi_ecosystems :: "string set"
  oi_loadedAt :: int
  oi_total :: nat

definition index_advisory :: "Advisory \<Rightarrow> osv_Index \<Rightarrow> osv_Index" where
  "index_advisory a idx =
     (let key = canonicalKey (ad_Ecosystem a) (ad_Package a) in
      if key = [] then idx
      else idx\<lparr>oi_byPackage := (oi_byPackage idx)(key \<mapsto> get_or (oi_byPackage idx) key [] @ [a]),
               oi_ecosystems := insert (CanonicalEcosystem (ad_Ecosystem a)) (oi_ecosystems idx)\<rparr>)"

text \<open>\<open>Load\<close> on the decoded advisories.\<close>

definition osv_Load :: "int \<Rightarrow> Advisory list \<Rightarrow> osv_Index" where
  "osv_Load now as =
     fold index_advisory as \<lparr>oi_byPackage = Map.empty, oi_ecosystems = {}, oi_loadedAt = now, oi_total = length as\<rparr>"

definition candidates_of :: "osv_Index option \<Rightarrow> string \<Rightarrow> string \<Rightarrow> Advisory list" where
  "candidates_of i ecosystem pkg =
     (case i of
        None \<Rightarrow> []
      | Some idx \<Rightarrow>
          let key = canonicalKey ecosystem pkg in if key = [] then [] else get_or (oi_byPackage idx) key [])"

datatype bucket = InHits | InCleared | InUndecidable

definition bucket_of :: "version_libs \<Rightarrow> Override list \<Rightarrow> string \<Rightarrow> Advisory \<Rightarrow> bucket" where
  "bucket_of libs os version a =
     (case advisoryAffectsEx libs a version of
        (affects, undecided) \<Rightarrow>
          if affects \<and> overrideFor libs os a version \<noteq> None then InCleared
          else if affects then InHits
          else if undecided then InUndecidable
          else InCleared)"

definition LookupEx ::
  "version_libs \<Rightarrow> Override list \<Rightarrow> osv_Index option \<Rightarrow> string \<Rightarrow> string \<Rightarrow> string
    \<Rightarrow> Advisory list \<times> Advisory list \<times> Advisory list" where
  "LookupEx libs os i ecosystem pkg version =
     (let bucketed = (\<lambda>b. filter (\<lambda>a. bucket_of libs os version a = b) (candidates_of i ecosystem pkg)) in
      (bucketed InHits, bucketed InCleared, bucketed InUndecidable))"

definition osv_Lookup :: "version_libs \<Rightarrow> Override list \<Rightarrow> osv_Index option \<Rightarrow> string \<Rightarrow> string \<Rightarrow> string \<Rightarrow> Advisory list" where
  "osv_Lookup libs os i ecosystem pkg version = fst (LookupEx libs os i ecosystem pkg version)"

definition HasPackage :: "osv_Index option \<Rightarrow> string \<Rightarrow> string \<Rightarrow> bool" where
  "HasPackage i ecosystem pkg =
     (case i of
        None \<Rightarrow> False
      | Some idx \<Rightarrow>
          let key = canonicalKey ecosystem pkg in key \<noteq> [] \<and> oi_byPackage idx key \<noteq> None)"

definition HasEcosystem :: "osv_Index option \<Rightarrow> string \<Rightarrow> bool" where
  "HasEcosystem i ecosystem =
     (case i of
        None \<Rightarrow> False
      | Some idx \<Rightarrow> let eco = CanonicalEcosystem ecosystem in eco \<noteq> [] \<and> eco \<in> oi_ecosystems idx)"

definition Notices :: "version_libs \<Rightarrow> Override list \<Rightarrow> osv_Index option \<Rightarrow> string \<Rightarrow> string \<Rightarrow> string \<Rightarrow> Override list" where
  "Notices libs os i ecosystem pkg version =
     (case i of
        None \<Rightarrow> []
      | Some idx \<Rightarrow>
          List.map_filter
            (\<lambda>a. case overrideFor libs os a version of
                   None \<Rightarrow> None
                 | Some c \<Rightarrow> if ov_Kind c = OverrideNotice \<and> advisoryAffects libs a version then Some c else None)
            (get_or (oi_byPackage idx) (canonicalKey ecosystem pkg) []))"

definition StaleOverrides :: "Override list \<Rightarrow> osv_Index option \<Rightarrow> string list" where
  "StaleOverrides os i =
     (case i of
        None \<Rightarrow> []
      | Some idx \<Rightarrow>
          List.map_filter
            (\<lambda>c. case oi_byPackage idx (canonicalKey (ov_Ecosystem c) (ov_Package c)) of
                   None \<Rightarrow> None
                 | Some as \<Rightarrow>
                     if list_ex (\<lambda>a. ad_AdvisoryID a = ov_AdvisoryID c \<and> ad_VulnerableRanges a = ov_UpstreamRanges c) as then None
                     else Some (ov_AdvisoryID c))
            os)"

end
