(* ===== verification/VulnMerge.thy ===== *)
theory VulnMerge
  imports Float64
begin

text \<open>
  How the vulnerability findings of several providers become one section, intelligence/scanner.go: findings are united,
  and an identifier that a provider has positively cleared (the veto) is removed again on every merge.
\<close>

section \<open>The section\<close>

record CVEDetail =
  cd_CVE :: string
  cd_FixedVersion :: string
  cd_FixAvailable :: bool
  cd_CVSS :: rat

record KEVEntry =
  ke_CVE :: string
  ke_DateAdded :: string
  ke_KnownRansomwareCampaignUse :: bool

record AdvisoryNotice =
  an_ID :: string
  an_Note :: string

record VulnSection =
  vs_IsVulnerable :: bool
  vs_CVSSScore :: rat
  vs_EPSSScore :: rat
  vs_CVEs :: "string list"
  vs_ScannerDBDigest :: string
  vs_ScannedAt :: "int option"
  vs_CVEDetails :: "CVEDetail list"
  vs_ClearedCVEs :: "string list"
  vs_KnownExploited :: bool
  vs_KEVEntries :: "KEVEntry list"
  vs_AdvisoryNotices :: "AdvisoryNotice list"

definition no_vulns :: VulnSection where
  "no_vulns =
     \<lparr>vs_IsVulnerable = False, vs_CVSSScore = 0, vs_EPSSScore = 0, vs_CVEs = [], vs_ScannerDBDigest = [],
      vs_ScannedAt = None, vs_CVEDetails = [], vs_ClearedCVEs = [], vs_KnownExploited = False, vs_KEVEntries = [],
      vs_AdvisoryNotices = []\<rparr>"

section \<open>Unions\<close>

text \<open>The elements of the second list whose key is new, one of each, behind the first list.\<close>

fun union_by :: "('a \<Rightarrow> 'k) \<Rightarrow> 'a list \<Rightarrow> 'a list \<Rightarrow> 'a list" where
  "union_by key base [] = base"
| "union_by key base (x # xs) =
     (if key x \<in> key ` set base then union_by key base xs else union_by key (base @ [x]) xs)"

definition unionCVEIDs :: "string list \<Rightarrow> string list \<Rightarrow> string list" where
  "unionCVEIDs base add = union_by id base (filter (\<lambda>x. x \<noteq> []) add)"

text \<open>The position of a detail in the map from identifiers: the last one when the list has several.\<close>

definition last_index :: "('a \<Rightarrow> bool) \<Rightarrow> 'a list \<Rightarrow> nat option" where
  "last_index p xs = (case filter (\<lambda>i. p (xs ! i)) [0..<length xs] of [] \<Rightarrow> None | is \<Rightarrow> Some (last is))"

definition add_detail :: "CVEDetail \<Rightarrow> CVEDetail list \<Rightarrow> CVEDetail list" where
  "add_detail d ds =
     (case last_index (\<lambda>e. cd_CVE e = cd_CVE d) ds of
        None \<Rightarrow> ds @ [d]
      | Some i \<Rightarrow> if cd_FixedVersion (ds ! i) = [] \<and> cd_FixedVersion d \<noteq> [] then ds[i := d] else ds)"

section \<open>The veto\<close>

definition max_known :: "CVEDetail list \<Rightarrow> rat" where
  "max_known ds = fold (\<lambda>d m. if m < cd_CVSS d then cd_CVSS d else m) ds 0"

definition recomputeVulnAggregates :: "VulnSection \<Rightarrow> VulnSection" where
  "recomputeVulnAggregates dst =
     (if vs_CVEs dst = [] then
        dst\<lparr>vs_IsVulnerable := False, vs_CVSSScore := 0, vs_EPSSScore := 0, vs_KnownExploited := False\<rparr>
      else
        let maxKnown = max_known (filter (\<lambda>d. 0 < cd_CVSS d) (vs_CVEDetails dst));
            allScored = (length (vs_CVEDetails dst) = length (vs_CVEs dst) \<and> list_all (\<lambda>d. 0 < cd_CVSS d) (vs_CVEDetails dst))
        in dst\<lparr>vs_IsVulnerable := True, vs_KnownExploited := (vs_KEVEntries dst \<noteq> []),
               vs_CVSSScore := (if allScored \<or> vs_CVSSScore dst < maxKnown then maxKnown else vs_CVSSScore dst)\<rparr>)"

definition applyCVEVeto :: "VulnSection \<Rightarrow> VulnSection" where
  "applyCVEVeto dst =
     (let vetoed = set (vs_ClearedCVEs dst);
          removed = (\<exists>c \<in> set (vs_CVEs dst) \<union> cd_CVE ` set (vs_CVEDetails dst) \<union> ke_CVE ` set (vs_KEVEntries dst). c \<in> vetoed);
          kept = dst\<lparr>vs_CVEs := filter (\<lambda>c. c \<notin> vetoed) (vs_CVEs dst),
                     vs_CVEDetails := filter (\<lambda>d. cd_CVE d \<notin> vetoed) (vs_CVEDetails dst),
                     vs_KEVEntries := filter (\<lambda>k. ke_CVE k \<notin> vetoed) (vs_KEVEntries dst)\<rparr>
      in if vs_ClearedCVEs dst = [] then dst
         else if \<not> removed then dst
         else recomputeVulnAggregates kept)"

section \<open>The merge\<close>

text \<open>Everything before the veto pass.\<close>

definition unite :: "VulnSection \<Rightarrow> VulnSection \<Rightarrow> VulnSection" where
  "unite dst src =
     dst\<lparr>vs_ScannedAt :=
           (case vs_ScannedAt src of
              None \<Rightarrow> vs_ScannedAt dst
            | Some t \<Rightarrow> (case vs_ScannedAt dst of None \<Rightarrow> Some t | Some u \<Rightarrow> if u < t then Some t else Some u)),
         vs_IsVulnerable := (vs_IsVulnerable dst \<or> vs_IsVulnerable src),
         vs_CVSSScore := (if vs_CVSSScore dst < vs_CVSSScore src then vs_CVSSScore src else vs_CVSSScore dst),
         vs_EPSSScore := (if vs_EPSSScore dst < vs_EPSSScore src then vs_EPSSScore src else vs_EPSSScore dst),
         vs_KnownExploited := (vs_KnownExploited dst \<or> vs_KnownExploited src),
         vs_ScannerDBDigest :=
           (if vs_ScannerDBDigest src \<noteq> [] \<and> vs_ScannerDBDigest dst = [] then vs_ScannerDBDigest src
            else vs_ScannerDBDigest dst),
         vs_CVEs := union_by id (vs_CVEs dst) (vs_CVEs src),
         vs_CVEDetails := fold add_detail (vs_CVEDetails src) (vs_CVEDetails dst),
         vs_KEVEntries := union_by ke_CVE (vs_KEVEntries dst) (vs_KEVEntries src),
         vs_AdvisoryNotices := union_by an_ID (vs_AdvisoryNotices dst) (vs_AdvisoryNotices src),
         vs_ClearedCVEs := unionCVEIDs (vs_ClearedCVEs dst) (vs_ClearedCVEs src)\<rparr>"

definition mergeVulns :: "VulnSection \<Rightarrow> VulnSection \<Rightarrow> VulnSection" where
  "mergeVulns dst src = applyCVEVeto (unite dst src)"

section \<open>What a merge asserts\<close>

lemma union_by_keys: "key ` set (union_by key base xs) = key ` set base \<union> key ` set xs"
  by (induction key base xs rule: union_by.induct) auto

lemma union_by_id [simp]: "set (union_by id base xs) = set base \<union> set xs"
  using union_by_keys[of id base xs] by simp

lemma unionCVEIDs_set [simp]: "set (unionCVEIDs base add) = set base \<union> (set add - {[]})"
  by (auto simp: unionCVEIDs_def)

lemma last_index_less: "last_index p xs = Some i \<Longrightarrow> i < length xs \<and> p (xs ! i)"
proof -
  assume a: "last_index p xs = Some i"
  define fs where "fs = filter (\<lambda>i. p (xs ! i)) [0..<length xs]"
  from a have "fs \<noteq> []" "i = last fs" by (auto simp: last_index_def fs_def split: list.splits)
  then have "i \<in> set fs" by simp
  then show ?thesis by (simp add: fs_def)
qed

lemma add_detail_keys: "cd_CVE ` set (add_detail d ds) = insert (cd_CVE d) (cd_CVE ` set ds)"
proof (cases "last_index (\<lambda>e. cd_CVE e = cd_CVE d) ds")
  case None
  then show ?thesis by (auto simp: add_detail_def)
next
  case (Some i)
  from last_index_less[OF Some] have i: "i < length ds" "cd_CVE (ds ! i) = cd_CVE d" by simp_all
  then have "cd_CVE d \<in> cd_CVE ` set ds" by (metis imageI nth_mem)
  moreover have "map cd_CVE (ds[i := d]) = map cd_CVE ds"
    using i by (metis list_update_id map_update)
  then have "cd_CVE ` set (ds[i := d]) = cd_CVE ` set ds" by (metis set_map)
  ultimately show ?thesis using Some by (auto simp: add_detail_def)
qed

lemma fold_add_detail_keys: "cd_CVE ` set (fold add_detail xs ds) = cd_CVE ` set ds \<union> cd_CVE ` set xs"
  by (induction xs arbitrary: ds) (auto simp: add_detail_keys)

lemma recompute_fields [simp]:
  "vs_CVEs (recomputeVulnAggregates v) = vs_CVEs v" "vs_ClearedCVEs (recomputeVulnAggregates v) = vs_ClearedCVEs v"
  "vs_CVEDetails (recomputeVulnAggregates v) = vs_CVEDetails v" "vs_KEVEntries (recomputeVulnAggregates v) = vs_KEVEntries v"
  by (simp_all add: recomputeVulnAggregates_def Let_def)

lemma applyCVEVeto_fields:
  "vs_CVEs (applyCVEVeto v) = filter (\<lambda>c. c \<notin> set (vs_ClearedCVEs v)) (vs_CVEs v)"
  "vs_CVEDetails (applyCVEVeto v) = filter (\<lambda>d. cd_CVE d \<notin> set (vs_ClearedCVEs v)) (vs_CVEDetails v)"
  "vs_KEVEntries (applyCVEVeto v) = filter (\<lambda>k. ke_CVE k \<notin> set (vs_ClearedCVEs v)) (vs_KEVEntries v)"
  "vs_ClearedCVEs (applyCVEVeto v) = vs_ClearedCVEs v"
proof -
  show "vs_CVEs (applyCVEVeto v) = filter (\<lambda>c. c \<notin> set (vs_ClearedCVEs v)) (vs_CVEs v)"
    by (auto simp: applyCVEVeto_def Let_def intro!: filter_True[symmetric])
  show "vs_CVEDetails (applyCVEVeto v) = filter (\<lambda>d. cd_CVE d \<notin> set (vs_ClearedCVEs v)) (vs_CVEDetails v)"
    by (auto simp: applyCVEVeto_def Let_def intro!: filter_True[symmetric])
  show "vs_KEVEntries (applyCVEVeto v) = filter (\<lambda>k. ke_CVE k \<notin> set (vs_ClearedCVEs v)) (vs_KEVEntries v)"
    by (auto simp: applyCVEVeto_def Let_def intro!: filter_True[symmetric])
  show "vs_ClearedCVEs (applyCVEVeto v) = vs_ClearedCVEs v" by (simp add: applyCVEVeto_def Let_def)
qed

lemma unite_fields:
  "vs_CVEs (unite d s) = union_by id (vs_CVEs d) (vs_CVEs s)"
  "vs_CVEDetails (unite d s) = fold add_detail (vs_CVEDetails s) (vs_CVEDetails d)"
  "vs_KEVEntries (unite d s) = union_by ke_CVE (vs_KEVEntries d) (vs_KEVEntries s)"
  "vs_ClearedCVEs (unite d s) = unionCVEIDs (vs_ClearedCVEs d) (vs_ClearedCVEs s)"
  by (simp_all add: unite_def)

text \<open>The identifiers that a section names anywhere, and those that some of the sections clear.\<close>

definition named :: "VulnSection \<Rightarrow> string set" where
  "named v = set (vs_CVEs v) \<union> cd_CVE ` set (vs_CVEDetails v) \<union> ke_CVE ` set (vs_KEVEntries v)"

definition cleared_by :: "VulnSection \<Rightarrow> string set" where
  "cleared_by v = set (vs_ClearedCVEs v) - {[]}"

lemma merge_named:
  "set (vs_CVEs (mergeVulns d s)) = set (vs_CVEs d) \<union> set (vs_CVEs s) - (set (vs_ClearedCVEs d) \<union> cleared_by s)"
  "cd_CVE ` set (vs_CVEDetails (mergeVulns d s)) =
     cd_CVE ` set (vs_CVEDetails d) \<union> cd_CVE ` set (vs_CVEDetails s) - (set (vs_ClearedCVEs d) \<union> cleared_by s)"
  "ke_CVE ` set (vs_KEVEntries (mergeVulns d s)) =
     ke_CVE ` set (vs_KEVEntries d) \<union> ke_CVE ` set (vs_KEVEntries s) - (set (vs_ClearedCVEs d) \<union> cleared_by s)"
  "set (vs_ClearedCVEs (mergeVulns d s)) = set (vs_ClearedCVEs d) \<union> cleared_by s"
proof -
  note fields = mergeVulns_def applyCVEVeto_fields unite_fields cleared_by_def
  show "set (vs_CVEs (mergeVulns d s)) = set (vs_CVEs d) \<union> set (vs_CVEs s) - (set (vs_ClearedCVEs d) \<union> cleared_by s)"
    by (auto simp: fields)
  show "cd_CVE ` set (vs_CVEDetails (mergeVulns d s)) =
     cd_CVE ` set (vs_CVEDetails d) \<union> cd_CVE ` set (vs_CVEDetails s) - (set (vs_ClearedCVEs d) \<union> cleared_by s)"
    by (simp add: fields flip: fold_add_detail_keys) auto
  show "ke_CVE ` set (vs_KEVEntries (mergeVulns d s)) =
     ke_CVE ` set (vs_KEVEntries d) \<union> ke_CVE ` set (vs_KEVEntries s) - (set (vs_ClearedCVEs d) \<union> cleared_by s)"
    by (simp add: fields flip: union_by_keys) auto
  show "set (vs_ClearedCVEs (mergeVulns d s)) = set (vs_ClearedCVEs d) \<union> cleared_by s"
    by (simp add: fields)
qed

section \<open>Order\<close>

definition merge_all :: "VulnSection list \<Rightarrow> VulnSection \<Rightarrow> VulnSection" where
  "merge_all ps dst = fold (\<lambda>p d. mergeVulns d p) ps dst"

lemma merge_all_named:
  assumes "named d \<inter> set (vs_ClearedCVEs d) = {}"
  shows "set (vs_CVEs (merge_all ps d)) =
      set (vs_CVEs d) \<union> (\<Union>p \<in> set ps. set (vs_CVEs p)) - (set (vs_ClearedCVEs d) \<union> (\<Union>p \<in> set ps. cleared_by p)) \<and>
    cd_CVE ` set (vs_CVEDetails (merge_all ps d)) =
      cd_CVE ` set (vs_CVEDetails d) \<union> (\<Union>p \<in> set ps. cd_CVE ` set (vs_CVEDetails p)) -
        (set (vs_ClearedCVEs d) \<union> (\<Union>p \<in> set ps. cleared_by p)) \<and>
    ke_CVE ` set (vs_KEVEntries (merge_all ps d)) =
      ke_CVE ` set (vs_KEVEntries d) \<union> (\<Union>p \<in> set ps. ke_CVE ` set (vs_KEVEntries p)) -
        (set (vs_ClearedCVEs d) \<union> (\<Union>p \<in> set ps. cleared_by p))"
  using assms
proof (induction ps arbitrary: d)
  case Nil
  then show ?case by (auto simp: merge_all_def named_def)
next
  case (Cons p ps)
  have "named (mergeVulns d p) \<inter> set (vs_ClearedCVEs (mergeVulns d p)) = {}"
    by (auto simp: named_def merge_named)
  from Cons.IH[OF this] show ?case by (auto simp: merge_all_def merge_named)
qed

text \<open>
  Which identifiers a report names does not depend on the order in which the providers of a scan arrive: in the list, in
  the details and among the exploited ones it is exactly what some provider asserts and none clears.
\<close>
theorem merged_identifiers:
  "set (vs_CVEs (merge_all ps no_vulns)) = (\<Union>p \<in> set ps. set (vs_CVEs p)) - (\<Union>p \<in> set ps. cleared_by p) \<and>
   cd_CVE ` set (vs_CVEDetails (merge_all ps no_vulns)) =
     (\<Union>p \<in> set ps. cd_CVE ` set (vs_CVEDetails p)) - (\<Union>p \<in> set ps. cleared_by p) \<and>
   ke_CVE ` set (vs_KEVEntries (merge_all ps no_vulns)) =
     (\<Union>p \<in> set ps. ke_CVE ` set (vs_KEVEntries p)) - (\<Union>p \<in> set ps. cleared_by p)"
  using merge_all_named[of no_vulns ps] by (simp add: no_vulns_def named_def)

text \<open>The aggregate score does depend on it.\<close>

definition scored_a :: VulnSection where
  "scored_a = no_vulns\<lparr>vs_IsVulnerable := True, vs_CVSSScore := 9, vs_CVEs := [''CVE-A'']\<rparr>"
definition unscored_b :: VulnSection where
  "unscored_b = no_vulns\<lparr>vs_IsVulnerable := True, vs_CVEs := [''CVE-B'']\<rparr>"
definition clears_a :: VulnSection where
  "clears_a = no_vulns\<lparr>vs_ClearedCVEs := [''CVE-A'']\<rparr>"

lemma score_depends_on_arrival:
  "vs_CVSSScore (merge_all [scored_a, unscored_b, clears_a] no_vulns) = 9 \<and>
   vs_CVSSScore (merge_all [scored_a, clears_a, unscored_b] no_vulns) = 0"
  by (simp add: merge_all_def mergeVulns_def unite_def applyCVEVeto_def recomputeVulnAggregates_def unionCVEIDs_def
      max_known_def scored_a_def unscored_b_def clears_a_def no_vulns_def Let_def)

end
