(* ===== verification/OsvProvider.thy ===== *)
theory OsvProvider
  imports OsvIndex VulnMerge
begin

text \<open>
  The provider that projects the advisory index onto a report, intelligence/provider_osv.go: the section of
  vulnerabilities with its veto, or a warning that nothing could be said. The source of exploit predictions is the
  argument \<open>epss\<close>; its failure costs the score only.
\<close>

section \<open>Warnings\<close>

record Warning =
  wn_Provider :: string
  wn_Code :: string
  wn_Message :: string

definition warnOSVBundleDormant :: string where "warnOSVBundleDormant = ''osv_bundle_dormant''"
definition WarnVulnRangeUndecidable :: string where "WarnVulnRangeUndecidable = ''vuln_range_undecidable''"

definition scannerAdvisedEcosystems :: "string set" where "scannerAdvisedEcosystems = {''docker''}"

definition ecosystemHasScannerAdvisorySource :: "string \<Rightarrow> bool" where
  "ecosystemHasScannerAdvisorySource ecosystem \<longleftrightarrow> ToLower (TrimSpace ecosystem) \<in> scannerAdvisedEcosystems"

definition supportedOSVEcosystems :: "string list" where
  "supportedOSVEcosystems = [
    ''npm'', ''yarn'', ''bun'', ''pip'', ''pypi'', ''maven'', ''gradle'', ''cargo'', ''crates'', ''crates.io'', ''rubygems'', ''gem'',
    ''nuget'', ''composer'', ''packagist'', ''go'', ''gomod'', ''pub'', ''swift'', ''homebrew'']"

definition osv_Supports :: "string \<Rightarrow> bool" where
  "osv_Supports ecosystem \<longleftrightarrow> ToLower (TrimSpace ecosystem) \<in> set supportedOSVEcosystems"

section \<open>The projection\<close>

definition maxEPSS :: "(string list \<Rightarrow> rat option) option \<Rightarrow> string list \<Rightarrow> rat" where
  "maxEPSS epss cves =
     (case epss of
        None \<Rightarrow> 0
      | Some lookup \<Rightarrow> if cves = [] then 0 else (case lookup cves of None \<Rightarrow> 0 | Some score \<Rightarrow> score))"

definition detail_of :: "Advisory \<Rightarrow> CVEDetail" where
  "detail_of a =
     \<lparr>cd_CVE = PreferredCVE a, cd_FixedVersion = (case ad_FixedVersions a of [] \<Rightarrow> [] | f # _ \<Rightarrow> f),
      cd_FixAvailable = (ad_FixedVersions a \<noteq> []), cd_CVSS = ad_CVSSScore a\<rparr>"

text \<open>The identifiers of the cleared advisories that no hit has, without duplicates.\<close>

definition cleared_ids :: "string set \<Rightarrow> Advisory list \<Rightarrow> string list" where
  "cleared_ids matched cleared =
     union_by id [] (filter (\<lambda>c. c \<noteq> [] \<and> c \<notin> matched) (map PreferredCVE cleared))"

definition clean_section :: "osv_Index \<Rightarrow> VulnSection" where
  "clean_section idx = no_vulns\<lparr>vs_ScannedAt := Some (oi_loadedAt idx), vs_ScannerDBDigest := ''osv-bundle''\<rparr>"

definition vuln_section ::
  "(string list \<Rightarrow> rat option) option \<Rightarrow> osv_Index \<Rightarrow> Advisory list \<Rightarrow> Advisory list \<Rightarrow> Override list \<Rightarrow> VulnSection" where
  "vuln_section epss idx hits cleared notices =
     (let named_hits = filter (\<lambda>a. PreferredCVE a \<noteq> []) hits; cves = map PreferredCVE named_hits in
      (clean_section idx)
        \<lparr>vs_CVEs := cves,
         vs_CVEDetails := map detail_of named_hits,
         vs_IsVulnerable := (cves \<noteq> []),
         vs_CVSSScore := fold (\<lambda>a m. if m < ad_CVSSScore a then ad_CVSSScore a else m) named_hits 0,
         vs_EPSSScore := maxEPSS epss cves,
         vs_ClearedCVEs := cleared_ids (set cves) cleared,
         vs_AdvisoryNotices := map (\<lambda>n. \<lparr>an_ID = ov_AdvisoryID n, an_Note = ov_Reason n\<rparr>) notices\<rparr>)"

definition osv_Run ::
  "version_libs \<Rightarrow> Override list \<Rightarrow> (string list \<Rightarrow> rat option) option \<Rightarrow> osv_Index option \<Rightarrow> string \<Rightarrow> string \<Rightarrow> string
    \<Rightarrow> VulnSection option \<times> Warning list" where
  "osv_Run libs os epss i eco pkg ver =
     (case i of
        None \<Rightarrow>
          (None, if ecosystemHasScannerAdvisorySource eco then []
                 else [\<lparr>wn_Provider = ''osv'', wn_Code = warnOSVBundleDormant,
                        wn_Message = ''no osv advisory corpus for this ecosystem (bundle absent, empty, or lacking the ecosystem); no vulnerability data''\<rparr>])
      | Some idx \<Rightarrow>
          if \<not> HasEcosystem (Some idx) eco then
            (None, if ecosystemHasScannerAdvisorySource eco then []
                   else [\<lparr>wn_Provider = ''osv'', wn_Code = warnOSVBundleDormant,
                          wn_Message = ''no osv advisory corpus for this ecosystem (bundle absent, empty, or lacking the ecosystem); no vulnerability data''\<rparr>])
          else if \<not> HasPackage (Some idx) eco pkg \<and> \<not> AbsenceIsNegative eco pkg then
            (None, [\<lparr>wn_Provider = ''osv'', wn_Code = warnOSVBundleDormant,
                     wn_Message = ''osv advisory corpus for this ecosystem is keyed by repository and this name carries none; no vulnerability data''\<rparr>])
          else if \<not> HasPackage (Some idx) eco pkg then (Some (clean_section idx), [])
          else
            (case LookupEx libs os (Some idx) eco pkg ver of
               (hits, cleared, undecided) \<Rightarrow>
                 (Some (vuln_section epss idx hits cleared (Notices libs os (Some idx) eco pkg ver)),
                  if undecided = [] then []
                  else [\<lparr>wn_Provider = ''osv'', wn_Code = WarnVulnRangeUndecidable,
                         wn_Message = ''advisory version range could not be ordered against '' @ ver @
                           ''; neither counted nor cleared: '' @
                           join_with '', '' (filter (\<lambda>c. c \<noteq> []) (map PreferredCVE undecided))\<rparr>])))"

text \<open>\<open>SwapIndex\<close>: a nil index never replaces a working one.\<close>

definition SwapIndex :: "osv_Index option \<Rightarrow> osv_Index option \<Rightarrow> osv_Index option" where
  "SwapIndex idx live = (case idx of None \<Rightarrow> live | Some _ \<Rightarrow> idx)"

section \<open>Assertion and veto\<close>

lemma section_asserts_or_clears:
  assumes "fst (osv_Run libs os epss i eco pkg ver) = Some v"
  shows "set (vs_CVEs v) \<inter> set (vs_ClearedCVEs v) = {} \<and>
    set (vs_CVEs v) = PreferredCVE ` set (fst (LookupEx libs os i eco pkg ver)) - {[]} \<and>
    set (vs_ClearedCVEs v) \<subseteq> PreferredCVE ` set (fst (snd (LookupEx libs os i eco pkg ver)))"
proof (cases i)
  case None
  with assms show ?thesis by (simp add: osv_Run_def)
next
  case (Some idx)
  show ?thesis
  proof (cases "HasPackage i eco pkg")
    case True
    with assms Some have "v = vuln_section epss idx (fst (LookupEx libs os i eco pkg ver))
        (fst (snd (LookupEx libs os i eco pkg ver))) (Notices libs os i eco pkg ver)"
      by (auto simp: osv_Run_def split: if_splits prod.splits)
    then show ?thesis by (auto simp: vuln_section_def Let_def cleared_ids_def clean_section_def)
  next
    case False
    with assms Some have v: "v = clean_section idx" by (auto simp: osv_Run_def split: if_splits prod.splits)
    have "candidates_of i eco pkg = []"
      using False Some by (auto simp: HasPackage_def candidates_of_def get_or_def Let_def)
    then have "LookupEx libs os i eco pkg ver = ([], [], [])" by (simp add: LookupEx_def Let_def)
    with v show ?thesis by (simp add: clean_section_def no_vulns_def)
  qed
qed

text \<open>
  A section of the provider never lists an identifier both as found and as cleared, lists as found exactly the preferred
  identifiers of the hits, and clears only those of advisories that were looked up for the package and not hit.
\<close>
theorem run_asserts_or_clears:
  "case fst (osv_Run libs os epss i eco pkg ver) of
     None \<Rightarrow> True
   | Some v \<Rightarrow>
       set (vs_CVEs v) \<inter> set (vs_ClearedCVEs v) = {} \<and>
       set (vs_CVEs v) = PreferredCVE ` set (fst (LookupEx libs os i eco pkg ver)) - {[]} \<and>
       set (vs_ClearedCVEs v) \<subseteq> PreferredCVE ` set (fst (snd (LookupEx libs os i eco pkg ver)))"
  by (auto split: option.splits dest: section_asserts_or_clears)

end
