(* ===== verification/OsvProps.thy ===== *)
theory OsvProps
  imports OsvProvider
begin

text \<open>
  What the matcher of advisories decides. A version order is a comparator that is defined on the versions that it can
  read, antisymmetric and transitive; for such a comparator a range of an advisory is an interval, closed at the earliest
  declared fix when it has no upper bound of its own.
\<close>

section \<open>Trimming twice\<close>

lemma trim_left_clean: "trim_left s = [] \<or> find (HasPrefix (trim_left s)) space_seqs = None"
  by (induction s rule: trim_left.induct) (subst (1 2) trim_left.simps, auto split: option.splits)

lemma trim_right_clean: "trim_right s = [] \<or> find (HasSuffix (trim_right s)) space_seqs = None"
  by (induction s rule: trim_right.induct) (subst (1 2) trim_right.simps, auto split: option.splits)

lemma trim_right_prefix: "\<exists>n. trim_right s = take n s"
proof (induction s rule: trim_right.induct)
  case (1 s)
  show ?case
  proof (cases "s = [] \<or> find (HasSuffix s) space_seqs = None")
    case True
    then show ?thesis by (subst trim_right.simps) (auto intro!: exI[of _ "length s"])
  next
    case False
    then obtain u where u: "find (HasSuffix s) space_seqs = Some u" by auto
    with False 1[of u] show ?thesis by (subst trim_right.simps) (auto intro: exI)
  qed
qed

lemma HasPrefix_take: "HasPrefix (take n t) w \<Longrightarrow> HasPrefix t w"
proof -
  assume a: "HasPrefix (take n t) w"
  then have m: "take (min (length w) n) t = w" by (simp add: HasPrefix_def)
  have "length w \<le> n" using arg_cong[OF m, of length] by simp
  with m show ?thesis by (simp add: HasPrefix_def min_absorb1)
qed

lemma TrimSpace_Nil [simp]: "TrimSpace [] = []"
  by (simp add: TrimSpace_def trim_left.simps trim_right.simps)

lemma TrimSpace_idem: "TrimSpace (TrimSpace s) = TrimSpace s"
proof (cases "TrimSpace s = []")
  case False
  define t where "t = trim_left s"
  define u where "u = trim_right t"
  have u: "u \<noteq> []" using False by (simp add: TrimSpace_def t_def u_def)
  obtain n where n: "u = take n t" using trim_right_prefix u_def by blast
  with u have "t \<noteq> []" by auto
  then have "find (HasPrefix t) space_seqs = None" using trim_left_clean[of s] by (auto simp: t_def)
  then have "find (HasPrefix u) space_seqs = None"
    unfolding find_None_iff n using HasPrefix_take by blast
  then have "trim_left u = u" by (subst trim_left.simps) simp
  moreover have "trim_right u = u" using u trim_right_clean[of t]
    by (subst trim_right.simps) (auto simp: u_def)
  ultimately show ?thesis by (simp add: TrimSpace_def t_def u_def)
qed (simp add: TrimSpace_def trim_left.simps trim_right.simps)

section \<open>Version orders\<close>

definition no_newer :: "(string \<Rightarrow> string \<Rightarrow> int option) \<Rightarrow> string \<Rightarrow> string \<Rightarrow> bool" where
  "no_newer cmp a b = (case cmp a b of None \<Rightarrow> False | Some c \<Rightarrow> c \<le> 0)"

definition strictly_below :: "(string \<Rightarrow> string \<Rightarrow> int option) \<Rightarrow> string \<Rightarrow> string \<Rightarrow> bool" where
  "strictly_below cmp a b = (case cmp a b of None \<Rightarrow> False | Some c \<Rightarrow> c < 0)"

text \<open>The fixes that an advisory declares above the lower bound of a range.\<close>

definition fixes_above :: "(string \<Rightarrow> string \<Rightarrow> int option) \<Rightarrow> string list \<Rightarrow> string \<Rightarrow> string set" where
  "fixes_above cmp fixed introduced =
     {f \<in> TrimSpace ` set fixed. f \<noteq> [] \<and> (open_lower introduced \<or> strictly_below cmp (TrimSpace introduced) f)}"

definition affected_by :: "(string \<Rightarrow> string \<Rightarrow> int option) \<Rightarrow> string list \<Rightarrow> VulnerableRange \<Rightarrow> string \<Rightarrow> bool" where
  "affected_by cmp fixed r q \<longleftrightarrow>
     (open_lower (vr_Introduced r) \<or> no_newer cmp (vr_Introduced r) q) \<and>
     (if vr_LastAffected r \<noteq> [] then no_newer cmp q (vr_LastAffected r)
      else if vr_Fixed r \<noteq> [] then strictly_below cmp q (vr_Fixed r)
      else \<forall>f \<in> fixes_above cmp fixed (vr_Introduced r). strictly_below cmp q f)"

text \<open>
  A range that makes sense: trimmed bounds that can be read, at most one upper bound, and above the lower one.
\<close>

definition readable_bound :: "(string \<Rightarrow> bool) \<Rightarrow> string \<Rightarrow> bool" where
  "readable_bound ok b \<longleftrightarrow> TrimSpace b = b \<and> (b = [] \<or> ok b)"

definition sane_range :: "(string \<Rightarrow> string \<Rightarrow> int option) \<Rightarrow> (string \<Rightarrow> bool) \<Rightarrow> VulnerableRange \<Rightarrow> bool" where
  "sane_range cmp ok r \<longleftrightarrow>
     TrimSpace (vr_Introduced r) = vr_Introduced r \<and> (open_lower (vr_Introduced r) \<or> ok (vr_Introduced r)) \<and>
     readable_bound ok (vr_Fixed r) \<and> readable_bound ok (vr_LastAffected r) \<and>
     (vr_Fixed r = [] \<or> vr_LastAffected r = []) \<and>
     (open_lower (vr_Introduced r) \<or>
       (vr_Fixed r \<noteq> [] \<longrightarrow> strictly_below cmp (vr_Introduced r) (vr_Fixed r)) \<and>
       (vr_LastAffected r \<noteq> [] \<longrightarrow> no_newer cmp (vr_Introduced r) (vr_LastAffected r)))"

text \<open>The least of a set of versions; \<open>[]\<close> when there is none.\<close>

definition least_of :: "(string \<Rightarrow> string \<Rightarrow> int option) \<Rightarrow> string \<Rightarrow> string set \<Rightarrow> bool" where
  "least_of cmp c fs \<longleftrightarrow> (if fs = {} then c = [] else c \<in> fs \<and> (\<forall>f \<in> fs. no_newer cmp c f))"

definition so_far :: "string \<Rightarrow> string set" where
  "so_far best = {b. b = best \<and> b \<noteq> []}"

lemma rangeAffectsEx_decided:
  assumes "clamp_range cmp fixed r = \<lparr>vr_Introduced = i, vr_Fixed = f, vr_LastAffected = l\<rparr>"
    and "i \<noteq> q" "l \<noteq> q" "f \<noteq> q"
    and "bound_ok cmp (\<lambda>c. 0 \<le> c) (open_lower i) q i = Some a"
    and "bound_ok cmp (\<lambda>c. c < 0) (TrimSpace f = []) q f = Some b"
    and "bound_ok cmp (\<lambda>c. c \<le> 0) (TrimSpace l = []) q l = Some c"
  shows "rangeAffectsEx cmp r fixed q = ((i = [] \<and> f = [] \<and> l = []) \<or> a \<and> b \<and> c, False)"
  using assms by (cases a; cases b; cases c) (auto simp: rangeAffectsEx_def Let_def)

locale version_order =
  fixes cmp :: "string \<Rightarrow> string \<Rightarrow> int option" and ok :: "string \<Rightarrow> bool"
  assumes cmp_defined: "cmp a b \<noteq> None \<longleftrightarrow> ok a \<and> ok b"
    and cmp_swap: "cmp b a = map_option uminus (cmp a b)"
    and cmp_trans: "cmp a b = Some c \<Longrightarrow> c \<le> 0 \<Longrightarrow> cmp b d = Some e \<Longrightarrow> e \<le> 0 \<Longrightarrow> cmp a d = Some f \<Longrightarrow> f \<le> 0"
begin

lemma no_newer_ok: "no_newer cmp a b \<Longrightarrow> ok a \<and> ok b"
  using cmp_defined[of a b] by (auto simp: no_newer_def split: option.splits)

lemma no_newer_refl: "ok a \<Longrightarrow> no_newer cmp a a"
  using cmp_defined[of a a] cmp_swap[of a a] by (auto simp: no_newer_def)

lemma strictly_below_iff: "strictly_below cmp a b \<longleftrightarrow> ok a \<and> ok b \<and> \<not> no_newer cmp b a"
  using cmp_defined[of a b] cmp_swap[of b a] by (auto simp: no_newer_def strictly_below_def split: option.splits)

lemma no_newer_trans: "no_newer cmp a b \<Longrightarrow> no_newer cmp b d \<Longrightarrow> no_newer cmp a d"
proof -
  assume a: "no_newer cmp a b" "no_newer cmp b d"
  then have "cmp a d \<noteq> None" using cmp_defined[of a d] no_newer_ok by blast
  with a cmp_trans[of a b _ d] show ?thesis by (auto simp: no_newer_def split: option.splits)
qed

lemma strict_trans: "no_newer cmp a b \<Longrightarrow> strictly_below cmp b d \<Longrightarrow> strictly_below cmp a d"
  using no_newer_trans by (meson no_newer_ok strictly_below_iff)

lemma strictly_below_trans: "strictly_below cmp a b \<Longrightarrow> no_newer cmp b d \<Longrightarrow> strictly_below cmp a d"
  using no_newer_trans by (meson no_newer_ok strictly_below_iff)

lemma not_below_self: "\<not> strictly_below cmp a a"
  using no_newer_refl strictly_below_iff by blast

text \<open>The loop over the fixes finds a least one above the lower bound.\<close>

lemma earliest_fix_least:
  assumes "\<forall>f \<in> TrimSpace ` set raws. f = [] \<or> ok f" and "open_lower introduced \<or> ok (TrimSpace introduced)"
    and "best = [] \<or> ok best"
  shows "least_of cmp (earliest_fix cmp introduced raws best) (fixes_above cmp raws introduced \<union> so_far best)"
  using assms(1,3)
proof (induction raws arbitrary: best)
  case Nil
  then show ?case using no_newer_refl by (auto simp: fixes_above_def least_of_def so_far_def)
next
  case (Cons raw raws)
  define fix' where "fix' = TrimSpace raw"
  define above where "above \<longleftrightarrow> open_lower introduced \<or> strictly_below cmp (TrimSpace introduced) fix'"
  have guard: "(\<not> open_lower introduced \<and> (case cmp fix' (TrimSpace introduced) of None \<Rightarrow> True | Some c \<Rightarrow> c \<le> 0)) \<longleftrightarrow> \<not> above"
    if "fix' \<noteq> []"
  proof -
    have "ok fix'" using Cons.prems(1) that by (auto simp: fix'_def)
    with assms(2) cmp_defined[of fix' "TrimSpace introduced"] show ?thesis
      using cmp_swap[of fix' "TrimSpace introduced"]
      by (auto simp: above_def strictly_below_def split: option.splits)
  qed
  have Qstep: "fixes_above cmp (raw # raws) introduced =
      fixes_above cmp raws introduced \<union> (if fix' \<noteq> [] \<and> above then {fix'} else {})"
    by (auto simp: fixes_above_def fix'_def above_def)
  consider "fix' = [] \<or> \<not> above" | "fix' \<noteq> []" "above" "best = []" | "fix' \<noteq> []" "above" "best \<noteq> []" by blast
  then show ?case
  proof cases
    case 1
    then have "earliest_fix cmp introduced (raw # raws) best = earliest_fix cmp introduced raws best"
      using guard by (auto simp: Let_def fix'_def[symmetric])
    moreover have "fixes_above cmp (raw # raws) introduced = fixes_above cmp raws introduced" using 1 Qstep by auto
    ultimately show ?thesis using Cons.IH[of best] Cons.prems by (simp del: earliest_fix.simps)
  next
    case 2
    then have "earliest_fix cmp introduced (raw # raws) best = earliest_fix cmp introduced raws fix'"
      using guard by (auto simp: Let_def fix'_def[symmetric])
    moreover have "fixes_above cmp (raw # raws) introduced \<union> so_far best = fixes_above cmp raws introduced \<union> so_far fix'"
      using 2 Qstep by (auto simp: so_far_def)
    moreover have "ok fix'" "\<forall>f \<in> TrimSpace ` set raws. f = [] \<or> ok f" using Cons.prems 2 by (auto simp: fix'_def)
    ultimately show ?thesis using Cons.IH[of fix'] by (simp del: earliest_fix.simps)
  next
    case 3
    have oks: "ok fix'" "ok best" using Cons.prems 3 by (auto simp: fix'_def)
    then obtain d where d: "cmp fix' best = Some d" using cmp_defined[of fix' best] by auto
    define b where "b = (if d < 0 then fix' else best)"
    have e: "earliest_fix cmp introduced (raw # raws) best = earliest_fix cmp introduced raws b"
      using 3 guard d by (auto simp: Let_def fix'_def[symmetric] b_def)
    have b: "b \<noteq> []" "ok b" "b = fix' \<or> b = best" using 3 oks by (auto simp: b_def)
    have lb: "no_newer cmp b fix'" "no_newer cmp b best"
      using d oks no_newer_refl cmp_swap[of best fix'] by (auto simp: b_def no_newer_def)
    have "least_of cmp (earliest_fix cmp introduced raws b) (fixes_above cmp raws introduced \<union> so_far b)"
      using Cons.IH[of b] Cons.prems b by simp
    with 3 Qstep b e lb show ?thesis by (auto simp: least_of_def so_far_def intro: no_newer_trans)
  qed
qed

lemma earliestFixAbove_least:
  assumes "\<forall>f \<in> TrimSpace ` set fixed. f = [] \<or> ok f" and "open_lower introduced \<or> ok (TrimSpace introduced)"
  shows "least_of cmp (earliestFixAbove cmp fixed introduced) (fixes_above cmp fixed introduced)"
  using earliest_fix_least[OF assms, of "[]"] by (simp add: earliestFixAbove_def so_far_def)

lemma bounds:
  assumes "ok q" and "ok b"
  shows "map_option (\<lambda>c. 0 \<le> c) (cmp q b) = Some (no_newer cmp b q)"
    and "map_option (\<lambda>c. c < 0) (cmp q b) = Some (strictly_below cmp q b)"
    and "map_option (\<lambda>c. c \<le> 0) (cmp q b) = Some (no_newer cmp q b)"
  using cmp_defined[of q b] cmp_swap[of q b] assms
  by (auto simp: no_newer_def strictly_below_def split: option.splits)

lemma range_is_interval:
  assumes q: "ok q" "\<not> open_lower q" and r: "sane_range cmp ok r"
    and fixed_ok: "\<forall>f \<in> TrimSpace ` set fixed. f = [] \<or> ok f"
  shows "rangeAffectsEx cmp r fixed q = (affected_by cmp fixed r q, False)"
proof -
  define i where "i = vr_Introduced r"
  define c where "c = earliestFixAbove cmp fixed i"
  define f where "f = (if vr_Fixed r = [] \<and> vr_LastAffected r = [] then c else vr_Fixed r)"
  define l where "l = vr_LastAffected r"
  have clamp: "clamp_range cmp fixed r = \<lparr>vr_Introduced = i, vr_Fixed = f, vr_LastAffected = l\<rparr>"
    by (cases r) (auto simp: clamp_range_def i_def f_def l_def c_def Let_def)
  have i: "TrimSpace i = i" "open_lower i \<or> ok i" and l: "TrimSpace l = l" "l = [] \<or> ok l"
    and il: "l \<noteq> [] \<Longrightarrow> \<not> open_lower i \<Longrightarrow> no_newer cmp i l" and fl: "f = [] \<or> l = []"
    using r by (auto simp: sane_range_def readable_bound_def i_def l_def f_def)
  have least: "least_of cmp c (fixes_above cmp fixed i)"
    using earliestFixAbove_least[OF fixed_ok, of i] i by (simp add: c_def)
  have c: "c = [] \<or> (TrimSpace c = c \<and> ok c \<and> (open_lower i \<or> strictly_below cmp i c))"
  proof (cases "c = []")
    case False
    with least have "c \<in> fixes_above cmp fixed i" by (auto simp: least_of_def split: if_splits)
    with fixed_ok i(1) show ?thesis by (auto simp: fixes_above_def TrimSpace_idem)
  qed simp
  have f: "f = [] \<or> (TrimSpace f = f \<and> ok f \<and> (open_lower i \<or> strictly_below cmp i f))"
    using c r by (auto simp: f_def sane_range_def readable_bound_def i_def)
  have upper: "affected_by cmp fixed r q \<longleftrightarrow>
      (open_lower i \<or> no_newer cmp i q) \<and> (f = [] \<or> strictly_below cmp q f) \<and> (l = [] \<or> no_newer cmp q l)"
  proof (cases "vr_Fixed r = [] \<and> vr_LastAffected r = []")
    case True
    then have "f = c" "l = []" by (simp_all add: f_def l_def)
    moreover have "(\<forall>g \<in> fixes_above cmp fixed i. strictly_below cmp q g) \<longleftrightarrow> c = [] \<or> strictly_below cmp q c"
    proof (cases "fixes_above cmp fixed i = {}")
      case False
      with least have "c \<in> fixes_above cmp fixed i" "\<forall>g \<in> fixes_above cmp fixed i. no_newer cmp c g" by (auto simp: least_of_def)
      moreover from this(1) have "c \<noteq> []" by (simp add: fixes_above_def)
      ultimately show ?thesis using strictly_below_trans by blast
    qed (use least in \<open>simp add: least_of_def\<close>)
    ultimately show ?thesis using True by (simp add: affected_by_def i_def)
  next
    case False
    then show ?thesis using fl by (auto simp: affected_by_def i_def f_def l_def)
  qed
  have q0: "q \<noteq> []" using q(2) by (auto simp: open_lower_def TrimSpace_def trim_left.simps trim_right.simps)
  consider "l = q" | "f = q" | "i = q" "l \<noteq> q" "f \<noteq> q" | "i \<noteq> q" "l \<noteq> q" "f \<noteq> q" by blast
  then show ?thesis
  proof cases
    case 1
    with q0 fl have "f = []" by auto
    then have "affected_by cmp fixed r q" unfolding upper using 1 il no_newer_refl[OF q(1)] q0 by blast
    then show ?thesis using 1 q0 by (simp add: rangeAffectsEx_def clamp Let_def)
  next
    case 2
    with q0 fl have "l = []" by auto
    moreover have "\<not> affected_by cmp fixed r q" unfolding upper using 2 q0 not_below_self by blast
    ultimately show ?thesis using 2 q0 by (simp add: rangeAffectsEx_def clamp Let_def)
  next
    case 3
    then have "affected_by cmp fixed r q" unfolding upper using q il f no_newer_refl[OF q(1)] by blast
    then show ?thesis using 3 q0 by (simp add: rangeAffectsEx_def clamp Let_def)
  next
    case 4
    have "bound_ok cmp (\<lambda>c. 0 \<le> c) (open_lower i) q i = Some (open_lower i \<or> no_newer cmp i q)"
      "bound_ok cmp (\<lambda>c. c < 0) (TrimSpace f = []) q f = Some (f = [] \<or> strictly_below cmp q f)"
      "bound_ok cmp (\<lambda>c. c \<le> 0) (TrimSpace l = []) q l = Some (l = [] \<or> no_newer cmp q l)"
      using i l f q bounds by (auto simp: bound_ok_def)
    moreover have "affected_by cmp fixed r q" if "i = []" "f = []" "l = []"
      using that upper by (simp add: open_lower_def)
    ultimately show ?thesis
      using rangeAffectsEx_decided[OF clamp 4] upper by auto
  qed
qed

end

section \<open>The orders of the ecosystems\<close>

text \<open>
  A library's order is lawful when it is antisymmetric and transitive on what the library parses: what PEP 440, RubyGems,
  Maven and semantic versioning define.
\<close>

definition lawful :: "version_libs \<Rightarrow> bool" where
  "lawful libs \<longleftrightarrow>
     (\<forall>g a b. parses libs g a \<longrightarrow> parses libs g b \<longrightarrow> orders libs g b a = - orders libs g a b) \<and>
     (\<forall>g a b d. parses libs g a \<longrightarrow> parses libs g b \<longrightarrow> parses libs g d \<longrightarrow>
        orders libs g a b \<le> 0 \<longrightarrow> orders libs g b d \<le> 0 \<longrightarrow> orders libs g a d \<le> 0)"

definition version_ok :: "version_libs \<Rightarrow> string \<Rightarrow> string \<Rightarrow> bool" where
  "version_ok libs ecosystem v0 =
     (let v = normalizeVersionPrefix v0; eco = CanonicalEcosystem ecosystem in
      if eco = ''nuget'' then parseNuGet v \<noteq> None
      else if eco = ''pypi'' then parses libs Pep440 v
      else if eco = ''rubygems'' then parses libs GemVersion v
      else if eco = ''maven'' \<or> eco = ''packagist'' then v \<noteq> [] \<and> ascii_digit (hd v) \<and> parses libs MavenVersion v
      else parseSemver libs v \<noteq> None)"

lemma keyed_order:
  assumes "\<And>a b. cmp a b = (case (key a, key b) of (Some x, Some y) \<Rightarrow> Some (ord x y) | _ \<Rightarrow> None)"
    and "\<And>a. ok a \<longleftrightarrow> key a \<noteq> None"
    and "\<And>a b x y. key a = Some x \<Longrightarrow> key b = Some y \<Longrightarrow> ord y x = - ord x y"
    and "\<And>a b d x y z. key a = Some x \<Longrightarrow> key b = Some y \<Longrightarrow> key d = Some z \<Longrightarrow>
      ord x y \<le> 0 \<Longrightarrow> ord y z \<le> 0 \<Longrightarrow> ord x z \<le> (0::int)"
  shows "version_order cmp ok"
proof
  show "cmp a b \<noteq> None \<longleftrightarrow> ok a \<and> ok b" for a b by (auto simp: assms(1,2) split: option.splits)
  show "cmp b a = map_option uminus (cmp a b)" for a b
  proof (cases "\<exists>x y. key a = Some x \<and> key b = Some y")
    case True
    then obtain x y where k: "key a = Some x" "key b = Some y" by blast
    show ?thesis by (simp add: assms(1) k assms(3)[OF k])
  next
    case False
    then show ?thesis by (auto simp: assms(1) split: option.splits)
  qed
  show "f \<le> 0" if c: "cmp a b = Some c" "c \<le> 0" "cmp b d = Some e" "e \<le> 0" "cmp a d = Some f" for a b c d e f
  proof -
    from c(1,3) obtain x y z where k: "key a = Some x" "key b = Some y" "key d = Some z"
      by (auto simp: assms(1) split: option.splits)
    with c show ?thesis using assms(4)[OF k] by (simp add: assms(1))
  qed
qed

lemma parseSemver_parses: "parseSemver libs v = Some s \<Longrightarrow> parses libs SemVer s"
  by (auto simp: parseSemver_def Let_def split: if_splits)

lemma sign_of_trans: "sign_of a b \<le> 0 \<Longrightarrow> sign_of b d \<le> 0 \<Longrightarrow> sign_of a d \<le> 0"
  by (auto simp: sign_of_def split: if_splits)

lemma library_order:
  assumes "lawful libs"
    and "\<And>a b. cmp a b = (if ok a \<and> ok b then Some (orders libs g (txt_of a) (txt_of b)) else None)"
    and "\<And>a. ok a \<Longrightarrow> parses libs g (txt_of a)"
  shows "version_order cmp ok"
proof (rule keyed_order)
  let ?key = "\<lambda>a. if ok a then Some (txt_of a) else None"
  show "cmp a b = (case (?key a, ?key b) of (Some x, Some y) \<Rightarrow> Some (orders libs g x y) | _ \<Rightarrow> None)" for a b
    by (simp add: assms(2))
  show "ok a \<longleftrightarrow> ?key a \<noteq> None" for a by simp
  show "orders libs g y x = - orders libs g x y" if "?key a = Some x" "?key b = Some y" for a b x y
  proof -
    have "parses libs g x" "parses libs g y" using that assms(3) by (auto split: if_splits)
    with assms(1) show ?thesis unfolding lawful_def by blast
  qed
  show "orders libs g x z \<le> 0"
    if "?key a = Some x" "?key b = Some y" "?key d = Some z" "orders libs g x y \<le> 0" "orders libs g y z \<le> 0"
    for a b d x y z
  proof -
    have "parses libs g x" "parses libs g y" "parses libs g z" using that assms(3) by (auto split: if_splits)
    with that(4,5) assms(1) show ?thesis unfolding lawful_def by blast
  qed
qed

lemma nuget_order:
  assumes "CanonicalEcosystem eco = ''nuget''"
  shows "version_order (compareVersions libs eco) (version_ok libs eco)"
proof (rule keyed_order)
  let ?key = "\<lambda>v. parseNuGet (normalizeVersionPrefix v)"
  show "compareVersions libs eco a b = (case (?key a, ?key b) of (Some x, Some y) \<Rightarrow> Some (nuget_compare x y) | _ \<Rightarrow> None)"
    for a b by (simp add: compareVersions_def assms Let_def)
  show "version_ok libs eco a \<longleftrightarrow> ?key a \<noteq> None" for a by (simp add: version_ok_def assms Let_def)
  show "nuget_compare y x = - nuget_compare x y" if "?key a = Some x" "?key b = Some y" for a b x y
    using that by (metis nuget_compare_key parseNuGet_length sign_of_swap)
  show "nuget_compare x z \<le> 0"
    if "?key a = Some x" "?key b = Some y" "?key d = Some z" "nuget_compare x y \<le> 0" "nuget_compare y z \<le> 0" for a b d x y z
  proof -
    have "nuget_compare x y = sign_of (nuget_key x) (nuget_key y)" "nuget_compare y z = sign_of (nuget_key y) (nuget_key z)"
      "nuget_compare x z = sign_of (nuget_key x) (nuget_key z)"
      using that(1-3) by (simp_all add: nuget_compare_key parseNuGet_length)
    with that(4,5) sign_of_trans show ?thesis by metis
  qed
qed

lemma ecosystem_order:
  assumes "lawful libs" and "CanonicalEcosystem eco \<noteq> ''homebrew''"
  shows "version_order (compareVersions libs eco) (version_ok libs eco)"
proof -
  define c where "c = CanonicalEcosystem eco"
  consider "c = ''nuget''" | "c = ''pypi''" | "c = ''rubygems''" | "c = ''maven'' \<or> c = ''packagist''"
    | "c \<notin> {''nuget'', ''pypi'', ''rubygems'', ''maven'', ''packagist''}" by blast
  then show ?thesis
  proof cases
    case 1
    then show ?thesis using nuget_order by (simp add: c_def)
  next
    case 2
    then show ?thesis
      by (intro library_order[OF assms(1), where g = Pep440 and txt_of = normalizeVersionPrefix])
        (auto simp: compareVersions_def version_ok_def c_def[symmetric] by_library_def Let_def)
  next
    case 3
    then show ?thesis
      by (intro library_order[OF assms(1), where g = GemVersion and txt_of = normalizeVersionPrefix])
        (auto simp: compareVersions_def version_ok_def c_def[symmetric] by_library_def Let_def)
  next
    case 4
    then show ?thesis
      by (intro library_order[OF assms(1), where g = MavenVersion and txt_of = normalizeVersionPrefix])
        (auto simp: compareVersions_def version_ok_def c_def[symmetric] by_library_def requireNumericLead_def Let_def)
  next
    case 5
    have e: "compareVersions libs eco a b =
        (case (parseSemver libs (normalizeVersionPrefix a), parseSemver libs (normalizeVersionPrefix b)) of
           (Some va, Some vb) \<Rightarrow> Some (orders libs SemVer va vb) | _ \<Rightarrow> None)" for a b
      using 5 assms(2) by (simp add: compareVersions_def c_def Let_def)
    have k: "version_ok libs eco a \<longleftrightarrow> parseSemver libs (normalizeVersionPrefix a) \<noteq> None" for a
      using 5 by (simp add: version_ok_def c_def[symmetric] Let_def)
    show ?thesis
      by (rule library_order[OF assms(1), where g = SemVer and txt_of = "\<lambda>a. the (parseSemver libs (normalizeVersionPrefix a))"])
        (auto simp: e k parseSemver_parses split: option.splits)
  qed
qed

interpretation nuget: version_order "compareVersions libs ''nuget''" "version_ok libs ''nuget''" for libs
proof (rule nuget_order)
  have "ToLower (TrimSpace ''nuget'') = ''nuget''"
    by (simp add: TrimSpace_visible visible_def ToLower_def is_ascii_def byte_lower_def)
  then show "CanonicalEcosystem ''nuget'' = ''nuget''" by (simp add: CanonicalEcosystem_def)
qed

section \<open>The verdict on an advisory\<close>

text \<open>An advisory whose bounds and fixes the ecosystem's order reads, asked about a version that it reads.\<close>

definition readable_advisory :: "version_libs \<Rightarrow> string \<Rightarrow> Advisory \<Rightarrow> bool" where
  "readable_advisory libs version a \<longleftrightarrow>
     (let v = TrimSpace version; ok = version_ok libs (ad_Ecosystem a) in
      CanonicalEcosystem (ad_Ecosystem a) \<noteq> ''homebrew'' \<and> ok v \<and> \<not> open_lower v \<and>
      list_all (sane_range (compareVersions libs (ad_Ecosystem a)) ok) (ad_VulnerableRanges a) \<and>
      list_all (\<lambda>f. TrimSpace f = [] \<or> ok (TrimSpace f)) (ad_FixedVersions a))"

definition in_scope :: "version_libs \<Rightarrow> string \<Rightarrow> Advisory \<Rightarrow> bool" where
  "in_scope libs version a \<longleftrightarrow>
     TrimSpace version \<in> TrimSpace ` set (ad_VulnerableVersions a) \<or>
     (\<exists>r \<in> set (ad_VulnerableRanges a).
        affected_by (compareVersions libs (ad_Ecosystem a)) (ad_FixedVersions a) r (TrimSpace version))"

lemma ranges_affect_decided:
  assumes "\<And>r. r \<in> set rs \<Longrightarrow> rangeAffectsEx cmp r fixed v = (P r, False)"
  shows "ranges_affect cmp fixed v rs u = (if \<exists>r \<in> set rs. P r then (True, False) else (False, u))"
  using assms by (induction rs arbitrary: u) auto

lemma advisory_verdict:
  assumes "lawful libs" and "readable_advisory libs version a"
  shows "advisoryAffectsEx libs a version = (in_scope libs version a, False)"
proof -
  define eco where "eco = ad_Ecosystem a"
  define v where "v = TrimSpace version"
  from assms(2) have r: "CanonicalEcosystem eco \<noteq> ''homebrew''" "version_ok libs eco v" "\<not> open_lower v"
    "\<And>r. r \<in> set (ad_VulnerableRanges a) \<Longrightarrow> sane_range (compareVersions libs eco) (version_ok libs eco) r"
    "\<forall>f \<in> TrimSpace ` set (ad_FixedVersions a). f = [] \<or> version_ok libs eco f"
    by (auto simp: readable_advisory_def Let_def eco_def v_def list_all_iff)
  from r(3) have "v \<noteq> []" by (auto simp: open_lower_def)
  have "ranges_affect (compareVersions libs eco) (ad_FixedVersions a) v (ad_VulnerableRanges a) False =
      (\<exists>r \<in> set (ad_VulnerableRanges a). affected_by (compareVersions libs eco) (ad_FixedVersions a) r v, False)"
    using version_order.range_is_interval[OF ecosystem_order[OF assms(1) r(1)] r(2,3)] r(4,5)
    by (subst ranges_affect_decided) auto
  with \<open>v \<noteq> []\<close> show ?thesis
    by (auto simp: advisoryAffectsEx_def in_scope_def Let_def list_ex_iff simp flip: v_def eco_def)
qed


text \<open>An order of texts is lawful; an advisory from 1 up to 3 holds 2.\<close>

definition text_libs :: version_libs where
  "text_libs = \<lparr>parses = \<lambda>_ _. True, orders = \<lambda>_. sign_of\<rparr>"

definition demo_advisory :: Advisory where
  "demo_advisory =
     \<lparr>ad_Ecosystem = ''rubygems'', ad_Package = ''p'', ad_VulnerableVersions = [],
      ad_VulnerableRanges = [\<lparr>vr_Introduced = ''1'', vr_Fixed = ''3'', vr_LastAffected = []\<rparr>],
      ad_AdvisoryID = ''A'', ad_Summary = [], ad_CVSSScore = 9, ad_Severity = ''critical'', ad_FixedVersions = [''3''],
      ad_Aliases = [], ad_Published = [], ad_Modified = []\<rparr>"

lemma text_libs_lawful: "lawful text_libs"
  using sign_of_trans by (auto simp: lawful_def text_libs_def sign_of_def)

lemma rubygems_eco: "CanonicalEcosystem ''rubygems'' = ''rubygems''"
proof -
  have "ToLower (TrimSpace ''rubygems'') = ''rubygems''"
    by (simp add: TrimSpace_visible visible_def ToLower_def is_ascii_def byte_lower_def)
  then show ?thesis by (simp add: CanonicalEcosystem_def)
qed

lemma demo_trim: "TrimSpace ''1'' = ''1''" "TrimSpace ''2'' = ''2''" "TrimSpace ''3'' = ''3''" "TrimSpace ''p'' = ''p''"
  by (simp_all add: TrimSpace_visible visible_def)

lemma demo_candidates:
  "candidates_of (Some (osv_Load 0 [demo_advisory])) ''rubygems'' ''p'' = [demo_advisory]"
  by (simp add: candidates_of_def osv_Load_def index_advisory_def canonicalKey_def rubygems_eco demo_trim demo_advisory_def
      get_or_def Let_def)

lemma demo_compare:
  "compareVersions text_libs ''rubygems'' [c] [d] = Some (sign_of [c] [d])"
  if "TrimSpace [c] = [c]" "TrimSpace [d] = [d]"
  using that by (simp add: compareVersions_def rubygems_eco normalizeVersionPrefix_def by_library_def text_libs_def)

lemma demo_readable: "readable_advisory text_libs ''2'' demo_advisory"
  by (simp add: readable_advisory_def demo_advisory_def rubygems_eco demo_trim version_ok_def text_libs_def open_lower_def
      sane_range_def readable_bound_def strictly_below_def demo_compare[unfolded text_libs_def] sign_of_def Let_def)

lemma demo_in_scope: "in_scope text_libs ''2'' demo_advisory"
  by (simp add: in_scope_def demo_advisory_def demo_trim affected_by_def no_newer_def strictly_below_def demo_compare
      sign_of_def)


section \<open>No verdict without evidence\<close>

text \<open>A comparison, or the fix itself, places the version outside of a range.\<close>

definition excluded :: "(string \<Rightarrow> string \<Rightarrow> int option) \<Rightarrow> string list \<Rightarrow> string \<Rightarrow> VulnerableRange \<Rightarrow> bool" where
  "excluded cmp fixed v r0 =
     (let r = clamp_range cmp fixed r0 in
      v = vr_Fixed r \<or>
      (\<not> open_lower (vr_Introduced r) \<and> strictly_below cmp v (TrimSpace (vr_Introduced r))) \<or>
      (\<exists>c \<ge> 0. TrimSpace (vr_Fixed r) \<noteq> [] \<and> cmp v (TrimSpace (vr_Fixed r)) = Some c) \<or>
      (\<exists>c > 0. TrimSpace (vr_LastAffected r) \<noteq> [] \<and> cmp v (TrimSpace (vr_LastAffected r)) = Some c))"

lemma out_of_range:
  assumes "rangeAffectsEx cmp r fixed v = (False, False)"
  shows "excluded cmp fixed v r"
  using assms
  by (auto simp: rangeAffectsEx_def excluded_def Let_def bound_ok_def strictly_below_def
      split: if_splits option.splits bool.splits)

lemma undecided_stays: "ranges_affect cmp fixed v rs True \<noteq> (False, False)"
  by (induction rs) (auto split: prod.splits)

lemma ranges_out:
  assumes "ranges_affect cmp fixed v rs u = (False, False)"
  shows "\<forall>r \<in> set rs. excluded cmp fixed v r"
  using assms
proof (induction rs arbitrary: u)
  case (Cons r rs)
  obtain h d where hd: "rangeAffectsEx cmp r fixed v = (h, d)" by fastforce
  with Cons.prems have "\<not> h" and rest: "ranges_affect cmp fixed v rs (d \<or> u) = (False, False)" by (auto split: if_splits)
  moreover from rest have "\<not> d" using undecided_stays by (metis (full_types))
  ultimately show ?case using hd Cons.IH[OF rest] out_of_range by simp
qed simp

definition cleared_on_evidence :: "version_libs \<Rightarrow> Override list \<Rightarrow> string \<Rightarrow> Advisory \<Rightarrow> bool" where
  "cleared_on_evidence libs os version a \<longleftrightarrow>
     TrimSpace version = [] \<or> overrideFor libs os a version \<noteq> None \<or>
     TrimSpace version \<notin> TrimSpace ` set (ad_VulnerableVersions a) \<and>
     list_all (excluded (compareVersions libs (ad_Ecosystem a)) (ad_FixedVersions a) (TrimSpace version)) (ad_VulnerableRanges a)"

text \<open>
  An advisory is cleared only on evidence: a reviewed correction applies, or the version is not listed and each of
  its ranges is left by a comparison that succeeded, or by the fix itself. The exception is an absent version.
\<close>
theorem clear_needs_evidence:
  "list_all (cleared_on_evidence libs os version) (fst (snd (LookupEx libs os i ecosystem pkg version)))"
proof -
  have "cleared_on_evidence libs os version a" if b: "bucket_of libs os version a = InCleared" for a
  proof (cases "TrimSpace version = [] \<or> overrideFor libs os a version \<noteq> None")
    case False
    with b have "advisoryAffectsEx libs a version = (False, False)"
      by (auto simp: bucket_of_def split: prod.splits if_splits)
    with False show ?thesis
      using ranges_out
      by (auto simp: cleared_on_evidence_def advisoryAffectsEx_def Let_def list_ex_iff list_all_iff split: if_splits)
  qed (auto simp: cleared_on_evidence_def)
  then show ?thesis by (auto simp: LookupEx_def Let_def list_all_iff)
qed

text \<open>Without a version every advisory is cleared.\<close>

lemma absent_version_clears:
  "LookupEx libs os i ecosystem pkg [] = ([], candidates_of i ecosystem pkg, [])"
  by (simp add: LookupEx_def bucket_of_def advisoryAffectsEx_def)

text \<open>
  The loop over the fixes skips a fix that cannot be read only when it is compared: as the first fix of a range that is
  open below, it is taken, and no later fix displaces it.
\<close>

lemma unreadable_first_fix:
  assumes "TrimSpace bad = bad" "TrimSpace f = f" "bad \<noteq> []" "f \<noteq> []" "q \<noteq> []" "q \<noteq> bad" "q \<noteq> f"
    and "cmp f bad = None" "cmp bad f = None" "cmp q bad = None" "cmp q f = Some c" "0 \<le> c"
  shows "rangeAffectsEx cmp \<lparr>vr_Introduced = [], vr_Fixed = [], vr_LastAffected = []\<rparr> [bad, f] q = (False, True) \<and>
    rangeAffectsEx cmp \<lparr>vr_Introduced = [], vr_Fixed = [], vr_LastAffected = []\<rparr> [f, bad] q = (False, False)"
  using assms
  by (auto simp: rangeAffectsEx_def clamp_range_def earliestFixAbove_def open_lower_def bound_ok_def Let_def)

end
