(* ===== verification/Spec2Isabelle.thy ===== *)
theory Spec2Isabelle
  imports Prelude GoStrings Float64 EditDistance BKTree Normalize Detector CircuitBreaker Freshness Caches DepGraph
    RiskTypes Established RiskCompound RiskEvaluator RiskScore RiskVerdict RiskOrder
    RiskTree RiskTreeProps RiskTreeVerdict RiskTreeReresolve RiskTreeRegistry
    GoTime GoMatch GoNet Origin PolicyTypes PolicyMatrix PolicyMatch PolicyEvaluator PolicyCache PolicyProps
    PolicyFacts PolicyStore PolicyGaps PolicyCacheProps
    License LicenseProps HiddenUnicode HiddenUnicodeProps
    SignalInput SignalIds SignalsVuln SignalsMaint SignalsSupply SignalsArtifact SignalRegistry SignalTable
    SignalProps SignalGaps SignalLicense
    GoBufio GoDuration Codeowners CodeownersProps PolicyRouting PolicyRange PolicyRangeProps
    PolicyInput PolicyDsl PolicyEngine PolicyEngineProps PolicyCli PolicyCliProps
    TrustScore Minified Coverage CoverageEnv CoverageProps SafeDialer SafeDialerProps Kev FeatureFlags
    OsvVersion OsvIndex VulnMerge OsvProvider OsvProps
begin

text \<open>
  A verification library of chainsaw-core, a supply-chain firewall for package installs. The program
  collects facts about a package, runs signals over them, turns the fired signals into scores and
  a verdict, and rolls the verdicts up over a dependency graph; beside it, a typosquat detector
  compares names with the popular packages of an ecosystem, a policy engine decides what a request may
  fetch, and a registry proxy keeps caches and a circuit breaker. The library models these engines; the
  services around them are left out.

  \<^bold>\<open>Shared theories.\<close> \<open>Prelude\<close>: the collections of facts, a Go map that the code ranges over
  (\<open>gomap\<close>, an association list in the order of one enumeration), and the locale
  \<open>strict_choice\<close> for loops that pick a best element. \<open>GoStrings\<close>: byte strings and UTF-8, the
  functions of the packages strings and unicode that the code calls. \<open>Float64\<close>: IEEE binary64
  arithmetic as rational arithmetic with a rounding to 53 bits after every operation
  (ties to even; the exponent range and fused multiply-add are left out); rounding is monotone.

  \<^bold>\<open>Typosquat detector\<close> (src/typosquat). \<open>EditDistance\<close> is distance.go: the table of
  \<open>DamerauLevenshtein\<close> is the least number of edits, and a metric up to the triangle law that the search
  needs. \<open>BKTree\<close> is bktree.go: the invariant of insertion, and search against a linear scan.
  \<open>Normalize\<close> is normalize.go and confusables.go: the normalizers, token reordering, homoglyphs and
  confusables. \<open>Detector\<close> is detector.go, official.go, established.go and github_actions.go: loading an
  ecosystem, the lanes of \<open>check\<close>, and \<open>Check\<close>, which adjusts the confidence.

  \<^bold>\<open>Risk engine\<close> (src/risk). \<open>RiskTypes\<close> is category.go, signal.go, registry.go, evaluation.go and the
  part of input.go that the engine reads; \<open>RiskCompound\<close> the nine rules of compound.go;
  \<open>Established\<close> established.go; \<open>RiskEvaluator\<close> evaluator.go, composed as \<open>EvaluatePackage\<close>
  composes it. The registry of signals is an argument, so that the theorems hold of every registry
  and can be instantiated on the one of the program, and the input record is polymorphic in the fields that
  only signals read. Properties:
  \<open>RiskScore\<close> (ranges, monotonicity of the floating-point roll-up, a weight table whose order decides
  a verdict), \<open>RiskVerdict\<close> (instant block, outages, critical signals, ceilings, damper, promotion),
  \<open>RiskOrder\<close> (an evaluation does not depend on the order in which the runtime enumerates the
  registry). \<open>RiskTree\<close> is tree.go: pass 1, the roll-up of a node, promotion, pass 2, the view and
  the summary. \<open>RiskTreeProps\<close>: depths are shortest distances, the roll-up is a function of the descendants
  and never raises a score, and pass 2, which updates in place in an unspecified order, is a
  simultaneous update. \<open>RiskTreeVerdict\<close>: the counters of the summary, promotion inside the tree.
  \<open>RiskTreeReresolve\<close>: the arithmetic of a small tree, on which \<open>RiskTreeRegistry\<close> shows, with the signals
  of the program, that a critical finding is forgotten.

  \<^bold>\<open>Registered signals\<close> (src/risk/registry_*.go, input.go). \<open>SignalInput\<close> extends the input record with the
  facts that only signals read, and names the environment of the signals (the clock, two switches, the SPDX
  library and the printable runes). \<open>SignalIds\<close> holds the identifiers, \<open>SignalsVuln\<close>, \<open>SignalsMaint\<close>,
  \<open>SignalsSupply\<close> and \<open>SignalsArtifact\<close> the hundred signals, one definition for each call of \<open>register\<close>, with
  their texts, weights and ceilings; \<open>SignalRegistry\<close> the initialisers of the files, in their order. \<open>SignalTable\<close>
  tabulates what the signals declare; \<open>SignalProps\<close> instantiates the theorems of the engine: the
  registration succeeds, malware and tampering are quarantined, the tiers of vulnerabilities are capped. \<open>SignalGaps\<close>: an
  advisory that falls through the tiers. \<open>SignalLicense\<close>: the licence signals price the strength of a licence.

  \<^bold>\<open>Licence classifier\<close> (src/risk/license_classifier.go). \<open>License\<close>: names, URLs and bodies of licences are
  rewritten to identifiers, which are classified into tags and into a band of strength. \<open>LicenseProps\<close>: the tags
  follow the band, and the search of the alias table does not depend on its order.

  \<^bold>\<open>Hidden unicode\<close> (src/hiddenunicode/scan.go). \<open>HiddenUnicode\<close> is the scanner; \<open>HiddenUnicodeProps\<close> its
  specification by maximal runs, and the prefix of the artifact that the budgets let it read.

  \<^bold>\<open>Dependency graph\<close> (src/depgraph/graph.go). \<open>DepGraph\<close>: the operations that build a graph keep it well
  formed, and the searches (\<open>Depth\<close>, \<open>PathFromRoot\<close>, \<open>Descendants\<close>, \<open>Walk\<close>) are exact, cycles
  included. The searches are functions with termination proofs, so no fuel is used anywhere.

  \<^bold>\<open>Proxy\<close> (src/proxy, src/cache). \<open>CircuitBreaker\<close> is circuitbreaker.go as a state machine with
  reachable states; \<open>Freshness\<close> the decisions of freshness.go on top of it; \<open>Caches\<close>
  negative_cache.go and memory_cache.go, with the two-step operations split where other goroutines can
  come between.

  \<^bold>\<open>Policy engine\<close> (src/policy, src/depparser/origin/policy.go). \<open>GoTime\<close>, \<open>GoMatch\<close> and \<open>GoNet\<close> are the
  functions of the packages time, path, net/url and net/netip that it calls. \<open>PolicyTypes\<close> holds the
  policy, its conditions and the context of an evaluation; \<open>PolicyMatrix\<close> is proxy_matrix.go and
  advisory_lane.go, which conditions an ecosystem can answer, and that the matrix is total. \<open>PolicyMatch\<close> and
  \<open>PolicyEvaluator\<close> are evaluator.go: the matchers, the guards that skip a rule, the grace window and
  the loop over the policies; the events that it records are part of the result. \<open>PolicyCache\<close> is
  cache.go and the stateful \<open>Evaluate\<close>; \<open>PolicyStore\<close> the validation and normalisation of store.go;
  \<open>Origin\<close> the allow-list of non-registry origins. \<open>PolicyProps\<close>: the loop refines a first-match
  specification, a monitor rule never switches off an enforcing one, exceptions and grace never
  cover malware. \<open>PolicyFacts\<close>: missing dates, trust scores and uploader histories and unverified identities never
  satisfy a condition, time windows only close. \<open>PolicyCacheProps\<close>: every verdict served is one the
  evaluator gave to a request with the same key, and what a key leaves out does not matter.
  \<open>PolicyGaps\<close>: behaviours that the comments of the code rule out.

  \<^bold>\<open>Thresholds and routing of policies\<close> (src/policy/policy_range_audit.go, routing.go, src/codeowners). \<open>PolicyRange\<close> is the
  audit of the numeric conditions of stored policies; \<open>PolicyRangeProps\<close> proves it right about the evaluator (a
  threshold reported as never met never matches, one reported as always met can be dropped) and complete with respect to
  the validation of the store. \<open>Codeowners\<close> is codeowners/parser.go, on the line scanner of \<open>GoBufio\<close>; \<open>CodeownersProps\<close>
  gives its patterns a language and shows that the matcher decides it. \<open>PolicyRouting\<close> is routing.go: which findings
  are routed to which owners.

  \<^bold>\<open>Rules and the policy facade\<close> (src/policy/input.go, src/policy/dsl, src/policyengine, src/cli/policy_dsl.go,
  src/cli/guard_policy.go). \<open>PolicyInput\<close> is the document that rules read, which tells requests apart by the facts that it carries; \<open>PolicyDsl\<close> the rule
  engine: discovery of a bundle, its digest, the reduction of a result set to a decision. Rego itself is an argument.
  \<open>PolicyEngine\<close> composes the native evaluator, the rules and the routing to owners; \<open>PolicyEngineProps\<close>: the answer is
  the strictest of the two legs, and an enforcing policy denies at every surface. \<open>PolicyCli\<close> holds the exit codes of
  the policy commands and the policy lane of the install guard; \<open>PolicyCliProps\<close>: gate and eval agree, the guard names
  the rule that decided.

  \<^bold>\<open>Coverage gate\<close> (src/coverage, src/intelligence/coverage.go). \<open>Coverage\<close> is the fail-closed option: statuses of warnings, the
  posture and its validation, the ledger of a scan, the gate; \<open>CoverageEnv\<close> its configuration from the environment,
  on the durations of \<open>GoDuration\<close>. \<open>CoverageProps\<close>: what an accepted posture is, when a closed gate refuses a scan,
  that warn is a dry run of closed and that no mistake turns the gate off.

  \<^bold>\<open>Outbound dial guard\<close> (src/httpclient/safedialer.go). \<open>SafeDialer\<close> classifies addresses on words of 32 and 128 bits and dials;
  \<open>SafeDialerProps\<close>: the tables are a union of intervals, and only allowed addresses are dialled whatever a name
  resolves to.

  \<^bold>\<open>Advisories\<close> (src/intelligence/osv, provider_osv.go, the vulnerability part of scanner.go). \<open>OsvVersion\<close> holds
  the grammars and orders of versions that the program implements itself, NuGet's in bundle.go and Homebrew's in homebrew.go.
  \<open>OsvIndex\<close> is the index of bundle.go and the reviewed corrections of overrides.go; \<open>VulnMerge\<close> is \<open>mergeVulns\<close>,
  the union of the providers' findings under the veto of cleared identifiers; \<open>OsvProvider\<close> is the provider's \<open>Run\<close>.
  \<open>OsvProps\<close>: over a comparator that is an order (locale \<open>version_order\<close>, which NuGet's own order satisfies) a range is an
  interval and a lookup decides every advisory that can be read; an advisory is cleared only on evidence.

  \<^bold>\<open>Smaller parts.\<close> \<open>TrustScore\<close> is src/trustscore/score.go: the score is antitone in the alarms. \<open>Minified\<close> is
  src/risk/minified.go, with the set of the files it flags. \<open>Kev\<close> is the index of src/kev: a load replaces the
  snapshot or leaves it. \<open>FeatureFlags\<close> is src/featureflags/client.go and src/enforcementposture/inventory.go: an
  error comes with the default, and every override that was consulted is in the inventory.

  \<^bold>\<open>Conventions.\<close> A method under a mutex is one atomic step. A Go \<open>int\<close> is an unbounded integer: the
  counts, weights and scores of the engines are far from 2 to the 63, and every score is clamped to
  0..100. An instant is a number of nanoseconds since 1970 in UTC, and an operation takes the
  time that it reads; one evaluation reads the clock once. A nil map and an empty one are the same.
  Errors and early returns are values of an option type or of the result.

  \<^bold>\<open>Not modelled.\<close> The lock-file parsers, the other intelligence providers, stores, clients, most scanners and most of the command
  line: they are I/O or calls of libraries. Of the risk engine: the heuristics on dependency URLs that feed one of its
  facts. Of the policies: their SQL rows, seeds and the invalidation bus. The semver, PEP 440, RubyGems and Maven version libraries, the SPDX library of the
  licence classifier, the Rego compiler and evaluator, SHA-256, the resolver of names and the feature-flag provider are
  arguments. Of the advisory bundle: its decoding, the refresh of
  its feeds, the scores computed from CVSS vectors, and the time stamp of a warning. Logging, metrics and tickers are left out.
\<close>

end
